(* ===== verification/Gptp_Prelude.thy ===== *)
theory Gptp_Prelude
  imports Main "HOL-Library.Word"
begin

text \<open>
  Shared vocabulary of the development: names for the machine integers, byte
  order conversions, the skeleton that every state machine of the daemon has
  (\<^verbatim>\<open>sm_temp.c\<close>), and a locale with the facts about that skeleton that the
  individual machines instantiate.
\<close>

unbundle bit_operations_syntax

section \<open>Machine integers and byte order\<close>

type_synonym u8 = "8 word"
type_synonym u16 = "16 word"
type_synonym u32 = "32 word"
type_synonym u64 = "64 word"


primrec of_bytes_le :: "u8 list \<Rightarrow> 'a::len word" where
  "of_bytes_le [] = 0"
| "of_bytes_le (b # bs) = ucast b OR push_bit 8 (of_bytes_le bs)"

definition bytes_le :: "'a::len word \<Rightarrow> u8 list" where
  "bytes_le w = map (\<lambda>i. ucast (drop_bit (8 * i) w)) [0..<LENGTH('a) div 8]"

text \<open>
  The C library's \<^verbatim>\<open>htons\<close>, \<^verbatim>\<open>htonl\<close> and the \<^verbatim>\<open>UB_HTONLL\<close> macro exchange the
  bytes of a value on a little-endian host and do nothing on a big-endian one.
\<close>

definition bswap :: "'a::len word \<Rightarrow> 'a word" where
  "bswap w = of_bytes_le (rev (bytes_le w))"

definition hton :: "bool \<Rightarrow> 'a::len word \<Rightarrow> 'a word" where
  "hton big_endian w = (if big_endian then w else bswap w)"

definition mem_bytes :: "bool \<Rightarrow> 'a::len word \<Rightarrow> u8 list" where
  \<comment> \<open>the bytes of an integer in the host's memory, lowest address first\<close>
  "mem_bytes big_endian w = (if big_endian then rev (bytes_le w) else bytes_le w)"

lemma length_bytes_le [simp]: "length (bytes_le (w :: 'a::len word)) = LENGTH('a) div 8"
  by (simp add: bytes_le_def)

lemma length_mem_bytes [simp]:
  "length (mem_bytes be (w :: 'a::len word)) = LENGTH('a) div 8"
  by (simp add: mem_bytes_def)

lemma bit_of_bytes_le:
  "bit (of_bytes_le bs :: 'a::len word) n \<longleftrightarrow>
     n < LENGTH('a) \<and> n < 8 * length bs \<and> bit (bs ! (n div 8)) (n mod 8)"
proof (induction bs arbitrary: n)
  case Nil
  then show ?case by simp
next
  case (Cons b bs)
  show ?case
  proof (cases "n < 8")
    case True
    then show ?thesis by (auto simp: bit_simps)
  next
    case False
    then obtain m where m: "n = m + 8" by (metis le_add_diff_inverse2 not_less)
    have d: "(m + 8) div 8 = Suc (m div 8)" by simp
    have *: "\<not> bit (ucast b :: 'a word) (m + 8)"
      by (auto simp: bit_simps dest: bit_imp_le_length)
    show ?thesis
      by (auto simp: m d bit_or_iff bit_push_bit_iff * Cons.IH simp del: div_add_self2)
  qed
qed

lemma of_bytes_le_bytes_le:
  assumes "LENGTH('a::len) mod 8 = 0"
  shows "of_bytes_le (bytes_le w) = (w :: 'a word)"
proof (rule bit_word_eqI)
  fix n
  assume n: "n < LENGTH('a)"
  have "8 * (LENGTH('a) div 8) = LENGTH('a)" using assms by presburger
  with n have "n div 8 < LENGTH('a) div 8" by (simp add: less_mult_imp_div_less mult.commute)
  moreover have "8 * (n div 8) + n mod 8 = n" by simp
  ultimately show "bit (of_bytes_le (bytes_le w) :: 'a word) n = bit w n"
    using n \<open>8 * (LENGTH('a) div 8) = LENGTH('a)\<close>
    by (simp add: bit_of_bytes_le bytes_le_def bit_simps)
qed

lemma bytes_le_of_bytes_le:
  assumes "8 * length bs = LENGTH('a::len)"
  shows "bytes_le (of_bytes_le bs :: 'a word) = bs"
proof (rule nth_equalityI)
  show "length (bytes_le (of_bytes_le bs :: 'a word)) = length bs"
    using assms by (metis length_bytes_le nonzero_mult_div_cancel_left numeral_eq_iff zero_neq_numeral)
next
  fix i
  assume "i < length (bytes_le (of_bytes_le bs :: 'a word))"
  then have i: "i < LENGTH('a) div 8" by simp
  show "bytes_le (of_bytes_le bs :: 'a word) ! i = bs ! i"
  proof (rule bit_word_eqI)
    fix n
    assume n: "n < LENGTH(8)"
    then have "8 * i + n < LENGTH('a)" "(8 * i + n) div 8 = i" "(8 * i + n) mod 8 = n"
      using i assms by auto
    with n i assms show "bit (bytes_le (of_bytes_le bs :: 'a word) ! i) n = bit (bs ! i) n"
      by (simp add: bytes_le_def bit_simps bit_of_bytes_le)
  qed
qed

lemma bytes_le_bswap:
  assumes "LENGTH('a::len) mod 8 = 0"
  shows "bytes_le (bswap (w :: 'a word)) = rev (bytes_le w)"
proof -
  have "8 * (LENGTH('a) div 8) = LENGTH('a)" using assms by presburger
  then show ?thesis unfolding bswap_def by (intro bytes_le_of_bytes_le) simp
qed

lemma bswap_bswap:
  "LENGTH('a::len) mod 8 = 0 \<Longrightarrow> bswap (bswap (w :: 'a word)) = w"
  by (simp add: bswap_def [of "bswap w"] bytes_le_bswap of_bytes_le_bytes_le)

lemma hton_hton [simp]:
  "LENGTH('a::len) mod 8 = 0 \<Longrightarrow> hton be (hton be (w :: 'a word)) = w"
  by (simp add: hton_def bswap_bswap)

lemma hton_eq_iff [simp]:
  "LENGTH('a::len) mod 8 = 0 \<Longrightarrow> hton be (v :: 'a word) = hton be w \<longleftrightarrow> v = w"
  by (metis hton_hton)

lemma bytes_le_inj:
  "LENGTH('a::len) mod 8 = 0 \<Longrightarrow> bytes_le (v :: 'a word) = bytes_le w \<longleftrightarrow> v = w"
  by (metis of_bytes_le_bytes_le)

lemma mem_bytes_inj:
  "LENGTH('a::len) mod 8 = 0 \<Longrightarrow> mem_bytes be (v :: 'a word) = mem_bytes be w \<longleftrightarrow> v = w"
  by (simp add: mem_bytes_def bytes_le_inj)

text \<open>An integer read from memory, in the byte order of the host.\<close>

definition mem_word :: "bool \<Rightarrow> u8 list \<Rightarrow> 'a::len word" where
  "mem_word be bs = of_bytes_le (if be then rev bs else bs)"

lemma mem_word_mem_bytes [simp]:
  "LENGTH('a::len) mod 8 = 0 \<Longrightarrow> mem_word be (mem_bytes be (w :: 'a word)) = w"
  by (simp add: mem_word_def mem_bytes_def of_bytes_le_bytes_le)

lemma mem_bytes_hton:
  \<comment> \<open>the memory image of a converted integer is most significant byte first on every host\<close>
  "LENGTH('a::len) mod 8 = 0 \<Longrightarrow> mem_bytes be (hton be (w :: 'a word)) = rev (bytes_le w)"
  by (simp add: mem_bytes_def hton_def bytes_le_bswap)

lemma wire_word [simp]:
  \<comment> \<open>what one host sends in network order another one reads, whatever their byte orders\<close>
  "LENGTH('a::len) mod 8 = 0 \<Longrightarrow>
   hton be2 (mem_word be2 (mem_bytes be1 (hton be1 (w :: 'a word)))) = w"
proof -
  assume L: "LENGTH('a) mod 8 = 0"
  have "mem_word be2 (mem_bytes be1 (hton be1 w)) = hton be2 w"
    unfolding mem_bytes_hton [OF L]
    by (simp add: mem_word_def hton_def bswap_def of_bytes_le_bytes_le [OF L])
  with L show ?thesis by simp
qed

section \<open>The skeleton of a state machine\<close>

text \<open>
  Every machine keeps the state it is in and the state it handled last. The
  loop of \<^verbatim>\<open>SM_MACHINE_sm\<close> in \<^verbatim>\<open>sm_temp.c\<close> runs the \<^verbatim>\<open>switch\<close> on the current state
  until a procedure returns a result or the state does not change any more.
  \<open>body changed s\<close> is the \<^verbatim>\<open>switch\<close>; its outcome says whether the code falls out
  of the \<^verbatim>\<open>switch\<close> with a null result (\<open>Next\<close>), returns (\<open>Return\<close>), or reaches a
  null or out-of-range access (\<open>Crash\<close>).
\<close>

record 'st sm_core =
  state :: 'st
  last_state :: 'st

datatype 'r ctl = Next | Return 'r | Crash

partial_function (option) sm_loop ::
  "(bool \<Rightarrow> ('st, 'a) sm_core_scheme \<Rightarrow> ('st, 'a) sm_core_scheme \<times> 'r ctl) \<Rightarrow>
   ('st, 'a) sm_core_scheme \<Rightarrow> (('st, 'a) sm_core_scheme \<times> 'r ctl) option" where
  "sm_loop body s =
     (case body (last_state s \<noteq> state s) (s\<lparr>last_state := state s\<rparr>) of (s', c) \<Rightarrow>
       (case c of
          Return r \<Rightarrow> Some (s', Return r)
        | Crash \<Rightarrow> Some (s', Crash)
        | Next \<Rightarrow> if last_state s' = state s' then Some (s', Next) else sm_loop body s'))"


lemma sm_loop_Next:
  "body (last_state s \<noteq> state s) (s\<lparr>last_state := state s\<rparr>) = (s', Next) \<Longrightarrow>
   sm_loop body s = (if last_state s' = state s' then Some (s', Next) else sm_loop body s')"
  by (subst sm_loop.simps) simp

lemma sm_loop_exit:
  "body (last_state s \<noteq> state s) (s\<lparr>last_state := state s\<rparr>) = (s', c) \<Longrightarrow> c \<noteq> Next \<Longrightarrow>
   sm_loop body s = Some (s', c)"
  by (subst sm_loop.simps) (cases c; simp)

text \<open>One pass of the loop, and how a run is put together from passes.\<close>

definition sm_step ::
  "(bool \<Rightarrow> ('st, 'a) sm_core_scheme \<Rightarrow> ('st, 'a) sm_core_scheme \<times> 'r ctl) \<Rightarrow>
   ('st, 'a) sm_core_scheme \<Rightarrow> ('st, 'a) sm_core_scheme \<times> 'r ctl" where
  "sm_step body s = body (last_state s \<noteq> state s) (s\<lparr>last_state := state s\<rparr>)"

lemma sm_step_settled: "last_state s = state s \<Longrightarrow> sm_step body s = body False s"
  by (cases s) (simp add: sm_step_def)

lemma sm_step_entered: "last_state s \<noteq> state s \<Longrightarrow> sm_step body s = body True (s\<lparr>last_state := state s\<rparr>)"
  by (simp add: sm_step_def)

lemma sm_loop_again:
  "sm_step body s = (t, Next) \<Longrightarrow> last_state t \<noteq> state t \<Longrightarrow> sm_loop body s = sm_loop body t"
  by (simp add: sm_step_def sm_loop_Next)

lemma sm_loop_rest:
  "sm_step body s = (t, Next) \<Longrightarrow> last_state t = state t \<Longrightarrow> sm_loop body s = Some (t, Next)"
  by (simp add: sm_step_def sm_loop_Next)

lemma sm_loop_out:
  "sm_step body s = (t, c) \<Longrightarrow> c \<noteq> Next \<Longrightarrow> sm_loop body s = Some (t, c)"
  by (simp add: sm_step_def sm_loop_exit)

lemma sm_loop_induct [consumes 1, case_names exit again]:
  assumes run: "sm_loop body s = Some (s', c)"
    and exit: "\<And>s s' c. body (last_state s \<noteq> state s) (s\<lparr>last_state := state s\<rparr>) = (s', c) \<Longrightarrow>
      c \<noteq> Next \<or> last_state s' = state s' \<Longrightarrow> P s s' c"
    and again: "\<And>s t s' c. body (last_state s \<noteq> state s) (s\<lparr>last_state := state s\<rparr>) = (t, Next) \<Longrightarrow>
      last_state t \<noteq> state t \<Longrightarrow> P t s' c \<Longrightarrow> P s s' c"
  shows "P s s' c"
proof -
  have "P s (fst (s', c)) (snd (s', c))"
  proof (rule sm_loop.raw_induct [where P = "\<lambda>b s r. b = body \<longrightarrow> P s (fst r) (snd r)",
        OF _ run, THEN mp])
    fix f b s r
    assume IH: "\<And>b s r. f b s = Some r \<Longrightarrow> b = body \<longrightarrow> P s (fst r) (snd r)"
      and eq: "(case b (last_state s \<noteq> state s) (s\<lparr>last_state := state s\<rparr>) of (s', c) \<Rightarrow>
        (case c of Next \<Rightarrow> if last_state s' = state s' then Some (s', Next) else f b s'
         | Return r \<Rightarrow> Some (s', Return r) | Crash \<Rightarrow> Some (s', Crash))) = Some r"
    show "b = body \<longrightarrow> P s (fst r) (snd r)"
    proof
      assume b: "b = body"
      obtain t d where t: "body (last_state s \<noteq> state s) (s\<lparr>last_state := state s\<rparr>) = (t, d)"
        by fastforce
      show "P s (fst r) (snd r)"
      proof (cases "d = Next \<and> last_state t \<noteq> state t")
        case True
        with eq t b have "f b t = Some r" by simp
        with IH b have "P t (fst r) (snd r)" by blast
        with t True show ?thesis by (auto intro: again [of s t])
      next
        case False
        with eq t b have "r = (t, d)" by (auto split: ctl.splits)
        with t False show ?thesis by (auto intro: exit)
      qed
    qed
  qed simp
  then show ?thesis by simp
qed

lemma sm_loop_settled:
  \<comment> \<open>a run that falls out of the loop rests in a state that was handled last\<close>
  "sm_loop body s = Some (s', Next) \<Longrightarrow> last_state s' = state s'"
proof -
  have "sm_loop body s = Some (s', c) \<Longrightarrow> c = Next \<Longrightarrow> last_state s' = state s'" for c
    by (induction rule: sm_loop_induct) auto
  then show "sm_loop body s = Some (s', Next) \<Longrightarrow> last_state s' = state s'" by blast
qed

text \<open>A machine that goes round again from every state of some set never returns.\<close>

lemma sm_loop_diverges:
  assumes again: "\<And>s. P s \<Longrightarrow> \<exists>t. sm_step body s = (t, Next) \<and> last_state t \<noteq> state t \<and> P t"
    and start: "P s"
  shows "sm_loop body s = None"
proof (rule ccontr)
  assume "sm_loop body s \<noteq> None"
  then obtain s' c where "sm_loop body s = Some (s', c)" by auto
  then have "P s \<longrightarrow> False"
    by (induction rule: sm_loop_induct) (use again in \<open>fastforce simp: sm_step_def\<close>)+
  with start show False by simp
qed

subsection \<open>What a machine promises\<close>

text \<open>
  The contract a machine's \<^verbatim>\<open>switch\<close> has with the loop: it keeps the machine's
  invariant, and whenever the loop goes round again some measure of the machine
  has decreased. The loop then returns, and the result satisfies the invariant.
\<close>

locale sm_machine =
  fixes body :: "bool \<Rightarrow> ('st, 'a) sm_core_scheme \<Rightarrow> ('st, 'a) sm_core_scheme \<times> 'r ctl"
    and inv :: "('st, 'a) sm_core_scheme \<Rightarrow> bool"
    and rank :: "('st, 'a) sm_core_scheme \<Rightarrow> nat"
  assumes step_inv: "inv s \<Longrightarrow>
      body (last_state s \<noteq> state s) (s\<lparr>last_state := state s\<rparr>) = (s', c) \<Longrightarrow> inv s'"
    and step_rank: "inv s \<Longrightarrow>
      body (last_state s \<noteq> state s) (s\<lparr>last_state := state s\<rparr>) = (s', Next) \<Longrightarrow>
      last_state s' \<noteq> state s' \<Longrightarrow> rank s' < rank s"
begin

lemma sm_returns:
  assumes "inv s"
  shows "\<exists>s' c. sm_loop body s = Some (s', c)"
  using assms
proof (induction "rank s" arbitrary: s rule: less_induct)
  case less
  obtain t d where t: "body (last_state s \<noteq> state s) (s\<lparr>last_state := state s\<rparr>) = (t, d)"
    by fastforce
  show ?case
  proof (cases "d = Next \<and> last_state t \<noteq> state t")
    case True
    with t have "rank t < rank s" "inv t"
      using step_rank step_inv less.prems by blast+
    then have "\<exists>s' c. sm_loop body t = Some (s', c)" by (rule less.hyps)
    with t True show ?thesis by (simp add: sm_loop_Next)
  next
    case False
    with t show ?thesis by (cases d) (auto simp: sm_loop_Next sm_loop_exit)
  qed
qed

lemma sm_keeps_inv:
  assumes "sm_loop body s = Some (s', c)" and "inv s"
  shows "inv s'"
  using assms by (induction rule: sm_loop_induct) (blast intro: step_inv)+

lemma sm_total:
  "inv s \<Longrightarrow> \<exists>s' c. sm_loop body s = Some (s', c) \<and> inv s'"
  using sm_returns sm_keeps_inv by blast

end

text \<open>A machine whose \<^verbatim>\<open>switch\<close> also never touches a null pointer.\<close>

locale sm_safe = sm_machine body inv rank
  for body :: "bool \<Rightarrow> ('st, 'a) sm_core_scheme \<Rightarrow> ('st, 'a) sm_core_scheme \<times> 'r ctl"
    and inv and rank +
  assumes step_safe: "inv s \<Longrightarrow>
      body (last_state s \<noteq> state s) (s\<lparr>last_state := state s\<rparr>) \<noteq> (s', Crash)"
begin

lemma sm_no_crash:
  assumes "sm_loop body s = Some (s', c)" and "inv s"
  shows "c \<noteq> Crash"
  using assms by (induction rule: sm_loop_induct) (use step_safe step_inv in blast)+

lemma sm_total_safe:
  "inv s \<Longrightarrow> \<exists>s' c. sm_loop body s = Some (s', c) \<and> inv s' \<and> c \<noteq> Crash"
  using sm_total sm_no_crash by blast

end

end
