(* ===== verification/Gptp_Config.thy ===== *)
theory Gptp_Config
  imports Gptp_Prelude
begin

text \<open>
  The configuration of the daemon and the environment of the model.
  \<^verbatim>\<open>gptp_config.h\<close> is generated from \<^verbatim>\<open>gptp_defaults.h\<close> by the build, with one
  \<^verbatim>\<open>CONF_\<close> item for each \<^verbatim>\<open>DEFAULT_\<close> macro; \<^verbatim>\<open>gptpconf_get_intitem\<close> reads an item.
  The items that the modelled files read are a parameter of the model, with the
  defaults as one instance.
\<close>

datatype (plugins only: code) conf_item =
    CONF_TEST_SYNC_REC_PORT
  | CONF_TEST_SYNC_SEND_PORT
  | CONF_SINGLE_CLOCK_MODE
  | CONF_MAX_ADJUST_RATE_ON_CLOCK
  | CONF_NEIGHBOR_PROP_DELAY
  | CONF_STATIC_PORT_STATE_SLAVE_PORT
  | CONF_TIMESCALE_PTP
  | CONF_FOLLOW_AVNU
  | CONF_PRIMARY_PRIORITY1
  | CONF_PRIMARY_CLOCK_CLASS
  | CONF_PRIMARY_CLOCK_ACCURACY
  | CONF_PRIMARY_OFFSET_SCALED_LOG_VARIANCE
  | CONF_PRIMARY_PRIORITY2
  | CONF_SECONDARY_PRIORITY1
  | CONF_SECONDARY_CLOCK_CLASS
  | CONF_SECONDARY_CLOCK_ACCURACY
  | CONF_SECONDARY_OFFSET_SCALED_LOG_VARIANCE
  | CONF_SECONDARY_PRIORITY2
  | CONF_TIME_SOURCE
  | CONF_BMCS_QUICK_UPDATE_MODE
  | CONF_EXTERNAL_PORT_CONFIGURATION
  | CONF_INITIAL_LOG_ANNOUNCE_INTERVAL
  | CONF_LOG_GPTP_CAPABLE_MESSAGE_INTERVAL
  | CONF_GPTP_CAPABLE_RECEIPT_TIMEOUT
  | CONF_SYNC_RECEIPT_TIMEOUT
  | CONF_ANNOUNCE_RECEIPT_TIMEOUT
  | CONF_CMLDS_MODE
  | CONF_MINOR_VERSION_PTP
  | CONF_LOG_SYNC_INTERVAL
  | CONF_LOG_ANNOUNCE_INTERVAL
  | CONF_LOG_PDELAYREQ_INTERVAL
  | CONF_ALLOWED_LOST_RESPONSE
  | CONF_ALLOWED_FAULTS
  | CONF_NEIGHBOR_PROPDELAY_THRESH
  | CONF_NEIGHBOR_PROPDELAY_MINLIMIT
  | CONF_INITIAL_SLAVE_TIME
  | CONF_INITIAL_GM_STABLE_TIME
  | CONF_NORMAL_GM_STABLE_TIME
  | CONF_FREQ_OFFSET_IIR_ALPHA_START_VALUE
  | CONF_FREQ_OFFSET_IIR_ALPHA_STABLE_VALUE
  | CONF_PHASE_OFFSET_IIR_ALPHA_START_VALUE
  | CONF_PHASE_OFFSET_IIR_ALPHA_STABLE_VALUE
  | CONF_FREQ_OFFSET_STABLE_PPB
  | CONF_CLOCK_COMPUTE_INTERVAL_MSEC
  | CONF_FREQ_OFFSET_UPDATE_MRATE_PPB
  | CONF_ACTIVE_DOMAIN_AUTO_SWITCH
  | CONF_MAX_CONSEC_TS_DIFF
  | CONF_TS2DIFF_CACHE_FACTOR
  | CONF_USE_HW_PHASE_ADJUSTMENT
  | CONF_PHASE_ADJUSTMENT_BY_FREQ
  | CONF_RESET_FREQADJ_BECOMEGM
  | CONF_MAX_DOMAIN_NUMBER
  | CONF_MAX_PORT_NUMBER
  | CONF_FIRST_DOMAIN_THIS_CLOCK
  | CONF_SECOND_DOMAIN_THIS_CLOCK
  | CONF_SECOND_DOMAIN_NUMBER
  | CONF_IPC_NOTICE_PHASE_UPDATE
  | CONF_IPC_NOTICE_FREQ_UPDATE
  | CONF_TSN_SCHEDULE_ON
  | CONF_TSN_SCHEDULE_ALIGNTIME
  | CONF_TSN_SCHEDULE_CYCLETIME

text \<open>
  The values of \<^verbatim>\<open>gptp_defaults.h\<close>, with \<^verbatim>\<open>INTERNAL_OSCILLATOR\<close> and
  \<^verbatim>\<open>VALUE_DISABLED\<close> replaced by the numbers that \<^verbatim>\<open>gptpbasetypes.h\<close> gives them.
\<close>

fun default_conf :: "conf_item \<Rightarrow> int" where
  "default_conf CONF_TEST_SYNC_REC_PORT = - 1"
| "default_conf CONF_TEST_SYNC_SEND_PORT = - 1"
| "default_conf CONF_SINGLE_CLOCK_MODE = 0"
| "default_conf CONF_MAX_ADJUST_RATE_ON_CLOCK = 1000000"
| "default_conf CONF_NEIGHBOR_PROP_DELAY = 0"
| "default_conf CONF_STATIC_PORT_STATE_SLAVE_PORT = - 1"
| "default_conf CONF_TIMESCALE_PTP = 1"
| "default_conf CONF_FOLLOW_AVNU = 0"
| "default_conf CONF_PRIMARY_PRIORITY1 = 248"
| "default_conf CONF_PRIMARY_CLOCK_CLASS = 248"
| "default_conf CONF_PRIMARY_CLOCK_ACCURACY = 34"
| "default_conf CONF_PRIMARY_OFFSET_SCALED_LOG_VARIANCE = 17258"
| "default_conf CONF_PRIMARY_PRIORITY2 = 248"
| "default_conf CONF_SECONDARY_PRIORITY1 = 248"
| "default_conf CONF_SECONDARY_CLOCK_CLASS = 248"
| "default_conf CONF_SECONDARY_CLOCK_ACCURACY = 34"
| "default_conf CONF_SECONDARY_OFFSET_SCALED_LOG_VARIANCE = 17258"
| "default_conf CONF_SECONDARY_PRIORITY2 = 248"
| "default_conf CONF_TIME_SOURCE = 160"
| "default_conf CONF_BMCS_QUICK_UPDATE_MODE = 0"
| "default_conf CONF_EXTERNAL_PORT_CONFIGURATION = 0"
| "default_conf CONF_INITIAL_LOG_ANNOUNCE_INTERVAL = 0"
| "default_conf CONF_LOG_GPTP_CAPABLE_MESSAGE_INTERVAL = 3"
| "default_conf CONF_GPTP_CAPABLE_RECEIPT_TIMEOUT = 3"
| "default_conf CONF_SYNC_RECEIPT_TIMEOUT = 3"
| "default_conf CONF_ANNOUNCE_RECEIPT_TIMEOUT = 3"
| "default_conf CONF_CMLDS_MODE = 0"
| "default_conf CONF_MINOR_VERSION_PTP = 1"
| "default_conf CONF_LOG_SYNC_INTERVAL = - 3"
| "default_conf CONF_LOG_ANNOUNCE_INTERVAL = 0"
| "default_conf CONF_LOG_PDELAYREQ_INTERVAL = 0"
| "default_conf CONF_ALLOWED_LOST_RESPONSE = 9"
| "default_conf CONF_ALLOWED_FAULTS = 9"
| "default_conf CONF_NEIGHBOR_PROPDELAY_THRESH = 40000"
| "default_conf CONF_NEIGHBOR_PROPDELAY_MINLIMIT = 0"
| "default_conf CONF_INITIAL_SLAVE_TIME = 0"
| "default_conf CONF_INITIAL_GM_STABLE_TIME = 1000"
| "default_conf CONF_NORMAL_GM_STABLE_TIME = 10000"
| "default_conf CONF_FREQ_OFFSET_IIR_ALPHA_START_VALUE = 2"
| "default_conf CONF_FREQ_OFFSET_IIR_ALPHA_STABLE_VALUE = 10"
| "default_conf CONF_PHASE_OFFSET_IIR_ALPHA_START_VALUE = 2"
| "default_conf CONF_PHASE_OFFSET_IIR_ALPHA_STABLE_VALUE = 10"
| "default_conf CONF_FREQ_OFFSET_STABLE_PPB = 100"
| "default_conf CONF_CLOCK_COMPUTE_INTERVAL_MSEC = 1000"
| "default_conf CONF_FREQ_OFFSET_UPDATE_MRATE_PPB = 10"
| "default_conf CONF_ACTIVE_DOMAIN_AUTO_SWITCH = 2"
| "default_conf CONF_MAX_CONSEC_TS_DIFF = 500000"
| "default_conf CONF_TS2DIFF_CACHE_FACTOR = 150"
| "default_conf CONF_USE_HW_PHASE_ADJUSTMENT = 0"
| "default_conf CONF_PHASE_ADJUSTMENT_BY_FREQ = 1"
| "default_conf CONF_RESET_FREQADJ_BECOMEGM = 0"
| "default_conf CONF_MAX_DOMAIN_NUMBER = 1"
| "default_conf CONF_MAX_PORT_NUMBER = 8"
| "default_conf CONF_FIRST_DOMAIN_THIS_CLOCK = 1"
| "default_conf CONF_SECOND_DOMAIN_THIS_CLOCK = - 1"
| "default_conf CONF_SECOND_DOMAIN_NUMBER = 1"
| "default_conf CONF_IPC_NOTICE_PHASE_UPDATE = 1"
| "default_conf CONF_IPC_NOTICE_FREQ_UPDATE = 0"
| "default_conf CONF_TSN_SCHEDULE_ON = 0"
| "default_conf CONF_TSN_SCHEDULE_ALIGNTIME = 100000000"
| "default_conf CONF_TSN_SCHEDULE_CYCLETIME = 10000000"

text \<open>
  What the code depends on besides its own state:
  \<^item> \<open>conf\<close>: the integer items of the configuration;
  \<^item> \<open>ptp_port_enabled_str\<close>: the string item \<^verbatim>\<open>CONF_PTP_PORT_ENABLED\<close>;
  \<^item> \<open>big_endian\<close>: the byte order of the host;
  \<^item> \<open>log_undef\<close>: what \<^verbatim>\<open>LOG_TO_NSEC\<close> gives for an exponent whose shift
    \<^verbatim>\<open>1<<x\<close> is undefined in C (31 or more, for a 32-bit \<^verbatim>\<open>int\<close>).
\<close>

record env =
  conf :: "conf_item \<Rightarrow> int"
  ptp_port_enabled_str :: string
  big_endian :: bool
  log_undef :: "int \<Rightarrow> u64"

definition default_env :: env where
  "default_env = \<lparr>conf = default_conf, ptp_port_enabled_str = ''1,1,1,1,1,1,1,1'',
     big_endian = False, log_undef = (\<lambda>_. 0)\<rparr>"

lemma default_env_simps [simp]:
  "conf default_env = default_conf"
  "ptp_port_enabled_str default_env = ''1,1,1,1,1,1,1,1''"
  "big_endian default_env = False"
  "log_undef default_env x = 0"
  by (simp_all add: default_env_def)

section \<open>Logarithmic intervals\<close>

text \<open>
  \<^verbatim>\<open>UB_SEC_NS\<close>, the number of nanoseconds in a second, comes from the
  \<^verbatim>\<open>xl4unibase\<close> headers; the repository writes the same number out as
  \<^verbatim>\<open>1000000000LL\<close> (\<^verbatim>\<open>port_announce_transmit_sm.c\<close>).
\<close>

definition UB_SEC_NS :: int where
  "UB_SEC_NS = 1000000000"

definition LOG_TO_NSEC :: "env \<Rightarrow> int \<Rightarrow> u64" where
  "LOG_TO_NSEC e x =
     (if x \<ge> 0
      then (if x \<le> 30 then of_int (UB_SEC_NS * 2 ^ nat x) else log_undef e x)
      else (if - x \<le> 30 then of_int (UB_SEC_NS div 2 ^ nat (- x)) else log_undef e x))"

text \<open>Flag bits: \<^verbatim>\<open>GET_FLAG_BIT\<close>, \<^verbatim>\<open>SET_FLAG_BIT\<close> and \<^verbatim>\<open>RESET_FLAG_BIT\<close>.\<close>

definition GET_FLAG_BIT :: "u8 \<Rightarrow> nat \<Rightarrow> bool" where
  "GET_FLAG_BIT x b \<longleftrightarrow> x AND push_bit b 1 \<noteq> 0"

definition SET_FLAG_BIT :: "u8 \<Rightarrow> nat \<Rightarrow> u8" where
  "SET_FLAG_BIT x b = x OR push_bit b 1"

definition RESET_FLAG_BIT :: "u8 \<Rightarrow> nat \<Rightarrow> u8" where
  "RESET_FLAG_BIT x b = x AND NOT (push_bit b 1)"

lemma uint_LOG_TO_NSEC:
  \<comment> \<open>no 64-bit overflow in the defined range\<close>
  assumes "- 30 \<le> x" "x \<le> 30"
  shows "uint (LOG_TO_NSEC e x) =
    (if x \<ge> 0 then UB_SEC_NS * 2 ^ nat x else UB_SEC_NS div 2 ^ nat (- x))"
proof -
  have p: "(2::int) ^ nat x \<le> 2 ^ 30" if "x \<ge> 0"
    using assms that by (intro power_increasing) auto
  have b: "UB_SEC_NS * 2 ^ nat x < 2 ^ 64" if "x \<ge> 0"
    using p [OF that] unfolding UB_SEC_NS_def by simp
  have "UB_SEC_NS div 2 ^ nat (- x) \<le> UB_SEC_NS"
    using zdiv_mono2 [of UB_SEC_NS 1 "2 ^ nat (- x)"] by (simp add: UB_SEC_NS_def)
  then have d: "UB_SEC_NS div 2 ^ nat (- x) < 2 ^ 64" by (simp add: UB_SEC_NS_def)
  have n: "0 \<le> UB_SEC_NS" by (simp add: UB_SEC_NS_def)
  have u: "uint (of_int k :: u64) = k" if "0 \<le> k" "k < 2 ^ 64" for k
    using that by (simp add: uint_word_of_int)
  show ?thesis
  proof (cases "x \<ge> 0")
    case True
    then have "LOG_TO_NSEC e x = of_int (UB_SEC_NS * 2 ^ nat x)"
      using assms by (simp add: LOG_TO_NSEC_def)
    then show ?thesis using True u [OF _ b [OF True]] n by simp
  next
    case False
    then have "LOG_TO_NSEC e x = of_int (UB_SEC_NS div 2 ^ nat (- x))"
      using assms by (simp add: LOG_TO_NSEC_def)
    then show ?thesis using False u d n by (simp add: pos_imp_zdiv_nonneg_iff)
  qed
qed

lemma GET_FLAG_BIT_iff: "b < 8 \<Longrightarrow> GET_FLAG_BIT x b \<longleftrightarrow> bit x b"
  by (simp only: GET_FLAG_BIT_def bit_iff_and_push_bit_not_eq_0)

end
