(* ===== verification/Gptp_Base.thy ===== *)
theory Gptp_Base
  imports Gptp_Config "HOL-Library.List_Lexorder"
begin

text \<open>
  The base types of \<^verbatim>\<open>gptpbasetypes.h\<close> and the helpers of \<^verbatim>\<open>gptpcommon.c\<close>: time
  values, port identities, the priority vectors of the best master clock
  algorithm (BMCA) and their comparison.
\<close>

section \<open>Base types\<close>

type_synonym ClockIdentity = "u8 list" \<comment> \<open>an array of eight octets\<close>

definition clockid_ok :: "ClockIdentity \<Rightarrow> bool" where
  "clockid_ok c \<longleftrightarrow> length c = 8"

definition zero_clockid :: ClockIdentity where
  "zero_clockid = replicate 8 0"

record PortIdentity =
  clockIdentity :: ClockIdentity
  portNumber :: u16

record UInteger112 =
  priority1 :: u8
  clockClass :: u8
  clockAccuracy :: u8
  offsetScaledLogVariance :: u16
  priority2 :: u8
  rootClockIdentity :: ClockIdentity

record UInteger224 =
  rootSystemIdentity :: UInteger112
  stepsRemoved :: u16
  sourcePortIdentity :: PortIdentity
  pvPortNumber :: u16

record ScaledNs =
  s_subns :: u16
  s_nsec :: u64
  s_nsec_msb :: u16

record UScaledNs =
  subns :: u16
  nsec :: u64
  nsec_msb :: u16

record Timestamp =
  nanoseconds :: u32
  seconds_lsb :: u32
  seconds_msb :: u16

record ExtendedTimestamp =
  fractionalNanoseconds_lsb :: u16
  fractionalNanoseconds_msb :: u32
  ext_seconds_lsb :: u32
  ext_seconds_msb :: u16

text \<open>
  \<open>PortStateUnset\<close> is the value 0 that \<^verbatim>\<open>memset\<close> leaves in the array of port
  states; it is none of the constants of the C enumeration.
\<close>

datatype PTPPortState = PortStateUnset | DisabledPort | MasterPort | PassivePort | SlavePort

definition zero_UScaledNs :: UScaledNs where
  "zero_UScaledNs = \<lparr>subns = 0, nsec = 0, nsec_msb = 0\<rparr>"

definition zero_ScaledNs :: ScaledNs where
  "zero_ScaledNs = \<lparr>s_subns = 0, s_nsec = 0, s_nsec_msb = 0\<rparr>"

text \<open>\<^verbatim>\<open>memset(v, b, sizeof(UInteger224))\<close>: every byte of the vector is \<open>b\<close>.\<close>

definition uint16_of_byte :: "u8 \<Rightarrow> u16" where
  "uint16_of_byte b = of_bytes_le [b, b]"

definition memset_UInteger224 :: "u8 \<Rightarrow> UInteger224" where
  "memset_UInteger224 b =
     \<lparr>rootSystemIdentity = \<lparr>priority1 = b, clockClass = b, clockAccuracy = b,
        offsetScaledLogVariance = uint16_of_byte b, priority2 = b,
        rootClockIdentity = replicate 8 b\<rparr>,
      stepsRemoved = uint16_of_byte b,
      sourcePortIdentity = \<lparr>clockIdentity = replicate 8 b, portNumber = uint16_of_byte b\<rparr>,
      pvPortNumber = uint16_of_byte b\<rparr>"

definition priority_ok :: "UInteger224 \<Rightarrow> bool" where
  "priority_ok v \<longleftrightarrow> clockid_ok (rootClockIdentity (rootSystemIdentity v)) \<and>
     clockid_ok (clockIdentity (sourcePortIdentity v))"

section \<open>Clock identities from MAC addresses\<close>

text \<open>
  \<^verbatim>\<open>eui48to64\<close>: the first half of the address, two inserted octets, the second half.
  \<open>None\<close> stands for the null pointer of \<^verbatim>\<open>insert\<close>, and an access outside of an
  array for \<open>None\<close> as a result.
\<close>

definition eui48to64 :: "u8 list \<Rightarrow> u8 list option \<Rightarrow> u8 list option" where
  "eui48to64 eui48 ins =
     (if length eui48 < 6 then None
      else case ins of
        None \<Rightarrow> Some [eui48 ! 0, eui48 ! 1, eui48 ! 2, 0xff, 0xfe, eui48 ! 3, eui48 ! 4, eui48 ! 5]
      | Some i \<Rightarrow>
          (if length i < 2 then None
           else Some [eui48 ! 0, eui48 ! 1, eui48 ! 2, i ! 0, i ! 1, eui48 ! 3, eui48 ! 4, eui48 ! 5]))"

section \<open>Comparing priority vectors\<close>

text \<open>The sign of the C library's \<^verbatim>\<open>memcmp\<close>: the first difference decides.\<close>

fun memcmp :: "u8 list \<Rightarrow> u8 list \<Rightarrow> int" where
  "memcmp (a # as) (b # bs) = (if a < b then - 1 else if b < a then 1 else memcmp as bs)"
| "memcmp _ _ = 0"

text \<open>
  \<^verbatim>\<open>UInteger224\<close> is a packed structure, so its bytes in memory are the bytes of
  the members in order, the 16-bit members in the byte order of the host.
\<close>

definition uint112_bytes :: "bool \<Rightarrow> UInteger112 \<Rightarrow> u8 list" where
  "uint112_bytes be i = [priority1 i, clockClass i, clockAccuracy i] @
     mem_bytes be (offsetScaledLogVariance i) @ [priority2 i] @ rootClockIdentity i"

definition uint224_bytes :: "bool \<Rightarrow> UInteger224 \<Rightarrow> u8 list" where
  "uint224_bytes be v = uint112_bytes be (rootSystemIdentity v) @
     mem_bytes be (stepsRemoved v) @
     clockIdentity (sourcePortIdentity v) @ mem_bytes be (portNumber (sourcePortIdentity v)) @
     mem_bytes be (pvPortNumber v)"

datatype bmcs_priority_comparison_result = SAME_PRIORITY | SUPERIOR_PRIORITY | INFERIOR_PRIORITY

definition compare_priority_vectors ::
  "env \<Rightarrow> UInteger224 \<Rightarrow> UInteger224 \<Rightarrow> bmcs_priority_comparison_result" where
  "compare_priority_vectors e priorityA priorityB =
     (let compare = memcmp (uint224_bytes (big_endian e) priorityA)
                           (uint224_bytes (big_endian e) priorityB)
      in if compare < 0 then SUPERIOR_PRIORITY
         else if compare > 0 then INFERIOR_PRIORITY
         else SAME_PRIORITY)"

text \<open>\<^verbatim>\<open>HAS_PORT_PRIORITY\<close>: any non-zero value is sufficient.\<close>

definition HAS_PORT_PRIORITY :: "UInteger224 \<Rightarrow> bool" where
  "HAS_PORT_PRIORITY pp \<longleftrightarrow>
     priority1 (rootSystemIdentity pp) \<noteq> 0 \<or>
     clockClass (rootSystemIdentity pp) \<noteq> 0 \<or>
     clockAccuracy (rootSystemIdentity pp) \<noteq> 0 \<or>
     offsetScaledLogVariance (rootSystemIdentity pp) \<noteq> 0 \<or>
     priority2 (rootSystemIdentity pp) \<noteq> 0 \<or>
     stepsRemoved pp \<noteq> 0"


section \<open>Facts about the comparison\<close>

lemma memcmp_refl [simp]: "memcmp as as = 0"
  by (induction as) auto

lemma memcmp_range: "memcmp as bs \<in> {- 1, 0, 1}"
  by (induction as bs rule: memcmp.induct) auto

lemma memcmp_eq_0_iff: "length as = length bs \<Longrightarrow> memcmp as bs = 0 \<longleftrightarrow> as = bs"
  by (induction as bs rule: memcmp.induct) (auto simp: not_less_iff_gr_or_eq)

lemma memcmp_swap: "memcmp bs as = - memcmp as bs"
  by (induction as bs rule: memcmp.induct) auto

lemma memcmp_append:
  "length as = length bs \<Longrightarrow>
   memcmp (as @ cs) (bs @ ds) = (if as = bs then memcmp cs ds else memcmp as bs)"
  by (induction as bs rule: memcmp.induct) (auto simp: not_less_iff_gr_or_eq)

lemma memcmp_less_iff:
  "length as = length bs \<Longrightarrow> memcmp as bs < 0 \<longleftrightarrow> as < bs"
  by (induction as bs rule: memcmp.induct) auto

lemma length_uint224_bytes:
  "priority_ok v \<Longrightarrow> length (uint224_bytes be v) = 28"
  by (simp add: uint224_bytes_def uint112_bytes_def priority_ok_def clockid_ok_def)

lemma uint224_bytes_inj:
  assumes "priority_ok v" "priority_ok w" "uint224_bytes be v = uint224_bytes be w"
  shows "v = w"
  using assms
  by (auto simp: uint224_bytes_def uint112_bytes_def priority_ok_def clockid_ok_def mem_bytes_inj
      intro!: UInteger224.equality UInteger112.equality PortIdentity.equality)

lemma compare_superior_iff:
  "priority_ok a \<Longrightarrow> priority_ok b \<Longrightarrow>
   compare_priority_vectors e a b = SUPERIOR_PRIORITY \<longleftrightarrow>
     uint224_bytes (big_endian e) a < uint224_bytes (big_endian e) b"
  by (simp add: compare_priority_vectors_def Let_def memcmp_less_iff length_uint224_bytes)

lemma compare_same_iff:
  "priority_ok a \<Longrightarrow> priority_ok b \<Longrightarrow>
   compare_priority_vectors e a b = SAME_PRIORITY \<longleftrightarrow> a = b"
  using memcmp_eq_0_iff [of "uint224_bytes (big_endian e) a" "uint224_bytes (big_endian e) b"]
  by (auto simp: compare_priority_vectors_def Let_def length_uint224_bytes
      dest: uint224_bytes_inj)

lemma compare_flip:
  "compare_priority_vectors e a b = SUPERIOR_PRIORITY \<longleftrightarrow>
   compare_priority_vectors e b a = INFERIOR_PRIORITY"
  using memcmp_swap [of "uint224_bytes (big_endian e) a" "uint224_bytes (big_endian e) b"]
  by (auto simp: compare_priority_vectors_def Let_def)

subsection \<open>Choosing the best of several vectors\<close>

text \<open>
  The loop of \<^verbatim>\<open>updtStatesTree\<close> keeps the best vector seen so far. \<open>best_of cmp cs b\<close>
  is that loop over the candidates \<open>cs\<close>, starting from \<open>b\<close>; the locale says what a
  comparison must satisfy for the result to be the best one.
\<close>

primrec best_of ::
  "('v \<Rightarrow> 'v \<Rightarrow> bmcs_priority_comparison_result) \<Rightarrow> 'v list \<Rightarrow> 'v \<Rightarrow> 'v" where
  "best_of cmp [] b = b"
| "best_of cmp (c # cs) b = best_of cmp cs (if SUPERIOR_PRIORITY = cmp c b then c else b)"

locale priority_order =
  fixes cmp :: "'v \<Rightarrow> 'v \<Rightarrow> bmcs_priority_comparison_result"
    and ok :: "'v \<Rightarrow> bool"
  assumes same_iff: "ok a \<Longrightarrow> ok b \<Longrightarrow> cmp a b = SAME_PRIORITY \<longleftrightarrow> a = b"
    and flip: "cmp a b = SUPERIOR_PRIORITY \<longleftrightarrow> cmp b a = INFERIOR_PRIORITY"
    and trans_superior: "ok a \<Longrightarrow> ok b \<Longrightarrow> ok c \<Longrightarrow> cmp a b = SUPERIOR_PRIORITY \<Longrightarrow>
      cmp b c = SUPERIOR_PRIORITY \<Longrightarrow> cmp a c = SUPERIOR_PRIORITY"
begin

lemma asym: "cmp a b = SUPERIOR_PRIORITY \<Longrightarrow> cmp b a \<noteq> SUPERIOR_PRIORITY"
  using flip by force

lemma irrefl [simp]: "cmp a a \<noteq> SUPERIOR_PRIORITY"
  using asym by blast

lemma trichotomy:
  "ok a \<Longrightarrow> ok b \<Longrightarrow> cmp a b = SUPERIOR_PRIORITY \<or> a = b \<or> cmp b a = SUPERIOR_PRIORITY"
  using same_iff flip by (cases "cmp a b") auto

lemma trans_not_superior:
  assumes "ok a" "ok b" "ok c"
    and "cmp b a \<noteq> SUPERIOR_PRIORITY" and "cmp c b \<noteq> SUPERIOR_PRIORITY"
  shows "cmp c a \<noteq> SUPERIOR_PRIORITY"
  using assms trichotomy trans_superior by metis

lemma best_of_ok: "ok b \<Longrightarrow> (\<And>c. c \<in> set cs \<Longrightarrow> ok c) \<Longrightarrow> ok (best_of cmp cs b)"
  by (induction cs arbitrary: b) auto

lemma best_of_mem: "best_of cmp cs b \<in> insert b (set cs)"
  by (induction cs arbitrary: b) (simp_all, metis insert_iff)

lemma best_of_ge_start:
  "ok b \<Longrightarrow> (\<And>c. c \<in> set cs \<Longrightarrow> ok c) \<Longrightarrow> cmp b (best_of cmp cs b) \<noteq> SUPERIOR_PRIORITY"
proof (induction cs arbitrary: b)
  case Nil
  then show ?case by simp
next
  case (Cons c cs)
  let ?b = "if SUPERIOR_PRIORITY = cmp c b then c else b"
  have "cmp ?b (best_of cmp cs ?b) \<noteq> SUPERIOR_PRIORITY" using Cons by auto
  moreover have "cmp b ?b \<noteq> SUPERIOR_PRIORITY"
    using asym by auto
  moreover have "ok ?b" "ok (best_of cmp cs ?b)" using Cons.prems by (auto intro: best_of_ok)
  ultimately show ?case
    using trans_not_superior [of "best_of cmp cs ?b" ?b b] Cons.prems(1) by simp
qed

lemma best_of_unbeaten:
  "ok b \<Longrightarrow> (\<And>c. c \<in> set cs \<Longrightarrow> ok c) \<Longrightarrow> c \<in> insert b (set cs) \<Longrightarrow>
   cmp c (best_of cmp cs b) \<noteq> SUPERIOR_PRIORITY"
proof (induction cs arbitrary: b)
  case Nil
  then show ?case by auto
next
  case (Cons d cs)
  let ?b = "if SUPERIOR_PRIORITY = cmp d b then d else b"
  have ok: "ok ?b" "ok (best_of cmp cs ?b)" using Cons.prems by (auto intro: best_of_ok)
  consider "c \<in> insert ?b (set cs)" | "c = b \<or> c = d" "c \<noteq> ?b" using Cons.prems(3) by auto
  then show ?case
  proof cases
    case 1
    then show ?thesis using Cons ok by auto
  next
    case 2
    then have "cmp c ?b \<noteq> SUPERIOR_PRIORITY" "ok c"
      using Cons.prems asym by (auto split: if_splits)
    moreover have "cmp ?b (best_of cmp cs ?b) \<noteq> SUPERIOR_PRIORITY"
      using ok(1) Cons.prems(2) by (intro best_of_ge_start) auto
    ultimately show ?thesis using ok trans_not_superior [of "best_of cmp cs ?b" ?b c] by simp
  qed
qed

end

interpretation pv: priority_order "compare_priority_vectors e" priority_ok for e
proof unfold_locales
  fix a b c
  assume "priority_ok a" "priority_ok b" "priority_ok c"
    "compare_priority_vectors e a b = SUPERIOR_PRIORITY"
    "compare_priority_vectors e b c = SUPERIOR_PRIORITY"
  then show "compare_priority_vectors e a c = SUPERIOR_PRIORITY"
    by (auto simp: compare_superior_iff)
qed (auto simp: compare_same_iff compare_flip)


section \<open>The order the standard asks for\<close>

text \<open>
  Section 10.3.4 of the standard, as the comment in \<^verbatim>\<open>compare_priority_vectors\<close> has
  it: a lesser numerical value is better, and earlier components are more
  significant. \<open>priority_key\<close> lists the components as numbers, most significant
  first.
\<close>

definition priority_key :: "UInteger224 \<Rightarrow> nat list" where
  "priority_key v =
     (let i = rootSystemIdentity v; p = sourcePortIdentity v in
      [unat (priority1 i), unat (clockClass i), unat (clockAccuracy i),
       unat (offsetScaledLogVariance i), unat (priority2 i)] @
      map unat (rootClockIdentity i) @ [unat (stepsRemoved v)] @
      map unat (clockIdentity p) @ [unat (portNumber p)] @ [unat (pvPortNumber v)])"

lemma mem_bytes16:
  "mem_bytes be (w :: u16) =
     (if be then [ucast (drop_bit 8 w), ucast w] else [ucast w, ucast (drop_bit 8 w)])"
  by (simp add: mem_bytes_def bytes_le_def upt_rec)

lemma u8_bound: "unat (b :: u8) < 256"
  by (rule order.strict_trans2 [OF unsigned_less]) simp

lemma u16_bound: "unat (w :: u16) < 65536"
  by (rule order.strict_trans2 [OF unsigned_less]) simp

lemma u16_split: "unat (w :: u16) = 256 * unat (ucast (drop_bit 8 w) :: u8) + unat (ucast w :: u8)"
proof -
  have "unat (drop_bit 8 w) = unat w div 256"
    by (simp only: unat_drop_bit_eq) (simp add: drop_bit_eq_div)
  moreover have "unat w div 256 < 256" using u16_bound [of w] by simp
  ultimately have "unat (ucast (drop_bit 8 w) :: u8) = unat w div 256"
    by (simp only: unsigned_ucast_eq) (simp add: take_bit_eq_mod)
  moreover have "unat (ucast w :: u8) = unat w mod 256"
    by (simp add: unsigned_ucast_eq take_bit_eq_mod)
  ultimately show ?thesis by simp
qed

lemma unat_eq_iff: "unat a = unat b \<longleftrightarrow> a = b"
  by (simp add: word_unat_eq_iff)

lemma unat_less_iff: "unat a < unat b \<longleftrightarrow> a < b"
  by (simp add: word_less_nat_alt)

lemma list_less_append:
  "length as = length bs \<Longrightarrow>
   as @ cs < bs @ ds \<longleftrightarrow> as < bs \<or> as = bs \<and> cs < (ds :: 'a::linorder list)"
  by (induction as bs rule: list_induct2) auto

lemma map_unat_less [simp]: "map unat as < map unat bs \<longleftrightarrow> as < (bs :: 'a::len word list)"
  by (induction as bs rule: list_induct2') (simp_all add: unat_less_iff unat_eq_iff)

lemma map_unat_eq [simp]: "map unat as = map unat bs \<longleftrightarrow> as = (bs :: 'a::len word list)"
  by (rule inj_map_eq_map) (simp add: inj_def unat_eq_iff)

lemma mem_bytes16_less:
  fixes v w :: u16
  assumes "be \<or> v = w \<or> v < 256 \<and> w < 256"
  shows "mem_bytes be v < mem_bytes be w \<longleftrightarrow> v < w"
proof (cases be)
  case True
  have "v < w \<longleftrightarrow> ucast (drop_bit 8 v) < (ucast (drop_bit 8 w) :: u8) \<or>
      ucast (drop_bit 8 v) = (ucast (drop_bit 8 w) :: u8) \<and> ucast v < (ucast w :: u8)"
    unfolding word_less_nat_alt word_unat_eq_iff u16_split [of v] u16_split [of w]
    using u8_bound [of "ucast v"] u8_bound [of "ucast w"] by linarith
  with True show ?thesis by (simp add: mem_bytes16)
next
  case False
  have hi: "(ucast (drop_bit 8 u) :: u8) = 0" if "u < 256" for u :: u16
    using that u16_split [of u] by (simp add: word_less_nat_alt word_unat_eq_iff)
  have lo: "ucast v < (ucast w :: u8) \<longleftrightarrow> v < w" if "v < 256" "w < 256"
    using u16_split [of v] u16_split [of w] hi [OF that(1)] hi [OF that(2)]
    by (simp add: word_less_nat_alt)
  show ?thesis
  proof (cases "v = w")
    case False
    with \<open>\<not> be\<close> assms have "v < 256" "w < 256" by auto
    with hi lo \<open>\<not> be\<close> show ?thesis by (simp add: mem_bytes16)
  qed simp
qed

text \<open>
  The hosts and vectors on which the byte-wise comparison reads 16-bit members as
  numbers: big-endian hosts, and on little-endian ones the members below 256.
\<close>

definition u16_comparable :: "env \<Rightarrow> u16 \<Rightarrow> u16 \<Rightarrow> bool" where
  "u16_comparable e v w \<longleftrightarrow> big_endian e \<or> v = w \<or> v < 256 \<and> w < 256"

definition vectors_comparable :: "env \<Rightarrow> UInteger224 \<Rightarrow> UInteger224 \<Rightarrow> bool" where
  "vectors_comparable e a b \<longleftrightarrow>
     u16_comparable e (offsetScaledLogVariance (rootSystemIdentity a))
       (offsetScaledLogVariance (rootSystemIdentity b)) \<and>
     u16_comparable e (stepsRemoved a) (stepsRemoved b) \<and>
     u16_comparable e (portNumber (sourcePortIdentity a)) (portNumber (sourcePortIdentity b)) \<and>
     u16_comparable e (pvPortNumber a) (pvPortNumber b)"

lemma u16_comparable_less:
  "u16_comparable e v w \<Longrightarrow>
   mem_bytes (big_endian e) v < mem_bytes (big_endian e) w \<longleftrightarrow> v < w"
  by (simp add: u16_comparable_def mem_bytes16_less)

lemma uint224_bytes_less_iff:
  assumes "priority_ok a" "priority_ok b" "vectors_comparable e a b"
  shows "uint224_bytes (big_endian e) a < uint224_bytes (big_endian e) b \<longleftrightarrow>
    priority_key a < priority_key b"
  using assms
  by (simp add: uint224_bytes_def uint112_bytes_def priority_key_def Let_def priority_ok_def
      clockid_ok_def vectors_comparable_def list_less_append u16_comparable_less
      mem_bytes_inj unat_less_iff unat_eq_iff)

section \<open>Properties of the comparison\<close>

text \<open>On well-formed vectors the comparison is a strict total order: exactly one of "the
  same", "superior" and "inferior" holds, "the same" means equal vectors, exchanging
  the arguments exchanges superior and inferior, and superiority is transitive.\<close>

theorem compare_priority_vectors_total_order:
  assumes "priority_ok a" "priority_ok b" "priority_ok c"
  shows "(compare_priority_vectors e a b = SAME_PRIORITY \<longleftrightarrow> a = b) \<and>
    (compare_priority_vectors e a b = SUPERIOR_PRIORITY \<longleftrightarrow>
      compare_priority_vectors e b a = INFERIOR_PRIORITY) \<and>
    (compare_priority_vectors e a b = SUPERIOR_PRIORITY \<and>
      compare_priority_vectors e b c = SUPERIOR_PRIORITY \<longrightarrow>
      compare_priority_vectors e a c = SUPERIOR_PRIORITY)"
  using assms pv.same_iff pv.flip pv.trans_superior by blast

definition sample_vector :: "u16 \<Rightarrow> UInteger224" where
  "sample_vector w = (memset_UInteger224 0)\<lparr>rootSystemIdentity :=
     (rootSystemIdentity (memset_UInteger224 0))\<lparr>offsetScaledLogVariance := w\<rparr>\<rparr>"

lemma sample_vector_ok [simp]: "priority_ok (sample_vector w)"
  by (simp add: sample_vector_def priority_ok_def clockid_ok_def memset_UInteger224_def)

theorem compare_priority_vectors_total_order_witness:
  "compare_priority_vectors default_env (sample_vector 1) (sample_vector 2) = SUPERIOR_PRIORITY \<longleftrightarrow>
   compare_priority_vectors default_env (sample_vector 2) (sample_vector 1) = INFERIOR_PRIORITY"
  using compare_priority_vectors_total_order
    [of "sample_vector 1" "sample_vector 2" "sample_vector 3" default_env] by simp

text \<open>C26: The comparison by \<^verbatim>\<open>memcmp\<close> is the order the standard asks for (a lesser number is
  better, earlier components are more significant) on a big-endian host, and on a
  little-endian host whenever the 16-bit components are equal or below 256.\<close>

theorem compare_priority_vectors_numeric:
  assumes "priority_ok a" "priority_ok b" "vectors_comparable e a b"
  shows "compare_priority_vectors e a b = SUPERIOR_PRIORITY \<longleftrightarrow> priority_key a < priority_key b"
  using assms by (simp add: compare_superior_iff uint224_bytes_less_iff)

theorem compare_priority_vectors_numeric_witness:
  "compare_priority_vectors default_env (sample_vector 1) (sample_vector 2) = SUPERIOR_PRIORITY"
proof -
  have "vectors_comparable default_env (sample_vector 1) (sample_vector 2)"
    by (simp add: vectors_comparable_def u16_comparable_def sample_vector_def memset_UInteger224_def)
  moreover have "priority_key (sample_vector 1) < priority_key (sample_vector 2)"
    by (simp add: priority_key_def sample_vector_def memset_UInteger224_def Let_def)
  ultimately show ?thesis
    using compare_priority_vectors_numeric [of "sample_vector 1" "sample_vector 2" default_env] by simp
qed

text \<open>On a little-endian host the comparison is not that order: of two vectors that differ
  only in \<^verbatim>\<open>offsetScaledLogVariance\<close>, the one with \<open>0x0100\<close> is superior to the one with
  \<open>0x00ff\<close>, although its number is greater.\<close>

theorem little_endian_misorders_variance:
  assumes "\<not> big_endian e"
  shows "compare_priority_vectors e (sample_vector 0x0100) (sample_vector 0x00ff) = SUPERIOR_PRIORITY \<and>
    priority_key (sample_vector 0x00ff) < priority_key (sample_vector 0x0100)"
proof
  show "priority_key (sample_vector 0x00ff) < priority_key (sample_vector 0x0100)"
    by (simp add: priority_key_def sample_vector_def memset_UInteger224_def Let_def)
  have "mem_bytes False (0x0100 :: u16) = [0, 1]" "mem_bytes False (0x00ff :: u16) = [0xff, 0]"
    by (simp_all add: mem_bytes16 drop_bit_eq_div)
  then show "compare_priority_vectors e (sample_vector 0x0100) (sample_vector 0x00ff) = SUPERIOR_PRIORITY"
    unfolding compare_superior_iff [OF sample_vector_ok sample_vector_ok]
    using assms by (simp add: uint224_bytes_def uint112_bytes_def
        sample_vector_def memset_UInteger224_def)
qed

theorem little_endian_misorders_variance_witness:
  "compare_priority_vectors default_env (sample_vector 0x0100) (sample_vector 0x00ff) = SUPERIOR_PRIORITY"
  using little_endian_misorders_variance [of default_env] by simp

end
