(* ===== verification/Gptp_Mind.thy ===== *)
theory Gptp_Mind
  imports Gptp_Base Complex_Main
begin

text \<open>
  The media-independent data of the daemon: the global variables that the state
  machines of a domain and of a port share, and the messages in host form
  (\<^verbatim>\<open>mind.h\<close>). An \<^verbatim>\<open>int8_t\<close> is an 8-bit word that is
  read with \<open>sint\<close>. Variables of type \<^verbatim>\<open>double\<close> are reals here; where the code
  computes with them, the rounding is written out.
\<close>

section \<open>Arithmetic of C\<close>

text \<open>The conversion of a \<^verbatim>\<open>double\<close> to an integer type drops the fraction.\<close>

definition c_trunc :: "real \<Rightarrow> int" where
  "c_trunc x = (if x \<ge> 0 then \<lfloor>x\<rfloor> else \<lceil>x\<rceil>)"

text \<open>Division of signed integers rounds towards zero.\<close>

definition c_div :: "int \<Rightarrow> int \<Rightarrow> int" where
  "c_div a b = sgn a * sgn b * (\<bar>a\<bar> div \<bar>b\<bar>)"

section \<open>Constants\<close>

definition MAX_PORT_NUMBER_LIMIT :: nat where
  "MAX_PORT_NUMBER_LIMIT = 33"

definition MAX_PATH_TRACE_N :: nat where
  "MAX_PATH_TRACE_N = 179"

definition VALUE_DISABLED :: u8 where
  "VALUE_DISABLED = 0"

definition VALUE_ENABLED :: u8 where
  "VALUE_ENABLED = 1"

section \<open>Messages\<close>

record PTPMsgHeader =
  majorSdoId :: u8
  messageType :: u8
  minorVersionPTP :: u8
  versionPTP :: u8
  messageLength :: u16
  h_domainNumber :: u8
  minorSdoId :: u8
  flags :: "u8 list"
  correctionField :: u64
  messageTypeSpecific :: "u8 list"
  h_sourcePortIdentity :: PortIdentity
  sequenceId :: u16
  control :: u8
  logMessageInterval :: u8

record ClockQuality =
  q_clockClass :: u8
  q_clockAccuracy :: u8
  q_offsetScaledLogVariance :: u16

record PTPMsgAnnounce =
  header :: PTPMsgHeader
  currentUtcOffset_m :: u16
  grandmasterPriority1 :: u8
  grandmasterClockQuality :: ClockQuality
  grandmasterPriority2 :: u8
  grandmasterIdentity :: ClockIdentity
  stepsRemoved_m :: u16
  timeSource_m :: u8
  tlvType :: u16
  tlvLength :: u16
  pathSequence :: "ClockIdentity list" \<comment> \<open>an array of \<open>MAX_PATH_TRACE_N\<close> identities\<close>

record PTPMsgIntervalRequestTLV =
  ir_tlvType :: u16
  ir_lengthField :: u16
  ir_organizationId :: "u8 list"
  ir_organizationSubType :: u32
  linkDelayInterval :: u8
  timeSyncInterval :: u8
  announceInterval_m :: u8
  ir_flags :: u8

record PTPMsgGPTPCapableTLV =
  gc_tlvType :: u16
  gc_lengthField :: u16
  gc_organizationId :: "u8 list"
  gc_organizationSubType :: u32
  gc_logGptpCapableMessageInterval :: u8
  gc_flags :: u8

definition COMPUTE_NEIGHBOR_RATE_RATIO_BIT :: nat where
  "COMPUTE_NEIGHBOR_RATE_RATIO_BIT = 0"

definition COMPUTE_NEIGHBOR_PROP_DELAY_BIT :: nat where
  "COMPUTE_NEIGHBOR_PROP_DELAY_BIT = 1"

definition ONE_STEP_RECEIVE_CAPABLE_BIT :: nat where
  "ONE_STEP_RECEIVE_CAPABLE_BIT = 2"

section \<open>Variables of a time-aware system\<close>

record PerTimeAwareSystemGlobal =
  BEGIN :: bool
  clockMasterSyncInterval :: UScaledNs
  clockSlaveTime :: ExtendedTimestamp
  syncReceiptTime :: ExtendedTimestamp
  syncReceiptLocalTime :: UScaledNs
  clockSourceFreqOffset :: real
  clockSourcePhaseOffset :: ScaledNs
  clockSourceTimeBaseIndicator :: u16
  clockSourceTimeBaseIndicatorOld :: u16
  clockSourceLastGmPhaseChange :: ScaledNs
  clockSourceLastGmFreqChange :: real
  gmPresent :: bool
  gmRateRatio :: real
  gmTimeBaseIndicator :: u16
  lastGmPhaseChange :: ScaledNs
  lastGmFreqChange :: real
  selectedState :: "PTPPortState list"
  thisClock :: ClockIdentity
  parentLogSyncInterval :: u8
  instanceEnable :: bool
  domainNumber :: u8
  thisClockIndex :: int
  clockMasterLogSyncInterval :: u8
  gm_stable_initdone :: bool
  asCapableOrAll :: bool
  lastSyncSeqID :: u16
  gmIdentity :: ClockIdentity
  conformToAvnu :: bool

section \<open>Variables of a port\<close>

record PerPortGlobalForAllDomain =
  asymmetryMeasurementMode :: bool
  neighborRateRatio :: real
  neighborPropDelay :: UScaledNs
  delayAsymmetry :: UScaledNs
  computeNeighborRateRatio :: bool
  computeNeighborPropDelay :: bool
  portOper :: bool
  useMgtSettableLogAnnounceInterval :: bool
  mgtSettableLogAnnounceInterval :: u8
  useMgtSettableLogPdelayReqInterval :: bool
  mgtSettableLogPdelayReqInterval :: u8
  receivedNonCMLDSPdelayReq :: u8

text \<open>
  \<open>forAllDomain\<close> is a pointer to one structure that the domains of a port share;
  it is held by value here, since every machine modelled works on one domain.
\<close>

record PerPortGlobal =
  asCapable :: bool
  portEventFlags :: u32
  syncReceiptTimeoutTimeInterval :: UScaledNs
  currentLogSyncInterval :: u8
  initialLogSyncInterval :: u8
  syncInterval :: UScaledNs
  ptpPortEnabled :: bool
  thisPort :: u16
  thisPortIndex :: u16
  syncLocked :: bool
  neighborGptpCapable :: bool
  syncSlowdown :: bool
  ppOldAnnounceInterval :: UScaledNs
  forAllDomain :: PerPortGlobalForAllDomain
  syncReceiptTimeout :: u8
  logGptpCapableMessageInterval :: u8
  gPtpCapableReceiptTimeout :: u8
  useMgtSettableLogSyncInterval :: bool
  mgtSettableLogSyncInterval :: u8
  initialOneStepTxOper :: bool
  currentOneStepTxOper :: bool
  useMgtSettableOneStepTxOper :: bool
  mgtSettableOneStepTxOper :: bool

section \<open>Variables of the best master clock algorithm\<close>

record BmcsPerTimeAwareSystemGlobal =
  reselect :: "bool list"
  selected :: "bool list"
  masterStepsRemoved :: u16
  leap61 :: bool
  leap59 :: bool
  currentUtcOffsetValid :: bool
  ptpTimescale :: bool
  timeTraceable :: bool
  frequencyTraceable :: bool
  currentUtcOffset :: u16
  timeSource :: u8
  sysLeap61 :: bool
  sysLeap59 :: bool
  sysCurrentUTCOffsetValid :: bool
  sysPtpTimescale :: bool
  sysTimeTraceable :: bool
  sysFrequencyTraceable :: bool
  sysCurrentUtcOffset :: u16
  sysTimeSource :: u8
  systemPriority :: UInteger224
  gmPriority :: UInteger224
  lastGmPriority :: UInteger224
  pathTraceCount :: u8
  pathTrace :: "ClockIdentity list" \<comment> \<open>an array of \<open>MAX_PATH_TRACE_N\<close> identities\<close>
  externalPortConfiguration :: u8
  bmcsQuickUpdate :: int

datatype (plugins only: code) BmcsInfoIs = Received | Mine | Aged | Disabled

datatype (plugins only: code) BmcsRcvdInfo = RepeatedMasterInfo | SuperiorMasterInfo | InferiorMasterInfo | OtherInfo

text \<open>
  \<open>rcvdAnnouncePtr\<close> points to the buffer of the PortAnnounceReceive machine, which
  is written only together with the pointer; \<open>None\<close> is the null pointer.
\<close>

record BmcsPerPortGlobal =
  announceReceiptTimeoutTimeInterval :: UScaledNs
  announceSlowdown :: bool
  oldAnnounceInterval :: UScaledNs
  infoIs :: BmcsInfoIs
  masterPriority :: UInteger224
  currentLogAnnounceInterval :: u8
  initialLogAnnounceInterval :: u8
  announceInterval :: UScaledNs
  messageStepsRemoved :: u16
  newInfo :: bool
  portPriority :: UInteger224
  portStepsRemoved :: u16
  rcvdAnnouncePtr :: "PTPMsgAnnounce option"
  rcvdMsg :: bool
  updtInfo :: bool
  annLeap61 :: bool
  annLeap59 :: bool
  annCurrentUtcOffsetValid :: bool
  annPtpTimescale :: bool
  annTimeTraceable :: bool
  annFrequencyTraceable :: bool
  annCurrentUtcOffset :: u16
  annTimeSource :: u8
  annPathSequenceCount :: u8
  annPathSequence :: "ClockIdentity list" \<comment> \<open>an array of \<open>MAX_PATH_TRACE_N\<close> identities\<close>
  announceReceiptTimeout :: u8


section \<open>Zeroed memory\<close>

text \<open>What \<^verbatim>\<open>memset(..., 0, sizeof(...))\<close> leaves in each structure.\<close>

definition zero_ExtendedTimestamp :: ExtendedTimestamp where
  "zero_ExtendedTimestamp = \<lparr>fractionalNanoseconds_lsb = 0, fractionalNanoseconds_msb = 0,
     ext_seconds_lsb = 0, ext_seconds_msb = 0\<rparr>"

definition zero_PortIdentity :: PortIdentity where
  "zero_PortIdentity = \<lparr>clockIdentity = zero_clockid, portNumber = 0\<rparr>"

definition zero_PTPMsgHeader :: PTPMsgHeader where
  "zero_PTPMsgHeader = \<lparr>majorSdoId = 0, messageType = 0, minorVersionPTP = 0, versionPTP = 0,
     messageLength = 0, h_domainNumber = 0, minorSdoId = 0, flags = replicate 2 0,
     correctionField = 0, messageTypeSpecific = replicate 4 0,
     h_sourcePortIdentity = zero_PortIdentity, sequenceId = 0, control = 0,
     logMessageInterval = 0\<rparr>"

definition zero_PTPMsgAnnounce :: PTPMsgAnnounce where
  "zero_PTPMsgAnnounce = \<lparr>header = zero_PTPMsgHeader, currentUtcOffset_m = 0, grandmasterPriority1 = 0,
     grandmasterClockQuality = \<lparr>q_clockClass = 0, q_clockAccuracy = 0, q_offsetScaledLogVariance = 0\<rparr>,
     grandmasterPriority2 = 0, grandmasterIdentity = zero_clockid, stepsRemoved_m = 0,
     timeSource_m = 0, tlvType = 0, tlvLength = 0,
     pathSequence = replicate MAX_PATH_TRACE_N zero_clockid\<rparr>"

definition zero_PerTimeAwareSystemGlobal :: PerTimeAwareSystemGlobal where
  "zero_PerTimeAwareSystemGlobal = \<lparr>BEGIN = False, clockMasterSyncInterval = zero_UScaledNs,
     clockSlaveTime = zero_ExtendedTimestamp,
     syncReceiptTime = zero_ExtendedTimestamp, syncReceiptLocalTime = zero_UScaledNs,
     clockSourceFreqOffset = 0, clockSourcePhaseOffset = zero_ScaledNs,
     clockSourceTimeBaseIndicator = 0, clockSourceTimeBaseIndicatorOld = 0,
     clockSourceLastGmPhaseChange = zero_ScaledNs, clockSourceLastGmFreqChange = 0,
     gmPresent = False, gmRateRatio = 0, gmTimeBaseIndicator = 0,
     lastGmPhaseChange = zero_ScaledNs, lastGmFreqChange = 0,
     selectedState = replicate MAX_PORT_NUMBER_LIMIT PortStateUnset,
     thisClock = zero_clockid, parentLogSyncInterval = 0, instanceEnable = False,
     domainNumber = 0, thisClockIndex = 0, clockMasterLogSyncInterval = 0,
     gm_stable_initdone = False, asCapableOrAll = False, lastSyncSeqID = 0,
     gmIdentity = zero_clockid, conformToAvnu = False\<rparr>"

definition zero_PerPortGlobalForAllDomain :: PerPortGlobalForAllDomain where
  "zero_PerPortGlobalForAllDomain = \<lparr>asymmetryMeasurementMode = False, neighborRateRatio = 0,
     neighborPropDelay = zero_UScaledNs, delayAsymmetry = zero_UScaledNs,
     computeNeighborRateRatio = False, computeNeighborPropDelay = False,
     portOper = False, useMgtSettableLogAnnounceInterval = False,
     mgtSettableLogAnnounceInterval = 0, useMgtSettableLogPdelayReqInterval = False,
     mgtSettableLogPdelayReqInterval = 0, receivedNonCMLDSPdelayReq = 0\<rparr>"

definition zero_PerPortGlobal :: PerPortGlobal where
  "zero_PerPortGlobal = \<lparr>asCapable = False, portEventFlags = 0, syncReceiptTimeoutTimeInterval = zero_UScaledNs,
     currentLogSyncInterval = 0, initialLogSyncInterval = 0,
     syncInterval = zero_UScaledNs, ptpPortEnabled = False, thisPort = 0,
     thisPortIndex = 0, syncLocked = False, neighborGptpCapable = False,
     syncSlowdown = False, ppOldAnnounceInterval = zero_UScaledNs,
     forAllDomain = zero_PerPortGlobalForAllDomain, syncReceiptTimeout = 0,
     logGptpCapableMessageInterval = 0, gPtpCapableReceiptTimeout = 0,
     useMgtSettableLogSyncInterval = False, mgtSettableLogSyncInterval = 0,
     initialOneStepTxOper = False, currentOneStepTxOper = False,
     useMgtSettableOneStepTxOper = False, mgtSettableOneStepTxOper = False\<rparr>"

definition zero_BmcsPerTimeAwareSystemGlobal :: BmcsPerTimeAwareSystemGlobal where
  "zero_BmcsPerTimeAwareSystemGlobal = \<lparr>reselect = replicate MAX_PORT_NUMBER_LIMIT False,
     selected = replicate MAX_PORT_NUMBER_LIMIT False, masterStepsRemoved = 0,
     leap61 = False, leap59 = False, currentUtcOffsetValid = False,
     ptpTimescale = False, timeTraceable = False, frequencyTraceable = False,
     currentUtcOffset = 0, timeSource = 0, sysLeap61 = False, sysLeap59 = False,
     sysCurrentUTCOffsetValid = False, sysPtpTimescale = False,
     sysTimeTraceable = False, sysFrequencyTraceable = False, sysCurrentUtcOffset = 0,
     sysTimeSource = 0, systemPriority = memset_UInteger224 0,
     gmPriority = memset_UInteger224 0, lastGmPriority = memset_UInteger224 0,
     pathTraceCount = 0, pathTrace = replicate MAX_PATH_TRACE_N zero_clockid,
     externalPortConfiguration = 0, bmcsQuickUpdate = 0\<rparr>"

definition zero_BmcsPerPortGlobal :: BmcsPerPortGlobal where
  "zero_BmcsPerPortGlobal = \<lparr>announceReceiptTimeoutTimeInterval = zero_UScaledNs, announceSlowdown = False,
     oldAnnounceInterval = zero_UScaledNs, infoIs = Received,
     masterPriority = memset_UInteger224 0, currentLogAnnounceInterval = 0,
     initialLogAnnounceInterval = 0, announceInterval = zero_UScaledNs,
     messageStepsRemoved = 0, newInfo = False, portPriority = memset_UInteger224 0,
     portStepsRemoved = 0, rcvdAnnouncePtr = None, rcvdMsg = False, updtInfo = False,
     annLeap61 = False, annLeap59 = False, annCurrentUtcOffsetValid = False,
     annPtpTimescale = False, annTimeTraceable = False, annFrequencyTraceable = False,
     annCurrentUtcOffset = 0, annTimeSource = 0, annPathSequenceCount = 0,
     annPathSequence = replicate MAX_PATH_TRACE_N zero_clockid,
     announceReceiptTimeout = 0\<rparr>"

end
