(* ===== verification/Gptp_MindInit.thy ===== *)
theory Gptp_MindInit
  imports Gptp_Mind
begin

text \<open>
  The initialisation of the shared variables (\<^verbatim>\<open>mind.c\<close>), with the parser for the
  list of enabled ports.
\<close>

section \<open>Initialisation\<close>

text \<open>
  The \<^verbatim>\<open>_init\<close> functions allocate a structure if there is none, clear it, and set
  the members that do not start at zero; allocation failure aborts the daemon
  (\<^verbatim>\<open>ub_assert\<close>) and has no value here.
\<close>

definition ptas_glb_init :: "env \<Rightarrow> u8 \<Rightarrow> PerTimeAwareSystemGlobal" where
  "ptas_glb_init e dn = zero_PerTimeAwareSystemGlobal
     \<lparr>BEGIN := False,
      clockMasterLogSyncInterval := of_int (conf e CONF_LOG_SYNC_INTERVAL),
      clockMasterSyncInterval := zero_UScaledNs
        \<lparr>nsec := LOG_TO_NSEC e (conf e CONF_LOG_SYNC_INTERVAL)\<rparr>,
      instanceEnable := True,
      domainNumber := dn,
      gmRateRatio := 1,
      conformToAvnu := conf e CONF_FOLLOW_AVNU \<noteq> 0\<rparr>"

text \<open>
  \<^verbatim>\<open>get_pp_ptpPortEnabled\<close> walks to the comma-separated field of the port with
  \<^verbatim>\<open>strstr\<close> and reads it with \<^verbatim>\<open>strtol\<close> in base 10: white space, an optional sign,
  digits. The result is true if that number is not zero; a port without a field
  is enabled.
\<close>

primrec skip_fields :: "nat \<Rightarrow> string \<Rightarrow> string option" where
  "skip_fields 0 p = Some p"
| "skip_fields (Suc n) p =
     (case dropWhile (\<lambda>c. c \<noteq> CHR '','') p of [] \<Rightarrow> None | _ # q \<Rightarrow> skip_fields n q)"

definition c_isspace :: "char \<Rightarrow> bool" where
  "c_isspace c \<longleftrightarrow> c = CHR '' '' \<or> c \<in> {CHR 0x09, CHR 0x0A, CHR 0x0B, CHR 0x0C, CHR 0x0D}"

definition c_isdigit :: "char \<Rightarrow> bool" where
  "c_isdigit c \<longleftrightarrow> c \<in> set ''0123456789''"

definition strtol_nonzero :: "string \<Rightarrow> bool" where
  "strtol_nonzero p =
     (let q = dropWhile c_isspace p;
          r = (case q of c # t \<Rightarrow> if c = CHR ''-'' \<or> c = CHR ''+'' then t else q | [] \<Rightarrow> q)
      in list_ex (\<lambda>c. c \<noteq> CHR ''0'') (takeWhile c_isdigit r))"

definition get_pp_ptpPortEnabled :: "env \<Rightarrow> u16 \<Rightarrow> bool" where
  "get_pp_ptpPortEnabled e portIndex =
     (if portIndex > 0 then
        (case skip_fields (unat portIndex - 1) (ptp_port_enabled_str e) of
           None \<Rightarrow> True
         | Some p \<Rightarrow> strtol_nonzero p)
      else True)"

definition pp_glb_init ::
  "env \<Rightarrow> PerPortGlobalForAllDomain option \<Rightarrow> u16 \<Rightarrow> PerPortGlobal" where
  "pp_glb_init e fad portIndex =
     (let si = LOG_TO_NSEC e (conf e CONF_LOG_SYNC_INTERVAL) in
      zero_PerPortGlobal
      \<lparr>forAllDomain := (case fad of
           Some f \<Rightarrow> f
         | None \<Rightarrow> zero_PerPortGlobalForAllDomain
             \<lparr>asymmetryMeasurementMode := False, portOper := False,
              computeNeighborRateRatio := True, computeNeighborPropDelay := True,
              useMgtSettableLogAnnounceInterval := False,
              mgtSettableLogAnnounceInterval := of_int (conf e CONF_LOG_ANNOUNCE_INTERVAL),
              useMgtSettableLogPdelayReqInterval := False,
              mgtSettableLogPdelayReqInterval := of_int (conf e CONF_LOG_PDELAYREQ_INTERVAL)\<rparr>),
       useMgtSettableLogSyncInterval := False,
       asCapable := False,
       currentLogSyncInterval := of_int (conf e CONF_LOG_SYNC_INTERVAL),
       initialLogSyncInterval := of_int (conf e CONF_LOG_SYNC_INTERVAL),
       syncReceiptTimeout := of_int (conf e CONF_SYNC_RECEIPT_TIMEOUT),
       syncInterval := zero_UScaledNs\<lparr>nsec := si\<rparr>,
       syncReceiptTimeoutTimeInterval := zero_UScaledNs
         \<lparr>nsec := of_int (conf e CONF_SYNC_RECEIPT_TIMEOUT) * si\<rparr>,
       ptpPortEnabled := get_pp_ptpPortEnabled e portIndex,
       thisPort := portIndex,
       thisPortIndex := portIndex,
       syncLocked := False,
       neighborGptpCapable := False,
       syncSlowdown := False,
       logGptpCapableMessageInterval := of_int (conf e CONF_LOG_GPTP_CAPABLE_MESSAGE_INTERVAL),
       gPtpCapableReceiptTimeout := of_int (conf e CONF_GPTP_CAPABLE_RECEIPT_TIMEOUT),
       useMgtSettableOneStepTxOper := True,
       mgtSettableOneStepTxOper := False,
       initialOneStepTxOper := False,
       currentOneStepTxOper := False\<rparr>)"

definition bmcs_ptas_glb_init :: "env \<Rightarrow> BmcsPerTimeAwareSystemGlobal" where
  "bmcs_ptas_glb_init e = zero_BmcsPerTimeAwareSystemGlobal
     \<lparr>externalPortConfiguration := of_int (conf e CONF_EXTERNAL_PORT_CONFIGURATION),
      bmcsQuickUpdate := conf e CONF_BMCS_QUICK_UPDATE_MODE\<rparr>"

definition bmcs_ptas_glb_update ::
  "env \<Rightarrow> BmcsPerTimeAwareSystemGlobal \<Rightarrow> PerTimeAwareSystemGlobal \<Rightarrow> bool \<Rightarrow>
   BmcsPerTimeAwareSystemGlobal" where
  "bmcs_ptas_glb_update e b pt primary =
     (let b1 = b\<lparr>sysLeap61 := False, sysLeap59 := False, sysCurrentUTCOffsetValid := False,
                sysPtpTimescale := conf e CONF_TIMESCALE_PTP \<noteq> 0,
                sysTimeTraceable := False, sysFrequencyTraceable := False\<rparr>;
          b2 = (if sysPtpTimescale b1 then b1\<lparr>sysCurrentUtcOffset := 37\<rparr> else b1);
          root = (if primary
            then \<lparr>priority1 = of_int (conf e CONF_PRIMARY_PRIORITY1),
                  clockClass = of_int (conf e CONF_PRIMARY_CLOCK_CLASS),
                  clockAccuracy = of_int (conf e CONF_PRIMARY_CLOCK_ACCURACY),
                  offsetScaledLogVariance =
                    of_int (conf e CONF_PRIMARY_OFFSET_SCALED_LOG_VARIANCE),
                  priority2 = of_int (conf e CONF_PRIMARY_PRIORITY2),
                  rootClockIdentity = thisClock pt\<rparr>
            else \<lparr>priority1 = of_int (conf e CONF_SECONDARY_PRIORITY1),
                  clockClass = of_int (conf e CONF_SECONDARY_CLOCK_CLASS),
                  clockAccuracy = of_int (conf e CONF_SECONDARY_CLOCK_ACCURACY),
                  offsetScaledLogVariance =
                    of_int (conf e CONF_SECONDARY_OFFSET_SCALED_LOG_VARIANCE),
                  priority2 = of_int (conf e CONF_SECONDARY_PRIORITY2),
                  rootClockIdentity = thisClock pt\<rparr>)
      in b2\<lparr>sysTimeSource := of_int (conf e CONF_TIME_SOURCE),
            systemPriority :=
              \<lparr>rootSystemIdentity = root, stepsRemoved = 0,
               sourcePortIdentity = \<lparr>clockIdentity = thisClock pt, portNumber = 0\<rparr>,
               pvPortNumber = 0\<rparr>\<rparr>)"

definition bmcs_pp_glb_init :: "env \<Rightarrow> BmcsPerPortGlobal" where
  "bmcs_pp_glb_init e = zero_BmcsPerPortGlobal
     \<lparr>infoIs := Disabled,
      initialLogAnnounceInterval := of_int (conf e CONF_INITIAL_LOG_ANNOUNCE_INTERVAL),
      announceReceiptTimeout := of_int (conf e CONF_ANNOUNCE_RECEIPT_TIMEOUT)\<rparr>"


section \<open>Facts about the initial values\<close>

text \<open>A string of comma-separated fields.\<close>

fun comma_join :: "string list \<Rightarrow> string" where
  "comma_join [] = []"
| "comma_join [f] = f"
| "comma_join (f # g # fs) = f @ CHR '','' # comma_join (g # fs)"

lemma skip_fields_comma_join:
  assumes "\<forall>f \<in> set fs. CHR '','' \<notin> set f" and "fs \<noteq> []"
  shows "skip_fields k (comma_join fs) =
    (if k < length fs then Some (comma_join (drop k fs)) else None)"
  using assms
proof (induction k arbitrary: fs)
  case 0
  then show ?case by simp
next
  case (Suc k)
  have nocomma: "dropWhile (\<lambda>c. c \<noteq> CHR '','') f = []" if "CHR '','' \<notin> set f" for f
    using that by (auto simp: dropWhile_eq_Nil_conv)
  have first: "dropWhile (\<lambda>c. c \<noteq> CHR '','') (f @ CHR '','' # r) = CHR '','' # r"
    if "CHR '','' \<notin> set f" for f r
    using that by (subst dropWhile_append2) auto
  from Suc.prems(2) show ?case
  proof (cases fs rule: comma_join.cases)
    case (2 f)
    then show ?thesis using Suc.prems(1) by (simp add: nocomma)
  next
    case (3 f g gs)
    then show ?thesis using Suc.prems(1) Suc.IH [of "g # gs"] by (simp add: first)
  qed simp
qed

lemma not_digit_comma [simp]: "\<not> c_isdigit CHR '',''"
  by (simp add: c_isdigit_def)

lemma takeWhile_comma:
  "CHR '','' \<notin> set f \<Longrightarrow> (\<forall>c \<in> set f. c_isdigit c) \<Longrightarrow>
   takeWhile c_isdigit (f @ CHR '','' # r) = f"
  by (subst takeWhile_append2) auto

lemma digits_plain:
  assumes "\<forall>c \<in> set f. c_isdigit c" and "f \<noteq> []"
  shows "strtol_nonzero (f @ CHR '','' # r) = list_ex (\<lambda>c. c \<noteq> CHR ''0'') f"
    and "strtol_nonzero f = list_ex (\<lambda>c. c \<noteq> CHR ''0'') f"
proof -
  obtain c t where f: "f = c # t" using assms(2) by (cases f) auto
  have "c_isdigit c" using assms(1) f by simp
  then have c: "\<not> c_isspace c" "c \<noteq> CHR ''-''" "c \<noteq> CHR ''+''"
    by (auto simp: c_isdigit_def c_isspace_def)
  have "CHR '','' \<notin> set f" using assms(1) not_digit_comma by blast
  then have "takeWhile c_isdigit (f @ CHR '','' # r) = f"
    using assms(1) by (rule takeWhile_comma)
  moreover have "strtol_nonzero (f @ s) =
      list_ex (\<lambda>c. c \<noteq> CHR ''0'') (takeWhile c_isdigit (f @ s))" for s
    using c by (simp add: strtol_nonzero_def Let_def f del: takeWhile.simps)
  ultimately show "strtol_nonzero (f @ CHR '','' # r) = list_ex (\<lambda>c. c \<noteq> CHR ''0'') f"
    by simp
  have "takeWhile c_isdigit f = f" using assms(1) by (simp add: takeWhile_eq_all_conv)
  moreover have "strtol_nonzero f = list_ex (\<lambda>c. c \<noteq> CHR ''0'') (takeWhile c_isdigit f)"
    using c by (simp add: strtol_nonzero_def Let_def f del: takeWhile.simps)
  ultimately show "strtol_nonzero f = list_ex (\<lambda>c. c \<noteq> CHR ''0'') f" by metis
qed

lemma comma_join_head:
  "fs \<noteq> [] \<Longrightarrow> comma_join fs = hd fs \<or> (\<exists>r. comma_join fs = hd fs @ CHR '','' # r)"
  by (cases fs rule: comma_join.cases) auto

text \<open>Port \<open>i\<close> of the daemon is enabled exactly if the \<open>i\<close>-th of the comma-separated
  numbers of \<^verbatim>\<open>CONF_PTP_PORT_ENABLED\<close> is not zero; ports beyond the list, and the
  local port 0, are enabled.\<close>

theorem ptpPortEnabled_field:
  assumes "ptp_port_enabled_str e = comma_join fs" and "fs \<noteq> []"
    and "\<forall>f \<in> set fs. f \<noteq> [] \<and> (\<forall>c \<in> set f. c_isdigit c)"
  shows "get_pp_ptpPortEnabled e i \<longleftrightarrow>
    i = 0 \<or> length fs < unat i \<or> list_ex (\<lambda>c. c \<noteq> CHR ''0'') (fs ! (unat i - 1))"
proof (cases "i = 0 \<or> length fs < unat i")
  case True
  have nc: "\<forall>f \<in> set fs. CHR '','' \<notin> set f" using assms(3) not_digit_comma by blast
  show ?thesis
    using True assms(1) skip_fields_comma_join [OF nc assms(2), of "unat i - 1"]
    by (auto simp: get_pp_ptpPortEnabled_def)
next
  case False
  let ?k = "unat i - 1" and ?f = "fs ! (unat i - 1)"
  have i: "0 < i" "?k < length fs"
    using False unat_gt_0 [of i] by (auto simp: word_neq_0_conv)
  have nc: "\<forall>f \<in> set fs. CHR '','' \<notin> set f" using assms(3) not_digit_comma by blast
  have skip: "skip_fields ?k (ptp_port_enabled_str e) = Some (comma_join (drop ?k fs))"
    using skip_fields_comma_join [OF nc assms(2), of ?k] i assms(1) by simp
  have f: "?f \<noteq> []" "\<forall>c \<in> set ?f. c_isdigit c"
    using assms(3) nth_mem [OF i(2)] by blast+
  have "comma_join (drop ?k fs) = ?f \<or> (\<exists>r. comma_join (drop ?k fs) = ?f @ CHR '','' # r)"
    using comma_join_head [of "drop ?k fs"] i(2) by (simp only: hd_drop_conv_nth) simp
  then have "strtol_nonzero (comma_join (drop ?k fs)) = list_ex (\<lambda>c. c \<noteq> CHR ''0'') ?f"
    using digits_plain [OF f(2,1)] by metis
  then have "get_pp_ptpPortEnabled e i = list_ex (\<lambda>c. c \<noteq> CHR ''0'') ?f"
    using i(1) by (simp only: get_pp_ptpPortEnabled_def skip if_True option.case)
  with False show ?thesis by blast
qed

theorem ptpPortEnabled_field_witness:
  "\<not> get_pp_ptpPortEnabled (default_env\<lparr>ptp_port_enabled_str := ''1,0,1''\<rparr>) 2"
  using ptpPortEnabled_field
    [of "default_env\<lparr>ptp_port_enabled_str := ''1,0,1''\<rparr>" "[''1'', ''0'', ''1'']" 2]
  by (simp add: c_isdigit_def)

lemma systemPriority_ok:
  "clockid_ok (thisClock pt) \<Longrightarrow> priority_ok (systemPriority (bmcs_ptas_glb_update e b pt pr))"
  by (simp add: bmcs_ptas_glb_update_def Let_def priority_ok_def)

end
