(* ===== verification/Gptp_Machines.thy ===== *)
theory Gptp_Machines
  imports Gptp_Mind
begin

text \<open>
  What the structures of the state machines have in common: the pointers to the
  shared variables. A machine holds the structures its pointers lead to, and the
  daemon copies them from machine to machine when it runs one after the other.
\<close>

record 'st dom_sm = "'st sm_core" +
  ptasg :: PerTimeAwareSystemGlobal

record 'st port_sm = "'st dom_sm" +
  ppg :: PerPortGlobal

record 'st bmcs_sm = "'st port_sm" +
  bptasg :: BmcsPerTimeAwareSystemGlobal
  bppg :: BmcsPerPortGlobal
  portIndex :: nat

abbreviation PORT_OPER :: "('st, 'a) port_sm_scheme \<Rightarrow> bool" where
  "PORT_OPER sm \<equiv> portOper (forAllDomain (ppg sm))"

abbreviation PTP_PORT_ENABLED :: "('st, 'a) port_sm_scheme \<Rightarrow> bool" where
  "PTP_PORT_ENABLED sm \<equiv> ptpPortEnabled (ppg sm)"

abbreviation AS_CAPABLE :: "('st, 'a) port_sm_scheme \<Rightarrow> bool" where
  "AS_CAPABLE sm \<equiv> asCapable (ppg sm)"

text \<open>The port takes part in the protocol.\<close>

definition port_active :: "PerPortGlobal \<Rightarrow> bool" where
  "port_active p \<longleftrightarrow> portOper (forAllDomain p) \<and> ptpPortEnabled p \<and> asCapable p"

text \<open>The time-aware system is running: initialised and enabled.\<close>

definition tas_running :: "PerTimeAwareSystemGlobal \<Rightarrow> bool" where
  "tas_running t \<longleftrightarrow> \<not> BEGIN t \<and> instanceEnable t"

text \<open>
  Copying the path of an Announce message and appending this clock, as two machines
  do it: the first \<open>N\<close> identities of the path, this clock, and the rest of the array
  as it was.
\<close>

definition append_path ::
  "nat \<Rightarrow> ClockIdentity list \<Rightarrow> ClockIdentity \<Rightarrow> ClockIdentity list \<Rightarrow> ClockIdentity list" where
  "append_path N path self trace = take N path @ self # drop (N + 1) trace"

lemma unat_of_nat_u8: "n < 256 \<Longrightarrow> unat (of_nat n :: u8) = n"
  by (simp add: unsigned_of_nat take_bit_nat_eq_self)

lemma length_append_path [simp]:
  "N < length trace \<Longrightarrow> N \<le> length path \<Longrightarrow> length (append_path N path self trace) = length trace"
  by (simp add: append_path_def)

lemma take_append_path:
  "N \<le> length path \<Longrightarrow> take (Suc N) (append_path N path self trace) = take N path @ [self]"
  by (simp add: append_path_def)


section \<open>Sample values\<close>

text \<open>
  Concrete shared variables, a running system with an active port, at which the
  theorems about the machines are instantiated.
\<close>

definition sample_clock :: ClockIdentity where
  "sample_clock = [0x00, 0x11, 0x22, 0xff, 0xfe, 0x33, 0x44, 0x55]"

definition sample_peer :: ClockIdentity where
  "sample_peer = [0x00, 0x66, 0x77, 0xff, 0xfe, 0x88, 0x99, 0xaa]"

definition sample_ptasg :: PerTimeAwareSystemGlobal where
  "sample_ptasg = zero_PerTimeAwareSystemGlobal
     \<lparr>instanceEnable := True, thisClock := sample_clock, gmRateRatio := 1\<rparr>"

definition sample_ppg :: PerPortGlobal where
  "sample_ppg = zero_PerPortGlobal
     \<lparr>asCapable := True, ptpPortEnabled := True, thisPort := 1, thisPortIndex := 1,
      forAllDomain := zero_PerPortGlobalForAllDomain\<lparr>portOper := True\<rparr>\<rparr>"

definition sample_announce :: PTPMsgAnnounce where
  "sample_announce = zero_PTPMsgAnnounce
     \<lparr>header := zero_PTPMsgHeader\<lparr>h_sourcePortIdentity :=
        \<lparr>clockIdentity = sample_peer, portNumber = 1\<rparr>\<rparr>,
      grandmasterPriority1 := 100, grandmasterIdentity := sample_peer,
      tlvType := 8, tlvLength := 8,
      pathSequence := sample_peer # replicate 178 zero_clockid\<rparr>"

lemma sample_running [simp]: "tas_running sample_ptasg"
  by (simp add: tas_running_def sample_ptasg_def zero_PerTimeAwareSystemGlobal_def)

lemma sample_active [simp]: "port_active sample_ppg"
  by (simp add: port_active_def sample_ppg_def zero_PerPortGlobalForAllDomain_def)

lemma sample_clock_ok [simp]: "clockid_ok sample_clock" "clockid_ok sample_peer"
  by (simp_all add: clockid_ok_def sample_clock_def sample_peer_def)

lemma sample_clock_neq [simp]: "sample_peer \<noteq> sample_clock" "sample_clock \<noteq> sample_peer"
  by (simp_all add: sample_clock_def sample_peer_def)

end
