(* ===== verification/Gptp_AnnounceReceive.thy ===== *)
theory Gptp_AnnounceReceive
  imports Gptp_Machines
begin

text \<open>
  The PortAnnounceReceive machine (\<^verbatim>\<open>port_announce_receive_sm.c\<close>, 10.3.10 of the
  standard): it decides whether a received Announce message is qualified, and
  records the path it came by.
\<close>

section \<open>State and procedures\<close>

datatype (plugins only: code) par_state = PAR_INIT | PAR_DISCARD | PAR_RECEIVE | PAR_REACTION

record port_announce_receive_data = "par_state bmcs_sm" +
  rcvdAnnounce :: bool

text \<open>
  \<^verbatim>\<open>qualifyAnnounce\<close>; \<open>None\<close> is the access through a null \<^verbatim>\<open>RCVD_ANNOUNCE_PTR\<close>. The
  result is the verdict and the system variables, whose path trace it may write.
\<close>

definition announce_path_length :: "PTPMsgAnnounce \<Rightarrow> nat" where
  "announce_path_length a =
     (if unat (tlvLength a) div 8 < MAX_PATH_TRACE_N then unat (tlvLength a) div 8
      else MAX_PATH_TRACE_N)"

definition qualifyAnnounce ::
  "port_announce_receive_data \<Rightarrow> (bool \<times> port_announce_receive_data) option" where
  "qualifyAnnounce sm =
     (case rcvdAnnouncePtr (bppg sm) of
        None \<Rightarrow> None
      | Some a \<Rightarrow>
          let self = thisClock (ptasg sm); b = bptasg sm; N = announce_path_length a in
          if clockIdentity (h_sourcePortIdentity (header a)) = self then Some (False, sm)
          else if 255 \<le> stepsRemoved_m a then Some (False, sm)
          else if tlvType a = 0x8 then
            (if list_ex (\<lambda>c. c = self) (take N (pathSequence a)) then Some (False, sm)
             else if selectedState (ptasg sm) ! unat (thisPortIndex (ppg sm)) = SlavePort then
               (if N + 1 \<le> MAX_PATH_TRACE_N
                then Some (True, sm\<lparr>bptasg :=
                       b\<lparr>pathTrace := append_path N (pathSequence a) self (pathTrace b),
                         pathTraceCount := of_nat (N + 1)\<rparr>\<rparr>)
                else Some (True, sm\<lparr>bptasg := b\<lparr>pathTraceCount := 0\<rparr>\<rparr>))
             else Some (True, sm))
          else Some (True, sm\<lparr>bptasg :=
                 b\<lparr>pathTrace := replicate MAX_PATH_TRACE_N zero_clockid\<rparr>\<rparr>))"

definition par_allstate_condition :: "port_announce_receive_data \<Rightarrow> par_state" where
  "par_allstate_condition sm =
     (if (BEGIN (ptasg sm) \<or> \<not> instanceEnable (ptasg sm) \<or>
          (rcvdAnnounce sm \<and> (\<not> PORT_OPER sm \<or> \<not> PTP_PORT_ENABLED sm \<or> \<not> AS_CAPABLE sm))) \<and>
         externalPortConfiguration (bptasg sm) = VALUE_DISABLED
      then PAR_DISCARD else state sm)"

definition par_discard_proc :: "port_announce_receive_data \<Rightarrow> port_announce_receive_data" where
  "par_discard_proc sm = sm\<lparr>rcvdAnnounce := False, bppg := (bppg sm)\<lparr>rcvdMsg := False\<rparr>\<rparr>"

definition par_discard_condition :: "port_announce_receive_data \<Rightarrow> par_state" where
  "par_discard_condition sm =
     (if rcvdAnnounce sm \<and> PORT_OPER sm \<and> PTP_PORT_ENABLED sm \<and> AS_CAPABLE sm
      then PAR_RECEIVE else PAR_DISCARD)"

definition par_receive_proc ::
  "port_announce_receive_data \<Rightarrow> port_announce_receive_data option" where
  "par_receive_proc sm =
     (case qualifyAnnounce (sm\<lparr>rcvdAnnounce := False\<rparr>) of
        None \<Rightarrow> None
      | Some (q, sm') \<Rightarrow> Some (sm'\<lparr>bppg := (bppg sm')\<lparr>rcvdMsg := q\<rparr>\<rparr>))"

definition par_receive_condition :: "port_announce_receive_data \<Rightarrow> par_state" where
  "par_receive_condition sm =
     (if rcvdAnnounce sm \<and> PORT_OPER sm \<and> PTP_PORT_ENABLED sm \<and> AS_CAPABLE sm \<and>
         \<not> rcvdMsg (bppg sm)
      then PAR_RECEIVE else state sm)"

section \<open>The machine\<close>

definition par_body ::
  "bool \<Rightarrow> port_announce_receive_data \<Rightarrow> port_announce_receive_data \<times> unit ctl" where
  "par_body state_change sm =
     (case state sm of
        PAR_INIT \<Rightarrow> (sm\<lparr>state := PAR_DISCARD\<rparr>, Next)
      | PAR_DISCARD \<Rightarrow>
          let sm1 = (if state_change then par_discard_proc sm else sm)
          in (sm1\<lparr>state := par_discard_condition sm1\<rparr>, Next)
      | PAR_RECEIVE \<Rightarrow>
          (case (if state_change then par_receive_proc sm else Some sm) of
             None \<Rightarrow> (sm, Crash)
           | Some sm1 \<Rightarrow> (sm1\<lparr>state := par_receive_condition sm1\<rparr>, Next))
      | PAR_REACTION \<Rightarrow> (sm, Next))"

definition port_announce_receive_sm ::
  "port_announce_receive_data \<Rightarrow> (port_announce_receive_data \<times> unit ctl) option" where
  "port_announce_receive_sm sm = sm_loop par_body (sm\<lparr>state := par_allstate_condition sm\<rparr>)"

definition port_announce_receive_sm_init ::
  "nat \<Rightarrow> PerTimeAwareSystemGlobal \<Rightarrow> PerPortGlobal \<Rightarrow> BmcsPerTimeAwareSystemGlobal \<Rightarrow>
   BmcsPerPortGlobal \<Rightarrow> (port_announce_receive_data \<times> unit ctl) option" where
  "port_announce_receive_sm_init pidx pt pp bt bp =
     port_announce_receive_sm
       \<lparr>state = PAR_INIT, last_state = PAR_INIT, ptasg = pt, ppg = pp, bptasg = bt, bppg = bp,
        portIndex = pidx, rcvdAnnounce = False\<rparr>"

definition port_announce_receive_sm_recv_announce ::
  "port_announce_receive_data \<Rightarrow> PTPMsgAnnounce \<Rightarrow>
   (port_announce_receive_data \<times> unit ctl) option" where
  "port_announce_receive_sm_recv_announce sm a =
     port_announce_receive_sm
       (sm\<lparr>rcvdAnnounce := True, bppg := (bppg sm)\<lparr>rcvdAnnouncePtr := Some a\<rparr>,
          last_state := PAR_DISCARD\<rparr>)"


section \<open>The contract of the machine\<close>

text \<open>A message is pending, or about to be looked at, only with a pointer to it.\<close>

definition par_inv :: "port_announce_receive_data \<Rightarrow> bool" where
  "par_inv sm \<longleftrightarrow>
     (rcvdAnnounce sm \<or> state sm = PAR_RECEIVE \<and> last_state sm \<noteq> PAR_RECEIVE \<longrightarrow>
      rcvdAnnouncePtr (bppg sm) \<noteq> None)"

definition par_rank :: "port_announce_receive_data \<Rightarrow> nat" where
  "par_rank sm = (case state sm of PAR_INIT \<Rightarrow> 2 | PAR_DISCARD \<Rightarrow> 1 | _ \<Rightarrow> 0)"

text \<open>What a qualified message is, read off the standard's 10.3.11.2.1.\<close>

definition announce_qualified :: "ClockIdentity \<Rightarrow> PTPMsgAnnounce \<Rightarrow> bool" where
  "announce_qualified self a \<longleftrightarrow>
     clockIdentity (h_sourcePortIdentity (header a)) \<noteq> self \<and>
     stepsRemoved_m a < 255 \<and>
     (tlvType a = 0x8 \<longrightarrow> self \<notin> set (take (announce_path_length a) (pathSequence a)))"

lemma qualifyAnnounce_cases:
  assumes "rcvdAnnouncePtr (bppg sm) = Some a"
  shows "\<exists>b. qualifyAnnounce sm =
    Some (announce_qualified (thisClock (ptasg sm)) a, sm\<lparr>bptasg := b\<rparr>)"
proof -
  have self: "\<exists>b. sm = sm\<lparr>bptasg := b\<rparr>" by (rule exI [of _ "bptasg sm"]) simp
  show ?thesis
    using assms
    by (auto simp: self qualifyAnnounce_def announce_qualified_def Let_def list_ex_iff not_le
        linorder_not_less split: if_splits)
qed

lemma par_receive_proc_cases:
  assumes "rcvdAnnouncePtr (bppg sm) = Some a"
  shows "\<exists>b. par_receive_proc sm = Some (sm\<lparr>rcvdAnnounce := False, bptasg := b,
     bppg := (bppg sm)\<lparr>rcvdMsg := announce_qualified (thisClock (ptasg sm)) a\<rparr>\<rparr>)"
  using qualifyAnnounce_cases [of "sm\<lparr>rcvdAnnounce := False\<rparr>" a] assms
  by (auto simp: par_receive_proc_def)

lemma par_receive_proc_Some:
  "par_receive_proc sm = Some sm' \<Longrightarrow>
   state sm' = state sm \<and> last_state sm' = last_state sm \<and> \<not> rcvdAnnounce sm' \<and>
   ptasg sm' = ptasg sm \<and> ppg sm' = ppg sm \<and>
   rcvdAnnouncePtr (bppg sm') = rcvdAnnouncePtr (bppg sm) \<and> rcvdAnnouncePtr (bppg sm) \<noteq> None"
  using par_receive_proc_cases [of sm]
  by (cases "rcvdAnnouncePtr (bppg sm)") (auto simp: par_receive_proc_def qualifyAnnounce_def)

lemmas par_defs = par_body_def par_discard_proc_def par_discard_condition_def
  par_receive_condition_def par_allstate_condition_def

interpretation par: sm_safe par_body par_inv par_rank
proof unfold_locales
  fix s s' c
  assume inv: "par_inv s"
    and step: "par_body (last_state s \<noteq> state s) (s\<lparr>last_state := state s\<rparr>) = (s', c)"
  show "par_inv s'"
    using inv step
    by (auto simp: par_defs par_inv_def Let_def split: par_state.splits option.splits if_splits
        dest!: par_receive_proc_Some)
next
  fix s s'
  assume inv: "par_inv s"
    and step: "par_body (last_state s \<noteq> state s) (s\<lparr>last_state := state s\<rparr>) = (s', Next)"
    and again: "last_state s' \<noteq> state s'"
  show "par_rank s' < par_rank s"
    using step again
    by (auto simp: par_defs par_rank_def Let_def split: par_state.splits option.splits if_splits
        dest!: par_receive_proc_Some)
next
  fix s s'
  assume inv: "par_inv s"
  show "par_body (last_state s \<noteq> state s) (s\<lparr>last_state := state s\<rparr>) \<noteq> (s', Crash)"
    using inv par_receive_proc_cases [of "s\<lparr>last_state := state s\<rparr>"]
    by (auto simp: par_defs par_inv_def Let_def split: par_state.splits option.splits if_splits)
qed


section \<open>Receiving a message\<close>

text \<open>The machine has been started: it is in one of its two working states.\<close>

definition par_started :: "port_announce_receive_data \<Rightarrow> bool" where
  "par_started sm \<longleftrightarrow> state sm = PAR_DISCARD \<or> state sm = PAR_RECEIVE"

text \<open>The machine as \<^verbatim>\<open>receive_proc\<close> finds it when message \<open>a\<close> has come in.\<close>

definition par_pending :: "port_announce_receive_data \<Rightarrow> PTPMsgAnnounce \<Rightarrow> port_announce_receive_data"
  where "par_pending sm a = sm\<lparr>rcvdAnnounce := True,
    bppg := (bppg sm)\<lparr>rcvdAnnouncePtr := Some a\<rparr>,
    state := PAR_RECEIVE, last_state := PAR_RECEIVE\<rparr>"

lemma par_pending_simps [simp]:
  "ptasg (par_pending sm a) = ptasg sm" "ppg (par_pending sm a) = ppg sm"
  "bptasg (par_pending sm a) = bptasg sm"
  "rcvdAnnouncePtr (bppg (par_pending sm a)) = Some a"
  by (simp_all add: par_pending_def)

lemma par_loop_receive:
  assumes "par_receive_proc (s\<lparr>last_state := PAR_RECEIVE\<rparr>) = Some t"
    and "state s = PAR_RECEIVE" "last_state s \<noteq> PAR_RECEIVE"
  shows "sm_loop par_body s = Some (t, Next)"
proof -
  have t: "state t = PAR_RECEIVE" "last_state t = PAR_RECEIVE" "\<not> rcvdAnnounce t"
    using par_receive_proc_Some [OF assms(1)] assms(2) by simp_all
  then have "par_body True (s\<lparr>last_state := state s\<rparr>) = (t, Next)"
    using assms by (simp add: par_body_def par_receive_condition_def)
  with t assms show ?thesis by (simp add: sm_loop_Next)
qed

lemma par_recv_runs:
  assumes "tas_running (ptasg sm)" "port_active (ppg sm)" "par_started sm"
  shows "\<exists>t. par_receive_proc (par_pending sm a) = Some t \<and>
    port_announce_receive_sm_recv_announce sm a = Some (t, Next)"
proof -
  let ?s = "sm\<lparr>rcvdAnnounce := True, bppg := (bppg sm)\<lparr>rcvdAnnouncePtr := Some a\<rparr>,
    last_state := PAR_DISCARD\<rparr>"
  obtain t where t: "par_receive_proc (par_pending sm a) = Some t"
    using par_receive_proc_cases [of "par_pending sm a" a] by auto
  have all: "?s\<lparr>state := par_allstate_condition ?s\<rparr> = ?s"
    using assms by (simp add: par_allstate_condition_def tas_running_def port_active_def)
  have loop: "sm_loop par_body (?s\<lparr>state := PAR_RECEIVE\<rparr>) = Some (t, Next)"
    by (rule par_loop_receive) (use t in \<open>simp_all add: par_pending_def\<close>)
  have "sm_loop par_body ?s = Some (t, Next)"
  proof (cases "state sm = PAR_DISCARD")
    case True
    then have "par_body (last_state ?s \<noteq> state ?s) (?s\<lparr>last_state := state ?s\<rparr>) =
        (?s\<lparr>state := PAR_RECEIVE\<rparr>, Next)"
      using assms by (simp add: par_body_def par_discard_condition_def Let_def port_active_def)
    with loop show ?thesis by (simp add: sm_loop_Next)
  next
    case False
    then have "?s\<lparr>state := PAR_RECEIVE\<rparr> = ?s" using assms by (simp add: par_started_def)
    with loop show ?thesis by simp
  qed
  with t all show ?thesis by (simp add: port_announce_receive_sm_recv_announce_def
      port_announce_receive_sm_def del: par_pending_simps)
qed

text \<open>On a running system and an active port, a received Announce message is marked as
  received (\<^verbatim>\<open>rcvdMsg\<close>) exactly if it is qualified: it does not come from this
  clock, it has crossed fewer than 255 bridges, and this clock is not on its path.
  The machine returns, stays in RECEIVE, and the pointer leads to that message.\<close>

theorem announce_received_iff_qualified:
  assumes "tas_running (ptasg sm)" "port_active (ppg sm)" "par_started sm"
  shows "\<exists>t. port_announce_receive_sm_recv_announce sm a = Some (t, Next) \<and>
    rcvdMsg (bppg t) = announce_qualified (thisClock (ptasg sm)) a \<and>
    rcvdAnnouncePtr (bppg t) = Some a \<and> state t = PAR_RECEIVE \<and> par_inv t"
proof -
  obtain t where t: "par_receive_proc (par_pending sm a) = Some t"
      "port_announce_receive_sm_recv_announce sm a = Some (t, Next)"
    using par_recv_runs [OF assms] by blast
  moreover have "rcvdMsg (bppg t) = announce_qualified (thisClock (ptasg sm)) a"
    "rcvdAnnouncePtr (bppg t) = Some a" "state t = PAR_RECEIVE" "par_inv t"
    using par_receive_proc_cases [of "par_pending sm a" a] t(1)
    by (auto simp: par_pending_def par_inv_def)
  ultimately show ?thesis by blast
qed

text \<open>On a port that does not take part in the protocol (and unless the port states are
  configured externally), a received Announce message is not looked at: \<^verbatim>\<open>rcvdMsg\<close> and
  the path trace keep their values and the machine rests in DISCARD. The message is
  not dropped, though: \<^verbatim>\<open>recv_announce\<close> has set \<^verbatim>\<open>last_state\<close> to DISCARD, so
  \<^verbatim>\<open>discard_proc\<close> is skipped and \<^verbatim>\<open>rcvdAnnounce\<close> stays true.\<close>

theorem announce_kept_pending_on_inactive_port:
  assumes "\<not> port_active (ppg sm)"
    and "externalPortConfiguration (bptasg sm) = VALUE_DISABLED"
  shows "port_announce_receive_sm_recv_announce sm a =
    Some (sm\<lparr>rcvdAnnounce := True, bppg := (bppg sm)\<lparr>rcvdAnnouncePtr := Some a\<rparr>,
      last_state := PAR_DISCARD, state := PAR_DISCARD\<rparr>, Next)"
proof -
  let ?s = "sm\<lparr>rcvdAnnounce := True, bppg := (bppg sm)\<lparr>rcvdAnnouncePtr := Some a\<rparr>,
    last_state := PAR_DISCARD, state := PAR_DISCARD\<rparr>"
  have "par_body (last_state ?s \<noteq> state ?s) (?s\<lparr>last_state := state ?s\<rparr>) = (?s, Next)"
    using assms(1) by (auto simp: par_body_def par_discard_condition_def Let_def port_active_def)
  then have "sm_loop par_body ?s = Some (?s, Next)" by (simp add: sm_loop_Next)
  with assms show ?thesis
    by (auto simp: port_announce_receive_sm_recv_announce_def port_announce_receive_sm_def
        par_allstate_condition_def port_active_def)
qed

text \<open>The path trace of the system after a qualified message with a path trace TLV on the
  slave port: the path of the message with this clock appended, or, when that would
  exceed the array of 179 identities, a count of 0.\<close>

theorem slave_port_records_path:
  assumes "tas_running (ptasg sm)" "port_active (ppg sm)" "par_started sm"
    and "announce_qualified (thisClock (ptasg sm)) a" and "tlvType a = 0x8"
    and "selectedState (ptasg sm) ! unat (thisPortIndex (ppg sm)) = SlavePort"
    and "length (pathSequence a) = MAX_PATH_TRACE_N"
    and "length (pathTrace (bptasg sm)) = MAX_PATH_TRACE_N"
  shows "\<exists>t. port_announce_receive_sm_recv_announce sm a = Some (t, Next) \<and>
    length (pathTrace (bptasg t)) = MAX_PATH_TRACE_N \<and>
    take (unat (pathTraceCount (bptasg t))) (pathTrace (bptasg t)) =
      (if announce_path_length a < MAX_PATH_TRACE_N
       then take (announce_path_length a) (pathSequence a) @ [thisClock (ptasg sm)] else [])"
proof -
  obtain t where t: "par_receive_proc (par_pending sm a) = Some t"
      "port_announce_receive_sm_recv_announce sm a = Some (t, Next)"
    using par_recv_runs [OF assms(1-3)] by blast
  let ?N = "announce_path_length a"
  have small: "unat (of_nat (?N + 1) :: u8) = ?N + 1" if "?N < MAX_PATH_TRACE_N"
    using that unat_of_nat_u8 [of "?N + 1"] by (simp add: MAX_PATH_TRACE_N_def)
  have "bptasg t = (if ?N + 1 \<le> MAX_PATH_TRACE_N
      then (bptasg sm)\<lparr>pathTrace := append_path ?N (pathSequence a) (thisClock (ptasg sm))
              (pathTrace (bptasg sm)), pathTraceCount := of_nat (?N + 1)\<rparr>
      else (bptasg sm)\<lparr>pathTraceCount := 0\<rparr>)"
    using t(1) assms(4-6)
    by (auto simp: par_receive_proc_def qualifyAnnounce_def announce_qualified_def Let_def
        list_ex_iff not_le par_pending_def split: if_splits)
  then have "length (pathTrace (bptasg t)) = MAX_PATH_TRACE_N \<and>
    take (unat (pathTraceCount (bptasg t))) (pathTrace (bptasg t)) =
      (if ?N < MAX_PATH_TRACE_N
       then take ?N (pathSequence a) @ [thisClock (ptasg sm)] else [])"
    using assms(7,8) small by (simp add: take_append_path del: of_nat_add)
  with t(2) show ?thesis by blast
qed

text \<open>A qualified message without a path trace TLV clears the path trace of the system,
  whatever the state of the port it came in on, and leaves \<^verbatim>\<open>pathTraceCount\<close> as it was.\<close>

theorem announce_without_path_clears_trace:
  assumes "tas_running (ptasg sm)" "port_active (ppg sm)" "par_started sm"
    and "announce_qualified (thisClock (ptasg sm)) a" and "tlvType a \<noteq> 0x8"
  shows "\<exists>t. port_announce_receive_sm_recv_announce sm a = Some (t, Next) \<and>
    pathTrace (bptasg t) = replicate MAX_PATH_TRACE_N zero_clockid \<and>
    pathTraceCount (bptasg t) = pathTraceCount (bptasg sm)"
proof -
  obtain t where t: "par_receive_proc (par_pending sm a) = Some t"
      "port_announce_receive_sm_recv_announce sm a = Some (t, Next)"
    using par_recv_runs [OF assms(1-3)] by blast
  have "bptasg t =
      (bptasg sm)\<lparr>pathTrace := replicate MAX_PATH_TRACE_N zero_clockid\<rparr>"
    using t(1) assms(4,5)
    by (auto simp: par_receive_proc_def qualifyAnnounce_def announce_qualified_def Let_def
        list_ex_iff not_le par_pending_def split: if_splits)
  with t(2) show ?thesis by simp
qed

section \<open>Instances\<close>

definition sample_par :: port_announce_receive_data where
  "sample_par =
     \<lparr>state = PAR_DISCARD, last_state = PAR_DISCARD, ptasg = sample_ptasg, ppg = sample_ppg,
      bptasg = zero_BmcsPerTimeAwareSystemGlobal, bppg = zero_BmcsPerPortGlobal,
      portIndex = 1, rcvdAnnounce = False\<rparr>"

lemma sample_par_simps [simp]:
  "ptasg sample_par = sample_ptasg" "ppg sample_par = sample_ppg" "par_started sample_par"
  "bptasg sample_par = zero_BmcsPerTimeAwareSystemGlobal"
  by (simp_all add: sample_par_def par_started_def)

lemma sample_announce_qualified [simp]: "announce_qualified sample_clock sample_announce"
  by (simp add: announce_qualified_def sample_announce_def zero_PTPMsgAnnounce_def
      announce_path_length_def MAX_PATH_TRACE_N_def)

lemma thisClock_sample [simp]: "thisClock sample_ptasg = sample_clock"
  by (simp add: sample_ptasg_def)

theorem announce_received_iff_qualified_witness:
  "\<exists>t. port_announce_receive_sm_recv_announce sample_par sample_announce = Some (t, Next) \<and>
    rcvdMsg (bppg t)"
  using announce_received_iff_qualified [of sample_par sample_announce] by auto

theorem announce_kept_pending_on_inactive_port_witness:
  "\<exists>t. port_announce_receive_sm_recv_announce (sample_par\<lparr>ppg := zero_PerPortGlobal\<rparr>)
     sample_announce = Some (t, Next) \<and> state t = PAR_DISCARD"
  using announce_kept_pending_on_inactive_port
    [of "sample_par\<lparr>ppg := zero_PerPortGlobal\<rparr>" sample_announce]
  by (simp add: port_active_def zero_PerPortGlobal_def zero_BmcsPerTimeAwareSystemGlobal_def
      VALUE_DISABLED_def)

theorem slave_port_records_path_witness:
  "\<exists>t. port_announce_receive_sm_recv_announce
      (sample_par\<lparr>ptasg := sample_ptasg\<lparr>selectedState := replicate 33 SlavePort\<rparr>\<rparr>)
      sample_announce = Some (t, Next) \<and>
    take (unat (pathTraceCount (bptasg t))) (pathTrace (bptasg t)) = [sample_peer, sample_clock]"
proof -
  let ?s = "sample_par\<lparr>ptasg := sample_ptasg\<lparr>selectedState := replicate 33 SlavePort\<rparr>\<rparr>"
  have run: "tas_running (ptasg ?s)" "par_started ?s"
    using sample_running by (simp_all add: tas_running_def par_started_def sample_par_def)
  have arr: "length (pathSequence sample_announce) = MAX_PATH_TRACE_N"
      "length (pathTrace (bptasg ?s)) = MAX_PATH_TRACE_N"
      "announce_path_length sample_announce = 1" "tlvType sample_announce = 8"
      "take 1 (pathSequence sample_announce) = [sample_peer]"
    by (simp_all add: sample_announce_def MAX_PATH_TRACE_N_def announce_path_length_def
        zero_BmcsPerTimeAwareSystemGlobal_def)
  have slave: "selectedState (ptasg ?s) ! unat (thisPortIndex (ppg ?s)) = SlavePort"
    by (simp add: sample_ppg_def)
  show ?thesis
    using slave_port_records_path [of ?s sample_announce] run arr slave
    by (auto simp: MAX_PATH_TRACE_N_def)
qed

theorem announce_without_path_clears_trace_witness:
  "\<exists>t. port_announce_receive_sm_recv_announce
      (sample_par\<lparr>bptasg := zero_BmcsPerTimeAwareSystemGlobal\<lparr>pathTraceCount := 2\<rparr>\<rparr>)
      (sample_announce\<lparr>tlvType := 0\<rparr>) = Some (t, Next) \<and>
    pathTrace (bptasg t) = replicate MAX_PATH_TRACE_N zero_clockid \<and>
    pathTraceCount (bptasg t) = 2"
proof -
  let ?s = "sample_par\<lparr>bptasg := zero_BmcsPerTimeAwareSystemGlobal\<lparr>pathTraceCount := 2\<rparr>\<rparr>"
  have "announce_qualified sample_clock (sample_announce\<lparr>tlvType := 0\<rparr>)" "par_started ?s"
    using sample_announce_qualified by (simp_all add: announce_qualified_def par_started_def sample_par_def)
  then show ?thesis
    using announce_without_path_clears_trace [of ?s "sample_announce\<lparr>tlvType := 0\<rparr>"] by simp
qed

end
