(* ===== verification/Gptp_AnnounceInformation.thy ===== *)
theory Gptp_AnnounceInformation
  imports Gptp_Machines
begin

text \<open>
  The PortAnnounceInformation machine (\<^verbatim>\<open>port_announce_information_sm.c\<close>, 10.3.11 of
  the standard): it keeps, for one port, the best information received from the
  attached bridges, ages it, and records the information the port transmits.
\<close>

section \<open>State and procedures\<close>

datatype (plugins only: code) pai_state =
    PAI_INIT
  | PAI_DISABLED
  | PAI_AGED
  | PAI_UPDATE
  | PAI_CURRENT
  | PAI_RECEIVE
  | PAI_SUPERIOR_MASTER_PORT
  | PAI_REPEATED_MASTER_PORT
  | PAI_INFERIOR_MASTER_OR_OTHER_PORT
  | PAI_REACTION

record port_announce_information_data = "pai_state bmcs_sm" +
  announceReceiptTimeoutTime :: UScaledNs
  messagePriority :: UInteger224
  rcvdInfo_v :: BmcsRcvdInfo
  syncReceiptTimeoutTime :: UScaledNs

text \<open>
  \<^verbatim>\<open>rcvdInfo\<close>: the priority vector of the message, and how it compares with the
  vector of the port. The port receives nothing but \<open>OtherInfo\<close> when it is disabled.
\<close>

definition message_priority :: "PTPMsgAnnounce \<Rightarrow> u16 \<Rightarrow> UInteger224" where
  "message_priority a port =
     \<lparr>rootSystemIdentity =
        \<lparr>priority1 = grandmasterPriority1 a,
         clockClass = q_clockClass (grandmasterClockQuality a),
         clockAccuracy = q_clockAccuracy (grandmasterClockQuality a),
         offsetScaledLogVariance = q_offsetScaledLogVariance (grandmasterClockQuality a),
         priority2 = grandmasterPriority2 a,
         rootClockIdentity = grandmasterIdentity a\<rparr>,
      stepsRemoved = stepsRemoved_m a,
      sourcePortIdentity = h_sourcePortIdentity (header a),
      pvPortNumber = port\<rparr>"

definition rcvdInfo ::
  "env \<Rightarrow> PTPMsgAnnounce \<Rightarrow> port_announce_information_data \<Rightarrow>
   BmcsRcvdInfo \<times> port_announce_information_data" where
  "rcvdInfo e a sm =
     (let mp = message_priority a (thisPort (ppg sm));
          sm1 = sm\<lparr>messagePriority := mp,
                   bppg := (bppg sm)\<lparr>messageStepsRemoved := stepsRemoved_m a\<rparr>\<rparr>;
          pp = portPriority (bppg sm1)
      in (if selectedState (ptasg sm) ! unat (thisPortIndex (ppg sm)) \<noteq> DisabledPort then
            (if pp = mp then RepeatedMasterInfo
             else if SUPERIOR_PRIORITY = compare_priority_vectors e mp pp
             then SuperiorMasterInfo
             else InferiorMasterInfo)
          else OtherInfo, sm1))"

text \<open>
  \<^verbatim>\<open>memcpy\<close> of \<open>n\<close> bytes from one array of identities to another. The arrays hold
  \<open>MAX_PATH_TRACE_N\<close> identities; a longer copy runs out of both (\<open>None\<close>).
\<close>

definition copy_identities ::
  "nat \<Rightarrow> ClockIdentity list \<Rightarrow> ClockIdentity list \<Rightarrow> ClockIdentity list option" where
  "copy_identities n src dst =
     (if 8 * MAX_PATH_TRACE_N < n then None
      else let k = n div 8; r = n mod 8 in
        Some (take k src @
          (if r = 0 then drop k dst
           else (take r (src ! k) @ drop r (dst ! k)) # drop (k + 1) dst)))"

definition pai_recordOtherAnnounceInfo ::
  "PTPMsgAnnounce \<Rightarrow> port_announce_information_data \<Rightarrow> port_announce_information_data option"
  where
  "pai_recordOtherAnnounceInfo a sm =
     (let f = flags (header a) ! 1 in
      case copy_identities (unat (tlvLength a)) (pathSequence a) (annPathSequence (bppg sm)) of
        None \<Rightarrow> None
      | Some path \<Rightarrow> Some (sm
          \<lparr>bppg := (bppg sm)
             \<lparr>annLeap61 := (f AND 0x01 = 0x01), annLeap59 := (f AND 0x02 = 0x02),
              annCurrentUtcOffsetValid := (f AND 0x04 = 0x04),
              annPtpTimescale := (f AND 0x08 = 0x08),
              annTimeTraceable := (f AND 0x10 = 0x10),
              annFrequencyTraceable := (f AND 0x20 = 0x20),
              annCurrentUtcOffset := currentUtcOffset_m a,
              annTimeSource := timeSource_m a,
              annPathSequenceCount := of_nat (unat (tlvLength a) div 8),
              annPathSequence := path\<rparr>,
           ptasg := (ptasg sm)\<lparr>gmIdentity := grandmasterIdentity a\<rparr>\<rparr>))"

definition pai_allstate_condition :: "port_announce_information_data \<Rightarrow> pai_state" where
  "pai_allstate_condition sm =
     (if (((\<not> PORT_OPER sm \<or> \<not> PTP_PORT_ENABLED sm \<or> \<not> AS_CAPABLE sm) \<and>
           infoIs (bppg sm) \<noteq> Disabled) \<or> BEGIN (ptasg sm) \<or> \<not> instanceEnable (ptasg sm)) \<and>
         externalPortConfiguration (bptasg sm) = VALUE_DISABLED
      then PAI_DISABLED else state sm)"

text \<open>\<^verbatim>\<open>RESELECT[portIndex] = true; SELECTED[portIndex] = false;\<close>\<close>

definition request_reselect ::
  "nat \<Rightarrow> BmcsPerTimeAwareSystemGlobal \<Rightarrow> BmcsPerTimeAwareSystemGlobal" where
  "request_reselect i b = b\<lparr>reselect := (reselect b)[i := True], selected := (selected b)[i := False]\<rparr>"

definition pai_disabled_proc ::
  "u64 \<Rightarrow> port_announce_information_data \<Rightarrow> port_announce_information_data" where
  "pai_disabled_proc cts64 sm = sm
     \<lparr>bppg := (bppg sm)\<lparr>rcvdMsg := False, infoIs := Disabled\<rparr>,
      announceReceiptTimeoutTime := (announceReceiptTimeoutTime sm)\<lparr>nsec := cts64\<rparr>,
      bptasg := request_reselect (portIndex sm) (bptasg sm)\<rparr>"

definition pai_disabled_condition :: "port_announce_information_data \<Rightarrow> pai_state" where
  "pai_disabled_condition sm =
     (if PORT_OPER sm \<and> PTP_PORT_ENABLED sm \<and> AS_CAPABLE sm then PAI_AGED
      else if rcvdMsg (bppg sm) then PAI_DISABLED
      else state sm)"

definition pai_aged_proc :: "port_announce_information_data \<Rightarrow> port_announce_information_data" where
  "pai_aged_proc sm = sm
     \<lparr>bppg := (bppg sm)\<lparr>infoIs := Aged, annPathSequenceCount := 0\<rparr>,
      bptasg := request_reselect (portIndex sm) (bptasg sm),
      ptasg := (ptasg sm)\<lparr>gmIdentity := thisClock (ptasg sm)\<rparr>\<rparr>"

definition pai_aged_condition :: "port_announce_information_data \<Rightarrow> pai_state" where
  "pai_aged_condition sm =
     (if selected (bptasg sm) ! portIndex sm \<and> updtInfo (bppg sm) then PAI_UPDATE else PAI_AGED)"

definition pai_update_proc :: "port_announce_information_data \<Rightarrow> port_announce_information_data" where
  "pai_update_proc sm = sm
     \<lparr>bppg := (bppg sm)
        \<lparr>portPriority := masterPriority (bppg sm),
         portStepsRemoved := masterStepsRemoved (bptasg sm),
         updtInfo := False, infoIs := Mine, newInfo := True\<rparr>\<rparr>"

definition pai_current_condition ::
  "u64 \<Rightarrow> port_announce_information_data \<Rightarrow> pai_state" where
  "pai_current_condition cts64 sm =
     (if selected (bptasg sm) ! portIndex sm \<and> updtInfo (bppg sm) then PAI_UPDATE
      else if infoIs (bppg sm) = Received \<and>
         (nsec (announceReceiptTimeoutTime sm) \<le> cts64 \<or>
          (nsec (syncReceiptTimeoutTime sm) \<le> cts64 \<and> gmPresent (ptasg sm))) \<and>
         \<not> updtInfo (bppg sm) \<and> \<not> rcvdMsg (bppg sm) then PAI_AGED
      else if rcvdMsg (bppg sm) \<and> \<not> updtInfo (bppg sm) then PAI_RECEIVE
      else PAI_CURRENT)"

definition pai_receive_proc ::
  "env \<Rightarrow> port_announce_information_data \<Rightarrow> port_announce_information_data option" where
  "pai_receive_proc e sm =
     (case rcvdAnnouncePtr (bppg sm) of
        None \<Rightarrow> None
      | Some a \<Rightarrow> (case rcvdInfo e a sm of (i, sm1) \<Rightarrow> Some (sm1\<lparr>rcvdInfo_v := i\<rparr>)))"

definition pai_receive_condition :: "port_announce_information_data \<Rightarrow> pai_state" where
  "pai_receive_condition sm =
     (let asym = asymmetryMeasurementMode (forAllDomain (ppg sm)); i = rcvdInfo_v sm in
      if i = RepeatedMasterInfo \<and> \<not> asym then PAI_REPEATED_MASTER_PORT
      else if (i = InferiorMasterInfo \<or> i = OtherInfo) \<and> \<not> asym
      then PAI_INFERIOR_MASTER_OR_OTHER_PORT
      else if i = SuperiorMasterInfo \<and> \<not> asym then PAI_SUPERIOR_MASTER_PORT
      else PAI_RECEIVE)"

definition pai_superior_master_port_proc ::
  "env \<Rightarrow> u64 \<Rightarrow> port_announce_information_data \<Rightarrow> port_announce_information_data option" where
  "pai_superior_master_port_proc e cts64 sm =
     (case rcvdAnnouncePtr (bppg sm) of
        None \<Rightarrow> None
      | Some a \<Rightarrow>
        (case pai_recordOtherAnnounceInfo a (sm\<lparr>bppg := (bppg sm)
                \<lparr>portPriority := messagePriority sm, portStepsRemoved := stepsRemoved_m a\<rparr>\<rparr>) of
           None \<Rightarrow> None
         | Some sm1 \<Rightarrow>
             let interval = of_int (sint (announceReceiptTimeout (bppg sm1))) *
                   LOG_TO_NSEC e (sint (logMessageInterval (header a)));
                 B = (if useMgtSettableLogSyncInterval (ppg sm1)
                      then mgtSettableLogSyncInterval (ppg sm1)
                      else initialLogSyncInterval (ppg sm1));
                 sync = of_int (sint (syncReceiptTimeout (ppg sm1))) * LOG_TO_NSEC e (sint B)
             in Some (sm1
               \<lparr>bppg := (bppg sm1)
                  \<lparr>announceReceiptTimeoutTimeInterval :=
                     (announceReceiptTimeoutTimeInterval (bppg sm1))\<lparr>nsec := interval\<rparr>,
                   infoIs := Received, rcvdMsg := False, rcvdAnnouncePtr := None\<rparr>,
                announceReceiptTimeoutTime :=
                  (announceReceiptTimeoutTime sm1)\<lparr>nsec := cts64 + interval\<rparr>,
                ppg := (ppg sm1)\<lparr>syncReceiptTimeoutTimeInterval :=
                  (syncReceiptTimeoutTimeInterval (ppg sm1))\<lparr>nsec := sync\<rparr>\<rparr>,
                syncReceiptTimeoutTime :=
                  (syncReceiptTimeoutTime sm1)\<lparr>nsec := cts64 + sync\<rparr>,
                bptasg := request_reselect (portIndex sm1) (bptasg sm1)\<rparr>)))"

definition pai_repeated_master_port_proc ::
  "u64 \<Rightarrow> port_announce_information_data \<Rightarrow> port_announce_information_data" where
  "pai_repeated_master_port_proc cts64 sm = sm
     \<lparr>announceReceiptTimeoutTime := (announceReceiptTimeoutTime sm)
        \<lparr>nsec := cts64 + nsec (announceReceiptTimeoutTimeInterval (bppg sm))\<rparr>,
      bppg := (bppg sm)\<lparr>rcvdMsg := False, rcvdAnnouncePtr := None\<rparr>\<rparr>"

definition pai_inferior_proc :: "port_announce_information_data \<Rightarrow> port_announce_information_data" where
  "pai_inferior_proc sm = sm\<lparr>bppg := (bppg sm)\<lparr>rcvdMsg := False, rcvdAnnouncePtr := None\<rparr>\<rparr>"

definition pai_inferior_condition :: "port_announce_information_data \<Rightarrow> pai_state" where
  "pai_inferior_condition sm =
     (if sourcePortIdentity (messagePriority sm) = sourcePortIdentity (portPriority (bppg sm)) \<and>
         bmcsQuickUpdate (bptasg sm) \<noteq> 0
      then PAI_AGED else PAI_CURRENT)"

section \<open>The machine\<close>

definition pai_body ::
  "env \<Rightarrow> u64 \<Rightarrow> bool \<Rightarrow> port_announce_information_data \<Rightarrow>
   port_announce_information_data \<times> unit ctl" where
  "pai_body e cts64 state_change sm =
     (case state sm of
        PAI_INIT \<Rightarrow> (sm\<lparr>state := PAI_DISABLED\<rparr>, Next)
      | PAI_DISABLED \<Rightarrow>
          let sm1 = (if state_change then pai_disabled_proc cts64 sm else sm)
          in (sm1\<lparr>state := pai_disabled_condition sm1\<rparr>, Next)
      | PAI_AGED \<Rightarrow>
          let sm1 = (if state_change then pai_aged_proc sm else sm)
          in (sm1\<lparr>state := pai_aged_condition sm1\<rparr>, Next)
      | PAI_UPDATE \<Rightarrow>
          let sm1 = (if state_change then pai_update_proc sm else sm)
          in (sm1\<lparr>state := PAI_CURRENT\<rparr>, Next)
      | PAI_CURRENT \<Rightarrow> (sm\<lparr>state := pai_current_condition cts64 sm\<rparr>, Next)
      | PAI_RECEIVE \<Rightarrow>
          (case (if state_change then pai_receive_proc e sm else Some sm) of
             None \<Rightarrow> (sm, Crash)
           | Some sm1 \<Rightarrow> (sm1\<lparr>state := pai_receive_condition sm1\<rparr>, Next))
      | PAI_SUPERIOR_MASTER_PORT \<Rightarrow>
          (case (if state_change then pai_superior_master_port_proc e cts64 sm else Some sm) of
             None \<Rightarrow> (sm, Crash)
           | Some sm1 \<Rightarrow> (sm1\<lparr>state := PAI_CURRENT\<rparr>, Next))
      | PAI_REPEATED_MASTER_PORT \<Rightarrow>
          let sm1 = (if state_change then pai_repeated_master_port_proc cts64 sm else sm)
          in (sm1\<lparr>state := PAI_CURRENT\<rparr>, Next)
      | PAI_INFERIOR_MASTER_OR_OTHER_PORT \<Rightarrow>
          let sm1 = (if state_change then pai_inferior_proc sm else sm)
          in (sm1\<lparr>state := pai_inferior_condition sm1\<rparr>, Next)
      | PAI_REACTION \<Rightarrow> (sm, Next))"

definition port_announce_information_sm ::
  "env \<Rightarrow> u64 \<Rightarrow> port_announce_information_data \<Rightarrow>
   (port_announce_information_data \<times> unit ctl) option" where
  "port_announce_information_sm e cts64 sm =
     sm_loop (pai_body e cts64) (sm\<lparr>state := pai_allstate_condition sm\<rparr>)"

definition port_announce_information_sm_init ::
  "nat \<Rightarrow> PerTimeAwareSystemGlobal \<Rightarrow> PerPortGlobal \<Rightarrow> BmcsPerTimeAwareSystemGlobal \<Rightarrow>
   BmcsPerPortGlobal \<Rightarrow> port_announce_information_data" where
  "port_announce_information_sm_init pidx pt pp bt bp =
     \<lparr>state = PAI_INIT, last_state = PAI_INIT, ptasg = pt, ppg = pp, bptasg = bt, bppg = bp,
      portIndex = pidx, announceReceiptTimeoutTime = zero_UScaledNs,
      messagePriority = memset_UInteger224 0, rcvdInfo_v = RepeatedMasterInfo,
      syncReceiptTimeoutTime = zero_UScaledNs\<lparr>nsec := 0xffffffffffffffff\<rparr>\<rparr>"

definition port_announce_information_sm_SyncReceiptTimeoutTime ::
  "UScaledNs \<Rightarrow> port_announce_information_data \<Rightarrow> port_announce_information_data" where
  "port_announce_information_sm_SyncReceiptTimeoutTime t sm = sm\<lparr>syncReceiptTimeoutTime := t\<rparr>"


lemmas pai_defs = pai_body_def pai_disabled_proc_def pai_disabled_condition_def pai_aged_proc_def
  pai_aged_condition_def pai_update_proc_def pai_current_condition_def pai_receive_condition_def
  pai_repeated_master_port_proc_def pai_inferior_proc_def pai_inferior_condition_def
  request_reselect_def

section \<open>The machine returns\<close>

text \<open>
  A message that waits to be processed can be read, and its path fits the array;
  the machine has an entry of its own in the array of selections.
\<close>

definition readable_announce :: "PTPMsgAnnounce \<Rightarrow> bool" where
  "readable_announce a \<longleftrightarrow> unat (tlvLength a) \<le> 8 * MAX_PATH_TRACE_N"

definition pai_inv :: "port_announce_information_data \<Rightarrow> bool" where
  "pai_inv sm \<longleftrightarrow> portIndex sm < length (selected (bptasg sm)) \<and>
     (rcvdMsg (bppg sm) \<or> state sm = PAI_RECEIVE \<or> state sm = PAI_SUPERIOR_MASTER_PORT \<longrightarrow>
      (\<exists>a. rcvdAnnouncePtr (bppg sm) = Some a \<and> readable_announce a))"

text \<open>An update of the port's own information is due.\<close>

definition pai_update_due :: "port_announce_information_data \<Rightarrow> bool" where
  "pai_update_due sm \<longleftrightarrow> selected (bptasg sm) ! portIndex sm \<and> updtInfo (bppg sm)"

definition pai_rank :: "port_announce_information_data \<Rightarrow> nat" where
  "pai_rank sm =
     (let m = of_bool (rcvdMsg (bppg sm)); u = of_bool (pai_update_due sm);
          changed = (last_state sm \<noteq> state sm)
      in case state sm of
        PAI_INIT \<Rightarrow> 2
      | PAI_DISABLED \<Rightarrow> 1
      | PAI_AGED \<Rightarrow> if changed then 0 else 3 + 5 * m
      | PAI_UPDATE \<Rightarrow> if changed then 2 + 5 * m else 2 + 3 * u + 5 * m
      | PAI_CURRENT \<Rightarrow> 1 + 3 * u + 5 * m
      | PAI_RECEIVE \<Rightarrow> 3 + 3 * u
      | PAI_REACTION \<Rightarrow> 0
      | _ \<Rightarrow> if changed then 2 + 3 * u else 2 + 3 * u + 5 * m)"

lemma pai_receive_proc_ptr:
  assumes "rcvdAnnouncePtr (bppg sm) = Some a"
  shows "\<exists>sm'. pai_receive_proc e sm = Some sm' \<and> bptasg sm' = bptasg sm \<and>
    portIndex sm' = portIndex sm \<and> state sm' = state sm \<and> last_state sm' = last_state sm \<and>
    updtInfo (bppg sm') = updtInfo (bppg sm) \<and> rcvdAnnouncePtr (bppg sm') = Some a \<and>
    rcvdMsg (bppg sm') = rcvdMsg (bppg sm)"
  using assms by (auto simp: pai_receive_proc_def rcvdInfo_def Let_def)

lemma pai_receive_condition_cases:
  "pai_receive_condition sm \<in> {PAI_REPEATED_MASTER_PORT, PAI_INFERIOR_MASTER_OR_OTHER_PORT,
     PAI_SUPERIOR_MASTER_PORT, PAI_RECEIVE}"
  by (simp add: pai_receive_condition_def Let_def)

lemma pai_recordOther_readable:
  assumes "readable_announce a"
  shows "\<exists>sm'. pai_recordOtherAnnounceInfo a sm = Some sm' \<and> bptasg sm' = bptasg sm \<and>
    portIndex sm' = portIndex sm \<and> state sm' = state sm \<and> last_state sm' = last_state sm \<and>
    updtInfo (bppg sm') = updtInfo (bppg sm)"
  using assms by (auto simp: pai_recordOtherAnnounceInfo_def copy_identities_def
      readable_announce_def Let_def)

lemma pai_superior_proc_readable:
  assumes "rcvdAnnouncePtr (bppg sm) = Some a" "readable_announce a"
  shows "\<exists>sm'. pai_superior_master_port_proc e cts64 sm = Some sm' \<and>
    bptasg sm' = request_reselect (portIndex sm) (bptasg sm) \<and>
    portIndex sm' = portIndex sm \<and> state sm' = state sm \<and> last_state sm' = last_state sm \<and>
    updtInfo (bppg sm') = updtInfo (bppg sm) \<and> \<not> rcvdMsg (bppg sm')"
proof -
  obtain t where "pai_recordOtherAnnounceInfo a (sm\<lparr>bppg := (bppg sm)
      \<lparr>portPriority := messagePriority sm, portStepsRemoved := stepsRemoved_m a\<rparr>\<rparr>) = Some t"
    "bptasg t = bptasg sm" "portIndex t = portIndex sm" "state t = state sm"
    "last_state t = last_state sm" "updtInfo (bppg t) = updtInfo (bppg sm)"
    using pai_recordOther_readable [OF assms(2), of "sm\<lparr>bppg := (bppg sm)
      \<lparr>portPriority := messagePriority sm, portStepsRemoved := stepsRemoved_m a\<rparr>\<rparr>"] by auto
  with assms(1) show ?thesis by (auto simp: pai_superior_master_port_proc_def Let_def)
qed

text \<open>What one pass over the \<^verbatim>\<open>switch\<close> does to the parts that the invariant and the measure read.\<close>

lemma pai_step:
  assumes "pai_inv s"
    and "pai_body e cts64 (last_state s \<noteq> state s) (s\<lparr>last_state := state s\<rparr>) = (s', c)"
  shows "pai_inv s' \<and> c = Next \<and> (last_state s' \<noteq> state s' \<longrightarrow> pai_rank s' < pai_rank s)"
proof -
  let ?s = "s\<lparr>last_state := state s\<rparr>"
  have pidx: "portIndex s < length (selected (bptasg s))" using assms(1) by (simp add: pai_inv_def)
  have r: "s' = fst (pai_body e cts64 (last_state s \<noteq> state s) ?s)"
    "c = snd (pai_body e cts64 (last_state s \<noteq> state s) ?s)" by (simp_all add: assms(2))
  show ?thesis
  proof (cases "state s")
    case PAI_RECEIVE
    then obtain a where a: "rcvdAnnouncePtr (bppg s) = Some a" "readable_announce a"
      using assms(1) by (auto simp: pai_inv_def)
    obtain t where t: "(if last_state s \<noteq> PAI_RECEIVE then pai_receive_proc e ?s else Some ?s) = Some t"
      "bptasg t = bptasg s" "portIndex t = portIndex s" "state t = PAI_RECEIVE"
      "last_state t = PAI_RECEIVE" "updtInfo (bppg t) = updtInfo (bppg s)"
      "rcvdAnnouncePtr (bppg t) = Some a" "rcvdMsg (bppg t) = rcvdMsg (bppg s)"
      using pai_receive_proc_ptr [of ?s a e] a PAI_RECEIVE
      by (cases "last_state s = PAI_RECEIVE") auto
    then have s': "s' = t\<lparr>state := pai_receive_condition t\<rparr>" "c = Next"
      using assms(2) PAI_RECEIVE
      by (cases "last_state s = PAI_RECEIVE"; simp add: pai_body_def)+
    have "pai_receive_condition t \<in> {PAI_REPEATED_MASTER_PORT, PAI_INFERIOR_MASTER_OR_OTHER_PORT,
        PAI_SUPERIOR_MASTER_PORT, PAI_RECEIVE}" by (rule pai_receive_condition_cases)
    then show ?thesis
      unfolding s' using t a pidx PAI_RECEIVE
      by (auto simp: pai_inv_def pai_rank_def pai_update_due_def Let_def)
  next
    case PAI_SUPERIOR_MASTER_PORT
    then obtain a where a: "rcvdAnnouncePtr (bppg s) = Some a" "readable_announce a"
      using assms(1) by (auto simp: pai_inv_def)
    show ?thesis
    proof (cases "last_state s = PAI_SUPERIOR_MASTER_PORT")
      case True
      then have "s' = ?s\<lparr>state := PAI_CURRENT\<rparr>" "c = Next"
        using assms(2) PAI_SUPERIOR_MASTER_PORT by (simp_all add: pai_body_def)
      then show ?thesis using True a pidx PAI_SUPERIOR_MASTER_PORT
        by (simp add: pai_inv_def pai_rank_def pai_update_due_def)
    next
      case False
      obtain t where t: "pai_superior_master_port_proc e cts64 ?s = Some t"
        "bptasg t = request_reselect (portIndex s) (bptasg s)"
        "portIndex t = portIndex s" "last_state t = PAI_SUPERIOR_MASTER_PORT" "\<not> rcvdMsg (bppg t)"
        using pai_superior_proc_readable [of ?s a e cts64] a PAI_SUPERIOR_MASTER_PORT by auto
      then have "s' = t\<lparr>state := PAI_CURRENT\<rparr>" "c = Next"
        using False assms(2) PAI_SUPERIOR_MASTER_PORT by (simp_all add: pai_body_def)
      then show ?thesis using False t pidx PAI_SUPERIOR_MASTER_PORT
        by (simp add: pai_inv_def pai_rank_def pai_update_due_def request_reselect_def)
    qed
  next
    case PAI_INIT
    then show ?thesis unfolding r using assms(1) pidx
      by (simp add: pai_body_def pai_inv_def pai_rank_def pai_update_due_def Let_def )
  next
    case PAI_DISABLED
    then show ?thesis unfolding r using assms(1) pidx
      by (simp add: pai_body_def pai_inv_def pai_rank_def pai_update_due_def Let_def pai_disabled_proc_def pai_disabled_condition_def request_reselect_def)
  next
    case PAI_AGED
    then show ?thesis unfolding r using assms(1) pidx
      by (simp add: pai_body_def pai_inv_def pai_rank_def pai_update_due_def Let_def pai_aged_proc_def pai_aged_condition_def request_reselect_def)
  next
    case PAI_UPDATE
    then show ?thesis unfolding r using assms(1) pidx
      by (simp add: pai_body_def pai_inv_def pai_rank_def pai_update_due_def Let_def pai_update_proc_def)
  next
    case PAI_CURRENT
    then show ?thesis unfolding r using assms(1) pidx
      by (simp add: pai_body_def pai_inv_def pai_rank_def pai_update_due_def Let_def pai_current_condition_def)
  next
    case PAI_REPEATED_MASTER_PORT
    then show ?thesis unfolding r using assms(1) pidx
      by (simp add: pai_body_def pai_inv_def pai_rank_def pai_update_due_def Let_def pai_repeated_master_port_proc_def)
  next
    case PAI_INFERIOR_MASTER_OR_OTHER_PORT
    then show ?thesis unfolding r using assms(1) pidx
      by (simp add: pai_body_def pai_inv_def pai_rank_def pai_update_due_def Let_def pai_inferior_proc_def pai_inferior_condition_def)
  next
    case PAI_REACTION
    then show ?thesis unfolding r using assms(1) pidx
      by (simp add: pai_body_def pai_inv_def pai_rank_def pai_update_due_def Let_def )
  qed
qed

interpretation pai: sm_safe "pai_body e cts64" pai_inv pai_rank for e cts64
proof
  fix s s' :: port_announce_information_data
  assume inv: "pai_inv s"
  show "pai_body e cts64 (last_state s \<noteq> state s) (s\<lparr>last_state := state s\<rparr>) = (s', c) \<Longrightarrow> pai_inv s'"
    for c using pai_step [OF inv] by blast
  show "pai_body e cts64 (last_state s \<noteq> state s) (s\<lparr>last_state := state s\<rparr>) = (s', Next) \<Longrightarrow>
      last_state s' \<noteq> state s' \<Longrightarrow> pai_rank s' < pai_rank s"
    using pai_step [OF inv] by blast
  show "pai_body e cts64 (last_state s \<noteq> state s) (s\<lparr>last_state := state s\<rparr>) \<noteq> (s', Crash)"
    using pai_step [OF inv, of e cts64 s' Crash] by blast
qed

section \<open>What the machine does with information\<close>

lemma pai_inv_allstate [simp]:
  "pai_inv sm \<Longrightarrow> pai_inv (sm\<lparr>state := pai_allstate_condition sm\<rparr>)"
  by (simp add: pai_inv_def pai_allstate_condition_def)

text \<open>Whatever the received message holds and whatever the clock reads, the
  PortAnnounceInformation machine returns; it touches no null pointer and copies
  no path beyond its array, provided a waiting message fits the array, and it
  leaves the machine in a state of which the same can be said.\<close>

theorem announce_information_total:
  assumes "pai_inv sm"
  shows "\<exists>t c. port_announce_information_sm e cts64 sm = Some (t, c) \<and> pai_inv t \<and> c \<noteq> Crash"
  unfolding port_announce_information_sm_def
  using pai.sm_total_safe [OF pai_inv_allstate [OF assms]] by blast

text \<open>The machine rests in CURRENT on an active port of a running system.\<close>

definition pai_current :: "port_announce_information_data \<Rightarrow> bool" where
  "pai_current sm \<longleftrightarrow> state sm = PAI_CURRENT \<and> last_state sm = PAI_CURRENT \<and>
     tas_running (ptasg sm) \<and> port_active (ppg sm) \<and> portIndex sm < length (selected (bptasg sm))"

lemma pai_current_start:
  "pai_current sm \<Longrightarrow> port_announce_information_sm e cts64 sm = sm_loop (pai_body e cts64) sm"
proof -
  assume c: "pai_current sm"
  then have "pai_allstate_condition sm = state sm"
    by (auto simp: pai_allstate_condition_def pai_current_def tas_running_def port_active_def)
  then have "sm\<lparr>state := pai_allstate_condition sm\<rparr> = sm" by simp
  then show ?thesis by (simp add: port_announce_information_sm_def)
qed


text \<open>While neither a message nor an update waits and the timeouts are not reached, the
  machine does nothing.\<close>

theorem information_kept_until_timeout:
  assumes "pai_current sm" and "\<not> rcvdMsg (bppg sm)" "\<not> updtInfo (bppg sm)"
    and "cts64 < nsec (announceReceiptTimeoutTime sm)"
    and "gmPresent (ptasg sm) \<Longrightarrow> cts64 < nsec (syncReceiptTimeoutTime sm)"
  shows "port_announce_information_sm e cts64 sm = Some (sm, Next)"
proof -
  have s: "sm\<lparr>last_state := PAI_CURRENT, state := PAI_CURRENT\<rparr> = sm"
    "sm\<lparr>last_state := PAI_CURRENT\<rparr> = sm" "sm\<lparr>state := PAI_CURRENT\<rparr> = sm"
    using assms(1) by (simp_all add: pai_current_def)
  then have "pai_body e cts64 (last_state sm \<noteq> state sm) (sm\<lparr>last_state := state sm\<rparr>) = (sm, Next)"
    using assms by (auto simp: pai_body_def pai_current_def pai_current_condition_def)
  then show ?thesis
    using assms(1) by (simp add: pai_current_start sm_loop_Next) (simp add: pai_current_def)
qed

text \<open>When the port has been selected with new information of its own, the machine adopts
  it: the port's vector becomes the master vector the selection computed, the
  information is marked as the port's own and as new, so that it gets transmitted.\<close>

theorem own_information_adopted:
  assumes "pai_current sm" and "selected (bptasg sm) ! portIndex sm" "updtInfo (bppg sm)"
    and "\<not> rcvdMsg (bppg sm)"
  shows "port_announce_information_sm e cts64 sm = Some (pai_update_proc sm, Next)"
proof -
  let ?t = "sm\<lparr>state := PAI_UPDATE\<rparr>"
  let ?u = "(pai_update_proc sm)\<lparr>last_state := PAI_UPDATE\<rparr>"
  have c: "state sm = PAI_CURRENT" "last_state sm = PAI_CURRENT"
    using assms(1) by (simp_all add: pai_current_def)
  then have "sm\<lparr>last_state := PAI_CURRENT, state := PAI_UPDATE\<rparr> = ?t"
    using assms(1) by simp
  with c have 1: "pai_body e cts64 (last_state sm \<noteq> state sm) (sm\<lparr>last_state := state sm\<rparr>) = (?t, Next)"
    using assms by (simp add: pai_body_def pai_current_condition_def)
  have 2: "pai_body e cts64 (last_state ?t \<noteq> state ?t) (?t\<lparr>last_state := state ?t\<rparr>) = (?u, Next)"
    using c by (simp add: pai_body_def pai_update_proc_def)
  have 3: "pai_body e cts64 (last_state ?u \<noteq> state ?u) (?u\<lparr>last_state := state ?u\<rparr>) =
      (pai_update_proc sm, Next)"
    using c assms by (simp add: pai_body_def pai_update_proc_def pai_current_condition_def)
  show ?thesis
    using c 1 2 3 assms(1) by (simp add: pai_current_start sm_loop_Next pai_update_proc_def)
qed

subsection \<open>A waiting message\<close>

text \<open>
  The machine rests in CURRENT with message \<open>a\<close> to process, on a port without
  asymmetry measurement that is not disabled.
\<close>

definition pai_message :: "port_announce_information_data \<Rightarrow> PTPMsgAnnounce \<Rightarrow> bool" where
  "pai_message sm a \<longleftrightarrow> pai_current sm \<and> rcvdMsg (bppg sm) \<and> \<not> updtInfo (bppg sm) \<and>
     rcvdAnnouncePtr (bppg sm) = Some a \<and>
     \<not> asymmetryMeasurementMode (forAllDomain (ppg sm)) \<and>
     selectedState (ptasg sm) ! unat (thisPortIndex (ppg sm)) \<noteq> DisabledPort"

text \<open>The machine after the message has been classified as \<open>i\<close>.\<close>

definition pai_classified ::
  "port_announce_information_data \<Rightarrow> PTPMsgAnnounce \<Rightarrow> BmcsRcvdInfo \<Rightarrow>
   port_announce_information_data" where
  "pai_classified sm a i = sm
     \<lparr>bppg := (bppg sm)\<lparr>messageStepsRemoved := stepsRemoved_m a\<rparr>,
      messagePriority := message_priority a (thisPort (ppg sm)), rcvdInfo_v := i\<rparr>"

abbreviation pai_vector :: "port_announce_information_data \<Rightarrow> PTPMsgAnnounce \<Rightarrow> UInteger224" where
  "pai_vector sm a \<equiv> message_priority a (thisPort (ppg sm))"

lemma pai_message_classified:
  assumes "pai_message sm a"
    and "i = (if portPriority (bppg sm) = pai_vector sm a then RepeatedMasterInfo
      else if compare_priority_vectors e (pai_vector sm a) (portPriority (bppg sm)) = SUPERIOR_PRIORITY
      then SuperiorMasterInfo else InferiorMasterInfo)"
    and "x = (case i of RepeatedMasterInfo \<Rightarrow> PAI_REPEATED_MASTER_PORT
      | SuperiorMasterInfo \<Rightarrow> PAI_SUPERIOR_MASTER_PORT | _ \<Rightarrow> PAI_INFERIOR_MASTER_OR_OTHER_PORT)"
  shows "port_announce_information_sm e cts64 sm = sm_loop (pai_body e cts64)
    ((pai_classified sm a i)\<lparr>state := x, last_state := PAI_RECEIVE\<rparr>)"
proof -
  let ?t = "sm\<lparr>state := PAI_RECEIVE\<rparr>"
  let ?u = "(pai_classified sm a i)\<lparr>state := x, last_state := PAI_RECEIVE\<rparr>"
  have c: "state sm = PAI_CURRENT" "last_state sm = PAI_CURRENT"
    using assms(1) by (simp_all add: pai_message_def pai_current_def)
  have 1: "pai_body e cts64 (last_state sm \<noteq> state sm) (sm\<lparr>last_state := state sm\<rparr>) = (?t, Next)"
    using c assms(1) by (simp add: pai_body_def pai_current_condition_def pai_message_def)
  have r: "pai_receive_proc e (?t\<lparr>last_state := PAI_RECEIVE\<rparr>) =
      Some ((pai_classified sm a i)\<lparr>state := PAI_RECEIVE, last_state := PAI_RECEIVE\<rparr>)"
    using assms(1,2)
    by (simp add: pai_receive_proc_def rcvdInfo_def pai_message_def pai_classified_def Let_def
        eq_commute [of SUPERIOR_PRIORITY])
  have "pai_receive_condition ((pai_classified sm a i)\<lparr>state := PAI_RECEIVE,
      last_state := PAI_RECEIVE\<rparr>) = x"
    using assms by (simp add: pai_receive_condition_def pai_classified_def pai_message_def Let_def)
  with r have 2: "pai_body e cts64 (last_state ?t \<noteq> state ?t) (?t\<lparr>last_state := state ?t\<rparr>) = (?u, Next)"
    using c by (simp add: pai_body_def)
  have "x \<noteq> PAI_RECEIVE" using assms(3) by (simp split: BmcsRcvdInfo.splits)
  with 1 2 c assms(1) show ?thesis
    by (simp add: pai_current_start sm_loop_Next pai_message_def)
qed

text \<open>The two receipt timeouts that a superior message of the port starts.\<close>

definition announce_timeout :: "env \<Rightarrow> port_announce_information_data \<Rightarrow> PTPMsgAnnounce \<Rightarrow> u64" where
  "announce_timeout e sm a = of_int (sint (announceReceiptTimeout (bppg sm))) *
     LOG_TO_NSEC e (sint (logMessageInterval (header a)))"

definition sync_timeout :: "env \<Rightarrow> port_announce_information_data \<Rightarrow> u64" where
  "sync_timeout e sm = of_int (sint (syncReceiptTimeout (ppg sm))) *
     LOG_TO_NSEC e (sint (if useMgtSettableLogSyncInterval (ppg sm)
       then mgtSettableLogSyncInterval (ppg sm) else initialLogSyncInterval (ppg sm)))"

lemma pai_superior_proc_result:
  assumes "rcvdAnnouncePtr (bppg sm) = Some a" "readable_announce a"
  obtains t where "pai_superior_master_port_proc e cts64 sm = Some t"
    "state t = state sm" "last_state t = last_state sm" "portIndex t = portIndex sm"
    "bptasg t = request_reselect (portIndex sm) (bptasg sm)" "updtInfo (bppg t) = updtInfo (bppg sm)"
    "\<not> rcvdMsg (bppg t)" "rcvdAnnouncePtr (bppg t) = None" "infoIs (bppg t) = Received"
    "portPriority (bppg t) = messagePriority sm" "portStepsRemoved (bppg t) = stepsRemoved_m a"
    "gmIdentity (ptasg t) = grandmasterIdentity a" "gmPresent (ptasg t) = gmPresent (ptasg sm)"
    "nsec (announceReceiptTimeoutTime t) = cts64 + announce_timeout e sm a"
    "nsec (syncReceiptTimeoutTime t) = cts64 + sync_timeout e sm"
    "\<And>n. n \<le> unat (tlvLength a) div 8 \<Longrightarrow>
      n \<le> length (pathSequence a) \<Longrightarrow> take n (annPathSequence (bppg t)) = take n (pathSequence a)"
  using assms
  by (simp add: pai_superior_master_port_proc_def pai_recordOtherAnnounceInfo_def
      copy_identities_def readable_announce_def Let_def announce_timeout_def sync_timeout_def
      min_absorb2 cong: if_cong)



text \<open>A message that repeats the port's vector only restarts the announce receipt timeout
  (here with the interval in the future and the sync timeout not reached).\<close>

theorem repeated_information_refreshes:
  assumes "pai_message sm a" and "portPriority (bppg sm) = pai_vector sm a"
    and "cts64 < cts64 + nsec (announceReceiptTimeoutTimeInterval (bppg sm))"
    and "gmPresent (ptasg sm) \<Longrightarrow> cts64 < nsec (syncReceiptTimeoutTime sm)"
  shows "port_announce_information_sm e cts64 sm =
    Some (pai_repeated_master_port_proc cts64 (pai_classified sm a RepeatedMasterInfo), Next)"
proof -
  let ?r = "pai_repeated_master_port_proc cts64 (pai_classified sm a RepeatedMasterInfo)"
  let ?s = "(pai_classified sm a RepeatedMasterInfo)
    \<lparr>state := PAI_REPEATED_MASTER_PORT, last_state := PAI_RECEIVE\<rparr>"
  let ?t = "?r\<lparr>last_state := PAI_REPEATED_MASTER_PORT\<rparr>"
  have c: "state sm = PAI_CURRENT" "last_state sm = PAI_CURRENT"
    using assms(1) by (simp_all add: pai_message_def pai_current_def)
  have start: "port_announce_information_sm e cts64 sm = sm_loop (pai_body e cts64) ?s"
    using assms(1,2) by (intro pai_message_classified) simp_all
  have 1: "sm_step (pai_body e cts64) ?s = (?t, Next)"
    using c by (simp add: sm_step_def pai_body_def pai_repeated_master_port_proc_def pai_classified_def)
  have 2: "sm_step (pai_body e cts64) ?t = (?r, Next)"
    using c assms by (auto simp: sm_step_def pai_body_def pai_current_condition_def pai_classified_def
        pai_repeated_master_port_proc_def pai_message_def not_le)
  have d: "last_state ?t \<noteq> state ?t" "last_state ?r = state ?r"
    using c by (simp_all add: pai_classified_def pai_repeated_master_port_proc_def)
  show ?thesis
    unfolding start sm_loop_again [OF 1 d(1)] by (rule sm_loop_rest [OF 2 d(2)])
qed

text \<open>A message that is neither a repetition nor superior is dropped without touching the
  information of the port; only when the quick update mode is on and the message
  comes from the port whose information is held is that information aged.\<close>

theorem inferior_information_dropped:
  assumes "pai_message sm a" and "portPriority (bppg sm) \<noteq> pai_vector sm a"
    and "compare_priority_vectors e (pai_vector sm a) (portPriority (bppg sm)) \<noteq> SUPERIOR_PRIORITY"
    and "bmcsQuickUpdate (bptasg sm) = 0 \<or>
      h_sourcePortIdentity (header a) \<noteq> sourcePortIdentity (portPriority (bppg sm))"
    and "cts64 < nsec (announceReceiptTimeoutTime sm)"
    and "gmPresent (ptasg sm) \<Longrightarrow> cts64 < nsec (syncReceiptTimeoutTime sm)"
  shows "port_announce_information_sm e cts64 sm =
    Some (pai_inferior_proc (pai_classified sm a InferiorMasterInfo), Next)"
proof -
  let ?r = "pai_inferior_proc (pai_classified sm a InferiorMasterInfo)"
  let ?s = "(pai_classified sm a InferiorMasterInfo)
    \<lparr>state := PAI_INFERIOR_MASTER_OR_OTHER_PORT, last_state := PAI_RECEIVE\<rparr>"
  let ?t = "?r\<lparr>last_state := PAI_INFERIOR_MASTER_OR_OTHER_PORT\<rparr>"
  have c: "state sm = PAI_CURRENT" "last_state sm = PAI_CURRENT"
    using assms(1) by (simp_all add: pai_message_def pai_current_def)
  have start: "port_announce_information_sm e cts64 sm = sm_loop (pai_body e cts64) ?s"
    using assms(1-3) by (intro pai_message_classified) simp_all
  have 1: "sm_step (pai_body e cts64) ?s = (?t, Next)"
    using c assms(4) by (auto simp: sm_step_def pai_body_def pai_inferior_proc_def pai_inferior_condition_def
        pai_classified_def message_priority_def)
  have 2: "sm_step (pai_body e cts64) ?t = (?r, Next)"
    using c assms by (auto simp: sm_step_def pai_body_def pai_current_condition_def pai_classified_def
        pai_inferior_proc_def pai_message_def not_le)
  have d: "last_state ?t \<noteq> state ?t" "last_state ?r = state ?r"
    using c by (simp_all add: pai_classified_def pai_inferior_proc_def)
  show ?thesis
    unfolding start sm_loop_again [OF 1 d(1)] by (rule sm_loop_rest [OF 2 d(2)])
qed

section \<open>Instances\<close>

definition sample_pai :: port_announce_information_data where
  "sample_pai = port_announce_information_sm_init 1 sample_ptasg sample_ppg
     zero_BmcsPerTimeAwareSystemGlobal (zero_BmcsPerPortGlobal
       \<lparr>announceReceiptTimeout := 3, portPriority := memset_UInteger224 255,
        announceReceiptTimeoutTimeInterval := zero_UScaledNs\<lparr>nsec := 5\<rparr>\<rparr>)
     \<lparr>state := PAI_CURRENT, last_state := PAI_CURRENT\<rparr>"

definition sample_pai_message :: port_announce_information_data where
  "sample_pai_message = sample_pai\<lparr>bppg := (bppg sample_pai)
     \<lparr>rcvdMsg := True, rcvdAnnouncePtr := Some sample_announce\<rparr>\<rparr>"

lemmas sample_pai_defs = sample_pai_def port_announce_information_sm_init_def
  zero_BmcsPerPortGlobal_def zero_BmcsPerTimeAwareSystemGlobal_def MAX_PORT_NUMBER_LIMIT_def

lemma sample_pai_current: "pai_current sample_pai"
  using sample_running sample_active
  by (simp add: pai_current_def sample_pai_defs)

lemma sample_pai_message: "pai_message sample_pai_message sample_announce"
  using sample_pai_current
  by (simp add: pai_message_def pai_current_def sample_pai_message_def)
    (simp add: sample_pai_defs sample_ppg_def zero_PerPortGlobal_def zero_PerPortGlobalForAllDomain_def
      sample_ptasg_def zero_PerTimeAwareSystemGlobal_def)


theorem announce_information_total_witness:
  "\<exists>t c. port_announce_information_sm default_env 0 sample_pai_message = Some (t, c) \<and> c \<noteq> Crash"
proof -
  have "pai_inv sample_pai_message"
    using sample_pai_message
    by (simp add: pai_inv_def pai_message_def pai_current_def readable_announce_def
        sample_announce_def MAX_PATH_TRACE_N_def)
  then show ?thesis using announce_information_total [of sample_pai_message default_env 0] by blast
qed

theorem information_kept_until_timeout_witness:
  "port_announce_information_sm default_env 4
     (sample_pai\<lparr>announceReceiptTimeoutTime := zero_UScaledNs\<lparr>nsec := 5\<rparr>\<rparr>) =
   Some (sample_pai\<lparr>announceReceiptTimeoutTime := zero_UScaledNs\<lparr>nsec := 5\<rparr>\<rparr>, Next)"
proof -
  have "\<not> gmPresent (ptasg sample_pai)" "\<not> rcvdMsg (bppg sample_pai)" "\<not> updtInfo (bppg sample_pai)"
    by (simp_all add: sample_pai_defs sample_ptasg_def zero_PerTimeAwareSystemGlobal_def)
  then show ?thesis using sample_pai_current
    by (intro information_kept_until_timeout) (simp_all add: pai_current_def)
qed

theorem own_information_adopted_witness:
  "\<exists>t. port_announce_information_sm default_env 0
      (sample_pai\<lparr>bptasg := zero_BmcsPerTimeAwareSystemGlobal\<lparr>selected := replicate 33 True\<rparr>,
         bppg := (bppg sample_pai)\<lparr>updtInfo := True\<rparr>\<rparr>) = Some (t, Next) \<and> newInfo (bppg t)"
proof -
  let ?s = "sample_pai\<lparr>bptasg := zero_BmcsPerTimeAwareSystemGlobal\<lparr>selected := replicate 33 True\<rparr>,
         bppg := (bppg sample_pai)\<lparr>updtInfo := True\<rparr>\<rparr>"
  have "portIndex sample_pai = 1" "\<not> rcvdMsg (bppg sample_pai)" by (simp_all add: sample_pai_defs)
  then have "port_announce_information_sm default_env 0 ?s = Some (pai_update_proc ?s, Next)"
    using sample_pai_current by (intro own_information_adopted) (simp_all add: pai_current_def)
  then show ?thesis by (simp add: pai_update_proc_def)
qed

lemma sample_pai_timeouts:
  "announce_timeout default_env sample_pai_message sample_announce = 3000000000"
  "sync_timeout default_env sample_pai_message = 0"
  "gmPresent (ptasg sample_pai_message) = False"
  by (simp_all add: announce_timeout_def sync_timeout_def sample_pai_message_def sample_pai_defs
      sample_announce_def zero_PTPMsgAnnounce_def zero_PTPMsgHeader_def sample_ppg_def
      zero_PerPortGlobal_def LOG_TO_NSEC_def UB_SEC_NS_def sample_ptasg_def
      zero_PerTimeAwareSystemGlobal_def)

lemma sample_pai_message_parts:
  "portPriority (bppg sample_pai_message) = memset_UInteger224 255"
  "ppg sample_pai_message = sample_ppg" "bmcsQuickUpdate (bptasg sample_pai_message) = 0"
  "nsec (announceReceiptTimeoutTimeInterval (bppg sample_pai_message)) = 5"
  "gmPresent (ptasg sample_pai_message) = False"
  by (simp_all add: sample_pai_message_def sample_pai_defs sample_ptasg_def
      zero_PerTimeAwareSystemGlobal_def)

lemmas sample_vector_defs = message_priority_def sample_announce_def zero_PTPMsgAnnounce_def
  zero_PTPMsgHeader_def sample_ppg_def zero_PerPortGlobal_def memset_UInteger224_def


theorem repeated_information_refreshes_witness:
  "\<exists>t. port_announce_information_sm default_env 100 (sample_pai_message\<lparr>bppg :=
       (bppg sample_pai_message)\<lparr>portPriority := pai_vector sample_pai_message sample_announce\<rparr>\<rparr>) =
     Some (t, Next) \<and> nsec (announceReceiptTimeoutTime t) = 105"
proof -
  let ?s = "sample_pai_message\<lparr>bppg :=
       (bppg sample_pai_message)\<lparr>portPriority := pai_vector sample_pai_message sample_announce\<rparr>\<rparr>"
  have "pai_message ?s sample_announce"
    using sample_pai_message by (simp add: pai_message_def pai_current_def)
  then have "port_announce_information_sm default_env 100 ?s = Some
      (pai_repeated_master_port_proc 100 (pai_classified ?s sample_announce RepeatedMasterInfo), Next)"
    by (rule repeated_information_refreshes) (simp_all add: sample_pai_message_parts)
  then show ?thesis
    by (simp add: pai_repeated_master_port_proc_def pai_classified_def sample_pai_message_parts)
qed

theorem inferior_information_dropped_witness:
  "\<exists>t. port_announce_information_sm default_env 4 (sample_pai_message\<lparr>bppg :=
       (bppg sample_pai_message)\<lparr>portPriority := memset_UInteger224 0\<rparr>,
       announceReceiptTimeoutTime := zero_UScaledNs\<lparr>nsec := 5\<rparr>\<rparr>) = Some (t, Next) \<and>
     portPriority (bppg t) = memset_UInteger224 0 \<and> \<not> rcvdMsg (bppg t)"
proof -
  let ?s = "sample_pai_message\<lparr>bppg :=
       (bppg sample_pai_message)\<lparr>portPriority := memset_UInteger224 0\<rparr>,
       announceReceiptTimeoutTime := zero_UScaledNs\<lparr>nsec := 5\<rparr>\<rparr>"
  have "pai_message ?s sample_announce"
    using sample_pai_message by (simp add: pai_message_def pai_current_def)
  moreover have "memset_UInteger224 0 \<noteq> pai_vector ?s sample_announce"
    "compare_priority_vectors default_env (pai_vector ?s sample_announce) (memset_UInteger224 0) \<noteq>
      SUPERIOR_PRIORITY"
    by (simp_all add: sample_pai_message_parts sample_vector_defs compare_priority_vectors_def
        uint224_bytes_def uint112_bytes_def)
  ultimately have "port_announce_information_sm default_env 4 ?s = Some
      (pai_inferior_proc (pai_classified ?s sample_announce InferiorMasterInfo), Next)"
    by (intro inferior_information_dropped) (simp_all add: sample_pai_message_parts)
  then show ?thesis by (simp add: pai_inferior_proc_def pai_classified_def)
qed

end
