(* ===== verification/Gptp_Clock.thy ===== *)
theory Gptp_Clock
  imports Gptp_Mind
begin

text \<open>
  The clocks of the daemon (\<^verbatim>\<open>gptpclock.c\<close>): one entry per clock and domain, the
  part of it that is shared with the client processes, the per-domain status of the
  grandmaster, and the choice of the active domain.

  The hardware is a parameter (\<open>platform\<close>): the value read from a clock device, the
  monotonic time of the host, whether a frequency adjustment succeeds, and what opening a device
  gives. Every access is numbered, so that a reading may be anything at any time;
  what the code writes to a device is recorded. The mutex around the shared memory
  is not modelled, since one process works on it here.
\<close>

section \<open>State\<close>

datatype (plugins only: code) ptpclock_mode = PTPCLOCK_MASTER | PTPCLOCK_SLAVE_MAIN | PTPCLOCK_SLAVE_SUB

datatype (plugins only: code) ptpclock_state =
  PTPCLOCK_NOWORK | PTPCLOCK_NOACCESS | PTPCLOCK_RDONLY | PTPCLOCK_RDWR

datatype (plugins only: code) hw_op = HwSetTime int u64 | HwAdjTime int int | HwClose int

record platform =
  hw_time :: "int \<Rightarrow> nat \<Rightarrow> u64"
  mt_time :: "nat \<Rightarrow> u64"
  hw_adj_ok :: "int \<Rightarrow> nat \<Rightarrow> bool"
  hw_open :: "string \<Rightarrow> ptpclock_state \<times> int"

record gptp_clock_ppara =
  pp_ptpdev :: string
  pp_domainNumber :: u8
  pp_offset64 :: u64
  pp_gmsync :: bool
  pp_gmchange_ind :: u32
  pp_last_setts64 :: u64
  pp_adjrate :: real

record oneclock_data =
  ppe :: gptp_clock_ppara
  clockIndex :: int
  clockId :: ClockIdentity
  ptpfd :: int
  mode :: ptpclock_mode
  od_domainIndex :: nat
  od_state :: ptpclock_state
  offset64 :: u64
  last_setts64 :: u64
  adjrate :: real
  adjvppb :: int
  ts2diff :: int
  clk_flags :: u32

record per_domain_data =
  gm_stable :: bool
  we_are_gm :: bool
  pdd_domainNumber :: u8
  gmClockId :: ClockIdentity
  pdd_thisClockIndex :: int
  thisClock_adjppb :: int

text \<open>
  \<open>opened\<close> says whether the array of clocks exists (\<^verbatim>\<open>gcd.clds\<close> is not null);
  \<open>null_access\<close> is raised where the code follows a null pointer or reads outside of
  the array of domains, after which nothing it does is defined;
  \<open>gcpp\<close> is the part of the shared memory with one entry per domain. The fields of the
  structure that no code reads (\<^verbatim>\<open>last_gmch_ts\<close>, \<^verbatim>\<open>waiting_d0_sync\<close>) are left out.
\<close>

record gptpclock_data =
  opened :: bool
  clds :: "oneclock_data list"
  max_domains :: int
  active_domain :: int
  gcpp :: "gptp_clock_ppara list"
  pdd :: "per_domain_data list"
  active_domain_switch :: int
  hw_accesses :: nat
  hw_log :: "hw_op list"
  null_access :: bool

definition PTPFD_VALID :: "int \<Rightarrow> bool" where
  "PTPFD_VALID fd \<longleftrightarrow> fd \<ge> 0"

definition PTPFD_INVALID :: int where
  "PTPFD_INVALID = - 1"

definition zero_ppara :: gptp_clock_ppara where
  "zero_ppara = \<lparr>pp_ptpdev = [], pp_domainNumber = 0, pp_offset64 = 0, pp_gmsync = False,
     pp_gmchange_ind = 0, pp_last_setts64 = 0, pp_adjrate = 0\<rparr>"

definition zero_oneclock :: oneclock_data where
  "zero_oneclock = \<lparr>ppe = zero_ppara, clockIndex = 0, clockId = zero_clockid, ptpfd = 0,
     mode = PTPCLOCK_MASTER, od_domainIndex = 0, od_state = PTPCLOCK_NOWORK, offset64 = 0,
     last_setts64 = 0, adjrate = 0, adjvppb = 0, ts2diff = 0, clk_flags = 0\<rparr>"

definition zero_pdd :: per_domain_data where
  "zero_pdd = \<lparr>gm_stable = False, we_are_gm = False, pdd_domainNumber = 0,
     gmClockId = zero_clockid, pdd_thisClockIndex = 0, thisClock_adjppb = 0\<rparr>"

text \<open>The event flags of \<^verbatim>\<open>gptpipc.h\<close> that the clocks raise.\<close>

definition FLAG_GM_SYNCED :: u32 where "FLAG_GM_SYNCED = 0x10"
definition FLAG_GM_UNSYNCED :: u32 where "FLAG_GM_UNSYNCED = 0x20"
definition FLAG_GM_CHANGE :: u32 where "FLAG_GM_CHANGE = 0x40"
definition FLAG_ACTIVE_DOMAIN :: u32 where "FLAG_ACTIVE_DOMAIN = 0x200"

section \<open>Finding a clock\<close>

text \<open>
  A clock is named by its position in \<open>clds\<close>. The parameters \<^verbatim>\<open>pp\<close> of clock index 0
  are the entry of the domain in the shared memory, those of the other clocks are
  their own.
\<close>

abbreviation clock_at :: "gptpclock_data \<Rightarrow> nat \<Rightarrow> oneclock_data" where
  "clock_at g i \<equiv> clds g ! i"

definition pp_of :: "gptpclock_data \<Rightarrow> oneclock_data \<Rightarrow> gptp_clock_ppara" where
  "pp_of g od = (if clockIndex od = 0 then gcpp g ! od_domainIndex od else ppe od)"

definition set_clock :: "nat \<Rightarrow> (oneclock_data \<Rightarrow> oneclock_data) \<Rightarrow> gptpclock_data \<Rightarrow> gptpclock_data"
  where "set_clock i f g = g\<lparr>clds := (clds g)[i := f (clds g ! i)]\<rparr>"

definition set_pp ::
  "nat \<Rightarrow> (gptp_clock_ppara \<Rightarrow> gptp_clock_ppara) \<Rightarrow> gptpclock_data \<Rightarrow> gptpclock_data" where
  "set_pp i f g =
     (let od = clds g ! i; d = od_domainIndex od in
      if clockIndex od = 0 then g\<lparr>gcpp := (gcpp g)[d := f (gcpp g ! d)]\<rparr>
      else g\<lparr>clds := (clds g)[i := od\<lparr>ppe := f (ppe od)\<rparr>]\<rparr>)"

definition set_pdd ::
  "nat \<Rightarrow> (per_domain_data \<Rightarrow> per_domain_data) \<Rightarrow> gptpclock_data \<Rightarrow> gptpclock_data" where
  "set_pdd d f g = g\<lparr>pdd := (pdd g)[d := f (pdd g ! d)]\<rparr>"

definition is_clock :: "gptpclock_data \<Rightarrow> int \<Rightarrow> u8 \<Rightarrow> oneclock_data \<Rightarrow> bool" where
  "is_clock g ci dn od \<longleftrightarrow> clockIndex od = ci \<and> pp_domainNumber (pp_of g od) = dn"

definition get_clockod :: "gptpclock_data \<Rightarrow> int \<Rightarrow> u8 \<Rightarrow> nat option" where
  "get_clockod g ci dn = find (\<lambda>i. is_clock g ci dn (clds g ! i)) [0..<length (clds g)]"

text \<open>\<^verbatim>\<open>GPTPCLOCK_FN_ENTRY\<close>: the clock, unless there is none or its device is not open.\<close>

definition FN_ENTRY :: "gptpclock_data \<Rightarrow> int \<Rightarrow> u8 \<Rightarrow> nat option" where
  "FN_ENTRY g ci dn =
     (if \<not> opened g then None
      else case get_clockod g ci dn of
        None \<Rightarrow> None
      | Some i \<Rightarrow> if PTPFD_VALID (ptpfd (clds g ! i)) then Some i else None)"

section \<open>Reading and setting a clock\<close>

definition GPTP_CLOCK_GETTIME :: "platform \<Rightarrow> int \<Rightarrow> gptpclock_data \<Rightarrow> u64 \<times> gptpclock_data" where
  "GPTP_CLOCK_GETTIME p fd g =
     (hw_time p fd (hw_accesses g), g\<lparr>hw_accesses := hw_accesses g + 1\<rparr>)"

definition GPTP_CLOCK_SETTIME :: "int \<Rightarrow> u64 \<Rightarrow> gptpclock_data \<Rightarrow> gptpclock_data" where
  "GPTP_CLOCK_SETTIME fd ts64 g = g\<lparr>hw_log := hw_log g @ [HwSetTime fd ts64]\<rparr>"

definition ub_mt_gettime64 :: "platform \<Rightarrow> gptpclock_data \<Rightarrow> u64 \<times> gptpclock_data" where
  "ub_mt_gettime64 p g = (mt_time p (hw_accesses g), g\<lparr>hw_accesses := hw_accesses g + 1\<rparr>)"

definition gptpclock_getts_od :: "platform \<Rightarrow> nat \<Rightarrow> gptpclock_data \<Rightarrow> u64 \<times> gptpclock_data" where
  "gptpclock_getts_od p i g =
     (let od = clds g ! i; (ts64, g1) = GPTP_CLOCK_GETTIME p (ptpfd od) g in
      if offset64 od = 0 then (ts64, g1)
      else
        let dts64 = (if adjrate od \<noteq> 0
              then of_int (c_trunc (adjrate od * of_int (sint (ts64 - last_setts64 od)))) else 0)
        in (ts64 + offset64 od + dts64, g1))"

definition gptpclock_setoffset_od :: "nat \<Rightarrow> gptpclock_data \<Rightarrow> int \<times> gptpclock_data" where
  "gptpclock_setoffset_od i g =
     (let od = clds g ! i; dn = pp_domainNumber (pp_of g od);
          od0 = get_clockod g 0 dn;
          odt = get_clockod g (pdd_thisClockIndex (pdd g ! od_domainIndex od)) dn
      in case mode od of
        PTPCLOCK_MASTER \<Rightarrow>
          (0, case odt of
                Some t \<Rightarrow> if od0 = Some i
                  then set_pp i (\<lambda>q. q\<lparr>pp_offset64 := offset64 od + offset64 (clds g ! t)\<rparr>) g else g
              | None \<Rightarrow> g)
      | PTPCLOCK_SLAVE_SUB \<Rightarrow>
          (0, case od0 of
                Some z \<Rightarrow> if odt = Some i
                  then set_pp z (\<lambda>q. q\<lparr>pp_last_setts64 := last_setts64 od,
                         pp_offset64 := offset64 (clds g ! z) + offset64 od\<rparr>) g else g
              | None \<Rightarrow> g)
      | PTPCLOCK_SLAVE_MAIN \<Rightarrow> (- 1, g))"

definition gptpclock_setts_od :: "platform \<Rightarrow> u64 \<Rightarrow> nat \<Rightarrow> gptpclock_data \<Rightarrow> int \<times> gptpclock_data" where
  "gptpclock_setts_od p ts64 i g =
     (let (now, g1) = GPTP_CLOCK_GETTIME p (ptpfd (clds g ! i)) g;
          g2 = set_clock i (\<lambda>od. od\<lparr>offset64 := ts64 - now, last_setts64 := now\<rparr>) g1
      in if mode (clds g ! i) = PTPCLOCK_SLAVE_MAIN
         then (0, GPTP_CLOCK_SETTIME (ptpfd (clds g ! i)) ts64
                (set_clock i (\<lambda>od. od\<lparr>offset64 := 0\<rparr>) g2))
         else (0, snd (gptpclock_setoffset_od i g2)))"

definition time_setoffset64 ::
  "platform \<Rightarrow> u64 \<Rightarrow> int \<Rightarrow> u8 \<Rightarrow> gptpclock_data \<Rightarrow> u64 \<times> gptpclock_data" where
  "time_setoffset64 p ts64 ci dn g =
     (case FN_ENTRY g ci dn of
        None \<Rightarrow> (- 1, g)
      | Some i \<Rightarrow>
          let (mt1, g1) = ub_mt_gettime64 p g;
              (ats64, g2) = gptpclock_getts_od p i g1;
              (_, g3) = gptpclock_setts_od p (ats64 + ts64) i g2;
              (mt2, g4) = ub_mt_gettime64 p g3
          in (mt2 - mt1, g4))"

text \<open>
  \<^verbatim>\<open>avarage_time_setoffset\<close>: ten measurements, the greatest one removed. \<open>av\<close> is a
  32-bit \<^verbatim>\<open>int\<close>; \<open>n\<close> counts the measurements left.
\<close>

fun avarage_loop ::
  "env \<Rightarrow> platform \<Rightarrow> int \<Rightarrow> u8 \<Rightarrow> nat \<Rightarrow> u64 \<times> u32 \<times> int \<Rightarrow> gptpclock_data \<Rightarrow>
   (u64 \<times> u32 \<times> int) \<times> gptpclock_data" where
  "avarage_loop e p ci dn 0 acc g = (acc, g)"
| "avarage_loop e p ci dn (Suc n) (vmax, av, count) g =
     (let (v, g1) = time_setoffset64 p 0 ci dn g in
      if sint v > conf e CONF_MAX_CONSEC_TS_DIFF then avarage_loop e p ci dn n (vmax, av, count) g1
      else avarage_loop e p ci dn n
             (if \<bar>sint vmax\<bar> < \<bar>sint v\<bar> then v else vmax, av + ucast v, count + 1) g1)"

definition avarage_time_setoffset ::
  "env \<Rightarrow> platform \<Rightarrow> int \<Rightarrow> u8 \<Rightarrow> gptpclock_data \<Rightarrow> int \<times> gptpclock_data" where
  "avarage_time_setoffset e p ci dn g =
     (let ((vmax, av, count), g1) = avarage_loop e p ci dn 10 (0, 0, 0) g;
          av1 = av - ucast vmax
      in if count - 1 \<le> 0 then (0, g1)
         else let av2 = c_div (sint av1) (count - 1) in
           (c_div (av2 * conf e CONF_TS2DIFF_CACHE_FACTOR) 100, g1))"

section \<open>Adding and removing clocks\<close>

definition gptpclock_del_clock :: "int \<Rightarrow> u8 \<Rightarrow> gptpclock_data \<Rightarrow> int \<times> gptpclock_data" where
  "gptpclock_del_clock ci dn g =
     (if \<not> opened g then (0, g)
      else case get_clockod g ci dn of
        None \<Rightarrow> (- 1, g)
      | Some i \<Rightarrow>
          let fd = ptpfd (clds g ! i);
              g1 = (if PTPFD_VALID fd then g\<lparr>hw_log := hw_log g @ [HwClose fd]\<rparr> else g)
          in (0, g1\<lparr>clds := take i (clds g1) @ drop (i + 1) (clds g1)\<rparr>))"

definition MAX_PTPDEV_NAME :: nat where
  "MAX_PTPDEV_NAME = 32"

definition gptpclock_add_clock ::
  "env \<Rightarrow> platform \<Rightarrow> int \<Rightarrow> string \<Rightarrow> nat \<Rightarrow> u8 \<Rightarrow> ClockIdentity \<Rightarrow> gptpclock_data \<Rightarrow>
   int \<times> gptpclock_data" where
  "gptpclock_add_clock e p ci ptpdev di dn cid g =
     (if \<not> opened g \<or> get_clockod g ci dn \<noteq> None then (- 1, g)
      else
        let n = length (clds g);
            g1 = (if ci \<noteq> 0 then g
                  else g\<lparr>gcpp := (gcpp g)[di := zero_ppara\<lparr>pp_gmchange_ind := 1\<rparr>]\<rparr>);
            g2 = g1\<lparr>clds := clds g1 @ [zero_oneclock\<lparr>clockIndex := ci, clockId := cid, od_domainIndex := di\<rparr>]\<rparr>;
            g3 = set_pp n (\<lambda>q. q\<lparr>pp_domainNumber := dn\<rparr>) g2;
            g4 = set_pdd di (\<lambda>d. d\<lparr>pdd_domainNumber := dn\<rparr>) g3;
            (st, fd) = hw_open p ptpdev;
            g5 = set_clock n (\<lambda>od. od\<lparr>ptpfd := fd, od_state := st\<rparr>) g4
        in if st = PTPCLOCK_RDWR \<or> st = PTPCLOCK_RDONLY then
             let g6 = set_pp n (\<lambda>q. q\<lparr>pp_ptpdev := take (MAX_PTPDEV_NAME - 1) ptpdev\<rparr>) g5;
                 (diff, g7) = avarage_time_setoffset e p ci dn g6;
                 g8 = set_clock n (\<lambda>od. od\<lparr>offset64 := 0, ts2diff := diff\<rparr>) g7
             in (0, set_pp n (\<lambda>q. q\<lparr>pp_offset64 := 0\<rparr>) g8)
           else
             (- 1, snd (gptpclock_del_clock ci dn
                     (set_clock n (\<lambda>od. od\<lparr>ptpfd := PTPFD_INVALID\<rparr>) g5))))"

text \<open>\<^verbatim>\<open>gptpclock_init\<close>, when the memory is available.\<close>

definition gptpclock_init :: "nat \<Rightarrow> gptpclock_data" where
  "gptpclock_init max_doms =
     \<lparr>opened = True, clds = [], max_domains = int max_doms, active_domain = 0,
      gcpp = replicate max_doms zero_ppara, pdd = replicate max_doms zero_pdd,
      active_domain_switch = - 1, hw_accesses = 0, hw_log = [],
      null_access = False\<rparr>"

text \<open>
  \<^verbatim>\<open>gptpclock_close\<close> pops the clocks from the last to the first, and gives the
  frequency of the main clocks back; the shared memory is released.
\<close>

definition close_clock :: "oneclock_data \<Rightarrow> hw_op list" where
  "close_clock od =
     (if mode od = PTPCLOCK_SLAVE_MAIN then [HwAdjTime (ptpfd od) 0] else []) @
     (if PTPFD_VALID (ptpfd od) then [HwClose (ptpfd od)] else [])"

definition gptpclock_close :: "gptpclock_data \<Rightarrow> gptpclock_data" where
  "gptpclock_close g =
     (if \<not> opened g then g
      else g\<lparr>opened := False, clds := [], max_domains := 0, gcpp := [], pdd := [],
             hw_log := hw_log g @ concat (map close_clock (rev (clds g)))\<rparr>)"

section \<open>Time values of a clock\<close>

definition gptpclock_apply_offset :: "u64 \<Rightarrow> int \<Rightarrow> u8 \<Rightarrow> gptpclock_data \<Rightarrow> int \<times> u64" where
  "gptpclock_apply_offset ts64 ci dn g =
     (case FN_ENTRY g ci dn of None \<Rightarrow> (- 1, ts64) | Some i \<Rightarrow> (0, ts64 + offset64 (clds g ! i)))"

definition gptpclock_getts64 :: "platform \<Rightarrow> int \<Rightarrow> u8 \<Rightarrow> gptpclock_data \<Rightarrow> u64 \<times> gptpclock_data" where
  "gptpclock_getts64 p ci dn g =
     (case FN_ENTRY g ci dn of None \<Rightarrow> (- 1, g) | Some i \<Rightarrow> gptpclock_getts_od p i g)"

definition gptpclock_gethwts64 :: "platform \<Rightarrow> int \<Rightarrow> u8 \<Rightarrow> gptpclock_data \<Rightarrow> u64 \<times> gptpclock_data" where
  "gptpclock_gethwts64 p ci dn g =
     (case FN_ENTRY g ci dn of None \<Rightarrow> (- 1, g) | Some i \<Rightarrow> GPTP_CLOCK_GETTIME p (ptpfd (clds g ! i)) g)"

definition gptpclock_setts64 ::
  "platform \<Rightarrow> u64 \<Rightarrow> int \<Rightarrow> u8 \<Rightarrow> gptpclock_data \<Rightarrow> int \<times> gptpclock_data" where
  "gptpclock_setts64 p ts64 ci dn g =
     (case FN_ENTRY g ci dn of None \<Rightarrow> (- 1, g) | Some i \<Rightarrow> gptpclock_setts_od p ts64 i g)"

definition gptpclock_setoffset64 ::
  "platform \<Rightarrow> u64 \<Rightarrow> int \<Rightarrow> u8 \<Rightarrow> gptpclock_data \<Rightarrow> int \<times> gptpclock_data" where
  "gptpclock_setoffset64 p ts64 ci dn g =
     (case FN_ENTRY g ci dn of
        None \<Rightarrow> (- 1, g)
      | Some i \<Rightarrow>
          if mode (clds g ! i) \<noteq> PTPCLOCK_SLAVE_MAIN
          then (0, snd (gptpclock_setoffset_od i (set_clock i (\<lambda>od. od\<lparr>offset64 := ts64\<rparr>) g)))
          else
            let diff = ts2diff (clds g ! i);
                (v, g1) = time_setoffset64 p (of_int (c_div diff 2) + ts64) ci dn g
            in (if sint v > diff * 10 then - 1 else 0, g1))"

definition gptp_clock_adjtime :: "platform \<Rightarrow> int \<Rightarrow> int \<Rightarrow> gptpclock_data \<Rightarrow> bool \<times> gptpclock_data" where
  "gptp_clock_adjtime p fd ppb g =
     (hw_adj_ok p fd (hw_accesses g),
      g\<lparr>hw_accesses := hw_accesses g + 1, hw_log := hw_log g @ [HwAdjTime fd ppb]\<rparr>)"

definition gptpclock_setadj ::
  "platform \<Rightarrow> int \<Rightarrow> int \<Rightarrow> u8 \<Rightarrow> gptpclock_data \<Rightarrow> int \<times> gptpclock_data" where
  "gptpclock_setadj p ppb ci dn g =
     (case FN_ENTRY g ci dn of
        None \<Rightarrow> (- 1, g)
      | Some i \<Rightarrow>
          let od = clds g ! i; d = od_domainIndex od;
              g1 = (if pdd_thisClockIndex (pdd g ! d) = ci
                    then set_pdd d (\<lambda>q. q\<lparr>thisClock_adjppb := ppb\<rparr>) g else g)
          in case mode od of
            PTPCLOCK_SLAVE_MAIN \<Rightarrow>
              let (ok, g2) = gptp_clock_adjtime p (ptpfd od) ppb g1 in
              if \<not> ok then (- 1, g2) else (0, set_clock i (\<lambda>od. od\<lparr>adjvppb := ppb\<rparr>) g2)
          | PTPCLOCK_MASTER \<Rightarrow> (- 1, g1)
          | PTPCLOCK_SLAVE_SUB \<Rightarrow>
              let (_, g2) = time_setoffset64 p (of_int (c_div (ts2diff od) 2)) ci dn g1;
                  g3 = set_clock i (\<lambda>o1. o1\<lparr>clk_flags := clk_flags od,
                         adjrate := of_int ppb / 10 ^ 9\<rparr>) g2
              in case get_clockod g3 0 dn of
                   None \<Rightarrow> (- 1, g3\<lparr>null_access := True\<rparr>)
                 | Some z \<Rightarrow>
                     (0, set_clock i (\<lambda>od. od\<lparr>adjvppb := ppb\<rparr>)
                           (set_pp z (\<lambda>q. q\<lparr>pp_adjrate := adjrate (clds g3 ! i)\<rparr>) g3)))"

definition gptpclock_get_adjppb :: "int \<Rightarrow> u8 \<Rightarrow> gptpclock_data \<Rightarrow> int" where
  "gptpclock_get_adjppb ci dn g =
     (case get_clockod g ci dn of
        None \<Rightarrow> 0
      | Some i \<Rightarrow> if ci = 0 then thisClock_adjppb (pdd g ! od_domainIndex (clds g ! i))
                  else adjvppb (clds g ! i))"

definition gptpclock_clockid :: "int \<Rightarrow> u8 \<Rightarrow> gptpclock_data \<Rightarrow> ClockIdentity option" where
  "gptpclock_clockid ci dn g =
     (if \<not> opened g then None
      else case get_clockod g ci dn of None \<Rightarrow> None | Some i \<Rightarrow> Some (clockId (clds g ! i)))"

section \<open>Modes of a clock\<close>

definition gptpclock_mode_master :: "int \<Rightarrow> u8 \<Rightarrow> gptpclock_data \<Rightarrow> int \<times> gptpclock_data" where
  "gptpclock_mode_master ci dn g =
     (case FN_ENTRY g ci dn of None \<Rightarrow> (- 1, g)
      | Some i \<Rightarrow> (0, set_clock i (\<lambda>od. od\<lparr>mode := PTPCLOCK_MASTER\<rparr>) g))"

text \<open>Another domain drives the hardware of the clock with this index.\<close>

definition main_elsewhere :: "int \<Rightarrow> u8 \<Rightarrow> gptpclock_data \<Rightarrow> bool" where
  "main_elsewhere ci dn g =
     list_ex (\<lambda>od1. clockIndex od1 = ci \<and> pp_domainNumber (pp_of g od1) \<noteq> dn \<and>
       mode od1 = PTPCLOCK_SLAVE_MAIN) (clds g)"

definition gptpclock_mode_slave_main :: "int \<Rightarrow> u8 \<Rightarrow> gptpclock_data \<Rightarrow> int \<times> gptpclock_data" where
  "gptpclock_mode_slave_main ci dn g =
     (case FN_ENTRY g ci dn of
        None \<Rightarrow> (- 1, g)
      | Some i \<Rightarrow>
          if main_elsewhere ci dn g then (- 1, g)
          else
            let g1 = set_clock i (\<lambda>od. od\<lparr>mode := PTPCLOCK_SLAVE_MAIN, adjrate := 0\<rparr>) g
            in case FN_ENTRY g1 0 dn of
                 None \<Rightarrow> (- 1, g1)
               | Some z \<Rightarrow> (0, set_pp z (\<lambda>q. q\<lparr>pp_offset64 := offset64 (clds g1 ! z),
                                pp_adjrate := 0\<rparr>) g1))"

definition gptpclock_mode_slave_sub :: "int \<Rightarrow> u8 \<Rightarrow> gptpclock_data \<Rightarrow> int \<times> gptpclock_data" where
  "gptpclock_mode_slave_sub ci dn g =
     (case FN_ENTRY g ci dn of None \<Rightarrow> (- 1, g)
      | Some i \<Rightarrow> (0, set_clock i (\<lambda>od. od\<lparr>mode := PTPCLOCK_SLAVE_SUB\<rparr>) g))"

text \<open>
  \<^verbatim>\<open>gptpclock_set_thisClock\<close>, in the parts its two modes have: the offset and rate of a
  clock that drives the hardware go to the hardware, those of another are kept in
  software; the offset of the master clock \<open>m\<close> goes to the clock \<open>i\<close> of the domain.
\<close>

definition thisClock_finish :: "nat \<Rightarrow> nat \<Rightarrow> gptpclock_data \<Rightarrow> gptpclock_data" where
  "thisClock_finish i m g =
     set_pp m (\<lambda>q. q\<lparr>pp_offset64 := offset64 (clds g ! i)\<rparr>) (set_clock m (\<lambda>od. od\<lparr>offset64 := 0\<rparr>) g)"

definition thisClock_main ::
  "platform \<Rightarrow> int \<Rightarrow> u8 \<Rightarrow> nat \<Rightarrow> nat \<Rightarrow> real \<Rightarrow> gptpclock_data \<Rightarrow> gptpclock_data" where
  "thisClock_main p ci dn i m rate g =
     (let g1 = (if offset64 (clds g ! i) \<noteq> 0
                then snd (gptpclock_setoffset64 p (offset64 (clds g ! i)) ci dn g) else g);
          g2 = (if rate \<noteq> 0
                then snd (gptpclock_setadj p (c_trunc (rate * of_int UB_SEC_NS)) ci dn g1) else g1);
          g3 = snd (gptpclock_setoffset64 p (offset64 (clds g2 ! m)) ci dn g2)
      in thisClock_finish i m g3)"

definition thisClock_sub :: "nat \<Rightarrow> nat \<Rightarrow> gptpclock_data \<Rightarrow> gptpclock_data" where
  "thisClock_sub i m g =
     thisClock_finish i m (set_clock i (\<lambda>od. od\<lparr>offset64 := offset64 od + offset64 (clds g ! m)\<rparr>) g)"

definition thisClock_try_main ::
  "int \<Rightarrow> u8 \<Rightarrow> nat \<Rightarrow> gptpclock_data \<Rightarrow> int \<times> gptpclock_data" where
  "thisClock_try_main ci dn i g =
     (if od_state (clds g ! i) = PTPCLOCK_RDWR then gptpclock_mode_slave_main ci dn g else (- 1, g))"

definition gptpclock_set_thisClock ::
  "platform \<Rightarrow> int \<Rightarrow> u8 \<Rightarrow> bool \<Rightarrow> gptpclock_data \<Rightarrow> int \<times> gptpclock_data" where
  "gptpclock_set_thisClock p ci dn set_clock_para g =
     (if ci = 0 \<or> \<not> opened g then (- 1, g)
      else case (get_clockod g ci dn, get_clockod g 0 dn) of
        (Some i, Some m) \<Rightarrow>
          if pp_ptpdev (pp_of g (clds g ! i)) \<noteq> pp_ptpdev (pp_of g (clds g ! m)) then (- 1, g)
          else
            let g1 = set_pdd (od_domainIndex (clds g ! i)) (\<lambda>d. d\<lparr>pdd_thisClockIndex := ci\<rparr>) g;
                g2 = set_clock m (\<lambda>od. od\<lparr>mode := PTPCLOCK_MASTER\<rparr>) g1;
                rate = adjrate (clds g2 ! i);
                (r, g3) = thisClock_try_main ci dn i g2
            in if r = 0 then
                 (0, if set_clock_para then thisClock_main p ci dn i m rate g3 else g3)
               else
                 let g4 = snd (gptpclock_mode_slave_sub ci dn g3)
                 in (0, if set_clock_para then thisClock_sub i m g4 else g4)
      | _ \<Rightarrow> (- 1, g))"

section \<open>Comparing and converting clocks\<close>

definition diff_in_two_clocks ::
  "platform \<Rightarrow> int \<Rightarrow> u8 \<Rightarrow> int \<Rightarrow> u8 \<Rightarrow> gptpclock_data \<Rightarrow> u64 option \<times> gptpclock_data" where
  "diff_in_two_clocks p ci dn ci1 dn1 g =
     (case (FN_ENTRY g ci dn, FN_ENTRY g ci1 dn1) of
        (Some i, Some j) \<Rightarrow>
          let (ts1, g1) = gptpclock_getts_od p i g;
              (ts2, g2) = gptpclock_getts_od p j g1;
              (ts3, g3) = gptpclock_getts_od p i g2;
              half = (of_int (c_div (sint (ts3 - ts1)) 2) :: u64)
          in if sint half > ts2diff (clds g ! i) * 10 then (None, g3)
             else (Some (ts2 - ts1 - half), g3)
      | _ \<Rightarrow> (None, g))"

definition gptpclock_tsconv ::
  "platform \<Rightarrow> u64 \<Rightarrow> int \<Rightarrow> u8 \<Rightarrow> int \<Rightarrow> u8 \<Rightarrow> gptpclock_data \<Rightarrow> (int \<times> u64) \<times> gptpclock_data" where
  "gptpclock_tsconv p ts64 ci dn ci1 dn1 g =
     (if ci = ci1 \<and> dn = dn1 then ((0, ts64), g)
      else case get_clockod g ci1 dn1 of
        None \<Rightarrow> ((- 1, ts64), g)
      | Some j \<Rightarrow>
          if ci = ci1 \<and> mode (clds g ! j) \<noteq> PTPCLOCK_SLAVE_SUB then ((0, ts64), g)
          else (case diff_in_two_clocks p ci dn ci1 dn1 g of
              (Some d, g1) \<Rightarrow> ((0, ts64 + d), g1)
            | (None, g1) \<Rightarrow> (case diff_in_two_clocks p ci dn ci1 dn1 g1 of
                (Some d, g2) \<Rightarrow> ((0, ts64 + d), g2)
              | (None, g2) \<Rightarrow> ((- 1, ts64), g2))))"

definition gptpclock_rate_same :: "int \<Rightarrow> u8 \<Rightarrow> int \<Rightarrow> u8 \<Rightarrow> gptpclock_data \<Rightarrow> int" where
  "gptpclock_rate_same ci dn ci1 dn1 g =
     (if \<not> opened g then - 1
      else case (get_clockod g ci dn, get_clockod g ci1 dn1) of
        (Some i, Some j) \<Rightarrow>
          let od = clds g ! i; od1 = clds g ! j in
          if pp_ptpdev (pp_of g od) = pp_ptpdev (pp_of g od1) \<and>
             ((mode od \<noteq> PTPCLOCK_SLAVE_SUB \<and> mode od1 \<noteq> PTPCLOCK_SLAVE_SUB) \<or>
              (adjrate od = 0 \<and> adjrate od1 = 0) \<or>
              (adjrate od = 0 \<and> mode od1 \<noteq> PTPCLOCK_SLAVE_SUB) \<or>
              (adjrate od1 = 0 \<and> mode od \<noteq> PTPCLOCK_SLAVE_SUB))
          then 0 else 1
      | _ \<Rightarrow> - 1)"

section \<open>The grandmaster and the active domain\<close>

definition switch_active_domain :: "int \<Rightarrow> gptpclock_data \<Rightarrow> int \<times> gptpclock_data" where
  "switch_active_domain di g =
     (if active_domain g = di then (1, g)
      else
        let g1 = g\<lparr>active_domain := di\<rparr> in
        if di < 0 \<or> di \<ge> int (length (pdd g)) then (- 1, g1\<lparr>null_access := True\<rparr>)
        else case FN_ENTRY g1 0 (pdd_domainNumber (pdd g ! nat di)) of
          None \<Rightarrow> (- 1, g1)
        | Some i \<Rightarrow> (0, set_clock i (\<lambda>od. od\<lparr>clk_flags := clk_flags od OR FLAG_ACTIVE_DOMAIN\<rparr>) g1))"

definition gptpclock_update_active_domain :: "env \<Rightarrow> gptpclock_data \<Rightarrow> int \<times> gptpclock_data" where
  "gptpclock_update_active_domain e g =
     (if active_domain_switch g \<ge> 0 then switch_active_domain (active_domain_switch g) g
      else if conf e CONF_ACTIVE_DOMAIN_AUTO_SWITCH = 0 then (0, g)
      else if gm_stable (pdd g ! nat (active_domain g)) \<and>
         conf e CONF_ACTIVE_DOMAIN_AUTO_SWITCH = 1 then (0, g)
      else if gm_stable (pdd g ! 0) then switch_active_domain 0 g
      else case find (\<lambda>i. gm_stable (pdd g ! i)) [0..<nat (max_domains g)] of
        Some i \<Rightarrow> switch_active_domain (int i) g
      | None \<Rightarrow> (- 1, g))"

definition gptpclock_active_domain_switch :: "int \<Rightarrow> gptpclock_data \<Rightarrow> int \<times> gptpclock_data" where
  "gptpclock_active_domain_switch di g =
     (let g1 = g\<lparr>active_domain_switch := di\<rparr> in
      if di < 0 \<or> di \<ge> max_domains g then (0, g1) else switch_active_domain di g1)"

definition adjust_GM_btw_domains :: "platform \<Rightarrow> u8 \<Rightarrow> gptpclock_data \<Rightarrow> int \<times> gptpclock_data" where
  "adjust_GM_btw_domains p dn g =
     (case (FN_ENTRY g 0 0, FN_ENTRY g 0 dn) of
        (Some i, Some j) \<Rightarrow>
          if pdd_thisClockIndex (pdd g ! 0) \<noteq> pdd_thisClockIndex (pdd g ! od_domainIndex (clds g ! j))
          then let (ts64, g1) = gptpclock_getts_od p i g in (0, snd (gptpclock_setts_od p ts64 j g1))
          else
            (0, set_pp j (\<lambda>q. q\<lparr>pp_offset64 := pp_offset64 (pp_of g (clds g ! i)), pp_adjrate := 0\<rparr>)
                  (set_clock j (\<lambda>od. od\<lparr>offset64 := offset64 (clds g ! i), adjrate := 0\<rparr>) g))
      | _ \<Rightarrow> (- 1, g))"

definition gptpclock_set_gmsync ::
  "env \<Rightarrow> platform \<Rightarrow> int \<Rightarrow> u8 \<Rightarrow> ClockIdentity \<Rightarrow> bool \<Rightarrow> gptpclock_data \<Rightarrow> int \<times> gptpclock_data" where
  "gptpclock_set_gmsync e p ci dn gmIdent becomeGM g =
     (case FN_ENTRY g ci dn of
        None \<Rightarrow> (- 1, g)
      | Some i \<Rightarrow>
          if pp_gmsync (pp_of g (clds g ! i)) then (0, g)
          else
            let d = od_domainIndex (clds g ! i);
                g1 = (if becomeGM then set_pdd d (\<lambda>q. q\<lparr>we_are_gm := True, gmClockId := gmIdent\<rparr>) g
                      else set_pdd d (\<lambda>q. q\<lparr>we_are_gm := False\<rparr>) g);
                g2 = set_pp i (\<lambda>q. q\<lparr>pp_gmsync := True\<rparr>)
                       (set_clock i (\<lambda>od. od\<lparr>clk_flags := clk_flags od OR FLAG_GM_SYNCED\<rparr>) g1);
                g3 = (if ci = 0 \<and> dn \<noteq> 0 \<and> becomeGM then snd (adjust_GM_btw_domains p dn g2) else g2);
                g4 = (if ci = 0 \<and> becomeGM \<and> conf e CONF_RESET_FREQADJ_BECOMEGM \<noteq> 0
                      then snd (gptpclock_setadj p 0 (pdd_thisClockIndex (pdd g3 ! d)) dn g3) else g3)
            in (0, g4))"

definition gptpclock_we_are_gm :: "nat \<Rightarrow> gptpclock_data \<Rightarrow> bool" where
  "gptpclock_we_are_gm di g = we_are_gm (pdd g ! di)"

definition gptpclock_reset_gmsync :: "int \<Rightarrow> u8 \<Rightarrow> gptpclock_data \<Rightarrow> int \<times> gptpclock_data" where
  "gptpclock_reset_gmsync ci dn g =
     (case FN_ENTRY g ci dn of
        None \<Rightarrow> (- 1, g)
      | Some i \<Rightarrow>
          if \<not> pp_gmsync (pp_of g (clds g ! i)) then (0, g)
          else (0, set_pp i (\<lambda>q. q\<lparr>pp_gmsync := False\<rparr>)
                 (set_clock i (\<lambda>od. od\<lparr>clk_flags := clk_flags od OR FLAG_GM_UNSYNCED\<rparr>) g)))"

definition gptpclock_get_gmsync :: "int \<Rightarrow> u8 \<Rightarrow> gptpclock_data \<Rightarrow> int" where
  "gptpclock_get_gmsync ci dn g =
     (case FN_ENTRY g ci dn of
        None \<Rightarrow> - 1
      | Some i \<Rightarrow> if pp_gmsync (pp_of g (clds g ! i)) then 1 else 0)"

definition gptpclock_set_gmstable :: "env \<Rightarrow> int \<Rightarrow> bool \<Rightarrow> gptpclock_data \<Rightarrow> gptpclock_data" where
  "gptpclock_set_gmstable e di st g =
     (if di < 0 \<or> di \<ge> max_domains g then g
      else if gm_stable (pdd g ! nat di) = st then g
      else snd (gptpclock_update_active_domain e (set_pdd (nat di) (\<lambda>d. d\<lparr>gm_stable := st\<rparr>) g)))"

definition gptpclock_get_gmstable :: "nat \<Rightarrow> gptpclock_data \<Rightarrow> bool" where
  "gptpclock_get_gmstable di g = gm_stable (pdd g ! di)"

definition gptpclock_set_gmchange :: "u8 \<Rightarrow> ClockIdentity \<Rightarrow> gptpclock_data \<Rightarrow> int \<times> gptpclock_data" where
  "gptpclock_set_gmchange dn cid g =
     (case FN_ENTRY g 0 dn of
        None \<Rightarrow> (- 1, g)
      | Some i \<Rightarrow>
          (0, set_pdd (od_domainIndex (clds g ! i)) (\<lambda>d. d\<lparr>gmClockId := cid\<rparr>)
                (set_pp i (\<lambda>q. q\<lparr>pp_gmchange_ind := pp_gmchange_ind q + 1\<rparr>)
                  (set_clock i (\<lambda>od. od\<lparr>clk_flags := clk_flags od OR FLAG_GM_CHANGE\<rparr>) g))))"

definition gptpclock_get_gmchange_ind :: "u8 \<Rightarrow> gptpclock_data \<Rightarrow> int" where
  "gptpclock_get_gmchange_ind dn g =
     (case FN_ENTRY g 0 dn of None \<Rightarrow> - 1 | Some i \<Rightarrow> sint (pp_gmchange_ind (pp_of g (clds g ! i))))"

definition gptpclock_get_event_flags :: "int \<Rightarrow> u8 \<Rightarrow> gptpclock_data \<Rightarrow> u32 \<times> gptpclock_data" where
  "gptpclock_get_event_flags ci dn g =
     (if \<not> opened g then (0, g)
      else case get_clockod g ci dn of
        None \<Rightarrow> (0, g)
      | Some i \<Rightarrow> (clk_flags (clds g ! i), set_clock i (\<lambda>od. od\<lparr>clk_flags := 0\<rparr>) g))"

end
