(* ===== verification/Gptp_ClockFacts.thy ===== *)
theory Gptp_ClockFacts
  imports Gptp_Clock Gptp_Machines
begin

text \<open>
  What the operations on the clocks keep and what they promise: which clocks there
  are and in which mode, the synchronisation status, the active domain, the
  conversion between clocks.
\<close>

section \<open>What an operation leaves alone\<close>

text \<open>
  The parts of the clocks by which they are found and that say whether they are
  synchronised; most operations change none of them.
\<close>

definition od_view :: "oneclock_data \<Rightarrow> int \<times> int \<times> nat \<times> u8 \<times> bool \<times> ptpclock_mode" where
  "od_view od = (clockIndex od, ptpfd od, od_domainIndex od, pp_domainNumber (ppe od),
     pp_gmsync (ppe od), mode od)"

definition pp_view :: "gptp_clock_ppara \<Rightarrow> u8 \<times> bool" where
  "pp_view q = (pp_domainNumber q, pp_gmsync q)"

definition clock_view :: "gptpclock_data \<Rightarrow> bool \<times> int \<times> nat \<times>
    (int \<times> int \<times> nat \<times> u8 \<times> bool \<times> ptpclock_mode) list \<times> (u8 \<times> bool) list" where
  "clock_view g = (opened g, max_domains g, length (pdd g), map od_view (clds g), map pp_view (gcpp g))"

text \<open>Every clock belongs to a domain that has an entry in the arrays.\<close>

definition clock_wf :: "gptpclock_data \<Rightarrow> bool" where
  "clock_wf g \<longleftrightarrow> length (gcpp g) = length (pdd g) \<and> max_domains g = int (length (pdd g)) \<and>
     (\<forall>od \<in> set (clds g). od_domainIndex od < length (pdd g))"

lemma clock_wf_init [simp]: "clock_wf (gptpclock_init n)"
  by (simp add: clock_wf_def gptpclock_init_def)

lemma list_update_map_same: "f x = f (xs ! i) \<Longrightarrow> map f (xs[i := x]) = map f xs"
  by (simp add: map_update) (metis list_update_beyond list_update_id map_update not_less)

lemma view_set_clock [simp]:
  "od_view (f (clds g ! i)) = od_view (clds g ! i) \<Longrightarrow> clock_view (set_clock i f g) = clock_view g"
  by (simp add: clock_view_def set_clock_def list_update_map_same)

lemma view_set_pp [simp]:
  "(\<And>q. pp_view (f q) = pp_view q) \<Longrightarrow> clock_view (set_pp i f g) = clock_view g"
  by (auto simp: clock_view_def set_pp_def Let_def pp_view_def od_view_def intro!: list_update_map_same)

lemma view_set_pdd [simp]: "clock_view (set_pdd d f g) = clock_view g"
  by (simp add: clock_view_def set_pdd_def)

lemma view_updates [simp]:
  "clock_view (g\<lparr>hw_accesses := n\<rparr>) = clock_view g" "clock_view (g\<lparr>hw_log := l\<rparr>) = clock_view g"
  "clock_view (g\<lparr>null_access := b\<rparr>) = clock_view g" "clock_view (g\<lparr>active_domain := d\<rparr>) = clock_view g"
  "clock_view (g\<lparr>active_domain_switch := d\<rparr>) = clock_view g"
  by (simp_all add: clock_view_def)

lemma view_simps [simp]:
  "od_view (od\<lparr>offset64 := x\<rparr>) = od_view od" "od_view (od\<lparr>last_setts64 := x\<rparr>) = od_view od"
  "od_view (od\<lparr>adjrate := r\<rparr>) = od_view od" "od_view (od\<lparr>adjvppb := n\<rparr>) = od_view od"
  "od_view (od\<lparr>clk_flags := fl\<rparr>) = od_view od" "od_view (od\<lparr>ts2diff := n\<rparr>) = od_view od"
  "pp_view (q\<lparr>pp_offset64 := x\<rparr>) = pp_view q" "pp_view (q\<lparr>pp_last_setts64 := x\<rparr>) = pp_view q"
  "pp_view (q\<lparr>pp_adjrate := r\<rparr>) = pp_view q" "pp_view (q\<lparr>pp_gmchange_ind := c\<rparr>) = pp_view q"
  by (simp_all add: od_view_def pp_view_def)

lemma view_gettime [simp]:
  "clock_view (snd (GPTP_CLOCK_GETTIME p fd g)) = clock_view g"
  "clock_view (snd (ub_mt_gettime64 p g)) = clock_view g"
  "clock_view (GPTP_CLOCK_SETTIME fd ts g) = clock_view g"
  "clock_view (snd (gptp_clock_adjtime p fd ppb g)) = clock_view g"
  by (simp_all add: GPTP_CLOCK_GETTIME_def ub_mt_gettime64_def GPTP_CLOCK_SETTIME_def gptp_clock_adjtime_def)

lemma view_getts_od [simp]: "clock_view (snd (gptpclock_getts_od p i g)) = clock_view g"
  by (simp add: gptpclock_getts_od_def GPTP_CLOCK_GETTIME_def Let_def)

lemma view_setoffset_od [simp]: "clock_view (snd (gptpclock_setoffset_od i g)) = clock_view g"
  by (simp add: gptpclock_setoffset_od_def Let_def split: ptpclock_mode.split option.split)

lemma view_setts_od [simp]: "clock_view (snd (gptpclock_setts_od p ts i g)) = clock_view g"
  by (simp add: gptpclock_setts_od_def GPTP_CLOCK_GETTIME_def Let_def)

lemma view_time_setoffset64 [simp]: "clock_view (snd (time_setoffset64 p ts ci dn g)) = clock_view g"
  by (simp add: time_setoffset64_def case_prod_beta Let_def split: option.split)

lemma view_setoffset64 [simp]: "clock_view (snd (gptpclock_setoffset64 p ts ci dn g)) = clock_view g"
  by (simp add: gptpclock_setoffset64_def case_prod_beta Let_def split: option.split)

lemma view_setadj [simp]: "clock_view (snd (gptpclock_setadj p ppb ci dn g)) = clock_view g"
  by (simp add: gptpclock_setadj_def case_prod_beta Let_def od_view_def
      split: option.split ptpclock_mode.split)

lemma view_adjust_GM [simp]: "clock_view (snd (adjust_GM_btw_domains p dn g)) = clock_view g"
  by (simp add: adjust_GM_btw_domains_def case_prod_beta Let_def od_view_def split: option.split)

lemma view_wf:
  assumes "clock_view g' = clock_view g" "clock_wf g"
  shows "clock_wf g'"
proof -
  have len: "length (gcpp g') = length (gcpp g)" "length (pdd g') = length (pdd g)"
    "max_domains g' = max_domains g" and m: "map od_view (clds g') = map od_view (clds g)"
    using assms(1) by (auto simp: clock_view_def dest: map_eq_imp_length_eq)
  have "map od_domainIndex xs = map (\<lambda>v. fst (snd (snd v))) (map od_view xs)" for xs
    by (simp add: od_view_def)
  with m have "map od_domainIndex (clds g') = map od_domainIndex (clds g)" by metis
  then have "od_domainIndex ` set (clds g') = od_domainIndex ` set (clds g)" by (metis list.set_map)
  then have "od_domainIndex od < length (pdd g)" if "od \<in> set (clds g')" for od
  proof -
    have "od_domainIndex od \<in> od_domainIndex ` set (clds g)"
      using that \<open>od_domainIndex ` set (clds g') = _\<close> by blast
    then show ?thesis using assms(2) by (auto simp: clock_wf_def)
  qed
  with len assms(2) show ?thesis by (simp add: clock_wf_def)
qed

text \<open>Clocks with the same view are found in the same way.\<close>

lemma view_clock:
  assumes "clock_view g' = clock_view g" "clock_wf g" "i < length (clds g)"
  shows "clockIndex (clds g' ! i) = clockIndex (clds g ! i)" "ptpfd (clds g' ! i) = ptpfd (clds g ! i)"
    "od_domainIndex (clds g' ! i) = od_domainIndex (clds g ! i)" "mode (clds g' ! i) = mode (clds g ! i)"
    "pp_domainNumber (pp_of g' (clds g' ! i)) = pp_domainNumber (pp_of g (clds g ! i))"
    "pp_gmsync (pp_of g' (clds g' ! i)) = pp_gmsync (pp_of g (clds g ! i))"
proof -
  have v: "map od_view (clds g') = map od_view (clds g)" "map pp_view (gcpp g') = map pp_view (gcpp g)"
    using assms(1) by (simp_all add: clock_view_def)
  have "od_view (clds g' ! i) = od_view (clds g ! i)"
    using v(1) assms(3) by (metis length_map nth_map)
  then show o: "clockIndex (clds g' ! i) = clockIndex (clds g ! i)" "ptpfd (clds g' ! i) = ptpfd (clds g ! i)"
    "od_domainIndex (clds g' ! i) = od_domainIndex (clds g ! i)" "mode (clds g' ! i) = mode (clds g ! i)"
    by (simp_all add: od_view_def)
  have "od_domainIndex (clds g ! i) < length (gcpp g)" using assms(2,3) by (simp add: clock_wf_def)
  then have "pp_view (gcpp g' ! od_domainIndex (clds g ! i)) = pp_view (gcpp g ! od_domainIndex (clds g ! i))"
    using v(2) by (metis length_map nth_map)
  with \<open>od_view (clds g' ! i) = od_view (clds g ! i)\<close> o
  show "pp_domainNumber (pp_of g' (clds g' ! i)) = pp_domainNumber (pp_of g (clds g ! i))"
    "pp_gmsync (pp_of g' (clds g' ! i)) = pp_gmsync (pp_of g (clds g ! i))"
    by (simp_all add: pp_of_def od_view_def pp_view_def)
qed

lemma view_length: "clock_view g' = clock_view g \<Longrightarrow> length (clds g') = length (clds g)"
  by (auto simp: clock_view_def dest: map_eq_imp_length_eq)

lemma find_cong_upt: "(\<And>i. i < n \<Longrightarrow> P i = Q i) \<Longrightarrow> find P [0..<n] = find Q [0..<n]"
  by (rule find_cong) auto

lemma get_clockod_cong:
  assumes "length (clds g') = length (clds g)"
    and "\<And>i. i < length (clds g) \<Longrightarrow> clockIndex (clds g' ! i) = clockIndex (clds g ! i)"
    and "\<And>i. i < length (clds g) \<Longrightarrow>
      pp_domainNumber (pp_of g' (clds g' ! i)) = pp_domainNumber (pp_of g (clds g ! i))"
  shows "get_clockod g' ci dn = get_clockod g ci dn"
  unfolding get_clockod_def is_clock_def assms(1)
  by (rule find_cong_upt) (simp add: assms(2,3))

lemma view_get_clockod:
  assumes "clock_view g' = clock_view g" "clock_wf g"
  shows "get_clockod g' ci dn = get_clockod g ci dn"
  by (rule get_clockod_cong) (rule view_length [OF assms(1)] view_clock [OF assms], assumption?)+

lemma get_clockod_SomeD:
  assumes "get_clockod g ci dn = Some i"
  shows "i < length (clds g)" "clockIndex (clds g ! i) = ci" "pp_domainNumber (pp_of g (clds g ! i)) = dn"
  using assms by (auto simp: get_clockod_def find_Some_iff is_clock_def)

lemma FN_ENTRY_SomeD:
  assumes "FN_ENTRY g ci dn = Some i"
  shows "get_clockod g ci dn = Some i" "opened g" "PTPFD_VALID (ptpfd (clds g ! i))"
  using assms by (auto simp: FN_ENTRY_def split: option.splits if_splits)

lemma view_FN_ENTRY:
  assumes "clock_view g' = clock_view g" "clock_wf g"
  shows "FN_ENTRY g' ci dn = FN_ENTRY g ci dn"
proof -
  have "opened g' = opened g" using assms(1) by (simp add: clock_view_def)
  with assms show ?thesis
    by (auto simp: FN_ENTRY_def view_get_clockod [OF assms] view_clock(2) [OF assms]
        dest: get_clockod_SomeD split: option.splits)
qed

section \<open>The status of synchronisation\<close>

text \<open>The clocks and devices, without the flag that says whether a domain is synchronised.\<close>

lemma FN_ENTRY_set_sync:
  assumes "clock_wf g"
  shows "FN_ENTRY (set_pp i (\<lambda>q. q\<lparr>pp_gmsync := b\<rparr>) g) ci dn = FN_ENTRY g ci dn"
    and "clock_wf (set_pp i (\<lambda>q. q\<lparr>pp_gmsync := b\<rparr>) g)"
proof -
  let ?g = "set_pp i (\<lambda>q. q\<lparr>pp_gmsync := b\<rparr>) g"
  have len: "length (clds ?g) = length (clds g)" and op: "opened ?g = opened g"
    by (simp_all add: set_pp_def Let_def)
  have c: "clockIndex (clds ?g ! k) = clockIndex (clds g ! k)" "ptpfd (clds ?g ! k) = ptpfd (clds g ! k)"
    "od_domainIndex (clds ?g ! k) = od_domainIndex (clds g ! k)" if "k < length (clds g)" for k
    using that by (cases "i = k"; simp add: set_pp_def Let_def)+
  have d: "pp_domainNumber (pp_of ?g (clds ?g ! k)) = pp_domainNumber (pp_of g (clds g ! k))"
    if "k < length (clds g)" for k
  proof -
    have "od_domainIndex (clds g ! k) < length (gcpp g)" using that assms by (simp add: clock_wf_def)
    with that show ?thesis
      by (cases "i = k"; cases "od_domainIndex (clds g ! i) = od_domainIndex (clds g ! k)")
        (simp_all add: set_pp_def Let_def pp_of_def)
  qed
  have "get_clockod ?g ci dn = get_clockod g ci dn"
    by (rule get_clockod_cong) (simp_all add: len c d)
  then show "FN_ENTRY ?g ci dn = FN_ENTRY g ci dn"
    by (auto simp: FN_ENTRY_def op c dest: get_clockod_SomeD split: option.splits)
  show "clock_wf ?g"
  proof -
    have "\<forall>k < length (clds ?g). od_domainIndex (clds ?g ! k) < length (pdd g)"
      using assms by (simp add: len c clock_wf_def)
    moreover have "length (gcpp ?g) = length (gcpp g)" "pdd ?g = pdd g" "max_domains ?g = max_domains g"
      by (simp_all add: set_pp_def Let_def)
    ultimately show ?thesis using assms by (simp add: clock_wf_def all_set_conv_all_nth)
  qed
qed

lemma pp_of_set_sync:
  assumes "clock_wf g" "i < length (clds g)"
  shows "pp_gmsync (pp_of (set_pp i (\<lambda>q. q\<lparr>pp_gmsync := b\<rparr>) g) (clds (set_pp i (\<lambda>q. q\<lparr>pp_gmsync := b\<rparr>) g) ! i)) = b"
  using assms by (auto simp: set_pp_def Let_def pp_of_def clock_wf_def)

lemma set_gmsync_view:
  assumes "FN_ENTRY g ci dn = Some i" "\<not> pp_gmsync (pp_of g (clds g ! i))"
  shows "\<exists>g0. clock_view g0 = clock_view g \<and>
    clock_view (snd (gptpclock_set_gmsync e p ci dn gid b g)) =
    clock_view (set_pp i (\<lambda>q. q\<lparr>pp_gmsync := True\<rparr>) g0)"
  using assms
  by (intro exI [of _ "set_clock i (\<lambda>od. od\<lparr>clk_flags := clk_flags od OR FLAG_GM_SYNCED\<rparr>)
        (if b then set_pdd (od_domainIndex (clds g ! i)) (\<lambda>q. q\<lparr>we_are_gm := True, gmClockId := gid\<rparr>) g
         else set_pdd (od_domainIndex (clds g ! i)) (\<lambda>q. q\<lparr>we_are_gm := False\<rparr>) g)"])
    (simp add: gptpclock_set_gmsync_def Let_def)

lemma get_gmsync_view:
  assumes "clock_view g' = clock_view g" "clock_wf g"
  shows "gptpclock_get_gmsync ci dn g' = gptpclock_get_gmsync ci dn g"
proof (cases "FN_ENTRY g ci dn")
  case (Some i)
  then have "i < length (clds g)" using get_clockod_SomeD(1) FN_ENTRY_SomeD(1) by blast
  with Some show ?thesis
    by (simp add: gptpclock_get_gmsync_def view_FN_ENTRY [OF assms] view_clock(6) [OF assms])
qed (simp add: gptpclock_get_gmsync_def view_FN_ENTRY [OF assms])

lemma get_gmsync_set_pp:
  assumes "clock_wf g" "FN_ENTRY g ci dn = Some i"
  shows "gptpclock_get_gmsync ci dn (set_pp i (\<lambda>q. q\<lparr>pp_gmsync := b\<rparr>) g) = of_bool b"
proof -
  have "i < length (clds g)" using assms(2) get_clockod_SomeD(1) FN_ENTRY_SomeD(1) by blast
  with assms show ?thesis
    by (simp add: gptpclock_get_gmsync_def FN_ENTRY_set_sync(1) pp_of_set_sync)
qed

lemma set_gmsync_synced:
  assumes "clock_wf g" "FN_ENTRY g ci dn = Some i"
  shows "gptpclock_get_gmsync ci dn (snd (gptpclock_set_gmsync e p ci dn gid b g)) = 1"
proof (cases "pp_gmsync (pp_of g (clds g ! i))")
  case True
  with assms(2) show ?thesis by (simp add: gptpclock_set_gmsync_def gptpclock_get_gmsync_def)
next
  case False
  then obtain g0 where g0: "clock_view g0 = clock_view g"
    and v: "clock_view (snd (gptpclock_set_gmsync e p ci dn gid b g)) =
      clock_view (set_pp i (\<lambda>q. q\<lparr>pp_gmsync := True\<rparr>) g0)"
    using set_gmsync_view [OF assms(2)] by blast
  have wf: "clock_wf g0" and f: "FN_ENTRY g0 ci dn = Some i"
    using view_wf [OF g0 assms(1)] view_FN_ENTRY [OF g0 assms(1)] assms(2) by simp_all
  show ?thesis
    using get_gmsync_view [OF v FN_ENTRY_set_sync(2) [OF wf]] get_gmsync_set_pp [OF wf f, of True] by simp
qed

text \<open>Setting the synchronisation status of an existing clock makes it synchronised and
  resetting it makes it unsynchronised, whatever else these operations do (moving the
  phase of another domain over, returning the frequency adjustment to zero).\<close>

theorem gmsync_set_and_reset:
  assumes "clock_wf g" "FN_ENTRY g ci dn = Some i"
  shows "gptpclock_get_gmsync ci dn (snd (gptpclock_set_gmsync e p ci dn gid b g)) = 1 \<and>
    gptpclock_get_gmsync ci dn (snd (gptpclock_reset_gmsync ci dn g)) = 0"
proof
  show "gptpclock_get_gmsync ci dn (snd (gptpclock_set_gmsync e p ci dn gid b g)) = 1"
    by (rule set_gmsync_synced [OF assms])
  show "gptpclock_get_gmsync ci dn (snd (gptpclock_reset_gmsync ci dn g)) = 0"
  proof (cases "pp_gmsync (pp_of g (clds g ! i))")
    case True
    let ?g0 = "set_clock i (\<lambda>od. od\<lparr>clk_flags := clk_flags od OR FLAG_GM_UNSYNCED\<rparr>) g"
    have v: "clock_view ?g0 = clock_view g" by simp
    have "FN_ENTRY ?g0 ci dn = Some i" "clock_wf ?g0"
      using view_wf [OF v assms(1)] view_FN_ENTRY [OF v assms(1)] assms(2) by simp_all
    with True assms(2) show ?thesis
      by (simp add: gptpclock_reset_gmsync_def get_gmsync_set_pp)
  next
    case False
    with assms(2) show ?thesis by (simp add: gptpclock_reset_gmsync_def gptpclock_get_gmsync_def)
  qed
qed

section \<open>The active domain\<close>

lemma switch_active_domain_facts [simp]:
  "active_domain (snd (switch_active_domain di g)) = di"
  "pdd (snd (switch_active_domain di g)) = pdd g"
  "max_domains (snd (switch_active_domain di g)) = max_domains g"
  by (simp_all add: switch_active_domain_def set_clock_def Let_def split: option.split)

lemma update_active_domain_pdd [simp]:
  "pdd (snd (gptpclock_update_active_domain e g)) = pdd g"
  by (simp add: gptpclock_update_active_domain_def split: option.split)

lemma update_active_domain_stable:
  assumes "clock_wf g" "active_domain_switch g < 0" "conf e CONF_ACTIVE_DOMAIN_AUTO_SWITCH \<noteq> 0"
    and "d < length (pdd g)" "gm_stable (pdd g ! d)"
  shows "gm_stable (pdd g ! nat (active_domain (snd (gptpclock_update_active_domain e g))))"
proof -
  have d: "d \<in> set [0..<nat (max_domains g)]" using assms(1,4) by (simp add: clock_wf_def)
  have "find (\<lambda>i. gm_stable (pdd g ! i)) [0..<nat (max_domains g)] \<noteq> None"
    using d assms(5) unfolding find_None_iff by blast
  then obtain i where "find (\<lambda>i. gm_stable (pdd g ! i)) [0..<nat (max_domains g)] = Some i" by blast
  moreover from this have "gm_stable (pdd g ! i)" by (auto simp: find_Some_iff)
  ultimately show ?thesis using assms(2,3) by (simp add: gptpclock_update_active_domain_def)
qed

text \<open>C30: With the automatic choice of the active domain switched on, the active domain is a
  domain with a stable grandmaster right after the stability of any domain has
  changed, if there is such a domain at all; with mode 2 it is domain 0 if that is stable.\<close>

theorem active_domain_is_stable:
  assumes "clock_wf g" "active_domain_switch g < 0" "conf e CONF_ACTIVE_DOMAIN_AUTO_SWITCH \<noteq> 0"
    and "0 \<le> di" "di < max_domains g" "gm_stable (pdd g ! nat di) \<noteq> st"
    and "g' = gptpclock_set_gmstable e di st g"
    and "d < length (pdd g')" "gm_stable (pdd g' ! d)"
  shows "gm_stable (pdd g' ! nat (active_domain g')) \<and>
    (conf e CONF_ACTIVE_DOMAIN_AUTO_SWITCH \<noteq> 1 \<and> gm_stable (pdd g' ! 0) \<longrightarrow> active_domain g' = 0)"
proof -
  let ?g = "set_pdd (nat di) (\<lambda>d. d\<lparr>gm_stable := st\<rparr>) g"
  have g': "g' = snd (gptpclock_update_active_domain e ?g)"
    using assms(4-7) by (simp add: gptpclock_set_gmstable_def)
  have wf: "clock_wf ?g" using view_wf [OF view_set_pdd assms(1)] .
  have sw: "active_domain_switch ?g < 0" using assms(2) by (simp add: set_pdd_def)
  have "gm_stable (pdd ?g ! nat (active_domain (snd (gptpclock_update_active_domain e ?g))))"
    using assms(8,9) by (intro update_active_domain_stable [OF wf sw assms(3)]) (simp_all add: g')
  moreover have "conf e CONF_ACTIVE_DOMAIN_AUTO_SWITCH \<noteq> 1 \<and> gm_stable (pdd ?g ! 0) \<longrightarrow>
      active_domain (snd (gptpclock_update_active_domain e ?g)) = 0"
    using sw assms(3) by (simp add: gptpclock_update_active_domain_def)
  ultimately show ?thesis by (simp add: g')
qed

text \<open>A client can name any domain in its request to fix the active domain: an index beyond
  the domains there are is stored (and reported as a success), and the next change of
  stability makes it the active domain, whose entry is then read outside of the array.\<close>

theorem active_domain_switch_unchecked:
  assumes "clock_wf g" "0 \<le> active_domain g" "active_domain g < max_domains g"
    and "max_domains g \<le> d" "0 \<le> di" "di < max_domains g" "gm_stable (pdd g ! nat di) \<noteq> st"
  shows "fst (gptpclock_active_domain_switch d g) = 0 \<and>
    active_domain (gptpclock_set_gmstable e di st (snd (gptpclock_active_domain_switch d g))) = d \<and>
    null_access (gptpclock_set_gmstable e di st (snd (gptpclock_active_domain_switch d g)))"
  using assms
  by (auto simp: gptpclock_active_domain_switch_def Let_def gptpclock_set_gmstable_def set_pdd_def
      gptpclock_update_active_domain_def switch_active_domain_def clock_wf_def)

section \<open>One domain drives the hardware of a clock\<close>

text \<open>No two domains have the same clock in the mode that adjusts the hardware.\<close>

definition one_main :: "gptpclock_data \<Rightarrow> bool" where
  "one_main g \<longleftrightarrow> (\<forall>i < length (clds g). \<forall>j < length (clds g).
     clockIndex (clds g ! i) = clockIndex (clds g ! j) \<and> mode (clds g ! i) = PTPCLOCK_SLAVE_MAIN \<and>
     mode (clds g ! j) = PTPCLOCK_SLAVE_MAIN \<longrightarrow>
     pp_domainNumber (pp_of g (clds g ! i)) = pp_domainNumber (pp_of g (clds g ! j)))"

lemma one_main_view:
  assumes "clock_view g' = clock_view g" "clock_wf g" "one_main g"
  shows "one_main g'"
  unfolding one_main_def
proof (intro allI impI)
  fix i j
  assume ij: "i < length (clds g')" "j < length (clds g')"
    and main: "clockIndex (clds g' ! i) = clockIndex (clds g' ! j) \<and>
      mode (clds g' ! i) = PTPCLOCK_SLAVE_MAIN \<and> mode (clds g' ! j) = PTPCLOCK_SLAVE_MAIN"
  then have i: "i < length (clds g)" and j: "j < length (clds g)"
    by (simp_all add: view_length [OF assms(1)])
  show "pp_domainNumber (pp_of g' (clds g' ! i)) = pp_domainNumber (pp_of g' (clds g' ! j))"
    using assms(3) i j main
    unfolding one_main_def view_clock [OF assms(1,2) i] view_clock [OF assms(1,2) j] by blast
qed

abbreviation with_mode :: "nat \<Rightarrow> ptpclock_mode \<Rightarrow> (oneclock_data \<Rightarrow> real) \<Rightarrow> gptpclock_data \<Rightarrow> gptpclock_data"
  where "with_mode i m r g \<equiv> set_clock i (\<lambda>od. od\<lparr>mode := m, adjrate := r od\<rparr>) g"

lemma with_mode:
  assumes "k < length (clds g)"
  shows "clockIndex (clds (with_mode i m r g) ! k) = clockIndex (clds g ! k)"
    "pp_domainNumber (pp_of (with_mode i m r g) (clds (with_mode i m r g) ! k)) =
       pp_domainNumber (pp_of g (clds g ! k))"
    "mode (clds (with_mode i m r g) ! k) = (if k = i then m else mode (clds g ! k))"
    "od_domainIndex (clds (with_mode i m r g) ! k) = od_domainIndex (clds g ! k)"
  using assms by (cases "k = i"; simp add: set_clock_def pp_of_def)+

lemma with_mode_arrays:
  "length (clds (with_mode i m r g)) = length (clds g)" "pdd (with_mode i m r g) = pdd g"
  "gcpp (with_mode i m r g) = gcpp g" "max_domains (with_mode i m r g) = max_domains g"
  by (simp_all add: set_clock_def)

lemma with_mode_wf: "clock_wf g \<Longrightarrow> clock_wf (with_mode i m r g)"
  by (simp add: clock_wf_def with_mode_arrays all_set_conv_all_nth with_mode(4))

lemma with_mode_not_main:
  assumes "one_main g" "m \<noteq> PTPCLOCK_SLAVE_MAIN"
  shows "one_main (with_mode i m r g)"
  unfolding one_main_def with_mode_arrays
proof (intro allI impI)
  fix j k
  let ?g = "with_mode i m r g"
  assume jk: "j < length (clds g)" "k < length (clds g)"
    and main: "clockIndex (clds ?g ! j) = clockIndex (clds ?g ! k) \<and>
      mode (clds ?g ! j) = PTPCLOCK_SLAVE_MAIN \<and> mode (clds ?g ! k) = PTPCLOCK_SLAVE_MAIN"
  have "mode (clds g ! j) = PTPCLOCK_SLAVE_MAIN" "mode (clds g ! k) = PTPCLOCK_SLAVE_MAIN"
    using main assms(2) unfolding with_mode(3) [OF jk(1)] with_mode(3) [OF jk(2)] by metis+
  then show "pp_domainNumber (pp_of ?g (clds ?g ! j)) = pp_domainNumber (pp_of ?g (clds ?g ! k))"
    using assms(1) main jk
    unfolding with_mode(1,2) [OF jk(1)] with_mode(1,2) [OF jk(2)] one_main_def by blast
qed

lemma mode_only: "set_clock i (\<lambda>od. od\<lparr>mode := m\<rparr>) g = with_mode i m adjrate g"
  by (simp add: set_clock_def)

lemma with_mode_main:
  assumes "one_main g" "get_clockod g ci dn = Some i" "\<not> main_elsewhere ci dn g"
  shows "one_main (with_mode i PTPCLOCK_SLAVE_MAIN r g)"
  unfolding one_main_def with_mode_arrays
proof (intro allI impI)
  fix j k
  let ?g = "with_mode i PTPCLOCK_SLAVE_MAIN r g"
  assume jk: "j < length (clds g)" "k < length (clds g)"
    and main: "clockIndex (clds ?g ! j) = clockIndex (clds ?g ! k) \<and>
      mode (clds ?g ! j) = PTPCLOCK_SLAVE_MAIN \<and> mode (clds ?g ! k) = PTPCLOCK_SLAVE_MAIN"
  have i: "i < length (clds g)" "clockIndex (clds g ! i) = ci" "pp_domainNumber (pp_of g (clds g ! i)) = dn"
    using get_clockod_SomeD [OF assms(2)] by simp_all
  have other: "pp_domainNumber (pp_of g (clds g ! k)) = dn"
    if "k < length (clds g)" "clockIndex (clds g ! k) = ci" "mode (clds g ! k) = PTPCLOCK_SLAVE_MAIN" for k
    using assms(3) that by (auto simp: main_elsewhere_def list_ex_iff)
  have "pp_domainNumber (pp_of g (clds g ! j)) = pp_domainNumber (pp_of g (clds g ! k))"
    using main assms(1) jk i other [OF jk(1)] other [OF jk(2)]
    unfolding with_mode(1,3) [OF jk(1)] with_mode(1,3) [OF jk(2)] one_main_def by metis
  then show "pp_domainNumber (pp_of ?g (clds ?g ! j)) = pp_domainNumber (pp_of ?g (clds ?g ! k))"
    unfolding with_mode(2) [OF jk(1)] with_mode(2) [OF jk(2)] .
qed

text \<open>The invariant of the modes, and the operations that keep it.\<close>

definition modes_ok :: "gptpclock_data \<Rightarrow> bool" where
  "modes_ok g \<longleftrightarrow> clock_wf g \<and> one_main g"

lemma modes_ok_view: "modes_ok g \<Longrightarrow> clock_view g' = clock_view g \<Longrightarrow> modes_ok g'"
  using view_wf one_main_view by (auto simp: modes_ok_def)

lemma modes_ok_mode_slave_main:
  assumes "modes_ok g"
  shows "modes_ok (snd (gptpclock_mode_slave_main ci dn g))"
proof (cases "FN_ENTRY g ci dn")
  case (Some i)
  let ?g1 = "with_mode i PTPCLOCK_SLAVE_MAIN (\<lambda>_. 0) g"
  have "modes_ok ?g1" if "\<not> main_elsewhere ci dn g"
    using with_mode_main [OF _ FN_ENTRY_SomeD(1) [OF Some] that] assms
    by (simp add: modes_ok_def with_mode_wf)
  moreover have "clock_view (set_pp z (\<lambda>q. q\<lparr>pp_offset64 := x, pp_adjrate := 0\<rparr>) ?g1) = clock_view ?g1" for z x
    by (rule view_set_pp) simp
  ultimately show ?thesis
    using assms Some modes_ok_view
    by (auto simp: gptpclock_mode_slave_main_def Let_def split: option.split)
qed (use assms in \<open>simp add: gptpclock_mode_slave_main_def\<close>)

lemma modes_ok_with_mode:
  "modes_ok g \<Longrightarrow> m \<noteq> PTPCLOCK_SLAVE_MAIN \<Longrightarrow> modes_ok (with_mode i m r g)"
  by (simp add: modes_ok_def with_mode_wf with_mode_not_main)

lemma modes_ok_mode:
  "modes_ok g \<Longrightarrow> m \<noteq> PTPCLOCK_SLAVE_MAIN \<Longrightarrow> modes_ok (set_clock i (\<lambda>od. od\<lparr>mode := m\<rparr>) g)"
  unfolding mode_only by (rule modes_ok_with_mode)

lemma modes_ok_mode_slave_sub:
  "modes_ok g \<Longrightarrow> modes_ok (snd (gptpclock_mode_slave_sub ci dn g))"
  by (simp add: gptpclock_mode_slave_sub_def modes_ok_mode split: option.split)

lemma view_thisClock [simp]:
  "clock_view (thisClock_finish i m g) = clock_view g"
  "clock_view (thisClock_sub i m g) = clock_view g"
  "clock_view (thisClock_main p ci dn i m rate g) = clock_view g"
  by (simp_all add: thisClock_finish_def thisClock_sub_def thisClock_main_def Let_def)

text \<open>Choosing the clock of a domain never lets two domains adjust the hardware of the same
  clock: if at most one domain has a clock in the main mode, the same holds after
  \<^verbatim>\<open>gptpclock_set_thisClock\<close>, on every path through it.\<close>

theorem set_thisClock_one_main:
  assumes "clock_wf g" "one_main g"
  shows "one_main (snd (gptpclock_set_thisClock p ci dn para g))"
proof -
  have ok: "modes_ok g" using assms by (simp add: modes_ok_def)
  have start: "modes_ok (set_clock m (\<lambda>od. od\<lparr>mode := PTPCLOCK_MASTER\<rparr>)
      (set_pdd d (\<lambda>q. q\<lparr>pdd_thisClockIndex := ci\<rparr>) g))" for m d
    using modes_ok_view [OF ok, of "set_pdd d (\<lambda>q. q\<lparr>pdd_thisClockIndex := ci\<rparr>) g"]
    by (simp add: modes_ok_mode)
  have attempt: "modes_ok (snd (thisClock_try_main ci dn i h))" if "modes_ok h" for i h
    using that modes_ok_mode_slave_main by (simp add: thisClock_try_main_def)
  have main: "modes_ok (thisClock_main p ci dn i m r h)" if "modes_ok h" for i m r h
    using modes_ok_view [OF that view_thisClock(3)] .
  have sub: "modes_ok (thisClock_sub i m h)" if "modes_ok h" for i m h
    using modes_ok_view [OF that view_thisClock(2)] .
  note modes = ok start attempt main sub modes_ok_mode_slave_sub
  have "modes_ok (snd (gptpclock_set_thisClock p ci dn para g))"
    unfolding gptpclock_set_thisClock_def case_prod_beta Let_def
    by (simp only: modes snd_conv if_distrib [of snd] if_distrib [of modes_ok]
        simp_thms if_cancel cong: if_cong split: option.split)
  then show ?thesis by (simp add: modes_ok_def)
qed

section \<open>Converting a time between clocks\<close>

text \<open>The value a clock shows when its device reads \<open>t\<close>.\<close>

definition clock_value :: "oneclock_data \<Rightarrow> u64 \<Rightarrow> u64" where
  "clock_value od t =
     (if offset64 od = 0 then t
      else t + offset64 od +
        (if adjrate od \<noteq> 0 then of_int (c_trunc (adjrate od * of_int (sint (t - last_setts64 od)))) else 0))"

lemma getts_od_value:
  "gptpclock_getts_od p i g =
     (clock_value (clds g ! i) (hw_time p (ptpfd (clds g ! i)) (hw_accesses g)),
      g\<lparr>hw_accesses := hw_accesses g + 1\<rparr>)"
  by (simp add: gptpclock_getts_od_def GPTP_CLOCK_GETTIME_def clock_value_def Let_def)

text \<open>Devices that show the same time on every access.\<close>

definition frozen :: "platform \<Rightarrow> (int \<Rightarrow> u64) \<Rightarrow> bool" where
  "frozen p T \<longleftrightarrow> (\<forall>fd n. hw_time p fd n = T fd)"

lemma FN_ENTRY_accesses [simp]: "FN_ENTRY (g\<lparr>hw_accesses := n\<rparr>) ci dn = FN_ENTRY g ci dn"
  "get_clockod (g\<lparr>hw_accesses := n\<rparr>) ci dn = get_clockod g ci dn"
proof -
  show "get_clockod (g\<lparr>hw_accesses := n\<rparr>) ci dn = get_clockod g ci dn"
    by (rule get_clockod_cong) (simp_all add: pp_of_def)
  then show "FN_ENTRY (g\<lparr>hw_accesses := n\<rparr>) ci dn = FN_ENTRY g ci dn"
    by (simp add: FN_ENTRY_def split: option.split)
qed

lemma diff_frozen:
  assumes "frozen p T" "FN_ENTRY g ci dn = Some i" "FN_ENTRY g ci1 dn1 = Some j"
    and "0 \<le> ts2diff (clds g ! i)"
  shows "diff_in_two_clocks p ci dn ci1 dn1 g =
    (Some (clock_value (clds g ! j) (T (ptpfd (clds g ! j))) - clock_value (clds g ! i) (T (ptpfd (clds g ! i)))),
     g\<lparr>hw_accesses := hw_accesses g + 3\<rparr>)"
  using assms by (simp add: diff_in_two_clocks_def getts_od_value frozen_def c_div_def Let_def eval_nat_numeral)

text \<open>A time stamp that is converted from one clock to another and back is the time stamp
  one started with, as long as the devices do not move between the readings; 64-bit
  wrap-around does no harm.\<close>

theorem tsconv_there_and_back:
  assumes "frozen p T" "FN_ENTRY g ci dn = Some i" "FN_ENTRY g ci1 dn1 = Some j" "ci \<noteq> ci1"
    and "0 \<le> ts2diff (clds g ! i)" "0 \<le> ts2diff (clds g ! j)"
    and "gptpclock_tsconv p ts ci dn ci1 dn1 g = ((r, ts1), g1)"
    and "gptpclock_tsconv p ts1 ci1 dn1 ci dn g1 = ((r2, ts2), g2)"
  shows "r = 0 \<and> r2 = 0 \<and> ts2 = ts"
proof -
  have i: "get_clockod g ci dn = Some i" and j: "get_clockod g ci1 dn1 = Some j"
    using FN_ENTRY_SomeD(1) assms(2,3) by blast+
  let ?d = "clock_value (clds g ! j) (T (ptpfd (clds g ! j))) - clock_value (clds g ! i) (T (ptpfd (clds g ! i)))"
  have 1: "r = 0" "ts1 = ts + ?d" "g1 = g\<lparr>hw_accesses := hw_accesses g + 3\<rparr>"
    using assms(4,7) j diff_frozen [OF assms(1-3,5)] by (simp_all add: gptpclock_tsconv_def)
  have "diff_in_two_clocks p ci1 dn1 ci dn g1 =
      (Some (- ?d), g1\<lparr>hw_accesses := hw_accesses g1 + 3\<rparr>)"
    using diff_frozen [OF assms(1), of g1 ci1 dn1 j ci dn i] assms(2,3,6) 1(3) by simp
  then have "r2 = 0" "ts2 = ts1 - ?d"
    using assms(4,8) i 1(3) by (auto simp: gptpclock_tsconv_def)
  with 1 show ?thesis by simp
qed

section \<open>Instances\<close>

text \<open>Two domains, each with a master clock and one clock on the same device.\<close>

definition sample_od :: "int \<Rightarrow> nat \<Rightarrow> oneclock_data" where
  "sample_od ci di = zero_oneclock
     \<lparr>ppe := zero_ppara\<lparr>pp_domainNumber := of_nat di\<rparr>, clockIndex := ci, ptpfd := 3,
      od_domainIndex := di, od_state := PTPCLOCK_RDWR\<rparr>"

definition sample_gcd :: gptpclock_data where
  "sample_gcd = (gptpclock_init 2)
     \<lparr>clds := [sample_od 0 0, sample_od 1 0, sample_od 0 1, sample_od 1 1],
      gcpp := [zero_ppara, zero_ppara\<lparr>pp_domainNumber := 1\<rparr>],
      pdd := [zero_pdd\<lparr>pdd_thisClockIndex := 1\<rparr>, zero_pdd\<lparr>pdd_domainNumber := 1, pdd_thisClockIndex := 1\<rparr>]\<rparr>"

definition sample_platform :: platform where
  "sample_platform = \<lparr>hw_time = (\<lambda>_ _. 1000), mt_time = (\<lambda>_. 0), hw_adj_ok = (\<lambda>_ _. True),
     hw_open = (\<lambda>_. (PTPCLOCK_RDWR, 3))\<rparr>"

lemmas sample_gcd_defs = sample_gcd_def gptpclock_init_def sample_od_def zero_oneclock_def
  zero_ppara_def zero_pdd_def

lemma sample_gcd_wf [simp]: "clock_wf sample_gcd"
  by (simp add: clock_wf_def sample_gcd_defs)

lemma sample_gcd_entries [simp]:
  "FN_ENTRY sample_gcd 0 0 = Some 0" "FN_ENTRY sample_gcd 1 0 = Some 1"
  "FN_ENTRY sample_gcd 0 1 = Some 2" "FN_ENTRY sample_gcd 1 1 = Some 3"
  by (simp_all add: FN_ENTRY_def get_clockod_def is_clock_def pp_of_def PTPFD_VALID_def
      sample_gcd_defs upt_rec)

lemma sample_gcd_parts [simp]:
  "active_domain sample_gcd = 0" "max_domains sample_gcd = 2" "active_domain_switch sample_gcd = - 1"
  "\<not> gm_stable (pdd sample_gcd ! 0)" "\<not> gm_stable (pdd sample_gcd ! Suc 0)" "length (clds sample_gcd) = 4"
  by (simp_all add: sample_gcd_defs)

lemma sample_gcd_one_main [simp]: "one_main sample_gcd"
  by (auto simp: one_main_def sample_gcd_defs nth_Cons split: nat.splits)

theorem gmsync_set_and_reset_witness:
  "gptpclock_get_gmsync 0 1 (snd (gptpclock_set_gmsync default_env sample_platform 0 1
     sample_clock True sample_gcd)) = 1"
  using gmsync_set_and_reset [of sample_gcd 0 1 2 default_env sample_platform sample_clock True] by simp

theorem active_domain_is_stable_witness:
  "gm_stable (pdd (gptpclock_set_gmstable default_env 1 True sample_gcd) !
     nat (active_domain (gptpclock_set_gmstable default_env 1 True sample_gcd)))"
proof -
  have "gm_stable (pdd (gptpclock_set_gmstable default_env 1 True sample_gcd) ! 1)"
    "1 < length (pdd (gptpclock_set_gmstable default_env 1 True sample_gcd))"
    by (simp_all add: gptpclock_set_gmstable_def set_pdd_def sample_gcd_defs)
  then show ?thesis
    using active_domain_is_stable [of sample_gcd default_env 1 True "gptpclock_set_gmstable default_env 1 True sample_gcd" 1] by simp
qed

theorem active_domain_switch_unchecked_witness:
  "active_domain (gptpclock_set_gmstable default_env 0 True
     (snd (gptpclock_active_domain_switch 100 sample_gcd))) = 100"
  using active_domain_switch_unchecked [of sample_gcd 100 0 True default_env]
  by simp

theorem set_thisClock_one_main_witness:
  "one_main (snd (gptpclock_set_thisClock sample_platform 1 1 True sample_gcd))"
  using set_thisClock_one_main [of sample_gcd sample_platform 1 1 True]
  by simp

theorem tsconv_there_and_back_witness:
  "\<exists>r ts1 g1 r2 g2. gptpclock_tsconv sample_platform 5 0 0 1 1 sample_gcd = ((r, ts1), g1) \<and>
     gptpclock_tsconv sample_platform ts1 1 1 0 0 g1 = ((r2, 5), g2)"
proof -
  obtain r ts1 g1 where 1: "gptpclock_tsconv sample_platform 5 0 0 1 1 sample_gcd = ((r, ts1), g1)"
    by (metis prod.exhaust)
  obtain r2 ts2 g2 where 2: "gptpclock_tsconv sample_platform ts1 1 1 0 0 g1 = ((r2, ts2), g2)"
    by (metis prod.exhaust)
  have "frozen sample_platform (\<lambda>_. 1000)" by (simp add: frozen_def sample_platform_def)
  moreover have "0 \<le> ts2diff (clds sample_gcd ! 0)" "0 \<le> ts2diff (clds sample_gcd ! 3)"
    by (simp_all add: sample_gcd_defs)
  ultimately have "ts2 = 5"
    using tsconv_there_and_back [OF _ _ _ _ _ _ 1 2, of "\<lambda>_. 1000" 0 3] by simp
  with 1 2 show ?thesis by blast
qed

end
