(* ===== verification/Gptp_StateSelection.thy ===== *)
theory Gptp_StateSelection
  imports Gptp_ClockFacts
begin

text \<open>
  The PortStateSelection machine (\<^verbatim>\<open>port_state_selection_sm.c\<close>, 10.3.12 of the
  standard): it chooses the grandmaster among the system itself and the vectors
  received on the ports, and assigns a state to every port. Ports are numbered from
  0, the local port of the master clock.
\<close>

section \<open>State and procedures\<close>

datatype (plugins only: code) pss_state = PSS_INIT | PSS_INIT_BRIDGE | PSS_STATE_SELECTION | PSS_REACTION

text \<open>
  \<open>gcd\<close> is the state of the clocks, which the procedures call into. The two flags that
  ask for a new selection are members of the structures behind \<^verbatim>\<open>thisSM\<close>.
\<close>

record port_state_selection_data = "pss_state dom_sm" +
  sel_ppgl :: "PerPortGlobal list"
  sel_bptasg :: BmcsPerTimeAwareSystemGlobal
  sel_bppgl :: "BmcsPerPortGlobal list"
  sel_domainIndex :: nat
  max_ports :: nat
  init_slave_ts :: u64
  deferred_gmsync :: bool
  systemIdentityChange :: bool
  asymmetryMeasurementModeChange :: bool
  gcd :: gptpclock_data

definition updateStateDisabledTree :: "port_state_selection_data \<Rightarrow> port_state_selection_data" where
  "updateStateDisabledTree sm = sm
     \<lparr>ptasg := (ptasg sm)\<lparr>selectedState := replicate MAX_PORT_NUMBER_LIMIT DisabledPort\<rparr>,
      sel_bptasg := (sel_bptasg sm)
        \<lparr>lastGmPriority := memset_UInteger224 1, pathTraceCount := 1,
         pathTrace := (pathTrace (sel_bptasg sm))[0 := thisClock (ptasg sm)]\<rparr>\<rparr>"

definition clearReselectTree :: "port_state_selection_data \<Rightarrow> port_state_selection_data" where
  "clearReselectTree sm = sm\<lparr>sel_bptasg := (sel_bptasg sm)
     \<lparr>reselect := replicate MAX_PORT_NUMBER_LIMIT False\<rparr>\<rparr>"

definition setSelectedTree :: "port_state_selection_data \<Rightarrow> port_state_selection_data" where
  "setSelectedTree sm = sm\<lparr>sel_bptasg := (sel_bptasg sm)
     \<lparr>selected := replicate MAX_PORT_NUMBER_LIMIT True\<rparr>\<rparr>"

text \<open>
  \<^verbatim>\<open>portStateUpdate\<close> in two parts: the new state of a port and whether its
  information is to be updated (\<open>None\<close>: left as it is), then the path trace when the
  port becomes the slave port.
\<close>

definition port_role ::
  "env \<Rightarrow> BmcsPerTimeAwareSystemGlobal \<Rightarrow> PTPPortState \<Rightarrow> BmcsPerPortGlobal \<Rightarrow> bool \<Rightarrow> UInteger224 \<Rightarrow>
   PTPPortState \<times> bool option" where
  "port_role e bt old bp asymmetry gmPath =
     (if infoIs bp = Disabled then (DisabledPort, Some False)
      else if asymmetry then (PassivePort, Some False)
      else case infoIs bp of
        Aged \<Rightarrow> (MasterPort, Some True)
      | Mine \<Rightarrow> (MasterPort,
          if masterPriority bp \<noteq> portPriority bp \<or> masterStepsRemoved bt \<noteq> portStepsRemoved bp
          then Some True else None)
      | Received \<Rightarrow>
          if gmPriority bt = gmPath then (SlavePort, Some False)
          else if SUPERIOR_PRIORITY \<noteq> compare_priority_vectors e (masterPriority bp) (portPriority bp)
          then (PassivePort, Some False)
          else (MasterPort, Some True)
      | Disabled \<Rightarrow> (old, None))"

definition slave_path_trace ::
  "ClockIdentity \<Rightarrow> BmcsPerPortGlobal \<Rightarrow> BmcsPerTimeAwareSystemGlobal \<Rightarrow> BmcsPerTimeAwareSystemGlobal" where
  "slave_path_trace self bp bt =
     (let n = min (unat (annPathSequenceCount bp)) MAX_PATH_TRACE_N in
      if n + 1 \<le> MAX_PATH_TRACE_N
      then bt\<lparr>pathTraceCount := of_nat (n + 1),
              pathTrace := append_path n (annPathSequence bp) self (pathTrace bt)\<rparr>
      else bt\<lparr>pathTraceCount := 0\<rparr>)"

definition portStateUpdate ::
  "env \<Rightarrow> nat \<Rightarrow> UInteger224 \<Rightarrow> port_state_selection_data \<Rightarrow> bool \<times> port_state_selection_data" where
  "portStateUpdate e i gmPath sm =
     (let old = selectedState (ptasg sm) ! i; bp = sel_bppgl sm ! i;
          (new, upd) = port_role e (sel_bptasg sm) old bp
            (asymmetryMeasurementMode (forAllDomain (sel_ppgl sm ! i))) gmPath;
          bp1 = (case upd of None \<Rightarrow> bp | Some u \<Rightarrow> bp\<lparr>updtInfo := u\<rparr>);
          bt1 = (if new = SlavePort \<and> old \<noteq> SlavePort
                 then slave_path_trace (thisClock (ptasg sm)) bp (sel_bptasg sm) else sel_bptasg sm)
      in (old \<noteq> new, sm
           \<lparr>ptasg := (ptasg sm)\<lparr>selectedState := (selectedState (ptasg sm))[i := new]\<rparr>,
            sel_bptasg := bt1, sel_bppgl := (sel_bppgl sm)[i := bp1]\<rparr>))"

definition update_lastGmInfo ::
  "env \<Rightarrow> gptpclock_data \<Rightarrow> PerTimeAwareSystemGlobal \<Rightarrow> PerTimeAwareSystemGlobal" where
  "update_lastGmInfo e g pt = pt
     \<lparr>gmTimeBaseIndicator := gmTimeBaseIndicator pt + 1,
      lastGmPhaseChange := zero_ScaledNs,
      lastGmFreqChange :=
        (if conf e CONF_RESET_FREQADJ_BECOMEGM \<noteq> 0
         then of_int (- gptpclock_get_adjppb 0 (domainNumber pt) g) / 10 ^ 9 else 0)\<rparr>"

section \<open>Updating the tree of port states\<close>

text \<open>\<^verbatim>\<open>updtStatesTree\<close> in its stages. First the vector of the grandmaster as seen through a port.\<close>

definition gmPathPriority :: "BmcsPerPortGlobal \<Rightarrow> UInteger224" where
  "gmPathPriority bp =
     (if HAS_PORT_PRIORITY (portPriority bp) \<and> infoIs bp \<noteq> Aged
      then (portPriority bp)\<lparr>stepsRemoved := stepsRemoved (portPriority bp) + 1\<rparr>
      else memset_UInteger224 0xff)"

text \<open>The system's own vector is where the election starts.\<close>

definition elect_start :: "BmcsPerTimeAwareSystemGlobal \<Rightarrow> BmcsPerTimeAwareSystemGlobal" where
  "elect_start bt = bt
     \<lparr>lastGmPriority := gmPriority bt, gmPriority := systemPriority bt,
      leap61 := sysLeap61 bt, leap59 := sysLeap59 bt,
      currentUtcOffsetValid := sysCurrentUTCOffsetValid bt, ptpTimescale := sysPtpTimescale bt,
      timeTraceable := sysTimeTraceable bt, frequencyTraceable := sysFrequencyTraceable bt,
      currentUtcOffset := sysCurrentUtcOffset bt, timeSource := sysTimeSource bt\<rparr>"

definition elect_port ::
  "env \<Rightarrow> ClockIdentity \<Rightarrow> BmcsPerPortGlobal \<Rightarrow> BmcsPerTimeAwareSystemGlobal \<Rightarrow>
   BmcsPerTimeAwareSystemGlobal" where
  "elect_port e self bp bt =
     (let v = gmPathPriority bp in
      if infoIs bp = Disabled then bt
      else if clockIdentity (sourcePortIdentity v) \<noteq> self \<and>
          SUPERIOR_PRIORITY = compare_priority_vectors e v (gmPriority bt)
      then bt\<lparr>gmPriority := v,
              leap61 := annLeap61 bp, leap59 := annLeap59 bp,
              currentUtcOffsetValid := annCurrentUtcOffsetValid bp, ptpTimescale := annPtpTimescale bp,
              timeTraceable := annTimeTraceable bp, frequencyTraceable := annFrequencyTraceable bp,
              currentUtcOffset := annCurrentUtcOffset bp, timeSource := annTimeSource bp\<rparr>
      else bt)"

definition elect_grandmaster ::
  "env \<Rightarrow> ClockIdentity \<Rightarrow> BmcsPerPortGlobal list \<Rightarrow> BmcsPerTimeAwareSystemGlobal \<Rightarrow>
   BmcsPerTimeAwareSystemGlobal" where
  "elect_grandmaster e self bps bt = fold (elect_port e self) bps (elect_start bt)"

text \<open>The vector a port announces when it is a master port.\<close>

definition master_vector :: "UInteger224 \<Rightarrow> ClockIdentity \<Rightarrow> u16 \<Rightarrow> UInteger224" where
  "master_vector gm self port = gm
     \<lparr>sourcePortIdentity := \<lparr>clockIdentity = self, portNumber = port\<rparr>, pvPortNumber := port\<rparr>"

text \<open>One pass of the loop that assigns the port states.\<close>

definition assign_port ::
  "env \<Rightarrow> UInteger224 list \<Rightarrow> nat \<Rightarrow> port_state_selection_data \<Rightarrow> port_state_selection_data" where
  "assign_port e paths i sm =
     (let old = selectedState (ptasg sm) ! i; (changed, sm1) = portStateUpdate e i (paths ! i) sm in
      if changed \<and> old = SlavePort
      then sm1\<lparr>gcd := snd (gptpclock_reset_gmsync 0 (domainNumber (ptasg sm1)) (gcd sm1))\<rparr>
      else sm1)"

text \<open>The state of port 0: slave if and only if no other port is.\<close>

definition assign_port0 ::
  "env \<Rightarrow> platform \<Rightarrow> bool \<Rightarrow> port_state_selection_data \<Rightarrow> port_state_selection_data" where
  "assign_port0 e p gmchange sm =
     (let pt = ptasg sm; old = selectedState pt ! 0;
          slave = list_ex (\<lambda>i. selectedState pt ! i = SlavePort) [1..<max_ports sm];
          pt1 = (if slave then pt\<lparr>selectedState := (selectedState pt)[0 := PassivePort]\<rparr>
                 else let pt0 = pt\<lparr>selectedState := (selectedState pt)[0 := SlavePort]\<rparr> in
                   if gmchange then update_lastGmInfo e (gcd sm) pt0 else pt0);
          now = selectedState pt1 ! 0;
          g = (if old \<noteq> now then
                 (if now = SlavePort then
                    (if \<not> deferred_gmsync sm
                     then snd (gptpclock_set_gmsync e p 0 (domainNumber pt1) (thisClock pt1) True (gcd sm))
                     else gcd sm)
                  else snd (gptpclock_reset_gmsync 0 (domainNumber pt1) (gcd sm)))
               else gcd sm)
      in sm\<lparr>ptasg := pt1, gcd := g\<rparr>)"

definition updtStatesTree ::
  "env \<Rightarrow> platform \<Rightarrow> port_state_selection_data \<Rightarrow> ClockIdentity option \<times> port_state_selection_data" where
  "updtStatesTree e p sm =
     (let paths = map gmPathPriority (sel_bppgl sm);
          self = thisClock (ptasg sm); dn = domainNumber (ptasg sm);
          bt = elect_grandmaster e self (sel_bppgl sm) (sel_bptasg sm);
          gm = gmPriority bt; gmid = rootClockIdentity (rootSystemIdentity gm);
          gmchange = (lastGmPriority bt \<noteq> gm);
          g1 = (if gmchange then snd (gptpclock_set_gmchange dn gmid (gcd sm)) else gcd sm);
          sm1 = sm
            \<lparr>gcd := g1,
             sel_bppgl := map2 (\<lambda>bp pp. bp\<lparr>masterPriority := master_vector gm self (thisPort pp)\<rparr>)
                            (sel_bppgl sm) (sel_ppgl sm),
             sel_bptasg := bt\<lparr>masterStepsRemoved := stepsRemoved gm\<rparr>\<rparr>;
          sm2 = fold (assign_port e paths) [1..<max_ports sm] sm1;
          sm3 = sm2\<lparr>ptasg := (ptasg sm2)\<lparr>gmPresent := priority1 (rootSystemIdentity gm) < 255\<rparr>\<rparr>;
          sm4 = assign_port0 e p gmchange sm3;
          sm5 = (if self = gmid
                 then sm4\<lparr>sel_bptasg := (sel_bptasg sm4)
                        \<lparr>pathTraceCount := 1, pathTrace := (pathTrace (sel_bptasg sm4))[0 := self]\<rparr>\<rparr>
                 else sm4)
      in (if gmchange then Some gmid else None, sm5))"

definition set_gmsync_this ::
  "env \<Rightarrow> platform \<Rightarrow> port_state_selection_data \<Rightarrow> port_state_selection_data" where
  "set_gmsync_this e p sm = sm\<lparr>gcd := snd (gptpclock_set_gmsync e p 0 (domainNumber (ptasg sm))
     (thisClock (ptasg sm)) True (gcd sm))\<rparr>"

definition proc_init_slave ::
  "env \<Rightarrow> platform \<Rightarrow> u64 \<Rightarrow> port_state_selection_data \<Rightarrow>
   ClockIdentity option \<times> port_state_selection_data" where
  "proc_init_slave e p cts64 sm =
     (let clearexit = (\<lambda>sm. updtStatesTree e p (sm
            \<lparr>deferred_gmsync := False, init_slave_ts := 0,
             sel_bptasg := (sel_bptasg sm)\<lparr>systemPriority := (systemPriority (sel_bptasg sm))
               \<lparr>rootSystemIdentity := (rootSystemIdentity (systemPriority (sel_bptasg sm)))
                 \<lparr>priority1 := of_int (conf e CONF_PRIMARY_PRIORITY1)\<rparr>\<rparr>\<rparr>\<rparr>))
      in if selectedState (ptasg sm) ! 0 \<noteq> SlavePort \<and> gptpclock_get_gmsync 0 0 (gcd sm) = 1 \<and>
            gm_stable_initdone (ptasg sm) then clearexit sm
         else if sint (init_slave_ts sm) < sint cts64 then
           clearexit (if selectedState (ptasg sm) ! 0 = SlavePort then set_gmsync_this e p sm else sm)
         else (None, sm))"

definition proc_deferred_gmsync ::
  "env \<Rightarrow> platform \<Rightarrow> u64 \<Rightarrow> port_state_selection_data \<Rightarrow>
   ClockIdentity option \<times> port_state_selection_data" where
  "proc_deferred_gmsync e p cts64 sm =
     (if init_slave_ts sm \<noteq> 0 then proc_init_slave e p cts64 sm
      else if sel_domainIndex sm = 0 then (None, sm)
      else if gptpclock_get_gmstable 0 (gcd sm) then
        (None, (if selectedState (ptasg sm) ! 0 = SlavePort then set_gmsync_this e p sm else sm)
           \<lparr>deferred_gmsync := False\<rparr>)
      else (None, sm))"

section \<open>The machine\<close>

definition pss_allstate_condition :: "port_state_selection_data \<Rightarrow> pss_state" where
  "pss_allstate_condition sm =
     (if (BEGIN (ptasg sm) \<or> \<not> instanceEnable (ptasg sm)) \<and>
         externalPortConfiguration (sel_bptasg sm) = VALUE_DISABLED
      then PSS_INIT_BRIDGE else state sm)"

definition init_bridge_proc ::
  "env \<Rightarrow> platform \<Rightarrow> port_state_selection_data \<Rightarrow> port_state_selection_data" where
  "init_bridge_proc e p sm =
     (let static_slave = conf e CONF_STATIC_PORT_STATE_SLAVE_PORT in
      if static_slave \<ge> 0 then
        let sm1 = sm\<lparr>ptasg := (ptasg sm)
              \<lparr>selectedState := map (\<lambda>i. if int i = static_slave then SlavePort else MasterPort)
                 [0..<MAX_PORT_NUMBER_LIMIT],
               gmPresent := True\<rparr>\<rparr>
        in if static_slave = 0 then set_gmsync_this e p sm1 else sm1
      else updateStateDisabledTree sm)"

definition init_bridge_condition :: "env \<Rightarrow> pss_state" where
  "init_bridge_condition e =
     (if conf e CONF_STATIC_PORT_STATE_SLAVE_PORT \<ge> 0 then PSS_INIT_BRIDGE else PSS_STATE_SELECTION)"

definition state_selection_proc ::
  "env \<Rightarrow> platform \<Rightarrow> u64 \<Rightarrow> port_state_selection_data \<Rightarrow>
   ClockIdentity option \<times> port_state_selection_data" where
  "state_selection_proc e p cts64 sm =
     (let sm1 = clearReselectTree (sm\<lparr>systemIdentityChange := False, asymmetryMeasurementModeChange := False\<rparr>);
          sm2 = (if sel_domainIndex sm1 = 0 \<and> conf e CONF_INITIAL_SLAVE_TIME \<noteq> 0 \<and>
                    \<not> gm_stable_initdone (ptasg sm1)
                 then sm1
                   \<lparr>deferred_gmsync := True,
                    init_slave_ts := cts64 + of_int (conf e CONF_INITIAL_SLAVE_TIME * UB_SEC_NS),
                    sel_bptasg := (sel_bptasg sm1)\<lparr>systemPriority := (systemPriority (sel_bptasg sm1))
                      \<lparr>rootSystemIdentity := (rootSystemIdentity (systemPriority (sel_bptasg sm1)))
                        \<lparr>priority1 := 254\<rparr>\<rparr>\<rparr>\<rparr>
                 else sm1);
          sm3 = (if sel_domainIndex sm2 \<noteq> 0 \<and> \<not> gm_stable_initdone (ptasg sm2)
                 then sm2\<lparr>deferred_gmsync := True\<rparr> else sm2);
          (rval, sm4) = updtStatesTree e p sm3
      in (rval, setSelectedTree sm4))"

definition pss_reselect_due :: "port_state_selection_data \<Rightarrow> bool" where
  "pss_reselect_due sm \<longleftrightarrow>
     list_ex (\<lambda>i. reselect (sel_bptasg sm) ! i) [0..<MAX_PORT_NUMBER_LIMIT] \<or>
     systemIdentityChange sm \<or> asymmetryMeasurementModeChange sm"

text \<open>\<^verbatim>\<open>state_selection_condition\<close>, with its assignment to \<^verbatim>\<open>last_state\<close>, which makes the loop go round again.\<close>

definition state_selection_condition ::
  "port_state_selection_data \<Rightarrow> port_state_selection_data" where
  "state_selection_condition sm =
     (if pss_reselect_due sm then sm\<lparr>last_state := PSS_REACTION, state := PSS_STATE_SELECTION\<rparr> else sm)"

definition pss_body ::
  "env \<Rightarrow> platform \<Rightarrow> u64 \<Rightarrow> bool \<Rightarrow> port_state_selection_data \<Rightarrow>
   port_state_selection_data \<times> ClockIdentity ctl" where
  "pss_body e p cts64 state_change sm =
     (let out = (\<lambda>r. case r of None \<Rightarrow> Next | Some v \<Rightarrow> Return v) in
      case state sm of
        PSS_INIT \<Rightarrow> (sm\<lparr>state := PSS_INIT_BRIDGE\<rparr>, Next)
      | PSS_INIT_BRIDGE \<Rightarrow>
          ((if state_change then init_bridge_proc e p sm else sm)\<lparr>state := init_bridge_condition e\<rparr>, Next)
      | PSS_STATE_SELECTION \<Rightarrow>
          (case (if deferred_gmsync sm then proc_deferred_gmsync e p cts64 sm else (None, sm)) of
             (Some v, sm1) \<Rightarrow> (sm1, Return v)
           | (None, sm1) \<Rightarrow>
               (case (if state_change then state_selection_proc e p cts64 sm1 else (None, sm1)) of
                  (r, sm2) \<Rightarrow> (state_selection_condition sm2, out r)))
      | PSS_REACTION \<Rightarrow> (sm, Next))"

definition port_state_selection_sm ::
  "env \<Rightarrow> platform \<Rightarrow> u64 \<Rightarrow> port_state_selection_data \<Rightarrow>
   (port_state_selection_data \<times> ClockIdentity ctl) option" where
  "port_state_selection_sm e p cts64 sm =
     sm_loop (pss_body e p cts64) (sm\<lparr>state := pss_allstate_condition sm\<rparr>)"

definition port_state_selection_sm_init ::
  "nat \<Rightarrow> PerTimeAwareSystemGlobal \<Rightarrow> PerPortGlobal list \<Rightarrow> BmcsPerTimeAwareSystemGlobal \<Rightarrow>
   BmcsPerPortGlobal list \<Rightarrow> nat \<Rightarrow> bool \<Rightarrow> gptpclock_data \<Rightarrow> port_state_selection_data" where
  "port_state_selection_sm_init di pt pps bt bps n change g =
     \<lparr>state = PSS_INIT, last_state = PSS_INIT, ptasg = pt, sel_ppgl = pps, sel_bptasg = bt,
      sel_bppgl = bps, sel_domainIndex = di, max_ports = n, init_slave_ts = 0,
      deferred_gmsync = False, systemIdentityChange = False,
      asymmetryMeasurementModeChange = (if di = 0 then False else change), gcd = g\<rparr>"

section \<open>The election\<close>

text \<open>The vectors the election looks at: of ports that are not disabled, and not from this clock.\<close>

definition candidates :: "ClockIdentity \<Rightarrow> BmcsPerPortGlobal list \<Rightarrow> UInteger224 list" where
  "candidates self bps = map gmPathPriority (filter
     (\<lambda>bp. infoIs bp \<noteq> Disabled \<and> clockIdentity (sourcePortIdentity (gmPathPriority bp)) \<noteq> self) bps)"

lemma elect_port_gmPriority:
  "gmPriority (elect_port e self bp bt) =
     best_of (compare_priority_vectors e) (candidates self [bp]) (gmPriority bt)"
  by (simp add: elect_port_def candidates_def Let_def)

lemma candidates_Cons: "candidates self (bp # bps) = candidates self [bp] @ candidates self bps"
  by (simp add: candidates_def)

lemma best_of_append: "best_of cmp (xs @ ys) b = best_of cmp ys (best_of cmp xs b)"
  by (induction xs arbitrary: b) simp_all

lemma fold_elect_gmPriority:
  "gmPriority (fold (elect_port e self) bps bt) =
     best_of (compare_priority_vectors e) (candidates self bps) (gmPriority bt)"
proof (induction bps arbitrary: bt)
  case Nil
  then show ?case by (simp add: candidates_def)
next
  case (Cons bp bps)
  then show ?case
    by (subst candidates_Cons) (simp add: best_of_append elect_port_gmPriority)
qed

lemma elect_grandmaster_gmPriority:
  "gmPriority (elect_grandmaster e self bps bt) =
     best_of (compare_priority_vectors e) (candidates self bps) (systemPriority bt)"
  by (simp add: elect_grandmaster_def fold_elect_gmPriority elect_start_def)

lemma elect_port_keeps [simp]:
  "lastGmPriority (elect_port e self bp bt) = lastGmPriority bt"
  "systemPriority (elect_port e self bp bt) = systemPriority bt"
  "reselect (elect_port e self bp bt) = reselect bt"
  "selected (elect_port e self bp bt) = selected bt"
  "pathTrace (elect_port e self bp bt) = pathTrace bt"
  "pathTraceCount (elect_port e self bp bt) = pathTraceCount bt"
  by (simp_all add: elect_port_def Let_def)

lemma fold_elect_keeps [simp]:
  "lastGmPriority (fold (elect_port e self) bps bt) = lastGmPriority bt"
  "systemPriority (fold (elect_port e self) bps bt) = systemPriority bt"
  "reselect (fold (elect_port e self) bps bt) = reselect bt"
  "selected (fold (elect_port e self) bps bt) = selected bt"
  "pathTrace (fold (elect_port e self) bps bt) = pathTrace bt"
  by (induction bps arbitrary: bt) simp_all

lemma elect_grandmaster_keeps [simp]:
  "lastGmPriority (elect_grandmaster e self bps bt) = gmPriority bt"
  "systemPriority (elect_grandmaster e self bps bt) = systemPriority bt"
  "reselect (elect_grandmaster e self bps bt) = reselect bt"
  "selected (elect_grandmaster e self bps bt) = selected bt"
  "pathTrace (elect_grandmaster e self bps bt) = pathTrace bt"
  by (simp_all add: elect_grandmaster_def elect_start_def)

lemma gmPathPriority_ok: "priority_ok (portPriority bp) \<Longrightarrow> priority_ok (gmPathPriority bp)"
  by (simp add: gmPathPriority_def priority_ok_def memset_UInteger224_def clockid_ok_def)

section \<open>Assigning the port states\<close>

text \<open>The parts of the machine that the loop over the ports reads or leaves alone.\<close>

lemma assign_port_ports:
  "ptasg (assign_port e paths i sm) = (ptasg sm)\<lparr>selectedState := (selectedState (ptasg sm))
     [i := fst (port_role e (sel_bptasg sm) (selectedState (ptasg sm) ! i) (sel_bppgl sm ! i)
        (asymmetryMeasurementMode (forAllDomain (sel_ppgl sm ! i))) (paths ! i))]\<rparr>"
  by (simp add: assign_port_def portStateUpdate_def case_prod_beta Let_def)

lemma assign_port_keeps [simp]:
  "sel_ppgl (assign_port e paths i sm) = sel_ppgl sm" "max_ports (assign_port e paths i sm) = max_ports sm"
  "gmPriority (sel_bptasg (assign_port e paths i sm)) = gmPriority (sel_bptasg sm)"
  "masterStepsRemoved (sel_bptasg (assign_port e paths i sm)) = masterStepsRemoved (sel_bptasg sm)"
  "reselect (sel_bptasg (assign_port e paths i sm)) = reselect (sel_bptasg sm)"
  "selected (sel_bptasg (assign_port e paths i sm)) = selected (sel_bptasg sm)"
  "systemPriority (sel_bptasg (assign_port e paths i sm)) = systemPriority (sel_bptasg sm)"
  "length (sel_bppgl (assign_port e paths i sm)) = length (sel_bppgl sm)"
  "state (assign_port e paths i sm) = state sm" "last_state (assign_port e paths i sm) = last_state sm"
  "systemIdentityChange (assign_port e paths i sm) = systemIdentityChange sm"
  "asymmetryMeasurementModeChange (assign_port e paths i sm) = asymmetryMeasurementModeChange sm"
  "init_slave_ts (assign_port e paths i sm) = init_slave_ts sm"
  "deferred_gmsync (assign_port e paths i sm) = deferred_gmsync sm"
  by (simp_all add: assign_port_def portStateUpdate_def slave_path_trace_def case_prod_beta Let_def)

lemma assign_port_other_bppgl:
  "j \<noteq> i \<Longrightarrow> sel_bppgl (assign_port e paths i sm) ! j = sel_bppgl sm ! j"
  by (simp add: assign_port_def portStateUpdate_def case_prod_beta Let_def)

lemma port_role_cong:
  "gmPriority bt' = gmPriority bt \<Longrightarrow> masterStepsRemoved bt' = masterStepsRemoved bt \<Longrightarrow>
   port_role e bt' old bp a v = port_role e bt old bp a v"
  by (simp add: port_role_def cong: BmcsInfoIs.case_cong)

text \<open>After the loop every port has the state that its own information gives it.\<close>

lemma fold_assign_ports:
  assumes "distinct is" "\<forall>i \<in> set is. i < length (selectedState (ptasg sm))"
  shows "ptasg (fold (assign_port e paths) is sm) = (ptasg sm)\<lparr>selectedState :=
      selectedState (ptasg (fold (assign_port e paths) is sm))\<rparr> \<and>
    length (selectedState (ptasg (fold (assign_port e paths) is sm))) = length (selectedState (ptasg sm)) \<and>
    (\<forall>j. selectedState (ptasg (fold (assign_port e paths) is sm)) ! j =
      (if j \<in> set is then fst (port_role e (sel_bptasg sm) (selectedState (ptasg sm) ! j) (sel_bppgl sm ! j)
         (asymmetryMeasurementMode (forAllDomain (sel_ppgl sm ! j))) (paths ! j))
       else selectedState (ptasg sm) ! j))"
  using assms
proof (induction "is" arbitrary: sm)
  case Nil
  then show ?case by simp
next
  case (Cons i "is")
  let ?s = "assign_port e paths i sm"
  have pt: "ptasg ?s = (ptasg sm)\<lparr>selectedState := (selectedState (ptasg sm))
     [i := fst (port_role e (sel_bptasg sm) (selectedState (ptasg sm) ! i) (sel_bppgl sm ! i)
        (asymmetryMeasurementMode (forAllDomain (sel_ppgl sm ! i))) (paths ! i))]\<rparr>"
    by (rule assign_port_ports)
  have IH: "ptasg (fold (assign_port e paths) is ?s) = (ptasg ?s)\<lparr>selectedState :=
      selectedState (ptasg (fold (assign_port e paths) is ?s))\<rparr> \<and>
    length (selectedState (ptasg (fold (assign_port e paths) is ?s))) = length (selectedState (ptasg ?s)) \<and>
    (\<forall>j. selectedState (ptasg (fold (assign_port e paths) is ?s)) ! j =
      (if j \<in> set is then fst (port_role e (sel_bptasg ?s) (selectedState (ptasg ?s) ! j) (sel_bppgl ?s ! j)
         (asymmetryMeasurementMode (forAllDomain (sel_ppgl ?s ! j))) (paths ! j))
       else selectedState (ptasg ?s) ! j))"
    using Cons.prems by (intro Cons.IH) (simp_all add: pt)
  have role: "port_role e (sel_bptasg ?s) old bp a v = port_role e (sel_bptasg sm) old bp a v" for old bp a v
    by (rule port_role_cong) simp_all
  have "selectedState (ptasg (fold (assign_port e paths) is ?s)) ! j =
      (if j \<in> set (i # is) then fst (port_role e (sel_bptasg sm) (selectedState (ptasg sm) ! j) (sel_bppgl sm ! j)
         (asymmetryMeasurementMode (forAllDomain (sel_ppgl sm ! j))) (paths ! j))
       else selectedState (ptasg sm) ! j)" for j
    using IH Cons.prems by (auto simp: pt role assign_port_other_bppgl nth_list_update)
  moreover have "ptasg (fold (assign_port e paths) is ?s) = (ptasg sm)\<lparr>selectedState :=
      selectedState (ptasg (fold (assign_port e paths) is ?s))\<rparr>"
  proof -
    have "ptasg (fold (assign_port e paths) is ?s) = (ptasg ?s)\<lparr>selectedState :=
      selectedState (ptasg (fold (assign_port e paths) is ?s))\<rparr>" using IH by blast
    also have "\<dots> = (ptasg sm)\<lparr>selectedState :=
      selectedState (ptasg (fold (assign_port e paths) is ?s))\<rparr>" by (simp only: pt) simp
    finally show ?thesis .
  qed
  ultimately show ?case using IH by (simp add: pt)
qed

lemma fold_assign_keeps [simp]:
  "sel_ppgl (fold (assign_port e paths) is sm) = sel_ppgl sm"
  "max_ports (fold (assign_port e paths) is sm) = max_ports sm"
  "gmPriority (sel_bptasg (fold (assign_port e paths) is sm)) = gmPriority (sel_bptasg sm)"
  "reselect (sel_bptasg (fold (assign_port e paths) is sm)) = reselect (sel_bptasg sm)"
  "selected (sel_bptasg (fold (assign_port e paths) is sm)) = selected (sel_bptasg sm)"
  "systemPriority (sel_bptasg (fold (assign_port e paths) is sm)) = systemPriority (sel_bptasg sm)"
  "length (sel_bppgl (fold (assign_port e paths) is sm)) = length (sel_bppgl sm)"
  "state (fold (assign_port e paths) is sm) = state sm"
  "last_state (fold (assign_port e paths) is sm) = last_state sm"
  "systemIdentityChange (fold (assign_port e paths) is sm) = systemIdentityChange sm"
  "asymmetryMeasurementModeChange (fold (assign_port e paths) is sm) = asymmetryMeasurementModeChange sm"
  by (induction "is" arbitrary: sm) simp_all

section \<open>The result of an update\<close>

lemma assign_port0_keeps [simp]:
  "sel_ppgl (assign_port0 e p c sm) = sel_ppgl sm" "max_ports (assign_port0 e p c sm) = max_ports sm"
  "sel_bptasg (assign_port0 e p c sm) = sel_bptasg sm" "sel_bppgl (assign_port0 e p c sm) = sel_bppgl sm"
  "state (assign_port0 e p c sm) = state sm" "last_state (assign_port0 e p c sm) = last_state sm"
  "systemIdentityChange (assign_port0 e p c sm) = systemIdentityChange sm"
  "asymmetryMeasurementModeChange (assign_port0 e p c sm) = asymmetryMeasurementModeChange sm"
  by (simp_all add: assign_port0_def Let_def)

lemma assign_port0_selectedState:
  "selectedState (ptasg (assign_port0 e p c sm)) = (selectedState (ptasg sm))
     [0 := if list_ex (\<lambda>i. selectedState (ptasg sm) ! i = SlavePort) [1..<max_ports sm]
           then PassivePort else SlavePort]"
  by (simp add: assign_port0_def update_lastGmInfo_def Let_def)

lemma assign_port0_gmPresent:
  "gmPresent (ptasg (assign_port0 e p c sm)) = gmPresent (ptasg sm)"
  by (simp add: assign_port0_def update_lastGmInfo_def Let_def)

text \<open>The grandmaster vector that the election gives for the machine as it is.\<close>

abbreviation elected :: "env \<Rightarrow> port_state_selection_data \<Rightarrow> UInteger224" where
  "elected e sm \<equiv> gmPriority (elect_grandmaster e (thisClock (ptasg sm)) (sel_bppgl sm) (sel_bptasg sm))"

lemma updtStatesTree_keeps [simp]:
  "sel_ppgl (snd (updtStatesTree e p sm)) = sel_ppgl sm"
  "max_ports (snd (updtStatesTree e p sm)) = max_ports sm"
  "reselect (sel_bptasg (snd (updtStatesTree e p sm))) = reselect (sel_bptasg sm)"
  "selected (sel_bptasg (snd (updtStatesTree e p sm))) = selected (sel_bptasg sm)"
  "state (snd (updtStatesTree e p sm)) = state sm" "last_state (snd (updtStatesTree e p sm)) = last_state sm"
  "systemIdentityChange (snd (updtStatesTree e p sm)) = systemIdentityChange sm"
  "asymmetryMeasurementModeChange (snd (updtStatesTree e p sm)) = asymmetryMeasurementModeChange sm"
  "gmPriority (sel_bptasg (snd (updtStatesTree e p sm))) = elected e sm"
  "length (sel_bppgl (snd (updtStatesTree e p sm))) = min (length (sel_bppgl sm)) (length (sel_ppgl sm))"
  by (simp_all add: updtStatesTree_def Let_def)

lemma updtStatesTree_gmPresent:
  "gmPresent (ptasg (snd (updtStatesTree e p sm))) \<longleftrightarrow> priority1 (rootSystemIdentity (elected e sm)) < 255"
  by (simp add: updtStatesTree_def Let_def assign_port0_gmPresent)

lemma fst_updtStatesTree:
  "fst (updtStatesTree e p sm) =
     (if gmPriority (sel_bptasg sm) \<noteq> elected e sm
      then Some (rootClockIdentity (rootSystemIdentity (elected e sm))) else None)"
  by (simp add: updtStatesTree_def Let_def)

text \<open>The sizes of the arrays.\<close>

definition pss_inv :: "port_state_selection_data \<Rightarrow> bool" where
  "pss_inv sm \<longleftrightarrow> 0 < max_ports sm \<and> max_ports sm \<le> MAX_PORT_NUMBER_LIMIT \<and>
     length (sel_ppgl sm) = max_ports sm \<and> length (sel_bppgl sm) = max_ports sm \<and>
     length (selectedState (ptasg sm)) = MAX_PORT_NUMBER_LIMIT"

text \<open>The state the standard gives to a port, from what is known on it.\<close>

definition state_of_port ::
  "env \<Rightarrow> UInteger224 \<Rightarrow> ClockIdentity \<Rightarrow> PerPortGlobal \<Rightarrow> BmcsPerPortGlobal \<Rightarrow> PTPPortState" where
  "state_of_port e gm self pp bp =
     (if infoIs bp = Disabled then DisabledPort
      else if asymmetryMeasurementMode (forAllDomain pp) then PassivePort
      else if infoIs bp = Aged \<or> infoIs bp = Mine then MasterPort
      else if gmPathPriority bp = gm then SlavePort
      else if compare_priority_vectors e (master_vector gm self (thisPort pp)) (portPriority bp) =
        SUPERIOR_PRIORITY then MasterPort
      else PassivePort)"

lemma port_role_state:
  assumes "gmPriority bt = gm"
  shows "fst (port_role e bt old (bp\<lparr>masterPriority := master_vector gm self (thisPort pp)\<rparr>)
      (asymmetryMeasurementMode (forAllDomain pp)) (gmPathPriority bp)) = state_of_port e gm self pp bp"
  using assms by (cases "infoIs bp") (auto simp: port_role_def state_of_port_def)

lemma updtStatesTree_port:
  assumes "pss_inv sm" "0 < i" "i < max_ports sm"
  shows "selectedState (ptasg (snd (updtStatesTree e p sm))) ! i =
    state_of_port e (elected e sm) (thisClock (ptasg sm)) (sel_ppgl sm ! i) (sel_bppgl sm ! i)"
proof -
  let ?self = "thisClock (ptasg sm)" and ?gm = "elected e sm"
  let ?bt = "(elect_grandmaster e ?self (sel_bppgl sm) (sel_bptasg sm))\<lparr>masterStepsRemoved := stepsRemoved ?gm\<rparr>"
  let ?bps = "map2 (\<lambda>bp pp. bp\<lparr>masterPriority := master_vector ?gm ?self (thisPort pp)\<rparr>) (sel_bppgl sm) (sel_ppgl sm)"
  have bp: "?bps ! i = (sel_bppgl sm ! i)\<lparr>masterPriority := master_vector ?gm ?self (thisPort (sel_ppgl sm ! i))\<rparr>"
    using assms by (simp add: pss_inv_def)
  have "\<exists>s. sel_bptasg s = ?bt \<and> sel_bppgl s = ?bps \<and> sel_ppgl s = sel_ppgl sm \<and> ptasg s = ptasg sm \<and>
    selectedState (ptasg (snd (updtStatesTree e p sm))) ! i =
    selectedState (ptasg (fold (assign_port e (map gmPathPriority (sel_bppgl sm))) [1..<max_ports sm] s)) ! i"
    using assms(2)
    by (intro exI [of _ "sm\<lparr>gcd := (if gmPriority (sel_bptasg sm) \<noteq> ?gm then snd (gptpclock_set_gmchange
          (domainNumber (ptasg sm)) (rootClockIdentity (rootSystemIdentity ?gm)) (gcd sm)) else gcd sm),
        sel_bppgl := ?bps, sel_bptasg := ?bt\<rparr>"])
      (simp add: updtStatesTree_def Let_def assign_port0_selectedState)
  then obtain s where s: "sel_bptasg s = ?bt" "sel_bppgl s = ?bps" "sel_ppgl s = sel_ppgl sm" "ptasg s = ptasg sm"
    "selectedState (ptasg (snd (updtStatesTree e p sm))) ! i =
      selectedState (ptasg (fold (assign_port e (map gmPathPriority (sel_bppgl sm))) [1..<max_ports sm] s)) ! i"
    by blast
  have fin: "\<forall>j \<in> set [1..<max_ports sm]. j < length (selectedState (ptasg s))"
    using assms(1) s(4) by (simp add: pss_inv_def)
  have "selectedState (ptasg (fold (assign_port e (map gmPathPriority (sel_bppgl sm))) [1..<max_ports sm] s)) ! i =
      fst (port_role e (sel_bptasg s) (selectedState (ptasg s) ! i) (sel_bppgl s ! i)
         (asymmetryMeasurementMode (forAllDomain (sel_ppgl s ! i))) (map gmPathPriority (sel_bppgl sm) ! i))"
    using fold_assign_ports [OF distinct_upt fin, of e "map gmPathPriority (sel_bppgl sm)"] assms(2,3) by simp
  also have "map gmPathPriority (sel_bppgl sm) ! i = gmPathPriority (sel_bppgl sm ! i)"
    using assms by (simp add: pss_inv_def)
  finally show ?thesis
    by (simp add: s(5) s(1-3) bp port_role_state)
qed

lemma updtStatesTree_port0:
  assumes "pss_inv sm"
  shows "selectedState (ptasg (snd (updtStatesTree e p sm))) ! 0 =
    (if \<exists>i. 0 < i \<and> i < max_ports sm \<and> selectedState (ptasg (snd (updtStatesTree e p sm))) ! i = SlavePort
     then PassivePort else SlavePort)"
    and "length (selectedState (ptasg (snd (updtStatesTree e p sm)))) = MAX_PORT_NUMBER_LIMIT"
proof -
  define s where "s = fold (assign_port e (map gmPathPriority (sel_bppgl sm))) [1..<max_ports sm]
    (sm\<lparr>gcd := (if gmPriority (sel_bptasg sm) \<noteq> elected e sm then snd (gptpclock_set_gmchange
          (domainNumber (ptasg sm)) (rootClockIdentity (rootSystemIdentity (elected e sm))) (gcd sm)) else gcd sm),
        sel_bppgl := map2 (\<lambda>bp pp. bp\<lparr>masterPriority := master_vector (elected e sm) (thisClock (ptasg sm)) (thisPort pp)\<rparr>)
          (sel_bppgl sm) (sel_ppgl sm),
        sel_bptasg := (elect_grandmaster e (thisClock (ptasg sm)) (sel_bppgl sm) (sel_bptasg sm))
          \<lparr>masterStepsRemoved := stepsRemoved (elected e sm)\<rparr>\<rparr>)"
  have sel: "selectedState (ptasg (snd (updtStatesTree e p sm))) = (selectedState (ptasg s))
     [0 := if list_ex (\<lambda>i. selectedState (ptasg s) ! i = SlavePort) [1..<max_ports sm]
           then PassivePort else SlavePort]"
    by (simp add: updtStatesTree_def Let_def assign_port0_selectedState s_def)
  have len: "length (selectedState (ptasg s)) = MAX_PORT_NUMBER_LIMIT"
    unfolding s_def using assms
    by (subst fold_assign_ports [THEN conjunct2, THEN conjunct1]) (simp_all add: pss_inv_def)
  then show "length (selectedState (ptasg (snd (updtStatesTree e p sm)))) = MAX_PORT_NUMBER_LIMIT"
    by (simp add: sel)
  show "selectedState (ptasg (snd (updtStatesTree e p sm))) ! 0 =
    (if \<exists>i. 0 < i \<and> i < max_ports sm \<and> selectedState (ptasg (snd (updtStatesTree e p sm))) ! i = SlavePort
     then PassivePort else SlavePort)"
    using len by (auto simp: sel list_ex_iff MAX_PORT_NUMBER_LIMIT_def Suc_le_eq)
qed

lemma updtStatesTree_inv: "pss_inv sm \<Longrightarrow> pss_inv (snd (updtStatesTree e p sm))"
  using updtStatesTree_port0(2) [of sm e p] by (simp add: pss_inv_def)

section \<open>The machine returns\<close>

lemma pss_inv_updates [simp]:
  "pss_inv (sm\<lparr>state := x\<rparr>) = pss_inv sm" "pss_inv (sm\<lparr>last_state := x\<rparr>) = pss_inv sm"
  "pss_inv (sm\<lparr>gcd := g\<rparr>) = pss_inv sm" "pss_inv (sm\<lparr>sel_bptasg := b\<rparr>) = pss_inv sm"
  "pss_inv (sm\<lparr>deferred_gmsync := d\<rparr>) = pss_inv sm" "pss_inv (sm\<lparr>init_slave_ts := t\<rparr>) = pss_inv sm"
  "pss_inv (sm\<lparr>systemIdentityChange := d\<rparr>) = pss_inv sm"
  "pss_inv (sm\<lparr>asymmetryMeasurementModeChange := d\<rparr>) = pss_inv sm"
  by (simp_all add: pss_inv_def)

lemma proc_init_slave_inv [simp]: "pss_inv sm \<Longrightarrow> pss_inv (snd (proc_init_slave e p cts64 sm))"
  by (simp add: proc_init_slave_def set_gmsync_this_def Let_def updtStatesTree_inv)

lemma proc_deferred_inv [simp]: "pss_inv sm \<Longrightarrow> pss_inv (snd (proc_deferred_gmsync e p cts64 sm))"
  by (simp add: proc_deferred_gmsync_def set_gmsync_this_def)

lemma proc_deferred_keeps [simp]:
  "state (snd (proc_deferred_gmsync e p cts64 sm)) = state sm"
  "last_state (snd (proc_deferred_gmsync e p cts64 sm)) = last_state sm"
  by (simp_all add: proc_deferred_gmsync_def proc_init_slave_def set_gmsync_this_def Let_def)

lemma state_selection_proc_facts [simp]:
  "pss_inv sm \<Longrightarrow> pss_inv (snd (state_selection_proc e p cts64 sm))"
  "state (snd (state_selection_proc e p cts64 sm)) = state sm"
  "last_state (snd (state_selection_proc e p cts64 sm)) = last_state sm"
  "\<not> pss_reselect_due (snd (state_selection_proc e p cts64 sm))"
  by (simp_all add: state_selection_proc_def clearReselectTree_def setSelectedTree_def case_prod_beta
      Let_def updtStatesTree_inv pss_reselect_due_def list_ex_iff)

lemma init_bridge_proc_facts [simp]:
  "pss_inv sm \<Longrightarrow> pss_inv (init_bridge_proc e p sm)"
  "last_state (init_bridge_proc e p sm) = last_state sm"
  by (simp_all add: init_bridge_proc_def set_gmsync_this_def updateStateDisabledTree_def pss_inv_def Let_def)

definition pss_rank :: "port_state_selection_data \<Rightarrow> nat" where
  "pss_rank sm = (case state sm of PSS_INIT \<Rightarrow> 3 | PSS_INIT_BRIDGE \<Rightarrow> 2
     | PSS_STATE_SELECTION \<Rightarrow> if last_state sm = PSS_STATE_SELECTION then 1 else 0 | PSS_REACTION \<Rightarrow> 0)"

lemma pss_selection_step:
  assumes "state s = PSS_STATE_SELECTION" "pss_inv s"
    and "sm_step (pss_body e p cts64) s = (s', c)"
  shows "pss_inv s' \<and> c \<noteq> Crash \<and> (c = Next \<and> last_state s' \<noteq> state s' \<longrightarrow> pss_rank s' < pss_rank s)"
proof -
  let ?s = "s\<lparr>last_state := state s\<rparr>"
  obtain r1 s1 where 1: "(if deferred_gmsync ?s then proc_deferred_gmsync e p cts64 ?s else (None, ?s)) = (r1, s1)"
    by fastforce
  have e1: "s1 = snd (if deferred_gmsync ?s then proc_deferred_gmsync e p cts64 ?s else (None, ?s))"
    using 1 by simp
  have s1: "pss_inv s1" "state s1 = PSS_STATE_SELECTION" "last_state s1 = PSS_STATE_SELECTION"
    unfolding e1 using assms(1,2) by simp_all
  let ?changed = "last_state s \<noteq> state s"
  obtain r2 s2 where 2: "(if ?changed then state_selection_proc e p cts64 s1 else (None, s1)) = (r2, s2)"
    by fastforce
  have e2: "s2 = snd (if ?changed then state_selection_proc e p cts64 s1 else (None, s1))" using 2 by simp
  have s2: "pss_inv s2" "state s2 = PSS_STATE_SELECTION" "last_state s2 = PSS_STATE_SELECTION"
    "?changed \<Longrightarrow> \<not> pss_reselect_due s2"
    unfolding e2 using s1 by simp_all
  have r: "(s', c) = (case r1 of Some v \<Rightarrow> (s1, Return v)
      | None \<Rightarrow> (state_selection_condition s2, case r2 of None \<Rightarrow> Next | Some v \<Rightarrow> Return v))"
    using assms(1,3) 1 2 by (cases r1) (simp_all add: sm_step_def pss_body_def Let_def cong: if_cong)
  show ?thesis
    using r s1 s2 assms(1)
    by (auto simp: state_selection_condition_def pss_rank_def split: option.splits if_splits)
qed

interpretation pss: sm_safe "pss_body e p cts64" pss_inv pss_rank for e p cts64
proof
  fix s s' :: port_state_selection_data and c
  assume inv: "pss_inv s"
  have main: "pss_inv s' \<and> c \<noteq> Crash \<and> (c = Next \<and> last_state s' \<noteq> state s' \<longrightarrow> pss_rank s' < pss_rank s)"
    if "pss_body e p cts64 (last_state s \<noteq> state s) (s\<lparr>last_state := state s\<rparr>) = (s', c)" for c
    using that inv pss_selection_step [of s e p cts64 s' c]
    by (cases "state s") (auto simp: sm_step_def pss_body_def pss_rank_def init_bridge_condition_def split: if_splits)
  show "pss_body e p cts64 (last_state s \<noteq> state s) (s\<lparr>last_state := state s\<rparr>) = (s', c) \<Longrightarrow> pss_inv s'"
    using main by blast
  show "pss_body e p cts64 (last_state s \<noteq> state s) (s\<lparr>last_state := state s\<rparr>) = (s', Next) \<Longrightarrow>
      last_state s' \<noteq> state s' \<Longrightarrow> pss_rank s' < pss_rank s"
    using main by blast
  show "pss_body e p cts64 (last_state s \<noteq> state s) (s\<lparr>last_state := state s\<rparr>) \<noteq> (s', Crash)"
    using main by blast
qed


section \<open>Properties of the selection\<close>

text \<open>C3: The election chooses the best vector: the new grandmaster vector is the system's own or
  that of a port which is not disabled and whose information does not come from this
  clock, and none of these vectors is superior to it.\<close>

theorem grandmaster_is_best:
  assumes "priority_ok (systemPriority (sel_bptasg sm))"
    and "\<forall>bp \<in> set (sel_bppgl sm). priority_ok (portPriority bp)"
    and "gm = gmPriority (sel_bptasg (snd (updtStatesTree e p sm)))"
    and "cs = candidates (thisClock (ptasg sm)) (sel_bppgl sm)"
  shows "gm \<in> insert (systemPriority (sel_bptasg sm)) (set cs) \<and>
    (\<forall>v \<in> insert (systemPriority (sel_bptasg sm)) (set cs).
      compare_priority_vectors e v gm \<noteq> SUPERIOR_PRIORITY)"
proof -
  have gm: "gm = best_of (compare_priority_vectors e) cs (systemPriority (sel_bptasg sm))"
    using assms(3,4) by (simp add: elect_grandmaster_gmPriority)
  have ok: "priority_ok c" if "c \<in> set cs" for c
    using that assms(2,4) by (auto simp: candidates_def intro: gmPathPriority_ok)
  show ?thesis
    unfolding gm using pv.best_of_mem pv.best_of_unbeaten [OF assms(1) ok] by blast
qed

text \<open>C23: After an update every port other than port 0 has the state the standard gives it: disabled
  without information, passive while asymmetry is measured, master if its information is
  its own or aged; with received information it is the slave port if the grandmaster
  vector came through it, else master if it would announce a superior vector, else passive.\<close>

theorem port_states_follow_standard:
  assumes "pss_inv sm" "0 < i" "i < max_ports sm"
  shows "selectedState (ptasg (snd (updtStatesTree e p sm))) ! i =
    state_of_port e (gmPriority (sel_bptasg (snd (updtStatesTree e p sm)))) (thisClock (ptasg sm))
      (sel_ppgl sm ! i) (sel_bppgl sm ! i)"
  using updtStatesTree_port [OF assms] by simp


text \<open>A grandmaster is present exactly if the best vector has a first priority below 255, and
  the machine reports a change of grandmaster exactly if the vector has changed.\<close>

theorem grandmaster_presence_and_change:
  "(gmPresent (ptasg (snd (updtStatesTree e p sm))) \<longleftrightarrow>
     priority1 (rootSystemIdentity (gmPriority (sel_bptasg (snd (updtStatesTree e p sm))))) < 255) \<and>
   (fst (updtStatesTree e p sm) = None \<longleftrightarrow>
     gmPriority (sel_bptasg (snd (updtStatesTree e p sm))) = gmPriority (sel_bptasg sm))"
  by (auto simp: updtStatesTree_gmPresent fst_updtStatesTree)

text \<open>A request for a new selection is served at once: on a running system whose
  synchronisation is not deferred, a raised \<^verbatim>\<open>reselect\<close> flag (or a change of the system's
  identity or of the asymmetry mode) makes the machine update the states, after which no
  request is left and every port is selected; it reports the new grandmaster if it has changed.\<close>

theorem reselection_served:
  assumes "pss_inv sm" "state sm = PSS_STATE_SELECTION" "last_state sm = PSS_STATE_SELECTION"
    and "tas_running (ptasg sm)" "gm_stable_initdone (ptasg sm)" "\<not> deferred_gmsync sm"
    and "pss_reselect_due sm"
  shows "\<exists>t c. port_state_selection_sm e p cts64 sm = Some (t, c) \<and> state t = PSS_STATE_SELECTION \<and>
    \<not> pss_reselect_due t \<and> selected (sel_bptasg t) = replicate MAX_PORT_NUMBER_LIMIT True \<and>
    gmPriority (sel_bptasg t) = elected e sm \<and>
    c = (if elected e sm = gmPriority (sel_bptasg sm) then Next
         else Return (rootClockIdentity (rootSystemIdentity (elected e sm))))"
proof -
  let ?s = "sm\<lparr>last_state := PSS_REACTION, state := PSS_STATE_SELECTION\<rparr>"
  let ?u = "sm\<lparr>state := PSS_STATE_SELECTION, last_state := PSS_STATE_SELECTION\<rparr>"
  let ?r = "state_selection_proc e p cts64 ?u"
  have all: "sm\<lparr>state := pss_allstate_condition sm\<rparr> = sm"
    using assms(2,4) by (simp add: pss_allstate_condition_def tas_running_def)
  have 1: "sm_step (pss_body e p cts64) sm = (?s, Next)"
    using assms(2,3,6,7)
    by (simp add: sm_step_def pss_body_def state_selection_condition_def pss_reselect_due_def)
  have sel: "fst ?r = (if elected e sm = gmPriority (sel_bptasg sm) then None
      else Some (rootClockIdentity (rootSystemIdentity (elected e sm))))"
    "gmPriority (sel_bptasg (snd ?r)) = elected e sm"
    "selected (sel_bptasg (snd ?r)) = replicate MAX_PORT_NUMBER_LIMIT True"
    using assms(5)
    by (simp_all add: state_selection_proc_def clearReselectTree_def setSelectedTree_def case_prod_beta
        Let_def fst_updtStatesTree elect_grandmaster_gmPriority)
  have nodue: "\<not> pss_reselect_due (snd ?r)" "state (snd ?r) = PSS_STATE_SELECTION"
    "last_state (snd ?r) = PSS_STATE_SELECTION" by simp_all
  have 2: "sm_step (pss_body e p cts64) ?s =
      (snd ?r, case fst ?r of None \<Rightarrow> Next | Some v \<Rightarrow> Return v)"
    using assms(6) nodue(1)
    by (simp add: sm_step_def pss_body_def state_selection_condition_def case_prod_beta)
  have "sm_loop (pss_body e p cts64) ?s = Some (snd ?r, case fst ?r of None \<Rightarrow> Next | Some v \<Rightarrow> Return v)"
    using 2 nodue(2,3) by (cases "fst ?r") (simp_all add: sm_loop_rest sm_loop_out)
  then have "port_state_selection_sm e p cts64 sm =
      Some (snd ?r, case fst ?r of None \<Rightarrow> Next | Some v \<Rightarrow> Return v)"
    unfolding port_state_selection_sm_def all using 1 by (simp add: sm_loop_again)
  with sel nodue show ?thesis by (auto split: option.split)
qed

section \<open>Instances\<close>

text \<open>Three ports: the local one, one that receives from a better clock, and one with aged information.\<close>

definition sample_received :: UInteger224 where
  "sample_received = (sample_vector 1)
     \<lparr>sourcePortIdentity := \<lparr>clockIdentity = sample_peer, portNumber = 1\<rparr>, pvPortNumber := 1\<rparr>"

definition sample_pss :: port_state_selection_data where
  "sample_pss = port_state_selection_sm_init 0
     (sample_ptasg\<lparr>gm_stable_initdone := True\<rparr>)
     [sample_ppg, sample_ppg, sample_ppg\<lparr>thisPort := 2\<rparr>]
     (zero_BmcsPerTimeAwareSystemGlobal
       \<lparr>systemPriority := memset_UInteger224 128, reselect := replicate 33 True\<rparr>)
     [zero_BmcsPerPortGlobal\<lparr>infoIs := Disabled\<rparr>,
      zero_BmcsPerPortGlobal\<lparr>infoIs := Received, portPriority := sample_received\<rparr>,
      zero_BmcsPerPortGlobal\<lparr>infoIs := Aged\<rparr>]
     3 False (gptpclock_init 1)
     \<lparr>state := PSS_STATE_SELECTION, last_state := PSS_STATE_SELECTION\<rparr>"

lemmas sample_pss_defs = sample_pss_def port_state_selection_sm_init_def

lemma sample_pss_parts [simp]:
  "max_ports sample_pss = 3" "state sample_pss = PSS_STATE_SELECTION" "last_state sample_pss = PSS_STATE_SELECTION"
  "\<not> deferred_gmsync sample_pss" "tas_running (ptasg sample_pss)" "gm_stable_initdone (ptasg sample_pss)"
  "systemPriority (sel_bptasg sample_pss) = memset_UInteger224 128"
  "sel_bppgl sample_pss = [zero_BmcsPerPortGlobal\<lparr>infoIs := Disabled\<rparr>,
      zero_BmcsPerPortGlobal\<lparr>infoIs := Received, portPriority := sample_received\<rparr>,
      zero_BmcsPerPortGlobal\<lparr>infoIs := Aged\<rparr>]"
  "thisClock (ptasg sample_pss) = sample_clock"
  using sample_running by (simp_all add: sample_pss_defs tas_running_def sample_ptasg_def)

lemma sample_pss_inv [simp]: "pss_inv sample_pss"
  by (simp add: pss_inv_def sample_pss_defs sample_ptasg_def zero_PerTimeAwareSystemGlobal_def
      MAX_PORT_NUMBER_LIMIT_def)

lemma sample_pss_due [simp]: "pss_reselect_due sample_pss"
  by (auto simp: pss_reselect_due_def sample_pss_defs MAX_PORT_NUMBER_LIMIT_def list_ex_iff intro!: exI [of _ 0])

lemma memset_ok [simp]: "priority_ok (memset_UInteger224 b)"
  by (simp add: priority_ok_def clockid_ok_def memset_UInteger224_def)

lemma sample_received_ok [simp]: "priority_ok sample_received"
  using sample_vector_ok sample_clock_ok(2) by (simp add: priority_ok_def sample_received_def)


theorem grandmaster_is_best_witness:
  "compare_priority_vectors default_env (memset_UInteger224 128)
     (gmPriority (sel_bptasg (snd (updtStatesTree default_env sample_platform sample_pss)))) \<noteq> SUPERIOR_PRIORITY"
proof -
  have "\<forall>bp \<in> set (sel_bppgl sample_pss). priority_ok (portPriority bp)"
    by (simp add: zero_BmcsPerPortGlobal_def)
  then show ?thesis
    using grandmaster_is_best [of sample_pss _ default_env sample_platform, OF _ _ refl refl] by simp
qed

theorem port_states_follow_standard_witness:
  "selectedState (ptasg (snd (updtStatesTree default_env sample_platform sample_pss))) ! 2 = MasterPort"
  using port_states_follow_standard [OF sample_pss_inv, of 2 default_env sample_platform]
  by (simp add: state_of_port_def sample_pss_defs sample_ppg_def zero_PerPortGlobalForAllDomain_def)


theorem reselection_served_witness:
  "\<exists>t c. port_state_selection_sm default_env sample_platform 0 sample_pss = Some (t, c) \<and>
     selected (sel_bptasg t) = replicate MAX_PORT_NUMBER_LIMIT True"
  using reselection_served [of sample_pss default_env sample_platform 0] by auto

end
