(* ===== verification/Gptp_AnnounceTransmit.thy ===== *)
theory Gptp_AnnounceTransmit
  imports Gptp_Machines
begin

text \<open>
  The PortAnnounceTransmit machine (\<^verbatim>\<open>port_announce_transmit_sm.c\<close>, 10.3.16 of the
  standard): on a master port it composes an Announce message when there is new
  information and once per announce interval. The time is the argument \<open>cts\<close>
  (\<^verbatim>\<open>cts64\<close>) of every call, in nanoseconds.
\<close>

section \<open>State and procedures\<close>

datatype (plugins only: code) pat_state =
    PAT_INIT
  | PAT_TRANSMIT_INIT
  | PAT_TRANSMIT_PERIODIC
  | PAT_IDLE
  | PAT_TRANSMIT_ANNOUNCE
  | PAT_REACTION

record port_announce_transmit_data = "pat_state bmcs_sm" +
  announceSendTime :: UScaledNs
  numberAnnounceTransmissions :: u8
  interval2 :: UScaledNs
  announceTx :: PTPMsgAnnounce

text \<open>The flag bits that \<^verbatim>\<open>txAnnounce\<close> sets in the second octet of the flags, in its order.\<close>

definition announce_flags :: "BmcsPerTimeAwareSystemGlobal \<Rightarrow> u8" where
  "announce_flags b =
     (if leap61 b then 0x01 else 0) OR (if leap59 b then 0x02 else 0) OR
     (if currentUtcOffsetValid b then 0x04 else 0) OR (if ptpTimescale b then 0x08 else 0) OR
     (if timeTraceable b then 0x10 else 0) OR (if frequencyTraceable b then 0x20 else 0)"

definition txAnnounce :: "port_announce_transmit_data \<Rightarrow> port_announce_transmit_data" where
  "txAnnounce sm =
     (let a = announceTx sm; h = header a; b = bptasg sm;
          root = rootSystemIdentity (masterPriority (bppg sm)); N = unat (pathTraceCount b)
      in sm\<lparr>announceTx := a
           \<lparr>header := h\<lparr>flags := (flags h)[1 := flags h ! 1 OR announce_flags b],
              sequenceId := sequenceId h + 1\<rparr>,
            currentUtcOffset_m := currentUtcOffset b,
            grandmasterPriority1 := priority1 root,
            grandmasterClockQuality := \<lparr>q_clockClass = clockClass root,
              q_clockAccuracy = clockAccuracy root,
              q_offsetScaledLogVariance = offsetScaledLogVariance root\<rparr>,
            grandmasterPriority2 := priority2 root,
            grandmasterIdentity := rootClockIdentity root,
            stepsRemoved_m := masterStepsRemoved b,
            timeSource_m := timeSource b,
            tlvType := 0x8,
            tlvLength := (if N \<le> MAX_PATH_TRACE_N then of_nat (8 * N) else 0),
            pathSequence := (if N \<le> MAX_PATH_TRACE_N
              then take N (pathTrace b) @ drop N (pathSequence a) else pathSequence a)\<rparr>\<rparr>)"

definition pat_allstate_condition :: "port_announce_transmit_data \<Rightarrow> pat_state" where
  "pat_allstate_condition sm =
     (if BEGIN (ptasg sm) \<or> \<not> instanceEnable (ptasg sm) \<or> \<not> AS_CAPABLE sm
      then PAT_TRANSMIT_INIT else state sm)"

definition transmit_init_proc :: "port_announce_transmit_data \<Rightarrow> port_announce_transmit_data" where
  "transmit_init_proc sm =
     sm\<lparr>bppg := (bppg sm)\<lparr>announceSlowdown := False, newInfo := True\<rparr>,
        numberAnnounceTransmissions := 0\<rparr>"

abbreviation pat_master :: "port_announce_transmit_data \<Rightarrow> bool" where
  "pat_master sm \<equiv> selectedState (ptasg sm) ! portIndex sm = MasterPort"

definition transmit_periodic_proc :: "port_announce_transmit_data \<Rightarrow> port_announce_transmit_data" where
  "transmit_periodic_proc sm =
     sm\<lparr>bppg := (bppg sm)\<lparr>newInfo := newInfo (bppg sm) \<or> pat_master sm\<rparr>\<rparr>"

text \<open>The send time is aligned to 25 ms; the sum and the product wrap at 64 bits.\<close>

definition align_25ms :: "u64 \<Rightarrow> u64" where
  "align_25ms t = (t div 25000000) * 25000000"

definition pat_idle_proc :: "u64 \<Rightarrow> port_announce_transmit_data \<Rightarrow> port_announce_transmit_data" where
  "pat_idle_proc cts sm =
     sm\<lparr>announceSendTime := (announceSendTime sm)\<lparr>nsec := align_25ms (cts + nsec (interval2 sm))\<rparr>\<rparr>"

definition pat_idle_condition :: "u64 \<Rightarrow> port_announce_transmit_data \<Rightarrow> pat_state" where
  "pat_idle_condition cts sm =
     (if newInfo (bppg sm) \<and> pat_master sm \<and> cts < nsec (announceSendTime sm) \<and>
         (selected (bptasg sm) ! portIndex sm \<and> \<not> updtInfo (bppg sm) \<or>
          externalPortConfiguration (bptasg sm) = VALUE_ENABLED) \<and>
         \<not> asymmetryMeasurementMode (forAllDomain (ppg sm))
      then PAT_TRANSMIT_ANNOUNCE
      else if cts \<ge> nsec (announceSendTime sm) \<and>
         (selected (bptasg sm) ! portIndex sm \<and> \<not> updtInfo (bppg sm) \<or>
          externalPortConfiguration (bptasg sm) = VALUE_DISABLED)
      then PAT_TRANSMIT_PERIODIC
      else state sm)"

definition transmit_announce_proc :: "port_announce_transmit_data \<Rightarrow> port_announce_transmit_data" where
  "transmit_announce_proc sm =
     (let sm1 = txAnnounce (sm\<lparr>bppg := (bppg sm)\<lparr>newInfo := False\<rparr>\<rparr>); bp = bppg sm1
      in if announceSlowdown bp then
           (if numberAnnounceTransmissions sm1 \<ge> announceReceiptTimeout bp
            then sm1\<lparr>interval2 := announceInterval bp, numberAnnounceTransmissions := 0,
                     bppg := bp\<lparr>announceSlowdown := False\<rparr>\<rparr>
            else sm1\<lparr>interval2 := ppOldAnnounceInterval (ppg sm1),
                     numberAnnounceTransmissions := numberAnnounceTransmissions sm1 + 1\<rparr>)
         else sm1\<lparr>numberAnnounceTransmissions := 0, interval2 := announceInterval bp\<rparr>)"

section \<open>The machine\<close>

definition pat_body ::
  "u64 \<Rightarrow> bool \<Rightarrow> port_announce_transmit_data \<Rightarrow>
   port_announce_transmit_data \<times> PTPMsgAnnounce ctl" where
  "pat_body cts state_change sm =
     (case state sm of
        PAT_INIT \<Rightarrow> (sm\<lparr>state := PAT_TRANSMIT_INIT\<rparr>, Next)
      | PAT_TRANSMIT_INIT \<Rightarrow>
          ((if state_change then transmit_init_proc sm else sm)\<lparr>state := PAT_IDLE\<rparr>, Next)
      | PAT_TRANSMIT_PERIODIC \<Rightarrow>
          ((if state_change then transmit_periodic_proc sm else sm)\<lparr>state := PAT_IDLE\<rparr>, Next)
      | PAT_IDLE \<Rightarrow>
          let sm1 = (if state_change then pat_idle_proc cts sm else sm)
          in (sm1\<lparr>state := pat_idle_condition cts sm1\<rparr>, Next)
      | PAT_TRANSMIT_ANNOUNCE \<Rightarrow>
          (if state_change
           then let sm1 = transmit_announce_proc sm
                in (sm1\<lparr>state := PAT_IDLE\<rparr>, Return (announceTx sm1))
           else (sm\<lparr>state := PAT_IDLE\<rparr>, Next))
      | PAT_REACTION \<Rightarrow> (sm, Next))"

definition port_announce_transmit_sm ::
  "port_announce_transmit_data \<Rightarrow> u64 \<Rightarrow>
   (port_announce_transmit_data \<times> PTPMsgAnnounce ctl) option" where
  "port_announce_transmit_sm sm cts =
     sm_loop (pat_body cts) (sm\<lparr>state := pat_allstate_condition sm\<rparr>)"

definition port_announce_transmit_sm_init ::
  "nat \<Rightarrow> PerTimeAwareSystemGlobal \<Rightarrow> PerPortGlobal \<Rightarrow> BmcsPerTimeAwareSystemGlobal \<Rightarrow>
   BmcsPerPortGlobal \<Rightarrow> port_announce_transmit_data" where
  "port_announce_transmit_sm_init pidx pt pp bt bp =
     \<lparr>state = PAT_INIT, last_state = PAT_INIT, ptasg = pt, ppg = pp, bptasg = bt, bppg = bp,
      portIndex = pidx, announceSendTime = zero_UScaledNs, numberAnnounceTransmissions = 0,
      interval2 = zero_UScaledNs\<lparr>nsec := 1000000000\<rparr>, announceTx = zero_PTPMsgAnnounce\<rparr>"

section \<open>The contract of the machine\<close>

text \<open>An interval is long enough at a time if the aligned send time lies after that time.\<close>

definition timely :: "u64 \<Rightarrow> UScaledNs \<Rightarrow> bool" where
  "timely cts i \<longleftrightarrow> cts < align_25ms (cts + nsec i)"

definition pat_inv :: "u64 \<Rightarrow> port_announce_transmit_data \<Rightarrow> bool" where
  "pat_inv cts sm \<longleftrightarrow> timely cts (interval2 sm) \<and> timely cts (announceInterval (bppg sm)) \<and>
     (announceSlowdown (bppg sm) \<longrightarrow> timely cts (ppOldAnnounceInterval (ppg sm)))"

fun pat_rank :: "port_announce_transmit_data \<Rightarrow> nat" where
  "pat_rank sm =
     (case state sm of
        PAT_INIT \<Rightarrow> 5 | PAT_TRANSMIT_INIT \<Rightarrow> 4
      | PAT_IDLE \<Rightarrow> if last_state sm = PAT_IDLE then 3 else 1
      | PAT_TRANSMIT_PERIODIC \<Rightarrow> 2
      | PAT_TRANSMIT_ANNOUNCE \<Rightarrow> if last_state sm = PAT_TRANSMIT_ANNOUNCE then 2 else 0
      | PAT_REACTION \<Rightarrow> 0)"

lemma align_25ms_le: "align_25ms t \<le> t"
proof -
  have "unat (t div 25000000) * unat (25000000 :: u64) \<le> unat t"
    by (simp add: unat_div)
  then show ?thesis
    by (simp add: align_25ms_def word_le_nat_alt unat_word_ariths)
qed

lemma timely_interval:
  \<comment> \<open>25 ms are enough, as long as the 64-bit clock does not wrap\<close>
  assumes "25000000 \<le> unat (nsec i)" and "unat cts + unat (nsec i) < 2 ^ 64"
  shows "timely cts i"
proof -
  let ?t = "cts + nsec i"
  have t: "unat ?t = unat cts + unat (nsec i)"
    using assms(2) by (simp add: unat_word_ariths)
  have "unat ?t div 25000000 * 25000000 \<le> unat ?t" by simp
  moreover have "unat ?t < 2 ^ 64" using t assms(2) by simp
  ultimately have "unat (align_25ms ?t) = unat ?t div 25000000 * 25000000"
    unfolding align_25ms_def by (simp add: unat_word_ariths unat_div)
  moreover have "unat ?t < unat ?t div 25000000 * 25000000 + 25000000"
    using div_mult_mod_eq [of "unat ?t" 25000000] mod_less_divisor [of 25000000 "unat ?t"] by linarith
  ultimately show ?thesis
    using assms(1) t by (simp add: timely_def word_less_nat_alt)
qed

lemma zero_interval_not_timely: "nsec i = 0 \<Longrightarrow> \<not> timely cts i"
  using align_25ms_le [of cts] by (simp add: timely_def)

lemmas pat_defs = pat_body_def transmit_init_proc_def transmit_periodic_proc_def pat_idle_proc_def
  transmit_announce_proc_def txAnnounce_def

lemma pat_body_nocrash [simp]: "pat_body cts ch sm \<noteq> (s', Crash)"
  by (auto simp: pat_body_def Let_def split: pat_state.splits)

interpretation pat: sm_safe "pat_body cts" "pat_inv cts" pat_rank for cts
proof unfold_locales
  fix s s' c
  assume inv: "pat_inv cts s"
    and step: "pat_body cts (last_state s \<noteq> state s) (s\<lparr>last_state := state s\<rparr>) = (s', c)"
  show "pat_inv cts s'"
  proof (cases "state s")
    case PAT_TRANSMIT_ANNOUNCE
    with step have "s' = (if last_state s \<noteq> PAT_TRANSMIT_ANNOUNCE
        then transmit_announce_proc (s\<lparr>last_state := PAT_TRANSMIT_ANNOUNCE\<rparr>)
        else s\<lparr>last_state := PAT_TRANSMIT_ANNOUNCE\<rparr>)\<lparr>state := PAT_IDLE\<rparr>"
      by (auto simp: pat_body_def Let_def)
    with inv show ?thesis
      by (auto simp: pat_inv_def transmit_announce_proc_def txAnnounce_def Let_def)
  qed (use inv step in \<open>auto simp: pat_inv_def pat_defs Let_def split: if_splits\<close>)
next
  fix s s'
  assume inv: "pat_inv cts s"
    and step: "pat_body cts (last_state s \<noteq> state s) (s\<lparr>last_state := state s\<rparr>) = (s', Next)"
    and again: "last_state s' \<noteq> state s'"
  show "pat_rank s' < pat_rank s"
  proof (cases "state s")
    case PAT_IDLE
    with step inv again show ?thesis
      by (auto simp: pat_body_def pat_idle_condition_def pat_idle_proc_def pat_inv_def timely_def
          Let_def split: if_splits)
  next
    case PAT_TRANSMIT_ANNOUNCE
    with step again show ?thesis
      by (auto simp: pat_body_def Let_def split: if_splits)
  qed (use step again in \<open>auto simp: pat_defs split: if_splits\<close>)
qed simp

lemma pat_running:
  "tas_running (ptasg sm) \<Longrightarrow> AS_CAPABLE sm \<Longrightarrow>
   port_announce_transmit_sm sm cts = sm_loop (pat_body cts) sm"
  by (simp add: port_announce_transmit_sm_def pat_allstate_condition_def tas_running_def)

text \<open>The machine returns on every input for which the intervals it may wait for are long enough:
  the one in use, the announce interval and, during slow-down, the old announce
  interval. It never reaches a null access and keeps these intervals.\<close>

theorem announce_transmit_total:
  assumes "pat_inv cts sm"
  shows "\<exists>t c. port_announce_transmit_sm sm cts = Some (t, c) \<and> pat_inv cts t \<and> c \<noteq> Crash"
  unfolding port_announce_transmit_sm_def
  by (rule pat.sm_total_safe) (use assms in \<open>simp add: pat_inv_def\<close>)

section \<open>Waiting for an interval that is too short\<close>

definition pat_spinning :: "u64 \<Rightarrow> port_announce_transmit_data \<Rightarrow> bool" where
  "pat_spinning cts sm \<longleftrightarrow> \<not> timely cts (interval2 sm) \<and>
     externalPortConfiguration (bptasg sm) = VALUE_DISABLED \<and>
     (state sm = PAT_IDLE \<and> last_state sm \<noteq> PAT_IDLE \<or>
      state sm = PAT_TRANSMIT_PERIODIC)"

lemma pat_spins:
  assumes "pat_spinning cts s"
  shows "\<exists>t. sm_step (pat_body cts) s = (t, Next) \<and> last_state t \<noteq> state t \<and> pat_spinning cts t"
proof (cases "state s = PAT_IDLE")
  case True
  with assms show ?thesis
    by (auto simp: pat_spinning_def sm_step_def pat_body_def pat_idle_proc_def pat_idle_condition_def
        timely_def Let_def not_less)
next
  case False
  with assms show ?thesis
    by (auto simp: pat_spinning_def sm_step_def pat_body_def transmit_periodic_proc_def)
qed

text \<open>If the interval is so short that the aligned send time is not after the current time,
  a machine that has just sent a message (or comes from another state into IDLE) never
  returns: it goes round between IDLE and TRANSMIT_PERIODIC. This happens for
  intervals below 25 ms, which a peer may request with a signaling message.\<close>

theorem short_interval_never_returns:
  assumes "tas_running (ptasg sm)" "AS_CAPABLE sm"
    and "state sm = PAT_IDLE" "last_state sm \<noteq> PAT_IDLE"
    and "externalPortConfiguration (bptasg sm) = VALUE_DISABLED"
    and "\<not> timely cts (interval2 sm)"
  shows "port_announce_transmit_sm sm cts = None"
  unfolding pat_running [OF assms(1,2)]
  by (rule sm_loop_diverges [where P = "pat_spinning cts", OF pat_spins])
    (use assms in \<open>simp_all add: pat_spinning_def\<close>)

section \<open>The message\<close>

text \<open>
  What an Announce message says of the information of the system: the master priority
  vector of the port and the variables of the best master clock algorithm.
\<close>

definition announce_tells :: "BmcsPerTimeAwareSystemGlobal \<Rightarrow> UInteger112 \<Rightarrow> PTPMsgAnnounce \<Rightarrow> bool" where
  "announce_tells b r a \<longleftrightarrow>
     grandmasterPriority1 a = priority1 r \<and> grandmasterPriority2 a = priority2 r \<and>
     grandmasterClockQuality a = \<lparr>q_clockClass = clockClass r, q_clockAccuracy = clockAccuracy r,
       q_offsetScaledLogVariance = offsetScaledLogVariance r\<rparr> \<and>
     grandmasterIdentity a = rootClockIdentity r \<and> stepsRemoved_m a = masterStepsRemoved b \<and>
     currentUtcOffset_m a = currentUtcOffset b \<and> timeSource_m a = timeSource b \<and>
     tlvType a = 0x8 \<and>
     take (unat (tlvLength a) div 8) (pathSequence a) =
       (if unat (pathTraceCount b) \<le> MAX_PATH_TRACE_N
        then take (unat (pathTraceCount b)) (pathTrace b) else [])"

lemma unat_path_length:
  "N \<le> MAX_PATH_TRACE_N \<Longrightarrow> unat (of_nat (8 * N) :: u16) = 8 * N"
  by (simp add: MAX_PATH_TRACE_N_def unsigned_of_nat take_bit_nat_eq_self del: of_nat_mult)

lemma txAnnounce_tells:
  assumes "length (pathTrace (bptasg sm)) = MAX_PATH_TRACE_N"
  shows "announce_tells (bptasg sm) (rootSystemIdentity (masterPriority (bppg sm)))
    (announceTx (txAnnounce sm))"
  using assms unat_path_length [of "unat (pathTraceCount (bptasg sm))"]
  by (simp add: announce_tells_def txAnnounce_def Let_def)

text \<open>A pass that does not return leaves what the message is made of as it was.\<close>

lemma pat_step_Next:
  assumes "pat_body cts (last_state s \<noteq> state s) (s\<lparr>last_state := state s\<rparr>) = (t, Next)"
  shows "bptasg t = bptasg s \<and> masterPriority (bppg t) = masterPriority (bppg s) \<and>
    announceTx t = announceTx s \<and> ptasg t = ptasg s \<and> ppg t = ppg s"
  using assms
  by (auto simp: pat_body_def transmit_init_proc_def transmit_periodic_proc_def pat_idle_proc_def
      Let_def split: pat_state.splits if_splits)

lemma transmit_announce_fields:
  "announceTx (transmit_announce_proc sm) = announceTx (txAnnounce sm)"
  "\<not> newInfo (bppg (transmit_announce_proc sm))"
  by (simp_all add: transmit_announce_proc_def txAnnounce_def Let_def)

lemma pat_step_Return:
  assumes "pat_body cts (last_state s \<noteq> state s) (s\<lparr>last_state := state s\<rparr>) = (t, Return a)"
  shows "a = announceTx (txAnnounce s) \<and> announceTx t = a \<and> \<not> newInfo (bppg t) \<and> state t = PAT_IDLE"
  using assms
  by (auto simp: pat_body_def Let_def transmit_announce_fields txAnnounce_def
      split: pat_state.splits if_splits)

lemma txAnnounce_cong:
  "bptasg s = bptasg t \<Longrightarrow> masterPriority (bppg s) = masterPriority (bppg t) \<Longrightarrow>
   announceTx s = announceTx t \<Longrightarrow> announceTx (txAnnounce s) = announceTx (txAnnounce t)"
  by (simp add: txAnnounce_def Let_def)

lemma pat_returns_message:
  assumes "sm_loop (pat_body cts) s = Some (t, c)" "c = Return a"
  shows "a = announceTx (txAnnounce s) \<and> announceTx t = a \<and> \<not> newInfo (bppg t) \<and> state t = PAT_IDLE"
  using assms
proof (induction rule: sm_loop_induct)
  case (exit s s' c)
  then show ?case using pat_step_Return by blast
next
  case (again s t s' c)
  then show ?case using pat_step_Next [OF again(1)] txAnnounce_cong [of t s] by simp
qed

lemma announce_message:
  assumes "port_announce_transmit_sm sm cts = Some (t, Return a)"
    and "length (pathTrace (bptasg sm)) = MAX_PATH_TRACE_N"
  shows "announce_tells (bptasg sm) (rootSystemIdentity (masterPriority (bppg sm))) a \<and>
    sequenceId (header a) = sequenceId (header (announceTx sm)) + 1 \<and>
    \<not> newInfo (bppg t) \<and> announceTx t = a"
proof -
  let ?s = "sm\<lparr>state := pat_allstate_condition sm\<rparr>"
  have "a = announceTx (txAnnounce ?s)" "\<not> newInfo (bppg t)" "announceTx t = a"
    using pat_returns_message assms(1) unfolding port_announce_transmit_sm_def by blast+
  moreover have "sequenceId (header (announceTx (txAnnounce ?s))) = sequenceId (header (announceTx sm)) + 1"
    by (simp add: txAnnounce_def Let_def)
  ultimately show ?thesis using txAnnounce_tells [of ?s] assms(2) by simp
qed

lemmas announce_message_tells = announce_message [THEN conjunct1]

text \<open>Every message that the machine sends tells the master priority vector of the port, the
  steps removed, UTC offset and time source of the system, and its path trace; it has
  the next sequence number, and the new information is no longer pending.\<close>

theorem announce_tells_master:
  assumes "port_announce_transmit_sm sm cts = Some (t, Return a)"
    and "length (pathTrace (bptasg sm)) = MAX_PATH_TRACE_N"
  shows "announce_tells (bptasg sm) (rootSystemIdentity (masterPriority (bppg sm))) a \<and>
    sequenceId (header a) = sequenceId (header (announceTx sm)) + 1 \<and>
    \<not> newInfo (bppg t) \<and> announceTx t = a"
  by (rule announce_message [OF assms])

text \<open>The flags of a message are those of the message before it, with the bits of the
  properties that hold now added: a property announced once (a leap second, a
  traceable time) stays announced for ever.\<close>

theorem announce_flags_sticky:
  assumes "port_announce_transmit_sm sm cts = Some (t, Return a)"
    and "length (flags (header (announceTx sm))) = 2"
  shows "flags (header a) ! 1 = flags (header (announceTx sm)) ! 1 OR announce_flags (bptasg sm)"
proof -
  have "a = announceTx (txAnnounce (sm\<lparr>state := pat_allstate_condition sm\<rparr>))"
    using pat_returns_message assms(1) unfolding port_announce_transmit_sm_def by blast
  then show ?thesis using assms(2) by (simp add: txAnnounce_def Let_def)
qed

section \<open>When a message is sent\<close>

text \<open>The port may announce what it knows, and its announce timer.\<close>

definition may_announce :: "port_announce_transmit_data \<Rightarrow> bool" where
  "may_announce sm \<longleftrightarrow> selected (bptasg sm) ! portIndex sm \<and> \<not> updtInfo (bppg sm) \<and>
     \<not> asymmetryMeasurementMode (forAllDomain (ppg sm))"

lemma pat_announces:
  assumes "state s = PAT_TRANSMIT_ANNOUNCE" "last_state s \<noteq> PAT_TRANSMIT_ANNOUNCE"
  shows "\<exists>u. sm_loop (pat_body cts) s = Some (u, Return (announceTx u))"
proof -
  let ?u = "transmit_announce_proc (s\<lparr>last_state := PAT_TRANSMIT_ANNOUNCE\<rparr>)"
  have "sm_step (pat_body cts) s = (?u\<lparr>state := PAT_IDLE\<rparr>, Return (announceTx ?u))"
    using assms by (simp add: sm_step_def pat_body_def Let_def)
  then have "sm_loop (pat_body cts) s = Some (?u\<lparr>state := PAT_IDLE\<rparr>, Return (announceTx ?u))"
    by (rule sm_loop_out) simp
  then show ?thesis by (auto intro!: exI [of _ "?u\<lparr>state := PAT_IDLE\<rparr>"])
qed

lemma pat_enters_idle:
  \<comment> \<open>IDLE entered from another state, with an interval that is long enough\<close>
  assumes "state s = PAT_IDLE" "last_state s \<noteq> PAT_IDLE" "timely cts (interval2 s)" "may_announce s"
  shows "\<exists>t c. sm_loop (pat_body cts) s = Some (t, c) \<and>
    (if newInfo (bppg s) \<and> pat_master s then c = Return (announceTx t) else c = Next)"
proof -
  let ?i = "(pat_idle_proc cts (s\<lparr>last_state := PAT_IDLE\<rparr>))"
  have cond: "pat_idle_condition cts ?i =
      (if newInfo (bppg s) \<and> pat_master s then PAT_TRANSMIT_ANNOUNCE else PAT_IDLE)"
    using assms by (simp add: pat_idle_condition_def pat_idle_proc_def timely_def may_announce_def flip: not_less)
  have step: "sm_step (pat_body cts) s = (?i\<lparr>state := pat_idle_condition cts ?i\<rparr>, Next)"
    using assms by (simp add: sm_step_def pat_body_def Let_def)
  show ?thesis
  proof (cases "newInfo (bppg s) \<and> pat_master s")
    case True
    let ?t = "?i\<lparr>state := PAT_TRANSMIT_ANNOUNCE\<rparr>"
    have "\<exists>u. sm_loop (pat_body cts) ?t = Some (u, Return (announceTx u))"
      by (rule pat_announces) (simp_all add: pat_idle_proc_def)
    moreover have "sm_loop (pat_body cts) s = sm_loop (pat_body cts) ?t"
      by (rule sm_loop_again) (use step cond True in \<open>simp_all add: pat_idle_proc_def\<close>)
    ultimately show ?thesis using True by auto
  next
    case False
    then have "sm_loop (pat_body cts) s = Some (?i\<lparr>state := PAT_IDLE\<rparr>, Next)"
      by (intro sm_loop_rest) (use step cond in \<open>auto simp add: pat_idle_proc_def\<close>)
    with False show ?thesis by auto
  qed
qed

text \<open>C28: A machine at rest in IDLE, on a port that may announce and with an interval that is long
  enough, sends a message exactly if the port is a master port and either there is new
  information or the announce timer has expired; otherwise it returns nothing.\<close>

theorem announce_sent_iff:
  assumes "tas_running (ptasg sm)" "AS_CAPABLE sm" "may_announce sm" "timely cts (interval2 sm)"
    and "state sm = PAT_IDLE" "last_state sm = PAT_IDLE"
  shows "\<exists>t c. port_announce_transmit_sm sm cts = Some (t, c) \<and>
    (if pat_master sm \<and> (newInfo (bppg sm) \<or> nsec (announceSendTime sm) \<le> cts)
     then c = Return (announceTx t) else c = Next)"
  unfolding pat_running [OF assms(1,2)]
proof -
  note idle = assms(5,6) and may = assms(3) [unfolded may_announce_def]
  show "\<exists>t c. sm_loop (pat_body cts) sm = Some (t, c) \<and>
    (if pat_master sm \<and> (newInfo (bppg sm) \<or> nsec (announceSendTime sm) \<le> cts)
     then c = Return (announceTx t) else c = Next)"
  proof (cases "nsec (announceSendTime sm) \<le> cts")
    case True
    let ?p = "sm\<lparr>state := PAT_TRANSMIT_PERIODIC\<rparr>"
    let ?q = "transmit_periodic_proc (sm\<lparr>last_state := PAT_TRANSMIT_PERIODIC\<rparr>)"
    have "sm_step (pat_body cts) sm = (?p, Next)"
      using idle may True
      by (simp add: sm_step_def pat_body_def pat_idle_condition_def Let_def linorder_not_less [symmetric, of _ "cts"])
    then have 1: "sm_loop (pat_body cts) sm = sm_loop (pat_body cts) ?p"
      by (rule sm_loop_again) (simp add: idle)
    have "sm_step (pat_body cts) ?p = (?q\<lparr>state := PAT_IDLE\<rparr>, Next)"
      by (simp add: sm_step_def pat_body_def idle transmit_periodic_proc_def)
    then have 2: "sm_loop (pat_body cts) ?p = sm_loop (pat_body cts) (?q\<lparr>state := PAT_IDLE\<rparr>)"
      by (rule sm_loop_again) (simp add: transmit_periodic_proc_def)
    show ?thesis
      using pat_enters_idle [of "?q\<lparr>state := PAT_IDLE\<rparr>" cts] assms True 1 2
      by (auto simp: transmit_periodic_proc_def may_announce_def split: if_splits)
  next
    case False
    show ?thesis
    proof (cases "newInfo (bppg sm) \<and> pat_master sm")
      case True
      let ?p = "sm\<lparr>state := PAT_TRANSMIT_ANNOUNCE\<rparr>"
      have "sm_step (pat_body cts) sm = (?p, Next)"
        using idle may False True by (simp add: sm_step_def pat_body_def pat_idle_condition_def Let_def)
      then have "sm_loop (pat_body cts) sm = sm_loop (pat_body cts) ?p"
        by (rule sm_loop_again) (simp add: idle)
      with pat_announces [of ?p cts] idle True show ?thesis by auto
    next
      case no: False
      have "sm_step (pat_body cts) sm = (sm, Next)"
        using idle may False no by (auto simp: sm_step_def pat_body_def pat_idle_condition_def Let_def)
      then have "sm_loop (pat_body cts) sm = Some (sm, Next)"
        by (rule sm_loop_rest) (simp add: idle)
      with no False show ?thesis by auto
    qed
  qed
qed

section \<open>Slowing down\<close>

text \<open>After a message sent while the port slows down, the machine waits for the old announce
  interval of the per-port variables. No machine writes that variable (the one that
  AnnounceIntervalSetting writes is another of the same name), and with its initial
  value zero the next call of the machine never returns, at any time.\<close>

theorem slowdown_never_returns:
  assumes "tas_running (ptasg sm)" "AS_CAPABLE sm"
    and "externalPortConfiguration (bptasg sm) = VALUE_DISABLED"
    and "nsec (ppOldAnnounceInterval (ppg sm)) = 0"
    and "announceSlowdown (bppg sm)" "numberAnnounceTransmissions sm < announceReceiptTimeout (bppg sm)"
    and "state sm = PAT_IDLE" "last_state sm = PAT_IDLE" "cts < nsec (announceSendTime sm)"
    and "may_announce sm" "pat_master sm" "newInfo (bppg sm)"
  shows "\<exists>t. port_announce_transmit_sm sm cts = Some (t, Return (announceTx t)) \<and>
    (\<forall>later. port_announce_transmit_sm t later = None)"
proof -
  let ?p = "sm\<lparr>state := PAT_TRANSMIT_ANNOUNCE\<rparr>"
  let ?u = "transmit_announce_proc (?p\<lparr>last_state := PAT_TRANSMIT_ANNOUNCE\<rparr>)"
  let ?t = "?u\<lparr>state := PAT_IDLE\<rparr>"
  have "sm_step (pat_body cts) sm = (?p, Next)"
    using assms(7-12) by (simp add: sm_step_def pat_body_def pat_idle_condition_def Let_def may_announce_def)
  then have "sm_loop (pat_body cts) sm = sm_loop (pat_body cts) ?p"
    by (rule sm_loop_again) (simp add: assms(8))
  also have "\<dots> = Some (?t, Return (announceTx ?u))"
    by (rule sm_loop_out) (simp_all add: sm_step_def pat_body_def Let_def assms(8))
  finally have run: "port_announce_transmit_sm sm cts = Some (?t, Return (announceTx ?t))"
    unfolding pat_running [OF assms(1,2)] by simp
  have u: "ptasg ?u = ptasg sm" "ppg ?u = ppg sm" "bptasg ?u = bptasg sm"
      "last_state ?u = PAT_TRANSMIT_ANNOUNCE" "interval2 ?u = ppOldAnnounceInterval (ppg sm)"
    using assms(5,6) by (simp_all add: transmit_announce_proc_def txAnnounce_def Let_def)
  have t: "tas_running (ptasg ?t)" "AS_CAPABLE ?t" "state ?t = PAT_IDLE" "last_state ?t \<noteq> PAT_IDLE"
      "externalPortConfiguration (bptasg ?t) = VALUE_DISABLED"
    using assms(1-3) by (simp_all add: u)
  have "\<not> timely later (interval2 ?t)" for later
    using zero_interval_not_timely [OF assms(4)] by (simp add: u)
  then have "port_announce_transmit_sm ?t later = None" for later
    unfolding pat_running [OF t(1,2)]
    by (intro sm_loop_diverges [where P = "pat_spinning later", OF pat_spins])
      (use t in \<open>simp_all add: pat_spinning_def\<close>)
  with run show ?thesis by blast
qed

section \<open>Instances\<close>

text \<open>A machine at rest in IDLE on a master port of a running system.\<close>

definition sample_pat :: port_announce_transmit_data where
  "sample_pat = port_announce_transmit_sm_init 1
     (sample_ptasg\<lparr>selectedState := [SlavePort, MasterPort]\<rparr>) sample_ppg
     (zero_BmcsPerTimeAwareSystemGlobal\<lparr>selected := [True, True], leap61 := True\<rparr>)
     (zero_BmcsPerPortGlobal\<lparr>announceInterval := zero_UScaledNs\<lparr>nsec := 1000000000\<rparr>,
        announceReceiptTimeout := 3\<rparr>)
     \<lparr>state := PAT_IDLE, last_state := PAT_IDLE, announceSendTime := zero_UScaledNs\<lparr>nsec := 2000000000\<rparr>\<rparr>"

lemmas sample_pat_simps = sample_pat_def port_announce_transmit_sm_init_def sample_ptasg_def
  sample_ppg_def zero_PerTimeAwareSystemGlobal_def zero_PerPortGlobal_def
  zero_PerPortGlobalForAllDomain_def zero_BmcsPerTimeAwareSystemGlobal_def
  zero_BmcsPerPortGlobal_def zero_UScaledNs_def tas_running_def may_announce_def VALUE_DISABLED_def

lemma sample_timely: "timely 2000000000 (zero_UScaledNs\<lparr>nsec := 1000000000\<rparr>)"
  by (rule timely_interval) simp_all

theorem announce_transmit_total_witness:
  "\<exists>t c. port_announce_transmit_sm sample_pat 2000000000 = Some (t, c) \<and> c \<noteq> Crash"
  using announce_transmit_total [of 2000000000 sample_pat] sample_timely
  by (auto simp: pat_inv_def sample_pat_simps)

theorem short_interval_never_returns_witness:
  "port_announce_transmit_sm (sample_pat\<lparr>last_state := PAT_TRANSMIT_ANNOUNCE, interval2 := zero_UScaledNs\<rparr>)
     2000000000 = None"
  using zero_interval_not_timely [of zero_UScaledNs 2000000000]
  by (intro short_interval_never_returns) (simp_all add: sample_pat_simps)

theorem announce_sent_iff_witness:
  "\<exists>t. port_announce_transmit_sm sample_pat 2000000000 = Some (t, Return (announceTx t))"
  using announce_sent_iff [of sample_pat 2000000000] sample_timely
  by (auto simp: sample_pat_simps)

text \<open>Which message the sample machine sends.\<close>

lemma sample_pat_sends:
  "\<exists>t a. port_announce_transmit_sm (sample_pat\<lparr>bppg := (bppg sample_pat)\<lparr>newInfo := True\<rparr>\<rparr>) 0 =
    Some (t, Return a)"
proof -
  let ?s = "sample_pat\<lparr>bppg := (bppg sample_pat)\<lparr>newInfo := True\<rparr>\<rparr>"
  let ?p = "?s\<lparr>state := PAT_TRANSMIT_ANNOUNCE\<rparr>"
  have "sm_step (pat_body 0) ?s = (?p, Next)"
    by (simp add: sm_step_def pat_body_def pat_idle_condition_def sample_pat_simps Let_def)
  then have "sm_loop (pat_body 0) ?s = sm_loop (pat_body 0) ?p"
    by (rule sm_loop_again) (simp add: sample_pat_def)
  moreover have "port_announce_transmit_sm ?s 0 = sm_loop (pat_body 0) ?s"
    by (rule pat_running) (simp_all add: sample_pat_simps)
  ultimately show ?thesis using pat_announces [of ?p 0] by (auto simp: sample_pat_def)
qed

theorem announce_tells_master_witness:
  "\<exists>t a. port_announce_transmit_sm (sample_pat\<lparr>bppg := (bppg sample_pat)\<lparr>newInfo := True\<rparr>\<rparr>) 0 =
    Some (t, Return a) \<and> sequenceId (header a) = 1"
proof -
  obtain t a where ta: "port_announce_transmit_sm (sample_pat\<lparr>bppg := (bppg sample_pat)\<lparr>newInfo := True\<rparr>\<rparr>) 0 =
    Some (t, Return a)" using sample_pat_sends by blast
  show ?thesis using announce_tells_master [OF ta] ta
    by (simp add: sample_pat_simps zero_PTPMsgAnnounce_def zero_PTPMsgHeader_def)
qed

theorem announce_flags_sticky_witness:
  "\<exists>t a. port_announce_transmit_sm (sample_pat\<lparr>bppg := (bppg sample_pat)\<lparr>newInfo := True\<rparr>\<rparr>) 0 =
    Some (t, Return a) \<and> flags (header a) ! 1 = 1"
proof -
  obtain t a where ta: "port_announce_transmit_sm (sample_pat\<lparr>bppg := (bppg sample_pat)\<lparr>newInfo := True\<rparr>\<rparr>) 0 =
    Some (t, Return a)" using sample_pat_sends by blast
  show ?thesis using announce_flags_sticky [OF ta] ta
    by (simp add: sample_pat_simps zero_PTPMsgAnnounce_def zero_PTPMsgHeader_def announce_flags_def)
qed

theorem slowdown_never_returns_witness:
  "\<exists>t. port_announce_transmit_sm
      (sample_pat\<lparr>bppg := (bppg sample_pat)\<lparr>newInfo := True, announceSlowdown := True\<rparr>\<rparr>) 0 =
      Some (t, Return (announceTx t)) \<and> (\<forall>later. port_announce_transmit_sm t later = None)"
  by (rule slowdown_never_returns) (simp_all add: sample_pat_simps)

end
