(* ===== verification/Gptp_MdEth.thy ===== *)
theory Gptp_MdEth
  imports Gptp_Machines
begin

text \<open>
  The media-dependent data (\<^verbatim>\<open>mdeth.h\<close>, \<^verbatim>\<open>mdeth.c\<close>): the variables of the MD entity, the
  packed structures laid over network buffers, and the conversion of headers
  between host and network form.
\<close>

section \<open>Bytes of a buffer\<close>

text \<open>
  Reading a member of a packed structure: \<open>len\<close> bytes at an offset.
\<close>

definition field :: "nat \<Rightarrow> nat \<Rightarrow> u8 list \<Rightarrow> u8 list" where
  "field off len bs = take len (drop off bs)"

section \<open>The header\<close>

record MDPTPMsgHeader =
  majorSdoId_messageType :: u8
  minorVersionPTP_versionPTP :: u8
  messageLength_ns :: u16
  md_domainNumber :: u8
  md_minorSdoId :: u8
  md_flags :: "u8 list"
  correctionField_nll :: u64
  md_messageTypeSpecific :: "u8 list"
  md_clockIdentity :: ClockIdentity
  portNumber_ns :: u16
  sequenceId_ns :: u16
  md_control :: u8
  md_logMessageInterval :: u8

text \<open>The packed structure in memory, and the structure read from a buffer.\<close>

definition MD_HEADER_SIZE :: nat where
  "MD_HEADER_SIZE = 34"

definition header_image :: "bool \<Rightarrow> MDPTPMsgHeader \<Rightarrow> u8 list" where
  "header_image be h =
     [majorSdoId_messageType h, minorVersionPTP_versionPTP h] @ mem_bytes be (messageLength_ns h) @
     [md_domainNumber h, md_minorSdoId h] @ md_flags h @ mem_bytes be (correctionField_nll h) @
     md_messageTypeSpecific h @ md_clockIdentity h @ mem_bytes be (portNumber_ns h) @
     mem_bytes be (sequenceId_ns h) @ [md_control h, md_logMessageInterval h]"

definition header_overlay :: "bool \<Rightarrow> u8 list \<Rightarrow> MDPTPMsgHeader" where
  "header_overlay be bs =
     \<lparr>majorSdoId_messageType = bs ! 0, minorVersionPTP_versionPTP = bs ! 1,
      messageLength_ns = mem_word be (field 2 2 bs), md_domainNumber = bs ! 4, md_minorSdoId = bs ! 5,
      md_flags = field 6 2 bs, correctionField_nll = mem_word be (field 8 8 bs),
      md_messageTypeSpecific = field 16 4 bs, md_clockIdentity = field 20 8 bs,
      portNumber_ns = mem_word be (field 28 2 bs), sequenceId_ns = mem_word be (field 30 2 bs),
      md_control = bs ! 32, md_logMessageInterval = bs ! 33\<rparr>"

definition md_compose_head :: "env \<Rightarrow> PTPMsgHeader \<Rightarrow> MDPTPMsgHeader" where
  "md_compose_head e head =
     \<lparr>majorSdoId_messageType = push_bit 4 (majorSdoId head) OR messageType head,
      minorVersionPTP_versionPTP = push_bit 4 (minorVersionPTP head) OR versionPTP head,
      messageLength_ns = hton (big_endian e) (messageLength head),
      md_domainNumber = h_domainNumber head, md_minorSdoId = minorSdoId head,
      md_flags = flags head,
      correctionField_nll = hton (big_endian e) (correctionField head),
      md_messageTypeSpecific = messageTypeSpecific head,
      md_clockIdentity = clockIdentity (h_sourcePortIdentity head),
      portNumber_ns = hton (big_endian e) (portNumber (h_sourcePortIdentity head)),
      sequenceId_ns = hton (big_endian e) (sequenceId head),
      md_control = control head, md_logMessageInterval = logMessageInterval head\<rparr>"

definition md_decompose_head :: "env \<Rightarrow> MDPTPMsgHeader \<Rightarrow> PTPMsgHeader" where
  "md_decompose_head e phead =
     \<lparr>majorSdoId = drop_bit 4 (majorSdoId_messageType phead) AND 0xf,
      messageType = majorSdoId_messageType phead AND 0xf,
      minorVersionPTP = drop_bit 4 (minorVersionPTP_versionPTP phead) AND 0xf,
      versionPTP = minorVersionPTP_versionPTP phead AND 0xf,
      messageLength = hton (big_endian e) (messageLength_ns phead),
      h_domainNumber = md_domainNumber phead, minorSdoId = md_minorSdoId phead,
      flags = md_flags phead,
      correctionField = hton (big_endian e) (correctionField_nll phead),
      messageTypeSpecific = md_messageTypeSpecific phead,
      h_sourcePortIdentity = \<lparr>clockIdentity = md_clockIdentity phead,
        portNumber = hton (big_endian e) (portNumber_ns phead)\<rparr>,
      sequenceId = hton (big_endian e) (sequenceId_ns phead),
      control = md_control phead, logMessageInterval = md_logMessageInterval phead\<rparr>"

text \<open>The message types that the machines send and receive.\<close>

datatype (plugins only: code) PTPMsgType =
  SYNC | PDELAY_REQ | PDELAY_RESP | FOLLOW_UP | PDELAY_RESP_FOLLOW_UP | ANNOUNCE | SIGNALING

fun msgtype_code :: "PTPMsgType \<Rightarrow> u8" where
  "msgtype_code SYNC = 0"
| "msgtype_code PDELAY_REQ = 2"
| "msgtype_code PDELAY_RESP = 3"
| "msgtype_code FOLLOW_UP = 8"
| "msgtype_code PDELAY_RESP_FOLLOW_UP = 10"
| "msgtype_code ANNOUNCE = 11"
| "msgtype_code SIGNALING = 12"

definition md_header_template ::
  "env \<Rightarrow> PTPMsgType \<Rightarrow> u16 \<Rightarrow> PortIdentity \<Rightarrow> u16 \<Rightarrow> u8 \<Rightarrow> PTPMsgHeader" where
  "md_header_template e msgtype len portId seqid logInterval =
     \<lparr>majorSdoId = 1, messageType = msgtype_code msgtype,
      minorVersionPTP = of_int (conf e CONF_MINOR_VERSION_PTP), versionPTP = 2,
      messageLength = len, h_domainNumber = 0, minorSdoId = 0,
      flags = [if msgtype = SYNC \<or> msgtype = PDELAY_RESP then 0x2 else 0x0,
               of_int (conf e CONF_TIMESCALE_PTP mod 2 * 8)],
      correctionField = 0, messageTypeSpecific = replicate 4 0,
      h_sourcePortIdentity = portId, sequenceId = seqid,
      control = (case msgtype of SYNC \<Rightarrow> 0x0 | FOLLOW_UP \<Rightarrow> 0x2 | _ \<Rightarrow> 0x5),
      logMessageInterval = logInterval\<rparr>"

text \<open>
  \<^verbatim>\<open>md_header_compose\<close> clears \<^verbatim>\<open>ssize\<close> bytes of the send buffer and writes the header;
  the network layer that owns the buffer is not part of the model, so the result is
  the header the buffer then holds, and the callers write the rest of the cleared bytes.
\<close>

definition md_header_compose ::
  "env \<Rightarrow> PTPMsgType \<Rightarrow> u16 \<Rightarrow> ClockIdentity \<Rightarrow> u16 \<Rightarrow> u16 \<Rightarrow> u8 \<Rightarrow> MDPTPMsgHeader" where
  "md_header_compose e msgtype ssize self port seqid logInterval =
     md_compose_head e (md_header_template e msgtype ssize
       \<lparr>clockIdentity = self, portNumber = port\<rparr> seqid logInterval)"

section \<open>The information of a Follow_Up message\<close>

record MDFollowUpInformationTLV =
  fu_tlvType_ns :: u16
  fu_lengthField_ns :: u16
  fu_organizationId :: "u8 list"
  fu_organizationSubType_nb :: "u8 list"
  cumulativeScaledRateOffset_nl :: u32
  gmTimeBaseIndicator_ns :: u16
  fu_nsec_msb :: u16
  fu_nsec_nll :: u64
  fu_subns_ns :: u16
  scaledLastGmFreqChange_nl :: u32

text \<open>\<^verbatim>\<open>(int32_t)ldexp(x, 41)\<close>: the fraction is dropped; a value out of range is undefined in C.\<close>

definition scaled41 :: "real \<Rightarrow> u32" where
  "scaled41 x = of_int (c_trunc (x * 2 ^ 41))"

definition md_followup_information_tlv_compose ::
  "env \<Rightarrow> real \<Rightarrow> u16 \<Rightarrow> ScaledNs \<Rightarrow> real \<Rightarrow> MDFollowUpInformationTLV" where
  "md_followup_information_tlv_compose e rateRatio tbi phase freq =
     \<lparr>fu_tlvType_ns = hton (big_endian e) 0x3, fu_lengthField_ns = hton (big_endian e) 28,
      fu_organizationId = [0x00, 0x80, 0xC2], fu_organizationSubType_nb = [0, 0, 1],
      cumulativeScaledRateOffset_nl = hton (big_endian e) (scaled41 (rateRatio - 1)),
      gmTimeBaseIndicator_ns = hton (big_endian e) tbi,
      fu_nsec_msb = hton (big_endian e) (s_nsec_msb phase),
      fu_nsec_nll = hton (big_endian e) (s_nsec phase),
      fu_subns_ns = hton (big_endian e) (s_subns phase),
      scaledLastGmFreqChange_nl = hton (big_endian e) (scaled41 freq)\<rparr>"

section \<open>Variables of the MD entity\<close>

record MDEntityGlobalForAllDomain =
  currentLogPdelayReqInterval :: u8
  initialLogPdelayReqInterval :: u8
  pdelayReqInterval :: UScaledNs
  allowedLostResponses :: u16
  allowedFaults :: u16
  isMeasuringDelay :: bool
  neighborPropDelayThresh :: UScaledNs
  neighborPropDelayMinLimit :: UScaledNs
  asCapableAcrossDomains :: bool

text \<open>As in the per-port variables, the structure shared by the domains is held by value.\<close>

record MDEntityGlobal =
  syncSequenceId :: u16
  oneStepReceive :: bool
  oneStepTransmit :: bool
  oneStepTxOper :: bool
  md_forAllDomain :: MDEntityGlobalForAllDomain

text \<open>\<open>seq\<close> is the number that \<^verbatim>\<open>rand\<close> gives.\<close>

definition md_entity_glb_init ::
  "env \<Rightarrow> int \<Rightarrow> MDEntityGlobalForAllDomain option \<Rightarrow> MDEntityGlobal" where
  "md_entity_glb_init e seq fad =
     \<lparr>syncSequenceId = of_int seq,
      oneStepReceive = False, oneStepTransmit = False, oneStepTxOper = False,
      md_forAllDomain = (case fad of
        Some f \<Rightarrow> f
      | None \<Rightarrow>
        \<lparr>currentLogPdelayReqInterval = of_int (conf e CONF_LOG_PDELAYREQ_INTERVAL),
         initialLogPdelayReqInterval = of_int (conf e CONF_LOG_PDELAYREQ_INTERVAL),
         pdelayReqInterval = zero_UScaledNs\<lparr>nsec := LOG_TO_NSEC e (conf e CONF_LOG_PDELAYREQ_INTERVAL)\<rparr>,
         allowedLostResponses = of_int (conf e CONF_ALLOWED_LOST_RESPONSE),
         allowedFaults = of_int (conf e CONF_ALLOWED_FAULTS),
         isMeasuringDelay = False,
         neighborPropDelayThresh = zero_UScaledNs\<lparr>nsec := of_int (conf e CONF_NEIGHBOR_PROPDELAY_THRESH)\<rparr>,
         neighborPropDelayMinLimit = zero_UScaledNs\<lparr>nsec := of_int (conf e CONF_NEIGHBOR_PROPDELAY_MINLIMIT)\<rparr>,
         asCapableAcrossDomains = False\<rparr>)\<rparr>"

section \<open>Round trips\<close>

text \<open>A header whose half-byte members are half bytes and whose arrays have their sizes.\<close>

definition header_ok :: "PTPMsgHeader \<Rightarrow> bool" where
  "header_ok h \<longleftrightarrow> majorSdoId h < 16 \<and> messageType h < 16 \<and> minorVersionPTP h < 16 \<and>
     versionPTP h < 16 \<and> length (flags h) = 2 \<and> length (messageTypeSpecific h) = 4 \<and>
     clockid_ok (clockIdentity (h_sourcePortIdentity h))"

lemma nibble_bits: "(x :: u8) < 16 \<Longrightarrow> 4 \<le> n \<Longrightarrow> \<not> bit x n"
proof -
  assume "x < 16" "4 \<le> n"
  then have "x = take_bit 4 x"
    by (simp add: word_less_nat_alt take_bit_eq_mod word_mod_less_divisor flip: word_unat_eq_iff)
      (simp add: word_unat_eq_iff unat_mod)
  then show "\<not> bit x n" using \<open>4 \<le> n\<close> by (metis bit_take_bit_iff not_less)
qed

lemma mask4: "(0xf :: u8) = mask 4"
  by (simp add: mask_eq_exp_minus_1)

lemma nibbles:
  fixes x y :: u8
  assumes "x < 16" "y < 16"
  shows "drop_bit 4 (push_bit 4 x OR y) AND 0xf = x" "(push_bit 4 x OR y) AND 0xf = y"
  unfolding mask4
  using nibble_bits [OF assms(1)] nibble_bits [OF assms(2)]
  by (auto intro!: bit_word_eqI simp: bit_simps dest: bit_imp_le_length)
    (metis not_less)+

lemma header_fields:
  assumes "length (md_flags h) = 2" "length (md_messageTypeSpecific h) = 4" "length (md_clockIdentity h) = 8"
  shows "length (header_image be h) = MD_HEADER_SIZE"
    "header_image be h ! 0 = majorSdoId_messageType h" "header_image be h ! Suc 0 = minorVersionPTP_versionPTP h"
    "field 2 2 (header_image be h @ r) = mem_bytes be (messageLength_ns h)"
    "header_image be h ! 4 = md_domainNumber h" "header_image be h ! 5 = md_minorSdoId h"
    "field 6 2 (header_image be h @ r) = md_flags h"
    "field 8 8 (header_image be h @ r) = mem_bytes be (correctionField_nll h)"
    "field 16 4 (header_image be h @ r) = md_messageTypeSpecific h"
    "field 20 8 (header_image be h @ r) = md_clockIdentity h"
    "field 28 2 (header_image be h @ r) = mem_bytes be (portNumber_ns h)"
    "field 30 2 (header_image be h @ r) = mem_bytes be (sequenceId_ns h)"
    "header_image be h ! 32 = md_control h" "header_image be h ! 33 = md_logMessageInterval h"
  using assms by (simp_all add: header_image_def field_def MD_HEADER_SIZE_def nth_append)

lemma header_image_nth:
  assumes "length (header_image be h) = MD_HEADER_SIZE" "i < MD_HEADER_SIZE"
  shows "(header_image be h @ r) ! i = header_image be h ! i"
  using assms by (simp add: nth_append)

text \<open>A header laid over the bytes that another host has sent, at the start of a longer message.\<close>

lemma header_over_wire:
  assumes "header_ok h"
  shows "md_decompose_head e2 (header_overlay (big_endian e2)
    (header_image (big_endian e1) (md_compose_head e1 h) @ r)) = h"
proof -
  let ?m = "md_compose_head e1 h"
  have len: "length (md_flags ?m) = 2" "length (md_messageTypeSpecific ?m) = 4" "length (md_clockIdentity ?m) = 8"
    using assms by (simp_all add: md_compose_head_def header_ok_def clockid_ok_def)
  note f = header_fields [OF len, of "big_endian e1"]
  show ?thesis
    using assms
    by (simp add: header_overlay_def md_decompose_head_def f header_image_nth [OF f(1)] MD_HEADER_SIZE_def)
      (simp add: md_compose_head_def header_ok_def nibbles del: drop_bit_or)
qed

text \<open>A message header composed by one host and taken apart by another is the same header,
  whatever the byte orders of the two hosts.\<close>

theorem header_wire_roundtrip:
  assumes "header_ok h"
  shows "md_decompose_head e2 (header_overlay (big_endian e2)
    (header_image (big_endian e1) (md_compose_head e1 h))) = h"
  using header_over_wire [OF assms, of e2 e1 "[]"] by simp

theorem header_wire_roundtrip_witness:
  "md_decompose_head (default_env\<lparr>big_endian := True\<rparr>) (header_overlay True
     (header_image False (md_compose_head default_env (header sample_announce)))) = header sample_announce"
  using header_wire_roundtrip [of "header sample_announce" "default_env\<lparr>big_endian := True\<rparr>" default_env]
  by (simp add: header_ok_def sample_announce_def zero_PTPMsgAnnounce_def zero_PTPMsgHeader_def)

end
