(* ===== verification/Gptp_IntervalSettings.thy ===== *)
theory Gptp_IntervalSettings
  imports Gptp_MdEth
begin

text \<open>
  The four machines that let a peer (with a signaling message) or the management set
  an interval or an option of a port: AnnounceIntervalSetting
  (\<^verbatim>\<open>announce_interval_setting_sm.c\<close>), SyncIntervalSetting
  (\<^verbatim>\<open>sync_interval_setting_sm.c\<close>), LinkDelayIntervalSetting
  (\<^verbatim>\<open>link_delay_interval_setting_sm.c\<close>) and OneStepTxOperSetting
  (\<^verbatim>\<open>one_step_tx_oper_setting_sm.c\<close>). A pointer to the TLV of a message is the
  TLV as it is when the message is delivered.
\<close>

section \<open>Serving requests\<close>

text \<open>A sequence of requests delivered one after the other; \<open>None\<close> if one does not return.\<close>

fun deliver_all :: "('s \<Rightarrow> 'r \<Rightarrow> ('s \<times> unit ctl) option) \<Rightarrow> 's \<Rightarrow> 'r list \<Rightarrow> 's option" where
  "deliver_all deliver s [] = Some s"
| "deliver_all deliver s (r # rs) =
     (case deliver s r of None \<Rightarrow> None | Some (t, c) \<Rightarrow> deliver_all deliver t rs)"

text \<open>
  What the machines promise: as long as they are ready, each request is served, which
  changes the values they are responsible for as \<open>apply_req\<close> says.
\<close>

locale request_server =
  fixes deliver :: "'s \<Rightarrow> 'r \<Rightarrow> ('s \<times> unit ctl) option"
    and ready :: "'s \<Rightarrow> bool"
    and view :: "'s \<Rightarrow> 'v"
    and apply_req :: "'r \<Rightarrow> 'v \<Rightarrow> 'v"
  assumes serve: "ready s \<Longrightarrow>
    \<exists>t. deliver s r = Some (t, Next) \<and> ready t \<and> view t = apply_req r (view s)"
begin

lemma serve_all:
  "ready s \<Longrightarrow> \<exists>t. deliver_all deliver s rs = Some t \<and> ready t \<and> view t = fold apply_req rs (view s)"
proof (induction rs arbitrary: s)
  case (Cons r rs)
  obtain t where t: "deliver s r = Some (t, Next)" "ready t" "view t = apply_req r (view s)"
    using serve Cons.prems by blast
  from Cons.IH [OF t(2)] t show ?case by auto
qed simp

end

text \<open>The request for an interval, in the three machines that set one: the current logarithm and the nanoseconds.\<close>

definition set_log_interval :: "env \<Rightarrow> u8 \<Rightarrow> u8 \<Rightarrow> u8 \<times> u64 \<Rightarrow> u8 \<times> u64" where
  "set_log_interval e initial v cur =
     (if sint v = - 128 then cur
      else if sint v = 126 then (initial, LOG_TO_NSEC e (sint initial))
      else (v, LOG_TO_NSEC e (sint v)))"

record 'st md_sm = "'st port_sm" +
  mdeg :: MDEntityGlobal

section \<open>AnnounceIntervalSetting\<close>

datatype (plugins only: code) ais_state =
  AIS_INIT | AIS_NOT_ENABLED | AIS_INITIALIZE | AIS_SET_INTERVALS | AIS_REACTION

record announce_interval_setting_data = "ais_state port_sm" +
  ais_bppg :: BmcsPerPortGlobal
  rcvdSignalingMsg2 :: bool
  ais_rcvdSignalingPtr :: "PTPMsgIntervalRequestTLV option"

abbreviation ais_use_mgt :: "announce_interval_setting_data \<Rightarrow> bool" where
  "ais_use_mgt sm \<equiv> useMgtSettableLogAnnounceInterval (forAllDomain (ppg sm))"

definition ais_allstate_condition :: "announce_interval_setting_data \<Rightarrow> ais_state" where
  "ais_allstate_condition sm =
     (if BEGIN (ptasg sm) \<or> \<not> instanceEnable (ptasg sm) \<or> \<not> PORT_OPER sm \<or>
         \<not> PTP_PORT_ENABLED sm \<or> ais_use_mgt sm
      then AIS_NOT_ENABLED else state sm)"

definition ais_not_enabled_proc ::
  "env \<Rightarrow> announce_interval_setting_data \<Rightarrow> announce_interval_setting_data" where
  "ais_not_enabled_proc e sm =
     (if ais_use_mgt sm then
        let v = mgtSettableLogAnnounceInterval (forAllDomain (ppg sm)); bp = ais_bppg sm
        in sm\<lparr>ais_bppg := bp\<lparr>currentLogAnnounceInterval := v,
             announceInterval := (announceInterval bp)\<lparr>nsec := LOG_TO_NSEC e (sint v)\<rparr>\<rparr>\<rparr>
      else sm)"

definition ais_not_enabled_condition :: "announce_interval_setting_data \<Rightarrow> ais_state" where
  "ais_not_enabled_condition sm =
     (if PORT_OPER sm \<and> PTP_PORT_ENABLED sm \<and> \<not> ais_use_mgt sm then AIS_INITIALIZE else AIS_NOT_ENABLED)"

definition ais_initialize_proc ::
  "env \<Rightarrow> announce_interval_setting_data \<Rightarrow> announce_interval_setting_data" where
  "ais_initialize_proc e sm =
     (let bp = ais_bppg sm; v = initialLogAnnounceInterval bp;
          i = (announceInterval bp)\<lparr>nsec := LOG_TO_NSEC e (sint v)\<rparr>
      in sm\<lparr>ais_bppg := bp\<lparr>currentLogAnnounceInterval := v, announceInterval := i,
              oldAnnounceInterval := i, announceSlowdown := False\<rparr>,
            rcvdSignalingMsg2 := False\<rparr>)"

definition ais_initialize_condition :: "announce_interval_setting_data \<Rightarrow> ais_state" where
  "ais_initialize_condition sm = (if rcvdSignalingMsg2 sm then AIS_SET_INTERVALS else AIS_INITIALIZE)"

definition ais_set_intervals_proc ::
  "env \<Rightarrow> announce_interval_setting_data \<Rightarrow> announce_interval_setting_data option" where
  "ais_set_intervals_proc e sm =
     (case ais_rcvdSignalingPtr sm of
        None \<Rightarrow> None
      | Some r \<Rightarrow>
          let bp = ais_bppg sm;
              (cur, ns) = set_log_interval e (initialLogAnnounceInterval bp) (announceInterval_m r)
                (currentLogAnnounceInterval bp, nsec (announceInterval bp))
          in Some (sm\<lparr>ais_bppg := bp\<lparr>currentLogAnnounceInterval := cur,
                    announceInterval := (announceInterval bp)\<lparr>nsec := ns\<rparr>,
                    announceSlowdown := ns < nsec (oldAnnounceInterval bp)\<rparr>,
                  rcvdSignalingMsg2 := False\<rparr>))"

definition ais_set_intervals_condition :: "announce_interval_setting_data \<Rightarrow> ais_state" where
  "ais_set_intervals_condition sm = (if rcvdSignalingMsg2 sm then AIS_REACTION else AIS_SET_INTERVALS)"

definition ais_body ::
  "env \<Rightarrow> bool \<Rightarrow> announce_interval_setting_data \<Rightarrow> announce_interval_setting_data \<times> unit ctl" where
  "ais_body e state_change sm =
     (case state sm of
        AIS_INIT \<Rightarrow> (sm\<lparr>state := AIS_NOT_ENABLED\<rparr>, Next)
      | AIS_NOT_ENABLED \<Rightarrow>
          let sm1 = (if state_change then ais_not_enabled_proc e sm else sm)
          in (sm1\<lparr>state := ais_not_enabled_condition sm1\<rparr>, Next)
      | AIS_INITIALIZE \<Rightarrow>
          let sm1 = (if state_change then ais_initialize_proc e sm else sm)
          in (sm1\<lparr>state := ais_initialize_condition sm1\<rparr>, Next)
      | AIS_SET_INTERVALS \<Rightarrow>
          (case (if state_change then ais_set_intervals_proc e sm else Some sm) of
             None \<Rightarrow> (sm, Crash)
           | Some sm1 \<Rightarrow> (sm1\<lparr>state := ais_set_intervals_condition sm1\<rparr>, Next))
      | AIS_REACTION \<Rightarrow> (sm, Next))"

definition announce_interval_setting_sm ::
  "env \<Rightarrow> announce_interval_setting_data \<Rightarrow> (announce_interval_setting_data \<times> unit ctl) option" where
  "announce_interval_setting_sm e sm = sm_loop (ais_body e) (sm\<lparr>state := ais_allstate_condition sm\<rparr>)"

definition announce_interval_setting_sm_init ::
  "PerTimeAwareSystemGlobal \<Rightarrow> PerPortGlobal \<Rightarrow> BmcsPerPortGlobal \<Rightarrow> announce_interval_setting_data" where
  "announce_interval_setting_sm_init pt pp bp =
     \<lparr>state = AIS_INIT, last_state = AIS_INIT, ptasg = pt, ppg = pp, ais_bppg = bp,
      rcvdSignalingMsg2 = False, ais_rcvdSignalingPtr = None\<rparr>"

definition announce_interval_setting_sm_SignalingMsg2 ::
  "env \<Rightarrow> announce_interval_setting_data \<Rightarrow> PTPMsgIntervalRequestTLV \<Rightarrow>
   (announce_interval_setting_data \<times> unit ctl) option" where
  "announce_interval_setting_sm_SignalingMsg2 e sm r =
     announce_interval_setting_sm e (sm\<lparr>ais_rcvdSignalingPtr := Some r, rcvdSignalingMsg2 := True\<rparr>)"

section \<open>SyncIntervalSetting\<close>

datatype (plugins only: code) sis_state =
  SIS_INIT | SIS_NOT_ENABLED | SIS_INITIALIZE | SIS_SET_INTERVAL | SIS_REACTION

record sync_interval_setting_data = "sis_state port_sm" +
  sis_rcvdSignalingMsg1 :: bool
  sis_rcvdSignalingPtr :: "PTPMsgIntervalRequestTLV option"

definition sis_allstate_condition :: "sync_interval_setting_data \<Rightarrow> sis_state" where
  "sis_allstate_condition sm =
     (if BEGIN (ptasg sm) \<or> \<not> instanceEnable (ptasg sm) \<or> \<not> PORT_OPER sm \<or>
         \<not> PTP_PORT_ENABLED sm \<or> useMgtSettableLogSyncInterval (ppg sm)
      then SIS_NOT_ENABLED else state sm)"

definition sis_not_enabled_proc ::
  "env \<Rightarrow> sync_interval_setting_data \<Rightarrow> sync_interval_setting_data" where
  "sis_not_enabled_proc e sm =
     (if useMgtSettableLogSyncInterval (ppg sm) then
        let v = mgtSettableLogSyncInterval (ppg sm)
        in sm\<lparr>ppg := (ppg sm)\<lparr>currentLogSyncInterval := v,
             syncInterval := (syncInterval (ppg sm))\<lparr>nsec := LOG_TO_NSEC e (sint v)\<rparr>\<rparr>\<rparr>
      else sm)"

definition sis_not_enabled_condition :: "sync_interval_setting_data \<Rightarrow> sis_state" where
  "sis_not_enabled_condition sm =
     (if PORT_OPER sm \<and> PTP_PORT_ENABLED sm \<and> \<not> useMgtSettableLogSyncInterval (ppg sm)
      then SIS_INITIALIZE else SIS_NOT_ENABLED)"

definition sis_initialize_proc ::
  "env \<Rightarrow> sync_interval_setting_data \<Rightarrow> sync_interval_setting_data" where
  "sis_initialize_proc e sm =
     (let v = initialLogSyncInterval (ppg sm)
      in sm\<lparr>ppg := (ppg sm)\<lparr>currentLogSyncInterval := v,
              syncInterval := (syncInterval (ppg sm))\<lparr>nsec := LOG_TO_NSEC e (sint v)\<rparr>\<rparr>,
            sis_rcvdSignalingMsg1 := False\<rparr>)"

definition sis_initialize_condition :: "sync_interval_setting_data \<Rightarrow> sis_state" where
  "sis_initialize_condition sm = (if sis_rcvdSignalingMsg1 sm then SIS_SET_INTERVAL else SIS_INITIALIZE)"

definition sis_set_interval_proc ::
  "env \<Rightarrow> sync_interval_setting_data \<Rightarrow> sync_interval_setting_data option" where
  "sis_set_interval_proc e sm =
     (case sis_rcvdSignalingPtr sm of
        None \<Rightarrow> None
      | Some r \<Rightarrow>
          let p = ppg sm;
              (cur, ns) = set_log_interval e (initialLogSyncInterval p) (timeSyncInterval r)
                (currentLogSyncInterval p, nsec (syncInterval p))
          in Some (sm\<lparr>ppg := p\<lparr>currentLogSyncInterval := cur,
                    syncInterval := (syncInterval p)\<lparr>nsec := ns\<rparr>\<rparr>,
                  sis_rcvdSignalingMsg1 := False\<rparr>))"

definition sis_set_interval_condition :: "sync_interval_setting_data \<Rightarrow> sync_interval_setting_data" where
  "sis_set_interval_condition sm =
     (if sis_rcvdSignalingMsg1 sm then sm\<lparr>last_state := SIS_REACTION\<rparr> else sm)\<lparr>state := SIS_SET_INTERVAL\<rparr>"

definition sis_body ::
  "env \<Rightarrow> bool \<Rightarrow> sync_interval_setting_data \<Rightarrow> sync_interval_setting_data \<times> unit ctl" where
  "sis_body e state_change sm =
     (case state sm of
        SIS_INIT \<Rightarrow> (sm\<lparr>state := SIS_NOT_ENABLED\<rparr>, Next)
      | SIS_NOT_ENABLED \<Rightarrow>
          let sm1 = (if state_change then sis_not_enabled_proc e sm else sm)
          in (sm1\<lparr>state := sis_not_enabled_condition sm1\<rparr>, Next)
      | SIS_INITIALIZE \<Rightarrow>
          (if state_change then (sis_initialize_proc e sm, Next)
           else (sm\<lparr>state := sis_initialize_condition sm\<rparr>, Next))
      | SIS_SET_INTERVAL \<Rightarrow>
          (case (if state_change then sis_set_interval_proc e sm else Some sm) of
             None \<Rightarrow> (sm, Crash)
           | Some sm1 \<Rightarrow> (sis_set_interval_condition sm1, Next))
      | SIS_REACTION \<Rightarrow> (sm, Next))"

definition sync_interval_setting_sm ::
  "env \<Rightarrow> sync_interval_setting_data \<Rightarrow> (sync_interval_setting_data \<times> unit ctl) option" where
  "sync_interval_setting_sm e sm = sm_loop (sis_body e) (sm\<lparr>state := sis_allstate_condition sm\<rparr>)"

definition sync_interval_setting_sm_init ::
  "env \<Rightarrow> PerTimeAwareSystemGlobal \<Rightarrow> PerPortGlobal \<Rightarrow>
   (sync_interval_setting_data \<times> unit ctl) option" where
  "sync_interval_setting_sm_init e pt pp =
     sync_interval_setting_sm e
       \<lparr>state = SIS_INIT, last_state = SIS_INIT, ptasg = pt, ppg = pp,
        sis_rcvdSignalingMsg1 = False, sis_rcvdSignalingPtr = None\<rparr>"

definition sync_interval_setting_SignalingMsg1 ::
  "env \<Rightarrow> sync_interval_setting_data \<Rightarrow> PTPMsgIntervalRequestTLV \<Rightarrow>
   (sync_interval_setting_data \<times> unit ctl) option" where
  "sync_interval_setting_SignalingMsg1 e sm r =
     sync_interval_setting_sm e (sm\<lparr>sis_rcvdSignalingMsg1 := True, sis_rcvdSignalingPtr := Some r\<rparr>)"

section \<open>LinkDelayIntervalSetting\<close>

datatype (plugins only: code) ldis_state =
  LDIS_INIT | LDIS_NOT_ENABLED | LDIS_INITIALIZE | LDIS_SET_INTERVAL | LDIS_REACTION

record link_delay_interval_setting_data = "ldis_state md_sm" +
  ldis_rcvdSignalingMsg1 :: bool
  ldis_rcvdSignalingPtr :: "PTPMsgIntervalRequestTLV option"
  portEnabled3 :: bool

abbreviation ldis_use_mgt :: "link_delay_interval_setting_data \<Rightarrow> bool" where
  "ldis_use_mgt sm \<equiv> useMgtSettableLogPdelayReqInterval (forAllDomain (ppg sm))"

text \<open>Both interval variables of the MD entity, and the options of the port, in one assignment.\<close>

definition ldis_set ::
  "u8 \<times> u64 \<Rightarrow> link_delay_interval_setting_data \<Rightarrow> link_delay_interval_setting_data" where
  "ldis_set v sm =
     sm\<lparr>mdeg := (mdeg sm)\<lparr>md_forAllDomain := (md_forAllDomain (mdeg sm))
       \<lparr>currentLogPdelayReqInterval := fst v,
        pdelayReqInterval := (pdelayReqInterval (md_forAllDomain (mdeg sm)))\<lparr>nsec := snd v\<rparr>\<rparr>\<rparr>\<rparr>"

definition ldis_compute ::
  "bool \<Rightarrow> bool \<Rightarrow> link_delay_interval_setting_data \<Rightarrow> link_delay_interval_setting_data" where
  "ldis_compute rr pd sm =
     sm\<lparr>ppg := (ppg sm)\<lparr>forAllDomain := (forAllDomain (ppg sm))
       \<lparr>computeNeighborRateRatio := rr, computeNeighborPropDelay := pd\<rparr>\<rparr>\<rparr>"

definition ldis_allstate_condition :: "link_delay_interval_setting_data \<Rightarrow> ldis_state" where
  "ldis_allstate_condition sm =
     (if BEGIN (ptasg sm) \<or> \<not> portEnabled3 sm \<or> \<not> PORT_OPER sm \<or> ldis_use_mgt sm
      then LDIS_NOT_ENABLED else state sm)"

definition ldis_not_enabled_proc ::
  "env \<Rightarrow> link_delay_interval_setting_data \<Rightarrow> link_delay_interval_setting_data" where
  "ldis_not_enabled_proc e sm =
     (if ldis_use_mgt sm then
        let v = mgtSettableLogPdelayReqInterval (forAllDomain (ppg sm))
        in ldis_set (v, LOG_TO_NSEC e (sint v)) sm
      else sm)"

definition ldis_not_enabled_condition :: "link_delay_interval_setting_data \<Rightarrow> ldis_state" where
  "ldis_not_enabled_condition sm =
     (if PORT_OPER sm \<and> portEnabled3 sm \<and> \<not> ldis_use_mgt sm then LDIS_INITIALIZE else LDIS_NOT_ENABLED)"

definition ldis_initialize_proc ::
  "env \<Rightarrow> link_delay_interval_setting_data \<Rightarrow> link_delay_interval_setting_data" where
  "ldis_initialize_proc e sm =
     (let v = initialLogPdelayReqInterval (md_forAllDomain (mdeg sm))
      in (ldis_compute True True (ldis_set (v, LOG_TO_NSEC e (sint v)) sm))
           \<lparr>ldis_rcvdSignalingMsg1 := False\<rparr>)"

definition ldis_initialize_condition :: "link_delay_interval_setting_data \<Rightarrow> ldis_state" where
  "ldis_initialize_condition sm = (if ldis_rcvdSignalingMsg1 sm then LDIS_SET_INTERVAL else LDIS_INITIALIZE)"

definition ldis_set_interval_proc ::
  "env \<Rightarrow> link_delay_interval_setting_data \<Rightarrow> link_delay_interval_setting_data option" where
  "ldis_set_interval_proc e sm =
     (case ldis_rcvdSignalingPtr sm of
        None \<Rightarrow> None
      | Some r \<Rightarrow>
          let f = md_forAllDomain (mdeg sm);
              v = set_log_interval e (initialLogPdelayReqInterval f) (linkDelayInterval r)
                (currentLogPdelayReqInterval f, nsec (pdelayReqInterval f))
          in Some ((ldis_compute (GET_FLAG_BIT (ir_flags r) COMPUTE_NEIGHBOR_RATE_RATIO_BIT)
                     (GET_FLAG_BIT (ir_flags r) COMPUTE_NEIGHBOR_PROP_DELAY_BIT) (ldis_set v sm))
                   \<lparr>ldis_rcvdSignalingMsg1 := False\<rparr>))"

definition ldis_set_interval_condition ::
  "link_delay_interval_setting_data \<Rightarrow> link_delay_interval_setting_data" where
  "ldis_set_interval_condition sm =
     (if ldis_rcvdSignalingMsg1 sm then sm\<lparr>last_state := LDIS_REACTION\<rparr> else sm)\<lparr>state := LDIS_SET_INTERVAL\<rparr>"

definition ldis_body ::
  "env \<Rightarrow> bool \<Rightarrow> link_delay_interval_setting_data \<Rightarrow>
   link_delay_interval_setting_data \<times> unit ctl" where
  "ldis_body e state_change sm =
     (case state sm of
        LDIS_INIT \<Rightarrow> (sm\<lparr>state := LDIS_NOT_ENABLED\<rparr>, Next)
      | LDIS_NOT_ENABLED \<Rightarrow>
          let sm1 = (if state_change then ldis_not_enabled_proc e sm else sm)
          in (sm1\<lparr>state := ldis_not_enabled_condition sm1\<rparr>, Next)
      | LDIS_INITIALIZE \<Rightarrow>
          let sm1 = (if state_change then ldis_initialize_proc e sm else sm)
          in (sm1\<lparr>state := ldis_initialize_condition sm1\<rparr>, Next)
      | LDIS_SET_INTERVAL \<Rightarrow>
          (case (if state_change then ldis_set_interval_proc e sm else Some sm) of
             None \<Rightarrow> (sm, Crash)
           | Some sm1 \<Rightarrow> (ldis_set_interval_condition sm1, Next))
      | LDIS_REACTION \<Rightarrow> (sm, Next))"

definition link_delay_interval_setting_sm ::
  "env \<Rightarrow> link_delay_interval_setting_data \<Rightarrow>
   (link_delay_interval_setting_data \<times> unit ctl) option" where
  "link_delay_interval_setting_sm e sm = sm_loop (ldis_body e) (sm\<lparr>state := ldis_allstate_condition sm\<rparr>)"

definition link_delay_interval_setting_sm_init ::
  "PerTimeAwareSystemGlobal \<Rightarrow> PerPortGlobal \<Rightarrow> MDEntityGlobal \<Rightarrow> link_delay_interval_setting_data" where
  "link_delay_interval_setting_sm_init pt pp md =
     \<lparr>state = LDIS_INIT, last_state = LDIS_INIT, ptasg = pt, ppg = pp, mdeg = md,
      ldis_rcvdSignalingMsg1 = False, ldis_rcvdSignalingPtr = None, portEnabled3 = False\<rparr>"

definition link_delay_interval_setting_SignalingMsg1 ::
  "env \<Rightarrow> link_delay_interval_setting_data \<Rightarrow> PTPMsgIntervalRequestTLV \<Rightarrow>
   (link_delay_interval_setting_data \<times> unit ctl) option" where
  "link_delay_interval_setting_SignalingMsg1 e sm r =
     link_delay_interval_setting_sm e
       (sm\<lparr>ldis_rcvdSignalingMsg1 := True, ldis_rcvdSignalingPtr := Some r\<rparr>)"

section \<open>OneStepTxOperSetting\<close>

datatype (plugins only: code) osto_state =
  OSTO_INIT | OSTO_NOT_ENABLED | OSTO_INITIALIZE | OSTO_SET_ONE_STEP_TX_OPER | OSTO_REACTION

record one_step_tx_oper_setting_data = "osto_state md_sm" +
  rcvdSignalingMsg4 :: bool
  osto_rcvdSignalingPtr :: "PTPMsgIntervalRequestTLV option"

definition osto_set :: "bool \<Rightarrow> one_step_tx_oper_setting_data \<Rightarrow> one_step_tx_oper_setting_data" where
  "osto_set v sm =
     sm\<lparr>ppg := (ppg sm)\<lparr>currentOneStepTxOper := v\<rparr>,
        mdeg := (mdeg sm)\<lparr>oneStepTxOper := v \<and> oneStepTransmit (mdeg sm)\<rparr>\<rparr>"

definition osto_allstate_condition :: "one_step_tx_oper_setting_data \<Rightarrow> osto_state" where
  "osto_allstate_condition sm =
     (if BEGIN (ptasg sm) \<or> \<not> instanceEnable (ptasg sm) \<or> \<not> PORT_OPER sm \<or>
         \<not> PTP_PORT_ENABLED sm \<or> useMgtSettableOneStepTxOper (ppg sm)
      then OSTO_NOT_ENABLED else state sm)"

definition osto_not_enabled_proc :: "one_step_tx_oper_setting_data \<Rightarrow> one_step_tx_oper_setting_data" where
  "osto_not_enabled_proc sm =
     (if useMgtSettableOneStepTxOper (ppg sm) then osto_set (mgtSettableOneStepTxOper (ppg sm)) sm
      else sm)"

definition osto_not_enabled_condition :: "one_step_tx_oper_setting_data \<Rightarrow> osto_state" where
  "osto_not_enabled_condition sm =
     (if PORT_OPER sm \<and> PTP_PORT_ENABLED sm \<and> \<not> useMgtSettableOneStepTxOper (ppg sm)
      then OSTO_INITIALIZE else OSTO_NOT_ENABLED)"

definition osto_initialize_proc :: "one_step_tx_oper_setting_data \<Rightarrow> one_step_tx_oper_setting_data" where
  "osto_initialize_proc sm = osto_set (initialOneStepTxOper (ppg sm)) sm"

definition osto_initialize_condition :: "one_step_tx_oper_setting_data \<Rightarrow> osto_state" where
  "osto_initialize_condition sm =
     (if rcvdSignalingMsg4 sm then OSTO_SET_ONE_STEP_TX_OPER else OSTO_INITIALIZE)"

definition set_one_step_tx_oper_proc ::
  "one_step_tx_oper_setting_data \<Rightarrow> one_step_tx_oper_setting_data option" where
  "set_one_step_tx_oper_proc sm =
     (case osto_rcvdSignalingPtr sm of
        None \<Rightarrow> None
      | Some r \<Rightarrow> Some ((osto_set (GET_FLAG_BIT (ir_flags r) ONE_STEP_RECEIVE_CAPABLE_BIT) sm)
          \<lparr>rcvdSignalingMsg4 := False\<rparr>))"

definition set_one_step_tx_oper_condition ::
  "one_step_tx_oper_setting_data \<Rightarrow> one_step_tx_oper_setting_data" where
  "set_one_step_tx_oper_condition sm =
     (if rcvdSignalingMsg4 sm then sm\<lparr>last_state := OSTO_REACTION\<rparr> else sm)
       \<lparr>state := OSTO_SET_ONE_STEP_TX_OPER\<rparr>"

definition osto_body ::
  "bool \<Rightarrow> one_step_tx_oper_setting_data \<Rightarrow> one_step_tx_oper_setting_data \<times> unit ctl" where
  "osto_body state_change sm =
     (case state sm of
        OSTO_INIT \<Rightarrow> (sm\<lparr>state := OSTO_NOT_ENABLED\<rparr>, Next)
      | OSTO_NOT_ENABLED \<Rightarrow>
          let sm1 = (if state_change then osto_not_enabled_proc sm else sm)
          in (sm1\<lparr>state := osto_not_enabled_condition sm1\<rparr>, Next)
      | OSTO_INITIALIZE \<Rightarrow>
          let sm1 = (if state_change then osto_initialize_proc sm else sm)
          in (sm1\<lparr>state := osto_initialize_condition sm1\<rparr>, Next)
      | OSTO_SET_ONE_STEP_TX_OPER \<Rightarrow>
          (case (if state_change then set_one_step_tx_oper_proc sm else Some sm) of
             None \<Rightarrow> (sm, Crash)
           | Some sm1 \<Rightarrow> (set_one_step_tx_oper_condition sm1, Next))
      | OSTO_REACTION \<Rightarrow> (sm, Next))"

definition one_step_tx_oper_setting_sm ::
  "one_step_tx_oper_setting_data \<Rightarrow> (one_step_tx_oper_setting_data \<times> unit ctl) option" where
  "one_step_tx_oper_setting_sm sm = sm_loop osto_body (sm\<lparr>state := osto_allstate_condition sm\<rparr>)"

definition one_step_tx_oper_setting_sm_init ::
  "PerTimeAwareSystemGlobal \<Rightarrow> PerPortGlobal \<Rightarrow> MDEntityGlobal \<Rightarrow> one_step_tx_oper_setting_data" where
  "one_step_tx_oper_setting_sm_init pt pp md =
     \<lparr>state = OSTO_INIT, last_state = OSTO_INIT, ptasg = pt, ppg = pp, mdeg = md,
      rcvdSignalingMsg4 = False, osto_rcvdSignalingPtr = None\<rparr>"

definition one_step_tx_oper_setting_SignalingMsg4 ::
  "one_step_tx_oper_setting_data \<Rightarrow> PTPMsgIntervalRequestTLV \<Rightarrow>
   (one_step_tx_oper_setting_data \<times> unit ctl) option" where
  "one_step_tx_oper_setting_SignalingMsg4 sm r =
     one_step_tx_oper_setting_sm (sm\<lparr>rcvdSignalingMsg4 := True, osto_rcvdSignalingPtr := Some r\<rparr>)"

section \<open>Requests are served in order\<close>

definition port_open :: "PerTimeAwareSystemGlobal \<Rightarrow> PerPortGlobal \<Rightarrow> bool" where
  "port_open pt pp \<longleftrightarrow> tas_running pt \<and> portOper (forAllDomain pp) \<and> ptpPortEnabled pp"

definition sis_ready :: "sync_interval_setting_data \<Rightarrow> bool" where
  "sis_ready sm \<longleftrightarrow> port_open (ptasg sm) (ppg sm) \<and> \<not> useMgtSettableLogSyncInterval (ppg sm) \<and>
     last_state sm = state sm \<and> (state sm = SIS_INITIALIZE \<or> state sm = SIS_SET_INTERVAL)"

text \<open>The values the machine is responsible for, with the initial one that a request may name.\<close>

definition sis_view :: "sync_interval_setting_data \<Rightarrow> u8 \<times> u8 \<times> u64" where
  "sis_view sm = (initialLogSyncInterval (ppg sm), currentLogSyncInterval (ppg sm), nsec (syncInterval (ppg sm)))"

definition sis_apply :: "env \<Rightarrow> PTPMsgIntervalRequestTLV \<Rightarrow> u8 \<times> u8 \<times> u64 \<Rightarrow> u8 \<times> u8 \<times> u64" where
  "sis_apply e r v = (fst v, set_log_interval e (fst v) (timeSyncInterval r) (snd v))"

text \<open>A machine whose last pass has set the interval.\<close>

lemma sis_serves_pending:
  assumes "state s = SIS_SET_INTERVAL" "last_state s \<noteq> SIS_SET_INTERVAL"
    and "sis_rcvdSignalingPtr s = Some r"
    and "port_open (ptasg s) (ppg s)" "\<not> useMgtSettableLogSyncInterval (ppg s)"
  shows "\<exists>t. sm_loop (sis_body e) s = Some (t, Next) \<and> sis_ready t \<and> sis_view t = sis_apply e r (sis_view s)"
proof -
  obtain u where u: "sis_set_interval_proc e (s\<lparr>last_state := SIS_SET_INTERVAL\<rparr>) = Some u"
    using assms(3) by (simp add: sis_set_interval_proc_def case_prod_beta Let_def)
  then have "sm_step (sis_body e) s = (u\<lparr>state := SIS_SET_INTERVAL\<rparr>, Next)"
    using assms(1-3)
    by (auto simp: sm_step_def sis_body_def sis_set_interval_condition_def sis_set_interval_proc_def
        case_prod_beta Let_def)
  then have "sm_loop (sis_body e) s = Some (u\<lparr>state := SIS_SET_INTERVAL\<rparr>, Next)"
    by (rule sm_loop_rest) (use u assms(3) in \<open>auto simp: sis_set_interval_proc_def case_prod_beta Let_def\<close>)
  with u assms show ?thesis
    by (auto simp: sis_set_interval_proc_def case_prod_beta Let_def sis_ready_def sis_view_def
        sis_apply_def port_open_def)
qed

lemma sis_serves:
  assumes "sis_ready s"
  shows "\<exists>t. sync_interval_setting_SignalingMsg1 e s r = Some (t, Next) \<and> sis_ready t \<and>
    sis_view t = sis_apply e r (sis_view s)"
proof -
  let ?s = "s\<lparr>sis_rcvdSignalingMsg1 := True, sis_rcvdSignalingPtr := Some r\<rparr>"
  have s: "port_open (ptasg s) (ppg s)" "\<not> useMgtSettableLogSyncInterval (ppg s)"
    using assms by (simp_all add: sis_ready_def)
  have run: "sync_interval_setting_SignalingMsg1 e s r = sm_loop (sis_body e) ?s"
    using s by (simp add: sync_interval_setting_SignalingMsg1_def sync_interval_setting_sm_def
        sis_allstate_condition_def port_open_def tas_running_def)
  have "\<exists>u. sm_step (sis_body e) ?s = (u, Next) \<and> state u = SIS_SET_INTERVAL \<and>
      last_state u \<noteq> SIS_SET_INTERVAL \<and> sis_rcvdSignalingPtr u = Some r \<and> ptasg u = ptasg s \<and> ppg u = ppg s"
    using assms by (auto simp: sis_ready_def sm_step_def sis_body_def sis_initialize_condition_def
        sis_set_interval_condition_def)
  then obtain u where u: "sm_step (sis_body e) ?s = (u, Next)" "state u = SIS_SET_INTERVAL"
      "last_state u \<noteq> SIS_SET_INTERVAL" "sis_rcvdSignalingPtr u = Some r" "ptasg u = ptasg s" "ppg u = ppg s"
    by blast
  have "sm_loop (sis_body e) ?s = sm_loop (sis_body e) u"
    using u by (intro sm_loop_again) simp_all
  moreover have "sis_view u = sis_view s" by (simp add: sis_view_def u)
  ultimately show ?thesis using sis_serves_pending [of u r e] u s run by simp
qed

interpretation sis: request_server "sync_interval_setting_SignalingMsg1 e" sis_ready sis_view "sis_apply e" for e
  by unfold_locales (rule sis_serves)

subsection \<open>LinkDelayIntervalSetting\<close>

definition ldis_ready :: "link_delay_interval_setting_data \<Rightarrow> bool" where
  "ldis_ready sm \<longleftrightarrow> \<not> BEGIN (ptasg sm) \<and> portEnabled3 sm \<and> PORT_OPER sm \<and> \<not> ldis_use_mgt sm \<and>
     last_state sm = state sm \<and> (state sm = LDIS_INITIALIZE \<or> state sm = LDIS_SET_INTERVAL)"

definition ldis_view :: "link_delay_interval_setting_data \<Rightarrow> (u8 \<times> u8 \<times> u64) \<times> bool \<times> bool" where
  "ldis_view sm =
     (let f = md_forAllDomain (mdeg sm); g = forAllDomain (ppg sm)
      in ((initialLogPdelayReqInterval f, currentLogPdelayReqInterval f, nsec (pdelayReqInterval f)),
          computeNeighborRateRatio g, computeNeighborPropDelay g))"

definition ldis_apply ::
  "env \<Rightarrow> PTPMsgIntervalRequestTLV \<Rightarrow> (u8 \<times> u8 \<times> u64) \<times> bool \<times> bool \<Rightarrow> (u8 \<times> u8 \<times> u64) \<times> bool \<times> bool" where
  "ldis_apply e r v =
     ((fst (fst v), set_log_interval e (fst (fst v)) (linkDelayInterval r) (snd (fst v))),
      GET_FLAG_BIT (ir_flags r) COMPUTE_NEIGHBOR_RATE_RATIO_BIT,
      GET_FLAG_BIT (ir_flags r) COMPUTE_NEIGHBOR_PROP_DELAY_BIT)"

lemmas ldis_set_defs = ldis_set_interval_proc_def ldis_set_def ldis_compute_def Let_def

lemma ldis_serves_pending:
  assumes "state s = LDIS_SET_INTERVAL" "last_state s \<noteq> LDIS_SET_INTERVAL"
    and "ldis_rcvdSignalingPtr s = Some r"
    and "\<not> BEGIN (ptasg s)" "portEnabled3 s" "PORT_OPER s" "\<not> ldis_use_mgt s"
  shows "\<exists>t. sm_loop (ldis_body e) s = Some (t, Next) \<and> ldis_ready t \<and> ldis_view t = ldis_apply e r (ldis_view s)"
proof -
  obtain u where u: "ldis_set_interval_proc e (s\<lparr>last_state := LDIS_SET_INTERVAL\<rparr>) = Some u"
    using assms(3) by (simp add: ldis_set_defs)
  then have "sm_step (ldis_body e) s = (u\<lparr>state := LDIS_SET_INTERVAL\<rparr>, Next)"
    using assms(1-3)
    by (auto simp: sm_step_def ldis_body_def ldis_set_interval_condition_def ldis_set_defs)
  then have "sm_loop (ldis_body e) s = Some (u\<lparr>state := LDIS_SET_INTERVAL\<rparr>, Next)"
    by (rule sm_loop_rest) (use u assms(3) in \<open>auto simp: ldis_set_defs\<close>)
  with u assms show ?thesis
    by (auto simp: ldis_set_defs ldis_ready_def ldis_view_def ldis_apply_def)
qed

lemma ldis_serves:
  assumes "ldis_ready s"
  shows "\<exists>t. link_delay_interval_setting_SignalingMsg1 e s r = Some (t, Next) \<and> ldis_ready t \<and>
    ldis_view t = ldis_apply e r (ldis_view s)"
proof -
  let ?s = "s\<lparr>ldis_rcvdSignalingMsg1 := True, ldis_rcvdSignalingPtr := Some r\<rparr>"
  have s: "\<not> BEGIN (ptasg s)" "portEnabled3 s" "PORT_OPER s" "\<not> ldis_use_mgt s"
    using assms by (simp_all add: ldis_ready_def)
  have run: "link_delay_interval_setting_SignalingMsg1 e s r = sm_loop (ldis_body e) ?s"
    using s by (simp add: link_delay_interval_setting_SignalingMsg1_def
        link_delay_interval_setting_sm_def ldis_allstate_condition_def)
  have "\<exists>u. sm_step (ldis_body e) ?s = (u, Next) \<and> state u = LDIS_SET_INTERVAL \<and>
      last_state u \<noteq> LDIS_SET_INTERVAL \<and> ldis_rcvdSignalingPtr u = Some r \<and> portEnabled3 u \<and>
      ptasg u = ptasg s \<and> ppg u = ppg s \<and> mdeg u = mdeg s"
    using assms by (auto simp: ldis_ready_def sm_step_def ldis_body_def ldis_initialize_condition_def
        ldis_set_interval_condition_def)
  then obtain u where u: "sm_step (ldis_body e) ?s = (u, Next)" "state u = LDIS_SET_INTERVAL"
      "last_state u \<noteq> LDIS_SET_INTERVAL" "ldis_rcvdSignalingPtr u = Some r" "portEnabled3 u"
      "ptasg u = ptasg s" "ppg u = ppg s" "mdeg u = mdeg s"
    by blast
  have "sm_loop (ldis_body e) ?s = sm_loop (ldis_body e) u"
    using u by (intro sm_loop_again) simp_all
  moreover have "ldis_view u = ldis_view s" by (simp add: ldis_view_def u)
  ultimately show ?thesis using ldis_serves_pending [of u r e] u s run by simp
qed

interpretation ldis: request_server "link_delay_interval_setting_SignalingMsg1 e" ldis_ready ldis_view
  "ldis_apply e" for e
  by unfold_locales (rule ldis_serves)

subsection \<open>OneStepTxOperSetting\<close>

definition osto_ready :: "one_step_tx_oper_setting_data \<Rightarrow> bool" where
  "osto_ready sm \<longleftrightarrow> port_open (ptasg sm) (ppg sm) \<and> \<not> useMgtSettableOneStepTxOper (ppg sm) \<and>
     last_state sm = state sm \<and> (state sm = OSTO_INITIALIZE \<or> state sm = OSTO_SET_ONE_STEP_TX_OPER)"

definition osto_view :: "one_step_tx_oper_setting_data \<Rightarrow> bool \<times> bool \<times> bool" where
  "osto_view sm = (oneStepTransmit (mdeg sm), currentOneStepTxOper (ppg sm), oneStepTxOper (mdeg sm))"

definition osto_apply :: "PTPMsgIntervalRequestTLV \<Rightarrow> bool \<times> bool \<times> bool \<Rightarrow> bool \<times> bool \<times> bool" where
  "osto_apply r v =
     (let c = GET_FLAG_BIT (ir_flags r) ONE_STEP_RECEIVE_CAPABLE_BIT in (fst v, c, c \<and> fst v))"

lemma osto_serves_pending:
  assumes "state s = OSTO_SET_ONE_STEP_TX_OPER" "last_state s \<noteq> OSTO_SET_ONE_STEP_TX_OPER"
    and "osto_rcvdSignalingPtr s = Some r"
    and "port_open (ptasg s) (ppg s)" "\<not> useMgtSettableOneStepTxOper (ppg s)"
  shows "\<exists>t. sm_loop osto_body s = Some (t, Next) \<and> osto_ready t \<and> osto_view t = osto_apply r (osto_view s)"
proof -
  obtain u where u: "set_one_step_tx_oper_proc (s\<lparr>last_state := OSTO_SET_ONE_STEP_TX_OPER\<rparr>) = Some u"
    using assms(3) by (simp add: set_one_step_tx_oper_proc_def)
  then have "sm_step osto_body s = (u\<lparr>state := OSTO_SET_ONE_STEP_TX_OPER\<rparr>, Next)"
    using assms(1-3)
    by (auto simp: sm_step_def osto_body_def set_one_step_tx_oper_condition_def
        set_one_step_tx_oper_proc_def osto_set_def)
  then have "sm_loop osto_body s = Some (u\<lparr>state := OSTO_SET_ONE_STEP_TX_OPER\<rparr>, Next)"
    by (rule sm_loop_rest) (use u assms(3) in \<open>auto simp: set_one_step_tx_oper_proc_def osto_set_def\<close>)
  with u assms show ?thesis
    by (auto simp: set_one_step_tx_oper_proc_def osto_set_def osto_ready_def osto_view_def
        osto_apply_def port_open_def Let_def)
qed

lemma osto_serves:
  assumes "osto_ready s"
  shows "\<exists>t. one_step_tx_oper_setting_SignalingMsg4 s r = Some (t, Next) \<and> osto_ready t \<and>
    osto_view t = osto_apply r (osto_view s)"
proof -
  let ?s = "s\<lparr>rcvdSignalingMsg4 := True, osto_rcvdSignalingPtr := Some r\<rparr>"
  have s: "port_open (ptasg s) (ppg s)" "\<not> useMgtSettableOneStepTxOper (ppg s)"
    using assms by (simp_all add: osto_ready_def)
  have run: "one_step_tx_oper_setting_SignalingMsg4 s r = sm_loop osto_body ?s"
    using s by (simp add: one_step_tx_oper_setting_SignalingMsg4_def one_step_tx_oper_setting_sm_def
        osto_allstate_condition_def port_open_def tas_running_def)
  have "\<exists>u. sm_step osto_body ?s = (u, Next) \<and> state u = OSTO_SET_ONE_STEP_TX_OPER \<and>
      last_state u \<noteq> OSTO_SET_ONE_STEP_TX_OPER \<and> osto_rcvdSignalingPtr u = Some r \<and>
      ptasg u = ptasg s \<and> ppg u = ppg s \<and> mdeg u = mdeg s"
    using assms by (auto simp: osto_ready_def sm_step_def osto_body_def osto_initialize_condition_def
        set_one_step_tx_oper_condition_def)
  then obtain u where u: "sm_step osto_body ?s = (u, Next)" "state u = OSTO_SET_ONE_STEP_TX_OPER"
      "last_state u \<noteq> OSTO_SET_ONE_STEP_TX_OPER" "osto_rcvdSignalingPtr u = Some r"
      "ptasg u = ptasg s" "ppg u = ppg s" "mdeg u = mdeg s"
    by blast
  have "sm_loop osto_body ?s = sm_loop osto_body u"
    using u by (intro sm_loop_again) simp_all
  moreover have "osto_view u = osto_view s" by (simp add: osto_view_def u)
  ultimately show ?thesis using osto_serves_pending [of u r] u s run by simp
qed

interpretation osto: request_server one_step_tx_oper_setting_SignalingMsg4 osto_ready osto_view osto_apply
  by unfold_locales (rule osto_serves)

subsection \<open>AnnounceIntervalSetting\<close>

definition ais_open :: "announce_interval_setting_data \<Rightarrow> bool" where
  "ais_open sm \<longleftrightarrow> port_open (ptasg sm) (ppg sm) \<and> \<not> ais_use_mgt sm"

definition ais_view :: "announce_interval_setting_data \<Rightarrow> u8 \<times> u8 \<times> u64" where
  "ais_view sm = (initialLogAnnounceInterval (ais_bppg sm), currentLogAnnounceInterval (ais_bppg sm),
     nsec (announceInterval (ais_bppg sm)))"

definition ais_apply :: "env \<Rightarrow> PTPMsgIntervalRequestTLV \<Rightarrow> u8 \<times> u8 \<times> u64 \<Rightarrow> u8 \<times> u8 \<times> u64" where
  "ais_apply e r v = (fst v, set_log_interval e (fst v) (announceInterval_m r) (snd v))"

lemma ais_run:
  assumes "ais_open s"
  shows "announce_interval_setting_sm_SignalingMsg2 e s r =
    sm_loop (ais_body e) (s\<lparr>ais_rcvdSignalingPtr := Some r, rcvdSignalingMsg2 := True\<rparr>)"
  using assms by (simp add: announce_interval_setting_sm_SignalingMsg2_def
      announce_interval_setting_sm_def ais_allstate_condition_def ais_open_def port_open_def tas_running_def)

text \<open>Having served a request the machine can only rest in REACTION, which serves none.\<close>

definition ais_stuck :: "announce_interval_setting_data \<Rightarrow> bool" where
  "ais_stuck sm \<longleftrightarrow> ais_open sm \<and> last_state sm = state sm \<and>
     (state sm = AIS_SET_INTERVALS \<or> state sm = AIS_REACTION)"

lemma ais_stays_stuck:
  assumes "ais_stuck s"
  shows "\<exists>t. announce_interval_setting_sm_SignalingMsg2 e s r = Some (t, Next) \<and> ais_stuck t \<and>
    ais_view t = ais_view s"
proof -
  let ?s = "s\<lparr>ais_rcvdSignalingPtr := Some r, rcvdSignalingMsg2 := True\<rparr>"
  let ?t = "?s\<lparr>last_state := AIS_REACTION, state := AIS_REACTION\<rparr>"
  have op: "ais_open s" using assms by (simp add: ais_stuck_def)
  have rest: "sm_loop (ais_body e) u = Some (u\<lparr>last_state := AIS_REACTION\<rparr>, Next)" if "state u = AIS_REACTION" for u
    by (rule sm_loop_rest) (use that in \<open>simp_all add: sm_step_def ais_body_def\<close>)
  have "sm_loop (ais_body e) ?s = Some (?t, Next)"
  proof (cases "state s = AIS_REACTION")
    case True
    have "?s\<lparr>last_state := AIS_REACTION\<rparr> = ?t" using True by simp
    with rest [of ?s] True show ?thesis by simp
  next
    case False
    let ?u = "?s\<lparr>state := AIS_REACTION\<rparr>"
    have "sm_step (ais_body e) ?s = (?u, Next)"
      using False assms by (simp add: ais_stuck_def sm_step_def ais_body_def ais_set_intervals_condition_def)
    then have "sm_loop (ais_body e) ?s = sm_loop (ais_body e) ?u"
      by (rule sm_loop_again) (use False assms in \<open>simp add: ais_stuck_def\<close>)
    with rest [of ?u] show ?thesis by simp
  qed
  moreover have "ais_stuck ?t" "ais_view ?t = ais_view s"
    using op by (simp_all add: ais_stuck_def ais_open_def ais_view_def)
  ultimately show ?thesis by (simp add: ais_run [OF op])
qed

interpretation ais: request_server "announce_interval_setting_sm_SignalingMsg2 e" ais_stuck ais_view
  "\<lambda>r v. v" for e
  by unfold_locales (rule ais_stays_stuck)

section \<open>Properties\<close>

text \<open>On an open port whose sync interval is not set by the management, every sequence of
  requests is served in order: the current logarithm and the interval in nanoseconds
  are the ones of the last request that names a value (126 naming the initial value
  and -128 no value), and the machine stays ready.\<close>

theorem sync_interval_requests_in_order:
  assumes "sis_ready sm"
  shows "\<exists>t. deliver_all (sync_interval_setting_SignalingMsg1 e) sm rs = Some t \<and> sis_ready t \<and>
    sis_view t = fold (sis_apply e) rs (sis_view sm)"
  by (rule sis.serve_all [OF assms])

text \<open>The requests for the interval of the peer delay measurement and for the two computations
  are served in order as well, once the machine has been enabled.\<close>

theorem link_delay_requests_in_order:
  assumes "ldis_ready sm"
  shows "\<exists>t. deliver_all (link_delay_interval_setting_SignalingMsg1 e) sm rs = Some t \<and> ldis_ready t \<and>
    ldis_view t = fold (ldis_apply e) rs (ldis_view sm)"
  by (rule ldis.serve_all [OF assms])

text \<open>Requests for one-step operation are served in order: a port transmits in one step
  exactly if the last request says that the peer can receive so and the port is able to.\<close>

theorem one_step_requests_in_order:
  assumes "osto_ready sm" "rs \<noteq> []"
  shows "\<exists>t. deliver_all one_step_tx_oper_setting_SignalingMsg4 sm rs = Some t \<and> osto_ready t \<and>
    oneStepTxOper (mdeg t) =
      (GET_FLAG_BIT (ir_flags (last rs)) ONE_STEP_RECEIVE_CAPABLE_BIT \<and> oneStepTransmit (mdeg sm))"
proof -
  obtain t where t: "deliver_all one_step_tx_oper_setting_SignalingMsg4 sm rs = Some t" "osto_ready t"
      "osto_view t = fold osto_apply rs (osto_view sm)"
    using osto.serve_all [OF assms(1)] by blast
  have "fst (fold osto_apply us v) = fst v" for us v
    by (induction us arbitrary: v) (simp_all add: osto_apply_def Let_def)
  then have "fold osto_apply rs v = osto_apply (last rs) (fst v, w)" for v w
    using assms(2) by (cases rs rule: rev_exhaust) (auto simp: osto_apply_def Let_def)
  with t show ?thesis by (auto simp: osto_view_def osto_apply_def Let_def)
qed

text \<open>The first request for an announce interval after the machine was initialised is applied;
  the port is then to slow down exactly if the new interval is below the one before.\<close>

theorem announce_interval_first_request_applied:
  assumes "ais_open sm" "state sm = AIS_INITIALIZE" "last_state sm = AIS_INITIALIZE"
  shows "\<exists>t. announce_interval_setting_sm_SignalingMsg2 e sm r = Some (t, Next) \<and> ais_stuck t \<and>
    ais_view t = ais_apply e r (ais_view sm) \<and>
    announceSlowdown (ais_bppg t) =
      (nsec (announceInterval (ais_bppg t)) < nsec (oldAnnounceInterval (ais_bppg sm)))"
proof -
  let ?u = "sm\<lparr>ais_rcvdSignalingPtr := Some r, rcvdSignalingMsg2 := True, state := AIS_SET_INTERVALS\<rparr>"
  obtain v where v: "ais_set_intervals_proc e (?u\<lparr>last_state := AIS_SET_INTERVALS\<rparr>) = Some v"
    by (simp add: ais_set_intervals_proc_def case_prod_beta Let_def)
  note d = v [unfolded ais_set_intervals_proc_def case_prod_beta Let_def, simplified, symmetric]
  have "sm_step (ais_body e) (sm\<lparr>ais_rcvdSignalingPtr := Some r, rcvdSignalingMsg2 := True\<rparr>) = (?u, Next)"
    using assms by (simp add: sm_step_def ais_body_def ais_initialize_condition_def)
  then have "announce_interval_setting_sm_SignalingMsg2 e sm r = sm_loop (ais_body e) ?u"
    unfolding ais_run [OF assms(1)] by (rule sm_loop_again) (simp add: assms)
  also have "sm_step (ais_body e) ?u = (v, Next)"
    using v assms by (simp add: sm_step_def ais_body_def)
      (simp add: d ais_set_intervals_condition_def)
  then have "sm_loop (ais_body e) ?u = Some (v, Next)"
    by (rule sm_loop_rest) (simp add: d)
  finally show ?thesis
    using assms(1)
    by (auto simp: d ais_stuck_def ais_open_def ais_view_def ais_apply_def)
qed

text \<open>Every later request for an announce interval is lost: from the state in which the first
  request left it, the machine goes to REACTION, where it stays, and the interval keeps
  its value whatever is requested.\<close>

theorem announce_interval_later_requests_lost:
  assumes "ais_stuck sm"
  shows "\<exists>t. deliver_all (announce_interval_setting_sm_SignalingMsg2 e) sm rs = Some t \<and> ais_stuck t \<and>
    ais_view t = ais_view sm"
  using ais.serve_all [OF assms, of e rs] by (simp add: fold_invariant [where P = "\<lambda>v. v = ais_view sm"])

text \<open>The machine for the interval of the peer delay measurement is never enabled: nothing sets
  \<^verbatim>\<open>portEnabled3\<close>, and without it every request leaves the machine in NOT_ENABLED and
  all the values it is responsible for as they were (unless the management sets the
  interval).\<close>

theorem link_delay_requests_ignored:
  assumes "\<not> portEnabled3 sm" "\<not> ldis_use_mgt sm"
  shows "\<exists>t. link_delay_interval_setting_SignalingMsg1 e sm r = Some (t, Next) \<and>
    state t = LDIS_NOT_ENABLED \<and> \<not> portEnabled3 t \<and> ldis_view t = ldis_view sm"
proof -
  let ?s = "sm\<lparr>ldis_rcvdSignalingMsg1 := True, ldis_rcvdSignalingPtr := Some r, state := LDIS_NOT_ENABLED\<rparr>"
  let ?t = "?s\<lparr>last_state := LDIS_NOT_ENABLED\<rparr>"
  have "sm_step (ldis_body e) ?s = (?t, Next)"
    using assms by (simp add: sm_step_def ldis_body_def ldis_not_enabled_proc_def
        ldis_not_enabled_condition_def Let_def)
  then have "sm_loop (ldis_body e) ?s = Some (?t, Next)" by (rule sm_loop_rest) simp
  then show ?thesis
    using assms by (simp add: link_delay_interval_setting_SignalingMsg1_def
        link_delay_interval_setting_sm_def ldis_allstate_condition_def ldis_view_def)
qed

text \<open>When the management sets the sync interval, the next run of the machine takes it over
  and waits in NOT_ENABLED, where requests of a peer have no effect.\<close>

theorem sync_interval_managed:
  assumes "useMgtSettableLogSyncInterval (ppg sm)" "last_state sm \<noteq> SIS_NOT_ENABLED"
  shows "\<exists>t. sync_interval_setting_sm e sm = Some (t, Next) \<and> state t = SIS_NOT_ENABLED \<and>
    currentLogSyncInterval (ppg t) = mgtSettableLogSyncInterval (ppg sm) \<and>
    nsec (syncInterval (ppg t)) = LOG_TO_NSEC e (sint (mgtSettableLogSyncInterval (ppg sm))) \<and>
    (\<forall>r. \<exists>u. sync_interval_setting_SignalingMsg1 e t r = Some (u, Next) \<and> sis_view u = sis_view t)"
proof -
  let ?s = "sm\<lparr>state := SIS_NOT_ENABLED\<rparr>"
  let ?t = "sis_not_enabled_proc e (?s\<lparr>last_state := SIS_NOT_ENABLED\<rparr>)"
  have rest: "sm_loop (sis_body e) u = Some (u, Next)"
    if "state u = SIS_NOT_ENABLED" "last_state u = SIS_NOT_ENABLED" "useMgtSettableLogSyncInterval (ppg u)" for u
    by (rule sm_loop_rest) (use that in \<open>simp_all add: sm_step_def sis_body_def sis_not_enabled_condition_def\<close>)
  have "sm_step (sis_body e) ?s = (?t, Next)"
    using assms by (simp add: sm_step_def sis_body_def sis_not_enabled_proc_def
        sis_not_enabled_condition_def Let_def)
  then have "sm_loop (sis_body e) ?s = Some (?t, Next)"
    by (rule sm_loop_rest) (use assms in \<open>simp add: sis_not_enabled_proc_def Let_def\<close>)
  moreover have "\<exists>u. sync_interval_setting_SignalingMsg1 e ?t r = Some (u, Next) \<and> sis_view u = sis_view ?t" for r
    using assms rest [of "?t\<lparr>sis_rcvdSignalingMsg1 := True, sis_rcvdSignalingPtr := Some r, state := SIS_NOT_ENABLED\<rparr>"]
    by (simp add: sync_interval_setting_SignalingMsg1_def sync_interval_setting_sm_def
        sis_allstate_condition_def sis_not_enabled_proc_def Let_def sis_view_def)
  ultimately show ?thesis
    using assms
    by (simp add: sync_interval_setting_sm_def sis_allstate_condition_def)
      (simp add: sis_not_enabled_proc_def Let_def)
qed

section \<open>Instances\<close>

definition sample_request :: PTPMsgIntervalRequestTLV where
  "sample_request = \<lparr>ir_tlvType = 3, ir_lengthField = 12, ir_organizationId = [0, 0x80, 0xC2],
     ir_organizationSubType = 2, linkDelayInterval = 1, timeSyncInterval = - 4, announceInterval_m = - 6,
     ir_flags = 7\<rparr>"

definition sample_mdeg :: MDEntityGlobal where
  "sample_mdeg = (md_entity_glb_init default_env 1 None)\<lparr>oneStepTransmit := True\<rparr>"

definition sample_sis :: sync_interval_setting_data where
  "sample_sis = \<lparr>state = SIS_INITIALIZE, last_state = SIS_INITIALIZE, ptasg = sample_ptasg,
     ppg = sample_ppg, sis_rcvdSignalingMsg1 = False, sis_rcvdSignalingPtr = None\<rparr>"

definition sample_ldis :: link_delay_interval_setting_data where
  "sample_ldis = \<lparr>state = LDIS_INITIALIZE, last_state = LDIS_INITIALIZE, ptasg = sample_ptasg,
     ppg = sample_ppg, mdeg = sample_mdeg, ldis_rcvdSignalingMsg1 = False, ldis_rcvdSignalingPtr = None,
     portEnabled3 = True\<rparr>"

definition sample_osto :: one_step_tx_oper_setting_data where
  "sample_osto = \<lparr>state = OSTO_INITIALIZE, last_state = OSTO_INITIALIZE, ptasg = sample_ptasg,
     ppg = sample_ppg, mdeg = sample_mdeg, rcvdSignalingMsg4 = False, osto_rcvdSignalingPtr = None\<rparr>"

definition sample_ais :: announce_interval_setting_data where
  "sample_ais = \<lparr>state = AIS_INITIALIZE, last_state = AIS_INITIALIZE, ptasg = sample_ptasg,
     ppg = sample_ppg, ais_bppg = zero_BmcsPerPortGlobal, rcvdSignalingMsg2 = False,
     ais_rcvdSignalingPtr = None\<rparr>"

lemmas sample_setting_simps = port_open_def tas_running_def sample_ptasg_def sample_ppg_def
  zero_PerTimeAwareSystemGlobal_def zero_PerPortGlobal_def zero_PerPortGlobalForAllDomain_def
  zero_BmcsPerPortGlobal_def zero_UScaledNs_def

theorem sync_interval_requests_in_order_witness:
  "\<exists>t. deliver_all (sync_interval_setting_SignalingMsg1 default_env) sample_sis
      [sample_request, sample_request\<lparr>timeSyncInterval := - 128\<rparr>] = Some t \<and>
    sis_view t = (0, - 4, 62500000)"
  using sync_interval_requests_in_order [of sample_sis default_env
      "[sample_request, sample_request\<lparr>timeSyncInterval := - 128\<rparr>]"]
  by (auto simp: sis_ready_def sample_sis_def sample_setting_simps sis_view_def sis_apply_def
      set_log_interval_def sample_request_def LOG_TO_NSEC_def UB_SEC_NS_def)

theorem link_delay_requests_in_order_witness:
  "\<exists>t. deliver_all (link_delay_interval_setting_SignalingMsg1 default_env) sample_ldis [sample_request] = Some t \<and>
    computeNeighborRateRatio (forAllDomain (ppg t)) \<and>
    nsec (pdelayReqInterval (md_forAllDomain (mdeg t))) = 2000000000"
  using link_delay_requests_in_order [of sample_ldis default_env "[sample_request]"]
  by (auto simp: ldis_ready_def sample_ldis_def sample_setting_simps ldis_view_def ldis_apply_def Let_def
      set_log_interval_def sample_request_def LOG_TO_NSEC_def UB_SEC_NS_def GET_FLAG_BIT_def
      COMPUTE_NEIGHBOR_RATE_RATIO_BIT_def)

theorem one_step_requests_in_order_witness:
  "\<exists>t. deliver_all one_step_tx_oper_setting_SignalingMsg4 sample_osto [sample_request] = Some t \<and>
    oneStepTxOper (mdeg t)"
  using one_step_requests_in_order [of sample_osto "[sample_request]"]
  by (auto simp: osto_ready_def sample_osto_def sample_setting_simps sample_request_def
      GET_FLAG_BIT_def ONE_STEP_RECEIVE_CAPABLE_BIT_def sample_mdeg_def)

theorem announce_interval_first_request_applied_witness:
  "\<exists>t. announce_interval_setting_sm_SignalingMsg2 default_env sample_ais sample_request = Some (t, Next) \<and>
    nsec (announceInterval (ais_bppg t)) = 15625000"
  using announce_interval_first_request_applied [of sample_ais default_env sample_request]
  by (auto simp: ais_open_def sample_ais_def sample_setting_simps ais_view_def ais_apply_def
      set_log_interval_def sample_request_def LOG_TO_NSEC_def UB_SEC_NS_def)

theorem announce_interval_later_requests_lost_witness:
  "\<exists>t. deliver_all (announce_interval_setting_sm_SignalingMsg2 default_env)
      (sample_ais\<lparr>state := AIS_SET_INTERVALS, last_state := AIS_SET_INTERVALS\<rparr>)
      [sample_request] = Some t \<and> nsec (announceInterval (ais_bppg t)) = 0"
  using announce_interval_later_requests_lost [of
      "sample_ais\<lparr>state := AIS_SET_INTERVALS, last_state := AIS_SET_INTERVALS\<rparr>" default_env "[sample_request]"]
  by (auto simp: ais_stuck_def ais_open_def sample_ais_def sample_setting_simps ais_view_def)

theorem link_delay_requests_ignored_witness:
  "\<exists>t. link_delay_interval_setting_SignalingMsg1 default_env
      (link_delay_interval_setting_sm_init sample_ptasg sample_ppg sample_mdeg) sample_request = Some (t, Next) \<and>
    state t = LDIS_NOT_ENABLED"
  using link_delay_requests_ignored [of "link_delay_interval_setting_sm_init sample_ptasg sample_ppg sample_mdeg"]
  by (auto simp: link_delay_interval_setting_sm_init_def sample_setting_simps)

theorem sync_interval_managed_witness:
  "\<exists>t. sync_interval_setting_sm default_env (sample_sis\<lparr>ppg := sample_ppg
      \<lparr>useMgtSettableLogSyncInterval := True, mgtSettableLogSyncInterval := - 5\<rparr>\<rparr>) = Some (t, Next) \<and>
    nsec (syncInterval (ppg t)) = 31250000"
  using sync_interval_managed [of "sample_sis\<lparr>ppg := sample_ppg
      \<lparr>useMgtSettableLogSyncInterval := True, mgtSettableLogSyncInterval := - 5\<rparr>\<rparr>" default_env]
  by (auto simp: sample_sis_def sample_setting_simps LOG_TO_NSEC_def UB_SEC_NS_def)

end
