(* ===== verification/Gptp_AnnounceWire.thy ===== *)
theory Gptp_AnnounceWire
  imports Gptp_MdEth
begin

text \<open>
  Announce messages on the wire: the machines that send
  (\<^verbatim>\<open>md_announce_send_sm.c\<close>) and receive (\<^verbatim>\<open>md_announce_receive_sm.c\<close>) them. A frame
  is the list of its bytes from the PTP header on; the network layer below
  (\<^verbatim>\<open>gptpnet\<close>) is a parameter that says which frames it accepts.
\<close>

section \<open>The packed message\<close>

definition MD_ANNOUNCE_SIZE :: nat where
  "MD_ANNOUNCE_SIZE = 68 + 8 * MAX_PATH_TRACE_N" \<comment> \<open>\<^verbatim>\<open>sizeof(MDPTPMsgAnnounce)\<close>\<close>

text \<open>
  The members of \<^verbatim>\<open>MDPTPMsgAnnounce\<close> after the header and before the path, as
  \<^verbatim>\<open>sendAnnounce\<close> writes them over the cleared buffer.
\<close>

definition announce_fields_image :: "env \<Rightarrow> PTPMsgAnnounce \<Rightarrow> u8 list" where
  "announce_fields_image e a =
     (let be = big_endian e; q = grandmasterClockQuality a
      in replicate 10 0 @ mem_bytes be (hton be (currentUtcOffset_m a)) @ [0] @
         [grandmasterPriority1 a, q_clockClass q, q_clockAccuracy q] @
         mem_bytes be (hton be (q_offsetScaledLogVariance q)) @ [grandmasterPriority2 a] @
         grandmasterIdentity a @ mem_bytes be (hton be (stepsRemoved_m a)) @ [timeSource_m a] @
         mem_bytes be (hton be (tlvType a)) @ mem_bytes be (hton be (tlvLength a)))"

section \<open>Sending\<close>

datatype (plugins only: code) mas_state = MAS_INIT | MAS_INITIALIZE | MAS_SEND_ANNOUNCE | MAS_REACTION

text \<open>
  \<open>gpnetd\<close> says whether the machine has a network, \<open>frames_sent\<close> lists the frames that
  the network has taken.
\<close>

record md_announce_send_data = "mas_state port_sm" +
  mas_bppg :: BmcsPerPortGlobal
  gpnetd :: bool
  rcvdTxAnnounce :: bool
  txAnnouncePtr :: "PTPMsgAnnounce option"
  announce_send :: u32
  frames_sent :: "u8 list list"

definition path_entries :: "PTPMsgAnnounce \<Rightarrow> nat" where
  "path_entries a = unat (tlvLength a) div 8"

text \<open>The frame for a message: \<^verbatim>\<open>ssize\<close> is the length the header states, before the last truncation.\<close>

definition announce_frame :: "env \<Rightarrow> md_announce_send_data \<Rightarrow> PTPMsgAnnounce \<Rightarrow> u8 list" where
  "announce_frame e sm a =
     (let N = path_entries a;
          ssize = MD_ANNOUNCE_SIZE - (MAX_PATH_TRACE_N - N) * 8;
          h = (md_header_compose e ANNOUNCE (of_nat ssize) (thisClock (ptasg sm)) (thisPort (ppg sm))
                 (sequenceId (header a)) (currentLogAnnounceInterval (mas_bppg sm)))
              \<lparr>md_domainNumber := domainNumber (ptasg sm),
               md_flags := [flags (header a) ! 0, flags (header a) ! 1]\<rparr>;
          bytes = header_image (big_endian e) h @ announce_fields_image e a
      in if unat (tlvLength a) > 0 then bytes @ concat (take N (pathSequence a))
         else if conformToAvnu (ptasg sm) then take (ssize - 4) bytes else bytes)"

datatype (plugins only: code) send_result = Sent | NoBuffer | SendFailed | OutOfRange

text \<open>The results are the codes 0, -1 and -2, and an access outside of the path array.\<close>

definition sendAnnounce ::
  "env \<Rightarrow> (u8 list \<Rightarrow> bool) \<Rightarrow> PTPMsgAnnounce \<Rightarrow> md_announce_send_data \<Rightarrow>
   send_result \<times> md_announce_send_data" where
  "sendAnnounce e net a sm =
     (if \<not> gpnetd sm then (NoBuffer, sm)
      else if path_entries a > MAX_PATH_TRACE_N then (OutOfRange, sm)
      else let f = announce_frame e sm a
           in if net f then (Sent, sm\<lparr>announce_send := announce_send sm + 1,
                                      frames_sent := frames_sent sm @ [f]\<rparr>)
              else (SendFailed, sm))"

definition mas_allstate_condition :: "md_announce_send_data \<Rightarrow> md_announce_send_data" where
  "mas_allstate_condition sm =
     (if BEGIN (ptasg sm) \<or> \<not> instanceEnable (ptasg sm) \<or> \<not> PORT_OPER sm \<or>
         \<not> PTP_PORT_ENABLED sm \<or> \<not> AS_CAPABLE sm
      then sm\<lparr>last_state := MAS_REACTION, state := MAS_INITIALIZE\<rparr> else sm)"

definition mas_initialize_condition :: "md_announce_send_data \<Rightarrow> mas_state" where
  "mas_initialize_condition sm = (if rcvdTxAnnounce sm then MAS_SEND_ANNOUNCE else MAS_INITIALIZE)"

definition send_announce_proc ::
  "env \<Rightarrow> (u8 list \<Rightarrow> bool) \<Rightarrow> md_announce_send_data \<Rightarrow> send_result \<times> md_announce_send_data" where
  "send_announce_proc e net sm =
     (case txAnnouncePtr sm of
        None \<Rightarrow> (OutOfRange, sm)
      | Some a \<Rightarrow> sendAnnounce e net a (sm\<lparr>rcvdTxAnnounce := False\<rparr>))"

definition send_announce_condition :: "md_announce_send_data \<Rightarrow> md_announce_send_data" where
  "send_announce_condition sm =
     (if rcvdTxAnnounce sm then sm\<lparr>last_state := MAS_REACTION\<rparr> else sm)\<lparr>state := MAS_SEND_ANNOUNCE\<rparr>"

definition mas_body ::
  "env \<Rightarrow> (u8 list \<Rightarrow> bool) \<Rightarrow> bool \<Rightarrow> md_announce_send_data \<Rightarrow> md_announce_send_data \<times> unit ctl" where
  "mas_body e net state_change sm =
     (case state sm of
        MAS_INIT \<Rightarrow> (sm\<lparr>state := MAS_INITIALIZE\<rparr>, Next)
      | MAS_INITIALIZE \<Rightarrow> (sm\<lparr>state := mas_initialize_condition sm\<rparr>, Next)
      | MAS_SEND_ANNOUNCE \<Rightarrow>
          (if state_change then
             (case send_announce_proc e net sm of (r, sm1) \<Rightarrow>
                (case r of
                   SendFailed \<Rightarrow> (sm1\<lparr>last_state := MAS_REACTION\<rparr>, Return ())
                 | OutOfRange \<Rightarrow> (sm1, Crash)
                 | _ \<Rightarrow> (sm1, Next)))
           else (send_announce_condition sm, Next))
      | MAS_REACTION \<Rightarrow> (sm, Next))"

definition md_announce_send_sm ::
  "env \<Rightarrow> (u8 list \<Rightarrow> bool) \<Rightarrow> md_announce_send_data \<Rightarrow> (md_announce_send_data \<times> unit ctl) option" where
  "md_announce_send_sm e net sm = sm_loop (mas_body e net) (mas_allstate_condition sm)"

definition md_announce_send_sm_init ::
  "bool \<Rightarrow> PerTimeAwareSystemGlobal \<Rightarrow> PerPortGlobal \<Rightarrow> BmcsPerPortGlobal \<Rightarrow> md_announce_send_data" where
  "md_announce_send_sm_init net pt pp bp =
     \<lparr>state = MAS_INIT, last_state = MAS_INIT, ptasg = pt, ppg = pp, mas_bppg = bp, gpnetd = net,
      rcvdTxAnnounce = False, txAnnouncePtr = None, announce_send = 0, frames_sent = []\<rparr>"

definition md_announce_send_sm_mdAnnouncSend ::
  "env \<Rightarrow> (u8 list \<Rightarrow> bool) \<Rightarrow> md_announce_send_data \<Rightarrow> PTPMsgAnnounce \<Rightarrow>
   (md_announce_send_data \<times> unit ctl) option" where
  "md_announce_send_sm_mdAnnouncSend e net sm a =
     md_announce_send_sm e net
       (sm\<lparr>rcvdTxAnnounce := True, txAnnouncePtr := Some a, last_state := MAS_REACTION\<rparr>)"

definition md_announce_send_stat_reset :: "md_announce_send_data \<Rightarrow> md_announce_send_data" where
  "md_announce_send_stat_reset sm = sm\<lparr>announce_send := 0\<rparr>"

definition md_announce_send_get_stat :: "md_announce_send_data \<Rightarrow> u32" where
  "md_announce_send_get_stat sm = announce_send sm"

section \<open>Receiving\<close>

datatype (plugins only: code) mar_state = MAR_INIT | MAR_INITIALIZE | MAR_RECV_ANNOUNCE | MAR_REACTION

record md_announce_receive_data = "mar_state port_sm" +
  rcvdRxAnnounce :: bool
  rxAnnouncePtr :: "u8 list option"
  mar_rcvdAnnounce :: PTPMsgAnnounce
  announce_rec :: u32
  announce_rec_valid :: u32
  mar_cmlds_mode :: int

text \<open>The path array as it is in memory: the identities in a list of bytes.\<close>

definition path_of_bytes :: "u8 list \<Rightarrow> ClockIdentity list" where
  "path_of_bytes bs = map (\<lambda>i. field (8 * i) 8 bs) [0..<MAX_PATH_TRACE_N]"

text \<open>
  \<^verbatim>\<open>recAnnounce\<close> on the bytes of the receive buffer from the PTP header on; the buffer
  may be longer than the message in it. \<open>None\<close> is an access outside of the path array
  or of the buffer; the boolean says whether the message is returned.
\<close>

definition recAnnounce ::
  "env \<Rightarrow> u8 list \<Rightarrow> md_announce_receive_data \<Rightarrow> (bool \<times> md_announce_receive_data) option" where
  "recAnnounce e bs sm =
     (if length bs < 64 then None
      else
      let be = big_endian e; a = mar_rcvdAnnounce sm;
          h = md_decompose_head e (header_overlay be bs);
          a1 = a\<lparr>header := h\<rparr>;
          a2 = a1\<lparr>currentUtcOffset_m := hton be (mem_word be (field 44 2 bs)),
                 grandmasterPriority1 := bs ! 47,
                 grandmasterClockQuality := \<lparr>q_clockClass = bs ! 48, q_clockAccuracy = bs ! 49,
                   q_offsetScaledLogVariance = hton be (mem_word be (field 50 2 bs))\<rparr>,
                 grandmasterPriority2 := bs ! 52,
                 grandmasterIdentity := field 53 8 bs,
                 stepsRemoved_m := hton be (mem_word be (field 61 2 bs)),
                 timeSource_m := bs ! 63\<rparr>;
          len = unat (hton be (mem_word be (field 66 2 bs)) :: u16)
      in if mar_cmlds_mode sm = 0 \<and> majorSdoId h \<noteq> 0x1
         then Some (False, sm\<lparr>mar_rcvdAnnounce := a1\<rparr>)
         else if messageLength h \<le> 64
         then Some (True, sm\<lparr>mar_rcvdAnnounce := a2, announce_rec_valid := announce_rec_valid sm + 1\<rparr>)
         else if length bs < 68 + len \<or> len > 8 * MAX_PATH_TRACE_N then None
         else Some (True, sm\<lparr>mar_rcvdAnnounce := a2
                \<lparr>tlvType := hton be (mem_word be (field 64 2 bs)), tlvLength := of_nat len,
                 pathSequence := path_of_bytes
                   (field 68 len bs @ replicate (8 * MAX_PATH_TRACE_N - len) 0xff)\<rparr>,
                announce_rec_valid := announce_rec_valid sm + 1\<rparr>))"

definition mar_allstate_condition :: "md_announce_receive_data \<Rightarrow> md_announce_receive_data" where
  "mar_allstate_condition sm =
     (if BEGIN (ptasg sm) \<or> \<not> instanceEnable (ptasg sm) \<or> \<not> PORT_OPER sm \<or>
         \<not> PTP_PORT_ENABLED sm \<or> \<not> AS_CAPABLE sm
      then sm\<lparr>last_state := MAR_REACTION, state := MAR_INITIALIZE\<rparr> else sm)"

definition mar_initialize_condition :: "md_announce_receive_data \<Rightarrow> mar_state" where
  "mar_initialize_condition sm = (if rcvdRxAnnounce sm then MAR_RECV_ANNOUNCE else MAR_INITIALIZE)"

definition recv_announce_proc ::
  "env \<Rightarrow> md_announce_receive_data \<Rightarrow> (bool \<times> md_announce_receive_data) option" where
  "recv_announce_proc e sm =
     (case rxAnnouncePtr sm of
        None \<Rightarrow> None
      | Some bs \<Rightarrow> recAnnounce e bs (sm\<lparr>rcvdRxAnnounce := False\<rparr>))"

definition recv_announce_condition :: "md_announce_receive_data \<Rightarrow> md_announce_receive_data" where
  "recv_announce_condition sm =
     (if rcvdRxAnnounce sm then sm\<lparr>last_state := MAR_REACTION\<rparr> else sm)\<lparr>state := MAR_RECV_ANNOUNCE\<rparr>"

definition mar_body ::
  "env \<Rightarrow> bool \<Rightarrow> md_announce_receive_data \<Rightarrow> md_announce_receive_data \<times> PTPMsgAnnounce ctl" where
  "mar_body e state_change sm =
     (case state sm of
        MAR_INIT \<Rightarrow> (sm\<lparr>state := MAR_INITIALIZE\<rparr>, Next)
      | MAR_INITIALIZE \<Rightarrow> (sm\<lparr>state := mar_initialize_condition sm\<rparr>, Next)
      | MAR_RECV_ANNOUNCE \<Rightarrow>
          (if state_change then
             (case recv_announce_proc e sm of
                None \<Rightarrow> (sm, Crash)
              | Some (valid, sm1) \<Rightarrow> (sm1, if valid then Return (mar_rcvdAnnounce sm1) else Next))
           else (recv_announce_condition sm, Next))
      | MAR_REACTION \<Rightarrow> (sm, Next))"

definition md_announce_receive_sm ::
  "env \<Rightarrow> md_announce_receive_data \<Rightarrow> (md_announce_receive_data \<times> PTPMsgAnnounce ctl) option" where
  "md_announce_receive_sm e sm = sm_loop (mar_body e) (mar_allstate_condition sm)"

text \<open>\<^verbatim>\<open>INIT_SM_DATA\<close> clears the structure, the buffer for the message in host form included.\<close>

definition md_announce_receive_sm_init ::
  "env \<Rightarrow> PerTimeAwareSystemGlobal \<Rightarrow> PerPortGlobal \<Rightarrow> md_announce_receive_data" where
  "md_announce_receive_sm_init e pt pp =
     \<lparr>state = MAR_INIT, last_state = MAR_INIT, ptasg = pt, ppg = pp, rcvdRxAnnounce = False,
      rxAnnouncePtr = None, mar_rcvdAnnounce = zero_PTPMsgAnnounce, announce_rec = 0,
      announce_rec_valid = 0, mar_cmlds_mode = conf e CONF_CMLDS_MODE\<rparr>"

definition md_announce_receive_sm_mdAnnounceRec ::
  "env \<Rightarrow> md_announce_receive_data \<Rightarrow> u8 list \<Rightarrow>
   (md_announce_receive_data \<times> PTPMsgAnnounce ctl) option" where
  "md_announce_receive_sm_mdAnnounceRec e sm bs =
     md_announce_receive_sm e
       (sm\<lparr>rcvdRxAnnounce := True, announce_rec := announce_rec sm + 1, rxAnnouncePtr := Some bs,
          last_state := MAR_REACTION\<rparr>)"

definition md_announce_receive_stat_reset :: "md_announce_receive_data \<Rightarrow> md_announce_receive_data" where
  "md_announce_receive_stat_reset sm = sm\<lparr>announce_rec := 0, announce_rec_valid := 0\<rparr>"

definition md_announce_receive_get_stat :: "md_announce_receive_data \<Rightarrow> u32 \<times> u32" where
  "md_announce_receive_get_stat sm = (announce_rec sm, announce_rec_valid sm)"

section \<open>A message over the wire\<close>

text \<open>A message whose arrays have their sizes and whose path consists of whole identities.\<close>

definition announce_ok :: "PTPMsgAnnounce \<Rightarrow> bool" where
  "announce_ok a \<longleftrightarrow> length (flags (header a)) = 2 \<and> clockid_ok (grandmasterIdentity a) \<and>
     length (pathSequence a) = MAX_PATH_TRACE_N \<and> (\<forall>c \<in> set (pathSequence a). clockid_ok c) \<and>
     unat (tlvLength a) = 8 * path_entries a \<and> path_entries a \<le> MAX_PATH_TRACE_N"

text \<open>The header that the sender gives a message, and the path as it arrives.\<close>

definition wire_header :: "env \<Rightarrow> md_announce_send_data \<Rightarrow> PTPMsgAnnounce \<Rightarrow> PTPMsgHeader" where
  "wire_header e sm a =
     (md_header_template e ANNOUNCE (of_nat (68 + 8 * path_entries a))
        \<lparr>clockIdentity = thisClock (ptasg sm), portNumber = thisPort (ppg sm)\<rparr>
        (sequenceId (header a)) (currentLogAnnounceInterval (mas_bppg sm)))
     \<lparr>h_domainNumber := domainNumber (ptasg sm), flags := flags (header a)\<rparr>"

definition received_path :: "PTPMsgAnnounce \<Rightarrow> ClockIdentity list" where
  "received_path a = take (path_entries a) (pathSequence a) @
     replicate (MAX_PATH_TRACE_N - path_entries a) (replicate 8 0xff)"

definition received_announce :: "env \<Rightarrow> md_announce_send_data \<Rightarrow> PTPMsgAnnounce \<Rightarrow> PTPMsgAnnounce" where
  "received_announce e sm a = a\<lparr>header := wire_header e sm a, pathSequence := received_path a\<rparr>"

lemma field_concat:
  "\<forall>c \<in> set cs. length c = 8 \<Longrightarrow> i < length cs \<Longrightarrow> field (8 * i) 8 (concat cs) = cs ! i"
proof (induction cs arbitrary: i)
  case (Cons c cs)
  then show ?case by (cases i) (simp_all add: field_def)
qed simp

lemma path_of_bytes_concat:
  "length cs = MAX_PATH_TRACE_N \<Longrightarrow> \<forall>c \<in> set cs. length c = 8 \<Longrightarrow> path_of_bytes (concat cs) = cs"
  by (auto simp: path_of_bytes_def field_concat intro: nth_equalityI)

lemma length_concat_ids:
  "\<forall>c \<in> set cs. clockid_ok c \<Longrightarrow> length (concat cs) = 8 * length cs"
  by (induction cs) (simp_all add: clockid_ok_def)

lemma concat_replicate_bytes: "concat (replicate n (replicate 8 b)) = replicate (8 * n) b"
  by (induction n) (simp_all flip: replicate_add)

lemma received_path_bytes:
  assumes "announce_ok a"
  shows "concat (take (path_entries a) (pathSequence a)) @
      replicate (8 * MAX_PATH_TRACE_N - 8 * path_entries a) 0xff = concat (received_path a)"
    and "length (received_path a) = MAX_PATH_TRACE_N" and "\<forall>c \<in> set (received_path a). length c = 8"
  using assms
  by (auto simp: received_path_def concat_replicate_bytes diff_mult_distrib2 announce_ok_def
      clockid_ok_def dest: in_set_takeD)

lemma length_announce_fields:
  "clockid_ok (grandmasterIdentity a) \<Longrightarrow> length (announce_fields_image e a) = 34"
  by (simp add: announce_fields_image_def clockid_ok_def Let_def)

lemma announce_frame_eq:
  assumes "announce_ok a" "tlvLength a \<noteq> 0 \<or> \<not> conformToAvnu (ptasg sm)"
  shows "announce_frame e sm a = header_image (big_endian e) (md_compose_head e (wire_header e sm a)) @
    announce_fields_image e a @ concat (take (path_entries a) (pathSequence a))"
proof -
  have size: "MD_ANNOUNCE_SIZE - (MAX_PATH_TRACE_N - path_entries a) * 8 = 68 + 8 * path_entries a"
    using assms(1) by (auto simp: announce_ok_def MD_ANNOUNCE_SIZE_def MAX_PATH_TRACE_N_def)
  have two: "[flags (header a) ! 0, flags (header a) ! 1] = flags (header a)"
    using assms(1) by (auto simp: announce_ok_def numeral_2_eq_2 length_Suc_conv)
  have "path_entries a = 0" if "unat (tlvLength a) = 0" using that by (simp add: path_entries_def)
  then show ?thesis
    using assms(2)
    unfolding announce_frame_def Let_def size two
    by (auto simp: md_header_compose_def md_compose_head_def wire_header_def word_greater_zero_iff
        simp flip: word_neq_0_conv unat_gt_0)
qed

lemma wire_header_ok:
  assumes "announce_ok a" "clockid_ok (thisClock (ptasg sm))" "0 \<le> conf e CONF_MINOR_VERSION_PTP"
    "conf e CONF_MINOR_VERSION_PTP < 16"
  shows "header_ok (wire_header e sm a)"
proof -
  have "(of_int (conf e CONF_MINOR_VERSION_PTP) :: u8) < 16"
    using assms(3,4) by (simp add: word_less_def uint_word_of_int)
  then show ?thesis
    using assms(1,2) by (simp add: header_ok_def wire_header_def md_header_template_def announce_ok_def)
qed

text \<open>Reading the members behind a header of 34 bytes.\<close>

lemma announce_fields:
  assumes "length H = 34" "clockid_ok (grandmasterIdentity a)"
  shows "field 44 2 (H @ announce_fields_image e a @ r) = mem_bytes (big_endian e) (hton (big_endian e) (currentUtcOffset_m a))"
    and "(H @ announce_fields_image e a @ r) ! 47 = grandmasterPriority1 a" and "(H @ announce_fields_image e a @ r) ! 48 = q_clockClass (grandmasterClockQuality a)"
    and "(H @ announce_fields_image e a @ r) ! 49 = q_clockAccuracy (grandmasterClockQuality a)"
    and "field 50 2 (H @ announce_fields_image e a @ r) = mem_bytes (big_endian e) (hton (big_endian e)
      (q_offsetScaledLogVariance (grandmasterClockQuality a)))"
    and "(H @ announce_fields_image e a @ r) ! 52 = grandmasterPriority2 a" and "field 53 8 (H @ announce_fields_image e a @ r) = grandmasterIdentity a"
    and "field 61 2 (H @ announce_fields_image e a @ r) = mem_bytes (big_endian e) (hton (big_endian e) (stepsRemoved_m a))"
    and "(H @ announce_fields_image e a @ r) ! 63 = timeSource_m a"
    and "field 64 2 (H @ announce_fields_image e a @ r) = mem_bytes (big_endian e) (hton (big_endian e) (tlvType a))"
    and "field 66 2 (H @ announce_fields_image e a @ r) = mem_bytes (big_endian e) (hton (big_endian e) (tlvLength a))"
    and "field 68 n (H @ announce_fields_image e a @ r) = take n r"
  using assms
  by (simp_all add: field_def announce_fields_image_def nth_append clockid_ok_def Let_def)

lemma recAnnounce_frame:
  assumes "announce_ok a" "tlvLength a \<noteq> 0 \<or> \<not> conformToAvnu (ptasg s)"
    and "clockid_ok (thisClock (ptasg s))"
    and "0 \<le> conf e1 CONF_MINOR_VERSION_PTP" "conf e1 CONF_MINOR_VERSION_PTP < 16"
  shows "recAnnounce e2 (announce_frame e1 s a @ rest) r =
    Some (True, r\<lparr>mar_rcvdAnnounce := received_announce e1 s a,
      announce_rec_valid := announce_rec_valid r + 1\<rparr>)"
proof -
  let ?w = "wire_header e1 s a" and ?N = "path_entries a"
  let ?H = "header_image (big_endian e1) (md_compose_head e1 ?w)"
  let ?p = "concat (take ?N (pathSequence a))"
  let ?bs = "?H @ announce_fields_image e1 a @ ?p @ rest"
  note ok = wire_header_ok [OF assms(1,3-5)]
  have bs: "announce_frame e1 s a @ rest = ?bs" using announce_frame_eq [OF assms(1,2)] by simp
  have N: "?N \<le> MAX_PATH_TRACE_N" "unat (tlvLength a) = 8 * ?N" "clockid_ok (grandmasterIdentity a)"
    using assms(1) by (simp_all add: announce_ok_def)
  have H: "length ?H = 34"
    using header_fields(1) [of "md_compose_head e1 ?w"] ok
    by (simp add: md_compose_head_def header_ok_def clockid_ok_def MD_HEADER_SIZE_def)
  have h: "md_decompose_head e2 (header_overlay (big_endian e2) ?bs) = ?w"
    using header_over_wire [OF ok] by simp
  have p: "length ?p = 8 * ?N"
    using assms(1) length_concat_ids [of "take ?N (pathSequence a)"]
    by (auto simp: announce_ok_def dest: in_set_takeD)
  have len: "length ?bs = 68 + 8 * ?N + length rest"
    using H p length_announce_fields [OF N(3)] by simp
  have ml: "\<not> messageLength ?w \<le> 64"
    using N(1) by (simp add: wire_header_def md_header_template_def word_le_nat_alt
        unsigned_of_nat take_bit_nat_eq_self MAX_PATH_TRACE_N_def del: of_nat_add of_nat_mult)
  have sdo: "majorSdoId ?w = 1" by (simp add: wire_header_def md_header_template_def)
  have path: "path_of_bytes (?p @ replicate (8 * MAX_PATH_TRACE_N - 8 * ?N) 0xff) = received_path a"
    unfolding received_path_bytes(1) [OF assms(1)]
    using received_path_bytes(2,3) [OF assms(1)] by (rule path_of_bytes_concat)
  note f = announce_fields [where e = e1 and r = "?p @ rest", OF H N(3)]
  have tlv: "of_nat (8 * ?N) = tlvLength a" unfolding N(2) [symmetric] by simp
  show ?thesis
    unfolding bs recAnnounce_def Let_def h f
    using N ml sdo p len path tlv
    by (simp add: received_announce_def del: of_nat_mult)
qed

section \<open>Runs of the receiving machine\<close>

text \<open>The machine as \<^verbatim>\<open>recAnnounce\<close> finds it when a buffer has come in.\<close>

definition mar_pending :: "md_announce_receive_data \<Rightarrow> u8 list \<Rightarrow> md_announce_receive_data" where
  "mar_pending r bs = r\<lparr>state := MAR_RECV_ANNOUNCE, last_state := MAR_RECV_ANNOUNCE,
     rcvdRxAnnounce := False, rxAnnouncePtr := Some bs, announce_rec := announce_rec r + 1\<rparr>"

lemma mar_pending_message [simp]:
  "mar_rcvdAnnounce (mar_pending r bs) = mar_rcvdAnnounce r"
  "mar_cmlds_mode (mar_pending r bs) = mar_cmlds_mode r"
  by (simp_all add: mar_pending_def)

lemma mar_receives:
  assumes "state s = MAR_RECV_ANNOUNCE" "last_state s \<noteq> MAR_RECV_ANNOUNCE"
    and "s\<lparr>last_state := MAR_RECV_ANNOUNCE, rcvdRxAnnounce := False\<rparr> = mar_pending r bs"
    and "rxAnnouncePtr s = Some bs"
  shows "\<exists>u. sm_loop (mar_body e) s = Some (case recAnnounce e bs (mar_pending r bs) of
      None \<Rightarrow> (u, Crash)
    | Some (valid, t) \<Rightarrow> (t, if valid then Return (mar_rcvdAnnounce t) else Next))"
proof -
  have rec: "recv_announce_proc e (s\<lparr>last_state := MAR_RECV_ANNOUNCE\<rparr>) = recAnnounce e bs (mar_pending r bs)"
    using assms(3,4) by (simp add: recv_announce_proc_def)
  show ?thesis
  proof (cases "recAnnounce e bs (mar_pending r bs)")
    case None
    with rec assms(1,2) have "sm_step (mar_body e) s = (s\<lparr>last_state := MAR_RECV_ANNOUNCE\<rparr>, Crash)"
      by (simp add: sm_step_def mar_body_def)
    then have "sm_loop (mar_body e) s = Some (s\<lparr>last_state := MAR_RECV_ANNOUNCE\<rparr>, Crash)"
      by (rule sm_loop_out) simp
    with None show ?thesis by auto
  next
    case (Some p)
    obtain valid t where p: "p = (valid, t)" by fastforce
    have st: "state t = MAR_RECV_ANNOUNCE" "last_state t = MAR_RECV_ANNOUNCE"
      using Some p by (auto simp: recAnnounce_def mar_pending_def Let_def split: if_splits)
    have step: "sm_step (mar_body e) s = (t, if valid then Return (mar_rcvdAnnounce t) else Next)"
      using rec assms(1,2) Some p by (simp add: sm_step_def mar_body_def)
    have "sm_loop (mar_body e) s = Some (t, if valid then Return (mar_rcvdAnnounce t) else Next)"
      using step st sm_loop_out [OF step] sm_loop_rest [of "mar_body e" s t]
      by (cases valid) simp_all
    with Some p show ?thesis by simp
  qed
qed

lemma mar_run:
  assumes "state r \<noteq> MAR_REACTION"
  shows "\<exists>u. md_announce_receive_sm_mdAnnounceRec e r bs = Some (case recAnnounce e bs (mar_pending r bs) of
      None \<Rightarrow> (u, Crash)
    | Some (valid, t) \<Rightarrow> (t, if valid then Return (mar_rcvdAnnounce t) else Next))"
proof -
  let ?r = "r\<lparr>rcvdRxAnnounce := True, announce_rec := announce_rec r + 1, rxAnnouncePtr := Some bs,
    last_state := MAR_REACTION\<rparr>"
  have init: "\<exists>u. sm_loop (mar_body e) (?r\<lparr>last_state := l, state := MAR_INITIALIZE\<rparr>) =
      Some (case recAnnounce e bs (mar_pending r bs) of None \<Rightarrow> (u, Crash)
        | Some (valid, t) \<Rightarrow> (t, if valid then Return (mar_rcvdAnnounce t) else Next))"
    for l
  proof -
    let ?t = "?r\<lparr>last_state := MAR_INITIALIZE, state := MAR_RECV_ANNOUNCE\<rparr>"
    have "sm_step (mar_body e) (?r\<lparr>last_state := l, state := MAR_INITIALIZE\<rparr>) = (?t, Next)"
      by (simp add: sm_step_def mar_body_def mar_initialize_condition_def)
    then have "sm_loop (mar_body e) (?r\<lparr>last_state := l, state := MAR_INITIALIZE\<rparr>) = sm_loop (mar_body e) ?t"
      by (rule sm_loop_again) simp
    then show ?thesis using mar_receives [of ?t r bs e] by (simp add: mar_pending_def)
  qed
  have run: "\<exists>u. sm_loop (mar_body e) ?r = Some (case recAnnounce e bs (mar_pending r bs) of
      None \<Rightarrow> (u, Crash)
    | Some (valid, t) \<Rightarrow> (t, if valid then Return (mar_rcvdAnnounce t) else Next))"
  proof (cases "state r")
    case MAR_INIT
    let ?t = "?r\<lparr>last_state := MAR_INIT, state := MAR_INITIALIZE\<rparr>"
    have "sm_step (mar_body e) ?r = (?t, Next)"
      using MAR_INIT by (simp add: sm_step_def mar_body_def)
    then have "sm_loop (mar_body e) ?r = sm_loop (mar_body e) ?t" by (rule sm_loop_again) simp
    then show ?thesis using init by simp
  next
    case MAR_INITIALIZE
    then have "?r\<lparr>last_state := MAR_REACTION, state := MAR_INITIALIZE\<rparr> = ?r" by simp
    then show ?thesis using init [of MAR_REACTION] by simp
  next
    case MAR_RECV_ANNOUNCE
    then show ?thesis using mar_receives [of ?r r bs e] by (simp add: mar_pending_def)
  qed (use assms in simp)
  show ?thesis
    using run init [of MAR_REACTION]
    by (simp add: md_announce_receive_sm_mdAnnounceRec_def md_announce_receive_sm_def mar_allstate_condition_def)
qed

section \<open>Runs of the sending machine\<close>

text \<open>The machine after an attempt to send message \<open>a\<close>.\<close>

definition mas_attempted :: "md_announce_send_data \<Rightarrow> PTPMsgAnnounce \<Rightarrow> md_announce_send_data" where
  "mas_attempted s a = s\<lparr>state := MAS_SEND_ANNOUNCE, last_state := MAS_SEND_ANNOUNCE,
     rcvdTxAnnounce := False, txAnnouncePtr := Some a\<rparr>"

lemma mas_attempted_simps [simp]:
  "ptasg (mas_attempted s a) = ptasg s" "ppg (mas_attempted s a) = ppg s" "gpnetd (mas_attempted s a) = gpnetd s"
  "mas_bppg (mas_attempted s a) = mas_bppg s" "frames_sent (mas_attempted s a) = frames_sent s"
  "announce_frame e (mas_attempted s a) a = announce_frame e s a"
  by (simp_all add: mas_attempted_def announce_frame_def Let_def)

definition mas_outcome ::
  "env \<Rightarrow> (u8 list \<Rightarrow> bool) \<Rightarrow> md_announce_send_data \<Rightarrow> PTPMsgAnnounce \<Rightarrow> md_announce_send_data \<times> unit ctl" where
  "mas_outcome e net s a =
     (let f = announce_frame e s a; t = mas_attempted s a
      in if net f then (t\<lparr>announce_send := announce_send t + 1, frames_sent := frames_sent t @ [f]\<rparr>, Next)
         else (t\<lparr>last_state := MAS_REACTION\<rparr>, Return ()))"

lemma mas_sends:
  assumes "state s = MAS_SEND_ANNOUNCE" "last_state s \<noteq> MAS_SEND_ANNOUNCE"
    and "s\<lparr>last_state := MAS_SEND_ANNOUNCE, rcvdTxAnnounce := False\<rparr> = mas_attempted s0 a"
    and "txAnnouncePtr s = Some a" "gpnetd s0" "path_entries a \<le> MAX_PATH_TRACE_N"
  shows "sm_loop (mas_body e net) s = Some (mas_outcome e net s0 a)"
proof -
  have proc: "send_announce_proc e net (s\<lparr>last_state := MAS_SEND_ANNOUNCE\<rparr>) =
      sendAnnounce e net a (mas_attempted s0 a)"
    using assms(3,4) by (simp add: send_announce_proc_def)
  have step: "sm_step (mas_body e net) s = mas_outcome e net s0 a"
    using assms(1,2,5,6) proc
    by (simp add: sm_step_def mas_body_def sendAnnounce_def mas_outcome_def Let_def)
  show ?thesis
  proof (cases "net (announce_frame e s0 a)")
    case True
    let ?t = "(mas_attempted s0 a)\<lparr>announce_send := announce_send (mas_attempted s0 a) + 1,
      frames_sent := frames_sent (mas_attempted s0 a) @ [announce_frame e s0 a]\<rparr>"
    have out: "mas_outcome e net s0 a = (?t, Next)"
      using True by (simp add: mas_outcome_def Let_def)
    have "sm_loop (mas_body e net) s = Some (?t, Next)"
      by (rule sm_loop_rest) (use step out in \<open>simp_all add: mas_attempted_def\<close>)
    with out show ?thesis by simp
  next
    case False
    let ?t = "(mas_attempted s0 a)\<lparr>last_state := MAS_REACTION\<rparr>"
    have out: "mas_outcome e net s0 a = (?t, Return ())"
      using False by (simp add: mas_outcome_def Let_def)
    have "sm_loop (mas_body e net) s = Some (?t, Return ())"
      by (rule sm_loop_out) (use step out in simp_all)
    with out show ?thesis by simp
  qed
qed

lemma mas_run:
  assumes "state s \<noteq> MAS_REACTION" "gpnetd s" "path_entries a \<le> MAX_PATH_TRACE_N"
  shows "md_announce_send_sm_mdAnnouncSend e net s a = Some (mas_outcome e net s a)"
proof -
  let ?s = "s\<lparr>rcvdTxAnnounce := True, txAnnouncePtr := Some a, last_state := MAS_REACTION\<rparr>"
  have init: "sm_loop (mas_body e net) (?s\<lparr>last_state := l, state := MAS_INITIALIZE\<rparr>) =
      Some (mas_outcome e net s a)" for l
  proof -
    let ?t = "?s\<lparr>last_state := MAS_INITIALIZE, state := MAS_SEND_ANNOUNCE\<rparr>"
    have "sm_step (mas_body e net) (?s\<lparr>last_state := l, state := MAS_INITIALIZE\<rparr>) = (?t, Next)"
      by (simp add: sm_step_def mas_body_def mas_initialize_condition_def)
    then have "sm_loop (mas_body e net) (?s\<lparr>last_state := l, state := MAS_INITIALIZE\<rparr>) =
        sm_loop (mas_body e net) ?t"
      by (rule sm_loop_again) simp
    then show ?thesis using mas_sends [of ?t s a e net] assms(2,3) by (simp add: mas_attempted_def)
  qed
  have run: "sm_loop (mas_body e net) ?s = Some (mas_outcome e net s a)"
  proof (cases "state s")
    case MAS_INIT
    let ?t = "?s\<lparr>last_state := MAS_INIT, state := MAS_INITIALIZE\<rparr>"
    have "sm_step (mas_body e net) ?s = (?t, Next)"
      using MAS_INIT by (simp add: sm_step_def mas_body_def)
    then have "sm_loop (mas_body e net) ?s = sm_loop (mas_body e net) ?t" by (rule sm_loop_again) simp
    then show ?thesis using init by simp
  next
    case MAS_INITIALIZE
    then have "?s\<lparr>last_state := MAS_REACTION, state := MAS_INITIALIZE\<rparr> = ?s" by simp
    then show ?thesis using init [of MAS_REACTION] by simp
  next
    case MAS_SEND_ANNOUNCE
    then show ?thesis using mas_sends [of ?s s a e net] assms(2,3) by (simp add: mas_attempted_def)
  qed (use assms in simp)
  show ?thesis
    using run init [of MAS_REACTION]
    by (simp add: md_announce_send_sm_mdAnnouncSend_def md_announce_send_sm_def mas_allstate_condition_def)
qed

section \<open>Properties\<close>

text \<open>Handing a message to the sending machine makes it give the network exactly one frame. If
  the network does not take it, nothing is sent and the machine remembers the message:
  on an active port, its next run gives the network the same frame again.\<close>

theorem announce_sent_or_retried:
  assumes "state s \<noteq> MAS_REACTION" "gpnetd s" "path_entries a \<le> MAX_PATH_TRACE_N"
    and "tas_running (ptasg s)" "port_active (ppg s)"
  shows "\<exists>t c. md_announce_send_sm_mdAnnouncSend e net s a = Some (t, c) \<and>
    (if net (announce_frame e s a)
     then c = Next \<and> frames_sent t = frames_sent s @ [announce_frame e s a]
     else c = Return () \<and> frames_sent t = frames_sent s \<and>
       (\<exists>u d. md_announce_send_sm e (\<lambda>f. True) t = Some (u, d) \<and>
          frames_sent u = frames_sent s @ [announce_frame e s a]))"
proof (cases "net (announce_frame e s a)")
  case True
  then show ?thesis using mas_run [OF assms(1-3), of e net]
    by (simp add: mas_outcome_def Let_def)
next
  case False
  let ?t = "(mas_attempted s a)\<lparr>last_state := MAS_REACTION\<rparr>"
  have 1: "md_announce_send_sm_mdAnnouncSend e net s a = Some (?t, Return ())"
    using mas_run [OF assms(1-3), of e net] False by (simp add: mas_outcome_def Let_def)
  have "sm_loop (mas_body e (\<lambda>f. True)) ?t = Some (mas_outcome e (\<lambda>f. True) s a)"
    by (rule mas_sends) (use assms(2,3) in \<open>simp_all add: mas_attempted_def\<close>)
  then have "md_announce_send_sm e (\<lambda>f. True) ?t = Some (mas_outcome e (\<lambda>f. True) s a)"
    using assms(4,5) by (simp add: md_announce_send_sm_def mas_allstate_condition_def tas_running_def port_active_def)
  with 1 False show ?thesis by (simp add: mas_outcome_def Let_def)
qed

lemma mar_run_frame:
  assumes "announce_ok a" "tlvLength a \<noteq> 0 \<or> \<not> conformToAvnu (ptasg s)"
    and "clockid_ok (thisClock (ptasg s))"
    and "0 \<le> conf e1 CONF_MINOR_VERSION_PTP" "conf e1 CONF_MINOR_VERSION_PTP < 16"
    and "state r \<noteq> MAR_REACTION"
  shows "\<exists>t. md_announce_receive_sm_mdAnnounceRec e2 r (announce_frame e1 s a @ rest) =
      Some (t, Return (received_announce e1 s a)) \<and>
    announce_rec_valid t = announce_rec_valid r + 1"
  using mar_run [OF assms(6), of e2 "announce_frame e1 s a @ rest"] recAnnounce_frame [OF assms(1-5)]
  by (auto simp: mar_pending_def)

text \<open>A well-formed Announce message that one system frames is the message that another system
  receives, whatever the byte orders of the two hosts and whatever lies behind the
  message in the receive buffer: all members are equal but for the header, which names
  the sender, and the unused part of the path array, which is filled with ones. The
  state of the receiving port makes no difference.\<close>

theorem announce_wire_roundtrip:
  assumes "announce_ok a" "tlvLength a \<noteq> 0 \<or> \<not> conformToAvnu (ptasg s)"
    and "clockid_ok (thisClock (ptasg s))"
    and "0 \<le> conf e1 CONF_MINOR_VERSION_PTP" "conf e1 CONF_MINOR_VERSION_PTP < 16"
    and "state r \<noteq> MAR_REACTION"
  shows "\<exists>t. md_announce_receive_sm_mdAnnounceRec e2 r (announce_frame e1 s a @ rest) =
      Some (t, Return (received_announce e1 s a)) \<and>
    announce_rec_valid t = announce_rec_valid r + 1"
  by (rule mar_run_frame [OF assms])

text \<open>The length of the path is not checked: a message that states a path longer than the
  array for it makes the receiver write beyond the array.\<close>

theorem announce_length_unchecked:
  assumes "68 + unat (hton (big_endian e) (mem_word (big_endian e) (field 66 2 bs)) :: u16) \<le> length bs"
    and "8 * MAX_PATH_TRACE_N < unat (hton (big_endian e) (mem_word (big_endian e) (field 66 2 bs)) :: u16)"
    and "majorSdoId (md_decompose_head e (header_overlay (big_endian e) bs)) = 1"
    and "64 < messageLength (md_decompose_head e (header_overlay (big_endian e) bs))"
    and "state r \<noteq> MAR_REACTION"
  shows "\<exists>u. md_announce_receive_sm_mdAnnounceRec e r bs = Some (u, Crash)"
proof -
  have "recAnnounce e bs (mar_pending r bs) = None"
    using assms(1-4) by (simp add: recAnnounce_def Let_def flip: not_less)
  with mar_run [OF assms(5), of e bs] show ?thesis by simp
qed

text \<open>A message without a TLV (64 bytes) is handed on with the TLV type, length and path of the
  message that was received before it.\<close>

theorem announce_without_tlv_keeps_old_path:
  assumes "64 \<le> length bs"
    and "majorSdoId (md_decompose_head e (header_overlay (big_endian e) bs)) = 1"
    and "messageLength (md_decompose_head e (header_overlay (big_endian e) bs)) \<le> 64"
    and "state r \<noteq> MAR_REACTION"
  shows "\<exists>t a. md_announce_receive_sm_mdAnnounceRec e r bs = Some (t, Return a) \<and>
    tlvType a = tlvType (mar_rcvdAnnounce r) \<and> tlvLength a = tlvLength (mar_rcvdAnnounce r) \<and>
    pathSequence a = pathSequence (mar_rcvdAnnounce r)"
proof -
  have "\<exists>t. recAnnounce e bs (mar_pending r bs) = Some (True, t) \<and>
      tlvType (mar_rcvdAnnounce t) = tlvType (mar_rcvdAnnounce r) \<and>
      tlvLength (mar_rcvdAnnounce t) = tlvLength (mar_rcvdAnnounce r) \<and>
      pathSequence (mar_rcvdAnnounce t) = pathSequence (mar_rcvdAnnounce r)"
    using assms(1-3) by (simp add: recAnnounce_def Let_def not_less)
  with mar_run [OF assms(4), of e bs] show ?thesis by auto
qed

text \<open>A system that follows AVnu sends a message without a path as 64 bytes, but the header in
  them states 68 bytes, so that the receiver reads four bytes behind the message as TLV.\<close>

theorem avnu_announce_states_wrong_length:
  assumes "announce_ok a" "tlvLength a = 0" "conformToAvnu (ptasg s)"
    and "clockid_ok (thisClock (ptasg s))"
    and "0 \<le> conf e CONF_MINOR_VERSION_PTP" "conf e CONF_MINOR_VERSION_PTP < 16"
  shows "length (announce_frame e s a) = 64 \<and>
    messageLength (md_decompose_head e (header_overlay (big_endian e) (announce_frame e s a))) = 68"
proof -
  have N: "path_entries a = 0" using assms(2) by (simp add: path_entries_def)
  let ?w = "wire_header e s a"
  let ?H = "header_image (big_endian e) (md_compose_head e ?w)"
  note ok = wire_header_ok [OF assms(1,4-6)]
  have H: "length ?H = 34"
    using header_fields(1) [of "md_compose_head e ?w"] ok
    by (simp add: md_compose_head_def header_ok_def clockid_ok_def MD_HEADER_SIZE_def)
  have two: "[flags (header a) ! 0, flags (header a) ! 1] = flags (header a)"
    using assms(1) by (auto simp: announce_ok_def numeral_2_eq_2 length_Suc_conv)
  have f: "announce_frame e s a = take 64 (?H @ announce_fields_image e a)"
    using assms(2,3) two
    by (simp add: announce_frame_def Let_def N MD_ANNOUNCE_SIZE_def md_header_compose_def
        md_compose_head_def wire_header_def)
  then have f: "announce_frame e s a = ?H @ take 30 (announce_fields_image e a)"
    using H by simp
  show ?thesis
    unfolding f header_over_wire [OF ok]
    using H length_announce_fields [of a e] assms(1)
    by (simp add: announce_ok_def wire_header_def md_header_template_def N)
qed

section \<open>Instances\<close>

definition sample_mas :: md_announce_send_data where
  "sample_mas = md_announce_send_sm_init True sample_ptasg sample_ppg zero_BmcsPerPortGlobal"

definition sample_mar :: md_announce_receive_data where
  "sample_mar = md_announce_receive_sm_init default_env sample_ptasg sample_ppg"

lemma sample_mas_simps [simp]:
  "state sample_mas \<noteq> MAS_REACTION" "gpnetd sample_mas" "ptasg sample_mas = sample_ptasg" "ppg sample_mas = sample_ppg"
  "frames_sent sample_mas = []"
  by (simp_all add: sample_mas_def md_announce_send_sm_init_def)

lemma sample_mar_simps [simp]: "state sample_mar \<noteq> MAR_REACTION"
  by (simp add: sample_mar_def md_announce_receive_sm_init_def)

lemma sample_announce_ok: "announce_ok sample_announce" "tlvLength sample_announce = 8"
  "path_entries sample_announce = 1"
  by (auto simp: announce_ok_def sample_announce_def zero_PTPMsgAnnounce_def zero_PTPMsgHeader_def
      path_entries_def MAX_PATH_TRACE_N_def clockid_ok_def sample_peer_def zero_clockid_def)

lemma thisClock_sample_ptasg: "thisClock sample_ptasg = sample_clock"
  by (simp add: sample_ptasg_def)

theorem announce_sent_or_retried_witness:
  "\<exists>t. md_announce_send_sm_mdAnnouncSend default_env (\<lambda>f. False) sample_mas sample_announce = Some (t, Return ()) \<and>
    frames_sent t = []"
  using announce_sent_or_retried [of sample_mas sample_announce default_env "\<lambda>f. False"]
  by (auto simp: sample_announce_ok MAX_PATH_TRACE_N_def)

theorem announce_wire_roundtrip_witness:
  "\<exists>t a. md_announce_receive_sm_mdAnnounceRec (default_env\<lparr>big_endian := True\<rparr>) sample_mar
      (announce_frame default_env sample_mas sample_announce) = Some (t, Return a) \<and>
    grandmasterPriority1 a = 100"
  using announce_wire_roundtrip [of sample_announce sample_mas default_env sample_mar
      "default_env\<lparr>big_endian := True\<rparr>" "[]"]
  by (auto simp: sample_announce_ok thisClock_sample_ptasg received_announce_def) (simp add: sample_announce_def)

definition sample_long_frame :: "u8 list" where
  "sample_long_frame = [0x1b, 0x12, 0x05, 0xdc] @ replicate 62 0 @ [0x07, 0xd0] @ replicate 2000 0"

lemma sample_long_frame_fields:
  "field 66 2 sample_long_frame = [0x07, 0xd0]" "sample_long_frame ! 0 = 0x1b"
  "field 2 2 sample_long_frame = [0x05, 0xdc]" "length sample_long_frame = 2068"
  by (simp_all add: sample_long_frame_def field_def)

lemma wire_bytes: "hton False (mem_word False [a, b] :: u16) = of_bytes_le [b, a]"
  using bytes_le_of_bytes_le [of "[a, b]", where ?'a = 16]
  by (simp add: hton_def mem_word_def bswap_def)

theorem announce_length_unchecked_witness:
  "\<exists>u. md_announce_receive_sm_mdAnnounceRec default_env sample_mar sample_long_frame = Some (u, Crash)"
  using announce_length_unchecked [of default_env sample_long_frame sample_mar]
  by (simp add: sample_long_frame_fields wire_bytes MAX_PATH_TRACE_N_def md_decompose_head_def header_overlay_def)

theorem announce_without_tlv_keeps_old_path_witness:
  "\<exists>t a. md_announce_receive_sm_mdAnnounceRec default_env (sample_mar\<lparr>mar_rcvdAnnounce := sample_announce\<rparr>)
      ([0x1b, 0x12, 0, 64] @ replicate 60 0) = Some (t, Return a) \<and> tlvType a = 8"
  using announce_without_tlv_keeps_old_path [of "[0x1b, 0x12, 0, 64] @ replicate 60 0" default_env
      "sample_mar\<lparr>mar_rcvdAnnounce := sample_announce\<rparr>"]
  by (auto simp: wire_bytes md_decompose_head_def header_overlay_def field_def sample_announce_def)

theorem avnu_announce_states_wrong_length_witness:
  "length (announce_frame default_env (sample_mas\<lparr>ptasg := sample_ptasg\<lparr>conformToAvnu := True\<rparr>\<rparr>)
     (sample_announce\<lparr>tlvLength := 0\<rparr>)) = 64"
proof -
  have "announce_ok (sample_announce\<lparr>tlvLength := 0\<rparr>)"
    using sample_announce_ok(1) by (simp add: announce_ok_def path_entries_def)
  then show ?thesis
    using avnu_announce_states_wrong_length [of "sample_announce\<lparr>tlvLength := 0\<rparr>"
        "sample_mas\<lparr>ptasg := sample_ptasg\<lparr>conformToAvnu := True\<rparr>\<rparr>" default_env]
    by (simp add: thisClock_sample_ptasg)
qed

end
