(* ===== verification/Gptp_MdIo.thy ===== *)
theory Gptp_MdIo
  imports Gptp_MdEth
begin

text \<open>
  What the machines of the MD entity share: the services of the network layer and
  of the clock that they call, and the packed event messages of the peer delay
  measurement.
\<close>

section \<open>Services\<close>

text \<open>
  The outside world during one call of a machine:
  \<^item> \<open>net_send\<close>: what \<^verbatim>\<open>gptpnet_send_whook\<close> returns for a frame; \<open>-1\<close> is a failure, another
    negative number a frame that the abnormal-event hooks hold back;
  \<^item> \<open>txtslost_time\<close>: after how long \<^verbatim>\<open>gptpnet_txtslost_time\<close> gives up waiting for the
    timestamp of a sent frame;
  \<^item> \<open>clock_now\<close>: the reading of \<^verbatim>\<open>gptpclock_getts64\<close> for the clock of the port;
  \<^item> \<open>rand16\<close>: the low 16 bits of \<^verbatim>\<open>rand\<close>;
  \<^item> \<open>nsec2ts\<close>: the macro \<^verbatim>\<open>UB_NSEC2TS\<close> of \<^verbatim>\<open>xl4unibase\<close>, nanoseconds to seconds and
    nanoseconds.
\<close>

record net_io =
  net_send :: "u8 list \<Rightarrow> int"
  txtslost_time :: u64
  clock_now :: u64
  rand16 :: u16
  nsec2ts :: "int \<Rightarrow> int \<times> int"

text \<open>What the code relies on in \<^verbatim>\<open>UB_NSEC2TS\<close>, for times that are not negative.\<close>

definition nsec2ts_ok :: "net_io \<Rightarrow> bool" where
  "nsec2ts_ok io \<longleftrightarrow> (\<forall>ns \<ge> 0. nsec2ts io ns = (ns div 1000000000, ns mod 1000000000))"

definition sample_io :: net_io where
  "sample_io = \<lparr>net_send = \<lambda>f. int (length f), txtslost_time = 10000000, clock_now = 0, rand16 = 77,
     nsec2ts = \<lambda>ns. (ns div 1000000000, ns mod 1000000000)\<rparr>"

lemma sample_io_simps [simp]:
  "net_send sample_io f = int (length f)" "txtslost_time sample_io = 10000000" "clock_now sample_io = 0"
  "rand16 sample_io = 77" "nsec2ts_ok sample_io"
  by (simp_all add: sample_io_def nsec2ts_ok_def)

text \<open>A network that takes every frame.\<close>

definition net_takes :: "net_io \<Rightarrow> bool" where
  "net_takes io \<longleftrightarrow> (\<forall>f. 0 \<le> net_send io f)"

lemma net_takesD:
  assumes "net_takes io"
  shows "0 \<le> net_send io f" "\<not> net_send io f < 0" "net_send io f \<noteq> - 1"
proof -
  show pos: "0 \<le> net_send io f" using assms unfolding net_takes_def by blast
  then show "\<not> net_send io f < 0" by simp
  show "net_send io f \<noteq> - 1" using pos by linarith
qed

lemma sample_io_takes [simp]: "net_takes sample_io"
  by (simp add: net_takes_def)

text \<open>The outcome of composing and sending a message.\<close>

datatype tx_result = TxSent | TxNoBuffer | TxFailed | TxNull

section \<open>Packed structures\<close>

record MDPortIdentity =
  mp_clockIdentity :: ClockIdentity
  mp_portNumber_ns :: u16

definition head_source :: "MDPTPMsgHeader \<Rightarrow> MDPortIdentity" where
  "head_source h = \<lparr>mp_clockIdentity = md_clockIdentity h, mp_portNumber_ns = portNumber_ns h\<rparr>"

record MDTimestamp =
  seconds_msb_ns :: u16
  seconds_lsb_nl :: u32
  nanoseconds_nl :: u32

text \<open>
  \<^verbatim>\<open>MDPTPMsgPdelayResp\<close> and \<^verbatim>\<open>MDPTPMsgPdelayRespFollowUp\<close> have the same layout: a header,
  a timestamp and the identity of the requesting port.
\<close>

record MDPTPMsgPdelayResp =
  pr_head :: MDPTPMsgHeader
  pr_timestamp :: MDTimestamp
  requestingPortIdentity :: MDPortIdentity

text \<open>The request has nothing but a header and reserved bytes.\<close>

record MDPTPMsgPdelayReq =
  pq_head :: MDPTPMsgHeader

definition pdelay_req_image :: "env \<Rightarrow> MDPTPMsgPdelayReq \<Rightarrow> u8 list" where
  "pdelay_req_image e m = header_image (big_endian e) (pq_head m) @ replicate 20 0"

definition pdelay_req_overlay :: "env \<Rightarrow> u8 list \<Rightarrow> MDPTPMsgPdelayReq" where
  "pdelay_req_overlay e bs = \<lparr>pq_head = header_overlay (big_endian e) bs\<rparr>"

definition timestamp_image :: "env \<Rightarrow> MDTimestamp \<Rightarrow> u8 list" where
  "timestamp_image e t = mem_bytes (big_endian e) (seconds_msb_ns t) @
     mem_bytes (big_endian e) (seconds_lsb_nl t) @ mem_bytes (big_endian e) (nanoseconds_nl t)"

definition timestamp_overlay :: "env \<Rightarrow> u8 list \<Rightarrow> MDTimestamp" where
  "timestamp_overlay e bs =
     \<lparr>seconds_msb_ns = mem_word (big_endian e) (field 0 2 bs),
      seconds_lsb_nl = mem_word (big_endian e) (field 2 4 bs),
      nanoseconds_nl = mem_word (big_endian e) (field 6 4 bs)\<rparr>"

definition pdelay_resp_image :: "env \<Rightarrow> MDPTPMsgPdelayResp \<Rightarrow> u8 list" where
  "pdelay_resp_image e m =
     header_image (big_endian e) (pr_head m) @ timestamp_image e (pr_timestamp m) @
     mp_clockIdentity (requestingPortIdentity m) @
     mem_bytes (big_endian e) (mp_portNumber_ns (requestingPortIdentity m))"

definition pdelay_resp_overlay :: "env \<Rightarrow> u8 list \<Rightarrow> MDPTPMsgPdelayResp" where
  "pdelay_resp_overlay e bs =
     \<lparr>pr_head = header_overlay (big_endian e) bs,
      pr_timestamp = timestamp_overlay e (drop 34 bs),
      requestingPortIdentity = \<lparr>mp_clockIdentity = field 44 8 bs,
        mp_portNumber_ns = mem_word (big_endian e) (field 52 2 bs)\<rparr>\<rparr>"

text \<open>The time that a received timestamp stands for; the upper 16 bits of the seconds are not read.\<close>

definition timestamp_nsec :: "env \<Rightarrow> MDTimestamp \<Rightarrow> u64" where
  "timestamp_nsec e t =
     ucast (hton (big_endian e) (seconds_lsb_nl t)) * 1000000000 + ucast (hton (big_endian e) (nanoseconds_nl t))"

text \<open>The timestamp that is written for a time.\<close>

definition timestamp_of :: "env \<Rightarrow> net_io \<Rightarrow> int \<Rightarrow> MDTimestamp" where
  "timestamp_of e io ns =
     \<lparr>seconds_msb_ns = 0, seconds_lsb_nl = hton (big_endian e) (of_int (fst (nsec2ts io ns))),
      nanoseconds_nl = hton (big_endian e) (of_int (snd (nsec2ts io ns)))\<rparr>"

text \<open>The major SDO identity is the upper half of the first octet.\<close>

definition sdo_of :: "MDPTPMsgHeader \<Rightarrow> u8" where
  "sdo_of h = majorSdoId_messageType h AND 0xF0"

definition set_sdo :: "u8 \<Rightarrow> MDPTPMsgHeader \<Rightarrow> MDPTPMsgHeader" where
  "set_sdo v h = h\<lparr>majorSdoId_messageType := (majorSdoId_messageType h AND 0x0F) OR v\<rparr>"

end
