(* ===== verification/Gptp_MdSync.thy ===== *)
theory Gptp_MdSync
  imports Gptp_MdIo
begin

text \<open>
  Sync and Follow_Up messages: the packed structures of \<^verbatim>\<open>mdeth.h\<close>, and the structures
  of \<^verbatim>\<open>mind.h\<close> in which the machines of the MD entity and of the port exchange the
  information of one synchronisation.
\<close>

section \<open>Information passed between machines\<close>

record MDSyncSend =
  ms_domainNumber :: u8
  ms_followUpCorrectionField :: ScaledNs
  ms_sourcePortIdentity :: PortIdentity
  ms_logMessageInterval :: u8
  ms_preciseOriginTimestamp :: Timestamp
  ms_upstreamTxTime :: UScaledNs
  ms_rateRatio :: real
  ms_gmTimeBaseIndicator :: u16
  ms_lastGmPhaseChange :: ScaledNs
  ms_lastGmFreqChange :: real

record MDSyncReceive =
  mr_domainNumber :: u8
  mr_followUpCorrectionField :: ScaledNs
  mr_sourcePortIdentity :: PortIdentity
  mr_logMessageInterval :: u8
  mr_preciseOriginTimestamp :: Timestamp
  mr_upstreamTxTime :: UScaledNs
  mr_rateRatio :: real
  mr_gmTimeBaseIndicator :: u16
  mr_lastGmPhaseChange :: ScaledNs
  mr_lastGmFreqChange :: real
  mr_seqid :: u16

definition zero_Timestamp :: Timestamp where
  "zero_Timestamp = \<lparr>nanoseconds = 0, seconds_lsb = 0, seconds_msb = 0\<rparr>"

definition zero_MDSyncReceive :: MDSyncReceive where
  "zero_MDSyncReceive = \<lparr>mr_domainNumber = 0, mr_followUpCorrectionField = zero_ScaledNs,
     mr_sourcePortIdentity = zero_PortIdentity, mr_logMessageInterval = 0,
     mr_preciseOriginTimestamp = zero_Timestamp, mr_upstreamTxTime = zero_UScaledNs, mr_rateRatio = 0,
     mr_gmTimeBaseIndicator = 0, mr_lastGmPhaseChange = zero_ScaledNs, mr_lastGmFreqChange = 0, mr_seqid = 0\<rparr>"

section \<open>Packed messages\<close>

text \<open>
  \<^verbatim>\<open>MDPTPMsgFollowUp\<close> and \<^verbatim>\<open>MDPTPMsgSyncOneStep\<close> have the same layout: a header, a timestamp
  and the Follow_Up information TLV. A two-step Sync, \<^verbatim>\<open>MDPTPMsgSync\<close>, is the header and ten
  reserved bytes, at the place of the timestamp.
\<close>

record MDPTPMsgFollowUp =
  fm_head :: MDPTPMsgHeader
  fm_originTimestamp :: MDTimestamp
  fm_tlv :: MDFollowUpInformationTLV

definition tlv_image :: "env \<Rightarrow> MDFollowUpInformationTLV \<Rightarrow> u8 list" where
  "tlv_image e t =
     mem_bytes (big_endian e) (fu_tlvType_ns t) @ mem_bytes (big_endian e) (fu_lengthField_ns t) @
     fu_organizationId t @ fu_organizationSubType_nb t @
     mem_bytes (big_endian e) (cumulativeScaledRateOffset_nl t) @ mem_bytes (big_endian e) (gmTimeBaseIndicator_ns t) @
     mem_bytes (big_endian e) (fu_nsec_msb t) @ mem_bytes (big_endian e) (fu_nsec_nll t) @
     mem_bytes (big_endian e) (fu_subns_ns t) @ mem_bytes (big_endian e) (scaledLastGmFreqChange_nl t)"

definition tlv_overlay :: "env \<Rightarrow> u8 list \<Rightarrow> MDFollowUpInformationTLV" where
  "tlv_overlay e bs =
     \<lparr>fu_tlvType_ns = mem_word (big_endian e) (field 0 2 bs),
      fu_lengthField_ns = mem_word (big_endian e) (field 2 2 bs),
      fu_organizationId = field 4 3 bs, fu_organizationSubType_nb = field 7 3 bs,
      cumulativeScaledRateOffset_nl = mem_word (big_endian e) (field 10 4 bs),
      gmTimeBaseIndicator_ns = mem_word (big_endian e) (field 14 2 bs),
      fu_nsec_msb = mem_word (big_endian e) (field 16 2 bs),
      fu_nsec_nll = mem_word (big_endian e) (field 18 8 bs),
      fu_subns_ns = mem_word (big_endian e) (field 26 2 bs),
      scaledLastGmFreqChange_nl = mem_word (big_endian e) (field 28 4 bs)\<rparr>"

definition zero_tlv :: MDFollowUpInformationTLV where
  "zero_tlv = \<lparr>fu_tlvType_ns = 0, fu_lengthField_ns = 0, fu_organizationId = replicate 3 0,
     fu_organizationSubType_nb = replicate 3 0, cumulativeScaledRateOffset_nl = 0, gmTimeBaseIndicator_ns = 0,
     fu_nsec_msb = 0, fu_nsec_nll = 0, fu_subns_ns = 0, scaledLastGmFreqChange_nl = 0\<rparr>"

definition sync_image :: "env \<Rightarrow> MDPTPMsgHeader \<Rightarrow> u8 list" where
  "sync_image e h = header_image (big_endian e) h @ replicate 10 0"

definition follow_up_image :: "env \<Rightarrow> MDPTPMsgFollowUp \<Rightarrow> u8 list" where
  "follow_up_image e m =
     header_image (big_endian e) (fm_head m) @ timestamp_image e (fm_originTimestamp m) @ tlv_image e (fm_tlv m)"

definition follow_up_overlay :: "env \<Rightarrow> u8 list \<Rightarrow> MDPTPMsgFollowUp" where
  "follow_up_overlay e bs =
     \<lparr>fm_head = header_overlay (big_endian e) bs, fm_originTimestamp = timestamp_overlay e (drop 34 bs),
      fm_tlv = tlv_overlay e (drop 44 bs)\<rparr>"

definition TWO_STEP_FLAG :: "MDPTPMsgHeader \<Rightarrow> bool" where
  "TWO_STEP_FLAG h \<longleftrightarrow> md_flags h ! 0 AND 0x02 \<noteq> 0"

text \<open>
  The buffer for Sync messages is as long as a one-step message; a two-step message
  overwrites the header and the timestamp only. \<open>old\<close> is \<open>None\<close> before the first message,
  when the buffer is zero.
\<close>

definition sync_copied :: "env \<Rightarrow> u8 list \<Rightarrow> MDPTPMsgFollowUp option \<Rightarrow> MDPTPMsgFollowUp" where
  "sync_copied e bs old =
     (let new = follow_up_overlay e bs
      in if TWO_STEP_FLAG (fm_head new)
         then new\<lparr>fm_tlv := (case old of None \<Rightarrow> zero_tlv | Some m \<Rightarrow> fm_tlv m)\<rparr> else new)"

section \<open>Reading the TLV\<close>

text \<open>\<^verbatim>\<open>ldexp((int32_t)ntohl(x), -41)\<close>\<close>

definition unscaled41 :: "u32 \<Rightarrow> real" where
  "unscaled41 x = of_int (sint x) / 2 ^ 41"

lemma c_trunc_near: "\<bar>of_int (c_trunc y) - y\<bar> < 1" "\<bar>of_int (c_trunc y)\<bar> \<le> \<bar>y\<bar>"
proof -
  have "\<bar>of_int (c_trunc y) - y\<bar> < 1 \<and> \<bar>of_int (c_trunc y)\<bar> \<le> \<bar>y\<bar>"
  proof (cases "0 \<le> y")
    case True
    then have "of_int \<lfloor>y\<rfloor> \<le> y" "y < of_int \<lfloor>y\<rfloor> + 1" "0 \<le> real_of_int \<lfloor>y\<rfloor>"
      using floor_correct [of y] by simp_all
    with True show ?thesis unfolding c_trunc_def if_P [OF True] by linarith
  next
    case False
    then have "y \<le> of_int \<lceil>y\<rceil>" "of_int \<lceil>y\<rceil> < y + 1" "real_of_int \<lceil>y\<rceil> \<le> 0" by (simp_all add: ceiling_le_zero) linarith
    with False show ?thesis unfolding c_trunc_def if_not_P [OF False] by linarith
  qed
  then show "\<bar>of_int (c_trunc y) - y\<bar> < 1" "\<bar>of_int (c_trunc y)\<bar> \<le> \<bar>y\<bar>" by blast+
qed

text \<open>What is written with \<^verbatim>\<open>ldexp(x, 41)\<close> is read back up to the fraction that was dropped.\<close>

lemma unscaled41_scaled41:
  assumes "\<bar>x\<bar> < 2 ^ 31 / 2 ^ 41"
  shows "\<bar>unscaled41 (scaled41 x) - x\<bar> < 1 / 2 ^ 41"
proof -
  let ?y = "x * 2 ^ 41"
  have y: "\<bar>?y\<bar> < 2 ^ 31" using assms by (simp add: abs_mult field_simps)
  have "\<bar>of_int (c_trunc ?y)\<bar> < (2 :: real) ^ 31" using c_trunc_near(2) [of ?y] y by linarith
  then have "real_of_int \<bar>c_trunc ?y\<bar> < of_int (2 ^ 31)" by simp
  then have t: "\<bar>c_trunc ?y\<bar> < 2 ^ 31" by (simp only: of_int_less_iff)
  have "sint (scaled41 x) = c_trunc ?y"
    using t by (simp add: scaled41_def signed_of_int signed_take_bit_int_eq_self)
  then have "unscaled41 (scaled41 x) - x = (of_int (c_trunc ?y) - ?y) / 2 ^ 41"
    by (simp add: unscaled41_def diff_divide_distrib)
  then have "\<bar>unscaled41 (scaled41 x) - x\<bar> = \<bar>of_int (c_trunc ?y) - ?y\<bar> / 2 ^ 41"
    by (simp only: abs_divide abs_power2 abs_numeral power_abs)
  with c_trunc_near(1) [of ?y] show ?thesis by (simp only: divide_strict_right_mono zero_less_power zero_less_numeral)
qed

end
