(* ===== verification/Gptp_SyncReceive.thy ===== *)
theory Gptp_SyncReceive
  imports Gptp_MdSync
begin

text \<open>
  The MDSyncReceive machine (\<^verbatim>\<open>md_sync_receive_sm.c\<close>, 11.2.14 of the standard): it pairs a
  Sync message with its follow-up and hands the information on.
\<close>

section \<open>State and procedures\<close>

datatype (plugins only: code) msr_state = MSR_INIT | MSR_DISCARD | MSR_WAIT_FOLLOW_UP | MSR_WAIT_SYNC | MSR_REACTION

record md_sync_receive_stat =
  sync_rec :: u32
  sync_rec_valid :: u32
  sync_fup_rec :: u32
  sync_fup_rec_valid :: u32

record md_sync_receive_data = "msr_state port_sm" +
  msr_mdeg :: MDEntityGlobal
  followUpReceiptTimeoutTime :: UScaledNs
  rcvdSync :: bool
  rcvdFollowUp :: bool
  rcvdSyncPtr :: "MDPTPMsgFollowUp option"
  rcvdFollowUpPtr :: "MDPTPMsgFollowUp option"
  upstreamSyncInterval :: UScaledNs
  mdSyncReceive :: MDSyncReceive
  rts :: u64
  rsync_ts :: u64
  rfup_ts :: u64
  msr_statd :: md_sync_receive_stat

abbreviation msr_active :: "md_sync_receive_data \<Rightarrow> bool" where
  "msr_active sm \<equiv> PORT_OPER sm \<and> PTP_PORT_ENABLED sm \<and> AS_CAPABLE sm"

abbreviation msr_asym :: "md_sync_receive_data \<Rightarrow> bool" where
  "msr_asym sm \<equiv> asymmetryMeasurementMode (forAllDomain (ppg sm))"

text \<open>The flag of the received Sync; it is read only when there is one.\<close>

abbreviation two_step :: "md_sync_receive_data \<Rightarrow> bool" where
  "two_step sm \<equiv> TWO_STEP_FLAG (fm_head (the (rcvdSyncPtr sm)))"

subsection \<open>Handing on\<close>

text \<open>The correction field holds nanoseconds times \<open>2 ^ 16\<close>; it is shifted as an unsigned number.\<close>

definition correction_ns :: "env \<Rightarrow> MDPTPMsgHeader \<Rightarrow> u64" where
  "correction_ns e h = drop_bit 16 (hton (big_endian e) (correctionField_nll h))"

definition timestamp_read :: "env \<Rightarrow> MDTimestamp \<Rightarrow> Timestamp" where
  "timestamp_read e t =
     \<lparr>nanoseconds = hton (big_endian e) (nanoseconds_nl t), seconds_lsb = hton (big_endian e) (seconds_lsb_nl t),
      seconds_msb = hton (big_endian e) (seconds_msb_ns t)\<rparr>"

definition phase_read :: "env \<Rightarrow> MDFollowUpInformationTLV \<Rightarrow> ScaledNs" where
  "phase_read e t =
     \<lparr>s_subns = hton (big_endian e) (fu_subns_ns t), s_nsec = hton (big_endian e) (fu_nsec_nll t),
      s_nsec_msb = hton (big_endian e) (fu_nsec_msb t)\<rparr>"

text \<open>
  The time at which the neighbour sent the Sync, in this system's time: the receipt time
  less the delay of the link. The conversion of a negative or too large value to an
  unsigned integer is undefined in C, as is the division by a rate ratio of zero.
\<close>

definition upstream_tx_time :: "md_sync_receive_data \<Rightarrow> real \<Rightarrow> u64" where
  "upstream_tx_time sm ratio =
     of_int (c_trunc (of_int (uint (rts sm)) -
       of_int (uint (nsec (neighborPropDelay (forAllDomain (ppg sm))))) / neighborRateRatio (forAllDomain (ppg sm)) -
       of_int (uint (nsec (delayAsymmetry (forAllDomain (ppg sm))))) / ratio))"

text \<open>
  \<^verbatim>\<open>setMDSyncReceive\<close>. In the one-step branch the phase change is read from the last
  Follow_Up message, through a pointer that is null if there was none; \<open>None\<close> is a null access.
\<close>

definition setMDSyncReceive :: "env \<Rightarrow> md_sync_receive_data \<Rightarrow> MDSyncReceive option" where
  "setMDSyncReceive e sm =
     (case (rcvdSyncPtr sm, rcvdFollowUpPtr sm) of
        (Some s, Some f) \<Rightarrow>
          (let h = fm_head s; two = TWO_STEP_FLAG h;
               src = (if two then f else s);
               ratio = 1 + unscaled41 (hton (big_endian e) (cumulativeScaledRateOffset_nl (fm_tlv src)));
               cf = mr_followUpCorrectionField (mdSyncReceive sm)
           in Some ((mdSyncReceive sm)
                \<lparr>mr_domainNumber := md_domainNumber h,
                 mr_seqid := hton (big_endian e) (sequenceId_ns h),
                 mr_followUpCorrectionField := cf\<lparr>s_nsec := correction_ns e h +
                    (if two then correction_ns e (fm_head f) else 0)\<rparr>,
                 mr_preciseOriginTimestamp := timestamp_read e (fm_originTimestamp src),
                 mr_rateRatio := ratio,
                 mr_gmTimeBaseIndicator := hton (big_endian e) (gmTimeBaseIndicator_ns (fm_tlv src)),
                 mr_lastGmPhaseChange := phase_read e (fm_tlv f),
                 mr_lastGmFreqChange := unscaled41 (hton (big_endian e) (scaledLastGmFreqChange_nl (fm_tlv src))),
                 mr_sourcePortIdentity := \<lparr>clockIdentity = md_clockIdentity h,
                    portNumber = hton (big_endian e) (portNumber_ns h)\<rparr>,
                 mr_logMessageInterval := md_logMessageInterval h,
                 mr_upstreamTxTime := (mr_upstreamTxTime (mdSyncReceive sm))\<lparr>nsec := upstream_tx_time sm ratio\<rparr>\<rparr>))
      | _ \<Rightarrow> None)"

subsection \<open>Procedures and conditions of the states\<close>

definition msr_allstate_condition :: "md_sync_receive_data \<Rightarrow> md_sync_receive_data" where
  "msr_allstate_condition sm =
     (if BEGIN (ptasg sm) \<or> \<not> instanceEnable (ptasg sm) \<or> \<not> PORT_OPER sm \<or> \<not> PTP_PORT_ENABLED sm \<or> \<not> AS_CAPABLE sm
      then sm\<lparr>last_state := MSR_REACTION, state := MSR_DISCARD\<rparr> else sm)"

definition msr_discard_proc :: "md_sync_receive_data \<Rightarrow> md_sync_receive_data" where
  "msr_discard_proc sm = sm\<lparr>rcvdSync := False, rcvdFollowUp := False, rsync_ts := 0, rfup_ts := 0\<rparr>"

definition msr_discard_condition :: "md_sync_receive_data \<Rightarrow> md_sync_receive_data" where
  "msr_discard_condition sm =
     (if rcvdSync sm \<and> msr_active sm \<and> \<not> two_step sm \<and> \<not> msr_asym sm \<and> \<not> oneStepReceive (msr_mdeg sm)
      then sm\<lparr>last_state := MSR_REACTION, state := MSR_DISCARD\<rparr>
      else if rcvdSync sm \<and> msr_active sm \<and> two_step sm \<and> \<not> msr_asym sm then sm\<lparr>state := MSR_WAIT_FOLLOW_UP\<rparr>
      else if rcvdSync sm \<and> msr_active sm \<and> \<not> two_step sm \<and> \<not> msr_asym sm \<and> oneStepReceive (msr_mdeg sm)
      then sm\<lparr>state := MSR_WAIT_SYNC\<rparr>
      else sm\<lparr>state := MSR_DISCARD\<rparr>)"

definition waiting_for_follow_up_proc :: "env \<Rightarrow> u64 \<Rightarrow> md_sync_receive_data \<Rightarrow> md_sync_receive_data option" where
  "waiting_for_follow_up_proc e cts64 sm =
     (case rcvdSyncPtr sm of
        None \<Rightarrow> None
      | Some s \<Rightarrow>
          let sm1 = sm\<lparr>rsync_ts := if rcvdSync sm then cts64 else rsync_ts sm\<rparr>;
              interval = LOG_TO_NSEC e (sint (md_logMessageInterval (fm_head s)))
          in Some (sm1\<lparr>msr_statd := (msr_statd sm1)\<lparr>sync_rec_valid := sync_rec_valid (msr_statd sm1) + 1\<rparr>,
               rcvdSync := False,
               upstreamSyncInterval := (upstreamSyncInterval sm1)\<lparr>nsec := interval\<rparr>,
               followUpReceiptTimeoutTime := (followUpReceiptTimeoutTime sm1)\<lparr>nsec := cts64 + interval\<rparr>\<rparr>))"

definition waiting_for_follow_up_condition ::
  "u64 \<Rightarrow> md_sync_receive_data \<Rightarrow> md_sync_receive_data option" where
  "waiting_for_follow_up_condition cts64 sm =
     (if rcvdSync sm \<and> msr_active sm \<and> two_step sm
      then Some (sm\<lparr>last_state := MSR_REACTION, state := MSR_WAIT_FOLLOW_UP\<rparr>)
      else if rcvdFollowUp sm \<and> (rcvdFollowUpPtr sm = None \<or> rcvdSyncPtr sm = None) then None
      else if rcvdFollowUp sm \<and>
        sequenceId_ns (fm_head (the (rcvdFollowUpPtr sm))) = sequenceId_ns (fm_head (the (rcvdSyncPtr sm)))
      then Some (sm\<lparr>state := MSR_WAIT_SYNC\<rparr>)
      else let sm1 = sm\<lparr>rcvdFollowUp := False\<rparr>
           in if rcvdSync sm1 \<and> msr_active sm1 \<and> \<not> two_step sm1 \<and> oneStepReceive (msr_mdeg sm1)
              then Some (sm1\<lparr>state := MSR_WAIT_SYNC\<rparr>)
              else if cts64 \<ge> nsec (followUpReceiptTimeoutTime sm1) \<and> \<not> msr_asym sm1 \<or>
                rcvdSync sm1 \<and> msr_active sm1 \<and> \<not> two_step sm1 \<and> \<not> msr_asym sm1 \<and> \<not> oneStepReceive (msr_mdeg sm1)
              then Some (sm1\<lparr>state := MSR_DISCARD\<rparr>)
              else Some (sm1\<lparr>state := MSR_WAIT_FOLLOW_UP\<rparr>))"

definition waiting_for_sync_proc ::
  "env \<Rightarrow> u64 \<Rightarrow> md_sync_receive_data \<Rightarrow> (MDSyncReceive \<times> md_sync_receive_data) option" where
  "waiting_for_sync_proc e cts64 sm =
     (let sm1 = sm\<lparr>rcvdSync := False\<rparr>;
          sm2 = sm1\<lparr>rfup_ts := if rcvdFollowUp sm1 then cts64 else rfup_ts sm1\<rparr>;
          sm3 = sm2\<lparr>msr_statd := (msr_statd sm2)\<lparr>sync_fup_rec_valid := sync_fup_rec_valid (msr_statd sm2) + 1\<rparr>,
                    rcvdFollowUp := False\<rparr>
      in case setMDSyncReceive e sm3 of None \<Rightarrow> None | Some m \<Rightarrow> Some (m, sm3\<lparr>mdSyncReceive := m\<rparr>))"

definition waiting_for_sync_condition :: "md_sync_receive_data \<Rightarrow> md_sync_receive_data" where
  "waiting_for_sync_condition sm =
     (if rcvdSync sm \<and> msr_active sm \<and> \<not> two_step sm \<and> \<not> msr_asym sm \<and> oneStepReceive (msr_mdeg sm)
      then sm\<lparr>last_state := MSR_REACTION, state := MSR_WAIT_SYNC\<rparr>
      else if rcvdSync sm \<and> msr_active sm \<and> two_step sm \<and> \<not> msr_asym sm then sm\<lparr>state := MSR_WAIT_FOLLOW_UP\<rparr>
      else if rcvdSync sm \<and> msr_active sm \<and> \<not> two_step sm \<and> \<not> msr_asym sm \<and> \<not> oneStepReceive (msr_mdeg sm)
      then sm\<lparr>state := MSR_DISCARD\<rparr>
      else sm\<lparr>rcvdFollowUp := False, state := MSR_WAIT_SYNC\<rparr>)"

section \<open>The machine\<close>

definition msr_body ::
  "env \<Rightarrow> u64 \<Rightarrow> bool \<Rightarrow> md_sync_receive_data \<Rightarrow> md_sync_receive_data \<times> MDSyncReceive ctl" where
  "msr_body e cts64 state_change sm =
     (case state sm of
        MSR_INIT \<Rightarrow> (sm\<lparr>state := MSR_DISCARD\<rparr>, Next)
      | MSR_DISCARD \<Rightarrow> (msr_discard_condition (if state_change then msr_discard_proc sm else sm), Next)
      | MSR_WAIT_FOLLOW_UP \<Rightarrow>
          (case (if state_change then waiting_for_follow_up_proc e cts64 sm else Some sm) of
             None \<Rightarrow> (sm, Crash)
           | Some sm1 \<Rightarrow>
               (case waiting_for_follow_up_condition cts64 sm1 of
                  None \<Rightarrow> (sm1, Crash) | Some sm2 \<Rightarrow> (sm2, Next)))
      | MSR_WAIT_SYNC \<Rightarrow>
          (if state_change then
             (case waiting_for_sync_proc e cts64 sm of
                None \<Rightarrow> (sm, Crash)
              | Some (m, sm1) \<Rightarrow> (waiting_for_sync_condition sm1, Return m))
           else (waiting_for_sync_condition sm, Next))
      | MSR_REACTION \<Rightarrow> (sm, Next))"

definition md_sync_receive_sm ::
  "env \<Rightarrow> md_sync_receive_data \<Rightarrow> u64 \<Rightarrow> (md_sync_receive_data \<times> MDSyncReceive ctl) option" where
  "md_sync_receive_sm e sm cts64 = sm_loop (msr_body e cts64) (msr_allstate_condition sm)"

definition md_sync_receive_sm_init ::
  "PerTimeAwareSystemGlobal \<Rightarrow> PerPortGlobal \<Rightarrow> MDEntityGlobal \<Rightarrow> md_sync_receive_data" where
  "md_sync_receive_sm_init pt pp md =
     \<lparr>state = MSR_INIT, last_state = MSR_INIT, ptasg = pt, ppg = pp, msr_mdeg = md,
      followUpReceiptTimeoutTime = zero_UScaledNs, rcvdSync = False, rcvdFollowUp = False,
      rcvdSyncPtr = None, rcvdFollowUpPtr = None, upstreamSyncInterval = zero_UScaledNs,
      mdSyncReceive = zero_MDSyncReceive, rts = 0, rsync_ts = 0, rfup_ts = 0,
      msr_statd = \<lparr>sync_rec = 0, sync_rec_valid = 0, sync_fup_rec = 0, sync_fup_rec_valid = 0\<rparr>\<rparr>"

text \<open>The result of the machine is dropped when a Sync arrives, and returned when a follow-up does.\<close>

definition md_sync_receive_sm_recv_sync ::
  "env \<Rightarrow> md_sync_receive_data \<Rightarrow> u8 list \<Rightarrow> u64 \<Rightarrow> u64 \<Rightarrow> (md_sync_receive_data \<times> MDSyncReceive ctl) option" where
  "md_sync_receive_sm_recv_sync e sm bs ts64 cts64 =
     (case md_sync_receive_sm e (sm\<lparr>rcvdSync := True, rcvdSyncPtr := Some (sync_copied e bs (rcvdSyncPtr sm)), rts := ts64,
          msr_statd := (msr_statd sm)\<lparr>sync_rec := sync_rec (msr_statd sm) + 1\<rparr>\<rparr>) cts64 of
        None \<Rightarrow> None
      | Some (sm1, c) \<Rightarrow> Some (sm1, case c of Crash \<Rightarrow> Crash | _ \<Rightarrow> Next))"

definition md_sync_receive_sm_recv_fup ::
  "env \<Rightarrow> md_sync_receive_data \<Rightarrow> u8 list \<Rightarrow> u64 \<Rightarrow> (md_sync_receive_data \<times> MDSyncReceive ctl) option" where
  "md_sync_receive_sm_recv_fup e sm bs cts64 =
     md_sync_receive_sm e (sm\<lparr>rcvdFollowUp := True, rcvdFollowUpPtr := Some (follow_up_overlay e bs),
       msr_statd := (msr_statd sm)\<lparr>sync_fup_rec := sync_fup_rec (msr_statd sm) + 1\<rparr>\<rparr>) cts64"

definition md_sync_receive_stat_reset :: "md_sync_receive_data \<Rightarrow> md_sync_receive_data" where
  "md_sync_receive_stat_reset sm =
     sm\<lparr>msr_statd := \<lparr>sync_rec = 0, sync_rec_valid = 0, sync_fup_rec = 0, sync_fup_rec_valid = 0\<rparr>\<rparr>"

section \<open>The contract of the machine\<close>

text \<open>One-step reception is off in this version of the program, so no one-step message is taken.\<close>

definition msr_inv :: "md_sync_receive_data \<Rightarrow> bool" where
  "msr_inv sm \<longleftrightarrow> \<not> oneStepReceive (msr_mdeg sm) \<and>
     (rcvdSync sm \<or> state sm = MSR_WAIT_FOLLOW_UP \<or> state sm = MSR_WAIT_SYNC \<longrightarrow> rcvdSyncPtr sm \<noteq> None) \<and>
     (rcvdFollowUp sm \<or> state sm = MSR_WAIT_SYNC \<longrightarrow> rcvdFollowUpPtr sm \<noteq> None)"

fun msr_rank :: "md_sync_receive_data \<Rightarrow> nat" where
  "msr_rank sm =
     (case state sm of
        MSR_INIT \<Rightarrow> 2
      | MSR_DISCARD \<Rightarrow> if last_state sm = MSR_DISCARD then 4 else 1
      | MSR_WAIT_FOLLOW_UP \<Rightarrow> if last_state sm = MSR_WAIT_FOLLOW_UP then 4 else 3
      | MSR_WAIT_SYNC \<Rightarrow> if last_state sm = MSR_WAIT_SYNC then 4 else 0
      | MSR_REACTION \<Rightarrow> 0)"

definition msr_good :: "md_sync_receive_data \<Rightarrow> md_sync_receive_data \<Rightarrow> MDSyncReceive ctl \<Rightarrow> bool" where
  "msr_good s t c \<longleftrightarrow> msr_inv t \<and> c \<noteq> Crash \<and> (c = Next \<and> last_state t \<noteq> state t \<longrightarrow> msr_rank t < msr_rank s)"

lemma follow_up_proc_frame:
  assumes "waiting_for_follow_up_proc e cts s = Some t"
  shows "state t = state s" "last_state t = last_state s" "msr_mdeg t = msr_mdeg s" "\<not> rcvdSync t"
    "rcvdSyncPtr t = rcvdSyncPtr s" "rcvdFollowUp t = rcvdFollowUp s" "rcvdFollowUpPtr t = rcvdFollowUpPtr s"
  using assms by (auto simp: waiting_for_follow_up_proc_def Let_def split: option.splits)

definition msr_frame :: "md_sync_receive_data \<Rightarrow> md_sync_receive_data \<Rightarrow> bool" where
  "msr_frame s t \<longleftrightarrow> msr_mdeg t = msr_mdeg s \<and> rcvdSync t = rcvdSync s \<and> rcvdSyncPtr t = rcvdSyncPtr s \<and>
     rcvdFollowUpPtr t = rcvdFollowUpPtr s \<and> (rcvdFollowUp t \<longrightarrow> rcvdFollowUp s)"

lemma follow_up_condition_result:
  assumes "waiting_for_follow_up_condition cts s = Some t"
  shows "msr_frame s t \<and>
    (last_state t = last_state s \<or> rcvdSync s \<and> last_state t = MSR_REACTION \<and> state t = MSR_WAIT_FOLLOW_UP) \<and>
    (state t = MSR_WAIT_SYNC \<and> (rcvdFollowUp s \<or> oneStepReceive (msr_mdeg s)) \<or>
     state t = MSR_DISCARD \<or> state t = MSR_WAIT_FOLLOW_UP)"
proof -
  have "case waiting_for_follow_up_condition cts s of None \<Rightarrow> True | Some t \<Rightarrow> msr_frame s t \<and>
    (last_state t = last_state s \<or> rcvdSync s \<and> last_state t = MSR_REACTION \<and> state t = MSR_WAIT_FOLLOW_UP) \<and>
    (state t = MSR_WAIT_SYNC \<and> (rcvdFollowUp s \<or> oneStepReceive (msr_mdeg s)) \<or>
     state t = MSR_DISCARD \<or> state t = MSR_WAIT_FOLLOW_UP)"
    unfolding waiting_for_follow_up_condition_def Let_def msr_frame_def by simp
  with assms show ?thesis by simp
qed

lemma follow_up_condition_defined:
  assumes "rcvdFollowUp s \<Longrightarrow> rcvdFollowUpPtr s \<noteq> None" "rcvdSyncPtr s \<noteq> None"
  shows "waiting_for_follow_up_condition cts s \<noteq> None"
proof -
  have "\<not> (rcvdFollowUp s \<and> (rcvdFollowUpPtr s = None \<or> rcvdSyncPtr s = None))" using assms by blast
  then show ?thesis unfolding waiting_for_follow_up_condition_def Let_def by (simp only: if_False) simp
qed

lemma follow_up_entered:
  assumes "(if last_state s \<noteq> MSR_WAIT_FOLLOW_UP then waiting_for_follow_up_proc e cts (s\<lparr>last_state := MSR_WAIT_FOLLOW_UP\<rparr>)
    else Some (s\<lparr>last_state := MSR_WAIT_FOLLOW_UP\<rparr>)) = Some v" and "state s = MSR_WAIT_FOLLOW_UP"
  shows "state v = MSR_WAIT_FOLLOW_UP" "last_state v = MSR_WAIT_FOLLOW_UP" "msr_mdeg v = msr_mdeg s"
      "rcvdSyncPtr v = rcvdSyncPtr s" "rcvdFollowUpPtr v = rcvdFollowUpPtr s" "rcvdFollowUp v = rcvdFollowUp s"
      "rcvdSync v \<Longrightarrow> last_state s = MSR_WAIT_FOLLOW_UP \<and> rcvdSync s"
proof -
  have "state v = MSR_WAIT_FOLLOW_UP \<and> last_state v = MSR_WAIT_FOLLOW_UP \<and> msr_mdeg v = msr_mdeg s \<and>
      rcvdSyncPtr v = rcvdSyncPtr s \<and> rcvdFollowUpPtr v = rcvdFollowUpPtr s \<and> rcvdFollowUp v = rcvdFollowUp s \<and>
      (rcvdSync v \<longrightarrow> last_state s = MSR_WAIT_FOLLOW_UP \<and> rcvdSync s)"
  proof (cases "last_state s = MSR_WAIT_FOLLOW_UP")
    case True
    with assms have "v = s\<lparr>last_state := MSR_WAIT_FOLLOW_UP\<rparr>" by simp
    with True assms(2) show ?thesis by simp
  next
    case False
    with assms have "waiting_for_follow_up_proc e cts (s\<lparr>last_state := MSR_WAIT_FOLLOW_UP\<rparr>) = Some v" by simp
    from follow_up_proc_frame [OF this] assms(2) show ?thesis by simp
  qed
  then show "state v = MSR_WAIT_FOLLOW_UP" "last_state v = MSR_WAIT_FOLLOW_UP" "msr_mdeg v = msr_mdeg s"
      "rcvdSyncPtr v = rcvdSyncPtr s" "rcvdFollowUpPtr v = rcvdFollowUpPtr s" "rcvdFollowUp v = rcvdFollowUp s"
      "rcvdSync v \<Longrightarrow> last_state s = MSR_WAIT_FOLLOW_UP \<and> rcvdSync s" by blast+
qed

lemma sync_proc_defined:
  assumes "rcvdSyncPtr s \<noteq> None" "rcvdFollowUpPtr s \<noteq> None"
  shows "\<exists>m t. waiting_for_sync_proc e cts s = Some (m, t) \<and> state t = state s \<and> last_state t = last_state s \<and>
    msr_mdeg t = msr_mdeg s \<and> \<not> rcvdSync t \<and> \<not> rcvdFollowUp t \<and> rcvdSyncPtr t = rcvdSyncPtr s \<and>
    rcvdFollowUpPtr t = rcvdFollowUpPtr s"
  using assms by (auto simp: waiting_for_sync_proc_def Let_def setMDSyncReceive_def)

lemma sync_condition_result:
  "msr_frame s (waiting_for_sync_condition s)"
  "state (waiting_for_sync_condition s) = MSR_WAIT_SYNC \<and>
     (last_state (waiting_for_sync_condition s) = last_state s \<or>
      rcvdSync s \<and> last_state (waiting_for_sync_condition s) = MSR_REACTION) \<or>
   rcvdSync s \<and> last_state (waiting_for_sync_condition s) = last_state s \<and>
     (state (waiting_for_sync_condition s) = MSR_DISCARD \<or> state (waiting_for_sync_condition s) = MSR_WAIT_FOLLOW_UP)"
  by (simp_all add: waiting_for_sync_condition_def msr_frame_def)

lemma discard_condition_result:
  assumes "\<not> oneStepReceive (msr_mdeg s)"
  shows "msr_frame s (msr_discard_condition s)"
  "state (msr_discard_condition s) = MSR_DISCARD \<and>
     (last_state (msr_discard_condition s) = last_state s \<or>
      rcvdSync s \<and> last_state (msr_discard_condition s) = MSR_REACTION) \<or>
   rcvdSync s \<and> last_state (msr_discard_condition s) = last_state s \<and> state (msr_discard_condition s) = MSR_WAIT_FOLLOW_UP"
  using assms by (simp_all add: msr_discard_condition_def msr_frame_def)

text \<open>A pass that ends with \<open>t\<close> after its procedure has left \<open>v\<close>.\<close>

lemma msr_goodI:
  assumes "msr_inv s" "msr_frame v t" "msr_mdeg v = msr_mdeg s" "rcvdSyncPtr v = rcvdSyncPtr s"
    "rcvdFollowUpPtr v = rcvdFollowUpPtr s" "rcvdFollowUp v \<Longrightarrow> rcvdFollowUp s" "rcvdSync v \<Longrightarrow> rcvdSync s"
    and "state t = MSR_WAIT_FOLLOW_UP \<or> state t = MSR_WAIT_SYNC \<Longrightarrow> rcvdSyncPtr s \<noteq> None"
    and "state t = MSR_WAIT_SYNC \<Longrightarrow> rcvdFollowUpPtr s \<noteq> None"
    and "c \<noteq> Crash" "c = Next \<Longrightarrow> last_state t \<noteq> state t \<Longrightarrow> msr_rank t < msr_rank s"
  shows "msr_good s t c"
  using assms unfolding msr_good_def msr_inv_def msr_frame_def by (simp del: msr_rank.simps)

lemma msr_step_follow_up:
  assumes inv: "msr_inv s" and st: "state s = MSR_WAIT_FOLLOW_UP"
    and v: "state v = MSR_WAIT_FOLLOW_UP" "last_state v = MSR_WAIT_FOLLOW_UP" "msr_mdeg v = msr_mdeg s"
      "rcvdSyncPtr v = rcvdSyncPtr s" "rcvdFollowUpPtr v = rcvdFollowUpPtr s" "rcvdFollowUp v = rcvdFollowUp s"
      "rcvdSync v \<Longrightarrow> last_state s = MSR_WAIT_FOLLOW_UP \<and> rcvdSync s"
    and w: "waiting_for_follow_up_condition cts v = Some w"
  shows "msr_good s w Next"
proof -
  note r = follow_up_condition_result [OF w]
  have p: "rcvdSyncPtr s \<noteq> None" "rcvdFollowUp s \<longrightarrow> rcvdFollowUpPtr s \<noteq> None" "\<not> oneStepReceive (msr_mdeg s)"
    using inv st unfolding msr_inv_def by simp_all
  have "msr_rank w < msr_rank s" if "last_state w \<noteq> state w"
    using r v(1,2,7) st that by auto
  moreover have "state w = MSR_WAIT_SYNC \<longrightarrow> rcvdFollowUpPtr s \<noteq> None" using r p v(3,6) by auto
  ultimately show ?thesis
    using p(1) r v by (intro msr_goodI [OF inv, where v = v]) auto
qed

lemma msr_step_discard:
  assumes inv: "msr_inv s" and st: "state s = MSR_DISCARD"
    and v: "last_state v = MSR_DISCARD" "msr_mdeg v = msr_mdeg s" "rcvdSyncPtr v = rcvdSyncPtr s"
      "rcvdFollowUpPtr v = rcvdFollowUpPtr s" "rcvdFollowUp v \<Longrightarrow> rcvdFollowUp s"
      "rcvdSync v \<Longrightarrow> last_state s = MSR_DISCARD \<and> rcvdSync s"
  shows "msr_good s (msr_discard_condition v) Next"
proof -
  have p: "rcvdSync s \<longrightarrow> rcvdSyncPtr s \<noteq> None" "\<not> oneStepReceive (msr_mdeg v)"
    using inv v(2) unfolding msr_inv_def by simp_all
  note r = discard_condition_result [OF p(2)]
  have "msr_rank (msr_discard_condition v) < msr_rank s"
    if "last_state (msr_discard_condition v) \<noteq> state (msr_discard_condition v)"
    using r(2) v(1,6) st that by auto
  then show ?thesis
    using p(1) r v by (intro msr_goodI [OF inv, where v = v]) auto
qed

lemma msr_step_sync:
  assumes inv: "msr_inv s" and st: "state s = MSR_WAIT_SYNC"
    and v: "last_state v = MSR_WAIT_SYNC" "msr_mdeg v = msr_mdeg s" "rcvdSyncPtr v = rcvdSyncPtr s"
      "rcvdFollowUpPtr v = rcvdFollowUpPtr s" "rcvdFollowUp v \<Longrightarrow> rcvdFollowUp s" "rcvdSync v \<Longrightarrow> rcvdSync s"
      "c \<noteq> Crash" "c = Next \<Longrightarrow> last_state s = MSR_WAIT_SYNC"
  shows "msr_good s (waiting_for_sync_condition v) c"
proof -
  have p: "rcvdSyncPtr s \<noteq> None" "rcvdFollowUpPtr s \<noteq> None"
    using inv st unfolding msr_inv_def by simp_all
  note r = sync_condition_result [of v]
  have "msr_rank (waiting_for_sync_condition v) < msr_rank s"
    if "c = Next" "last_state (waiting_for_sync_condition v) \<noteq> state (waiting_for_sync_condition v)"
    using r(2) v(1,8) st that by auto
  then show ?thesis
    using p r v by (intro msr_goodI [OF inv, where v = v]) auto
qed

lemma msr_step_good:
  assumes inv: "msr_inv s"
    and step: "msr_body e cts (last_state s \<noteq> state s) (s\<lparr>last_state := state s\<rparr>) = (t, c)"
  shows "msr_good s t c"
proof (cases "state s")
  case MSR_INIT
  with inv step show ?thesis by (auto simp: msr_body_def msr_good_def msr_inv_def)
next
  case MSR_DISCARD
  let ?v = "if last_state s \<noteq> MSR_DISCARD then msr_discard_proc (s\<lparr>last_state := MSR_DISCARD\<rparr>) else s\<lparr>last_state := MSR_DISCARD\<rparr>"
  have c: "t = msr_discard_condition ?v" "c = Next"
    using step MSR_DISCARD by (auto simp: msr_body_def split: if_splits)
  show ?thesis unfolding c
    by (rule msr_step_discard [OF inv MSR_DISCARD]) (simp_all add: msr_discard_proc_def split: if_splits)
next
  case MSR_WAIT_FOLLOW_UP
  let ?u = "s\<lparr>last_state := MSR_WAIT_FOLLOW_UP\<rparr>"
  have "rcvdSyncPtr s \<noteq> None" using inv MSR_WAIT_FOLLOW_UP by (simp add: msr_inv_def)
  then have "waiting_for_follow_up_proc e cts ?u \<noteq> None" by (auto simp: waiting_for_follow_up_proc_def Let_def)
  then obtain v where v: "(if last_state s \<noteq> MSR_WAIT_FOLLOW_UP then waiting_for_follow_up_proc e cts ?u else Some ?u) = Some v"
    by (cases "last_state s = MSR_WAIT_FOLLOW_UP") auto
  note f = follow_up_entered [OF v MSR_WAIT_FOLLOW_UP]
  have "waiting_for_follow_up_condition cts v \<noteq> None"
    by (rule follow_up_condition_defined) (use f inv MSR_WAIT_FOLLOW_UP in \<open>auto simp: msr_inv_def\<close>)
  then obtain w where w: "waiting_for_follow_up_condition cts v = Some w" by blast
  have c: "t = w" "c = Next" using step MSR_WAIT_FOLLOW_UP v w by (auto simp: msr_body_def split: if_splits)
  show ?thesis unfolding c by (rule msr_step_follow_up [OF inv MSR_WAIT_FOLLOW_UP f w])
next
  case MSR_WAIT_SYNC
  let ?u = "s\<lparr>last_state := MSR_WAIT_SYNC\<rparr>"
  have p: "rcvdSyncPtr ?u \<noteq> None" "rcvdFollowUpPtr ?u \<noteq> None" using inv MSR_WAIT_SYNC by (simp_all add: msr_inv_def)
  obtain m v where v: "waiting_for_sync_proc e cts ?u = Some (m, v)"
      "last_state v = MSR_WAIT_SYNC" "msr_mdeg v = msr_mdeg s" "\<not> rcvdSync v" "\<not> rcvdFollowUp v"
      "rcvdSyncPtr v = rcvdSyncPtr s" "rcvdFollowUpPtr v = rcvdFollowUpPtr s"
    using sync_proc_defined [OF p, of e cts] by auto
  show ?thesis
  proof (cases "last_state s = MSR_WAIT_SYNC")
    case True
    have c: "t = waiting_for_sync_condition ?u" "c = Next"
      using step MSR_WAIT_SYNC True by (simp_all add: msr_body_def)
    show ?thesis unfolding c by (rule msr_step_sync [OF inv MSR_WAIT_SYNC]) (simp_all add: True)
  next
    case False
    have c: "t = waiting_for_sync_condition v" "c = Return m"
      using step MSR_WAIT_SYNC False v(1) by (simp_all add: msr_body_def)
    show ?thesis unfolding c by (rule msr_step_sync [OF inv MSR_WAIT_SYNC]) (use v in simp_all)
  qed
next
  case MSR_REACTION
  with inv step show ?thesis by (auto simp: msr_body_def msr_good_def msr_inv_def)
qed

interpretation msr: sm_safe "msr_body e cts" msr_inv msr_rank for e cts
  by unfold_locales (use msr_step_good in \<open>unfold msr_good_def, blast\<close>)+

end
