(* ===== verification/Gptp_SyncSend.thy ===== *)
theory Gptp_SyncSend
  imports Gptp_MdSync Gptp_Clock
begin

text \<open>
  The MDSyncSend machine (\<^verbatim>\<open>md_sync_send_sm.c\<close>, 11.2.15 of the standard): it sends a Sync
  message for every MDSyncSend structure, waits for the timestamp of its departure, and sends
  the Follow_Up message with it.
\<close>

section \<open>State and procedures\<close>

datatype (plugins only: code) mss_state =
    MSS_INIT
  | MSS_INITIALIZING
  | MSS_SEND_TWO_STEP
  | MSS_SEND_FOLLOW_UP
  | MSS_SEND_ONE_STEP
  | MSS_SET_CORRECTION
  | MSS_REACTION

record md_sync_send_stat =
  sync_send :: u32
  sync_fup_send :: u32

record md_sync_send_data = "mss_state port_sm" +
  mss_net :: bool
  mss_mdeg :: MDEntityGlobal
  mss_domainIndex :: nat
  mss_portIndex :: nat
  rcvdMDSync :: bool
  rcvdMDSyncPtr :: "MDSyncSend option"
  mss_rcvdMDTimestampReceive :: bool
  txSync_time :: u64
  sync_ts :: u64
  tsync_ts :: u64
  pgap_ts :: u64
  tfup_ts :: u64
  mss_statd :: md_sync_send_stat
  mss_mock_txts64 :: u64
  mss_sent :: "u8 list list" \<comment> \<open>the frames that the network has taken\<close>

definition mss_out :: "int \<Rightarrow> u8 list \<Rightarrow> md_sync_send_data \<Rightarrow> md_sync_send_data" where
  "mss_out r f sm = sm\<lparr>mss_sent := if 0 \<le> r then mss_sent sm @ [f] else mss_sent sm\<rparr>"

subsection \<open>The Sync message\<close>

definition sync_header :: "env \<Rightarrow> md_sync_send_data \<Rightarrow> MDSyncSend \<Rightarrow> MDPTPMsgHeader" where
  "sync_header e sm m =
     (md_header_compose e SYNC 44 (clockIdentity (ms_sourcePortIdentity m)) (portNumber (ms_sourcePortIdentity m))
        (syncSequenceId (mss_mdeg sm)) (currentLogSyncInterval (ppg sm)))
       \<lparr>md_logMessageInterval := ms_logMessageInterval m, md_domainNumber := ms_domainNumber m\<rparr>"

text \<open>\<open>None\<close> is a null access: the information to send is dereferenced before anything else.\<close>

definition setSyncTwoStep_txSync ::
  "env \<Rightarrow> net_io \<Rightarrow> u64 \<Rightarrow> md_sync_send_data \<Rightarrow> (int \<times> md_sync_send_data) option" where
  "setSyncTwoStep_txSync e io cts64 sm =
     (case rcvdMDSyncPtr sm of
        None \<Rightarrow> None
      | Some m \<Rightarrow>
          if \<not> mss_net sm then Some (- 1, sm)
          else let f = sync_image e (sync_header e sm m); res = net_send io f;
                   sm1 = sm\<lparr>pgap_ts := if pgap_ts sm = 0 then cts64 else pgap_ts sm\<rparr>
               in if res = - 1 then Some (- 1, sm1)
                  else Some (\<bar>res\<bar>, (mss_out res f sm1)
                    \<lparr>mss_mock_txts64 := if res < 0 then clock_now io else mss_mock_txts64 sm1,
                     mss_statd := (mss_statd sm1)\<lparr>sync_send := sync_send (mss_statd sm1) + 1\<rparr>,
                     tsync_ts := cts64, pgap_ts := 0\<rparr>))"

subsection \<open>The follow-up\<close>

text \<open>
  The grandmaster puts the residence time into the origin timestamp, another system into
  the correction field, multiplied by the rate ratio; the result of \<^verbatim>\<open>+=\<close> with a \<^verbatim>\<open>double\<close> is
  converted to a signed integer.
\<close>

definition residence :: "md_sync_send_data \<Rightarrow> MDSyncSend \<Rightarrow> u64" where
  "residence sm m = sync_ts sm - nsec (ms_upstreamTxTime m)"

definition follow_up_correction :: "bool \<Rightarrow> md_sync_send_data \<Rightarrow> MDSyncSend \<Rightarrow> u64" where
  "follow_up_correction gm sm m =
     (if gm then 0
      else of_int (c_trunc (of_int (sint (push_bit 16 (s_nsec (ms_followUpCorrectionField m)))) +
             ms_rateRatio m * of_int (uint (push_bit 16 (residence sm m))))))"

definition follow_up_origin :: "bool \<Rightarrow> md_sync_send_data \<Rightarrow> MDSyncSend \<Rightarrow> Timestamp" where
  "follow_up_origin gm sm m =
     (let t = ms_preciseOriginTimestamp m;
          cf = (if gm then sint (residence sm m) else 0);
          tsns = nanoseconds t + of_int cf
      in if uint tsns \<ge> UB_SEC_NS
         then \<lparr>nanoseconds = tsns - of_int UB_SEC_NS, seconds_lsb = seconds_lsb t + 1,
               seconds_msb = (if seconds_lsb t + 1 = 0 then seconds_msb t + 1 else seconds_msb t)\<rparr>
         else t\<lparr>nanoseconds := tsns\<rparr>)"

definition timestamp_written :: "env \<Rightarrow> Timestamp \<Rightarrow> MDTimestamp" where
  "timestamp_written e t =
     \<lparr>seconds_msb_ns = hton (big_endian e) (seconds_msb t), seconds_lsb_nl = hton (big_endian e) (seconds_lsb t),
      nanoseconds_nl = hton (big_endian e) (nanoseconds t)\<rparr>"

definition follow_up_header :: "env \<Rightarrow> bool \<Rightarrow> md_sync_send_data \<Rightarrow> MDSyncSend \<Rightarrow> PTPMsgHeader" where
  "follow_up_header e gm sm m =
     (md_header_template e FOLLOW_UP 76 (ms_sourcePortIdentity m) (syncSequenceId (mss_mdeg sm))
        (currentLogSyncInterval (ppg sm)))
       \<lparr>correctionField := follow_up_correction gm sm m, h_domainNumber := ms_domainNumber m\<rparr>"

definition follow_up_message :: "env \<Rightarrow> bool \<Rightarrow> md_sync_send_data \<Rightarrow> MDSyncSend \<Rightarrow> MDPTPMsgFollowUp" where
  "follow_up_message e gm sm m =
     \<lparr>fm_head = md_compose_head e (follow_up_header e gm sm m),
      fm_originTimestamp = timestamp_written e (follow_up_origin gm sm m),
      fm_tlv = md_followup_information_tlv_compose e (ms_rateRatio m) (ms_gmTimeBaseIndicator m)
        (ms_lastGmPhaseChange m) (ms_lastGmFreqChange m)\<rparr>"

definition setFollowUp_txFollowUp ::
  "env \<Rightarrow> net_io \<Rightarrow> gptpclock_data \<Rightarrow> u64 \<Rightarrow> md_sync_send_data \<Rightarrow> (int \<times> md_sync_send_data) option" where
  "setFollowUp_txFollowUp e io g cts64 sm =
     (case rcvdMDSyncPtr sm of
        None \<Rightarrow> None
      | Some m \<Rightarrow>
          if \<not> mss_net sm then None
          else let f = follow_up_image e (follow_up_message e (gptpclock_we_are_gm (mss_domainIndex sm) g) sm m);
                   res = net_send io f
               in if res = - 1 then Some (- 1, sm)
                  else Some (0, (mss_out res f sm)
                    \<lparr>mss_statd := (mss_statd sm)\<lparr>sync_fup_send := sync_fup_send (mss_statd sm) + 1\<rparr>, tfup_ts := cts64\<rparr>))"

subsection \<open>Procedures and conditions of the states\<close>

abbreviation mss_active :: "md_sync_send_data \<Rightarrow> bool" where
  "mss_active sm \<equiv> PORT_OPER sm \<and> PTP_PORT_ENABLED sm \<and> AS_CAPABLE sm"

abbreviation mss_asym :: "md_sync_send_data \<Rightarrow> bool" where
  "mss_asym sm \<equiv> asymmetryMeasurementMode (forAllDomain (ppg sm))"

definition mss_set_seqid :: "(u16 \<Rightarrow> u16) \<Rightarrow> md_sync_send_data \<Rightarrow> md_sync_send_data" where
  "mss_set_seqid f sm = sm\<lparr>mss_mdeg := (mss_mdeg sm)\<lparr>syncSequenceId := f (syncSequenceId (mss_mdeg sm))\<rparr>\<rparr>"

definition mss_allstate_condition :: "md_sync_send_data \<Rightarrow> md_sync_send_data" where
  "mss_allstate_condition sm =
     (if BEGIN (ptasg sm) \<or> \<not> instanceEnable (ptasg sm) \<or> \<not> PORT_OPER sm \<or> \<not> PTP_PORT_ENABLED sm \<or> \<not> AS_CAPABLE sm
      then sm\<lparr>last_state := MSS_REACTION, state := MSS_INITIALIZING\<rparr> else sm)"

definition mss_initializing_proc :: "net_io \<Rightarrow> md_sync_send_data \<Rightarrow> md_sync_send_data" where
  "mss_initializing_proc io sm =
     mss_set_seqid (\<lambda>_. rand16 io) (sm\<lparr>rcvdMDSync := False, mss_rcvdMDTimestampReceive := False\<rparr>)"

text \<open>What three conditions have in common.\<close>

definition mss_next_message :: "md_sync_send_data \<Rightarrow> mss_state \<Rightarrow> mss_state" where
  "mss_next_message sm stay =
     (if rcvdMDSync sm \<and> mss_active sm \<and> \<not> mss_asym sm \<and> \<not> oneStepTxOper (mss_mdeg sm) then MSS_SEND_TWO_STEP
      else if rcvdMDSync sm \<and> mss_active sm \<and> \<not> mss_asym sm \<and> oneStepTxOper (mss_mdeg sm) then MSS_SEND_ONE_STEP
      else stay)"

definition mss_initializing_condition :: "md_sync_send_data \<Rightarrow> mss_state" where
  "mss_initializing_condition sm = mss_next_message sm MSS_INITIALIZING"

definition send_sync_two_step_proc ::
  "env \<Rightarrow> net_io \<Rightarrow> u64 \<Rightarrow> md_sync_send_data \<Rightarrow> (int \<times> md_sync_send_data) option" where
  "send_sync_two_step_proc e io cts64 sm =
     (case setSyncTwoStep_txSync e io cts64 (sm\<lparr>rcvdMDSync := False\<rparr>) of
        None \<Rightarrow> None
      | Some (res, sm1) \<Rightarrow> if res < 0 then Some (- 1, sm1) else Some (0, sm1\<lparr>txSync_time := cts64\<rparr>))"

definition send_sync_two_step_condition :: "net_io \<Rightarrow> u64 \<Rightarrow> md_sync_send_data \<Rightarrow> md_sync_send_data" where
  "send_sync_two_step_condition io cts64 sm =
     (if mss_rcvdMDTimestampReceive sm then sm\<lparr>state := MSS_SEND_FOLLOW_UP\<rparr>
      else if mss_mock_txts64 sm \<noteq> 0
      then sm\<lparr>sync_ts := mss_mock_txts64 sm, mss_mock_txts64 := 0, state := MSS_SEND_FOLLOW_UP\<rparr>
      else if cts64 - txSync_time sm \<ge> txtslost_time io
      then sm\<lparr>last_state := MSS_REACTION, state := MSS_SEND_TWO_STEP\<rparr>
      else sm\<lparr>state := MSS_SEND_TWO_STEP\<rparr>)"

definition send_follow_up_proc ::
  "env \<Rightarrow> net_io \<Rightarrow> gptpclock_data \<Rightarrow> u64 \<Rightarrow> md_sync_send_data \<Rightarrow> (int \<times> md_sync_send_data) option" where
  "send_follow_up_proc e io g cts64 sm =
     (case setFollowUp_txFollowUp e io g cts64 (sm\<lparr>mss_rcvdMDTimestampReceive := False\<rparr>) of
        None \<Rightarrow> None
      | Some (res, sm1) \<Rightarrow> if res \<noteq> 0 then Some (- 1, sm1) else Some (0, mss_set_seqid (\<lambda>n. n + 1) sm1))"

definition send_follow_up_condition :: "md_sync_send_data \<Rightarrow> mss_state" where
  "send_follow_up_condition sm = mss_next_message sm MSS_SEND_FOLLOW_UP"

text \<open>Nothing is sent in the one-step states; sending is commented out in the source.\<close>

definition send_sync_one_step_proc :: "md_sync_send_data \<Rightarrow> md_sync_send_data" where
  "send_sync_one_step_proc sm = mss_set_seqid (\<lambda>n. n + 1) (sm\<lparr>rcvdMDSync := False\<rparr>)"

definition send_sync_one_step_condition :: "md_sync_send_data \<Rightarrow> mss_state" where
  "send_sync_one_step_condition sm =
     (if mss_rcvdMDTimestampReceive sm then MSS_SET_CORRECTION else MSS_SEND_ONE_STEP)"

definition set_correction_field_proc :: "md_sync_send_data \<Rightarrow> md_sync_send_data" where
  "set_correction_field_proc sm = sm\<lparr>mss_rcvdMDTimestampReceive := False\<rparr>"

text \<open>The second condition of the source repeats the first one, so it never leads to the one-step state.\<close>

definition set_correction_field_condition :: "md_sync_send_data \<Rightarrow> mss_state" where
  "set_correction_field_condition sm =
     (if rcvdMDSync sm \<and> mss_active sm \<and> \<not> mss_asym sm \<and> \<not> oneStepTxOper (mss_mdeg sm) then MSS_SEND_TWO_STEP
      else if rcvdMDSync sm \<and> mss_active sm \<and> \<not> mss_asym sm \<and> \<not> oneStepTxOper (mss_mdeg sm) then MSS_SEND_ONE_STEP
      else MSS_SET_CORRECTION)"

section \<open>The machine\<close>

text \<open>A call that sends a Sync returns 1.\<close>

definition mss_body ::
  "env \<Rightarrow> net_io \<Rightarrow> gptpclock_data \<Rightarrow> u64 \<Rightarrow> bool \<Rightarrow> md_sync_send_data \<Rightarrow> md_sync_send_data \<times> int ctl" where
  "mss_body e io g cts64 state_change sm =
     (case state sm of
        MSS_INIT \<Rightarrow> (sm\<lparr>state := MSS_INITIALIZING\<rparr>, Next)
      | MSS_INITIALIZING \<Rightarrow>
          (let sm1 = (if state_change then mss_initializing_proc io sm else sm)
           in (sm1\<lparr>state := mss_initializing_condition sm1\<rparr>, Next))
      | MSS_SEND_TWO_STEP \<Rightarrow>
          (if state_change then
             (case send_sync_two_step_proc e io cts64 sm of
                None \<Rightarrow> (sm, Crash)
              | Some (res, sm1) \<Rightarrow>
                  if res < 0 then (sm1\<lparr>last_state := MSS_REACTION\<rparr>, Return 0) else (sm1, Return 1))
           else (send_sync_two_step_condition io cts64 sm, Next))
      | MSS_SEND_FOLLOW_UP \<Rightarrow>
          (if state_change then
             (case send_follow_up_proc e io g cts64 sm of
                None \<Rightarrow> (sm, Crash)
              | Some (res, sm1) \<Rightarrow>
                  if res < 0 then (sm1\<lparr>last_state := MSS_REACTION\<rparr>, Return 0) else (sm1, Next))
           else (sm\<lparr>state := send_follow_up_condition sm\<rparr>, Next))
      | MSS_SEND_ONE_STEP \<Rightarrow>
          (let sm1 = (if state_change then send_sync_one_step_proc sm else sm)
           in (sm1\<lparr>state := send_sync_one_step_condition sm1\<rparr>, Next))
      | MSS_SET_CORRECTION \<Rightarrow>
          (let sm1 = (if state_change then set_correction_field_proc sm else sm)
           in (sm1\<lparr>state := set_correction_field_condition sm1\<rparr>, Next))
      | MSS_REACTION \<Rightarrow> (sm, Next))"

definition md_sync_send_sm ::
  "env \<Rightarrow> net_io \<Rightarrow> gptpclock_data \<Rightarrow> md_sync_send_data \<Rightarrow> u64 \<Rightarrow> (md_sync_send_data \<times> int ctl) option" where
  "md_sync_send_sm e io g sm cts64 = sm_loop (mss_body e io g cts64) (mss_allstate_condition sm)"

definition md_sync_send_sm_init ::
  "env \<Rightarrow> net_io \<Rightarrow> gptpclock_data \<Rightarrow> bool \<Rightarrow> nat \<Rightarrow> nat \<Rightarrow> PerTimeAwareSystemGlobal \<Rightarrow> PerPortGlobal \<Rightarrow> MDEntityGlobal \<Rightarrow>
   (md_sync_send_data \<times> int ctl) option" where
  "md_sync_send_sm_init e io g net di port pt pp md =
     md_sync_send_sm e io g
       \<lparr>state = MSS_INIT, last_state = MSS_INIT, ptasg = pt, ppg = pp, mss_net = net, mss_mdeg = md,
        mss_domainIndex = di, mss_portIndex = port, rcvdMDSync = False, rcvdMDSyncPtr = None,
        mss_rcvdMDTimestampReceive = False, txSync_time = 0, sync_ts = 0, tsync_ts = 0, pgap_ts = 0,
        tfup_ts = 0, mss_statd = \<lparr>sync_send = 0, sync_fup_send = 0\<rparr>, mss_mock_txts64 = 0, mss_sent = []\<rparr> 0"

definition md_sync_send_sm_mdSyncSend ::
  "env \<Rightarrow> net_io \<Rightarrow> gptpclock_data \<Rightarrow> md_sync_send_data \<Rightarrow> MDSyncSend \<Rightarrow> u64 \<Rightarrow> (md_sync_send_data \<times> int ctl) option" where
  "md_sync_send_sm_mdSyncSend e io g sm m cts64 =
     md_sync_send_sm e io g (sm\<lparr>rcvdMDSync := True, rcvdMDSyncPtr := Some m\<rparr>) cts64"

text \<open>The time of a Sync, converted from the clock of the port to the clock of the domain.\<close>

definition sync_departure ::
  "env \<Rightarrow> platform \<Rightarrow> gptpclock_data \<Rightarrow> md_sync_send_data \<Rightarrow> u64 \<Rightarrow> u64 \<times> gptpclock_data" where
  "sync_departure e p g sm ts64 =
     (let ci = (if conf e CONF_SINGLE_CLOCK_MODE \<noteq> 0 then 1 else int (mss_portIndex sm));
          ((r, ts), g1) = gptpclock_tsconv p ts64 ci 0 (thisClockIndex (ptasg sm)) (domainNumber (ptasg sm)) g
      in (ts, g1))"

text \<open>
  The timestamp of a Sync; \<open>abandon\<close> is the answer of \<^verbatim>\<open>md_abnormal_timestamp\<close>. Neither the
  state nor the sequence number of the timestamp is looked at. The clocks are returned after
  the conversion.
\<close>

definition md_sync_send_sm_txts ::
  "env \<Rightarrow> net_io \<Rightarrow> platform \<Rightarrow> gptpclock_data \<Rightarrow> bool \<Rightarrow> md_sync_send_data \<Rightarrow> u64 \<Rightarrow> u64 \<Rightarrow>
   (md_sync_send_data \<times> int ctl) option \<times> gptpclock_data" where
  "md_sync_send_sm_txts e io p g abandon sm ts64 cts64 =
     (if abandon then (Some (sm, Next), g)
      else let (ts, g1) = sync_departure e p g sm ts64
           in (md_sync_send_sm e io g1 (sm\<lparr>mss_rcvdMDTimestampReceive := True, sync_ts := ts\<rparr>) cts64, g1))"

definition md_sync_send_stat_reset :: "md_sync_send_data \<Rightarrow> md_sync_send_data" where
  "md_sync_send_stat_reset sm = sm\<lparr>mss_statd := \<lparr>sync_send = 0, sync_fup_send = 0\<rparr>\<rparr>"

section \<open>The contract of the machine\<close>

definition mss_inv :: "md_sync_send_data \<Rightarrow> bool" where
  "mss_inv sm \<longleftrightarrow> mss_net sm \<and>
     (rcvdMDSync sm \<or> state sm = MSS_SEND_TWO_STEP \<or> state sm = MSS_SEND_FOLLOW_UP \<longrightarrow> rcvdMDSyncPtr sm \<noteq> None)"

fun mss_rank :: "md_sync_send_data \<Rightarrow> nat" where
  "mss_rank sm =
     (if last_state sm = state sm then (case state sm of MSS_INIT \<Rightarrow> 2 | _ \<Rightarrow> 6)
      else case state sm of
        MSS_INIT \<Rightarrow> 2 | MSS_INITIALIZING \<Rightarrow> 1 | MSS_SEND_ONE_STEP \<Rightarrow> 4 | MSS_SET_CORRECTION \<Rightarrow> 3 | _ \<Rightarrow> 0)"

definition mss_good :: "md_sync_send_data \<Rightarrow> md_sync_send_data \<Rightarrow> int ctl \<Rightarrow> bool" where
  "mss_good s t c \<longleftrightarrow> mss_inv t \<and> c \<noteq> Crash \<and> (c = Next \<and> last_state t \<noteq> state t \<longrightarrow> mss_rank t < mss_rank s)"

lemma mss_frames [simp]:
  "state (mss_out r f s) = state s" "last_state (mss_out r f s) = last_state s" "mss_net (mss_out r f s) = mss_net s"
  "rcvdMDSync (mss_out r f s) = rcvdMDSync s" "rcvdMDSyncPtr (mss_out r f s) = rcvdMDSyncPtr s"
  "state (mss_set_seqid h s) = state s" "last_state (mss_set_seqid h s) = last_state s" "mss_net (mss_set_seqid h s) = mss_net s"
  "rcvdMDSync (mss_set_seqid h s) = rcvdMDSync s" "rcvdMDSyncPtr (mss_set_seqid h s) = rcvdMDSyncPtr s"
  by (simp_all add: mss_out_def mss_set_seqid_def)

lemma next_message_cases:
  "mss_next_message s x = x \<or> rcvdMDSync s \<and> (mss_next_message s x = MSS_SEND_TWO_STEP \<or> mss_next_message s x = MSS_SEND_ONE_STEP)"
  by (simp add: mss_next_message_def)

lemma correction_cases:
  "set_correction_field_condition s = MSS_SET_CORRECTION \<or>
   rcvdMDSync s \<and> set_correction_field_condition s = MSS_SEND_TWO_STEP"
  by (simp add: set_correction_field_condition_def)

lemma mss_goodI:
  assumes "mss_inv s" "mss_net t = mss_net s" "rcvdMDSyncPtr t = rcvdMDSyncPtr s" "rcvdMDSync t \<longrightarrow> rcvdMDSync s"
    and "state t = MSS_SEND_TWO_STEP \<or> state t = MSS_SEND_FOLLOW_UP \<longrightarrow> rcvdMDSyncPtr s \<noteq> None"
    and "c \<noteq> Crash" "c = Next \<and> last_state t \<noteq> state t \<longrightarrow> mss_rank t < mss_rank s"
  shows "mss_good s t c"
  using assms unfolding mss_good_def mss_inv_def by (simp del: mss_rank.simps)

lemma two_step_proc_defined:
  assumes "rcvdMDSyncPtr s \<noteq> None"
  shows "\<exists>r t. send_sync_two_step_proc e io cts s = Some (r, t) \<and> state t = state s \<and> last_state t = last_state s \<and>
    mss_net t = mss_net s \<and> \<not> rcvdMDSync t \<and> rcvdMDSyncPtr t = rcvdMDSyncPtr s"
  using assms by (auto simp: send_sync_two_step_proc_def setSyncTwoStep_txSync_def Let_def)

lemma follow_up_proc_defined:
  assumes "mss_net s" "rcvdMDSyncPtr s \<noteq> None"
  shows "\<exists>r t. send_follow_up_proc e io g cts s = Some (r, t) \<and> state t = state s \<and> last_state t = last_state s \<and>
    mss_net t \<and> rcvdMDSync t = rcvdMDSync s \<and> rcvdMDSyncPtr t = rcvdMDSyncPtr s"
  using assms by (auto simp: send_follow_up_proc_def setFollowUp_txFollowUp_def Let_def)

lemma mss_step_message:
  \<comment> \<open>a settled state that looks for the next message\<close>
  assumes "mss_inv s" "last_state s = state s" "state s \<noteq> MSS_INIT"
    and "x = state s \<or> rcvdMDSync s \<and> (x = MSS_SEND_TWO_STEP \<or> x = MSS_SEND_ONE_STEP)"
  shows "mss_good s (s\<lparr>last_state := state s, state := x\<rparr>) Next"
proof -
  have p: "rcvdMDSync s \<or> state s = MSS_SEND_TWO_STEP \<or> state s = MSS_SEND_FOLLOW_UP \<longrightarrow> rcvdMDSyncPtr s \<noteq> None"
    using assms(1) by (simp add: mss_inv_def)
  show ?thesis
    by (rule mss_goodI [OF assms(1)]) (use p assms(2-4) in \<open>auto split: mss_state.splits\<close>)
qed

lemma mss_step_one_step:
  assumes inv: "mss_inv s" and st: "state s = MSS_SEND_ONE_STEP \<or> state s = MSS_SET_CORRECTION"
    and v: "mss_net v = mss_net s" "rcvdMDSyncPtr v = rcvdMDSyncPtr s" "rcvdMDSync v \<longrightarrow> rcvdMDSync s"
      "last_state v = state s"
    and x: "x = state s \<or> state s = MSS_SEND_ONE_STEP \<and> x = MSS_SET_CORRECTION \<or> rcvdMDSync v \<and> x = MSS_SEND_TWO_STEP"
  shows "mss_good s (v\<lparr>state := x\<rparr>) Next"
proof (rule mss_goodI [OF inv])
  have p: "rcvdMDSync s \<longrightarrow> rcvdMDSyncPtr s \<noteq> None" using inv by (simp add: mss_inv_def)
  show "state (v\<lparr>state := x\<rparr>) = MSS_SEND_TWO_STEP \<or> state (v\<lparr>state := x\<rparr>) = MSS_SEND_FOLLOW_UP \<longrightarrow>
      rcvdMDSyncPtr s \<noteq> None"
    using p v(3) x st by auto
  show "Next = Next \<and> last_state (v\<lparr>state := x\<rparr>) \<noteq> state (v\<lparr>state := x\<rparr>) \<longrightarrow>
      mss_rank (v\<lparr>state := x\<rparr>) < mss_rank s"
    using x st v(4) by auto
qed (use v in simp_all)

lemma mss_step_good:
  assumes inv: "mss_inv s"
    and step: "mss_body e io g cts (last_state s \<noteq> state s) (s\<lparr>last_state := state s\<rparr>) = (t, c)"
  shows "mss_good s t c"
proof (cases "state s")
  case MSS_INIT
  with step have "t = s\<lparr>last_state := MSS_INIT, state := MSS_INITIALIZING\<rparr>" "c = Next" by (auto simp: mss_body_def)
  with MSS_INIT show ?thesis by (intro mss_goodI [OF inv]) simp_all
next
  case MSS_INITIALIZING
  show ?thesis
  proof (cases "last_state s = MSS_INITIALIZING")
    case True
    with step MSS_INITIALIZING have "t = s\<lparr>last_state := state s, state := mss_next_message (s\<lparr>last_state := MSS_INITIALIZING\<rparr>) MSS_INITIALIZING\<rparr>"
      "c = Next" by (auto simp: mss_body_def Let_def mss_initializing_condition_def)
    then show ?thesis
      using mss_step_message [OF inv, of "mss_next_message (s\<lparr>last_state := MSS_INITIALIZING\<rparr>) MSS_INITIALIZING"]
        next_message_cases [of "s\<lparr>last_state := MSS_INITIALIZING\<rparr>" MSS_INITIALIZING] MSS_INITIALIZING True by simp
  next
    case False
    let ?v = "mss_initializing_proc io (s\<lparr>last_state := MSS_INITIALIZING\<rparr>)"
    have v: "mss_net ?v = mss_net s" "rcvdMDSyncPtr ?v = rcvdMDSyncPtr s" "\<not> rcvdMDSync ?v" "last_state ?v = MSS_INITIALIZING"
      by (simp_all add: mss_initializing_proc_def)
    have "t = ?v\<lparr>state := MSS_INITIALIZING\<rparr>" "c = Next"
      using step MSS_INITIALIZING False v(3) next_message_cases [of ?v MSS_INITIALIZING]
      by (auto simp: mss_body_def Let_def mss_initializing_condition_def)
    then show ?thesis using v by (intro mss_goodI [OF inv]) simp_all
  qed
next
  case MSS_SEND_TWO_STEP
  have p: "rcvdMDSyncPtr s \<noteq> None" using inv MSS_SEND_TWO_STEP by (simp add: mss_inv_def)
  show ?thesis
  proof (cases "last_state s = MSS_SEND_TWO_STEP")
    case True
    let ?w = "send_sync_two_step_condition io cts (s\<lparr>last_state := MSS_SEND_TWO_STEP\<rparr>)"
    have c: "t = ?w" "c = Next" using step MSS_SEND_TWO_STEP True by (simp_all add: mss_body_def)
    have "mss_net ?w = mss_net s" "rcvdMDSyncPtr ?w = rcvdMDSyncPtr s" "rcvdMDSync ?w = rcvdMDSync s"
      "state ?w = MSS_SEND_FOLLOW_UP \<or> state ?w = MSS_SEND_TWO_STEP" by (simp_all add: send_sync_two_step_condition_def)
    then show ?thesis unfolding c
      by (intro mss_goodI [OF inv]) (use p True MSS_SEND_TWO_STEP in auto)
  next
    case False
    obtain r v where v: "send_sync_two_step_proc e io cts (s\<lparr>last_state := MSS_SEND_TWO_STEP\<rparr>) = Some (r, v)"
      "state v = MSS_SEND_TWO_STEP" "mss_net v = mss_net s" "\<not> rcvdMDSync v" "rcvdMDSyncPtr v = rcvdMDSyncPtr s"
      using two_step_proc_defined [of "s\<lparr>last_state := MSS_SEND_TWO_STEP\<rparr>" e io cts] p MSS_SEND_TWO_STEP by auto
    have "(t = v \<or> t = v\<lparr>last_state := MSS_REACTION\<rparr>) \<and> (c = Return 0 \<or> c = Return 1)"
      using step MSS_SEND_TWO_STEP False v(1) by (auto simp: mss_body_def split: if_splits)
    then show ?thesis using p v by (intro mss_goodI [OF inv]) auto
  qed
next
  case MSS_SEND_FOLLOW_UP
  have p: "rcvdMDSyncPtr s \<noteq> None" "mss_net s" using inv MSS_SEND_FOLLOW_UP by (simp_all add: mss_inv_def)
  show ?thesis
  proof (cases "last_state s = MSS_SEND_FOLLOW_UP")
    case True
    with step MSS_SEND_FOLLOW_UP have "t = s\<lparr>last_state := state s, state := mss_next_message (s\<lparr>last_state := MSS_SEND_FOLLOW_UP\<rparr>) MSS_SEND_FOLLOW_UP\<rparr>"
      "c = Next" by (auto simp: mss_body_def Let_def send_follow_up_condition_def)
    then show ?thesis
      using mss_step_message [OF inv, of "mss_next_message (s\<lparr>last_state := MSS_SEND_FOLLOW_UP\<rparr>) MSS_SEND_FOLLOW_UP"]
        next_message_cases [of "s\<lparr>last_state := MSS_SEND_FOLLOW_UP\<rparr>" MSS_SEND_FOLLOW_UP] MSS_SEND_FOLLOW_UP True by simp
  next
    case False
    obtain r v where v: "send_follow_up_proc e io g cts (s\<lparr>last_state := MSS_SEND_FOLLOW_UP\<rparr>) = Some (r, v)"
      "state v = MSS_SEND_FOLLOW_UP" "last_state v = MSS_SEND_FOLLOW_UP" "mss_net v" "rcvdMDSync v = rcvdMDSync s"
      "rcvdMDSyncPtr v = rcvdMDSyncPtr s"
      using follow_up_proc_defined [of "s\<lparr>last_state := MSS_SEND_FOLLOW_UP\<rparr>" e io g cts] p MSS_SEND_FOLLOW_UP by auto
    have "t = v \<and> c = Next \<or> t = v\<lparr>last_state := MSS_REACTION\<rparr> \<and> c = Return 0"
      using step MSS_SEND_FOLLOW_UP False v(1) by (auto simp: mss_body_def split: if_splits)
    then show ?thesis using p v by (intro mss_goodI [OF inv]) auto
  qed
next
  case MSS_SEND_ONE_STEP
  let ?v = "if last_state s \<noteq> MSS_SEND_ONE_STEP then send_sync_one_step_proc (s\<lparr>last_state := MSS_SEND_ONE_STEP\<rparr>)
    else s\<lparr>last_state := MSS_SEND_ONE_STEP\<rparr>"
  have c: "t = ?v\<lparr>state := send_sync_one_step_condition ?v\<rparr>" "c = Next"
    using step MSS_SEND_ONE_STEP by (auto simp: mss_body_def Let_def split: if_splits)
  have v: "mss_net ?v = mss_net s" "rcvdMDSyncPtr ?v = rcvdMDSyncPtr s" "rcvdMDSync ?v \<longrightarrow> rcvdMDSync s"
    "last_state ?v = MSS_SEND_ONE_STEP" by (simp_all add: send_sync_one_step_proc_def)
  show ?thesis unfolding c
    by (rule mss_step_one_step [OF inv disjI1 [OF MSS_SEND_ONE_STEP] v(1-3)])
      (use v(4) MSS_SEND_ONE_STEP in \<open>simp_all only: send_sync_one_step_condition_def, simp\<close>)
next
  case MSS_SET_CORRECTION
  let ?v = "if last_state s \<noteq> MSS_SET_CORRECTION then set_correction_field_proc (s\<lparr>last_state := MSS_SET_CORRECTION\<rparr>)
    else s\<lparr>last_state := MSS_SET_CORRECTION\<rparr>"
  have c: "t = ?v\<lparr>state := set_correction_field_condition ?v\<rparr>" "c = Next"
    using step MSS_SET_CORRECTION by (auto simp: mss_body_def Let_def split: if_splits)
  have v: "mss_net ?v = mss_net s" "rcvdMDSyncPtr ?v = rcvdMDSyncPtr s" "rcvdMDSync ?v \<longrightarrow> rcvdMDSync s"
    "last_state ?v = MSS_SET_CORRECTION" by (simp_all add: set_correction_field_proc_def)
  show ?thesis unfolding c
    by (rule mss_step_one_step [OF inv disjI2 [OF MSS_SET_CORRECTION] v(1-3)])
      (use v(4) MSS_SET_CORRECTION correction_cases [of ?v] in \<open>simp_all only:, blast\<close>)
next
  case MSS_REACTION
  with step have "t = s\<lparr>last_state := MSS_REACTION\<rparr>" "c = Next" by (auto simp: mss_body_def)
  with MSS_REACTION show ?thesis by (intro mss_goodI [OF inv]) simp_all
qed

interpretation mss: sm_safe "mss_body e io g cts" mss_inv mss_rank for e io g cts
  by unfold_locales (use mss_step_good in \<open>unfold mss_good_def, blast\<close>)+

end
