(* ===== verification/Gptp_PdelayReq.thy ===== *)
theory Gptp_PdelayReq
  imports Gptp_MdIo
begin

text \<open>
  The MDPdelayReq machine (\<^verbatim>\<open>md_pdelay_req_sm.c\<close>, 11.2.19 of the standard): it sends
  Pdelay_Req messages, evaluates the responses and follow-ups, and computes the
  rate ratio and the propagation delay of the link. Values of type \<^verbatim>\<open>double\<close> are
  reals here; the conversion to an integer drops the fraction as in C.
\<close>

section \<open>State and procedures\<close>

datatype (plugins only: code) pdr_state =
    PDR_INIT
  | PDR_NOT_ENABLED
  | PDR_INITIAL_SEND
  | PDR_RESET
  | PDR_SEND
  | PDR_WAIT_RESP
  | PDR_WAIT_FOLLOW_UP
  | PDR_WAIT_TIMER
  | PDR_REACTION

record pdelay_req_stat =
  pdelay_req_send :: u32
  pdelay_resp_rec :: u32
  pdelay_resp_rec_valid :: u32
  pdelay_resp_fup_rec :: u32
  pdelay_resp_fup_rec_valid :: u32

text \<open>
  The pointers to received messages and to the message sent lead to buffers of this
  structure; \<open>None\<close> is the null pointer they have until the buffer is first written.
\<close>

record md_pdelay_req_data = "pdr_state port_sm" +
  pdr_mdeg :: MDEntityGlobal
  pdr_net :: bool
  pdelayIntervalTimer :: UScaledNs
  rcvdPdelayResp :: bool
  recPdelayResp :: "MDPTPMsgPdelayResp option"
  rcvdPdelayRespFollowUp :: bool
  recPdelayRespFup :: "MDPTPMsgPdelayResp option"
  txPdelayReq :: "MDPTPMsgPdelayReq option"
  pdr_rcvdMDTimestampReceive :: bool
  pdelayReqSequenceId :: u16
  initPdelayRespReceived :: bool
  lostResponses :: u16
  neighborRateRatioValid :: bool
  detectedFaults :: u16
  portEnabled0 :: bool
  multiResponses :: u16
  t1ts64 :: u64
  t2ts64 :: u64
  t3ts64 :: u64
  t4ts64 :: u64
  pdr_cmlds_mode :: int
  pdr_statd :: pdelay_req_stat
  pdr_mock_txts64 :: u64
  prev_t1ts64 :: u64
  prev_t2ts64 :: u64
  pdr_sent :: "u8 list list" \<comment> \<open>the frames that the network has taken\<close>

text \<open>Assignments to the structures that the domains share.\<close>

definition pdr_port :: "(PerPortGlobalForAllDomain \<Rightarrow> PerPortGlobalForAllDomain) \<Rightarrow>
    md_pdelay_req_data \<Rightarrow> md_pdelay_req_data" where
  "pdr_port f sm = sm\<lparr>ppg := (ppg sm)\<lparr>forAllDomain := f (forAllDomain (ppg sm))\<rparr>\<rparr>"

definition pdr_md :: "(MDEntityGlobalForAllDomain \<Rightarrow> MDEntityGlobalForAllDomain) \<Rightarrow>
    md_pdelay_req_data \<Rightarrow> md_pdelay_req_data" where
  "pdr_md f sm = sm\<lparr>pdr_mdeg := (pdr_mdeg sm)\<lparr>md_forAllDomain := f (md_forAllDomain (pdr_mdeg sm))\<rparr>\<rparr>"

abbreviation pdr_fad :: "md_pdelay_req_data \<Rightarrow> PerPortGlobalForAllDomain" where
  "pdr_fad sm \<equiv> forAllDomain (ppg sm)"

abbreviation pdr_mfad :: "md_pdelay_req_data \<Rightarrow> MDEntityGlobalForAllDomain" where
  "pdr_mfad sm \<equiv> md_forAllDomain (pdr_mdeg sm)"

subsection \<open>Sending the request\<close>

definition pdelay_req_message :: "env \<Rightarrow> md_pdelay_req_data \<Rightarrow> MDPTPMsgPdelayReq" where
  "pdelay_req_message e sm =
     (let h = md_header_compose e PDELAY_REQ 54 (thisClock (ptasg sm)) (thisPort (ppg sm))
           (pdelayReqSequenceId sm) (currentLogPdelayReqInterval (pdr_mfad sm))
      in \<lparr>pq_head = (if pdr_cmlds_mode sm \<noteq> 0 \<and> receivedNonCMLDSPdelayReq (pdr_fad sm) \<noteq> 1
                     then set_sdo 0x20 h else h)\<rparr>)"

text \<open>
  \<^verbatim>\<open>setPdelayReq\<close>: without a network the composed buffer is null; the CMLDS branch
  writes through that pointer before it is checked.
\<close>

definition setPdelayReq :: "env \<Rightarrow> md_pdelay_req_data \<Rightarrow> tx_result \<times> md_pdelay_req_data" where
  "setPdelayReq e sm =
     (if \<not> pdr_net sm then
        (if pdr_cmlds_mode sm \<noteq> 0 \<and> receivedNonCMLDSPdelayReq (pdr_fad sm) \<noteq> 1
         then (TxNull, sm) else (TxNoBuffer, sm\<lparr>txPdelayReq := None\<rparr>))
      else (TxSent, sm\<lparr>txPdelayReq := Some (pdelay_req_message e sm)\<rparr>))"

text \<open>Composing and sending, as the two states that send do it.\<close>

definition txPdelayReq_out ::
  "env \<Rightarrow> net_io \<Rightarrow> md_pdelay_req_data \<Rightarrow> tx_result \<times> md_pdelay_req_data" where
  "txPdelayReq_out e io sm =
     (case setPdelayReq e sm of
        (TxSent, sm1) \<Rightarrow>
          let f = pdelay_req_image e (pdelay_req_message e sm); res = net_send io f
          in if res = - 1 then (TxFailed, sm1)
             else (TxSent, (if res < 0 then sm1\<lparr>pdr_mock_txts64 := clock_now io\<rparr>
                            else sm1\<lparr>pdr_sent := pdr_sent sm1 @ [f]\<rparr>)
                     \<lparr>pdr_statd := (pdr_statd sm1)\<lparr>pdelay_req_send := pdelay_req_send (pdr_statd sm1) + 1\<rparr>\<rparr>)
      | r \<Rightarrow> r)"

subsection \<open>Computing the link parameters\<close>

definition computePdelayRateRatio :: "md_pdelay_req_data \<Rightarrow> real \<Rightarrow> real \<times> md_pdelay_req_data" where
  "computePdelayRateRatio sm oldRateRatio =
     (let dt1 = t1ts64 sm - prev_t1ts64 sm; dt2 = t2ts64 sm - prev_t2ts64 sm;
          mind = nsec (pdelayReqInterval (pdr_mfad sm)) div 2;
          maxd = nsec (pdelayReqInterval (pdr_mfad sm)) + mind;
          inside = (mind < dt1 \<and> dt1 < maxd \<and> mind < dt2 \<and> dt2 < maxd);
          ratio = (if inside then of_int (uint dt2) / of_int (uint dt1) else 1)
      in ((oldRateRatio + ratio) / 2,
          (if inside then sm\<lparr>neighborRateRatioValid := True\<rparr> else sm)
            \<lparr>prev_t1ts64 := t1ts64 sm, prev_t2ts64 := t2ts64 sm\<rparr>))"

definition COMPUTED_PROP_TIME_TOO_BIG :: int where
  "COMPUTED_PROP_TIME_TOO_BIG = UB_SEC_NS div 100"

definition computePropTime :: "md_pdelay_req_data \<Rightarrow> u64" where
  "computePropTime sm =
     (let rts = c_trunc ((neighborRateRatio (pdr_fad sm) * of_int (sint (t4ts64 sm - t1ts64 sm)) -
                of_int (sint (t3ts64 sm - t2ts64 sm))) / 2)
      in if rts < 0 \<or> rts > COMPUTED_PROP_TIME_TOO_BIG then 0 else of_int rts)"

subsection \<open>Procedures and conditions of the states\<close>

definition pdr_allstate_condition :: "md_pdelay_req_data \<Rightarrow> pdr_state" where
  "pdr_allstate_condition sm =
     (if BEGIN (ptasg sm) \<or> \<not> PORT_OPER sm \<or> \<not> portEnabled0 sm then PDR_NOT_ENABLED else state sm)"

definition pdr_not_enabled_proc :: "env \<Rightarrow> md_pdelay_req_data \<Rightarrow> md_pdelay_req_data" where
  "pdr_not_enabled_proc e sm =
     (if conf e CONF_NEIGHBOR_PROP_DELAY \<noteq> 0 then
        pdr_md (\<lambda>m. m\<lparr>asCapableAcrossDomains := True\<rparr>)
          (pdr_port (\<lambda>p. p\<lparr>neighborRateRatio := 1,
               neighborPropDelay := (neighborPropDelay p)\<lparr>nsec := of_int (conf e CONF_NEIGHBOR_PROP_DELAY)\<rparr>,
               receivedNonCMLDSPdelayReq := 1\<rparr>) sm)
      else sm)"

definition pdr_not_enabled_condition :: "env \<Rightarrow> md_pdelay_req_data \<Rightarrow> pdr_state" where
  "pdr_not_enabled_condition e sm =
     (if conf e CONF_NEIGHBOR_PROP_DELAY \<noteq> 0 then PDR_NOT_ENABLED
      else if PORT_OPER sm \<and> portEnabled0 sm then PDR_INITIAL_SEND else PDR_NOT_ENABLED)"

definition initial_send_pdelay_req_proc ::
  "env \<Rightarrow> net_io \<Rightarrow> u64 \<Rightarrow> md_pdelay_req_data \<Rightarrow> tx_result \<times> md_pdelay_req_data" where
  "initial_send_pdelay_req_proc e io cts64 sm =
     (case txPdelayReq_out e io
         (pdr_port (\<lambda>p. p\<lparr>neighborRateRatio := 1\<rparr>)
           (sm\<lparr>initPdelayRespReceived := False, rcvdPdelayResp := False,
               rcvdPdelayRespFollowUp := False, prev_t1ts64 := 0, prev_t2ts64 := 0,
               pdr_rcvdMDTimestampReceive := False, pdelayReqSequenceId := rand16 io\<rparr>)) of
        (TxSent, sm1) \<Rightarrow>
          (TxSent, pdr_md (\<lambda>m. m\<lparr>isMeasuringDelay := False, asCapableAcrossDomains := False\<rparr>)
             (sm1\<lparr>pdelayIntervalTimer := (pdelayIntervalTimer sm1)\<lparr>subns := 0, nsec := cts64\<rparr>,
                  lostResponses := 0, multiResponses := 0, detectedFaults := 0\<rparr>))
      | r \<Rightarrow> r)"

definition pdr_elapsed :: "u64 \<Rightarrow> md_pdelay_req_data \<Rightarrow> u64" where
  "pdr_elapsed cts64 sm = cts64 - nsec (pdelayIntervalTimer sm)"

abbreviation pdr_timeout :: "u64 \<Rightarrow> md_pdelay_req_data \<Rightarrow> bool" where
  "pdr_timeout cts64 sm \<equiv> pdr_elapsed cts64 sm \<ge> nsec (pdelayReqInterval (pdr_mfad sm))"

definition initial_send_pdelay_req_condition ::
  "net_io \<Rightarrow> u64 \<Rightarrow> md_pdelay_req_data \<Rightarrow> md_pdelay_req_data" where
  "initial_send_pdelay_req_condition io cts64 sm =
     (if pdr_rcvdMDTimestampReceive sm then sm\<lparr>state := PDR_WAIT_RESP\<rparr>
      else if pdr_elapsed cts64 sm \<ge> txtslost_time io then
        (if pdr_mock_txts64 sm \<noteq> 0
         then sm\<lparr>t1ts64 := pdr_mock_txts64 sm, pdr_mock_txts64 := 0, state := PDR_WAIT_RESP\<rparr>
         else sm\<lparr>last_state := PDR_REACTION, state := PDR_INITIAL_SEND\<rparr>)
      else sm\<lparr>state := PDR_INITIAL_SEND\<rparr>)"

text \<open>The link is taken as not capable: what several branches do together.\<close>

definition pdr_incapable :: "md_pdelay_req_data \<Rightarrow> md_pdelay_req_data" where
  "pdr_incapable sm =
     pdr_port (\<lambda>p. p\<lparr>neighborRateRatio := 1\<rparr>)
       ((pdr_md (\<lambda>m. m\<lparr>asCapableAcrossDomains := False\<rparr>) sm)\<lparr>neighborRateRatioValid := False\<rparr>)"

definition pdr_reset_proc :: "md_pdelay_req_data \<Rightarrow> md_pdelay_req_data" where
  "pdr_reset_proc sm =
     (let sm1 = sm\<lparr>initPdelayRespReceived := False, rcvdPdelayResp := False\<rparr>;
          stop = pdr_md (\<lambda>m. m\<lparr>isMeasuringDelay := False\<rparr>);
          multi = (\<lambda>s. if conformToAvnu (ptasg s) \<and> multiResponses s \<noteq> 0 \<and>
                        multiResponses s \<ge> allowedLostResponses (pdr_mfad s)
                     then pdr_incapable (stop s) else s)
      in if lostResponses sm1 < allowedLostResponses (pdr_mfad sm1)
         then multi (sm1\<lparr>lostResponses := lostResponses sm1 + 1\<rparr>)
         else if \<not> asCapableAcrossDomains (pdr_mfad sm1) then stop sm1
         else multi (pdr_incapable (stop sm1)))"

definition CEASETIME_AVNU_MULTIRESPOSE :: int where
  "CEASETIME_AVNU_MULTIRESPOSE = 5 * 60 * UB_SEC_NS"

definition pdr_reset_condition :: "u64 \<Rightarrow> md_pdelay_req_data \<Rightarrow> md_pdelay_req_data" where
  "pdr_reset_condition cts64 sm =
     (let cease = conformToAvnu (ptasg sm) \<and> multiResponses sm \<ge> allowedLostResponses (pdr_mfad sm)
      in if cease \<and> uint (pdr_elapsed cts64 sm) < CEASETIME_AVNU_MULTIRESPOSE then sm\<lparr>state := PDR_RESET\<rparr>
         else let sm1 = (if cease then sm\<lparr>multiResponses := 0\<rparr> else sm)
              in sm1\<lparr>state := if pdr_timeout cts64 sm1 then PDR_SEND else PDR_RESET\<rparr>)"

definition send_pdelay_req_proc ::
  "env \<Rightarrow> net_io \<Rightarrow> u64 \<Rightarrow> md_pdelay_req_data \<Rightarrow> tx_result \<times> md_pdelay_req_data" where
  "send_pdelay_req_proc e io cts64 sm =
     (case txPdelayReq_out e io
         (sm\<lparr>rcvdPdelayResp := False, rcvdPdelayRespFollowUp := False,
             pdelayReqSequenceId := pdelayReqSequenceId sm + 1\<rparr>) of
        (TxSent, sm1) \<Rightarrow>
          (TxSent, sm1\<lparr>pdelayIntervalTimer := (pdelayIntervalTimer sm1)\<lparr>nsec := cts64\<rparr>\<rparr>)
      | r \<Rightarrow> r)"

definition send_pdelay_req_condition :: "net_io \<Rightarrow> u64 \<Rightarrow> md_pdelay_req_data \<Rightarrow> md_pdelay_req_data" where
  "send_pdelay_req_condition io cts64 sm =
     (if pdr_rcvdMDTimestampReceive sm then sm\<lparr>state := PDR_WAIT_RESP\<rparr>
      else if pdr_elapsed cts64 sm \<ge> txtslost_time io then
        (if pdr_mock_txts64 sm \<noteq> 0
         then sm\<lparr>t1ts64 := pdr_mock_txts64 sm, pdr_mock_txts64 := 0, state := PDR_WAIT_RESP\<rparr>
         else sm\<lparr>pdelayReqSequenceId := pdelayReqSequenceId sm - 1,
                 last_state := PDR_REACTION, state := PDR_SEND\<rparr>)
      else sm\<lparr>state := PDR_SEND\<rparr>)"

definition waiting_for_pdelay_resp_proc :: "md_pdelay_req_data \<Rightarrow> md_pdelay_req_data" where
  "waiting_for_pdelay_resp_proc sm = sm\<lparr>pdr_rcvdMDTimestampReceive := False\<rparr>"

text \<open>A null pointer or an invalid message leads to \<open>None\<close> (a null access) or to a state.\<close>

definition waiting_for_pdelay_resp_condition ::
  "env \<Rightarrow> u64 \<Rightarrow> md_pdelay_req_data \<Rightarrow> md_pdelay_req_data option" where
  "waiting_for_pdelay_resp_condition e cts64 sm =
     (if pdr_timeout cts64 sm then Some (sm\<lparr>state := PDR_RESET\<rparr>)
      else if \<not> rcvdPdelayResp sm then
        (if rcvdPdelayRespFollowUp sm \<and> (txPdelayReq sm = None \<or> recPdelayRespFup sm = None) then None
         else Some (sm\<lparr>rcvdPdelayRespFollowUp := False, state := PDR_WAIT_RESP\<rparr>))
      else case recPdelayResp sm of
        None \<Rightarrow> None
      | Some r \<Rightarrow>
          if md_clockIdentity (pr_head r) = thisClock (ptasg sm) then Some (sm\<lparr>state := PDR_RESET\<rparr>)
          else if mp_clockIdentity (requestingPortIdentity r) \<noteq> thisClock (ptasg sm)
          then Some (sm\<lparr>state := PDR_RESET\<rparr>)
          else if hton (big_endian e) (mp_portNumber_ns (requestingPortIdentity r)) \<noteq> thisPort (ppg sm)
          then Some (sm\<lparr>state := PDR_RESET\<rparr>)
          else if pdr_cmlds_mode sm = 0 \<and> sdo_of (pr_head r) \<noteq> 0x10
          then Some (sm\<lparr>state := PDR_WAIT_RESP\<rparr>)
          else case txPdelayReq sm of
            None \<Rightarrow> None
          | Some q \<Rightarrow>
              if sequenceId_ns (pr_head r) \<noteq> sequenceId_ns (pq_head q) \<and>
                 \<not> hton (big_endian e) (sequenceId_ns (pq_head q)) >
                   hton (big_endian e) (sequenceId_ns (pr_head r))
              then Some (sm\<lparr>state := PDR_RESET\<rparr>)
              else Some (sm\<lparr>state := PDR_WAIT_FOLLOW_UP\<rparr>))"

definition waiting_for_pdelay_resp_follow_up_proc :: "md_pdelay_req_data \<Rightarrow> md_pdelay_req_data" where
  "waiting_for_pdelay_resp_follow_up_proc sm =
     sm\<lparr>rcvdPdelayResp := False,
        pdr_statd := (pdr_statd sm)\<lparr>pdelay_resp_rec_valid := pdelay_resp_rec_valid (pdr_statd sm) + 1\<rparr>\<rparr>"

definition waiting_for_pdelay_resp_follow_up_condition ::
  "env \<Rightarrow> u64 \<Rightarrow> md_pdelay_req_data \<Rightarrow> md_pdelay_req_data option" where
  "waiting_for_pdelay_resp_follow_up_condition e cts64 sm =
     (if pdr_timeout cts64 sm then Some (sm\<lparr>state := PDR_RESET\<rparr>)
      else if rcvdPdelayResp sm \<and> (recPdelayResp sm = None \<or> txPdelayReq sm = None) then None
      else if rcvdPdelayResp sm \<and>
        sequenceId_ns (pr_head (the (recPdelayResp sm))) = sequenceId_ns (pq_head (the (txPdelayReq sm)))
      then Some (sm\<lparr>multiResponses := multiResponses sm + 1, state := PDR_RESET\<rparr>)
      else if \<not> rcvdPdelayRespFollowUp sm then Some (sm\<lparr>state := PDR_WAIT_FOLLOW_UP\<rparr>)
      else case recPdelayRespFup sm of
        None \<Rightarrow> None
      | Some f \<Rightarrow>
          if pdr_cmlds_mode sm = 0 \<and> sdo_of (pr_head f) \<noteq> 0x10 then Some (sm\<lparr>state := PDR_WAIT_FOLLOW_UP\<rparr>)
          else if md_clockIdentity (pr_head f) = thisClock (ptasg sm) then Some (sm\<lparr>state := PDR_RESET\<rparr>)
          else case txPdelayReq sm of
            None \<Rightarrow> None
          | Some q \<Rightarrow>
              if sequenceId_ns (pr_head f) \<noteq> sequenceId_ns (pq_head q)
              then Some (sm\<lparr>state := PDR_WAIT_FOLLOW_UP\<rparr>)
              else case recPdelayResp sm of
                None \<Rightarrow> None
              | Some r \<Rightarrow>
                  if head_source (pr_head f) = head_source (pr_head r) then Some (sm\<lparr>state := PDR_WAIT_TIMER\<rparr>)
                  else if mp_clockIdentity (requestingPortIdentity r) \<noteq> thisClock (ptasg sm) \<or>
                    hton (big_endian e) (mp_portNumber_ns (requestingPortIdentity r)) \<noteq> thisPort (ppg sm)
                  then Some (sm\<lparr>state := PDR_WAIT_FOLLOW_UP\<rparr>)
                  else Some (sm\<lparr>state := PDR_WAIT_TIMER\<rparr>))"

text \<open>The measurement of an exchange that is complete.\<close>

definition pdr_measure :: "md_pdelay_req_data \<Rightarrow> md_pdelay_req_data" where
  "pdr_measure sm =
     (let sm1 = (if computeNeighborRateRatio (pdr_fad sm) then
                   (let (ratio, s) = computePdelayRateRatio sm (neighborRateRatio (pdr_fad sm))
                    in pdr_port (\<lambda>p. p\<lparr>neighborRateRatio := ratio\<rparr>) s)
                 else sm\<lparr>neighborRateRatioValid := True\<rparr>);
          sm2 = (if computeNeighborPropDelay (pdr_fad sm1)
                 then pdr_port (\<lambda>p. p\<lparr>neighborPropDelay := (neighborPropDelay p)\<lparr>nsec := computePropTime sm1\<rparr>\<rparr>) sm1
                 else sm1)
      in pdr_md (\<lambda>m. m\<lparr>isMeasuringDelay := True\<rparr>) sm2)"

text \<open>The verdict on the link, with the two labels at the end of the procedure.\<close>

definition pdr_noascapable :: "md_pdelay_req_data \<Rightarrow> md_pdelay_req_data" where
  "pdr_noascapable sm =
     (pdr_md (\<lambda>m. m\<lparr>asCapableAcrossDomains := False, isMeasuringDelay := False\<rparr>) sm)\<lparr>detectedFaults := 0\<rparr>"

definition pdr_detectedfault :: "md_pdelay_req_data \<Rightarrow> md_pdelay_req_data" where
  "pdr_detectedfault sm =
     (if detectedFaults sm \<le> allowedFaults (pdr_mfad sm) then sm\<lparr>detectedFaults := detectedFaults sm + 1\<rparr>
      else pdr_noascapable sm)"

definition pdr_verdict :: "MDPTPMsgPdelayResp \<Rightarrow> md_pdelay_req_data \<Rightarrow> md_pdelay_req_data" where
  "pdr_verdict r sm =
     (let delay = nsec (neighborPropDelay (pdr_fad sm));
          other = (md_clockIdentity (pr_head r) \<noteq> thisClock (ptasg sm))
      in if delay < nsec (neighborPropDelayMinLimit (pdr_mfad sm)) \<and> other \<and> neighborRateRatioValid sm
         then pdr_detectedfault sm
         else if delay \<le> nsec (neighborPropDelayThresh (pdr_mfad sm)) \<and> other \<and> neighborRateRatioValid sm
         then pdr_md (\<lambda>m. m\<lparr>asCapableAcrossDomains := True\<rparr>)
                (sm\<lparr>pdr_statd := (pdr_statd sm)
                      \<lparr>pdelay_resp_fup_rec_valid := pdelay_resp_fup_rec_valid (pdr_statd sm) + 1\<rparr>,
                    detectedFaults := 0\<rparr>)
         else if other then pdr_noascapable sm
         else pdr_detectedfault sm)"

definition waiting_for_pdelay_interval_timer_proc :: "md_pdelay_req_data \<Rightarrow> md_pdelay_req_data option" where
  "waiting_for_pdelay_interval_timer_proc sm =
     (let sm1 = sm\<lparr>rcvdPdelayRespFollowUp := False, lostResponses := 0, multiResponses := 0\<rparr>
      in if asymmetryMeasurementMode (pdr_fad sm1) then Some sm1
         else case recPdelayResp sm1 of
           None \<Rightarrow> None
         | Some r \<Rightarrow> Some (pdr_verdict r (pdr_measure sm1)))"

definition waiting_for_pdelay_interval_timer_condition :: "u64 \<Rightarrow> md_pdelay_req_data \<Rightarrow> pdr_state" where
  "waiting_for_pdelay_interval_timer_condition cts64 sm =
     (if pdr_timeout cts64 sm then PDR_SEND else PDR_WAIT_TIMER)"

section \<open>The machine\<close>

text \<open>A call that sends a request returns 1, which is the outcome \<open>Return ()\<close>; \<open>Next\<close> is the result 0.\<close>

definition pdr_body ::
  "env \<Rightarrow> net_io \<Rightarrow> u64 \<Rightarrow> bool \<Rightarrow> md_pdelay_req_data \<Rightarrow> md_pdelay_req_data \<times> unit ctl" where
  "pdr_body e io cts64 state_change sm =
     (case state sm of
        PDR_INIT \<Rightarrow> (sm\<lparr>state := PDR_NOT_ENABLED\<rparr>, Next)
      | PDR_NOT_ENABLED \<Rightarrow>
          let sm1 = (if state_change then pdr_not_enabled_proc e sm else sm)
          in (sm1\<lparr>state := pdr_not_enabled_condition e sm1\<rparr>, Next)
      | PDR_INITIAL_SEND \<Rightarrow>
          (if state_change then
             (case initial_send_pdelay_req_proc e io cts64 sm of
                (TxSent, sm1) \<Rightarrow> (sm1, Return ())
              | (TxFailed, sm1) \<Rightarrow> (sm1\<lparr>last_state := PDR_REACTION\<rparr>, Return ())
              | (TxNoBuffer, sm1) \<Rightarrow> (sm1\<lparr>state := PDR_NOT_ENABLED\<rparr>, Next)
              | (TxNull, sm1) \<Rightarrow> (sm1, Crash))
           else (initial_send_pdelay_req_condition io cts64 sm, Next))
      | PDR_RESET \<Rightarrow>
          (pdr_reset_condition cts64 (if state_change then pdr_reset_proc sm else sm), Next)
      | PDR_SEND \<Rightarrow>
          (if state_change then
             (case send_pdelay_req_proc e io cts64 sm of
                (TxSent, sm1) \<Rightarrow> (sm1, Return ())
              | (TxFailed, sm1) \<Rightarrow> (sm1\<lparr>pdelayReqSequenceId := pdelayReqSequenceId sm1 - 1,
                                       last_state := PDR_REACTION\<rparr>, Return ())
              | (TxNoBuffer, sm1) \<Rightarrow> (sm1\<lparr>state := PDR_RESET\<rparr>, Next)
              | (TxNull, sm1) \<Rightarrow> (sm1, Crash))
           else (send_pdelay_req_condition io cts64 sm, Next))
      | PDR_WAIT_RESP \<Rightarrow>
          (let sm1 = (if state_change then waiting_for_pdelay_resp_proc sm else sm)
           in case waiting_for_pdelay_resp_condition e cts64 sm1 of
                None \<Rightarrow> (sm1, Crash) | Some sm2 \<Rightarrow> (sm2, Next))
      | PDR_WAIT_FOLLOW_UP \<Rightarrow>
          (let sm1 = (if state_change then waiting_for_pdelay_resp_follow_up_proc sm else sm)
           in case waiting_for_pdelay_resp_follow_up_condition e cts64 sm1 of
                None \<Rightarrow> (sm1, Crash) | Some sm2 \<Rightarrow> (sm2, Next))
      | PDR_WAIT_TIMER \<Rightarrow>
          (case (if state_change then waiting_for_pdelay_interval_timer_proc sm else Some sm) of
             None \<Rightarrow> (sm, Crash)
           | Some sm1 \<Rightarrow> (sm1\<lparr>state := waiting_for_pdelay_interval_timer_condition cts64 sm1\<rparr>, Next))
      | PDR_REACTION \<Rightarrow> (sm, Next))"

definition md_pdelay_req_sm ::
  "env \<Rightarrow> net_io \<Rightarrow> md_pdelay_req_data \<Rightarrow> u64 \<Rightarrow> (md_pdelay_req_data \<times> unit ctl) option" where
  "md_pdelay_req_sm e io sm cts64 = sm_loop (pdr_body e io cts64) (sm\<lparr>state := pdr_allstate_condition sm\<rparr>)"

definition md_pdelay_req_sm_init ::
  "env \<Rightarrow> bool \<Rightarrow> PerTimeAwareSystemGlobal \<Rightarrow> PerPortGlobal \<Rightarrow> MDEntityGlobal \<Rightarrow> md_pdelay_req_data" where
  "md_pdelay_req_sm_init e net pt pp md =
     \<lparr>state = PDR_INIT, last_state = PDR_INIT, ptasg = pt, ppg = pp, pdr_mdeg = md, pdr_net = net,
      pdelayIntervalTimer = zero_UScaledNs, rcvdPdelayResp = False, recPdelayResp = None,
      rcvdPdelayRespFollowUp = False, recPdelayRespFup = None, txPdelayReq = None,
      pdr_rcvdMDTimestampReceive = False, pdelayReqSequenceId = 0, initPdelayRespReceived = False,
      lostResponses = 0, neighborRateRatioValid = False, detectedFaults = 0,
      portEnabled0 = ptpPortEnabled pp, multiResponses = 0, t1ts64 = 0, t2ts64 = 0, t3ts64 = 0, t4ts64 = 0,
      pdr_cmlds_mode = conf e CONF_CMLDS_MODE,
      pdr_statd = \<lparr>pdelay_req_send = 0, pdelay_resp_rec = 0, pdelay_resp_rec_valid = 0,
        pdelay_resp_fup_rec = 0, pdelay_resp_fup_rec_valid = 0\<rparr>,
      pdr_mock_txts64 = 0, prev_t1ts64 = 0, prev_t2ts64 = 0, pdr_sent = []\<rparr>"

section \<open>Events\<close>

text \<open>
  The transmit timestamp of a request; \<open>abandon\<close> is the answer of
  \<^verbatim>\<open>md_abnormal_timestamp\<close>. In the events the result of the machine is not used.
\<close>

definition md_pdelay_req_sm_txts ::
  "env \<Rightarrow> net_io \<Rightarrow> bool \<Rightarrow> md_pdelay_req_data \<Rightarrow> u16 \<Rightarrow> u64 \<Rightarrow> u64 \<Rightarrow>
   (md_pdelay_req_data \<times> unit ctl) option" where
  "md_pdelay_req_sm_txts e io abandon sm seqid ts64 cts64 =
     (if abandon then Some (sm, Next)
      else if state sm \<noteq> PDR_SEND \<and> state sm \<noteq> PDR_INITIAL_SEND then Some (sm, Next)
      else if seqid \<noteq> pdelayReqSequenceId sm then Some (sm, Next)
      else md_pdelay_req_sm e io (sm\<lparr>t1ts64 := ts64, pdr_rcvdMDTimestampReceive := True\<rparr>) cts64)"

definition md_pdelay_req_sm_recv_resp ::
  "env \<Rightarrow> net_io \<Rightarrow> md_pdelay_req_data \<Rightarrow> u8 list \<Rightarrow> u64 \<Rightarrow> u64 \<Rightarrow>
   (md_pdelay_req_data \<times> unit ctl) option" where
  "md_pdelay_req_sm_recv_resp e io sm bs ts64 cts64 =
     (let r = pdelay_resp_overlay e bs
      in case md_pdelay_req_sm e io (sm\<lparr>rcvdPdelayResp := True, recPdelayResp := Some r,
             t2ts64 := timestamp_nsec e (pr_timestamp r)\<rparr>) cts64 of
           None \<Rightarrow> None
         | Some (sm1, c) \<Rightarrow> Some (sm1\<lparr>t4ts64 := ts64,
             pdr_statd := (pdr_statd sm1)\<lparr>pdelay_resp_rec := pdelay_resp_rec (pdr_statd sm1) + 1\<rparr>\<rparr>, c))"

definition md_pdelay_req_sm_recv_respfup ::
  "env \<Rightarrow> net_io \<Rightarrow> md_pdelay_req_data \<Rightarrow> u8 list \<Rightarrow> u64 \<Rightarrow>
   (md_pdelay_req_data \<times> unit ctl) option" where
  "md_pdelay_req_sm_recv_respfup e io sm bs cts64 =
     (let r = pdelay_resp_overlay e bs
      in case md_pdelay_req_sm e io (sm\<lparr>rcvdPdelayRespFollowUp := True, recPdelayRespFup := Some r,
             t3ts64 := timestamp_nsec e (pr_timestamp r)\<rparr>) cts64 of
           None \<Rightarrow> None
         | Some (sm1, c) \<Rightarrow> Some (sm1\<lparr>pdr_statd := (pdr_statd sm1)
             \<lparr>pdelay_resp_fup_rec := pdelay_resp_fup_rec (pdr_statd sm1) + 1\<rparr>\<rparr>, c))"

definition md_pdelay_req_stat_reset :: "md_pdelay_req_data \<Rightarrow> md_pdelay_req_data" where
  "md_pdelay_req_stat_reset sm = sm\<lparr>pdr_statd := \<lparr>pdelay_req_send = 0, pdelay_resp_rec = 0,
     pdelay_resp_rec_valid = 0, pdelay_resp_fup_rec = 0, pdelay_resp_fup_rec_valid = 0\<rparr>\<rparr>"

section \<open>The contract of the machine\<close>

text \<open>The rate ratio is that of two clocks that differ by less than a factor of three.\<close>

definition ratio_ok :: "real \<Rightarrow> bool" where
  "ratio_ok r \<longleftrightarrow> 1 / 3 < r \<and> r < 3"

text \<open>The states before the first request: no request is on its way and nothing is measured.\<close>

definition pdr_idle :: "md_pdelay_req_data \<Rightarrow> bool" where
  "pdr_idle sm \<longleftrightarrow> state sm = PDR_INIT \<or> state sm = PDR_NOT_ENABLED \<or>
     state sm = PDR_INITIAL_SEND \<and> last_state sm \<noteq> PDR_INITIAL_SEND"

definition pdr_inv :: "md_pdelay_req_data \<Rightarrow> bool" where
  "pdr_inv sm \<longleftrightarrow> pdr_net sm \<and>
     (rcvdPdelayResp sm \<longrightarrow> recPdelayResp sm \<noteq> None) \<and>
     (rcvdPdelayRespFollowUp sm \<longrightarrow> recPdelayRespFup sm \<noteq> None) \<and>
     (pdr_idle sm \<or> txPdelayReq sm \<noteq> None \<and> ratio_ok (neighborRateRatio (pdr_fad sm))) \<and>
     (state sm = PDR_WAIT_FOLLOW_UP \<or> state sm = PDR_WAIT_TIMER \<longrightarrow> recPdelayResp sm \<noteq> None)"

fun pdr_rank :: "md_pdelay_req_data \<Rightarrow> nat" where
  "pdr_rank sm =
     (case state sm of
        PDR_INIT \<Rightarrow> 2 | PDR_NOT_ENABLED \<Rightarrow> 1
      | PDR_INITIAL_SEND \<Rightarrow> if last_state sm = PDR_INITIAL_SEND then 4 else 0
      | PDR_SEND \<Rightarrow> if last_state sm = PDR_SEND then 4 else 0
      | PDR_WAIT_RESP \<Rightarrow> 3 | PDR_WAIT_FOLLOW_UP \<Rightarrow> 2 | PDR_WAIT_TIMER \<Rightarrow> 1 | PDR_RESET \<Rightarrow> 1
      | PDR_REACTION \<Rightarrow> 0)"

lemma ratio_ok_1 [simp]: "ratio_ok 1"
  by (simp add: ratio_ok_def)

lemma pdr_setters [simp]:
  "state (pdr_port f sm) = state sm" "last_state (pdr_port f sm) = last_state sm"
  "state (pdr_md g sm) = state sm" "last_state (pdr_md g sm) = last_state sm"
  "pdr_net (pdr_port f sm) = pdr_net sm" "pdr_net (pdr_md g sm) = pdr_net sm"
  "rcvdPdelayResp (pdr_port f sm) = rcvdPdelayResp sm" "rcvdPdelayResp (pdr_md g sm) = rcvdPdelayResp sm"
  "recPdelayResp (pdr_port f sm) = recPdelayResp sm" "recPdelayResp (pdr_md g sm) = recPdelayResp sm"
  "rcvdPdelayRespFollowUp (pdr_port f sm) = rcvdPdelayRespFollowUp sm"
  "rcvdPdelayRespFollowUp (pdr_md g sm) = rcvdPdelayRespFollowUp sm"
  "recPdelayRespFup (pdr_port f sm) = recPdelayRespFup sm" "recPdelayRespFup (pdr_md g sm) = recPdelayRespFup sm"
  "txPdelayReq (pdr_port f sm) = txPdelayReq sm" "txPdelayReq (pdr_md g sm) = txPdelayReq sm"
  "forAllDomain (ppg (pdr_port f sm)) = f (forAllDomain (ppg sm))" "ppg (pdr_md g sm) = ppg sm"
  "md_forAllDomain (pdr_mdeg (pdr_md g sm)) = g (md_forAllDomain (pdr_mdeg sm))"
  "pdr_mdeg (pdr_port f sm) = pdr_mdeg sm" "ptasg (pdr_port f sm) = ptasg sm" "ptasg (pdr_md g sm) = ptasg sm"
  "pdelayIntervalTimer (pdr_port f sm) = pdelayIntervalTimer sm" "pdelayIntervalTimer (pdr_md g sm) = pdelayIntervalTimer sm"
  by (simp_all add: pdr_port_def pdr_md_def)

text \<open>The measured ratio is within a factor of three, since both intervals are within half of the nominal one.\<close>

lemma measured_ratio:
  fixes i d1 d2 :: u64
  assumes "i div 2 < d1" "d1 < i + i div 2" "i div 2 < d2" "d2 < i + i div 2"
  shows "ratio_ok (of_int (uint d2) / of_int (uint d1))"
proof -
  let ?h = "uint i div 2"
  have h: "uint (i div 2) = ?h" by (simp add: uint_div)
  have s: "uint (i + i div 2) \<le> uint i + ?h"
    unfolding h [symmetric] by (rule uint_add_le)
  have d: "?h < uint d1" "uint d1 < uint i + ?h" "?h < uint d2" "uint d2 < uint i + ?h"
    using assms s by (simp_all add: word_less_def h)
  then have "uint d2 < 3 * uint d1" "uint d1 < 3 * uint d2" "0 < uint d1" by linarith+
  then have "real_of_int (uint d2) < 3 * real_of_int (uint d1)"
    "real_of_int (uint d1) < 3 * real_of_int (uint d2)" "0 < real_of_int (uint d1)" by linarith+
  then show ?thesis by (simp add: ratio_ok_def field_simps)
qed

lemma ratio_average: "ratio_ok a \<Longrightarrow> ratio_ok b \<Longrightarrow> ratio_ok ((a + b) / 2)"
  by (auto simp: ratio_ok_def)

lemma computePdelayRateRatio_ok:
  "ratio_ok r \<Longrightarrow> ratio_ok (fst (computePdelayRateRatio sm r))"
  using measured_ratio by (auto simp: computePdelayRateRatio_def Let_def intro!: ratio_average)

lemma computePropTime_bound: "uint (computePropTime sm) \<le> COMPUTED_PROP_TIME_TOO_BIG"
  by (auto simp: computePropTime_def Let_def COMPUTED_PROP_TIME_TOO_BIG_def UB_SEC_NS_def uint_word_of_int)

text \<open>What the parts of a pass leave as it was.\<close>

definition pdr_keeps :: "md_pdelay_req_data \<Rightarrow> md_pdelay_req_data \<Rightarrow> bool" where
  "pdr_keeps s t \<longleftrightarrow> pdr_net t = pdr_net s \<and> ptasg t = ptasg s \<and> txPdelayReq t = txPdelayReq s \<and>
     recPdelayResp t = recPdelayResp s \<and> recPdelayRespFup t = recPdelayRespFup s \<and>
     (rcvdPdelayResp t \<longrightarrow> rcvdPdelayResp s) \<and> (rcvdPdelayRespFollowUp t \<longrightarrow> rcvdPdelayRespFollowUp s) \<and>
     (ratio_ok (neighborRateRatio (pdr_fad s)) \<longrightarrow> ratio_ok (neighborRateRatio (pdr_fad t)))"

lemma computePdelayRateRatio_frame [simp]:
  fixes sm r
  defines "u \<equiv> snd (computePdelayRateRatio sm r)"
  shows "state u = state sm" "last_state u = last_state sm" "pdr_net u = pdr_net sm" "ptasg u = ptasg sm"
    "ppg u = ppg sm" "pdr_mdeg u = pdr_mdeg sm"
    "rcvdPdelayResp u = rcvdPdelayResp sm" "recPdelayResp u = recPdelayResp sm"
    "rcvdPdelayRespFollowUp u = rcvdPdelayRespFollowUp sm" "recPdelayRespFup u = recPdelayRespFup sm"
    "txPdelayReq u = txPdelayReq sm" "pdelayIntervalTimer u = pdelayIntervalTimer sm"
    "t1ts64 u = t1ts64 sm" "t2ts64 u = t2ts64 sm" "t3ts64 u = t3ts64 sm" "t4ts64 u = t4ts64 sm"
  by (simp_all add: u_def computePdelayRateRatio_def Let_def)

lemma pdr_measure_keeps: "pdr_keeps s (pdr_measure s)" "state (pdr_measure s) = state s"
    "last_state (pdr_measure s) = last_state s"
  using computePdelayRateRatio_ok [of "neighborRateRatio (pdr_fad s)" s]
  by (simp_all add: pdr_keeps_def pdr_measure_def Let_def case_prod_beta)

lemma pdr_verdict_keeps: "pdr_keeps s (pdr_verdict r s)" "state (pdr_verdict r s) = state s"
    "last_state (pdr_verdict r s) = last_state s" "ppg (pdr_verdict r s) = ppg s"
  by (simp_all add: pdr_keeps_def pdr_verdict_def pdr_detectedfault_def pdr_noascapable_def Let_def)

lemma pdr_reset_proc_keeps: "pdr_keeps s (pdr_reset_proc s)" "last_state (pdr_reset_proc s) = last_state s"
  by (simp_all add: pdr_keeps_def pdr_reset_proc_def pdr_incapable_def Let_def)

lemma timer_proc_keeps:
  assumes "waiting_for_pdelay_interval_timer_proc s = Some t"
  shows "pdr_keeps s t \<and> state t = state s \<and> last_state t = last_state s"
proof -
  let ?s = "s\<lparr>rcvdPdelayRespFollowUp := False, lostResponses := 0, multiResponses := 0\<rparr>"
  have "pdr_keeps s ?s" by (simp add: pdr_keeps_def)
  moreover have "pdr_keeps s (pdr_verdict r (pdr_measure ?s))" for r
    using pdr_measure_keeps(1) [of ?s] pdr_verdict_keeps(1) [of "pdr_measure ?s" r]
    by (auto simp: pdr_keeps_def)
  ultimately show ?thesis
    using assms
    by (auto simp: waiting_for_pdelay_interval_timer_proc_def Let_def pdr_verdict_keeps(2,3)
        pdr_measure_keeps(2,3) split: if_splits option.splits)
qed

lemma pdr_keepsD:
  assumes "pdr_keeps s t"
  shows "pdr_net t = pdr_net s" "ptasg t = ptasg s" "txPdelayReq t = txPdelayReq s"
    "recPdelayResp t = recPdelayResp s" "recPdelayRespFup t = recPdelayRespFup s"
    "rcvdPdelayResp t \<Longrightarrow> rcvdPdelayResp s" "rcvdPdelayRespFollowUp t \<Longrightarrow> rcvdPdelayRespFollowUp s"
    "ratio_ok (neighborRateRatio (pdr_fad s)) \<Longrightarrow> ratio_ok (neighborRateRatio (pdr_fad t))"
  using assms by (auto simp: pdr_keeps_def)

text \<open>A pass in a state that does not send.\<close>

lemma pdr_inv_keeps:
  assumes "pdr_inv s" "\<not> pdr_idle s" "pdr_keeps s t"
    and "state t = PDR_WAIT_FOLLOW_UP \<or> state t = PDR_WAIT_TIMER \<Longrightarrow> recPdelayResp s \<noteq> None"
  shows "pdr_inv t"
  using assms(1,2,4) pdr_keepsD [OF assms(3)] by (auto simp: pdr_inv_def)

lemma wait_resp_keeps:
  assumes "waiting_for_pdelay_resp_condition e cts s = Some t"
  shows "pdr_keeps s t \<and> last_state t = last_state s \<and>
    (state t = PDR_RESET \<or> state t = PDR_WAIT_RESP \<or> state t = PDR_WAIT_FOLLOW_UP \<and> recPdelayResp s \<noteq> None)"
  using assms by (auto simp: waiting_for_pdelay_resp_condition_def pdr_keeps_def split: if_splits option.splits)

lemma wait_follow_up_keeps:
  assumes "waiting_for_pdelay_resp_follow_up_condition e cts s = Some t"
  shows "pdr_keeps s t \<and> last_state t = last_state s \<and>
    (state t = PDR_RESET \<or> state t = PDR_WAIT_FOLLOW_UP \<or> state t = PDR_WAIT_TIMER)"
  using assms by (auto simp: waiting_for_pdelay_resp_follow_up_condition_def pdr_keeps_def split: if_splits option.splits)

lemma initial_cond_keeps:
  fixes s io cts
  defines "t \<equiv> initial_send_pdelay_req_condition io cts s"
  shows "pdr_keeps s t"
    and "state t = PDR_WAIT_RESP \<or> state t = PDR_INITIAL_SEND \<and>
      (last_state t = last_state s \<or> last_state t = PDR_REACTION)"
  by (simp_all add: t_def pdr_keeps_def initial_send_pdelay_req_condition_def)

lemma send_cond_keeps:
  fixes s io cts
  defines "t \<equiv> send_pdelay_req_condition io cts s"
  shows "pdr_keeps s t"
    and "state t = PDR_WAIT_RESP \<or> state t = PDR_SEND \<and>
      (last_state t = last_state s \<or> last_state t = PDR_REACTION)"
  by (simp_all add: t_def pdr_keeps_def send_pdelay_req_condition_def)

text \<open>Neither condition meets a null pointer when the messages that are flagged are there.\<close>

lemma wait_resp_defined:
  "rcvdPdelayResp s \<longrightarrow> recPdelayResp s \<noteq> None \<Longrightarrow> rcvdPdelayRespFollowUp s \<longrightarrow> recPdelayRespFup s \<noteq> None \<Longrightarrow>
   txPdelayReq s \<noteq> None \<Longrightarrow> waiting_for_pdelay_resp_condition e cts s \<noteq> None"
  by (auto simp: waiting_for_pdelay_resp_condition_def split: option.splits)

lemma wait_follow_up_defined:
  "recPdelayResp s \<noteq> None \<Longrightarrow> rcvdPdelayRespFollowUp s \<longrightarrow> recPdelayRespFup s \<noteq> None \<Longrightarrow>
   txPdelayReq s \<noteq> None \<Longrightarrow> waiting_for_pdelay_resp_follow_up_condition e cts s \<noteq> None"
  by (auto simp: waiting_for_pdelay_resp_follow_up_condition_def split: option.splits)

text \<open>Sending, on a machine that has a network.\<close>

lemma txPdelayReq_out_net:
  assumes "pdr_net s"
  shows "\<exists>r t. txPdelayReq_out e io s = (r, t) \<and> (r = TxSent \<or> r = TxFailed) \<and>
    state t = state s \<and> last_state t = last_state s \<and> pdr_net t \<and> txPdelayReq t \<noteq> None \<and>
    recPdelayResp t = recPdelayResp s \<and> recPdelayRespFup t = recPdelayRespFup s \<and>
    rcvdPdelayResp t = rcvdPdelayResp s \<and> rcvdPdelayRespFollowUp t = rcvdPdelayRespFollowUp s \<and>
    ppg t = ppg s \<and> ptasg t = ptasg s \<and> pdr_mdeg t = pdr_mdeg s"
  using assms by (simp add: txPdelayReq_out_def setPdelayReq_def Let_def)

lemma initial_send_net:
  assumes "pdr_net s"
  shows "\<exists>r t. initial_send_pdelay_req_proc e io cts s = (r, t) \<and> (r = TxSent \<or> r = TxFailed) \<and>
    state t = state s \<and> last_state t = last_state s \<and> pdr_net t \<and> txPdelayReq t \<noteq> None \<and>
    \<not> rcvdPdelayResp t \<and> \<not> rcvdPdelayRespFollowUp t \<and> neighborRateRatio (pdr_fad t) = 1"
proof -
  let ?s = "pdr_port (\<lambda>p. p\<lparr>neighborRateRatio := 1\<rparr>)
    (s\<lparr>initPdelayRespReceived := False, rcvdPdelayResp := False, rcvdPdelayRespFollowUp := False,
       prev_t1ts64 := 0, prev_t2ts64 := 0, pdr_rcvdMDTimestampReceive := False,
       pdelayReqSequenceId := rand16 io\<rparr>)"
  obtain r t where "txPdelayReq_out e io ?s = (r, t)" "r = TxSent \<or> r = TxFailed"
    "state t = state ?s" "last_state t = last_state ?s" "pdr_net t" "txPdelayReq t \<noteq> None"
    "rcvdPdelayResp t = rcvdPdelayResp ?s" "rcvdPdelayRespFollowUp t = rcvdPdelayRespFollowUp ?s"
    "ppg t = ppg ?s"
    using txPdelayReq_out_net [of ?s e io] assms by auto
  then show ?thesis by (auto simp: initial_send_pdelay_req_proc_def)
qed

lemma send_net:
  assumes "pdr_net s"
  shows "\<exists>r t. send_pdelay_req_proc e io cts s = (r, t) \<and> (r = TxSent \<or> r = TxFailed) \<and>
    state t = state s \<and> last_state t = last_state s \<and> pdr_net t \<and> txPdelayReq t \<noteq> None \<and>
    \<not> rcvdPdelayResp t \<and> \<not> rcvdPdelayRespFollowUp t \<and> ppg t = ppg s"
proof -
  let ?s = "s\<lparr>rcvdPdelayResp := False, rcvdPdelayRespFollowUp := False,
    pdelayReqSequenceId := pdelayReqSequenceId s + 1\<rparr>"
  obtain r t where "txPdelayReq_out e io ?s = (r, t)" "r = TxSent \<or> r = TxFailed"
    "state t = state ?s" "last_state t = last_state ?s" "pdr_net t" "txPdelayReq t \<noteq> None"
    "rcvdPdelayResp t = rcvdPdelayResp ?s" "rcvdPdelayRespFollowUp t = rcvdPdelayRespFollowUp ?s"
    "ppg t = ppg ?s"
    using txPdelayReq_out_net [of ?s e io] assms by auto
  then show ?thesis by (auto simp: send_pdelay_req_proc_def)
qed

text \<open>One pass of the loop, state by state.\<close>

definition pdr_good :: "md_pdelay_req_data \<Rightarrow> md_pdelay_req_data \<Rightarrow> unit ctl \<Rightarrow> bool" where
  "pdr_good s t c \<longleftrightarrow> pdr_inv t \<and> c \<noteq> Crash \<and>
     (c = Next \<and> last_state t \<noteq> state t \<longrightarrow> pdr_rank t < pdr_rank s)"

lemma pdr_goodI:
  assumes "pdr_inv s" "\<not> pdr_idle s" "pdr_keeps s t"
    and "state t = PDR_WAIT_FOLLOW_UP \<or> state t = PDR_WAIT_TIMER \<Longrightarrow> recPdelayResp s \<noteq> None"
    and "last_state t \<noteq> state t \<Longrightarrow> pdr_rank t < pdr_rank s"
  shows "pdr_good s t Next"
  unfolding pdr_good_def using pdr_inv_keeps [OF assms(1-4)] assms(5) by blast

lemma pdr_keeps_trans: "pdr_keeps s t \<Longrightarrow> pdr_keeps t u \<Longrightarrow> pdr_keeps s u"
  by (simp add: pdr_keeps_def)

lemma pdr_keeps_last [simp]: "pdr_keeps s (s\<lparr>last_state := x\<rparr>)"
  by (simp add: pdr_keeps_def)

lemma pdr_step_wait_resp:
  assumes "pdr_inv s" "state s = PDR_WAIT_RESP" "pdr_keeps s v" "last_state v = PDR_WAIT_RESP"
    and "waiting_for_pdelay_resp_condition e cts v = Some w"
  shows "pdr_good s w Next"
proof -
  note w = wait_resp_keeps [OF assms(5)]
  have k: "pdr_keeps s w" using assms(3) w by (blast intro: pdr_keeps_trans)
  have r: "recPdelayResp v = recPdelayResp s" using assms(3) by (simp add: pdr_keeps_def)
  show ?thesis
    by (rule pdr_goodI [OF assms(1) _ k])
      (use w r assms(2,4) in \<open>auto simp: pdr_idle_def\<close>)
qed

lemma pdr_step_wait_follow_up:
  assumes "pdr_inv s" "state s = PDR_WAIT_FOLLOW_UP" "pdr_keeps s v" "last_state v = PDR_WAIT_FOLLOW_UP"
    and "waiting_for_pdelay_resp_follow_up_condition e cts v = Some w"
  shows "pdr_good s w Next"
proof -
  note w = wait_follow_up_keeps [OF assms(5)]
  have k: "pdr_keeps s w" using assms(3) w by (blast intro: pdr_keeps_trans)
  have r: "recPdelayResp s \<noteq> None" using assms(1,2) by (simp add: pdr_inv_def)
  show ?thesis
    by (rule pdr_goodI [OF assms(1) _ k])
      (use w r assms(2,4) in \<open>auto simp: pdr_idle_def\<close>)
qed

lemma pdr_step_wait_timer:
  assumes "pdr_inv s" "state s = PDR_WAIT_TIMER" "pdr_keeps s w" "last_state w = PDR_WAIT_TIMER"
  shows "pdr_good s (w\<lparr>state := waiting_for_pdelay_interval_timer_condition cts w\<rparr>) Next"
proof -
  have k: "pdr_keeps s (w\<lparr>state := waiting_for_pdelay_interval_timer_condition cts w\<rparr>)"
    using assms(3) by (simp add: pdr_keeps_def)
  have r: "recPdelayResp s \<noteq> None" using assms(1,2) by (simp add: pdr_inv_def)
  show ?thesis
    by (rule pdr_goodI [OF assms(1) _ k])
      (use r assms(2,4) in \<open>auto simp: pdr_idle_def waiting_for_pdelay_interval_timer_condition_def
        split: if_splits\<close>)
qed

lemma pdr_step_reset:
  assumes "pdr_inv s" "state s = PDR_RESET" "pdr_keeps s v" "last_state v = PDR_RESET"
  shows "pdr_good s (pdr_reset_condition cts v) Next"
proof -
  let ?t = "pdr_reset_condition cts v"
  have k: "pdr_keeps s ?t" "last_state ?t = PDR_RESET" "state ?t = PDR_RESET \<or> state ?t = PDR_SEND"
    using assms(3,4) by (simp_all add: pdr_reset_condition_def Let_def pdr_keeps_def)
  show ?thesis
    by (rule pdr_goodI [OF assms(1) _ k(1)]) (use k(2,3) assms(2) in \<open>auto simp: pdr_idle_def\<close>)
qed

lemma pdr_step_unsent:
  assumes "pdr_inv s" "state s = X" "last_state s = X" "X = PDR_SEND \<or> X = PDR_INITIAL_SEND"
    and "pdr_keeps s t" "state t = PDR_WAIT_RESP \<or> state t = X \<and> (last_state t = X \<or> last_state t = PDR_REACTION)"
  shows "pdr_good s t Next"
  by (rule pdr_goodI [OF assms(1) _ assms(5)]) (use assms(2-4,6) in \<open>auto simp: pdr_idle_def\<close>)

lemma pdr_step_good:
  assumes inv: "pdr_inv s"
    and step: "pdr_body e io cts (last_state s \<noteq> state s) (s\<lparr>last_state := state s\<rparr>) = (t, c)"
  shows "pdr_good s t c"
proof (cases "state s")
  case PDR_INIT
  with inv step show ?thesis by (auto simp: pdr_body_def pdr_good_def pdr_inv_def pdr_idle_def)
next
  case PDR_NOT_ENABLED
  let ?u = "s\<lparr>last_state := PDR_NOT_ENABLED\<rparr>"
  let ?v = "if last_state s \<noteq> PDR_NOT_ENABLED then pdr_not_enabled_proc e ?u else ?u"
  have c: "t = ?v\<lparr>state := pdr_not_enabled_condition e ?v\<rparr>" "c = Next"
    using step PDR_NOT_ENABLED by (auto simp: pdr_body_def Let_def split: if_splits)
  have v: "pdr_net ?v = pdr_net s" "rcvdPdelayResp ?v = rcvdPdelayResp s"
      "recPdelayResp ?v = recPdelayResp s" "rcvdPdelayRespFollowUp ?v = rcvdPdelayRespFollowUp s"
      "recPdelayRespFup ?v = recPdelayRespFup s" "last_state ?v = PDR_NOT_ENABLED"
    by (simp_all add: pdr_not_enabled_proc_def)
  have "state t = PDR_NOT_ENABLED \<or> state t = PDR_INITIAL_SEND"
    by (simp add: c pdr_not_enabled_condition_def)
  moreover have "last_state t = PDR_NOT_ENABLED" using v(6) by (simp add: c)
  moreover have "pdr_net t = pdr_net s" "rcvdPdelayResp t = rcvdPdelayResp s"
      "recPdelayResp t = recPdelayResp s" "rcvdPdelayRespFollowUp t = rcvdPdelayRespFollowUp s"
      "recPdelayRespFup t = recPdelayRespFup s" using v(1-5) by (simp_all add: c(1))
  ultimately show ?thesis
    using inv c(2) PDR_NOT_ENABLED by (auto simp: pdr_good_def pdr_inv_def pdr_idle_def)
next
  case PDR_INITIAL_SEND
  show ?thesis
  proof (cases "last_state s = PDR_INITIAL_SEND")
    case True
    let ?u = "s\<lparr>last_state := PDR_INITIAL_SEND\<rparr>"
    have c: "t = initial_send_pdelay_req_condition io cts ?u" "c = Next"
      using step PDR_INITIAL_SEND True by (simp_all add: pdr_body_def)
    show ?thesis unfolding c
      by (rule pdr_step_unsent [OF inv PDR_INITIAL_SEND True])
        (use initial_cond_keeps(1) [of ?u io cts] initial_cond_keeps(2) [of io cts ?u] in
          \<open>auto intro: pdr_keeps_trans [OF pdr_keeps_last]\<close>)
  next
    case False
    have "pdr_net (s\<lparr>last_state := PDR_INITIAL_SEND\<rparr>)" using inv by (simp add: pdr_inv_def)
    with False PDR_INITIAL_SEND step initial_send_net [of "s\<lparr>last_state := PDR_INITIAL_SEND\<rparr>" e io cts]
    show ?thesis by (auto simp: pdr_body_def pdr_good_def pdr_inv_def)
  qed
next
  case PDR_SEND
  then have live: "ratio_ok (neighborRateRatio (pdr_fad s))" "\<not> pdr_idle s"
    using inv by (auto simp: pdr_inv_def pdr_idle_def)
  show ?thesis
  proof (cases "last_state s = PDR_SEND")
    case True
    let ?u = "s\<lparr>last_state := PDR_SEND\<rparr>"
    have c: "t = send_pdelay_req_condition io cts ?u" "c = Next"
      using step PDR_SEND True by (simp_all add: pdr_body_def)
    show ?thesis unfolding c
      by (rule pdr_step_unsent [OF inv PDR_SEND True])
        (use send_cond_keeps(1) [of ?u io cts] send_cond_keeps(2) [of io cts ?u] in
          \<open>auto intro: pdr_keeps_trans [OF pdr_keeps_last]\<close>)
  next
    case False
    have "pdr_net (s\<lparr>last_state := PDR_SEND\<rparr>)" using inv by (simp add: pdr_inv_def)
    with False PDR_SEND step live send_net [of "s\<lparr>last_state := PDR_SEND\<rparr>" e io cts]
    show ?thesis by (auto simp: pdr_body_def pdr_good_def pdr_inv_def)
  qed
next
  case PDR_RESET
  let ?u = "s\<lparr>last_state := PDR_RESET\<rparr>"
  let ?v = "if last_state s \<noteq> PDR_RESET then pdr_reset_proc ?u else ?u"
  have c: "t = pdr_reset_condition cts ?v" "c = Next"
    using step PDR_RESET by (auto simp: pdr_body_def split: if_splits)
  have k: "pdr_keeps s ?v" "last_state ?v = PDR_RESET"
    using pdr_reset_proc_keeps [of ?u] by (simp_all add: pdr_keeps_def)
  show ?thesis unfolding c by (rule pdr_step_reset [OF inv PDR_RESET k])
next
  case PDR_WAIT_RESP
  let ?u = "s\<lparr>last_state := PDR_WAIT_RESP\<rparr>"
  let ?v = "if last_state s \<noteq> PDR_WAIT_RESP then waiting_for_pdelay_resp_proc ?u else ?u"
  have v: "pdr_keeps s ?v" "last_state ?v = PDR_WAIT_RESP"
    by (simp_all add: pdr_keeps_def waiting_for_pdelay_resp_proc_def)
  have "waiting_for_pdelay_resp_condition e cts ?v \<noteq> None"
    using inv PDR_WAIT_RESP
    by (intro wait_resp_defined) (auto simp: pdr_inv_def pdr_idle_def waiting_for_pdelay_resp_proc_def)
  then obtain w where w: "waiting_for_pdelay_resp_condition e cts ?v = Some w" by blast
  have c: "t = w" "c = Next"
    using step PDR_WAIT_RESP w by (auto simp: pdr_body_def Let_def split: if_splits)
  show ?thesis unfolding c by (rule pdr_step_wait_resp [OF inv PDR_WAIT_RESP v w])
next
  case PDR_WAIT_FOLLOW_UP
  let ?u = "s\<lparr>last_state := PDR_WAIT_FOLLOW_UP\<rparr>"
  let ?v = "if last_state s \<noteq> PDR_WAIT_FOLLOW_UP then waiting_for_pdelay_resp_follow_up_proc ?u else ?u"
  have v: "pdr_keeps s ?v" "last_state ?v = PDR_WAIT_FOLLOW_UP"
    by (simp_all add: pdr_keeps_def waiting_for_pdelay_resp_follow_up_proc_def)
  have "waiting_for_pdelay_resp_follow_up_condition e cts ?v \<noteq> None"
    using inv PDR_WAIT_FOLLOW_UP
    by (intro wait_follow_up_defined)
      (auto simp: pdr_inv_def pdr_idle_def waiting_for_pdelay_resp_follow_up_proc_def)
  then obtain w where w: "waiting_for_pdelay_resp_follow_up_condition e cts ?v = Some w" by blast
  have c: "t = w" "c = Next"
    using step PDR_WAIT_FOLLOW_UP w by (auto simp: pdr_body_def Let_def split: if_splits)
  show ?thesis unfolding c by (rule pdr_step_wait_follow_up [OF inv PDR_WAIT_FOLLOW_UP v w])
next
  case PDR_WAIT_TIMER
  let ?u = "s\<lparr>last_state := PDR_WAIT_TIMER\<rparr>"
  have r: "recPdelayResp s \<noteq> None" using inv PDR_WAIT_TIMER by (simp add: pdr_inv_def)
  then have "waiting_for_pdelay_interval_timer_proc ?u \<noteq> None"
    by (auto simp: waiting_for_pdelay_interval_timer_proc_def Let_def)
  then obtain w where w: "(if last_state s \<noteq> PDR_WAIT_TIMER then waiting_for_pdelay_interval_timer_proc ?u
      else Some ?u) = Some w" by (cases "last_state s = PDR_WAIT_TIMER") auto
  have k: "pdr_keeps s w" "last_state w = PDR_WAIT_TIMER"
    using w timer_proc_keeps [of ?u w] by (auto simp: pdr_keeps_def split: if_splits)
  have c: "t = w\<lparr>state := waiting_for_pdelay_interval_timer_condition cts w\<rparr>" "c = Next"
    using step PDR_WAIT_TIMER w by (auto simp: pdr_body_def split: if_splits)
  show ?thesis unfolding c by (rule pdr_step_wait_timer [OF inv PDR_WAIT_TIMER k])
next
  case PDR_REACTION
  with inv step show ?thesis by (auto simp: pdr_body_def pdr_good_def pdr_inv_def pdr_idle_def)
qed

interpretation pdr: sm_safe "pdr_body e io cts" pdr_inv pdr_rank for e io cts
  by unfold_locales (use pdr_step_good in \<open>unfold pdr_good_def, blast\<close>)+

end
