(* ===== verification/Gptp_PdelayFacts.thy ===== *)
theory Gptp_PdelayFacts
  imports Gptp_PdelayReq
begin

text \<open>
  What the peer delay measurement computes and how its machine behaves over a
  sequence of events: a complete exchange, silent peers, and messages that come at
  the wrong time.
\<close>

section \<open>Responses on the wire\<close>

lemma timestamp_over_wire: "timestamp_overlay e (timestamp_image e t @ r) = t"
  by (simp add: timestamp_overlay_def timestamp_image_def field_def)

lemma pdelay_resp_over_wire:
  assumes "length (md_flags (pr_head m)) = 2" "length (md_messageTypeSpecific (pr_head m)) = 4"
    and "length (md_clockIdentity (pr_head m)) = 8" "length (mp_clockIdentity (requestingPortIdentity m)) = 8"
  shows "pdelay_resp_overlay e (pdelay_resp_image e m @ r) = m"
proof -
  note f = header_fields [OF assms(1-3), of "big_endian e"]
  have "header_overlay (big_endian e) (header_image (big_endian e) (pr_head m) @ rest) = pr_head m" for rest
    by (simp add: header_overlay_def f header_image_nth [OF f(1)] MD_HEADER_SIZE_def)
  moreover have "drop 34 (header_image (big_endian e) (pr_head m) @ rest) = rest" for rest
    using f(1) by (simp add: MD_HEADER_SIZE_def)
  moreover have "field 44 8 (header_image (big_endian e) (pr_head m) @ rest) = field 10 8 rest"
    "field 52 2 (header_image (big_endian e) (pr_head m) @ rest) = field 18 2 rest" for rest
    using f(1) by (simp_all add: field_def MD_HEADER_SIZE_def)
  moreover have "field 10 8 (timestamp_image e t @ c @ b) = c" "field 18 2 (timestamp_image e t @ c @ b) = take 2 b"
    if "length c = 8" for t c and b :: "u8 list"
    using that by (simp_all add: field_def timestamp_image_def)
  ultimately show ?thesis
    using assms(4) by (simp add: pdelay_resp_overlay_def pdelay_resp_image_def timestamp_over_wire del: drop_append)
qed

section \<open>Sequences of events\<close>

datatype pdr_event =
    Tick u64
  | TxTimestamp bool u16 u64 u64
  | Response "u8 list" u64 u64
  | FollowUp "u8 list" u64

text \<open>What an event calls; between the events the network and the clock may change.\<close>

fun pdr_handle :: "env \<Rightarrow> net_io \<Rightarrow> pdr_event \<Rightarrow> md_pdelay_req_data \<Rightarrow> (md_pdelay_req_data \<times> unit ctl) option" where
  "pdr_handle e io (Tick cts) sm = md_pdelay_req_sm e io sm cts"
| "pdr_handle e io (TxTimestamp abandon seqid ts cts) sm = md_pdelay_req_sm_txts e io abandon sm seqid ts cts"
| "pdr_handle e io (Response bs ts cts) sm = md_pdelay_req_sm_recv_resp e io sm bs ts cts"
| "pdr_handle e io (FollowUp bs cts) sm = md_pdelay_req_sm_recv_respfup e io sm bs cts"

inductive pdr_reach :: "env \<Rightarrow> md_pdelay_req_data \<Rightarrow> md_pdelay_req_data \<Rightarrow> bool" for e sm0 where
  start: "pdr_reach e sm0 sm0"
| event: "pdr_reach e sm0 sm \<Longrightarrow> pdr_handle e io ev sm = Some (sm', c) \<Longrightarrow> pdr_reach e sm0 sm'"

inductive_cases pdr_reach_eventE: "pdr_reach e sm0 sm"

lemma pdr_inv_allstate: "pdr_inv sm \<Longrightarrow> pdr_inv (sm\<lparr>state := pdr_allstate_condition sm\<rparr>)"
  by (auto simp: pdr_inv_def pdr_idle_def pdr_allstate_condition_def)

lemma md_pdelay_req_sm_inv:
  "pdr_inv sm \<Longrightarrow> \<exists>t c. md_pdelay_req_sm e io sm cts = Some (t, c) \<and> pdr_inv t \<and> c \<noteq> Crash"
  unfolding md_pdelay_req_sm_def by (rule pdr.sm_total_safe [OF pdr_inv_allstate])

text \<open>Members that the invariant does not speak of.\<close>

lemma pdr_inv_times [simp]:
  "pdr_inv (sm\<lparr>t4ts64 := x\<rparr>) = pdr_inv sm" "pdr_inv (sm\<lparr>pdr_statd := st\<rparr>) = pdr_inv sm"
  "pdr_inv (sm\<lparr>t1ts64 := y, pdr_rcvdMDTimestampReceive := b\<rparr>) = pdr_inv sm"
  by (simp_all add: pdr_inv_def pdr_idle_def)

lemma pdr_inv_resp: "pdr_inv sm \<Longrightarrow> pdr_inv (sm\<lparr>rcvdPdelayResp := True, recPdelayResp := Some r, t2ts64 := x\<rparr>)"
  by (auto simp: pdr_inv_def pdr_idle_def)

lemma pdr_inv_fup: "pdr_inv sm \<Longrightarrow> pdr_inv (sm\<lparr>rcvdPdelayRespFollowUp := True, recPdelayRespFup := Some r, t3ts64 := x\<rparr>)"
  by (auto simp: pdr_inv_def pdr_idle_def)

lemma pdr_handle_inv:
  assumes "pdr_inv sm"
  shows "\<exists>t c. pdr_handle e io ev sm = Some (t, c) \<and> pdr_inv t \<and> c \<noteq> Crash"
proof (cases ev)
  case (Tick cts)
  with assms md_pdelay_req_sm_inv show ?thesis by simp
next
  case (TxTimestamp abandon seqid ts cts)
  have "pdr_inv (sm\<lparr>t1ts64 := ts, pdr_rcvdMDTimestampReceive := True\<rparr>)" using assms by simp
  from md_pdelay_req_sm_inv [OF this, of e io cts] assms TxTimestamp show ?thesis
    by (auto simp: md_pdelay_req_sm_txts_def)
next
  case (Response bs ts cts)
  from md_pdelay_req_sm_inv [OF pdr_inv_resp [OF assms, where r = "pdelay_resp_overlay e bs" and
      x = "timestamp_nsec e (pr_timestamp (pdelay_resp_overlay e bs))"], of e io cts]
  obtain t c where "md_pdelay_req_sm e io (sm\<lparr>rcvdPdelayResp := True,
      recPdelayResp := Some (pdelay_resp_overlay e bs),
      t2ts64 := timestamp_nsec e (pr_timestamp (pdelay_resp_overlay e bs))\<rparr>) cts = Some (t, c)"
    "pdr_inv t" "c \<noteq> Crash" by blast
  with Response show ?thesis by (simp add: md_pdelay_req_sm_recv_resp_def Let_def)
next
  case (FollowUp bs cts)
  from md_pdelay_req_sm_inv [OF pdr_inv_fup [OF assms, where r = "pdelay_resp_overlay e bs" and
      x = "timestamp_nsec e (pr_timestamp (pdelay_resp_overlay e bs))"], of e io cts]
  obtain t c where "md_pdelay_req_sm e io (sm\<lparr>rcvdPdelayRespFollowUp := True,
      recPdelayRespFup := Some (pdelay_resp_overlay e bs),
      t3ts64 := timestamp_nsec e (pr_timestamp (pdelay_resp_overlay e bs))\<rparr>) cts = Some (t, c)"
    "pdr_inv t" "c \<noteq> Crash" by blast
  with FollowUp show ?thesis by (simp add: md_pdelay_req_sm_recv_respfup_def Let_def)
qed

lemma pdr_reach_inv: "pdr_reach e sm0 sm \<Longrightarrow> pdr_inv sm0 \<Longrightarrow> pdr_inv sm"
proof (induction rule: pdr_reach.induct)
  case (event sm io ev sm' c)
  with pdr_handle_inv [of sm e io ev] show ?case by auto
qed simp

lemma pdr_inv_init: "pdr_inv (md_pdelay_req_sm_init e True pt pp md)"
proof -
  let ?s = "md_pdelay_req_sm_init e True pt pp md"
  have "state ?s = PDR_INIT" "pdr_net ?s" "\<not> rcvdPdelayResp ?s" "\<not> rcvdPdelayRespFollowUp ?s"
    unfolding md_pdelay_req_sm_init_def by simp_all
  then show ?thesis unfolding pdr_inv_def pdr_idle_def by simp
qed

text \<open>C7: Whatever sequence of ticks, timestamps, responses and follow-ups (with any contents) a
  machine gets after its initialisation, every event is handled to its end without a
  null access, and once a request has been sent the rate ratio of the neighbour stays
  between a third and three.\<close>

theorem pdelay_events_safe:
  assumes "pdr_reach e (md_pdelay_req_sm_init e True pt pp md) sm"
  shows "(\<exists>t c. pdr_handle e io ev sm = Some (t, c) \<and> c \<noteq> Crash) \<and>
    (pdr_idle sm \<or> ratio_ok (neighborRateRatio (forAllDomain (ppg sm))))"
proof -
  have inv: "pdr_inv sm" using pdr_reach_inv [OF assms pdr_inv_init] .
  then have "pdr_idle sm \<or> ratio_ok (neighborRateRatio (forAllDomain (ppg sm)))"
    unfolding pdr_inv_def by blast
  with pdr_handle_inv [OF inv, of e io ev] show ?thesis by blast
qed

section \<open>The computed delay\<close>


text \<open>The computed propagation time is at most 10 ms, and every value that is negative or above
  that counts as no delay.\<close>

theorem propagation_time_bounds:
  "uint (computePropTime sm) \<le> 10000000 \<and>
   (neighborRateRatio (forAllDomain (ppg sm)) * sint (t4ts64 sm - t1ts64 sm) < sint (t3ts64 sm - t2ts64 sm) - 2 \<longrightarrow>
    computePropTime sm = 0)"
proof -
  let ?x = "(neighborRateRatio (forAllDomain (ppg sm)) * sint (t4ts64 sm - t1ts64 sm) - sint (t3ts64 sm - t2ts64 sm)) / 2"
  have "c_trunc ?x < 0" if "?x < - 1" using that by (simp add: c_trunc_def ceiling_less_iff)
  moreover have "?x < - 1" if "neighborRateRatio (forAllDomain (ppg sm)) * sint (t4ts64 sm - t1ts64 sm) <
      sint (t3ts64 sm - t2ts64 sm) - 2" using that by (simp add: field_simps)
  ultimately show ?thesis
    using computePropTime_bound [of sm]
    by (auto simp: COMPUTED_PROP_TIME_TOO_BIG_def UB_SEC_NS_def computePropTime_def Let_def)
qed

section \<open>A complete exchange\<close>

lemma pdr_measure_timer:
  "pdelayIntervalTimer (pdr_measure s) = pdelayIntervalTimer s"
  "pdelayReqInterval (pdr_mfad (pdr_measure s)) = pdelayReqInterval (pdr_mfad s)"
  by (simp_all add: pdr_measure_def Let_def case_prod_beta)

lemma pdr_verdict_timer:
  "pdelayIntervalTimer (pdr_verdict r s) = pdelayIntervalTimer s"
  "pdelayReqInterval (pdr_mfad (pdr_verdict r s)) = pdelayReqInterval (pdr_mfad s)"
  by (simp_all add: pdr_verdict_def pdr_detectedfault_def pdr_noascapable_def Let_def)

definition pdr_enabled :: "md_pdelay_req_data \<Rightarrow> bool" where
  "pdr_enabled sm \<longleftrightarrow> \<not> BEGIN (ptasg sm) \<and> portOper (forAllDomain (ppg sm)) \<and> portEnabled0 sm"

text \<open>A response to the request of this port, and a follow-up to the response, as 11.2.2 asks for.\<close>

definition response_valid :: "env \<Rightarrow> md_pdelay_req_data \<Rightarrow> MDPTPMsgPdelayResp \<Rightarrow> bool" where
  "response_valid e sm r \<longleftrightarrow>
     md_clockIdentity (pr_head r) \<noteq> thisClock (ptasg sm) \<and>
     mp_clockIdentity (requestingPortIdentity r) = thisClock (ptasg sm) \<and>
     hton (big_endian e) (mp_portNumber_ns (requestingPortIdentity r)) = thisPort (ppg sm) \<and>
     sdo_of (pr_head r) = 0x10 \<and>
     (\<exists>q. txPdelayReq sm = Some q \<and> sequenceId_ns (pr_head r) = sequenceId_ns (pq_head q))"

text \<open>What the machine takes for a response to its request: an older sequence number is enough.\<close>

definition response_taken :: "env \<Rightarrow> md_pdelay_req_data \<Rightarrow> MDPTPMsgPdelayResp \<Rightarrow> bool" where
  "response_taken e sm r \<longleftrightarrow>
     md_clockIdentity (pr_head r) \<noteq> thisClock (ptasg sm) \<and>
     mp_clockIdentity (requestingPortIdentity r) = thisClock (ptasg sm) \<and>
     hton (big_endian e) (mp_portNumber_ns (requestingPortIdentity r)) = thisPort (ppg sm) \<and>
     sdo_of (pr_head r) = 0x10 \<and>
     (\<exists>q. txPdelayReq sm = Some q \<and> (sequenceId_ns (pr_head r) = sequenceId_ns (pq_head q) \<or>
        hton (big_endian e) (sequenceId_ns (pr_head r)) < hton (big_endian e) (sequenceId_ns (pq_head q))))"

lemma response_valid_taken: "response_valid e sm r \<Longrightarrow> response_taken e sm r"
  by (auto simp: response_valid_def response_taken_def)

definition follow_up_valid :: "md_pdelay_req_data \<Rightarrow> MDPTPMsgPdelayResp \<Rightarrow> MDPTPMsgPdelayResp \<Rightarrow> bool" where
  "follow_up_valid sm r f \<longleftrightarrow> head_source (pr_head f) = head_source (pr_head r) \<and>
     sdo_of (pr_head f) = 0x10 \<and>
     (\<exists>q. txPdelayReq sm = Some q \<and> sequenceId_ns (pr_head f) = sequenceId_ns (pq_head q))"

lemma pdr_run: "pdr_enabled sm \<Longrightarrow> md_pdelay_req_sm e io sm cts = sm_loop (pdr_body e io cts) sm"
  by (simp add: md_pdelay_req_sm_def pdr_allstate_condition_def pdr_enabled_def)

definition pdr_got_t1 :: "md_pdelay_req_data \<Rightarrow> u64 \<Rightarrow> md_pdelay_req_data" where
  "pdr_got_t1 sm t1 = sm\<lparr>t1ts64 := t1, pdr_rcvdMDTimestampReceive := False,
     state := PDR_WAIT_RESP, last_state := PDR_WAIT_RESP\<rparr>"

lemma exchange_t1:
  assumes "pdr_enabled sm" "state sm = PDR_SEND" "last_state sm = PDR_SEND"
    and "\<not> rcvdPdelayResp sm" "\<not> rcvdPdelayRespFollowUp sm" "\<not> pdr_timeout cts sm"
  shows "md_pdelay_req_sm_txts e io False sm (pdelayReqSequenceId sm) t1 cts = Some (pdr_got_t1 sm t1, Next)"
proof -
  let ?a = "sm\<lparr>t1ts64 := t1, pdr_rcvdMDTimestampReceive := True\<rparr>"
  let ?b = "?a\<lparr>state := PDR_WAIT_RESP\<rparr>"
  have en: "pdr_enabled ?a" using assms(1) by (simp add: pdr_enabled_def)
  have "sm_step (pdr_body e io cts) ?a = (?b, Next)"
    using assms(2,3) by (simp add: sm_step_def pdr_body_def send_pdelay_req_condition_def)
  then have 1: "sm_loop (pdr_body e io cts) ?a = sm_loop (pdr_body e io cts) ?b"
    by (rule sm_loop_again) (simp add: assms(3))
  have "sm_step (pdr_body e io cts) ?b = (pdr_got_t1 sm t1, Next)"
    using assms(3-6)
    by (simp add: sm_step_def pdr_body_def waiting_for_pdelay_resp_proc_def pdr_elapsed_def
        waiting_for_pdelay_resp_condition_def pdr_got_t1_def Let_def)
  then have "sm_loop (pdr_body e io cts) ?b = Some (pdr_got_t1 sm t1, Next)"
    by (rule sm_loop_rest) (simp add: pdr_got_t1_def)
  with 1 assms(2) show ?thesis by (simp add: md_pdelay_req_sm_txts_def pdr_run [OF en])
qed

definition pdr_got_response :: "env \<Rightarrow> md_pdelay_req_data \<Rightarrow> MDPTPMsgPdelayResp \<Rightarrow> u64 \<Rightarrow> md_pdelay_req_data" where
  "pdr_got_response e sm r t4 = sm\<lparr>recPdelayResp := Some r, t2ts64 := timestamp_nsec e (pr_timestamp r),
     state := PDR_WAIT_FOLLOW_UP, last_state := PDR_WAIT_FOLLOW_UP, rcvdPdelayResp := False, t4ts64 := t4\<rparr>"

lemma exchange_response:
  assumes "pdr_enabled sm" "state sm = PDR_WAIT_RESP" "last_state sm = PDR_WAIT_RESP"
    and "\<not> rcvdPdelayRespFollowUp sm" "\<not> pdr_timeout cts sm" "response_taken e sm (pdelay_resp_overlay e bs)"
  shows "\<exists>st. md_pdelay_req_sm_recv_resp e io sm bs t4 cts =
    Some ((pdr_got_response e sm (pdelay_resp_overlay e bs) t4)\<lparr>pdr_statd := st\<rparr>, Next)"
proof -
  let ?r = "pdelay_resp_overlay e bs"
  let ?a = "sm\<lparr>rcvdPdelayResp := True, recPdelayResp := Some ?r, t2ts64 := timestamp_nsec e (pr_timestamp ?r)\<rparr>"
  let ?b = "?a\<lparr>state := PDR_WAIT_FOLLOW_UP\<rparr>"
  let ?c = "waiting_for_pdelay_resp_follow_up_proc
    (?b\<lparr>last_state := PDR_WAIT_FOLLOW_UP\<rparr>)"
  have en: "pdr_enabled ?a" using assms(1) by (simp add: pdr_enabled_def)
  obtain q where q: "txPdelayReq sm = Some q" "sequenceId_ns (pr_head ?r) = sequenceId_ns (pq_head q) \<or>
      hton (big_endian e) (sequenceId_ns (pr_head ?r)) < hton (big_endian e) (sequenceId_ns (pq_head q))"
    using assms(6) by (auto simp: response_taken_def)
  have "waiting_for_pdelay_resp_condition e cts ?a = Some ?b"
    using assms(5,6) q by (simp add: waiting_for_pdelay_resp_condition_def response_taken_def pdr_elapsed_def) blast
  then have "sm_step (pdr_body e io cts) ?a = (?b, Next)"
    using assms(2,3) by (simp add: sm_step_settled pdr_body_def)
  then have 1: "sm_loop (pdr_body e io cts) ?a = sm_loop (pdr_body e io cts) ?b"
    by (rule sm_loop_again) (simp add: assms(3))
  have "waiting_for_pdelay_resp_follow_up_condition e cts ?c = Some ?c"
    using assms(4,5) by (simp add: waiting_for_pdelay_resp_follow_up_condition_def
        waiting_for_pdelay_resp_follow_up_proc_def pdr_elapsed_def)
  then have "sm_step (pdr_body e io cts) ?b = (?c, Next)"
    by (simp add: sm_step_def pdr_body_def assms(3) Let_def)
  then have "sm_loop (pdr_body e io cts) ?b = Some (?c, Next)"
    by (rule sm_loop_rest) (simp add: waiting_for_pdelay_resp_follow_up_proc_def)
  with 1 show ?thesis
    by (simp add: md_pdelay_req_sm_recv_resp_def Let_def pdr_run [OF en] pdr_got_response_def
        waiting_for_pdelay_resp_follow_up_proc_def) (rule exI, rule refl)
qed

text \<open>The machine as the measurement finds it, with the four timestamps.\<close>

definition pdr_complete :: "env \<Rightarrow> md_pdelay_req_data \<Rightarrow> MDPTPMsgPdelayResp \<Rightarrow> md_pdelay_req_data" where
  "pdr_complete e sm f = sm\<lparr>recPdelayRespFup := Some f,
     t3ts64 := timestamp_nsec e (pr_timestamp f), state := PDR_WAIT_TIMER, last_state := PDR_WAIT_TIMER,
     rcvdPdelayRespFollowUp := False, lostResponses := 0, multiResponses := 0\<rparr>"

lemma exchange_follow_up:
  assumes "pdr_enabled sm" "state sm = PDR_WAIT_FOLLOW_UP" "last_state sm = PDR_WAIT_FOLLOW_UP"
    and "\<not> rcvdPdelayResp sm" "recPdelayResp sm = Some r" "\<not> pdr_timeout cts sm"
    and "md_clockIdentity (pr_head r) \<noteq> thisClock (ptasg sm)"
    and "follow_up_valid sm r (pdelay_resp_overlay e bs)" "\<not> asymmetryMeasurementMode (forAllDomain (ppg sm))"
  shows "\<exists>st. md_pdelay_req_sm_recv_respfup e io sm bs cts =
    Some ((pdr_verdict r (pdr_measure (pdr_complete e sm (pdelay_resp_overlay e bs))))\<lparr>pdr_statd := st\<rparr>, Next)"
proof -
  let ?f = "pdelay_resp_overlay e bs"
  let ?a = "sm\<lparr>rcvdPdelayRespFollowUp := True, recPdelayRespFup := Some ?f, t3ts64 := timestamp_nsec e (pr_timestamp ?f)\<rparr>"
  let ?b = "?a\<lparr>state := PDR_WAIT_TIMER\<rparr>"
  let ?c = "pdr_verdict r (pdr_measure (pdr_complete e sm ?f))"
  have en: "pdr_enabled ?a" using assms(1) by (simp add: pdr_enabled_def)
  obtain q where q: "txPdelayReq sm = Some q" "sequenceId_ns (pr_head ?f) = sequenceId_ns (pq_head q)"
    using assms(8) by (auto simp: follow_up_valid_def)
  have src: "md_clockIdentity (pr_head ?f) \<noteq> thisClock (ptasg sm)"
    using assms(7,8) by (auto simp: follow_up_valid_def head_source_def)
  have "waiting_for_pdelay_resp_follow_up_condition e cts ?a = Some ?b"
    using assms(4-6,8) q src
    by (simp add: waiting_for_pdelay_resp_follow_up_condition_def follow_up_valid_def pdr_elapsed_def)
  then have "sm_step (pdr_body e io cts) ?a = (?b, Next)"
    using assms(2,3) by (simp add: sm_step_settled pdr_body_def)
  then have 1: "sm_loop (pdr_body e io cts) ?a = sm_loop (pdr_body e io cts) ?b"
    by (rule sm_loop_again) (simp add: assms(3))
  have proc: "waiting_for_pdelay_interval_timer_proc (?b\<lparr>last_state := PDR_WAIT_TIMER\<rparr>) = Some ?c"
    using assms(5,9) by (simp add: waiting_for_pdelay_interval_timer_proc_def pdr_complete_def Let_def)
  have c: "state ?c = PDR_WAIT_TIMER" "last_state ?c = PDR_WAIT_TIMER"
    by (simp_all add: pdr_verdict_keeps pdr_measure_keeps pdr_complete_def)
  have time: "\<not> pdr_timeout cts ?c"
    using assms(6) by (simp add: pdr_verdict_timer pdr_measure_timer pdr_elapsed_def)
      (simp add: pdr_complete_def)
  have "?c\<lparr>state := PDR_WAIT_TIMER\<rparr> = ?c" using c(1) by simp
  then have "sm_step (pdr_body e io cts) ?b = (?c, Next)"
    using proc time by (simp add: sm_step_entered pdr_body_def assms(3) waiting_for_pdelay_interval_timer_condition_def)
  then have "sm_loop (pdr_body e io cts) ?b = Some (?c, Next)"
    by (rule sm_loop_rest) (simp add: c)
  with 1 show ?thesis
    by (simp add: md_pdelay_req_sm_recv_respfup_def Let_def pdr_run [OF en]) (rule exI, rule refl)
qed

text \<open>The three events in order.\<close>

definition pdr_exchange ::
  "env \<Rightarrow> net_io \<Rightarrow> md_pdelay_req_data \<Rightarrow> u64 \<times> u64 \<Rightarrow> u8 list \<times> u64 \<times> u64 \<Rightarrow> u8 list \<times> u64 \<Rightarrow>
   md_pdelay_req_data option" where
  "pdr_exchange e io sm tx resp fup =
     (case md_pdelay_req_sm_txts e io False sm (pdelayReqSequenceId sm) (fst tx) (snd tx) of
        None \<Rightarrow> None
      | Some (s1, c1) \<Rightarrow>
          (case md_pdelay_req_sm_recv_resp e io s1 (fst resp) (fst (snd resp)) (snd (snd resp)) of
             None \<Rightarrow> None
           | Some (s2, c2) \<Rightarrow>
               (case md_pdelay_req_sm_recv_respfup e io s2 (fst fup) (snd fup) of
                  None \<Rightarrow> None | Some (s3, c3) \<Rightarrow> Some s3)))"

text \<open>The rate ratio after an exchange, from the differences to the exchange before it.\<close>

definition next_ratio :: "u64 \<Rightarrow> u64 \<Rightarrow> u64 \<Rightarrow> real \<Rightarrow> real" where
  "next_ratio interval d1 d2 old =
     (old + (if \<forall>d \<in> {d1, d2}. interval div 2 < d \<and> d < interval + interval div 2
             then of_int (uint d2) / of_int (uint d1) else 1)) / 2"

text \<open>Half of the round trip without the residence time, in the neighbour's nanoseconds.\<close>

definition link_delay :: "real \<Rightarrow> u64 \<Rightarrow> u64 \<Rightarrow> u64 \<Rightarrow> u64 \<Rightarrow> u64" where
  "link_delay ratio t1 t2 t3 t4 =
     (let d = c_trunc ((ratio * of_int (sint (t4 - t1)) - of_int (sint (t3 - t2))) / 2)
      in if 0 \<le> d \<and> d \<le> 10000000 then of_int d else 0)"

lemma measure_spec:
  assumes "computeNeighborRateRatio (pdr_fad s)" "computeNeighborPropDelay (pdr_fad s)"
  defines "r \<equiv> next_ratio (nsec (pdelayReqInterval (pdr_mfad s))) (t1ts64 s - prev_t1ts64 s)
    (t2ts64 s - prev_t2ts64 s) (neighborRateRatio (pdr_fad s))"
  shows "neighborRateRatio (pdr_fad (pdr_measure s)) = r"
    and "nsec (neighborPropDelay (pdr_fad (pdr_measure s))) = link_delay r (t1ts64 s) (t2ts64 s) (t3ts64 s) (t4ts64 s)"
    and "prev_t1ts64 (pdr_measure s) = t1ts64 s" "prev_t2ts64 (pdr_measure s) = t2ts64 s"
    and "isMeasuringDelay (pdr_mfad (pdr_measure s))"
proof -
  have r: "fst (computePdelayRateRatio s (neighborRateRatio (pdr_fad s))) = r"
    by (simp add: r_def next_ratio_def computePdelayRateRatio_def Let_def)
  show "neighborRateRatio (pdr_fad (pdr_measure s)) = r"
    using assms(1,2) r by (simp add: pdr_measure_def Let_def case_prod_beta)
  show "nsec (neighborPropDelay (pdr_fad (pdr_measure s))) = link_delay r (t1ts64 s) (t2ts64 s) (t3ts64 s) (t4ts64 s)"
    using assms(1,2) r
    by (simp add: pdr_measure_def Let_def case_prod_beta computePropTime_def link_delay_def
        COMPUTED_PROP_TIME_TOO_BIG_def UB_SEC_NS_def not_less conj_commute)
      (simp add: pdr_port_def)
  show "prev_t1ts64 (pdr_measure s) = t1ts64 s" "prev_t2ts64 (pdr_measure s) = t2ts64 s"
    using assms(1,2) by (simp_all add: pdr_measure_def Let_def case_prod_beta)
      (simp_all add: pdr_port_def pdr_md_def computePdelayRateRatio_def Let_def)
  show "isMeasuringDelay (pdr_mfad (pdr_measure s))"
    using assms(1,2) by (simp add: pdr_measure_def Let_def case_prod_beta)
qed

lemma measure_frame [simp]:
  "lostResponses (pdr_measure s) = lostResponses s" "ptasg (pdr_measure s) = ptasg s"
  "neighborRateRatioValid s \<Longrightarrow> neighborRateRatioValid (pdr_measure s)"
  "neighborPropDelayMinLimit (pdr_mfad (pdr_measure s)) = neighborPropDelayMinLimit (pdr_mfad s)"
  "neighborPropDelayThresh (pdr_mfad (pdr_measure s)) = neighborPropDelayThresh (pdr_mfad s)"
  by (simp_all add: pdr_measure_def Let_def case_prod_beta)
    (simp_all add: pdr_port_def pdr_md_def computePdelayRateRatio_def Let_def)

lemma verdict_frame [simp]:
  "lostResponses (pdr_verdict r s) = lostResponses s" "prev_t1ts64 (pdr_verdict r s) = prev_t1ts64 s"
  "prev_t2ts64 (pdr_verdict r s) = prev_t2ts64 s"
  by (simp_all add: pdr_verdict_def pdr_detectedfault_def pdr_noascapable_def Let_def)
    (simp_all add: pdr_md_def)

lemma verdict_capable:
  assumes "md_clockIdentity (pr_head r) \<noteq> thisClock (ptasg s)" "neighborRateRatioValid s"
  shows "nsec (neighborPropDelayMinLimit (pdr_mfad s)) \<le> nsec (neighborPropDelay (pdr_fad s)) \<Longrightarrow>
      nsec (neighborPropDelay (pdr_fad s)) \<le> nsec (neighborPropDelayThresh (pdr_mfad s)) \<Longrightarrow>
      asCapableAcrossDomains (pdr_mfad (pdr_verdict r s))"
    and "nsec (neighborPropDelayMinLimit (pdr_mfad s)) \<le> nsec (neighborPropDelay (pdr_fad s)) \<Longrightarrow>
      nsec (neighborPropDelayThresh (pdr_mfad s)) < nsec (neighborPropDelay (pdr_fad s)) \<Longrightarrow>
      \<not> asCapableAcrossDomains (pdr_mfad (pdr_verdict r s))"
  using assms by (auto simp: pdr_verdict_def Let_def pdr_noascapable_def dest: leD)

lemma exchange_measures:
  fixes e sm r f t1 t4
  defines "ratio \<equiv> next_ratio (nsec (pdelayReqInterval (md_forAllDomain (pdr_mdeg sm)))) (t1 - prev_t1ts64 sm)
      (timestamp_nsec e (pr_timestamp r) - prev_t2ts64 sm) (neighborRateRatio (forAllDomain (ppg sm)))"
  defines "delay \<equiv> link_delay ratio t1 (timestamp_nsec e (pr_timestamp r)) (timestamp_nsec e (pr_timestamp f)) t4"
  assumes "pdr_enabled sm" "state sm = PDR_SEND" "last_state sm = PDR_SEND"
    and "\<not> rcvdPdelayResp sm" "\<not> rcvdPdelayRespFollowUp sm" "\<not> asymmetryMeasurementMode (forAllDomain (ppg sm))"
    and "computeNeighborRateRatio (forAllDomain (ppg sm))" "computeNeighborPropDelay (forAllDomain (ppg sm))"
    and r: "r = pdelay_resp_overlay e rb" "response_valid e sm r"
    and f: "f = pdelay_resp_overlay e fb" "follow_up_valid sm r f"
    and "\<not> pdr_timeout c1 sm" "\<not> pdr_timeout c2 sm" "\<not> pdr_timeout c3 sm"
  shows "\<exists>t. pdr_exchange e io sm (t1, c1) (rb, t4, c2) (fb, c3) = Some t \<and> state t = PDR_WAIT_TIMER \<and>
    neighborRateRatio (forAllDomain (ppg t)) = ratio \<and> nsec (neighborPropDelay (forAllDomain (ppg t))) = delay \<and>
    lostResponses t = 0 \<and>
    (neighborRateRatioValid sm \<and> nsec (neighborPropDelayMinLimit (md_forAllDomain (pdr_mdeg sm))) \<le> delay \<longrightarrow>
       asCapableAcrossDomains (md_forAllDomain (pdr_mdeg t)) =
         (delay \<le> nsec (neighborPropDelayThresh (md_forAllDomain (pdr_mdeg sm)))))"
proof -
  let ?a = "pdr_got_t1 sm t1"
  have a: "md_pdelay_req_sm_txts e io False sm (pdelayReqSequenceId sm) t1 c1 = Some (?a, Next)"
    using assms(3-7,13) by (intro exchange_t1) (simp_all add: assms)
  have "pdr_enabled ?a" "response_taken e ?a r" "\<not> pdr_timeout c2 ?a"
    using assms response_valid_taken [OF r(2)]
    by (simp_all add: pdr_got_t1_def pdr_enabled_def response_taken_def pdr_elapsed_def)
  then obtain st where b: "md_pdelay_req_sm_recv_resp e io ?a rb t4 c2 =
      Some ((pdr_got_response e ?a r t4)\<lparr>pdr_statd := st\<rparr>, Next)"
    using exchange_response [of ?a c2 e rb io t4] assms(7) by (auto simp: pdr_got_t1_def r(1))
  let ?b = "(pdr_got_response e ?a r t4)\<lparr>pdr_statd := st\<rparr>"
  note got = pdr_got_response_def pdr_got_t1_def
  have "pdr_enabled ?b" "follow_up_valid ?b r f" "\<not> pdr_timeout c3 ?b" "state ?b = PDR_WAIT_FOLLOW_UP"
      "last_state ?b = PDR_WAIT_FOLLOW_UP" "\<not> rcvdPdelayResp ?b" "recPdelayResp ?b = Some r"
      "md_clockIdentity (pr_head r) \<noteq> thisClock (ptasg ?b)"
      "\<not> asymmetryMeasurementMode (forAllDomain (ppg ?b))"
    using assms by (simp_all add: got pdr_enabled_def follow_up_valid_def response_valid_def pdr_elapsed_def)
  then obtain st' where c: "md_pdelay_req_sm_recv_respfup e io ?b fb c3 =
      Some ((pdr_verdict r (pdr_measure (pdr_complete e ?b f)))\<lparr>pdr_statd := st'\<rparr>, Next)"
    using exchange_follow_up [of ?b r c3 e fb io] by (auto simp: f(1))
  let ?m = "pdr_complete e ?b f"
  have m: "ppg ?m = ppg sm" "pdr_mdeg ?m = pdr_mdeg sm" "ptasg ?m = ptasg sm" "t1ts64 ?m = t1"
      "t2ts64 ?m = timestamp_nsec e (pr_timestamp r)" "t3ts64 ?m = timestamp_nsec e (pr_timestamp f)"
      "t4ts64 ?m = t4" "prev_t1ts64 ?m = prev_t1ts64 sm" "prev_t2ts64 ?m = prev_t2ts64 sm"
      "neighborRateRatioValid ?m = neighborRateRatioValid sm" "lostResponses ?m = 0" "state ?m = PDR_WAIT_TIMER"
    by (simp_all add: pdr_complete_def got)
  have spec: "neighborRateRatio (pdr_fad (pdr_measure ?m)) = ratio"
      "nsec (neighborPropDelay (pdr_fad (pdr_measure ?m))) = delay"
    using measure_spec(1,2) [of ?m] assms(9,10) by (simp_all add: m ratio_def delay_def)
  have other: "md_clockIdentity (pr_head r) \<noteq> thisClock (ptasg (pdr_measure ?m))"
    using r(2) by (simp add: m response_valid_def)
  have "asCapableAcrossDomains (pdr_mfad (pdr_verdict r (pdr_measure ?m))) =
        (delay \<le> nsec (neighborPropDelayThresh (pdr_mfad sm)))"
    if "neighborRateRatioValid sm" "nsec (neighborPropDelayMinLimit (pdr_mfad sm)) \<le> delay"
    using verdict_capable [OF other] that by (cases "delay \<le> nsec (neighborPropDelayThresh (pdr_mfad sm))")
      (simp_all add: m spec not_le)
  with a b c show ?thesis
    by (simp add: pdr_exchange_def pdr_verdict_keeps pdr_measure_keeps(2) m spec)
qed

text \<open>A complete exchange on an enabled port, its timestamp, response and follow-up coming in
  order within the interval, measures the link: the rate ratio becomes the average of the
  old one and the measured one, the propagation delay half of the round trip in the
  neighbour's time without its residence time, and the port is capable exactly if that
  delay is not above the threshold (with a valid ratio and no delay below the limit).\<close>

theorem pdelay_exchange_measures_link:
  fixes e sm r f t1 t4
  defines "ratio \<equiv> next_ratio (nsec (pdelayReqInterval (md_forAllDomain (pdr_mdeg sm)))) (t1 - prev_t1ts64 sm)
      (timestamp_nsec e (pr_timestamp r) - prev_t2ts64 sm) (neighborRateRatio (forAllDomain (ppg sm)))"
  defines "delay \<equiv> link_delay ratio t1 (timestamp_nsec e (pr_timestamp r)) (timestamp_nsec e (pr_timestamp f)) t4"
  assumes "pdr_enabled sm" "state sm = PDR_SEND" "last_state sm = PDR_SEND"
    and "\<not> rcvdPdelayResp sm" "\<not> rcvdPdelayRespFollowUp sm" "\<not> asymmetryMeasurementMode (forAllDomain (ppg sm))"
    and "computeNeighborRateRatio (forAllDomain (ppg sm))" "computeNeighborPropDelay (forAllDomain (ppg sm))"
    and r: "r = pdelay_resp_overlay e rb" "response_valid e sm r"
    and f: "f = pdelay_resp_overlay e fb" "follow_up_valid sm r f"
    and "\<not> pdr_timeout c1 sm" "\<not> pdr_timeout c2 sm" "\<not> pdr_timeout c3 sm"
  shows "\<exists>t. pdr_exchange e io sm (t1, c1) (rb, t4, c2) (fb, c3) = Some t \<and> state t = PDR_WAIT_TIMER \<and>
    neighborRateRatio (forAllDomain (ppg t)) = ratio \<and> nsec (neighborPropDelay (forAllDomain (ppg t))) = delay \<and>
    lostResponses t = 0 \<and>
    (neighborRateRatioValid sm \<and> nsec (neighborPropDelayMinLimit (md_forAllDomain (pdr_mdeg sm))) \<le> delay \<longrightarrow>
       asCapableAcrossDomains (md_forAllDomain (pdr_mdeg t)) =
         (delay \<le> nsec (neighborPropDelayThresh (md_forAllDomain (pdr_mdeg sm)))))"
  using exchange_measures [OF assms(3-17), of io t1 t4] unfolding ratio_def delay_def .

section \<open>Messages that should not count\<close>

text \<open>C40: While the machine waits for a response, one with an older sequence number than its
  request, which the log calls discarded, is taken as the response: the machine goes on to wait
  for the follow-up, with the receipt times of the old message.\<close>

theorem stale_response_accepted:
  fixes e sm bs
  defines "r \<equiv> pdelay_resp_overlay e bs"
  assumes "pdr_enabled sm" "state sm = PDR_WAIT_RESP" "last_state sm = PDR_WAIT_RESP"
    and "\<not> rcvdPdelayRespFollowUp sm" "\<not> pdr_timeout cts sm"
    and "response_taken e sm r" "\<not> response_valid e sm r"
  shows "\<exists>t. md_pdelay_req_sm_recv_resp e io sm bs t4 cts = Some (t, Next) \<and>
    state t = PDR_WAIT_FOLLOW_UP \<and> recPdelayResp t = Some r \<and>
    t2ts64 t = timestamp_nsec e (pr_timestamp r) \<and> t4ts64 t = t4"
  using exchange_response [OF assms(2-6) assms(7) [unfolded r_def], of io t4]
  by (auto simp: r_def pdr_got_response_def)

text \<open>While the machine waits for the follow-up of a response, another response with any other
  sequence number takes the place of the first one and of its times, and the machine
  keeps waiting.\<close>

theorem stray_response_overwrites:
  fixes e bs
  defines "r \<equiv> pdelay_resp_overlay e bs"
  assumes "pdr_enabled sm" "state sm = PDR_WAIT_FOLLOW_UP" "last_state sm = PDR_WAIT_FOLLOW_UP"
    and "\<not> rcvdPdelayRespFollowUp sm" "\<not> pdr_timeout cts sm"
    and "txPdelayReq sm = Some q" "sequenceId_ns (pr_head r) \<noteq> sequenceId_ns (pq_head q)"
  shows "\<exists>t. md_pdelay_req_sm_recv_resp e io sm bs t4 cts = Some (t, Next) \<and>
    state t = PDR_WAIT_FOLLOW_UP \<and> recPdelayResp t = Some r \<and>
    t2ts64 t = timestamp_nsec e (pr_timestamp r) \<and> t4ts64 t = t4"
proof -
  let ?a = "sm\<lparr>rcvdPdelayResp := True, recPdelayResp := Some r, t2ts64 := timestamp_nsec e (pr_timestamp r)\<rparr>"
  let ?b = "?a\<lparr>state := PDR_WAIT_FOLLOW_UP\<rparr>"
  have en: "pdr_enabled ?a" using assms(2) by (simp add: pdr_enabled_def)
  have "waiting_for_pdelay_resp_follow_up_condition e cts ?a = Some ?b"
    using assms(5-8) by (simp add: waiting_for_pdelay_resp_follow_up_condition_def pdr_elapsed_def)
  then have "sm_step (pdr_body e io cts) ?a = (?b, Next)"
    using assms(3,4) by (simp add: sm_step_settled pdr_body_def)
  then have "sm_loop (pdr_body e io cts) ?a = Some (?b, Next)"
    by (rule sm_loop_rest) (simp add: assms(4))
  then show ?thesis
    by (simp add: md_pdelay_req_sm_recv_resp_def Let_def pdr_run [OF en] flip: r_def)
qed

section \<open>A peer that does not answer\<close>

text \<open>The interval of a request without a response: the tick that ends the wait and sends the next
  request, and the timestamp of that request.\<close>

definition silent_round ::
  "env \<Rightarrow> net_io \<Rightarrow> md_pdelay_req_data \<Rightarrow> u64 \<times> u64 \<times> u64 \<Rightarrow> md_pdelay_req_data option" where
  "silent_round e io sm x =
     (case md_pdelay_req_sm e io sm (fst x) of
        None \<Rightarrow> None
      | Some (s1, c) \<Rightarrow>
          (case md_pdelay_req_sm_txts e io False s1 (pdelayReqSequenceId s1) (fst (snd x)) (snd (snd x)) of
             None \<Rightarrow> None | Some (s2, c2) \<Rightarrow> Some s2))"

fun silent_rounds :: "env \<Rightarrow> net_io \<Rightarrow> md_pdelay_req_data \<Rightarrow> (u64 \<times> u64 \<times> u64) list \<Rightarrow> md_pdelay_req_data option" where
  "silent_rounds e io sm [] = Some sm"
| "silent_rounds e io sm (x # xs) =
     (case silent_round e io sm x of None \<Rightarrow> None | Some s \<Rightarrow> silent_rounds e io s xs)"

text \<open>The ticks come when the interval is over, the timestamps before it is.\<close>

fun round_times :: "u64 \<Rightarrow> u64 \<Rightarrow> (u64 \<times> u64 \<times> u64) list \<Rightarrow> bool" where
  "round_times interval start [] \<longleftrightarrow> True"
| "round_times interval start ((cts, t1, c1) # xs) \<longleftrightarrow>
     interval \<le> cts - start \<and> c1 - cts < interval \<and> round_times interval cts xs"

definition pdr_quiet :: "md_pdelay_req_data \<Rightarrow> bool" where
  "pdr_quiet sm \<longleftrightarrow> pdr_enabled sm \<and> pdr_net sm \<and> \<not> conformToAvnu (ptasg sm) \<and>
     state sm = PDR_WAIT_RESP \<and> last_state sm = PDR_WAIT_RESP \<and>
     \<not> rcvdPdelayResp sm \<and> \<not> rcvdPdelayRespFollowUp sm"

lemma txPdelayReq_taken:
  assumes "pdr_net s" "net_takes io"
  shows "\<exists>st fs. txPdelayReq_out e io s = (TxSent, s\<lparr>txPdelayReq := Some (pdelay_req_message e s),
    pdr_sent := fs, pdr_statd := st\<rparr>)"
proof -
  note net = net_takesD [OF assms(2)]
  show ?thesis
    using assms(1) net by (simp add: txPdelayReq_out_def setPdelayReq_def Let_def) (rule exI, rule exI, rule refl)
qed

text \<open>What a silent interval leaves: one more lost response, or a port that is not capable.\<close>

lemma reset_counts:
  assumes "\<not> conformToAvnu (ptasg s)"
  shows "lostResponses s < allowedLostResponses (pdr_mfad s) \<Longrightarrow>
      pdr_reset_proc s = s\<lparr>initPdelayRespReceived := False, rcvdPdelayResp := False,
        lostResponses := lostResponses s + 1\<rparr>"
    and "\<not> lostResponses s < allowedLostResponses (pdr_mfad s) \<Longrightarrow>
      \<not> asCapableAcrossDomains (pdr_mfad (pdr_reset_proc s)) \<and>
      lostResponses (pdr_reset_proc s) = lostResponses s"
  using assms by (simp_all add: pdr_reset_proc_def Let_def pdr_incapable_def pdr_port_def pdr_md_def)

lemma reset_frame:
  "ptasg (pdr_reset_proc s) = ptasg s" "portOper (pdr_fad (pdr_reset_proc s)) = portOper (pdr_fad s)"
  "portEnabled0 (pdr_reset_proc s) = portEnabled0 s" "pdr_net (pdr_reset_proc s) = pdr_net s"
  "pdelayIntervalTimer (pdr_reset_proc s) = pdelayIntervalTimer s"
  "pdelayReqInterval (pdr_mfad (pdr_reset_proc s)) = pdelayReqInterval (pdr_mfad s)"
  "allowedLostResponses (pdr_mfad (pdr_reset_proc s)) = allowedLostResponses (pdr_mfad s)"
  "last_state (pdr_reset_proc s) = last_state s" "rcvdPdelayRespFollowUp (pdr_reset_proc s) = rcvdPdelayRespFollowUp s"
  by (simp_all add: pdr_reset_proc_def Let_def pdr_incapable_def pdr_port_def pdr_md_def)

lemma reset_any_state:
  "pdr_mfad (pdr_reset_proc (s\<lparr>state := x, last_state := y\<rparr>)) = pdr_mfad (pdr_reset_proc s)"
  "lostResponses (pdr_reset_proc (s\<lparr>state := x, last_state := y\<rparr>)) = lostResponses (pdr_reset_proc s)"
  by (simp_all add: pdr_reset_proc_def Let_def pdr_incapable_def pdr_port_def pdr_md_def)

text \<open>The request that ends a silent interval.\<close>

lemma silent_tick:
  assumes "pdr_quiet sm" "pdr_timeout cts sm" "net_takes io"
  shows "\<exists>t. md_pdelay_req_sm e io sm cts = Some (t, Return ()) \<and>
    state t = PDR_SEND \<and> last_state t = PDR_SEND \<and> pdr_enabled t \<and> pdr_net t \<and> \<not> rcvdPdelayResp t \<and>
    \<not> rcvdPdelayRespFollowUp t \<and> ptasg t = ptasg sm \<and> nsec (pdelayIntervalTimer t) = cts \<and>
    pdr_mfad t = pdr_mfad (pdr_reset_proc sm) \<and> lostResponses t = lostResponses (pdr_reset_proc sm)"
proof -
  let ?a = "sm\<lparr>state := PDR_RESET\<rparr>"
  let ?b = "pdr_reset_proc (?a\<lparr>last_state := PDR_RESET\<rparr>)"
  let ?c = "?b\<lparr>state := PDR_SEND\<rparr>"
  let ?d = "?c\<lparr>last_state := PDR_SEND, rcvdPdelayResp := False, rcvdPdelayRespFollowUp := False,
    pdelayReqSequenceId := pdelayReqSequenceId ?c + 1\<rparr>"
  note q = assms(1) [unfolded pdr_quiet_def]
  have "sm_step (pdr_body e io cts) sm = (?a, Next)"
    using q assms(2) by (simp add: sm_step_settled pdr_body_def waiting_for_pdelay_resp_condition_def)
  then have 1: "sm_loop (pdr_body e io cts) sm = sm_loop (pdr_body e io cts) ?a"
    by (rule sm_loop_again) (use q in simp)
  have avnu: "\<not> conformToAvnu (ptasg ?b)" using q by (simp add: reset_frame)
  have "pdr_timeout cts ?b" using assms(2) by (simp add: pdr_elapsed_def reset_frame)
  then have "sm_step (pdr_body e io cts) ?a = (?c, Next)"
    using q avnu by (simp add: sm_step_entered pdr_body_def pdr_reset_condition_def Let_def)
  then have 2: "sm_loop (pdr_body e io cts) ?a = sm_loop (pdr_body e io cts) ?c"
    by (rule sm_loop_again) (simp add: reset_frame)
  obtain st fs where tx: "txPdelayReq_out e io ?d = (TxSent, ?d\<lparr>txPdelayReq := Some (pdelay_req_message e ?d),
      pdr_sent := fs, pdr_statd := st\<rparr>)"
    using txPdelayReq_taken [of ?d io e] assms(3) q by (auto simp: reset_frame)
  let ?t = "?d\<lparr>txPdelayReq := Some (pdelay_req_message e ?d), pdr_sent := fs, pdr_statd := st,
    pdelayIntervalTimer := (pdelayIntervalTimer ?d)\<lparr>nsec := cts\<rparr>\<rparr>"
  have "sm_step (pdr_body e io cts) ?c = (?t, Return ())"
    using tx by (simp add: sm_step_entered pdr_body_def send_pdelay_req_proc_def reset_frame)
  then have "sm_loop (pdr_body e io cts) ?c = Some (?t, Return ())" by (rule sm_loop_out) simp
  with 1 2 have run: "md_pdelay_req_sm e io sm cts = Some (?t, Return ())" using q by (simp add: pdr_run)
  show ?thesis using q unfolding run by (simp add: pdr_enabled_def reset_frame reset_any_state)
qed

lemma silent_round_counts:
  assumes "pdr_quiet sm" "net_takes io" "interval = nsec (pdelayReqInterval (pdr_mfad sm))"
    and "interval \<le> cts - nsec (pdelayIntervalTimer sm)" "c1 - cts < interval"
  shows "\<exists>t. silent_round e io sm (cts, t1, c1) = Some t \<and> pdr_quiet t \<and>
    pdr_mfad t = pdr_mfad (pdr_reset_proc sm) \<and> lostResponses t = lostResponses (pdr_reset_proc sm) \<and>
    nsec (pdelayIntervalTimer t) = cts"
proof -
  have "pdr_timeout cts sm" using assms(3,4) by (simp add: pdr_elapsed_def)
  from silent_tick [OF assms(1) this assms(2)] obtain s where
    s: "md_pdelay_req_sm e io sm cts = Some (s, Return ())"
      "state s = PDR_SEND" "last_state s = PDR_SEND" "pdr_enabled s" "pdr_net s" "\<not> rcvdPdelayResp s"
      "\<not> rcvdPdelayRespFollowUp s" "ptasg s = ptasg sm" "nsec (pdelayIntervalTimer s) = cts"
      "pdr_mfad s = pdr_mfad (pdr_reset_proc sm)" "lostResponses s = lostResponses (pdr_reset_proc sm)"
    by blast
  have "\<not> pdr_timeout c1 s" using assms(3,5) s(9,10) by (simp add: pdr_elapsed_def reset_frame not_le)
  note t1 = exchange_t1 [OF s(4,2,3,6,7) this, of e io t1]
  have "pdr_quiet (pdr_got_t1 s t1)"
    using s assms(1) by (simp add: pdr_quiet_def pdr_got_t1_def pdr_enabled_def)
  with t1 s show ?thesis by (simp add: silent_round_def pdr_got_t1_def)
qed

definition given_up :: "md_pdelay_req_data \<Rightarrow> bool" where
  "given_up sm \<longleftrightarrow> \<not> asCapableAcrossDomains (pdr_mfad sm) \<and>
     \<not> lostResponses sm < allowedLostResponses (pdr_mfad sm)"

lemma silent_round_progress:
  assumes "pdr_quiet sm"
    and "pdr_mfad t = pdr_mfad (pdr_reset_proc sm)" "lostResponses t = lostResponses (pdr_reset_proc sm)"
  shows "given_up t \<or> unat (lostResponses t) = unat (lostResponses sm) + 1 \<and>
      lostResponses sm < allowedLostResponses (pdr_mfad sm)"
proof (cases "lostResponses sm < allowedLostResponses (pdr_mfad sm)")
  case True
  have "unat (lostResponses sm + 1) = unat (lostResponses sm) + 1"
    using True unsigned_less [of "allowedLostResponses (pdr_mfad sm)", where 'a = nat]
    by (simp add: word_less_nat_alt flip: unat_add_lem [of "lostResponses sm" 1, simplified])
  with True assms reset_counts(1) [of sm] show ?thesis by (simp add: pdr_quiet_def)
next
  case False
  with assms reset_counts(2) [of sm] show ?thesis by (simp add: pdr_quiet_def given_up_def reset_frame)
qed

lemma silent_rounds_give_up:
  assumes "pdr_quiet sm" "net_takes io" "interval = nsec (pdelayReqInterval (pdr_mfad sm))"
    and "round_times interval (nsec (pdelayIntervalTimer sm)) xs"
    and "given_up sm \<or> unat (allowedLostResponses (pdr_mfad sm)) < unat (lostResponses sm) + length xs"
  shows "\<exists>t. silent_rounds e io sm xs = Some t \<and> pdr_quiet t \<and>
    (xs \<noteq> [] \<or> given_up sm \<longrightarrow> given_up t)"
  using assms
proof (induction xs arbitrary: sm)
  case (Cons x xs)
  obtain cts t1 c1 where x: "x = (cts, t1, c1)" by (cases x) auto
  from Cons.prems(4) have time: "interval \<le> cts - nsec (pdelayIntervalTimer sm)" "c1 - cts < interval"
    "round_times interval cts xs" by (simp_all add: x)
  from silent_round_counts [OF Cons.prems(1-3) time(1,2), of e t1] obtain s where
    s: "silent_round e io sm x = Some s" "pdr_quiet s" "pdr_mfad s = pdr_mfad (pdr_reset_proc sm)"
      "lostResponses s = lostResponses (pdr_reset_proc sm)" "nsec (pdelayIntervalTimer s) = cts"
    unfolding x by blast
  have "interval = nsec (pdelayReqInterval (pdr_mfad s))" "round_times interval (nsec (pdelayIntervalTimer s)) xs"
    using Cons.prems(3) time(3) by (simp_all add: s(3,5) reset_frame)
  note IH = Cons.IH [OF s(2) Cons.prems(2) this]
  have al: "allowedLostResponses (pdr_mfad s) = allowedLostResponses (pdr_mfad sm)" by (simp add: s(3) reset_frame)
  have progress: "given_up s \<or> unat (lostResponses s) = unat (lostResponses sm) + 1 \<and>
      lostResponses sm < allowedLostResponses (pdr_mfad sm)"
    by (rule silent_round_progress [OF Cons.prems(1) s(3,4)])
  have "given_up s \<or> unat (allowedLostResponses (pdr_mfad s)) < unat (lostResponses s) + length xs"
    using progress Cons.prems(5) by (auto simp: al given_up_def)
  moreover have "xs \<noteq> [] \<or> given_up s"
    using progress Cons.prems(5) by (auto simp: given_up_def word_less_nat_alt)
  ultimately show ?case using IH by (auto simp: s(1))
qed simp


section \<open>Instances\<close>

definition sample_mfad :: MDEntityGlobalForAllDomain where
  "sample_mfad = \<lparr>currentLogPdelayReqInterval = 0, initialLogPdelayReqInterval = 0,
     pdelayReqInterval = zero_UScaledNs\<lparr>nsec := 1000000000\<rparr>, allowedLostResponses = 9, allowedFaults = 9,
     isMeasuringDelay = False, neighborPropDelayThresh = zero_UScaledNs\<lparr>nsec := 800\<rparr>,
     neighborPropDelayMinLimit = zero_UScaledNs, asCapableAcrossDomains = False\<rparr>"

definition sample_req :: MDPTPMsgPdelayReq where
  "sample_req = \<lparr>pq_head = md_header_compose default_env PDELAY_REQ 54 sample_clock 1 5 0\<rparr>"

text \<open>A response of the peer to request \<open>n\<close> with a timestamp in nanoseconds, as bytes on the wire.\<close>

definition sample_resp :: "PTPMsgType \<Rightarrow> u16 \<Rightarrow> int \<Rightarrow> MDPTPMsgPdelayResp" where
  "sample_resp m n ns = \<lparr>pr_head = md_header_compose default_env m 54 sample_peer 1 n 0x7f,
     pr_timestamp = timestamp_of default_env sample_io ns,
     requestingPortIdentity = \<lparr>mp_clockIdentity = sample_clock, mp_portNumber_ns = hton False 1\<rparr>\<rparr>"

definition sample_pdr :: md_pdelay_req_data where
  "sample_pdr = (md_pdelay_req_sm_init default_env True sample_ptasg
       (sample_ppg\<lparr>forAllDomain := zero_PerPortGlobalForAllDomain
          \<lparr>portOper := True, neighborRateRatio := 1, computeNeighborRateRatio := True, computeNeighborPropDelay := True\<rparr>\<rparr>)
       \<lparr>syncSequenceId = 0, oneStepReceive = False, oneStepTransmit = False, oneStepTxOper = False,
        md_forAllDomain = sample_mfad\<rparr>)
     \<lparr>state := PDR_SEND, last_state := PDR_SEND, txPdelayReq := Some sample_req, pdelayReqSequenceId := 5,
      neighborRateRatioValid := True\<rparr>"

lemma sample_head [simp]:
  fixes m n i c
  defines "h \<equiv> md_header_compose default_env m 54 c 1 n i"
  shows "length (md_flags h) = 2" "length (md_messageTypeSpecific h) = 4" "md_clockIdentity h = c"
    "sequenceId_ns h = hton False n" "portNumber_ns h = hton False 1"
    "sdo_of h = 0x10 \<longleftrightarrow> (push_bit 4 1 OR msgtype_code m) AND 0xF0 = (0x10 :: u8)"
  by (simp_all add: h_def md_header_compose_def md_compose_head_def md_header_template_def sdo_of_def)

lemma sample_resp_wire [simp]:
  "pdelay_resp_overlay default_env (pdelay_resp_image default_env (sample_resp m n ns)) = sample_resp m n ns"
  by (rule pdelay_resp_over_wire [where r = "[]", simplified])
    (simp_all add: sample_resp_def sample_clock_def sample_peer_def)

lemma sample_pdr_simps [simp]:
  "ptasg sample_pdr = sample_ptasg" "thisPort (ppg sample_pdr) = 1" "state sample_pdr = PDR_SEND"
  "last_state sample_pdr = PDR_SEND" "txPdelayReq sample_pdr = Some sample_req" "pdr_net sample_pdr"
  "pdr_mfad sample_pdr = sample_mfad" "nsec (pdelayIntervalTimer sample_pdr) = 0" "pdr_enabled sample_pdr"
  "\<not> rcvdPdelayResp sample_pdr" "\<not> rcvdPdelayRespFollowUp sample_pdr" "lostResponses sample_pdr = 0"
  "\<not> asymmetryMeasurementMode (pdr_fad sample_pdr)" "computeNeighborRateRatio (pdr_fad sample_pdr)"
  "computeNeighborPropDelay (pdr_fad sample_pdr)" "neighborRateRatio (pdr_fad sample_pdr) = 1"
  "thisClock sample_ptasg = sample_clock" "\<not> conformToAvnu sample_ptasg"
  by (simp_all add: sample_pdr_def md_pdelay_req_sm_init_def sample_ppg_def pdr_enabled_def sample_ptasg_def
      zero_PerPortGlobalForAllDomain_def zero_PerTimeAwareSystemGlobal_def zero_UScaledNs_def)

lemma sample_timeout [simp]:
  "nsec (pdelayReqInterval sample_mfad) \<le> pdr_elapsed cts sample_pdr \<longleftrightarrow> 1000000000 \<le> cts"
  by (simp add: pdr_elapsed_def sample_mfad_def)

lemma sample_response_valid:
  "response_valid default_env sample_pdr (sample_resp PDELAY_RESP 5 ns)"
  "response_taken default_env sample_pdr (sample_resp PDELAY_RESP 4 ns)"
  "\<not> response_valid default_env sample_pdr (sample_resp PDELAY_RESP 4 ns)"
  "follow_up_valid sample_pdr (sample_resp PDELAY_RESP 5 ns) (sample_resp PDELAY_RESP_FOLLOW_UP 5 ns')"
  by (simp_all add: response_valid_def response_taken_def follow_up_valid_def sample_resp_def sample_req_def head_source_def)

theorem pdelay_events_safe_witness:
  "\<exists>t c. pdr_handle default_env sample_io (Response [] 0 0)
     (md_pdelay_req_sm_init default_env True sample_ptasg sample_ppg (pdr_mdeg sample_pdr)) = Some (t, c) \<and> c \<noteq> Crash"
  using pdelay_events_safe [OF pdr_reach.start] by blast


theorem propagation_time_bounds_witness:
  "computePropTime (sample_pdr\<lparr>t1ts64 := 1000, t2ts64 := 500300, t3ts64 := 502300, t4ts64 := 1010\<rparr>) = 0"
  using propagation_time_bounds [of "sample_pdr\<lparr>t1ts64 := 1000, t2ts64 := 500300, t3ts64 := 502300, t4ts64 := 1010\<rparr>"]
  by simp

theorem pdelay_exchange_measures_link_witness:
  "\<exists>t. pdr_exchange default_env sample_io sample_pdr (100, 200)
      (pdelay_resp_image default_env (sample_resp PDELAY_RESP 5 5000000), 1500, 2000)
      (pdelay_resp_image default_env (sample_resp PDELAY_RESP_FOLLOW_UP 5 5000400), 2500) = Some t \<and>
    state t = PDR_WAIT_TIMER \<and> lostResponses t = 0"
  using pdelay_exchange_measures_link [of sample_pdr "sample_resp PDELAY_RESP 5 5000000" default_env
      "pdelay_resp_image default_env (sample_resp PDELAY_RESP 5 5000000)"
      "sample_resp PDELAY_RESP_FOLLOW_UP 5 5000400"
      "pdelay_resp_image default_env (sample_resp PDELAY_RESP_FOLLOW_UP 5 5000400)" 200 2000 2500 sample_io 100 1500]
    sample_response_valid
  by auto

theorem stale_response_accepted_witness:
  "\<exists>t. md_pdelay_req_sm_recv_resp default_env sample_io
      (sample_pdr\<lparr>state := PDR_WAIT_RESP, last_state := PDR_WAIT_RESP\<rparr>)
      (pdelay_resp_image default_env (sample_resp PDELAY_RESP 4 5000000)) 1500 2000 = Some (t, Next) \<and>
    state t = PDR_WAIT_FOLLOW_UP"
proof -
  let ?s = "sample_pdr\<lparr>state := PDR_WAIT_RESP, last_state := PDR_WAIT_RESP\<rparr>"
  have "pdr_enabled ?s" "response_taken default_env ?s (sample_resp PDELAY_RESP 4 5000000)"
    "\<not> response_valid default_env ?s (sample_resp PDELAY_RESP 4 5000000)" "\<not> pdr_timeout 2000 ?s"
    using sample_pdr_simps(9) sample_response_valid(2,3) sample_timeout [of 2000]
    by (simp_all add: pdr_enabled_def response_taken_def response_valid_def pdr_elapsed_def)
  then show ?thesis
    using stale_response_accepted [of ?s 2000 default_env
        "pdelay_resp_image default_env (sample_resp PDELAY_RESP 4 5000000)" sample_io 1500] by auto
qed

theorem stray_response_overwrites_witness:
  "\<exists>t. md_pdelay_req_sm_recv_resp default_env sample_io
      (sample_pdr\<lparr>state := PDR_WAIT_FOLLOW_UP, last_state := PDR_WAIT_FOLLOW_UP\<rparr>)
      (pdelay_resp_image default_env (sample_resp PDELAY_RESP 77 5000000)) 1500 2000 = Some (t, Next) \<and>
    recPdelayResp t = Some (sample_resp PDELAY_RESP 77 5000000) \<and> t4ts64 t = 1500"
proof -
  let ?s = "sample_pdr\<lparr>state := PDR_WAIT_FOLLOW_UP, last_state := PDR_WAIT_FOLLOW_UP\<rparr>"
  have "pdr_enabled ?s" "\<not> pdr_timeout 2000 ?s"
    using sample_pdr_simps(9) sample_timeout [of 2000] by (simp_all add: pdr_enabled_def pdr_elapsed_def)
  moreover have "sequenceId_ns (pr_head (sample_resp PDELAY_RESP 77 5000000)) \<noteq> sequenceId_ns (pq_head sample_req)"
    by (simp add: sample_resp_def sample_req_def)
  ultimately show ?thesis
    using stray_response_overwrites [of ?s 2000 sample_req default_env
        "pdelay_resp_image default_env (sample_resp PDELAY_RESP 77 5000000)" sample_io 1500] by auto
qed


end
