(* ===== verification/Gptp_PdelayResp.thy ===== *)
theory Gptp_PdelayResp
  imports Gptp_MdIo
begin

text \<open>
  The MDPdelayResp machine (\<^verbatim>\<open>md_pdelay_resp_sm.c\<close>, 11.2.20 of the standard): it answers
  Pdelay_Req messages with a Pdelay_Resp that carries the receipt time of the request,
  and a follow-up that carries the departure time of the response.
\<close>

section \<open>State and procedures\<close>

datatype (plugins only: code) pds_state =
    PDS_INIT
  | PDS_NOT_ENABLED
  | PDS_INITIAL_WAITING
  | PDS_WAITING
  | PDS_SENT
  | PDS_REACTION

record pdelay_resp_stat =
  pdelay_req_rec :: u32
  pdelay_req_rec_valid :: u32
  pdelay_resp_send :: u32
  pdelay_resp_fup_send :: u32

record md_pdelay_resp_data = "pds_state port_sm" +
  pds_net :: bool
  pds_rcvdPdelayReq :: bool
  rcvdPdelayReqPtr :: "MDPTPMsgPdelayReq option"
  pds_rcvdMDTimestampReceive :: bool
  txPdelayRespPtr :: "MDPTPMsgPdelayResp option"
  txPdelayRespFollowUpPtr :: "MDPTPMsgPdelayResp option"
  portEnabled1 :: bool
  ts2 :: u64 \<comment> \<open>signed\<close>
  ts3 :: u64 \<comment> \<open>signed\<close>
  txPdelayResp_time :: u64
  pds_cmlds_mode :: int
  last_seqid :: int
  pds_statd :: pdelay_resp_stat
  pds_mock_txts64 :: u64
  pds_sent :: "u8 list list" \<comment> \<open>the frames that the network has taken\<close>

subsection \<open>Messages\<close>

text \<open>
  The two messages differ in their type and their time. \<open>m\<close> is the type, \<open>ns\<close> the time and
  \<open>q\<close> the request that is answered.
\<close>

definition pdelay_answer ::
  "env \<Rightarrow> net_io \<Rightarrow> PTPMsgType \<Rightarrow> md_pdelay_resp_data \<Rightarrow> int \<Rightarrow> MDPTPMsgPdelayReq \<Rightarrow> MDPTPMsgPdelayResp" where
  "pdelay_answer e io m sm ns q =
     (let h = md_header_compose e m 54 (thisClock (ptasg sm)) (thisPort (ppg sm))
           (hton (big_endian e) (sequenceId_ns (pq_head q))) 0x7f
      in \<lparr>pr_head = (if receivedNonCMLDSPdelayReq (forAllDomain (ppg sm)) = - 1 \<and> pds_cmlds_mode sm \<noteq> 0
                     then set_sdo 0x20 h else h),
          pr_timestamp = timestamp_of e io ns, requestingPortIdentity = head_source (pq_head q)\<rparr>)"

text \<open>
  Sending takes place through the network layer, which without a network is a null access; the
  pointer to the request is dereferenced first. \<open>None\<close> is a null access.
\<close>

definition setPdelayRespFollowUp ::
  "env \<Rightarrow> net_io \<Rightarrow> md_pdelay_resp_data \<Rightarrow> MDPTPMsgPdelayResp option" where
  "setPdelayRespFollowUp e io sm =
     (if pds_net sm
      then map_option (pdelay_answer e io PDELAY_RESP_FOLLOW_UP sm (sint (ts3 sm))) (rcvdPdelayReqPtr sm)
      else None)"

definition setPdelayResp ::
  "env \<Rightarrow> net_io \<Rightarrow> md_pdelay_resp_data \<Rightarrow> MDPTPMsgPdelayResp option" where
  "setPdelayResp e io sm =
     (if pds_net sm
      then map_option (pdelay_answer e io PDELAY_RESP sm (sint (ts2 sm))) (rcvdPdelayReqPtr sm)
      else None)"

text \<open>A frame that the network takes is recorded; \<open>r\<close> is the result of sending.\<close>

definition pds_out :: "int \<Rightarrow> u8 list \<Rightarrow> md_pdelay_resp_data \<Rightarrow> md_pdelay_resp_data" where
  "pds_out r f sm = (if 0 \<le> r then sm\<lparr>pds_sent := pds_sent sm @ [f]\<rparr> else sm)"

subsection \<open>Procedures and conditions of the states\<close>

definition pds_allstate_condition :: "md_pdelay_resp_data \<Rightarrow> pds_state" where
  "pds_allstate_condition sm =
     (if BEGIN (ptasg sm) \<or> \<not> PORT_OPER sm \<or> \<not> portEnabled1 sm then PDS_NOT_ENABLED else state sm)"

definition pds_not_enabled_condition :: "md_pdelay_resp_data \<Rightarrow> pds_state" where
  "pds_not_enabled_condition sm = (if portEnabled1 sm then PDS_INITIAL_WAITING else PDS_NOT_ENABLED)"

definition initial_waiting_for_pdelay_req_proc :: "md_pdelay_resp_data \<Rightarrow> md_pdelay_resp_data" where
  "initial_waiting_for_pdelay_req_proc sm = sm\<lparr>pds_rcvdPdelayReq := False, last_seqid := - 1\<rparr>"

definition initial_waiting_for_pdelay_req_condition :: "md_pdelay_resp_data \<Rightarrow> pds_state" where
  "initial_waiting_for_pdelay_req_condition sm =
     (if pds_rcvdPdelayReq sm then PDS_SENT else PDS_INITIAL_WAITING)"

text \<open>The result is that of the C function; \<open>None\<close> is a null access.\<close>

definition waiting_for_pdelay_req_proc ::
  "env \<Rightarrow> net_io \<Rightarrow> md_pdelay_resp_data \<Rightarrow> (int \<times> md_pdelay_resp_data) option" where
  "waiting_for_pdelay_req_proc e io sm =
     (case setPdelayRespFollowUp e io sm of
        None \<Rightarrow> None
      | Some m \<Rightarrow>
          let f = pdelay_resp_image e m; res = net_send io f;
              sm1 = sm\<lparr>txPdelayRespFollowUpPtr := Some m\<rparr>
          in if res = - 1 then Some (- 1, sm1)
             else Some (0, (pds_out res f sm1)
                    \<lparr>pds_statd := (pds_statd sm1)\<lparr>pdelay_resp_fup_send := pdelay_resp_fup_send (pds_statd sm1) + 1\<rparr>\<rparr>))"

definition waiting_for_pdelay_req_condition :: "md_pdelay_resp_data \<Rightarrow> pds_state" where
  "waiting_for_pdelay_req_condition sm = (if pds_rcvdPdelayReq sm then PDS_SENT else PDS_WAITING)"

definition sent_pdelay_resp_waiting_for_timestamp_proc ::
  "env \<Rightarrow> net_io \<Rightarrow> u64 \<Rightarrow> md_pdelay_resp_data \<Rightarrow> (int \<times> md_pdelay_resp_data) option" where
  "sent_pdelay_resp_waiting_for_timestamp_proc e io cts64 sm =
     (case setPdelayResp e io (sm\<lparr>pds_rcvdPdelayReq := False\<rparr>) of
        None \<Rightarrow> None
      | Some m \<Rightarrow>
          let f = pdelay_resp_image e m; res = net_send io f;
              sm1 = sm\<lparr>pds_rcvdPdelayReq := False, txPdelayRespPtr := Some m, pds_rcvdMDTimestampReceive := False\<rparr>
          in if res = - 1 then Some (- 1, sm1)
             else let sm2 = (pds_out res f sm1)\<lparr>txPdelayResp_time := cts64,
                    pds_statd := (pds_statd sm1)\<lparr>pdelay_resp_send := pdelay_resp_send (pds_statd sm1) + 1\<rparr>\<rparr>
                  in if res < 0 then Some (- res, sm2\<lparr>pds_mock_txts64 := clock_now io\<rparr>) else Some (res, sm2))"

definition sent_pdelay_resp_waiting_for_timestamp_condition ::
  "net_io \<Rightarrow> u64 \<Rightarrow> md_pdelay_resp_data \<Rightarrow> md_pdelay_resp_data" where
  "sent_pdelay_resp_waiting_for_timestamp_condition io cts64 sm =
     (if pds_rcvdMDTimestampReceive sm then sm\<lparr>state := PDS_WAITING\<rparr>
      else if cts64 - txPdelayResp_time sm \<ge> txtslost_time io then
        (if pds_mock_txts64 sm \<noteq> 0
         then sm\<lparr>ts3 := pds_mock_txts64 sm, pds_mock_txts64 := 0, state := PDS_WAITING\<rparr>
         else sm\<lparr>last_state := PDS_REACTION, state := PDS_SENT\<rparr>)
      else sm\<lparr>state := PDS_SENT\<rparr>)"

section \<open>The machine\<close>

text \<open>A call that sends a response returns 1, otherwise 0; falling out of the loop is 0 too.\<close>

definition pds_body ::
  "env \<Rightarrow> net_io \<Rightarrow> u64 \<Rightarrow> bool \<Rightarrow> md_pdelay_resp_data \<Rightarrow> md_pdelay_resp_data \<times> int ctl" where
  "pds_body e io cts64 state_change sm =
     (case state sm of
        PDS_INIT \<Rightarrow> (sm\<lparr>state := PDS_NOT_ENABLED\<rparr>, Next)
      | PDS_NOT_ENABLED \<Rightarrow> (sm\<lparr>state := pds_not_enabled_condition sm\<rparr>, Next)
      | PDS_INITIAL_WAITING \<Rightarrow>
          let sm1 = (if state_change then initial_waiting_for_pdelay_req_proc sm else sm)
          in (sm1\<lparr>state := initial_waiting_for_pdelay_req_condition sm1\<rparr>, Next)
      | PDS_WAITING \<Rightarrow>
          (case (if state_change then waiting_for_pdelay_req_proc e io sm else Some (0, sm)) of
             None \<Rightarrow> (sm, Crash)
           | Some (res, sm1) \<Rightarrow>
               if res \<noteq> 0 then (sm1\<lparr>last_state := PDS_REACTION\<rparr>, Return 0)
               else (sm1\<lparr>state := waiting_for_pdelay_req_condition sm1\<rparr>, Next))
      | PDS_SENT \<Rightarrow>
          (if state_change then
             (case sent_pdelay_resp_waiting_for_timestamp_proc e io cts64 sm of
                None \<Rightarrow> (sm, Crash)
              | Some (res, sm1) \<Rightarrow>
                  if res < 0 then (sm1\<lparr>last_state := PDS_REACTION\<rparr>, Return 0) else (sm1, Return 1))
           else (sent_pdelay_resp_waiting_for_timestamp_condition io cts64 sm, Next))
      | PDS_REACTION \<Rightarrow> (sm, Next))"

definition md_pdelay_resp_sm ::
  "env \<Rightarrow> net_io \<Rightarrow> md_pdelay_resp_data \<Rightarrow> u64 \<Rightarrow> (md_pdelay_resp_data \<times> int ctl) option" where
  "md_pdelay_resp_sm e io sm cts64 = sm_loop (pds_body e io cts64) (sm\<lparr>state := pds_allstate_condition sm\<rparr>)"

definition md_pdelay_resp_sm_init ::
  "env \<Rightarrow> bool \<Rightarrow> PerTimeAwareSystemGlobal \<Rightarrow> PerPortGlobal \<Rightarrow> md_pdelay_resp_data" where
  "md_pdelay_resp_sm_init e net pt pp =
     \<lparr>state = PDS_INIT, last_state = PDS_INIT, ptasg = pt, ppg = pp, pds_net = net,
      pds_rcvdPdelayReq = False, rcvdPdelayReqPtr = None, pds_rcvdMDTimestampReceive = False,
      txPdelayRespPtr = None, txPdelayRespFollowUpPtr = None, portEnabled1 = ptpPortEnabled pp,
      ts2 = 0, ts3 = 0, txPdelayResp_time = 0, pds_cmlds_mode = conf e CONF_CMLDS_MODE, last_seqid = 0,
      pds_statd = \<lparr>pdelay_req_rec = 0, pdelay_req_rec_valid = 0, pdelay_resp_send = 0, pdelay_resp_fup_send = 0\<rparr>,
      pds_mock_txts64 = 0, pds_sent = []\<rparr>"

section \<open>Events\<close>

text \<open>Which kind of domain a request belongs to is remembered for the machines of the port.\<close>

definition note_request_domain :: "u8 \<Rightarrow> md_pdelay_resp_data \<Rightarrow> md_pdelay_resp_data" where
  "note_request_domain sdo sm =
     (let mark = (\<lambda>v s. s\<lparr>ppg := (ppg s)\<lparr>forAllDomain := (forAllDomain (ppg s))\<lparr>receivedNonCMLDSPdelayReq := v\<rparr>\<rparr>\<rparr>);
          sm1 = (if pds_cmlds_mode sm \<noteq> 0 \<and> sdo = 0x20 then mark (- 1) sm else sm)
      in if sdo = 0x10 then mark 1 sm1 else sm1)"

definition md_pdelay_resp_sm_recv_req ::
  "env \<Rightarrow> net_io \<Rightarrow> md_pdelay_resp_data \<Rightarrow> u8 list \<Rightarrow> u64 \<Rightarrow> u64 \<Rightarrow> (md_pdelay_resp_data \<times> int ctl) option" where
  "md_pdelay_resp_sm_recv_req e io sm bs ts64 cts64 =
     (let q = pdelay_req_overlay e bs; sdo = sdo_of (pq_head q);
          sm1 = sm\<lparr>pds_statd := (pds_statd sm)\<lparr>pdelay_req_rec := pdelay_req_rec (pds_statd sm) + 1\<rparr>,
                   rcvdPdelayReqPtr := Some q\<rparr>
      in if pds_cmlds_mode sm1 = 0 \<and> sdo \<noteq> 0x10 then Some (sm1, Return 0)
         else let sm2 = note_request_domain sdo sm1;
                  recsqid = hton (big_endian e) (sequenceId_ns (pq_head q))
              in if last_seqid sm2 \<ge> 0 \<and> of_int (last_seqid sm2 + 1) \<noteq> recsqid
                 then Some (sm2\<lparr>last_seqid := - 1\<rparr>, Return 0)
                 else md_pdelay_resp_sm e io
                   (sm2\<lparr>pds_statd := (pds_statd sm2)\<lparr>pdelay_req_rec_valid := pdelay_req_rec_valid (pds_statd sm2) + 1\<rparr>,
                        last_seqid := uint recsqid, pds_rcvdPdelayReq := True, ts2 := ts64\<rparr>) cts64)"

text \<open>\<open>abandon\<close> is the answer of \<^verbatim>\<open>md_abnormal_timestamp\<close>.\<close>

definition md_pdelay_resp_sm_txts ::
  "env \<Rightarrow> net_io \<Rightarrow> bool \<Rightarrow> md_pdelay_resp_data \<Rightarrow> u16 \<Rightarrow> u64 \<Rightarrow> u64 \<Rightarrow> (md_pdelay_resp_data \<times> int ctl) option" where
  "md_pdelay_resp_sm_txts e io abandon sm seqid ts64 cts64 =
     (if abandon then Some (sm, Next)
      else if state sm \<noteq> PDS_SENT then Some (sm, Next)
      else case rcvdPdelayReqPtr sm of
        None \<Rightarrow> Some (sm, Crash)
      | Some q \<Rightarrow>
          if seqid \<noteq> hton (big_endian e) (sequenceId_ns (pq_head q)) then Some (sm, Next)
          else md_pdelay_resp_sm e io (sm\<lparr>ts3 := ts64, pds_rcvdMDTimestampReceive := True\<rparr>) cts64)"

definition md_pdelay_resp_stat_reset :: "md_pdelay_resp_data \<Rightarrow> md_pdelay_resp_data" where
  "md_pdelay_resp_stat_reset sm = sm\<lparr>pds_statd := \<lparr>pdelay_req_rec = 0, pdelay_req_rec_valid = 0,
     pdelay_resp_send = 0, pdelay_resp_fup_send = 0\<rparr>\<rparr>"

section \<open>The contract of the machine\<close>

definition pds_inv :: "md_pdelay_resp_data \<Rightarrow> bool" where
  "pds_inv sm \<longleftrightarrow> pds_net sm \<and>
     (pds_rcvdPdelayReq sm \<or> state sm = PDS_SENT \<or> state sm = PDS_WAITING \<longrightarrow> rcvdPdelayReqPtr sm \<noteq> None)"

fun pds_rank :: "md_pdelay_resp_data \<Rightarrow> nat" where
  "pds_rank sm =
     (case state sm of
        PDS_INIT \<Rightarrow> 3 | PDS_NOT_ENABLED \<Rightarrow> 2 | PDS_INITIAL_WAITING \<Rightarrow> 1 | PDS_WAITING \<Rightarrow> 1
      | PDS_SENT \<Rightarrow> if last_state sm = PDS_SENT then 3 else 0 | PDS_REACTION \<Rightarrow> 0)"

definition pds_good :: "md_pdelay_resp_data \<Rightarrow> md_pdelay_resp_data \<Rightarrow> int ctl \<Rightarrow> bool" where
  "pds_good s t c \<longleftrightarrow> pds_inv t \<and> c \<noteq> Crash \<and>
     (c = Next \<and> last_state t \<noteq> state t \<longrightarrow> pds_rank t < pds_rank s)"

lemma pds_out_simps [simp]:
  "state (pds_out r f s) = state s" "last_state (pds_out r f s) = last_state s" "ptasg (pds_out r f s) = ptasg s"
  "ppg (pds_out r f s) = ppg s" "pds_net (pds_out r f s) = pds_net s"
  "pds_rcvdPdelayReq (pds_out r f s) = pds_rcvdPdelayReq s" "rcvdPdelayReqPtr (pds_out r f s) = rcvdPdelayReqPtr s"
  by (simp_all add: pds_out_def)

lemma fup_proc_defined:
  assumes "pds_net s" "rcvdPdelayReqPtr s \<noteq> None"
  shows "\<exists>r t. waiting_for_pdelay_req_proc e io s = Some (r, t) \<and> state t = state s \<and> last_state t = last_state s \<and>
    pds_net t \<and> rcvdPdelayReqPtr t = rcvdPdelayReqPtr s"
  using assms by (auto simp: waiting_for_pdelay_req_proc_def setPdelayRespFollowUp_def Let_def)

lemma resp_proc_defined:
  assumes "pds_net s" "rcvdPdelayReqPtr s \<noteq> None"
  shows "\<exists>r t. sent_pdelay_resp_waiting_for_timestamp_proc e io cts s = Some (r, t) \<and> state t = state s \<and>
    last_state t = last_state s \<and> pds_net t \<and> rcvdPdelayReqPtr t = rcvdPdelayReqPtr s"
  using assms by (auto simp: sent_pdelay_resp_waiting_for_timestamp_proc_def setPdelayResp_def Let_def)

lemma pds_step_good:
  assumes inv: "pds_inv s"
    and step: "pds_body e io cts (last_state s \<noteq> state s) (s\<lparr>last_state := state s\<rparr>) = (t, c)"
  shows "pds_good s t c"
proof (cases "state s")
  case PDS_WAITING
  let ?u = "s\<lparr>last_state := PDS_WAITING\<rparr>"
  have q: "pds_net ?u" "rcvdPdelayReqPtr ?u \<noteq> None" using inv PDS_WAITING by (simp_all add: pds_inv_def)
  obtain r v where v: "(if last_state s \<noteq> PDS_WAITING then waiting_for_pdelay_req_proc e io ?u else Some (0, ?u)) = Some (r, v)"
    "state v = PDS_WAITING" "last_state v = PDS_WAITING" "pds_net v" "rcvdPdelayReqPtr v = rcvdPdelayReqPtr s"
    using fup_proc_defined [OF q, of e io] PDS_WAITING q(1) by (cases "last_state s = PDS_WAITING") auto
  show ?thesis using step v q(2) PDS_WAITING
    by (auto simp: pds_body_def pds_good_def pds_inv_def waiting_for_pdelay_req_condition_def split: if_splits)
next
  case PDS_SENT
  let ?u = "s\<lparr>last_state := PDS_SENT\<rparr>"
  have q: "pds_net ?u" "rcvdPdelayReqPtr ?u \<noteq> None" using inv PDS_SENT by (simp_all add: pds_inv_def)
  obtain r v where v: "sent_pdelay_resp_waiting_for_timestamp_proc e io cts ?u = Some (r, v)"
    "state v = PDS_SENT" "last_state v = PDS_SENT" "pds_net v" "rcvdPdelayReqPtr v = rcvdPdelayReqPtr s"
    using resp_proc_defined [OF q, of e io cts] PDS_SENT by auto
  show ?thesis
  proof (cases "last_state s = PDS_SENT")
    case True
    with step q PDS_SENT show ?thesis
      by (auto simp: pds_body_def pds_good_def pds_inv_def sent_pdelay_resp_waiting_for_timestamp_condition_def
          split: if_splits)
  next
    case False
    with step v q(2) PDS_SENT show ?thesis
      by (auto simp: pds_body_def pds_good_def pds_inv_def split: if_splits)
  qed
next
  case PDS_INITIAL_WAITING
  with inv step show ?thesis
    by (auto simp: pds_body_def pds_good_def pds_inv_def Let_def initial_waiting_for_pdelay_req_proc_def
        initial_waiting_for_pdelay_req_condition_def split: if_splits)
qed (use inv step in \<open>auto simp: pds_body_def pds_good_def pds_inv_def pds_not_enabled_condition_def
    split: if_splits\<close>)

interpretation pds: sm_safe "pds_body e io cts" pds_inv pds_rank for e io cts
  by unfold_locales (use pds_step_good in \<open>unfold pds_good_def, blast\<close>)+

section \<open>Answering a request\<close>

definition pds_enabled :: "md_pdelay_resp_data \<Rightarrow> bool" where
  "pds_enabled sm \<longleftrightarrow> \<not> BEGIN (ptasg sm) \<and> portOper (forAllDomain (ppg sm)) \<and> portEnabled1 sm"

lemma pds_run: "pds_enabled sm \<Longrightarrow> md_pdelay_resp_sm e io sm cts = sm_loop (pds_body e io cts) sm"
  by (simp add: md_pdelay_resp_sm_def pds_allstate_condition_def pds_enabled_def)

text \<open>The request is the next one, or the first one of a new sequence.\<close>

definition request_in_order :: "env \<Rightarrow> md_pdelay_resp_data \<Rightarrow> MDPTPMsgPdelayReq \<Rightarrow> bool" where
  "request_in_order e sm q \<longleftrightarrow>
     last_seqid sm < 0 \<or> hton (big_endian e) (sequenceId_ns (pq_head q)) = of_int (last_seqid sm + 1)"

text \<open>A request of the gPTP domain.\<close>

definition request_valid :: "env \<Rightarrow> md_pdelay_resp_data \<Rightarrow> MDPTPMsgPdelayReq \<Rightarrow> bool" where
  "request_valid e sm q \<longleftrightarrow> sdo_of (pq_head q) = 0x10 \<and> request_in_order e sm q"

lemma note_domain_frame [simp]:
  fixes sdo sm
  defines "t \<equiv> note_request_domain sdo sm"
  shows "state t = state sm" "last_state t = last_state sm" "ptasg t = ptasg sm" "pds_net t = pds_net sm"
    "portOper (forAllDomain (ppg t)) = portOper (forAllDomain (ppg sm))" "portEnabled1 t = portEnabled1 sm"
    "thisPort (ppg t) = thisPort (ppg sm)" "pds_sent t = pds_sent sm" "last_seqid t = last_seqid sm"
    "rcvdPdelayReqPtr t = rcvdPdelayReqPtr sm" "pds_cmlds_mode t = pds_cmlds_mode sm"
    "sdo = 0x10 \<Longrightarrow> receivedNonCMLDSPdelayReq (forAllDomain (ppg t)) = 1"
  by (simp_all add: t_def note_request_domain_def Let_def)

text \<open>The answers to a request of the gPTP domain, from the identity of this port.\<close>

definition plain_answer ::
  "env \<Rightarrow> net_io \<Rightarrow> PTPMsgType \<Rightarrow> md_pdelay_resp_data \<Rightarrow> int \<Rightarrow> MDPTPMsgPdelayReq \<Rightarrow> MDPTPMsgPdelayResp" where
  "plain_answer e io m sm ns q =
     \<lparr>pr_head = md_header_compose e m 54 (thisClock (ptasg sm)) (thisPort (ppg sm))
        (hton (big_endian e) (sequenceId_ns (pq_head q))) 0x7f,
      pr_timestamp = timestamp_of e io ns, requestingPortIdentity = head_source (pq_head q)\<rparr>"

text \<open>What a machine has after it has answered: it waits for the timestamp of the response.\<close>

definition pds_answered :: "env \<Rightarrow> md_pdelay_resp_data \<Rightarrow> MDPTPMsgPdelayReq \<Rightarrow> u8 list list \<Rightarrow> md_pdelay_resp_data \<Rightarrow> bool" where
  "pds_answered e sm q fs t \<longleftrightarrow> state t = PDS_SENT \<and> last_state t = PDS_SENT \<and> pds_sent t = pds_sent sm @ fs \<and>
     pds_enabled t \<and> pds_net t \<and> rcvdPdelayReqPtr t = Some q \<and> \<not> pds_rcvdPdelayReq t \<and>
     last_seqid t = uint (hton (big_endian e) (sequenceId_ns (pq_head q))) \<and>
     ptasg t = ptasg sm \<and> thisPort (ppg t) = thisPort (ppg sm) \<and>
     receivedNonCMLDSPdelayReq (forAllDomain (ppg t)) = 1"

lemma request_answered:
  fixes e sm bs
  defines "q \<equiv> pdelay_req_overlay e bs"
  assumes "pds_enabled sm" "pds_net sm" "net_takes io"
    and "state sm = PDS_WAITING \<or> state sm = PDS_INITIAL_WAITING" "last_state sm = state sm"
    and "request_valid e sm q"
  shows "\<exists>t. md_pdelay_resp_sm_recv_req e io sm bs t2 cts = Some (t, Return 1) \<and>
    pds_answered e sm q [pdelay_resp_image e (plain_answer e io PDELAY_RESP sm (sint t2) q)] t"
proof -
  note net = net_takesD [OF assms(4)]
  let ?s1 = "sm\<lparr>pds_statd := (pds_statd sm)\<lparr>pdelay_req_rec := pdelay_req_rec (pds_statd sm) + 1\<rparr>, rcvdPdelayReqPtr := Some q\<rparr>"
  define a where "a = (note_request_domain 0x10 ?s1)\<lparr>pds_statd :=
      (pds_statd (note_request_domain 0x10 ?s1))\<lparr>pdelay_req_rec_valid :=
         pdelay_req_rec_valid (pds_statd (note_request_domain 0x10 ?s1)) + 1\<rparr>,
      last_seqid := uint (hton (big_endian e) (sequenceId_ns (pq_head q))), pds_rcvdPdelayReq := True, ts2 := t2\<rparr>"
  have a: "state a = state sm" "last_state a = state sm" "ptasg a = ptasg sm" "pds_net a"
      "thisPort (ppg a) = thisPort (ppg sm)" "pds_sent a = pds_sent sm" "pds_rcvdPdelayReq a" "ts2 a = t2"
      "last_seqid a = uint (hton (big_endian e) (sequenceId_ns (pq_head q)))" "rcvdPdelayReqPtr a = Some q"
      "pds_enabled a" "receivedNonCMLDSPdelayReq (forAllDomain (ppg a)) = 1"
    using assms(2,3,6) by (simp_all add: a_def pds_enabled_def)
  have "md_pdelay_resp_sm_recv_req e io sm bs t2 cts = md_pdelay_resp_sm e io a cts"
    using assms(7) by (auto simp: md_pdelay_resp_sm_recv_req_def Let_def request_valid_def request_in_order_def
        a_def simp flip: q_def)
  also have "\<dots> = sm_loop (pds_body e io cts) a" using a(11) by (rule pds_run)
  also have "\<dots> = sm_loop (pds_body e io cts) (a\<lparr>state := PDS_SENT\<rparr>)"
  proof (rule sm_loop_again)
    show "sm_step (pds_body e io cts) a = (a\<lparr>state := PDS_SENT\<rparr>, Next)"
      using assms(5) a(1,2,7)
      by (auto simp: sm_step_settled pds_body_def waiting_for_pdelay_req_condition_def
          initial_waiting_for_pdelay_req_condition_def)
    show "last_state (a\<lparr>state := PDS_SENT\<rparr>) \<noteq> state (a\<lparr>state := PDS_SENT\<rparr>)" using assms(5) a(2) by auto
  qed
  finally have run: "md_pdelay_resp_sm_recv_req e io sm bs t2 cts = sm_loop (pds_body e io cts) (a\<lparr>state := PDS_SENT\<rparr>)" .
  have "last_state (a\<lparr>state := PDS_SENT\<rparr>) \<noteq> state (a\<lparr>state := PDS_SENT\<rparr>)" using assms(5) a(2) by auto
  note entered = sm_step_entered [OF this]
  have m: "setPdelayResp e io (a\<lparr>state := PDS_SENT, last_state := PDS_SENT, pds_rcvdPdelayReq := False\<rparr>) =
      Some (plain_answer e io PDELAY_RESP sm (sint t2) q)"
    using a by (simp add: setPdelayResp_def pdelay_answer_def plain_answer_def)
  obtain t where t: "sm_step (pds_body e io cts) (a\<lparr>state := PDS_SENT\<rparr>) = (t, Return 1)"
      "pds_answered e sm q [pdelay_resp_image e (plain_answer e io PDELAY_RESP sm (sint t2) q)] t"
    using a m net unfolding entered
    by (simp add: pds_body_def sent_pdelay_resp_waiting_for_timestamp_proc_def Let_def pds_out_def pds_answered_def
        pds_enabled_def)
  then show ?thesis unfolding run using sm_loop_out by fastforce
qed

lemma timestamp_followed_up:
  assumes "pds_answered e sm q fs s" "net_takes io"
  shows "\<exists>t. md_pdelay_resp_sm_txts e io False s (hton (big_endian e) (sequenceId_ns (pq_head q))) t3 cts = Some (t, Next) \<and>
    state t = PDS_WAITING \<and> last_state t = PDS_WAITING \<and>
    pds_sent t = pds_sent sm @ fs @ [pdelay_resp_image e (plain_answer e io PDELAY_RESP_FOLLOW_UP sm (sint t3) q)]"
proof -
  note net = net_takesD [OF assms(2)]
  note s = assms(1) [unfolded pds_answered_def]
  let ?a = "s\<lparr>ts3 := t3, pds_rcvdMDTimestampReceive := True\<rparr>"
  let ?b = "?a\<lparr>state := PDS_WAITING\<rparr>"
  have en: "pds_enabled ?a" using s by (auto simp: pds_enabled_def)
  have "sm_step (pds_body e io cts) ?a = (?b, Next)"
    using s by (simp add: sm_step_settled pds_body_def sent_pdelay_resp_waiting_for_timestamp_condition_def)
  then have 1: "sm_loop (pds_body e io cts) ?a = sm_loop (pds_body e io cts) ?b"
    by (rule sm_loop_again) (use s in simp)
  have m: "setPdelayRespFollowUp e io (?b\<lparr>last_state := PDS_WAITING\<rparr>) =
      Some (plain_answer e io PDELAY_RESP_FOLLOW_UP sm (sint t3) q)"
    using s by (simp add: setPdelayRespFollowUp_def pdelay_answer_def plain_answer_def)
  obtain t where t: "sm_step (pds_body e io cts) ?b = (t, Next)" "state t = PDS_WAITING" "last_state t = PDS_WAITING"
      "pds_sent t = pds_sent sm @ fs @ [pdelay_resp_image e (plain_answer e io PDELAY_RESP_FOLLOW_UP sm (sint t3) q)]"
    using s m net
    by (simp add: sm_step_entered pds_body_def waiting_for_pdelay_req_proc_def Let_def pds_out_def
        waiting_for_pdelay_req_condition_def)
  have "sm_loop (pds_body e io cts) ?b = Some (t, Next)" using t by (intro sm_loop_rest) simp_all
  with 1 t s show ?thesis by (simp add: md_pdelay_resp_sm_txts_def pds_run [OF en])
qed

section \<open>Requests that are not answered\<close>

text \<open>A request whose sequence number is not the next one is not answered, and the machine
  forgets the sequence, so that it answers the next request whatever its number.\<close>

theorem request_out_of_order_skipped:
  fixes e sm bs
  defines "q \<equiv> pdelay_req_overlay e bs"
  assumes "sdo_of (pq_head q) = 0x10" "\<not> request_in_order e sm q"
  shows "\<exists>t. md_pdelay_resp_sm_recv_req e io sm bs ts cts = Some (t, Return 0) \<and>
    pds_sent t = pds_sent sm \<and> state t = state sm \<and> request_in_order e t q'"
  using assms(2,3)
  by (auto simp: md_pdelay_resp_sm_recv_req_def Let_def request_in_order_def simp flip: q_def)

lemma pds_disabled_run:
  assumes "\<not> BEGIN (ptasg s) \<and> portOper (forAllDomain (ppg s)) \<and> portEnabled1 s \<Longrightarrow> False"
  shows "\<exists>t. md_pdelay_resp_sm e io s cts = Some (t, Next) \<and> pds_sent t = pds_sent s \<and>
    (state t = PDS_NOT_ENABLED \<or> state t = PDS_INITIAL_WAITING \<and> \<not> pds_rcvdPdelayReq t)"
proof -
  let ?a = "s\<lparr>state := PDS_NOT_ENABLED\<rparr>"
  have run: "md_pdelay_resp_sm e io s cts = sm_loop (pds_body e io cts) ?a"
    using assms by (auto simp: md_pdelay_resp_sm_def pds_allstate_condition_def)
  show ?thesis
  proof (cases "portEnabled1 s")
    case True
    let ?b = "s\<lparr>state := PDS_INITIAL_WAITING, last_state := PDS_NOT_ENABLED\<rparr>"
    let ?c = "s\<lparr>state := PDS_INITIAL_WAITING, last_state := PDS_INITIAL_WAITING,
      pds_rcvdPdelayReq := False, last_seqid := - 1\<rparr>"
    have "sm_step (pds_body e io cts) ?a = (?b, Next)"
      using True by (simp add: sm_step_def pds_body_def pds_not_enabled_condition_def)
    then have 1: "sm_loop (pds_body e io cts) ?a = sm_loop (pds_body e io cts) ?b" by (rule sm_loop_again) simp
    have "sm_step (pds_body e io cts) ?b = (?c, Next)"
      by (simp add: sm_step_def pds_body_def initial_waiting_for_pdelay_req_proc_def Let_def
          initial_waiting_for_pdelay_req_condition_def)
    then have "sm_loop (pds_body e io cts) ?b = Some (?c, Next)" by (rule sm_loop_rest) simp
    with run 1 show ?thesis by simp
  next
    case False
    let ?b = "s\<lparr>state := PDS_NOT_ENABLED, last_state := PDS_NOT_ENABLED\<rparr>"
    have "sm_step (pds_body e io cts) ?a = (?b, Next)"
      using False by (simp add: sm_step_def pds_body_def pds_not_enabled_condition_def)
    then have "sm_loop (pds_body e io cts) ?a = Some (?b, Next)" by (rule sm_loop_rest) simp
    with run show ?thesis by simp
  qed
qed

text \<open>A port that is not operational, or not enabled, or whose system is being initialised, sends
  no answer to any frame.\<close>

theorem disabled_port_never_answers:
  assumes "BEGIN (ptasg sm) \<or> \<not> portOper (forAllDomain (ppg sm)) \<or> \<not> portEnabled1 sm"
  shows "\<exists>t c. md_pdelay_resp_sm_recv_req e io sm bs ts cts = Some (t, c) \<and> c \<noteq> Crash \<and> c \<noteq> Return 1 \<and>
    pds_sent t = pds_sent sm"
proof -
  have "\<exists>t. md_pdelay_resp_sm e io s cts = Some (t, Next) \<and> pds_sent t = pds_sent s"
    if "ptasg s = ptasg sm" "portOper (forAllDomain (ppg s)) = portOper (forAllDomain (ppg sm))"
      "portEnabled1 s = portEnabled1 sm" for s
    using pds_disabled_run [of s e io cts] that assms by auto
  note run = this
  let ?q = "pdelay_req_overlay e bs"
  let ?s1 = "sm\<lparr>pds_statd := (pds_statd sm)\<lparr>pdelay_req_rec := pdelay_req_rec (pds_statd sm) + 1\<rparr>, rcvdPdelayReqPtr := Some ?q\<rparr>"
  define s2 where "s2 = note_request_domain (sdo_of (pq_head ?q)) ?s1"
  have s2: "ptasg s2 = ptasg sm" "portOper (forAllDomain (ppg s2)) = portOper (forAllDomain (ppg sm))"
    "portEnabled1 s2 = portEnabled1 sm" "pds_sent s2 = pds_sent sm" by (simp_all add: s2_def)
  from run [of "s2\<lparr>pds_statd := (pds_statd s2)\<lparr>pdelay_req_rec_valid := pdelay_req_rec_valid (pds_statd s2) + 1\<rparr>,
      last_seqid := uint (hton (big_endian e) (sequenceId_ns (pq_head ?q))), pds_rcvdPdelayReq := True, ts2 := ts\<rparr>"]
  obtain t where "md_pdelay_resp_sm e io (s2\<lparr>pds_statd := (pds_statd s2)
        \<lparr>pdelay_req_rec_valid := pdelay_req_rec_valid (pds_statd s2) + 1\<rparr>,
      last_seqid := uint (hton (big_endian e) (sequenceId_ns (pq_head ?q))), pds_rcvdPdelayReq := True, ts2 := ts\<rparr>) cts =
      Some (t, Next)" "pds_sent t = pds_sent sm" using s2 by auto
  then show ?thesis
    using s2(4) unfolding md_pdelay_resp_sm_recv_req_def Let_def s2_def [symmetric]
    by (cases "pds_cmlds_mode sm = 0 \<and> sdo_of (pq_head ?q) \<noteq> 0x10") simp_all
qed

section \<open>Instances\<close>

definition sample_pds :: md_pdelay_resp_data where
  "sample_pds = (md_pdelay_resp_sm_init default_env True (sample_ptasg\<lparr>thisClock := sample_peer\<rparr>) sample_ppg)
     \<lparr>state := PDS_INITIAL_WAITING, last_state := PDS_INITIAL_WAITING, last_seqid := - 1\<rparr>"

lemma sample_pds_simps [simp]:
  "ptasg sample_pds = sample_ptasg\<lparr>thisClock := sample_peer\<rparr>" "thisPort (ppg sample_pds) = 1"
  "state sample_pds = PDS_INITIAL_WAITING" "last_state sample_pds = PDS_INITIAL_WAITING" "pds_net sample_pds"
  "last_seqid sample_pds = - 1" "pds_enabled sample_pds" "pds_sent sample_pds = []"
  by (simp_all add: sample_pds_def md_pdelay_resp_sm_init_def sample_ppg_def pds_enabled_def sample_ptasg_def
      zero_PerPortGlobalForAllDomain_def zero_PerTimeAwareSystemGlobal_def)

theorem request_out_of_order_skipped_witness:
  "\<exists>t. md_pdelay_resp_sm_recv_req default_env sample_io (sample_pds\<lparr>last_seqid := 4\<rparr>) (0x12 # replicate 53 0) 0 0 =
    Some (t, Return 0) \<and> pds_sent t = []"
proof -
  have h: "sdo_of (pq_head (pdelay_req_overlay default_env (0x12 # replicate 53 0))) = 0x10"
    "sequenceId_ns (pq_head (pdelay_req_overlay default_env (0x12 # replicate 53 0))) = 0"
    by (simp_all add: pdelay_req_overlay_def header_overlay_def sdo_of_def field_def mem_word_def numeral_eq_Suc)
  moreover have "hton False (0 :: u16) = 0" by (simp add: hton_def bswap_def bytes_le_def upt_rec)
  ultimately show ?thesis
    using request_out_of_order_skipped [of default_env "0x12 # replicate 53 0" "sample_pds\<lparr>last_seqid := 4\<rparr>" sample_io 0 0 undefined]
    by (auto simp: request_in_order_def)
qed

theorem disabled_port_never_answers_witness:
  "\<exists>t c. md_pdelay_resp_sm_recv_req default_env sample_io (sample_pds\<lparr>portEnabled1 := False\<rparr>) (0x12 # replicate 53 0) 0 0 =
    Some (t, c) \<and> c \<noteq> Crash \<and> pds_sent t = []"
  using disabled_port_never_answers [of "sample_pds\<lparr>portEnabled1 := False\<rparr>" default_env sample_io "0x12 # replicate 53 0" 0 0]
  by auto

end
