(* ===== verification/Gptp_PdelayLink.thy ===== *)
theory Gptp_PdelayLink
  imports Gptp_PdelayFacts Gptp_PdelayResp
begin

text \<open>
  The two ends of a link together: the requesting machine of one station and the
  responding machine of another, which may differ in their byte order, exchange
  the three messages of a peer delay measurement over the wire.
\<close>

section \<open>Messages between hosts of any byte order\<close>

lemma wire_word_raw:
  assumes "LENGTH('a::len) mod 8 = 0"
  shows "mem_word be2 (mem_bytes be1 (hton be1 (w :: 'a word))) = hton be2 w"
  using wire_word [OF assms, of be2 be1 w] hton_hton [OF assms, of be2] by metis

lemma compose_over_wire:
  assumes "length (flags h) = 2" "length (messageTypeSpecific h) = 4" "clockid_ok (clockIdentity (h_sourcePortIdentity h))"
  shows "header_overlay (big_endian e2) (header_image (big_endian e1) (md_compose_head e1 h) @ r) = md_compose_head e2 h"
proof -
  let ?m = "md_compose_head e1 h"
  have len: "length (md_flags ?m) = 2" "length (md_messageTypeSpecific ?m) = 4" "length (md_clockIdentity ?m) = 8"
    using assms by (simp_all add: md_compose_head_def clockid_ok_def)
  note f = header_fields [OF len, of "big_endian e1"]
  show ?thesis
    by (simp add: header_overlay_def f header_image_nth [OF f(1)] MD_HEADER_SIZE_def)
      (simp add: md_compose_head_def wire_word_raw)
qed

lemma template_lengths [simp]:
  "length (flags (md_header_template e m len p n i)) = 2"
  "length (messageTypeSpecific (md_header_template e m len p n i)) = 4"
  "h_sourcePortIdentity (md_header_template e m len p n i) = p"
  by (simp_all add: md_header_template_def)

lemma timestamp_between_hosts:
  "timestamp_overlay e2 (timestamp_image e1 (timestamp_of e1 io ns) @ r) = timestamp_of e2 io ns"
proof -
  have zero: "hton b (0 :: u16) = 0" for b by (simp add: hton_def bswap_def bytes_le_def upt_rec)
  have "mem_word (big_endian e2) (mem_bytes (big_endian e1) (0 :: u16)) = (0 :: u16)"
    using wire_word_raw [of "big_endian e2" "big_endian e1" "0 :: u16"] by (simp add: zero)
  then show ?thesis
    by (simp add: timestamp_overlay_def timestamp_image_def field_def timestamp_of_def wire_word_raw)
qed

text \<open>A time below 2 to the 32 seconds comes through the seconds and nanoseconds of a message.\<close>

lemma timestamp_value:
  assumes "nsec2ts_ok io" "0 \<le> sint t" "sint t < 2 ^ 32 * 1000000000"
  shows "timestamp_nsec e (timestamp_of e io (sint t)) = t"
proof -
  let ?n = "sint t"
  have b: "0 \<le> ?n div 1000000000" "?n div 1000000000 < 2 ^ 32" "0 \<le> ?n mod 1000000000" "?n mod 1000000000 < 2 ^ 32"
    using assms(2,3) pos_mod_bound [of 1000000000 ?n] by (simp_all add: pos_imp_zdiv_nonneg_iff div_less_iff_less_mult)
  have "ucast (of_int x :: u32) = (of_int x :: u64)" if "0 \<le> x" "x < 2 ^ 32" for x
    using that by (simp add: unsigned_of_int take_bit_int_eq_self)
  with b have "timestamp_nsec e (timestamp_of e io ?n) =
      of_int (?n div 1000000000) * 1000000000 + of_int (?n mod 1000000000)"
    using assms(1,2) by (simp add: timestamp_nsec_def timestamp_of_def nsec2ts_ok_def)
  also have "\<dots> = of_int (?n div 1000000000 * 1000000000 + ?n mod 1000000000)" by (simp only: of_int_add of_int_mult of_int_numeral)
  also have "\<dots> = of_int ?n" by (simp only: div_mult_mod_eq)
  also have "\<dots> = t" by simp
  finally show ?thesis .
qed

section \<open>The exchange\<close>

text \<open>A request that the machine of port \<open>p\<close> of clock \<open>c\<close> has composed.\<close>

definition own_request :: "env \<Rightarrow> md_pdelay_req_data \<Rightarrow> MDPTPMsgPdelayReq \<Rightarrow> bool" where
  "own_request e sm q \<longleftrightarrow> txPdelayReq sm = Some q \<and>
     (\<exists>i. pq_head q = md_header_compose e PDELAY_REQ 54 (thisClock (ptasg sm)) (thisPort (ppg sm))
        (pdelayReqSequenceId sm) i)"

text \<open>An answer as the requesting host reads it.\<close>

definition answer_seen ::
  "env \<Rightarrow> env \<Rightarrow> net_io \<Rightarrow> PTPMsgType \<Rightarrow> md_pdelay_req_data \<Rightarrow> md_pdelay_resp_data \<Rightarrow> u64 \<Rightarrow> MDPTPMsgPdelayResp" where
  "answer_seen e1 e2 io m rq rs t =
     \<lparr>pr_head = md_compose_head e1 (md_header_template e2 m 54
        \<lparr>clockIdentity = thisClock (ptasg rs), portNumber = thisPort (ppg rs)\<rparr> (pdelayReqSequenceId rq) 0x7f),
      pr_timestamp = timestamp_of e1 io (sint t),
      requestingPortIdentity = \<lparr>mp_clockIdentity = thisClock (ptasg rq), mp_portNumber_ns = hton (big_endian e1) (thisPort (ppg rq))\<rparr>\<rparr>"

lemma request_seen:
  assumes "own_request e1 rq q" "clockid_ok (thisClock (ptasg rq))"
  shows "\<exists>i. pq_head (pdelay_req_overlay e2 (pdelay_req_image e1 q)) =
    md_compose_head e2 (md_header_template e1 PDELAY_REQ 54
      \<lparr>clockIdentity = thisClock (ptasg rq), portNumber = thisPort (ppg rq)\<rparr> (pdelayReqSequenceId rq) i)"
  using assms by (auto simp: own_request_def pdelay_req_overlay_def pdelay_req_image_def md_header_compose_def compose_over_wire)

lemma answer_over_wire:
  assumes "own_request e1 rq q" "clockid_ok (thisClock (ptasg rq))" "clockid_ok (thisClock (ptasg rs))"
  shows "pdelay_resp_overlay e1 (pdelay_resp_image e2
      (plain_answer e2 io m rs (sint t) (pdelay_req_overlay e2 (pdelay_req_image e1 q)))) = answer_seen e1 e2 io m rq rs t"
proof -
  obtain i where q: "pq_head (pdelay_req_overlay e2 (pdelay_req_image e1 q)) =
    md_compose_head e2 (md_header_template e1 PDELAY_REQ 54
      \<lparr>clockIdentity = thisClock (ptasg rq), portNumber = thisPort (ppg rq)\<rparr> (pdelayReqSequenceId rq) i)"
    using request_seen [OF assms(1,2)] by blast
  let ?h = "md_header_template e2 m 54
      \<lparr>clockIdentity = thisClock (ptasg rs), portNumber = thisPort (ppg rs)\<rparr> (pdelayReqSequenceId rq) 0x7f"
  let ?img = "header_image (big_endian e2) (md_compose_head e2 ?h)"
  have len: "length ?img = 34"
    using header_fields(1) [of "md_compose_head e2 ?h"] assms(3)
    by (simp add: md_compose_head_def clockid_ok_def MD_HEADER_SIZE_def)
  have seq: "hton (big_endian e2) (sequenceId_ns (pq_head (pdelay_req_overlay e2 (pdelay_req_image e1 q)))) = pdelayReqSequenceId rq"
    unfolding q by (simp add: md_compose_head_def md_header_template_def)
  have src: "head_source (pq_head (pdelay_req_overlay e2 (pdelay_req_image e1 q))) =
      \<lparr>mp_clockIdentity = thisClock (ptasg rq), mp_portNumber_ns = hton (big_endian e2) (thisPort (ppg rq))\<rparr>"
    unfolding q by (simp add: head_source_def md_compose_head_def)
  have head: "header_overlay (big_endian e1) (?img @ r) = md_compose_head e1 ?h" for r
    by (rule compose_over_wire) (use assms(3) in simp_all)
  have "drop 34 (?img @ r) = r" "field 44 8 (?img @ r) = field 10 8 r" "field 52 2 (?img @ r) = field 18 2 r" for r
    using len by (simp_all add: field_def)
  moreover have "field 10 8 (timestamp_image e2 u @ c @ b) = c" "field 18 2 (timestamp_image e2 u @ c @ b) = take 2 b"
    if "length c = 8" for u c and b :: "u8 list"
    using that by (simp_all add: field_def timestamp_image_def)
  ultimately show ?thesis
    using assms(2) head
    by (simp add: pdelay_resp_overlay_def pdelay_resp_image_def plain_answer_def seq src answer_seen_def
        md_header_compose_def timestamp_between_hosts clockid_ok_def wire_word_raw del: drop_append)
qed

text \<open>
  The exchange between the two stations: the responder gets the request at its time \<open>t2\<close>
  and the timestamp \<open>t3\<close> of its response; the requester gets the timestamp \<open>t1\<close> of its request,
  the response at \<open>t4\<close> and the follow-up. The current times of the calls are \<open>c1\<close> to \<open>c5\<close>.
\<close>

definition link_exchange ::
  "env \<Rightarrow> env \<Rightarrow> net_io \<Rightarrow> net_io \<Rightarrow> md_pdelay_req_data \<Rightarrow> md_pdelay_resp_data \<Rightarrow> u8 list \<Rightarrow>
   u64 \<times> u64 \<times> u64 \<times> u64 \<Rightarrow> u64 list \<Rightarrow> (md_pdelay_req_data \<times> md_pdelay_resp_data) option" where
  "link_exchange e1 e2 io1 io2 rq rs frame ts c =
     (case ts of (t1, t2, t3, t4) \<Rightarrow>
       (case md_pdelay_resp_sm_recv_req e2 io2 rs frame t2 (c ! 0) of
          None \<Rightarrow> None
        | Some (rs1, r1) \<Rightarrow>
            (case md_pdelay_resp_sm_txts e2 io2 False rs1 (pdelayReqSequenceId rq) t3 (c ! 1) of
               None \<Rightarrow> None
             | Some (rs2, r2) \<Rightarrow>
                 let new = drop (length (pds_sent rs)) (pds_sent rs2)
                 in (case pdr_exchange e1 io1 rq (t1, c ! 2) (new ! 0, t4, c ! 3) (new ! 1, c ! 4) of
                       None \<Rightarrow> None | Some rq1 \<Rightarrow> Some (rq1, rs2)))))"

lemma sdo_header [simp]:
  "sdo_of (md_compose_head e (md_header_template e' m l p n i)) = 0x10"
  by (cases m) (simp_all add: sdo_of_def md_compose_head_def md_header_template_def)

lemma answer_seen_valid:
  assumes "own_request e1 rq q" "thisClock (ptasg rs) \<noteq> thisClock (ptasg rq)"
  shows "response_valid e1 rq (answer_seen e1 e2 io PDELAY_RESP rq rs t2)"
    and "follow_up_valid rq (answer_seen e1 e2 io PDELAY_RESP rq rs t2)
      (answer_seen e1 e2 io PDELAY_RESP_FOLLOW_UP rq rs t3)"
proof -
  obtain i where "txPdelayReq rq = Some q" "sequenceId_ns (pq_head q) = hton (big_endian e1) (pdelayReqSequenceId rq)"
    using assms(1) by (auto simp: own_request_def md_header_compose_def md_compose_head_def md_header_template_def)
  then show "response_valid e1 rq (answer_seen e1 e2 io PDELAY_RESP rq rs t2)"
    "follow_up_valid rq (answer_seen e1 e2 io PDELAY_RESP rq rs t2)
      (answer_seen e1 e2 io PDELAY_RESP_FOLLOW_UP rq rs t3)"
    using assms(2)
    by (simp_all add: response_valid_def follow_up_valid_def answer_seen_def head_source_def)
      (simp_all add: md_compose_head_def md_header_template_def)
qed

text \<open>C1: Two stations of any byte order on one link measure it: the requester, having sent its
  request, gets the responder's answers over the wire and computes the rate ratio and the
  delay from the four times of the exchange, the two of the responder included. It ends
  waiting for its next interval, the responder for the next request.\<close>

theorem pdelay_measured_over_wire:
  fixes e1 e2 rq rs t1 t2 t3 t4
  defines "ratio \<equiv> next_ratio (nsec (pdelayReqInterval (md_forAllDomain (pdr_mdeg rq)))) (t1 - prev_t1ts64 rq)
      (t2 - prev_t2ts64 rq) (neighborRateRatio (forAllDomain (ppg rq)))"
  assumes rq: "pdr_enabled rq" "state rq = PDR_SEND" "last_state rq = PDR_SEND" "own_request e1 rq q"
    and flags: "\<not> rcvdPdelayResp rq" "\<not> rcvdPdelayRespFollowUp rq" "\<not> asymmetryMeasurementMode (forAllDomain (ppg rq))"
    and compute: "computeNeighborRateRatio (forAllDomain (ppg rq))" "computeNeighborPropDelay (forAllDomain (ppg rq))"
    and rs: "pds_enabled rs" "pds_net rs" "state rs = PDS_WAITING \<or> state rs = PDS_INITIAL_WAITING" "last_state rs = state rs"
    and order: "last_seqid rs < 0 \<or> pdelayReqSequenceId rq = of_int (last_seqid rs + 1)"
    and clocks: "clockid_ok (thisClock (ptasg rq))" "clockid_ok (thisClock (ptasg rs))"
      "thisClock (ptasg rs) \<noteq> thisClock (ptasg rq)"
    and net: "net_takes io2" "nsec2ts_ok io2"
    and times: "0 \<le> sint t2" "sint t2 < 2 ^ 32 * 1000000000" "0 \<le> sint t3" "sint t3 < 2 ^ 32 * 1000000000"
    and now: "\<not> pdr_timeout (c ! 2) rq" "\<not> pdr_timeout (c ! 3) rq" "\<not> pdr_timeout (c ! 4) rq"
  shows "\<exists>rq' rs'. link_exchange e1 e2 io1 io2 rq rs (pdelay_req_image e1 q) (t1, t2, t3, t4) c = Some (rq', rs') \<and>
    state rq' = PDR_WAIT_TIMER \<and> state rs' = PDS_WAITING \<and>
    neighborRateRatio (forAllDomain (ppg rq')) = ratio \<and>
    nsec (neighborPropDelay (forAllDomain (ppg rq'))) = link_delay ratio t1 t2 t3 t4"
proof -
  let ?f = "pdelay_req_image e1 q"
  let ?q = "pdelay_req_overlay e2 ?f"
  obtain i where i: "pq_head ?q = md_compose_head e2 (md_header_template e1 PDELAY_REQ 54
      \<lparr>clockIdentity = thisClock (ptasg rq), portNumber = thisPort (ppg rq)\<rparr> (pdelayReqSequenceId rq) i)"
    using request_seen [OF rq(4) clocks(1)] by blast
  have seq: "hton (big_endian e2) (sequenceId_ns (pq_head ?q)) = pdelayReqSequenceId rq"
    unfolding i by (simp add: md_compose_head_def md_header_template_def)
  have valid: "request_valid e2 rs ?q"
    using order by (simp add: request_valid_def request_in_order_def seq) (simp add: i)
  obtain rs1 where rs1: "md_pdelay_resp_sm_recv_req e2 io2 rs ?f t2 (c ! 0) = Some (rs1, Return 1)"
    "pds_answered e2 rs ?q [pdelay_resp_image e2 (plain_answer e2 io2 PDELAY_RESP rs (sint t2) ?q)] rs1"
    using request_answered [OF rs(1,2) net(1) rs(3,4) valid] by blast
  obtain rs2 where rs2: "md_pdelay_resp_sm_txts e2 io2 False rs1 (pdelayReqSequenceId rq) t3 (c ! 1) = Some (rs2, Next)"
    "state rs2 = PDS_WAITING"
    "pds_sent rs2 = pds_sent rs @ [pdelay_resp_image e2 (plain_answer e2 io2 PDELAY_RESP rs (sint t2) ?q)] @
      [pdelay_resp_image e2 (plain_answer e2 io2 PDELAY_RESP_FOLLOW_UP rs (sint t3) ?q)]"
    using timestamp_followed_up [OF rs1(2) net(1), of t3 "c ! 1"] unfolding seq by blast
  let ?r = "answer_seen e1 e2 io2 PDELAY_RESP rq rs t2"
  let ?u = "answer_seen e1 e2 io2 PDELAY_RESP_FOLLOW_UP rq rs t3"
  note wire = answer_over_wire [OF rq(4) clocks(1,2), of e2 io2, symmetric]
  have ts: "timestamp_nsec e1 (pr_timestamp ?r) = t2" "timestamp_nsec e1 (pr_timestamp ?u) = t3"
    using times by (simp_all add: answer_seen_def timestamp_value [OF net(2)])
  note valid' = answer_seen_valid [OF rq(4) clocks(3), of e2 io2]
  obtain rq1 where "pdr_exchange e1 io1 rq (t1, c ! 2)
      (pdelay_resp_image e2 (plain_answer e2 io2 PDELAY_RESP rs (sint t2) ?q), t4, c ! 3)
      (pdelay_resp_image e2 (plain_answer e2 io2 PDELAY_RESP_FOLLOW_UP rs (sint t3) ?q), c ! 4) = Some rq1"
    "state rq1 = PDR_WAIT_TIMER" "neighborRateRatio (forAllDomain (ppg rq1)) = ratio"
    "nsec (neighborPropDelay (forAllDomain (ppg rq1))) = link_delay ratio t1 t2 t3 t4"
    using exchange_measures [OF rq(1-3) flags compute wire [of PDELAY_RESP t2] valid'(1) [of t2]
        wire [of PDELAY_RESP_FOLLOW_UP t3] valid'(2) [of t2 t3] now]
    unfolding ts ratio_def by blast
  then show ?thesis using rs1(1) rs2 by (simp add: link_exchange_def)
qed

text \<open>Two stations of different byte order: \<open>sample_pdr\<close> and a big-endian \<open>sample_pds\<close>.\<close>

lemma sample_own_request: "own_request default_env sample_pdr sample_req"
  unfolding own_request_def
  by (intro conjI exI [of _ 0])
    (simp_all add: sample_req_def sample_pdr_def md_pdelay_req_sm_init_def sample_ptasg_def sample_ppg_def)

theorem pdelay_measured_over_wire_witness:
  "\<exists>rq' rs'. link_exchange default_env (default_env\<lparr>big_endian := True\<rparr>) sample_io sample_io sample_pdr sample_pds
     (pdelay_req_image default_env sample_req) (1000, 5000300, 5002300, 3600) [0, 0, 1100, 3700, 3800] = Some (rq', rs') \<and>
    state rq' = PDR_WAIT_TIMER \<and> state rs' = PDS_WAITING"
  using pdelay_measured_over_wire [of sample_pdr default_env sample_req sample_pds sample_io 5000300 5002300
      "[0, 0, 1100, 3700, 3800]" "default_env\<lparr>big_endian := True\<rparr>" sample_io 1000 3600] sample_own_request
  by auto

end
