(* ===== verification/Gptp_SyncWire.thy ===== *)
theory Gptp_SyncWire
  imports Gptp_SyncReceive Gptp_SyncSend Gptp_PdelayLink Gptp_ClockFacts
begin

text \<open>
  The transport of synchronisation information over a link: what the sending machine puts
  into the Sync and Follow_Up messages, and what the receiving machine of the neighbour, whose
  host may have another byte order, takes out of them.
\<close>

section \<open>The time in a Follow_Up\<close>

text \<open>Seconds and nanoseconds of a timestamp as one number.\<close>

definition timestamp_int :: "Timestamp \<Rightarrow> int" where
  "timestamp_int t = (uint (seconds_msb t) * 2 ^ 32 + uint (seconds_lsb t)) * UB_SEC_NS + uint (nanoseconds t)"

text \<open>The carry of an increment.\<close>

lemma uint_succ_carry: "x + 1 = 0 \<Longrightarrow> uint (x :: 'a::len word) = 2 ^ LENGTH('a) - 1"
proof -
  assume "x + 1 = 0"
  then have "x = - 1" by (simp add: eq_neg_iff_add_eq_0)
  then show ?thesis by (simp add: unsigned_minus_1_eq_mask mask_eq_exp_minus_1)
qed

lemma uint_succ_plain:
  assumes "x + 1 \<noteq> 0"
  shows "uint (x + 1) = uint (x :: 'a::len word) + 1"
proof -
  have "x \<noteq> - 1" using assms by (simp add: eq_neg_iff_add_eq_0)
  then have "uint x \<noteq> 2 ^ LENGTH('a) - 1"
    by (metis mask_eq_exp_minus_1 unsigned_minus_1_eq_mask word_uint_eq_iff)
  moreover have "uint x < 2 ^ LENGTH('a)" by (rule uint_lt2p)
  ultimately have "uint x + 1 < 2 ^ LENGTH('a)" by linarith
  then show ?thesis by (simp add: uint_word_ariths)
qed

text \<open>C9: The grandmaster adds the residence time to the origin timestamp: the timestamp in its
  Follow_Up is the time at which the Sync left, whatever carries from the nanoseconds to the
  seconds and from the lower to the upper part of the seconds.\<close>

theorem grandmaster_timestamp_exact:
  assumes "uint (nanoseconds (ms_preciseOriginTimestamp m)) < 1000000000"
    and "0 \<le> sint (residence sm m)" "sint (residence sm m) < 1000000000"
    and "timestamp_int (ms_preciseOriginTimestamp m) + sint (residence sm m) < 2 ^ 48 * 1000000000"
  shows "timestamp_int (follow_up_origin True sm m) =
      timestamp_int (ms_preciseOriginTimestamp m) + sint (residence sm m) \<and>
    uint (nanoseconds (follow_up_origin True sm m)) < 1000000000"
proof -
  let ?t = "ms_preciseOriginTimestamp m"
  let ?r = "sint (residence sm m)"
  let ?n = "nanoseconds ?t + of_int ?r"
  have "uint (of_int r :: u32) = r" if "0 \<le> r" "r < 1000000000" for r
    using that by (simp add: uint_word_of_int)
  from this [OF assms(2,3)] have n: "uint ?n = uint (nanoseconds ?t) + ?r"
    using assms(1-3) by (simp add: uint_word_ariths)
  show ?thesis
  proof (cases "uint ?n \<ge> UB_SEC_NS")
    case False
    then show ?thesis using n by (simp add: follow_up_origin_def Let_def timestamp_int_def UB_SEC_NS_def)
  next
    case True
    have d: "uint (?n - of_int UB_SEC_NS) = uint ?n - UB_SEC_NS"
      using True n assms(1-3) by (simp add: uint_word_ariths UB_SEC_NS_def)
    have less: "uint (?n - of_int UB_SEC_NS) < 1000000000"
      unfolding d using n assms(1,3) by (simp add: UB_SEC_NS_def)
    show ?thesis
    proof (cases "seconds_lsb ?t + 1 = 0")
      case carry: True
      have l: "uint (seconds_lsb ?t) = 2 ^ 32 - 1" using uint_succ_carry[OF carry] by simp
      have "uint (seconds_msb ?t) + 1 < 2 ^ 16"
      proof (rule ccontr)
        assume "\<not> uint (seconds_msb ?t) + 1 < 2 ^ 16"
        then have "2 ^ 16 - 1 \<le> uint (seconds_msb ?t)" by simp
        then have "(2 ^ 48 - 1) * UB_SEC_NS \<le> (uint (seconds_msb ?t) * 2 ^ 32 + uint (seconds_lsb ?t)) * UB_SEC_NS"
          unfolding l by (simp add: UB_SEC_NS_def)
        then show False using assms(4) True n unfolding timestamp_int_def by (simp add: UB_SEC_NS_def)
      qed
      then have "uint (seconds_msb ?t + 1) = uint (seconds_msb ?t) + 1" by (simp add: uint_word_ariths)
      then show ?thesis
        using True carry less n d l by (simp add: follow_up_origin_def Let_def timestamp_int_def UB_SEC_NS_def algebra_simps)
    next
      case False
      have "uint (seconds_lsb ?t + 1) = uint (seconds_lsb ?t) + 1" by (rule uint_succ_plain[OF False])
      then show ?thesis
        using True False less n d by (simp add: follow_up_origin_def Let_def timestamp_int_def UB_SEC_NS_def algebra_simps)
    qed
  qed
qed

lemma scaled_floor:
  fixes c r :: int and ratio :: real
  assumes "0 \<le> c" "0 \<le> r" "0 \<le> ratio" "of_int c + ratio * of_int r < 2 ^ 47"
  shows "uint (drop_bit 16 (of_int (c_trunc (of_int (c * 2 ^ 16) + ratio * of_int (r * 2 ^ 16))) :: u64)) =
    \<lfloor>of_int c + ratio * of_int r\<rfloor>"
proof -
  define x where "x = of_int c + ratio * of_int r"
  have x: "0 \<le> x" "x < 2 ^ 47" using assms by (simp_all add: x_def)
  have y: "of_int (c * 2 ^ 16) + ratio * of_int (r * 2 ^ 16) = x * 2 ^ 16" by (simp add: x_def algebra_simps)
  have b: "0 \<le> \<lfloor>x * 2 ^ 16\<rfloor>" "\<lfloor>x * 2 ^ 16\<rfloor> < 2 ^ 64" using x by (simp_all add: floor_less_iff)
  have "uint (drop_bit 16 (of_int (c_trunc (x * 2 ^ 16)) :: u64)) = \<lfloor>x * 2 ^ 16\<rfloor> div 2 ^ 16"
  proof -
    have "uint (drop_bit 16 (of_int k :: u64)) = k div 2 ^ 16" if "0 \<le> k" "k < 2 ^ 64" for k
      using that by (simp add: unsigned_drop_bit_eq uint_word_of_int take_bit_int_eq_self del: drop_bit_word_numeral)
        (simp add: drop_bit_eq_div)
    from this [OF b] show ?thesis using x(1) by (simp only: c_trunc_def) simp
  qed
  also have "\<dots> = \<lfloor>x * 2 ^ 16 / of_int (2 ^ 16)\<rfloor>" by (rule floor_divide_real_eq_div [symmetric]) simp
  also have "\<dots> = \<lfloor>x\<rfloor>" by simp
  finally show ?thesis unfolding y x_def [symmetric] .
qed

lemma push16:
  fixes w :: u64
  shows "uint w < 2 ^ 48 \<Longrightarrow> uint (push_bit 16 w) = uint w * 2 ^ 16"
    and "0 \<le> sint w \<Longrightarrow> sint w < 2 ^ 47 \<Longrightarrow> sint (push_bit 16 w) = sint w * 2 ^ 16"
proof -
  show "uint w < 2 ^ 48 \<Longrightarrow> uint (push_bit 16 w) = uint w * 2 ^ 16"
    by (simp add: push_bit_eq_mult uint_word_ariths)
  have "push_bit 16 w = of_int (sint w * 2 ^ 16)" by (simp add: push_bit_eq_mult)
  then show "0 \<le> sint w \<Longrightarrow> sint w < 2 ^ 47 \<Longrightarrow> sint (push_bit 16 w) = sint w * 2 ^ 16"
    by (simp only: signed_of_int) (simp add: signed_take_bit_int_eq_self)
qed


section \<open>Messages between hosts of any byte order\<close>

lemma tlv_between_hosts:
  "tlv_overlay e2 (tlv_image e1 (md_followup_information_tlv_compose e1 x b ph y) @ r) =
   md_followup_information_tlv_compose e2 x b ph y"
  by (simp add: tlv_overlay_def tlv_image_def field_def md_followup_information_tlv_compose_def wire_word_raw)

lemma timestamp_written_between_hosts:
  "timestamp_overlay e2 (timestamp_image e1 (timestamp_written e1 t) @ r) = timestamp_written e2 t"
  by (simp add: timestamp_overlay_def timestamp_image_def field_def timestamp_written_def wire_word_raw)

lemma length_timestamp_image [simp]: "length (timestamp_image e t) = 10"
  by (simp add: timestamp_image_def)

lemma follow_up_between_hosts:
  assumes "length (flags h) = 2" "length (messageTypeSpecific h) = 4" "clockid_ok (clockIdentity (h_sourcePortIdentity h))"
  shows "follow_up_overlay e2 (follow_up_image e1 \<lparr>fm_head = md_compose_head e1 h,
      fm_originTimestamp = timestamp_written e1 t, fm_tlv = md_followup_information_tlv_compose e1 x b ph y\<rparr>) =
    \<lparr>fm_head = md_compose_head e2 h, fm_originTimestamp = timestamp_written e2 t,
      fm_tlv = md_followup_information_tlv_compose e2 x b ph y\<rparr>"
proof -
  let ?img = "header_image (big_endian e1) (md_compose_head e1 h)"
  have len: "length ?img = 34"
    using header_fields(1) [of "md_compose_head e1 h"] assms
    by (simp add: md_compose_head_def clockid_ok_def MD_HEADER_SIZE_def)
  have "drop 34 (?img @ r) = r" "drop 44 (?img @ timestamp_image e1 u @ r) = r" for r u
    using len by simp_all
  then show ?thesis
    using tlv_between_hosts [where r = "[]"]
    by (simp add: follow_up_overlay_def follow_up_image_def compose_over_wire [OF assms]
        timestamp_written_between_hosts del: drop_append)
qed

section \<open>The receiving machine\<close>

lemma set_two_step:
  assumes "setMDSyncReceive e sm = Some m" "rcvdSyncPtr sm = Some s" "rcvdFollowUpPtr sm = Some f" "TWO_STEP_FLAG (fm_head s)"
  shows "mr_domainNumber m = md_domainNumber (fm_head s)" "mr_seqid m = hton (big_endian e) (sequenceId_ns (fm_head s))"
    "s_nsec (mr_followUpCorrectionField m) = correction_ns e (fm_head s) + correction_ns e (fm_head f)"
    "mr_preciseOriginTimestamp m = timestamp_read e (fm_originTimestamp f)"
    "mr_rateRatio m = 1 + unscaled41 (hton (big_endian e) (cumulativeScaledRateOffset_nl (fm_tlv f)))"
    "mr_gmTimeBaseIndicator m = hton (big_endian e) (gmTimeBaseIndicator_ns (fm_tlv f))"
    "mr_lastGmPhaseChange m = phase_read e (fm_tlv f)"
    "mr_lastGmFreqChange m = unscaled41 (hton (big_endian e) (scaledLastGmFreqChange_nl (fm_tlv f)))"
    "mr_sourcePortIdentity m = \<lparr>clockIdentity = md_clockIdentity (fm_head s), portNumber = hton (big_endian e) (portNumber_ns (fm_head s))\<rparr>"
    "mr_logMessageInterval m = md_logMessageInterval (fm_head s)"
    "nsec (mr_upstreamTxTime m) = upstream_tx_time sm (mr_rateRatio m)"
  using assms by (auto simp: setMDSyncReceive_def Let_def)

text \<open>A machine at rest, on an active port, that waits for a Sync.\<close>

definition msr_ready :: "md_sync_receive_data \<Rightarrow> bool" where
  "msr_ready sm \<longleftrightarrow> tas_running (ptasg sm) \<and> port_active (ppg sm) \<and> \<not> msr_asym sm \<and> \<not> oneStepReceive (msr_mdeg sm) \<and>
     (state sm = MSR_DISCARD \<or> state sm = MSR_WAIT_SYNC) \<and> last_state sm = state sm \<and> \<not> rcvdFollowUp sm"

text \<open>The interval in the message has not passed yet.\<close>

definition sync_timely :: "env \<Rightarrow> MDPTPMsgHeader \<Rightarrow> u64 \<Rightarrow> u64 \<Rightarrow> bool" where
  "sync_timely e h received now \<longleftrightarrow> now < received + LOG_TO_NSEC e (sint (md_logMessageInterval h))"

definition msr_waiting :: "env \<Rightarrow> md_sync_receive_data \<Rightarrow> MDPTPMsgFollowUp \<Rightarrow> u64 \<Rightarrow> u64 \<Rightarrow> md_sync_receive_data \<Rightarrow> bool" where
  "msr_waiting e sm s ts cts t \<longleftrightarrow> ptasg t = ptasg sm \<and> ppg t = ppg sm \<and> msr_mdeg t = msr_mdeg sm \<and>
     state t = MSR_WAIT_FOLLOW_UP \<and> last_state t = MSR_WAIT_FOLLOW_UP \<and> \<not> rcvdSync t \<and> rcvdSyncPtr t = Some s \<and>
     rts t = ts \<and> mdSyncReceive t = mdSyncReceive sm \<and>
     nsec (followUpReceiptTimeoutTime t) = cts + LOG_TO_NSEC e (sint (md_logMessageInterval (fm_head s)))"

lemma allstate_active:
  "tas_running (ptasg sm) \<Longrightarrow> port_active (ppg sm) \<Longrightarrow> msr_allstate_condition sm = sm"
  by (simp add: msr_allstate_condition_def tas_running_def port_active_def)

lemma sync_received:
  assumes "msr_ready sm" "TWO_STEP_FLAG (fm_head s)" "s = sync_copied e bs (rcvdSyncPtr sm)"
    and "sync_timely e (fm_head s) cts cts"
  shows "\<exists>t. md_sync_receive_sm_recv_sync e sm bs ts cts = Some (t, Next) \<and> msr_waiting e sm s ts cts t"
proof -
  let ?a = "sm\<lparr>rcvdSync := True, rcvdSyncPtr := Some s, rts := ts,
    msr_statd := (msr_statd sm)\<lparr>sync_rec := sync_rec (msr_statd sm) + 1\<rparr>\<rparr>"
  let ?b = "?a\<lparr>state := MSR_WAIT_FOLLOW_UP\<rparr>"
  note r = assms(1) [unfolded msr_ready_def tas_running_def port_active_def]
  have run: "msr_allstate_condition ?a = ?a"
    using assms(1) by (simp add: msr_ready_def allstate_active)
  have "sm_step (msr_body e cts) ?a = (?b, Next)"
    using r assms(2)
    by (auto simp: sm_step_settled msr_body_def msr_discard_condition_def waiting_for_sync_condition_def)
  then have 1: "sm_loop (msr_body e cts) ?a = sm_loop (msr_body e cts) ?b"
    by (rule sm_loop_again) (use r in auto)
  let ?i = "LOG_TO_NSEC e (sint (md_logMessageInterval (fm_head s)))"
  obtain v where v: "waiting_for_follow_up_proc e cts (?b\<lparr>last_state := MSR_WAIT_FOLLOW_UP\<rparr>) = Some v"
      "msr_waiting e sm s ts cts v" "\<not> rcvdFollowUp v"
    using r by (simp add: waiting_for_follow_up_proc_def Let_def msr_waiting_def)
  have "waiting_for_follow_up_condition cts v = Some (v\<lparr>rcvdFollowUp := False, state := MSR_WAIT_FOLLOW_UP\<rparr>)"
    using v(2,3) assms(4) by (simp add: waiting_for_follow_up_condition_def Let_def msr_waiting_def sync_timely_def flip: not_less)
  moreover have "last_state ?b \<noteq> state ?b" using r by auto
  ultimately have "sm_step (msr_body e cts) ?b = (v\<lparr>rcvdFollowUp := False, state := MSR_WAIT_FOLLOW_UP\<rparr>, Next)"
    using v(1) by (simp add: sm_step_entered msr_body_def)
  then have "sm_loop (msr_body e cts) ?b = Some (v\<lparr>rcvdFollowUp := False, state := MSR_WAIT_FOLLOW_UP\<rparr>, Next)"
    by (rule sm_loop_rest) (use v(2) in \<open>simp add: msr_waiting_def\<close>)
  with 1 run v(2) show ?thesis
    by (simp add: md_sync_receive_sm_recv_sync_def md_sync_receive_sm_def msr_waiting_def flip: assms(3))
qed

lemma follow_up_received:
  assumes "msr_ready sm" "msr_waiting e sm s ts c0 sm1" "f = follow_up_overlay e bs"
    and "sequenceId_ns (fm_head f) = sequenceId_ns (fm_head s)"
  shows "\<exists>t m. md_sync_receive_sm_recv_fup e sm1 bs cts = Some (t, Return m) \<and>
    setMDSyncReceive e (sm1\<lparr>rcvdFollowUpPtr := Some f\<rparr>) = Some m \<and> msr_ready t \<and> state t = MSR_WAIT_SYNC"
proof -
  let ?a = "sm1\<lparr>rcvdFollowUp := True, rcvdFollowUpPtr := Some f,
    msr_statd := (msr_statd sm1)\<lparr>sync_fup_rec := sync_fup_rec (msr_statd sm1) + 1\<rparr>\<rparr>"
  let ?b = "?a\<lparr>state := MSR_WAIT_SYNC\<rparr>"
  note r = assms(1) [unfolded msr_ready_def] and w = assms(2) [unfolded msr_waiting_def]
  have run: "msr_allstate_condition ?a = ?a" using r w by (simp add: allstate_active)
  have "waiting_for_follow_up_condition cts ?a = Some ?b"
    using w assms(4) by (simp add: waiting_for_follow_up_condition_def)
  then have "sm_step (msr_body e cts) ?a = (?b, Next)"
    using w by (simp add: sm_step_settled msr_body_def)
  then have 1: "sm_loop (msr_body e cts) ?a = sm_loop (msr_body e cts) ?b"
    by (rule sm_loop_again) (use w in simp)
  obtain m where m: "setMDSyncReceive e (sm1\<lparr>rcvdFollowUpPtr := Some f\<rparr>) = Some m"
    using w by (simp add: setMDSyncReceive_def Let_def)
  let ?c = "?b\<lparr>last_state := MSR_WAIT_SYNC, rcvdSync := False, rfup_ts := cts,
    msr_statd := (msr_statd ?b)\<lparr>sync_fup_rec_valid := sync_fup_rec_valid (msr_statd ?b) + 1\<rparr>, rcvdFollowUp := False\<rparr>"
  have "setMDSyncReceive e ?c = setMDSyncReceive e (sm1\<lparr>rcvdFollowUpPtr := Some f\<rparr>)"
    using w by (simp add: setMDSyncReceive_def upstream_tx_time_def Let_def)
  then have "sm_step (msr_body e cts) ?b = (?c\<lparr>mdSyncReceive := m, rcvdFollowUp := False, state := MSR_WAIT_SYNC\<rparr>, Return m)"
    using m w by (simp add: sm_step_entered msr_body_def waiting_for_sync_proc_def Let_def waiting_for_sync_condition_def)
  then have "sm_loop (msr_body e cts) ?b =
      Some (?c\<lparr>mdSyncReceive := m, rcvdFollowUp := False, state := MSR_WAIT_SYNC\<rparr>, Return m)"
    by (rule sm_loop_out) simp
  with 1 run m r w show ?thesis
    by (simp add: md_sync_receive_sm_recv_fup_def md_sync_receive_sm_def msr_ready_def flip: assms(3))
qed

section \<open>The sending machine\<close>

text \<open>A machine at rest, on an active port, in one of the states that wait for something to send.\<close>

definition mss_ready :: "md_sync_send_data \<Rightarrow> bool" where
  "mss_ready sm \<longleftrightarrow> tas_running (ptasg sm) \<and> port_active (ppg sm) \<and> \<not> mss_asym sm \<and> \<not> oneStepTxOper (mss_mdeg sm) \<and>
     mss_net sm \<and> (state sm = MSS_INITIALIZING \<or> state sm = MSS_SEND_FOLLOW_UP) \<and> last_state sm = state sm"

lemma mss_allstate_active:
  "tas_running (ptasg sm) \<Longrightarrow> port_active (ppg sm) \<Longrightarrow> mss_allstate_condition sm = sm"
  by (simp add: mss_allstate_condition_def tas_running_def port_active_def)

text \<open>After the Sync for \<open>m\<close> has been sent.\<close>

definition mss_waiting :: "md_sync_send_data \<Rightarrow> MDSyncSend \<Rightarrow> u8 list list \<Rightarrow> md_sync_send_data \<Rightarrow> bool" where
  "mss_waiting sm m fs t \<longleftrightarrow> ptasg t = ptasg sm \<and> ppg t = ppg sm \<and> mss_mdeg t = mss_mdeg sm \<and> mss_net t \<and>
     mss_domainIndex t = mss_domainIndex sm \<and> mss_portIndex t = mss_portIndex sm \<and>
     state t = MSS_SEND_TWO_STEP \<and> last_state t = MSS_SEND_TWO_STEP \<and> \<not> rcvdMDSync t \<and> rcvdMDSyncPtr t = Some m \<and>
     mss_rcvdMDTimestampReceive t = mss_rcvdMDTimestampReceive sm \<and> sync_ts t = sync_ts sm \<and>
     mss_mock_txts64 t = mss_mock_txts64 sm \<and> mss_sent t = mss_sent sm @ fs"

lemma sync_sent:
  assumes "mss_ready sm" "net_takes io"
  shows "\<exists>t. md_sync_send_sm_mdSyncSend e io g sm m cts = Some (t, Return 1) \<and>
    mss_waiting sm m [sync_image e (sync_header e sm m)] t"
proof -
  note net = net_takesD [OF assms(2)] and r = assms(1) [unfolded mss_ready_def]
  let ?a = "sm\<lparr>rcvdMDSync := True, rcvdMDSyncPtr := Some m\<rparr>"
  let ?b = "?a\<lparr>state := MSS_SEND_TWO_STEP\<rparr>"
  have run: "mss_allstate_condition ?a = ?a" using r by (simp add: mss_allstate_active)
  have "mss_next_message ?a x = MSS_SEND_TWO_STEP" for x
    using r by (simp add: mss_next_message_def port_active_def)
  then have "sm_step (mss_body e io g cts) ?a = (?b, Next)"
    using r by (auto simp: sm_step_settled mss_body_def mss_initializing_condition_def send_follow_up_condition_def Let_def)
  then have 1: "sm_loop (mss_body e io g cts) ?a = sm_loop (mss_body e io g cts) ?b"
    by (rule sm_loop_again) (use r in auto)
  have h: "sync_header e (s\<lparr>rcvdMDSync := b\<rparr>) m = sync_header e s m"
    "sync_header e (s\<lparr>rcvdMDSyncPtr := p\<rparr>) m = sync_header e s m"
    "sync_header e (s\<lparr>state := x\<rparr>) m = sync_header e s m"
    "sync_header e (s\<lparr>last_state := x\<rparr>) m = sync_header e s m" for s b p x by (simp_all add: sync_header_def)
  have ne: "last_state ?b \<noteq> state ?b" using r by auto
  obtain t where t: "sm_step (mss_body e io g cts) ?b = (t, Return 1)" "mss_waiting sm m [sync_image e (sync_header e sm m)] t"
    unfolding sm_step_entered [OF ne]
    using net r
    by (simp add: mss_body_def send_sync_two_step_proc_def setSyncTwoStep_txSync_def Let_def mss_out_def mss_waiting_def
        h)
  then have "sm_loop (mss_body e io g cts) ?b = Some (t, Return 1)" by (intro sm_loop_out) simp_all
  with 1 run t show ?thesis by (simp add: md_sync_send_sm_mdSyncSend_def md_sync_send_sm_def)
qed

text \<open>The follow-up is sent from the state that waits for the timestamp, once there is one.\<close>

lemma follow_up_sent:
  assumes "mss_ready sm" "net_takes io" "mss_waiting sm m fs sm1"
    and "gm = gptpclock_we_are_gm (mss_domainIndex sm) g"
    and "md_sync_send_sm e io g (sm1\<lparr>mss_rcvdMDTimestampReceive := True, sync_ts := ts\<rparr>) cts = r"
  shows "\<exists>t. r = Some (t, Next) \<and> mss_ready t \<and> state t = MSS_SEND_FOLLOW_UP \<and>
    mss_sent t = mss_sent sm @ fs @ [follow_up_image e (follow_up_message e gm (sm1\<lparr>sync_ts := ts\<rparr>) m)] \<and>
    \<not> mss_rcvdMDTimestampReceive t \<and> syncSequenceId (mss_mdeg t) = syncSequenceId (mss_mdeg sm) + 1"
proof -
  note net = net_takesD [OF assms(2)] and r = assms(1) [unfolded mss_ready_def] and w = assms(3) [unfolded mss_waiting_def]
  let ?a = "sm1\<lparr>mss_rcvdMDTimestampReceive := True, sync_ts := ts\<rparr>"
  let ?b = "?a\<lparr>state := MSS_SEND_FOLLOW_UP\<rparr>"
  have run: "mss_allstate_condition ?a = ?a" using r w by (simp add: mss_allstate_active)
  have "sm_step (mss_body e io g cts) ?a = (?b, Next)"
    using w by (simp add: sm_step_settled mss_body_def send_sync_two_step_condition_def)
  then have 1: "sm_loop (mss_body e io g cts) ?a = sm_loop (mss_body e io g cts) ?b"
    by (rule sm_loop_again) (use w in simp)
  have m: "follow_up_message e gm (?b\<lparr>last_state := x, mss_rcvdMDTimestampReceive := b\<rparr>) m =
      follow_up_message e gm (sm1\<lparr>sync_ts := ts\<rparr>) m" for x b
    by (simp add: follow_up_message_def follow_up_header_def follow_up_correction_def follow_up_origin_def residence_def)
  have ne: "last_state ?b \<noteq> state ?b" using w by simp
  obtain t where t: "sm_step (mss_body e io g cts) ?b = (t, Next)" "mss_ready t" "state t = MSS_SEND_FOLLOW_UP"
      "mss_sent t = mss_sent sm @ fs @ [follow_up_image e (follow_up_message e gm (sm1\<lparr>sync_ts := ts\<rparr>) m)]"
      "\<not> mss_rcvdMDTimestampReceive t" "syncSequenceId (mss_mdeg t) = syncSequenceId (mss_mdeg sm) + 1"
    unfolding sm_step_entered [OF ne]
    using net r w m [where x = MSS_SEND_FOLLOW_UP and b = False] assms(4)
    by (simp add: mss_body_def send_follow_up_proc_def setFollowUp_txFollowUp_def Let_def mss_out_def mss_ready_def
        mss_set_seqid_def)
  then have "sm_loop (mss_body e io g cts) ?b = Some (t, Next)" by (intro sm_loop_rest) (simp_all add: mss_ready_def)
  with 1 run assms(5) have "r = Some (t, Next)" by (simp add: md_sync_send_sm_def)
  with t show ?thesis by blast
qed

section \<open>From station to station\<close>

text \<open>
  The events in order: the sender gets \<open>m\<close> and then the timestamp of its Sync, the receiver gets
  the two frames, the first one at its time \<open>rx\<close>. \<open>c\<close> holds the current times of the four calls.
\<close>

definition sync_transport ::
  "env \<Rightarrow> env \<Rightarrow> net_io \<Rightarrow> platform \<Rightarrow> gptpclock_data \<Rightarrow> md_sync_send_data \<Rightarrow> md_sync_receive_data \<Rightarrow> MDSyncSend \<Rightarrow>
   u64 \<Rightarrow> u64 \<Rightarrow> u64 list \<Rightarrow> (md_sync_send_data \<times> md_sync_receive_data \<times> MDSyncReceive) option" where
  "sync_transport e1 e2 io p g ss rr m tx rx c =
     (case md_sync_send_sm_mdSyncSend e1 io g ss m (c ! 0) of
        None \<Rightarrow> None
      | Some (s1, c1) \<Rightarrow>
          (case fst (md_sync_send_sm_txts e1 io p g False s1 tx (c ! 1)) of
             None \<Rightarrow> None
           | Some (s2, c2) \<Rightarrow>
               let new = drop (length (mss_sent ss)) (mss_sent s2)
               in (case md_sync_receive_sm_recv_sync e2 rr (new ! 0) rx (c ! 2) of
                     None \<Rightarrow> None
                   | Some (r1, c3) \<Rightarrow>
                       (case md_sync_receive_sm_recv_fup e2 r1 (new ! 1) (c ! 3) of
                          Some (r2, Return mr) \<Rightarrow> Some (s2, r2, mr) | _ \<Rightarrow> None))))"

text \<open>The header of the Sync as the receiver sees it.\<close>

definition sync_head_seen :: "env \<Rightarrow> env \<Rightarrow> md_sync_send_data \<Rightarrow> MDSyncSend \<Rightarrow> MDPTPMsgHeader" where
  "sync_head_seen e1 e2 ss m = md_compose_head e2
     ((md_header_template e1 SYNC 44 (ms_sourcePortIdentity m) (syncSequenceId (mss_mdeg ss)) (currentLogSyncInterval (ppg ss)))
        \<lparr>logMessageInterval := ms_logMessageInterval m, h_domainNumber := ms_domainNumber m\<rparr>)"

lemma sync_seen:
  assumes "clockid_ok (clockIdentity (ms_sourcePortIdentity m))"
  shows "fm_head (sync_copied e2 (sync_image e1 (sync_header e1 ss m)) old) = sync_head_seen e1 e2 ss m"
    "TWO_STEP_FLAG (sync_head_seen e1 e2 ss m)"
proof -
  let ?h = "(md_header_template e1 SYNC 44 (ms_sourcePortIdentity m) (syncSequenceId (mss_mdeg ss)) (currentLogSyncInterval (ppg ss)))
        \<lparr>logMessageInterval := ms_logMessageInterval m, h_domainNumber := ms_domainNumber m\<rparr>"
  have "sync_header e1 ss m = md_compose_head e1 ?h"
    by (simp add: sync_header_def md_header_compose_def md_compose_head_def md_header_template_def)
  then have "header_overlay (big_endian e2) (sync_image e1 (sync_header e1 ss m)) = sync_head_seen e1 e2 ss m"
    using compose_over_wire [of ?h e2 e1] assms by (simp add: sync_image_def sync_head_seen_def)
  then show "fm_head (sync_copied e2 (sync_image e1 (sync_header e1 ss m)) old) = sync_head_seen e1 e2 ss m"
    by (simp add: sync_copied_def follow_up_overlay_def Let_def)
  show "TWO_STEP_FLAG (sync_head_seen e1 e2 ss m)"
    by (simp add: sync_head_seen_def TWO_STEP_FLAG_def md_compose_head_def md_header_template_def)
qed

lemma timestamp_read_written [simp]: "timestamp_read e (timestamp_written e t) = t"
  by (simp add: timestamp_read_def timestamp_written_def)

lemma phase_read_composed [simp]:
  "phase_read e (md_followup_information_tlv_compose e x b ph y) = ph"
  by (simp add: phase_read_def md_followup_information_tlv_compose_def)

text \<open>What the receiving machine makes of the two messages, once both are there.\<close>

lemma sync_values_received:
  assumes m: "clockid_ok (clockIdentity (ms_sourcePortIdentity m))"
      "\<bar>ms_rateRatio m - 1\<bar> < 1 / 2 ^ 10" "\<bar>ms_lastGmFreqChange m\<bar> < 1 / 2 ^ 10"
    and set: "setMDSyncReceive e2 r = Some mr"
    and ptrs: "rcvdSyncPtr r = Some (sync_copied e2 (sync_image e1 (sync_header e1 ss m)) q)"
      "rcvdFollowUpPtr r = Some \<lparr>fm_head = md_compose_head e2 (follow_up_header e1 gm s1 m),
         fm_originTimestamp = timestamp_written e2 (follow_up_origin gm s1 m),
         fm_tlv = md_followup_information_tlv_compose e2 (ms_rateRatio m) (ms_gmTimeBaseIndicator m)
           (ms_lastGmPhaseChange m) (ms_lastGmFreqChange m)\<rparr>"
  shows "mr_domainNumber mr = ms_domainNumber m" "mr_sourcePortIdentity mr = ms_sourcePortIdentity m"
    "mr_seqid mr = syncSequenceId (mss_mdeg ss)" "mr_logMessageInterval mr = ms_logMessageInterval m"
    "mr_preciseOriginTimestamp mr = follow_up_origin gm s1 m"
    "s_nsec (mr_followUpCorrectionField mr) = drop_bit 16 (follow_up_correction gm s1 m)"
    "mr_gmTimeBaseIndicator mr = ms_gmTimeBaseIndicator m" "mr_lastGmPhaseChange mr = ms_lastGmPhaseChange m"
    "\<bar>mr_rateRatio mr - ms_rateRatio m\<bar> < 1 / 2 ^ 41" "\<bar>mr_lastGmFreqChange mr - ms_lastGmFreqChange m\<bar> < 1 / 2 ^ 41"
    "nsec (mr_upstreamTxTime mr) = upstream_tx_time r (mr_rateRatio mr)"
proof -
  note seen = sync_seen(1) [OF m(1)] sync_seen(2) [OF m(1)]
  have zero: "correction_ns e2 (sync_head_seen e1 e2 ss m) = 0"
    by (simp add: correction_ns_def sync_head_seen_def md_compose_head_def md_header_template_def)
  note read = set_two_step [OF set ptrs, unfolded seen, OF seen(2)]
  show mr: "mr_domainNumber mr = ms_domainNumber m" "mr_sourcePortIdentity mr = ms_sourcePortIdentity m"
    "mr_seqid mr = syncSequenceId (mss_mdeg ss)" "mr_logMessageInterval mr = ms_logMessageInterval m"
    "mr_preciseOriginTimestamp mr = follow_up_origin gm s1 m"
    "s_nsec (mr_followUpCorrectionField mr) = drop_bit 16 (follow_up_correction gm s1 m)"
    "mr_gmTimeBaseIndicator mr = ms_gmTimeBaseIndicator m" "mr_lastGmPhaseChange mr = ms_lastGmPhaseChange m"
    by (simp_all add: read zero)
      (simp_all add: correction_ns_def follow_up_header_def sync_head_seen_def md_compose_head_def md_header_template_def
        md_followup_information_tlv_compose_def)
  have rate: "mr_rateRatio mr = 1 + unscaled41 (scaled41 (ms_rateRatio m - 1))"
    and freq: "mr_lastGmFreqChange mr = unscaled41 (scaled41 (ms_lastGmFreqChange m))"
    by (simp_all add: read) (simp_all add: md_followup_information_tlv_compose_def)
  show "nsec (mr_upstreamTxTime mr) = upstream_tx_time r (mr_rateRatio mr)" by (simp only: read(11))
  have "mr_rateRatio mr - ms_rateRatio m = unscaled41 (scaled41 (ms_rateRatio m - 1)) - (ms_rateRatio m - 1)"
    "(2 :: real) ^ 31 / 2 ^ 41 = 1 / 2 ^ 10"
    unfolding rate by simp_all
  then show "\<bar>mr_rateRatio mr - ms_rateRatio m\<bar> < 1 / 2 ^ 41" "\<bar>mr_lastGmFreqChange mr - ms_lastGmFreqChange m\<bar> < 1 / 2 ^ 41"
    using unscaled41_scaled41 [of "ms_rateRatio m - 1"] unscaled41_scaled41 [of "ms_lastGmFreqChange m"] m(2,3)
    unfolding freq by (simp_all only:)
qed


section \<open>A timestamp that belongs to another message\<close>

text \<open>A timestamp that comes when no Sync is waiting for one (a duplicate, or the late one of a
  message that was sent again) is kept: the next Sync is followed up at the next
  call, before its own timestamp has come, with the time of the other message.\<close>

theorem stale_timestamp_used:
  fixes e p g ss tx m
  defines "ts \<equiv> fst (sync_departure e p g ss tx)"
  assumes "mss_ready ss" "net_takes io" "\<not> rcvdMDSync ss" "gm = gptpclock_we_are_gm (mss_domainIndex ss) g'"
  shows "\<exists>s1 s2 s3. fst (md_sync_send_sm_txts e io p g False ss tx c1) = Some (s1, Next) \<and>
    md_sync_send_sm_mdSyncSend e io g' s1 m c2 = Some (s2, Return 1) \<and>
    md_sync_send_sm e io g' s2 c3 = Some (s3, Next) \<and>
    mss_sent s3 = mss_sent ss @ [sync_image e (sync_header e ss m),
      follow_up_image e (follow_up_message e gm (ss\<lparr>sync_ts := ts\<rparr>) m)]"
proof -
  note r = assms(2) [unfolded mss_ready_def]
  let ?s1 = "ss\<lparr>mss_rcvdMDTimestampReceive := True, sync_ts := ts\<rparr>"
  have run: "mss_allstate_condition ?s1 = ?s1" using r by (simp add: mss_allstate_active)
  have stay: "mss_next_message ?s1 x = x" for x using assms(4) by (simp add: mss_next_message_def)
  have "sm_step (mss_body e io g'' c1) ?s1 = (?s1, Next)" for g''
    using r stay by (auto simp: sm_step_settled mss_body_def mss_initializing_condition_def send_follow_up_condition_def Let_def)
  then have "sm_loop (mss_body e io g'' c1) ?s1 = Some (?s1, Next)" for g'' by (rule sm_loop_rest) (use r in simp)
  then have 1: "fst (md_sync_send_sm_txts e io p g False ss tx c1) = Some (?s1, Next)"
    using run by (simp add: md_sync_send_sm_txts_def md_sync_send_sm_def case_prod_beta ts_def)
  have ready: "mss_ready ?s1" using assms(2) by (simp add: mss_ready_def)
  obtain s2 where s2: "md_sync_send_sm_mdSyncSend e io g' ?s1 m c2 = Some (s2, Return 1)"
      "mss_waiting ?s1 m [sync_image e (sync_header e ?s1 m)] s2"
    using sync_sent [OF ready assms(3)] by blast
  have same: "s2\<lparr>mss_rcvdMDTimestampReceive := True, sync_ts := ts\<rparr> = s2"
    using s2(2) by (simp add: mss_waiting_def)
  have "follow_up_message e gm (s2\<lparr>sync_ts := ts\<rparr>) m = follow_up_message e gm (ss\<lparr>sync_ts := ts\<rparr>) m"
    "sync_header e ?s1 m = sync_header e ss m"
    using s2(2) by (simp_all add: follow_up_message_def follow_up_header_def follow_up_correction_def follow_up_origin_def
        residence_def mss_waiting_def sync_header_def)
  moreover have "gm = gptpclock_we_are_gm (mss_domainIndex ?s1) g'" using assms(5) by simp
  from follow_up_sent [OF ready assms(3) s2(2) this, of e ts c3, unfolded same, OF refl]
  obtain s3 where "md_sync_send_sm e io g' s2 c3 = Some (s3, Next)"
    "mss_sent s3 = mss_sent ?s1 @ [sync_image e (sync_header e ?s1 m)] @
      [follow_up_image e (follow_up_message e gm (s2\<lparr>sync_ts := ts\<rparr>) m)]" by blast
  ultimately show ?thesis using 1 s2(1) by simp
qed

section \<open>Instances\<close>

definition sample_sync :: MDSyncSend where
  "sample_sync = \<lparr>ms_domainNumber = 0, ms_followUpCorrectionField = zero_ScaledNs\<lparr>s_nsec := 200\<rparr>,
     ms_sourcePortIdentity = \<lparr>clockIdentity = sample_peer, portNumber = 1\<rparr>, ms_logMessageInterval = - 3,
     ms_preciseOriginTimestamp = \<lparr>nanoseconds = 999999900, seconds_lsb = 0xffffffff, seconds_msb = 0\<rparr>,
     ms_upstreamTxTime = zero_UScaledNs\<lparr>nsec := 1000\<rparr>, ms_rateRatio = 1, ms_gmTimeBaseIndicator = 1,
     ms_lastGmPhaseChange = zero_ScaledNs, ms_lastGmFreqChange = 0\<rparr>"

definition sample_mdeg0 :: MDEntityGlobal where
  "sample_mdeg0 = \<lparr>syncSequenceId = 7, oneStepReceive = False, oneStepTransmit = False, oneStepTxOper = False,
     md_forAllDomain = sample_mfad\<rparr>"

definition sample_mss :: md_sync_send_data where
  "sample_mss =
     \<lparr>state = MSS_INITIALIZING, last_state = MSS_INITIALIZING, ptasg = sample_ptasg, ppg = sample_ppg, mss_net = True,
      mss_mdeg = sample_mdeg0, mss_domainIndex = 0, mss_portIndex = 1, rcvdMDSync = False, rcvdMDSyncPtr = None,
      mss_rcvdMDTimestampReceive = False, txSync_time = 0, sync_ts = 0, tsync_ts = 0, pgap_ts = 0,
      tfup_ts = 0, mss_statd = \<lparr>sync_send = 0, sync_fup_send = 0\<rparr>, mss_mock_txts64 = 0, mss_sent = []\<rparr>"

definition sample_msr :: md_sync_receive_data where
  "sample_msr = (md_sync_receive_sm_init sample_ptasg sample_ppg sample_mdeg0)
     \<lparr>state := MSR_DISCARD, last_state := MSR_DISCARD\<rparr>"

lemma sample_sync_ready [simp]: "mss_ready sample_mss" "msr_ready sample_msr" "\<not> rcvdMDSync sample_mss"
  "mss_sent sample_mss = []"
  by (simp_all add: mss_ready_def msr_ready_def sample_mss_def sample_msr_def md_sync_receive_sm_init_def sample_mdeg0_def
      sample_ppg_def zero_PerPortGlobalForAllDomain_def port_active_def)

theorem grandmaster_timestamp_exact_witness:
  "timestamp_int (follow_up_origin True (sample_mss\<lparr>sync_ts := 1250\<rparr>) sample_sync) = 2 ^ 32 * 1000000000 + 150"
proof -
  have "sint (residence (sample_mss\<lparr>sync_ts := 1250\<rparr>) sample_sync) = 250"
    by (simp add: residence_def sample_sync_def)
  moreover have "timestamp_int (ms_preciseOriginTimestamp sample_sync) = 2 ^ 32 * 1000000000 - 100"
    "uint (nanoseconds (ms_preciseOriginTimestamp sample_sync)) < 1000000000"
    by (simp_all add: timestamp_int_def sample_sync_def UB_SEC_NS_def)
  ultimately show ?thesis
    using grandmaster_timestamp_exact [of sample_sync "sample_mss\<lparr>sync_ts := 1250\<rparr>"] by simp
qed



theorem stale_timestamp_used_witness:
  "\<exists>s1 s2 s3. fst (md_sync_send_sm_txts default_env sample_io sample_platform sample_gcd False sample_mss 1250 10) = Some (s1, Next) \<and>
    md_sync_send_sm_mdSyncSend default_env sample_io sample_gcd s1 sample_sync 20 = Some (s2, Return 1) \<and>
    md_sync_send_sm default_env sample_io sample_gcd s2 21 = Some (s3, Next) \<and> length (mss_sent s3) = 2"
  using stale_timestamp_used [of sample_mss sample_io "gptpclock_we_are_gm (mss_domainIndex sample_mss) sample_gcd" sample_gcd
      default_env sample_platform sample_gcd 1250 10 sample_sync 20 21] by auto

end
