(* ===== verification/Gptp_PortSync.thy ===== *)
theory Gptp_PortSync
  imports Gptp_MdSync
begin

text \<open>
  The PortSyncSync structure of \<^verbatim>\<open>mind.h\<close>, in which a port hands the information of a received
  Sync to the site, and the PortSyncSyncReceive machine (\<^verbatim>\<open>port_sync_sync_receive_sm.c\<close>,
  10.2.8 of the standard) that fills it in.
\<close>

section \<open>Information from a port\<close>

text \<open>
  \<open>ps_local_ppg\<close> is a pointer to the variables of the receiving port, null for the
  information of the local clock; it is followed only during the event in which the structure
  is handed on, so it is held by value. The local port number and index are signed.
\<close>

record PortSyncSync =
  ps_domainNumber :: u8
  ps_localPortNumber :: u16
  ps_syncReceiptTimeoutTime :: UScaledNs
  ps_followUpCorrectionField :: ScaledNs
  ps_sourcePortIdentity :: PortIdentity
  ps_logMessageInterval :: u8
  ps_preciseOriginTimestamp :: Timestamp
  ps_upstreamTxTime :: UScaledNs
  ps_rateRatio :: real
  ps_gmTimeBaseIndicator :: u16
  ps_lastGmPhaseChange :: ScaledNs
  ps_lastGmFreqChange :: real
  ps_localPortIndex :: u16
  ps_syncNextSendTimeoutTime :: UScaledNs
  ps_lastSyncSeqID :: u16
  ps_local_ppg :: "PerPortGlobal option"

definition zero_PortSyncSync :: PortSyncSync where
  "zero_PortSyncSync = \<lparr>ps_domainNumber = 0, ps_localPortNumber = 0,
     ps_syncReceiptTimeoutTime = zero_UScaledNs, ps_followUpCorrectionField = zero_ScaledNs,
     ps_sourcePortIdentity = zero_PortIdentity, ps_logMessageInterval = 0,
     ps_preciseOriginTimestamp = zero_Timestamp, ps_upstreamTxTime = zero_UScaledNs, ps_rateRatio = 0,
     ps_gmTimeBaseIndicator = 0, ps_lastGmPhaseChange = zero_ScaledNs, ps_lastGmFreqChange = 0,
     ps_localPortIndex = 0, ps_syncNextSendTimeoutTime = zero_UScaledNs, ps_lastSyncSeqID = 0,
     ps_local_ppg = None\<rparr>"

section \<open>The PortSyncSyncReceive machine\<close>

datatype (plugins only: code) pssr_state = PSSR_INIT | PSSR_DISCARD | PSSR_RECEIVED_SYNC | PSSR_REACTION

record port_sync_sync_receive_data = "pssr_state port_sm" +
  rcvdMDSync :: bool
  rcvdMDSyncPtr :: "MDSyncReceive option"
  pssr_portSyncSync :: PortSyncSync

abbreviation pssr_active :: "port_sync_sync_receive_data \<Rightarrow> bool" where
  "pssr_active sm \<equiv> PORT_OPER sm \<and> PTP_PORT_ENABLED sm \<and> AS_CAPABLE sm"

definition setPSSyncPSSR ::
  "env \<Rightarrow> PerPortGlobal \<Rightarrow> MDSyncReceive \<Rightarrow> real \<Rightarrow> u64 \<Rightarrow> PortSyncSync \<Rightarrow> PortSyncSync" where
  "setPSSyncPSSR e pp m rateRatio cts64 ps =
     (let interval = LOG_TO_NSEC e (sint (mr_logMessageInterval m)) in
      ps\<lparr>ps_domainNumber := mr_domainNumber m,
         ps_localPortNumber := thisPort pp,
         ps_syncReceiptTimeoutTime := (ps_syncReceiptTimeoutTime ps)
           \<lparr>nsec := cts64 + nsec (syncReceiptTimeoutTimeInterval pp)\<rparr>,
         ps_followUpCorrectionField := mr_followUpCorrectionField m,
         ps_sourcePortIdentity := mr_sourcePortIdentity m,
         ps_logMessageInterval := mr_logMessageInterval m,
         ps_preciseOriginTimestamp := mr_preciseOriginTimestamp m,
         ps_upstreamTxTime := mr_upstreamTxTime m,
         ps_rateRatio := rateRatio,
         ps_gmTimeBaseIndicator := mr_gmTimeBaseIndicator m,
         ps_lastGmPhaseChange := mr_lastGmPhaseChange m,
         ps_lastGmFreqChange := mr_lastGmFreqChange m,
         ps_localPortIndex := thisPortIndex pp,
         ps_syncNextSendTimeoutTime := (ps_syncNextSendTimeoutTime ps)\<lparr>nsec := cts64 + interval + interval div 2\<rparr>,
         ps_lastSyncSeqID := mr_seqid m,
         ps_local_ppg := Some pp\<rparr>)"

definition received_sync ::
  "env \<Rightarrow> u64 \<Rightarrow> port_sync_sync_receive_data \<Rightarrow> (PortSyncSync \<times> port_sync_sync_receive_data) option" where
  "received_sync e cts64 sm =
     (case rcvdMDSyncPtr sm of
        None \<Rightarrow> None
      | Some m \<Rightarrow>
          let rateRatio = mr_rateRatio m + (neighborRateRatio (forAllDomain (ppg sm)) - 1);
              pp = (ppg sm)\<lparr>syncReceiptTimeoutTimeInterval := (syncReceiptTimeoutTimeInterval (ppg sm))
                 \<lparr>nsec := ucast (syncReceiptTimeout (ppg sm)) * LOG_TO_NSEC e (sint (mr_logMessageInterval m))\<rparr>\<rparr>;
              ps = setPSSyncPSSR e pp m rateRatio cts64 (pssr_portSyncSync sm)
          in Some (ps, sm\<lparr>ptasg := (ptasg sm)\<lparr>parentLogSyncInterval := mr_logMessageInterval m\<rparr>, ppg := pp,
               rcvdMDSync := False, pssr_portSyncSync := ps\<rparr>))"

definition pssr_allstate_condition :: "port_sync_sync_receive_data \<Rightarrow> port_sync_sync_receive_data" where
  "pssr_allstate_condition sm =
     (if BEGIN (ptasg sm) \<or> \<not> instanceEnable (ptasg sm) \<or>
         (rcvdMDSync sm \<and> (\<not> PORT_OPER sm \<or> \<not> PTP_PORT_ENABLED sm \<or> \<not> AS_CAPABLE sm))
      then sm\<lparr>state := PSSR_DISCARD, last_state := PSSR_REACTION\<rparr> else sm)"

definition pssr_discard_proc :: "port_sync_sync_receive_data \<Rightarrow> port_sync_sync_receive_data" where
  "pssr_discard_proc sm = sm\<lparr>rcvdMDSync := False\<rparr>"

definition pssr_discard_condition :: "port_sync_sync_receive_data \<Rightarrow> pssr_state" where
  "pssr_discard_condition sm = (if rcvdMDSync sm \<and> pssr_active sm then PSSR_RECEIVED_SYNC else PSSR_DISCARD)"

definition received_sync_condition :: "port_sync_sync_receive_data \<Rightarrow> pssr_state" where
  "received_sync_condition sm =
     (if rcvdMDSync sm \<and> pssr_active sm \<and> \<not> asymmetryMeasurementMode (forAllDomain (ppg sm))
      then PSSR_REACTION else PSSR_RECEIVED_SYNC)"

text \<open>On entering DISCARD the machine goes on to RECEIVED_SYNC without looking at the condition.\<close>

definition pssr_body ::
  "env \<Rightarrow> u64 \<Rightarrow> bool \<Rightarrow> port_sync_sync_receive_data \<Rightarrow> port_sync_sync_receive_data \<times> PortSyncSync ctl" where
  "pssr_body e cts64 state_change sm =
     (case state sm of
        PSSR_INIT \<Rightarrow> (sm\<lparr>state := PSSR_DISCARD\<rparr>, Next)
      | PSSR_DISCARD \<Rightarrow>
          (if state_change then ((pssr_discard_proc sm)\<lparr>state := PSSR_RECEIVED_SYNC\<rparr>, Next)
           else (sm\<lparr>state := pssr_discard_condition sm\<rparr>, Next))
      | PSSR_RECEIVED_SYNC \<Rightarrow>
          (if state_change then
             (case received_sync e cts64 sm of
                None \<Rightarrow> (sm, Crash)
              | Some (ps, sm1) \<Rightarrow> (sm1\<lparr>state := received_sync_condition sm1\<rparr>, Return ps))
           else (sm\<lparr>state := received_sync_condition sm\<rparr>, Next))
      | PSSR_REACTION \<Rightarrow> (sm, Next))"

definition port_sync_sync_receive_sm ::
  "env \<Rightarrow> port_sync_sync_receive_data \<Rightarrow> u64 \<Rightarrow> (port_sync_sync_receive_data \<times> PortSyncSync ctl) option" where
  "port_sync_sync_receive_sm e sm cts64 = sm_loop (pssr_body e cts64) (pssr_allstate_condition sm)"

definition port_sync_sync_receive_sm_init ::
  "PerTimeAwareSystemGlobal \<Rightarrow> PerPortGlobal \<Rightarrow> port_sync_sync_receive_data" where
  "port_sync_sync_receive_sm_init pt pp =
     \<lparr>state = PSSR_INIT, last_state = PSSR_INIT, ptasg = pt, ppg = pp, rcvdMDSync = False,
      rcvdMDSyncPtr = None, pssr_portSyncSync = zero_PortSyncSync\<rparr>"

definition port_sync_sync_receive_sm_recvMDSync ::
  "env \<Rightarrow> port_sync_sync_receive_data \<Rightarrow> MDSyncReceive \<Rightarrow> u64 \<Rightarrow>
   (port_sync_sync_receive_data \<times> PortSyncSync ctl) option" where
  "port_sync_sync_receive_sm_recvMDSync e sm m cts64 =
     port_sync_sync_receive_sm e (sm\<lparr>last_state := PSSR_REACTION, rcvdMDSync := True, rcvdMDSyncPtr := Some m\<rparr>) cts64"

section \<open>The contract of the machine\<close>

text \<open>A machine that has been given a message keeps the pointer to it.\<close>

definition pssr_inv :: "port_sync_sync_receive_data \<Rightarrow> bool" where
  "pssr_inv sm \<longleftrightarrow> rcvdMDSyncPtr sm \<noteq> None"

fun pssr_rank :: "port_sync_sync_receive_data \<Rightarrow> nat" where
  "pssr_rank sm =
     (case state sm of
        PSSR_INIT \<Rightarrow> 3 | PSSR_DISCARD \<Rightarrow> 2 | PSSR_RECEIVED_SYNC \<Rightarrow> 1 | PSSR_REACTION \<Rightarrow> 0)"

lemma pssr_step_facts:
  assumes "pssr_inv s" "pssr_body e cts (last_state s \<noteq> state s) (s\<lparr>last_state := state s\<rparr>) = (t, c)"
  shows "pssr_inv t \<and> c \<noteq> Crash \<and> (c = Next \<and> last_state t \<noteq> state t \<longrightarrow> pssr_rank t < pssr_rank s)"
  using assms
  by (cases "state s") (auto simp: pssr_inv_def pssr_body_def received_sync_def Let_def pssr_discard_proc_def
      pssr_discard_condition_def received_sync_condition_def split: if_splits)

interpretation pssr: sm_safe "pssr_body e cts" pssr_inv pssr_rank for e cts
  by unfold_locales (use pssr_step_facts in blast)+

section \<open>What a received Sync becomes\<close>

text \<open>The port's variables after the reception, and the information that is handed on.\<close>

definition pssr_port :: "env \<Rightarrow> MDSyncReceive \<Rightarrow> PerPortGlobal \<Rightarrow> PerPortGlobal" where
  "pssr_port e m pp = pp\<lparr>syncReceiptTimeoutTimeInterval := (syncReceiptTimeoutTimeInterval pp)
     \<lparr>nsec := ucast (syncReceiptTimeout pp) * LOG_TO_NSEC e (sint (mr_logMessageInterval m))\<rparr>\<rparr>"

definition pssr_output ::
  "env \<Rightarrow> u64 \<Rightarrow> MDSyncReceive \<Rightarrow> port_sync_sync_receive_data \<Rightarrow> PortSyncSync" where
  "pssr_output e cts m sm = setPSSyncPSSR e (pssr_port e m (ppg sm)) m
     (mr_rateRatio m + (neighborRateRatio (forAllDomain (ppg sm)) - 1)) cts (pssr_portSyncSync sm)"

lemma pssr_received_step:
  assumes "state s = PSSR_RECEIVED_SYNC" "last_state s \<noteq> PSSR_RECEIVED_SYNC" "rcvdMDSyncPtr s = Some m"
  shows "\<exists>t. sm_loop (pssr_body e cts) s = Some (t, Return (pssr_output e cts m s)) \<and>
    state t = PSSR_RECEIVED_SYNC \<and> \<not> rcvdMDSync t \<and> ppg t = pssr_port e m (ppg s) \<and>
    ptasg t = (ptasg s)\<lparr>parentLogSyncInterval := mr_logMessageInterval m\<rparr>"
proof -
  have "\<exists>t. sm_step (pssr_body e cts) s = (t, Return (pssr_output e cts m s)) \<and>
    state t = PSSR_RECEIVED_SYNC \<and> \<not> rcvdMDSync t \<and> ppg t = pssr_port e m (ppg s) \<and>
    ptasg t = (ptasg s)\<lparr>parentLogSyncInterval := mr_logMessageInterval m\<rparr>"
    using assms by (simp add: sm_step_entered pssr_body_def received_sync_def Let_def pssr_output_def pssr_port_def
        received_sync_condition_def)
  then show ?thesis using sm_loop_out [where body = "pssr_body e cts"] by blast
qed

lemma pssr_discard_step:
  assumes "state s = PSSR_DISCARD" "last_state s \<noteq> PSSR_DISCARD"
  shows "sm_loop (pssr_body e cts) s =
    sm_loop (pssr_body e cts) (s\<lparr>state := PSSR_RECEIVED_SYNC, last_state := PSSR_DISCARD, rcvdMDSync := False\<rparr>)"
  by (rule sm_loop_again) (use assms in \<open>simp_all add: sm_step_entered pssr_body_def pssr_discard_proc_def\<close>)

lemma pssr_init_step:
  assumes "state s = PSSR_INIT"
  shows "sm_loop (pssr_body e cts) s =
    sm_loop (pssr_body e cts) (s\<lparr>state := PSSR_DISCARD, last_state := PSSR_INIT\<rparr>)"
  by (rule sm_loop_again) (use assms in \<open>simp_all add: sm_step_def pssr_body_def\<close>)

lemma pssr_output_frame [simp]:
  "pssr_output e cts m (s\<lparr>state := a\<rparr>) = pssr_output e cts m s"
  "pssr_output e cts m (s\<lparr>last_state := b\<rparr>) = pssr_output e cts m s"
  "pssr_output e cts m (s\<lparr>rcvdMDSync := d\<rparr>) = pssr_output e cts m s"
  "pssr_output e cts m (s\<lparr>rcvdMDSyncPtr := q\<rparr>) = pssr_output e cts m s"
  by (simp_all add: pssr_output_def)

lemma pssr_discard_run:
  assumes "state s = PSSR_DISCARD" "last_state s \<noteq> PSSR_DISCARD" "rcvdMDSyncPtr s = Some m"
  shows "\<exists>t. sm_loop (pssr_body e cts) s = Some (t, Return (pssr_output e cts m s)) \<and>
    state t = PSSR_RECEIVED_SYNC \<and> \<not> rcvdMDSync t \<and> ppg t = pssr_port e m (ppg s) \<and>
    ptasg t = (ptasg s)\<lparr>parentLogSyncInterval := mr_logMessageInterval m\<rparr>"
  using pssr_received_step [of "s\<lparr>state := PSSR_RECEIVED_SYNC, last_state := PSSR_DISCARD, rcvdMDSync := False\<rparr>" m e cts]
    assms by (simp add: pssr_discard_step)

lemma pssr_any_run:
  assumes "rcvdMDSyncPtr s = Some m" "last_state s = PSSR_REACTION" "state s \<noteq> PSSR_REACTION"
  shows "\<exists>t. sm_loop (pssr_body e cts) s = Some (t, Return (pssr_output e cts m s)) \<and>
    state t = PSSR_RECEIVED_SYNC \<and> \<not> rcvdMDSync t \<and> ppg t = pssr_port e m (ppg s) \<and>
    ptasg t = (ptasg s)\<lparr>parentLogSyncInterval := mr_logMessageInterval m\<rparr>"
proof (cases "state s")
  case PSSR_INIT
  with pssr_discard_run [of "s\<lparr>state := PSSR_DISCARD, last_state := PSSR_INIT\<rparr>" m e cts] assms show ?thesis
    by (simp add: pssr_init_step)
next
  case PSSR_DISCARD
  with pssr_discard_run [of s m e cts] assms show ?thesis by simp
next
  case PSSR_RECEIVED_SYNC
  with pssr_received_step [of s m e cts] assms show ?thesis by simp
qed (use assms in simp)

text \<open>Every Sync that the MD entity hands to a port is handed on to the site in the same call, with the
  rate ratio of the neighbour added to the cumulative one, the port it came in by and the time at which
  it is late. The machine never discards one: whatever the port's state, also
  when the system is not enabled or the port is not capable of gPTP, DISCARD goes straight on to
  RECEIVED_SYNC.\<close>

theorem received_sync_always_forwarded:
  assumes "state sm \<noteq> PSSR_REACTION"
  shows "\<exists>t ps. port_sync_sync_receive_sm_recvMDSync e sm m cts = Some (t, Return ps) \<and>
    state t = PSSR_RECEIVED_SYNC \<and>
    ps_rateRatio ps = mr_rateRatio m + neighborRateRatio (forAllDomain (ppg sm)) - 1 \<and>
    ps_localPortNumber ps = thisPort (ppg sm) \<and> ps_localPortIndex ps = thisPortIndex (ppg sm) \<and>
    ps_preciseOriginTimestamp ps = mr_preciseOriginTimestamp m \<and>
    ps_followUpCorrectionField ps = mr_followUpCorrectionField m \<and>
    ps_upstreamTxTime ps = mr_upstreamTxTime m \<and>
    nsec (ps_syncReceiptTimeoutTime ps) =
      cts + ucast (syncReceiptTimeout (ppg sm)) * LOG_TO_NSEC e (sint (mr_logMessageInterval m)) \<and>
    parentLogSyncInterval (ptasg t) = mr_logMessageInterval m"
proof -
  let ?s = "sm\<lparr>last_state := PSSR_REACTION, rcvdMDSync := True, rcvdMDSyncPtr := Some m\<rparr>"
  have "rcvdMDSyncPtr (pssr_allstate_condition ?s) = Some m" "last_state (pssr_allstate_condition ?s) = PSSR_REACTION"
    "state (pssr_allstate_condition ?s) \<noteq> PSSR_REACTION"
    "pssr_output e cts m (pssr_allstate_condition ?s) = pssr_output e cts m sm"
    "ppg (pssr_allstate_condition ?s) = ppg sm" "ptasg (pssr_allstate_condition ?s) = ptasg sm"
    using assms by (simp_all add: pssr_allstate_condition_def)
  from pssr_any_run [OF this(1-3), of e cts] this(4-) show ?thesis
    by (auto simp: port_sync_sync_receive_sm_recvMDSync_def port_sync_sync_receive_sm_def pssr_output_def pssr_port_def
        setPSSyncPSSR_def Let_def)
qed

definition sample_mdsr :: MDSyncReceive where
  "sample_mdsr = zero_MDSyncReceive\<lparr>mr_logMessageInterval := - 3, mr_rateRatio := 1 + 1 / 2 ^ 20,
     mr_preciseOriginTimestamp := \<lparr>nanoseconds = 5, seconds_lsb = 100, seconds_msb = 0\<rparr>, mr_seqid := 7\<rparr>"

text \<open>At a port that is not capable of gPTP.\<close>

theorem received_sync_always_forwarded_witness:
  "\<exists>t ps. port_sync_sync_receive_sm_recvMDSync default_env
     (port_sync_sync_receive_sm_init sample_ptasg (sample_ppg\<lparr>asCapable := False\<rparr>)) sample_mdsr 1000 = Some (t, Return ps) \<and>
     ps_localPortNumber ps = 1"
  using received_sync_always_forwarded [of "port_sync_sync_receive_sm_init sample_ptasg (sample_ppg\<lparr>asCapable := False\<rparr>)"
      default_env sample_mdsr 1000]
  by (auto simp: port_sync_sync_receive_sm_init_def sample_ppg_def)

end
