(* ===== verification/Gptp_SiteSync.thy ===== *)
theory Gptp_SiteSync
  imports Gptp_PortSync Gptp_Clock
begin

text \<open>
  The SiteSyncSync machine (\<^verbatim>\<open>site_sync_sync_sm.c\<close>, 10.2.7 of the standard): it takes the
  information of the port that is the slave of the grandmaster, or of the local clock master,
  and passes it on to all the ports, and repeats the last information when a Sync is missed.
\<close>

section \<open>State and procedures\<close>

datatype (plugins only: code) sss_state = SSS_INIT | SSS_INITIALIZING | SSS_RECEIVING_SYNC | SSS_REACTION

text \<open>
  \<open>txPSSyncPtrSSS\<close> is null or points to the machine's own \<^verbatim>\<open>portSyncSync\<close>; here it says which.
  \<open>sss_gcd\<close> is the state of the clocks.
\<close>

record site_sync_sync_data = "sss_state dom_sm" +
  sss_rcvdPSSync :: bool
  sss_rcvdPSSyncPtr :: "PortSyncSync option"
  txPSSyncPtrSSS :: bool
  sss_domainIndex :: u8
  sss_portSyncSync :: PortSyncSync
  site_sync_timeout :: u64
  site_sync_sendtime :: u64
  sss_gcd :: gptpclock_data

definition sss_allstate_condition :: "site_sync_sync_data \<Rightarrow> site_sync_sync_data" where
  "sss_allstate_condition sm =
     (if BEGIN (ptasg sm) \<or> \<not> instanceEnable (ptasg sm)
      then sm\<lparr>state := SSS_INITIALIZING, last_state := SSS_REACTION\<rparr> else sm)"

text \<open>\<^verbatim>\<open>SELECTED_STATE[p->localPortIndex]\<close>, an access to an array of fixed length.\<close>

definition port_index_ok :: "PerTimeAwareSystemGlobal \<Rightarrow> PortSyncSync \<Rightarrow> bool" where
  "port_index_ok pt p \<longleftrightarrow> unat (ps_localPortIndex p) < length (selectedState pt)"

definition from_slave_port :: "PerTimeAwareSystemGlobal \<Rightarrow> PortSyncSync \<Rightarrow> bool" where
  "from_slave_port pt p \<longleftrightarrow> selectedState pt ! unat (ps_localPortIndex p) = SlavePort \<and> gmPresent pt"

text \<open>The condition under which the received information is taken.\<close>

definition psync_taken :: "env \<Rightarrow> PerTimeAwareSystemGlobal \<Rightarrow> PortSyncSync \<Rightarrow> bool" where
  "psync_taken e pt p \<longleftrightarrow> from_slave_port pt p \<or> conf e CONF_TEST_SYNC_REC_PORT = sint (ps_localPortIndex p)"

definition sss_initializing_proc :: "site_sync_sync_data \<Rightarrow> site_sync_sync_data" where
  "sss_initializing_proc sm = sm\<lparr>sss_rcvdPSSync := False\<rparr>"

text \<open>\<open>None\<close> is a null or out-of-range access.\<close>

definition sss_initializing_condition :: "env \<Rightarrow> site_sync_sync_data \<Rightarrow> sss_state option" where
  "sss_initializing_condition e sm =
     (if \<not> sss_rcvdPSSync sm then Some SSS_INITIALIZING
      else case sss_rcvdPSSyncPtr sm of
        None \<Rightarrow> None
      | Some p \<Rightarrow> if \<not> port_index_ok (ptasg sm) p then None
                  else Some (if psync_taken e (ptasg sm) p then SSS_RECEIVING_SYNC else SSS_INITIALIZING))"

definition setPSSyncSend :: "PortSyncSync \<Rightarrow> site_sync_sync_data \<Rightarrow> site_sync_sync_data" where
  "setPSSyncSend p sm = sm\<lparr>sss_portSyncSync := p, site_sync_timeout := nsec (ps_syncReceiptTimeoutTime p),
     site_sync_sendtime := nsec (ps_syncNextSendTimeoutTime p)\<rparr>"

definition receiving_sync_proc :: "site_sync_sync_data \<Rightarrow> (PortSyncSync \<times> site_sync_sync_data) option" where
  "receiving_sync_proc sm =
     (case sss_rcvdPSSyncPtr sm of
        None \<Rightarrow> None
      | Some p \<Rightarrow> Some (p, (setPSSyncSend p sm)
          \<lparr>ptasg := (ptasg sm)\<lparr>parentLogSyncInterval := ps_logMessageInterval p\<rparr>,
           sss_rcvdPSSync := False, txPSSyncPtrSSS := True\<rparr>))"

text \<open>The Sync of the grandmaster is late, but not so late that the port is given up.\<close>

definition sync_lost :: "u64 \<Rightarrow> site_sync_sync_data \<Rightarrow> bool" where
  "sync_lost cts64 sm \<longleftrightarrow> from_slave_port (ptasg sm) (sss_portSyncSync sm) \<and>
     site_sync_timeout sm \<noteq> 0 \<and> \<not> cts64 > site_sync_timeout sm \<and>
     site_sync_sendtime sm \<noteq> 0 \<and> cts64 > site_sync_sendtime sm"

text \<open>The received information is used only if it is not that of the local clock and is newer than the stored one.\<close>

definition use_stored :: "site_sync_sync_data \<Rightarrow> PortSyncSync \<Rightarrow> bool" where
  "use_stored sm p \<longleftrightarrow> nsec (ps_syncReceiptTimeoutTime p) = - 1 \<or>
     site_sync_sendtime sm \<ge> nsec (ps_syncReceiptTimeoutTime p)"

definition sss_received :: "env \<Rightarrow> u64 \<Rightarrow> site_sync_sync_data \<Rightarrow> site_sync_sync_data option" where
  "sss_received e cts64 sm =
     (if \<not> sss_rcvdPSSync sm then Some sm
      else case sss_rcvdPSSyncPtr sm of
        None \<Rightarrow> None
      | Some p \<Rightarrow>
          (if \<not> port_index_ok (ptasg sm) p \<or> \<not> txPSSyncPtrSSS sm \<or> \<not> port_index_ok (ptasg sm) (sss_portSyncSync sm) then None
           else
             let lost = sync_lost cts64 sm in
             Some (sm\<lparr>last_state := if psync_taken e (ptasg sm) p \<or> lost then SSS_REACTION else last_state sm,
                      sss_rcvdPSSyncPtr := if lost \<and> use_stored sm p then Some (sss_portSyncSync sm) else Some p\<rparr>)))"

text \<open>The clocks are told by the index of the domain where they expect its number.\<close>

definition sss_timeout :: "env \<Rightarrow> u64 \<Rightarrow> site_sync_sync_data \<Rightarrow> site_sync_sync_data" where
  "sss_timeout e cts64 sm =
     (if site_sync_timeout sm \<noteq> 0 \<and> cts64 > site_sync_timeout sm
      then sm\<lparr>site_sync_timeout := 0,
              sss_gcd := (if conf e CONF_STATIC_PORT_STATE_SLAVE_PORT > 0
                then gptpclock_set_gmstable e (uint (sss_domainIndex sm)) False
                       (snd (gptpclock_reset_gmsync 0 (sss_domainIndex sm) (sss_gcd sm)))
                else sss_gcd sm)\<rparr>
      else sm)"

definition receiving_sync_condition :: "env \<Rightarrow> u64 \<Rightarrow> site_sync_sync_data \<Rightarrow> site_sync_sync_data option" where
  "receiving_sync_condition e cts64 sm =
     (case sss_received e cts64 sm of
        None \<Rightarrow> None
      | Some sm1 \<Rightarrow> Some ((sss_timeout e cts64 sm1)\<lparr>state := SSS_RECEIVING_SYNC\<rparr>))"

section \<open>The machine\<close>

definition sss_body ::
  "env \<Rightarrow> u64 \<Rightarrow> bool \<Rightarrow> site_sync_sync_data \<Rightarrow> site_sync_sync_data \<times> PortSyncSync ctl" where
  "sss_body e cts64 state_change sm =
     (case state sm of
        SSS_INIT \<Rightarrow> (sm\<lparr>state := SSS_INITIALIZING\<rparr>, Next)
      | SSS_INITIALIZING \<Rightarrow>
          (let sm1 = (if state_change then sss_initializing_proc sm else sm) in
           case sss_initializing_condition e sm1 of
             None \<Rightarrow> (sm1, Crash)
           | Some st \<Rightarrow> (sm1\<lparr>state := st\<rparr>, Next))
      | SSS_RECEIVING_SYNC \<Rightarrow>
          (case (if state_change then map_option (\<lambda>(p, sm1). (Return p, sm1)) (receiving_sync_proc sm)
                 else Some (Next, sm)) of
             None \<Rightarrow> (sm, Crash)
           | Some (c, sm1) \<Rightarrow>
               (case receiving_sync_condition e cts64 sm1 of None \<Rightarrow> (sm1, Crash) | Some sm2 \<Rightarrow> (sm2, c)))
      | SSS_REACTION \<Rightarrow> (sm, Next))"

definition site_sync_sync_sm ::
  "env \<Rightarrow> site_sync_sync_data \<Rightarrow> u64 \<Rightarrow> (site_sync_sync_data \<times> PortSyncSync ctl) option" where
  "site_sync_sync_sm e sm cts64 = sm_loop (sss_body e cts64) (sss_allstate_condition sm)"

definition site_sync_sync_sm_init ::
  "env \<Rightarrow> u8 \<Rightarrow> PerTimeAwareSystemGlobal \<Rightarrow> gptpclock_data \<Rightarrow> (site_sync_sync_data \<times> PortSyncSync ctl) option" where
  "site_sync_sync_sm_init e di pt g = site_sync_sync_sm e
     \<lparr>state = SSS_INIT, last_state = SSS_INIT, ptasg = pt, sss_rcvdPSSync = False, sss_rcvdPSSyncPtr = None,
      txPSSyncPtrSSS = False, sss_domainIndex = di, sss_portSyncSync = zero_PortSyncSync,
      site_sync_timeout = 0, site_sync_sendtime = 0, sss_gcd = g\<rparr> 0"

definition site_sync_sync_sm_portSyncSync ::
  "env \<Rightarrow> site_sync_sync_data \<Rightarrow> PortSyncSync \<Rightarrow> u64 \<Rightarrow> (site_sync_sync_data \<times> PortSyncSync ctl) option" where
  "site_sync_sync_sm_portSyncSync e sm p cts64 =
     site_sync_sync_sm e (sm\<lparr>sss_rcvdPSSync := True, sss_rcvdPSSyncPtr := Some p\<rparr>) cts64"

section \<open>The contract of the machine\<close>

definition sss_inv :: "site_sync_sync_data \<Rightarrow> bool" where
  "sss_inv sm \<longleftrightarrow>
     (sss_rcvdPSSync sm \<longrightarrow> (\<exists>p. sss_rcvdPSSyncPtr sm = Some p \<and> port_index_ok (ptasg sm) p)) \<and>
     (state sm = SSS_RECEIVING_SYNC \<longrightarrow> (if last_state sm = SSS_RECEIVING_SYNC then txPSSyncPtrSSS sm
        else \<exists>p. sss_rcvdPSSyncPtr sm = Some p \<and> port_index_ok (ptasg sm) p)) \<and>
     (txPSSyncPtrSSS sm \<longrightarrow> port_index_ok (ptasg sm) (sss_portSyncSync sm))"

fun sss_rank :: "site_sync_sync_data \<Rightarrow> nat" where
  "sss_rank sm =
     (case state sm of
        SSS_INIT \<Rightarrow> 4
      | SSS_INITIALIZING \<Rightarrow> if last_state sm = SSS_INITIALIZING then 3 else 2
      | SSS_RECEIVING_SYNC \<Rightarrow> if last_state sm = SSS_RECEIVING_SYNC then 2 else 1
      | SSS_REACTION \<Rightarrow> 0)"

definition sss_good :: "site_sync_sync_data \<Rightarrow> site_sync_sync_data \<Rightarrow> PortSyncSync ctl \<Rightarrow> bool" where
  "sss_good s t c \<longleftrightarrow> sss_inv t \<and> c \<noteq> Crash \<and> (c = Next \<and> last_state t \<noteq> state t \<longrightarrow> sss_rank t < sss_rank s)"

lemma sss_timeout_frame [simp]:
  "state (sss_timeout e cts s) = state s" "last_state (sss_timeout e cts s) = last_state s"
  "ptasg (sss_timeout e cts s) = ptasg s" "sss_rcvdPSSync (sss_timeout e cts s) = sss_rcvdPSSync s"
  "sss_rcvdPSSyncPtr (sss_timeout e cts s) = sss_rcvdPSSyncPtr s"
  "txPSSyncPtrSSS (sss_timeout e cts s) = txPSSyncPtrSSS s"
  "sss_portSyncSync (sss_timeout e cts s) = sss_portSyncSync s"
  by (simp_all add: sss_timeout_def)

lemma port_index_ok_parent [simp]:
  "port_index_ok (t\<lparr>parentLogSyncInterval := x\<rparr>) p = port_index_ok t p"
  by (simp add: port_index_ok_def)

text \<open>The state after the condition of RECEIVING_SYNC, when no pointer is null.\<close>

lemma receiving_sync_condition_result:
  assumes "txPSSyncPtrSSS s" "port_index_ok (ptasg s) (sss_portSyncSync s)"
    and "sss_rcvdPSSync s \<Longrightarrow> \<exists>p. sss_rcvdPSSyncPtr s = Some p \<and> port_index_ok (ptasg s) p"
  shows "\<exists>t. receiving_sync_condition e cts s = Some t \<and> state t = SSS_RECEIVING_SYNC \<and> ptasg t = ptasg s \<and>
    txPSSyncPtrSSS t \<and> sss_portSyncSync t = sss_portSyncSync s \<and> sss_rcvdPSSync t = sss_rcvdPSSync s \<and>
    (sss_rcvdPSSync s \<longrightarrow> (\<exists>p. sss_rcvdPSSyncPtr t = Some p \<and> port_index_ok (ptasg s) p)) \<and>
    (last_state t = last_state s \<or> sss_rcvdPSSync s)"
proof (cases "sss_rcvdPSSync s")
  case True
  with assms obtain p where p: "sss_rcvdPSSyncPtr s = Some p" "port_index_ok (ptasg s) p" by blast
  then show ?thesis using True assms(1,2)
    by (simp add: receiving_sync_condition_def sss_received_def Let_def)
next
  case False
  then show ?thesis using assms by (simp add: receiving_sync_condition_def sss_received_def)
qed

lemma sss_step_receiving:
  assumes inv: "sss_inv s" and st: "state s = SSS_RECEIVING_SYNC"
    and step: "sss_body e cts (last_state s \<noteq> state s) (s\<lparr>last_state := state s\<rparr>) = (t, c)"
  shows "sss_good s t c"
proof (cases "last_state s = SSS_RECEIVING_SYNC")
  case True
  with inv st have x: "txPSSyncPtrSSS s" "port_index_ok (ptasg s) (sss_portSyncSync s)"
      "sss_rcvdPSSync s \<longrightarrow> (\<exists>p. sss_rcvdPSSyncPtr s = Some p \<and> port_index_ok (ptasg s) p)"
    by (auto simp: sss_inv_def)
  obtain w where w: "receiving_sync_condition e cts (s\<lparr>last_state := SSS_RECEIVING_SYNC\<rparr>) = Some w"
      "state w = SSS_RECEIVING_SYNC" "ptasg w = ptasg s" "txPSSyncPtrSSS w"
      "sss_portSyncSync w = sss_portSyncSync s" "sss_rcvdPSSync w = sss_rcvdPSSync s"
      "sss_rcvdPSSync s \<longrightarrow> (\<exists>p. sss_rcvdPSSyncPtr w = Some p \<and> port_index_ok (ptasg s) p)"
      "last_state w = SSS_RECEIVING_SYNC \<or> sss_rcvdPSSync s"
    using receiving_sync_condition_result [of "s\<lparr>last_state := SSS_RECEIVING_SYNC\<rparr>" e cts] x by auto
  have "t = w" "c = Next" using step st True w(1) by (simp_all add: sss_body_def)
  then show ?thesis using w True st x by (auto simp: sss_good_def sss_inv_def)
next
  case False
  with inv st obtain p where p: "sss_rcvdPSSyncPtr s = Some p" "port_index_ok (ptasg s) p"
    by (auto simp: sss_inv_def)
  obtain v where v: "receiving_sync_proc (s\<lparr>last_state := SSS_RECEIVING_SYNC\<rparr>) = Some (p, v)"
    "ptasg v = (ptasg s)\<lparr>parentLogSyncInterval := ps_logMessageInterval p\<rparr>" "\<not> sss_rcvdPSSync v"
    "txPSSyncPtrSSS v" "sss_portSyncSync v = p" "last_state v = SSS_RECEIVING_SYNC"
    using p by (simp add: receiving_sync_proc_def setPSSyncSend_def)
  obtain w where w: "receiving_sync_condition e cts v = Some w" "state w = SSS_RECEIVING_SYNC"
      "ptasg w = ptasg v" "txPSSyncPtrSSS w" "sss_portSyncSync w = p" "\<not> sss_rcvdPSSync w"
      "last_state w = SSS_RECEIVING_SYNC"
    using receiving_sync_condition_result [of v e cts] v p by auto
  have "t = w" "c = Return p" using step st False v(1) w(1) by (simp_all add: sss_body_def)
  then show ?thesis using w v p by (auto simp: sss_good_def sss_inv_def)
qed

lemma sss_step_initializing:
  assumes inv: "sss_inv s" and st: "state s = SSS_INITIALIZING"
    and step: "sss_body e cts (last_state s \<noteq> state s) (s\<lparr>last_state := state s\<rparr>) = (t, c)"
  shows "sss_good s t c"
proof (cases "last_state s = SSS_INITIALIZING \<and> sss_rcvdPSSync s")
  case True
  with inv obtain p where p: "sss_rcvdPSSyncPtr s = Some p" "port_index_ok (ptasg s) p" by (auto simp: sss_inv_def)
  then have "c = Next" "t = s\<lparr>last_state := SSS_INITIALIZING,
      state := if psync_taken e (ptasg s) p then SSS_RECEIVING_SYNC else SSS_INITIALIZING\<rparr>"
    using step st True by (simp_all add: sss_body_def Let_def sss_initializing_condition_def)
  then show ?thesis using p inv st True by (simp add: sss_good_def sss_inv_def)
next
  case False
  let ?v = "if last_state s = SSS_INITIALIZING then s\<lparr>last_state := SSS_INITIALIZING\<rparr>
    else sss_initializing_proc (s\<lparr>last_state := SSS_INITIALIZING\<rparr>)"
  have v: "\<not> sss_rcvdPSSync ?v" "last_state ?v = SSS_INITIALIZING" "ptasg ?v = ptasg s"
      "txPSSyncPtrSSS ?v = txPSSyncPtrSSS s" "sss_portSyncSync ?v = sss_portSyncSync s"
    using False by (simp_all add: sss_initializing_proc_def)
  have "c = Next" "t = ?v\<lparr>state := SSS_INITIALIZING\<rparr>"
    using step st v(1) by (cases "last_state s = SSS_INITIALIZING";
        simp add: sss_body_def Let_def sss_initializing_condition_def)+
  then show ?thesis using inv v by (simp add: sss_good_def sss_inv_def)
qed

lemma sss_step_good:
  assumes "sss_inv s" "sss_body e cts (last_state s \<noteq> state s) (s\<lparr>last_state := state s\<rparr>) = (t, c)"
  shows "sss_good s t c"
proof (cases "state s")
  case SSS_INIT
  with assms show ?thesis by (auto simp: sss_body_def sss_good_def sss_inv_def)
next
  case SSS_REACTION
  with assms show ?thesis by (auto simp: sss_body_def sss_good_def sss_inv_def)
qed (use assms sss_step_initializing sss_step_receiving in blast)+

interpretation sss: sm_safe "sss_body e cts" sss_inv sss_rank for e cts
  by unfold_locales (use sss_step_good in \<open>unfold sss_good_def, blast\<close>)+

section \<open>What is passed on\<close>

text \<open>A running machine that has passed on some information and waits for more.\<close>

definition sss_waiting :: "site_sync_sync_data \<Rightarrow> bool" where
  "sss_waiting sm \<longleftrightarrow> tas_running (ptasg sm) \<and> state sm = SSS_RECEIVING_SYNC \<and> last_state sm = SSS_RECEIVING_SYNC \<and>
     txPSSyncPtrSSS sm \<and> port_index_ok (ptasg sm) (sss_portSyncSync sm)"

text \<open>Entering RECEIVING_SYNC with information \<open>p\<close> hands on \<open>p\<close> and keeps a copy of it.\<close>

lemma receiving_sync_entered:
  assumes "state s = SSS_RECEIVING_SYNC" "last_state s \<noteq> SSS_RECEIVING_SYNC" "sss_rcvdPSSyncPtr s = Some p"
  shows "\<exists>t. sm_loop (sss_body e cts) s = Some (t, Return p) \<and> state t = SSS_RECEIVING_SYNC \<and>
    last_state t = SSS_RECEIVING_SYNC \<and> txPSSyncPtrSSS t \<and> sss_portSyncSync t = p \<and> \<not> sss_rcvdPSSync t \<and>
    ptasg t = (ptasg s)\<lparr>parentLogSyncInterval := ps_logMessageInterval p\<rparr>"
proof -
  have "\<exists>t. sm_step (sss_body e cts) s = (t, Return p) \<and> state t = SSS_RECEIVING_SYNC \<and>
    last_state t = SSS_RECEIVING_SYNC \<and> txPSSyncPtrSSS t \<and> sss_portSyncSync t = p \<and> \<not> sss_rcvdPSSync t \<and>
    ptasg t = (ptasg s)\<lparr>parentLogSyncInterval := ps_logMessageInterval p\<rparr>"
    using assms by (simp add: sm_step_entered sss_body_def receiving_sync_proc_def setPSSyncSend_def
        receiving_sync_condition_def sss_received_def)
  then show ?thesis using sm_loop_out [where body = "sss_body e cts"] by blast
qed

lemma waiting_step:
  assumes "sss_waiting s" "sss_rcvdPSSync s" "sss_rcvdPSSyncPtr s = Some p" "port_index_ok (ptasg s) p"
  shows "\<exists>t. sm_step (sss_body e cts) s = (t, Next) \<and> state t = SSS_RECEIVING_SYNC \<and> ptasg t = ptasg s \<and>
    txPSSyncPtrSSS t \<and> sss_portSyncSync t = sss_portSyncSync s \<and>
    last_state t = (if psync_taken e (ptasg s) p \<or> sync_lost cts s then SSS_REACTION else SSS_RECEIVING_SYNC) \<and>
    sss_rcvdPSSyncPtr t = Some (if sync_lost cts s \<and> use_stored s p then sss_portSyncSync s else p)"
  using assms by (simp add: sm_step_settled sss_waiting_def sss_body_def receiving_sync_condition_def sss_received_def Let_def)

lemma waiting_run:
  fixes cts :: u64
  assumes "sss_waiting s" "sss_rcvdPSSync s" "sss_rcvdPSSyncPtr s = Some p" "port_index_ok (ptasg s) p"
  defines "q \<equiv> if sync_lost cts s \<and> use_stored s p then sss_portSyncSync s else p"
  shows "if psync_taken e (ptasg s) p \<or> sync_lost cts s
    then \<exists>t. sm_loop (sss_body e cts) s = Some (t, Return q) \<and> sss_portSyncSync t = q \<and> sss_waiting t
    else \<exists>t. sm_loop (sss_body e cts) s = Some (t, Next) \<and> sss_portSyncSync t = sss_portSyncSync s \<and> sss_waiting t"
proof -
  obtain t where t: "sm_step (sss_body e cts) s = (t, Next)" "state t = SSS_RECEIVING_SYNC" "ptasg t = ptasg s"
    "txPSSyncPtrSSS t" "sss_portSyncSync t = sss_portSyncSync s"
    "last_state t = (if psync_taken e (ptasg s) p \<or> sync_lost cts s then SSS_REACTION else SSS_RECEIVING_SYNC)"
    "sss_rcvdPSSyncPtr t = Some q"
    using waiting_step [OF assms(1-4), of e cts] unfolding q_def by blast
  show ?thesis
  proof (cases "psync_taken e (ptasg s) p \<or> sync_lost cts s")
    case True
    then have l: "last_state t \<noteq> SSS_RECEIVING_SYNC" using t(6) by simp
    from receiving_sync_entered [OF t(2) this t(7), of e cts] obtain u where
      u: "sm_loop (sss_body e cts) t = Some (u, Return q)" "state u = SSS_RECEIVING_SYNC" "last_state u = SSS_RECEIVING_SYNC"
        "txPSSyncPtrSSS u" "sss_portSyncSync u = q" "ptasg u = (ptasg s)\<lparr>parentLogSyncInterval := ps_logMessageInterval q\<rparr>"
      using t(3) by auto
    have "port_index_ok (ptasg s) q" using assms(1,4) by (simp add: q_def sss_waiting_def)
    then have "sss_waiting u" using u assms(1) by (simp add: sss_waiting_def tas_running_def)
    moreover have "sm_loop (sss_body e cts) s = Some (u, Return q)"
      using sm_loop_again [OF t(1)] t(2) l u(1) by simp
    ultimately show ?thesis using True u(5) by auto
  next
    case False
    then have l: "last_state t = state t" using t(2,6) by simp
    have "sss_waiting t" using t l assms(1) by (simp add: sss_waiting_def)
    then show ?thesis using sm_loop_rest [OF t(1) l] False t(5) by auto
  qed
qed

lemma allstate_running: "tas_running (ptasg sm) \<Longrightarrow> sss_allstate_condition sm = sm"
  by (simp add: sss_allstate_condition_def tas_running_def)

lemma sss_waiting_rcvd [simp]:
  "sss_waiting (s\<lparr>sss_rcvdPSSync := b, sss_rcvdPSSyncPtr := q\<rparr>) = sss_waiting s"
  "sync_lost cts (s\<lparr>sss_rcvdPSSync := b, sss_rcvdPSSyncPtr := q\<rparr>) = sync_lost cts s"
  "use_stored (s\<lparr>sss_rcvdPSSync := b, sss_rcvdPSSyncPtr := q\<rparr>) = use_stored s"
  by (simp_all add: sss_waiting_def sync_lost_def use_stored_def fun_eq_iff)


text \<open>A system with two ports whose first port is the slave of the grandmaster.\<close>

definition slave_ptasg :: PerTimeAwareSystemGlobal where
  "slave_ptasg = sample_ptasg\<lparr>gmPresent := True,
     selectedState := [PassivePort, SlavePort, MasterPort] @ replicate 30 DisabledPort\<rparr>"

definition sample_ps :: PortSyncSync where
  "sample_ps = zero_PortSyncSync\<lparr>ps_localPortNumber := 1, ps_localPortIndex := 1,
     ps_syncReceiptTimeoutTime := zero_UScaledNs\<lparr>nsec := 375000000\<rparr>,
     ps_syncNextSendTimeoutTime := zero_UScaledNs\<lparr>nsec := 187500000\<rparr>, ps_rateRatio := 1\<rparr>"

text \<open>The information of the local clock.\<close>

definition sample_own_ps :: PortSyncSync where
  "sample_own_ps = zero_PortSyncSync\<lparr>ps_syncReceiptTimeoutTime := zero_UScaledNs\<lparr>nsec := - 1\<rparr>\<rparr>"

definition sample_sss :: site_sync_sync_data where
  "sample_sss = \<lparr>state = SSS_RECEIVING_SYNC, last_state = SSS_RECEIVING_SYNC, ptasg = slave_ptasg,
     sss_rcvdPSSync = False, sss_rcvdPSSyncPtr = Some sample_ps, txPSSyncPtrSSS = True, sss_domainIndex = 0,
     sss_portSyncSync = sample_ps, site_sync_timeout = 375000000, site_sync_sendtime = 187500000,
     sss_gcd = gptpclock_init 1\<rparr>"

lemma slave_ptasg_running [simp]: "tas_running slave_ptasg"
  using sample_running by (simp add: slave_ptasg_def tas_running_def)


end
