(* ===== verification/Gptp_PortSyncSend.thy ===== *)
theory Gptp_PortSyncSend
  imports Gptp_PortSync
begin

text \<open>
  The PortSyncSyncSend machine (\<^verbatim>\<open>port_sync_sync_send_sm.c\<close>, 10.2.12 of the standard): a master
  port turns the information of the site into the information of a Sync to be sent.
\<close>

section \<open>State and procedures\<close>

datatype (plugins only: code) psss_state =
  PSSS_INIT | PSSS_TRANSMIT_INIT | PSSS_SEND_MD_SYNC | PSSS_SYNC_RECEIPT_TIMEOUT | PSSS_REACTION

record port_sync_sync_send_data = "psss_state port_sm" +
  psss_rcvdPSSync :: bool
  psss_rcvdPSSyncPtr :: "PortSyncSync option"
  psss_portIndex :: nat
  lastPreciseOriginTimestamp :: Timestamp
  lastFollowUpCorrectionField :: ScaledNs
  lastRateRatio :: real
  lastUpstreamTxTime :: UScaledNs
  lastSyncSentTime :: UScaledNs
  lastRcvdPortNum :: u16
  lastGmTimeBaseIndicator :: u16
  psss_lastGmPhaseChange :: ScaledNs
  psss_lastGmFreqChange :: real
  psss_syncReceiptTimeoutTime :: UScaledNs
  numberSyncTransmissions :: u8
  psss_interval1 :: UScaledNs
  mdSyncSend :: MDSyncSend

definition psss_active :: "port_sync_sync_send_data \<Rightarrow> bool" where
  "psss_active sm \<longleftrightarrow> PORT_OPER sm \<and> PTP_PORT_ENABLED sm \<and> AS_CAPABLE sm"

text \<open>The port is a master, or the port of the test option.\<close>

definition sends_sync :: "env \<Rightarrow> port_sync_sync_send_data \<Rightarrow> bool" where
  "sends_sync e sm \<longleftrightarrow> selectedState (ptasg sm) ! psss_portIndex sm = MasterPort \<or>
     conf e CONF_TEST_SYNC_SEND_PORT = int (psss_portIndex sm)"

definition setMDSync :: "port_sync_sync_send_data \<Rightarrow> port_sync_sync_send_data" where
  "setMDSync sm = sm\<lparr>mdSyncSend := \<lparr>
     ms_domainNumber = domainNumber (ptasg sm),
     ms_followUpCorrectionField = lastFollowUpCorrectionField sm,
     ms_sourcePortIdentity = \<lparr>clockIdentity = thisClock (ptasg sm), portNumber = thisPort (ppg sm)\<rparr>,
     ms_logMessageInterval = currentLogSyncInterval (ppg sm),
     ms_preciseOriginTimestamp = lastPreciseOriginTimestamp sm,
     ms_upstreamTxTime = lastUpstreamTxTime sm,
     ms_rateRatio = lastRateRatio sm,
     ms_gmTimeBaseIndicator = lastGmTimeBaseIndicator sm,
     ms_lastGmPhaseChange = psss_lastGmPhaseChange sm,
     ms_lastGmFreqChange = psss_lastGmFreqChange sm\<rparr>\<rparr>"

definition psss_allstate_condition :: "port_sync_sync_send_data \<Rightarrow> port_sync_sync_send_data" where
  "psss_allstate_condition sm =
     (if BEGIN (ptasg sm) \<or> \<not> instanceEnable (ptasg sm) \<or>
         (psss_rcvdPSSync sm \<and> (\<not> PORT_OPER sm \<or> \<not> PTP_PORT_ENABLED sm \<or> \<not> AS_CAPABLE sm))
      then sm\<lparr>state := PSSS_TRANSMIT_INIT, last_state := PSSS_REACTION\<rparr> else sm)"

definition psss_transmit_init_proc :: "port_sync_sync_send_data \<Rightarrow> port_sync_sync_send_data" where
  "psss_transmit_init_proc sm = sm\<lparr>ppg := (ppg sm)\<lparr>syncSlowdown := False\<rparr>,
     psss_rcvdPSSync := False, numberSyncTransmissions := 0\<rparr>"

text \<open>The received information comes from another port; the local port number is signed.\<close>

definition from_other_port :: "port_sync_sync_send_data \<Rightarrow> PortSyncSync \<Rightarrow> bool" where
  "from_other_port sm p \<longleftrightarrow> sint (ps_localPortNumber p) \<noteq> uint (thisPort (ppg sm))"

text \<open>The test of TRANSMIT_INIT and of SYNC_RECEIPT_TIMEOUT; \<open>None\<close> is a null access.\<close>

definition psss_may_send :: "env \<Rightarrow> port_sync_sync_send_data \<Rightarrow> bool option" where
  "psss_may_send e sm =
     (if \<not> psss_rcvdPSSync sm then Some False
      else case psss_rcvdPSSyncPtr sm of
        None \<Rightarrow> None
      | Some p \<Rightarrow> Some (from_other_port sm p \<and> psss_active sm \<and> sends_sync e sm))"

definition psss_transmit_init_condition :: "env \<Rightarrow> port_sync_sync_send_data \<Rightarrow> psss_state option" where
  "psss_transmit_init_condition e sm =
     map_option (\<lambda>b. if b then PSSS_SEND_MD_SYNC else PSSS_TRANSMIT_INIT) (psss_may_send e sm)"

definition psss_store :: "PortSyncSync \<Rightarrow> port_sync_sync_send_data \<Rightarrow> port_sync_sync_send_data" where
  "psss_store p sm = sm
     \<lparr>ppg := (ppg sm)\<lparr>syncLocked := parentLogSyncInterval (ptasg sm) = currentLogSyncInterval (ppg sm)\<rparr>,
      lastPreciseOriginTimestamp := ps_preciseOriginTimestamp p,
      lastFollowUpCorrectionField := ps_followUpCorrectionField p,
      lastRateRatio := ps_rateRatio p,
      lastUpstreamTxTime := ps_upstreamTxTime p,
      lastRcvdPortNum := ps_localPortNumber p,
      lastGmTimeBaseIndicator := ps_gmTimeBaseIndicator p,
      psss_lastGmPhaseChange := ps_lastGmPhaseChange p,
      psss_lastGmFreqChange := ps_lastGmFreqChange p,
      psss_syncReceiptTimeoutTime := ps_syncReceiptTimeoutTime p\<rparr>"

definition psss_slowdown :: "port_sync_sync_send_data \<Rightarrow> port_sync_sync_send_data" where
  "psss_slowdown sm =
     (if syncSlowdown (ppg sm) then
        (if numberSyncTransmissions sm \<ge> syncReceiptTimeout (ppg sm)
         then sm\<lparr>ppg := (ppg sm)\<lparr>syncSlowdown := False\<rparr>, numberSyncTransmissions := 0,
                 psss_interval1 := syncInterval (ppg sm)\<rparr>
         else sm\<lparr>numberSyncTransmissions := numberSyncTransmissions sm + 1, psss_interval1 := syncInterval (ppg sm)\<rparr>)
      else sm\<lparr>numberSyncTransmissions := 0, psss_interval1 := syncInterval (ppg sm)\<rparr>)"

definition send_md_sync_proc ::
  "u64 \<Rightarrow> port_sync_sync_send_data \<Rightarrow> (MDSyncSend \<times> port_sync_sync_send_data) option" where
  "send_md_sync_proc cts64 sm =
     (case (if psss_rcvdPSSync sm then map_option (\<lambda>p. psss_store p sm) (psss_rcvdPSSyncPtr sm) else Some sm) of
        None \<Rightarrow> None
      | Some sm1 \<Rightarrow>
          let sm2 = setMDSync (sm1\<lparr>psss_rcvdPSSync := False,
                 lastSyncSentTime := (lastSyncSentTime sm1)\<lparr>nsec := cts64\<rparr>\<rparr>)
          in Some (mdSyncSend sm2, psss_slowdown sm2))"

definition send_md_sync_condition :: "env \<Rightarrow> u64 \<Rightarrow> port_sync_sync_send_data \<Rightarrow> port_sync_sync_send_data option" where
  "send_md_sync_condition e cts64 sm =
     (let locked = syncLocked (ppg sm) in
      if cts64 \<ge> nsec (psss_syncReceiptTimeoutTime sm) \<and> \<not> locked
      then Some (sm\<lparr>state := PSSS_SYNC_RECEIPT_TIMEOUT\<rparr>)
      else if psss_rcvdPSSync sm \<and> locked \<and> psss_rcvdPSSyncPtr sm = None then None
      else if (psss_rcvdPSSync sm \<and> locked \<and> from_other_port sm (the (psss_rcvdPSSyncPtr sm)) \<or>
               \<not> locked \<and> cts64 - nsec (lastSyncSentTime sm) \<ge> nsec (psss_interval1 sm) \<and>
                 lastRcvdPortNum sm \<noteq> thisPort (ppg sm)) \<and>
              psss_active sm \<and> sends_sync e sm
      then Some (sm\<lparr>state := PSSS_SEND_MD_SYNC, last_state := PSSS_REACTION\<rparr>)
      else Some (sm\<lparr>state := PSSS_SEND_MD_SYNC\<rparr>))"

definition sync_receipt_timeout_proc :: "port_sync_sync_send_data \<Rightarrow> port_sync_sync_send_data" where
  "sync_receipt_timeout_proc sm = sm\<lparr>psss_rcvdPSSync := False\<rparr>"

definition sync_receipt_timeout_condition :: "env \<Rightarrow> port_sync_sync_send_data \<Rightarrow> psss_state option" where
  "sync_receipt_timeout_condition e sm =
     map_option (\<lambda>b. if b then PSSS_SEND_MD_SYNC else PSSS_SYNC_RECEIPT_TIMEOUT) (psss_may_send e sm)"

section \<open>The machine\<close>

definition psss_body ::
  "env \<Rightarrow> u64 \<Rightarrow> bool \<Rightarrow> port_sync_sync_send_data \<Rightarrow> port_sync_sync_send_data \<times> MDSyncSend ctl" where
  "psss_body e cts64 state_change sm =
     (case state sm of
        PSSS_INIT \<Rightarrow> (sm\<lparr>state := PSSS_TRANSMIT_INIT\<rparr>, Next)
      | PSSS_TRANSMIT_INIT \<Rightarrow>
          (let sm1 = (if state_change then psss_transmit_init_proc sm else sm) in
           case psss_transmit_init_condition e sm1 of
             None \<Rightarrow> (sm1, Crash) | Some st \<Rightarrow> (sm1\<lparr>state := st\<rparr>, Next))
      | PSSS_SEND_MD_SYNC \<Rightarrow>
          (if state_change then
             (case send_md_sync_proc cts64 sm of None \<Rightarrow> (sm, Crash) | Some (m, sm1) \<Rightarrow> (sm1, Return m))
           else (case send_md_sync_condition e cts64 sm of None \<Rightarrow> (sm, Crash) | Some sm1 \<Rightarrow> (sm1, Next)))
      | PSSS_SYNC_RECEIPT_TIMEOUT \<Rightarrow>
          (let sm1 = (if state_change then sync_receipt_timeout_proc sm else sm) in
           case sync_receipt_timeout_condition e sm1 of
             None \<Rightarrow> (sm1, Crash) | Some st \<Rightarrow> (sm1\<lparr>state := st\<rparr>, Next))
      | PSSS_REACTION \<Rightarrow> (sm, Next))"

definition port_sync_sync_send_sm ::
  "env \<Rightarrow> port_sync_sync_send_data \<Rightarrow> u64 \<Rightarrow> (port_sync_sync_send_data \<times> MDSyncSend ctl) option" where
  "port_sync_sync_send_sm e sm cts64 = sm_loop (psss_body e cts64) (psss_allstate_condition sm)"

definition zero_MDSyncSend :: MDSyncSend where
  "zero_MDSyncSend = \<lparr>ms_domainNumber = 0, ms_followUpCorrectionField = zero_ScaledNs,
     ms_sourcePortIdentity = zero_PortIdentity, ms_logMessageInterval = 0,
     ms_preciseOriginTimestamp = zero_Timestamp, ms_upstreamTxTime = zero_UScaledNs, ms_rateRatio = 0,
     ms_gmTimeBaseIndicator = 0, ms_lastGmPhaseChange = zero_ScaledNs, ms_lastGmFreqChange = 0\<rparr>"

definition port_sync_sync_send_sm_init ::
  "nat \<Rightarrow> PerTimeAwareSystemGlobal \<Rightarrow> PerPortGlobal \<Rightarrow> port_sync_sync_send_data" where
  "port_sync_sync_send_sm_init ix pt pp =
     \<lparr>state = PSSS_INIT, last_state = PSSS_INIT, ptasg = pt, ppg = pp, psss_rcvdPSSync = False,
      psss_rcvdPSSyncPtr = None, psss_portIndex = ix, lastPreciseOriginTimestamp = zero_Timestamp,
      lastFollowUpCorrectionField = zero_ScaledNs, lastRateRatio = 0, lastUpstreamTxTime = zero_UScaledNs,
      lastSyncSentTime = zero_UScaledNs, lastRcvdPortNum = 0, lastGmTimeBaseIndicator = 0,
      psss_lastGmPhaseChange = zero_ScaledNs, psss_lastGmFreqChange = 0,
      psss_syncReceiptTimeoutTime = zero_UScaledNs, numberSyncTransmissions = 0,
      psss_interval1 = zero_UScaledNs, mdSyncSend = zero_MDSyncSend\<rparr>"

definition port_sync_sync_send_sm_portSyncSync ::
  "env \<Rightarrow> port_sync_sync_send_data \<Rightarrow> PortSyncSync \<Rightarrow> u64 \<Rightarrow> (port_sync_sync_send_data \<times> MDSyncSend ctl) option" where
  "port_sync_sync_send_sm_portSyncSync e sm p cts64 =
     port_sync_sync_send_sm e (sm\<lparr>psss_rcvdPSSync := True, psss_rcvdPSSyncPtr := Some p\<rparr>) cts64"

section \<open>The contract of the machine\<close>

text \<open>
  Information that has been received is still there, and SEND_MD_SYNC is entered only by an
  active master port.
\<close>

definition psss_inv :: "env \<Rightarrow> port_sync_sync_send_data \<Rightarrow> bool" where
  "psss_inv e sm \<longleftrightarrow> (psss_rcvdPSSync sm \<longrightarrow> psss_rcvdPSSyncPtr sm \<noteq> None) \<and>
     (state sm = PSSS_SEND_MD_SYNC \<and> last_state sm \<noteq> PSSS_SEND_MD_SYNC \<longrightarrow> psss_active sm \<and> sends_sync e sm)"

fun psss_rank :: "port_sync_sync_send_data \<Rightarrow> nat" where
  "psss_rank sm =
     (case state sm of
        PSSS_INIT \<Rightarrow> 4
      | PSSS_TRANSMIT_INIT \<Rightarrow> if last_state sm = PSSS_TRANSMIT_INIT then 4 else 3
      | PSSS_SEND_MD_SYNC \<Rightarrow> if last_state sm = PSSS_SEND_MD_SYNC then 4 else 0
      | PSSS_SYNC_RECEIPT_TIMEOUT \<Rightarrow> if last_state sm = PSSS_SYNC_RECEIPT_TIMEOUT then 4 else 1
      | PSSS_REACTION \<Rightarrow> 0)"

definition psss_good :: "env \<Rightarrow> port_sync_sync_send_data \<Rightarrow> port_sync_sync_send_data \<Rightarrow> MDSyncSend ctl \<Rightarrow> bool" where
  "psss_good e s t c \<longleftrightarrow> psss_inv e t \<and> c \<noteq> Crash \<and>
     (c = Next \<and> last_state t \<noteq> state t \<longrightarrow> psss_rank t < psss_rank s) \<and>
     (\<forall>m. c = Return m \<longrightarrow> psss_active s \<and> sends_sync e s) \<and>
     (c = Next \<longrightarrow> psss_active t = psss_active s \<and> sends_sync e t = sends_sync e s)"

lemma psss_frame [simp]:
  "psss_active (s\<lparr>last_state := a\<rparr>) = psss_active s" "sends_sync e (s\<lparr>last_state := a\<rparr>) = sends_sync e s"
  "psss_active (s\<lparr>state := b\<rparr>) = psss_active s" "sends_sync e (s\<lparr>state := b\<rparr>) = sends_sync e s"
  "psss_active (s\<lparr>psss_rcvdPSSync := d\<rparr>) = psss_active s" "sends_sync e (s\<lparr>psss_rcvdPSSync := d\<rparr>) = sends_sync e s"
  "psss_active (s\<lparr>psss_rcvdPSSyncPtr := q\<rparr>) = psss_active s" "sends_sync e (s\<lparr>psss_rcvdPSSyncPtr := q\<rparr>) = sends_sync e s"
  "psss_active (psss_transmit_init_proc s) = psss_active s" "sends_sync e (psss_transmit_init_proc s) = sends_sync e s"
  by (simp_all add: psss_active_def sends_sync_def psss_transmit_init_proc_def)

lemma psss_transmit_init_facts [simp]:
  "state (psss_transmit_init_proc s) = state s" "last_state (psss_transmit_init_proc s) = last_state s"
  "\<not> psss_rcvdPSSync (psss_transmit_init_proc s)"
  by (simp_all add: psss_transmit_init_proc_def)

lemma psss_may_send_defined:
  assumes "psss_rcvdPSSync s \<Longrightarrow> psss_rcvdPSSyncPtr s \<noteq> None"
  shows "\<exists>b. psss_may_send e s = Some b \<and> (b \<longrightarrow> psss_rcvdPSSync s \<and> psss_active s \<and> sends_sync e s)"
  using assms by (cases "psss_rcvdPSSync s") (auto simp: psss_may_send_def)

text \<open>A pass through TRANSMIT_INIT or SYNC_RECEIPT_TIMEOUT that has left \<open>v\<close> after its procedure.\<close>

lemma psss_step_idle:
  assumes inv: "psss_inv e s" and st: "st = PSSS_TRANSMIT_INIT \<or> st = PSSS_SYNC_RECEIPT_TIMEOUT" "state s = st"
    and v: "last_state v = st" "psss_active v = psss_active s" "sends_sync e v = sends_sync e s"
      "psss_rcvdPSSync v \<Longrightarrow> last_state s = st \<and> psss_rcvdPSSync s \<and> psss_rcvdPSSyncPtr v = psss_rcvdPSSyncPtr s"
    and t: "(case map_option (\<lambda>b. if b then PSSS_SEND_MD_SYNC else st) (psss_may_send e v) of
      None \<Rightarrow> (v, Crash) | Some st' \<Rightarrow> (v\<lparr>state := st'\<rparr>, Next)) = (t, c)"
  shows "psss_good e s t c"
proof -
  have p: "psss_rcvdPSSync v \<longrightarrow> psss_rcvdPSSyncPtr v \<noteq> None" using inv v(4) by (auto simp: psss_inv_def)
  then obtain b where b: "psss_may_send e v = Some b" "b \<longrightarrow> psss_rcvdPSSync v \<and> psss_active v \<and> sends_sync e v"
    using psss_may_send_defined [of v e] by blast
  have "t = v\<lparr>state := if b then PSSS_SEND_MD_SYNC else st\<rparr>" "c = Next" using t b(1) by (simp_all split: if_splits)
  then show ?thesis using st v b p by (auto simp: psss_good_def psss_inv_def)
qed

lemma send_md_sync_proc_defined:
  assumes "psss_rcvdPSSync s \<Longrightarrow> psss_rcvdPSSyncPtr s \<noteq> None"
  shows "\<exists>m t. send_md_sync_proc cts s = Some (m, t) \<and> state t = state s \<and> last_state t = last_state s \<and>
    \<not> psss_rcvdPSSync t"
  using assms by (cases "psss_rcvdPSSync s")
    (auto simp: send_md_sync_proc_def Let_def psss_slowdown_def setMDSync_def psss_store_def)

lemma send_md_sync_condition_result:
  assumes "psss_rcvdPSSync s \<Longrightarrow> psss_rcvdPSSyncPtr s \<noteq> None"
  shows "\<exists>t. send_md_sync_condition e cts s = Some t \<and> psss_active t = psss_active s \<and> sends_sync e t = sends_sync e s \<and>
    psss_rcvdPSSync t = psss_rcvdPSSync s \<and> psss_rcvdPSSyncPtr t = psss_rcvdPSSyncPtr s \<and>
    (state t = PSSS_SYNC_RECEIPT_TIMEOUT \<and> last_state t = last_state s \<or>
     state t = PSSS_SEND_MD_SYNC \<and> (last_state t = last_state s \<or>
       last_state t = PSSS_REACTION \<and> psss_active s \<and> sends_sync e s))"
  using assms by (auto simp: send_md_sync_condition_def Let_def)

lemma psss_step_good:
  assumes inv: "psss_inv e s"
    and step: "psss_body e cts (last_state s \<noteq> state s) (s\<lparr>last_state := state s\<rparr>) = (t, c)"
  shows "psss_good e s t c"
proof (cases "state s")
  case PSSS_INIT
  with assms show ?thesis by (auto simp: psss_body_def psss_good_def psss_inv_def)
next
  case PSSS_REACTION
  with assms show ?thesis by (auto simp: psss_body_def psss_good_def psss_inv_def)
next
  case PSSS_TRANSMIT_INIT
  show ?thesis
    by (rule psss_step_idle [OF inv _ PSSS_TRANSMIT_INIT, where v = "if last_state s \<noteq> PSSS_TRANSMIT_INIT
        then psss_transmit_init_proc (s\<lparr>last_state := PSSS_TRANSMIT_INIT\<rparr>) else s\<lparr>last_state := PSSS_TRANSMIT_INIT\<rparr>"])
      (use step PSSS_TRANSMIT_INIT in \<open>auto simp: psss_body_def Let_def psss_transmit_init_condition_def split: if_splits\<close>)
next
  case PSSS_SYNC_RECEIPT_TIMEOUT
  show ?thesis
    by (rule psss_step_idle [OF inv _ PSSS_SYNC_RECEIPT_TIMEOUT, where v = "if last_state s \<noteq> PSSS_SYNC_RECEIPT_TIMEOUT
        then sync_receipt_timeout_proc (s\<lparr>last_state := PSSS_SYNC_RECEIPT_TIMEOUT\<rparr>)
        else s\<lparr>last_state := PSSS_SYNC_RECEIPT_TIMEOUT\<rparr>"])
      (use step PSSS_SYNC_RECEIPT_TIMEOUT in \<open>auto simp: psss_body_def Let_def sync_receipt_timeout_condition_def
        sync_receipt_timeout_proc_def split: if_splits\<close>)
next
  case PSSS_SEND_MD_SYNC
  let ?u = "s\<lparr>last_state := PSSS_SEND_MD_SYNC\<rparr>"
  have p: "psss_rcvdPSSync ?u \<longrightarrow> psss_rcvdPSSyncPtr ?u \<noteq> None" using inv by (simp add: psss_inv_def)
  show ?thesis
  proof (cases "last_state s = PSSS_SEND_MD_SYNC")
    case True
    obtain w where w: "send_md_sync_condition e cts ?u = Some w" "psss_active w = psss_active s"
      "sends_sync e w = sends_sync e s" "psss_rcvdPSSync w = psss_rcvdPSSync s" "psss_rcvdPSSyncPtr w = psss_rcvdPSSyncPtr s"
      "state w = PSSS_SYNC_RECEIPT_TIMEOUT \<and> last_state w = PSSS_SEND_MD_SYNC \<or>
       state w = PSSS_SEND_MD_SYNC \<and> (last_state w = PSSS_SEND_MD_SYNC \<or>
         last_state w = PSSS_REACTION \<and> psss_active s \<and> sends_sync e s)"
      using send_md_sync_condition_result [of ?u e cts] p by auto
    have "t = w" "c = Next" using step PSSS_SEND_MD_SYNC True w(1) by (simp_all add: psss_body_def)
    then show ?thesis using w inv True PSSS_SEND_MD_SYNC by (auto simp: psss_good_def psss_inv_def)
  next
    case False
    obtain m w where w: "send_md_sync_proc cts ?u = Some (m, w)" "state w = PSSS_SEND_MD_SYNC"
      "last_state w = PSSS_SEND_MD_SYNC" "\<not> psss_rcvdPSSync w"
      using send_md_sync_proc_defined [of ?u cts] p PSSS_SEND_MD_SYNC by auto
    have "t = w" "c = Return m" using step PSSS_SEND_MD_SYNC False w(1) by (simp_all add: psss_body_def)
    then show ?thesis using w inv False PSSS_SEND_MD_SYNC by (simp add: psss_good_def psss_inv_def)
  qed
qed

interpretation psss: sm_safe "psss_body e cts" "psss_inv e" psss_rank for e cts
  by unfold_locales (use psss_step_good in \<open>unfold psss_good_def, blast\<close>)+

section \<open>What a port sends\<close>

lemma psss_allstate_running:
  assumes "tas_running (ptasg sm)" "psss_active sm"
  shows "psss_allstate_condition sm = sm"
  using assms by (simp add: psss_allstate_condition_def tas_running_def psss_active_def)

lemma psss_return_active:
  assumes "sm_loop (psss_body e cts) s = Some (t, c)"
  shows "psss_inv e s \<Longrightarrow> c = Return m \<Longrightarrow> psss_active s \<and> sends_sync e s"
  using assms
proof (induction rule: sm_loop_induct)
  case (exit s s' c)
  then show ?case using psss_step_good [of e s cts s' c] by (simp add: psss_good_def)
next
  case (again s t s' c)
  then show ?case using psss_step_good [of e s cts t Next] by (simp add: psss_good_def)
qed

lemma psss_allstate_cases:
  "psss_allstate_condition s = s \<or>
   psss_allstate_condition s = s\<lparr>state := PSSS_TRANSMIT_INIT, last_state := PSSS_REACTION\<rparr>"
  by (simp add: psss_allstate_condition_def)

text \<open>Entering TRANSMIT_INIT or SYNC_RECEIPT_TIMEOUT drops what was received, and the machine waits there.\<close>

lemma transmit_init_entered:
  assumes "state s = PSSS_TRANSMIT_INIT" "last_state s \<noteq> PSSS_TRANSMIT_INIT"
  shows "\<exists>t. sm_loop (psss_body e cts) s = Some (t, Next) \<and> state t = PSSS_TRANSMIT_INIT \<and> \<not> psss_rcvdPSSync t"
proof -
  have "\<exists>t. sm_step (psss_body e cts) s = (t, Next) \<and> state t = PSSS_TRANSMIT_INIT \<and> last_state t = PSSS_TRANSMIT_INIT \<and>
      \<not> psss_rcvdPSSync t"
    using assms by (simp add: sm_step_entered psss_body_def psss_transmit_init_condition_def psss_may_send_def Let_def)
  then show ?thesis using sm_loop_rest [where body = "psss_body e cts"] by metis
qed

lemma receipt_timeout_entered:
  assumes "state s = PSSS_SYNC_RECEIPT_TIMEOUT" "last_state s \<noteq> PSSS_SYNC_RECEIPT_TIMEOUT"
  shows "\<exists>t. sm_loop (psss_body e cts) s = Some (t, Next) \<and> state t = PSSS_SYNC_RECEIPT_TIMEOUT \<and> \<not> psss_rcvdPSSync t"
proof -
  have "\<exists>t. sm_step (psss_body e cts) s = (t, Next) \<and> state t = PSSS_SYNC_RECEIPT_TIMEOUT \<and>
      last_state t = PSSS_SYNC_RECEIPT_TIMEOUT \<and> \<not> psss_rcvdPSSync t"
    using assms by (simp add: sm_step_entered psss_body_def sync_receipt_timeout_condition_def sync_receipt_timeout_proc_def
        psss_may_send_def Let_def)
  then show ?thesis using sm_loop_rest [where body = "psss_body e cts"] by metis
qed

lemma psss_inv_given: "psss_inv e sm \<Longrightarrow> psss_inv e (psss_allstate_condition (sm\<lparr>psss_rcvdPSSync := True, psss_rcvdPSSyncPtr := Some p\<rparr>))"
  by (simp add: psss_allstate_condition_def psss_inv_def)

text \<open>C17: A port sends a Sync only when the system is running, the port takes part in the protocol and its state
  is MasterPort (or it is the port of the test option), whatever information it is given.\<close>

theorem sync_sent_only_by_master:
  assumes "psss_inv e sm" and "port_sync_sync_send_sm_portSyncSync e sm p cts = Some (t, Return m)"
  shows "tas_running (ptasg sm) \<and> port_active (ppg sm) \<and>
    (selectedState (ptasg sm) ! psss_portIndex sm = MasterPort \<or> conf e CONF_TEST_SYNC_SEND_PORT = int (psss_portIndex sm))"
proof -
  let ?s = "sm\<lparr>psss_rcvdPSSync := True, psss_rcvdPSSyncPtr := Some p\<rparr>"
  have run: "sm_loop (psss_body e cts) (psss_allstate_condition ?s) = Some (t, Return m)"
    using assms(2) by (simp add: port_sync_sync_send_sm_portSyncSync_def port_sync_sync_send_sm_def)
  have "psss_allstate_condition ?s = ?s"
  proof (rule ccontr)
    assume "psss_allstate_condition ?s \<noteq> ?s"
    then have "psss_allstate_condition ?s = ?s\<lparr>state := PSSS_TRANSMIT_INIT, last_state := PSSS_REACTION\<rparr>"
      unfolding psss_allstate_condition_def by (simp split: if_splits)
    with transmit_init_entered [of "?s\<lparr>state := PSSS_TRANSMIT_INIT, last_state := PSSS_REACTION\<rparr>" e cts] run
    show False by auto
  qed
  moreover have "tas_running (ptasg sm)"
  proof (rule ccontr)
    assume "\<not> tas_running (ptasg sm)"
    then have "psss_allstate_condition ?s = ?s\<lparr>state := PSSS_TRANSMIT_INIT, last_state := PSSS_REACTION\<rparr>"
      by (auto simp: psss_allstate_condition_def tas_running_def)
    with transmit_init_entered [of "?s\<lparr>state := PSSS_TRANSMIT_INIT, last_state := PSSS_REACTION\<rparr>" e cts] run
    show False by auto
  qed
  moreover have "psss_active sm \<and> sends_sync e sm"
    using psss_return_active [OF run psss_inv_given [OF assms(1)] refl] calculation(1) by simp
  ultimately show ?thesis by (simp add: psss_active_def sends_sync_def port_active_def)
qed

lemma send_md_sync_entered:
  assumes "state s = PSSS_SEND_MD_SYNC" "last_state s \<noteq> PSSS_SEND_MD_SYNC" "psss_rcvdPSSync s" "psss_rcvdPSSyncPtr s = Some p"
  shows "\<exists>t m. sm_loop (psss_body e cts) s = Some (t, Return m) \<and> state t = PSSS_SEND_MD_SYNC \<and>
    ms_rateRatio m = ps_rateRatio p \<and> ms_preciseOriginTimestamp m = ps_preciseOriginTimestamp p \<and>
    ms_followUpCorrectionField m = ps_followUpCorrectionField p \<and> ms_upstreamTxTime m = ps_upstreamTxTime p \<and>
    ms_sourcePortIdentity m = \<lparr>clockIdentity = thisClock (ptasg s), portNumber = thisPort (ppg s)\<rparr> \<and>
    ms_domainNumber m = domainNumber (ptasg s) \<and> ms_logMessageInterval m = currentLogSyncInterval (ppg s) \<and>
    ms_lastGmPhaseChange m = ps_lastGmPhaseChange p \<and> ms_lastGmFreqChange m = ps_lastGmFreqChange p"
proof -
  obtain t m where t: "send_md_sync_proc cts (s\<lparr>last_state := PSSS_SEND_MD_SYNC\<rparr>) = Some (m, t)"
    "state t = PSSS_SEND_MD_SYNC"
    "ms_rateRatio m = ps_rateRatio p" "ms_preciseOriginTimestamp m = ps_preciseOriginTimestamp p"
    "ms_followUpCorrectionField m = ps_followUpCorrectionField p" "ms_upstreamTxTime m = ps_upstreamTxTime p"
    "ms_sourcePortIdentity m = \<lparr>clockIdentity = thisClock (ptasg s), portNumber = thisPort (ppg s)\<rparr>"
    "ms_domainNumber m = domainNumber (ptasg s)" "ms_logMessageInterval m = currentLogSyncInterval (ppg s)"
    "ms_lastGmPhaseChange m = ps_lastGmPhaseChange p" "ms_lastGmFreqChange m = ps_lastGmFreqChange p"
    using assms by (simp add: send_md_sync_proc_def Let_def psss_slowdown_def setMDSync_def psss_store_def)
  have "sm_step (psss_body e cts) s = (t, Return m)"
    using assms t(1) by (simp add: sm_step_entered psss_body_def)
  from sm_loop_out [OF this] t show ?thesis by auto
qed

text \<open>C18: A master port that follows the interval of its parent sends, in the same call, a Sync for every
  information that another port has received: the origin timestamp, correction field, rate ratio and
  transmission time are those of the information, the identity is that of this clock and port, and the
  interval is the port's own.\<close>

theorem master_port_forwards_sync:
  assumes "tas_running (ptasg sm)" "psss_active sm" "sends_sync e sm" "syncLocked (ppg sm)"
    and "state sm = PSSS_SEND_MD_SYNC" "last_state sm = PSSS_SEND_MD_SYNC" "from_other_port sm p"
  shows "\<exists>t m. port_sync_sync_send_sm_portSyncSync e sm p cts = Some (t, Return m) \<and> state t = PSSS_SEND_MD_SYNC \<and>
    ms_rateRatio m = ps_rateRatio p \<and> ms_preciseOriginTimestamp m = ps_preciseOriginTimestamp p \<and>
    ms_followUpCorrectionField m = ps_followUpCorrectionField p \<and> ms_upstreamTxTime m = ps_upstreamTxTime p \<and>
    ms_sourcePortIdentity m = \<lparr>clockIdentity = thisClock (ptasg sm), portNumber = thisPort (ppg sm)\<rparr> \<and>
    ms_domainNumber m = domainNumber (ptasg sm) \<and> ms_logMessageInterval m = currentLogSyncInterval (ppg sm) \<and>
    ms_lastGmPhaseChange m = ps_lastGmPhaseChange p \<and> ms_lastGmFreqChange m = ps_lastGmFreqChange p"
proof -
  let ?s = "sm\<lparr>psss_rcvdPSSync := True, psss_rcvdPSSyncPtr := Some p\<rparr>"
  let ?t = "?s\<lparr>state := PSSS_SEND_MD_SYNC, last_state := PSSS_REACTION\<rparr>"
  have run: "port_sync_sync_send_sm_portSyncSync e sm p cts = sm_loop (psss_body e cts) ?s"
    using assms(1,2) by (simp add: port_sync_sync_send_sm_portSyncSync_def port_sync_sync_send_sm_def psss_allstate_running)
  have "sm_step (psss_body e cts) ?s = (?t, Next)"
    using assms(2-7) by (simp add: sm_step_settled psss_body_def send_md_sync_condition_def from_other_port_def)
  from sm_loop_again [OF this] have "sm_loop (psss_body e cts) ?s = sm_loop (psss_body e cts) ?t" by simp
  with run send_md_sync_entered [of ?t p e cts] show ?thesis by simp
qed

text \<open>Two pieces of information are never sent: the first one that a port is given after its
  initialisation, and, at a port with an interval of its own, the first one that comes after the receipt
  timeout of the last one. Entering TRANSMIT_INIT or SYNC_RECEIPT_TIMEOUT drops them.\<close>

theorem first_and_late_information_dropped:
  assumes "state sm = PSSS_INIT \<or>
    state sm = PSSS_SEND_MD_SYNC \<and> last_state sm = PSSS_SEND_MD_SYNC \<and> tas_running (ptasg sm) \<and> psss_active sm \<and>
      \<not> syncLocked (ppg sm) \<and> cts \<ge> nsec (psss_syncReceiptTimeoutTime sm)"
  shows "\<exists>t. port_sync_sync_send_sm_portSyncSync e sm p cts = Some (t, Next) \<and> \<not> psss_rcvdPSSync t"
proof -
  let ?s = "sm\<lparr>psss_rcvdPSSync := True, psss_rcvdPSSyncPtr := Some p\<rparr>"
  let ?r = "port_sync_sync_send_sm_portSyncSync e sm p cts"
  have run: "?r = sm_loop (psss_body e cts) (psss_allstate_condition ?s)"
    by (simp add: port_sync_sync_send_sm_portSyncSync_def port_sync_sync_send_sm_def)
  consider (reset) "psss_allstate_condition ?s = ?s\<lparr>state := PSSS_TRANSMIT_INIT, last_state := PSSS_REACTION\<rparr>"
    | (init) "psss_allstate_condition ?s = ?s" "state sm = PSSS_INIT"
    | (late) "psss_allstate_condition ?s = ?s" "state sm = PSSS_SEND_MD_SYNC" "last_state sm = PSSS_SEND_MD_SYNC"
        "\<not> syncLocked (ppg sm)" "cts \<ge> nsec (psss_syncReceiptTimeoutTime sm)"
    using assms psss_allstate_cases [of ?s] by blast
  then show ?thesis
  proof cases
    case reset
    with transmit_init_entered [of "psss_allstate_condition ?s" e cts] run show ?thesis by auto
  next
    case init
    let ?t = "?s\<lparr>state := PSSS_TRANSMIT_INIT, last_state := PSSS_INIT\<rparr>"
    have "sm_step (psss_body e cts) ?s = (?t, Next)" using init(2) by (simp add: sm_step_def psss_body_def)
    from sm_loop_again [OF this] transmit_init_entered [of ?t e cts] run init show ?thesis by auto
  next
    case late
    let ?t = "?s\<lparr>state := PSSS_SYNC_RECEIPT_TIMEOUT\<rparr>"
    have "sm_step (psss_body e cts) ?s = (?t, Next)"
      using late by (simp add: sm_step_settled psss_body_def send_md_sync_condition_def)
    from sm_loop_again [OF this] receipt_timeout_entered [of ?t e cts] run late show ?thesis by auto
  qed
qed

subsection \<open>At a sample port\<close>

text \<open>The second port of a system, which is a master, and information that the first port has received.\<close>

definition sample_psss :: port_sync_sync_send_data where
  "sample_psss = (port_sync_sync_send_sm_init 2
       (sample_ptasg\<lparr>selectedState := [PassivePort, SlavePort, MasterPort] @ replicate 30 DisabledPort\<rparr>)
       (sample_ppg\<lparr>thisPort := 2, thisPortIndex := 2, syncLocked := True\<rparr>))
     \<lparr>state := PSSS_SEND_MD_SYNC, last_state := PSSS_SEND_MD_SYNC\<rparr>"

definition sample_info :: PortSyncSync where
  "sample_info = zero_PortSyncSync\<lparr>ps_localPortNumber := 1, ps_localPortIndex := 1, ps_rateRatio := 3 / 2\<rparr>"

lemma sample_psss_facts:
  "tas_running (ptasg sample_psss)" "psss_active sample_psss" "sends_sync default_env sample_psss"
  "syncLocked (ppg sample_psss)" "state sample_psss = PSSS_SEND_MD_SYNC" "last_state sample_psss = PSSS_SEND_MD_SYNC"
  "from_other_port sample_psss sample_info" "psss_inv default_env sample_psss"
  using sample_running sample_active
  by (simp_all add: sample_psss_def port_sync_sync_send_sm_init_def tas_running_def psss_active_def port_active_def
      sends_sync_def from_other_port_def sample_info_def psss_inv_def sample_ppg_def)

theorem master_port_forwards_sync_witness:
  "\<exists>t m. port_sync_sync_send_sm_portSyncSync default_env sample_psss sample_info 9 = Some (t, Return m) \<and>
     ms_rateRatio m = 3 / 2 \<and> portNumber (ms_sourcePortIdentity m) = 2"
  using master_port_forwards_sync [OF sample_psss_facts(1-7), of 9]
  by (auto simp: sample_info_def sample_psss_def sample_ppg_def port_sync_sync_send_sm_init_def)

text \<open>What the sample port sends is covered by the guard of sending.\<close>

lemma sample_psss_sends:
  "\<exists>t m. port_sync_sync_send_sm_portSyncSync default_env sample_psss sample_info 9 = Some (t, Return m)"
proof -
  let ?s = "sample_psss\<lparr>psss_rcvdPSSync := True, psss_rcvdPSSyncPtr := Some sample_info\<rparr>"
  let ?t = "?s\<lparr>state := PSSS_SEND_MD_SYNC, last_state := PSSS_REACTION\<rparr>"
  have run: "port_sync_sync_send_sm_portSyncSync default_env sample_psss sample_info 9 = sm_loop (psss_body default_env 9) ?s"
    using sample_psss_facts by (simp add: port_sync_sync_send_sm_portSyncSync_def port_sync_sync_send_sm_def psss_allstate_running)
  have "sm_step (psss_body default_env 9) ?s = (?t, Next)"
    using sample_psss_facts by (simp add: sm_step_settled psss_body_def send_md_sync_condition_def from_other_port_def)
  from sm_loop_again [OF this] run send_md_sync_entered [of ?t sample_info default_env 9] show ?thesis by auto
qed

theorem sync_sent_only_by_master_witness:
  "selectedState (ptasg sample_psss) ! 2 = MasterPort \<and>
   (\<exists>t m. port_sync_sync_send_sm_portSyncSync default_env sample_psss sample_info 9 = Some (t, Return m) \<and>
     port_active (ppg sample_psss))"
proof -
  obtain t m where r: "port_sync_sync_send_sm_portSyncSync default_env sample_psss sample_info 9 = Some (t, Return m)"
    using sample_psss_sends by blast
  have "psss_portIndex sample_psss = 2" by (simp add: sample_psss_def port_sync_sync_send_sm_init_def)
  with sync_sent_only_by_master [OF sample_psss_facts(8) r] r show ?thesis by auto
qed

theorem first_and_late_information_dropped_witness:
  "\<exists>t. port_sync_sync_send_sm_portSyncSync default_env (port_sync_sync_send_sm_init 2 sample_ptasg sample_ppg) sample_info 9 =
     Some (t, Next) \<and> \<not> psss_rcvdPSSync t"
  using first_and_late_information_dropped [of "port_sync_sync_send_sm_init 2 sample_ptasg sample_ppg" 9 default_env sample_info]
  by (simp add: port_sync_sync_send_sm_init_def)

end
