(* ===== verification/Gptp_ClockSync.thy ===== *)
theory Gptp_ClockSync
  imports Gptp_PortSync Gptp_ClockFacts
begin

text \<open>
  The three smaller machines of the clock side: ClockSlaveSync (\<^verbatim>\<open>clock_slave_sync_sm.c\<close>, 10.2.13 of
  the standard) computes the grandmaster's time of a Sync, ClockMasterSyncSend
  (\<^verbatim>\<open>clock_master_sync_send_sm.c\<close>, 10.2.9) issues the information of the local clock, and
  ClockMasterSyncOffset (\<^verbatim>\<open>clock_master_sync_offset_sm.c\<close>, 10.2.10) keeps the offset of the clock
  source.
\<close>

section \<open>ClockSlaveSync\<close>

datatype (plugins only: code) css_state = CSS_INIT | CSS_INITIALIZING | CSS_SEND_SYNC_INDICATION | CSS_REACTION

record clock_slave_sync_data = "css_state dom_sm" +
  css_rcvdPSSync :: bool
  css_rcvdLocalClockTick :: bool
  css_rcvdPSSyncPtr :: "PortSyncSync option"
  css_gcd :: gptpclock_data

text \<open>\<^verbatim>\<open>a += x\<close> for an unsigned 64-bit \<^verbatim>\<open>a\<close> and a \<^verbatim>\<open>double x\<close>: the sum is a \<^verbatim>\<open>double\<close>, converted back.\<close>

definition add_double :: "u64 \<Rightarrow> real \<Rightarrow> u64" where
  "add_double a x = of_int (c_trunc (of_int (uint a) + x))"

definition updateSlaveTime :: "net_io \<Rightarrow> platform \<Rightarrow> clock_slave_sync_data \<Rightarrow> clock_slave_sync_data" where
  "updateSlaveTime io pf sm =
     (let (ts64, g) = gptpclock_getts64 pf (thisClockIndex (ptasg sm)) (domainNumber (ptasg sm)) (css_gcd sm);
          (s, n) = nsec2ts io (sint ts64)
      in sm\<lparr>ptasg := (ptasg sm)\<lparr>clockSlaveTime := (clockSlaveTime (ptasg sm))
              \<lparr>fractionalNanoseconds_msb := of_int n, ext_seconds_lsb := of_int s\<rparr>\<rparr>, css_gcd := g\<rparr>)"

definition css_allstate_condition :: "clock_slave_sync_data \<Rightarrow> clock_slave_sync_data" where
  "css_allstate_condition sm =
     (if BEGIN (ptasg sm) \<or> \<not> instanceEnable (ptasg sm) then sm\<lparr>state := CSS_INITIALIZING\<rparr> else sm)"

definition css_initializing_proc :: "clock_slave_sync_data \<Rightarrow> clock_slave_sync_data" where
  "css_initializing_proc sm = sm\<lparr>css_rcvdPSSync := False\<rparr>"

definition css_initializing_condition :: "clock_slave_sync_data \<Rightarrow> css_state" where
  "css_initializing_condition sm =
     (if css_rcvdPSSync sm \<or> css_rcvdLocalClockTick sm then CSS_SEND_SYNC_INDICATION else CSS_INITIALIZING)"

text \<open>The time of the grandmaster at which the Sync was received, and the local time of it.\<close>

definition sync_receipt_nsec :: "PortSyncSync \<Rightarrow> u64" where
  "sync_receipt_nsec p =
     (let n = ucast (seconds_lsb (ps_preciseOriginTimestamp p)) * 1000000000 +
              ucast (nanoseconds (ps_preciseOriginTimestamp p)) + s_nsec (ps_followUpCorrectionField p)
      in case ps_local_ppg p of
           None \<Rightarrow> n
         | Some l \<Rightarrow> add_double n
             (of_int (uint (nsec (neighborPropDelay (forAllDomain l)))) * (ps_rateRatio p / neighborRateRatio (forAllDomain l)) +
              of_int (uint (nsec (delayAsymmetry (forAllDomain l))))))"

definition sync_receipt_local :: "PortSyncSync \<Rightarrow> u64" where
  "sync_receipt_local p =
     (case ps_local_ppg p of
        None \<Rightarrow> nsec (ps_upstreamTxTime p)
      | Some l \<Rightarrow> add_double (nsec (ps_upstreamTxTime p))
          (of_int (uint (nsec (neighborPropDelay (forAllDomain l)))) / neighborRateRatio (forAllDomain l) +
           of_int (uint (nsec (delayAsymmetry (forAllDomain l)))) / ps_rateRatio p))"

text \<open>With static port states the peer is taken for the grandmaster.\<close>

definition css_static_gm ::
  "env \<Rightarrow> PortSyncSync \<Rightarrow> clock_slave_sync_data \<Rightarrow> clock_slave_sync_data" where
  "css_static_gm e p sm =
     (let c = clockIdentity (ps_sourcePortIdentity p) in
      if conf e CONF_STATIC_PORT_STATE_SLAVE_PORT > 0 \<and> memcmp (gmIdentity (ptasg sm)) c \<noteq> 0
      then sm\<lparr>ptasg := (ptasg sm)\<lparr>gmIdentity := c\<rparr>,
              css_gcd := snd (gptpclock_set_gmchange (domainNumber (ptasg sm)) c (css_gcd sm))\<rparr>
      else sm)"

definition css_take_sync :: "env \<Rightarrow> PortSyncSync \<Rightarrow> clock_slave_sync_data \<Rightarrow> clock_slave_sync_data" where
  "css_take_sync e p sm =
     (let ns = sync_receipt_nsec p; pt = ptasg sm in
      css_static_gm e p (sm\<lparr>ptasg := pt
        \<lparr>syncReceiptTime := (syncReceiptTime pt)
           \<lparr>fractionalNanoseconds_msb := ucast (ns mod 1000000000), ext_seconds_lsb := ucast (ns div 1000000000)\<rparr>,
         syncReceiptLocalTime := (syncReceiptLocalTime pt)\<lparr>nsec := sync_receipt_local p\<rparr>,
         gmTimeBaseIndicator := ps_gmTimeBaseIndicator p,
         lastGmPhaseChange := ps_lastGmPhaseChange p,
         lastGmFreqChange := ps_lastGmFreqChange p,
         lastSyncSeqID := ps_lastSyncSeqID p\<rparr>\<rparr>))"

text \<open>The information of the local clock (port number 0) causes no indication; \<open>None\<close> is a null access.\<close>

definition css_send_sync_indication_proc ::
  "env \<Rightarrow> net_io \<Rightarrow> platform \<Rightarrow> clock_slave_sync_data \<Rightarrow> (ExtendedTimestamp option \<times> clock_slave_sync_data) option" where
  "css_send_sync_indication_proc e io pf sm =
     (if css_rcvdPSSync sm \<and> css_rcvdPSSyncPtr sm = None then None
      else
        let take = css_rcvdPSSync sm \<and> ps_localPortNumber (the (css_rcvdPSSyncPtr sm)) \<noteq> 0;
            sm1 = (if take then css_take_sync e (the (css_rcvdPSSyncPtr sm)) sm else sm);
            sm2 = (if css_rcvdLocalClockTick sm1 then updateSlaveTime io pf sm1 else sm1)
        in Some (if take then Some (syncReceiptTime (ptasg sm2)) else None,
             sm2\<lparr>css_rcvdPSSync := False, css_rcvdLocalClockTick := False\<rparr>))"

definition css_send_sync_indication_condition :: "clock_slave_sync_data \<Rightarrow> clock_slave_sync_data" where
  "css_send_sync_indication_condition sm =
     sm\<lparr>state := CSS_SEND_SYNC_INDICATION,
        last_state := if css_rcvdPSSync sm \<or> css_rcvdLocalClockTick sm then CSS_REACTION else last_state sm\<rparr>"

definition css_body ::
  "env \<Rightarrow> net_io \<Rightarrow> platform \<Rightarrow> bool \<Rightarrow> clock_slave_sync_data \<Rightarrow> clock_slave_sync_data \<times> ExtendedTimestamp ctl" where
  "css_body e io pf state_change sm =
     (case state sm of
        CSS_INIT \<Rightarrow> (sm\<lparr>state := CSS_INITIALIZING\<rparr>, Next)
      | CSS_INITIALIZING \<Rightarrow>
          (let sm1 = (if state_change then css_initializing_proc sm else sm)
           in (sm1\<lparr>state := css_initializing_condition sm1\<rparr>, Next))
      | CSS_SEND_SYNC_INDICATION \<Rightarrow>
          (if state_change then
             (case css_send_sync_indication_proc e io pf sm of
                None \<Rightarrow> (sm, Crash)
              | Some (r, sm1) \<Rightarrow>
                  (css_send_sync_indication_condition sm1, case r of None \<Rightarrow> Next | Some t \<Rightarrow> Return t))
           else (css_send_sync_indication_condition sm, Next))
      | CSS_REACTION \<Rightarrow> (sm, Next))"

definition clock_slave_sync_sm ::
  "env \<Rightarrow> net_io \<Rightarrow> platform \<Rightarrow> clock_slave_sync_data \<Rightarrow> (clock_slave_sync_data \<times> ExtendedTimestamp ctl) option" where
  "clock_slave_sync_sm e io pf sm = sm_loop (css_body e io pf) (css_allstate_condition sm)"

definition clock_slave_sync_sm_init :: "PerTimeAwareSystemGlobal \<Rightarrow> gptpclock_data \<Rightarrow> clock_slave_sync_data" where
  "clock_slave_sync_sm_init pt g =
     \<lparr>state = CSS_INIT, last_state = CSS_INIT, ptasg = pt, css_rcvdPSSync = False, css_rcvdLocalClockTick = False,
      css_rcvdPSSyncPtr = None, css_gcd = g\<rparr>"

definition clock_slave_sync_sm_loclClockUpdate ::
  "env \<Rightarrow> net_io \<Rightarrow> platform \<Rightarrow> clock_slave_sync_data \<Rightarrow> (clock_slave_sync_data \<times> ExtendedTimestamp ctl) option" where
  "clock_slave_sync_sm_loclClockUpdate e io pf sm = clock_slave_sync_sm e io pf (sm\<lparr>css_rcvdLocalClockTick := True\<rparr>)"

definition clock_slave_sync_sm_portSyncSync ::
  "env \<Rightarrow> net_io \<Rightarrow> platform \<Rightarrow> clock_slave_sync_data \<Rightarrow> PortSyncSync \<Rightarrow>
   (clock_slave_sync_data \<times> ExtendedTimestamp ctl) option" where
  "clock_slave_sync_sm_portSyncSync e io pf sm p =
     clock_slave_sync_sm e io pf (sm\<lparr>css_rcvdPSSync := True, css_rcvdPSSyncPtr := Some p\<rparr>)"

section \<open>The contract of ClockSlaveSync\<close>

definition css_inv :: "clock_slave_sync_data \<Rightarrow> bool" where
  "css_inv sm \<longleftrightarrow> (css_rcvdPSSync sm \<longrightarrow> css_rcvdPSSyncPtr sm \<noteq> None)"

fun css_rank :: "clock_slave_sync_data \<Rightarrow> nat" where
  "css_rank sm =
     (case state sm of
        CSS_INIT \<Rightarrow> 4
      | CSS_INITIALIZING \<Rightarrow> 3
      | CSS_SEND_SYNC_INDICATION \<Rightarrow> if last_state sm = CSS_SEND_SYNC_INDICATION then 2 else 1
      | CSS_REACTION \<Rightarrow> 0)"

lemma css_frames [simp]:
  "state (css_static_gm e p s) = state s" "last_state (css_static_gm e p s) = last_state s"
  "css_rcvdLocalClockTick (css_static_gm e p s) = css_rcvdLocalClockTick s"
  "state (css_take_sync e p s) = state s" "last_state (css_take_sync e p s) = last_state s"
  "state (updateSlaveTime io pf s) = state s" "last_state (updateSlaveTime io pf s) = last_state s"
  by (simp_all add: css_static_gm_def css_take_sync_def updateSlaveTime_def Let_def split_beta)

lemma css_indication_facts:
  assumes "css_inv s"
  shows "\<exists>r t. css_send_sync_indication_proc e io pf s = Some (r, t) \<and> state t = state s \<and>
    last_state t = last_state s \<and> \<not> css_rcvdPSSync t \<and> \<not> css_rcvdLocalClockTick t"
  using assms by (auto simp: css_send_sync_indication_proc_def css_inv_def Let_def)

lemma css_step_facts:
  assumes inv: "css_inv s"
    and step: "css_body e io pf (last_state s \<noteq> state s) (s\<lparr>last_state := state s\<rparr>) = (t, c)"
  shows "css_inv t \<and> c \<noteq> Crash \<and> (c = Next \<and> last_state t \<noteq> state t \<longrightarrow> css_rank t < css_rank s)"
proof (cases "state s = CSS_SEND_SYNC_INDICATION \<and> last_state s \<noteq> CSS_SEND_SYNC_INDICATION")
  case True
  have "css_inv (s\<lparr>last_state := CSS_SEND_SYNC_INDICATION\<rparr>)" using inv by (simp add: css_inv_def)
  from css_indication_facts [OF this, of e io pf] obtain r w where w:
    "css_send_sync_indication_proc e io pf (s\<lparr>last_state := CSS_SEND_SYNC_INDICATION\<rparr>) = Some (r, w)"
    "state w = CSS_SEND_SYNC_INDICATION" "last_state w = CSS_SEND_SYNC_INDICATION" "\<not> css_rcvdPSSync w" "\<not> css_rcvdLocalClockTick w"
    using True by auto
  then have "t = css_send_sync_indication_condition w" "c = (case r of None \<Rightarrow> Next | Some x \<Rightarrow> Return x)"
    using step True by (simp_all add: css_body_def)
  then show ?thesis using w by (simp add: css_send_sync_indication_condition_def css_inv_def split: option.splits)
next
  case False
  then show ?thesis using inv step
    by (cases "state s") (auto simp: css_body_def css_inv_def Let_def css_initializing_proc_def
        css_initializing_condition_def css_send_sync_indication_condition_def split: if_splits)
qed

interpretation css: sm_safe "css_body e io pf" css_inv css_rank for e io pf
  by unfold_locales (use css_step_facts in blast)+

section \<open>The time of the grandmaster\<close>

lemma uint_of_range: "0 \<le> m \<Longrightarrow> m < 2 ^ 64 \<Longrightarrow> uint (word_of_int m :: u64) = m"
  by (simp add: uint_word_of_int)

lemma add_double_floor:
  assumes "0 \<le> x" "of_int (uint a) + x < 2 ^ 64"
  shows "uint (add_double a x) = \<lfloor>of_int (uint a) + x\<rfloor>"
proof -
  define n :: int where "n = uint a"
  have n: "0 \<le> n" by (simp add: n_def)
  have "0 \<le> of_int n + x" using n assms(1) by simp
  then have t: "c_trunc (of_int n + x) = \<lfloor>of_int n + x\<rfloor>" by (simp add: c_trunc_def)
  have "0 \<le> \<lfloor>of_int n + x\<rfloor>" using \<open>0 \<le> of_int n + x\<close> by (simp only: zero_le_floor)
  moreover have "\<lfloor>of_int n + x\<rfloor> < 2 ^ 64"
    using assms(2) unfolding n_def [symmetric] by (simp only: floor_less_iff of_int_power of_int_numeral)
  ultimately have "uint (word_of_int \<lfloor>of_int n + x\<rfloor> :: u64) = \<lfloor>of_int n + x\<rfloor>"
    by (rule uint_of_range)
  then show ?thesis unfolding add_double_def n_def [symmetric] t .
qed

lemma uint_split_seconds:
  fixes n :: u64
  assumes "uint n < 2 ^ 32 * 1000000000"
  shows "uint (ucast (n div 1000000000) :: u32) * 1000000000 + uint (ucast (n mod 1000000000) :: u32) = uint n"
proof -
  have d: "uint (n div 1000000000) = uint n div 1000000000" "uint (n mod 1000000000) = uint n mod 1000000000"
    by (simp_all add: uint_div_distrib uint_mod_distrib)
  have "m div 1000000000 < 2 ^ 32 \<and> 0 \<le> m div 1000000000 \<and> 0 \<le> m mod 1000000000 \<and> m mod 1000000000 < 2 ^ 32"
    if "0 \<le> m" "m < 2 ^ 32 * 1000000000" for m :: int using that by auto
  from this [OF _ assms] have "uint n div 1000000000 < 2 ^ 32" "0 \<le> uint n div 1000000000" "0 \<le> uint n mod 1000000000"
    "uint n mod 1000000000 < 2 ^ 32" by simp_all
  then have "uint (ucast (n div 1000000000) :: u32) = uint n div 1000000000"
    "uint (ucast (n mod 1000000000) :: u32) = uint n mod 1000000000"
    by (simp_all add: d unsigned_ucast_eq take_bit_int_eq_self)
  then show ?thesis by simp
qed

text \<open>The origin timestamp and the correction of an information, in nanoseconds.\<close>

definition origin_nsec :: "PortSyncSync \<Rightarrow> int" where
  "origin_nsec p = uint (seconds_lsb (ps_preciseOriginTimestamp p)) * 1000000000 +
     uint (nanoseconds (ps_preciseOriginTimestamp p)) + uint (s_nsec (ps_followUpCorrectionField p))"

lemma origin_nsec_word:
  assumes "origin_nsec p < 2 ^ 64"
  shows "uint (ucast (seconds_lsb (ps_preciseOriginTimestamp p)) * 1000000000 +
     ucast (nanoseconds (ps_preciseOriginTimestamp p)) + s_nsec (ps_followUpCorrectionField p) :: u64) = origin_nsec p"
proof -
  let ?s = "seconds_lsb (ps_preciseOriginTimestamp p)" and ?n = "nanoseconds (ps_preciseOriginTimestamp p)"
  let ?c = "s_nsec (ps_followUpCorrectionField p)"
  have l: "uint ?s < 2 ^ 32" "uint ?n < 2 ^ 32" "0 \<le> uint ?s" "0 \<le> uint ?n" "0 \<le> uint ?c"
    using uint_lt2p [of ?s] uint_lt2p [of ?n] by simp_all
  have u: "uint (ucast ?s :: u64) = uint ?s" "uint (ucast ?n :: u64) = uint ?n"
    by (simp_all add: uint_up_ucast is_up)
  have "uint (ucast ?s * 1000000000 :: u64) = uint ?s * 1000000000"
    using l(1,3) by (subst uint_mult_lem [THEN iffD1]) (simp_all add: u)
  then have "uint (ucast ?s * 1000000000 + ucast ?n :: u64) = uint ?s * 1000000000 + uint ?n"
    using l by (subst uint_add_lem [THEN iffD1]) (simp_all add: u)
  then show ?thesis
    using assms unfolding origin_nsec_def by (subst uint_add_lem [THEN iffD1]) simp_all
qed

text \<open>What the time of the grandmaster is when the Sync arrives: the origin plus the delay of the link.\<close>

definition gm_time_of_sync :: "PerPortGlobal \<Rightarrow> PortSyncSync \<Rightarrow> real" where
  "gm_time_of_sync l p = of_int (origin_nsec p) +
     of_int (uint (nsec (neighborPropDelay (forAllDomain l)))) * (ps_rateRatio p / neighborRateRatio (forAllDomain l)) +
     of_int (uint (nsec (delayAsymmetry (forAllDomain l))))"

lemma sync_receipt_nsec_floor:
  assumes "ps_local_ppg p = Some l" "0 < ps_rateRatio p" "0 < neighborRateRatio (forAllDomain l)"
    and "gm_time_of_sync l p < 2 ^ 64"
  shows "uint (sync_receipt_nsec p) = \<lfloor>gm_time_of_sync l p\<rfloor>"
proof -
  define d :: int where "d = uint (nsec (neighborPropDelay (forAllDomain l)))"
  define y :: int where "y = uint (nsec (delayAsymmetry (forAllDomain l)))"
  define x where "x = of_int d * (ps_rateRatio p / neighborRateRatio (forAllDomain l)) + of_int y"
  let ?n = "ucast (seconds_lsb (ps_preciseOriginTimestamp p)) * 1000000000 +
     ucast (nanoseconds (ps_preciseOriginTimestamp p)) + s_nsec (ps_followUpCorrectionField p) :: u64"
  have "0 \<le> d" "0 \<le> y" by (simp_all add: d_def y_def)
  then have x: "0 \<le> x" using assms(2,3) by (simp add: x_def)
  have e: "gm_time_of_sync l p = of_int (origin_nsec p) + x" unfolding gm_time_of_sync_def x_def d_def y_def by (simp only: add.assoc)
  define o' where "o' = origin_nsec p"
  have "real_of_int o' < of_int (2 ^ 64)" using assms(4) x e unfolding o'_def [symmetric] by simp
  then have "o' < 2 ^ 64" by (simp only: of_int_less_iff)
  note w = origin_nsec_word [OF this [unfolded o'_def]]
  have "sync_receipt_nsec p = add_double ?n x"
    using assms(1) unfolding sync_receipt_nsec_def x_def d_def y_def by (simp only: Let_def option.case)
  with add_double_floor [OF x, of ?n] assms(4) e w show ?thesis by (simp only:)
qed

lemma css_running: "tas_running (ptasg sm) \<Longrightarrow> css_allstate_condition sm = sm"
  by (simp add: css_allstate_condition_def tas_running_def)

lemma css_indication_result:
  assumes "css_rcvdPSSync s" "css_rcvdPSSyncPtr s = Some p" "ps_localPortNumber p \<noteq> 0"
  shows "\<exists>r t. css_send_sync_indication_proc e io pf s = Some (Some r, t) \<and> syncReceiptTime (ptasg t) = r \<and>
    syncReceiptLocalTime (ptasg t) = (syncReceiptLocalTime (ptasg s))\<lparr>nsec := sync_receipt_local p\<rparr> \<and>
    r = (syncReceiptTime (ptasg s))\<lparr>fractionalNanoseconds_msb := ucast (sync_receipt_nsec p mod 1000000000),
          ext_seconds_lsb := ucast (sync_receipt_nsec p div 1000000000)\<rparr>"
  using assms by (simp add: css_send_sync_indication_proc_def Let_def css_take_sync_def css_static_gm_def updateSlaveTime_def
      split_beta)

lemma css_indication_run:
  assumes "state s = CSS_SEND_SYNC_INDICATION" "last_state s \<noteq> CSS_SEND_SYNC_INDICATION"
    and "css_rcvdPSSync s" "css_rcvdPSSyncPtr s = Some p" "ps_localPortNumber p \<noteq> 0"
  shows "\<exists>r t. sm_loop (css_body e io pf) s = Some (t, Return r) \<and> syncReceiptTime (ptasg t) = r \<and>
    syncReceiptLocalTime (ptasg t) = (syncReceiptLocalTime (ptasg s))\<lparr>nsec := sync_receipt_local p\<rparr> \<and>
    r = (syncReceiptTime (ptasg s))\<lparr>fractionalNanoseconds_msb := ucast (sync_receipt_nsec p mod 1000000000),
          ext_seconds_lsb := ucast (sync_receipt_nsec p div 1000000000)\<rparr>"
proof -
  let ?u = "s\<lparr>last_state := CSS_SEND_SYNC_INDICATION\<rparr>"
  obtain r t where t: "css_send_sync_indication_proc e io pf ?u = Some (Some r, t)"
    "syncReceiptTime (ptasg t) = r"
    "syncReceiptLocalTime (ptasg t) = (syncReceiptLocalTime (ptasg s))\<lparr>nsec := sync_receipt_local p\<rparr>"
    "r = (syncReceiptTime (ptasg s))\<lparr>fractionalNanoseconds_msb := ucast (sync_receipt_nsec p mod 1000000000),
          ext_seconds_lsb := ucast (sync_receipt_nsec p div 1000000000)\<rparr>"
    using css_indication_result [of ?u p e io pf] assms(3-5) by auto
  have "sm_step (css_body e io pf) s = (css_send_sync_indication_condition t, Return r)"
    using assms(1,2) t(1) by (simp add: sm_step_entered css_body_def)
  from sm_loop_out [OF this] t(2-4) show ?thesis by (auto simp: css_send_sync_indication_condition_def)
qed

text \<open>A machine that waits for a Sync: it has just been initialised, or has handled one before.\<close>

definition css_waiting :: "clock_slave_sync_data \<Rightarrow> bool" where
  "css_waiting sm \<longleftrightarrow> tas_running (ptasg sm) \<and>
     (state sm = CSS_INITIALIZING \<or> state sm = CSS_SEND_SYNC_INDICATION) \<and> last_state sm = state sm"

lemma css_waiting_run:
  assumes "css_waiting sm" "ps_localPortNumber p \<noteq> 0"
  shows "\<exists>r t. clock_slave_sync_sm_portSyncSync e io pf sm p = Some (t, Return r) \<and> syncReceiptTime (ptasg t) = r \<and>
    syncReceiptLocalTime (ptasg t) = (syncReceiptLocalTime (ptasg sm))\<lparr>nsec := sync_receipt_local p\<rparr> \<and>
    r = (syncReceiptTime (ptasg sm))\<lparr>fractionalNanoseconds_msb := ucast (sync_receipt_nsec p mod 1000000000),
          ext_seconds_lsb := ucast (sync_receipt_nsec p div 1000000000)\<rparr>"
proof -
  let ?s = "sm\<lparr>css_rcvdPSSync := True, css_rcvdPSSyncPtr := Some p\<rparr>"
  have "tas_running (ptasg ?s)" using assms(1) by (simp add: css_waiting_def)
  then have run: "clock_slave_sync_sm_portSyncSync e io pf sm p = sm_loop (css_body e io pf) ?s"
    unfolding clock_slave_sync_sm_portSyncSync_def clock_slave_sync_sm_def by (simp only: css_running)
  let ?t = "?s\<lparr>state := CSS_SEND_SYNC_INDICATION,
      last_state := if state sm = CSS_INITIALIZING then CSS_INITIALIZING else CSS_REACTION\<rparr>"
  have "sm_step (css_body e io pf) ?s = (?t, Next)"
    using assms(1) by (cases "state sm") (simp_all add: css_waiting_def sm_step_settled css_body_def Let_def
        css_initializing_condition_def css_send_sync_indication_condition_def)
  from sm_loop_again [OF this] have "sm_loop (css_body e io pf) ?s = sm_loop (css_body e io pf) ?t" by simp
  with run css_indication_run [of ?t p e io pf] assms(2) show ?thesis by simp
qed


definition sample_css :: clock_slave_sync_data where
  "sample_css = (clock_slave_sync_sm_init sample_ptasg (gptpclock_init 1))
     \<lparr>state := CSS_INITIALIZING, last_state := CSS_INITIALIZING\<rparr>"

text \<open>A link of 500 ns to a neighbour whose clock is as fast as this one; the grandmaster's is faster.\<close>

definition sample_link_ppg :: PerPortGlobal where
  "sample_link_ppg = sample_ppg\<lparr>forAllDomain := zero_PerPortGlobalForAllDomain
     \<lparr>neighborRateRatio := 1, neighborPropDelay := zero_UScaledNs\<lparr>nsec := 500\<rparr>, portOper := True\<rparr>\<rparr>"

definition sample_link_info :: PortSyncSync where
  "sample_link_info = zero_PortSyncSync\<lparr>ps_localPortNumber := 1, ps_localPortIndex := 1,
     ps_preciseOriginTimestamp := \<lparr>nanoseconds = 7, seconds_lsb = 100, seconds_msb = 0\<rparr>,
     ps_rateRatio := 1 + 1 / 1000, ps_local_ppg := Some sample_link_ppg\<rparr>"

lemma sample_link_time: "gm_time_of_sync sample_link_ppg sample_link_info = 100000000507 + 1 / 2"
  by (simp add: gm_time_of_sync_def origin_nsec_def sample_link_info_def sample_link_ppg_def zero_PortSyncSync_def
      zero_ScaledNs_def zero_UScaledNs_def zero_PerPortGlobalForAllDomain_def)


section \<open>ClockMasterSyncSend\<close>

datatype (plugins only: code) cmss_state = CMSS_INIT | CMSS_INITIALIZING | CMSS_SEND_SYNC_INDICATION | CMSS_REACTION

record clock_master_sync_send_data = "cmss_state dom_sm" +
  syncSendTime :: UScaledNs
  cmss_portSyncSync :: PortSyncSync
  cmss_gcd :: gptpclock_data

text \<open>The transmission time is that of the clock of the domain, the origin timestamp that of the master clock.\<close>

definition setPSSyncCMSS ::
  "net_io \<Rightarrow> platform \<Rightarrow> clock_master_sync_send_data \<Rightarrow> PortSyncSync \<times> clock_master_sync_send_data" where
  "setPSSyncCMSS io pf sm =
     (let pt = ptasg sm; ps = cmss_portSyncSync sm;
          (ts64, g) = gptpclock_getts64 pf (thisClockIndex pt) (domainNumber pt) (cmss_gcd sm);
          (_, mts64) = gptpclock_apply_offset ts64 0 (domainNumber pt) g;
          (s, n) = nsec2ts io (sint mts64);
          ps1 = ps\<lparr>ps_domainNumber := domainNumber pt,
            ps_localPortNumber := 0,
            ps_syncReceiptTimeoutTime := (ps_syncReceiptTimeoutTime ps)\<lparr>nsec := - 1\<rparr>,
            ps_followUpCorrectionField := (ps_followUpCorrectionField ps)\<lparr>s_subns := 0\<rparr>,
            ps_sourcePortIdentity := \<lparr>clockIdentity = thisClock pt, portNumber = 0\<rparr>,
            ps_logMessageInterval := clockMasterLogSyncInterval pt,
            ps_preciseOriginTimestamp := (ps_preciseOriginTimestamp ps)\<lparr>nanoseconds := of_int n, seconds_lsb := of_int s\<rparr>,
            ps_upstreamTxTime := (ps_upstreamTxTime ps)\<lparr>nsec := ts64\<rparr>,
            ps_rateRatio := gmRateRatio pt,
            ps_gmTimeBaseIndicator := clockSourceTimeBaseIndicator pt,
            ps_lastGmPhaseChange := clockSourceLastGmPhaseChange pt,
            ps_lastGmFreqChange := clockSourceLastGmFreqChange pt,
            ps_localPortIndex := 0,
            ps_syncNextSendTimeoutTime := (ps_syncNextSendTimeoutTime ps)\<lparr>nsec := - 1\<rparr>,
            ps_local_ppg := None\<rparr>
      in (ps1, sm\<lparr>cmss_portSyncSync := ps1, cmss_gcd := g\<rparr>))"

definition cmss_allstate_condition :: "clock_master_sync_send_data \<Rightarrow> clock_master_sync_send_data" where
  "cmss_allstate_condition sm =
     (if BEGIN (ptasg sm) \<or> \<not> instanceEnable (ptasg sm) then sm\<lparr>state := CMSS_INITIALIZING\<rparr> else sm)"

definition cmss_initializing_proc :: "u64 \<Rightarrow> clock_master_sync_send_data \<Rightarrow> clock_master_sync_send_data" where
  "cmss_initializing_proc cts64 sm =
     sm\<lparr>syncSendTime := (syncSendTime sm)\<lparr>nsec := cts64 + nsec (clockMasterSyncInterval (ptasg sm))\<rparr>\<rparr>"

definition cmss_initializing_condition :: "u64 \<Rightarrow> clock_master_sync_send_data \<Rightarrow> cmss_state" where
  "cmss_initializing_condition cts64 sm =
     (if cts64 \<ge> nsec (syncSendTime sm) then CMSS_SEND_SYNC_INDICATION else CMSS_INITIALIZING)"

text \<open>The next time is rounded to a multiple of 25 ms.\<close>

definition align_25ms :: "u64 \<Rightarrow> u64" where
  "align_25ms t = (t + 12500000) div 25000000 * 25000000"

definition cmss_send_sync_indication_proc ::
  "net_io \<Rightarrow> platform \<Rightarrow> u64 \<Rightarrow> clock_master_sync_send_data \<Rightarrow> PortSyncSync \<times> clock_master_sync_send_data" where
  "cmss_send_sync_indication_proc io pf cts64 sm = setPSSyncCMSS io pf (sm\<lparr>syncSendTime := (syncSendTime sm)
     \<lparr>nsec := align_25ms (cts64 + nsec (clockMasterSyncInterval (ptasg sm)))\<rparr>\<rparr>)"

definition cmss_send_sync_indication_condition ::
  "u64 \<Rightarrow> clock_master_sync_send_data \<Rightarrow> clock_master_sync_send_data" where
  "cmss_send_sync_indication_condition cts64 sm = sm\<lparr>state := CMSS_SEND_SYNC_INDICATION,
     last_state := if cts64 \<ge> nsec (syncSendTime sm) then CMSS_REACTION else last_state sm\<rparr>"

definition cmss_body ::
  "net_io \<Rightarrow> platform \<Rightarrow> u64 \<Rightarrow> bool \<Rightarrow> clock_master_sync_send_data \<Rightarrow> clock_master_sync_send_data \<times> PortSyncSync ctl" where
  "cmss_body io pf cts64 state_change sm =
     (case state sm of
        CMSS_INIT \<Rightarrow> (sm\<lparr>state := CMSS_INITIALIZING\<rparr>, Next)
      | CMSS_INITIALIZING \<Rightarrow>
          (let sm1 = (if state_change then cmss_initializing_proc cts64 sm else sm)
           in (sm1\<lparr>state := cmss_initializing_condition cts64 sm1\<rparr>, Next))
      | CMSS_SEND_SYNC_INDICATION \<Rightarrow>
          (if state_change then (let (ps, sm1) = cmss_send_sync_indication_proc io pf cts64 sm in (sm1, Return ps))
           else (cmss_send_sync_indication_condition cts64 sm, Next))
      | CMSS_REACTION \<Rightarrow> (sm, Next))"

definition clock_master_sync_send_sm ::
  "net_io \<Rightarrow> platform \<Rightarrow> clock_master_sync_send_data \<Rightarrow> u64 \<Rightarrow> (clock_master_sync_send_data \<times> PortSyncSync ctl) option" where
  "clock_master_sync_send_sm io pf sm cts64 = sm_loop (cmss_body io pf cts64) (cmss_allstate_condition sm)"

definition clock_master_sync_send_sm_init ::
  "PerTimeAwareSystemGlobal \<Rightarrow> gptpclock_data \<Rightarrow> clock_master_sync_send_data" where
  "clock_master_sync_send_sm_init pt g =
     \<lparr>state = CMSS_INIT, last_state = CMSS_INIT, ptasg = pt, syncSendTime = zero_UScaledNs,
      cmss_portSyncSync = zero_PortSyncSync, cmss_gcd = g\<rparr>"

fun cmss_rank :: "clock_master_sync_send_data \<Rightarrow> nat" where
  "cmss_rank sm =
     (case state sm of
        CMSS_INIT \<Rightarrow> 4
      | CMSS_INITIALIZING \<Rightarrow> 3
      | CMSS_SEND_SYNC_INDICATION \<Rightarrow> if last_state sm = CMSS_SEND_SYNC_INDICATION then 2 else 1
      | CMSS_REACTION \<Rightarrow> 0)"

interpretation cmss: sm_safe "cmss_body io pf cts" "\<lambda>_. True" cmss_rank for io pf cts
  by unfold_locales (auto simp: cmss_body_def Let_def cmss_initializing_proc_def cmss_initializing_condition_def
      cmss_send_sync_indication_condition_def split_beta split: cmss_state.splits if_splits)

subsection \<open>When and what the clock master sends\<close>

lemma cmss_running: "tas_running (ptasg sm) \<Longrightarrow> cmss_allstate_condition sm = sm"
  by (simp add: cmss_allstate_condition_def tas_running_def)

lemma cmss_indication_run:
  assumes "state s = CMSS_SEND_SYNC_INDICATION" "last_state s \<noteq> CMSS_SEND_SYNC_INDICATION"
  shows "sm_loop (cmss_body io pf cts) s =
    (let (ps, t) = cmss_send_sync_indication_proc io pf cts (s\<lparr>last_state := CMSS_SEND_SYNC_INDICATION\<rparr>) in Some (t, Return ps))"
proof -
  obtain ps t where t: "cmss_send_sync_indication_proc io pf cts (s\<lparr>last_state := CMSS_SEND_SYNC_INDICATION\<rparr>) = (ps, t)"
    by fastforce
  then have "sm_step (cmss_body io pf cts) s = (t, Return ps)"
    using assms by (simp add: sm_step_entered cmss_body_def)
  from sm_loop_out [OF this] t show ?thesis by simp
qed

definition cmss_waiting :: "clock_master_sync_send_data \<Rightarrow> bool" where
  "cmss_waiting sm \<longleftrightarrow> tas_running (ptasg sm) \<and>
     (state sm = CMSS_INITIALIZING \<or> state sm = CMSS_SEND_SYNC_INDICATION) \<and> last_state sm = state sm"

lemma setPSSyncCMSS_facts:
  assumes "setPSSyncCMSS io pf s = (ps, t)"
  shows "ptasg t = ptasg s" "state t = state s" "last_state t = last_state s" "syncSendTime t = syncSendTime s"
    "ps_localPortNumber ps = 0" "ps_localPortIndex ps = 0" "ps_local_ppg ps = None"
    "nsec (ps_syncReceiptTimeoutTime ps) = - 1" "nsec (ps_syncNextSendTimeoutTime ps) = - 1"
    "ps_rateRatio ps = gmRateRatio (ptasg s)"
    "clockIdentity (ps_sourcePortIdentity ps) = thisClock (ptasg s)"
  using assms by (auto simp: setPSSyncCMSS_def Let_def split_beta)

lemma cmss_due_run:
  assumes "cmss_waiting sm" "cts \<ge> nsec (syncSendTime sm)"
  shows "\<exists>ps t. clock_master_sync_send_sm io pf sm cts = Some (t, Return ps) \<and> cmss_waiting t \<and>
    nsec (syncSendTime t) = align_25ms (cts + nsec (clockMasterSyncInterval (ptasg sm))) \<and>
    (\<exists>s. setPSSyncCMSS io pf s = (ps, t) \<and> ptasg s = ptasg sm \<and> cmss_gcd s = cmss_gcd sm \<and>
      cmss_portSyncSync s = cmss_portSyncSync sm)"
proof -
  let ?t = "sm\<lparr>state := CMSS_SEND_SYNC_INDICATION,
      last_state := if state sm = CMSS_INITIALIZING then CMSS_INITIALIZING else CMSS_REACTION\<rparr>"
  let ?u = "(?t\<lparr>last_state := CMSS_SEND_SYNC_INDICATION\<rparr>)\<lparr>syncSendTime := (syncSendTime sm)
     \<lparr>nsec := align_25ms (cts + nsec (clockMasterSyncInterval (ptasg sm)))\<rparr>\<rparr>"
  have "tas_running (ptasg sm)" using assms(1) by (simp add: cmss_waiting_def)
  then have run: "clock_master_sync_send_sm io pf sm cts = sm_loop (cmss_body io pf cts) sm"
    unfolding clock_master_sync_send_sm_def by (simp only: cmss_running)
  have "sm_step (cmss_body io pf cts) sm = (?t, Next)"
    using assms by (cases "state sm") (simp_all add: cmss_waiting_def sm_step_settled cmss_body_def Let_def
        cmss_initializing_condition_def cmss_send_sync_indication_condition_def)
  from sm_loop_again [OF this] have go: "sm_loop (cmss_body io pf cts) sm = sm_loop (cmss_body io pf cts) ?t" by simp
  obtain ps w where w: "setPSSyncCMSS io pf ?u = (ps, w)" by fastforce
  then have "cmss_send_sync_indication_proc io pf cts (?t\<lparr>last_state := CMSS_SEND_SYNC_INDICATION\<rparr>) = (ps, w)"
    by (simp add: cmss_send_sync_indication_proc_def)
  with cmss_indication_run [of ?t io pf cts] run go
  have r: "clock_master_sync_send_sm io pf sm cts = Some (w, Return ps)" by simp
  have "cmss_waiting w" "nsec (syncSendTime w) = align_25ms (cts + nsec (clockMasterSyncInterval (ptasg sm)))"
    using setPSSyncCMSS_facts [OF w] assms(1) by (simp_all add: cmss_waiting_def)
  moreover have "ptasg ?u = ptasg sm" "cmss_gcd ?u = cmss_gcd sm" "cmss_portSyncSync ?u = cmss_portSyncSync sm" by simp_all
  ultimately show ?thesis using r w by blast
qed

lemma cmss_not_due:
  assumes "cmss_waiting sm" "\<not> cts \<ge> nsec (syncSendTime sm)"
  shows "\<exists>t. clock_master_sync_send_sm io pf sm cts = Some (t, Next) \<and> cmss_waiting t \<and> syncSendTime t = syncSendTime sm"
proof -
  have "tas_running (ptasg sm)" using assms(1) by (simp add: cmss_waiting_def)
  then have run: "clock_master_sync_send_sm io pf sm cts = sm_loop (cmss_body io pf cts) sm"
    unfolding clock_master_sync_send_sm_def by (simp only: cmss_running)
  have "\<exists>t. sm_step (cmss_body io pf cts) sm = (t, Next) \<and> last_state t = state t \<and> cmss_waiting t \<and> syncSendTime t = syncSendTime sm"
    using assms by (cases "state sm") (simp_all add: cmss_waiting_def sm_step_settled cmss_body_def Let_def
        cmss_initializing_condition_def cmss_send_sync_indication_condition_def)
  then show ?thesis using run sm_loop_rest [where body = "cmss_body io pf cts"] by metis
qed

lemma align_25ms_bounds:
  assumes "uint t + 12500000 < 2 ^ 64"
  shows "25000000 dvd uint (align_25ms t)" "\<bar>uint (align_25ms t) - uint t\<bar> \<le> 12500000"
proof -
  define n where "n = uint t"
  have n: "0 \<le> n" "n + 12500000 < 2 ^ 64" using assms by (simp_all add: n_def)
  have "uint (t + 12500000) = n + 12500000" using n unfolding n_def by (subst uint_add_lem [THEN iffD1]) simp_all
  then have d: "uint ((t + 12500000) div 25000000) = (n + 12500000) div 25000000" by (simp add: uint_div_distrib)
  have m: "(n + 12500000) div 25000000 * 25000000 \<le> n + 12500000" "n + 12500000 < (n + 12500000) div 25000000 * 25000000 + 25000000"
    using minus_mod_eq_div_mult [of "n + 12500000" 25000000] pos_mod_bound [of 25000000 "n + 12500000"]
      pos_mod_sign [of 25000000 "n + 12500000"] by linarith+
  then have "uint (align_25ms t) = (n + 12500000) div 25000000 * 25000000"
    using n unfolding align_25ms_def by (subst uint_mult_lem [THEN iffD1]) (simp_all add: d)
  with m show "25000000 dvd uint (align_25ms t)" "\<bar>uint (align_25ms t) - uint t\<bar> \<le> 12500000"
    unfolding n_def [symmetric] by auto
qed

text \<open>The clock master issues its information exactly when its time has come, and then sets the
  next time to a multiple of 25 ms that differs from one interval later by at most 12.5 ms; with an interval of at
  least 12.5 ms the next time is in the future or now. The information never times out and belongs to no port.\<close>

theorem clock_master_sync_paced:
  assumes "cmss_waiting sm" and "uint cts + uint (nsec (clockMasterSyncInterval (ptasg sm))) + 12500000 < 2 ^ 64"
  shows "if cts \<ge> nsec (syncSendTime sm)
    then \<exists>ps t. clock_master_sync_send_sm io pf sm cts = Some (t, Return ps) \<and> cmss_waiting t \<and>
      25000000 dvd uint (nsec (syncSendTime t)) \<and>
      \<bar>uint (nsec (syncSendTime t)) - (uint cts + uint (nsec (clockMasterSyncInterval (ptasg sm))))\<bar> \<le> 12500000 \<and>
      ps_localPortNumber ps = 0 \<and> ps_local_ppg ps = None \<and> nsec (ps_syncReceiptTimeoutTime ps) = - 1
    else \<exists>t. clock_master_sync_send_sm io pf sm cts = Some (t, Next) \<and> cmss_waiting t \<and> syncSendTime t = syncSendTime sm"
proof (cases "cts \<ge> nsec (syncSendTime sm)")
  case True
  let ?n = "cts + nsec (clockMasterSyncInterval (ptasg sm))"
  obtain ps t s where t: "clock_master_sync_send_sm io pf sm cts = Some (t, Return ps)" "cmss_waiting t"
    "nsec (syncSendTime t) = align_25ms ?n" "setPSSyncCMSS io pf s = (ps, t)"
    using cmss_due_run [OF assms(1) True, of io pf] by blast
  have u: "uint ?n = uint cts + uint (nsec (clockMasterSyncInterval (ptasg sm)))"
    by (rule uint_add_lem [THEN iffD1]) (use assms(2) in simp)
  have "uint ?n + 12500000 < 2 ^ 64" unfolding u by (rule assms(2))
  from align_25ms_bounds [OF this] have "25000000 dvd uint (nsec (syncSendTime t))"
    "\<bar>uint (nsec (syncSendTime t)) - (uint cts + uint (nsec (clockMasterSyncInterval (ptasg sm))))\<bar> \<le> 12500000"
    unfolding t(3) u by blast+
  with t(1,2) setPSSyncCMSS_facts(5,7,8) [OF t(4)] True show ?thesis by (simp only: if_True) blast
next
  case False
  with cmss_not_due [OF assms(1) False] show ?thesis by simp
qed

text \<open>Clocks of which the master clock of domain 0 has an offset.\<close>

definition sample_offset_gcd :: gptpclock_data where
  "sample_offset_gcd = set_clock 0 (\<lambda>od. od\<lparr>offset64 := 5000\<rparr>) sample_gcd"

definition sample_cmss :: clock_master_sync_send_data where
  "sample_cmss = (clock_master_sync_send_sm_init
       (sample_ptasg\<lparr>clockMasterSyncInterval := zero_UScaledNs\<lparr>nsec := 125000000\<rparr>, thisClockIndex := 1\<rparr>)
       sample_offset_gcd)
     \<lparr>state := CMSS_SEND_SYNC_INDICATION, last_state := CMSS_SEND_SYNC_INDICATION,
      syncSendTime := zero_UScaledNs\<lparr>nsec := 1000000000\<rparr>\<rparr>"

theorem clock_master_sync_paced_witness:
  "\<exists>ps t. clock_master_sync_send_sm sample_io sample_platform sample_cmss 1001000000 = Some (t, Return ps) \<and>
     \<bar>uint (nsec (syncSendTime t)) - 1126000000\<bar> \<le> 12500000"
proof -
  have i: "nsec (clockMasterSyncInterval (ptasg sample_cmss)) = 125000000" "nsec (syncSendTime sample_cmss) = 1000000000"
    by (simp_all add: sample_cmss_def clock_master_sync_send_sm_init_def)
  have "cmss_waiting sample_cmss"
    using sample_running by (simp add: cmss_waiting_def sample_cmss_def clock_master_sync_send_sm_init_def tas_running_def)
  from clock_master_sync_paced [OF this, of 1001000000 sample_io sample_platform] show ?thesis by (auto simp: i)
qed

subsection \<open>The two times of an own Sync\<close>

text \<open>The origin timestamp of an information, in nanoseconds, and the master clock's value for a time.\<close>

definition origin_time :: "PortSyncSync \<Rightarrow> int" where
  "origin_time p = uint (seconds_lsb (ps_preciseOriginTimestamp p)) * 1000000000 + uint (nanoseconds (ps_preciseOriginTimestamp p))"

definition master_value :: "gptpclock_data \<Rightarrow> u8 \<Rightarrow> u64 \<Rightarrow> u64" where
  "master_value g dn ts = snd (gptpclock_apply_offset ts 0 dn g)"

lemma timestamp_of_time:
  assumes "nsec2ts_ok io" "uint n < 2 ^ 32 * 1000000000"
  shows "uint (of_int (fst (nsec2ts io (sint (n :: u64)))) :: u32) * 1000000000 + uint (of_int (snd (nsec2ts io (sint n))) :: u32) = uint n"
proof -
  have "signed_take_bit 63 m = m" if "0 \<le> m" "m < 2 ^ 32 * 1000000000" for m :: int
    using that by (intro signed_take_bit_int_eq_self) simp_all
  from this [OF _ assms(2)] have "sint n = uint n" by (simp add: sint_uint)
  moreover have "nsec2ts io (uint n) = (uint n div 1000000000, uint n mod 1000000000)"
    using assms(1) by (simp add: nsec2ts_ok_def)
  moreover have "uint (word_of_int (m div 1000000000) :: u32) * 1000000000 + uint (word_of_int (m mod 1000000000) :: u32) = m"
    if "0 \<le> m" "m < 2 ^ 32 * 1000000000" for m :: int
    using that by (simp add: uint_word_of_int)
  ultimately show ?thesis using assms(2) by simp
qed

lemma setPSSyncCMSS_times:
  assumes "setPSSyncCMSS io pf s = (ps, t)" "nsec2ts_ok io"
    and g: "gptpclock_getts64 pf (thisClockIndex (ptasg s)) (domainNumber (ptasg s)) (cmss_gcd s) = (ts, g)"
  shows "nsec (ps_upstreamTxTime ps) = ts"
    and "uint (master_value g (domainNumber (ptasg s)) ts) < 2 ^ 32 * 1000000000 \<Longrightarrow>
      origin_time ps = uint (master_value g (domainNumber (ptasg s)) ts)"
proof -
  let ?m = "master_value g (domainNumber (ptasg s)) ts"
  have e: "seconds_lsb (ps_preciseOriginTimestamp ps) = of_int (fst (nsec2ts io (sint ?m)))"
    "nanoseconds (ps_preciseOriginTimestamp ps) = of_int (snd (nsec2ts io (sint ?m)))"
    and "nsec (ps_upstreamTxTime ps) = ts"
    using assms(1) g by (auto simp: setPSSyncCMSS_def Let_def split_beta master_value_def)
  then show "nsec (ps_upstreamTxTime ps) = ts" by simp
  show "uint ?m < 2 ^ 32 * 1000000000 \<Longrightarrow> origin_time ps = uint ?m"
    using timestamp_of_time [OF assms(2), of ?m] unfolding origin_time_def e by simp
qed

text \<open>The two times in the clock master's information are the same instant: the transmission time is what
  the clock of the domain reads, and the origin timestamp is the value of the master clock at that reading.\<close>

theorem own_sync_times_agree:
  assumes "cmss_waiting sm" "cts \<ge> nsec (syncSendTime sm)" "nsec2ts_ok io"
    and "gptpclock_getts64 pf (thisClockIndex (ptasg sm)) (domainNumber (ptasg sm)) (cmss_gcd sm) = (ts, g)"
    and "uint (master_value g (domainNumber (ptasg sm)) ts) < 2 ^ 32 * 1000000000"
  shows "\<exists>ps t. clock_master_sync_send_sm io pf sm cts = Some (t, Return ps) \<and>
    nsec (ps_upstreamTxTime ps) = ts \<and> origin_time ps = uint (master_value g (domainNumber (ptasg sm)) ts)"
proof -
  obtain ps t s where t: "clock_master_sync_send_sm io pf sm cts = Some (t, Return ps)"
    "setPSSyncCMSS io pf s = (ps, t)" "ptasg s = ptasg sm" "cmss_gcd s = cmss_gcd sm"
    using cmss_due_run [OF assms(1,2), of io pf] by blast
  note r = setPSSyncCMSS_times [OF t(2) assms(3) assms(4) [folded t(3,4)]]
  from t(1) r(1) r(2) [unfolded t(3), OF assms(5)] show ?thesis by blast
qed

text \<open>The clock of the sample reads 1000 ns; the master clock is 5000 ns ahead of it.\<close>

theorem own_sync_times_agree_witness:
  "\<exists>ps t. clock_master_sync_send_sm sample_io sample_platform sample_cmss 1001000000 = Some (t, Return ps) \<and>
    nsec (ps_upstreamTxTime ps) = 1000 \<and> origin_time ps = 6000"
proof -
  have w: "cmss_waiting sample_cmss" "1001000000 \<ge> nsec (syncSendTime sample_cmss)" "nsec2ts_ok sample_io"
    using sample_running by (simp_all add: cmss_waiting_def sample_cmss_def clock_master_sync_send_sm_init_def tas_running_def)
  have d: "domainNumber (ptasg sample_cmss) = 0" "thisClockIndex (ptasg sample_cmss) = 1" "cmss_gcd sample_cmss = sample_offset_gcd"
    by (simp_all add: sample_cmss_def clock_master_sync_send_sm_init_def sample_ptasg_def zero_PerTimeAwareSystemGlobal_def)
  have f: "FN_ENTRY sample_offset_gcd 1 0 = Some 1" "FN_ENTRY sample_offset_gcd 0 0 = Some 0"
    by (simp_all add: sample_offset_gcd_def FN_ENTRY_def get_clockod_def is_clock_def pp_of_def PTPFD_VALID_def
        set_clock_def sample_gcd_defs upt_rec)
  have g: "gptpclock_getts64 sample_platform 1 0 sample_offset_gcd = (1000, sample_offset_gcd\<lparr>hw_accesses := 1\<rparr>)"
    "master_value (sample_offset_gcd\<lparr>hw_accesses := 1\<rparr>) 0 1000 = 6000"
    by (simp_all add: gptpclock_getts64_def gptpclock_getts_od_def GPTP_CLOCK_GETTIME_def master_value_def
        gptpclock_apply_offset_def f) (simp_all add: sample_offset_gcd_def set_clock_def sample_gcd_defs sample_platform_def)
  from own_sync_times_agree [OF w, unfolded d, OF g(1)] show ?thesis unfolding g(2) by simp
qed

section \<open>ClockMasterSyncOffset\<close>

datatype (plugins only: code) cmso_state = CMSO_INIT | CMSO_INITIALIZING | CMSO_SEND_SYNC_INDICATION | CMSO_REACTION

record clock_master_sync_offset_data = "cmso_state dom_sm" +
  rcvdSyncReceiptTime :: bool

definition cmso_allstate_condition :: "clock_master_sync_offset_data \<Rightarrow> clock_master_sync_offset_data" where
  "cmso_allstate_condition sm =
     (if BEGIN (ptasg sm) \<or> \<not> instanceEnable (ptasg sm) then sm\<lparr>state := CMSO_INITIALIZING\<rparr> else sm)"

definition cmso_initializing_proc :: "clock_master_sync_offset_data \<Rightarrow> clock_master_sync_offset_data" where
  "cmso_initializing_proc sm = sm\<lparr>rcvdSyncReceiptTime := False\<rparr>"

definition cmso_initializing_condition :: "clock_master_sync_offset_data \<Rightarrow> cmso_state" where
  "cmso_initializing_condition sm = (if rcvdSyncReceiptTime sm then CMSO_SEND_SYNC_INDICATION else CMSO_INITIALIZING)"

text \<open>The computation for a slave clock (port 0 passive) is commented out in the code.\<close>

definition cmso_send_sync_indication_proc :: "clock_master_sync_offset_data \<Rightarrow> clock_master_sync_offset_data" where
  "cmso_send_sync_indication_proc sm =
     (let pt = ptasg sm in
      sm\<lparr>ptasg := (if selectedState pt ! 0 \<noteq> PassivePort \<and>
             clockSourceTimeBaseIndicator pt \<noteq> clockSourceTimeBaseIndicatorOld pt
           then pt\<lparr>clockSourceFreqOffset := clockSourceLastGmFreqChange pt,
                  clockSourcePhaseOffset := clockSourceLastGmPhaseChange pt\<rparr>
           else pt),
         rcvdSyncReceiptTime := False\<rparr>)"

definition cmso_send_sync_indication_condition :: "clock_master_sync_offset_data \<Rightarrow> clock_master_sync_offset_data" where
  "cmso_send_sync_indication_condition sm = sm\<lparr>state := CMSO_SEND_SYNC_INDICATION,
     last_state := if rcvdSyncReceiptTime sm then CMSO_REACTION else last_state sm\<rparr>"

definition cmso_body ::
  "bool \<Rightarrow> clock_master_sync_offset_data \<Rightarrow> clock_master_sync_offset_data \<times> unit ctl" where
  "cmso_body state_change sm =
     (case state sm of
        CMSO_INIT \<Rightarrow> (sm\<lparr>state := CMSO_INITIALIZING\<rparr>, Next)
      | CMSO_INITIALIZING \<Rightarrow>
          (if state_change then (cmso_initializing_proc sm, Next)
           else (sm\<lparr>state := cmso_initializing_condition sm\<rparr>, Next))
      | CMSO_SEND_SYNC_INDICATION \<Rightarrow>
          (cmso_send_sync_indication_condition (if state_change then cmso_send_sync_indication_proc sm else sm), Next)
      | CMSO_REACTION \<Rightarrow> (sm, Next))"

definition clock_master_sync_offset_sm ::
  "clock_master_sync_offset_data \<Rightarrow> (clock_master_sync_offset_data \<times> unit ctl) option" where
  "clock_master_sync_offset_sm sm = sm_loop cmso_body (cmso_allstate_condition sm)"

definition clock_master_sync_offset_sm_init :: "PerTimeAwareSystemGlobal \<Rightarrow> clock_master_sync_offset_data" where
  "clock_master_sync_offset_sm_init pt =
     \<lparr>state = CMSO_INIT, last_state = CMSO_INIT, ptasg = pt, rcvdSyncReceiptTime = False\<rparr>"

definition clock_master_sync_offset_sm_SyncReceiptTime ::
  "clock_master_sync_offset_data \<Rightarrow> (clock_master_sync_offset_data \<times> unit ctl) option" where
  "clock_master_sync_offset_sm_SyncReceiptTime sm =
     clock_master_sync_offset_sm (sm\<lparr>last_state := CMSO_REACTION, rcvdSyncReceiptTime := True\<rparr>)"

fun cmso_rank :: "clock_master_sync_offset_data \<Rightarrow> nat" where
  "cmso_rank sm =
     (case state sm of
        CMSO_INIT \<Rightarrow> 4
      | CMSO_INITIALIZING \<Rightarrow> 3
      | CMSO_SEND_SYNC_INDICATION \<Rightarrow> if last_state sm = CMSO_SEND_SYNC_INDICATION then 2 else 1
      | CMSO_REACTION \<Rightarrow> 0)"

interpretation cmso: sm_safe cmso_body "\<lambda>_. True" cmso_rank
  by unfold_locales (auto simp: cmso_body_def Let_def cmso_initializing_proc_def cmso_initializing_condition_def
      cmso_send_sync_indication_proc_def cmso_send_sync_indication_condition_def split: cmso_state.splits if_splits)

end
