(* ===== verification/Gptp_ClockServo.thy ===== *)
theory Gptp_ClockServo
  imports Gptp_ClockFacts
begin

text \<open>
  The ClockMasterSyncReceive machine (\<^verbatim>\<open>clock_master_sync_receive_sm.c\<close>, 10.2.11 of the standard),
  which here is the servo that follows the grandmaster: it sets the offset of the master clock
  and the rate of the clock of the domain from the times that ClockSlaveSync has computed.
\<close>

section \<open>State\<close>

datatype (plugins only: code) cmsr_state = CMSR_INIT | CMSR_INITIALIZING | CMSR_WAITING | CMSR_RECEIVE_SOURCE_TIME | CMSR_REACTION

datatype (plugins only: code) offset_state = OFFSET_NOT_ADJ | OFFSET_START_ADJ | OFFSET_UNSTABLE_ADJ | OFFSET_STABLE_ADJ

text \<open>The values of the enumeration are compared by order.\<close>

fun offset_code :: "offset_state \<Rightarrow> int" where
  "offset_code OFFSET_NOT_ADJ = - 1"
| "offset_code OFFSET_START_ADJ = 0"
| "offset_code OFFSET_UNSTABLE_ADJ = 1"
| "offset_code OFFSET_STABLE_ADJ = 2"

text \<open>
  Signed variables are integers here: a sum or difference that leaves their type is undefined in C.
\<close>

record clock_master_sync_receive_data = "cmsr_state dom_sm" +
  rcvdClockSourceReq :: bool
  cmsr_rcvdLocalClockTick :: bool
  mrate :: real
  last_lts :: u64
  last_mts :: u64
  gmadjppb :: int
  alpha :: real
  rate_stable :: int
  offsetGM :: int
  offsetGM_stable :: offset_state
  cmsr_gmchange_ind :: int
  cmsr_gcd :: gptpclock_data

section \<open>Phase\<close>

definition CMSR_TOO_BIG_PASSTIME_GAP :: int where "CMSR_TOO_BIG_PASSTIME_GAP = UB_SEC_NS div 10"
definition FREQ_OFFSET_STABLE_TRNS :: int where "FREQ_OFFSET_STABLE_TRNS = 3"
definition FREQ_OFFSET_UNSTABLE_PPB :: int where "FREQ_OFFSET_UNSTABLE_PPB = 1000"
definition PHASE_NEWGM_CRITERION :: int where "PHASE_NEWGM_CRITERION = 1000000"
definition PHASE_STABLE_CRITERION :: int where "PHASE_STABLE_CRITERION = 10000"
definition PHASE_UNSTABLE_CRITERION :: int where "PHASE_UNSTABLE_CRITERION = 30000"
definition PHASE_OFFSET_ADJUST_BY_FREQ :: int where "PHASE_OFFSET_ADJUST_BY_FREQ = 100000"
definition SET_PHASE_OFFSETGM_NOOP_RETURN :: int where "SET_PHASE_OFFSETGM_NOOP_RETURN = - 99999999"

definition gm_ind :: "clock_master_sync_receive_data \<Rightarrow> int" where
  "gm_ind sm = gptpclock_get_gmchange_ind (domainNumber (ptasg sm)) (cmsr_gcd sm)"

text \<open>
  The parts of \<^verbatim>\<open>set_phase_offsetGM\<close>. A jump of the offset by a millisecond or more: the first one under
  the same grandmaster is ignored (\<open>True\<close>), otherwise the adjustment starts over.
\<close>

definition phase_jump :: "int \<Rightarrow> clock_master_sync_receive_data \<Rightarrow> bool \<times> clock_master_sync_receive_data" where
  "phase_jump dofg sm =
     (if dofg < PHASE_NEWGM_CRITERION then (False, sm)
      else if cmsr_gmchange_ind sm \<noteq> 0 \<and> cmsr_gmchange_ind sm = gm_ind sm \<and>
         offset_code (offsetGM_stable sm) \<ge> offset_code OFFSET_START_ADJ
      then (True, sm\<lparr>offsetGM_stable := OFFSET_NOT_ADJ\<rparr>)
      else (False, sm\<lparr>offsetGM_stable := OFFSET_START_ADJ\<rparr>))"

text \<open>The smoothed offset, with the weight \<open>1/a\<close> for the new value; division rounds towards zero.\<close>

definition phase_iir :: "int \<Rightarrow> int \<Rightarrow> int \<Rightarrow> int" where
  "phase_iir a dts old = c_div dts a + (a - 1) * c_div old a"

text \<open>\<open>None\<close> is the early return in OFFSET_STABLE_ADJ when the grandmaster has changed.\<close>

definition phase_filter ::
  "env \<Rightarrow> int \<Rightarrow> int \<Rightarrow> clock_master_sync_receive_data \<Rightarrow> int option \<times> clock_master_sync_receive_data" where
  "phase_filter e dts dofg sm =
     (case offsetGM_stable sm of
        OFFSET_UNSTABLE_ADJ \<Rightarrow>
          (Some (phase_iir (conf e CONF_PHASE_OFFSET_IIR_ALPHA_START_VALUE) dts (offsetGM sm)),
           if dofg < PHASE_STABLE_CRITERION
           then sm\<lparr>offsetGM_stable := OFFSET_STABLE_ADJ, cmsr_gmchange_ind := gm_ind sm\<rparr> else sm)
      | OFFSET_STABLE_ADJ \<Rightarrow>
          (if cmsr_gmchange_ind sm \<noteq> gm_ind sm then (None, sm\<lparr>offsetGM_stable := OFFSET_START_ADJ\<rparr>)
           else (Some (phase_iir (conf e CONF_PHASE_OFFSET_IIR_ALPHA_STABLE_VALUE) dts (offsetGM sm)),
                 if dofg > PHASE_UNSTABLE_CRITERION then sm\<lparr>offsetGM_stable := OFFSET_UNSTABLE_ADJ\<rparr> else sm))
      | _ \<Rightarrow> (Some dts, sm\<lparr>offsetGM_stable := OFFSET_UNSTABLE_ADJ\<rparr>))"

text \<open>A small correction is left to the frequency, a big one is set in the clock.\<close>

definition phase_apply ::
  "env \<Rightarrow> platform \<Rightarrow> int \<Rightarrow> clock_master_sync_receive_data \<Rightarrow> int \<times> clock_master_sync_receive_data" where
  "phase_apply e pf newoff sm =
     (let od = newoff - offsetGM sm;
          hw = conf e CONF_USE_HW_PHASE_ADJUSTMENT \<noteq> 0 \<and> domainNumber (ptasg sm) = 0;
          poabf = (if hw then PHASE_OFFSET_ADJUST_BY_FREQ * 10 else PHASE_OFFSET_ADJUST_BY_FREQ);
          ci = (if hw then thisClockIndex (ptasg sm) else 0)
      in if \<bar>od\<bar> < poabf \<and> conf e CONF_PHASE_ADJUSTMENT_BY_FREQ \<noteq> 0 then (od, sm)
         else (0, sm\<lparr>offsetGM := if hw then 0 else newoff,
                cmsr_gcd := snd (gptpclock_setoffset64 pf (of_int newoff) ci (domainNumber (ptasg sm)) (cmsr_gcd sm))\<rparr>))"

definition set_phase_offsetGM ::
  "env \<Rightarrow> platform \<Rightarrow> int \<Rightarrow> int \<Rightarrow> clock_master_sync_receive_data \<Rightarrow> int \<times> clock_master_sync_receive_data" where
  "set_phase_offsetGM e pf dts dlts sm =
     (let dofg = \<bar>dts - offsetGM sm\<bar>; (ignore, sm1) = phase_jump dofg sm
      in if ignore then (0, sm1)
         else if dlts < conf e CONF_CLOCK_COMPUTE_INTERVAL_MSEC * 1000000 \<and>
            offset_code (offsetGM_stable sm1) > offset_code OFFSET_START_ADJ
         then (SET_PHASE_OFFSETGM_NOOP_RETURN, sm1)
         else case phase_filter e dts dofg sm1 of
           (None, sm2) \<Rightarrow> (0, sm2)
         | (Some newoff, sm2) \<Rightarrow> phase_apply e pf newoff sm2)"

section \<open>Rate\<close>

text \<open>
  The conversion of a \<^verbatim>\<open>double\<close> to \<^verbatim>\<open>int\<close> is undefined when the value without its fraction is not
  representable, and so is that of the result of a division by zero.
\<close>

definition to_int32 :: "real \<Rightarrow> int option" where
  "to_int32 x = (if - (2 ^ 31) \<le> c_trunc x \<and> c_trunc x < 2 ^ 31 then Some (c_trunc x) else None)"

definition rate_filter :: "clock_master_sync_receive_data \<Rightarrow> int \<Rightarrow> int \<Rightarrow> int option" where
  "rate_filter sm dmts dlts =
     (if dlts = 0 then None
      else to_int32 ((alpha sm * (of_int dmts / of_int dlts) + (1 - alpha sm) * mrate sm - 1) * 10 ^ 9))"

definition iir_alpha :: "env \<Rightarrow> conf_item \<Rightarrow> real" where
  "iir_alpha e c = 1 / of_int (conf e c)"

definition rate_stability :: "env \<Rightarrow> int \<Rightarrow> clock_master_sync_receive_data \<Rightarrow> clock_master_sync_receive_data" where
  "rate_stability e ppb sm =
     (let sm1 = (if rate_stable sm < FREQ_OFFSET_STABLE_TRNS \<and> \<bar>ppb\<bar> < conf e CONF_FREQ_OFFSET_STABLE_PPB
            then sm\<lparr>alpha := if rate_stable sm + 1 \<ge> FREQ_OFFSET_STABLE_TRNS
                        then iir_alpha e CONF_FREQ_OFFSET_IIR_ALPHA_STABLE_VALUE else alpha sm,
                    rate_stable := rate_stable sm + 1\<rparr>
            else sm)
      in if \<bar>ppb\<bar> > FREQ_OFFSET_UNSTABLE_PPB
         then sm1\<lparr>alpha := iir_alpha e CONF_FREQ_OFFSET_IIR_ALPHA_START_VALUE, rate_stable := 0\<rparr> else sm1)"

definition clamp_adj :: "int \<Rightarrow> int \<Rightarrow> int" where
  "clamp_adj m x = (if x > m then m else if x < - m then - m else x)"

definition rate_apply :: "env \<Rightarrow> platform \<Rightarrow> int \<Rightarrow> clock_master_sync_receive_data \<Rightarrow> clock_master_sync_receive_data" where
  "rate_apply e pf ppb sm =
     (if \<bar>ppb\<bar> > conf e CONF_FREQ_OFFSET_UPDATE_MRATE_PPB
      then let adj = clamp_adj (conf e CONF_MAX_ADJUST_RATE_ON_CLOCK) (gmadjppb sm + ppb)
           in sm\<lparr>ptasg := (ptasg sm)\<lparr>gmRateRatio := 1\<rparr>, mrate := 1, gmadjppb := adj,
                 cmsr_gcd := snd (gptpclock_setadj pf adj (thisClockIndex (ptasg sm)) (domainNumber (ptasg sm)) (cmsr_gcd sm))\<rparr>
      else sm)"

text \<open>\<open>None\<close> is an undefined conversion.\<close>

definition computeGmRateRatio ::
  "env \<Rightarrow> platform \<Rightarrow> u64 \<Rightarrow> u64 \<Rightarrow> clock_master_sync_receive_data \<Rightarrow> (int \<times> clock_master_sync_receive_data) option" where
  "computeGmRateRatio e pf lts mts sm =
     (let dlts = sint (lts - last_lts sm);
          (offset_comp, sm1) = set_phase_offsetGM e pf (sint (mts - lts)) dlts sm
      in if offset_comp = SET_PHASE_OFFSETGM_NOOP_RETURN then Some (- 1, sm1)
         else let dmts = sint (mts - last_mts sm1); sm2 = sm1\<lparr>last_lts := lts, last_mts := mts\<rparr>
              in if \<bar>dmts - dlts\<bar> > CMSR_TOO_BIG_PASSTIME_GAP then Some (- 1, sm2)
                 else case rate_filter sm2 dmts dlts of
                   None \<Rightarrow> None
                 | Some ppb \<Rightarrow> Some (0, rate_apply e pf (ppb + offset_comp) (rate_stability e ppb sm2)))"

section \<open>The machine\<close>

definition cmsr_allstate_condition :: "clock_master_sync_receive_data \<Rightarrow> clock_master_sync_receive_data" where
  "cmsr_allstate_condition sm =
     (if BEGIN (ptasg sm) \<or> \<not> instanceEnable (ptasg sm) then sm\<lparr>state := CMSR_INITIALIZING\<rparr> else sm)"

definition cmsr_initializing_proc :: "env \<Rightarrow> clock_master_sync_receive_data \<Rightarrow> clock_master_sync_receive_data" where
  "cmsr_initializing_proc e sm = sm\<lparr>ptasg := (ptasg sm)\<lparr>clockSourceTimeBaseIndicatorOld := 0\<rparr>,
     rcvdClockSourceReq := False, cmsr_rcvdLocalClockTick := False, mrate := 1, last_lts := 0, last_mts := 0,
     alpha := iir_alpha e CONF_FREQ_OFFSET_IIR_ALPHA_START_VALUE, offsetGM := 0\<rparr>"

definition cmsr_waiting_condition :: "clock_master_sync_receive_data \<Rightarrow> cmsr_state" where
  "cmsr_waiting_condition sm =
     (if rcvdClockSourceReq sm \<or> cmsr_rcvdLocalClockTick sm then CMSR_RECEIVE_SOURCE_TIME else CMSR_WAITING)"

text \<open>The values that ClockSlaveSync has stored become those of the clock source.\<close>

definition cmsr_take_source ::
  "env \<Rightarrow> platform \<Rightarrow> clock_master_sync_receive_data \<Rightarrow> clock_master_sync_receive_data" where
  "cmsr_take_source e pf sm =
     (let pt = ptasg sm in
      sm\<lparr>ptasg := pt\<lparr>clockSourceTimeBaseIndicator := gmTimeBaseIndicator pt,
            clockSourceTimeBaseIndicatorOld := clockSourceTimeBaseIndicator pt,
            clockSourceLastGmPhaseChange := lastGmPhaseChange pt,
            clockSourceLastGmFreqChange := lastGmFreqChange pt\<rparr>,
         cmsr_gcd := snd (gptpclock_set_gmsync e pf 0 (domainNumber pt) (gmIdentity pt) False (cmsr_gcd sm))\<rparr>)"

definition source_mts :: "PerTimeAwareSystemGlobal \<Rightarrow> u64" where
  "source_mts pt = ucast (ext_seconds_lsb (syncReceiptTime pt)) * 1000000000 +
     ucast (fractionalNanoseconds_msb (syncReceiptTime pt))"

definition receive_source_time_proc ::
  "env \<Rightarrow> platform \<Rightarrow> clock_master_sync_receive_data \<Rightarrow> clock_master_sync_receive_data option" where
  "receive_source_time_proc e pf sm =
     (case (if rcvdClockSourceReq sm then
              map_option (\<lambda>(_, sm1). cmsr_take_source e pf sm1)
                (computeGmRateRatio e pf (nsec (syncReceiptLocalTime (ptasg sm))) (source_mts (ptasg sm)) sm)
            else Some sm) of
        None \<Rightarrow> None
      | Some sm1 \<Rightarrow> Some (sm1\<lparr>rcvdClockSourceReq := False, cmsr_rcvdLocalClockTick := False\<rparr>))"

definition cmsr_body ::
  "env \<Rightarrow> platform \<Rightarrow> bool \<Rightarrow> clock_master_sync_receive_data \<Rightarrow> clock_master_sync_receive_data \<times> unit ctl" where
  "cmsr_body e pf state_change sm =
     (case state sm of
        CMSR_INIT \<Rightarrow> (sm\<lparr>state := CMSR_INITIALIZING\<rparr>, Next)
      | CMSR_INITIALIZING \<Rightarrow>
          ((if state_change then cmsr_initializing_proc e sm else sm)\<lparr>state := CMSR_WAITING\<rparr>, Next)
      | CMSR_WAITING \<Rightarrow> (sm\<lparr>state := cmsr_waiting_condition sm\<rparr>, Next)
      | CMSR_RECEIVE_SOURCE_TIME \<Rightarrow>
          (case (if state_change then receive_source_time_proc e pf sm else Some sm) of
             None \<Rightarrow> (sm, Crash) | Some sm1 \<Rightarrow> (sm1\<lparr>state := CMSR_WAITING\<rparr>, Next))
      | CMSR_REACTION \<Rightarrow> (sm, Next))"

definition clock_master_sync_receive_sm ::
  "env \<Rightarrow> platform \<Rightarrow> clock_master_sync_receive_data \<Rightarrow> (clock_master_sync_receive_data \<times> unit ctl) option" where
  "clock_master_sync_receive_sm e pf sm = sm_loop (cmsr_body e pf) (cmsr_allstate_condition sm)"

definition zero_cmsr :: "PerTimeAwareSystemGlobal \<Rightarrow> gptpclock_data \<Rightarrow> clock_master_sync_receive_data" where
  "zero_cmsr pt g =
     \<lparr>state = CMSR_INIT, last_state = CMSR_INIT, ptasg = pt, rcvdClockSourceReq = False,
      cmsr_rcvdLocalClockTick = False, mrate = 0, last_lts = 0, last_mts = 0, gmadjppb = 0, alpha = 0,
      rate_stable = 0, offsetGM = 0, offsetGM_stable = OFFSET_START_ADJ, cmsr_gmchange_ind = 0, cmsr_gcd = g\<rparr>"

definition clock_master_sync_receive_sm_init ::
  "env \<Rightarrow> platform \<Rightarrow> PerTimeAwareSystemGlobal \<Rightarrow> gptpclock_data \<Rightarrow> (clock_master_sync_receive_data \<times> unit ctl) option" where
  "clock_master_sync_receive_sm_init e pf pt g = clock_master_sync_receive_sm e pf (zero_cmsr pt g)"

definition clock_master_sync_receive_sm_ClockSourceReq ::
  "env \<Rightarrow> platform \<Rightarrow> clock_master_sync_receive_data \<Rightarrow> (clock_master_sync_receive_data \<times> unit ctl) option" where
  "clock_master_sync_receive_sm_ClockSourceReq e pf sm =
     clock_master_sync_receive_sm e pf (sm\<lparr>last_state := CMSR_REACTION, rcvdClockSourceReq := True\<rparr>)"

section \<open>The contract of the machine\<close>

definition adj_bounded :: "env \<Rightarrow> clock_master_sync_receive_data \<Rightarrow> bool" where
  "adj_bounded e sm \<longleftrightarrow> \<bar>gmadjppb sm\<bar> \<le> \<bar>conf e CONF_MAX_ADJUST_RATE_ON_CLOCK\<bar>"

fun cmsr_rank :: "clock_master_sync_receive_data \<Rightarrow> nat" where
  "cmsr_rank sm =
     (case state sm of
        CMSR_INIT \<Rightarrow> 4
      | CMSR_INITIALIZING \<Rightarrow> 3
      | CMSR_WAITING \<Rightarrow> if rcvdClockSourceReq sm \<or> cmsr_rcvdLocalClockTick sm then 2 else 0
      | CMSR_RECEIVE_SOURCE_TIME \<Rightarrow> if last_state sm = CMSR_RECEIVE_SOURCE_TIME then 3 else 1
      | CMSR_REACTION \<Rightarrow> 0)"

lemma clamp_adj_bounded: "\<bar>clamp_adj m x\<bar> \<le> \<bar>m\<bar>"
  by (auto simp: clamp_adj_def)

text \<open>What the phase adjustment leaves as it is.\<close>

definition phase_frame :: "clock_master_sync_receive_data \<Rightarrow> clock_master_sync_receive_data \<Rightarrow> bool" where
  "phase_frame s t \<longleftrightarrow> state t = state s \<and> last_state t = last_state s \<and> ptasg t = ptasg s \<and> gmadjppb t = gmadjppb s \<and>
     last_lts t = last_lts s \<and> last_mts t = last_mts s \<and> alpha t = alpha s \<and> mrate t = mrate s \<and>
     rate_stable t = rate_stable s \<and> clock_view (cmsr_gcd t) = clock_view (cmsr_gcd s)"

lemma phase_frame_trans: "phase_frame s t \<Longrightarrow> phase_frame t u \<Longrightarrow> phase_frame s u"
  by (simp add: phase_frame_def)

lemma phase_frame_refl [simp]: "phase_frame s s"
  by (simp add: phase_frame_def)

lemma phase_frame_parts:
  "phase_frame s (snd (phase_jump d s))" "phase_frame s (snd (phase_filter e dts d s))"
  "phase_frame s (snd (phase_apply e pf n s))"
  by (simp_all add: phase_frame_def phase_jump_def phase_filter_def phase_apply_def Let_def split: offset_state.split)

lemma phase_frame_set: "phase_frame s (snd (set_phase_offsetGM e pf dts dlts s))"
proof -
  obtain b s1 where j: "phase_jump \<bar>dts - offsetGM s\<bar> s = (b, s1)" by fastforce
  obtain n s2 where f: "phase_filter e dts \<bar>dts - offsetGM s\<bar> s1 = (n, s2)" by fastforce
  have "phase_frame s s1" "phase_frame s1 s2" using phase_frame_parts(1,2) j f by (metis snd_conv)+
  then show ?thesis
    using phase_frame_trans [OF phase_frame_trans [OF \<open>phase_frame s s1\<close> \<open>phase_frame s1 s2\<close>] phase_frame_parts(3)]
      phase_frame_trans by (simp add: set_phase_offsetGM_def j f split: option.split)
qed

lemma set_phaseE:
  obtains c s1 where "set_phase_offsetGM e pf dts dlts s = (c, s1)" "phase_frame s s1"
  using phase_frame_set [of s e pf dts dlts] by (metis prod.collapse)

text \<open>What the computation of the rate keeps.\<close>

definition rate_frame :: "clock_master_sync_receive_data \<Rightarrow> clock_master_sync_receive_data \<Rightarrow> bool" where
  "rate_frame s t \<longleftrightarrow> state t = state s \<and> last_state t = last_state s \<and>
     (ptasg t)\<lparr>gmRateRatio := 1\<rparr> = (ptasg s)\<lparr>gmRateRatio := 1\<rparr> \<and> clock_view (cmsr_gcd t) = clock_view (cmsr_gcd s)"

lemma rate_apply_frame:
  "rate_frame s (rate_apply e pf ppb s)" "adj_bounded e s \<Longrightarrow> adj_bounded e (rate_apply e pf ppb s)"
  by (simp_all add: rate_frame_def rate_apply_def Let_def adj_bounded_def clamp_adj_bounded)

lemma rate_stability_frame [simp]:
  "state (rate_stability e ppb s) = state s" "last_state (rate_stability e ppb s) = last_state s"
  "ptasg (rate_stability e ppb s) = ptasg s" "cmsr_gcd (rate_stability e ppb s) = cmsr_gcd s"
  "gmadjppb (rate_stability e ppb s) = gmadjppb s"
  by (simp_all add: rate_stability_def Let_def)

lemma computeGmRateRatio_frame:
  assumes "computeGmRateRatio e pf lts mts s = Some (r, t)"
  shows "rate_frame s t" "adj_bounded e s \<Longrightarrow> adj_bounded e t"
proof -
  obtain c s1 where p: "set_phase_offsetGM e pf (sint (mts - lts)) (sint (lts - last_lts s)) s = (c, s1)" "phase_frame s s1"
    by (rule set_phaseE)
  let ?s2 = "s1\<lparr>last_lts := lts, last_mts := mts\<rparr>"
  have two: "rate_frame s s1" "rate_frame s ?s2" "gmadjppb ?s2 = gmadjppb s" "gmadjppb s1 = gmadjppb s"
    using p(2) unfolding phase_frame_def rate_frame_def by simp_all
  have rate: "rate_frame s (rate_apply e pf x (rate_stability e y ?s2))" for x y
    using rate_apply_frame(1) [of "rate_stability e y ?s2" e pf x] two(2) by (auto simp: rate_frame_def)
  have adj: "adj_bounded e s \<Longrightarrow> adj_bounded e (rate_apply e pf x (rate_stability e y ?s2))" for x y
    by (rule rate_apply_frame(2)) (use two(3) in \<open>simp add: adj_bounded_def\<close>)
  have "t = s1 \<or> t = ?s2 \<or> (\<exists>x y. t = rate_apply e pf x (rate_stability e y ?s2))"
    using assms p(1) by (auto simp: computeGmRateRatio_def Let_def split: if_splits option.splits)
  then show "rate_frame s t" "adj_bounded e s \<Longrightarrow> adj_bounded e t"
    using two rate adj by (auto simp: adj_bounded_def)
qed

lemma receive_source_time_frame:
  assumes "receive_source_time_proc e pf s = Some t"
  shows "state t = state s" "last_state t = last_state s" "\<not> rcvdClockSourceReq t" "\<not> cmsr_rcvdLocalClockTick t"
    "adj_bounded e s \<Longrightarrow> adj_bounded e t"
proof -
  have "state t = state s \<and> last_state t = last_state s \<and> \<not> rcvdClockSourceReq t \<and> \<not> cmsr_rcvdLocalClockTick t \<and>
    (adj_bounded e s \<longrightarrow> adj_bounded e t)"
  proof (cases "rcvdClockSourceReq s")
    case True
    with assms obtain r u where "computeGmRateRatio e pf (nsec (syncReceiptLocalTime (ptasg s))) (source_mts (ptasg s)) s = Some (r, u)"
      "t = (cmsr_take_source e pf u)\<lparr>rcvdClockSourceReq := False, cmsr_rcvdLocalClockTick := False\<rparr>"
      by (auto simp: receive_source_time_proc_def split: option.splits)
    with computeGmRateRatio_frame [OF this(1)] show ?thesis
      by (simp add: cmsr_take_source_def Let_def rate_frame_def adj_bounded_def)
  next
    case False
    with assms show ?thesis by (auto simp: receive_source_time_proc_def adj_bounded_def)
  qed
  then show "state t = state s" "last_state t = last_state s" "\<not> rcvdClockSourceReq t" "\<not> cmsr_rcvdLocalClockTick t"
    "adj_bounded e s \<Longrightarrow> adj_bounded e t" by blast+
qed

lemma cmsr_step_facts:
  assumes inv: "adj_bounded e s"
    and step: "cmsr_body e pf (last_state s \<noteq> state s) (s\<lparr>last_state := state s\<rparr>) = (t, c)"
  shows "adj_bounded e t \<and> (c = Next \<and> last_state t \<noteq> state t \<longrightarrow> cmsr_rank t < cmsr_rank s)"
proof (cases "state s = CMSR_RECEIVE_SOURCE_TIME \<and> last_state s \<noteq> CMSR_RECEIVE_SOURCE_TIME")
  case True
  let ?u = "s\<lparr>last_state := CMSR_RECEIVE_SOURCE_TIME\<rparr>"
  have u: "adj_bounded e ?u" using inv by (simp add: adj_bounded_def)
  show ?thesis
  proof (cases "receive_source_time_proc e pf ?u")
    case None
    then have "t = ?u" "c = Crash" using step True by (simp_all add: cmsr_body_def)
    with u show ?thesis by simp
  next
    case (Some w)
    then have "t = w\<lparr>state := CMSR_WAITING\<rparr>" using step True by (simp add: cmsr_body_def)
    with receive_source_time_frame [OF Some] u True show ?thesis by (simp add: adj_bounded_def)
  qed
next
  case False
  then show ?thesis using inv step
    by (cases "state s") (auto simp: cmsr_body_def adj_bounded_def cmsr_initializing_proc_def cmsr_waiting_condition_def
        split: if_splits)
qed

interpretation cmsr: sm_machine "cmsr_body e pf" "adj_bounded e" cmsr_rank for e pf
  by unfold_locales (use cmsr_step_facts in blast)+

section \<open>One step of the rate\<close>

lemma c_trunc_close:
  "\<bar>x - of_int (c_trunc x)\<bar> < 1" "\<bar>of_int (c_trunc x)\<bar> \<le> \<bar>x\<bar>" "0 \<le> x \<Longrightarrow> 0 \<le> c_trunc x" "x \<le> 0 \<Longrightarrow> c_trunc x \<le> 0"
  unfolding c_trunc_def by (cases "0 \<le> x"; simp; linarith)+

text \<open>When the grandmaster's clock has gained \<open>x\<close> parts in \<open>10 ^ 9\<close> against the local one.\<close>

lemma rate_step:
  assumes p: "set_phase_offsetGM e pf (sint (mts - lts)) (sint (lts - last_lts sm)) sm = (c, s1)"
    "c \<noteq> SET_PHASE_OFFSETGM_NOOP_RETURN"
    and d: "sint (lts - last_lts sm) \<noteq> 0" "mrate sm = 1"
    and x: "real_of_int (sint (mts - last_mts sm)) = of_int (sint (lts - last_lts sm)) * (1 + x / 10 ^ 9)"
    and "\<bar>sint (mts - last_mts sm) - sint (lts - last_lts sm)\<bar> \<le> CMSR_TOO_BIG_PASSTIME_GAP" "\<bar>alpha sm * x\<bar> < 2 ^ 31"
  shows "computeGmRateRatio e pf lts mts sm = Some (0, rate_apply e pf (c_trunc (alpha sm * x) + c)
     (rate_stability e (c_trunc (alpha sm * x)) (s1\<lparr>last_lts := lts, last_mts := mts\<rparr>)))"
proof -
  define dl where "dl = sint (lts - last_lts sm)"
  define dm where "dm = sint (mts - last_mts sm)"
  have f: "phase_frame sm s1" using phase_frame_set [of sm e pf] p(1) by (metis snd_conv)
  then have s1: "last_mts s1 = last_mts sm" "alpha s1 = alpha sm" "mrate s1 = 1" using d(2) by (simp_all add: phase_frame_def)
  have q: "of_int dm / of_int dl = 1 + x / 10 ^ 9" using x d(1) unfolding dm_def [symmetric] dl_def [symmetric] by simp
  have "(alpha sm * (of_int dm / of_int dl) + (1 - alpha sm) * 1 - 1) * 10 ^ 9 = alpha sm * x"
    unfolding q by (simp add: algebra_simps)
  moreover have "real_of_int \<bar>c_trunc (alpha sm * x)\<bar> < of_int (2 ^ 31)"
    using c_trunc_close(2) [of "alpha sm * x"] assms(7) by simp
  then have "\<bar>c_trunc (alpha sm * x)\<bar> < 2 ^ 31" by (simp only: of_int_less_iff)
  ultimately have "rate_filter (s1\<lparr>last_lts := lts, last_mts := mts\<rparr>) dm dl = Some (c_trunc (alpha sm * x))"
    using d(1) s1 by (simp add: rate_filter_def to_int32_def dl_def [symmetric] abs_less_iff)
  then show ?thesis
    using p assms(6) s1(1) by (simp add: computeGmRateRatio_def Let_def dl_def dm_def)
qed

lemma rate_apply_adj:
  assumes "\<bar>gmadjppb s + ppb\<bar> \<le> conf e CONF_MAX_ADJUST_RATE_ON_CLOCK"
  shows "gmadjppb (rate_apply e pf ppb s) - gmadjppb s =
    (if \<bar>ppb\<bar> > conf e CONF_FREQ_OFFSET_UPDATE_MRATE_PPB then ppb else 0)"
proof -
  have "clamp_adj m y = y" if "\<bar>y\<bar> \<le> m" for m y using that by (auto simp: clamp_adj_def)
  from this [OF assms] show ?thesis by (simp add: rate_apply_def Let_def)
qed


section \<open>Requests of a clock source\<close>

text \<open>A running machine between requests.\<close>

definition cmsr_resting :: "clock_master_sync_receive_data \<Rightarrow> bool" where
  "cmsr_resting sm \<longleftrightarrow> tas_running (ptasg sm) \<and> state sm = CMSR_WAITING"

lemma cmsr_running: "tas_running (ptasg sm) \<Longrightarrow> cmsr_allstate_condition sm = sm"
  by (simp add: cmsr_allstate_condition_def tas_running_def)

lemma cmsr_waiting_rests:
  assumes "state s = CMSR_WAITING" "\<not> rcvdClockSourceReq s" "\<not> cmsr_rcvdLocalClockTick s"
  shows "sm_loop (cmsr_body e pf) s = Some (s\<lparr>last_state := CMSR_WAITING\<rparr>, Next)"
  by (rule sm_loop_rest) (use assms in \<open>simp_all add: sm_step_def cmsr_body_def cmsr_waiting_condition_def\<close>)

text \<open>A request is one run of the procedure of RECEIVE_SOURCE_TIME.\<close>

lemma cmsr_request_run:
  assumes "cmsr_resting sm"
  defines "u \<equiv> sm\<lparr>state := CMSR_RECEIVE_SOURCE_TIME, last_state := CMSR_RECEIVE_SOURCE_TIME, rcvdClockSourceReq := True\<rparr>"
  shows "clock_master_sync_receive_sm_ClockSourceReq e pf sm =
    (case receive_source_time_proc e pf u of
       None \<Rightarrow> Some (u, Crash)
     | Some t \<Rightarrow> Some (t\<lparr>state := CMSR_WAITING, last_state := CMSR_WAITING\<rparr>, Next))"
proof -
  let ?s = "sm\<lparr>last_state := CMSR_REACTION, rcvdClockSourceReq := True\<rparr>"
  let ?t = "sm\<lparr>state := CMSR_RECEIVE_SOURCE_TIME, last_state := CMSR_WAITING, rcvdClockSourceReq := True\<rparr>"
  have "tas_running (ptasg ?s)" using assms(1) by (simp add: cmsr_resting_def)
  then have run: "clock_master_sync_receive_sm_ClockSourceReq e pf sm = sm_loop (cmsr_body e pf) ?s"
    unfolding clock_master_sync_receive_sm_ClockSourceReq_def clock_master_sync_receive_sm_def by (simp only: cmsr_running)
  have "sm_step (cmsr_body e pf) ?s = (?t, Next)"
    using assms(1) by (simp add: cmsr_resting_def sm_step_entered cmsr_body_def cmsr_waiting_condition_def)
  from sm_loop_again [OF this] have go: "sm_loop (cmsr_body e pf) ?s = sm_loop (cmsr_body e pf) ?t" by simp
  have u: "?t\<lparr>last_state := CMSR_RECEIVE_SOURCE_TIME\<rparr> = u" by (simp add: u_def)
  show ?thesis
  proof (cases "receive_source_time_proc e pf u")
    case None
    then have "sm_step (cmsr_body e pf) ?t = (u, Crash)"
      by (simp add: sm_step_entered cmsr_body_def u) (simp add: u_def)
    from sm_loop_out [OF this] run go None show ?thesis by simp
  next
    case (Some w)
    then have "sm_step (cmsr_body e pf) ?t = (w\<lparr>state := CMSR_WAITING\<rparr>, Next)"
      by (simp add: sm_step_entered cmsr_body_def u) (simp add: u_def)
    from sm_loop_again [OF this] cmsr_waiting_rests [of "w\<lparr>state := CMSR_WAITING\<rparr>" e pf] receive_source_time_frame [OF Some]
      run go Some show ?thesis by (simp add: u_def)
  qed
qed

text \<open>The states that a machine reaches by requests; between them other machines change the shared variables
  and the clocks.\<close>

inductive cmsr_reach :: "env \<Rightarrow> clock_master_sync_receive_data \<Rightarrow> bool" for e where
  init: "clock_master_sync_receive_sm_init e pf pt g = Some (sm, Next) \<Longrightarrow> cmsr_reach e sm"
| request: "cmsr_reach e sm \<Longrightarrow>
    clock_master_sync_receive_sm_ClockSourceReq e pf (sm\<lparr>ptasg := pt, cmsr_gcd := g\<rparr>) = Some (sm', Next) \<Longrightarrow>
    cmsr_reach e sm'"

lemma adj_bounded_frame [simp]:
  "adj_bounded e (s\<lparr>ptasg := pt\<rparr>) = adj_bounded e s" "adj_bounded e (s\<lparr>cmsr_gcd := g\<rparr>) = adj_bounded e s"
  "adj_bounded e (s\<lparr>last_state := l\<rparr>) = adj_bounded e s" "adj_bounded e (s\<lparr>rcvdClockSourceReq := b\<rparr>) = adj_bounded e s"
  "adj_bounded e (cmsr_allstate_condition s) = adj_bounded e s" "adj_bounded e (zero_cmsr pt g)"
  by (simp_all add: adj_bounded_def cmsr_allstate_condition_def zero_cmsr_def)


lemma sample_cmsr_init:
  "clock_master_sync_receive_sm_init e pf sample_ptasg g = Some ((zero_cmsr sample_ptasg g)\<lparr>state := CMSR_WAITING,
     last_state := CMSR_WAITING, ptasg := sample_ptasg\<lparr>clockSourceTimeBaseIndicatorOld := 0\<rparr>, mrate := 1,
     alpha := iir_alpha e CONF_FREQ_OFFSET_IIR_ALPHA_START_VALUE\<rparr>, Next)"
proof -
  let ?a = "(zero_cmsr sample_ptasg g)\<lparr>state := CMSR_INITIALIZING, last_state := CMSR_INIT\<rparr>"
  let ?b = "(zero_cmsr sample_ptasg g)\<lparr>state := CMSR_WAITING, last_state := CMSR_INITIALIZING,
     ptasg := sample_ptasg\<lparr>clockSourceTimeBaseIndicatorOld := 0\<rparr>, mrate := 1,
     alpha := iir_alpha e CONF_FREQ_OFFSET_IIR_ALPHA_START_VALUE\<rparr>"
  have "cmsr_allstate_condition (zero_cmsr sample_ptasg g) = zero_cmsr sample_ptasg g"
    using sample_running by (intro cmsr_running) (simp add: zero_cmsr_def)
  moreover have "sm_step (cmsr_body e pf) (zero_cmsr sample_ptasg g) = (?a, Next)"
    by (simp add: sm_step_def cmsr_body_def zero_cmsr_def)
  moreover have "sm_step (cmsr_body e pf) ?a = (?b, Next)"
    by (simp add: sm_step_def cmsr_body_def zero_cmsr_def cmsr_initializing_proc_def)
  ultimately show ?thesis
    using sm_loop_again [of "cmsr_body e pf" "zero_cmsr sample_ptasg g" ?a] sm_loop_again [of "cmsr_body e pf" ?a ?b]
      cmsr_waiting_rests [of ?b e pf]
    by (simp add: clock_master_sync_receive_sm_init_def clock_master_sync_receive_sm_def zero_cmsr_def)
qed


subsection \<open>The status of the domain\<close>

lemma rate_frameD:
  assumes "rate_frame s t"
  shows "domainNumber (ptasg t) = domainNumber (ptasg s)" "gmTimeBaseIndicator (ptasg t) = gmTimeBaseIndicator (ptasg s)"
    "lastGmPhaseChange (ptasg t) = lastGmPhaseChange (ptasg s)" "lastGmFreqChange (ptasg t) = lastGmFreqChange (ptasg s)"
    "clock_view (cmsr_gcd t) = clock_view (cmsr_gcd s)"
proof -
  have e: "(ptasg t)\<lparr>gmRateRatio := 1\<rparr> = (ptasg s)\<lparr>gmRateRatio := 1\<rparr>" using assms by (simp add: rate_frame_def)
  show "domainNumber (ptasg t) = domainNumber (ptasg s)" using arg_cong [OF e, of domainNumber] by simp
  show "gmTimeBaseIndicator (ptasg t) = gmTimeBaseIndicator (ptasg s)" using arg_cong [OF e, of gmTimeBaseIndicator] by simp
  show "lastGmPhaseChange (ptasg t) = lastGmPhaseChange (ptasg s)" using arg_cong [OF e, of lastGmPhaseChange] by simp
  show "lastGmFreqChange (ptasg t) = lastGmFreqChange (ptasg s)" using arg_cong [OF e, of lastGmFreqChange] by simp
  show "clock_view (cmsr_gcd t) = clock_view (cmsr_gcd s)" using assms by (simp add: rate_frame_def)
qed

text \<open>A request that the servo handles makes the domain synchronised, also when it only comes from the local
  clock, and passes the grandmaster's time base and last changes on to the clock source.\<close>

theorem source_request_marks_synced:
  assumes "cmsr_resting sm" "clock_wf (cmsr_gcd sm)" "FN_ENTRY (cmsr_gcd sm) 0 (domainNumber (ptasg sm)) = Some i"
    and run: "clock_master_sync_receive_sm_ClockSourceReq e pf sm = Some (t, Next)"
  shows "gptpclock_get_gmsync 0 (domainNumber (ptasg sm)) (cmsr_gcd t) = 1 \<and>
    clockSourceTimeBaseIndicator (ptasg t) = gmTimeBaseIndicator (ptasg sm) \<and>
    clockSourceLastGmPhaseChange (ptasg t) = lastGmPhaseChange (ptasg sm) \<and>
    clockSourceLastGmFreqChange (ptasg t) = lastGmFreqChange (ptasg sm)"
proof -
  let ?u = "sm\<lparr>state := CMSR_RECEIVE_SOURCE_TIME, last_state := CMSR_RECEIVE_SOURCE_TIME, rcvdClockSourceReq := True\<rparr>"
  obtain w where w: "receive_source_time_proc e pf ?u = Some w" "t = w\<lparr>state := CMSR_WAITING, last_state := CMSR_WAITING\<rparr>"
    using run cmsr_request_run [OF assms(1), of e pf] by (auto split: option.splits)
  then obtain r v where v: "computeGmRateRatio e pf (nsec (syncReceiptLocalTime (ptasg sm))) (source_mts (ptasg sm)) ?u = Some (r, v)"
    "w = (cmsr_take_source e pf v)\<lparr>rcvdClockSourceReq := False, cmsr_rcvdLocalClockTick := False\<rparr>"
    by (auto simp: receive_source_time_proc_def split: option.splits)
  note f = rate_frameD [OF computeGmRateRatio_frame(1) [OF v(1)]]
  have cv: "clock_view (cmsr_gcd v) = clock_view (cmsr_gcd sm)" using f(5) by simp
  have "clock_wf (cmsr_gcd v)" "FN_ENTRY (cmsr_gcd v) 0 (domainNumber (ptasg sm)) = Some i"
    using view_wf [OF cv assms(2)] view_FN_ENTRY [OF cv assms(2)] assms(3) by simp_all
  from set_gmsync_synced [OF this] f show ?thesis
    by (simp add: w(2) v(2) cmsr_take_source_def Let_def)
qed

definition sample_cmsr :: clock_master_sync_receive_data where
  "sample_cmsr = (zero_cmsr (sample_ptasg
       \<lparr>syncReceiptTime := zero_ExtendedTimestamp\<lparr>fractionalNanoseconds_msb := 125000100\<rparr>,
        syncReceiptLocalTime := zero_UScaledNs\<lparr>nsec := 125000000\<rparr>\<rparr>) sample_gcd)
     \<lparr>state := CMSR_WAITING, last_state := CMSR_WAITING, mrate := 1, alpha := 1\<rparr>"

text \<open>A first request 125 ms after the start, with a grandmaster that is 100 ns ahead.\<close>

lemma sample_cmsr_computes:
  "computeGmRateRatio default_env pf 125000000 125000100
     (sample_cmsr\<lparr>state := CMSR_RECEIVE_SOURCE_TIME, last_state := CMSR_RECEIVE_SOURCE_TIME, rcvdClockSourceReq := True\<rparr>) \<noteq> None"
proof -
  let ?u = "sample_cmsr\<lparr>state := CMSR_RECEIVE_SOURCE_TIME, last_state := CMSR_RECEIVE_SOURCE_TIME, rcvdClockSourceReq := True\<rparr>"
  have d: "sint (125000100 - 125000000 :: u64) = 100" "sint (125000000 :: u64) = 125000000" "sint (125000100 :: u64) = 125000100"
    by simp_all
  have u: "last_lts ?u = 0" "last_mts ?u = 0" "mrate ?u = 1" "alpha ?u = 1" by (simp_all add: sample_cmsr_def zero_cmsr_def)
  have "set_phase_offsetGM default_env pf 100 125000000 ?u = (100, ?u\<lparr>offsetGM_stable := OFFSET_UNSTABLE_ADJ\<rparr>)"
    by (simp add: set_phase_offsetGM_def phase_jump_def phase_filter_def phase_apply_def sample_cmsr_def zero_cmsr_def
        PHASE_NEWGM_CRITERION_def PHASE_OFFSET_ADJUST_BY_FREQ_def)
  then show ?thesis
    using rate_step [of default_env pf 125000100 125000000 ?u 100 _ 800] d u
    by (simp add: SET_PHASE_OFFSETGM_NOOP_RETURN_def CMSR_TOO_BIG_PASSTIME_GAP_def UB_SEC_NS_def)
qed

theorem source_request_marks_synced_witness:
  "\<exists>t. clock_master_sync_receive_sm_ClockSourceReq default_env sample_platform sample_cmsr = Some (t, Next) \<and>
     gptpclock_get_gmsync 0 0 (cmsr_gcd t) = 1"
proof -
  let ?u = "sample_cmsr\<lparr>state := CMSR_RECEIVE_SOURCE_TIME, last_state := CMSR_RECEIVE_SOURCE_TIME, rcvdClockSourceReq := True\<rparr>"
  have m: "nsec (syncReceiptLocalTime (ptasg ?u)) = 125000000" "source_mts (ptasg ?u) = 125000100"
    by (simp_all add: sample_cmsr_def zero_cmsr_def source_mts_def zero_ExtendedTimestamp_def)
  have r: "cmsr_resting sample_cmsr"
    using sample_running by (simp add: cmsr_resting_def sample_cmsr_def tas_running_def zero_cmsr_def)
  have dn: "domainNumber (ptasg sample_cmsr) = 0" "cmsr_gcd sample_cmsr = sample_gcd"
    by (simp_all add: sample_cmsr_def zero_cmsr_def sample_ptasg_def zero_PerTimeAwareSystemGlobal_def)
  obtain w where "receive_source_time_proc default_env sample_platform ?u = Some w"
    using sample_cmsr_computes [of sample_platform] unfolding receive_source_time_proc_def m by auto
  then obtain t where t: "clock_master_sync_receive_sm_ClockSourceReq default_env sample_platform sample_cmsr = Some (t, Next)"
    using cmsr_request_run [OF r, of default_env sample_platform] by simp
  with source_request_marks_synced [OF r _ _ t] dn show ?thesis by simp
qed


section \<open>Errors\<close>

text \<open>When the machine starts and is asked before a Sync of a grandmaster has come, as for the
  first information of the local clock at a grandmaster, both time differences are zero, and the code
  converts the quotient of the zeros to an integer, which is undefined.\<close>

theorem first_own_sync_undefined:
  assumes "cmsr_resting sm" "offsetGM_stable sm = OFFSET_START_ADJ"
    and lts: "last_lts sm = nsec (syncReceiptLocalTime (ptasg sm))" and mts: "last_mts sm = source_mts (ptasg sm)"
    and jump: "\<bar>sint (source_mts (ptasg sm) - nsec (syncReceiptLocalTime (ptasg sm))) - offsetGM sm\<bar> < 1000000"
  shows "\<exists>t. clock_master_sync_receive_sm_ClockSourceReq e pf sm = Some (t, Crash)"
proof -
  let ?u = "sm\<lparr>state := CMSR_RECEIVE_SOURCE_TIME, last_state := CMSR_RECEIVE_SOURCE_TIME, rcvdClockSourceReq := True\<rparr>"
  define l where "l = nsec (syncReceiptLocalTime (ptasg sm))"
  define n where "n = source_mts (ptasg sm)"
  define dts where "dts = sint (n - l)"
  obtain c s1 where p: "set_phase_offsetGM e pf dts 0 ?u = (c, s1)" "phase_frame ?u s1" by (rule set_phaseE)
  have j: "phase_jump \<bar>dts - offsetGM ?u\<bar> ?u = (False, ?u)"
    using jump by (simp add: phase_jump_def PHASE_NEWGM_CRITERION_def dts_def n_def l_def)
  have "c = fst (phase_apply e pf dts (?u\<lparr>offsetGM_stable := OFFSET_UNSTABLE_ADJ\<rparr>))"
    using p(1) j assms(2) by (simp add: set_phase_offsetGM_def phase_filter_def split: if_splits)
  moreover have "fst (phase_apply e pf dts v) = 0 \<or> \<bar>fst (phase_apply e pf dts v)\<bar> < 1000000" for v
    by (simp add: phase_apply_def Let_def PHASE_OFFSET_ADJUST_BY_FREQ_def)
  ultimately have c: "c = 0 \<or> \<bar>c\<bar> < 1000000" by simp
  then have "c \<noteq> SET_PHASE_OFFSETGM_NOOP_RETURN" by (auto simp: SET_PHASE_OFFSETGM_NOOP_RETURN_def)
  moreover have "last_mts s1 = n" using p(2) mts by (simp add: phase_frame_def n_def)
  ultimately have "computeGmRateRatio e pf l n ?u = None"
    using p(1) lts by (simp add: computeGmRateRatio_def Let_def dts_def l_def rate_filter_def CMSR_TOO_BIG_PASSTIME_GAP_def
        UB_SEC_NS_def)
  then have "receive_source_time_proc e pf ?u = None" by (simp add: receive_source_time_proc_def l_def n_def)
  with cmsr_request_run [OF assms(1), of e pf] show ?thesis by simp
qed

lemma sample_source_times [simp]:
  "nsec (syncReceiptLocalTime sample_ptasg) = 0" "source_mts sample_ptasg = 0"
  by (simp_all add: sample_ptasg_def zero_PerTimeAwareSystemGlobal_def source_mts_def zero_ExtendedTimestamp_def zero_UScaledNs_def)

text \<open>The machine as its initialisation leaves it.\<close>

theorem first_own_sync_undefined_witness:
  "\<exists>sm t. clock_master_sync_receive_sm_init default_env sample_platform sample_ptasg sample_gcd = Some (sm, Next) \<and>
     clock_master_sync_receive_sm_ClockSourceReq default_env sample_platform sm = Some (t, Crash)"
proof -
  let ?s = "(zero_cmsr sample_ptasg sample_gcd)\<lparr>state := CMSR_WAITING,
     last_state := CMSR_WAITING, ptasg := sample_ptasg\<lparr>clockSourceTimeBaseIndicatorOld := 0\<rparr>, mrate := 1,
     alpha := iir_alpha default_env CONF_FREQ_OFFSET_IIR_ALPHA_START_VALUE\<rparr>"
  have m: "source_mts (sample_ptasg\<lparr>clockSourceTimeBaseIndicatorOld := 0\<rparr>) = 0"
    using sample_source_times(2) by (simp add: source_mts_def)
  have "\<exists>t. clock_master_sync_receive_sm_ClockSourceReq default_env sample_platform ?s = Some (t, Crash)"
    by (rule first_own_sync_undefined)
      (use sample_running in \<open>simp_all add: cmsr_resting_def tas_running_def zero_cmsr_def m\<close>)
  with sample_cmsr_init [of default_env sample_platform sample_gcd] show ?thesis by blast
qed

end
