(* ===== verification/Gptp_GmStable.thy ===== *)
theory Gptp_GmStable
  imports Gptp_Machines Gptp_ClockFacts
begin

text \<open>
  The GmStable machine (\<^verbatim>\<open>gm_stable_sm.c\<close>): the grandmaster of a domain counts as stable when
  it has not changed for some time. The machine tells the clocks, which use it to choose the
  active domain.
\<close>

section \<open>State and procedures\<close>

datatype (plugins only: code) gm_stable_state_t =
  GMS_INIT | GMS_INITIALIZE | GM_LOST | GM_UNSTABLE | GM_STABLE | GMS_REACTION

text \<open>\<open>gms_gcd\<close> is the state of the clocks.\<close>

record gm_stable_data = "gm_stable_state_t dom_sm" +
  gms_domainIndex :: int
  gm_stable_time :: u64
  gm_stable_timer_time :: u64
  gms_clockIdentity :: ClockIdentity
  gm_change :: bool
  gms_gcd :: gptpclock_data

definition gms_allstate_condition :: "gm_stable_data \<Rightarrow> gm_stable_state_t" where
  "gms_allstate_condition sm =
     (if BEGIN (ptasg sm) \<or> \<not> asCapableOrAll (ptasg sm) then GMS_INITIALIZE else state sm)"

text \<open>The clocks are told by the index of the domain where \<^verbatim>\<open>gptpclock_reset_gmsync\<close> expects its number.\<close>

definition gms_initialize_proc :: "env \<Rightarrow> gm_stable_data \<Rightarrow> gm_stable_data" where
  "gms_initialize_proc e sm =
     (let g = (if selectedState (ptasg sm) ! 0 \<noteq> SlavePort
               then snd (gptpclock_reset_gmsync 0 (of_int (gms_domainIndex sm)) (gms_gcd sm)) else gms_gcd sm)
      in sm\<lparr>ptasg := (ptasg sm)\<lparr>gm_stable_initdone := False\<rparr>,
            gm_stable_time := 0,
            gm_stable_timer_time := of_int (conf e CONF_INITIAL_GM_STABLE_TIME * 1000000),
            gms_gcd := gptpclock_set_gmstable e (gms_domainIndex sm) False g\<rparr>)"

text \<open>Any value but 0 counts as synced, the value of a failed lookup too.\<close>

definition gm_synced :: "gm_stable_data \<Rightarrow> bool" where
  "gm_synced sm \<longleftrightarrow> gptpclock_get_gmsync 0 (domainNumber (ptasg sm)) (gms_gcd sm) \<noteq> 0"

definition gms_initialize_condition :: "gm_stable_data \<Rightarrow> gm_stable_state_t" where
  "gms_initialize_condition sm =
     (if asCapableOrAll (ptasg sm) \<and> gm_synced sm then GM_UNSTABLE else GMS_INITIALIZE)"

definition gm_lost_proc :: "gm_stable_data \<Rightarrow> gm_stable_data" where
  "gm_lost_proc sm = sm\<lparr>gm_stable_time := 0, gm_change := False\<rparr>"

definition gm_lost_condition :: "gm_stable_data \<Rightarrow> gm_stable_state_t" where
  "gm_lost_condition sm = (if gm_synced sm then GM_UNSTABLE else GM_LOST)"

definition gm_unstable_proc :: "env \<Rightarrow> u64 \<Rightarrow> gm_stable_data \<Rightarrow> gm_stable_data" where
  "gm_unstable_proc e cts64 sm = sm\<lparr>gm_stable_time := cts64 + gm_stable_timer_time sm,
     gms_gcd := gptpclock_set_gmstable e (gms_domainIndex sm) False (gms_gcd sm)\<rparr>"

definition gm_unstable_condition :: "u64 \<Rightarrow> gm_stable_data \<Rightarrow> gm_stable_state_t" where
  "gm_unstable_condition cts64 sm =
     (if cts64 > gm_stable_time sm then GM_STABLE
      else if gm_change sm then GM_LOST else GM_UNSTABLE)"

definition gm_stable_proc :: "env \<Rightarrow> gm_stable_data \<Rightarrow> gm_stable_data" where
  "gm_stable_proc e sm = sm\<lparr>ptasg := (ptasg sm)\<lparr>gm_stable_initdone := True\<rparr>,
     gm_stable_time := 0,
     gm_stable_timer_time := of_int (conf e CONF_NORMAL_GM_STABLE_TIME * 1000000),
     gms_gcd := gptpclock_set_gmstable e (gms_domainIndex sm) True (gms_gcd sm)\<rparr>"

definition gm_stable_condition :: "gm_stable_data \<Rightarrow> gm_stable_state_t" where
  "gm_stable_condition sm = (if gm_change sm then GM_LOST else GM_STABLE)"

section \<open>The machine\<close>

definition gms_body :: "env \<Rightarrow> u64 \<Rightarrow> bool \<Rightarrow> gm_stable_data \<Rightarrow> gm_stable_data \<times> unit ctl" where
  "gms_body e cts64 state_change sm =
     (case state sm of
        GMS_INIT \<Rightarrow> (sm\<lparr>state := GMS_INITIALIZE\<rparr>, Next)
      | GMS_INITIALIZE \<Rightarrow>
          (let sm1 = (if state_change then gms_initialize_proc e sm else sm)
           in (sm1\<lparr>state := gms_initialize_condition sm1\<rparr>, Next))
      | GM_LOST \<Rightarrow>
          (let sm1 = (if state_change then gm_lost_proc sm else sm)
           in (sm1\<lparr>state := gm_lost_condition sm1\<rparr>, Next))
      | GM_UNSTABLE \<Rightarrow>
          (let sm1 = (if state_change then gm_unstable_proc e cts64 sm else sm)
           in (sm1\<lparr>state := gm_unstable_condition cts64 sm1\<rparr>, Next))
      | GM_STABLE \<Rightarrow>
          (let sm1 = (if state_change then gm_stable_proc e sm else sm)
           in (sm1\<lparr>state := gm_stable_condition sm1\<rparr>, Next))
      | GMS_REACTION \<Rightarrow> (sm, Next))"

definition gm_stable_sm :: "env \<Rightarrow> gm_stable_data \<Rightarrow> u64 \<Rightarrow> (gm_stable_data \<times> unit ctl) option" where
  "gm_stable_sm e sm cts64 = sm_loop (gms_body e cts64) (sm\<lparr>state := gms_allstate_condition sm\<rparr>)"

definition gm_stable_sm_init :: "int \<Rightarrow> PerTimeAwareSystemGlobal \<Rightarrow> gptpclock_data \<Rightarrow> gm_stable_data" where
  "gm_stable_sm_init di pt g =
     \<lparr>state = GMS_INIT, last_state = GMS_INIT, ptasg = pt, gms_domainIndex = di, gm_stable_time = 0,
      gm_stable_timer_time = 0, gms_clockIdentity = zero_clockid, gm_change = False, gms_gcd = g\<rparr>"

definition gm_stable_gm_change ::
  "env \<Rightarrow> gm_stable_data \<Rightarrow> ClockIdentity \<Rightarrow> u64 \<Rightarrow> (gm_stable_data \<times> unit ctl) option" where
  "gm_stable_gm_change e sm cid cts64 =
     (if gms_clockIdentity sm = cid then Some (sm, Next)
      else gm_stable_sm e (sm\<lparr>gms_clockIdentity := cid, gm_change := True\<rparr>) cts64)"

section \<open>The contract of the machine\<close>

text \<open>
  A pending change is taken at most once in a run: the measure counts the states that are still to
  come, with a pending change before those without.
\<close>

fun gms_rank :: "gm_stable_data \<Rightarrow> nat" where
  "gms_rank sm =
     (case state sm of
        GMS_INIT \<Rightarrow> 20
      | GMS_INITIALIZE \<Rightarrow> if last_state sm = GMS_INITIALIZE then 19 else 18
      | GM_LOST \<Rightarrow> if gm_change sm \<and> last_state sm = GM_LOST then 17 else if gm_change sm then 12 else 11
      | GM_UNSTABLE \<Rightarrow> (if gm_change sm then 14 else 8) + (if last_state sm = GM_UNSTABLE then 1 else 0)
      | GM_STABLE \<Rightarrow> if gm_change sm then 13 else 7
      | GMS_REACTION \<Rightarrow> 0)"

lemma gms_frame [simp]:
  "state (gms_initialize_proc e s) = state s" "last_state (gms_initialize_proc e s) = last_state s"
  "gm_change (gms_initialize_proc e s) = gm_change s"
  "state (gm_unstable_proc e c s) = state s" "last_state (gm_unstable_proc e c s) = last_state s"
  "gm_change (gm_unstable_proc e c s) = gm_change s" "ptasg (gm_unstable_proc e c s) = ptasg s"
  "gm_stable_time (gm_unstable_proc e c s) = c + gm_stable_timer_time s"
  "gm_stable_timer_time (gm_unstable_proc e c s) = gm_stable_timer_time s"
  "gms_domainIndex (gm_unstable_proc e c s) = gms_domainIndex s"
  "gms_clockIdentity (gm_unstable_proc e c s) = gms_clockIdentity s"
  "state (gm_stable_proc e s) = state s" "last_state (gm_stable_proc e s) = last_state s"
  "gm_change (gm_stable_proc e s) = gm_change s"
  "gms_domainIndex (gm_stable_proc e s) = gms_domainIndex s"
  "state (gm_lost_proc s) = state s" "last_state (gm_lost_proc s) = last_state s"
  "\<not> gm_change (gm_lost_proc s)" "gms_gcd (gm_lost_proc s) = gms_gcd s" "ptasg (gm_lost_proc s) = ptasg s"
  by (simp_all add: gms_initialize_proc_def gm_unstable_proc_def gm_stable_proc_def gm_lost_proc_def Let_def)

lemma gms_step_rank:
  assumes "gms_body e cts (last_state s \<noteq> state s) (s\<lparr>last_state := state s\<rparr>) = (t, c)" "last_state t \<noteq> state t"
  shows "gms_rank t < gms_rank s"
proof (cases "state s")
  case GMS_INIT
  with assms show ?thesis by (auto simp: gms_body_def)
next
  case GMS_INITIALIZE
  with assms show ?thesis
    by (auto simp: gms_body_def Let_def gms_initialize_condition_def split: if_splits)
next
  case GM_LOST
  with assms show ?thesis
    by (auto simp: gms_body_def Let_def gm_lost_condition_def split: if_splits)
next
  case GM_UNSTABLE
  with assms show ?thesis
    by (auto simp: gms_body_def Let_def gm_unstable_condition_def split: if_splits)
next
  case GM_STABLE
  with assms show ?thesis
    by (auto simp: gms_body_def Let_def gm_stable_condition_def split: if_splits)
next
  case GMS_REACTION
  with assms show ?thesis by (auto simp: gms_body_def)
qed

lemma gms_step_safe:
  "snd (gms_body e cts ch s) = Next"
  by (cases "state s") (simp_all add: gms_body_def Let_def)

interpretation gms: sm_safe "gms_body e cts" "\<lambda>_. True" gms_rank for e cts
proof unfold_locales
  show "\<And>s s'. gms_body e cts (last_state s \<noteq> state s) (s\<lparr>last_state := state s\<rparr>) \<noteq> (s', Crash)"
    using gms_step_safe [of e cts] by (metis ctl.distinct(3) snd_conv)
qed (use gms_step_rank in blast)+

section \<open>When a grandmaster counts as stable\<close>

text \<open>The machine is called again and again, at the times \<open>ts\<close>.\<close>

fun gms_ticks :: "env \<Rightarrow> gm_stable_data \<Rightarrow> u64 list \<Rightarrow> gm_stable_data option" where
  "gms_ticks e sm [] = Some sm"
| "gms_ticks e sm (t # ts) = (case gm_stable_sm e sm t of None \<Rightarrow> None | Some (sm1, c) \<Rightarrow> gms_ticks e sm1 ts)"

definition gms_running :: "gm_stable_data \<Rightarrow> bool" where
  "gms_running sm \<longleftrightarrow> \<not> BEGIN (ptasg sm) \<and> asCapableOrAll (ptasg sm)"

definition gms_domain_ok :: "gm_stable_data \<Rightarrow> bool" where
  "gms_domain_ok sm \<longleftrightarrow> 0 \<le> gms_domainIndex sm \<and> gms_domainIndex sm < max_domains (gms_gcd sm) \<and>
     clock_wf (gms_gcd sm)"

abbreviation reported_stable :: "gm_stable_data \<Rightarrow> bool" where
  "reported_stable sm \<equiv> gptpclock_get_gmstable (nat (gms_domainIndex sm)) (gms_gcd sm)"

lemma set_gmstable_max [simp]: "max_domains (gptpclock_set_gmstable e di st g) = max_domains g"
  by (simp add: gptpclock_set_gmstable_def gptpclock_update_active_domain_def set_pdd_def split: option.split)

lemma view_set_gmstable [simp]: "clock_view (gptpclock_set_gmstable e di st g) = clock_view g"
proof -
  have sw: "clock_view (snd (switch_active_domain d g)) = clock_view g" for d g
    by (simp add: switch_active_domain_def Let_def split: option.split)
  have "clock_view (snd (gptpclock_update_active_domain e g)) = clock_view g" for g
    by (simp add: gptpclock_update_active_domain_def sw split: option.split)
  then show ?thesis by (simp add: gptpclock_set_gmstable_def)
qed

lemma get_set_gmstable:
  assumes "clock_wf g" "0 \<le> di" "di < max_domains g"
  shows "gptpclock_get_gmstable (nat di) (gptpclock_set_gmstable e di st g) = st"
proof -
  have "nat di < length (pdd g)" using assms by (simp add: clock_wf_def)
  then show ?thesis using assms by (simp add: gptpclock_set_gmstable_def gptpclock_get_gmstable_def set_pdd_def)
qed

lemma gms_running_run: "gms_running sm \<Longrightarrow> gm_stable_sm e sm cts = sm_loop (gms_body e cts) sm"
  by (simp add: gm_stable_sm_def gms_allstate_condition_def gms_running_def)

lemma stable_rests:
  assumes "state s = GM_STABLE" "last_state s = GM_STABLE" "\<not> gm_change s"
  shows "sm_loop (gms_body e cts) s = Some (s, Next)"
proof -
  have "sm_step (gms_body e cts) s = (s, Next)"
    using assms by (simp add: sm_step_settled gms_body_def Let_def gm_stable_condition_def)
  then show ?thesis using assms sm_loop_rest [where body = "gms_body e cts"] by simp
qed

lemma unstable_waits:
  assumes "state s = GM_UNSTABLE" "last_state s = GM_UNSTABLE" "\<not> gm_change s" "cts \<le> gm_stable_time s"
  shows "sm_loop (gms_body e cts) s = Some (s, Next)"
proof -
  have "sm_step (gms_body e cts) s = (s, Next)"
    using assms by (simp add: sm_step_settled gms_body_def Let_def gm_unstable_condition_def)
  then show ?thesis using assms sm_loop_rest [where body = "gms_body e cts"] by simp
qed

lemma stable_entered:
  assumes "state s = GM_STABLE" "last_state s \<noteq> GM_STABLE" "\<not> gm_change s"
  shows "sm_loop (gms_body e cts) s = Some (gm_stable_proc e (s\<lparr>last_state := GM_STABLE\<rparr>), Next)"
proof -
  have "sm_step (gms_body e cts) s = (gm_stable_proc e (s\<lparr>last_state := GM_STABLE\<rparr>), Next)"
    using assms by (simp add: sm_step_entered gms_body_def Let_def gm_stable_condition_def gm_stable_proc_def)
  then show ?thesis using assms sm_loop_rest [where body = "gms_body e cts"] by simp
qed

lemma unstable_ends:
  assumes "state s = GM_UNSTABLE" "last_state s = GM_UNSTABLE" "\<not> gm_change s" "cts > gm_stable_time s"
  shows "sm_loop (gms_body e cts) s = Some (gm_stable_proc e (s\<lparr>state := GM_STABLE, last_state := GM_STABLE\<rparr>), Next)"
proof -
  have "sm_step (gms_body e cts) s = (s\<lparr>state := GM_STABLE\<rparr>, Next)"
    using assms by (simp add: sm_step_settled gms_body_def Let_def gm_unstable_condition_def)
  then have "sm_loop (gms_body e cts) s = sm_loop (gms_body e cts) (s\<lparr>state := GM_STABLE\<rparr>)"
    using assms(2) by (simp add: sm_loop_again [where body = "gms_body e cts"])
  then show ?thesis using stable_entered [of "s\<lparr>state := GM_STABLE\<rparr>"] assms(2,3) by simp
qed

text \<open>A stable grandmaster stays stable, an unstable one becomes stable with the first call after the quiet time.\<close>

lemma ticks_stable:
  assumes "gms_running s" "state s = GM_STABLE" "last_state s = GM_STABLE" "\<not> gm_change s"
  shows "gms_ticks e s ts = Some s"
  by (induction ts) (simp_all add: gms_running_run [OF assms(1)] stable_rests [OF assms(2-4)])

lemma ticks_unstable:
  assumes "gms_running s" "gms_domain_ok s" "state s = GM_UNSTABLE" "last_state s = GM_UNSTABLE" "\<not> gm_change s"
    and "\<not> reported_stable s"
  shows "\<exists>s'. gms_ticks e s ts = Some s' \<and> (reported_stable s' \<longleftrightarrow> (\<exists>t \<in> set ts. t > gm_stable_time s))"
proof (induction ts)
  case Nil
  then show ?case using assms by simp
next
  case (Cons t ts)
  show ?case
  proof (cases "t > gm_stable_time s")
    case False
    then have "gm_stable_sm e s t = Some (s, Next)"
      using gms_running_run [OF assms(1)] unstable_waits [OF assms(3-5)] by simp
    then show ?thesis using Cons.IH False by simp
  next
    case True
    let ?t = "gm_stable_proc e (s\<lparr>state := GM_STABLE, last_state := GM_STABLE\<rparr>)"
    have t: "gm_stable_sm e s t = Some (?t, Next)"
      using gms_running_run [OF assms(1)] unstable_ends [OF assms(3-5) True] by simp
    have "gms_running ?t" using assms(1) by (simp add: gms_running_def gm_stable_proc_def)
    then have "gms_ticks e ?t ts = Some ?t" using assms(5) by (intro ticks_stable) simp_all
    moreover have "reported_stable ?t"
      using assms(2) by (simp add: gm_stable_proc_def gms_domain_ok_def get_set_gmstable)
    ultimately show ?thesis using True t by auto
  qed
qed

text \<open>A change of the grandmaster restarts the quiet time, provided the domain is in sync.\<close>

definition gms_restarted :: "env \<Rightarrow> u64 \<Rightarrow> gm_stable_data \<Rightarrow> gm_stable_data" where
  "gms_restarted e cts s = gm_unstable_proc e cts
     (s\<lparr>state := GM_UNSTABLE, gm_stable_time := 0, gm_change := False, last_state := GM_UNSTABLE\<rparr>)"

definition gms_settled :: "u64 \<Rightarrow> gm_stable_data \<Rightarrow> bool" where
  "gms_settled cts sm \<longleftrightarrow> gms_running sm \<and> last_state sm = state sm \<and>
     (state sm = GM_STABLE \<or> state sm = GM_UNSTABLE \<and> cts \<le> gm_stable_time sm)"

lemma change_to_lost:
  assumes "gms_settled cts s" "gm_change s"
  shows "sm_loop (gms_body e cts) s = sm_loop (gms_body e cts) (s\<lparr>state := GM_LOST\<rparr>)"
proof -
  have "sm_step (gms_body e cts) s = (s\<lparr>state := GM_LOST\<rparr>, Next)"
    using assms by (auto simp: gms_settled_def sm_step_settled gms_body_def Let_def gm_stable_condition_def
        gm_unstable_condition_def)
  then show ?thesis using assms(1)
    by (intro sm_loop_again [where body = "gms_body e cts"]) (auto simp: gms_settled_def)
qed

lemma lost_entered:
  assumes "state s = GM_LOST" "last_state s \<noteq> GM_LOST"
  shows "sm_step (gms_body e cts) s =
    (s\<lparr>state := if gm_synced s then GM_UNSTABLE else GM_LOST, last_state := GM_LOST, gm_stable_time := 0,
       gm_change := False\<rparr>, Next)"
  using assms by (simp add: sm_step_entered gms_body_def Let_def gm_lost_proc_def gm_lost_condition_def gm_synced_def)

lemma unstable_entered:
  assumes "state s = GM_UNSTABLE" "last_state s \<noteq> GM_UNSTABLE" "\<not> gm_change s" "cts \<le> cts + gm_stable_timer_time s"
  shows "sm_loop (gms_body e cts) s = Some (gm_unstable_proc e cts (s\<lparr>last_state := GM_UNSTABLE\<rparr>), Next)"
proof -
  have "sm_step (gms_body e cts) s = (gm_unstable_proc e cts (s\<lparr>last_state := GM_UNSTABLE\<rparr>), Next)"
    using assms by (simp add: sm_step_entered gms_body_def Let_def gm_unstable_proc_def gm_unstable_condition_def)
  then show ?thesis using assms sm_loop_rest [where body = "gms_body e cts"] by simp
qed

lemma change_restarts:
  assumes "gms_settled cts s" "gm_change s" "gm_synced s" "cts \<le> cts + gm_stable_timer_time s"
  shows "gm_stable_sm e s cts = Some (gms_restarted e cts s, Next)"
proof -
  let ?u = "s\<lparr>state := GM_UNSTABLE, last_state := GM_LOST, gm_stable_time := 0, gm_change := False\<rparr>"
  have "sm_step (gms_body e cts) (s\<lparr>state := GM_LOST\<rparr>) = (?u, Next)"
    using lost_entered [of "s\<lparr>state := GM_LOST\<rparr>" e cts] assms(1,3) by (auto simp: gms_settled_def gm_synced_def)
  then have "sm_loop (gms_body e cts) (s\<lparr>state := GM_LOST\<rparr>) = sm_loop (gms_body e cts) ?u"
    by (simp add: sm_loop_again [where body = "gms_body e cts"])
  moreover have "sm_loop (gms_body e cts) ?u = Some (gms_restarted e cts s, Next)"
    using unstable_entered [of ?u cts e] assms(4) by (simp add: gms_restarted_def)
  moreover have "gm_stable_sm e s cts = sm_loop (gms_body e cts) s"
    using assms(1) by (simp add: gms_running_run gms_settled_def)
  ultimately show ?thesis using change_to_lost [OF assms(1,2)] by simp
qed

text \<open>C21: When the grandmaster of a domain that is in sync changes, the new one is reported to the clocks as stable
  exactly when the machine is called again after the quiet time, counted from the change: not by any call
  before, however many there are, and for good by the first call after it.\<close>

theorem new_gm_stable_after_quiet_time:
  assumes "gms_settled t0 sm" "gms_domain_ok sm" "gm_synced sm" "cid \<noteq> gms_clockIdentity sm"
    and "t0 \<le> t0 + gm_stable_timer_time sm"
  shows "\<exists>s. gm_stable_gm_change e sm cid t0 = Some (s, Next) \<and>
    (\<exists>s'. gms_ticks e s ts = Some s' \<and>
       (reported_stable s' \<longleftrightarrow> (\<exists>t \<in> set ts. t > t0 + gm_stable_timer_time sm)))"
proof -
  let ?s = "sm\<lparr>gms_clockIdentity := cid, gm_change := True\<rparr>"
  let ?r = "gms_restarted e t0 ?s"
  have "gm_stable_gm_change e sm cid t0 = Some (?r, Next)"
    using change_restarts [of t0 ?s e] assms by (simp add: gm_stable_gm_change_def gms_settled_def gms_running_def gm_synced_def)
  moreover have "\<exists>s'. gms_ticks e ?r ts = Some s' \<and> (reported_stable s' \<longleftrightarrow> (\<exists>t \<in> set ts. t > gm_stable_time ?r))"
  proof (rule ticks_unstable)
    show "gms_running ?r" using assms(1) by (simp add: gms_settled_def gms_running_def gms_restarted_def)
    show "gms_domain_ok ?r" using assms(2) view_wf [OF view_set_gmstable]
      by (simp add: gms_domain_ok_def gms_restarted_def gm_unstable_proc_def)
    show "\<not> reported_stable ?r" using assms(2)
      by (simp add: gms_domain_ok_def gms_restarted_def gm_unstable_proc_def get_set_gmstable)
  qed (simp_all add: gms_restarted_def)
  ultimately show ?thesis by (auto simp: gms_restarted_def)
qed

text \<open>
  A grandmaster that is lost (a change while the domain is out of sync) does not take the report back:
  the machine rests in GM_LOST and the clocks go on with the flag they had.
\<close>

theorem lost_gm_stays_reported:
  assumes "gms_settled t0 sm" "\<not> gm_synced sm" "cid \<noteq> gms_clockIdentity sm"
  shows "\<exists>s. gm_stable_gm_change e sm cid t0 = Some (s, Next) \<and> state s = GM_LOST \<and> gms_gcd s = gms_gcd sm"
proof -
  let ?s = "sm\<lparr>gms_clockIdentity := cid, gm_change := True\<rparr>"
  let ?u = "?s\<lparr>state := GM_LOST, last_state := GM_LOST, gm_stable_time := 0, gm_change := False\<rparr>"
  have g: "gms_settled t0 ?s" using assms(1) by (simp add: gms_settled_def gms_running_def)
  have "sm_step (gms_body e t0) (?s\<lparr>state := GM_LOST\<rparr>) = (?u, Next)"
    using lost_entered [of "?s\<lparr>state := GM_LOST\<rparr>" e t0] assms(1,2) by (auto simp: gms_settled_def gm_synced_def)
  then have "sm_loop (gms_body e t0) (?s\<lparr>state := GM_LOST\<rparr>) = Some (?u, Next)"
    by (simp add: sm_loop_rest [where body = "gms_body e t0"])
  moreover have "gm_stable_sm e ?s t0 = sm_loop (gms_body e t0) ?s"
    using g gms_running_run [of ?s e t0] by (simp add: gms_settled_def)
  ultimately have "gm_stable_sm e ?s t0 = Some (?u, Next)" using change_to_lost [OF g, of e] by simp
  then show ?thesis using assms(3) by (simp add: gm_stable_gm_change_def)
qed

text \<open>The machine of domain 0 of the sample clocks, in sync and at rest with a stable grandmaster.\<close>

definition sample_gms :: gm_stable_data where
  "sample_gms = (gm_stable_sm_init 0 (sample_ptasg\<lparr>asCapableOrAll := True\<rparr>)
       (sample_gcd\<lparr>gcpp := [zero_ppara\<lparr>pp_gmsync := True\<rparr>, zero_ppara\<lparr>pp_domainNumber := 1\<rparr>]\<rparr>))
     \<lparr>state := GM_STABLE, last_state := GM_STABLE, gm_stable_timer_time := 1000\<rparr>"

theorem new_gm_stable_after_quiet_time_witness:
  "\<exists>s. gm_stable_gm_change default_env sample_gms sample_peer 5000 = Some (s, Next) \<and>
    (\<exists>s'. gms_ticks default_env s [5500, 6000] = Some s' \<and> \<not> reported_stable s') \<and>
    (\<exists>s'. gms_ticks default_env s [5500, 6001, 6002] = Some s' \<and> reported_stable s')"
proof -
  have a: "gms_settled 5000 sample_gms"
    by (simp add: gms_settled_def sample_gms_def gms_running_def gm_stable_sm_init_def sample_ptasg_def
        zero_PerTimeAwareSystemGlobal_def)
  have b: "gms_domain_ok sample_gms"
    by (simp add: gms_domain_ok_def sample_gms_def gm_stable_sm_init_def clock_wf_def sample_gcd_defs)
  have c: "gm_synced sample_gms"
    by (simp add: gm_synced_def sample_gms_def gm_stable_sm_init_def gptpclock_get_gmsync_def FN_ENTRY_def
        get_clockod_def is_clock_def pp_of_def PTPFD_VALID_def sample_gcd_defs upt_rec sample_ptasg_def
        zero_PerTimeAwareSystemGlobal_def)
  have zc: "zero_clockid = [0, 0, 0, 0, 0, 0, 0, 0]" by (simp add: zero_clockid_def numeral_eq_Suc)
  have d: "sample_peer \<noteq> gms_clockIdentity sample_gms" "gm_stable_timer_time sample_gms = 1000"
    by (simp_all add: sample_gms_def gm_stable_sm_init_def sample_peer_def zc)
  show ?thesis
    using new_gm_stable_after_quiet_time [OF a b c d(1), of default_env "[5500, 6000]"]
      new_gm_stable_after_quiet_time [OF a b c d(1), of default_env "[5500, 6001, 6002]"] d(2) by auto
qed

end
