(* ===== verification/Gptp_Capable.thy ===== *)
theory Gptp_Capable
  imports Gptp_Machines
begin

text \<open>
  How two ports tell each other that they speak the protocol: the GptpCapableTransmit machine
  (\<^verbatim>\<open>gptp_capable_transmit_sm.c\<close>) sends a TLV at a fixed pace, the GptpCapableReceive machine
  (\<^verbatim>\<open>gptp_capable_receive_sm.c\<close>) believes in the neighbour as long as TLVs come in (10.4 of the
  standard).
\<close>

text \<open>The domain counts as enabled when all the peer delay requests that came in were those of the common service;
  the variable is an \<^verbatim>\<open>int8_t\<close>.\<close>

definition DOMAIN_ENABLED :: "('st, 'a) port_sm_scheme \<Rightarrow> bool" where
  "DOMAIN_ENABLED sm \<longleftrightarrow> sint (receivedNonCMLDSPdelayReq (forAllDomain (ppg sm))) = - 1"

definition capable_on :: "('st, 'a) port_sm_scheme \<Rightarrow> bool" where
  "capable_on sm \<longleftrightarrow> PORT_OPER sm \<and> PTP_PORT_ENABLED sm \<and> DOMAIN_ENABLED sm"

section \<open>GptpCapableReceive\<close>

datatype (plugins only: code) gcr_state =
  GCR_INIT | GCR_NOT_ENABLED | GCR_INITIALIZE | GCR_RECEIVED_TLV | GCR_REACTION

record gptp_capable_receive_data = "gcr_state port_sm" +
  rcvdGptpCapableTlv :: bool
  gcr_rcvdSignalingMsgPtr :: "PTPMsgGPTPCapableTLV option"
  gPtpCapableReceiptTimeoutInterval :: UScaledNs
  gcr_timeoutTime :: UScaledNs

definition gcr_allstate_condition :: "gptp_capable_receive_data \<Rightarrow> gcr_state" where
  "gcr_allstate_condition sm =
     (if BEGIN (ptasg sm) \<or> \<not> instanceEnable (ptasg sm) \<or> \<not> DOMAIN_ENABLED sm \<or>
         \<not> PORT_OPER sm \<or> \<not> PTP_PORT_ENABLED sm
      then GCR_NOT_ENABLED else state sm)"

definition gcr_not_enabled_condition :: "gptp_capable_receive_data \<Rightarrow> gcr_state" where
  "gcr_not_enabled_condition sm = (if capable_on sm then GCR_INITIALIZE else GCR_NOT_ENABLED)"

definition gcr_initialize_proc :: "gptp_capable_receive_data \<Rightarrow> gptp_capable_receive_data" where
  "gcr_initialize_proc sm =
     (if \<not> neighborGptpCapable (ppg sm) then sm
      else sm\<lparr>ppg := (ppg sm)\<lparr>neighborGptpCapable := False\<rparr>\<rparr>)"

definition gcr_initialize_condition :: "gptp_capable_receive_data \<Rightarrow> gcr_state" where
  "gcr_initialize_condition sm = (if rcvdGptpCapableTlv sm then GCR_RECEIVED_TLV else GCR_INITIALIZE)"

text \<open>The time without a TLV after which the neighbour is given up.\<close>

definition capable_timeout :: "env \<Rightarrow> PerPortGlobal \<Rightarrow> PTPMsgGPTPCapableTLV \<Rightarrow> u64" where
  "capable_timeout e p m = of_int (sint (gPtpCapableReceiptTimeout p)) *
     LOG_TO_NSEC e (sint (gc_logGptpCapableMessageInterval m))"

definition received_tlv_proc ::
  "env \<Rightarrow> u64 \<Rightarrow> gptp_capable_receive_data \<Rightarrow> gptp_capable_receive_data option" where
  "received_tlv_proc e cts64 sm =
     (case gcr_rcvdSignalingMsgPtr sm of
        None \<Rightarrow> None
      | Some m \<Rightarrow>
          let d = capable_timeout e (ppg sm) m;
              sm1 = sm\<lparr>rcvdGptpCapableTlv := False,
                gPtpCapableReceiptTimeoutInterval := (gPtpCapableReceiptTimeoutInterval sm)\<lparr>nsec := d\<rparr>,
                gcr_timeoutTime := (gcr_timeoutTime sm)\<lparr>nsec := cts64 + d\<rparr>\<rparr>
          in Some (if neighborGptpCapable (ppg sm1) then sm1
                   else sm1\<lparr>ppg := (ppg sm1)\<lparr>neighborGptpCapable := True\<rparr>\<rparr>))"

definition received_tlv_condition :: "u64 \<Rightarrow> gptp_capable_receive_data \<Rightarrow> gptp_capable_receive_data" where
  "received_tlv_condition cts64 sm =
     (if cts64 \<ge> nsec (gcr_timeoutTime sm) then sm\<lparr>state := GCR_INITIALIZE\<rparr>
      else if rcvdGptpCapableTlv sm then sm\<lparr>last_state := GCR_REACTION, state := GCR_RECEIVED_TLV\<rparr>
      else sm\<lparr>state := GCR_RECEIVED_TLV\<rparr>)"

definition gcr_body ::
  "env \<Rightarrow> u64 \<Rightarrow> bool \<Rightarrow> gptp_capable_receive_data \<Rightarrow> gptp_capable_receive_data \<times> unit ctl" where
  "gcr_body e cts64 state_change sm =
     (case state sm of
        GCR_INIT \<Rightarrow> (sm\<lparr>state := GCR_NOT_ENABLED\<rparr>, Next)
      | GCR_NOT_ENABLED \<Rightarrow> (sm\<lparr>state := gcr_not_enabled_condition sm\<rparr>, Next)
      | GCR_INITIALIZE \<Rightarrow>
          (let sm1 = (if state_change then gcr_initialize_proc sm else sm)
           in (sm1\<lparr>state := gcr_initialize_condition sm1\<rparr>, Next))
      | GCR_RECEIVED_TLV \<Rightarrow>
          (case (if state_change then received_tlv_proc e cts64 sm else Some sm) of
             None \<Rightarrow> (sm, Crash)
           | Some sm1 \<Rightarrow> (received_tlv_condition cts64 sm1, Next))
      | GCR_REACTION \<Rightarrow> (sm, Next))"

definition gptp_capable_receive_sm ::
  "env \<Rightarrow> gptp_capable_receive_data \<Rightarrow> u64 \<Rightarrow> (gptp_capable_receive_data \<times> unit ctl) option" where
  "gptp_capable_receive_sm e sm cts64 = sm_loop (gcr_body e cts64) (sm\<lparr>state := gcr_allstate_condition sm\<rparr>)"

definition gptp_capable_receive_sm_init ::
  "env \<Rightarrow> PerTimeAwareSystemGlobal \<Rightarrow> PerPortGlobal \<Rightarrow> (gptp_capable_receive_data \<times> unit ctl) option" where
  "gptp_capable_receive_sm_init e pt pp = gptp_capable_receive_sm e
     \<lparr>state = GCR_INIT, last_state = GCR_INIT, ptasg = pt, ppg = pp, rcvdGptpCapableTlv = False,
      gcr_rcvdSignalingMsgPtr = None, gPtpCapableReceiptTimeoutInterval = zero_UScaledNs,
      gcr_timeoutTime = zero_UScaledNs\<rparr> 0"

definition gptp_capable_receive_rcvdSignalingMsg ::
  "env \<Rightarrow> gptp_capable_receive_data \<Rightarrow> PTPMsgGPTPCapableTLV \<Rightarrow> u64 \<Rightarrow>
   (gptp_capable_receive_data \<times> unit ctl) option" where
  "gptp_capable_receive_rcvdSignalingMsg e sm m cts64 =
     gptp_capable_receive_sm e (sm\<lparr>rcvdGptpCapableTlv := True, gcr_rcvdSignalingMsgPtr := Some m\<rparr>) cts64"

section \<open>GptpCapableTransmit\<close>

datatype (plugins only: code) gct_state =
  GCT_INIT | GCT_NOT_ENABLED | GCT_INITIALIZE | GCT_TRANSMIT_TLV | GCT_REACTION

record gptp_capable_transmit_data = "gct_state port_sm" +
  signalingMsgTimeInterval :: UScaledNs
  gct_intervalTimer :: UScaledNs
  gct_signalingMsg :: PTPMsgGPTPCapableTLV

definition SET_RESET_FLAG_BIT :: "bool \<Rightarrow> u8 \<Rightarrow> nat \<Rightarrow> u8" where
  "SET_RESET_FLAG_BIT c x b = (if c then SET_FLAG_BIT x b else RESET_FLAG_BIT x b)"

definition setGptpCapableTlv :: "gptp_capable_transmit_data \<Rightarrow> PTPMsgGPTPCapableTLV" where
  "setGptpCapableTlv sm =
     (let m = gct_signalingMsg sm
      in m\<lparr>gc_tlvType := 3, gc_lengthField := 12, gc_organizationId := [0x00, 0x80, 0xC2],
           gc_organizationSubType := 4,
           gc_logGptpCapableMessageInterval := logGptpCapableMessageInterval (ppg sm),
           gc_flags := SET_RESET_FLAG_BIT (computeNeighborRateRatio (forAllDomain (ppg sm)))
             (SET_RESET_FLAG_BIT (computeNeighborPropDelay (forAllDomain (ppg sm))) (gc_flags m)
               COMPUTE_NEIGHBOR_PROP_DELAY_BIT) COMPUTE_NEIGHBOR_RATE_RATIO_BIT\<rparr>)"

definition gct_allstate_condition :: "gptp_capable_transmit_data \<Rightarrow> gct_state" where
  "gct_allstate_condition sm =
     (if BEGIN (ptasg sm) \<or> \<not> instanceEnable (ptasg sm) \<or> \<not> DOMAIN_ENABLED sm \<or>
         \<not> PORT_OPER sm \<or> \<not> PTP_PORT_ENABLED sm
      then GCT_NOT_ENABLED else state sm)"

definition gct_not_enabled_condition :: "gptp_capable_transmit_data \<Rightarrow> gct_state" where
  "gct_not_enabled_condition sm = (if capable_on sm then GCT_INITIALIZE else GCT_NOT_ENABLED)"

text \<open>\<^verbatim>\<open>UB_SEC_NS * (1 << x)\<close>; the shift is undefined for a negative or a large \<^verbatim>\<open>x\<close>, as in \<^verbatim>\<open>LOG_TO_NSEC\<close>.\<close>

definition capable_interval :: "env \<Rightarrow> PerPortGlobal \<Rightarrow> u64" where
  "capable_interval e p =
     (let x = sint (logGptpCapableMessageInterval p)
      in if 0 \<le> x \<and> x \<le> 30 then of_int (UB_SEC_NS * 2 ^ nat x) else log_undef e x)"

definition gct_initialize_proc :: "env \<Rightarrow> u64 \<Rightarrow> gptp_capable_transmit_data \<Rightarrow> gptp_capable_transmit_data" where
  "gct_initialize_proc e cts64 sm =
     sm\<lparr>signalingMsgTimeInterval := (signalingMsgTimeInterval sm)\<lparr>nsec := capable_interval e (ppg sm)\<rparr>,
        gct_intervalTimer := (gct_intervalTimer sm)\<lparr>nsec := cts64\<rparr>\<rparr>"

definition transmit_tlv_proc ::
  "gptp_capable_transmit_data \<Rightarrow> PTPMsgGPTPCapableTLV \<times> gptp_capable_transmit_data" where
  "transmit_tlv_proc sm =
     (let m = setGptpCapableTlv sm
      in (m, sm\<lparr>gct_intervalTimer := (gct_intervalTimer sm)
                  \<lparr>nsec := nsec (gct_intervalTimer sm) + nsec (signalingMsgTimeInterval sm)\<rparr>,
                gct_signalingMsg := m\<rparr>))"

definition transmit_tlv_condition :: "u64 \<Rightarrow> gptp_capable_transmit_data \<Rightarrow> gptp_capable_transmit_data" where
  "transmit_tlv_condition cts64 sm =
     (if cts64 \<ge> nsec (gct_intervalTimer sm) then sm\<lparr>last_state := GCT_REACTION, state := GCT_TRANSMIT_TLV\<rparr>
      else sm\<lparr>state := GCT_TRANSMIT_TLV\<rparr>)"

definition gct_body ::
  "env \<Rightarrow> u64 \<Rightarrow> bool \<Rightarrow> gptp_capable_transmit_data \<Rightarrow> gptp_capable_transmit_data \<times> PTPMsgGPTPCapableTLV ctl" where
  "gct_body e cts64 state_change sm =
     (case state sm of
        GCT_INIT \<Rightarrow> (sm\<lparr>state := GCT_NOT_ENABLED\<rparr>, Next)
      | GCT_NOT_ENABLED \<Rightarrow> (sm\<lparr>state := gct_not_enabled_condition sm\<rparr>, Next)
      | GCT_INITIALIZE \<Rightarrow>
          ((if state_change then gct_initialize_proc e cts64 sm else sm)\<lparr>state := GCT_TRANSMIT_TLV\<rparr>, Next)
      | GCT_TRANSMIT_TLV \<Rightarrow>
          (if state_change then (case transmit_tlv_proc sm of (m, sm1) \<Rightarrow> (sm1, Return m))
           else (transmit_tlv_condition cts64 sm, Next))
      | GCT_REACTION \<Rightarrow> (sm, Next))"

definition gptp_capable_transmit_sm ::
  "env \<Rightarrow> gptp_capable_transmit_data \<Rightarrow> u64 \<Rightarrow> (gptp_capable_transmit_data \<times> PTPMsgGPTPCapableTLV ctl) option" where
  "gptp_capable_transmit_sm e sm cts64 = sm_loop (gct_body e cts64) (sm\<lparr>state := gct_allstate_condition sm\<rparr>)"

definition zero_PTPMsgGPTPCapableTLV :: PTPMsgGPTPCapableTLV where
  "zero_PTPMsgGPTPCapableTLV = \<lparr>gc_tlvType = 0, gc_lengthField = 0, gc_organizationId = [0, 0, 0],
     gc_organizationSubType = 0, gc_logGptpCapableMessageInterval = 0, gc_flags = 0\<rparr>"

definition gptp_capable_transmit_sm_init ::
  "PerTimeAwareSystemGlobal \<Rightarrow> PerPortGlobal \<Rightarrow> gptp_capable_transmit_data" where
  "gptp_capable_transmit_sm_init pt pp =
     \<lparr>state = GCT_INIT, last_state = GCT_INIT, ptasg = pt, ppg = pp, signalingMsgTimeInterval = zero_UScaledNs,
      gct_intervalTimer = zero_UScaledNs, gct_signalingMsg = zero_PTPMsgGPTPCapableTLV\<rparr>"

section \<open>The contracts of the machines\<close>

definition gcr_inv :: "gptp_capable_receive_data \<Rightarrow> bool" where
  "gcr_inv sm \<longleftrightarrow>
     (rcvdGptpCapableTlv sm \<longrightarrow> gcr_rcvdSignalingMsgPtr sm \<noteq> None) \<and>
     (state sm = GCR_RECEIVED_TLV \<longrightarrow> gcr_rcvdSignalingMsgPtr sm \<noteq> None)"

fun gcr_rank :: "gptp_capable_receive_data \<Rightarrow> nat" where
  "gcr_rank sm =
     (case state sm of
        GCR_INIT \<Rightarrow> 20
      | GCR_NOT_ENABLED \<Rightarrow> 19
      | GCR_INITIALIZE \<Rightarrow> if rcvdGptpCapableTlv sm then 16 else 8
      | GCR_RECEIVED_TLV \<Rightarrow> if last_state sm \<noteq> GCR_RECEIVED_TLV then 14
          else if rcvdGptpCapableTlv sm then 17 else 10
      | GCR_REACTION \<Rightarrow> 0)"

definition gcr_good :: "gptp_capable_receive_data \<Rightarrow> gptp_capable_receive_data \<Rightarrow> unit ctl \<Rightarrow> bool" where
  "gcr_good s t c \<longleftrightarrow> gcr_inv t \<and> c \<noteq> Crash \<and> (c = Next \<and> last_state t \<noteq> state t \<longrightarrow> gcr_rank t < gcr_rank s)"

lemma gcr_initialize_frame [simp]:
  "state (gcr_initialize_proc s) = state s" "last_state (gcr_initialize_proc s) = last_state s"
  "rcvdGptpCapableTlv (gcr_initialize_proc s) = rcvdGptpCapableTlv s"
  "gcr_rcvdSignalingMsgPtr (gcr_initialize_proc s) = gcr_rcvdSignalingMsgPtr s"
  "\<not> neighborGptpCapable (ppg (gcr_initialize_proc s))" "ptasg (gcr_initialize_proc s) = ptasg s"
  by (simp_all add: gcr_initialize_proc_def)

lemma received_tlv_proc_SomeD:
  assumes "received_tlv_proc e cts s = Some t"
  shows "state t = state s" "last_state t = last_state s" "\<not> rcvdGptpCapableTlv t"
    "gcr_rcvdSignalingMsgPtr t = gcr_rcvdSignalingMsgPtr s" "neighborGptpCapable (ppg t)" "ptasg t = ptasg s"
    "capable_on t = capable_on s"
  using assms by (auto simp: received_tlv_proc_def Let_def capable_on_def DOMAIN_ENABLED_def split: option.splits if_splits)

lemma received_tlv_condition_frame [simp]:
  "state (received_tlv_condition cts s) = (if cts \<ge> nsec (gcr_timeoutTime s) then GCR_INITIALIZE else GCR_RECEIVED_TLV)"
  "last_state (received_tlv_condition cts s) =
     (if cts < nsec (gcr_timeoutTime s) \<and> rcvdGptpCapableTlv s then GCR_REACTION else last_state s)"
  "rcvdGptpCapableTlv (received_tlv_condition cts s) = rcvdGptpCapableTlv s"
  "gcr_rcvdSignalingMsgPtr (received_tlv_condition cts s) = gcr_rcvdSignalingMsgPtr s"
  "gcr_timeoutTime (received_tlv_condition cts s) = gcr_timeoutTime s"
  "ppg (received_tlv_condition cts s) = ppg s" "ptasg (received_tlv_condition cts s) = ptasg s"
  by (auto simp: received_tlv_condition_def not_le dest: leD)

lemma gcr_step_received:
  assumes "gcr_inv s" "state s = GCR_RECEIVED_TLV"
    and "gcr_body e cts (last_state s \<noteq> state s) (s\<lparr>last_state := state s\<rparr>) = (t, c)"
  shows "gcr_good s t c"
proof (cases "last_state s = GCR_RECEIVED_TLV")
  case True
  with assms have "c = Next" "t = received_tlv_condition cts (s\<lparr>last_state := GCR_RECEIVED_TLV\<rparr>)"
    by (simp_all add: gcr_body_def)
  then show ?thesis using assms(1,2) True by (simp add: gcr_good_def gcr_inv_def)
next
  case False
  obtain u where u: "received_tlv_proc e cts (s\<lparr>last_state := GCR_RECEIVED_TLV\<rparr>) = Some u"
    using assms(1,2) by (auto simp: received_tlv_proc_def gcr_inv_def Let_def)
  then have "c = Next" "t = received_tlv_condition cts u" using assms False by (simp_all add: gcr_body_def)
  then show ?thesis using received_tlv_proc_SomeD [OF u] assms(1,2) False
    by (simp add: gcr_good_def gcr_inv_def)
qed

lemma gcr_step_good:
  assumes "gcr_inv s" "gcr_body e cts (last_state s \<noteq> state s) (s\<lparr>last_state := state s\<rparr>) = (t, c)"
  shows "gcr_good s t c"
proof (cases "state s")
  case GCR_RECEIVED_TLV
  then show ?thesis using gcr_step_received assms by blast
next
  case GCR_INITIALIZE
  with assms show ?thesis
    by (auto simp: gcr_body_def gcr_good_def gcr_inv_def gcr_initialize_condition_def Let_def split: if_splits)
qed (use assms in \<open>auto simp: gcr_body_def gcr_good_def gcr_inv_def gcr_not_enabled_condition_def split: if_splits\<close>)

interpretation gcr: sm_safe "gcr_body e cts" gcr_inv gcr_rank for e cts
  by unfold_locales (use gcr_step_good in \<open>unfold gcr_good_def, blast\<close>)+

fun gct_rank :: "gptp_capable_transmit_data \<Rightarrow> nat" where
  "gct_rank sm =
     (case state sm of
        GCT_INIT \<Rightarrow> 6
      | GCT_NOT_ENABLED \<Rightarrow> 5
      | GCT_INITIALIZE \<Rightarrow> 4
      | GCT_TRANSMIT_TLV \<Rightarrow> if last_state sm = GCT_TRANSMIT_TLV then 3 else 2
      | GCT_REACTION \<Rightarrow> 0)"

definition gct_good ::
  "gptp_capable_transmit_data \<Rightarrow> gptp_capable_transmit_data \<Rightarrow> PTPMsgGPTPCapableTLV ctl \<Rightarrow> bool" where
  "gct_good s t c \<longleftrightarrow> c \<noteq> Crash \<and> (c = Next \<and> last_state t \<noteq> state t \<longrightarrow> gct_rank t < gct_rank s)"

lemma gct_step_good:
  assumes "gct_body e cts (last_state s \<noteq> state s) (s\<lparr>last_state := state s\<rparr>) = (t, c)"
  shows "gct_good s t c"
  using assms
  by (cases "state s") (auto simp: gct_body_def gct_good_def gct_not_enabled_condition_def
      transmit_tlv_condition_def split: if_splits prod.splits)

interpretation gct: sm_safe "gct_body e cts" "\<lambda>_. True" gct_rank for e cts
  by unfold_locales (use gct_step_good in \<open>unfold gct_good_def, blast\<close>)+

section \<open>When the neighbour counts as capable\<close>

text \<open>
  A sequence of calls of the receiving machine, each at its time, with the TLV that is delivered
  with it or with none.
\<close>

fun gcr_run ::
  "env \<Rightarrow> gptp_capable_receive_data \<Rightarrow> (u64 \<times> PTPMsgGPTPCapableTLV option) list \<Rightarrow>
   gptp_capable_receive_data option" where
  "gcr_run e sm [] = Some sm"
| "gcr_run e sm ((t, m) # evs) =
     (case (case m of None \<Rightarrow> gptp_capable_receive_sm e sm t
            | Some x \<Rightarrow> gptp_capable_receive_rcvdSignalingMsg e sm x t) of
        None \<Rightarrow> None
      | Some (sm1, c) \<Rightarrow> gcr_run e sm1 evs)"

text \<open>
  What the machine is to do: the neighbour is capable until a deadline, which each TLV sets anew.
\<close>

fun cap_step :: "env \<Rightarrow> PerPortGlobal \<Rightarrow> u64 \<times> PTPMsgGPTPCapableTLV option \<Rightarrow> u64 option \<Rightarrow> u64 option" where
  "cap_step e p (t, None) d = (case d of None \<Rightarrow> None | Some x \<Rightarrow> if x \<le> t then None else Some x)"
| "cap_step e p (t, Some m) d =
     (let x = t + capable_timeout e p m in if x \<le> t then None else Some x)"

definition gcr_on :: "gptp_capable_receive_data \<Rightarrow> bool" where
  "gcr_on sm \<longleftrightarrow> tas_running (ptasg sm) \<and> capable_on sm"

text \<open>The machine at rest, and the deadline it stands for.\<close>

definition gcr_rests :: "gptp_capable_receive_data \<Rightarrow> u64 option \<Rightarrow> bool" where
  "gcr_rests sm d \<longleftrightarrow> gcr_on sm \<and> last_state sm = state sm \<and> \<not> rcvdGptpCapableTlv sm \<and>
     (case d of
        None \<Rightarrow> state sm = GCR_INITIALIZE \<and> \<not> neighborGptpCapable (ppg sm)
      | Some x \<Rightarrow> state sm = GCR_RECEIVED_TLV \<and> neighborGptpCapable (ppg sm) \<and> nsec (gcr_timeoutTime sm) = x)"

lemma gcr_on_updates [simp]:
  "gcr_on (s\<lparr>state := x\<rparr>) = gcr_on s" "gcr_on (s\<lparr>last_state := x\<rparr>) = gcr_on s"
  "gcr_on (s\<lparr>rcvdGptpCapableTlv := b, gcr_rcvdSignalingMsgPtr := m\<rparr>) = gcr_on s"
  "gcr_on (gcr_initialize_proc s) = gcr_on s" "gcr_on (received_tlv_condition c s) = gcr_on s"
  "gPtpCapableReceiptTimeout (ppg (gcr_initialize_proc s)) = gPtpCapableReceiptTimeout (ppg s)"
  by (simp_all add: gcr_on_def capable_on_def DOMAIN_ENABLED_def gcr_initialize_proc_def received_tlv_condition_def)

lemma gcr_on_run: "gcr_on sm \<Longrightarrow> gptp_capable_receive_sm e sm cts = sm_loop (gcr_body e cts) sm"
  by (simp add: gptp_capable_receive_sm_def gcr_allstate_condition_def gcr_on_def tas_running_def capable_on_def)

text \<open>INITIALIZE without a TLV: the neighbour is given up.\<close>

lemma gcr_given_up:
  assumes "gcr_on s" "state s = GCR_INITIALIZE" "last_state s \<noteq> GCR_INITIALIZE" "\<not> rcvdGptpCapableTlv s"
  shows "\<exists>t. sm_loop (gcr_body e cts) s = Some (t, Next) \<and> gcr_rests t None \<and>
    gPtpCapableReceiptTimeout (ppg t) = gPtpCapableReceiptTimeout (ppg s)"
proof -
  let ?t = "gcr_initialize_proc (s\<lparr>last_state := GCR_INITIALIZE\<rparr>)"
  have "sm_step (gcr_body e cts) s = (?t\<lparr>state := GCR_INITIALIZE\<rparr>, Next)"
    using assms by (simp add: sm_step_entered gcr_body_def gcr_initialize_condition_def Let_def)
  then have "sm_loop (gcr_body e cts) s = Some (?t\<lparr>state := GCR_INITIALIZE\<rparr>, Next)"
    using sm_loop_rest [where body = "gcr_body e cts"] by simp
  then show ?thesis using assms by (simp add: gcr_rests_def)
qed

text \<open>RECEIVED_TLV is entered with a TLV: the deadline is set.\<close>

lemma gcr_tlv_taken:
  assumes "gcr_on s" "state s = GCR_RECEIVED_TLV" "last_state s \<noteq> GCR_RECEIVED_TLV"
    and "gcr_rcvdSignalingMsgPtr s = Some m"
  shows "\<exists>t. sm_loop (gcr_body e cts) s = Some (t, Next) \<and> gcr_rests t (cap_step e (ppg s) (cts, Some m) d) \<and>
    gPtpCapableReceiptTimeout (ppg t) = gPtpCapableReceiptTimeout (ppg s)"
proof -
  obtain u where u: "received_tlv_proc e cts (s\<lparr>last_state := GCR_RECEIVED_TLV\<rparr>) = Some u"
      "nsec (gcr_timeoutTime u) = cts + capable_timeout e (ppg s) m"
      "gPtpCapableReceiptTimeout (ppg u) = gPtpCapableReceiptTimeout (ppg s)"
    using assms(4) by (simp add: received_tlv_proc_def Let_def)
  note f = received_tlv_proc_SomeD [OF u(1)]
  let ?v = "received_tlv_condition cts u"
  have step: "sm_step (gcr_body e cts) s = (?v, Next)"
    using assms u by (simp add: sm_step_entered gcr_body_def)
  have on: "gcr_on ?v" using f assms(1) by (simp add: gcr_on_def capable_on_def DOMAIN_ENABLED_def)
  show ?thesis
  proof (cases "cts + capable_timeout e (ppg s) m \<le> cts")
    case True
    then have "state ?v = GCR_INITIALIZE" "last_state ?v = GCR_RECEIVED_TLV" using f u by simp_all
    then show ?thesis using gcr_given_up [OF on, of e cts] f(3) u(3) True
        sm_loop_again [OF step] by (simp add: Let_def)
  next
    case False
    then have "state ?v = GCR_RECEIVED_TLV" "last_state ?v = GCR_RECEIVED_TLV" using f u by simp_all
    then show ?thesis using sm_loop_rest [OF step] on f u False by (simp add: gcr_rests_def Let_def)
  qed
qed

lemma gcr_call:
  assumes "gcr_rests s d"
  shows "\<exists>t. gptp_capable_receive_sm e s cts = Some (t, Next) \<and> gcr_rests t (cap_step e (ppg s) (cts, None) d) \<and>
    gPtpCapableReceiptTimeout (ppg t) = gPtpCapableReceiptTimeout (ppg s)"
proof (cases d)
  case None
  with assms have "sm_step (gcr_body e cts) s = (s, Next)" "last_state s = state s"
    by (simp_all add: gcr_rests_def sm_step_settled gcr_body_def gcr_initialize_condition_def Let_def)
  then show ?thesis using None assms gcr_on_run [of s e cts] sm_loop_rest [where body = "gcr_body e cts"]
    by (simp add: gcr_rests_def)
next
  case (Some x)
  with assms have s: "gcr_on s" "state s = GCR_RECEIVED_TLV" "last_state s = GCR_RECEIVED_TLV" "\<not> rcvdGptpCapableTlv s"
    "nsec (gcr_timeoutTime s) = x" by (simp_all add: gcr_rests_def)
  have step: "sm_step (gcr_body e cts) s = (received_tlv_condition cts s, Next)"
    using s by (simp add: sm_step_settled gcr_body_def)
  show ?thesis
  proof (cases "x \<le> cts")
    case True
    then show ?thesis
      using gcr_given_up [of "received_tlv_condition cts s" e cts] sm_loop_again [OF step] s Some gcr_on_run [OF s(1), of e cts]
      by simp
  next
    case False
    then have "received_tlv_condition cts s = s" using s by (simp add: received_tlv_condition_def)
    then show ?thesis using sm_loop_rest [OF step] s Some False assms gcr_on_run [OF s(1), of e cts] by simp
  qed
qed

lemma gcr_delivery:
  assumes "gcr_rests s d"
  shows "\<exists>t. gptp_capable_receive_rcvdSignalingMsg e s m cts = Some (t, Next) \<and>
    gcr_rests t (cap_step e (ppg s) (cts, Some m) d) \<and>
    gPtpCapableReceiptTimeout (ppg t) = gPtpCapableReceiptTimeout (ppg s)"
proof -
  let ?s = "s\<lparr>rcvdGptpCapableTlv := True, gcr_rcvdSignalingMsgPtr := Some m\<rparr>"
  have on: "gcr_on ?s" using assms by (simp add: gcr_rests_def)
  note run = gcr_on_run [OF on, of e cts]
  have init: "\<exists>t. sm_loop (gcr_body e cts) u = Some (t, Next) \<and> gcr_rests t (cap_step e (ppg s) (cts, Some m) d) \<and>
      gPtpCapableReceiptTimeout (ppg t) = gPtpCapableReceiptTimeout (ppg s)"
    if u: "state u = GCR_INITIALIZE" "u = ?s \<or> last_state u \<noteq> GCR_INITIALIZE" "gcr_on u" "rcvdGptpCapableTlv u"
      "gcr_rcvdSignalingMsgPtr u = Some m" "ppg u = ppg s" for u
  proof -
    obtain v where v: "sm_step (gcr_body e cts) u = (v, Next)" "state v = GCR_RECEIVED_TLV" "last_state v = GCR_INITIALIZE"
      "gcr_on v" "gcr_rcvdSignalingMsgPtr v = Some m" "gPtpCapableReceiptTimeout (ppg v) = gPtpCapableReceiptTimeout (ppg s)"
      using u by (cases "last_state u = GCR_INITIALIZE")
        (simp_all add: sm_step_settled sm_step_entered gcr_body_def gcr_initialize_condition_def Let_def)
    have "cap_step e (ppg v) (cts, Some m) d = cap_step e (ppg s) (cts, Some m) d"
      using v(6) by (simp add: capable_timeout_def)
    then show ?thesis using gcr_tlv_taken [OF v(4,2), of m e cts d] v sm_loop_again [OF v(1)] by simp
  qed
  show ?thesis
  proof (cases "d = None")
    case True
    then have "state ?s = GCR_INITIALIZE" using assms by (simp add: gcr_rests_def)
    then show ?thesis using init [of ?s] on run by (simp add: gptp_capable_receive_rcvdSignalingMsg_def)
  next
    case False
    then have s: "state ?s = GCR_RECEIVED_TLV" "last_state ?s = GCR_RECEIVED_TLV"
      using assms by (auto simp: gcr_rests_def)
    then have step: "sm_step (gcr_body e cts) ?s = (received_tlv_condition cts ?s, Next)"
      by (simp add: sm_step_settled gcr_body_def)
    show ?thesis
    proof (cases "nsec (gcr_timeoutTime s) \<le> cts")
      case True
      then show ?thesis using init [of "received_tlv_condition cts ?s"] on s run sm_loop_again [OF step]
        by (simp add: gptp_capable_receive_rcvdSignalingMsg_def)
    next
      case False
      then show ?thesis
        using gcr_tlv_taken [of "received_tlv_condition cts ?s" m e cts d] on s run sm_loop_again [OF step]
        by (simp add: gptp_capable_receive_rcvdSignalingMsg_def not_le)
    qed
  qed
qed

text \<open>Whatever calls and TLVs come, the neighbour counts as capable exactly when a TLV has come and less than
  the receipt timeout (the configured count times the interval the TLV announces) has passed at every call since the
  last one.\<close>

theorem neighbor_capable_until_deadline:
  assumes "gcr_rests sm d"
  shows "\<exists>s. gcr_run e sm evs = Some s \<and> gcr_rests s (fold (cap_step e (ppg sm)) evs d) \<and>
    (neighborGptpCapable (ppg s) \<longleftrightarrow> fold (cap_step e (ppg sm)) evs d \<noteq> None)"
proof -
  have cap: "cap_step e q = cap_step e p" if "gPtpCapableReceiptTimeout q = gPtpCapableReceiptTimeout p" for p q
  proof (intro ext)
    fix ev d show "cap_step e q ev d = cap_step e p ev d"
      using that by (cases "(e, q, ev, d)" rule: cap_step.cases) (simp_all add: capable_timeout_def)
  qed
  have "\<exists>s. gcr_run e sm evs = Some s \<and> gcr_rests s (fold (cap_step e (ppg sm)) evs d)"
    using assms
  proof (induction evs arbitrary: sm d)
    case (Cons ev evs)
    obtain t m where ev: "ev = (t, m)" by fastforce
    have "\<exists>u. (case m of None \<Rightarrow> gptp_capable_receive_sm e sm t
        | Some x \<Rightarrow> gptp_capable_receive_rcvdSignalingMsg e sm x t) = Some (u, Next) \<and>
        gcr_rests u (cap_step e (ppg sm) ev d) \<and> gPtpCapableReceiptTimeout (ppg u) = gPtpCapableReceiptTimeout (ppg sm)"
      using gcr_call [OF Cons.prems] gcr_delivery [OF Cons.prems] ev by (cases m) simp_all
    then obtain u where u: "(case m of None \<Rightarrow> gptp_capable_receive_sm e sm t
        | Some x \<Rightarrow> gptp_capable_receive_rcvdSignalingMsg e sm x t) = Some (u, Next)"
        "gcr_rests u (cap_step e (ppg sm) ev d)" "cap_step e (ppg u) = cap_step e (ppg sm)"
      using cap by blast
    from Cons.IH [OF u(2)] u(1,3) show ?case by (simp add: ev)
  qed simp
  moreover have "neighborGptpCapable (ppg s) \<longleftrightarrow> x \<noteq> None" if "gcr_rests s x" for s x
    using that by (auto simp: gcr_rests_def split: option.splits)
  ultimately show ?thesis by blast
qed

text \<open>A port on which only requests of the common service have come in, with a receipt timeout of 3 intervals.\<close>

definition capable_ppg :: PerPortGlobal where
  "capable_ppg = sample_ppg\<lparr>gPtpCapableReceiptTimeout := 3,
     forAllDomain := (forAllDomain sample_ppg)\<lparr>receivedNonCMLDSPdelayReq := - 1\<rparr>\<rparr>"

definition sample_gcr :: gptp_capable_receive_data where
  "sample_gcr = \<lparr>state = GCR_INITIALIZE, last_state = GCR_INITIALIZE, ptasg = sample_ptasg, ppg = capable_ppg,
     rcvdGptpCapableTlv = False, gcr_rcvdSignalingMsgPtr = None,
     gPtpCapableReceiptTimeoutInterval = zero_UScaledNs, gcr_timeoutTime = zero_UScaledNs\<rparr>"

lemma sample_gcr_rests: "gcr_rests sample_gcr None"
  using sample_running
  by (simp add: gcr_rests_def gcr_on_def capable_on_def DOMAIN_ENABLED_def sample_gcr_def capable_ppg_def sample_ppg_def
      zero_PerPortGlobalForAllDomain_def zero_PerPortGlobal_def)

text \<open>With an interval of a second: capable after 2.9 seconds, not any more after 3.\<close>

theorem neighbor_capable_until_deadline_witness:
  "(\<exists>s. gcr_run default_env sample_gcr [(0, Some zero_PTPMsgGPTPCapableTLV), (2900000000, None)] = Some s \<and>
      neighborGptpCapable (ppg s)) \<and>
   (\<exists>s. gcr_run default_env sample_gcr [(0, Some zero_PTPMsgGPTPCapableTLV), (3000000000, None)] = Some s \<and>
      \<not> neighborGptpCapable (ppg s))"
proof -
  have t: "capable_timeout default_env (ppg sample_gcr) zero_PTPMsgGPTPCapableTLV = 3000000000"
    by (simp add: capable_timeout_def sample_gcr_def capable_ppg_def zero_PTPMsgGPTPCapableTLV_def LOG_TO_NSEC_def
        UB_SEC_NS_def)
  show ?thesis
    using neighbor_capable_until_deadline [OF sample_gcr_rests, of default_env
        "[(0, Some zero_PTPMsgGPTPCapableTLV), (2900000000, None)]"]
      neighbor_capable_until_deadline [OF sample_gcr_rests, of default_env
        "[(0, Some zero_PTPMsgGPTPCapableTLV), (3000000000, None)]"]
    by (auto simp: t Let_def)
qed

section \<open>When a TLV is sent\<close>

definition gct_waiting :: "gptp_capable_transmit_data \<Rightarrow> bool" where
  "gct_waiting sm \<longleftrightarrow> tas_running (ptasg sm) \<and> capable_on sm \<and> state sm = GCT_TRANSMIT_TLV \<and>
     last_state sm = GCT_TRANSMIT_TLV"

text \<open>A waiting machine sends a TLV, which tells its interval, exactly when the time for it has come; the
  next one is due one interval after this one was (not after it was sent).\<close>

theorem capable_tlv_paced:
  assumes "gct_waiting sm"
  shows "if cts \<ge> nsec (gct_intervalTimer sm)
    then \<exists>s m. gptp_capable_transmit_sm e sm cts = Some (s, Return m) \<and> gct_waiting s \<and>
      gc_organizationSubType m = 4 \<and> gc_logGptpCapableMessageInterval m = logGptpCapableMessageInterval (ppg sm) \<and>
      nsec (gct_intervalTimer s) = nsec (gct_intervalTimer sm) + nsec (signalingMsgTimeInterval sm) \<and>
      signalingMsgTimeInterval s = signalingMsgTimeInterval sm
    else gptp_capable_transmit_sm e sm cts = Some (sm, Next)"
proof -
  have "gct_allstate_condition sm = state sm"
    using assms by (simp add: gct_allstate_condition_def gct_waiting_def tas_running_def capable_on_def)
  then have run: "gptp_capable_transmit_sm e sm cts = sm_loop (gct_body e cts) sm"
    by (simp add: gptp_capable_transmit_sm_def)
  have step: "sm_step (gct_body e cts) sm = (transmit_tlv_condition cts sm, Next)"
    using assms by (simp add: gct_waiting_def sm_step_settled gct_body_def)
  show ?thesis
  proof (cases "cts \<ge> nsec (gct_intervalTimer sm)")
    case True
    let ?s = "sm\<lparr>last_state := GCT_REACTION, state := GCT_TRANSMIT_TLV\<rparr>"
    have "sm_step (gct_body e cts) ?s = (case transmit_tlv_proc (sm\<lparr>state := GCT_TRANSMIT_TLV, last_state := GCT_TRANSMIT_TLV\<rparr>) of
        (m, s) \<Rightarrow> (s, Return m))"
      by (simp add: sm_step_entered gct_body_def)
    moreover have "sm_loop (gct_body e cts) sm = sm_loop (gct_body e cts) ?s"
      using sm_loop_again [OF step] True by (simp add: transmit_tlv_condition_def)
    ultimately have "\<exists>s m. sm_loop (gct_body e cts) sm = Some (s, Return m) \<and>
        (m, s) = transmit_tlv_proc (sm\<lparr>state := GCT_TRANSMIT_TLV, last_state := GCT_TRANSMIT_TLV\<rparr>)"
      using sm_loop_out [where body = "gct_body e cts" and s = ?s] by (simp split: prod.splits)
    then show ?thesis using True assms run
      by (auto simp: transmit_tlv_proc_def Let_def gct_waiting_def setGptpCapableTlv_def capable_on_def DOMAIN_ENABLED_def)
  next
    case False
    then have "transmit_tlv_condition cts sm = sm" using assms by (simp add: transmit_tlv_condition_def gct_waiting_def)
    then show ?thesis using sm_loop_rest [OF step] False run assms by (simp add: gct_waiting_def)
  qed
qed

text \<open>
  The state NOT_ENABLED looks at the port only: while the port is on, a machine of an instance that is
  disabled starts again with every call and sends a TLV each time, at no pace at all.
\<close>

theorem disabled_instance_sends_always:
  assumes "\<not> instanceEnable (ptasg sm)" "capable_on sm"
  shows "\<exists>s m. gptp_capable_transmit_sm e sm cts = Some (s, Return m) \<and> \<not> instanceEnable (ptasg s) \<and> capable_on s"
proof -
  let ?s = "sm\<lparr>state := GCT_NOT_ENABLED\<rparr>"
  let ?i = "sm\<lparr>state := GCT_INITIALIZE, last_state := GCT_NOT_ENABLED\<rparr>"
  let ?t = "gct_initialize_proc e cts (sm\<lparr>state := GCT_TRANSMIT_TLV, last_state := GCT_INITIALIZE\<rparr>)"
  have run: "gptp_capable_transmit_sm e sm cts = sm_loop (gct_body e cts) ?s"
    using assms(1) by (simp add: gptp_capable_transmit_sm_def gct_allstate_condition_def)
  have "sm_step (gct_body e cts) ?s = (?i, Next)"
    using assms(2) by (simp add: sm_step_def gct_body_def gct_not_enabled_condition_def capable_on_def DOMAIN_ENABLED_def)
  then have 1: "sm_loop (gct_body e cts) ?s = sm_loop (gct_body e cts) ?i"
    using sm_loop_again [where body = "gct_body e cts"] by simp
  have "sm_step (gct_body e cts) ?i = (?t, Next)"
    by (simp add: sm_step_entered gct_body_def gct_initialize_proc_def)
  then have 2: "sm_loop (gct_body e cts) ?i = sm_loop (gct_body e cts) ?t"
    using sm_loop_again [where body = "gct_body e cts"] by (simp add: gct_initialize_proc_def)
  have "\<exists>s m. sm_step (gct_body e cts) ?t = (s, Return m) \<and> ptasg s = ptasg sm \<and> ppg s = ppg sm"
    by (simp add: sm_step_entered gct_body_def transmit_tlv_proc_def Let_def gct_initialize_proc_def)
  then obtain s m where "sm_loop (gct_body e cts) ?t = Some (s, Return m)" "ptasg s = ptasg sm" "ppg s = ppg sm"
    using sm_loop_out [where body = "gct_body e cts"] by blast
  then show ?thesis using run 1 2 assms by (auto simp: capable_on_def DOMAIN_ENABLED_def)
qed

end
