(* ===== verification/Gptp_Signaling.thy ===== *)
theory Gptp_Signaling
  imports Gptp_MdIo Gptp_Capable
begin

text \<open>
  Signaling messages: the machine that sends them (\<^verbatim>\<open>md_signaling_send_sm.c\<close>) and the one that
  receives them (\<^verbatim>\<open>md_signaling_receive_sm.c\<close>), with the two TLVs there are (10.6.4 of the standard):
  the request for message intervals and the gPTP-capable TLV.
\<close>

section \<open>Messages\<close>

text \<open>A pointer of type \<^verbatim>\<open>void *\<close> leads to either structure; the subtype in it says to which.\<close>

datatype signaling_msg = IntervalReq PTPMsgIntervalRequestTLV | GptpCapable PTPMsgGPTPCapableTLV

fun sig_subtype :: "signaling_msg \<Rightarrow> u32" where
  "sig_subtype (IntervalReq m) = ir_organizationSubType m"
| "sig_subtype (GptpCapable m) = gc_organizationSubType m"

text \<open>The structures laid over the buffer, after the header and the identity of the target port.\<close>

record MDPTPMsgIntervalRequestTLV =
  mi_tlvType_ns :: u16
  mi_lengthField_ns :: u16
  mi_organizationId :: "u8 list"
  mi_organizationSubType_nb :: "u8 list"
  mi_linkDelayInterval :: u8
  mi_timeSyncInterval :: u8
  mi_announceInterval :: u8
  mi_flags :: u8

record MDPTPMsgGPTPCapableTLV =
  mg_tlvType_ns :: u16
  mg_lengthField_ns :: u16
  mg_organizationId :: "u8 list"
  mg_organizationSubType_nb :: "u8 list"
  mg_logGptpCapableMessageInterval :: u8
  mg_flags :: u8

definition interval_req_image :: "env \<Rightarrow> MDPTPMsgIntervalRequestTLV \<Rightarrow> u8 list" where
  "interval_req_image e m =
     mem_bytes (big_endian e) (mi_tlvType_ns m) @ mem_bytes (big_endian e) (mi_lengthField_ns m) @
     mi_organizationId m @ mi_organizationSubType_nb m @
     [mi_linkDelayInterval m, mi_timeSyncInterval m, mi_announceInterval m, mi_flags m] @ replicate 2 0"

definition interval_req_overlay :: "env \<Rightarrow> u8 list \<Rightarrow> MDPTPMsgIntervalRequestTLV" where
  "interval_req_overlay e bs =
     \<lparr>mi_tlvType_ns = mem_word (big_endian e) (field 44 2 bs),
      mi_lengthField_ns = mem_word (big_endian e) (field 46 2 bs),
      mi_organizationId = field 48 3 bs, mi_organizationSubType_nb = field 51 3 bs,
      mi_linkDelayInterval = bs ! 54, mi_timeSyncInterval = bs ! 55, mi_announceInterval = bs ! 56,
      mi_flags = bs ! 57\<rparr>"

definition gptp_capable_image :: "env \<Rightarrow> MDPTPMsgGPTPCapableTLV \<Rightarrow> u8 list" where
  "gptp_capable_image e m =
     mem_bytes (big_endian e) (mg_tlvType_ns m) @ mem_bytes (big_endian e) (mg_lengthField_ns m) @
     mg_organizationId m @ mg_organizationSubType_nb m @
     [mg_logGptpCapableMessageInterval m, mg_flags m] @ replicate 4 0"

definition gptp_capable_overlay :: "env \<Rightarrow> u8 list \<Rightarrow> MDPTPMsgGPTPCapableTLV" where
  "gptp_capable_overlay e bs =
     \<lparr>mg_tlvType_ns = mem_word (big_endian e) (field 44 2 bs),
      mg_lengthField_ns = mem_word (big_endian e) (field 46 2 bs),
      mg_organizationId = field 48 3 bs, mg_organizationSubType_nb = field 51 3 bs,
      mg_logGptpCapableMessageInterval = bs ! 54, mg_flags = bs ! 55\<rparr>"

text \<open>The subtype is a number of 24 bits in network order.\<close>

definition subtype_bytes :: "u32 \<Rightarrow> u8 list" where
  "subtype_bytes x = [ucast (drop_bit 16 x AND 0xff), ucast (drop_bit 8 x AND 0xff), ucast (x AND 0xff)]"

definition subtype_of :: "u8 list \<Rightarrow> u32" where
  "subtype_of bs = (push_bit 16 (ucast (bs ! 0)) OR push_bit 8 (ucast (bs ! 1))) OR ucast (bs ! 2)"

section \<open>Sending\<close>

datatype (plugins only: code) sgs_state = SGS_INIT | SGS_INITIALIZE | SEND_SIGNALING | SGS_REACTION

datatype (plugins only: code) md_signaling_type_t =
  MD_SIGNALING_NONE | MD_SIGNALING_MSG_INTERVAL_REQ | MD_SIGNALING_GPTP_CAPABLE

record md_signaling_send_stat_data =
  signal_msg_interval_send :: u32
  signal_gptp_capable_send :: u32

text \<open>\<open>sgs_net\<close> says whether there is a network; \<open>sgs_sent\<close> are the frames it has taken.\<close>

record md_signaling_send_data = "sgs_state port_sm" +
  sgs_net :: bool
  sgs_stype :: md_signaling_type_t
  rcvd_txmsg :: "signaling_msg option"
  sgs_sequenceId :: u16
  sgs_statd :: md_signaling_send_stat_data
  sgs_sent :: "u8 list list"

definition setup_gptp_capable_tlv :: "env \<Rightarrow> PTPMsgGPTPCapableTLV \<Rightarrow> MDPTPMsgGPTPCapableTLV" where
  "setup_gptp_capable_tlv e m =
     \<lparr>mg_tlvType_ns = hton (big_endian e) (gc_tlvType m), mg_lengthField_ns = hton (big_endian e) (gc_lengthField m),
      mg_organizationId = gc_organizationId m,
      mg_organizationSubType_nb = subtype_bytes (gc_organizationSubType m),
      mg_logGptpCapableMessageInterval = gc_logGptpCapableMessageInterval m, mg_flags = gc_flags m\<rparr>"

definition setup_msg_interval_req_tlv :: "env \<Rightarrow> PTPMsgIntervalRequestTLV \<Rightarrow> MDPTPMsgIntervalRequestTLV" where
  "setup_msg_interval_req_tlv e m =
     \<lparr>mi_tlvType_ns = hton (big_endian e) (ir_tlvType m), mi_lengthField_ns = hton (big_endian e) (ir_lengthField m),
      mi_organizationId = ir_organizationId m,
      mi_organizationSubType_nb = subtype_bytes (ir_organizationSubType m),
      mi_linkDelayInterval = linkDelayInterval m, mi_timeSyncInterval = timeSyncInterval m,
      mi_announceInterval = announceInterval_m m, mi_flags = ir_flags m\<rparr>"

text \<open>The header; both messages have 60 bytes.\<close>

definition signaling_header :: "env \<Rightarrow> md_signaling_send_data \<Rightarrow> MDPTPMsgHeader" where
  "signaling_header e sm =
     (md_header_compose e SIGNALING 60 (thisClock (ptasg sm)) (thisPort (ppg sm)) (sgs_sequenceId sm) 0x7f)
       \<lparr>md_domainNumber := domainNumber (ptasg sm)\<rparr>"

text \<open>
  The TLV of the message the pointer leads to, as the type says; \<open>None\<close> where the pointer is null or
  leads to the other structure.
\<close>

definition signaling_tlv :: "env \<Rightarrow> md_signaling_send_data \<Rightarrow> u8 list option" where
  "signaling_tlv e sm =
     (case (sgs_stype sm, rcvd_txmsg sm) of
        (MD_SIGNALING_MSG_INTERVAL_REQ, Some (IntervalReq m)) \<Rightarrow>
          Some (interval_req_image e (setup_msg_interval_req_tlv e m))
      | (MD_SIGNALING_GPTP_CAPABLE, Some (GptpCapable m)) \<Rightarrow>
          Some (gptp_capable_image e (setup_gptp_capable_tlv e m))
      | _ \<Rightarrow> None)"

definition count_signaling :: "md_signaling_type_t \<Rightarrow> md_signaling_send_stat_data \<Rightarrow> md_signaling_send_stat_data" where
  "count_signaling ty st =
     (case ty of
        MD_SIGNALING_MSG_INTERVAL_REQ \<Rightarrow> st\<lparr>signal_msg_interval_send := signal_msg_interval_send st + 1\<rparr>
      | MD_SIGNALING_GPTP_CAPABLE \<Rightarrow> st\<lparr>signal_gptp_capable_send := signal_gptp_capable_send st + 1\<rparr>
      | MD_SIGNALING_NONE \<Rightarrow> st)"

text \<open>The results are the codes 0, -1 and -2; \<open>None\<close> is a null access.\<close>

definition sendSignaling ::
  "env \<Rightarrow> net_io \<Rightarrow> md_signaling_send_data \<Rightarrow> (int \<times> md_signaling_send_data) option" where
  "sendSignaling e io sm =
     (if sgs_stype sm = MD_SIGNALING_NONE then Some (- 1, sm)
      else if \<not> sgs_net sm then None
      else case signaling_tlv e sm of
        None \<Rightarrow> None
      | Some tlv \<Rightarrow>
          let f = header_image (big_endian e) (signaling_header e sm) @ replicate 10 0xff @ tlv;
              res = net_send io f
          in if res = - 1 then Some (- 2, sm)
             else Some (0, sm\<lparr>sgs_sequenceId := sgs_sequenceId sm + 1,
                    sgs_statd := count_signaling (sgs_stype sm) (sgs_statd sm),
                    sgs_sent := if 0 \<le> res then sgs_sent sm @ [f] else sgs_sent sm\<rparr>))"

definition sgs_allstate_condition :: "md_signaling_send_data \<Rightarrow> md_signaling_send_data" where
  "sgs_allstate_condition sm =
     (if BEGIN (ptasg sm) \<or> \<not> instanceEnable (ptasg sm) \<or> \<not> PORT_OPER sm \<or> \<not> PTP_PORT_ENABLED sm
      then sm\<lparr>last_state := SGS_REACTION, state := SGS_INITIALIZE\<rparr> else sm)"

definition sgs_initialize_proc :: "net_io \<Rightarrow> md_signaling_send_data \<Rightarrow> md_signaling_send_data" where
  "sgs_initialize_proc io sm = sm\<lparr>sgs_sequenceId := rand16 io\<rparr>"

definition sgs_initialize_condition :: "md_signaling_send_data \<Rightarrow> sgs_state" where
  "sgs_initialize_condition sm = (if sgs_stype sm \<noteq> MD_SIGNALING_NONE then SEND_SIGNALING else SGS_INITIALIZE)"

definition send_signaling_proc ::
  "env \<Rightarrow> net_io \<Rightarrow> md_signaling_send_data \<Rightarrow> (int \<times> md_signaling_send_data) option" where
  "send_signaling_proc e io sm =
     (case sendSignaling e io sm of
        None \<Rightarrow> None
      | Some (r, sm1) \<Rightarrow> Some (if r = - 2 then (- 1, sm1) else (0, sm1\<lparr>sgs_stype := MD_SIGNALING_NONE\<rparr>)))"

definition send_signaling_condition :: "md_signaling_send_data \<Rightarrow> md_signaling_send_data" where
  "send_signaling_condition sm =
     (if sgs_stype sm \<noteq> MD_SIGNALING_NONE then sm\<lparr>last_state := SGS_REACTION, state := SEND_SIGNALING\<rparr>
      else sm\<lparr>state := SEND_SIGNALING\<rparr>)"

definition sgs_body ::
  "env \<Rightarrow> net_io \<Rightarrow> bool \<Rightarrow> md_signaling_send_data \<Rightarrow> md_signaling_send_data \<times> unit ctl" where
  "sgs_body e io state_change sm =
     (case state sm of
        SGS_INIT \<Rightarrow> (sm\<lparr>state := SGS_INITIALIZE\<rparr>, Next)
      | SGS_INITIALIZE \<Rightarrow>
          (let sm1 = (if state_change then sgs_initialize_proc io sm else sm)
           in (sm1\<lparr>state := sgs_initialize_condition sm1\<rparr>, Next))
      | SEND_SIGNALING \<Rightarrow>
          (if state_change then
             (case send_signaling_proc e io sm of
                None \<Rightarrow> (sm, Crash)
              | Some (r, sm1) \<Rightarrow> if r \<noteq> 0 then (sm1\<lparr>last_state := SGS_REACTION\<rparr>, Return ()) else (sm1, Next))
           else (send_signaling_condition sm, Next))
      | SGS_REACTION \<Rightarrow> (sm, Next))"

definition md_signaling_send_sm ::
  "env \<Rightarrow> net_io \<Rightarrow> md_signaling_send_data \<Rightarrow> (md_signaling_send_data \<times> unit ctl) option" where
  "md_signaling_send_sm e io sm = sm_loop (sgs_body e io) (sgs_allstate_condition sm)"

definition md_signaling_send_sm_init ::
  "bool \<Rightarrow> PerTimeAwareSystemGlobal \<Rightarrow> PerPortGlobal \<Rightarrow> md_signaling_send_data" where
  "md_signaling_send_sm_init net pt pp =
     \<lparr>state = SGS_INIT, last_state = SGS_INIT, ptasg = pt, ppg = pp, sgs_net = net, sgs_stype = MD_SIGNALING_NONE,
      rcvd_txmsg = None, sgs_sequenceId = 0,
      sgs_statd = \<lparr>signal_msg_interval_send = 0, signal_gptp_capable_send = 0\<rparr>, sgs_sent = []\<rparr>"

definition md_signaling_send_sm_mdSignalingSend ::
  "env \<Rightarrow> net_io \<Rightarrow> md_signaling_send_data \<Rightarrow> signaling_msg \<Rightarrow> (md_signaling_send_data \<times> unit ctl) option" where
  "md_signaling_send_sm_mdSignalingSend e io sm msg =
     (let ty = (if sig_subtype msg = 2 then MD_SIGNALING_MSG_INTERVAL_REQ
                else if sig_subtype msg = 4 then MD_SIGNALING_GPTP_CAPABLE else MD_SIGNALING_NONE)
      in if ty = MD_SIGNALING_NONE then Some (sm\<lparr>sgs_stype := ty\<rparr>, Next)
         else md_signaling_send_sm e io
           (sm\<lparr>sgs_stype := ty, rcvd_txmsg := Some msg, last_state := SGS_REACTION\<rparr>))"

definition md_signaling_send_stat_reset :: "md_signaling_send_data \<Rightarrow> md_signaling_send_data" where
  "md_signaling_send_stat_reset sm = sm\<lparr>sgs_statd := \<lparr>signal_msg_interval_send = 0, signal_gptp_capable_send = 0\<rparr>\<rparr>"

definition md_signaling_send_get_stat :: "md_signaling_send_data \<Rightarrow> md_signaling_send_stat_data" where
  "md_signaling_send_get_stat sm = sgs_statd sm"

section \<open>Receiving\<close>

datatype (plugins only: code) sgr_state = SGR_INIT | SGR_INITIALIZE | RECV_SIGNALING | SGR_REACTION

record md_signaling_receive_stat_data =
  signal_rec :: u32
  signal_msg_interval_rec :: u32
  signal_gptp_capable_rec :: u32

record md_signaling_receive_data = "sgr_state port_sm" +
  sgr_recv :: bool
  rcvd_rxmsg :: "u8 list option"
  gctlm :: PTPMsgGPTPCapableTLV
  mrtlm :: PTPMsgIntervalRequestTLV
  sgr_statd :: md_signaling_receive_stat_data

definition recv_gptp_capable :: "env \<Rightarrow> u8 list \<Rightarrow> PTPMsgGPTPCapableTLV" where
  "recv_gptp_capable e bs =
     (let g = gptp_capable_overlay e bs
      in \<lparr>gc_tlvType = hton (big_endian e) (mg_tlvType_ns g), gc_lengthField = hton (big_endian e) (mg_lengthField_ns g),
          gc_organizationId = mg_organizationId g,
          gc_organizationSubType = subtype_of (mg_organizationSubType_nb g),
          gc_logGptpCapableMessageInterval = mg_logGptpCapableMessageInterval g, gc_flags = mg_flags g\<rparr>)"

definition recv_msg_interval_req :: "env \<Rightarrow> u8 list \<Rightarrow> PTPMsgIntervalRequestTLV" where
  "recv_msg_interval_req e bs =
     (let g = interval_req_overlay e bs
      in \<lparr>ir_tlvType = hton (big_endian e) (mi_tlvType_ns g), ir_lengthField = hton (big_endian e) (mi_lengthField_ns g),
          ir_organizationId = mi_organizationId g,
          ir_organizationSubType = subtype_of (mi_organizationSubType_nb g),
          linkDelayInterval = mi_linkDelayInterval g, timeSyncInterval = mi_timeSyncInterval g,
          announceInterval_m = mi_announceInterval g, ir_flags = mi_flags g\<rparr>)"

definition sgr_allstate_condition :: "md_signaling_receive_data \<Rightarrow> md_signaling_receive_data" where
  "sgr_allstate_condition sm =
     (if BEGIN (ptasg sm) \<or> \<not> instanceEnable (ptasg sm) \<or> \<not> PORT_OPER sm \<or> \<not> PTP_PORT_ENABLED sm
      then sm\<lparr>last_state := SGR_REACTION, state := SGR_INITIALIZE\<rparr> else sm)"

definition sgr_initialize_condition :: "md_signaling_receive_data \<Rightarrow> sgr_state" where
  "sgr_initialize_condition sm = (if sgr_recv sm then RECV_SIGNALING else SGR_INITIALIZE)"

text \<open>
  The message is told by the last byte of its subtype; another message is dropped. The outer \<open>None\<close> is
  a null pointer or a buffer that ends before the members that are read; the buffer may be longer than the message.
\<close>

definition recv_signaling_proc ::
  "env \<Rightarrow> md_signaling_receive_data \<Rightarrow> (signaling_msg option \<times> md_signaling_receive_data) option" where
  "recv_signaling_proc e sm =
     (case rcvd_rxmsg sm of
        None \<Rightarrow> None
      | Some bs \<Rightarrow>
          let sm1 = sm\<lparr>sgr_recv := False\<rparr>; st = sgr_statd sm1
          in if length bs < 58 then None
             else if bs ! 53 = 2
             then let m = recv_msg_interval_req e bs
                  in Some (Some (IntervalReq m), sm1\<lparr>mrtlm := m,
                       sgr_statd := st\<lparr>signal_msg_interval_rec := signal_msg_interval_rec st + 1\<rparr>\<rparr>)
             else if bs ! 53 = 4
             then let m = recv_gptp_capable e bs
                  in Some (Some (GptpCapable m), sm1\<lparr>gctlm := m,
                       sgr_statd := st\<lparr>signal_gptp_capable_rec := signal_gptp_capable_rec st + 1\<rparr>\<rparr>)
             else Some (None, sm1))"

definition recv_signaling_condition :: "md_signaling_receive_data \<Rightarrow> md_signaling_receive_data" where
  "recv_signaling_condition sm =
     (if sgr_recv sm then sm\<lparr>last_state := SGR_REACTION, state := RECV_SIGNALING\<rparr>
      else sm\<lparr>state := RECV_SIGNALING\<rparr>)"

definition sgr_body ::
  "env \<Rightarrow> bool \<Rightarrow> md_signaling_receive_data \<Rightarrow> md_signaling_receive_data \<times> signaling_msg ctl" where
  "sgr_body e state_change sm =
     (case state sm of
        SGR_INIT \<Rightarrow> (sm\<lparr>state := SGR_INITIALIZE\<rparr>, Next)
      | SGR_INITIALIZE \<Rightarrow> (sm\<lparr>state := sgr_initialize_condition sm\<rparr>, Next)
      | RECV_SIGNALING \<Rightarrow>
          (if state_change then
             (case recv_signaling_proc e sm of
                None \<Rightarrow> (sm, Crash)
              | Some (m, sm1) \<Rightarrow> (sm1, case m of None \<Rightarrow> Next | Some x \<Rightarrow> Return x))
           else (recv_signaling_condition sm, Next))
      | SGR_REACTION \<Rightarrow> (sm, Next))"

definition md_signaling_receive_sm ::
  "env \<Rightarrow> md_signaling_receive_data \<Rightarrow> (md_signaling_receive_data \<times> signaling_msg ctl) option" where
  "md_signaling_receive_sm e sm = sm_loop (sgr_body e) (sgr_allstate_condition sm)"

definition zero_interval_req :: PTPMsgIntervalRequestTLV where
  "zero_interval_req = \<lparr>ir_tlvType = 0, ir_lengthField = 0, ir_organizationId = [0, 0, 0], ir_organizationSubType = 0,
     linkDelayInterval = 0, timeSyncInterval = 0, announceInterval_m = 0, ir_flags = 0\<rparr>"

definition zero_sgr_stat :: md_signaling_receive_stat_data where
  "zero_sgr_stat = \<lparr>signal_rec = 0, signal_msg_interval_rec = 0, signal_gptp_capable_rec = 0\<rparr>"

definition md_signaling_receive_sm_init ::
  "PerTimeAwareSystemGlobal \<Rightarrow> PerPortGlobal \<Rightarrow> md_signaling_receive_data" where
  "md_signaling_receive_sm_init pt pp =
     \<lparr>state = SGR_INIT, last_state = SGR_INIT, ptasg = pt, ppg = pp, sgr_recv = False, rcvd_rxmsg = None,
      gctlm = zero_PTPMsgGPTPCapableTLV, mrtlm = zero_interval_req, sgr_statd = zero_sgr_stat\<rparr>"

definition md_signaling_receive_sm_mdSignalingRec ::
  "env \<Rightarrow> md_signaling_receive_data \<Rightarrow> u8 list \<Rightarrow> (md_signaling_receive_data \<times> signaling_msg ctl) option" where
  "md_signaling_receive_sm_mdSignalingRec e sm bs =
     md_signaling_receive_sm e (sm\<lparr>sgr_recv := True, rcvd_rxmsg := Some bs, last_state := SGR_REACTION,
       sgr_statd := (sgr_statd sm)\<lparr>signal_rec := signal_rec (sgr_statd sm) + 1\<rparr>\<rparr>)"

definition md_signaling_receive_stat_reset :: "md_signaling_receive_data \<Rightarrow> md_signaling_receive_data" where
  "md_signaling_receive_stat_reset sm = sm\<lparr>sgr_statd := zero_sgr_stat\<rparr>"

definition md_signaling_receive_get_stat :: "md_signaling_receive_data \<Rightarrow> md_signaling_receive_stat_data" where
  "md_signaling_receive_get_stat sm = sgr_statd sm"

section \<open>The contracts of the machines\<close>

text \<open>A pending message is one whose type fits.\<close>

definition sgs_inv :: "md_signaling_send_data \<Rightarrow> bool" where
  "sgs_inv sm \<longleftrightarrow> sgs_net sm \<and>
     (sgs_stype sm = MD_SIGNALING_MSG_INTERVAL_REQ \<longrightarrow> (\<exists>m. rcvd_txmsg sm = Some (IntervalReq m))) \<and>
     (sgs_stype sm = MD_SIGNALING_GPTP_CAPABLE \<longrightarrow> (\<exists>m. rcvd_txmsg sm = Some (GptpCapable m)))"

fun sgs_rank :: "md_signaling_send_data \<Rightarrow> nat" where
  "sgs_rank sm =
     (case state sm of
        SGS_INIT \<Rightarrow> 4
      | SGS_INITIALIZE \<Rightarrow> 3
      | SEND_SIGNALING \<Rightarrow> if last_state sm = SEND_SIGNALING then 2 else 1
      | SGS_REACTION \<Rightarrow> 0)"

definition sgs_good :: "md_signaling_send_data \<Rightarrow> md_signaling_send_data \<Rightarrow> unit ctl \<Rightarrow> bool" where
  "sgs_good s t c \<longleftrightarrow> sgs_inv t \<and> c \<noteq> Crash \<and> (c = Next \<and> last_state t \<noteq> state t \<longrightarrow> sgs_rank t < sgs_rank s)"

lemma sendSignaling_SomeD:
  assumes "sendSignaling e io s = Some (r, t)"
  shows "state t = state s" "last_state t = last_state s" "sgs_net t = sgs_net s" "sgs_stype t = sgs_stype s"
    "rcvd_txmsg t = rcvd_txmsg s"
  using assms by (auto simp: sendSignaling_def Let_def split: if_splits option.splits)

lemma signaling_tlv_Some: "sgs_inv s \<Longrightarrow> sgs_stype s \<noteq> MD_SIGNALING_NONE \<Longrightarrow> \<exists>b. signaling_tlv e s = Some b"
  by (cases "sgs_stype s") (auto simp: sgs_inv_def signaling_tlv_def)

lemma sendSignaling_Some: "sgs_inv s \<Longrightarrow> \<exists>r t. sendSignaling e io s = Some (r, t)"
  using signaling_tlv_Some [of s e] by (fastforce simp: sendSignaling_def sgs_inv_def Let_def)

lemma sgs_step_send:
  assumes "sgs_inv s" "state s = SEND_SIGNALING"
    and step: "sgs_body e io (last_state s \<noteq> state s) (s\<lparr>last_state := state s\<rparr>) = (t, c)"
  shows "sgs_good s t c"
proof (cases "last_state s = SEND_SIGNALING")
  case True
  with assms show ?thesis
    by (auto simp: sgs_body_def send_signaling_condition_def sgs_good_def sgs_inv_def split: if_splits)
next
  case False
  have inv: "sgs_inv (s\<lparr>last_state := SEND_SIGNALING\<rparr>)" using assms(1) by (simp add: sgs_inv_def)
  obtain r u where u: "sendSignaling e io (s\<lparr>last_state := SEND_SIGNALING\<rparr>) = Some (r, u)"
    using sendSignaling_Some [OF inv] by blast
  have "sgs_inv u" using inv sendSignaling_SomeD [OF u] by (simp add: sgs_inv_def)
  then show ?thesis using step assms(2) False u sendSignaling_SomeD [OF u]
    by (auto simp: sgs_body_def send_signaling_proc_def sgs_good_def sgs_inv_def split: if_splits)
qed

lemma sgs_step_good:
  assumes "sgs_inv s" "sgs_body e io (last_state s \<noteq> state s) (s\<lparr>last_state := state s\<rparr>) = (t, c)"
  shows "sgs_good s t c"
proof (cases "state s")
  case SEND_SIGNALING
  then show ?thesis using sgs_step_send assms by blast
qed (use assms in \<open>auto simp: sgs_body_def sgs_good_def sgs_inv_def sgs_initialize_condition_def
    sgs_initialize_proc_def Let_def split: if_splits\<close>)

interpretation sgs: sm_safe "sgs_body e io" sgs_inv sgs_rank for e io
  by unfold_locales (use sgs_step_good in \<open>unfold sgs_good_def, blast\<close>)+

definition sgr_inv :: "md_signaling_receive_data \<Rightarrow> bool" where
  "sgr_inv sm \<longleftrightarrow> (sgr_recv sm \<or> state sm = RECV_SIGNALING \<longrightarrow> (\<exists>bs. rcvd_rxmsg sm = Some bs \<and> 58 \<le> length bs))"

fun sgr_rank :: "md_signaling_receive_data \<Rightarrow> nat" where
  "sgr_rank sm =
     (case state sm of
        SGR_INIT \<Rightarrow> 4
      | SGR_INITIALIZE \<Rightarrow> 3
      | RECV_SIGNALING \<Rightarrow> if last_state sm = RECV_SIGNALING then 2 else 1
      | SGR_REACTION \<Rightarrow> 0)"

definition sgr_good :: "md_signaling_receive_data \<Rightarrow> md_signaling_receive_data \<Rightarrow> signaling_msg ctl \<Rightarrow> bool" where
  "sgr_good s t c \<longleftrightarrow> sgr_inv t \<and> c \<noteq> Crash \<and> (c = Next \<and> last_state t \<noteq> state t \<longrightarrow> sgr_rank t < sgr_rank s)"

lemma recv_signaling_SomeD:
  assumes "recv_signaling_proc e s = Some (m, t)"
  shows "state t = state s" "last_state t = last_state s" "rcvd_rxmsg t = rcvd_rxmsg s" "\<not> sgr_recv t"
  using assms by (auto simp: recv_signaling_proc_def Let_def split: if_splits option.splits)

lemma sgr_step_recv:
  assumes "sgr_inv s" "state s = RECV_SIGNALING"
    and step: "sgr_body e (last_state s \<noteq> state s) (s\<lparr>last_state := state s\<rparr>) = (t, c)"
  shows "sgr_good s t c"
proof (cases "last_state s = RECV_SIGNALING")
  case True
  with assms show ?thesis
    by (auto simp: sgr_body_def recv_signaling_condition_def sgr_good_def sgr_inv_def split: if_splits)
next
  case False
  have "recv_signaling_proc e (s\<lparr>last_state := RECV_SIGNALING\<rparr>) \<noteq> None"
    using assms(1,2) by (auto simp: recv_signaling_proc_def sgr_inv_def Let_def)
  then obtain m u where u: "recv_signaling_proc e (s\<lparr>last_state := RECV_SIGNALING\<rparr>) = Some (m, u)" by auto
  then show ?thesis using step assms(1,2) False recv_signaling_SomeD [OF u]
    by (auto simp: sgr_body_def sgr_good_def sgr_inv_def split: option.splits)
qed

lemma sgr_step_good:
  assumes "sgr_inv s" "sgr_body e (last_state s \<noteq> state s) (s\<lparr>last_state := state s\<rparr>) = (t, c)"
  shows "sgr_good s t c"
proof (cases "state s")
  case RECV_SIGNALING
  then show ?thesis using sgr_step_recv assms by blast
qed (use assms in \<open>auto simp: sgr_body_def sgr_good_def sgr_inv_def sgr_initialize_condition_def split: if_splits\<close>)

interpretation sgr: sm_safe "sgr_body e" sgr_inv sgr_rank for e
  by unfold_locales (use sgr_step_good in \<open>unfold sgr_good_def, blast\<close>)+

section \<open>A message over the wire\<close>

text \<open>A message that one of the machines above sends: its subtype is that of its structure.\<close>

fun signaling_ok :: "signaling_msg \<Rightarrow> bool" where
  "signaling_ok (IntervalReq m) \<longleftrightarrow> ir_organizationSubType m = 2 \<and> length (ir_organizationId m) = 3"
| "signaling_ok (GptpCapable m) \<longleftrightarrow> gc_organizationSubType m = 4 \<and> length (gc_organizationId m) = 3"

definition signaling_frame :: "env \<Rightarrow> md_signaling_send_data \<Rightarrow> signaling_msg \<Rightarrow> u8 list" where
  "signaling_frame e sm m = header_image (big_endian e) (signaling_header e sm) @ replicate 10 0xff @
     (case m of IntervalReq x \<Rightarrow> interval_req_image e (setup_msg_interval_req_tlv e x)
      | GptpCapable x \<Rightarrow> gptp_capable_image e (setup_gptp_capable_tlv e x))"

lemma subtypes [simp]:
  "subtype_bytes 2 = [0, 0, 2]" "subtype_bytes 4 = [0, 0, 4]" "subtype_of [0, 0, 2] = 2" "subtype_of [0, 0, 4] = 4"
  by (simp_all add: subtype_bytes_def subtype_of_def)

lemma signaling_header_length:
  "clockid_ok (thisClock (ptasg sm)) \<Longrightarrow> length (header_image be (signaling_header e sm)) = 34"
  using header_fields(1) [of "signaling_header e sm" be]
  by (simp add: signaling_header_def md_header_compose_def md_compose_head_def md_header_template_def
      clockid_ok_def MD_HEADER_SIZE_def)

lemma interval_req_read:
  assumes "length H = 44" "signaling_ok (IntervalReq m)"
  shows "recv_msg_interval_req e2 (H @ interval_req_image e1 (setup_msg_interval_req_tlv e1 m) @ r) = m"
    and "(H @ interval_req_image e1 (setup_msg_interval_req_tlv e1 m) @ r) ! 53 = 2"
    and "length (interval_req_image e1 (setup_msg_interval_req_tlv e1 m)) = 16"
  using assms
  by (simp_all add: recv_msg_interval_req_def interval_req_overlay_def interval_req_image_def field_def
      setup_msg_interval_req_tlv_def nth_append Let_def)

lemma gptp_capable_read:
  assumes "length H = 44" "signaling_ok (GptpCapable m)"
  shows "recv_gptp_capable e2 (H @ gptp_capable_image e1 (setup_gptp_capable_tlv e1 m) @ r) = m"
    and "(H @ gptp_capable_image e1 (setup_gptp_capable_tlv e1 m) @ r) ! 53 = 4"
    and "length (gptp_capable_image e1 (setup_gptp_capable_tlv e1 m)) = 16"
  using assms
  by (simp_all add: recv_gptp_capable_def gptp_capable_overlay_def gptp_capable_image_def field_def
      setup_gptp_capable_tlv_def nth_append Let_def)

lemma recv_frame:
  assumes "signaling_ok m" "clockid_ok (thisClock (ptasg s))" "rcvd_rxmsg r = Some (signaling_frame e1 s m @ rest)"
  shows "\<exists>t. recv_signaling_proc e2 r = Some (Some m, t)"
proof -
  let ?H = "header_image (big_endian e1) (signaling_header e1 s) @ replicate 10 0xff"
  have H: "length ?H = 44" using signaling_header_length [OF assms(2)] by simp
  show ?thesis
  proof (cases m)
    case (IntervalReq x)
    with interval_req_read(1) [OF H, where m = x and ?e2.0 = e2 and ?e1.0 = e1 and r = rest]
      interval_req_read(2) [OF H, where m = x and ?e1.0 = e1 and r = rest] interval_req_read(3) [OF H, where m = x and ?e1.0 = e1]
      assms H show ?thesis
      by (simp add: recv_signaling_proc_def signaling_frame_def Let_def)
  next
    case (GptpCapable x)
    with gptp_capable_read(1) [OF H, where m = x and ?e2.0 = e2 and ?e1.0 = e1 and r = rest]
      gptp_capable_read(2) [OF H, where m = x and ?e1.0 = e1 and r = rest] gptp_capable_read(3) [OF H, where m = x and ?e1.0 = e1]
      assms H show ?thesis
      by (simp add: recv_signaling_proc_def signaling_frame_def Let_def)
  qed
qed

text \<open>The machines get to the sending and the receiving state from every state they can be in.\<close>

definition sgs_pending :: "md_signaling_send_data \<Rightarrow> signaling_msg \<Rightarrow> md_signaling_send_data \<Rightarrow> bool" where
  "sgs_pending s m t \<longleftrightarrow> sgs_inv t \<and> rcvd_txmsg t = Some m \<and> ptasg t = ptasg s \<and> ppg t = ppg s \<and>
     sgs_sent t = sgs_sent s \<and>
     sgs_stype t = (case m of IntervalReq x \<Rightarrow> MD_SIGNALING_MSG_INTERVAL_REQ | GptpCapable x \<Rightarrow> MD_SIGNALING_GPTP_CAPABLE)"

lemma sgs_sends:
  assumes "sgs_pending s m t" "net_takes io" "state t = SEND_SIGNALING" "last_state t \<noteq> SEND_SIGNALING"
  shows "\<exists>u f. sm_loop (sgs_body e io) t = Some (u, Next) \<and> sgs_sent u = sgs_sent s @ [signaling_frame e f m] \<and>
    ptasg f = ptasg s"
proof -
  let ?t = "t\<lparr>last_state := SEND_SIGNALING\<rparr>"
  have tlv: "\<exists>b. signaling_tlv e ?t = Some b \<and>
      header_image (big_endian e) (signaling_header e ?t) @ replicate 10 0xff @ b = signaling_frame e t m"
    using assms(1) by (cases m)
      (simp_all add: sgs_pending_def signaling_tlv_def signaling_frame_def signaling_header_def)
  then obtain u where u: "sendSignaling e io ?t = Some (0, u)" "sgs_sent u = sgs_sent s @ [signaling_frame e t m]"
    using assms(1) net_takesD [OF assms(2)]
    by (cases m) (auto simp: sendSignaling_def sgs_pending_def sgs_inv_def Let_def)
  have "sm_step (sgs_body e io) t = (u\<lparr>sgs_stype := MD_SIGNALING_NONE\<rparr>, Next)"
    using assms(3,4) u(1) by (simp add: sm_step_entered sgs_body_def send_signaling_proc_def)
  then have "sm_loop (sgs_body e io) t = Some (u\<lparr>sgs_stype := MD_SIGNALING_NONE\<rparr>, Next)"
    using sm_loop_rest [where body = "sgs_body e io"] sendSignaling_SomeD [OF u(1)] assms(3) by simp
  then show ?thesis using u(2) assms(1) by (auto simp: sgs_pending_def)
qed

lemma sgs_initializes:
  assumes "sgs_pending s m t" "net_takes io" "state t = SGS_INITIALIZE" "last_state t \<noteq> SGS_INITIALIZE"
  shows "\<exists>u f. sm_loop (sgs_body e io) t = Some (u, Next) \<and> sgs_sent u = sgs_sent s @ [signaling_frame e f m] \<and>
    ptasg f = ptasg s"
proof -
  let ?u = "t\<lparr>state := SEND_SIGNALING, last_state := SGS_INITIALIZE, sgs_sequenceId := rand16 io\<rparr>"
  have "sgs_stype t \<noteq> MD_SIGNALING_NONE" using assms(1) by (simp add: sgs_pending_def split: signaling_msg.splits)
  then have step: "sm_step (sgs_body e io) t = (?u, Next)"
    using assms(3,4) by (simp add: sm_step_entered sgs_body_def sgs_initialize_condition_def sgs_initialize_proc_def)
  have "sgs_pending s m ?u" using assms(1) by (cases m) (simp_all add: sgs_pending_def sgs_inv_def)
  from sgs_sends [OF this assms(2)] sm_loop_again [OF step] show ?thesis by simp
qed

lemma sgs_delivers:
  assumes "signaling_ok m" "sgs_net s" "net_takes io" "state s \<noteq> SGS_REACTION"
  shows "\<exists>u f. md_signaling_send_sm_mdSignalingSend e io s m = Some (u, Next) \<and>
    sgs_sent u = sgs_sent s @ [signaling_frame e f m] \<and> ptasg f = ptasg s"
proof -
  let ?ty = "case m of IntervalReq x \<Rightarrow> MD_SIGNALING_MSG_INTERVAL_REQ | GptpCapable x \<Rightarrow> MD_SIGNALING_GPTP_CAPABLE"
  let ?s = "s\<lparr>sgs_stype := ?ty, rcvd_txmsg := Some m, last_state := SGS_REACTION\<rparr>"
  define t where "t = sgs_allstate_condition ?s"
  have t: "state t = SGS_INITIALIZE \<or> state t = state s" "last_state t = SGS_REACTION" "sgs_pending s m t"
    using assms(2) by (auto simp: t_def sgs_allstate_condition_def sgs_pending_def sgs_inv_def split: signaling_msg.splits)
  have run: "md_signaling_send_sm_mdSignalingSend e io s m = sm_loop (sgs_body e io) t"
    using assms(1) by (cases m) (simp_all add: md_signaling_send_sm_mdSignalingSend_def md_signaling_send_sm_def t_def)
  show ?thesis
  proof (cases "state t")
    case SGS_INIT
    let ?u = "t\<lparr>state := SGS_INITIALIZE, last_state := SGS_INIT\<rparr>"
    have step: "sm_step (sgs_body e io) t = (?u, Next)" using SGS_INIT t(2) by (simp add: sm_step_entered sgs_body_def)
    have "sgs_pending s m ?u" using t(3) by (cases m) (simp_all add: sgs_pending_def sgs_inv_def)
    from sgs_initializes [OF this assms(3)] sm_loop_again [OF step] show ?thesis unfolding run by simp
  next
    case SGS_INITIALIZE
    then show ?thesis using sgs_initializes [OF t(3) assms(3)] t(2) unfolding run by simp
  next
    case SEND_SIGNALING
    then show ?thesis using sgs_sends [OF t(3) assms(3)] t(2) unfolding run by simp
  next
    case SGS_REACTION
    then show ?thesis using t(1) assms(4) by auto
  qed
qed

lemma sgr_entered:
  assumes "state t = RECV_SIGNALING" "last_state t \<noteq> RECV_SIGNALING"
    and "recv_signaling_proc e (t\<lparr>last_state := RECV_SIGNALING\<rparr>) = Some (Some m, u)"
  shows "sm_loop (sgr_body e) t = Some (u, Return m)"
proof -
  have "sm_step (sgr_body e) t = (u, Return m)" using assms by (simp add: sm_step_entered sgr_body_def)
  then show ?thesis by (simp add: sm_loop_out)
qed

lemma sgr_receives:
  assumes "state r \<noteq> SGR_REACTION"
    and m: "\<And>t. rcvd_rxmsg t = Some bs \<Longrightarrow> \<exists>u. recv_signaling_proc e t = Some (Some m, u)"
  shows "\<exists>u. md_signaling_receive_sm_mdSignalingRec e r bs = Some (u, Return m)"
proof -
  let ?r = "r\<lparr>sgr_recv := True, rcvd_rxmsg := Some bs, last_state := SGR_REACTION,
       sgr_statd := (sgr_statd r)\<lparr>signal_rec := signal_rec (sgr_statd r) + 1\<rparr>\<rparr>"
  define t where "t = sgr_allstate_condition ?r"
  have t: "state t = SGR_INITIALIZE \<or> state t = state r" "last_state t = SGR_REACTION" "sgr_recv t" "rcvd_rxmsg t = Some bs"
    by (auto simp: t_def sgr_allstate_condition_def)
  have run: "md_signaling_receive_sm_mdSignalingRec e r bs = sm_loop (sgr_body e) t"
    by (simp add: md_signaling_receive_sm_mdSignalingRec_def md_signaling_receive_sm_def t_def)
  have recv: "\<exists>u. sm_loop (sgr_body e) v = Some (u, Return m)"
    if "state v = RECV_SIGNALING" "last_state v \<noteq> RECV_SIGNALING" "rcvd_rxmsg v = Some bs" for v
    using m [of "v\<lparr>last_state := RECV_SIGNALING\<rparr>"] sgr_entered [OF that(1,2)] that(3) by auto
  have init: "\<exists>u. sm_loop (sgr_body e) v = Some (u, Return m)"
    if v: "state v = SGR_INITIALIZE" "sgr_recv v" "rcvd_rxmsg v = Some bs" for v
  proof -
    have step: "sm_step (sgr_body e) v = (v\<lparr>state := RECV_SIGNALING, last_state := SGR_INITIALIZE\<rparr>, Next)"
      using v by (simp add: sm_step_def sgr_body_def sgr_initialize_condition_def)
    show ?thesis using recv [of "v\<lparr>state := RECV_SIGNALING, last_state := SGR_INITIALIZE\<rparr>"] v sm_loop_again [OF step] by simp
  qed
  show ?thesis
  proof (cases "state t")
    case SGR_INIT
    have step: "sm_step (sgr_body e) t = (t\<lparr>state := SGR_INITIALIZE, last_state := SGR_INIT\<rparr>, Next)"
      using SGR_INIT t(2) by (simp add: sm_step_entered sgr_body_def)
    show ?thesis unfolding run
      using init [of "t\<lparr>state := SGR_INITIALIZE, last_state := SGR_INIT\<rparr>"] t sm_loop_again [OF step] by simp
  next
    case SGR_INITIALIZE
    then show ?thesis unfolding run using init t by blast
  next
    case RECV_SIGNALING
    then show ?thesis unfolding run using recv t by simp
  next
    case SGR_REACTION
    then show ?thesis using t(1) assms(1) by auto
  qed
qed

text \<open>C22: A signaling message arrives as it was sent: the machine puts exactly one frame on the wire, and the machine of
  the neighbour, whose host may have another byte order, hands on the same message. This needs
  nothing of the state of the two ports: a message that is handed over for a port that is disabled is sent all the same,
  and one that comes in on a disabled port is taken.\<close>

theorem signaling_over_wire:
  assumes "signaling_ok m" "sgs_net s" "net_takes io" "clockid_ok (thisClock (ptasg s))"
    and "state s \<noteq> SGS_REACTION" "state r \<noteq> SGR_REACTION"
  shows "\<exists>s' f. md_signaling_send_sm_mdSignalingSend e1 io s m = Some (s', Next) \<and> sgs_sent s' = sgs_sent s @ [f] \<and>
    (\<exists>r'. md_signaling_receive_sm_mdSignalingRec e2 r (f @ rest) = Some (r', Return m))"
proof -
  obtain s' x where s': "md_signaling_send_sm_mdSignalingSend e1 io s m = Some (s', Next)"
    "sgs_sent s' = sgs_sent s @ [signaling_frame e1 x m]" "ptasg x = ptasg s"
    using sgs_delivers [OF assms(1-3,5)] by blast
  have "clockid_ok (thisClock (ptasg x))" using assms(4) s'(3) by simp
  then have "\<exists>r'. md_signaling_receive_sm_mdSignalingRec e2 r (signaling_frame e1 x m @ rest) = Some (r', Return m)"
    using recv_frame [OF assms(1)] by (intro sgr_receives [OF assms(6)]) blast
  with s' show ?thesis by blast
qed

text \<open>The TLV of a port that is down, sent to a host of the other byte order whose port is down too.\<close>

definition sample_sgs :: md_signaling_send_data where
  "sample_sgs = md_signaling_send_sm_init True sample_ptasg zero_PerPortGlobal"

theorem signaling_over_wire_witness:
  "\<exists>s' f r' m. md_signaling_send_sm_mdSignalingSend default_env sample_io sample_sgs m = Some (s', Next) \<and>
    sgs_sent s' = [f] \<and> m = GptpCapable (zero_PTPMsgGPTPCapableTLV\<lparr>gc_organizationSubType := 4\<rparr>) \<and>
    md_signaling_receive_sm_mdSignalingRec (default_env\<lparr>big_endian := True\<rparr>)
      (md_signaling_receive_sm_init sample_ptasg zero_PerPortGlobal) f = Some (r', Return m)"
proof -
  let ?m = "GptpCapable (zero_PTPMsgGPTPCapableTLV\<lparr>gc_organizationSubType := 4\<rparr>)"
  have "signaling_ok ?m" "sgs_net sample_sgs" "clockid_ok (thisClock (ptasg sample_sgs))"
    "state sample_sgs \<noteq> SGS_REACTION" "state (md_signaling_receive_sm_init sample_ptasg zero_PerPortGlobal) \<noteq> SGR_REACTION"
    "sgs_sent sample_sgs = []"
    by (simp_all add: zero_PTPMsgGPTPCapableTLV_def sample_sgs_def md_signaling_send_sm_init_def
        md_signaling_receive_sm_init_def sample_ptasg_def)
  then show ?thesis
    using signaling_over_wire [of ?m sample_sgs sample_io "md_signaling_receive_sm_init sample_ptasg zero_PerPortGlobal"
        default_env "default_env\<lparr>big_endian := True\<rparr>" "[]"] by auto
qed

end
