(* ===== verification/Gptp_ExtPort.thy ===== *)
theory Gptp_ExtPort
  imports Gptp_AnnounceInformation
begin

text \<open>
  External port configuration (10.3.13 and 10.3.14 of the standard): the PortAnnounceInformationExt
  machine (\<^verbatim>\<open>port_announce_information_ext_sm.c\<close>) and the PortStateSettingExt machine
  (\<^verbatim>\<open>port_state_setting_ext_sm.c\<close>), which take the place of the best master clock algorithm when the
  states of the ports are set from outside.
\<close>

section \<open>PortAnnounceInformationExt\<close>

datatype (plugins only: code) pix_state = PIX_INIT | PIX_INITIALIZE | PIX_RECEIVE | PIX_REACTION

record port_announce_information_ext_data = "pix_state bmcs_sm" +
  pix_rcvdAnnounce :: bool
  pix_messagePriority :: UInteger224

text \<open>The path trace: the path of the message with this clock at its end, or nothing when it gets too long.\<close>

definition ext_path_trace ::
  "PTPMsgAnnounce \<Rightarrow> ClockIdentity \<Rightarrow> ClockIdentity list \<Rightarrow> ClockIdentity list" where
  "ext_path_trace a self trace =
     (let N = (if unat (stepsRemoved_m a) + 1 < MAX_PATH_TRACE_N then unat (stepsRemoved_m a) + 1 else MAX_PATH_TRACE_N)
      in if N < MAX_PATH_TRACE_N then append_path N (pathSequence a) self trace
         else replicate MAX_PATH_TRACE_N zero_clockid)"

definition rcvdInfoExt ::
  "PTPMsgAnnounce \<Rightarrow> port_announce_information_ext_data \<Rightarrow> port_announce_information_ext_data" where
  "rcvdInfoExt a sm =
     (let sm1 = sm\<lparr>pix_messagePriority := message_priority a (thisPort (ppg sm)),
                   bppg := (bppg sm)\<lparr>messageStepsRemoved := stepsRemoved_m a\<rparr>\<rparr>
      in if selectedState (ptasg sm1) ! unat (thisPortIndex (ppg sm1)) = SlavePort
         then sm1\<lparr>bptasg := (bptasg sm1)
                \<lparr>pathTrace := ext_path_trace a (thisClock (ptasg sm1)) (pathTrace (bptasg sm1))\<rparr>\<rparr>
         else sm1)"

definition pix_recordOtherAnnounceInfo ::
  "PTPMsgAnnounce \<Rightarrow> port_announce_information_ext_data \<Rightarrow> port_announce_information_ext_data" where
  "pix_recordOtherAnnounceInfo a sm =
     (let f = flags (header a) ! 1
      in sm\<lparr>bppg := (bppg sm)
           \<lparr>annLeap61 := (f AND 0x01 = 0x01), annLeap59 := (f AND 0x02 = 0x02),
            annCurrentUtcOffsetValid := (f AND 0x04 = 0x04), annPtpTimescale := (f AND 0x08 = 0x08),
            annTimeTraceable := (f AND 0x10 = 0x10), annFrequencyTraceable := (f AND 0x20 = 0x20),
            annCurrentUtcOffset := currentUtcOffset_m a, annTimeSource := timeSource_m a\<rparr>\<rparr>)"

definition pix_allstate_condition :: "port_announce_information_ext_data \<Rightarrow> pix_state" where
  "pix_allstate_condition sm =
     (if ((\<not> PORT_OPER sm \<or> \<not> PTP_PORT_ENABLED sm \<or> \<not> AS_CAPABLE sm) \<or> BEGIN (ptasg sm) \<or> \<not> instanceEnable (ptasg sm)) \<and>
         externalPortConfiguration (bptasg sm) = VALUE_ENABLED
      then PIX_INITIALIZE else state sm)"

definition pix_initialize_proc :: "port_announce_information_ext_data \<Rightarrow> port_announce_information_ext_data" where
  "pix_initialize_proc sm = sm\<lparr>bppg := (bppg sm)\<lparr>updtInfo := False\<rparr>, pix_rcvdAnnounce := False\<rparr>"

definition pix_initialize_condition :: "port_announce_information_ext_data \<Rightarrow> pix_state" where
  "pix_initialize_condition sm =
     (if PORT_OPER sm \<and> PTP_PORT_ENABLED sm \<and> AS_CAPABLE sm \<and> pix_rcvdAnnounce sm then PIX_RECEIVE else PIX_INITIALIZE)"

text \<open>\<open>None\<close> is a null access.\<close>

definition pix_receive_proc ::
  "port_announce_information_ext_data \<Rightarrow> (UInteger224 \<times> port_announce_information_ext_data) option" where
  "pix_receive_proc sm =
     (case rcvdAnnouncePtr (bppg sm) of
        None \<Rightarrow> None
      | Some a \<Rightarrow>
          let sm1 = rcvdInfoExt a sm; sm2 = pix_recordOtherAnnounceInfo a sm1
          in Some (pix_messagePriority sm1,
               sm2\<lparr>bppg := (bppg sm2)\<lparr>portStepsRemoved := messageStepsRemoved (bppg sm2) + 1\<rparr>\<rparr>))"

definition pix_receive_condition :: "port_announce_information_ext_data \<Rightarrow> pix_state" where
  "pix_receive_condition sm =
     (if PORT_OPER sm \<and> PTP_PORT_ENABLED sm \<and> AS_CAPABLE sm \<and> pix_rcvdAnnounce sm then PIX_REACTION else PIX_RECEIVE)"

definition pix_body ::
  "bool \<Rightarrow> port_announce_information_ext_data \<Rightarrow> port_announce_information_ext_data \<times> UInteger224 ctl" where
  "pix_body state_change sm =
     (case state sm of
        PIX_INIT \<Rightarrow> (sm\<lparr>state := PIX_INITIALIZE\<rparr>, Next)
      | PIX_INITIALIZE \<Rightarrow>
          (let sm1 = (if state_change then pix_initialize_proc sm else sm)
           in (sm1\<lparr>state := pix_initialize_condition sm1\<rparr>, Next))
      | PIX_RECEIVE \<Rightarrow>
          (if state_change then
             (case pix_receive_proc sm of
                None \<Rightarrow> (sm, Crash)
              | Some (v, sm1) \<Rightarrow> (sm1\<lparr>state := pix_receive_condition sm1\<rparr>, Return v))
           else (sm\<lparr>state := pix_receive_condition sm\<rparr>, Next))
      | PIX_REACTION \<Rightarrow> (sm, Next))"

definition port_announce_information_ext_sm ::
  "port_announce_information_ext_data \<Rightarrow> (port_announce_information_ext_data \<times> UInteger224 ctl) option" where
  "port_announce_information_ext_sm sm = sm_loop pix_body (sm\<lparr>state := pix_allstate_condition sm\<rparr>)"

definition port_announce_information_ext_sm_init ::
  "nat \<Rightarrow> PerTimeAwareSystemGlobal \<Rightarrow> PerPortGlobal \<Rightarrow> BmcsPerTimeAwareSystemGlobal \<Rightarrow> BmcsPerPortGlobal \<Rightarrow>
   port_announce_information_ext_data" where
  "port_announce_information_ext_sm_init i pt pp bt bp =
     \<lparr>state = PIX_INIT, last_state = PIX_INIT, ptasg = pt, ppg = pp, bptasg = bt, bppg = bp, portIndex = i,
      pix_rcvdAnnounce = False, pix_messagePriority = memset_UInteger224 0\<rparr>"

section \<open>PortStateSettingExt\<close>

datatype (plugins only: code) sse_state = SSE_INIT | SSE_INITIALIZE | SSE_STATE_SETTING | SSE_REACTION

record port_state_setting_ext_data = "sse_state dom_sm" +
  sse_ppgl :: "PerPortGlobal list"
  sse_bptasg :: BmcsPerTimeAwareSystemGlobal
  sse_bppgl :: "BmcsPerPortGlobal list"
  sse_portIndex :: nat
  sse_max_ports :: nat
  sse_messagePriority :: UInteger224
  disabledExt :: bool
  rcvdPortStateInd :: bool
  portStateInd :: PTPPortState
  asymmetryMeasurementModeChangeThisPort :: bool

text \<open>The path trace of a system that is its own grandmaster; the count is left alone.\<close>

definition own_path :: "PerTimeAwareSystemGlobal \<Rightarrow> BmcsPerTimeAwareSystemGlobal \<Rightarrow> BmcsPerTimeAwareSystemGlobal" where
  "own_path pt bt = bt\<lparr>pathTrace := (replicate MAX_PATH_TRACE_N zero_clockid)[0 := thisClock pt]\<rparr>"

definition resetStateDisabledTree :: "port_state_setting_ext_data \<Rightarrow> port_state_setting_ext_data" where
  "resetStateDisabledTree sm =
     (let pt = (ptasg sm)\<lparr>selectedState := (selectedState (ptasg sm))[sse_portIndex sm := DisabledPort]\<rparr>;
          sm1 = sm\<lparr>ptasg := pt\<rparr>
      in if list_ex (\<lambda>i. selectedState pt ! i = SlavePort) [0..<sse_max_ports sm] then sm1
         else sm1\<lparr>sse_bptasg := own_path pt (sse_bptasg sm1)\<rparr>)"

text \<open>
  \<^verbatim>\<open>updtPortState\<close> in its stages. The first slave port there was before the setting decides
  whether the information of a port or that of the system is used.
\<close>

definition slave_port :: "port_state_setting_ext_data \<Rightarrow> nat option" where
  "slave_port sm = find (\<lambda>i. selectedState (ptasg sm) ! i = SlavePort) [1..<sse_max_ports sm]"

definition ext_use_port :: "nat \<Rightarrow> port_state_setting_ext_data \<Rightarrow> port_state_setting_ext_data" where
  "ext_use_port slave sm =
     (let bp = sse_bppgl sm ! sse_portIndex sm
      in sm\<lparr>ptasg := (if priority1 (rootSystemIdentity (sse_messagePriority sm)) < 255
               then (ptasg sm)\<lparr>gmPresent := True,
                      gmIdentity := rootClockIdentity (rootSystemIdentity (masterPriority bp))\<rparr>
               else (ptasg sm)\<lparr>gmPresent := False\<rparr>),
            sse_bptasg := (sse_bptasg sm)
              \<lparr>masterStepsRemoved := portStepsRemoved (sse_bppgl sm ! slave),
               leap61 := annLeap61 bp, leap59 := annLeap59 bp,
               currentUtcOffsetValid := annCurrentUtcOffsetValid bp, ptpTimescale := annPtpTimescale bp,
               timeTraceable := annTimeTraceable bp, frequencyTraceable := annFrequencyTraceable bp,
               currentUtcOffset := annCurrentUtcOffset bp, timeSource := annTimeSource bp\<rparr>\<rparr>)"

definition ext_use_system :: "port_state_setting_ext_data \<Rightarrow> port_state_setting_ext_data" where
  "ext_use_system sm =
     (let bt = sse_bptasg sm
      in sm\<lparr>ptasg := (if priority1 (rootSystemIdentity (systemPriority bt)) < 255
               then (ptasg sm)\<lparr>gmPresent := True, gmIdentity := rootClockIdentity (rootSystemIdentity (systemPriority bt))\<rparr>
               else (ptasg sm)\<lparr>gmPresent := False\<rparr>),
            sse_bptasg := bt
              \<lparr>masterStepsRemoved := 0,
               leap61 := sysLeap61 bt, leap59 := sysLeap59 bt,
               currentUtcOffsetValid := sysCurrentUTCOffsetValid bt, ptpTimescale := sysPtpTimescale bt,
               timeTraceable := sysTimeTraceable bt, frequencyTraceable := sysFrequencyTraceable bt,
               currentUtcOffset := sysCurrentUtcOffset bt, timeSource := sysTimeSource bt,
               gmPriority := systemPriority bt\<rparr>\<rparr>)"

definition ext_new_state :: "port_state_setting_ext_data \<Rightarrow> PTPPortState" where
  "ext_new_state sm =
     (if disabledExt sm then DisabledPort
      else if asymmetryMeasurementMode (forAllDomain (sse_ppgl sm ! sse_portIndex sm)) then PassivePort
      else portStateInd sm)"

definition ext_assign :: "bool \<Rightarrow> port_state_setting_ext_data \<Rightarrow> port_state_setting_ext_data" where
  "ext_assign slaveAvail sm =
     (let st = (selectedState (ptasg sm))[sse_portIndex sm := ext_new_state sm];
          st1 = (if st ! sse_portIndex sm = SlavePort then st[0 := PassivePort]
                 else if \<not> slaveAvail then st[0 := SlavePort] else st)
      in sm\<lparr>ptasg := (ptasg sm)\<lparr>selectedState := st1\<rparr>\<rparr>)"

definition ext_vectors :: "bool \<Rightarrow> port_state_setting_ext_data \<Rightarrow> port_state_setting_ext_data" where
  "ext_vectors slaveAvail sm =
     (let i = sse_portIndex sm; bt = sse_bptasg sm;
          gm = (if \<not> slaveAvail then systemPriority bt
                else if selectedState (ptasg sm) ! i = SlavePort then sse_messagePriority sm else gmPriority bt);
          port = thisPort (sse_ppgl sm ! i);
          mv = gm\<lparr>sourcePortIdentity := \<lparr>clockIdentity = thisClock (ptasg sm), portNumber = port\<rparr>, pvPortNumber := port\<rparr>;
          bt1 = bt\<lparr>gmPriority := gm\<rparr>
      in sm\<lparr>sse_bptasg := (if \<not> slaveAvail then own_path (ptasg sm) bt1 else bt1),
            sse_bppgl := (sse_bppgl sm)[i := (sse_bppgl sm ! i)\<lparr>masterPriority := mv\<rparr>]\<rparr>)"

definition updtPortState :: "port_state_setting_ext_data \<Rightarrow> port_state_setting_ext_data" where
  "updtPortState sm =
     (let avail = slave_port sm \<noteq> None;
          sm1 = (case slave_port sm of Some slave \<Rightarrow> ext_use_port slave sm | None \<Rightarrow> ext_use_system sm)
      in ext_vectors avail (ext_assign avail sm1))"

definition sse_allstate_condition :: "port_state_setting_ext_data \<Rightarrow> sse_state" where
  "sse_allstate_condition sm =
     (if (BEGIN (ptasg sm) \<or> \<not> instanceEnable (ptasg sm)) \<and> externalPortConfiguration (sse_bptasg sm) = VALUE_ENABLED
      then SSE_INITIALIZE else state sm)"

definition sse_initialize_condition :: "port_state_setting_ext_data \<Rightarrow> sse_state" where
  "sse_initialize_condition sm =
     (if rcvdPortStateInd sm \<or> asymmetryMeasurementModeChangeThisPort sm then SSE_STATE_SETTING else SSE_INITIALIZE)"

definition state_setting_proc :: "port_state_setting_ext_data \<Rightarrow> port_state_setting_ext_data" where
  "state_setting_proc sm = (updtPortState sm)\<lparr>rcvdPortStateInd := False, asymmetryMeasurementModeChangeThisPort := False\<rparr>"

definition state_setting_condition :: "port_state_setting_ext_data \<Rightarrow> port_state_setting_ext_data" where
  "state_setting_condition sm =
     (if rcvdPortStateInd sm \<or> disabledExt sm \<or> asymmetryMeasurementModeChangeThisPort sm
      then sm\<lparr>state := SSE_STATE_SETTING, last_state := SSE_REACTION\<rparr> else sm\<lparr>state := SSE_STATE_SETTING\<rparr>)"

definition sse_body ::
  "bool \<Rightarrow> port_state_setting_ext_data \<Rightarrow> port_state_setting_ext_data \<times> unit ctl" where
  "sse_body state_change sm =
     (case state sm of
        SSE_INIT \<Rightarrow> (sm\<lparr>state := SSE_INITIALIZE\<rparr>, Next)
      | SSE_INITIALIZE \<Rightarrow>
          (let sm1 = (if state_change then resetStateDisabledTree sm else sm)
           in (sm1\<lparr>state := sse_initialize_condition sm1\<rparr>, Next))
      | SSE_STATE_SETTING \<Rightarrow>
          (state_setting_condition (if state_change then state_setting_proc sm else sm), Next)
      | SSE_REACTION \<Rightarrow> (sm, Next))"

definition port_state_setting_ext_sm ::
  "port_state_setting_ext_data \<Rightarrow> (port_state_setting_ext_data \<times> unit ctl) option" where
  "port_state_setting_ext_sm sm = sm_loop sse_body (sm\<lparr>state := sse_allstate_condition sm\<rparr>)"

text \<open>The flag that the domains share is passed in by value.\<close>

definition port_state_setting_ext_sm_init ::
  "nat \<Rightarrow> nat \<Rightarrow> PerTimeAwareSystemGlobal \<Rightarrow> PerPortGlobal list \<Rightarrow> BmcsPerTimeAwareSystemGlobal \<Rightarrow>
   BmcsPerPortGlobal list \<Rightarrow> bool \<Rightarrow> port_state_setting_ext_data" where
  "port_state_setting_ext_sm_init i n pt pps bt bps change =
     \<lparr>state = SSE_INIT, last_state = SSE_INIT, ptasg = pt, sse_ppgl = pps, sse_bptasg = bt, sse_bppgl = bps,
      sse_portIndex = i, sse_max_ports = n, sse_messagePriority = memset_UInteger224 0xff,
      disabledExt = False, rcvdPortStateInd = False, portStateInd = PortStateUnset,
      asymmetryMeasurementModeChangeThisPort = change\<rparr>"

definition port_state_setting_ext_sm_messagePriority ::
  "port_state_setting_ext_data \<Rightarrow> UInteger224 \<Rightarrow> port_state_setting_ext_data" where
  "port_state_setting_ext_sm_messagePriority sm v = sm\<lparr>sse_messagePriority := v\<rparr>"

section \<open>The contracts of the machines\<close>

definition pix_inv :: "port_announce_information_ext_data \<Rightarrow> bool" where
  "pix_inv sm \<longleftrightarrow> pix_rcvdAnnounce sm \<or> state sm = PIX_RECEIVE \<longrightarrow> rcvdAnnouncePtr (bppg sm) \<noteq> None"

fun pix_rank :: "port_announce_information_ext_data \<Rightarrow> nat" where
  "pix_rank sm =
     (case state sm of PIX_INIT \<Rightarrow> 4 | PIX_INITIALIZE \<Rightarrow> 3 | PIX_RECEIVE \<Rightarrow> 2 | PIX_REACTION \<Rightarrow> 1)"

definition pix_good ::
  "port_announce_information_ext_data \<Rightarrow> port_announce_information_ext_data \<Rightarrow> UInteger224 ctl \<Rightarrow> bool" where
  "pix_good s t c \<longleftrightarrow> pix_inv t \<and> c \<noteq> Crash \<and> (c = Next \<and> last_state t \<noteq> state t \<longrightarrow> pix_rank t < pix_rank s)"

lemma pix_frame [simp]:
  "rcvdAnnouncePtr (bppg (rcvdInfoExt a s)) = rcvdAnnouncePtr (bppg s)"
  "pix_rcvdAnnounce (rcvdInfoExt a s) = pix_rcvdAnnounce s"
  "rcvdAnnouncePtr (bppg (pix_recordOtherAnnounceInfo a s)) = rcvdAnnouncePtr (bppg s)"
  "pix_rcvdAnnounce (pix_recordOtherAnnounceInfo a s) = pix_rcvdAnnounce s"
  by (simp_all add: rcvdInfoExt_def pix_recordOtherAnnounceInfo_def Let_def)

lemma pix_receive_proc_SomeD:
  assumes "pix_receive_proc s = Some (v, t)"
  shows "rcvdAnnouncePtr (bppg t) = rcvdAnnouncePtr (bppg s)" "pix_rcvdAnnounce t = pix_rcvdAnnounce s"
  using assms by (auto simp: pix_receive_proc_def Let_def split: option.splits)

lemma pix_step_good:
  assumes "pix_inv s" "pix_body (last_state s \<noteq> state s) (s\<lparr>last_state := state s\<rparr>) = (t, c)"
  shows "pix_good s t c"
proof (cases "state s = PIX_RECEIVE \<and> last_state s \<noteq> PIX_RECEIVE")
  case True
  obtain v u where u: "pix_receive_proc (s\<lparr>last_state := PIX_RECEIVE\<rparr>) = Some (v, u)"
    using True assms(1) by (auto simp: pix_receive_proc_def pix_inv_def Let_def)
  then show ?thesis using assms True pix_receive_proc_SomeD [OF u]
    by (auto simp: pix_body_def pix_good_def pix_inv_def)
next
  case False
  with assms show ?thesis
    by (cases "state s") (auto simp: pix_body_def pix_good_def pix_inv_def pix_initialize_condition_def
        pix_receive_condition_def pix_initialize_proc_def Let_def split: if_splits)
qed

interpretation pix: sm_safe pix_body pix_inv pix_rank
  by unfold_locales (use pix_step_good in \<open>unfold pix_good_def, blast\<close>)+

fun sse_rank :: "port_state_setting_ext_data \<Rightarrow> nat" where
  "sse_rank sm =
     (case state sm of
        SSE_INIT \<Rightarrow> 4
      | SSE_INITIALIZE \<Rightarrow> 3
      | SSE_STATE_SETTING \<Rightarrow> if last_state sm = SSE_STATE_SETTING then 2 else 1
      | SSE_REACTION \<Rightarrow> 0)"

definition sse_good :: "port_state_setting_ext_data \<Rightarrow> port_state_setting_ext_data \<Rightarrow> unit ctl \<Rightarrow> bool" where
  "sse_good s t c \<longleftrightarrow> \<not> disabledExt t \<and> c \<noteq> Crash \<and> (c = Next \<and> last_state t \<noteq> state t \<longrightarrow> sse_rank t < sse_rank s)"

lemma updtPortState_frame [simp]:
  "disabledExt (updtPortState s) = disabledExt s" "last_state (updtPortState s) = last_state s"
  "state (updtPortState s) = state s"
  by (simp_all add: updtPortState_def Let_def ext_vectors_def ext_assign_def ext_use_port_def ext_use_system_def
      split: option.split)

lemma resetStateDisabledTree_frame [simp]:
  "disabledExt (resetStateDisabledTree s) = disabledExt s" "last_state (resetStateDisabledTree s) = last_state s"
  by (simp_all add: resetStateDisabledTree_def Let_def)

lemma sse_step_good:
  assumes "\<not> disabledExt s" "sse_body (last_state s \<noteq> state s) (s\<lparr>last_state := state s\<rparr>) = (t, c)"
  shows "sse_good s t c"
  using assms
  by (cases "state s") (auto simp: sse_body_def sse_good_def sse_initialize_condition_def state_setting_condition_def
      state_setting_proc_def Let_def split: if_splits)

interpretation sse: sm_safe sse_body "\<lambda>sm. \<not> disabledExt sm" sse_rank
  by unfold_locales (use sse_step_good in \<open>unfold sse_good_def, blast\<close>)+

section \<open>What becomes of external port configuration\<close>

text \<open>A port that is disabled from outside: the machine, once it sets states, goes round for ever.\<close>

theorem disabled_ext_never_returns:
  assumes "disabledExt sm" "sse_allstate_condition sm = SSE_STATE_SETTING"
  shows "port_state_setting_ext_sm sm = None"
proof -
  have "\<exists>t. sm_step sse_body s = (t, Next) \<and> last_state t \<noteq> state t \<and> (disabledExt t \<and> state t = SSE_STATE_SETTING)"
    if "disabledExt s \<and> state s = SSE_STATE_SETTING" for s
    using that by (simp add: sm_step_def sse_body_def state_setting_condition_def state_setting_proc_def)
  from sm_loop_diverges [OF this] assms show ?thesis by (simp add: port_state_setting_ext_sm_def)
qed

theorem disabled_ext_never_returns_witness:
  "port_state_setting_ext_sm ((port_state_setting_ext_sm_init 1 2 sample_ptasg [] zero_BmcsPerTimeAwareSystemGlobal [] False)
     \<lparr>state := SSE_STATE_SETTING, last_state := SSE_STATE_SETTING, disabledExt := True\<rparr>) = None"
  using sample_running
  by (intro disabled_ext_never_returns)
    (simp_all add: port_state_setting_ext_sm_init_def sse_allstate_condition_def tas_running_def)

text \<open>An Announce message reaches the Ext machine only through its own flag, which nothing in the program sets:
  without it a run comes to rest, hands on nothing and records nothing.\<close>

definition pix_idle :: "port_announce_information_ext_data \<Rightarrow> bool" where
  "pix_idle sm \<longleftrightarrow> \<not> pix_rcvdAnnounce sm \<and> (state sm = PIX_INIT \<or> state sm = PIX_INITIALIZE)"

definition pix_unrecorded :: "port_announce_information_ext_data \<Rightarrow> port_announce_information_ext_data \<Rightarrow> bool" where
  "pix_unrecorded s t \<longleftrightarrow> bptasg t = bptasg s \<and> (bppg t = bppg s \<or> bppg t = (bppg s)\<lparr>updtInfo := False\<rparr>)"

lemma pix_step_idle:
  assumes "pix_idle s"
  shows "\<exists>t. pix_body ch (s\<lparr>last_state := l\<rparr>) = (t, Next) \<and> pix_idle t \<and> pix_unrecorded s t"
proof (cases "state s = PIX_INIT")
  case True
  with assms show ?thesis by (simp add: pix_body_def pix_idle_def pix_unrecorded_def)
next
  case False
  with assms have "state s = PIX_INITIALIZE" "\<not> pix_rcvdAnnounce s" by (simp_all add: pix_idle_def)
  then show ?thesis
    by (cases ch) (simp_all add: pix_body_def pix_idle_def pix_unrecorded_def pix_initialize_condition_def
        pix_initialize_proc_def Let_def)
qed

lemma pix_run_idle:
  assumes "sm_loop pix_body s = Some (t, c)" "pix_idle s"
  shows "c = Next \<and> pix_idle t \<and> pix_unrecorded s t"
  using assms
proof (induction rule: sm_loop_induct)
  case (exit s t c)
  then show ?case using pix_step_idle [of s "last_state s \<noteq> state s" "state s"] by force
next
  case (again s u t c)
  then have "pix_idle u" "pix_unrecorded s u"
    using pix_step_idle [of s "last_state s \<noteq> state s" "state s"] by force+
  with again.IH show ?case by (auto simp: pix_unrecorded_def)
qed

theorem external_announce_never_recorded:
  assumes "pix_idle sm"
  shows "\<exists>t. port_announce_information_ext_sm sm = Some (t, Next) \<and> pix_idle t \<and> pix_unrecorded sm t"
proof -
  let ?s = "sm\<lparr>state := pix_allstate_condition sm\<rparr>"
  have idle: "pix_idle ?s" using assms by (auto simp: pix_idle_def pix_allstate_condition_def)
  then have "pix_inv ?s" by (auto simp: pix_idle_def pix_inv_def)
  then obtain t c where t: "sm_loop pix_body ?s = Some (t, c)" using pix.sm_returns by blast
  with pix_run_idle [OF t idle] show ?thesis
    by (auto simp: port_announce_information_ext_sm_def pix_unrecorded_def)
qed

text \<open>Whether there is a slave port is looked up before the new state is set, and the grandmaster is chosen by
  the old answer. When the first port becomes the slave port the system goes on announcing itself, with no steps, as
  the grandmaster; when the only slave port gets another state no port is left as slave, not even port 0,
  and the vector of the lost grandmaster stays.\<close>

theorem external_state_one_step_late:
  assumes "i = sse_portIndex sm" "1 \<le> i" "i < sse_max_ports sm" "sse_max_ports sm \<le> length (selectedState (ptasg sm))"
  shows "(slave_port sm = None \<and> ext_new_state sm = SlavePort \<longrightarrow>
      selectedState (ptasg (updtPortState sm)) ! i = SlavePort \<and>
      gmPriority (sse_bptasg (updtPortState sm)) = systemPriority (sse_bptasg sm) \<and>
      masterStepsRemoved (sse_bptasg (updtPortState sm)) = 0) \<and>
    (slave_port sm = Some i \<and> ext_new_state sm \<noteq> SlavePort \<and> selectedState (ptasg sm) ! 0 \<noteq> SlavePort \<and>
       (\<forall>j < sse_max_ports sm. j \<noteq> i \<longrightarrow> selectedState (ptasg sm) ! j \<noteq> SlavePort) \<longrightarrow>
      (\<forall>j < sse_max_ports sm. selectedState (ptasg (updtPortState sm)) ! j \<noteq> SlavePort) \<and>
      gmPriority (sse_bptasg (updtPortState sm)) = gmPriority (sse_bptasg sm))"
proof (intro conjI impI)
  have new: "ext_new_state (ext_use_system sm) = ext_new_state sm" "ext_new_state (ext_use_port k sm) = ext_new_state sm" for k
    by (simp_all add: ext_new_state_def ext_use_system_def ext_use_port_def Let_def)
  have st: "selectedState (ptasg (ext_use_system sm)) = selectedState (ptasg sm)"
    "selectedState (ptasg (ext_use_port k sm)) = selectedState (ptasg sm)"
    "sse_portIndex (ext_use_system sm) = i" "sse_portIndex (ext_use_port k sm) = i" for k
    using assms(1) by (simp_all add: ext_use_system_def ext_use_port_def Let_def)
  have vec: "selectedState (ptasg (ext_vectors b s)) = selectedState (ptasg s)" for b s
    by (simp add: ext_vectors_def Let_def)
  have i: "i < length (selectedState (ptasg sm))" using assms(3,4) by simp
  assume a: "slave_port sm = None \<and> ext_new_state sm = SlavePort"
  then have u: "updtPortState sm = ext_vectors False (ext_assign False (ext_use_system sm))"
    by (simp add: updtPortState_def)
  show "selectedState (ptasg (updtPortState sm)) ! i = SlavePort"
    unfolding u vec using a i assms(2) by (simp add: ext_assign_def st new Let_def)
  show "gmPriority (sse_bptasg (updtPortState sm)) = systemPriority (sse_bptasg sm)"
    "masterStepsRemoved (sse_bptasg (updtPortState sm)) = 0"
    unfolding u by (simp_all add: ext_vectors_def ext_assign_def ext_use_system_def own_path_def Let_def)
next
  have new: "ext_new_state (ext_use_port k sm) = ext_new_state sm" for k
    by (simp add: ext_new_state_def ext_use_port_def Let_def)
  have st: "selectedState (ptasg (ext_use_port k sm)) = selectedState (ptasg sm)"
    "sse_portIndex (ext_use_port k sm) = i" for k
    using assms(1) by (simp_all add: ext_use_port_def Let_def)
  have gm: "gmPriority (sse_bptasg (ext_use_port k sm)) = gmPriority (sse_bptasg sm)" for k
    by (simp add: ext_use_port_def Let_def)
  have i: "i < length (selectedState (ptasg sm))" using assms(3,4) by simp
  assume a: "slave_port sm = Some i \<and> ext_new_state sm \<noteq> SlavePort \<and> selectedState (ptasg sm) ! 0 \<noteq> SlavePort \<and>
    (\<forall>j < sse_max_ports sm. j \<noteq> i \<longrightarrow> selectedState (ptasg sm) ! j \<noteq> SlavePort)"
  then have u: "updtPortState sm = ext_vectors True (ext_assign True (ext_use_port i sm))"
    by (simp add: updtPortState_def)
  have sel: "selectedState (ptasg (updtPortState sm)) = (selectedState (ptasg sm))[i := ext_new_state sm]"
    unfolding u using a i by (simp add: ext_vectors_def ext_assign_def st new Let_def)
  show "\<forall>j < sse_max_ports sm. selectedState (ptasg (updtPortState sm)) ! j \<noteq> SlavePort"
    unfolding sel using a i assms(4) by (auto simp: nth_list_update)
  show "gmPriority (sse_bptasg (updtPortState sm)) = gmPriority (sse_bptasg sm)"
    unfolding u using a i by (simp add: ext_vectors_def ext_assign_def st new gm Let_def)
qed

text \<open>A system with one port, whose state is to be set.\<close>

definition sample_sse :: "PTPPortState \<Rightarrow> PTPPortState \<Rightarrow> port_state_setting_ext_data" where
  "sample_sse old new = (port_state_setting_ext_sm_init 1 2
     (sample_ptasg\<lparr>selectedState := [PassivePort, old] @ replicate 31 DisabledPort\<rparr>)
     [zero_PerPortGlobal, sample_ppg] zero_BmcsPerTimeAwareSystemGlobal
     [zero_BmcsPerPortGlobal, zero_BmcsPerPortGlobal] False)\<lparr>portStateInd := new\<rparr>"

theorem external_state_one_step_late_witness:
  "gmPriority (sse_bptasg (updtPortState (sample_sse MasterPort SlavePort))) =
     systemPriority (sse_bptasg (sample_sse MasterPort SlavePort)) \<and>
   selectedState (ptasg (updtPortState (sample_sse MasterPort SlavePort))) ! 1 = SlavePort \<and>
   selectedState (ptasg (updtPortState (sample_sse SlavePort MasterPort))) ! 0 \<noteq> SlavePort \<and>
   selectedState (ptasg (updtPortState (sample_sse SlavePort MasterPort))) ! 1 \<noteq> SlavePort"
proof -
  have "1 = sse_portIndex (sample_sse a b)" "(1 :: nat) \<le> 1" "1 < sse_max_ports (sample_sse a b)"
    "sse_max_ports (sample_sse a b) \<le> length (selectedState (ptasg (sample_sse a b)))"
    "ext_new_state (sample_sse a b) = b" for a b
    by (simp_all add: sample_sse_def port_state_setting_ext_sm_init_def ext_new_state_def sample_ppg_def
        zero_PerPortGlobalForAllDomain_def)
  note s = this
  have a: "slave_port (sample_sse MasterPort SlavePort) = None" "slave_port (sample_sse SlavePort MasterPort) = Some 1"
    "sse_max_ports (sample_sse SlavePort MasterPort) = 2" "selectedState (ptasg (sample_sse SlavePort MasterPort)) ! 0 = PassivePort"
    by (simp_all add: sample_sse_def port_state_setting_ext_sm_init_def slave_port_def upt_rec)
  show ?thesis
    using external_state_one_step_late [OF s(1-4), of MasterPort SlavePort]
      external_state_one_step_late [OF s(1-4), of SlavePort MasterPort] a s(5)
    by (auto simp: less_2_cases_iff)
qed

end
