(* ===== verification/Gptp_Abnormal.thy ===== *)
theory Gptp_Abnormal
  imports Gptp_MdIo "HOL-Library.Multiset"
begin

text \<open>
  The hooks for abnormal events (\<^verbatim>\<open>md_abnormal_hooks.c\<close>): a test can have frames skipped, doubled,
  altered or refused, and timestamps lost, at a rate, a number of times and in intervals.
\<close>

section \<open>Data\<close>

datatype (plugins only: code) md_abn_event_type =
  MD_ABN_EVENT_NONE | MD_ABN_EVENT_SKIP | MD_ABN_EVENT_DUP | MD_ABN_EVENT_BADSEQN | MD_ABN_EVENT_NOTS |
  MD_ABN_EVENT_SENDER

datatype (plugins only: code) md_abn_eventp =
  MD_ABN_EVENTP_NONE | MD_ABN_EVENTP_SKIP | MD_ABN_EVENTP_DUPLICATE | MD_ABN_EVENTP_MANUPULATE |
  MD_ABN_EVENTP_SENDER

record md_abn_event =
  abn_domainNumber :: int
  ndevIndex :: int
  msgtype :: nat
  eventtype :: md_abn_event_type
  eventrate :: real
  repeat :: int
  interval :: int
  eventpara :: int

record event_data =
  evd :: md_abn_event
  repeat_count :: int
  interval_count :: int

text \<open>
  The array of events is one of \<^verbatim>\<open>xl4unibase\<close>: it takes \<open>capacity\<close> elements, and \<open>del_index\<close> takes
  an element out of it. The macros that read the type of the message and the domain of a frame are in
  \<^verbatim>\<open>xl4combase\<close>. \<open>random\<close> are the numbers between 0 and 1 that are drawn.
\<close>

record hook_lib =
  capacity :: nat
  del_index :: "nat \<Rightarrow> event_data list \<Rightarrow> event_data list"
  head_msgtype :: "u8 list \<Rightarrow> nat"
  head_domain :: "u8 list \<Rightarrow> int"
  random :: "nat \<Rightarrow> real"

text \<open>What the code relies on: the element is taken out, and those before it stay where they are.\<close>

definition del_index_ok :: "hook_lib \<Rightarrow> bool" where
  "del_index_ok lib \<longleftrightarrow> (\<forall>i xs. i < length xs \<longrightarrow>
     length (del_index lib i xs) = length xs - 1 \<and>
     take i (del_index lib i xs) = take i xs \<and>
     mset (drop i (del_index lib i xs)) = mset (drop (i + 1) xs))"

text \<open>\<open>None\<close> stands for the hooks that are not active; \<open>draws\<close> counts the random numbers.\<close>

record md_abnormal_data =
  events :: "event_data list option"
  draws :: nat

section \<open>When an event happens\<close>

definition event_by_rate :: "hook_lib \<Rightarrow> event_data \<Rightarrow> nat \<Rightarrow> bool \<times> nat" where
  "event_by_rate lib ev n =
     (if eventrate (evd ev) < 1 then (\<not> random lib n > eventrate (evd ev), n + 1) else (True, n))"

definition event_happen :: "hook_lib \<Rightarrow> event_data \<Rightarrow> nat \<Rightarrow> bool \<times> event_data \<times> nat" where
  "event_happen lib ev n =
     (if repeat (evd ev) = 0 then (case event_by_rate lib ev n of (b, n1) \<Rightarrow> (b, ev, n1))
      else if repeat_count ev = 0 then
        (case event_by_rate lib ev n of (b, n1) \<Rightarrow> (b, ev\<lparr>repeat_count := repeat_count ev + 1\<rparr>, n1))
      else if interval (evd ev) = 0 then
        (repeat_count ev < repeat (evd ev), ev\<lparr>repeat_count := repeat_count ev + 1\<rparr>, n)
      else if interval_count ev < interval (evd ev) then
        (False, ev\<lparr>interval_count := interval_count ev + 1\<rparr>, n)
      else (repeat_count ev < repeat (evd ev),
        ev\<lparr>repeat_count := repeat_count ev + 1, interval_count := 0\<rparr>, n))"

text \<open>The sequence number is at octets 30 and 31 of a frame, most significant first.\<close>

definition bad_seqn :: "int \<Rightarrow> u8 list \<Rightarrow> u8 list" where
  "bad_seqn para f =
     (if para = 0 then f[31 := f ! 31 XOR 0xff]
      else let n = (push_bit 8 (ucast (f ! 30)) OR ucast (f ! 31)) + of_int para :: u16
           in f[30 := ucast (drop_bit 8 n), 31 := ucast n])"

definition proc_event ::
  "hook_lib \<Rightarrow> bool \<Rightarrow> event_data \<Rightarrow> u8 list \<Rightarrow> nat \<Rightarrow> md_abn_eventp \<times> event_data \<times> u8 list \<times> nat" where
  "proc_event lib domain_aware ev f n =
     (if domain_aware \<and> abn_domainNumber (evd ev) \<noteq> head_domain lib f then (MD_ABN_EVENTP_NONE, ev, f, n)
      else let happens = (\<lambda>r g. case event_happen lib ev n of
             (b, ev1, n1) \<Rightarrow> if b then (r, ev1, g, n1) else (MD_ABN_EVENTP_NONE, ev1, f, n1))
        in case eventtype (evd ev) of
          MD_ABN_EVENT_SKIP \<Rightarrow> happens MD_ABN_EVENTP_SKIP f
        | MD_ABN_EVENT_DUP \<Rightarrow> happens MD_ABN_EVENTP_DUPLICATE f
        | MD_ABN_EVENT_BADSEQN \<Rightarrow> happens MD_ABN_EVENTP_MANUPULATE (bad_seqn (eventpara (evd ev)) f)
        | MD_ABN_EVENT_SENDER \<Rightarrow> happens MD_ABN_EVENTP_SENDER f
        | _ \<Rightarrow> (MD_ABN_EVENTP_NONE, ev, f, n))"

section \<open>Registering\<close>

definition md_abnormal_init :: "md_abnormal_data \<Rightarrow> md_abnormal_data" where
  "md_abnormal_init a = a\<lparr>events := Some []\<rparr>"

definition md_abnormal_close :: "md_abnormal_data \<Rightarrow> md_abnormal_data" where
  "md_abnormal_close a = a\<lparr>events := None\<rparr>"

definition md_abnormal_register_event :: "hook_lib \<Rightarrow> md_abn_event \<Rightarrow> md_abnormal_data \<Rightarrow> int \<times> md_abnormal_data" where
  "md_abnormal_register_event lib ev a = (case events a of
      None \<Rightarrow> (- 1, a)
    | Some es \<Rightarrow>
        if msgtype ev > 15 \<or> length es \<ge> capacity lib then (- 1, a)
        else (0, a\<lparr>events := Some (es @ [\<lparr>evd = ev, repeat_count = 0, interval_count = 0\<rparr>])\<rparr>))"

text \<open>Both functions go through the array from its end.\<close>

fun del_from_end :: "hook_lib \<Rightarrow> (event_data \<Rightarrow> bool) \<Rightarrow> nat \<Rightarrow> event_data list \<Rightarrow> event_data list" where
  "del_from_end lib P 0 es = es"
| "del_from_end lib P (Suc i) es = del_from_end lib P i (if P (es ! i) then del_index lib i es else es)"

definition md_abnormal_deregister_all_events :: "hook_lib \<Rightarrow> md_abnormal_data \<Rightarrow> int \<times> md_abnormal_data" where
  "md_abnormal_deregister_all_events lib a = (case events a of
      None \<Rightarrow> (- 1, a)
    | Some es \<Rightarrow> (0, a\<lparr>events := Some (del_from_end lib (\<lambda>_. True) (length es) es)\<rparr>))"

definition md_abnormal_deregister_msgtype_events ::
  "hook_lib \<Rightarrow> nat \<Rightarrow> md_abnormal_data \<Rightarrow> int \<times> md_abnormal_data" where
  "md_abnormal_deregister_msgtype_events lib mt a = (case events a of
      None \<Rightarrow> (- 1, a)
    | Some es \<Rightarrow>
        if mt > 15 then (- 1, a)
        else (0, a\<lparr>events := Some (del_from_end lib (\<lambda>ev. msgtype (evd ev) = mt) (length es) es)\<rparr>))"

section \<open>The hooks\<close>

text \<open>Every event of the type of the message and of the device is looked at; the result of the last one counts.\<close>

definition hook_kind :: "nat \<Rightarrow> bool option" where
  "hook_kind mt =
     (if mt \<in> {0, 8, 11, 12} then Some True else if mt \<in> {2, 3, 10} then Some False else None)"

fun send_hook ::
  "hook_lib \<Rightarrow> nat \<Rightarrow> int \<Rightarrow> md_abn_eventp \<Rightarrow> event_data list \<Rightarrow> u8 list \<Rightarrow> nat \<Rightarrow>
   md_abn_eventp \<times> event_data list \<times> u8 list \<times> nat" where
  "send_hook lib mt dev res [] f n = (res, [], f, n)"
| "send_hook lib mt dev res (ev # es) f n =
     (case (if msgtype (evd ev) \<noteq> mt \<or> ndevIndex (evd ev) \<noteq> dev then (res, ev, f, n)
            else case hook_kind mt of
              None \<Rightarrow> (res, ev, f, n)
            | Some aware \<Rightarrow> proc_event lib aware ev f n) of
        (res1, ev1, f1, n1) \<Rightarrow>
          (case send_hook lib mt dev res1 es f1 n1 of (r, es1, f2, n2) \<Rightarrow> (r, ev1 # es1, f2, n2)))"

definition md_abnormal_gptpnet_send_hook ::
  "hook_lib \<Rightarrow> int \<Rightarrow> u8 list \<Rightarrow> md_abnormal_data \<Rightarrow> md_abn_eventp \<times> u8 list \<times> md_abnormal_data" where
  "md_abnormal_gptpnet_send_hook lib dev f a = (case events a of
      None \<Rightarrow> (MD_ABN_EVENTP_NONE, f, a)
    | Some es \<Rightarrow>
        (case send_hook lib (head_msgtype lib f) dev MD_ABN_EVENTP_NONE es f (draws a) of
           (r, es1, f1, n) \<Rightarrow> (r, f1, a\<lparr>events := Some es1, draws := n\<rparr>)))"

text \<open>Sending a frame through the hook: the result and the frames that go out. \<open>send\<close> is what
  \<^verbatim>\<open>gptpnet_send\<close> returns, and a frame has an Ethernet header of 14 octets.\<close>

definition gptpnet_send_whook ::
  "hook_lib \<Rightarrow> (u8 list \<Rightarrow> int) \<Rightarrow> int \<Rightarrow> u8 list \<Rightarrow> md_abnormal_data \<Rightarrow> int \<times> u8 list list \<times> md_abnormal_data" where
  "gptpnet_send_whook lib send dev f a =
     (case md_abnormal_gptpnet_send_hook lib dev f a of (r, f1, a1) \<Rightarrow>
       (case r of
          MD_ABN_EVENTP_SKIP \<Rightarrow> (- (int (length f) + 14), [], a1)
        | MD_ABN_EVENTP_DUPLICATE \<Rightarrow> (send f1, [f1, f1], a1)
        | MD_ABN_EVENTP_SENDER \<Rightarrow> (- 1, [], a1)
        | _ \<Rightarrow> (send f1, [f1], a1)))"

text \<open>The first event that loses timestamps decides.\<close>

fun lost_timestamp ::
  "hook_lib \<Rightarrow> nat \<Rightarrow> int \<Rightarrow> int \<Rightarrow> event_data list \<Rightarrow> nat \<Rightarrow> bool \<times> event_data list \<times> nat" where
  "lost_timestamp lib mt dev dn [] n = (False, [], n)"
| "lost_timestamp lib mt dev dn (ev # es) n =
     (if msgtype (evd ev) \<noteq> mt \<or> ndevIndex (evd ev) \<noteq> dev \<or> eventtype (evd ev) \<noteq> MD_ABN_EVENT_NOTS \<or>
         (dn \<ge> 0 \<and> abn_domainNumber (evd ev) \<noteq> dn)
      then (case lost_timestamp lib mt dev dn es n of (b, es1, n1) \<Rightarrow> (b, ev # es1, n1))
      else (case event_happen lib ev n of (b, ev1, n1) \<Rightarrow> (b, ev1 # es, n1)))"

definition md_abnormal_timestamp ::
  "hook_lib \<Rightarrow> nat \<Rightarrow> int \<Rightarrow> int \<Rightarrow> md_abnormal_data \<Rightarrow> bool \<times> md_abnormal_data" where
  "md_abnormal_timestamp lib mt dev dn a = (case events a of
      None \<Rightarrow> (False, a)
    | Some es \<Rightarrow> (case lost_timestamp lib mt dev dn es (draws a) of
        (b, es1, n) \<Rightarrow> (b, a\<lparr>events := Some es1, draws := n\<rparr>)))"

section \<open>Repetition and interval\<close>

text \<open>The answers to the first calls for an event.\<close>

primrec happenings :: "hook_lib \<Rightarrow> nat \<Rightarrow> event_data \<Rightarrow> nat \<Rightarrow> bool list" where
  "happenings lib 0 ev n = []"
| "happenings lib (Suc i) ev n =
     (case event_happen lib ev n of (b, ev1, n1) \<Rightarrow> b # happenings lib i ev1 n1)"

definition fresh :: "md_abn_event \<Rightarrow> event_data" where
  "fresh ev = \<lparr>evd = ev, repeat_count = 0, interval_count = 0\<rparr>"

text \<open>When an event happens for certain: at every \<open>k + 1\<close>-th call, \<open>r\<close> times.\<close>

definition scheduled :: "nat \<Rightarrow> nat \<Rightarrow> nat \<Rightarrow> bool" where
  "scheduled r k i \<longleftrightarrow> i mod (k + 1) = 0 \<and> i div (k + 1) < r"

definition counted :: "md_abn_event \<Rightarrow> nat \<Rightarrow> nat \<Rightarrow> event_data" where
  "counted ev k i = \<lparr>evd = ev, repeat_count = int (i div (k + 1)) + 1, interval_count = int (i mod (k + 1))\<rparr>"

lemma event_happen_counted:
  assumes "repeat ev = int r" "0 < r" "interval ev = int k"
  shows "event_happen lib (counted ev k i) n = (scheduled r k (Suc i), counted ev k (Suc i), n)"
proof (cases "k = 0")
  case True
  then show ?thesis using assms by (auto simp: event_happen_def counted_def scheduled_def)
next
  case False
  show ?thesis
  proof (cases "i mod (k + 1) < k")
    case True
    then have "Suc i mod (k + 1) = Suc (i mod (k + 1))" "Suc i div (k + 1) = i div (k + 1)"
      by (simp_all add: mod_Suc div_Suc)
    with True False assms show ?thesis
      by (simp add: event_happen_def counted_def scheduled_def)
  next
    case wrap: False
    then have e: "i mod (k + 1) = k" using mod_less_divisor [of "k + 1" i] by linarith
    then have "Suc i mod (k + 1) = 0" "Suc i div (k + 1) = Suc (i div (k + 1))"
      by (simp_all add: mod_Suc div_Suc)
    with e False assms show ?thesis
      by (auto simp: event_happen_def counted_def scheduled_def)
  qed
qed

lemma happenings_counted:
  assumes "repeat ev = int r" "0 < r" "interval ev = int k"
  shows "happenings lib m (counted ev k i) n = map (scheduled r k) [Suc i..<Suc i + m]"
proof (induction m arbitrary: i)
  case (Suc m)
  have "[Suc i..<Suc i + Suc m] = Suc i # [Suc (Suc i)..<Suc (Suc i) + m]"
    by (simp add: upt_conv_Cons del: upt_Suc)
  then show ?case by (simp add: event_happen_counted [OF assms] Suc.IH del: upt_Suc)
qed simp

text \<open>C27: An event that is registered with a rate of 1, a number of times and an interval happens at the first
  occasion and then, for each of the remaining times, after leaving out as many occasions as the interval
  says; after that never again.\<close>

theorem event_happens_as_scheduled:
  assumes "eventrate ev \<ge> 1" "repeat ev = int r" "0 < r" "interval ev = int k"
  shows "happenings lib m (fresh ev) n = map (scheduled r k) [0..<m]"
proof (cases m)
  case (Suc m')
  have first: "event_happen lib (fresh ev) n = (True, counted ev k 0, n)"
    using assms by (simp add: event_happen_def event_by_rate_def fresh_def counted_def)
  have "[0..<m] = 0 # [Suc 0..<Suc 0 + m']" using Suc by (simp add: upt_conv_Cons del: upt_Suc)
  then show ?thesis
    using Suc assms(3) by (simp add: first happenings_counted [OF assms(2-4)] scheduled_def del: upt_Suc)
qed simp

definition sample_lib :: hook_lib where
  "sample_lib = \<lparr>capacity = 16, del_index = \<lambda>i xs. take i xs @ drop (i + 1) xs, head_msgtype = \<lambda>f. unat (f ! 0 AND 0x0F),
     head_domain = \<lambda>f. uint (f ! 4), random = \<lambda>_. 1 / 2\<rparr>"

definition sample_event :: md_abn_event where
  "sample_event = \<lparr>abn_domainNumber = 0, ndevIndex = 0, msgtype = 8, eventtype = MD_ABN_EVENT_SKIP, eventrate = 1,
     repeat = 2, interval = 1, eventpara = 0\<rparr>"

lemma sample_lib_ok: "del_index_ok sample_lib"
  by (simp add: del_index_ok_def sample_lib_def)

theorem event_happens_as_scheduled_witness:
  "happenings sample_lib 5 (fresh sample_event) 0 = [True, False, True, False, False]"
proof -
  have "happenings sample_lib 5 (fresh sample_event) 0 = map (scheduled 2 1) [0..<5]"
    by (rule event_happens_as_scheduled) (simp_all add: sample_event_def)
  moreover have "[0..<5] = [0, 1, 2, 3, 4 :: nat]" by (simp add: upt_rec)
  ultimately show ?thesis by (simp only:) (simp add: scheduled_def flip: numeral_2_eq_2)
qed

text \<open>With a rate below 1 and a number of times, only the first time is left to chance, and it counts even
  when it does not happen: the other times happen for certain.\<close>

theorem rate_applies_once:
  assumes "eventrate ev < random lib n" "random lib n \<le> 1" "repeat ev = int r" "0 < r" "interval ev = int k"
  shows "happenings lib (Suc m) (fresh ev) n = False # map (scheduled r k) [1..<Suc m]"
proof -
  have "event_happen lib (fresh ev) n = (False, counted ev k 0, n + 1)"
    using assms by (simp add: event_happen_def event_by_rate_def fresh_def counted_def)
  then show ?thesis by (simp add: happenings_counted [OF assms(3-5)] del: upt_Suc)
qed

section \<open>Deregistering\<close>

lemma mset_del_from_end:
  assumes "del_index_ok lib" "n \<le> length es"
  shows "mset (del_from_end lib P n es) = mset (filter (\<lambda>ev. \<not> P ev) (take n es)) + mset (drop n es)"
  using assms(2)
proof (induction n arbitrary: es)
  case (Suc i)
  have i: "i < length es" using Suc.prems by simp
  show ?case
  proof (cases "P (es ! i)")
    case True
    have d: "length (del_index lib i es) = length es - 1" "take i (del_index lib i es) = take i es"
      "mset (drop i (del_index lib i es)) = mset (drop (i + 1) es)"
      using assms(1) i unfolding del_index_ok_def by blast+
    have "i \<le> length (del_index lib i es)" using d(1) i by simp
    from Suc.IH [OF this] show ?thesis using True i d(2,3) by (simp add: take_Suc_conv_app_nth)
  next
    case False
    have "drop i es = es ! i # drop (Suc i) es" using i by (simp add: Cons_nth_drop_Suc)
    with Suc.IH [of es] False i show ?thesis by (simp add: take_Suc_conv_app_nth)
  qed
qed simp

text \<open>Deregistering the events of a type removes these and no others, and the array never has more
  events than it takes.\<close>

theorem deregister_removes_type:
  assumes "del_index_ok lib" "events a = Some es" "mt \<le> 15"
    and "md_abnormal_deregister_msgtype_events lib mt a = (r, a1)"
  shows "\<exists>fs. events a1 = Some fs \<and> r = 0 \<and> mset fs = mset (filter (\<lambda>ev. msgtype (evd ev) \<noteq> mt) es)"
  using assms mset_del_from_end [OF assms(1), of "length es" es "\<lambda>ev. msgtype (evd ev) = mt"]
  by (auto simp: md_abnormal_deregister_msgtype_events_def)

theorem deregister_removes_type_witness:
  "\<exists>fs. events (snd (md_abnormal_deregister_msgtype_events sample_lib 8
      \<lparr>events = Some [fresh sample_event], draws = 0\<rparr>)) = Some fs \<and> mset fs = {#}"
  using deregister_removes_type [OF sample_lib_ok, where a = "\<lparr>events = Some [fresh sample_event], draws = 0\<rparr>"
      and es = "[fresh sample_event]" and mt = 8, OF _ _ prod.collapse [symmetric]]
  by (simp add: fresh_def sample_event_def)

text \<open>Without the hooks every frame goes out as it is, and no timestamp is lost.\<close>

lemma hooks_inactive:
  "events a = None \<Longrightarrow> gptpnet_send_whook lib send dev f a = (send f, [f], a)"
  "events a = None \<Longrightarrow> md_abnormal_timestamp lib mt dev dn a = (False, a)"
  by (simp_all add: gptpnet_send_whook_def md_abnormal_gptpnet_send_hook_def md_abnormal_timestamp_def)

end
