(* ===== verification/Gptp_Man.thy ===== *)
theory Gptp_Man
  imports Gptp_MindInit Gptp_AnnounceReceive Gptp_StateSelection Gptp_AnnounceTransmit Gptp_IntervalSettings
    Gptp_AnnounceWire Gptp_SyncWire Gptp_SiteSync Gptp_PortSyncSend Gptp_ClockSync Gptp_ClockServo Gptp_GmStable
    Gptp_Signaling Gptp_ExtPort Gptp_Abnormal
begin

text \<open>
  The data of the daemon (\<^verbatim>\<open>gptpman.c\<close>): the domains with their ports, and for each of them the
  shared variables and the state machines. In the program the machines hold pointers to the shared
  variables; here a machine is given the variables before it runs and they are taken back after it.
\<close>

section \<open>What a function of the daemon gives\<close>

text \<open>
  \<open>Fault\<close> is a null pointer that is followed or an array index out of its range, \<open>Hangs\<close> a loop that
  does not come to an end.
\<close>

datatype 'a outcome = Done 'a | Fault | Hangs

fun and_then :: "'a outcome \<Rightarrow> ('a \<Rightarrow> 'b outcome) \<Rightarrow> 'b outcome" where
  "and_then (Done x) f = f x"
| "and_then Fault f = Fault"
| "and_then Hangs f = Hangs"

text \<open>Statements one after the other; a loop over a list; \<^verbatim>\<open>if((smret=call())) next(smret)\<close>; a call whose
  result is not used.\<close>

fun run_all :: "('s \<Rightarrow> 's outcome) list \<Rightarrow> 's \<Rightarrow> 's outcome" where
  "run_all [] s = Done s"
| "run_all (f # fs) s = and_then (f s) (run_all fs)"

definition for_each :: "('i \<Rightarrow> 's \<Rightarrow> 's outcome) \<Rightarrow> 'i list \<Rightarrow> 's \<Rightarrow> 's outcome" where
  "for_each f is = run_all (map f is)"

definition when_ret :: "('s \<Rightarrow> ('s \<times> 'r option) outcome) \<Rightarrow> ('r \<Rightarrow> 's \<Rightarrow> 's outcome) \<Rightarrow> 's \<Rightarrow> 's outcome" where
  "when_ret call next s = and_then (call s) (\<lambda>(t, r). case r of None \<Rightarrow> Done t | Some x \<Rightarrow> next x t)"

definition just :: "('s \<Rightarrow> ('s \<times> 'r option) outcome) \<Rightarrow> 's \<Rightarrow> 's outcome" where
  "just call = when_ret call (\<lambda>_. Done)"

definition pure :: "('s \<Rightarrow> 's) \<Rightarrow> 's \<Rightarrow> 's outcome" where
  "pure f s = Done (f s)"

lemma and_then_Done: "and_then x f = Done y \<longleftrightarrow> (\<exists>u. x = Done u \<and> f u = Done y)"
  by (cases x) simp_all

lemma and_then_Fault: "and_then x f = Fault \<longleftrightarrow> x = Fault \<or> (\<exists>u. x = Done u \<and> f u = Fault)"
  by (cases x) simp_all

lemma run_all_append: "run_all (fs @ gs) s = and_then (run_all fs s) (run_all gs)"
proof (induction fs arbitrary: s)
  case (Cons f fs)
  then show ?case by (cases "f s") simp_all
qed simp

lemma for_each_simps [simp]:
  "for_each f [] s = Done s" "for_each f (i # is) s = and_then (f i s) (for_each f is)"
  by (simp_all add: for_each_def fun_eq_iff)

text \<open>An invariant of the parts is an invariant of the whole.\<close>

definition keeps :: "('s \<Rightarrow> bool) \<Rightarrow> ('s \<Rightarrow> 's outcome) \<Rightarrow> bool" where
  "keeps P f \<longleftrightarrow> (\<forall>s t. P s \<longrightarrow> f s = Done t \<longrightarrow> P t)"

lemma keepsI: "(\<And>s t. P s \<Longrightarrow> f s = Done t \<Longrightarrow> P t) \<Longrightarrow> keeps P f"
  by (simp add: keeps_def)

lemma keepsD: "keeps P f \<Longrightarrow> P s \<Longrightarrow> f s = Done t \<Longrightarrow> P t"
  by (simp add: keeps_def)

lemma keeps_run_all: "(\<And>f. f \<in> set fs \<Longrightarrow> keeps P f) \<Longrightarrow> keeps P (run_all fs)"
proof (induction fs)
  case (Cons f fs)
  show ?case
  proof (rule keepsI)
    fix s t
    assume "P s" and r: "run_all (f # fs) s = Done t"
    then obtain u where u: "f s = Done u" "run_all fs u = Done t" by (cases "f s") auto
    with \<open>P s\<close> Cons.prems have "P u" by (auto simp: keeps_def)
    moreover have "keeps P (run_all fs)" using Cons by auto
    ultimately show "P t" using u(2) by (auto simp: keeps_def)
  qed
qed (simp add: keeps_def)

lemma keeps_for_each: "(\<And>i. i \<in> set is \<Longrightarrow> keeps P (f i)) \<Longrightarrow> keeps P (for_each f is)"
  unfolding for_each_def by (rule keeps_run_all) auto

lemma keeps_when_ret:
  assumes "\<And>s t r. P s \<Longrightarrow> call s = Done (t, r) \<Longrightarrow> P t" "\<And>r. keeps P (next r)"
  shows "keeps P (when_ret call next)"
proof (rule keepsI)
  fix s t
  assume s: "P s" "when_ret call next s = Done t"
  then obtain u r where u: "call s = Done (u, r)" by (cases "call s") (auto simp: when_ret_def)
  with assms(1) s have "P u" by blast
  with s u assms(2) show "P t" by (cases r) (auto simp: when_ret_def keeps_def)
qed

lemma keeps_just:
  assumes "\<And>s t r. P s \<Longrightarrow> call s = Done (t, r) \<Longrightarrow> P t"
  shows "keeps P (just call)"
  unfolding just_def by (rule keeps_when_ret) (use assms in \<open>auto simp: keeps_def\<close>)

text \<open>What a machine gives, as an outcome.\<close>

definition of_run :: "('m \<times> 'r ctl) option \<Rightarrow> ('m \<times> 'r option) outcome" where
  "of_run r = (case r of
      None \<Rightarrow> Hangs
    | Some (m, Next) \<Rightarrow> Done (m, None)
    | Some (m, Return x) \<Rightarrow> Done (m, Some x)
    | Some (m, Crash) \<Rightarrow> Fault)"

lemma of_run_simps [simp]:
  "of_run None = Hangs" "of_run (Some (m, Next)) = Done (m, None)"
  "of_run (Some (m, Return x)) = Done (m, Some x)" "of_run (Some (m, Crash)) = Fault"
  by (simp_all add: of_run_def)

section \<open>The data\<close>

text \<open>The data of a port; a pointer to a machine that has not been initialised is null.\<close>

record gptpsm_ptd =
  ppglb :: PerPortGlobal
  bppglb :: BmcsPerPortGlobal
  mdeglb :: MDEntityGlobal
  mdpdreqd :: "md_pdelay_req_data option"
  mdpdrespd :: "md_pdelay_resp_data option"
  mdsrecd :: "md_sync_receive_data option"
  mdssendd :: "md_sync_send_data option"
  aisetd :: "announce_interval_setting_data option"
  pssrecd :: "port_sync_sync_receive_data option"
  psssendd :: "port_sync_sync_send_data option"
  parecd :: "port_announce_receive_data option"
  painfd :: "port_announce_information_data option"
  paiextd :: "port_announce_information_ext_data option"
  patransd :: "port_announce_transmit_data option"
  pssextd :: "port_state_setting_ext_data option"
  cmldsLinkPortEnabled :: bool
  gctransd :: "gptp_capable_transmit_data option"
  gcrecd :: "gptp_capable_receive_data option"
  sisetd :: "sync_interval_setting_data option"
  ldisetd :: "link_delay_interval_setting_data option"
  ostxopd :: "one_step_tx_oper_setting_data option"
  mdansendd :: "md_announce_send_data option"
  mdanrecd :: "md_announce_receive_data option"
  mdsigsendd :: "md_signaling_send_data option"
  mdsigrecd :: "md_signaling_receive_data option"

text \<open>The data of a domain. The lists \<^verbatim>\<open>ppglbl\<close> and \<^verbatim>\<open>bppglbl\<close> point to the variables of the ports.\<close>

record gptpsm_tasd =
  ptds :: "gptpsm_ptd list"
  tasglb :: PerTimeAwareSystemGlobal
  btasglb :: BmcsPerTimeAwareSystemGlobal
  sssd :: "site_sync_sync_data option"
  cmssendd :: "clock_master_sync_send_data option"
  cssd :: "clock_slave_sync_data option"
  cmsrecd :: "clock_master_sync_receive_data option"
  cmsoffsetd :: "clock_master_sync_offset_data option"
  pssd :: "port_state_selection_data option"
  gmsd :: "gm_stable_data option"

text \<open>
  A notice to the clients of the daemon: the members of \<^verbatim>\<open>gptpipc_notice_data_t\<close>. The copy of the
  grandmaster's identity takes the bytes behind the identity too, which are overwritten afterwards.
\<close>

record ipc_notice =
  event_flags :: u32
  n_domainNumber :: int
  n_domainIndex :: int
  n_portIndex :: int
  n_gmIdentity :: ClockIdentity
  n_lastGmPhaseChange_nsec :: u64
  n_gmTimeBaseIndicator :: u16
  n_lastGmFreqChange :: real

text \<open>
  The data of the daemon. A domain that has not been initialised has no variables (\<^verbatim>\<open>tasglb\<close> is null);
  \<open>clocks\<close> are the clocks of \<^verbatim>\<open>gptpclock.c\<close>, \<open>notices\<close> the notices sent so far and
  \<open>schedules\<close> the calls of \<^verbatim>\<open>gptpnet_tsn_schedule\<close>, with the time to align to and the cycle;
  \<open>abnormal\<close> are the events of the test hooks.
\<close>

record gptpman_data =
  tasds :: "gptpsm_tasd option list"
  man_max_ports :: nat
  man_max_domains :: nat
  clocks :: gptpclock_data
  notices :: "ipc_notice list"
  schedules :: "(u32 \<times> u32) list"
  abnormal :: md_abnormal_data

section \<open>The shared variables\<close>

text \<open>The variables that the machines of a port share. What the domains of a port have in common
  (\<^verbatim>\<open>forAllDomain\<close>) is kept with domain 0.\<close>

record shared =
  sh_pt :: PerTimeAwareSystemGlobal
  sh_pp :: PerPortGlobal
  sh_bt :: BmcsPerTimeAwareSystemGlobal
  sh_bp :: BmcsPerPortGlobal
  sh_md :: MDEntityGlobal

definition tasd_at :: "gptpman_data \<Rightarrow> nat \<Rightarrow> gptpsm_tasd option" where
  "tasd_at g di = (if di < length (tasds g) then tasds g ! di else None)"

definition ptd_at :: "gptpman_data \<Rightarrow> nat \<Rightarrow> nat \<Rightarrow> gptpsm_ptd option" where
  "ptd_at g di port = (case tasd_at g di of
      None \<Rightarrow> None
    | Some t \<Rightarrow> if port < length (ptds t) then Some (ptds t ! port) else None)"

definition put_tasd :: "nat \<Rightarrow> gptpsm_tasd \<Rightarrow> gptpman_data \<Rightarrow> gptpman_data" where
  "put_tasd di t g = g\<lparr>tasds := (tasds g)[di := Some t]\<rparr>"

definition put_ptd :: "nat \<Rightarrow> nat \<Rightarrow> gptpsm_ptd \<Rightarrow> gptpman_data \<Rightarrow> gptpman_data" where
  "put_ptd di port p g = (case tasd_at g di of
      None \<Rightarrow> g
    | Some t \<Rightarrow> put_tasd di (t\<lparr>ptds := (ptds t)[port := p]\<rparr>) g)"

text \<open>The variables of a port as its domain sees them.\<close>

definition port_ppg :: "gptpman_data \<Rightarrow> nat \<Rightarrow> gptpsm_ptd \<Rightarrow> PerPortGlobal" where
  "port_ppg g port p = (case ptd_at g 0 port of
      None \<Rightarrow> ppglb p
    | Some q \<Rightarrow> (ppglb p)\<lparr>forAllDomain := forAllDomain (ppglb q)\<rparr>)"

definition port_mdeg :: "gptpman_data \<Rightarrow> nat \<Rightarrow> gptpsm_ptd \<Rightarrow> MDEntityGlobal" where
  "port_mdeg g port p = (case ptd_at g 0 port of
      None \<Rightarrow> mdeglb p
    | Some q \<Rightarrow> (mdeglb p)\<lparr>md_forAllDomain := md_forAllDomain (mdeglb q)\<rparr>)"

definition shared_at :: "gptpman_data \<Rightarrow> nat \<Rightarrow> nat \<Rightarrow> shared option" where
  "shared_at g di port = (case (tasd_at g di, ptd_at g di port) of
      (Some t, Some p) \<Rightarrow> Some \<lparr>sh_pt = tasglb t, sh_pp = port_ppg g port p, sh_bt = btasglb t,
        sh_bp = bppglb p, sh_md = port_mdeg g port p\<rparr>
    | _ \<Rightarrow> None)"

definition put_common :: "nat \<Rightarrow> shared \<Rightarrow> gptpman_data \<Rightarrow> gptpman_data" where
  "put_common port sh g = (case ptd_at g 0 port of
      None \<Rightarrow> g
    | Some q \<Rightarrow> put_ptd 0 port (q\<lparr>ppglb := (ppglb q)\<lparr>forAllDomain := forAllDomain (sh_pp sh)\<rparr>,
        mdeglb := (mdeglb q)\<lparr>md_forAllDomain := md_forAllDomain (sh_md sh)\<rparr>\<rparr>) g)"

definition put_shared :: "nat \<Rightarrow> nat \<Rightarrow> shared \<Rightarrow> gptpman_data \<Rightarrow> gptpman_data" where
  "put_shared di port sh g = (case (tasd_at g di, ptd_at g di port) of
      (Some t, Some p) \<Rightarrow>
        put_common port sh (put_ptd di port (p\<lparr>ppglb := sh_pp sh, bppglb := sh_bp sh, mdeglb := sh_md sh\<rparr>)
          (put_tasd di (t\<lparr>tasglb := sh_pt sh, btasglb := sh_bt sh\<rparr>) g))
    | _ \<Rightarrow> g)"

section \<open>Running a machine\<close>

text \<open>
  How to reach a machine of a port: where it is kept, and which of the shared variables and clocks
  it is given and gives back.
\<close>

record 'm access =
  acc_get :: "gptpsm_ptd \<Rightarrow> 'm option"
  acc_put :: "'m \<Rightarrow> gptpsm_ptd \<Rightarrow> gptpsm_ptd"
  acc_load :: "shared \<Rightarrow> 'm \<Rightarrow> 'm"
  acc_save :: "'m \<Rightarrow> shared \<Rightarrow> shared"

definition run_port ::
  "'m access \<Rightarrow> nat \<Rightarrow> nat \<Rightarrow> ('m \<Rightarrow> ('m \<times> 'r ctl) option) \<Rightarrow> gptpman_data \<Rightarrow> (gptpman_data \<times> 'r option) outcome"
  where
  "run_port a di port f g = (case (ptd_at g di port, shared_at g di port) of
      (Some p, Some sh) \<Rightarrow>
        (case acc_get a p of
           None \<Rightarrow> Fault
         | Some m \<Rightarrow> and_then (of_run (f (acc_load a sh m)))
             (\<lambda>(m1, r). Done (put_shared di port (acc_save a m1 sh) (put_ptd di port (acc_put a m1 p) g), r)))
    | _ \<Rightarrow> Fault)"

text \<open>The machines of a domain; they are given the variables of the domain and the clocks.\<close>

record 'm dom_access =
  dom_get :: "gptpsm_tasd \<Rightarrow> 'm option"
  dom_put :: "'m \<Rightarrow> gptpsm_tasd \<Rightarrow> gptpsm_tasd"
  dom_load :: "PerTimeAwareSystemGlobal \<Rightarrow> gptpclock_data \<Rightarrow> 'm \<Rightarrow> 'm"
  dom_pt :: "'m \<Rightarrow> PerTimeAwareSystemGlobal"
  dom_clk :: "'m \<Rightarrow> gptpclock_data \<Rightarrow> gptpclock_data"

definition run_dom ::
  "'m dom_access \<Rightarrow> nat \<Rightarrow> ('m \<Rightarrow> ('m \<times> 'r ctl) option) \<Rightarrow> gptpman_data \<Rightarrow> (gptpman_data \<times> 'r option) outcome"
  where
  "run_dom a di f g = (case tasd_at g di of
      None \<Rightarrow> Fault
    | Some t \<Rightarrow>
        (case dom_get a t of
           None \<Rightarrow> Fault
         | Some m \<Rightarrow> and_then (of_run (f (dom_load a (tasglb t) (clocks g) m)))
             (\<lambda>(m1, r). Done ((put_tasd di ((dom_put a m1 t)\<lparr>tasglb := dom_pt a m1\<rparr>) g)
                \<lparr>clocks := dom_clk a m1 (clocks g)\<rparr>, r))))"

text \<open>The functions named \<^verbatim>\<open>_sm\<close> do nothing when they are given a null pointer; the others follow it.\<close>

definition tick_port ::
  "'m access \<Rightarrow> nat \<Rightarrow> nat \<Rightarrow> ('m \<Rightarrow> ('m \<times> 'r ctl) option) \<Rightarrow> gptpman_data \<Rightarrow> (gptpman_data \<times> 'r option) outcome"
  where
  "tick_port a di port f g =
     (if case ptd_at g di port of None \<Rightarrow> False | Some p \<Rightarrow> Option.is_none (acc_get a p) then Done (g, None) else run_port a di port f g)"

definition tick_dom ::
  "'m dom_access \<Rightarrow> nat \<Rightarrow> ('m \<Rightarrow> ('m \<times> 'r ctl) option) \<Rightarrow> gptpman_data \<Rightarrow> (gptpman_data \<times> 'r option) outcome"
  where
  "tick_dom a di f g =
     (if case tasd_at g di of None \<Rightarrow> False | Some t \<Rightarrow> Option.is_none (dom_get a t) then Done (g, None) else run_dom a di f g)"

text \<open>The variables that all the machines of a port have, and those of the machines of the BMCA.\<close>

definition load_port :: "shared \<Rightarrow> ('st, 'a) port_sm_scheme \<Rightarrow> ('st, 'a) port_sm_scheme" where
  "load_port sh m = m\<lparr>ptasg := sh_pt sh, ppg := sh_pp sh\<rparr>"

definition save_port :: "('st, 'a) port_sm_scheme \<Rightarrow> shared \<Rightarrow> shared" where
  "save_port m sh = sh\<lparr>sh_pt := ptasg m, sh_pp := ppg m\<rparr>"

definition load_bmcs :: "shared \<Rightarrow> ('st, 'a) bmcs_sm_scheme \<Rightarrow> ('st, 'a) bmcs_sm_scheme" where
  "load_bmcs sh m = m\<lparr>ptasg := sh_pt sh, ppg := sh_pp sh, bptasg := sh_bt sh, bppg := sh_bp sh\<rparr>"

definition save_bmcs :: "('st, 'a) bmcs_sm_scheme \<Rightarrow> shared \<Rightarrow> shared" where
  "save_bmcs m sh = sh\<lparr>sh_pt := ptasg m, sh_pp := ppg m, sh_bt := bptasg m, sh_bp := bppg m\<rparr>"

definition acc_pdreq :: "md_pdelay_req_data access" where
  "acc_pdreq = \<lparr>acc_get = mdpdreqd, acc_put = \<lambda>m p. p\<lparr>mdpdreqd := Some m\<rparr>,
     acc_load = \<lambda>sh m. load_port sh m\<lparr>pdr_mdeg := sh_md sh\<rparr>,
     acc_save = \<lambda>m sh. (save_port m sh)\<lparr>sh_md := pdr_mdeg m\<rparr>\<rparr>"

definition acc_pdresp :: "md_pdelay_resp_data access" where
  "acc_pdresp = \<lparr>acc_get = mdpdrespd, acc_put = \<lambda>m p. p\<lparr>mdpdrespd := Some m\<rparr>,
     acc_load = load_port, acc_save = save_port\<rparr>"

definition acc_srec :: "md_sync_receive_data access" where
  "acc_srec = \<lparr>acc_get = mdsrecd, acc_put = \<lambda>m p. p\<lparr>mdsrecd := Some m\<rparr>,
     acc_load = \<lambda>sh m. load_port sh m\<lparr>msr_mdeg := sh_md sh\<rparr>,
     acc_save = \<lambda>m sh. (save_port m sh)\<lparr>sh_md := msr_mdeg m\<rparr>\<rparr>"

definition acc_ssend :: "md_sync_send_data access" where
  "acc_ssend = \<lparr>acc_get = mdssendd, acc_put = \<lambda>m p. p\<lparr>mdssendd := Some m\<rparr>,
     acc_load = \<lambda>sh m. load_port sh m\<lparr>mss_mdeg := sh_md sh\<rparr>,
     acc_save = \<lambda>m sh. (save_port m sh)\<lparr>sh_md := mss_mdeg m\<rparr>\<rparr>"

definition acc_aiset :: "announce_interval_setting_data access" where
  "acc_aiset = \<lparr>acc_get = aisetd, acc_put = \<lambda>m p. p\<lparr>aisetd := Some m\<rparr>,
     acc_load = \<lambda>sh m. load_port sh m\<lparr>ais_bppg := sh_bp sh\<rparr>,
     acc_save = \<lambda>m sh. (save_port m sh)\<lparr>sh_bp := ais_bppg m\<rparr>\<rparr>"

definition acc_pssrec :: "port_sync_sync_receive_data access" where
  "acc_pssrec = \<lparr>acc_get = pssrecd, acc_put = \<lambda>m p. p\<lparr>pssrecd := Some m\<rparr>,
     acc_load = load_port, acc_save = save_port\<rparr>"

definition acc_psssend :: "port_sync_sync_send_data access" where
  "acc_psssend = \<lparr>acc_get = psssendd, acc_put = \<lambda>m p. p\<lparr>psssendd := Some m\<rparr>,
     acc_load = load_port, acc_save = save_port\<rparr>"

definition acc_parec :: "port_announce_receive_data access" where
  "acc_parec = \<lparr>acc_get = parecd, acc_put = \<lambda>m p. p\<lparr>parecd := Some m\<rparr>,
     acc_load = load_bmcs, acc_save = save_bmcs\<rparr>"

definition acc_painf :: "port_announce_information_data access" where
  "acc_painf = \<lparr>acc_get = painfd, acc_put = \<lambda>m p. p\<lparr>painfd := Some m\<rparr>,
     acc_load = load_bmcs, acc_save = save_bmcs\<rparr>"

definition acc_paiext :: "port_announce_information_ext_data access" where
  "acc_paiext = \<lparr>acc_get = paiextd, acc_put = \<lambda>m p. p\<lparr>paiextd := Some m\<rparr>,
     acc_load = load_bmcs, acc_save = save_bmcs\<rparr>"

definition acc_patrans :: "port_announce_transmit_data access" where
  "acc_patrans = \<lparr>acc_get = patransd, acc_put = \<lambda>m p. p\<lparr>patransd := Some m\<rparr>,
     acc_load = load_bmcs, acc_save = save_bmcs\<rparr>"

definition acc_gctrans :: "gptp_capable_transmit_data access" where
  "acc_gctrans = \<lparr>acc_get = gctransd, acc_put = \<lambda>m p. p\<lparr>gctransd := Some m\<rparr>,
     acc_load = load_port, acc_save = save_port\<rparr>"

definition acc_gcrec :: "gptp_capable_receive_data access" where
  "acc_gcrec = \<lparr>acc_get = gcrecd, acc_put = \<lambda>m p. p\<lparr>gcrecd := Some m\<rparr>,
     acc_load = load_port, acc_save = save_port\<rparr>"

definition acc_siset :: "sync_interval_setting_data access" where
  "acc_siset = \<lparr>acc_get = sisetd, acc_put = \<lambda>m p. p\<lparr>sisetd := Some m\<rparr>,
     acc_load = load_port, acc_save = save_port\<rparr>"

definition acc_ldiset :: "link_delay_interval_setting_data access" where
  "acc_ldiset = \<lparr>acc_get = ldisetd, acc_put = \<lambda>m p. p\<lparr>ldisetd := Some m\<rparr>,
     acc_load = \<lambda>sh m. load_port sh m\<lparr>mdeg := sh_md sh\<rparr>,
     acc_save = \<lambda>m sh. (save_port m sh)\<lparr>sh_md := mdeg m\<rparr>\<rparr>"

definition acc_ostxop :: "one_step_tx_oper_setting_data access" where
  "acc_ostxop = \<lparr>acc_get = ostxopd, acc_put = \<lambda>m p. p\<lparr>ostxopd := Some m\<rparr>,
     acc_load = \<lambda>sh m. load_port sh m\<lparr>mdeg := sh_md sh\<rparr>,
     acc_save = \<lambda>m sh. (save_port m sh)\<lparr>sh_md := mdeg m\<rparr>\<rparr>"

definition acc_ansend :: "md_announce_send_data access" where
  "acc_ansend = \<lparr>acc_get = mdansendd, acc_put = \<lambda>m p. p\<lparr>mdansendd := Some m\<rparr>,
     acc_load = \<lambda>sh m. load_port sh m\<lparr>mas_bppg := sh_bp sh\<rparr>,
     acc_save = \<lambda>m sh. (save_port m sh)\<lparr>sh_bp := mas_bppg m\<rparr>\<rparr>"

definition acc_anrec :: "md_announce_receive_data access" where
  "acc_anrec = \<lparr>acc_get = mdanrecd, acc_put = \<lambda>m p. p\<lparr>mdanrecd := Some m\<rparr>,
     acc_load = load_port, acc_save = save_port\<rparr>"

definition acc_sigsend :: "md_signaling_send_data access" where
  "acc_sigsend = \<lparr>acc_get = mdsigsendd, acc_put = \<lambda>m p. p\<lparr>mdsigsendd := Some m\<rparr>,
     acc_load = load_port, acc_save = save_port\<rparr>"

definition acc_sigrec :: "md_signaling_receive_data access" where
  "acc_sigrec = \<lparr>acc_get = mdsigrecd, acc_put = \<lambda>m p. p\<lparr>mdsigrecd := Some m\<rparr>,
     acc_load = load_port, acc_save = save_port\<rparr>"

definition acc_sss :: "site_sync_sync_data dom_access" where
  "acc_sss = \<lparr>dom_get = sssd, dom_put = \<lambda>m t. t\<lparr>sssd := Some m\<rparr>,
     dom_load = \<lambda>pt c m. m\<lparr>ptasg := pt, sss_gcd := c\<rparr>, dom_pt = ptasg, dom_clk = \<lambda>m c. sss_gcd m\<rparr>"

definition acc_cmssend :: "clock_master_sync_send_data dom_access" where
  "acc_cmssend = \<lparr>dom_get = cmssendd, dom_put = \<lambda>m t. t\<lparr>cmssendd := Some m\<rparr>,
     dom_load = \<lambda>pt c m. m\<lparr>ptasg := pt, cmss_gcd := c\<rparr>, dom_pt = ptasg, dom_clk = \<lambda>m c. cmss_gcd m\<rparr>"

definition acc_css :: "clock_slave_sync_data dom_access" where
  "acc_css = \<lparr>dom_get = cssd, dom_put = \<lambda>m t. t\<lparr>cssd := Some m\<rparr>,
     dom_load = \<lambda>pt c m. m\<lparr>ptasg := pt, css_gcd := c\<rparr>, dom_pt = ptasg, dom_clk = \<lambda>m c. css_gcd m\<rparr>"

definition acc_cmsrec :: "clock_master_sync_receive_data dom_access" where
  "acc_cmsrec = \<lparr>dom_get = cmsrecd, dom_put = \<lambda>m t. t\<lparr>cmsrecd := Some m\<rparr>,
     dom_load = \<lambda>pt c m. m\<lparr>ptasg := pt, cmsr_gcd := c\<rparr>, dom_pt = ptasg, dom_clk = \<lambda>m c. cmsr_gcd m\<rparr>"

definition acc_cmsoffset :: "clock_master_sync_offset_data dom_access" where
  "acc_cmsoffset = \<lparr>dom_get = cmsoffsetd, dom_put = \<lambda>m t. t\<lparr>cmsoffsetd := Some m\<rparr>,
     dom_load = \<lambda>pt c m. m\<lparr>ptasg := pt\<rparr>, dom_pt = ptasg, dom_clk = \<lambda>m c. c\<rparr>"

definition acc_gms :: "gm_stable_data dom_access" where
  "acc_gms = \<lparr>dom_get = gmsd, dom_put = \<lambda>m t. t\<lparr>gmsd := Some m\<rparr>,
     dom_load = \<lambda>pt c m. m\<lparr>ptasg := pt, gms_gcd := c\<rparr>, dom_pt = ptasg, dom_clk = \<lambda>m c. gms_gcd m\<rparr>"

text \<open>
  The two machines of the best master clock algorithm that look at all the ports of a domain. What
  they change are the variables of the domain and those of the ports that belong to the algorithm.
\<close>

definition domain_ppgl :: "gptpman_data \<Rightarrow> gptpsm_tasd \<Rightarrow> PerPortGlobal list" where
  "domain_ppgl g t = map (\<lambda>i. port_ppg g i (ptds t ! i)) [0..<length (ptds t)]"

definition put_domain ::
  "nat \<Rightarrow> PerTimeAwareSystemGlobal \<Rightarrow> BmcsPerTimeAwareSystemGlobal \<Rightarrow> BmcsPerPortGlobal list \<Rightarrow> gptpsm_tasd \<Rightarrow>
   gptpman_data \<Rightarrow> gptpman_data" where
  "put_domain di pt bt bps t g =
     put_tasd di (t\<lparr>tasglb := pt, btasglb := bt,
       ptds := map (\<lambda>i. if i < length bps then (ptds t ! i)\<lparr>bppglb := bps ! i\<rparr> else ptds t ! i) [0..<length (ptds t)]\<rparr>) g"

definition run_state_selection ::
  "env \<Rightarrow> platform \<Rightarrow> nat \<Rightarrow> u64 \<Rightarrow> gptpman_data \<Rightarrow> (gptpman_data \<times> ClockIdentity option) outcome" where
  "run_state_selection e pf di cts64 g = (case tasd_at g di of
      None \<Rightarrow> Fault
    | Some t \<Rightarrow>
        (case pssd t of
           None \<Rightarrow> Done (g, None)
         | Some m \<Rightarrow> and_then (of_run (port_state_selection_sm e pf cts64
               (m\<lparr>ptasg := tasglb t, sel_ppgl := domain_ppgl g t, sel_bptasg := btasglb t,
                  sel_bppgl := map bppglb (ptds t), gcd := clocks g\<rparr>)))
             (\<lambda>(m1, r). Done ((put_domain di (ptasg m1) (sel_bptasg m1) (sel_bppgl m1) (t\<lparr>pssd := Some m1\<rparr>) g)
                \<lparr>clocks := gcd m1\<rparr>, r))))"

definition run_state_setting_ext ::
  "nat \<Rightarrow> nat \<Rightarrow> (port_state_setting_ext_data \<Rightarrow> (port_state_setting_ext_data \<times> unit ctl) option) \<Rightarrow>
   gptpman_data \<Rightarrow> (gptpman_data \<times> unit option) outcome" where
  "run_state_setting_ext di port f g = (case (tasd_at g di, ptd_at g di port) of
      (Some t, Some p) \<Rightarrow>
        (case pssextd p of
           None \<Rightarrow> Fault
         | Some m \<Rightarrow> and_then (of_run (f (m\<lparr>ptasg := tasglb t, sse_ppgl := domain_ppgl g t, sse_bptasg := btasglb t,
               sse_bppgl := map bppglb (ptds t)\<rparr>)))
             (\<lambda>(m1, r). Done (put_domain di (ptasg m1) (sse_bptasg m1) (sse_bppgl m1)
                (t\<lparr>ptds := (ptds t)[port := p\<lparr>pssextd := Some m1\<rparr>]\<rparr>) g, r)))
    | _ \<Rightarrow> Fault)"

text \<open>Direct access to the variables of a domain and of a port.\<close>

definition upd_tas ::
  "nat \<Rightarrow> (PerTimeAwareSystemGlobal \<Rightarrow> PerTimeAwareSystemGlobal) \<Rightarrow> gptpman_data \<Rightarrow> gptpman_data outcome" where
  "upd_tas di f g = (case tasd_at g di of
      None \<Rightarrow> Fault
    | Some t \<Rightarrow> Done (put_tasd di (t\<lparr>tasglb := f (tasglb t)\<rparr>) g))"

definition upd_shared :: "nat \<Rightarrow> nat \<Rightarrow> (shared \<Rightarrow> shared) \<Rightarrow> gptpman_data \<Rightarrow> gptpman_data outcome" where
  "upd_shared di port f g = (case shared_at g di port of
      None \<Rightarrow> Fault
    | Some sh \<Rightarrow> Done (put_shared di port (f sh) g))"

definition DOMAIN_DATA_EXIST :: "gptpman_data \<Rightarrow> nat \<Rightarrow> bool" where
  "DOMAIN_DATA_EXIST g di \<longleftrightarrow> di < man_max_domains g \<and> tasd_at g di \<noteq> None"

definition PORT_DATA_EXIST :: "gptpman_data \<Rightarrow> nat \<Rightarrow> nat \<Rightarrow> bool" where
  "PORT_DATA_EXIST g di port \<longleftrightarrow> DOMAIN_DATA_EXIST g di \<and> port < man_max_ports g \<and> ptd_at g di port \<noteq> None"

end
