(* ===== verification/Gptp_Daemon.thy ===== *)
theory Gptp_Daemon
  imports Gptp_Man
begin

text \<open>
  The daemon reacts to the events of the network layer (\<^verbatim>\<open>gptpman.c\<close>): which machines run, in which
  order, and what goes from one to the next. The network layer itself is a parameter: \<open>io di port\<close> are its
  services for a port of a domain during one event (\<open>io di 0\<close> for the machines of the domain).
\<close>

type_synonym services = "nat \<Rightarrow> nat \<Rightarrow> net_io"

section \<open>asCapable\<close>

definition EVENT_CLOCK_NETDEV_DOWN :: u32 where "EVENT_CLOCK_NETDEV_DOWN = 0x1"
definition EVENT_CLOCK_NETDEV_UP :: u32 where "EVENT_CLOCK_NETDEV_UP = 0x2"
definition EVENT_PORT_AS_CAPABLE_DOWN :: u32 where "EVENT_PORT_AS_CAPABLE_DOWN = 0x80"
definition EVENT_PORT_AS_CAPABLE_UP :: u32 where "EVENT_PORT_AS_CAPABLE_UP = 0x100"

definition asCapable_up :: "PerPortGlobal \<Rightarrow> PerPortGlobal" where
  "asCapable_up p = p\<lparr>asCapable := True,
     portEventFlags := (portEventFlags p OR EVENT_PORT_AS_CAPABLE_UP) AND NOT EVENT_PORT_AS_CAPABLE_DOWN\<rparr>"

definition asCapable_down :: "PerPortGlobal \<Rightarrow> PerPortGlobal" where
  "asCapable_down p = p\<lparr>asCapable := False,
     portEventFlags := (portEventFlags p OR EVENT_PORT_AS_CAPABLE_DOWN) AND NOT EVENT_PORT_AS_CAPABLE_UP\<rparr>"

definition set_asCapable :: "shared \<Rightarrow> shared" where
  "set_asCapable sh =
     (if asCapableAcrossDomains (md_forAllDomain (sh_md sh)) \<or> neighborGptpCapable (sh_pp sh)
      then if asCapable (sh_pp sh) then sh else sh\<lparr>sh_pp := asCapable_up (sh_pp sh)\<rparr>
      else if \<not> asCapable (sh_pp sh) then sh else sh\<lparr>sh_pp := asCapable_down (sh_pp sh)\<rparr>)"

text \<open>The update of a port, and of the summary of the domain.\<close>

definition asCapable_port :: "nat \<Rightarrow> nat \<Rightarrow> gptpman_data \<Rightarrow> gptpman_data outcome" where
  "asCapable_port di port = upd_shared di port (\<lambda>sh.
     (let sh1 = set_asCapable sh
      in sh1\<lparr>sh_pt := (sh_pt sh1)\<lparr>asCapableOrAll := asCapableOrAll (sh_pt sh1) \<or> asCapable (sh_pp sh1)\<rparr>\<rparr>))"

section \<open>Synchronisation\<close>

definition port_sync_send ::
  "env \<Rightarrow> services \<Rightarrow> u64 \<Rightarrow> nat \<Rightarrow> PortSyncSync \<Rightarrow> nat \<Rightarrow> gptpman_data \<Rightarrow> gptpman_data outcome" where
  "port_sync_send e io cts64 di ps port = run_all
     [when_ret (run_port acc_psssend di port (\<lambda>m. port_sync_sync_send_sm_portSyncSync e m ps cts64))
        (\<lambda>md g. just (run_port acc_ssend di port (\<lambda>m. md_sync_send_sm_mdSyncSend e (io di port) (clocks g) m md cts64)) g),
      just (run_port acc_painf di port (\<lambda>m. Some
        (port_announce_information_sm_SyncReceiptTimeoutTime (ps_syncReceiptTimeoutTime ps) m, Next :: unit ctl)))]"

definition portSyncSync_for_all ::
  "env \<Rightarrow> platform \<Rightarrow> services \<Rightarrow> u64 \<Rightarrow> nat \<Rightarrow> PortSyncSync \<Rightarrow> gptpman_data \<Rightarrow> gptpman_data outcome" where
  "portSyncSync_for_all e pf io cts64 di ps g = run_all
     [for_each (port_sync_send e io cts64 di ps) [1..<man_max_ports g],
      just (run_dom acc_css di (\<lambda>m. clock_slave_sync_sm_portSyncSync e (io di 0) pf m ps)),
      just (run_dom acc_cmsrec di (clock_master_sync_receive_sm_ClockSourceReq e pf)),
      just (run_dom acc_cmsoffset di clock_master_sync_offset_sm_SyncReceiptTime)] g"

definition site_sync ::
  "env \<Rightarrow> platform \<Rightarrow> services \<Rightarrow> u64 \<Rightarrow> nat \<Rightarrow> PortSyncSync \<Rightarrow> gptpman_data \<Rightarrow> gptpman_data outcome" where
  "site_sync e pf io cts64 di ps =
     when_ret (run_dom acc_sss di (\<lambda>m. site_sync_sync_sm_portSyncSync e m ps cts64))
       (portSyncSync_for_all e pf io cts64 di)"

text \<open>A follow-up message: through MDSyncReceive, PortSyncSyncReceive and SiteSyncSync to all the ports.\<close>

definition recv_fup ::
  "env \<Rightarrow> platform \<Rightarrow> services \<Rightarrow> u64 \<Rightarrow> nat \<Rightarrow> nat \<Rightarrow> u8 list \<Rightarrow> gptpman_data \<Rightarrow> gptpman_data outcome" where
  "recv_fup e pf io cts64 di port bs =
     when_ret (run_port acc_srec di port (\<lambda>m. md_sync_receive_sm_recv_fup e m bs cts64))
       (\<lambda>md. when_ret (run_port acc_pssrec di port (\<lambda>m. port_sync_sync_receive_sm_recvMDSync e m md cts64))
         (site_sync e pf io cts64 di))"

text \<open>The timestamp of a received Sync message is converted to this clock.\<close>

definition recv_sync ::
  "env \<Rightarrow> platform \<Rightarrow> u64 \<Rightarrow> nat \<Rightarrow> nat \<Rightarrow> u8 list \<Rightarrow> u64 \<Rightarrow> gptpman_data \<Rightarrow> gptpman_data outcome" where
  "recv_sync e pf cts64 di port bs ts64 g = (case tasd_at g di of
      None \<Rightarrow> Fault
    | Some t \<Rightarrow>
        (let ci = (if conf e CONF_SINGLE_CLOCK_MODE \<noteq> 0 then 1 else int port);
             ((_, ts), c) = gptpclock_tsconv pf ts64 ci 0 (thisClockIndex (tasglb t)) (domainNumber (tasglb t)) (clocks g)
         in just (run_port acc_srec di port (\<lambda>m. md_sync_receive_sm_recv_sync e m bs ts cts64)) (g\<lparr>clocks := c\<rparr>)))"

section \<open>The best master clock algorithm\<close>

partial_function (option) do_while :: "('s \<Rightarrow> 's outcome) \<Rightarrow> ('s \<Rightarrow> bool) \<Rightarrow> 's \<Rightarrow> 's outcome option" where
  "do_while f again s = (case f s of
      Done t \<Rightarrow> if again t then do_while f again t else Some (Done t)
    | Fault \<Rightarrow> Some Fault
    | Hangs \<Rightarrow> Some Hangs)"

definition loop_while :: "('s \<Rightarrow> 's outcome) \<Rightarrow> ('s \<Rightarrow> bool) \<Rightarrow> 's \<Rightarrow> 's outcome" where
  "loop_while f again s = (case do_while f again s of None \<Rightarrow> Hangs | Some r \<Rightarrow> r)"

lemma keeps_loop_while:
  assumes "keeps P f"
  shows "keeps P (loop_while f again)"
proof -
  have main: "h = f \<longrightarrow> P s \<longrightarrow> (\<forall>t. r = Done t \<longrightarrow> P t)" if "do_while h again s = Some r" for h s r
  proof (rule do_while.raw_induct [where P = "\<lambda>h _ s r. h = f \<longrightarrow> P s \<longrightarrow> (\<forall>t. r = Done t \<longrightarrow> P t)", OF _ that])
    fix loop h a s r
    assume IH: "\<And>h a s r. loop h a s = Some r \<Longrightarrow> h = f \<longrightarrow> P s \<longrightarrow> (\<forall>t. r = Done t \<longrightarrow> P t)"
      and eq: "(case h s of Done t \<Rightarrow> if a t then loop h a t else Some (Done t) | Fault \<Rightarrow> Some Fault
        | Hangs \<Rightarrow> Some Hangs) = Some r"
    show "h = f \<longrightarrow> P s \<longrightarrow> (\<forall>t. r = Done t \<longrightarrow> P t)"
    proof (intro impI allI)
      fix t
      assume h: "h = f" "P s" "r = Done t"
      then obtain u where u: "f s = Done u" using eq by (cases "h s") auto
      with assms h(2) have "P u" by (simp add: keeps_def)
      with IH eq u h show "P t" by (cases "a u") auto
    qed
  qed
  show ?thesis
    unfolding keeps_def loop_while_def using main by (auto split: option.splits)
qed

definition bmcs_round :: "env \<Rightarrow> platform \<Rightarrow> u64 \<Rightarrow> nat \<Rightarrow> nat \<Rightarrow> gptpman_data \<Rightarrow> gptpman_data outcome" where
  "bmcs_round e pf cts64 di port = run_all
     [just (tick_port acc_painf di port (port_announce_information_sm e cts64)),
      when_ret (run_state_selection e pf di cts64)
        (\<lambda>cid. run_all
          [just (run_dom acc_gms di (\<lambda>m. gm_stable_gm_change e m cid cts64)),
           just (run_dom acc_cmsrec di (clock_master_sync_receive_sm_ClockSourceReq e pf))])]"

definition info_pending :: "nat \<Rightarrow> nat \<Rightarrow> gptpman_data \<Rightarrow> bool" where
  "info_pending di port g = (case ptd_at g di port of None \<Rightarrow> False | Some p \<Rightarrow> updtInfo (bppglb p))"

definition bmcs_ext :: "nat \<Rightarrow> nat \<Rightarrow> gptpman_data \<Rightarrow> gptpman_data outcome" where
  "bmcs_ext di port = run_all
     [when_ret (tick_port acc_paiext di port port_announce_information_ext_sm)
        (\<lambda>v. just (run_state_setting_ext di port
          (\<lambda>m. Some (port_state_setting_ext_sm_messagePriority m v, Next)))),
      just (run_state_setting_ext di port port_state_setting_ext_sm)]"

definition announce_out :: "env \<Rightarrow> services \<Rightarrow> u64 \<Rightarrow> nat \<Rightarrow> nat \<Rightarrow> gptpman_data \<Rightarrow> gptpman_data outcome" where
  "announce_out e io cts64 di port =
     when_ret (tick_port acc_patrans di port (\<lambda>m. port_announce_transmit_sm m cts64))
       (\<lambda>msg. just (run_port acc_ansend di port
         (\<lambda>m. md_announce_send_sm_mdAnnouncSend e (\<lambda>f. net_send (io di port) f \<noteq> - 1) m msg)))"

definition sm_bmcs_perform ::
  "env \<Rightarrow> platform \<Rightarrow> services \<Rightarrow> u64 \<Rightarrow> nat \<Rightarrow> nat \<Rightarrow> gptpman_data \<Rightarrow> gptpman_data outcome" where
  "sm_bmcs_perform e pf io cts64 di port g = (case tasd_at g di of
      None \<Rightarrow> Fault
    | Some t \<Rightarrow> run_all
       [if externalPortConfiguration (btasglb t) = VALUE_DISABLED
        then loop_while (bmcs_round e pf cts64 di port) (info_pending di port)
        else bmcs_ext di port,
        announce_out e io cts64 di port] g)"

definition sm_bmcs_domain_port_update ::
  "env \<Rightarrow> platform \<Rightarrow> services \<Rightarrow> u64 \<Rightarrow> nat \<Rightarrow> nat \<Rightarrow> gptpman_data \<Rightarrow> gptpman_data outcome" where
  "sm_bmcs_domain_port_update e pf io cts64 di port = run_all
     [just (tick_port acc_aiset di port (announce_interval_setting_sm e)),
      sm_bmcs_perform e pf io cts64 di port]"

section \<open>The events of the network layer\<close>

text \<open>
  What the network layer reports. For a received frame and for the timestamp of a sent one it has read
  the type of the message and the number of the domain; the times of a link are in \<open>duplex\<close> and \<open>speed\<close>,
  and \<open>abandon\<close> is what \<^verbatim>\<open>md_abnormal_timestamp\<close> says of a timestamp.
\<close>

record event_data_recv =
  rx_msgtype :: u8
  rx_domain :: u8
  rx_ts64 :: u64
  rx_frame :: "u8 list"

record event_data_txts =
  tx_msgtype :: u8
  tx_domain :: u8
  tx_seqid :: u16
  tx_ts64 :: u64

datatype gptpnet_event =
    GPTPNET_EVENT_NONE
  | GPTPNET_EVENT_TIMEOUT
  | GPTPNET_EVENT_DEVUP (duplex: u32) (speed: u32)
  | GPTPNET_EVENT_DEVDOWN
  | GPTPNET_EVENT_RECV event_data_recv
  | GPTPNET_EVENT_TXTS event_data_txts bool

definition zero_notice :: ipc_notice where
  "zero_notice = \<lparr>event_flags = 0, n_domainNumber = 0, n_domainIndex = 0, n_portIndex = 0,
     n_gmIdentity = zero_clockid, n_lastGmPhaseChange_nsec = 0, n_gmTimeBaseIndicator = 0,
     n_lastGmFreqChange = 0\<rparr>"

definition gptpnet_ipc_notice :: "ipc_notice \<Rightarrow> gptpman_data \<Rightarrow> gptpman_data" where
  "gptpnet_ipc_notice n g = g\<lparr>notices := notices g @ [n]\<rparr>"

definition netdev_notice :: "u32 \<Rightarrow> nat \<Rightarrow> gptpman_data \<Rightarrow> gptpman_data" where
  "netdev_notice flag port = gptpnet_ipc_notice (zero_notice\<lparr>event_flags := flag, n_portIndex := int port\<rparr>)"

text \<open>A domain with number 0 that is not domain 0.\<close>

definition unnumbered :: "gptpman_data \<Rightarrow> nat \<Rightarrow> bool" where
  "unnumbered g di \<longleftrightarrow> di \<noteq> 0 \<and> (case tasd_at g di of None \<Rightarrow> False | Some t \<Rightarrow> domainNumber (tasglb t) = 0)"

definition set_portOper :: "bool \<Rightarrow> PerPortGlobal \<Rightarrow> PerPortGlobal" where
  "set_portOper b p = p\<lparr>forAllDomain := (forAllDomain p)\<lparr>portOper := b\<rparr>\<rparr>"

definition gptpnet_cb_devup ::
  "env \<Rightarrow> platform \<Rightarrow> services \<Rightarrow> u64 \<Rightarrow> nat \<Rightarrow> u32 \<Rightarrow> u32 \<Rightarrow> gptpman_data \<Rightarrow> gptpman_data outcome" where
  "gptpnet_cb_devup e pf io cts64 port dup spd g =
     and_then
       (if dup = 1 \<and> \<not> spd < 100 then run_all
          [upd_shared 0 port (\<lambda>sh. sh\<lparr>sh_pp := set_portOper True (sh_pp sh)\<rparr>),
           for_each (\<lambda>di g. if \<not> DOMAIN_DATA_EXIST g di \<or> unnumbered g di then Done g
               else sm_bmcs_domain_port_update e pf io cts64 di port g) [0..<man_max_domains g]] g
        else Done g)
       (pure (netdev_notice EVENT_CLOCK_NETDEV_UP port))"

text \<open>A link that goes down: the common variables of the port, then the port in every domain. The domains
  are not asked whether they have been initialised.\<close>

definition devdown_common :: "shared \<Rightarrow> shared" where
  "devdown_common sh =
     sh\<lparr>sh_pp := set_portOper False (sh_pp sh)
          \<lparr>forAllDomain := (forAllDomain (set_portOper False (sh_pp sh)))\<lparr>receivedNonCMLDSPdelayReq := 0\<rparr>\<rparr>,
        sh_md := (sh_md sh)\<lparr>md_forAllDomain := (md_forAllDomain (sh_md sh))\<lparr>asCapableAcrossDomains := False\<rparr>\<rparr>\<rparr>"

definition devdown_port :: "shared \<Rightarrow> shared" where
  "devdown_port sh = (if asCapable (sh_pp sh) then sh\<lparr>sh_pp := asCapable_down (sh_pp sh)\<rparr> else sh)"

definition gptpnet_cb_devdown :: "nat \<Rightarrow> gptpman_data \<Rightarrow> gptpman_data outcome" where
  "gptpnet_cb_devdown port g = run_all
     [pure (netdev_notice EVENT_CLOCK_NETDEV_DOWN port),
      upd_shared 0 port devdown_common,
      for_each (\<lambda>di. upd_shared di port devdown_port) [0..<man_max_domains g]] g"

text \<open>The regular event: the machines that act without a message.\<close>

definition timeout_port ::
  "env \<Rightarrow> platform \<Rightarrow> services \<Rightarrow> u64 \<Rightarrow> nat \<Rightarrow> nat \<Rightarrow> gptpman_data \<Rightarrow> gptpman_data outcome" where
  "timeout_port e pf io cts64 di port = run_all
     [asCapable_port di port,
      when_ret (tick_port acc_gctrans di port (\<lambda>m. gptp_capable_transmit_sm e m cts64))
        (\<lambda>tlv. just (run_port acc_sigsend di port
          (\<lambda>m. md_signaling_send_sm_mdSignalingSend e (io di port) m (GptpCapable tlv)))),
      \<lambda>g. just (tick_port acc_ssend di port (\<lambda>m. md_sync_send_sm e (io di port) (clocks g) m cts64)) g,
      just (tick_port acc_ansend di port (md_announce_send_sm e (\<lambda>f. net_send (io di port) f \<noteq> - 1))),
      just (tick_port acc_sigsend di port (md_signaling_send_sm e (io di port))),
      just (tick_port acc_srec di port (\<lambda>m. md_sync_receive_sm e m cts64)),
      \<lambda>g. if unnumbered g di then Done g else sm_bmcs_domain_port_update e pf io cts64 di port g]"

definition timeout_domain ::
  "env \<Rightarrow> platform \<Rightarrow> services \<Rightarrow> u64 \<Rightarrow> nat \<Rightarrow> gptpman_data \<Rightarrow> gptpman_data outcome" where
  "timeout_domain e pf io cts64 di g =
     (let ports = [1..<man_max_ports g] in run_all
       [if di = 0
        then for_each (\<lambda>port. run_all
          [just (tick_port acc_pdreq 0 port (\<lambda>m. md_pdelay_req_sm e (io 0 port) m cts64)),
           just (tick_port acc_pdresp 0 port (\<lambda>m. md_pdelay_resp_sm e (io 0 port) m cts64))]) ports
        else Done,
        when_ret (tick_dom acc_cmssend di (\<lambda>m. clock_master_sync_send_sm (io di 0) pf m cts64))
          (site_sync e pf io cts64 di),
        upd_tas di (\<lambda>pt. pt\<lparr>asCapableOrAll := False\<rparr>),
        for_each (timeout_port e pf io cts64 di) ports,
        just (tick_dom acc_gms di (\<lambda>m. gm_stable_sm e m cts64))] g)"

definition gptpnet_cb_timeout ::
  "env \<Rightarrow> platform \<Rightarrow> services \<Rightarrow> u64 \<Rightarrow> gptpman_data \<Rightarrow> gptpman_data outcome" where
  "gptpnet_cb_timeout e pf io cts64 g =
     for_each (\<lambda>di g. if DOMAIN_DATA_EXIST g di then timeout_domain e pf io cts64 di g else Done g)
       [0..<man_max_domains g] g"

text \<open>A received frame, and the timestamp of a sent one. A domain number that no domain has is not served.\<close>

definition domain_number_is :: "u8 \<Rightarrow> gptpman_data \<Rightarrow> nat \<Rightarrow> bool" where
  "domain_number_is dn g i \<longleftrightarrow> (case tasd_at g i of None \<Rightarrow> False | Some t \<Rightarrow> domainNumber (tasglb t) = dn)"

definition get_domain_index :: "gptpman_data \<Rightarrow> u8 \<Rightarrow> nat option" where
  "get_domain_index g dn =
     (if dn = 0 then Some 0 else find (domain_number_is dn g) [0..<man_max_domains g])"

definition recv_announce :: "env \<Rightarrow> platform \<Rightarrow> services \<Rightarrow> u64 \<Rightarrow> nat \<Rightarrow> nat \<Rightarrow> u8 list \<Rightarrow> gptpman_data \<Rightarrow> gptpman_data outcome" where
  "recv_announce e pf io cts64 di port bs =
     when_ret (run_port acc_anrec 0 port (\<lambda>m. md_announce_receive_sm_mdAnnounceRec e m bs))
       (\<lambda>msg. run_all
         [just (run_port acc_parec di port (\<lambda>m. port_announce_receive_sm_recv_announce m msg)),
          sm_bmcs_perform e pf io cts64 di port])"

text \<open>The machine of the link delay interval exists in domain 0 only, but the message is given to that
  of any domain. The receiver tells the messages by the last byte of the subtype, the daemon by all of it.\<close>

definition recv_signaling :: "env \<Rightarrow> u64 \<Rightarrow> nat \<Rightarrow> nat \<Rightarrow> u8 list \<Rightarrow> gptpman_data \<Rightarrow> gptpman_data outcome" where
  "recv_signaling e cts64 di port bs =
     when_ret (run_port acc_sigrec di port (\<lambda>m. md_signaling_receive_sm_mdSignalingRec e m bs))
       (\<lambda>msg. case msg of
          IntervalReq r \<Rightarrow>
            if ir_organizationSubType r = 2 then run_all
              [just (run_port acc_siset di port (\<lambda>m. sync_interval_setting_SignalingMsg1 e m r)),
               just (run_port acc_ldiset di port (\<lambda>m. link_delay_interval_setting_SignalingMsg1 e m r))]
            else Done
        | GptpCapable r \<Rightarrow>
            if gc_organizationSubType r = 4
            then just (run_port acc_gcrec di port (\<lambda>m. gptp_capable_receive_rcvdSignalingMsg e m r cts64))
            else Done)"

definition update_asCapable :: "nat \<Rightarrow> gptpman_data \<Rightarrow> gptpman_data outcome" where
  "update_asCapable port g = run_all
     [upd_tas 0 (\<lambda>pt. pt\<lparr>asCapableOrAll := False\<rparr>),
      for_each (\<lambda>di g. if DOMAIN_DATA_EXIST g di then asCapable_port di port g else Done g) [0..<man_max_domains g]] g"

definition gptpnet_cb_recv ::
  "env \<Rightarrow> platform \<Rightarrow> services \<Rightarrow> u64 \<Rightarrow> nat \<Rightarrow> event_data_recv \<Rightarrow> gptpman_data \<Rightarrow> gptpman_data outcome" where
  "gptpnet_cb_recv e pf io cts64 port ed g = (case get_domain_index g (rx_domain ed) of
      None \<Rightarrow> Done g
    | Some di \<Rightarrow>
        (let is = (\<lambda>t. rx_msgtype ed = msgtype_code t); bs = rx_frame ed in
         if is SYNC then recv_sync e pf cts64 di port bs (rx_ts64 ed) g
         else if is PDELAY_REQ then
           (if di \<noteq> 0 then Done g else just (run_port acc_pdresp 0 port
             (\<lambda>m. md_pdelay_resp_sm_recv_req e (io 0 port) m bs (rx_ts64 ed) cts64)) g)
         else if is PDELAY_RESP then
           (if di \<noteq> 0 then Done g else just (run_port acc_pdreq 0 port
             (\<lambda>m. md_pdelay_req_sm_recv_resp e (io 0 port) m bs (rx_ts64 ed) cts64)) g)
         else if is FOLLOW_UP then recv_fup e pf io cts64 di port bs g
         else if is PDELAY_RESP_FOLLOW_UP then
           (if di \<noteq> 0 then Done g else run_all
             [just (run_port acc_pdreq 0 port (\<lambda>m. md_pdelay_req_sm_recv_respfup e (io 0 port) m bs cts64)),
              update_asCapable port] g)
         else if is ANNOUNCE then recv_announce e pf io cts64 di port bs g
         else if is SIGNALING then recv_signaling e cts64 di port bs g
         else Done g))"

text \<open>The machine that sends Sync messages converts the timestamp and so works on the clocks.\<close>

definition txts_sync ::
  "env \<Rightarrow> net_io \<Rightarrow> platform \<Rightarrow> u64 \<Rightarrow> nat \<Rightarrow> nat \<Rightarrow> bool \<Rightarrow> u64 \<Rightarrow> gptpman_data \<Rightarrow> gptpman_data outcome" where
  "txts_sync e io pf cts64 di port abandon ts64 g =
     (let call = (\<lambda>m. md_sync_send_sm_txts e io pf (clocks g) abandon m ts64 cts64) in
      case (ptd_at g di port, shared_at g di port) of
        (Some p, Some sh) \<Rightarrow>
          (case mdssendd p of
             None \<Rightarrow> Fault
           | Some m \<Rightarrow> just (run_port acc_ssend di port (\<lambda>m. fst (call m)))
               (g\<lparr>clocks := snd (call (acc_load acc_ssend sh m))\<rparr>))
      | _ \<Rightarrow> Fault)"

definition gptpnet_cb_txts ::
  "env \<Rightarrow> platform \<Rightarrow> services \<Rightarrow> u64 \<Rightarrow> nat \<Rightarrow> event_data_txts \<Rightarrow> bool \<Rightarrow> gptpman_data \<Rightarrow> gptpman_data outcome" where
  "gptpnet_cb_txts e pf io cts64 port ed abandon g = (case get_domain_index g (tx_domain ed) of
      None \<Rightarrow> Done g
    | Some di \<Rightarrow>
        (let is = (\<lambda>t. tx_msgtype ed = msgtype_code t) in
         if is SYNC then txts_sync e (io di port) pf cts64 di port abandon (tx_ts64 ed) g
         else if is PDELAY_REQ then
           (if di \<noteq> 0 then Done g else just (run_port acc_pdreq 0 port
             (\<lambda>m. md_pdelay_req_sm_txts e (io 0 port) abandon m (tx_seqid ed) (tx_ts64 ed) cts64)) g)
         else if is PDELAY_RESP then
           (if di \<noteq> 0 then Done g else just (run_port acc_pdresp 0 port
             (\<lambda>m. md_pdelay_resp_sm_txts e (io 0 port) abandon m (tx_seqid ed) (tx_ts64 ed) cts64)) g)
         else Done g))"

end
