(* ===== verification/Gptp_Ipc.thy ===== *)
theory Gptp_Ipc
  imports Gptp_Daemon
begin

text \<open>
  What the daemon tells its clients (\<^verbatim>\<open>gptpman.c\<close>): the notices after every event, and the answers
  to their requests.
\<close>

section \<open>Notices\<close>

definition EVENT_CLOCK_PHASE_UPDATE :: u32 where "EVENT_CLOCK_PHASE_UPDATE = 0x4"
definition EVENT_CLOCK_FREQ_UPDATE :: u32 where "EVENT_CLOCK_FREQ_UPDATE = 0x8"

text \<open>
  The master clock of a domain. The flags are fetched with the index of the domain where its number is
  asked for; they are cleared by that. Since they are not zero, the condition of the grandmaster's change
  (a logical and) holds always.
\<close>

definition master_notice :: "u32 \<Rightarrow> nat \<Rightarrow> PerTimeAwareSystemGlobal \<Rightarrow> ipc_notice" where
  "master_notice fl di pt = zero_notice
     \<lparr>event_flags := fl, n_domainNumber := uint (domainNumber pt), n_domainIndex := int di,
      n_gmIdentity := gmIdentity pt, n_lastGmPhaseChange_nsec := s_nsec (clockSourceLastGmPhaseChange pt),
      n_gmTimeBaseIndicator := clockSourceTimeBaseIndicator pt,
      n_lastGmFreqChange := clockSourceLastGmFreqChange pt\<rparr>"

definition ipc_clock_master_clock_notice ::
  "env \<Rightarrow> PerTimeAwareSystemGlobal \<Rightarrow> nat \<Rightarrow> gptpman_data \<Rightarrow> gptpman_data" where
  "ipc_clock_master_clock_notice e pt di g =
     (case gptpclock_get_event_flags 0 (of_nat di) (clocks g) of (fl, c) \<Rightarrow>
        let g1 = g\<lparr>clocks := c\<rparr>;
            g2 = (if conf e CONF_TSN_SCHEDULE_ON \<noteq> 0 \<and> fl AND EVENT_CLOCK_PHASE_UPDATE \<noteq> 0
                  then g1\<lparr>schedules := schedules g1 @ [(of_int (conf e CONF_TSN_SCHEDULE_ALIGNTIME),
                         of_int (conf e CONF_TSN_SCHEDULE_CYCLETIME))]\<rparr>
                  else g1)
        in if fl = 0 then g1
           else if fl = EVENT_CLOCK_PHASE_UPDATE \<and> conf e CONF_IPC_NOTICE_PHASE_UPDATE = 0 then g2
           else gptpnet_ipc_notice (master_notice fl di pt) g2)"

text \<open>The clock that the system works with; its frequency updates are told only when that is configured.\<close>

definition ipc_clock_this_clock_notice :: "env \<Rightarrow> nat \<Rightarrow> u8 \<Rightarrow> int \<Rightarrow> gptpman_data \<Rightarrow> gptpman_data" where
  "ipc_clock_this_clock_notice e di dn ci g =
     (case gptpclock_get_event_flags ci (of_nat di) (clocks g) of (fl, c) \<Rightarrow>
        if fl \<noteq> 0 \<and> (fl AND NOT EVENT_CLOCK_FREQ_UPDATE \<noteq> 0 \<or> conf e CONF_IPC_NOTICE_FREQ_UPDATE \<noteq> 0)
        then gptpnet_ipc_notice (zero_notice\<lparr>event_flags := fl, n_domainNumber := uint dn, n_domainIndex := int di,
               n_portIndex := ci\<rparr>) (g\<lparr>clocks := c\<rparr>)
        else g\<lparr>clocks := c\<rparr>)"

definition port_notice :: "nat \<Rightarrow> nat \<Rightarrow> u8 \<Rightarrow> u32 \<Rightarrow> ipc_notice" where
  "port_notice di port dn fl = zero_notice
     \<lparr>event_flags := fl, n_domainNumber := uint dn, n_domainIndex := int di, n_portIndex := int port\<rparr>"

definition ipc_port_state_notice :: "nat \<Rightarrow> nat \<Rightarrow> u8 \<Rightarrow> u32 \<Rightarrow> gptpman_data \<Rightarrow> gptpman_data" where
  "ipc_port_state_notice di port dn fl = gptpnet_ipc_notice (port_notice di port dn fl)"

text \<open>A port whose flags are set: the notice, and the flags are cleared.\<close>

definition notice_port :: "nat \<Rightarrow> gptpman_data \<Rightarrow> nat \<Rightarrow> gptpman_data" where
  "notice_port di g port = (case (tasd_at g di, ptd_at g di port) of
      (Some t, Some p) \<Rightarrow>
        if portEventFlags (ppglb p) = 0 then g
        else put_ptd di port (p\<lparr>ppglb := (ppglb p)\<lparr>portEventFlags := 0\<rparr>\<rparr>)
               (ipc_port_state_notice di port (domainNumber (tasglb t)) (portEventFlags (ppglb p)) g)
    | _ \<Rightarrow> g)"

definition notice_domain :: "env \<Rightarrow> gptpman_data \<Rightarrow> nat \<Rightarrow> gptpman_data" where
  "notice_domain e g di = (case tasd_at g di of
      None \<Rightarrow> g
    | Some t \<Rightarrow>
        (let g1 = ipc_clock_master_clock_notice e (tasglb t) di g;
             g2 = ipc_clock_this_clock_notice e di (domainNumber (tasglb t)) (thisClockIndex (tasglb t)) g1
         in foldl (notice_port di) g2 [1..<man_max_ports g]))"

definition ipc_clock_notice :: "env \<Rightarrow> gptpman_data \<Rightarrow> gptpman_data" where
  "ipc_clock_notice e g = foldl (notice_domain e) g [0..<man_max_domains g]"

section \<open>One event\<close>

definition gptpnet_cb ::
  "env \<Rightarrow> platform \<Rightarrow> services \<Rightarrow> nat \<Rightarrow> u64 \<Rightarrow> gptpnet_event \<Rightarrow> gptpman_data \<Rightarrow> gptpman_data outcome" where
  "gptpnet_cb e pf io port cts64 ev g =
     and_then (case ev of
        GPTPNET_EVENT_NONE \<Rightarrow> Done g
      | GPTPNET_EVENT_TIMEOUT \<Rightarrow> gptpnet_cb_timeout e pf io cts64 g
      | GPTPNET_EVENT_DEVUP dup spd \<Rightarrow> gptpnet_cb_devup e pf io cts64 port dup spd g
      | GPTPNET_EVENT_DEVDOWN \<Rightarrow> gptpnet_cb_devdown port g
      | GPTPNET_EVENT_RECV ed \<Rightarrow> gptpnet_cb_recv e pf io cts64 port ed g
      | GPTPNET_EVENT_TXTS ed abandon \<Rightarrow> gptpnet_cb_txts e pf io cts64 port ed abandon g)
       (pure (ipc_clock_notice e))"

section \<open>Requests\<close>

text \<open>The answers, with the members of the structures of \<^verbatim>\<open>gptpipc.h\<close>.\<close>

record gptpipc_data_netlink =
  nl_speed :: u32
  nl_duplex :: u32
  nl_portid :: ClockIdentity
  nl_up :: bool
  nl_devname :: string
  nl_ptpdev :: string

record gptpipc_gport_data =
  gp_domainNumber :: int
  gp_portIndex :: int
  gp_gmClockId :: ClockIdentity
  gp_asCapable :: bool
  gp_portOper :: bool
  gp_gmStable :: bool
  gp_selectedState :: PTPPortState
  pDelay :: u64
  pDelayRateRatio :: real
  gp_annPathSequenceCount :: u8
  gp_annPathSequence :: "ClockIdentity list"

record gptpipc_clock_data =
  cd_domainNumber :: int
  cd_portIndex :: int
  lastGmPhaseChange_nsec :: u64
  cd_clockId :: ClockIdentity
  cd_gmClockId :: ClockIdentity
  lastSyncReceiptTime_nsec :: u64
  lastSyncReceiptLocalTime_nsec :: u64
  adjppb :: int
  cd_gmTimeBaseIndicator :: u16
  cd_lastSyncSeqID :: u16
  gmsync :: bool
  domainActive :: bool
  lastGmFreqChangePk :: real

record gptpipc_statistics_system =
  ss_portIndex :: int
  ss_pdelay_req_send :: u32
  ss_pdelay_resp_rec :: u32
  ss_pdelay_resp_rec_valid :: u32
  ss_pdelay_resp_fup_rec :: u32
  ss_pdelay_resp_fup_rec_valid :: u32
  ss_pdelay_req_rec :: u32
  ss_pdelay_req_rec_valid :: u32
  ss_pdelay_resp_send :: u32
  ss_pdelay_resp_fup_send :: u32

record gptpipc_statistics_tas =
  st_domainNumber :: int
  st_portIndex :: int
  st_sync_send :: u32
  st_sync_fup_send :: u32
  st_sync_rec :: u32
  st_sync_rec_valid :: u32
  st_sync_fup_rec :: u32
  st_sync_fup_rec_valid :: u32
  st_announce_send :: u32
  st_announce_rec :: u32
  st_announce_rec_valid :: u32
  st_signal_msg_interval_send :: u32
  st_signal_gptp_capable_send :: u32
  st_signal_rec :: u32
  st_signal_msg_interval_rec :: u32
  st_signal_gptp_capable_rec :: u32

datatype gptpd_answer =
    NDPORTD gptpipc_data_netlink
  | GPORTD gptpipc_gport_data
  | CLOCKD gptpipc_clock_data
  | STATSD gptpipc_statistics_system
  | STATTD gptpipc_statistics_tas

text \<open>\<open>None\<close> is a result of \<open>- 1\<close>: nothing is answered.\<close>

definition get_ipc_clock_data :: "int \<Rightarrow> u8 \<Rightarrow> gptpclock_data \<Rightarrow> gptpipc_clock_data option" where
  "get_ipc_clock_data ci dn c = (case FN_ENTRY c ci dn of
      None \<Rightarrow> None
    | Some i \<Rightarrow>
        (let od = clds c ! i in Some
          \<lparr>cd_domainNumber = uint (pp_domainNumber (pp_of c od)), cd_portIndex = ci, lastGmPhaseChange_nsec = 0,
           cd_clockId = clockId od, cd_gmClockId = gmClockId (pdd c ! od_domainIndex od),
           lastSyncReceiptTime_nsec = 0, lastSyncReceiptLocalTime_nsec = 0, adjppb = gptpclock_get_adjppb ci dn c,
           cd_gmTimeBaseIndicator = 0, cd_lastSyncSeqID = 0, gmsync = pp_gmsync (pp_of c od),
           domainActive = (active_domain c = int (od_domainIndex od)), lastGmFreqChangePk = 0\<rparr>))"

text \<open>The time of the last Sync message is put together from the lower part of the seconds and the upper
  part of the fraction.\<close>

definition ipc_respond_one_clock ::
  "PerTimeAwareSystemGlobal \<Rightarrow> int \<Rightarrow> u8 \<Rightarrow> gptpclock_data \<Rightarrow> gptpd_answer option" where
  "ipc_respond_one_clock pt port dn c = map_option
     (\<lambda>d. CLOCKD (if port = 0 then d
        \<lparr>lastGmPhaseChange_nsec := s_nsec (clockSourceLastGmPhaseChange pt),
         lastSyncReceiptTime_nsec := ucast (ext_seconds_lsb (syncReceiptTime pt)) * 1000000000
           + ucast (fractionalNanoseconds_msb (syncReceiptTime pt)),
         lastSyncReceiptLocalTime_nsec := nsec (syncReceiptLocalTime pt),
         cd_gmTimeBaseIndicator := clockSourceTimeBaseIndicator pt, cd_lastSyncSeqID := lastSyncSeqID pt,
         lastGmFreqChangePk := clockSourceLastGmFreqChange pt\<rparr> else d))
     (get_ipc_clock_data port dn c)"

definition ipc_respond_one_gport ::
  "shared \<Rightarrow> nat \<Rightarrow> int \<Rightarrow> nat \<Rightarrow> gptpclock_data \<Rightarrow> gptpd_answer option" where
  "ipc_respond_one_gport sh port dn di c =
     (let n = unat (annPathSequenceCount (sh_bp sh)) in
      if n \<ge> MAX_PATH_TRACE_N then None
      else Some (GPORTD
        \<lparr>gp_domainNumber = dn, gp_portIndex = int port, gp_gmClockId = gmIdentity (sh_pt sh),
         gp_asCapable = asCapable (sh_pp sh), gp_portOper = portOper (forAllDomain (sh_pp sh)),
         gp_gmStable = gptpclock_get_gmstable di c, gp_selectedState = selectedState (sh_pt sh) ! port,
         pDelay = nsec (neighborPropDelay (forAllDomain (sh_pp sh))),
         pDelayRateRatio = neighborRateRatio (forAllDomain (sh_pp sh)),
         gp_annPathSequenceCount = annPathSequenceCount (sh_bp sh),
         gp_annPathSequence = take n (annPathSequence (sh_bp sh))
           @ replicate (MAX_PATH_TRACE_N - n) zero_clockid\<rparr>))"

text \<open>The counters of the port: those of domain 0 only, and those of a domain. The counters of Announce
  messages are never filled in, and those of the signaling messages are never cleared.\<close>

definition ipc_respond_statsd_info ::
  "nat \<Rightarrow> bool \<Rightarrow> gptpman_data \<Rightarrow> (gptpd_answer option \<times> gptpman_data) outcome" where
  "ipc_respond_statsd_info port reset_cmd g =
     (if port \<ge> man_max_ports g then Done (None, g)
      else case ptd_at g 0 port of
        None \<Rightarrow> Fault
      | Some p \<Rightarrow>
          (case (mdpdreqd p, mdpdrespd p) of
             (Some q, Some r) \<Rightarrow>
               if reset_cmd then Done (None, put_ptd 0 port
                 (p\<lparr>mdpdreqd := Some (md_pdelay_req_stat_reset q), mdpdrespd := Some (md_pdelay_resp_stat_reset r)\<rparr>) g)
               else Done (Some (STATSD
                 \<lparr>ss_portIndex = int port, ss_pdelay_req_send = pdelay_req_send (pdr_statd q),
                  ss_pdelay_resp_rec = pdelay_resp_rec (pdr_statd q),
                  ss_pdelay_resp_rec_valid = pdelay_resp_rec_valid (pdr_statd q),
                  ss_pdelay_resp_fup_rec = pdelay_resp_fup_rec (pdr_statd q),
                  ss_pdelay_resp_fup_rec_valid = pdelay_resp_fup_rec_valid (pdr_statd q),
                  ss_pdelay_req_rec = pdelay_req_rec (pds_statd r),
                  ss_pdelay_req_rec_valid = pdelay_req_rec_valid (pds_statd r),
                  ss_pdelay_resp_send = pdelay_resp_send (pds_statd r),
                  ss_pdelay_resp_fup_send = pdelay_resp_fup_send (pds_statd r)\<rparr>), g)
           | _ \<Rightarrow> Fault))"

definition ipc_respond_stattd_info ::
  "nat \<Rightarrow> nat \<Rightarrow> bool \<Rightarrow> gptpman_data \<Rightarrow> (gptpd_answer option \<times> gptpman_data) outcome" where
  "ipc_respond_stattd_info di port reset_cmd g =
     (if di \<ge> man_max_domains g \<or> port \<ge> man_max_ports g then Done (None, g)
      else case (tasd_at g di, ptd_at g di port) of
        (Some t, Some p) \<Rightarrow>
          (case (mdssendd p, mdsrecd p, mdsigsendd p, mdsigrecd p) of
             (Some ss, Some sr, Some gs, Some gr) \<Rightarrow>
               if reset_cmd then Done (None, put_ptd di port
                 (p\<lparr>mdssendd := Some (md_sync_send_stat_reset ss), mdsrecd := Some (md_sync_receive_stat_reset sr)\<rparr>) g)
               else Done (Some (STATTD
                 \<lparr>st_domainNumber = uint (domainNumber (tasglb t)), st_portIndex = int port,
                  st_sync_send = sync_send (mss_statd ss), st_sync_fup_send = sync_fup_send (mss_statd ss),
                  st_sync_rec = sync_rec (msr_statd sr), st_sync_rec_valid = sync_rec_valid (msr_statd sr),
                  st_sync_fup_rec = sync_fup_rec (msr_statd sr), st_sync_fup_rec_valid = sync_fup_rec_valid (msr_statd sr),
                  st_announce_send = 0, st_announce_rec = 0, st_announce_rec_valid = 0,
                  st_signal_msg_interval_send = signal_msg_interval_send (md_signaling_send_get_stat gs),
                  st_signal_gptp_capable_send = signal_gptp_capable_send (md_signaling_send_get_stat gs),
                  st_signal_rec = signal_rec (md_signaling_receive_get_stat gr),
                  st_signal_msg_interval_rec = signal_msg_interval_rec (md_signaling_receive_get_stat gr),
                  st_signal_gptp_capable_rec = signal_gptp_capable_rec (md_signaling_receive_get_stat gr)\<rparr>), g)
           | _ \<Rightarrow> Fault)
      | _ \<Rightarrow> Fault)"

text \<open>A request; the commands have the numbers of \<^verbatim>\<open>gptp_ipc_command_t\<close>.\<close>

datatype (plugins only: code) gptp_ipc_command =
    CMD_REQ_NDPORT_INFO | CMD_REQ_GPORT_INFO | CMD_REQ_CLOCK_INFO | CMD_ACTIVE_DOMAIN_SWITCH | CMD_RUN_EXT_SCRIPT
  | CMD_TSN_SCHEDULE_CONTROL | CMD_REQ_STAT_INFO | CMD_REQ_STAT_INFO_RESET | CMD_REG_ABNORMAL_EVENT
  | CMD_DISCONNECT | CMD_OTHER

record gptpipc_client_req_abnormal =
  subcmd :: int
  ab_msgtype :: int
  ab_eventtype :: md_abn_event_type
  ab_eventrate :: real
  ab_repeat :: int
  ab_interval :: int
  ab_eventpara :: int

record gptpipc_client_req_data =
  cmd :: gptp_ipc_command
  rq_domainNumber :: int
  rq_domainIndex :: int
  rq_portIndex :: int
  abnd :: gptpipc_client_req_abnormal

text \<open>The index of the domain of a request, \<open>- 1\<close> if there is none, \<open>- 2\<close> if it asks for all. The number is
  cut to eight bits on the way.\<close>

definition get_domain_index_ipc :: "gptpman_data \<Rightarrow> gptpipc_client_req_data \<Rightarrow> int \<times> gptpipc_client_req_data" where
  "get_domain_index_ipc g rq =
     (if rq_domainNumber rq = - 1 then
        if rq_domainIndex rq \<ge> 0 then
          if rq_domainIndex rq \<ge> int (man_max_domains g) then (- 1, rq)
          else case tasd_at g (nat (rq_domainIndex rq)) of
            None \<Rightarrow> (- 1, rq)
          | Some t \<Rightarrow> (rq_domainIndex rq, rq\<lparr>rq_domainNumber := uint (domainNumber (tasglb t))\<rparr>)
        else (- 2, rq)
      else let di = (case get_domain_index g (of_int (rq_domainNumber rq)) of None \<Rightarrow> - 1 | Some i \<Rightarrow> int i)
           in (di, rq\<lparr>rq_domainIndex := di\<rparr>))"

definition ipc_register_abnormal_event ::
  "hook_lib \<Rightarrow> gptpipc_client_req_data \<Rightarrow> md_abnormal_data \<Rightarrow> int \<times> md_abnormal_data" where
  "ipc_register_abnormal_event lib rq =
     (let b = abnd rq; mt = nat (ab_msgtype b mod 2 ^ 32) in
      if subcmd b = 0 then md_abnormal_register_event lib
        \<lparr>abn_domainNumber = rq_domainNumber rq, ndevIndex = rq_portIndex rq - 1, msgtype = mt,
         eventtype = ab_eventtype b, eventrate = ab_eventrate b, repeat = ab_repeat b,
         interval = ab_interval b, eventpara = ab_eventpara b\<rparr>
      else if ab_msgtype b = - 1 then md_abnormal_deregister_all_events lib
      else md_abnormal_deregister_msgtype_events lib mt)"

text \<open>
  What a request leads to: the result, what is sent to the client (\<open>ClientRemoved\<close> and \<open>ExtScript\<close> stand for
  the calls that drop the client and run the script), and the state. \<open>nl\<close> is \<^verbatim>\<open>gptpnet_get_nlstatus\<close>;
  \<open>None\<close> is a failure.
\<close>

datatype ipc_effect = Answer gptpd_answer | ClientRemoved | ExtScript int

type_synonym ipc_result = "(int \<times> ipc_effect list \<times> gptpman_data) outcome"

definition opt_answer :: "gptpd_answer option \<Rightarrow> ipc_effect list" where
  "opt_answer a = (case a of None \<Rightarrow> [] | Some x \<Rightarrow> [Answer x])"

definition one_answer :: "gptpd_answer option \<Rightarrow> gptpman_data \<Rightarrow> ipc_result" where
  "one_answer a g = Done (if a = None then - 1 else 0, opt_answer a, g)"

definition gport_answer :: "gptpman_data \<Rightarrow> nat \<Rightarrow> int \<Rightarrow> nat \<Rightarrow> gptpd_answer option" where
  "gport_answer g di dn port = (case shared_at g di port of
      None \<Rightarrow> None | Some sh \<Rightarrow> ipc_respond_one_gport sh port dn di (clocks g))"

definition req_ndport :: "(int \<Rightarrow> gptpipc_data_netlink option) \<Rightarrow> int \<Rightarrow> gptpman_data \<Rightarrow> ipc_result" where
  "req_ndport nl port g =
     (let one = (\<lambda>i. map_option NDPORTD (nl (i - 1))) in
      if port > 0 then one_answer (one port) g
      else Done (0, concat (map (\<lambda>i. opt_answer (one (int i))) [1..<man_max_ports g]), g))"

definition req_clock :: "gptpipc_client_req_data \<Rightarrow> gptpman_data \<Rightarrow> ipc_result" where
  "req_clock rq g =
     (case get_domain_index_ipc g rq of (di, rq1) \<Rightarrow>
        if di = - 1 then Done (- 1, [], g)
        else if di \<ge> 0 then
          (case tasd_at g (nat di) of
             None \<Rightarrow> Done (- 1, [], g)
           | Some t \<Rightarrow> if \<not> DOMAIN_DATA_EXIST g (nat di) then Done (- 1, [], g) else one_answer
               (ipc_respond_one_clock (tasglb t) (rq_portIndex rq1) (of_int (rq_domainNumber rq1)) (clocks g)) g)
        else Done (0, concat (map (\<lambda>i. case tasd_at g i of
               None \<Rightarrow> []
             | Some t \<Rightarrow> opt_answer (ipc_respond_one_clock (tasglb t) 0 (domainNumber (tasglb t)) (clocks g)))
             [0..<man_max_domains g]), g))"

definition req_gport :: "gptpipc_client_req_data \<Rightarrow> gptpman_data \<Rightarrow> ipc_result" where
  "req_gport rq g =
     (case get_domain_index_ipc g rq of (di, rq1) \<Rightarrow>
        if di = - 1 then Done (0, [], g)
        else if di \<ge> 0 \<and> rq_portIndex rq1 \<noteq> 0 then
          if rq_portIndex rq1 < 0 \<or> \<not> PORT_DATA_EXIST g (nat di) (nat (rq_portIndex rq1)) then Done (- 1, [], g)
          else one_answer (gport_answer g (nat di) (rq_domainNumber rq1) (nat (rq_portIndex rq1))) g
        else Done (0, concat (map (\<lambda>i. case tasd_at g i of
               None \<Rightarrow> []
             | Some t \<Rightarrow> concat (map (\<lambda>port. if PORT_DATA_EXIST g i port
                 then opt_answer (gport_answer g i (uint (domainNumber (tasglb t))) port) else []) [1..<man_max_ports g]))
             (if di \<ge> 0 then [nat di] else [0..<man_max_domains g])), g))"

definition stat_step ::
  "(gptpman_data \<Rightarrow> (gptpd_answer option \<times> gptpman_data) outcome) \<Rightarrow>
   ipc_effect list \<times> gptpman_data \<Rightarrow> (ipc_effect list \<times> gptpman_data) outcome" where
  "stat_step f s = and_then (f (snd s)) (\<lambda>(a, g). Done (fst s @ opt_answer a, g))"

definition stat_port :: "bool \<Rightarrow> nat \<Rightarrow> nat \<Rightarrow> ipc_effect list \<times> gptpman_data \<Rightarrow> (ipc_effect list \<times> gptpman_data) outcome" where
  "stat_port reset_cmd di port = run_all
     [if di = 0 then stat_step (ipc_respond_statsd_info port reset_cmd) else Done,
      stat_step (ipc_respond_stattd_info di port reset_cmd)]"

text \<open>The domains are not asked whether they have been initialised.\<close>

definition req_stat :: "bool \<Rightarrow> gptpipc_client_req_data \<Rightarrow> gptpman_data \<Rightarrow> ipc_result" where
  "req_stat reset_cmd rq g =
     (case get_domain_index_ipc g rq of (ddi, rq1) \<Rightarrow>
        if rq_domainNumber rq1 \<ge> 0 \<and> ddi < 0 then Done (- 1, [], g)
        else and_then
          (for_each (\<lambda>di. for_each (stat_port reset_cmd di)
              (filter (\<lambda>port. \<not> (rq_portIndex rq1 > 0 \<and> rq_portIndex rq1 \<noteq> int port)) [1..<man_max_ports g]))
            (filter (\<lambda>di. \<not> (ddi \<ge> 0 \<and> ddi \<noteq> int di)) [0..<man_max_domains g]) ([], g))
          (\<lambda>(as, g1). Done (0, as, g1)))"

definition gptpnet_ipc_cb ::
  "env \<Rightarrow> hook_lib \<Rightarrow> (int \<Rightarrow> gptpipc_data_netlink option) \<Rightarrow> gptpipc_client_req_data \<Rightarrow> nat \<Rightarrow>
   gptpman_data \<Rightarrow> ipc_result" where
  "gptpnet_ipc_cb e lib nl rq rsize g =
     (if rsize < 16 then Done (- 1, [], g)
      else case cmd rq of
        CMD_DISCONNECT \<Rightarrow> Done (0, [ClientRemoved], g)
      | CMD_REQ_NDPORT_INFO \<Rightarrow> req_ndport nl (rq_portIndex rq) g
      | CMD_REQ_CLOCK_INFO \<Rightarrow> req_clock rq g
      | CMD_REQ_GPORT_INFO \<Rightarrow> req_gport rq g
      | CMD_ACTIVE_DOMAIN_SWITCH \<Rightarrow>
          Done (0, [], g\<lparr>clocks := snd (gptpclock_active_domain_switch (rq_domainIndex rq) (clocks g))\<rparr>)
      | CMD_RUN_EXT_SCRIPT \<Rightarrow> Done (0, [ExtScript (rq_domainNumber rq)], g)
      | CMD_TSN_SCHEDULE_CONTROL \<Rightarrow>
          Done (0, [], g\<lparr>schedules := schedules g @ [(of_int (conf e CONF_TSN_SCHEDULE_ALIGNTIME),
            if rq_domainNumber rq = 0 then 0 else of_int (conf e CONF_TSN_SCHEDULE_CYCLETIME))]\<rparr>)
      | CMD_REQ_STAT_INFO_RESET \<Rightarrow> req_stat True rq g
      | CMD_REQ_STAT_INFO \<Rightarrow> req_stat False rq g
      | CMD_REG_ABNORMAL_EVENT \<Rightarrow>
          (case ipc_register_abnormal_event lib rq (abnormal g) of (r, a) \<Rightarrow> Done (r, [], g\<lparr>abnormal := a\<rparr>))
      | CMD_OTHER \<Rightarrow> Done (- 1, [], g))"

end
