(* ===== verification/Gptp_ManInit.thy ===== *)
theory Gptp_ManInit
  imports Gptp_Ipc
begin

text \<open>
  The start of the daemon (\<^verbatim>\<open>gptpman.c\<close>): the domains, their ports, machines and clocks, and the run
  over a sequence of events.
\<close>

section \<open>Ports and machines\<close>

definition zero_ptd :: gptpsm_ptd where
  "zero_ptd = \<lparr>ppglb = zero_PerPortGlobal, bppglb = zero_BmcsPerPortGlobal,
     mdeglb = \<lparr>syncSequenceId = 0, oneStepReceive = False, oneStepTransmit = False, oneStepTxOper = False,
       md_forAllDomain = \<lparr>currentLogPdelayReqInterval = 0, initialLogPdelayReqInterval = 0,
         pdelayReqInterval = zero_UScaledNs, allowedLostResponses = 0, allowedFaults = 0, isMeasuringDelay = False,
         neighborPropDelayThresh = zero_UScaledNs, neighborPropDelayMinLimit = zero_UScaledNs,
         asCapableAcrossDomains = False\<rparr>\<rparr>,
     mdpdreqd = None, mdpdrespd = None, mdsrecd = None, mdssendd = None, aisetd = None, pssrecd = None,
     psssendd = None, parecd = None, painfd = None, paiextd = None, patransd = None, pssextd = None,
     cmldsLinkPortEnabled = False, gctransd = None, gcrecd = None, sisetd = None, ldisetd = None, ostxopd = None,
     mdansendd = None, mdanrecd = None, mdsigsendd = None, mdsigrecd = None\<rparr>"

text \<open>An initialisation function makes a machine over the variables of its port; some of them run it.\<close>

definition init_port ::
  "'m access \<Rightarrow> nat \<Rightarrow> nat \<Rightarrow> (shared \<Rightarrow> ('m \<times> 'r ctl) option) \<Rightarrow> gptpman_data \<Rightarrow> gptpman_data outcome" where
  "init_port a di port mk g = (case (ptd_at g di port, shared_at g di port) of
      (Some p, Some sh) \<Rightarrow> and_then (of_run (mk sh))
        (\<lambda>(m, _). Done (put_shared di port (acc_save a m sh) (put_ptd di port (acc_put a m p) g)))
    | _ \<Rightarrow> Fault)"

definition init_dom ::
  "'m dom_access \<Rightarrow> nat \<Rightarrow> (PerTimeAwareSystemGlobal \<Rightarrow> gptpclock_data \<Rightarrow> ('m \<times> 'r ctl) option) \<Rightarrow>
   gptpman_data \<Rightarrow> gptpman_data outcome" where
  "init_dom a di mk g = (case tasd_at g di of
      None \<Rightarrow> Fault
    | Some t \<Rightarrow> and_then (of_run (mk (tasglb t) (clocks g)))
        (\<lambda>(m, _). Done ((put_tasd di ((dom_put a m t)\<lparr>tasglb := dom_pt a m\<rparr>) g)\<lparr>clocks := dom_clk a m (clocks g)\<rparr>)))"

definition made :: "'m \<Rightarrow> ('m \<times> unit ctl) option" where
  "made m = Some (m, Next)"

definition domain_zero_port_sm_init :: "env \<Rightarrow> nat \<Rightarrow> gptpman_data \<Rightarrow> gptpman_data outcome" where
  "domain_zero_port_sm_init e port = run_all
     [init_port acc_pdreq 0 port (\<lambda>sh. made (md_pdelay_req_sm_init e True (sh_pt sh) (sh_pp sh) (sh_md sh))),
      init_port acc_pdresp 0 port (\<lambda>sh. made (md_pdelay_resp_sm_init e True (sh_pt sh) (sh_pp sh))),
      init_port acc_ldiset 0 port (\<lambda>sh. made (link_delay_interval_setting_sm_init (sh_pt sh) (sh_pp sh) (sh_md sh)))]"

definition domain_port_sm_init :: "env \<Rightarrow> services \<Rightarrow> nat \<Rightarrow> nat \<Rightarrow> gptpman_data \<Rightarrow> gptpman_data outcome" where
  "domain_port_sm_init e io di port = run_all
     ([init_port acc_painf di port (\<lambda>sh. made
         (port_announce_information_sm_init port (sh_pt sh) (sh_pp sh) (sh_bt sh) (sh_bp sh))),
       init_port acc_paiext di port (\<lambda>sh. made
         (port_announce_information_ext_sm_init port (sh_pt sh) (sh_pp sh) (sh_bt sh) (sh_bp sh)))] @
      (if port = 0 then [] else
      [init_port acc_srec di port (\<lambda>sh. made (md_sync_receive_sm_init (sh_pt sh) (sh_pp sh) (sh_md sh))),
       init_port acc_pssrec di port (\<lambda>sh. made (port_sync_sync_receive_sm_init (sh_pt sh) (sh_pp sh))),
       init_port acc_psssend di port (\<lambda>sh. made (port_sync_sync_send_sm_init port (sh_pt sh) (sh_pp sh))),
       \<lambda>g. init_port acc_ssend di port (\<lambda>sh.
         md_sync_send_sm_init e (io di port) (clocks g) True di port (sh_pt sh) (sh_pp sh) (sh_md sh)) g,
       init_port acc_parec di port (\<lambda>sh.
         port_announce_receive_sm_init port (sh_pt sh) (sh_pp sh) (sh_bt sh) (sh_bp sh)),
       init_port acc_patrans di port (\<lambda>sh. made
         (port_announce_transmit_sm_init port (sh_pt sh) (sh_pp sh) (sh_bt sh) (sh_bp sh))),
       init_port acc_gctrans di port (\<lambda>sh. made (gptp_capable_transmit_sm_init (sh_pt sh) (sh_pp sh))),
       init_port acc_gcrec di port (\<lambda>sh. gptp_capable_receive_sm_init e (sh_pt sh) (sh_pp sh)),
       init_port acc_siset di port (\<lambda>sh. sync_interval_setting_sm_init e (sh_pt sh) (sh_pp sh)),
       init_port acc_aiset di port (\<lambda>sh. made (announce_interval_setting_sm_init (sh_pt sh) (sh_pp sh) (sh_bp sh))),
       init_port acc_ostxop di port (\<lambda>sh. made (one_step_tx_oper_setting_sm_init (sh_pt sh) (sh_pp sh) (sh_md sh))),
       init_port acc_ansend di port (\<lambda>sh. made (md_announce_send_sm_init True (sh_pt sh) (sh_pp sh) (sh_bp sh))),
       init_port acc_anrec di port (\<lambda>sh. made (md_announce_receive_sm_init e (sh_pt sh) (sh_pp sh))),
       init_port acc_sigsend di port (\<lambda>sh. made (md_signaling_send_sm_init True (sh_pt sh) (sh_pp sh))),
       init_port acc_sigrec di port (\<lambda>sh. made (md_signaling_receive_sm_init (sh_pt sh) (sh_pp sh)))]))"

text \<open>The variables of the port first; \<open>seq\<close> is the number from \<^verbatim>\<open>rand\<close>. What the domains have in common is
  taken from domain 0. The flag of the asymmetry measurement starts as false in every domain.\<close>

definition port_variables :: "env \<Rightarrow> int \<Rightarrow> nat \<Rightarrow> gptpman_data \<Rightarrow> nat \<Rightarrow> gptpsm_ptd" where
  "port_variables e seq di g port =
     (case (if di = 0 then None else ptd_at g 0 port) of
        None \<Rightarrow> zero_ptd\<lparr>ppglb := pp_glb_init e None (of_nat port), bppglb := bmcs_pp_glb_init e,
          mdeglb := md_entity_glb_init e seq None\<rparr>
      | Some q \<Rightarrow> zero_ptd\<lparr>ppglb := pp_glb_init e (Some (forAllDomain (ppglb q))) (of_nat port),
          bppglb := bmcs_pp_glb_init e, mdeglb := md_entity_glb_init e seq (Some (md_forAllDomain (mdeglb q)))\<rparr>)"

definition state_setting_init :: "nat \<Rightarrow> nat \<Rightarrow> gptpman_data \<Rightarrow> gptpman_data outcome" where
  "state_setting_init di port g = (case (tasd_at g di, ptd_at g di port) of
      (Some t, Some p) \<Rightarrow> Done (put_ptd di port (p\<lparr>pssextd := Some (port_state_setting_ext_sm_init port
         (man_max_ports g) (tasglb t) (domain_ppgl g t) (btasglb t) (map bppglb (ptds t)) False)\<rparr>) g)
    | _ \<Rightarrow> Fault)"

definition gptpman_port_init ::
  "env \<Rightarrow> services \<Rightarrow> (nat \<Rightarrow> nat \<Rightarrow> int) \<Rightarrow> nat \<Rightarrow> nat \<Rightarrow> gptpman_data \<Rightarrow> gptpman_data outcome" where
  "gptpman_port_init e io seq di port g = run_all
     [pure (put_ptd di port (port_variables e (seq di port) di g port)),
      if di = 0 then domain_zero_port_sm_init e port else Done,
      domain_port_sm_init e io di port,
      if port \<noteq> 0 then state_setting_init di port else Done,
      \<lambda>g1. (case ptd_at g1 di port of
         None \<Rightarrow> Fault | Some p \<Rightarrow> Done (put_ptd di port (p\<lparr>cmldsLinkPortEnabled := True\<rparr>) g1))] g"

section \<open>Domains\<close>

text \<open>Domain 0 has index 0; another one takes the first index that is free, if its number is not taken
  by one before it. \<open>None\<close> is the result \<open>- 1\<close>.\<close>

fun first_free :: "gptpman_data \<Rightarrow> u8 \<Rightarrow> nat list \<Rightarrow> nat option" where
  "first_free g dn [] = None"
| "first_free g dn (i # is) = (case tasd_at g i of
      None \<Rightarrow> Some i
    | Some t \<Rightarrow> if domainNumber (tasglb t) = dn then None else first_free g dn is)"

definition domain_slot :: "gptpman_data \<Rightarrow> u8 \<Rightarrow> nat option" where
  "domain_slot g dn =
     (if dn = 0 then if man_max_domains g = 0 then None else Some 0
      else first_free g dn [1..<man_max_domains g])"

definition new_tasd :: "env \<Rightarrow> u8 \<Rightarrow> nat \<Rightarrow> gptpsm_tasd" where
  "new_tasd e dn n = \<lparr>ptds = replicate n zero_ptd, tasglb = ptas_glb_init e dn, btasglb = bmcs_ptas_glb_init e,
     sssd = None, cmssendd = None, cssd = None, cmsrecd = None, cmsoffsetd = None, pssd = None, gmsd = None\<rparr>"

definition state_selection_init :: "nat \<Rightarrow> gptpman_data \<Rightarrow> gptpman_data outcome" where
  "state_selection_init di g = (case tasd_at g di of
      None \<Rightarrow> Fault
    | Some t \<Rightarrow> Done (put_tasd di (t\<lparr>pssd := Some (port_state_selection_sm_init di (tasglb t) (domain_ppgl g t)
        (btasglb t) (map bppglb (ptds t)) (man_max_ports g) False (clocks g))\<rparr>) g))"

definition domain_machines_init ::
  "env \<Rightarrow> platform \<Rightarrow> services \<Rightarrow> (nat \<Rightarrow> nat \<Rightarrow> int) \<Rightarrow> nat \<Rightarrow> gptpman_data \<Rightarrow> gptpman_data outcome" where
  "domain_machines_init e pf io seq di g = run_all
     [init_dom acc_sss di (site_sync_sync_sm_init e (of_nat di)),
      init_dom acc_cmssend di (\<lambda>pt c. made (clock_master_sync_send_sm_init pt c)),
      init_dom acc_css di (\<lambda>pt c. made (clock_slave_sync_sm_init pt c)),
      init_dom acc_cmsrec di (clock_master_sync_receive_sm_init e pf),
      init_dom acc_cmsoffset di (\<lambda>pt c. made (clock_master_sync_offset_sm_init pt)),
      for_each (gptpman_port_init e io seq di) [0..<man_max_ports g],
      init_dom acc_gms di (\<lambda>pt c. made (gm_stable_sm_init (int di) pt c)),
      state_selection_init di] g"

definition gptpman_domain_init ::
  "env \<Rightarrow> platform \<Rightarrow> services \<Rightarrow> (nat \<Rightarrow> nat \<Rightarrow> int) \<Rightarrow> u8 \<Rightarrow> gptpman_data \<Rightarrow> (int \<times> gptpman_data) outcome" where
  "gptpman_domain_init e pf io seq dn g = (case domain_slot g dn of
      None \<Rightarrow> Done (- 1, g)
    | Some di \<Rightarrow> and_then
        (domain_machines_init e pf io seq di (put_tasd di (new_tasd e dn (man_max_ports g)) g)) (\<lambda>g1. Done (0, g1)))"

section \<open>Clocks\<close>

text \<open>The network devices: the clock device of each (empty if there is none), and the clock identity
  that is made for a device and a domain number.\<close>

record net_cfg =
  ptpdev_of :: "int \<Rightarrow> string"
  create_clockid :: "int \<Rightarrow> u8 \<Rightarrow> ClockIdentity"

fun add_port_clocks ::
  "env \<Rightarrow> platform \<Rightarrow> net_cfg \<Rightarrow> nat \<Rightarrow> u8 \<Rightarrow> int \<Rightarrow> nat list \<Rightarrow> gptpclock_data \<Rightarrow> int \<times> gptpclock_data" where
  "add_port_clocks e pf nc di dn this_ci [] c = (0, c)"
| "add_port_clocks e pf nc di dn this_ci (i # is) c =
     (if (di \<noteq> 0 \<and> int i \<noteq> this_ci) \<or> ptpdev_of nc (int i - 1) = [] then add_port_clocks e pf nc di dn this_ci is c
      else case gptpclock_add_clock e pf (int i) (ptpdev_of nc (int i - 1)) di dn (create_clockid nc (int i - 1) dn) c of
        (r, c1) \<Rightarrow> if r \<noteq> 0 then (- 1, c1) else add_port_clocks e pf nc di dn this_ci is c1)"

definition init_domain_clock ::
  "env \<Rightarrow> platform \<Rightarrow> net_cfg \<Rightarrow> nat \<Rightarrow> u8 \<Rightarrow> int \<Rightarrow> gptpman_data \<Rightarrow> int \<times> gptpman_data" where
  "init_domain_clock e pf nc di dn this_ci g =
     (let n = (if conf e CONF_SINGLE_CLOCK_MODE \<noteq> 0 then 2 else man_max_ports g) in
      case add_port_clocks e pf nc di dn this_ci [1..<n] (clocks g) of
        (r, c) \<Rightarrow>
          if r \<noteq> 0 then (- 1, g\<lparr>clocks := c\<rparr>)
          else (case gptpclock_add_clock e pf 0 (ptpdev_of nc (this_ci - 1)) di dn
                 (create_clockid nc (this_ci - 1) dn) c of
              (r1, c1) \<Rightarrow> (if r1 \<noteq> 0 then - 1 else 0, g\<lparr>clocks := c1\<rparr>)))"

definition set_domain_thisClock ::
  "platform \<Rightarrow> nat \<Rightarrow> u8 \<Rightarrow> int \<Rightarrow> gptpman_data \<Rightarrow> (int \<times> gptpman_data) outcome" where
  "set_domain_thisClock pf di dn this_ci g = (case tasd_at g di of
      None \<Rightarrow> Fault
    | Some t \<Rightarrow>
        (let pt = (tasglb t)\<lparr>thisClockIndex := this_ci\<rparr>;
             c1 = snd (gptpclock_set_thisClock pf this_ci dn False (clocks g));
             c2 = snd (gptpclock_setadj pf 0 this_ci dn c1)
         in Done (case gptpclock_clockid this_ci dn c2 of
             None \<Rightarrow> (- 1, (put_tasd di (t\<lparr>tasglb := pt\<rparr>) g)\<lparr>clocks := c2\<rparr>)
           | Some cid \<Rightarrow> (0, (put_tasd di (t\<lparr>tasglb := pt\<lparr>thisClock := cid, gmIdentity := cid\<rparr>\<rparr>) g)
               \<lparr>clocks := c2\<rparr>))))"

section \<open>The start\<close>

text \<open>A domain with its clocks. When no time is given on the command line, the clocks are left as they are.\<close>

definition start_domain ::
  "env \<Rightarrow> platform \<Rightarrow> services \<Rightarrow> net_cfg \<Rightarrow> (nat \<Rightarrow> nat \<Rightarrow> int) \<Rightarrow> nat \<Rightarrow> u8 \<Rightarrow> int \<Rightarrow> gptpman_data \<Rightarrow>
   (int \<times> gptpman_data) outcome" where
  "start_domain e pf io nc seq di dn this_ci g =
     and_then (gptpman_domain_init e pf io seq dn g) (\<lambda>(r, g1).
       if r \<noteq> 0 then Done (- 1, g1)
       else case init_domain_clock e pf nc di dn this_ci g1 of (r2, g2) \<Rightarrow>
         if r2 \<noteq> 0 then Done (- 1, g2)
         else and_then (set_domain_thisClock pf di dn this_ci g2) (\<lambda>(_, g3).
           case tasd_at g3 di of
             None \<Rightarrow> Fault
           | Some t \<Rightarrow> Done (0, put_tasd di
               (t\<lparr>btasglb := bmcs_ptas_glb_update e (btasglb t) (tasglb t) (di = 0)\<rparr>) g3)))"

definition static_domains_init ::
  "env \<Rightarrow> platform \<Rightarrow> services \<Rightarrow> net_cfg \<Rightarrow> (nat \<Rightarrow> nat \<Rightarrow> int) \<Rightarrow> gptpman_data \<Rightarrow> (int \<times> gptpman_data) outcome" where
  "static_domains_init e pf io nc seq g =
     and_then (start_domain e pf io nc seq 0 0 (conf e CONF_FIRST_DOMAIN_THIS_CLOCK) g) (\<lambda>(r, g1).
       if r \<noteq> 0 then Done (- 1, g1)
       else if conf e CONF_SECOND_DOMAIN_THIS_CLOCK < 0 then Done (0, g1)
       else start_domain e pf io nc seq 1 (of_int (conf e CONF_SECOND_DOMAIN_NUMBER))
         (conf e CONF_SECOND_DOMAIN_THIS_CLOCK) g1)"

text \<open>The data before the domains are made. \<open>devices\<close> is the number of network devices that were found;
  port 0 is added for the clock of the system.\<close>

definition zero_gptpman :: "env \<Rightarrow> nat \<Rightarrow> nat \<Rightarrow> gptpman_data" where
  "zero_gptpman e devices doms =
     (let n = (if doms = 0 then nat (conf e CONF_MAX_DOMAIN_NUMBER) else doms) in
      \<lparr>tasds = replicate n None, man_max_ports = devices + 1, man_max_domains = n, clocks = gptpclock_init n,
       notices = [], schedules = [], abnormal = \<lparr>events = None, draws = 0\<rparr>\<rparr>)"

definition gptpman_start ::
  "env \<Rightarrow> platform \<Rightarrow> services \<Rightarrow> net_cfg \<Rightarrow> (nat \<Rightarrow> nat \<Rightarrow> int) \<Rightarrow> nat \<Rightarrow> nat \<Rightarrow> (int \<times> gptpman_data) outcome" where
  "gptpman_start e pf io nc seq devices doms =
     (if devices + 1 \<ge> MAX_PORT_NUMBER_LIMIT then Done (- 1, zero_gptpman e devices doms)
      else static_domains_init e pf io nc seq (zero_gptpman e devices doms))"

end
