(* ===== verification/Gptp_ManFacts.thy ===== *)
theory Gptp_ManFacts
  imports Gptp_ManInit
begin

text \<open>
  The interface between the daemon and its machines, and what every event keeps: the domains, their
  ports, and which machines there are.
\<close>

section \<open>Which machines there are\<close>

definition port_machines :: "gptpsm_ptd \<Rightarrow> bool list" where
  "port_machines p = map Not
     [Option.is_none (mdpdreqd p), Option.is_none (mdpdrespd p), Option.is_none (ldisetd p),
      Option.is_none (painfd p), Option.is_none (paiextd p), Option.is_none (mdsrecd p), Option.is_none (mdssendd p),
      Option.is_none (aisetd p), Option.is_none (pssrecd p), Option.is_none (psssendd p), Option.is_none (parecd p),
      Option.is_none (patransd p), Option.is_none (pssextd p), Option.is_none (gctransd p), Option.is_none (gcrecd p),
      Option.is_none (sisetd p), Option.is_none (ostxopd p), Option.is_none (mdansendd p),
      Option.is_none (mdanrecd p), Option.is_none (mdsigsendd p), Option.is_none (mdsigrecd p)]"

definition dom_machines :: "gptpsm_tasd \<Rightarrow> bool list" where
  "dom_machines t = map Not
     [Option.is_none (sssd t), Option.is_none (cmssendd t), Option.is_none (cssd t), Option.is_none (cmsrecd t),
      Option.is_none (cmsoffsetd t), Option.is_none (pssd t), Option.is_none (gmsd t)]"

definition tasd_shape :: "gptpsm_tasd \<Rightarrow> bool list \<times> bool list list" where
  "tasd_shape t = (dom_machines t, map port_machines (ptds t))"

definition man_shape :: "gptpman_data \<Rightarrow> nat \<times> nat \<times> (bool list \<times> bool list list) option list" where
  "man_shape g = (man_max_ports g, man_max_domains g, map (map_option tasd_shape) (tasds g))"

section \<open>How the daemon reaches a machine\<close>

text \<open>What is promised of the access to a machine: it is kept where it is looked for, putting it back changes
  neither the variables of the port nor another machine, and a machine that is not run gives back the
  variables it was given.\<close>

locale machine_access =
  fixes a :: "'m access"
  assumes get_put: "acc_get a (acc_put a m p) = Some m"
    and put_vars: "ppglb (acc_put a m p) = ppglb p \<and> bppglb (acc_put a m p) = bppglb p \<and> mdeglb (acc_put a m p) = mdeglb p"
    and put_machines: "acc_get a p \<noteq> None \<Longrightarrow> port_machines (acc_put a m p) = port_machines p"
    and save_load: "acc_save a (acc_load a sh m) sh = sh"

locale domain_access =
  fixes a :: "'m dom_access"
  assumes dget_put: "dom_get a (dom_put a m t) = Some m"
    and dput_vars: "tasglb (dom_put a m t) = tasglb t \<and> btasglb (dom_put a m t) = btasglb t \<and> ptds (dom_put a m t) = ptds t"
    and dput_machines: "dom_get a t \<noteq> None \<Longrightarrow> dom_machines (dom_put a m t) = dom_machines t"
    and dsave_load: "dom_pt a (dom_load a pt c m) = pt \<and> dom_clk a (dom_load a pt c m) c = c"

subsection \<open>Writing the data back\<close>

lemma tasd_at_put:
  "tasd_at g di \<noteq> None \<Longrightarrow> tasd_at (put_tasd di t g) dj = (if di = dj then Some t else tasd_at g dj)"
  by (auto simp: tasd_at_def put_tasd_def split: if_splits)

lemma shape_put_tasd:
  assumes "tasd_at g di = Some s" "tasd_shape t = tasd_shape s"
  shows "man_shape (put_tasd di t g) = man_shape g"
proof -
  have di: "di < length (tasds g)" "tasds g ! di = Some s" using assms(1) by (auto simp: tasd_at_def split: if_splits)
  have "(map (map_option tasd_shape) (tasds g))[di := Some (tasd_shape s)] = map (map_option tasd_shape) (tasds g)"
    using di by (metis length_map list_update_id nth_map option.map(2))
  with assms(2) show ?thesis by (simp add: man_shape_def put_tasd_def map_update)
qed

lemma shape_put_ptd:
  assumes "ptd_at g di port = Some q" "port_machines p = port_machines q"
  shows "man_shape (put_ptd di port p g) = man_shape g"
proof -
  obtain t where t: "tasd_at g di = Some t" "port < length (ptds t)" "ptds t ! port = q"
    using assms(1) by (auto simp: ptd_at_def split: option.splits if_splits)
  have "map port_machines ((ptds t)[port := p]) = map port_machines (ptds t)"
    using t assms(2) by (metis length_map list_update_id map_update nth_map)
  then have "tasd_shape (t\<lparr>ptds := (ptds t)[port := p]\<rparr>) = tasd_shape t"
    by (simp add: tasd_shape_def dom_machines_def)
  with t(1) show ?thesis by (simp add: put_ptd_def shape_put_tasd)
qed

lemma ptd_at_put_ptd:
  "ptd_at g di port \<noteq> None \<Longrightarrow>
   ptd_at (put_ptd di port p g) dj q = (if di = dj \<and> port = q then Some p else ptd_at g dj q)"
  by (auto simp: ptd_at_def put_ptd_def tasd_at_put split: option.splits if_splits)

lemma tasd_at_put_ptd:
  "tasd_at (put_ptd di port p g) dj =
     (if di = dj then map_option (\<lambda>t. t\<lparr>ptds := (ptds t)[port := p]\<rparr>) (tasd_at g dj) else tasd_at g dj)"
  by (auto simp: put_ptd_def tasd_at_put split: option.splits)

lemma ptd_at_put_tasd:
  "tasd_at g di = Some s \<Longrightarrow> ptds t = ptds s \<Longrightarrow> ptd_at (put_tasd di t g) dj q = ptd_at g dj q"
  by (auto simp: ptd_at_def tasd_at_put split: option.splits)

lemma port_machines_vars [simp]:
  "port_machines (p\<lparr>ppglb := x\<rparr>) = port_machines p" "port_machines (p\<lparr>bppglb := y\<rparr>) = port_machines p"
  "port_machines (p\<lparr>mdeglb := z\<rparr>) = port_machines p" "port_machines (p\<lparr>cmldsLinkPortEnabled := b\<rparr>) = port_machines p"
  by (simp_all add: port_machines_def)

lemma dom_machines_vars [simp]:
  "dom_machines (t\<lparr>tasglb := x\<rparr>) = dom_machines t" "dom_machines (t\<lparr>btasglb := y\<rparr>) = dom_machines t"
  "dom_machines (t\<lparr>ptds := z\<rparr>) = dom_machines t"
  by (simp_all add: dom_machines_def)

lemma tasd_shape_vars [simp]:
  "tasd_shape (t\<lparr>tasglb := x\<rparr>) = tasd_shape t" "tasd_shape (t\<lparr>btasglb := y\<rparr>) = tasd_shape t"
  by (simp_all add: tasd_shape_def)

lemma shape_put_common: "man_shape (put_common port sh g) = man_shape g"
  by (auto simp: put_common_def shape_put_ptd split: option.split)

lemma shape_put_shared: "man_shape (put_shared di port sh g) = man_shape g"
proof (cases "tasd_at g di")
  case (Some t)
  show ?thesis
  proof (cases "ptd_at g di port")
    case (Some p)
    let ?t = "t\<lparr>tasglb := sh_pt sh, btasglb := sh_bt sh\<rparr>"
    have "man_shape (put_tasd di ?t g) = man_shape g"
      using \<open>tasd_at g di = Some t\<close> by (rule shape_put_tasd) simp
    moreover have "ptd_at (put_tasd di ?t g) di port = Some p"
      using Some \<open>tasd_at g di = Some t\<close> by (simp add: ptd_at_put_tasd)
    ultimately show ?thesis
      using Some \<open>tasd_at g di = Some t\<close> by (simp add: put_shared_def shape_put_common shape_put_ptd)
  qed (simp add: put_shared_def Some)
qed (simp add: put_shared_def)

lemma data_other [simp]:
  "tasd_at (g\<lparr>clocks := c\<rparr>) = tasd_at g" "tasd_at (g\<lparr>notices := n\<rparr>) = tasd_at g"
  "tasd_at (g\<lparr>schedules := x\<rparr>) = tasd_at g" "tasd_at (g\<lparr>abnormal := y\<rparr>) = tasd_at g"
  "ptd_at (g\<lparr>clocks := c\<rparr>) = ptd_at g" "ptd_at (g\<lparr>notices := n\<rparr>) = ptd_at g"
  "ptd_at (g\<lparr>schedules := x\<rparr>) = ptd_at g" "ptd_at (g\<lparr>abnormal := y\<rparr>) = ptd_at g"
  by (simp_all add: fun_eq_iff tasd_at_def ptd_at_def)

lemma shape_other [simp]:
  "man_shape (g\<lparr>clocks := c\<rparr>) = man_shape g" "man_shape (g\<lparr>notices := n\<rparr>) = man_shape g"
  "man_shape (g\<lparr>schedules := x\<rparr>) = man_shape g" "man_shape (g\<lparr>abnormal := y\<rparr>) = man_shape g"
  by (simp_all add: man_shape_def)

context machine_access
begin

lemma shape_run_port:
  assumes "run_port a di port f g = Done (g1, r)"
  shows "man_shape g1 = man_shape g"
proof -
  obtain p sh m m1 r1 where r: "ptd_at g di port = Some p" "shared_at g di port = Some sh" "acc_get a p = Some m"
    "g1 = put_shared di port (acc_save a m1 sh) (put_ptd di port (acc_put a m1 p) g)"
    using assms by (auto simp: run_port_def and_then_Done split: option.splits prod.splits)
  have "man_shape (put_ptd di port (acc_put a m1 p) g) = man_shape g"
    using r(1,3) put_machines by (simp add: shape_put_ptd)
  with r(4) show ?thesis by (simp add: shape_put_shared)
qed

lemma shape_tick_port: "tick_port a di port f g = Done (g1, r) \<Longrightarrow> man_shape g1 = man_shape g"
  by (auto simp: tick_port_def shape_run_port split: if_splits)

end

context domain_access
begin

lemma shape_run_dom:
  assumes "run_dom a di f g = Done (g1, r)"
  shows "man_shape g1 = man_shape g"
proof -
  obtain t m m1 where r: "tasd_at g di = Some t" "dom_get a t = Some m"
    "g1 = (put_tasd di ((dom_put a m1 t)\<lparr>tasglb := dom_pt a m1\<rparr>) g)\<lparr>clocks := dom_clk a m1 (clocks g)\<rparr>"
    using assms by (auto simp: run_dom_def and_then_Done split: option.splits prod.splits)
  have "tasd_shape ((dom_put a m1 t)\<lparr>tasglb := dom_pt a m1\<rparr>) = tasd_shape t"
    using r(2) dput_machines dput_vars by (simp add: tasd_shape_def)
  with r(1,3) show ?thesis by (simp add: shape_put_tasd)
qed

lemma shape_tick_dom: "tick_dom a di f g = Done (g1, r) \<Longrightarrow> man_shape g1 = man_shape g"
  by (auto simp: tick_dom_def shape_run_dom split: if_splits)

end

subsection \<open>The machines of the daemon\<close>

lemmas access_simps = load_port_def save_port_def load_bmcs_def save_bmcs_def port_machines_def

interpretation m_pdreq: machine_access acc_pdreq
  by unfold_locales (auto simp: acc_pdreq_def access_simps Option.is_none_def)

interpretation m_pdresp: machine_access acc_pdresp
  by unfold_locales (auto simp: acc_pdresp_def access_simps Option.is_none_def)

interpretation m_srec: machine_access acc_srec
  by unfold_locales (auto simp: acc_srec_def access_simps Option.is_none_def)

interpretation m_ssend: machine_access acc_ssend
  by unfold_locales (auto simp: acc_ssend_def access_simps Option.is_none_def)

interpretation m_aiset: machine_access acc_aiset
  by unfold_locales (auto simp: acc_aiset_def access_simps Option.is_none_def)

interpretation m_pssrec: machine_access acc_pssrec
  by unfold_locales (auto simp: acc_pssrec_def access_simps Option.is_none_def)

interpretation m_psssend: machine_access acc_psssend
  by unfold_locales (auto simp: acc_psssend_def access_simps Option.is_none_def)

interpretation m_parec: machine_access acc_parec
  by unfold_locales (auto simp: acc_parec_def access_simps Option.is_none_def)

interpretation m_painf: machine_access acc_painf
  by unfold_locales (auto simp: acc_painf_def access_simps Option.is_none_def)

interpretation m_paiext: machine_access acc_paiext
  by unfold_locales (auto simp: acc_paiext_def access_simps Option.is_none_def)

interpretation m_patrans: machine_access acc_patrans
  by unfold_locales (auto simp: acc_patrans_def access_simps Option.is_none_def)

interpretation m_gctrans: machine_access acc_gctrans
  by unfold_locales (auto simp: acc_gctrans_def access_simps Option.is_none_def)

interpretation m_gcrec: machine_access acc_gcrec
  by unfold_locales (auto simp: acc_gcrec_def access_simps Option.is_none_def)

interpretation m_siset: machine_access acc_siset
  by unfold_locales (auto simp: acc_siset_def access_simps Option.is_none_def)

interpretation m_ldiset: machine_access acc_ldiset
  by unfold_locales (auto simp: acc_ldiset_def access_simps Option.is_none_def)

interpretation m_ostxop: machine_access acc_ostxop
  by unfold_locales (auto simp: acc_ostxop_def access_simps Option.is_none_def)

interpretation m_ansend: machine_access acc_ansend
  by unfold_locales (auto simp: acc_ansend_def access_simps Option.is_none_def)

interpretation m_anrec: machine_access acc_anrec
  by unfold_locales (auto simp: acc_anrec_def access_simps Option.is_none_def)

interpretation m_sigsend: machine_access acc_sigsend
  by unfold_locales (auto simp: acc_sigsend_def access_simps Option.is_none_def)

interpretation m_sigrec: machine_access acc_sigrec
  by unfold_locales (auto simp: acc_sigrec_def access_simps Option.is_none_def)

interpretation d_sss: domain_access acc_sss
  by unfold_locales (auto simp: acc_sss_def dom_machines_def Option.is_none_def)

interpretation d_cmssend: domain_access acc_cmssend
  by unfold_locales (auto simp: acc_cmssend_def dom_machines_def Option.is_none_def)

interpretation d_css: domain_access acc_css
  by unfold_locales (auto simp: acc_css_def dom_machines_def Option.is_none_def)

interpretation d_cmsrec: domain_access acc_cmsrec
  by unfold_locales (auto simp: acc_cmsrec_def dom_machines_def Option.is_none_def)

interpretation d_cmsoffset: domain_access acc_cmsoffset
  by unfold_locales (auto simp: acc_cmsoffset_def dom_machines_def Option.is_none_def)

interpretation d_gms: domain_access acc_gms
  by unfold_locales (auto simp: acc_gms_def dom_machines_def Option.is_none_def)

section \<open>What an event keeps\<close>

text \<open>The domains, their ports and the machines are the same after an event as before it.\<close>

definition same_shape :: "(gptpman_data \<Rightarrow> gptpman_data outcome) \<Rightarrow> bool" where
  "same_shape f \<longleftrightarrow> (\<forall>g g1. f g = Done g1 \<longrightarrow> man_shape g1 = man_shape g)"

lemma same_shapeI: "(\<And>g g1. f g = Done g1 \<Longrightarrow> man_shape g1 = man_shape g) \<Longrightarrow> same_shape f"
  by (simp add: same_shape_def)

lemma same_shapeD: "same_shape f \<Longrightarrow> f g = Done g1 \<Longrightarrow> man_shape g1 = man_shape g"
  by (simp add: same_shape_def)

lemma same_shape_keeps: "same_shape f \<longleftrightarrow> (\<forall>S. keeps (\<lambda>g. man_shape g = S) f)"
  unfolding same_shape_def keeps_def by blast

text \<open>A call keeps the shape, whatever it returns.\<close>

definition call_shape :: "(gptpman_data \<Rightarrow> (gptpman_data \<times> 'r option) outcome) \<Rightarrow> bool" where
  "call_shape call \<longleftrightarrow> (\<forall>g g1 r. call g = Done (g1, r) \<longrightarrow> man_shape g1 = man_shape g)"

named_theorems shape_intros

lemma shape_run_all [shape_intros]: "(\<And>f. f \<in> set fs \<Longrightarrow> same_shape f) \<Longrightarrow> same_shape (run_all fs)"
  unfolding same_shape_keeps by (blast intro: keeps_run_all)

lemma shape_for_each [shape_intros]: "(\<And>i. same_shape (f i)) \<Longrightarrow> same_shape (for_each f is)"
  unfolding same_shape_keeps by (blast intro: keeps_for_each)

lemma shape_when_ret [shape_intros]:
  assumes "call_shape call" "\<And>r. same_shape (next r)"
  shows "same_shape (when_ret call next)"
  using assms unfolding call_shape_def same_shape_def
  by (auto simp: when_ret_def and_then_Done split: option.splits)

lemma shape_just [shape_intros]: "call_shape call \<Longrightarrow> same_shape (just call)"
  unfolding just_def by (rule shape_when_ret) (auto simp: same_shape_def)

lemma shape_Done [shape_intros]: "same_shape Done"
  by (simp add: same_shape_def)

lemma shape_if [shape_intros]:
  "same_shape f \<Longrightarrow> same_shape h \<Longrightarrow> same_shape (\<lambda>g. if P g then f g else h g)"
  by (simp add: same_shape_def)

lemma shape_if_const [shape_intros]: "same_shape f \<Longrightarrow> same_shape h \<Longrightarrow> same_shape (if P then f else h)"
  by simp

lemma shape_apply: "(\<And>g. same_shape (f g)) \<Longrightarrow> same_shape (\<lambda>g. f g g)"
  by (simp add: same_shape_def)

lemma shape_and_then: "same_shape f \<Longrightarrow> same_shape h \<Longrightarrow> same_shape (\<lambda>g. and_then (f g) h)"
  by (auto simp: same_shape_def and_then_Done)

lemma call_shape_ports [shape_intros]:
  assumes "machine_access a"
  shows "call_shape (run_port a di port f)" "call_shape (tick_port a di port f)"
  unfolding call_shape_def
  using machine_access.shape_run_port [OF assms] machine_access.shape_tick_port [OF assms] by blast+

lemma call_shape_doms [shape_intros]:
  assumes "domain_access a"
  shows "call_shape (run_dom a di f)" "call_shape (tick_dom a di f)"
  unfolding call_shape_def
  using domain_access.shape_run_dom [OF assms] domain_access.shape_tick_dom [OF assms] by blast+

lemma shape_just_clocks [shape_intros]:
  assumes "machine_access a"
  shows "same_shape (\<lambda>g. just (run_port a di port (f g)) g)" "same_shape (\<lambda>g. just (tick_port a di port (f g)) g)"
  by (rule shape_apply, intro shape_just call_shape_ports assms)+

lemmas accesses =
  m_pdreq.machine_access_axioms m_pdresp.machine_access_axioms m_srec.machine_access_axioms
  m_ssend.machine_access_axioms m_aiset.machine_access_axioms m_pssrec.machine_access_axioms
  m_psssend.machine_access_axioms m_parec.machine_access_axioms m_painf.machine_access_axioms
  m_paiext.machine_access_axioms m_patrans.machine_access_axioms m_gctrans.machine_access_axioms
  m_gcrec.machine_access_axioms m_siset.machine_access_axioms m_ldiset.machine_access_axioms
  m_ostxop.machine_access_axioms m_ansend.machine_access_axioms m_anrec.machine_access_axioms
  m_sigsend.machine_access_axioms m_sigrec.machine_access_axioms
  d_sss.domain_access_axioms d_cmssend.domain_access_axioms d_css.domain_access_axioms
  d_cmsrec.domain_access_axioms d_cmsoffset.domain_access_axioms d_gms.domain_access_axioms

lemma nth_map_index:
  "map f (map (\<lambda>i. h i (xs ! i)) [0..<length xs]) = map f xs" if "\<And>i x. f (h i x) = f x"
  by (rule nth_equalityI) (simp_all add: that)

lemma shape_put_domain:
  assumes "tasd_at g di = Some s" "tasd_shape t = tasd_shape s"
  shows "man_shape (put_domain di pt bt bps t g) = man_shape g"
  unfolding put_domain_def
proof (rule shape_put_tasd [OF assms(1)])
  have "map port_machines (map (\<lambda>i. if i < length bps then (ptds t ! i)\<lparr>bppglb := bps ! i\<rparr> else ptds t ! i)
      [0..<length (ptds t)]) = map port_machines (ptds t)"
    by (rule nth_equalityI) simp_all
  then show "tasd_shape (t\<lparr>tasglb := pt, btasglb := bt,
      ptds := map (\<lambda>i. if i < length bps then (ptds t ! i)\<lparr>bppglb := bps ! i\<rparr> else ptds t ! i) [0..<length (ptds t)]\<rparr>)
    = tasd_shape s"
    using assms(2) by (simp add: tasd_shape_def)
qed

lemma call_shape_selection [shape_intros]: "call_shape (run_state_selection e pf di cts64)"
proof -
  have "man_shape g1 = man_shape g" if r: "run_state_selection e pf di cts64 g = Done (g1, x)" for g g1 x
  proof (cases "\<exists>t m. tasd_at g di = Some t \<and> pssd t = Some m")
    case True
    then obtain t m where t: "tasd_at g di = Some t" "pssd t = Some m" by blast
    then have "tasd_shape (t\<lparr>pssd := Some m1\<rparr>) = tasd_shape t" for m1
      by (simp add: tasd_shape_def dom_machines_def)
    with r t show ?thesis
      by (auto simp: run_state_selection_def and_then_Done shape_put_domain [OF t(1)] split: prod.splits)
  next
    case False
    with r show ?thesis by (auto simp: run_state_selection_def split: option.splits)
  qed
  then show ?thesis unfolding call_shape_def by blast
qed

lemma call_shape_setting [shape_intros]: "call_shape (run_state_setting_ext di port f)"
proof -
  have "man_shape g1 = man_shape g" if r: "run_state_setting_ext di port f g = Done (g1, x)" for g g1 x
  proof (cases "tasd_at g di")
    case (Some t)
    show ?thesis
    proof (cases "\<exists>p m. ptd_at g di port = Some p \<and> pssextd p = Some m")
      case True
      then obtain p m where p: "ptd_at g di port = Some p" "pssextd p = Some m" by blast
      have q: "port < length (ptds t)" "ptds t ! port = p"
        using p(1) Some by (auto simp: ptd_at_def split: if_splits)
      have "tasd_shape (t\<lparr>ptds := (ptds t)[port := p\<lparr>pssextd := Some m1\<rparr>]\<rparr>) = tasd_shape t" for m1
      proof -
        have "port_machines (p\<lparr>pssextd := Some m1\<rparr>) = port_machines p" using p(2) by (simp add: port_machines_def)
        with q show ?thesis
          by (simp add: tasd_shape_def map_update) (metis length_map list_update_id nth_map)
      qed
      with r p Some show ?thesis
        by (auto simp: run_state_setting_ext_def and_then_Done shape_put_domain [OF Some] split: prod.splits)
    next
      case False
      with r Some show ?thesis by (auto simp: run_state_setting_ext_def split: option.splits)
    qed
  qed (use r in \<open>simp add: run_state_setting_ext_def\<close>)
  then show ?thesis unfolding call_shape_def by blast
qed

lemma shape_upd [shape_intros]: "same_shape (upd_tas di f)" "same_shape (upd_shared di port h)"
  unfolding same_shape_def
  by (auto simp: upd_tas_def upd_shared_def shape_put_shared shape_put_tasd split: option.splits)

lemma shape_pure [shape_intros]: "(\<And>g. man_shape (f g) = man_shape g) \<Longrightarrow> same_shape (pure f)"
  by (simp add: same_shape_def pure_def)

subsection \<open>The events\<close>

lemma shape_sync [shape_intros]:
  "same_shape (port_sync_send e io cts64 di ps port)" "same_shape (portSyncSync_for_all e pf io cts64 di ps)"
  "same_shape (site_sync e pf io cts64 di ps)" "same_shape (recv_fup e pf io cts64 di port bs)"
proof -
  show port: "same_shape (port_sync_send e io cts64 di ps port)" for ps port
    unfolding port_sync_send_def
    by (rule shape_run_all) (auto intro!: shape_intros accesses)
  show all: "same_shape (portSyncSync_for_all e pf io cts64 di ps)" for ps
    unfolding portSyncSync_for_all_def
    by (rule shape_apply, rule shape_run_all) (auto intro!: shape_intros accesses port)
  show site: "same_shape (site_sync e pf io cts64 di ps)" for ps
    unfolding site_sync_def by (intro shape_intros accesses all)
  show "same_shape (recv_fup e pf io cts64 di port bs)"
    unfolding recv_fup_def by (intro shape_intros accesses site)
qed

lemma shape_recv_sync [shape_intros]: "same_shape (recv_sync e pf cts64 di port bs ts64)"
proof (rule same_shapeI)
  fix g g1
  assume r: "recv_sync e pf cts64 di port bs ts64 g = Done g1"
  have j: "same_shape (just (run_port acc_srec di port (\<lambda>m. md_sync_receive_sm_recv_sync e m bs ts cts64)))" for ts
    by (intro shape_intros accesses)
  from r show "man_shape g1 = man_shape g"
    unfolding recv_sync_def
    by (auto simp: Let_def dest!: same_shapeD [OF j] split: option.splits prod.splits)
qed

lemma shape_loop [shape_intros]: "same_shape f \<Longrightarrow> same_shape (loop_while f again)"
  unfolding same_shape_keeps by (blast intro: keeps_loop_while)

lemma shape_bmcs [shape_intros]:
  "same_shape (bmcs_round e pf cts64 di port)" "same_shape (bmcs_ext di port)"
  "same_shape (announce_out e io cts64 di port)" "same_shape (sm_bmcs_perform e pf io cts64 di port)"
  "same_shape (sm_bmcs_domain_port_update e pf io cts64 di port)"
proof -
  show round: "same_shape (bmcs_round e pf cts64 di port)"
    unfolding bmcs_round_def by (rule shape_run_all) (auto intro!: shape_intros accesses)
  show ext: "same_shape (bmcs_ext di port)"
    unfolding bmcs_ext_def by (rule shape_run_all) (auto intro!: shape_intros accesses)
  show out: "same_shape (announce_out e io cts64 di port)"
    unfolding announce_out_def by (auto intro!: shape_intros accesses)
  have steps: "same_shape (run_all [if b then loop_while (bmcs_round e pf cts64 di port) (info_pending di port)
      else bmcs_ext di port, announce_out e io cts64 di port])" for b
    by (rule shape_run_all) (auto intro!: shape_intros round ext out)
  show perform: "same_shape (sm_bmcs_perform e pf io cts64 di port)"
    by (rule same_shapeI)
      (auto simp: sm_bmcs_perform_def simp del: run_all.simps dest!: same_shapeD [OF steps] split: option.splits)
  show "same_shape (sm_bmcs_domain_port_update e pf io cts64 di port)"
    unfolding sm_bmcs_domain_port_update_def by (rule shape_run_all) (auto intro!: shape_intros accesses perform)
qed

lemma shape_netdev [simp]: "man_shape (netdev_notice fl port g) = man_shape g"
  by (simp add: netdev_notice_def gptpnet_ipc_notice_def)

lemma shape_devup: "same_shape (gptpnet_cb_devup e pf io cts64 port dup spd)"
proof -
  have up: "same_shape (run_all [upd_shared 0 port h, for_each (\<lambda>di g. if DOMAIN_DATA_EXIST g di \<longrightarrow> unnumbered g di
      then Done g else sm_bmcs_domain_port_update e pf io cts64 di port g) ds])" for h ds
    by (rule shape_run_all) (auto intro!: shape_intros)
  show ?thesis
    by (rule same_shapeI) (auto simp: gptpnet_cb_devup_def and_then_Done pure_def simp del: run_all.simps
      dest!: same_shapeD [OF up] split: if_splits)
qed

lemma shape_devdown: "same_shape (gptpnet_cb_devdown port)"
  unfolding gptpnet_cb_devdown_def
  by (rule shape_apply, rule shape_run_all) (auto intro!: shape_intros)

lemma shape_asCapable [shape_intros]: "same_shape (asCapable_port di port)"
  unfolding asCapable_port_def by (rule shape_intros)

lemma shape_update_asCapable [shape_intros]: "same_shape (update_asCapable port)"
  unfolding update_asCapable_def
  by (rule shape_apply, rule shape_run_all) (auto intro!: shape_intros)

lemma shape_timeout_port [shape_intros]: "same_shape (timeout_port e pf io cts64 di port)"
  unfolding timeout_port_def by (rule shape_run_all) (auto intro!: shape_intros accesses)

lemma shape_timeout_domain [shape_intros]: "same_shape (timeout_domain e pf io cts64 di)"
proof -
  have pd: "same_shape (for_each (\<lambda>port. run_all
      [just (tick_port acc_pdreq 0 port (\<lambda>m. md_pdelay_req_sm e (io 0 port) m cts64)),
       just (tick_port acc_pdresp 0 port (\<lambda>m. md_pdelay_resp_sm e (io 0 port) m cts64))]) ps)" for ps
    by (rule shape_for_each, rule shape_run_all) (auto intro!: shape_intros accesses)
  show ?thesis
    unfolding timeout_domain_def Let_def
    by (rule shape_apply, rule shape_run_all) (auto intro!: shape_intros accesses pd)
qed

lemma shape_timeout: "same_shape (gptpnet_cb_timeout e pf io cts64)"
  unfolding gptpnet_cb_timeout_def by (rule shape_apply) (auto intro!: shape_intros)

lemma shape_recv_announce [shape_intros]: "same_shape (recv_announce e pf io cts64 di port bs)"
  unfolding recv_announce_def
  by (rule shape_when_ret, intro shape_intros accesses, rule shape_run_all) (auto intro!: shape_intros accesses)

lemma shape_recv_signaling [shape_intros]: "same_shape (recv_signaling e cts64 di port bs)"
  unfolding recv_signaling_def
proof (rule shape_when_ret)
  show "call_shape (run_port acc_sigrec di port (\<lambda>m. md_signaling_receive_sm_mdSignalingRec e m bs))"
    by (intro shape_intros accesses)
  have two: "same_shape (run_all
      [just (run_port acc_siset di port (\<lambda>m. sync_interval_setting_SignalingMsg1 e m q)),
       just (run_port acc_ldiset di port (\<lambda>m. link_delay_interval_setting_SignalingMsg1 e m q))])" for q
    by (rule shape_run_all) (auto intro!: shape_intros accesses)
  fix r
  show "same_shape (case r of
      IntervalReq q \<Rightarrow> if ir_organizationSubType q = 2 then run_all
          [just (run_port acc_siset di port (\<lambda>m. sync_interval_setting_SignalingMsg1 e m q)),
           just (run_port acc_ldiset di port (\<lambda>m. link_delay_interval_setting_SignalingMsg1 e m q))] else Done
    | GptpCapable q \<Rightarrow> if gc_organizationSubType q = 4
        then just (run_port acc_gcrec di port (\<lambda>m. gptp_capable_receive_rcvdSignalingMsg e m q cts64)) else Done)"
    by (cases r) (auto intro!: shape_intros accesses two simp del: run_all.simps)
qed

lemma shape_recv: "same_shape (gptpnet_cb_recv e pf io cts64 port ed)"
proof (rule same_shapeI)
  fix g g1
  assume r: "gptpnet_cb_recv e pf io cts64 port ed g = Done g1"
  have resp: "same_shape (just (run_port acc_pdresp 0 port f))" for f :: "md_pdelay_resp_data \<Rightarrow> _"
    by (intro shape_intros accesses)
  have req: "same_shape (just (run_port acc_pdreq 0 port f))" for f :: "md_pdelay_req_data \<Rightarrow> _"
    by (intro shape_intros accesses)
  have fup: "same_shape (run_all [just (run_port acc_pdreq 0 port f), update_asCapable port])"
    for f :: "md_pdelay_req_data \<Rightarrow> _"
    by (rule shape_run_all) (auto intro!: shape_intros accesses)
  from r show "man_shape g1 = man_shape g"
    by (auto simp: gptpnet_cb_recv_def Let_def simp del: run_all.simps split: option.splits if_splits
      dest!: same_shapeD [OF resp] same_shapeD [OF req] same_shapeD [OF fup] same_shapeD [OF shape_recv_sync]
        same_shapeD [OF shape_sync(4)] same_shapeD [OF shape_recv_announce] same_shapeD [OF shape_recv_signaling])
qed

lemma shape_txts_sync: "same_shape (txts_sync e io pf cts64 di port abandon ts64)"
proof (rule same_shapeI)
  fix g g1
  assume r: "txts_sync e io pf cts64 di port abandon ts64 g = Done g1"
  have j: "same_shape (just (run_port acc_ssend di port f))" for f :: "md_sync_send_data \<Rightarrow> _"
    by (intro shape_intros accesses)
  from r show "man_shape g1 = man_shape g"
    unfolding txts_sync_def by (auto simp: Let_def dest!: same_shapeD [OF j] split: option.splits)
qed

lemma shape_txts: "same_shape (gptpnet_cb_txts e pf io cts64 port ed abandon)"
proof (rule same_shapeI)
  fix g g1
  assume r: "gptpnet_cb_txts e pf io cts64 port ed abandon g = Done g1"
  have resp: "same_shape (just (run_port acc_pdresp 0 port f))" for f :: "md_pdelay_resp_data \<Rightarrow> _"
    by (intro shape_intros accesses)
  have req: "same_shape (just (run_port acc_pdreq 0 port f))" for f :: "md_pdelay_req_data \<Rightarrow> _"
    by (intro shape_intros accesses)
  from r show "man_shape g1 = man_shape g"
    by (auto simp: gptpnet_cb_txts_def Let_def split: option.splits if_splits
      dest!: same_shapeD [OF resp] same_shapeD [OF req] same_shapeD [OF shape_txts_sync])
qed

subsection \<open>Notices\<close>

lemma shape_notice_port [simp]: "man_shape (notice_port di g port) = man_shape g"
proof (cases "ptd_at g di port")
  case (Some p)
  have "man_shape (put_ptd di port (p\<lparr>ppglb := x\<rparr>) (g\<lparr>notices := n\<rparr>)) = man_shape g" for x n
    using shape_put_ptd [of "g\<lparr>notices := n\<rparr>" di port p "p\<lparr>ppglb := x\<rparr>"] Some by simp
  with Some show ?thesis
    by (auto simp: notice_port_def ipc_port_state_notice_def gptpnet_ipc_notice_def split: option.split)
qed (auto simp: notice_port_def split: option.split)

lemma shape_notice_ports [simp]: "man_shape (foldl (notice_port di) g ports) = man_shape g"
  by (induction ports arbitrary: g) simp_all

lemma shape_master_notice [simp]: "man_shape (ipc_clock_master_clock_notice e pt di g) = man_shape g"
  by (auto simp: ipc_clock_master_clock_notice_def gptpnet_ipc_notice_def Let_def split: prod.split)

lemma shape_this_notice [simp]: "man_shape (ipc_clock_this_clock_notice e di dn ci g) = man_shape g"
  by (auto simp: ipc_clock_this_clock_notice_def gptpnet_ipc_notice_def split: prod.split)

lemma shape_notice_domain [simp]: "man_shape (notice_domain e g di) = man_shape g"
  by (auto simp: notice_domain_def Let_def split: option.split)

lemma shape_clock_notice [simp]: "man_shape (ipc_clock_notice e g) = man_shape g"
proof -
  have "man_shape (foldl (notice_domain e) g ds) = man_shape g" for ds
    by (induction ds arbitrary: g) simp_all
  then show ?thesis by (simp add: ipc_clock_notice_def)
qed

text \<open>No event adds or removes a domain, a port or a machine.\<close>

theorem event_keeps_machines:
  assumes "gptpnet_cb e pf io port cts64 ev g = Done g1"
  shows "man_shape g1 = man_shape g"
  using assms
  by (auto simp: gptpnet_cb_def and_then_Done pure_def split: gptpnet_event.splits
    dest!: same_shapeD [OF shape_timeout] same_shapeD [OF shape_devup] same_shapeD [OF shape_devdown]
      same_shapeD [OF shape_recv] same_shapeD [OF shape_txts])

end
