(* ===== verification/Gptp_Start.thy ===== *)
theory Gptp_Start
  imports Gptp_ManFacts
begin

text \<open>
  The daemon from its start on: which machines the initialisation makes, and the states that are
  reached from there by any sequence of events.
\<close>

section \<open>The machines that are made\<close>

text \<open>The machines of a port: those of the peer delay and of the link delay interval in domain 0 only, and all
  but those of the announce information only on the ports of the network.\<close>

definition machines_of :: "nat \<Rightarrow> nat \<Rightarrow> bool list" where
  "machines_of di port = replicate 3 (di = 0) @ replicate 2 True @ replicate 16 (port \<noteq> 0)"

type_synonym shape = "nat \<times> nat \<times> (bool list \<times> bool list list) option list"

text \<open>How initialising changes the shape.\<close>

fun port_shape :: "nat \<Rightarrow> nat \<Rightarrow> (bool list \<Rightarrow> bool list) \<Rightarrow> shape \<Rightarrow> shape" where
  "port_shape di port u (n, m, l) =
     (n, m, l[di := map_option (\<lambda>(d, ps). (d, ps[port := u (ps ! port)])) (l ! di)])"

fun dom_shape :: "nat \<Rightarrow> (bool list \<Rightarrow> bool list) \<Rightarrow> shape \<Rightarrow> shape" where
  "dom_shape di u (n, m, l) = (n, m, l[di := map_option (\<lambda>(d, ps). (u d, ps)) (l ! di)])"

definition port_effect :: "nat \<Rightarrow> nat \<Rightarrow> (gptpman_data \<Rightarrow> gptpman_data outcome) \<Rightarrow> (bool list \<Rightarrow> bool list) \<Rightarrow> bool" where
  "port_effect di port f u \<longleftrightarrow> (\<forall>g g1. f g = Done g1 \<longrightarrow> man_shape g1 = port_shape di port u (man_shape g))"

definition dom_effect :: "nat \<Rightarrow> (gptpman_data \<Rightarrow> gptpman_data outcome) \<Rightarrow> (bool list \<Rightarrow> bool list) \<Rightarrow> bool" where
  "dom_effect di f u \<longleftrightarrow> (\<forall>g g1. f g = Done g1 \<longrightarrow> man_shape g1 = dom_shape di u (man_shape g))"

lemma update_beyond: "\<not> i < length xs \<Longrightarrow> xs[i := x] = xs"
  by (simp add: list_update_beyond)

lemma update_same: "xs ! i = x \<Longrightarrow> xs[i := x] = xs"
  by (metis list_update_id)

lemma port_shape_comp: "port_shape di port v (port_shape di port u S) = port_shape di port (v \<circ> u) S"
proof (cases S)
  case (fields n m l)
  show ?thesis
  proof (cases "di < length l")
    case True
    have "(ps[port := x])[port := v ((ps[port := x]) ! port)] = ps[port := v x]" for ps :: "bool list list" and x
      by (cases "port < length ps") (simp_all add: update_beyond)
    with True fields show ?thesis by (cases "l ! di") auto
  qed (simp add: fields update_beyond)
qed

lemma dom_shape_comp: "dom_shape di v (dom_shape di u S) = dom_shape di (v \<circ> u) S"
proof (cases S)
  case (fields n m l)
  then show ?thesis by (cases "di < length l"; cases "l ! di") (auto simp: update_beyond)
qed

lemma port_shape_id: "port_shape di port (\<lambda>x. x) S = S"
proof (cases S)
  case (fields n m l)
  then show ?thesis by (cases "di < length l"; cases "l ! di") (auto simp: update_beyond update_same)
qed

lemma dom_shape_id: "dom_shape di (\<lambda>x. x) S = S"
proof (cases S)
  case (fields n m l)
  then show ?thesis by (cases "di < length l"; cases "l ! di") (auto simp: update_beyond update_same)
qed

lemma same_shape_effect:
  "same_shape f \<Longrightarrow> port_effect di port f (\<lambda>x. x)" "same_shape f \<Longrightarrow> dom_effect di f (\<lambda>x. x)"
  by (auto simp: same_shape_def port_effect_def dom_effect_def port_shape_id dom_shape_id)

lemma port_effects:
  assumes "list_all2 (port_effect di port) fs us"
  shows "port_effect di port (run_all fs) (fold (\<circ>) us (\<lambda>x. x))"
proof -
  have gen: "run_all fs g = Done g1 \<Longrightarrow> man_shape g = port_shape di port u S \<Longrightarrow>
      man_shape g1 = port_shape di port (fold (\<circ>) us u) S" for g g1 u S
    using assms
  proof (induction arbitrary: g u rule: list_all2_induct)
    case (Cons f fs v vs)
    from Cons.prems(1) obtain h where h: "f g = Done h" "run_all fs h = Done g1" by (auto simp: and_then_Done)
    have "man_shape h = port_shape di port (v \<circ> u) S"
      using Cons.hyps(1) h(1) Cons.prems(2) by (auto simp: port_effect_def port_shape_comp)
    with Cons.IH [OF h(2)] show ?case by simp
  qed simp
  show ?thesis unfolding port_effect_def using gen [OF _ port_shape_id [symmetric]] by blast
qed

lemma shape_put_ptd_any:
  assumes "ptd_at g di port \<noteq> None"
  shows "man_shape (put_ptd di port p g) = port_shape di port (\<lambda>_. port_machines p) (man_shape g)"
proof -
  obtain t where t: "tasd_at g di = Some t" "port < length (ptds t)"
    using assms by (auto simp: ptd_at_def split: option.splits if_splits)
  then have "di < length (tasds g)" "tasds g ! di = Some t" by (auto simp: tasd_at_def split: if_splits)
  with t show ?thesis by (simp add: man_shape_def put_ptd_def put_tasd_def map_update tasd_shape_def dom_machines_def)
qed

lemma machines_nth:
  assumes "ptd_at g di port = Some p" "man_shape g = (n, m, l)"
  shows "\<exists>d ps. di < length l \<and> l ! di = Some (d, ps) \<and> port < length ps \<and> ps ! port = port_machines p"
  using assms by (auto simp: ptd_at_def tasd_at_def man_shape_def tasd_shape_def split: option.splits if_splits)

lemma init_port_effect:
  assumes "\<And>m p. port_machines (acc_put a m p) = u (port_machines p)"
  shows "port_effect di port (init_port a di port mk) u"
  unfolding port_effect_def
proof (intro allI impI)
  fix g g1
  assume "init_port a di port mk g = Done g1"
  then obtain p m sh where g: "ptd_at g di port = Some p"
    "g1 = put_shared di port sh (put_ptd di port (acc_put a m p) g)"
    by (auto simp: init_port_def and_then_Done split: option.splits)
  obtain k mm l where S: "man_shape g = (k, mm, l)" by (cases "man_shape g")
  with machines_nth [OF g(1) S] g assms show "man_shape g1 = port_shape di port u (man_shape g)"
    by (auto simp: shape_put_shared shape_put_ptd_any)
qed

lemma init_dom_effect:
  assumes "\<And>m t. dom_machines (dom_put a m t) = u (dom_machines t)"
    and "\<And>m t. ptds (dom_put a m t) = ptds t"
  shows "dom_effect di (init_dom a di mk) u"
  unfolding dom_effect_def
proof (intro allI impI)
  fix g g1
  assume "init_dom a di mk g = Done g1"
  then obtain t m x c where g: "tasd_at g di = Some t"
    "g1 = (put_tasd di ((dom_put a m t)\<lparr>tasglb := x\<rparr>) g)\<lparr>clocks := c\<rparr>"
    by (auto simp: init_dom_def and_then_Done split: option.splits)
  then have "di < length (tasds g)" "tasds g ! di = Some t" by (auto simp: tasd_at_def split: if_splits)
  with g assms show "man_shape g1 = dom_shape di u (man_shape g)"
    by (simp add: man_shape_def put_tasd_def map_update tasd_shape_def)
qed

text \<open>Where each machine is listed.\<close>

lemma put_slots:
  "port_machines (acc_put acc_pdreq m1 p) = (port_machines p)[0 := True]"
  "port_machines (acc_put acc_pdresp m2 p) = (port_machines p)[1 := True]"
  "port_machines (acc_put acc_ldiset m3 p) = (port_machines p)[2 := True]"
  "port_machines (acc_put acc_painf m4 p) = (port_machines p)[3 := True]"
  "port_machines (acc_put acc_paiext m5 p) = (port_machines p)[4 := True]"
  "port_machines (acc_put acc_srec m6 p) = (port_machines p)[5 := True]"
  "port_machines (acc_put acc_ssend m7 p) = (port_machines p)[6 := True]"
  "port_machines (acc_put acc_aiset m8 p) = (port_machines p)[7 := True]"
  "port_machines (acc_put acc_pssrec m9 p) = (port_machines p)[8 := True]"
  "port_machines (acc_put acc_psssend m10 p) = (port_machines p)[9 := True]"
  "port_machines (acc_put acc_parec m11 p) = (port_machines p)[10 := True]"
  "port_machines (acc_put acc_patrans m12 p) = (port_machines p)[11 := True]"
  "port_machines (acc_put acc_gctrans m13 p) = (port_machines p)[13 := True]"
  "port_machines (acc_put acc_gcrec m14 p) = (port_machines p)[14 := True]"
  "port_machines (acc_put acc_siset m15 p) = (port_machines p)[15 := True]"
  "port_machines (acc_put acc_ostxop m16 p) = (port_machines p)[16 := True]"
  "port_machines (acc_put acc_ansend m17 p) = (port_machines p)[17 := True]"
  "port_machines (acc_put acc_anrec m18 p) = (port_machines p)[18 := True]"
  "port_machines (acc_put acc_sigsend m19 p) = (port_machines p)[19 := True]"
  "port_machines (acc_put acc_sigrec m20 p) = (port_machines p)[20 := True]"
  by (simp_all add: port_machines_def acc_pdreq_def acc_pdresp_def acc_ldiset_def acc_painf_def acc_paiext_def
      acc_srec_def acc_ssend_def acc_aiset_def acc_pssrec_def acc_psssend_def acc_parec_def acc_patrans_def
      acc_gctrans_def acc_gcrec_def acc_siset_def acc_ostxop_def acc_ansend_def acc_anrec_def acc_sigsend_def
      acc_sigrec_def)

lemma dput_slots:
  "dom_machines (dom_put acc_sss m1 t) = (dom_machines t)[0 := True]"
  "dom_machines (dom_put acc_cmssend m2 t) = (dom_machines t)[1 := True]"
  "dom_machines (dom_put acc_css m3 t) = (dom_machines t)[2 := True]"
  "dom_machines (dom_put acc_cmsrec m4 t) = (dom_machines t)[3 := True]"
  "dom_machines (dom_put acc_cmsoffset m5 t) = (dom_machines t)[4 := True]"
  "dom_machines (dom_put acc_gms m6 t) = (dom_machines t)[6 := True]"
  "ptds (dom_put acc_sss m1 t) = ptds t" "ptds (dom_put acc_cmssend m2 t) = ptds t"
  "ptds (dom_put acc_css m3 t) = ptds t" "ptds (dom_put acc_cmsrec m4 t) = ptds t"
  "ptds (dom_put acc_cmsoffset m5 t) = ptds t" "ptds (dom_put acc_gms m6 t) = ptds t"
  by (simp_all add: dom_machines_def acc_sss_def acc_cmssend_def acc_css_def acc_cmsrec_def acc_cmsoffset_def
      acc_gms_def)

lemma zero_port_effect:
  "port_effect 0 port (domain_zero_port_sm_init e port) (\<lambda>b. b[0 := True, 1 := True, 2 := True])"
proof -
  have "port_effect 0 port (domain_zero_port_sm_init e port)
      (fold (\<circ>) [\<lambda>b. b[0 := True], \<lambda>b. b[1 := True], \<lambda>b. b[2 := True]] (\<lambda>x. x))"
    unfolding domain_zero_port_sm_init_def
    by (rule port_effects) (intro list_all2_Cons [THEN iffD2] conjI list_all2_Nil [THEN iffD2] TrueI refl
        init_port_effect put_slots)
  then show ?thesis by (simp add: comp_def)
qed

definition port_slots :: "nat \<Rightarrow> (bool list \<Rightarrow> bool list) list" where
  "port_slots port = map (\<lambda>k b. b[k := True])
     ([3, 4] @ (if port = 0 then [] else [5, 8, 9, 6, 10, 11, 13, 14, 15, 7, 16, 17, 18, 19, 20]))"

lemma init_port_clocks_effect:
  assumes "\<And>m p. port_machines (acc_put a m p) = u (port_machines p)"
  shows "port_effect di port (\<lambda>g. init_port a di port (mk (clocks g)) g) u"
  using init_port_effect [OF assms] unfolding port_effect_def by blast

lemma domain_port_effect:
  "port_effect di port (domain_port_sm_init e io di port) (fold (\<circ>) (port_slots port) (\<lambda>x. x))"
proof (cases "port = 0")
  case True
  show ?thesis
    unfolding domain_port_sm_init_def port_slots_def True
    by (simp only: simp_thms if_True append.simps list.map, rule port_effects)
      (intro list_all2_Cons [THEN iffD2] conjI list_all2_Nil [THEN iffD2] TrueI refl init_port_effect put_slots)
next
  case False
  then show ?thesis
    unfolding domain_port_sm_init_def port_slots_def
    by (simp only: simp_thms if_False append.simps list.map, intro port_effects list_all2_Cons [THEN iffD2] conjI
        list_all2_Nil [THEN iffD2] TrueI refl init_port_effect init_port_clocks_effect put_slots)
qed

lemma state_setting_effect: "port_effect di port (state_setting_init di port) (\<lambda>b. b[12 := True])"
  unfolding port_effect_def
proof (intro allI impI)
  fix g g1
  assume "state_setting_init di port g = Done g1"
  then obtain p m where g: "ptd_at g di port = Some p" "g1 = put_ptd di port (p\<lparr>pssextd := Some m\<rparr>) g"
    by (auto simp: state_setting_init_def split: option.splits)
  obtain k mm l where S: "man_shape g = (k, mm, l)" by (cases "man_shape g")
  have "port_machines (p\<lparr>pssextd := Some m\<rparr>) = (port_machines p)[12 := True]" by (simp add: port_machines_def)
  with machines_nth [OF g(1) S] g S show "man_shape g1 = port_shape di port (\<lambda>b. b[12 := True]) (man_shape g)"
    by (auto simp: shape_put_ptd_any)
qed

lemma cmlds_effect:
  "port_effect di port (\<lambda>g. case ptd_at g di port of
     None \<Rightarrow> Fault | Some p \<Rightarrow> Done (put_ptd di port (p\<lparr>cmldsLinkPortEnabled := True\<rparr>) g)) (\<lambda>x. x)"
  by (auto simp: port_effect_def port_shape_id shape_put_ptd split: option.splits)

lemma port_machines_fresh: "port_machines (port_variables e s di g port) = replicate 21 False"
  by (auto simp: port_variables_def port_machines_def zero_ptd_def numeral_eq_Suc split: option.split)

lemma port_init_shape:
  assumes "gptpman_port_init e io seq di port g = Done g1" "ptd_at g di port \<noteq> None"
  shows "man_shape g1 = port_shape di port (\<lambda>_. machines_of di port) (man_shape g)"
proof -
  let ?fresh = "put_ptd di port (port_variables e (seq di port) di g port) g"
  let ?rest = "[if di = 0 then domain_zero_port_sm_init e port else Done,
      domain_port_sm_init e io di port,
      if port \<noteq> 0 then state_setting_init di port else Done,
      \<lambda>g1. (case ptd_at g1 di port of
         None \<Rightarrow> Fault | Some p \<Rightarrow> Done (put_ptd di port (p\<lparr>cmldsLinkPortEnabled := True\<rparr>) g1))]"
  let ?us = "[if di = 0 then \<lambda>b. b[0 := True, 1 := True, 2 := True] else (\<lambda>x. x), fold (\<circ>) (port_slots port) (\<lambda>x. x),
      if port \<noteq> 0 then \<lambda>b. b[12 := True] else (\<lambda>x. x), \<lambda>x. x]"
  have id: "port_effect i q Done (\<lambda>x. x)" for i q by (simp add: port_effect_def port_shape_id)
  have "list_all2 (port_effect di port) ?rest ?us"
    using zero_port_effect [of port e]
    by (auto simp: domain_port_effect state_setting_effect cmlds_effect id simp del: One_nat_def)
  then have eff: "port_effect di port (run_all ?rest) (fold (\<circ>) ?us (\<lambda>x. x))" by (rule port_effects)
  have "run_all ?rest ?fresh = Done g1" using assms(1) by (simp add: gptpman_port_init_def pure_def)
  with eff have "man_shape g1 = port_shape di port (fold (\<circ>) ?us (\<lambda>x. x)) (man_shape ?fresh)"
    unfolding port_effect_def by blast
  also have "man_shape ?fresh = port_shape di port (\<lambda>_. replicate 21 False) (man_shape g)"
    using assms(2) by (simp add: shape_put_ptd_any port_machines_fresh)
  also have "port_shape di port (fold (\<circ>) ?us (\<lambda>x. x)) (port_shape di port (\<lambda>_. replicate 21 False) (man_shape g)) =
      port_shape di port (\<lambda>_. machines_of di port) (man_shape g)"
  proof -
    have "fold (\<circ>) ?us (\<lambda>x. x) (replicate 21 False) = machines_of di port"
      by (cases "di = 0"; cases "port = 0") (simp_all add: port_slots_def machines_of_def numeral_eq_Suc)
    then show ?thesis by (simp only: port_shape_comp) (simp add: comp_def)
  qed
  finally show ?thesis .
qed

subsection \<open>A domain\<close>

text \<open>The shape of a domain is known.\<close>

definition domain_is :: "nat \<Rightarrow> bool list \<times> bool list list \<Rightarrow> gptpman_data \<Rightarrow> bool" where
  "domain_is di x g \<longleftrightarrow> map_option tasd_shape (tasd_at g di) = Some x"

lemma domain_is_shape:
  "domain_is di x g \<longleftrightarrow> di < length (snd (snd (man_shape g))) \<and> snd (snd (man_shape g)) ! di = Some x"
  by (auto simp: domain_is_def man_shape_def tasd_at_def)

lemma domain_is_ptd: "domain_is di (d, ps) g \<Longrightarrow> port < length ps \<Longrightarrow> ptd_at g di port \<noteq> None"
  by (auto simp: domain_is_def ptd_at_def tasd_shape_def)

lemma domain_is_port_init:
  assumes "domain_is di (d, ps) g" "gptpman_port_init e io seq di port g = Done g1" "port < length ps"
  shows "domain_is di (d, ps[port := machines_of di port]) g1"
proof -
  have "man_shape g1 = port_shape di port (\<lambda>_. machines_of di port) (man_shape g)"
    using port_init_shape [OF assms(2) domain_is_ptd [OF assms(1,3)]] .
  then show ?thesis using assms(1) by (cases "man_shape g") (simp add: domain_is_shape)
qed

lemma domain_is_ports_init:
  assumes "for_each (gptpman_port_init e io seq di) is g = Done g1" "domain_is di (d, ps) g"
    "\<forall>i \<in> set is. i < length ps"
  shows "domain_is di (d, fold (\<lambda>i ps. ps[i := machines_of di i]) is ps) g1"
  using assms
proof (induction "is" arbitrary: g ps)
  case (Cons i "is")
  then obtain h where h: "gptpman_port_init e io seq di i g = Done h"
    "for_each (gptpman_port_init e io seq di) is h = Done g1" by (auto simp: and_then_Done)
  have "domain_is di (d, ps[i := machines_of di i]) h"
    using domain_is_port_init [OF Cons.prems(2) h(1)] Cons.prems(3) by simp
  with Cons.IH [OF h(2)] Cons.prems(3) show ?case by simp
qed simp

lemma domain_is_effect:
  assumes "dom_effect di f u" "f g = Done g1" "domain_is di (d, ps) g"
  shows "domain_is di (u d, ps) g1"
  using assms by (cases "man_shape g") (auto simp: dom_effect_def domain_is_shape)

lemma selection_effect: "dom_effect di (state_selection_init di) (\<lambda>d. d[5 := True])"
  unfolding dom_effect_def
proof (intro allI impI)
  fix g g1
  assume "state_selection_init di g = Done g1"
  then obtain t m where g: "tasd_at g di = Some t" "g1 = put_tasd di (t\<lparr>pssd := Some m\<rparr>) g"
    by (auto simp: state_selection_init_def split: option.splits)
  then have "di < length (tasds g)" "tasds g ! di = Some t" by (auto simp: tasd_at_def split: if_splits)
  with g show "man_shape g1 = dom_shape di (\<lambda>d. d[5 := True]) (man_shape g)"
    by (simp add: man_shape_def put_tasd_def map_update tasd_shape_def dom_machines_def)
qed

lemma fold_machines: "fold (\<lambda>i ps. ps[i := f i]) [0..<n] (replicate n x) = map f [0..<n]"
proof -
  have "m \<le> n \<Longrightarrow> fold (\<lambda>i ps. ps[i := f i]) [0..<m] (replicate n x) = map f [0..<m] @ replicate (n - m) x" for m
  proof (induction m)
    case (Suc m)
    then have "replicate (n - m) x = x # replicate (n - Suc m) x" by (metis Suc_diff_le diff_Suc_Suc replicate_Suc)
    with Suc show ?case by (simp add: list_update_append)
  qed simp
  from this [of n] show ?thesis by simp
qed

abbreviation all_machines :: "nat \<Rightarrow> nat \<Rightarrow> bool list \<times> bool list list" where
  "all_machines n di \<equiv> (replicate 7 True, map (machines_of di) [0..<n])"

lemma domain_machines_init_is:
  assumes "domain_machines_init e pf io seq di g = Done g1" "domain_is di (replicate 7 False, replicate n x) g"
    "man_max_ports g = n"
  shows "domain_is di (all_machines n di) g1"
proof -
  note r = assms(1) [unfolded domain_machines_init_def assms(3), simplified and_then_Done run_all.simps]
  obtain a1 a2 a3 a4 a5 a6 a7 where a:
    "init_dom acc_sss di (site_sync_sync_sm_init e (of_nat di)) g = Done a1"
    "init_dom acc_cmssend di (\<lambda>pt c. made (clock_master_sync_send_sm_init pt c)) a1 = Done a2"
    "init_dom acc_css di (\<lambda>pt c. made (clock_slave_sync_sm_init pt c)) a2 = Done a3"
    "init_dom acc_cmsrec di (clock_master_sync_receive_sm_init e pf) a3 = Done a4"
    "init_dom acc_cmsoffset di (\<lambda>pt c. made (clock_master_sync_offset_sm_init pt)) a4 = Done a5"
    "for_each (gptpman_port_init e io seq di) [0..<n] a5 = Done a6"
    "init_dom acc_gms di (\<lambda>pt c. made (gm_stable_sm_init (int di) pt c)) a6 = Done a7"
    "state_selection_init di a7 = Done g1"
    using r by (auto simp: and_then_Done)
  note e = domain_is_effect [OF init_dom_effect]
  have 1: "domain_is di ((replicate 7 False)[0 := True], replicate n x) a1"
    by (rule e [OF dput_slots(1,7) a(1) assms(2)])
  have 2: "domain_is di ((replicate 7 False)[0 := True, 1 := True], replicate n x) a2"
    by (rule e [OF dput_slots(2,8) a(2) 1])
  have 3: "domain_is di ((replicate 7 False)[0 := True, 1 := True, 2 := True], replicate n x) a3"
    by (rule e [OF dput_slots(3,9) a(3) 2])
  have 4: "domain_is di ((replicate 7 False)[0 := True, 1 := True, 2 := True, 3 := True], replicate n x) a4"
    by (rule e [OF dput_slots(4,10) a(4) 3])
  have 5: "domain_is di ((replicate 7 False)[0 := True, 1 := True, 2 := True, 3 := True, 4 := True], replicate n x) a5"
    by (rule e [OF dput_slots(5,11) a(5) 4])
  have 6: "domain_is di ((replicate 7 False)[0 := True, 1 := True, 2 := True, 3 := True, 4 := True],
      map (machines_of di) [0..<n]) a6"
    using domain_is_ports_init [OF a(6) 5] by (simp add: fold_machines)
  have 7: "domain_is di ((replicate 7 False)[0 := True, 1 := True, 2 := True, 3 := True, 4 := True, 6 := True],
      map (machines_of di) [0..<n]) a7"
    by (rule e [OF dput_slots(6,12) a(7) 6])
  have "domain_is di ((replicate 7 False)[0 := True, 1 := True, 2 := True, 3 := True, 4 := True, 6 := True, 5 := True],
      map (machines_of di) [0..<n]) g1"
    by (rule domain_is_effect [OF selection_effect a(8) 7])
  then show ?thesis by (simp add: numeral_eq_Suc)
qed

text \<open>The initialisation of a domain leaves the others alone.\<close>

definition others :: "nat \<Rightarrow> gptpman_data \<Rightarrow> shape" where
  "others di g = (case man_shape g of (n, m, l) \<Rightarrow> (n, m, l[di := None]))"

lemma others_is: "others di g1 = others di g \<Longrightarrow> dj \<noteq> di \<Longrightarrow> domain_is dj x g1 = domain_is dj x g"
proof -
  assume o: "others di g1 = others di g" and d: "dj \<noteq> di"
  obtain n m l where S: "man_shape g = (n, m, l)" by (cases "man_shape g")
  obtain n1 m1 l1 where S1: "man_shape g1 = (n1, m1, l1)" by (cases "man_shape g1")
  have l: "l1[di := None] = l[di := None]" using o S S1 by (simp add: others_def)
  then have "length l1 = length l" by (metis length_list_update)
  moreover have "l1 ! dj = l ! dj" using l d by (metis nth_list_update_neq)
  ultimately show ?thesis by (simp add: domain_is_shape S S1)
qed

lemma others_limits:
  "others di g1 = others di g \<Longrightarrow> man_max_ports g1 = man_max_ports g \<and> man_max_domains g1 = man_max_domains g
    \<and> length (tasds g1) = length (tasds g)"
proof -
  assume "others di g1 = others di g"
  then have "man_max_ports g1 = man_max_ports g" "man_max_domains g1 = man_max_domains g"
    "(map (map_option tasd_shape) (tasds g1))[di := None] = (map (map_option tasd_shape) (tasds g))[di := None]"
    by (simp_all add: others_def man_shape_def)
  moreover from this(3) have "length (tasds g1) = length (tasds g)" by (metis length_list_update length_map)
  ultimately show ?thesis by simp
qed

definition keeps_others :: "nat \<Rightarrow> (gptpman_data \<Rightarrow> gptpman_data outcome) \<Rightarrow> bool" where
  "keeps_others di f \<longleftrightarrow> (\<forall>S. keeps (\<lambda>g. others di g = S) f)"

lemma keeps_othersI: "(\<And>g g1. f g = Done g1 \<Longrightarrow> others di g1 = others di g) \<Longrightarrow> keeps_others di f"
  unfolding keeps_others_def keeps_def by blast

lemma keeps_othersD: "keeps_others di f \<Longrightarrow> f g = Done g1 \<Longrightarrow> others di g1 = others di g"
  unfolding keeps_others_def keeps_def by blast

lemma keeps_others_effects:
  "port_effect di port f u \<Longrightarrow> keeps_others di f" "dom_effect di f v \<Longrightarrow> keeps_others di f"
proof -
  have "others di g1 = others di g" if "man_shape g1 = port_shape di port u (man_shape g)" for g g1
    using that by (cases "man_shape g") (simp add: others_def)
  then show "port_effect di port f u \<Longrightarrow> keeps_others di f" by (auto intro!: keeps_othersI simp: port_effect_def)
  have "others di g1 = others di g" if "man_shape g1 = dom_shape di v (man_shape g)" for g g1
    using that by (cases "man_shape g") (simp add: others_def)
  then show "dom_effect di f v \<Longrightarrow> keeps_others di f" by (auto intro!: keeps_othersI simp: dom_effect_def)
qed

lemma keeps_others_run_all: "(\<And>f. f \<in> set fs \<Longrightarrow> keeps_others di f) \<Longrightarrow> keeps_others di (run_all fs)"
  unfolding keeps_others_def by (blast intro: keeps_run_all)

lemma keeps_others_for_each: "(\<And>i. keeps_others di (f i)) \<Longrightarrow> keeps_others di (for_each f is)"
  unfolding keeps_others_def by (blast intro: keeps_for_each)

lemma keeps_others_port_init: "keeps_others di (gptpman_port_init e io seq di port)"
proof (rule keeps_othersI)
  fix g g1
  assume r: "gptpman_port_init e io seq di port g = Done g1"
  show "others di g1 = others di g"
  proof (cases "ptd_at g di port")
    case None
    have no: "put_ptd di port p g = g \<or> (\<exists>t. tasd_at g di = Some t \<and> \<not> port < length (ptds t))" for p
      using None by (auto simp: put_ptd_def ptd_at_def split: option.splits if_splits)
    have "ptd_at (put_ptd di port p g) di port = None" for p
      using None by (auto simp: ptd_at_def tasd_at_put_ptd split: option.splits if_splits)
    then have "domain_port_sm_init e io di port (put_ptd di port p g) = Fault" for p
      by (simp add: domain_port_sm_init_def init_port_def)
    moreover have "domain_zero_port_sm_init e port (put_ptd 0 port p g) = Fault" if "di = 0" for p
      using \<open>\<And>p. ptd_at (put_ptd di port p g) di port = None\<close> that
      by (simp add: domain_zero_port_sm_init_def init_port_def)
    ultimately show ?thesis using r by (auto simp: gptpman_port_init_def pure_def split: if_splits)
  next
    case (Some p)
    with port_init_shape [OF r] show ?thesis by (cases "man_shape g") (simp add: others_def)
  qed
qed

lemma keeps_others_domain: "keeps_others di (domain_machines_init e pf io seq di)"
proof (rule keeps_othersI)
  fix g g1
  assume r: "domain_machines_init e pf io seq di g = Done g1"
  have "keeps_others di (run_all
     [init_dom acc_sss di (site_sync_sync_sm_init e (of_nat di)),
      init_dom acc_cmssend di (\<lambda>pt c. made (clock_master_sync_send_sm_init pt c)),
      init_dom acc_css di (\<lambda>pt c. made (clock_slave_sync_sm_init pt c)),
      init_dom acc_cmsrec di (clock_master_sync_receive_sm_init e pf),
      init_dom acc_cmsoffset di (\<lambda>pt c. made (clock_master_sync_offset_sm_init pt)),
      for_each (gptpman_port_init e io seq di) [0..<n],
      init_dom acc_gms di (\<lambda>pt c. made (gm_stable_sm_init (int di) pt c)),
      state_selection_init di])" for n
    by (rule keeps_others_run_all)
      (auto intro!: keeps_others_for_each keeps_others_port_init keeps_others_effects(2) [OF selection_effect]
        keeps_others_effects(2) [OF init_dom_effect [OF dput_slots(1,7)]]
        keeps_others_effects(2) [OF init_dom_effect [OF dput_slots(2,8)]]
        keeps_others_effects(2) [OF init_dom_effect [OF dput_slots(3,9)]]
        keeps_others_effects(2) [OF init_dom_effect [OF dput_slots(4,10)]]
        keeps_others_effects(2) [OF init_dom_effect [OF dput_slots(5,11)]]
        keeps_others_effects(2) [OF init_dom_effect [OF dput_slots(6,12)]])
  with r show "others di g1 = others di g"
    unfolding domain_machines_init_def by (auto dest: keeps_othersD simp del: run_all.simps)
qed

lemma new_tasd_is: "di < length (tasds g) \<Longrightarrow> domain_is di (replicate 7 False, replicate n (replicate 21 False)) (put_tasd di (new_tasd e dn n) g)"
proof -
  have "port_machines zero_ptd = replicate 21 False" by (simp add: port_machines_def zero_ptd_def numeral_eq_Suc)
  then show "di < length (tasds g) \<Longrightarrow> ?thesis"
    by (simp add: domain_is_def tasd_at_def put_tasd_def tasd_shape_def dom_machines_def new_tasd_def numeral_eq_Suc)
qed

lemma others_put_tasd: "others di (put_tasd di t g) = others di g"
  by (simp add: others_def man_shape_def put_tasd_def map_update)

text \<open>A domain is made where there is room for it, with all its machines; the others stay as they are.\<close>

lemma domain_init_is:
  assumes "gptpman_domain_init e pf io seq dn g = Done (0, g1)" "length (tasds g) = man_max_domains g"
  obtains di where "domain_slot g dn = Some di" "domain_is di (all_machines (man_max_ports g) di) g1"
    "others di g1 = others di g"
proof -
  obtain di where di: "domain_slot g dn = Some di"
    "domain_machines_init e pf io seq di (put_tasd di (new_tasd e dn (man_max_ports g)) g) = Done g1"
    using assms(1) by (auto simp: gptpman_domain_init_def and_then_Done split: option.splits)
  have free: "first_free g dn is = Some di \<Longrightarrow> di \<in> set is" for "is"
    by (induction "is") (auto split: option.splits if_splits)
  have "di < length (tasds g)" using di(1) assms(2) by (auto simp: domain_slot_def dest!: free split: if_splits)
  then have "domain_is di (all_machines (man_max_ports g) di) g1"
    by (intro domain_machines_init_is [OF di(2) new_tasd_is]) (simp_all add: put_tasd_def)
  moreover have "others di g1 = others di g"
    using keeps_othersD [OF keeps_others_domain di(2)] by (simp add: others_put_tasd)
  ultimately show thesis using that di(1) by blast
qed

section \<open>The states that are reached\<close>

text \<open>Every domain that has been made has all its machines, and domain 0 has been made.\<close>

definition well_made :: "nat \<Rightarrow> gptpman_data \<Rightarrow> bool" where
  "well_made n g \<longleftrightarrow> man_max_ports g = n \<and> length (tasds g) = man_max_domains g \<and> tasd_at g 0 \<noteq> None \<and>
     (\<forall>di t. tasd_at g di = Some t \<longrightarrow> tasd_shape t = all_machines n di)"

lemma tasd_at_shape:
  assumes "man_shape g1 = man_shape g"
  shows "map_option tasd_shape (tasd_at g1 di) = map_option tasd_shape (tasd_at g di)"
proof -
  have m: "map (map_option tasd_shape) (tasds g1) = map (map_option tasd_shape) (tasds g)"
    using assms by (simp add: man_shape_def)
  then have "length (tasds g1) = length (tasds g)" by (metis length_map)
  then show ?thesis using arg_cong [OF m, of "\<lambda>l. l ! di"] by (cases "di < length (tasds g)") (simp_all add: tasd_at_def)
qed

lemma well_made_shape: "man_shape g1 = man_shape g \<Longrightarrow> well_made n g \<Longrightarrow> well_made n g1"
proof -
  assume S: "man_shape g1 = man_shape g" and w: "well_made n g"
  have len: "length (tasds g1) = length (tasds g)" "man_max_ports g1 = man_max_ports g"
    "man_max_domains g1 = man_max_domains g"
    using S by (auto simp: man_shape_def dest: map_eq_imp_length_eq)
  have t: "map_option tasd_shape (tasd_at g1 di) = map_option tasd_shape (tasd_at g di)" for di
    using tasd_at_shape [OF S] .
  have "tasd_at g1 0 \<noteq> None" using t [of 0] w by (auto simp: well_made_def)
  moreover have "tasd_shape s = all_machines n di" if s: "tasd_at g1 di = Some s" for di s
  proof -
    from t [of di] s obtain u where "tasd_at g di = Some u" "tasd_shape u = tasd_shape s"
      by (cases "tasd_at g di") auto
    with w show ?thesis by (auto simp: well_made_def)
  qed
  ultimately show ?thesis using len w by (simp add: well_made_def)
qed

lemma put_tasglb_shape:
  "tasd_at g di = Some t \<Longrightarrow> man_shape (put_tasd di (t\<lparr>tasglb := x\<rparr>) g) = man_shape g"
  "tasd_at g di = Some t \<Longrightarrow> man_shape (put_tasd di (t\<lparr>btasglb := y\<rparr>) g) = man_shape g"
  by (simp_all add: shape_put_tasd)

lemma init_domain_clock_shape: "init_domain_clock e pf nc di dn ci g = (r, g1) \<Longrightarrow> man_shape g1 = man_shape g"
  by (auto simp: init_domain_clock_def Let_def split: prod.splits if_splits)

lemma set_domain_thisClock_shape:
  "set_domain_thisClock pf di dn ci g = Done (r, g1) \<Longrightarrow> man_shape g1 = man_shape g"
  by (auto simp: set_domain_thisClock_def Let_def put_tasglb_shape split: option.splits)

lemma start_domain_shape:
  assumes "start_domain e pf io nc seq di dn ci g = Done (0, g1)"
  shows "\<exists>h. gptpman_domain_init e pf io seq dn g = Done (0, h) \<and> man_shape g1 = man_shape h"
proof -
  obtain r h where h: "gptpman_domain_init e pf io seq dn g = Done (r, h)"
    using assms by (cases "gptpman_domain_init e pf io seq dn g") (auto simp: start_domain_def)
  obtain r2 h2 where h2: "init_domain_clock e pf nc di dn ci h = (r2, h2)" by fastforce
  have r: "r = 0" "r2 = 0" using assms h h2 by (auto simp: start_domain_def split: if_splits)
  from assms h h2 r obtain x h3 t where h3: "set_domain_thisClock pf di dn ci h2 = Done (x, h3)"
    "tasd_at h3 di = Some t" "g1 = put_tasd di (t\<lparr>btasglb := bmcs_ptas_glb_update e (btasglb t) (tasglb t) (di = 0)\<rparr>) h3"
    by (auto simp: start_domain_def and_then_Done split: option.splits)
  have "man_shape g1 = man_shape h"
    using h3 set_domain_thisClock_shape [OF h3(1)] init_domain_clock_shape [OF h2] by (simp add: put_tasglb_shape)
  with h r show ?thesis by blast
qed

lemma tasd_at_zero: "tasd_at (zero_gptpman e devices doms) di = None"
  by (simp add: tasd_at_def zero_gptpman_def Let_def)

lemma others_tasd:
  assumes "others di g1 = others di g" "dj \<noteq> di"
  shows "map_option tasd_shape (tasd_at g1 dj) = map_option tasd_shape (tasd_at g dj)"
proof (cases "tasd_at g dj")
  case None
  show ?thesis
  proof (cases "tasd_at g1 dj")
    case (Some t)
    then have "domain_is dj (tasd_shape t) g1" by (simp add: domain_is_def)
    then have "domain_is dj (tasd_shape t) g" using others_is [OF assms] by simp
    with None show ?thesis by (simp add: domain_is_def)
  qed (simp add: None)
next
  case (Some t)
  then have "domain_is dj (tasd_shape t) g" by (simp add: domain_is_def)
  then have "domain_is dj (tasd_shape t) g1" using others_is [OF assms] by simp
  with Some show ?thesis by (simp add: domain_is_def)
qed

lemma well_made_others:
  assumes "well_made n g \<or> (\<forall>di. tasd_at g di = None) \<and> dn = 0 \<and> man_max_ports g = n \<and> length (tasds g) = man_max_domains g"
    and "gptpman_domain_init e pf io seq dn g = Done (0, g1)"
  shows "well_made n g1"
proof -
  have g: "man_max_ports g = n" "length (tasds g) = man_max_domains g" using assms(1) by (auto simp: well_made_def)
  obtain di where di: "domain_slot g dn = Some di" "domain_is di (all_machines n di) g1" "others di g1 = others di g"
    using domain_init_is [OF assms(2) g(2)] g(1) by metis
  note lim = others_limits [OF di(3)]
  note other = others_tasd [OF di(3)]
  have zero: "tasd_at g1 0 \<noteq> None"
  proof (cases "di = 0")
    case True
    with di(2) show ?thesis by (auto simp: domain_is_def)
  next
    case False
    then have "dn \<noteq> 0" using di(1) by (auto simp: domain_slot_def split: if_splits)
    then have "tasd_at g 0 \<noteq> None" using assms(1) by (auto simp: well_made_def)
    with other [of 0] False show ?thesis by (metis option.map_disc_iff)
  qed
  have "tasd_shape t = all_machines n dj" if t: "tasd_at g1 dj = Some t" for dj t
  proof (cases "dj = di")
    case True
    with di(2) t show ?thesis by (simp add: domain_is_def)
  next
    case False
    with other [OF False] t obtain s where "tasd_at g dj = Some s" "tasd_shape s = tasd_shape t"
      by (cases "tasd_at g dj") auto
    with assms(1) show ?thesis by (auto simp: well_made_def)
  qed
  with zero lim g show ?thesis by (simp add: well_made_def)
qed

lemma start_well_made:
  assumes "gptpman_start e pf io nc seq devices doms = Done (0, g)"
  shows "well_made (devices + 1) g"
proof -
  let ?z = "zero_gptpman e devices doms"
  have st: "static_domains_init e pf io nc seq ?z = Done (0, g)"
    using assms by (auto simp: gptpman_start_def split: if_splits)
  obtain r g1 where g1: "start_domain e pf io nc seq 0 0 (conf e CONF_FIRST_DOMAIN_THIS_CLOCK) ?z = Done (r, g1)"
    using st by (cases "start_domain e pf io nc seq 0 0 (conf e CONF_FIRST_DOMAIN_THIS_CLOCK) ?z")
      (auto simp: static_domains_init_def)
  have r: "r = 0" using st g1 by (auto simp: static_domains_init_def split: if_splits)
  obtain h where h: "gptpman_domain_init e pf io seq 0 ?z = Done (0, h)" "man_shape g1 = man_shape h"
    using start_domain_shape [OF g1 [unfolded r]] by blast
  have z: "man_max_ports ?z = devices + 1" "length (tasds ?z) = man_max_domains ?z"
    by (simp_all add: zero_gptpman_def Let_def)
  have "well_made (devices + 1) h"
    by (rule well_made_others [OF _ h(1)]) (simp add: tasd_at_zero z)
  then have w1: "well_made (devices + 1) g1" using h(2) by (rule well_made_shape [rotated])
  show ?thesis
  proof (cases "conf e CONF_SECOND_DOMAIN_THIS_CLOCK < 0")
    case True
    with st g1 r w1 show ?thesis by (simp add: static_domains_init_def)
  next
    case False
    with st g1 r have "start_domain e pf io nc seq 1 (of_int (conf e CONF_SECOND_DOMAIN_NUMBER))
        (conf e CONF_SECOND_DOMAIN_THIS_CLOCK) g1 = Done (0, g)" by (simp add: static_domains_init_def)
    from start_domain_shape [OF this] obtain k where
      k: "gptpman_domain_init e pf io seq (of_int (conf e CONF_SECOND_DOMAIN_NUMBER)) g1 = Done (0, k)"
      "man_shape g = man_shape k" by blast
    have "well_made (devices + 1) k" using well_made_others [OF _ k(1)] w1 by blast
    with k(2) show ?thesis by (rule well_made_shape)
  qed
qed

text \<open>The running daemon: after its start, any event of the network layer and any request of a client.\<close>

inductive daemon_reaches ::
  "env \<Rightarrow> platform \<Rightarrow> net_cfg \<Rightarrow> (nat \<Rightarrow> nat \<Rightarrow> int) \<Rightarrow> hook_lib \<Rightarrow> nat \<Rightarrow> nat \<Rightarrow> gptpman_data \<Rightarrow> bool"
  for e pf nc seq lib devices doms where
  started: "gptpman_start e pf io nc seq devices doms = Done (0, g) \<Longrightarrow>
     daemon_reaches e pf nc seq lib devices doms g"
| event: "daemon_reaches e pf nc seq lib devices doms g \<Longrightarrow> gptpnet_cb e pf io port cts64 ev g = Done g1 \<Longrightarrow>
     daemon_reaches e pf nc seq lib devices doms g1"
| request: "daemon_reaches e pf nc seq lib devices doms g \<Longrightarrow>
     gptpnet_ipc_cb e lib nl rq rsize g = Done (r, out, g1) \<Longrightarrow> daemon_reaches e pf nc seq lib devices doms g1"

lemma stat_shape:
  "ipc_respond_statsd_info port b g = Done (a, g1) \<Longrightarrow> man_shape g1 = man_shape g"
  "ipc_respond_stattd_info di port b g = Done (a, g1) \<Longrightarrow> man_shape g1 = man_shape g"
proof -
  show "ipc_respond_statsd_info port b g = Done (a, g1) \<Longrightarrow> man_shape g1 = man_shape g"
    by (auto simp: ipc_respond_statsd_info_def port_machines_def shape_put_ptd split: if_splits option.splits)
  show "ipc_respond_stattd_info di port b g = Done (a, g1) \<Longrightarrow> man_shape g1 = man_shape g"
    by (auto simp: ipc_respond_stattd_info_def port_machines_def shape_put_ptd split: if_splits option.splits)
qed

lemma keeps_stat_port: "keeps (\<lambda>s. man_shape (snd s) = S) (stat_port b di port)"
proof -
  have a: "keeps (\<lambda>s. man_shape (snd s) = S) (stat_step (ipc_respond_statsd_info port b))"
    and c: "keeps (\<lambda>s. man_shape (snd s) = S) (stat_step (ipc_respond_stattd_info di port b))"
    by (auto simp: keeps_def stat_step_def and_then_Done dest: stat_shape)
  have d: "keeps (\<lambda>s. man_shape (snd s) = S) Done" by (simp add: keeps_def)
  show ?thesis unfolding stat_port_def by (rule keeps_run_all) (use a c d in auto)
qed

lemma request_keeps_machines:
  assumes "gptpnet_ipc_cb e lib nl rq rsize g = Done (r, out, g1)"
  shows "man_shape g1 = man_shape g"
proof -
  have stat: "man_shape g1 = man_shape g" if "req_stat b rq g = Done (r, out, g1)" for b
  proof -
    have k: "keeps (\<lambda>s. man_shape (snd s) = man_shape g)
        (for_each (\<lambda>di. for_each (stat_port b di) (ports di)) ds)" for ports ds
      by (intro keeps_for_each keeps_stat_port)
    from that show ?thesis
      by (auto simp: req_stat_def and_then_Done split: prod.splits if_splits dest!: keepsD [OF k, rotated])
  qed
  show ?thesis
    using assms stat
    by (auto simp: gptpnet_ipc_cb_def req_ndport_def req_clock_def req_gport_def one_answer_def Let_def
        split: if_splits gptp_ipc_command.splits prod.splits option.splits)
qed

lemma reached_has_machines:
  "daemon_reaches e pf nc seq lib devices doms g \<Longrightarrow> well_made (devices + 1) g"
proof (induction rule: daemon_reaches.induct)
  case (started io g)
  then show ?case by (rule start_well_made)
next
  case (event g io port cts64 ev g1)
  show ?case by (rule well_made_shape [OF event_keeps_machines [OF event.hyps(2)] event.IH])
next
  case (request g nl rq rsize r out g1)
  show ?case by (rule well_made_shape [OF request_keeps_machines [OF request.hyps(2)] request.IH])
qed

text \<open>C11: Whatever happens after the start, the domains that have been made have all their machines, and
  only domain 0 has those of the peer delay and of the link delay interval.\<close>

theorem running_daemon_has_machines:
  assumes "daemon_reaches e pf nc seq lib devices doms g"
  shows "well_made (devices + 1) g"
  using assms by (rule reached_has_machines)

section \<open>The start succeeds\<close>

text \<open>The initialisations that run their machine return.\<close>

definition returns :: "('m \<times> 'r ctl) option \<Rightarrow> bool" where
  "returns r \<longleftrightarrow> (\<exists>m c. r = Some (m, c) \<and> c \<noteq> Crash)"

lemma returnsI: "\<exists>m. r = Some (m, Next) \<Longrightarrow> returns r"
  by (auto simp: returns_def)

lemma safe_returns: "\<exists>s c. r = Some (s, c) \<and> P s \<and> c \<noteq> Crash \<Longrightarrow> returns r"
  by (auto simp: returns_def)

lemma returns_outcome: "returns r \<Longrightarrow> \<exists>m x. of_run r = Done (m, x)"
  unfolding returns_def by (metis ctl.exhaust of_run_simps(2,3))

lemma made_returns: "returns (made m)"
  by (simp add: returns_def made_def)

lemma sss_init_returns: "\<exists>m. site_sync_sync_sm_init e di pt g = Some (m, Next) \<and> sss_gcd m = g"
  by (cases "BEGIN pt \<or> \<not> instanceEnable pt")
    (auto simp: site_sync_sync_sm_init_def site_sync_sync_sm_def sss_allstate_condition_def sm_loop.simps
      sss_body_def sss_initializing_proc_def sss_initializing_condition_def Let_def)

lemma cmsr_init_returns: "\<exists>m. clock_master_sync_receive_sm_init e pf pt g = Some (m, Next) \<and> cmsr_gcd m = g"
  by (cases "BEGIN pt \<or> \<not> instanceEnable pt")
    (auto simp: clock_master_sync_receive_sm_init_def clock_master_sync_receive_sm_def cmsr_allstate_condition_def
      sm_loop.simps cmsr_body_def cmsr_initializing_proc_def cmsr_waiting_condition_def zero_cmsr_def Let_def)

lemma port_init_returns:
  "returns (sync_interval_setting_sm_init e pt pp)" "returns (port_announce_receive_sm_init port pt pp bt bp)"
  "returns (gptp_capable_receive_sm_init e pt pp)" "returns (md_sync_send_sm_init e io c True di port pt pp md)"
proof -
  show "returns (sync_interval_setting_sm_init e pt pp)"
    by (rule returnsI) (auto simp: sync_interval_setting_sm_init_def sync_interval_setting_sm_def
        sis_allstate_condition_def sm_loop.simps sis_body_def sis_not_enabled_proc_def sis_not_enabled_condition_def
        sis_initialize_proc_def sis_initialize_condition_def Let_def)
  show "returns (port_announce_receive_sm_init port pt pp bt bp)"
    by (rule returnsI) (auto simp: port_announce_receive_sm_init_def port_announce_receive_sm_def
        par_allstate_condition_def sm_loop.simps par_body_def par_discard_proc_def par_discard_condition_def Let_def)
  show "returns (gptp_capable_receive_sm_init e pt pp)"
    unfolding gptp_capable_receive_sm_init_def gptp_capable_receive_sm_def
    by (rule safe_returns, rule gcr.sm_total_safe) (simp add: gcr_inv_def gcr_allstate_condition_def)
  show "returns (md_sync_send_sm_init e io c True di port pt pp md)"
    unfolding md_sync_send_sm_init_def md_sync_send_sm_def
    by (rule safe_returns, rule mss.sm_total_safe) (simp add: mss_inv_def mss_allstate_condition_def)
qed

text \<open>A step of the initialisation that cannot fail where the domain is there, and leaves the clocks alone.\<close>

definition domain_ready :: "nat \<Rightarrow> nat \<Rightarrow> gptpclock_data \<Rightarrow> gptpman_data \<Rightarrow> bool" where
  "domain_ready di n c g \<longleftrightarrow> (\<exists>d ps. domain_is di (d, ps) g \<and> length ps = n) \<and> clocks g = c"

definition init_works :: "nat \<Rightarrow> nat \<Rightarrow> gptpclock_data \<Rightarrow> (gptpman_data \<Rightarrow> gptpman_data outcome) \<Rightarrow> bool" where
  "init_works di n c f \<longleftrightarrow> (\<forall>g. domain_ready di n c g \<longrightarrow> (\<exists>g1. f g = Done g1 \<and> domain_ready di n c g1))"

lemma init_worksI:
  "(\<And>g. domain_ready di n c g \<Longrightarrow> \<exists>g1. f g = Done g1 \<and> domain_ready di n c g1) \<Longrightarrow> init_works di n c f"
  unfolding init_works_def by blast

lemma init_works_run_all:
  "(\<And>f. f \<in> set fs \<Longrightarrow> init_works di n c f) \<Longrightarrow> init_works di n c (run_all fs)"
proof (induction fs)
  case Nil
  show ?case by (simp add: init_works_def)
next
  case (Cons f fs)
  then have "init_works di n c f" "init_works di n c (run_all fs)" by simp_all
  then show ?case unfolding init_works_def by (fastforce simp: and_then_Done)
qed

lemma init_works_for_each: "(\<And>i. i \<in> set is \<Longrightarrow> init_works di n c (f i)) \<Longrightarrow> init_works di n c (for_each f is)"
  unfolding for_each_def by (rule init_works_run_all) auto

lemma init_works_Done: "init_works di n c Done"
  by (simp add: init_works_def)

lemma clocks_put [simp]:
  "clocks (put_tasd di t g) = clocks g" "clocks (put_ptd di port p g) = clocks g"
  "clocks (put_common port sh g) = clocks g" "clocks (put_shared di port sh g) = clocks g"
proof -
  show t: "clocks (put_tasd di t g) = clocks g" for di t g by (simp add: put_tasd_def)
  show p: "clocks (put_ptd di port p g) = clocks g" for di port p g by (simp add: put_ptd_def t split: option.split)
  show c: "clocks (put_common port sh g) = clocks g" for port sh g by (simp add: put_common_def p split: option.split)
  show "clocks (put_shared di port sh g) = clocks g" by (simp add: put_shared_def t p c split: option.split)
qed

lemma shared_at_Some: "ptd_at g di port \<noteq> None \<Longrightarrow> \<exists>sh. shared_at g di port = Some sh"
  by (auto simp: shared_at_def ptd_at_def split: option.splits)

lemma ready_ptd: "domain_ready di n c g \<Longrightarrow> port < n \<Longrightarrow> ptd_at g di port \<noteq> None"
  unfolding domain_ready_def using domain_is_ptd by blast

lemma ready_port_shape:
  "domain_ready di n c g \<Longrightarrow> man_shape g1 = port_shape di port u (man_shape g) \<Longrightarrow> clocks g1 = clocks g \<Longrightarrow>
   domain_ready di n c g1"
  unfolding domain_ready_def by (cases "man_shape g") (fastforce simp: domain_is_shape)

lemma ready_dom_shape:
  "domain_ready di n c g \<Longrightarrow> man_shape g1 = dom_shape di u (man_shape g) \<Longrightarrow> clocks g1 = clocks g \<Longrightarrow>
   domain_ready di n c g1"
  unfolding domain_ready_def by (cases "man_shape g") (fastforce simp: domain_is_shape)

lemma init_port_works:
  assumes "\<And>m p. port_machines (acc_put a m p) = u (port_machines p)" "\<And>c sh. returns (mk c sh)" "port < n"
  shows "init_works di n c (\<lambda>g. init_port a di port (mk (clocks g)) g)"
proof (rule init_worksI)
  fix g
  assume g: "domain_ready di n c g"
  then obtain p sh where p: "ptd_at g di port = Some p" and sh: "shared_at g di port = Some sh"
    using ready_ptd [OF g assms(3)] shared_at_Some by blast
  obtain m x where "of_run (mk (clocks g) sh) = Done (m, x)"
    using returns_outcome [OF assms(2) [of "clocks g" sh]] by blast
  with p sh have r: "init_port a di port (mk (clocks g)) g =
      Done (put_shared di port (acc_save a m sh) (put_ptd di port (acc_put a m p) g))" by (simp add: init_port_def)
  moreover have "man_shape (put_shared di port (acc_save a m sh) (put_ptd di port (acc_put a m p) g)) =
      port_shape di port u (man_shape g)"
    using init_port_clocks_effect [OF assms(1), of di port mk] r unfolding port_effect_def by blast
  ultimately show "\<exists>g1. init_port a di port (mk (clocks g)) g = Done g1 \<and> domain_ready di n c g1"
    using ready_port_shape [OF g] by auto
qed

lemma init_port_works_const:
  assumes "\<And>m p. port_machines (acc_put a m p) = u (port_machines p)" "\<And>sh. returns (mk sh)" "port < n"
  shows "init_works di n c (init_port a di port mk)"
  using init_port_works [where mk = "\<lambda>_. mk", OF assms] by simp

lemma domain_port_works:
  assumes "port < n"
  shows "init_works di n c (domain_port_sm_init e io di port)"
proof -
  note w = init_port_works_const [OF _ _ assms] and r = made_returns port_init_returns
  note info = w [OF put_slots(4) r(1)] w [OF put_slots(5) r(1)]
  show ?thesis
  proof (cases "port = 0")
    case True
    then show ?thesis
      unfolding domain_port_sm_init_def
      by (intro init_works_run_all) (use info True in auto)
  next
    case False
    have ssend: "init_works di n c (\<lambda>g. init_port acc_ssend di port (\<lambda>sh.
        md_sync_send_sm_init e (io di port) (clocks g) True di port (sh_pt sh) (sh_pp sh) (sh_md sh)) g)"
      by (rule init_port_works [OF put_slots(7) port_init_returns(4) assms])
    show ?thesis
      unfolding domain_port_sm_init_def
      by (rule init_works_run_all)
        (auto simp: False intro: ssend info w [OF put_slots(6) r(1)]
          w [OF put_slots(9) r(1)] w [OF put_slots(10) r(1)] w [OF put_slots(11) r(3)] w [OF put_slots(12) r(1)]
          w [OF put_slots(13) r(1)] w [OF put_slots(14) r(4)] w [OF put_slots(15) r(2)] w [OF put_slots(8) r(1)]
          w [OF put_slots(16) r(1)] w [OF put_slots(17) r(1)] w [OF put_slots(18) r(1)] w [OF put_slots(19) r(1)]
          w [OF put_slots(20) r(1)])
  qed
qed

lemma zero_port_works:
  assumes "port < n"
  shows "init_works 0 n c (domain_zero_port_sm_init e port)"
proof -
  note w = init_port_works_const [OF _ made_returns assms]
  show ?thesis
    unfolding domain_zero_port_sm_init_def
    by (rule init_works_run_all) (auto intro: w [OF put_slots(1)] w [OF put_slots(2)] w [OF put_slots(3)])
qed

lemma port_init_works:
  assumes "port < n"
  shows "init_works di n c (gptpman_port_init e io seq di port)"
proof (rule init_worksI)
  fix g
  assume g: "domain_ready di n c g"
  let ?fresh = "put_ptd di port (port_variables e (seq di port) di g port) g"
  let ?rest = "[if di = 0 then domain_zero_port_sm_init e port else Done,
      domain_port_sm_init e io di port,
      if port \<noteq> 0 then state_setting_init di port else Done,
      \<lambda>g1. (case ptd_at g1 di port of
         None \<Rightarrow> Fault | Some p \<Rightarrow> Done (put_ptd di port (p\<lparr>cmldsLinkPortEnabled := True\<rparr>) g1))]"
  have fresh: "domain_ready di n c ?fresh"
    by (rule ready_port_shape [OF g shape_put_ptd_any]) (use ready_ptd [OF g assms] in simp_all)
  have sse: "init_works di n c (state_setting_init di port)"
  proof (rule init_worksI)
    fix h
    assume h: "domain_ready di n c h"
    then obtain t p where "tasd_at h di = Some t" "ptd_at h di port = Some p"
      using ready_ptd [OF h assms] by (auto simp: ptd_at_def split: option.splits if_splits)
    then obtain h1 where h1: "state_setting_init di port h = Done h1" "clocks h1 = clocks h"
      by (auto simp: state_setting_init_def)
    with state_setting_effect have "man_shape h1 = port_shape di port (\<lambda>b. b[12 := True]) (man_shape h)"
      unfolding port_effect_def by blast
    with h1 show "\<exists>h1. state_setting_init di port h = Done h1 \<and> domain_ready di n c h1"
      using ready_port_shape [OF h] by blast
  qed
  have cmlds: "init_works di n c (\<lambda>g1. (case ptd_at g1 di port of
         None \<Rightarrow> Fault | Some p \<Rightarrow> Done (put_ptd di port (p\<lparr>cmldsLinkPortEnabled := True\<rparr>) g1)))"
  proof (rule init_worksI)
    fix h
    assume h: "domain_ready di n c h"
    then obtain p where p: "ptd_at h di port = Some p" using ready_ptd [OF h assms] by blast
    have "domain_ready di n c (put_ptd di port (p\<lparr>cmldsLinkPortEnabled := True\<rparr>) h)"
      by (rule ready_port_shape [OF h shape_put_ptd_any]) (simp_all add: p)
    with p show "\<exists>h1. (case ptd_at h di port of None \<Rightarrow> Fault
        | Some p \<Rightarrow> Done (put_ptd di port (p\<lparr>cmldsLinkPortEnabled := True\<rparr>) h)) = Done h1 \<and> domain_ready di n c h1"
      by simp
  qed
  have "init_works di n c (run_all ?rest)"
    by (rule init_works_run_all)
      (use zero_port_works [OF assms] domain_port_works [OF assms] sse cmlds in \<open>auto simp: init_works_Done split: if_splits\<close>)
  with fresh obtain g1 where "run_all ?rest ?fresh = Done g1" "domain_ready di n c g1"
    unfolding init_works_def by blast
  then show "\<exists>g1. gptpman_port_init e io seq di port g = Done g1 \<and> domain_ready di n c g1"
    by (auto simp: gptpman_port_init_def pure_def)
qed

lemma init_dom_works:
  assumes "\<And>m t. dom_machines (dom_put a m t) = u (dom_machines t)" "\<And>m t. ptds (dom_put a m t) = ptds t"
    and "\<And>pt c. \<exists>m x. mk pt c = Some (m, x) \<and> x \<noteq> Crash \<and> dom_clk a m c = c"
  shows "init_works di n c (init_dom a di mk)"
proof (rule init_worksI)
  fix g
  assume g: "domain_ready di n c g"
  then obtain t where t: "tasd_at g di = Some t" by (auto simp: domain_ready_def domain_is_def)
  obtain m x where m: "mk (tasglb t) (clocks g) = Some (m, x)" "x \<noteq> Crash" "dom_clk a m (clocks g) = clocks g"
    using assms(3) by blast
  then obtain g1 where r: "init_dom a di mk g = Done g1" "clocks g1 = clocks g"
    using t by (cases x) (auto simp: init_dom_def)
  with init_dom_effect [OF assms(1,2)] have "man_shape g1 = dom_shape di u (man_shape g)"
    unfolding dom_effect_def by blast
  with r show "\<exists>g1. init_dom a di mk g = Done g1 \<and> domain_ready di n c g1"
    using ready_dom_shape [OF g] by blast
qed

lemma domain_machines_work:
  assumes "domain_ready di n c g" "man_max_ports g = n"
  shows "\<exists>g1. domain_machines_init e pf io seq di g = Done g1 \<and> domain_ready di n c g1"
proof -
  have sel: "init_works di n c (state_selection_init di)"
  proof (rule init_worksI)
    fix h
    assume h: "domain_ready di n c h"
    then obtain t where "tasd_at h di = Some t" by (auto simp: domain_ready_def domain_is_def)
    then obtain h1 where h1: "state_selection_init di h = Done h1" "clocks h1 = clocks h"
      by (auto simp: state_selection_init_def)
    with selection_effect have "man_shape h1 = dom_shape di (\<lambda>d. d[5 := True]) (man_shape h)"
      unfolding dom_effect_def by blast
    with h1 show "\<exists>h1. state_selection_init di h = Done h1 \<and> domain_ready di n c h1"
      using ready_dom_shape [OF h] by blast
  qed
  have sss: "init_works di n c (init_dom acc_sss di (site_sync_sync_sm_init e (of_nat di)))"
  proof (rule init_dom_works [OF dput_slots(1,7)])
    fix pt c
    show "\<exists>m x. site_sync_sync_sm_init e (of_nat di) pt c = Some (m, x) \<and> x \<noteq> Crash \<and> dom_clk acc_sss m c = c"
      using sss_init_returns [of e "of_nat di" pt c] by (fastforce simp: acc_sss_def)
  qed
  have cmsr: "init_works di n c (init_dom acc_cmsrec di (clock_master_sync_receive_sm_init e pf))"
  proof (rule init_dom_works [OF dput_slots(4,10)])
    fix pt c
    show "\<exists>m x. clock_master_sync_receive_sm_init e pf pt c = Some (m, x) \<and> x \<noteq> Crash \<and> dom_clk acc_cmsrec m c = c"
      using cmsr_init_returns [of e pf pt c] by (fastforce simp: acc_cmsrec_def)
  qed
  have made: "\<exists>m x. made k = Some (m, x) \<and> x \<noteq> Crash \<and> P m" if "P k" for k :: 'm and P
    using that by (simp add: made_def)
  have others:
    "init_works di n c (init_dom acc_cmssend di (\<lambda>pt c. made (clock_master_sync_send_sm_init pt c)))"
    "init_works di n c (init_dom acc_css di (\<lambda>pt c. made (clock_slave_sync_sm_init pt c)))"
    "init_works di n c (init_dom acc_cmsoffset di (\<lambda>pt c. made (clock_master_sync_offset_sm_init pt)))"
    "init_works di n c (init_dom acc_gms di (\<lambda>pt c. made (gm_stable_sm_init (int di) pt c)))"
    by (rule init_dom_works [OF dput_slots(2,8)] init_dom_works [OF dput_slots(3,9)]
        init_dom_works [OF dput_slots(5,11)] init_dom_works [OF dput_slots(6,12)];
        simp add: made_def acc_cmssend_def acc_css_def acc_cmsoffset_def acc_gms_def clock_master_sync_send_sm_init_def
          clock_slave_sync_sm_init_def gm_stable_sm_init_def)+
  have "init_works di n c (run_all
     [init_dom acc_sss di (site_sync_sync_sm_init e (of_nat di)),
      init_dom acc_cmssend di (\<lambda>pt c. made (clock_master_sync_send_sm_init pt c)),
      init_dom acc_css di (\<lambda>pt c. made (clock_slave_sync_sm_init pt c)),
      init_dom acc_cmsrec di (clock_master_sync_receive_sm_init e pf),
      init_dom acc_cmsoffset di (\<lambda>pt c. made (clock_master_sync_offset_sm_init pt)),
      for_each (gptpman_port_init e io seq di) [0..<n],
      init_dom acc_gms di (\<lambda>pt c. made (gm_stable_sm_init (int di) pt c)),
      state_selection_init di])"
    by (rule init_works_run_all) (use sss cmsr others sel in \<open>auto intro!: init_works_for_each port_init_works\<close>)
  with assms show ?thesis
    unfolding domain_machines_init_def init_works_def by (simp only:)
qed

text \<open>The clocks: their devices open, and no clock is added twice.\<close>

definition clk_ids :: "gptpclock_data \<Rightarrow> bool \<times> int list" where
  "clk_ids c = (opened c, map clockIndex (clds c))"

lemma clk_ids_view: "clock_view c1 = clock_view c \<Longrightarrow> clk_ids c1 = clk_ids c"
proof -
  assume v: "clock_view c1 = clock_view c"
  then have "map fst (map od_view (clds c1)) = map fst (map od_view (clds c))" by (simp add: clock_view_def)
  moreover have "fst (od_view od) = clockIndex od" for od by (simp add: od_view_def)
  ultimately show ?thesis using v by (simp add: clk_ids_def clock_view_def comp_def)
qed

lemma clk_ids_set [simp]:
  "(\<And>od. clockIndex (f od) = clockIndex od) \<Longrightarrow> clk_ids (set_clock i f c) = clk_ids c"
  "clk_ids (set_pp i h c) = clk_ids c" "clk_ids (set_pdd d k c) = clk_ids c"
  by (auto simp: clk_ids_def set_clock_def set_pp_def set_pdd_def Let_def intro!: list_update_map_same)

lemma view_setoffset64_result: "time_setoffset64 p ts ci dn g = (v, g1) \<Longrightarrow> clock_view g1 = clock_view g"
  by (metis snd_conv view_time_setoffset64)

lemma view_avarage_loop: "avarage_loop e pf ci dn n acc c = (r, c1) \<Longrightarrow> clock_view c1 = clock_view c"
  by (induction e pf ci dn n acc c arbitrary: r c1 rule: avarage_loop.induct)
    (auto simp: Let_def split: prod.splits if_splits dest!: view_setoffset64_result)

lemma view_avarage: "avarage_time_setoffset e pf ci dn c = (r, c1) \<Longrightarrow> clock_view c1 = clock_view c"
  by (auto simp: avarage_time_setoffset_def Let_def split: prod.splits if_splits dest!: view_avarage_loop)

definition opens :: "platform \<Rightarrow> bool" where
  "opens pf \<longleftrightarrow> (\<forall>dev. fst (hw_open pf dev) \<in> {PTPCLOCK_RDWR, PTPCLOCK_RDONLY})"

lemma add_clock_ok:
  assumes "opens pf" "opened c" "ci \<notin> set (map clockIndex (clds c))"
  shows "\<exists>c1. gptpclock_add_clock e pf ci dev di dn cid c = (0, c1) \<and>
     clk_ids c1 = (True, map clockIndex (clds c) @ [ci])"
proof -
  have free: "get_clockod c ci dn = None"
    using assms(3) by (auto simp: get_clockod_def is_clock_def find_None_iff)
  obtain st fd where o: "hw_open pf dev = (st, fd)" by (cases "hw_open pf dev")
  have st: "st = PTPCLOCK_RDWR \<or> st = PTPCLOCK_RDONLY"
    using assms(1) o unfolding opens_def by (metis fst_conv insertE singletonD)
  define base where "base = c\<lparr>gcpp := (if ci \<noteq> 0 then gcpp c else (gcpp c)[di := zero_ppara\<lparr>pp_gmchange_ind := 1\<rparr>]),
    clds := clds c @ [zero_oneclock\<lparr>clockIndex := ci, clockId := cid, od_domainIndex := di\<rparr>]\<rparr>"
  have b: "clk_ids base = (True, map clockIndex (clds c) @ [ci])"
    using assms(2) by (simp add: base_def clk_ids_def)
  define c5 where "c5 = set_pp (length (clds c)) (\<lambda>q. q\<lparr>pp_ptpdev := take (MAX_PTPDEV_NAME - 1) dev\<rparr>)
    (set_clock (length (clds c)) (\<lambda>od. od\<lparr>ptpfd := fd, od_state := st\<rparr>)
      (set_pdd di (\<lambda>d. d\<lparr>pdd_domainNumber := dn\<rparr>) (set_pp (length (clds c)) (\<lambda>q. q\<lparr>pp_domainNumber := dn\<rparr>) base)))"
  obtain diff c6 where a: "avarage_time_setoffset e pf ci dn c5 = (diff, c6)"
    by (cases "avarage_time_setoffset e pf ci dn c5")
  have "clk_ids c6 = clk_ids c5" by (rule clk_ids_view [OF view_avarage [OF a]])
  then have ids: "clk_ids c6 = (True, map clockIndex (clds c) @ [ci])"
    unfolding c5_def by (simp add: b)
  have "gptpclock_add_clock e pf ci dev di dn cid c =
     (0, set_pp (length (clds c)) (\<lambda>q. q\<lparr>pp_offset64 := 0\<rparr>)
       (set_clock (length (clds c)) (\<lambda>od. od\<lparr>offset64 := 0, ts2diff := diff\<rparr>) c6))"
    using assms(2) st a free
    by (cases "ci = 0") (auto simp: gptpclock_add_clock_def free Let_def o base_def c5_def)
  then show ?thesis using ids by simp
qed

lemma add_port_clocks_ok:
  assumes "opens pf" "opened c" "distinct is" "\<forall>i\<in>set is. int i \<notin> set (map clockIndex (clds c))"
  shows "\<exists>c1. add_port_clocks e pf nc di dn ci is c = (0, c1) \<and> opened c1 \<and>
     set (map clockIndex (clds c1)) \<subseteq> set (map clockIndex (clds c)) \<union> int ` set is"
  using assms
proof (induction "is" arbitrary: c)
  case (Cons i "is")
  show ?case
  proof (cases "(di \<noteq> 0 \<and> int i \<noteq> ci) \<or> ptpdev_of nc (int i - 1) = []")
    case True
    then have "add_port_clocks e pf nc di dn ci (i # is) c = add_port_clocks e pf nc di dn ci is c" by auto
    moreover obtain c1 where "add_port_clocks e pf nc di dn ci is c = (0, c1)" "opened c1"
      "set (map clockIndex (clds c1)) \<subseteq> set (map clockIndex (clds c)) \<union> int ` set is"
      using Cons.IH [OF Cons.prems(1,2)] Cons.prems(3,4) by auto
    ultimately show ?thesis by auto
  next
    case False
    obtain c1 where c1: "gptpclock_add_clock e pf (int i) (ptpdev_of nc (int i - 1)) di dn
        (create_clockid nc (int i - 1) dn) c = (0, c1)" "clk_ids c1 = (True, map clockIndex (clds c) @ [int i])"
      using add_clock_ok [OF Cons.prems(1,2)] Cons.prems(4) by (metis list.set_intros(1))
    then have ids: "opened c1" "map clockIndex (clds c1) = map clockIndex (clds c) @ [int i]"
      by (simp_all add: clk_ids_def)
    have "\<forall>j\<in>set is. int j \<notin> set (map clockIndex (clds c1))" using Cons.prems(3,4) ids(2) by auto
    then obtain c2 where c2: "add_port_clocks e pf nc di dn ci is c1 = (0, c2)" "opened c2"
      "set (map clockIndex (clds c2)) \<subseteq> set (map clockIndex (clds c1)) \<union> int ` set is"
      using Cons.IH [OF Cons.prems(1) ids(1)] Cons.prems(3) by auto
    have "set (map clockIndex (clds c2)) \<subseteq> set (map clockIndex (clds c)) \<union> int ` set (i # is)"
      using c2(3) unfolding ids(2) by auto
    with False c1(1) c2(1,2) show ?thesis by auto
  qed
qed simp

lemma init_domain_clock_ok:
  assumes "opens pf" "opened (clocks g)" "clds (clocks g) = []"
  shows "\<exists>c. init_domain_clock e pf nc di dn ci g = (0, g\<lparr>clocks := c\<rparr>)"
proof -
  define n where "n = (if conf e CONF_SINGLE_CLOCK_MODE \<noteq> 0 then 2 else man_max_ports g)"
  obtain c1 where c1: "add_port_clocks e pf nc di dn ci [1..<n] (clocks g) = (0, c1)" "opened c1"
    "set (map clockIndex (clds c1)) \<subseteq> int ` set [1..<n]"
    using add_port_clocks_ok [OF assms(1,2) distinct_upt] assms(3)
    by (metis (no_types, lifting) Un_empty_left empty_iff empty_set list.map_disc_iff)
  have "(0::int) \<notin> set (map clockIndex (clds c1))" using c1(3) by auto
  from add_clock_ok [OF assms(1) c1(2) this] obtain c2 where
    "gptpclock_add_clock e pf 0 (ptpdev_of nc (ci - 1)) di dn (create_clockid nc (ci - 1) dn) c1 = (0, c2)" by blast
  with c1(1) show ?thesis unfolding init_domain_clock_def n_def [symmetric] by auto
qed

lemma start_domain_ok:
  assumes "opens pf" "opened (clocks g)" "clds (clocks g) = []" "0 < man_max_domains g"
    "length (tasds g) = man_max_domains g"
  shows "\<exists>g1. start_domain e pf io nc seq 0 0 ci g = Done (0, g1)"
proof -
  let ?g = "put_tasd 0 (new_tasd e 0 (man_max_ports g)) g"
  have slot: "domain_slot g 0 = Some 0" using assms(4) by (simp add: domain_slot_def)
  have max: "man_max_ports ?g = man_max_ports g" by (simp add: put_tasd_def)
  have ready: "domain_ready 0 (man_max_ports g) (clocks g) ?g"
    unfolding domain_ready_def using new_tasd_is [where g = g and di = 0 and e = e and dn = 0 and n = "man_max_ports g"] assms(4,5) by fastforce
  obtain g1 where g1: "domain_machines_init e pf io seq 0 ?g = Done g1" "domain_ready 0 (man_max_ports g) (clocks g) g1"
    using domain_machines_work [OF ready max] by blast
  have d: "gptpman_domain_init e pf io seq 0 g = Done (0, g1)" using slot g1(1) by (simp add: gptpman_domain_init_def)
  have c: "clocks g1 = clocks g" using g1(2) by (simp add: domain_ready_def)
  obtain c1 where c1: "init_domain_clock e pf nc 0 0 ci g1 = (0, g1\<lparr>clocks := c1\<rparr>)"
    using init_domain_clock_ok [OF assms(1), of g1] assms(2,3) c by metis
  obtain t where t: "tasd_at (g1\<lparr>clocks := c1\<rparr>) 0 = Some t"
    using g1(2) by (auto simp: domain_ready_def domain_is_def tasd_at_def)
  then have "\<exists>r. set_domain_thisClock pf 0 0 ci (g1\<lparr>clocks := c1\<rparr>) = Done r"
    by (simp add: set_domain_thisClock_def Let_def)
  then obtain x g2 where g2: "set_domain_thisClock pf 0 0 ci (g1\<lparr>clocks := c1\<rparr>) = Done (x, g2)"
    by (metis surj_pair)
  have "map_option tasd_shape (tasd_at g2 0) = map_option tasd_shape (tasd_at (g1\<lparr>clocks := c1\<rparr>) 0)"
    by (rule tasd_at_shape [OF set_domain_thisClock_shape [OF g2]])
  then obtain t2 where "tasd_at g2 0 = Some t2" using t by (cases "tasd_at g2 0") auto
  with d c1 g2 show ?thesis by (simp add: start_domain_def)
qed

lemma start_works:
  assumes "opens pf" "devices + 1 < MAX_PORT_NUMBER_LIMIT" "0 < doms" "conf e CONF_SECOND_DOMAIN_THIS_CLOCK < 0"
  shows "\<exists>g. gptpman_start e pf io nc seq devices doms = Done (0, g)"
proof -
  let ?z = "zero_gptpman e devices doms"
  have z: "opened (clocks ?z)" "clds (clocks ?z) = []" "0 < man_max_domains ?z" "length (tasds ?z) = man_max_domains ?z"
    using assms(3) by (simp_all add: zero_gptpman_def gptpclock_init_def Let_def)
  obtain g where "start_domain e pf io nc seq 0 0 (conf e CONF_FIRST_DOMAIN_THIS_CLOCK) ?z = Done (0, g)"
    using start_domain_ok [OF assms(1) z] by blast
  with assms show ?thesis by (simp add: gptpman_start_def static_domains_init_def)
qed


text \<open>A configuration with two devices and one domain.\<close>

definition sample_net_cfg :: net_cfg where
  "sample_net_cfg = \<lparr>ptpdev_of = (\<lambda>_. ''/dev/ptp0''), create_clockid = (\<lambda>_ _. sample_clock)\<rparr>"

lemma sample_opens: "opens sample_platform"
  by (simp add: opens_def sample_platform_def)


theorem running_daemon_has_machines_witness:
  "\<exists>g. daemon_reaches default_env sample_platform sample_net_cfg (\<lambda>_ _. 0) sample_lib 2 1 g \<and> well_made 3 g"
proof -
  have "\<exists>g. gptpman_start default_env sample_platform (\<lambda>_ _. sample_io) sample_net_cfg (\<lambda>_ _. 0) 2 1 = Done (0, g)"
    by (rule start_works [OF sample_opens]) (simp_all add: MAX_PORT_NUMBER_LIMIT_def default_env_def)
  then obtain g where "daemon_reaches default_env sample_platform sample_net_cfg (\<lambda>_ _. 0) sample_lib 2 1 g"
    using daemon_reaches.started by blast
  then have "daemon_reaches default_env sample_platform sample_net_cfg (\<lambda>_ _. 0) sample_lib 2 1 g \<and> well_made 3 g"
    using running_daemon_has_machines [of default_env sample_platform sample_net_cfg "\<lambda>_ _. 0" sample_lib 2 1 g] by simp
  then show ?thesis by blast
qed

end
