(* ===== verification/Gptp_DaemonFacts.thy ===== *)
theory Gptp_DaemonFacts
  imports Gptp_Start
begin

text \<open>
  What the daemon promises of its events (\<^verbatim>\<open>gptpman.c\<close>): when a port is capable, what a link that goes
  down leads to, which messages are served in which domain, and what the clients are told.
\<close>

section \<open>Reading and writing the variables of a port\<close>

lemma tasglb_put_ptd:
  "map_option tasglb (tasd_at (put_ptd di port p g) dj) = map_option tasglb (tasd_at g dj)"
  "map_option btasglb (tasd_at (put_ptd di port p g) dj) = map_option btasglb (tasd_at g dj)"
  by (auto simp: tasd_at_put_ptd option.map_comp comp_def)

text \<open>The variables are those of the domain, those of the port, and what domain 0 has for all.\<close>

lemma shared_at_vars:
  assumes "map_option tasglb (tasd_at h di) = map_option tasglb (tasd_at g di)"
    and "map_option btasglb (tasd_at h di) = map_option btasglb (tasd_at g di)"
    and "ptd_at h di port = ptd_at g di port" "ptd_at h 0 port = ptd_at g 0 port"
  shows "shared_at h di port = shared_at g di port"
  using assms
  by (cases "tasd_at g di"; cases "tasd_at h di")
    (auto simp: shared_at_def port_ppg_def port_mdeg_def split: option.splits)

lemma shared_at_Some_iff: "shared_at g di port = Some sh \<longleftrightarrow>
   (\<exists>t p. tasd_at g di = Some t \<and> ptd_at g di port = Some p \<and>
     sh = \<lparr>sh_pt = tasglb t, sh_pp = port_ppg g port p, sh_bt = btasglb t, sh_bp = bppglb p, sh_md = port_mdeg g port p\<rparr>)"
  by (auto simp: shared_at_def split: option.splits)

lemma put_shared_read:
  assumes "shared_at g di port = Some sh0"
  shows "shared_at (put_shared di port sh g) di port = Some sh"
proof -
  obtain t p where tp: "tasd_at g di = Some t" "ptd_at g di port = Some p"
    using assms by (auto simp: shared_at_Some_iff)
  show ?thesis
    using tp
    by (cases "ptd_at g 0 port"; cases "di = 0")
      (auto simp: put_shared_def put_common_def shared_at_Some_iff tasd_at_put_ptd ptd_at_put_ptd tasd_at_put
        ptd_at_put_tasd port_ppg_def port_mdeg_def)
qed

lemma put_shared_tasd: "tasd_at (put_shared di port sh g) dj = None \<longleftrightarrow> tasd_at g dj = None"
  by (auto simp: put_shared_def put_common_def tasd_at_put_ptd tasd_at_put split: option.splits)

lemma put_shared_ptd: "ptd_at (put_shared di port sh g) dj q = None \<longleftrightarrow> ptd_at g dj q = None"
  by (auto simp: put_shared_def put_common_def ptd_at_put_ptd ptd_at_put_tasd split: option.splits if_splits)

definition with_common :: "shared \<Rightarrow> shared \<Rightarrow> shared" where
  "with_common c s = s\<lparr>sh_pp := (sh_pp s)\<lparr>forAllDomain := forAllDomain (sh_pp c)\<rparr>,
     sh_md := (sh_md s)\<lparr>md_forAllDomain := md_forAllDomain (sh_md c)\<rparr>\<rparr>"

lemma put_shared_other:
  assumes "shared_at g di port = Some sh0" "ptd_at g 0 port \<noteq> None" "dj \<noteq> di"
  shows "shared_at (put_shared di port sh g) dj port = map_option (with_common sh) (shared_at g dj port)"
proof -
  obtain t p where tp: "tasd_at g di = Some t" "ptd_at g di port = Some p"
    using assms by (auto simp: shared_at_Some_iff)
  obtain q where q: "ptd_at g 0 port = Some q" using assms(2) by auto
  show ?thesis
    using tp q assms(3)
    by (cases "tasd_at g dj"; cases "ptd_at g dj port"; cases "di = 0"; cases "dj = 0")
      (auto simp: put_shared_def put_common_def shared_at_def tasd_at_put_ptd ptd_at_put_ptd tasd_at_put
        ptd_at_put_tasd port_ppg_def port_mdeg_def with_common_def)
qed

lemma common_agrees:
  assumes "shared_at g di port = Some s" "shared_at g dj port = Some u" "ptd_at g 0 port \<noteq> None"
  shows "with_common s u = u"
  using assms by (auto simp: shared_at_Some_iff with_common_def port_ppg_def port_mdeg_def)

lemma with_common_link:
  assumes "with_common c u = u"
  shows "forAllDomain (sh_pp u) = forAllDomain (sh_pp c)" "md_forAllDomain (sh_md u) = md_forAllDomain (sh_md c)"
  using arg_cong [OF assms, of "\<lambda>x. forAllDomain (sh_pp x)"] arg_cong [OF assms, of "\<lambda>x. md_forAllDomain (sh_md x)"]
  by (simp_all add: with_common_def)

lemma well_made_ports:
  assumes "well_made n g" "tasd_at g di = Some t" "port < n"
  shows "ptd_at g di port \<noteq> None" "shared_at g di port \<noteq> None"
proof -
  have "tasd_shape t = all_machines n di" using assms(1,2) by (simp add: well_made_def)
  then have "length (map port_machines (ptds t)) = n" by (auto simp: tasd_shape_def dest: map_eq_imp_length_eq)
  then show "ptd_at g di port \<noteq> None" "shared_at g di port \<noteq> None"
    using assms(2,3) by (simp_all add: ptd_at_def shared_at_def)
qed

text \<open>A change of a port in every domain that leaves the common variables alone.\<close>

definition domain_step :: "bool \<Rightarrow> nat \<Rightarrow> (shared \<Rightarrow> shared) \<Rightarrow> nat \<Rightarrow> gptpman_data \<Rightarrow> gptpman_data outcome" where
  "domain_step guarded port h di g = (if guarded \<and> \<not> DOMAIN_DATA_EXIST g di then Done g else upd_shared di port h g)"

lemma each_domain:
  assumes "\<And>s u. with_common (h s) u = with_common s u" "distinct ds" "ptd_at g 0 port \<noteq> None"
    and "\<forall>di\<in>set ds. tasd_at g di \<noteq> None \<longrightarrow> shared_at g di port \<noteq> None"
    and "\<forall>di\<in>set ds. di < man_max_domains g \<and> (guarded \<or> tasd_at g di \<noteq> None)"
  shows "\<exists>g1. for_each (domain_step guarded port h) ds g = Done g1 \<and>
    (\<forall>dj. shared_at g1 dj port = (if dj \<in> set ds then map_option h (shared_at g dj port) else shared_at g dj port))"
  using assms(2-)
proof (induction ds arbitrary: g)
  case Nil
  then show ?case by (simp add: for_each_def)
next
  case (Cons di ds)
  show ?case
  proof (cases "tasd_at g di")
    case None
    then have step: "domain_step guarded port h di g = Done g"
      using Cons.prems(4) by (auto simp: domain_step_def DOMAIN_DATA_EXIST_def)
    have "shared_at g di port = None" using None by (simp add: shared_at_def)
    moreover obtain g1 where "for_each (domain_step guarded port h) ds g = Done g1"
      "\<forall>dj. shared_at g1 dj port = (if dj \<in> set ds then map_option h (shared_at g dj port) else shared_at g dj port)"
      using Cons.IH [of g] Cons.prems by auto
    ultimately show ?thesis using step by (auto simp: for_each_def)
  next
    case (Some t)
    then obtain sh where sh: "shared_at g di port = Some sh" using Cons.prems(3) by fastforce
    let ?g = "put_shared di port (h sh) g"
    have step: "domain_step guarded port h di g = Done ?g"
      using Some sh Cons.prems(4) by (auto simp: domain_step_def DOMAIN_DATA_EXIST_def upd_shared_def)
    have shape: "man_shape ?g = man_shape g" by (rule shape_put_shared)
    then have max: "man_max_domains ?g = man_max_domains g" by (simp add: man_shape_def)
    have here: "shared_at ?g di port = Some (h sh)" by (rule put_shared_read [OF sh])
    have there: "shared_at ?g dj port = shared_at g dj port" if "dj \<noteq> di" for dj
    proof (cases "shared_at g dj port")
      case (Some u)
      then have "with_common (h sh) u = u"
        using common_agrees [OF sh Some Cons.prems(2)] assms(1) by simp
      then show ?thesis using put_shared_other [OF sh Cons.prems(2) that] Some by simp
    qed (simp add: put_shared_other [OF sh Cons.prems(2) that])
    have "ptd_at ?g 0 port \<noteq> None" using Cons.prems(2) by (simp add: put_shared_ptd)
    moreover have "\<forall>dj\<in>set ds. tasd_at ?g dj \<noteq> None \<longrightarrow> shared_at ?g dj port \<noteq> None"
    proof
      fix dj
      assume "dj \<in> set ds"
      moreover from this have "dj \<noteq> di" using Cons.prems(1) by auto
      ultimately show "tasd_at ?g dj \<noteq> None \<longrightarrow> shared_at ?g dj port \<noteq> None"
        using Cons.prems(3) there [of dj] put_shared_tasd [of di port "h sh" g dj] by simp
    qed
    moreover have "\<forall>dj\<in>set ds. dj < man_max_domains ?g \<and> (guarded \<or> tasd_at ?g dj \<noteq> None)"
      using Cons.prems(4) max by (auto simp: put_shared_tasd)
    ultimately obtain g1 where g1: "for_each (domain_step guarded port h) ds ?g = Done g1"
      "\<forall>dj. shared_at g1 dj port = (if dj \<in> set ds then map_option h (shared_at ?g dj port) else shared_at ?g dj port)"
      using Cons.IH [of ?g] Cons.prems(1) by auto
    have "for_each (domain_step guarded port h) (di # ds) g = Done g1"
      using step g1(1) by (simp add: for_each_def)
    moreover have "shared_at g1 dj port =
        (if dj \<in> set (di # ds) then map_option h (shared_at g dj port) else shared_at g dj port)" for dj
      using g1(2) here there [of dj] sh Cons.prems(1) by (cases "dj = di") auto
    ultimately show ?thesis by blast
  qed
qed

section \<open>Capable ports\<close>

lemma forAllDomain_asCapable [simp]:
  "forAllDomain (asCapable_up p) = forAllDomain p" "forAllDomain (asCapable_down p) = forAllDomain p"
  "asCapable (asCapable_up p)" "\<not> asCapable (asCapable_down p)"
  "neighborGptpCapable (asCapable_up p) = neighborGptpCapable p"
  "neighborGptpCapable (asCapable_down p) = neighborGptpCapable p"
  by (simp_all add: asCapable_up_def asCapable_down_def)

definition capable_here :: "shared \<Rightarrow> bool" where
  "capable_here sh \<longleftrightarrow> asCapableAcrossDomains (md_forAllDomain (sh_md sh)) \<or> neighborGptpCapable (sh_pp sh)"

lemma set_asCapable_frame [simp]:
  "sh_md (set_asCapable s) = sh_md s" "sh_pt (set_asCapable s) = sh_pt s" "sh_bt (set_asCapable s) = sh_bt s"
  "sh_bp (set_asCapable s) = sh_bp s" "forAllDomain (sh_pp (set_asCapable s)) = forAllDomain (sh_pp s)"
  "neighborGptpCapable (sh_pp (set_asCapable s)) = neighborGptpCapable (sh_pp s)"
  by (simp_all add: set_asCapable_def)

lemma set_asCapable_capable: "asCapable (sh_pp (set_asCapable s)) = capable_here s"
  by (simp add: set_asCapable_def capable_here_def)

text \<open>The flags tell the clients of the last change: never both of up and down.\<close>

definition flags_exclusive :: "PerPortGlobal \<Rightarrow> bool" where
  "flags_exclusive p \<longleftrightarrow>
     \<not> (portEventFlags p AND EVENT_PORT_AS_CAPABLE_UP \<noteq> 0 \<and> portEventFlags p AND EVENT_PORT_AS_CAPABLE_DOWN \<noteq> 0)"

lemma flag_masks:
  "(y AND - 129) AND 128 = (0 :: u32)" "(y AND - 257) AND 256 = (0 :: u32)"
  by (simp_all add: and.assoc)

lemma flags_exclusive_kept:
  "flags_exclusive (asCapable_up p)" "flags_exclusive (asCapable_down p)"
  by (simp_all add: flags_exclusive_def asCapable_up_def asCapable_down_def EVENT_PORT_AS_CAPABLE_UP_def
      EVENT_PORT_AS_CAPABLE_DOWN_def flag_masks)

definition capable_step :: "shared \<Rightarrow> shared" where
  "capable_step sh = (set_asCapable sh)\<lparr>sh_pt := (sh_pt sh)
     \<lparr>asCapableOrAll := asCapableOrAll (sh_pt sh) \<or> asCapable (sh_pp (set_asCapable sh))\<rparr>\<rparr>"

lemma asCapable_port_step:
  "(\<lambda>di g. if DOMAIN_DATA_EXIST g di then asCapable_port di port g else Done g) = domain_step True port capable_step"
  by (intro ext) (auto simp: asCapable_port_def domain_step_def capable_step_def [abs_def] Let_def)

lemma capable_step_frame:
  "with_common (capable_step s) u = with_common s u" "sh_md (capable_step s) = sh_md s"
  "asCapable (sh_pp (capable_step s)) = capable_here s"
  by (simp_all add: capable_step_def with_common_def set_asCapable_capable)

text \<open>C12: After the last message of a peer delay exchange, a port is capable in a domain exactly if the link is
  capable for all domains or the neighbour has said so in that domain; this holds in all the domains,
  however many there are, and the variables of the link stay as they were.
\<close>

theorem capable_follows_link:
  assumes "well_made n g" "port < n"
  shows "\<exists>g1. update_asCapable port g = Done g1 \<and>
    (\<forall>di s. DOMAIN_DATA_EXIST g di \<and> shared_at g di port = Some s \<longrightarrow> (\<exists>sh. shared_at g1 di port = Some sh \<and>
       asCapable (sh_pp sh) = (asCapableAcrossDomains (md_forAllDomain (sh_md s)) \<or> neighborGptpCapable (sh_pp s)) \<and>
       sh_md sh = sh_md s))"
proof -
  obtain t where t: "tasd_at g 0 = Some t" using assms(1) by (auto simp: well_made_def)
  define h where "h = put_tasd 0 (t\<lparr>tasglb := (tasglb t)\<lparr>asCapableOrAll := False\<rparr>\<rparr>) g"
  have "man_shape h = man_shape g" unfolding h_def by (rule put_tasglb_shape(1) [OF t])
  then have w: "well_made n h" using assms(1) by (rule well_made_shape)
  have max: "man_max_domains h = man_max_domains g" by (simp add: h_def put_tasd_def)
  have ex: "tasd_at h di = None \<longleftrightarrow> tasd_at g di = None" for di using t by (simp add: h_def tasd_at_put)
  have z: "ptd_at h 0 port \<noteq> None"
    using well_made_ports(1) [OF w _ assms(2)] t by (auto simp: h_def tasd_at_put)
  have all: "\<forall>di\<in>set [0..<man_max_domains g]. tasd_at h di \<noteq> None \<longrightarrow> shared_at h di port \<noteq> None"
    using well_made_ports(2) [OF w _ assms(2)] by blast
  obtain g1 where g1: "for_each (domain_step True port capable_step) [0..<man_max_domains g] h = Done g1"
    "\<forall>dj. shared_at g1 dj port = (if dj \<in> set [0..<man_max_domains g]
      then map_option capable_step (shared_at h dj port) else shared_at h dj port)"
    using each_domain [where h = capable_step and guarded = True, OF capable_step_frame(1) _ z all] max by auto
  have "update_asCapable port g = Done g1"
    using t g1(1) by (simp add: update_asCapable_def upd_tas_def asCapable_port_step h_def)
  moreover have "\<exists>sh. shared_at g1 di port = Some sh \<and> asCapable (sh_pp sh) = capable_here s \<and> sh_md sh = sh_md s"
    if d: "DOMAIN_DATA_EXIST g di" "shared_at g di port = Some s" for di s
  proof -
    have "\<exists>u. shared_at h di port = Some u \<and> sh_md u = sh_md s \<and> sh_pp u = sh_pp s"
      using d(2) t by (auto simp: h_def shared_at_Some_iff tasd_at_put ptd_at_put_tasd port_ppg_def port_mdeg_def)
    then obtain u where u: "shared_at h di port = Some u" "sh_md u = sh_md s" "sh_pp u = sh_pp s" by blast
    moreover have "di < man_max_domains g" using d(1) by (simp add: DOMAIN_DATA_EXIST_def)
    ultimately have "shared_at g1 di port = Some (capable_step u)" using g1(2) by simp
    moreover have "capable_here u = capable_here s" using u by (simp add: capable_here_def)
    ultimately show ?thesis using u(2) capable_step_frame by simp
  qed
  ultimately show ?thesis unfolding capable_here_def by blast
qed

lemma devdown_frame [simp]:
  "with_common (devdown_port s) u = with_common s u" "\<not> asCapable (sh_pp (devdown_port s))"
  by (simp_all add: devdown_port_def with_common_def)

lemma devdown_port_link:
  "forAllDomain (sh_pp (devdown_port s)) = forAllDomain (sh_pp s)" "sh_md (devdown_port s) = sh_md s"
  by (simp_all add: devdown_port_def)

lemma netdev_frame [simp]:
  "tasd_at (netdev_notice fl port g) = tasd_at g" "shared_at (netdev_notice fl port g) = shared_at g"
  "ptd_at (netdev_notice fl port g) = ptd_at g" "man_max_domains (netdev_notice fl port g) = man_max_domains g"
proof -
  show data: "tasd_at (netdev_notice fl port g) = tasd_at g" "ptd_at (netdev_notice fl port g) = ptd_at g"
    "man_max_domains (netdev_notice fl port g) = man_max_domains g"
    by (simp_all add: netdev_notice_def gptpnet_ipc_notice_def)
  show "shared_at (netdev_notice fl port g) = shared_at g"
    by (intro ext shared_at_vars) (simp_all add: data)
qed

lemma devdown_steps: "(\<lambda>di. upd_shared di port devdown_port) = domain_step False port devdown_port"
  by (intro ext) (simp add: domain_step_def)

text \<open>C13: A link that goes down takes its port out of every domain: it is not operational, not capable, and the
  link is not capable for all domains. This needs every domain to be there.
\<close>

theorem devdown_takes_port_down:
  assumes "well_made n g" "port < n" "\<forall>di < man_max_domains g. tasd_at g di \<noteq> None" "0 < man_max_domains g"
  shows "\<exists>g1. gptpnet_cb_devdown port g = Done g1 \<and>
    (\<forall>di < man_max_domains g. \<exists>sh. shared_at g1 di port = Some sh \<and> \<not> asCapable (sh_pp sh) \<and>
       \<not> portOper (forAllDomain (sh_pp sh)) \<and> \<not> asCapableAcrossDomains (md_forAllDomain (sh_md sh)))"
proof -
  define g0 where "g0 = netdev_notice EVENT_CLOCK_NETDEV_DOWN port g"
  have "man_shape g0 = man_shape g" by (simp add: g0_def)
  then have w0: "well_made n g0" using assms(1) by (rule well_made_shape)
  obtain t where t: "tasd_at g0 0 = Some t" using w0 by (auto simp: well_made_def)
  obtain s where s: "shared_at g0 0 port = Some s" using well_made_ports(2) [OF w0 t assms(2)] by auto
  have z0: "ptd_at g0 0 port \<noteq> None" using well_made_ports(1) [OF w0 t assms(2)] .
  define h where "h = put_shared 0 port (devdown_common s) g0"
  have "man_shape h = man_shape g0" unfolding h_def by (rule shape_put_shared)
  then have w: "well_made n h" using w0 by (rule well_made_shape)
  have max: "man_max_domains h = man_max_domains g"
    using \<open>man_shape h = man_shape g0\<close> by (simp add: man_shape_def g0_def)
  have z: "ptd_at h 0 port \<noteq> None" using z0 by (simp add: h_def put_shared_ptd)
  have ex: "\<forall>di\<in>set [0..<man_max_domains g]. di < man_max_domains h \<and> (False \<or> tasd_at h di \<noteq> None)"
    using assms(3) max by (auto simp: h_def put_shared_tasd g0_def)
  have all: "\<forall>di\<in>set [0..<man_max_domains g]. tasd_at h di \<noteq> None \<longrightarrow> shared_at h di port \<noteq> None"
    using well_made_ports(2) [OF w _ assms(2)] by blast
  obtain g1 where g1: "for_each (domain_step False port devdown_port) [0..<man_max_domains g] h = Done g1"
    "\<forall>dj. shared_at g1 dj port = (if dj \<in> set [0..<man_max_domains g]
      then map_option devdown_port (shared_at h dj port) else shared_at h dj port)"
    using each_domain [where h = devdown_port and guarded = False, OF devdown_frame(1) _ z all ex] by auto
  have "gptpnet_cb_devdown port g = Done g1"
    using s g1(1) by (simp add: gptpnet_cb_devdown_def pure_def upd_shared_def devdown_steps g0_def h_def)
  moreover have "\<exists>sh. shared_at g1 di port = Some sh \<and> \<not> asCapable (sh_pp sh) \<and>
       \<not> portOper (forAllDomain (sh_pp sh)) \<and> \<not> asCapableAcrossDomains (md_forAllDomain (sh_md sh))"
    if d: "di < man_max_domains g" for di
  proof -
    obtain u where u: "shared_at h di port = Some u" using ex all d by force
    have h0: "shared_at h 0 port = Some (devdown_common s)" unfolding h_def by (rule put_shared_read [OF s])
    note with_common_link [OF common_agrees [OF h0 u z]]
    with u g1(2) d show ?thesis by (simp add: devdown_port_link devdown_common_def set_portOper_def)
  qed
  ultimately show ?thesis by blast
qed

lemma missing_domain_faults:
  assumes "di \<in> set ds" "tasd_at g di = None"
  shows "for_each (\<lambda>di. upd_shared di port h) ds g = Fault"
  using assms
proof (induction ds arbitrary: g)
  case (Cons dj ds)
  show ?case
  proof (cases "shared_at g dj port")
    case None
    then show ?thesis by (simp add: for_each_def upd_shared_def)
  next
    case (Some sh)
    then have "tasd_at g dj \<noteq> None" by (auto simp: shared_at_Some_iff)
    then have "di \<in> set ds" using Cons.prems by auto
    moreover have "tasd_at (put_shared dj port (h sh) g) di = None" using Cons.prems(2) by (simp add: put_shared_tasd)
    ultimately show ?thesis
      using Cons.IH [of "put_shared dj port (h sh) g"] Some by (simp add: for_each_def upd_shared_def)
  qed
qed simp

lemma devdown_missing_domain:
  assumes "di < man_max_domains g" "tasd_at g di = None"
  shows "gptpnet_cb_devdown port g = Fault"
proof (cases "shared_at g 0 port")
  case (Some s)
  let ?n = "netdev_notice EVENT_CLOCK_NETDEV_DOWN port g"
  let ?h = "put_shared 0 port (devdown_common s) ?n"
  have step: "upd_shared 0 port devdown_common ?n = Done ?h" using Some by (simp add: upd_shared_def)
  have "tasd_at ?h di = None" using assms(2) by (simp add: put_shared_tasd)
  with assms(1) have "for_each (\<lambda>di. upd_shared di port devdown_port) [0..<man_max_domains g] ?h = Fault"
    by (intro missing_domain_faults) auto
  then show ?thesis by (simp add: gptpnet_cb_devdown_def pure_def step)
qed (simp add: gptpnet_cb_devdown_def pure_def upd_shared_def)

text \<open>Only the domain that is started is made.\<close>

lemma start_domain_only:
  assumes "start_domain e pf io nc seq di dn ci g = Done (0, g1)" "length (tasds g) = man_max_domains g"
  shows "\<exists>k. domain_slot g dn = Some k \<and> (\<forall>dj. dj \<noteq> k \<longrightarrow> (tasd_at g1 dj = None \<longleftrightarrow> tasd_at g dj = None)) \<and>
    man_max_domains g1 = man_max_domains g \<and> length (tasds g1) = length (tasds g)"
proof -
  obtain h where h: "gptpman_domain_init e pf io seq dn g = Done (0, h)" "man_shape g1 = man_shape h"
    using start_domain_shape [OF assms(1)] by blast
  obtain k where k: "domain_slot g dn = Some k" "others k h = others k g"
    using domain_init_is [OF h(1) assms(2)] by metis
  have "tasd_at g1 dj = None \<longleftrightarrow> tasd_at g dj = None" if "dj \<noteq> k" for dj
    using others_tasd [OF k(2) that] tasd_at_shape [OF h(2), of dj] by (metis option.map_disc_iff)
  moreover have "man_max_domains g1 = man_max_domains g \<and> length (tasds g1) = length (tasds g)"
    using others_limits [OF k(2)] h(2) by (auto simp: man_shape_def dest: map_eq_imp_length_eq)
  ultimately show ?thesis using k(1) by blast
qed

lemma start_one_domain:
  assumes "gptpman_start e pf io nc seq devices doms = Done (0, g)" "conf e CONF_SECOND_DOMAIN_THIS_CLOCK < 0"
  shows "dj \<noteq> 0 \<Longrightarrow> tasd_at g dj = None" "man_max_domains g = man_max_domains (zero_gptpman e devices doms)"
proof -
  let ?z = "zero_gptpman e devices doms"
  have z: "length (tasds ?z) = man_max_domains ?z" by (simp add: zero_gptpman_def Let_def)
  obtain r g1 where g1: "start_domain e pf io nc seq 0 0 (conf e CONF_FIRST_DOMAIN_THIS_CLOCK) ?z = Done (r, g1)"
    using assms(1) by (cases "start_domain e pf io nc seq 0 0 (conf e CONF_FIRST_DOMAIN_THIS_CLOCK) ?z")
      (auto simp: gptpman_start_def static_domains_init_def split: if_splits)
  have "r = 0" "g1 = g"
    using assms g1 by (auto simp: gptpman_start_def static_domains_init_def split: if_splits)
  with start_domain_only [OF _ z] g1 obtain k where k: "domain_slot ?z 0 = Some k"
    "\<forall>dj. dj \<noteq> k \<longrightarrow> (tasd_at g dj = None \<longleftrightarrow> tasd_at ?z dj = None)"
    "man_max_domains g = man_max_domains ?z" by blast
  then show "dj \<noteq> 0 \<Longrightarrow> tasd_at g dj = None" "man_max_domains g = man_max_domains ?z"
    by (auto simp: domain_slot_def tasd_at_zero split: if_splits)
qed

text \<open>C39: A daemon that has room for a second domain and does not configure it starts, and crashes when the first
  link goes down: the loop over the domains does not ask whether they have been initialised.
\<close>

theorem link_down_crashes:
  assumes "opens pf" "devices + 1 < MAX_PORT_NUMBER_LIMIT" "1 < doms" "conf e CONF_SECOND_DOMAIN_THIS_CLOCK < 0"
  shows "\<exists>g. gptpman_start e pf io nc seq devices doms = Done (0, g) \<and>
    gptpnet_cb e pf io1 port cts64 GPTPNET_EVENT_DEVDOWN g = Fault"
proof -
  obtain g where g: "gptpman_start e pf io nc seq devices doms = Done (0, g)"
    using start_works [OF assms(1,2) _ assms(4)] assms(3) by force
  have "man_max_domains g = doms" using start_one_domain(2) [OF g assms(4)] assms(3) by (simp add: zero_gptpman_def Let_def)
  moreover have "tasd_at g 1 = None" using start_one_domain(1) [OF g assms(4)] by simp
  ultimately have "gptpnet_cb_devdown port g = Fault" using assms(3) by (intro devdown_missing_domain) auto
  with g show ?thesis by (auto simp: gptpnet_cb_def)
qed

text \<open>
  A second domain whose number is 0: the initialisation takes domain 0 for it, and the variables of domain
  1 are used although they are not there. The daemon never gets to its event loop.
\<close>

theorem second_domain_zero_never_starts:
  assumes "of_int (conf e CONF_SECOND_DOMAIN_NUMBER) = (0 :: u8)" "0 \<le> conf e CONF_SECOND_DOMAIN_THIS_CLOCK"
  shows "gptpman_start e pf io nc seq devices doms \<noteq> Done (0, g)"
proof
  let ?z = "zero_gptpman e devices doms" and ?ci = "conf e CONF_SECOND_DOMAIN_THIS_CLOCK"
  assume st: "gptpman_start e pf io nc seq devices doms = Done (0, g)"
  have z: "length (tasds ?z) = man_max_domains ?z" by (simp add: zero_gptpman_def Let_def)
  obtain r g1 where g1: "start_domain e pf io nc seq 0 0 (conf e CONF_FIRST_DOMAIN_THIS_CLOCK) ?z = Done (r, g1)"
    using st by (cases "start_domain e pf io nc seq 0 0 (conf e CONF_FIRST_DOMAIN_THIS_CLOCK) ?z")
      (auto simp: gptpman_start_def static_domains_init_def split: if_splits)
  have r: "r = 0" and second: "start_domain e pf io nc seq 1 0 ?ci g1 = Done (0, g)"
    using st g1 assms by (auto simp: gptpman_start_def static_domains_init_def split: if_splits)
  have none: "tasd_at g1 1 = None" "length (tasds g1) = man_max_domains g1"
    using start_domain_only [OF g1 [unfolded r] z] z by (auto simp: domain_slot_def tasd_at_zero split: if_splits)
  from start_domain_only [OF second none(2)] have "tasd_at g 1 = None"
    using none(1) by (auto simp: domain_slot_def split: if_splits)
  moreover have "tasd_at g 1 \<noteq> None"
  proof -
    obtain t h where "tasd_at h 1 = Some t" "g = put_tasd 1 (t\<lparr>btasglb := bmcs_ptas_glb_update e (btasglb t) (tasglb t) False\<rparr>) h"
      using second by (auto simp: start_domain_def and_then_Done split: option.splits if_splits prod.splits)
    then show ?thesis by (simp add: tasd_at_put)
  qed
  ultimately show False by blast
qed

section \<open>Requests and notices\<close>

text \<open>A request for the interval of the link delay reaches a machine that only domain 0 has.\<close>

lemma slot_missing:
  assumes "well_made n g" "di \<noteq> 0" "ptd_at g di port = Some p"
  shows "ldisetd p = None" "mdpdreqd p = None" "mdpdrespd p = None"
proof -
  obtain t where t: "tasd_at g di = Some t" "port < length (ptds t)" "p = ptds t ! port"
    using assms(3) by (auto simp: ptd_at_def split: option.splits if_splits)
  have "tasd_shape t = all_machines n di" using assms(1) t(1) by (simp add: well_made_def)
  then have l: "map port_machines (ptds t) = map (machines_of di) [0..<n]" by (simp add: tasd_shape_def)
  then have "length (ptds t) = n" by (auto dest: map_eq_imp_length_eq)
  with t(2,3) arg_cong [OF l, of "\<lambda>l. l ! port"] have "port_machines p = machines_of di port" by simp
  then show "ldisetd p = None" "mdpdreqd p = None" "mdpdrespd p = None"
    using assms(2) by (auto simp: port_machines_def machines_of_def numeral_eq_Suc Option.is_none_def split: option.splits)
qed

theorem interval_request_crashes_other_domain:
  assumes "well_made n g" "di \<noteq> 0" "ir_organizationSubType r = 2"
    and "run_port acc_sigrec di port (\<lambda>m. md_signaling_receive_sm_mdSignalingRec e m bs) g = Done (h, Some (IntervalReq r))"
  shows "recv_signaling e cts64 di port bs g \<noteq> Done g1"
proof
  assume "recv_signaling e cts64 di port bs g = Done g1"
  with assms(3,4) obtain h1 x h2 y where
    h1: "run_port acc_siset di port (\<lambda>m. sync_interval_setting_SignalingMsg1 e m r) h = Done (h1, x)" and
    h2: "run_port acc_ldiset di port (\<lambda>m. link_delay_interval_setting_SignalingMsg1 e m r) h1 = Done (h2, y)"
    by (auto simp: recv_signaling_def when_ret_def just_def and_then_Done split: option.splits)
  have w: "well_made n h1"
    using assms(1) by (intro well_made_shape [OF m_siset.shape_run_port [OF h1]] well_made_shape [OF m_sigrec.shape_run_port [OF assms(4)]])
  obtain p m where "ptd_at h1 di port = Some p" "acc_get acc_ldiset p = Some m"
    using h2 by (auto simp: run_port_def split: option.splits)
  with slot_missing(1) [OF w assms(2)] show False by (simp add: acc_ldiset_def)
qed

text \<open>The changes of a port are its flags; what has been told is a prefix of what will have been told.\<close>

definition flags_at :: "gptpman_data \<Rightarrow> nat \<Rightarrow> nat \<Rightarrow> u32 option" where
  "flags_at g di port = map_option (\<lambda>p. portEventFlags (ppglb p)) (ptd_at g di port)"

definition number_at :: "gptpman_data \<Rightarrow> nat \<Rightarrow> u8 option" where
  "number_at g di = map_option (\<lambda>t. domainNumber (tasglb t)) (tasd_at g di)"

definition told :: "gptpman_data \<Rightarrow> ipc_notice set" where
  "told g = set (notices g)"

lemma flags_at_other:
  "flags_at (gptpnet_ipc_notice m g) = flags_at g" "number_at (gptpnet_ipc_notice m g) = number_at g"
  "told (gptpnet_ipc_notice m g) = insert m (told g)" "man_max_ports (gptpnet_ipc_notice m g) = man_max_ports g"
  by (auto simp: gptpnet_ipc_notice_def flags_at_def number_at_def told_def fun_eq_iff)

lemma notice_port_effect:
  "flags_at (notice_port di g port) dj q =
     (if dj = di \<and> q = port then map_option (\<lambda>_. 0) (flags_at g dj q) else flags_at g dj q)"
  "number_at (notice_port di g port) dj = number_at g dj" "told g \<subseteq> told (notice_port di g port)"
  "number_at g di = Some dn \<Longrightarrow> flags_at g di port = Some fl \<Longrightarrow> fl \<noteq> 0 \<Longrightarrow>
     port_notice di port dn fl \<in> told (notice_port di g port)"
proof -
  note defs = notice_port_def ipc_port_state_notice_def gptpnet_ipc_notice_def flags_at_def number_at_def
    told_def ptd_at_put_ptd tasd_at_put_ptd
  have notices_put [simp]: "notices (put_ptd a b p h) = notices h" for a b p h
    by (simp add: put_ptd_def put_tasd_def split: option.split)
  show "flags_at (notice_port di g port) dj q =
     (if dj = di \<and> q = port then map_option (\<lambda>_. 0) (flags_at g dj q) else flags_at g dj q)"
    by (auto simp: defs ptd_at_def split: option.splits)
  show "number_at (notice_port di g port) dj = number_at g dj"
    by (auto simp: defs option.map_comp comp_def split: option.splits)
  show "told g \<subseteq> told (notice_port di g port)"
    by (auto simp: defs split: option.splits)
  show "number_at g di = Some dn \<Longrightarrow> flags_at g di port = Some fl \<Longrightarrow> fl \<noteq> 0 \<Longrightarrow>
     port_notice di port dn fl \<in> told (notice_port di g port)"
    by (auto simp: defs split: option.splits)
qed

lemma notice_ports_effect:
  assumes "distinct ps"
  shows "flags_at (foldl (notice_port di) g ps) dj q =
      (if dj = di \<and> q \<in> set ps then map_option (\<lambda>_. 0) (flags_at g dj q) else flags_at g dj q) \<and>
    number_at (foldl (notice_port di) g ps) dj = number_at g dj \<and> told g \<subseteq> told (foldl (notice_port di) g ps) \<and>
    (\<forall>dn fl. number_at g di = Some dn \<longrightarrow> q \<in> set ps \<longrightarrow> flags_at g di q = Some fl \<longrightarrow> fl \<noteq> 0 \<longrightarrow>
      port_notice di q dn fl \<in> told (foldl (notice_port di) g ps))"
  using assms
proof (induction ps arbitrary: g)
  case (Cons port ps)
  note IH = Cons.IH [of "notice_port di g port"]
  have told: "told (notice_port di g port) \<subseteq> told (foldl (notice_port di) (notice_port di g port) ps)"
    using IH Cons.prems by simp
  show ?case
    using IH Cons.prems notice_port_effect [where g = g and di = di and port = port] told by (auto split: if_splits)
qed simp

lemma clock_notices_effect:
  "flags_at (ipc_clock_master_clock_notice e pt di g) = flags_at g"
  "number_at (ipc_clock_master_clock_notice e pt di g) = number_at g"
  "told g \<subseteq> told (ipc_clock_master_clock_notice e pt di g)"
  "man_max_ports (ipc_clock_master_clock_notice e pt di g) = man_max_ports g"
  "flags_at (ipc_clock_this_clock_notice e di dn ci g) = flags_at g"
  "number_at (ipc_clock_this_clock_notice e di dn ci g) = number_at g"
  "told g \<subseteq> told (ipc_clock_this_clock_notice e di dn ci g)"
  "man_max_ports (ipc_clock_this_clock_notice e di dn ci g) = man_max_ports g"
  by (auto simp: ipc_clock_master_clock_notice_def ipc_clock_this_clock_notice_def gptpnet_ipc_notice_def
      flags_at_def [abs_def] number_at_def [abs_def] told_def Let_def split: prod.split)

text \<open>After a domain, the flags of its ports are clear and its changes have been told.\<close>

lemma notice_domain_effect:
  assumes "number_at g di \<noteq> None"
  shows "flags_at (notice_domain e g di) dj q =
      (if dj = di \<and> 1 \<le> q \<and> q < man_max_ports g then map_option (\<lambda>_. 0) (flags_at g dj q) else flags_at g dj q)"
    "number_at (notice_domain e g di) dj = number_at g dj" "told g \<subseteq> told (notice_domain e g di)"
    "number_at g di = Some dn \<Longrightarrow> 1 \<le> q \<Longrightarrow> q < man_max_ports g \<Longrightarrow> flags_at g di q = Some fl \<Longrightarrow> fl \<noteq> 0 \<Longrightarrow>
      port_notice di q dn fl \<in> told (notice_domain e g di)"
proof -
  obtain t where t: "tasd_at g di = Some t" using assms by (auto simp: number_at_def)
  define h where "h = ipc_clock_this_clock_notice e di (domainNumber (tasglb t)) (thisClockIndex (tasglb t))
    (ipc_clock_master_clock_notice e (tasglb t) di g)"
  have h: "flags_at h = flags_at g" "number_at h = number_at g" "told g \<subseteq> told h" "man_max_ports h = man_max_ports g"
    unfolding h_def
    using clock_notices_effect(3) [of g e "tasglb t" di]
      clock_notices_effect(7) [of "ipc_clock_master_clock_notice e (tasglb t) di g" e di "domainNumber (tasglb t)" "thisClockIndex (tasglb t)"]
    by (simp_all add: clock_notices_effect(1,2,4,5,6,8))
  have d: "notice_domain e g di = foldl (notice_port di) h [1..<man_max_ports h]"
    using t by (simp add: notice_domain_def h_def Let_def clock_notices_effect(4,8))
  note eff = notice_ports_effect [where di = di and g = h and ps = "[1..<man_max_ports h]", OF distinct_upt]
  show "flags_at (notice_domain e g di) dj q =
      (if dj = di \<and> 1 \<le> q \<and> q < man_max_ports g then map_option (\<lambda>_. 0) (flags_at g dj q) else flags_at g dj q)"
    "number_at (notice_domain e g di) dj = number_at g dj"
    using eff [of dj q] h by (auto simp: d)
  show "told g \<subseteq> told (notice_domain e g di)" using eff h(3) unfolding d by blast
  show "number_at g di = Some dn \<Longrightarrow> 1 \<le> q \<Longrightarrow> q < man_max_ports g \<Longrightarrow> flags_at g di q = Some fl \<Longrightarrow> fl \<noteq> 0 \<Longrightarrow>
      port_notice di q dn fl \<in> told (notice_domain e g di)"
    using eff [of dj q] h unfolding d by simp
qed

lemma notice_domain_missing: "number_at g di = None \<Longrightarrow> notice_domain e g di = g"
  by (simp add: notice_domain_def number_at_def)

lemma max_ports_notice: "man_max_ports (notice_domain e g di) = man_max_ports g"
proof -
  have "man_max_ports (foldl (notice_port di) h ps) = man_max_ports h" for h ps
    by (induction ps arbitrary: h)
      (auto simp: notice_port_def ipc_port_state_notice_def gptpnet_ipc_notice_def put_ptd_def put_tasd_def split: option.splits)
  then show ?thesis by (simp add: notice_domain_def Let_def clock_notices_effect(4,8) split: option.split)
qed

lemma notice_domains_effect:
  assumes "distinct ds"
  shows "told g \<subseteq> told (foldl (notice_domain e) g ds) \<and>
    (di \<notin> set ds \<longrightarrow> flags_at (foldl (notice_domain e) g ds) di q = flags_at g di q) \<and>
    (\<forall>dn fl. di \<in> set ds \<longrightarrow> number_at g di = Some dn \<longrightarrow> 1 \<le> q \<longrightarrow> q < man_max_ports g \<longrightarrow> flags_at g di q = Some fl \<longrightarrow>
      flags_at (foldl (notice_domain e) g ds) di q = Some 0 \<and>
      (fl \<noteq> 0 \<longrightarrow> port_notice di q dn fl \<in> told (foldl (notice_domain e) g ds)))"
  using assms
proof (induction ds arbitrary: g)
  case (Cons dj ds)
  note IH = Cons.IH [of "notice_domain e g dj"]
  have d: "dj \<notin> set ds" "distinct ds" using Cons.prems by simp_all
  show ?case
  proof (cases "number_at g dj")
    case None
    with Cons.IH [of g] d show ?thesis by (auto simp: notice_domain_missing)
  next
    case (Some dn)
    then have s: "number_at g dj \<noteq> None" by simp
    note eff = notice_domain_effect [OF s, where e = e]
    have t: "told g \<subseteq> told (foldl (notice_domain e) (notice_domain e g dj) ds)"
      using IH d(2) eff(3) by blast
    show ?thesis
    proof (cases "di = dj")
      case True
      with IH d eff(1) [of di q] eff(4) [of _ q] t show ?thesis by auto
    next
      case False
      with IH d eff(1) [of di q] eff(2) [of di] t show ?thesis by (auto simp: max_ports_notice)
    qed
  qed
qed simp

text \<open>C14: After every event, each change of a port of each domain has been told to the clients, with the number of
  the domain and the flags of the change, and no flag is left.
\<close>

theorem changes_are_told:
  assumes "di < man_max_domains g" "tasd_at g di = Some t" "ptd_at g di port = Some p"
    and "1 \<le> port" "port < man_max_ports g"
  shows "(\<exists>q. ptd_at (ipc_clock_notice e g) di port = Some q \<and> portEventFlags (ppglb q) = 0) \<and>
    (portEventFlags (ppglb p) \<noteq> 0 \<longrightarrow>
      port_notice di port (domainNumber (tasglb t)) (portEventFlags (ppglb p)) \<in> set (notices (ipc_clock_notice e g)))"
proof -
  have "number_at g di = Some (domainNumber (tasglb t))" "flags_at g di port = Some (portEventFlags (ppglb p))"
    using assms(2,3) by (simp_all add: number_at_def flags_at_def)
  with notice_domains_effect [OF distinct_upt, of g e 0 "man_max_domains g" di port] assms(1,4,5)
  have "flags_at (ipc_clock_notice e g) di port = Some 0"
    "portEventFlags (ppglb p) \<noteq> 0 \<longrightarrow>
      port_notice di port (domainNumber (tasglb t)) (portEventFlags (ppglb p)) \<in> told (ipc_clock_notice e g)"
    unfolding ipc_clock_notice_def by auto
  then show ?thesis by (auto simp: flags_at_def told_def)
qed

section \<open>Concrete cases\<close>

definition sample_start :: "nat \<Rightarrow> (int \<times> gptpman_data) outcome" where
  "sample_start doms = gptpman_start default_env sample_platform (\<lambda>_ _. sample_io) sample_net_cfg (\<lambda>_ _. 0) 2 doms"

lemma sample_start_well_made: "sample_start doms = Done (0, g) \<Longrightarrow> well_made 3 g"
  using start_well_made [of default_env sample_platform "\<lambda>_ _. sample_io" sample_net_cfg "\<lambda>_ _. 0" 2 doms g]
  by (simp add: sample_start_def)

lemma sample_one_domain: "conf default_env CONF_SECOND_DOMAIN_THIS_CLOCK < 0"
  by (simp add: default_env_def)

lemma sample_starts: "0 < doms \<Longrightarrow> \<exists>g. sample_start doms = Done (0, g)"
  unfolding sample_start_def
  by (rule start_works [OF sample_opens]) (simp_all add: MAX_PORT_NUMBER_LIMIT_def default_env_def)

theorem capable_follows_link_witness:
  "\<exists>g g1. sample_start 1 = Done (0, g) \<and> update_asCapable 1 g = Done g1"
proof -
  obtain g where g: "sample_start 1 = Done (0, g)" using sample_starts [of 1] by auto
  with capable_follows_link [OF sample_start_well_made [OF g], of 1] show ?thesis by auto
qed

theorem devdown_takes_port_down_witness:
  "\<exists>g g1 sh. sample_start 1 = Done (0, g) \<and> gptpnet_cb_devdown 2 g = Done g1 \<and> shared_at g1 0 2 = Some sh \<and>
     \<not> asCapable (sh_pp sh)"
proof -
  obtain g where g: "sample_start 1 = Done (0, g)" using sample_starts [of 1] by auto
  have w: "well_made 3 g" by (rule sample_start_well_made [OF g])
  have m: "man_max_domains g = 1"
    using start_one_domain(2) [OF g [unfolded sample_start_def] sample_one_domain] by (simp add: zero_gptpman_def Let_def)
  have "\<forall>di < man_max_domains g. tasd_at g di \<noteq> None" using w m by (auto simp: well_made_def)
  with devdown_takes_port_down [OF w, of 2] m obtain g1 where "gptpnet_cb_devdown 2 g = Done g1"
    "\<exists>sh. shared_at g1 0 2 = Some sh \<and> \<not> asCapable (sh_pp sh)" by auto
  with g show ?thesis by blast
qed

theorem link_down_crashes_witness:
  "\<exists>g. sample_start 2 = Done (0, g) \<and>
     gptpnet_cb default_env sample_platform (\<lambda>_ _. sample_io) 1 0 GPTPNET_EVENT_DEVDOWN g = Fault"
  unfolding sample_start_def
  by (rule link_down_crashes [OF sample_opens _ _ sample_one_domain]) (simp_all add: MAX_PORT_NUMBER_LIMIT_def)

definition zero_second_env :: env where
  "zero_second_env = default_env\<lparr>conf := (conf default_env)
     (CONF_SECOND_DOMAIN_NUMBER := 0, CONF_SECOND_DOMAIN_THIS_CLOCK := 1)\<rparr>"

theorem second_domain_zero_never_starts_witness:
  "gptpman_start zero_second_env sample_platform (\<lambda>_ _. sample_io) sample_net_cfg (\<lambda>_ _. 0) 2 2 \<noteq>
     Done (0, zero_gptpman zero_second_env 2 2)"
  by (rule second_domain_zero_never_starts) (simp_all add: zero_second_env_def)

theorem changes_are_told_witness:
  "\<exists>g p. sample_start 1 = Done (0, g) \<and> ptd_at (ipc_clock_notice default_env g) 0 2 = Some p \<and>
     portEventFlags (ppglb p) = 0"
proof -
  obtain g where g: "sample_start 1 = Done (0, g)" using sample_starts [of 1] by auto
  have w: "well_made 3 g" by (rule sample_start_well_made [OF g])
  have m: "man_max_domains g = 1"
    using start_one_domain(2) [OF g [unfolded sample_start_def] sample_one_domain] by (simp add: zero_gptpman_def Let_def)
  obtain t where t: "tasd_at g 0 = Some t" using w by (auto simp: well_made_def)
  obtain p where p: "ptd_at g 0 2 = Some p" using well_made_ports(1) [OF w t, of 2] by auto
  from changes_are_told [OF _ t p, of default_env] m w have
    "\<exists>q. ptd_at (ipc_clock_notice default_env g) 0 2 = Some q \<and> portEventFlags (ppglb q) = 0"
    by (auto simp: well_made_def)
  with g show ?thesis by blast
qed

end
