(* ===== verification/Gptp_Close.thy ===== *)
theory Gptp_Close
  imports Gptp_Start
begin

text \<open>
  The end of the daemon (\<^verbatim>\<open>gptpman.c\<close>): the machines of every port and domain are closed, and the domains
  freed. Closing a machine frees it and clears the pointer to it, so that \<open>None\<close> in its place afterwards means
  that it has been freed. The variables of a port are freed before its machines are closed, which do not
  look at them any more.
\<close>

definition sm_close_for_domain_zero_port :: "gptpsm_ptd \<Rightarrow> gptpsm_ptd" where
  "sm_close_for_domain_zero_port p = p\<lparr>mdpdrespd := None, mdpdreqd := None, ldisetd := None\<rparr>"

definition close_announce_information :: "gptpsm_ptd \<Rightarrow> gptpsm_ptd" where
  "close_announce_information p = p\<lparr>paiextd := None, painfd := None\<rparr>"

definition close_others :: "gptpsm_ptd \<Rightarrow> gptpsm_ptd" where
  "close_others p = p\<lparr>aisetd := None, pssextd := None, parecd := None, patransd := None, mdsrecd := None,
     mdssendd := None, pssrecd := None, psssendd := None, gctransd := None, gcrecd := None, sisetd := None,
     ostxopd := None, mdansendd := None, mdanrecd := None, mdsigsendd := None, mdsigrecd := None\<rparr>"

definition close_port :: "nat \<Rightarrow> nat \<Rightarrow> gptpsm_ptd \<Rightarrow> gptpsm_ptd" where
  "close_port di port p =
     (let p1 = close_announce_information (if di = 0 then sm_close_for_domain_zero_port p else p)
      in if port = 0 then p1 else close_others p1)"

definition sm_close_for_domain_port :: "nat \<Rightarrow> nat \<Rightarrow> gptpman_data \<Rightarrow> int \<times> gptpman_data" where
  "sm_close_for_domain_port di port g =
     (if \<not> DOMAIN_DATA_EXIST g di \<or> unnumbered g di then (- 1, g)
      else case ptd_at g di port of
        None \<Rightarrow> (0, g)
      | Some p \<Rightarrow> (0, put_ptd di port (close_port di port p) g))"

definition close_domain_sms :: "gptpsm_tasd \<Rightarrow> gptpsm_tasd" where
  "close_domain_sms t = t\<lparr>sssd := None, cmssendd := None, cssd := None, cmsrecd := None, cmsoffsetd := None,
     gmsd := None, pssd := None\<rparr>"

text \<open>What is closed of a domain, before the domain itself is freed.\<close>

definition close_machines :: "nat \<Rightarrow> gptpman_data \<Rightarrow> gptpman_data" where
  "close_machines di g =
     (let g1 = foldl (\<lambda>g port. snd (sm_close_for_domain_port di port g)) g [0..<man_max_ports g]
      in case tasd_at g1 di of None \<Rightarrow> g1 | Some t \<Rightarrow> put_tasd di (close_domain_sms t) g1)"

definition all_sm_close :: "gptpman_data \<Rightarrow> gptpman_data" where
  "all_sm_close g = foldl (\<lambda>g di. let g1 = close_machines di g in g1\<lparr>tasds := (tasds g1)[di := None]\<rparr>)
     g [0..<man_max_domains g]"

section \<open>Nothing is left\<close>

lemma tasd_at_put_if [simp]: "di < length (tasds g) \<Longrightarrow> tasd_at (put_tasd di t g) dj = (if di = dj then Some t else tasd_at g dj)"
  by (simp add: tasd_at_def put_tasd_def)

lemma closed_port_machines:
  assumes "port_machines p = machines_of di port"
  shows "port_machines (close_port di port p) = replicate 21 False"
proof -
  have n: "replicate 3 b = [b, b, b]" "replicate 2 b = [b, b]" "replicate 16 b = [b, b, b, b, b, b, b, b, b, b, b, b, b, b, b, b]"
    "replicate 21 b = [b, b, b, b, b, b, b, b, b, b, b, b, b, b, b, b, b, b, b, b, b]" for b :: bool
    by (simp_all add: numeral_eq_Suc)
  show ?thesis
    using assms
    by (cases "di = 0"; cases "port = 0")
      (simp_all add: close_port_def port_machines_def machines_of_def close_announce_information_def sm_close_for_domain_zero_port_def
        close_others_def n)
qed

text \<open>A port that is closed has no machines; the other ports and domains stay as they are.\<close>

lemma close_port_shape:
  assumes "tasd_at g di = Some t" "di < man_max_domains g" "\<not> unnumbered g di" "port < length (ptds t)"
    and "port_machines (ptds t ! port) = machines_of di port"
  shows "\<exists>p. snd (sm_close_for_domain_port di port g) = put_tasd di (t\<lparr>ptds := (ptds t)[port := p]\<rparr>) g \<and>
    port_machines p = replicate 21 False"
proof -
  have "DOMAIN_DATA_EXIST g di" using assms(1,2) by (simp add: DOMAIN_DATA_EXIST_def)
  moreover have "ptd_at g di port = Some (ptds t ! port)" using assms(1,4) by (simp add: ptd_at_def)
  ultimately show ?thesis
    using assms(1,3) closed_port_machines[OF assms(5)]
    by (intro exI[of _ "close_port di port (ptds t ! port)"]) (simp add: sm_close_for_domain_port_def put_ptd_def)
qed

lemma close_ports:
  assumes "di < man_max_domains g" "\<not> unnumbered g di" "di < length (tasds g)"
  shows "tasd_at g di = Some t \<Longrightarrow> k \<le> length (ptds t) \<Longrightarrow>
    (\<forall>port<length (ptds t). port_machines (ptds t ! port) = machines_of di port) \<Longrightarrow>
    \<exists>ps. foldl (\<lambda>g port. snd (sm_close_for_domain_port di port g)) g [0..<k] = put_tasd di (t\<lparr>ptds := ps\<rparr>) g \<and>
      length ps = length (ptds t) \<and> (\<forall>port<k. port_machines (ps ! port) = replicate 21 False) \<and>
      (\<forall>port. k \<le> port \<longrightarrow> port < length (ptds t) \<longrightarrow> ps ! port = ptds t ! port)"
proof (induction k)
  case 0
  have "put_tasd di (t\<lparr>ptds := ptds t\<rparr>) g = g"
    using 0(1) assms(3) by (simp add: put_tasd_def tasd_at_def list_update_same_conv)
  then show ?case by (intro exI[of _ "ptds t"]) simp
next
  case (Suc k)
  then obtain ps where ps: "foldl (\<lambda>g port. snd (sm_close_for_domain_port di port g)) g [0..<k] = put_tasd di (t\<lparr>ptds := ps\<rparr>) g"
    "length ps = length (ptds t)" "\<forall>port<k. port_machines (ps ! port) = replicate 21 False"
    "\<forall>port. k \<le> port \<longrightarrow> port < length (ptds t) \<longrightarrow> ps ! port = ptds t ! port" by auto
  let ?t = "t\<lparr>ptds := ps\<rparr>" and ?g = "put_tasd di (t\<lparr>ptds := ps\<rparr>) g"
  have at: "tasd_at ?g di = Some ?t" using assms(3) by simp
  have u: "\<not> unnumbered ?g di" using assms(2) at Suc.prems(1) by (simp add: unnumbered_def)
  have m: "di < man_max_domains ?g" using assms(1) by (simp add: put_tasd_def)
  have k: "k < length (ptds ?t)" "port_machines (ptds ?t ! k) = machines_of di k" using Suc.prems(2,3) ps(2,4) by simp_all
  obtain p where p: "snd (sm_close_for_domain_port di k ?g) = put_tasd di (?t\<lparr>ptds := ps[k := p]\<rparr>) ?g"
    "port_machines p = replicate 21 False" using close_port_shape[OF at m u k] by auto
  have "put_tasd di (?t\<lparr>ptds := ps[k := p]\<rparr>) ?g = put_tasd di (t\<lparr>ptds := ps[k := p]\<rparr>) g" by (simp add: put_tasd_def)
  then show ?case
    using ps p k(1) by (intro exI[of _ "ps[k := p]"]) (auto simp: nth_list_update less_Suc_eq)
qed

text \<open>When the daemon ends, no machine is left behind: of every domain that has a number all the machines
  of the ports and of the domain have been closed when the domain is freed.\<close>

theorem no_machine_left:
  assumes "well_made n g" "tasd_at g di \<noteq> None" "\<not> unnumbered g di"
  shows "domain_is di (replicate 7 False, replicate n (replicate 21 False)) (close_machines di g)"
proof -
  obtain t where t: "tasd_at g di = Some t" using assms(2) by blast
  have d: "di < length (tasds g)" using t by (auto simp: tasd_at_def split: if_splits)
  have s: "man_max_ports g = n" "length (tasds g) = man_max_domains g" "map port_machines (ptds t) = map (machines_of di) [0..<n]"
    using assms(1) t by (simp_all add: well_made_def tasd_shape_def)
  have l: "length (ptds t) = n" using s(3) by (metis length_map length_upt minus_nat.diff_0)
  have pm: "\<forall>port<length (ptds t). port_machines (ptds t ! port) = machines_of di port"
    using s(3) l by (metis add_0 length_upt minus_nat.diff_0 nth_map nth_upt)
  obtain ps where ps: "foldl (\<lambda>g port. snd (sm_close_for_domain_port di port g)) g [0..<n] = put_tasd di (t\<lparr>ptds := ps\<rparr>) g"
    "length ps = n" "\<forall>port<n. port_machines (ps ! port) = replicate 21 False"
    using close_ports[OF _ assms(3) d t, of n] d s(2) l pm by auto
  have "tasd_at (close_machines di g) di = Some (close_domain_sms (t\<lparr>ptds := ps\<rparr>))"
    using d s(1) ps(1) by (simp add: close_machines_def Let_def) (simp add: put_tasd_def tasd_at_def)
  moreover have "map port_machines ps = replicate n (replicate 21 False)"
    using ps(2,3) by (intro nth_equalityI) simp_all
  moreover have "dom_machines (close_domain_sms u) = replicate 7 False" for u
    by (simp add: dom_machines_def close_domain_sms_def numeral_eq_Suc)
  ultimately show ?thesis by (simp add: domain_is_def tasd_shape_def close_domain_sms_def dom_machines_def)
qed

text \<open>In the end every domain has been freed.\<close>

lemma put_tasd_free:
  assumes "tasd_at g di = None" "tasd_at g dj \<noteq> None"
  shows "tasd_at (put_tasd dj t g) di = None"
proof -
  have "dj < length (tasds g)" "dj \<noteq> di" using assms by (auto simp: tasd_at_def split: if_splits)
  then show ?thesis using assms(1) by simp
qed

lemma length_put [simp]: "length (tasds (put_tasd di t g)) = length (tasds g)"
  by (simp add: put_tasd_def)

lemma close_port_frees:
  "length (tasds (snd (sm_close_for_domain_port dj port g))) = length (tasds g)"
  "tasd_at g di = None \<Longrightarrow> tasd_at (snd (sm_close_for_domain_port dj port g)) di = None"
  by (auto simp: sm_close_for_domain_port_def put_ptd_def put_tasd_free split: option.splits)

lemma close_machines_frees:
  "length (tasds (close_machines dj g)) = length (tasds g) \<and>
    (tasd_at g di = None \<longrightarrow> tasd_at (close_machines dj g) di = None)"
proof -
  let ?f = "\<lambda>g ports. foldl (\<lambda>g port. snd (sm_close_for_domain_port dj port g)) g ports"
  have *: "length (tasds (?f g ports)) = length (tasds g) \<and> (tasd_at g di = None \<longrightarrow> tasd_at (?f g ports) di = None)"
    for ports g by (induction ports arbitrary: g) (simp_all add: close_port_frees)
  show ?thesis
    using *[of g "[0..<man_max_ports g]"]
    by (auto simp: close_machines_def Let_def put_tasd_free split: option.splits)
qed

theorem every_domain_freed:
  assumes "length (tasds g) \<le> man_max_domains g"
  shows "tasd_at (all_sm_close g) di = None"
proof -
  let ?c = "\<lambda>g di. let g1 = close_machines di g in g1\<lparr>tasds := (tasds g1)[di := None]\<rparr>"
  have none: "tasd_at (g1\<lparr>tasds := (tasds g1)[dj := None]\<rparr>) di = (if dj = di then None else tasd_at g1 di)" for dj g1
    by (auto simp: tasd_at_def)
  have f: "length (tasds (foldl ?c g [0..<k])) = length (tasds g) \<and> (di < k \<longrightarrow> tasd_at (foldl ?c g [0..<k]) di = None)" for k
  proof (induction k)
    case (Suc k)
    let ?h = "foldl ?c g [0..<k]"
    have s: "foldl ?c g [0..<Suc k] = (close_machines k ?h)\<lparr>tasds := (tasds (close_machines k ?h))[k := None]\<rparr>"
      by (simp add: Let_def)
    have "di < Suc k \<Longrightarrow> di = k \<or> di < k" by auto
    then show ?case unfolding s none using Suc close_machines_frees[of k ?h di] by auto
  qed simp
  show ?thesis
  proof (cases "di < man_max_domains g")
    case True
    then show ?thesis using f[of "man_max_domains g"] by (simp only: all_sm_close_def)
  next
    case False
    then have "\<not> di < length (tasds (all_sm_close g))"
      using f[of "man_max_domains g"] assms by (simp only: all_sm_close_def)
    then show ?thesis by (simp add: tasd_at_def)
  qed
qed

end
