(* ===== verification/Gptp_MasterClock.thy ===== *)
theory Gptp_MasterClock
  imports Gptp_ClockFacts Gptp_ClockSync
begin

text \<open>
  The library with which another process reads the clock of the grandmaster (\<^verbatim>\<open>gptpmasterclock.c\<close>). The
  daemon keeps a segment of shared memory with the parameters of its master clocks; the client maps it,
  opens the clock devices that are named there, and adds the offset to what a device shows.

  The operating system is a parameter: what opening and reading a device gives, the time of the host, and
  whether a segment can be mapped for writing. A segment stays as it is for those who have mapped it even
  when its name stands for another one; \<open>segments\<close> has them all, \<open>shm_name\<close> says what the names stand for.
\<close>

section \<open>Shared memory and devices\<close>

record gptp_master_clock_shm =
  head_max_domains :: nat
  head_active_domain :: int
  shm_gcpp :: "gptp_clock_ppara list"

record shm_world =
  segments :: "gptp_master_clock_shm list"
  shm_name :: "string \<Rightarrow> nat option"

record client_io =
  virtual_prefix :: string
  dev_open :: "string \<Rightarrow> nat \<Rightarrow> int"
  dev_time :: "int \<Rightarrow> nat \<Rightarrow> u64"
  rt_time :: "nat \<Rightarrow> u64"
  map_rw :: "string \<Rightarrow> bool"

definition GPTP_VIRTUAL_PTPDEV_FDBASE :: int where "GPTP_VIRTUAL_PTPDEV_FDBASE = 3018"
definition GPTP_VIRTUAL_PTPDEV_FDMAX :: int where "GPTP_VIRTUAL_PTPDEV_FDMAX = 3117"

definition VIRTUAL_CLOCKFD :: "int \<Rightarrow> bool" where
  "VIRTUAL_CLOCKFD fd \<longleftrightarrow> GPTP_VIRTUAL_PTPDEV_FDBASE \<le> fd \<and> fd \<le> GPTP_VIRTUAL_PTPDEV_FDMAX"

definition VIRTUAL_CLOCKNAME :: "string \<Rightarrow> string \<Rightarrow> bool" where
  "VIRTUAL_CLOCKNAME prefix name \<longleftrightarrow> take (length prefix) name = prefix"

definition PTPDEV_CLOCK_OPEN :: "client_io \<Rightarrow> string \<Rightarrow> nat \<Rightarrow> int" where
  "PTPDEV_CLOCK_OPEN io name n =
     (if VIRTUAL_CLOCKNAME (virtual_prefix io) name then GPTP_VIRTUAL_PTPDEV_FDBASE else dev_open io name n)"

definition PTPDEV_CLOCK_GETTIME :: "client_io \<Rightarrow> int \<Rightarrow> nat \<Rightarrow> u64" where
  "PTPDEV_CLOCK_GETTIME io fd n = (if VIRTUAL_CLOCKFD fd then rt_time io n else dev_time io fd n)"

text \<open>The data of the client. \<open>mc_shm\<close> is the segment that is mapped; \<open>mc_accesses\<close> numbers the accesses
  to the operating system, \<open>mc_closed\<close> lists the devices that have been closed.\<close>

record gptp_master_clock_data =
  mc_max_domains :: nat
  mc_shm :: "nat option"
  mc_ptpfds :: "int list"
  mc_suppress_msg :: bool
  ref_counter :: int
  mc_shmem_name :: string
  mc_accesses :: nat
  mc_closed :: "int list"

definition zero_gmcd :: gptp_master_clock_data where
  "zero_gmcd = \<lparr>mc_max_domains = 0, mc_shm = None, mc_ptpfds = [], mc_suppress_msg = False, ref_counter = 0,
     mc_shmem_name = [], mc_accesses = 0, mc_closed = []\<rparr>"

definition cleared :: "gptp_master_clock_data \<Rightarrow> gptp_master_clock_data" where
  "cleared m = zero_gmcd\<lparr>mc_accesses := mc_accesses m, mc_closed := mc_closed m\<rparr>"

section \<open>Attaching\<close>

text \<open>A device that has a descriptor other than 0 counts as opened, \<open>- 1\<close> too.\<close>

fun ptpdev_open :: "client_io \<Rightarrow> gptp_clock_ppara list \<Rightarrow> nat list \<Rightarrow> int \<Rightarrow> gptp_master_clock_data \<Rightarrow>
   int \<times> gptp_master_clock_data" where
  "ptpdev_open io pps [] res m = (res, m)"
| "ptpdev_open io pps (i # is) res m =
     (if mc_ptpfds m ! i \<noteq> 0 \<or> pp_ptpdev (pps ! i) = [] then ptpdev_open io pps is res m
      else let fd = PTPDEV_CLOCK_OPEN io (pp_ptpdev (pps ! i)) (mc_accesses m);
               m1 = m\<lparr>mc_ptpfds := (mc_ptpfds m)[i := fd], mc_accesses := mc_accesses m + 1\<rparr>
           in if \<not> PTPFD_VALID fd then (- 1, m1) else ptpdev_open io pps is 0 m1)"

text \<open>The last user closes the devices and gives the segment back; the data is cleared, the name of the
  segment and the count of the users too.\<close>

definition gptpmasterclock_close :: "shm_world \<Rightarrow> gptp_master_clock_data \<Rightarrow> int \<times> gptp_master_clock_data" where
  "gptpmasterclock_close w m =
     (if mc_max_domains m = 0 then (- 1, m)
      else case mc_shm m of
        None \<Rightarrow> (- 1, m)
      | Some s \<Rightarrow>
          (let m1 = m\<lparr>ref_counter := ref_counter m - 1\<rparr>;
               pps = shm_gcpp (segments w ! s);
               fds = map ((!) (mc_ptpfds m)) (filter (\<lambda>i. pp_ptpdev (pps ! i) \<noteq> []) [0..<mc_max_domains m])
           in if ref_counter m1 > 0 then (0, m1)
              else (0, cleared (m1\<lparr>mc_closed := mc_closed m @ filter (\<lambda>fd. fd \<noteq> GPTP_VIRTUAL_PTPDEV_FDBASE) fds\<rparr>))))"

definition GPTP_MASTER_CLOCK_SHARED_MEM :: string where
  "GPTP_MASTER_CLOCK_SHARED_MEM = ''/gptp_mc_shm''"

definition GPTP_MAX_SIZE_SHARED_MEMNAME :: nat where
  "GPTP_MAX_SIZE_SHARED_MEMNAME = 32"

definition init_error :: "shm_world \<Rightarrow> gptp_master_clock_data \<Rightarrow> int \<times> gptp_master_clock_data" where
  "init_error w m =
     (let m1 = (if \<not> mc_suppress_msg m then (snd (gptpmasterclock_close w m))\<lparr>mc_suppress_msg := True\<rparr>
                else snd (gptpmasterclock_close w m))
      in (- 1, m1\<lparr>ref_counter := ref_counter m1 - 1\<rparr>))"

text \<open>An empty name stands for the one of the daemon.\<close>

definition gptpmasterclock_init ::
  "client_io \<Rightarrow> shm_world \<Rightarrow> string \<Rightarrow> gptp_master_clock_data \<Rightarrow> int \<times> gptp_master_clock_data" where
  "gptpmasterclock_init io w name m0 =
     (let m = m0\<lparr>ref_counter := ref_counter m0 + 1\<rparr> in
      if mc_max_domains m \<noteq> 0 then (0, m)
      else
        let nm = (if name \<noteq> [] then take (GPTP_MAX_SIZE_SHARED_MEMNAME - 1) name else GPTP_MASTER_CLOCK_SHARED_MEM);
            m1 = m\<lparr>mc_shmem_name := nm\<rparr>
        in case shm_name w nm of
             None \<Rightarrow> init_error w m1
           | Some s \<Rightarrow>
               (let dnum = head_max_domains (segments w ! s); m2 = m1\<lparr>mc_max_domains := dnum\<rparr> in
                if dnum = 0 then init_error w m1
                else if \<not> map_rw io nm then init_error w (m2\<lparr>mc_shm := None\<rparr>)
                else case ptpdev_open io (shm_gcpp (segments w ! s)) [0..<dnum] (- 1)
                       (m2\<lparr>mc_shm := Some s, mc_ptpfds := replicate dnum 0\<rparr>) of
                     (r, m3) \<Rightarrow> if r \<noteq> 0 then init_error w m3 else (0, m3\<lparr>mc_suppress_msg := False\<rparr>)))"

definition GMCD_INIT_CHECK :: "client_io \<Rightarrow> shm_world \<Rightarrow> gptp_master_clock_data \<Rightarrow> int \<times> gptp_master_clock_data" where
  "GMCD_INIT_CHECK io w m = (if mc_max_domains m \<noteq> 0 then (0, m) else gptpmasterclock_init io w [] m)"

section \<open>Reading\<close>

text \<open>In what follows \<open>None\<close> is an access through a null pointer or outside of an array.

  A segment without domains is one that the daemon has given up: the client attaches again. The name that
  it had given is gone by then, with the rest of the data.\<close>

definition health_reattach :: "client_io \<Rightarrow> shm_world \<Rightarrow> nat \<Rightarrow> gptp_master_clock_data \<Rightarrow> int \<times> gptp_master_clock_data" where
  "health_reattach io w s m =
     (if head_max_domains (segments w ! s) \<noteq> 0 then (0, m)
      else let m1 = snd (gptpmasterclock_close w m) in gptpmasterclock_init io w (mc_shmem_name m1) m1)"

definition health_devices :: "client_io \<Rightarrow> shm_world \<Rightarrow> nat \<Rightarrow> gptp_master_clock_data \<Rightarrow>
   (int \<times> gptp_master_clock_data) option" where
  "health_devices io w di m =
     (if di \<ge> length (mc_ptpfds m) then None
      else if PTPFD_VALID (mc_ptpfds m ! di) then Some (0, m)
      else case mc_shm m of
        None \<Rightarrow> None
      | Some s \<Rightarrow>
          (case ptpdev_open io (shm_gcpp (segments w ! s)) [0..<mc_max_domains m] (- 1) m of
             (r, m1) \<Rightarrow> Some (if r \<noteq> 0 \<or> \<not> PTPFD_VALID (mc_ptpfds m1 ! di)
               then (- 1, m1\<lparr>mc_suppress_msg := True\<rparr>) else (0, m1\<lparr>mc_suppress_msg := False\<rparr>))))"

definition gptpmasterclock_health_check :: "client_io \<Rightarrow> shm_world \<Rightarrow> int \<Rightarrow> gptp_master_clock_data \<Rightarrow>
   (int \<times> gptp_master_clock_data) option" where
  "gptpmasterclock_health_check io w di m = (case GMCD_INIT_CHECK io w m of (r, m1) \<Rightarrow>
     if r \<noteq> 0 then Some (- 1, m1)
     else case mc_shm m1 of
       None \<Rightarrow> None
     | Some s \<Rightarrow> (case health_reattach io w s m1 of (r2, m2) \<Rightarrow>
         if r2 \<noteq> 0 then Some (- 1, m2) else if di < 0 then None else health_devices io w (nat di) m2))"

text \<open>What the parameters of a master clock make of the time of its device.\<close>

definition client_value :: "gptp_clock_ppara \<Rightarrow> u64 \<Rightarrow> u64" where
  "client_value pp t =
     (let ts = t + pp_offset64 pp in
      if pp_adjrate pp = 0 then ts
      else of_int (c_trunc (of_int (sint ts) + of_int (sint (t - pp_last_setts64 pp)) * pp_adjrate pp)))"

text \<open>The index of the domain is compared with the number of domains after it has been used.\<close>

definition gptpmasterclock_get_domain_ts64 :: "client_io \<Rightarrow> shm_world \<Rightarrow> int \<Rightarrow> gptp_master_clock_data \<Rightarrow>
   (int \<times> u64 \<times> gptp_master_clock_data) option" where
  "gptpmasterclock_get_domain_ts64 io w di m = (case gptpmasterclock_health_check io w di m of
      None \<Rightarrow> None
    | Some (r, m1) \<Rightarrow>
        if r \<noteq> 0 \<or> di < 0 \<or> di \<ge> int (mc_max_domains m1) then Some (- 1, 0, m1)
        else case mc_shm m1 of
          None \<Rightarrow> None
        | Some s \<Rightarrow> Some (0, client_value (shm_gcpp (segments w ! s) ! nat di)
              (PTPDEV_CLOCK_GETTIME io (mc_ptpfds m1 ! nat di) (mc_accesses m1)),
            m1\<lparr>mc_accesses := mc_accesses m1 + 1\<rparr>))"

definition gptpmasterclock_gm_domainIndex :: "client_io \<Rightarrow> shm_world \<Rightarrow> gptp_master_clock_data \<Rightarrow>
   (int \<times> gptp_master_clock_data) option" where
  "gptpmasterclock_gm_domainIndex io w m = (case GMCD_INIT_CHECK io w m of (r, m1) \<Rightarrow>
     if r \<noteq> 0 then Some (- 1, m1)
     else case mc_shm m1 of None \<Rightarrow> None | Some s \<Rightarrow> Some (head_active_domain (segments w ! s), m1))"

definition gm_entry :: "(gptp_clock_ppara \<Rightarrow> int) \<Rightarrow> client_io \<Rightarrow> shm_world \<Rightarrow> gptp_master_clock_data \<Rightarrow>
   (int \<times> gptp_master_clock_data) option" where
  "gm_entry f io w m = (case gptpmasterclock_gm_domainIndex io w m of
      None \<Rightarrow> None
    | Some (i, m1) \<Rightarrow>
        if i < 0 then Some (- 1, m1)
        else case mc_shm m1 of
          None \<Rightarrow> None
        | Some s \<Rightarrow> if nat i \<ge> length (shm_gcpp (segments w ! s)) then None
            else Some (f (shm_gcpp (segments w ! s) ! nat i), m1))"

definition gptpmasterclock_gm_domainNumber :: "client_io \<Rightarrow> shm_world \<Rightarrow> gptp_master_clock_data \<Rightarrow>
   (int \<times> gptp_master_clock_data) option" where
  "gptpmasterclock_gm_domainNumber = gm_entry (\<lambda>pp. uint (pp_domainNumber pp))"

definition gptpmasterclock_gmchange_ind :: "client_io \<Rightarrow> shm_world \<Rightarrow> gptp_master_clock_data \<Rightarrow>
   (int \<times> gptp_master_clock_data) option" where
  "gptpmasterclock_gmchange_ind = gm_entry (\<lambda>pp. sint (pp_gmchange_ind pp))"

definition gptpmasterclock_get_max_domains :: "gptp_master_clock_data \<Rightarrow> nat" where
  "gptpmasterclock_get_max_domains m = mc_max_domains m"

definition gptpmasterclock_getts64 :: "client_io \<Rightarrow> shm_world \<Rightarrow> gptp_master_clock_data \<Rightarrow>
   (u64 \<times> gptp_master_clock_data) option" where
  "gptpmasterclock_getts64 io w m = (case GMCD_INIT_CHECK io w m of (r, m1) \<Rightarrow>
     if r \<noteq> 0 then Some (- 1, m1)
     else case mc_shm m1 of
       None \<Rightarrow> None
     | Some s \<Rightarrow> (case gptpmasterclock_get_domain_ts64 io w (head_active_domain (segments w ! s)) m1 of
         None \<Rightarrow> None
       | Some (r2, ts, m2) \<Rightarrow> Some (if r2 \<noteq> 0 then - 1 else ts, m2)))"

text \<open>A time stamp of 32 bits that is not far from now, in 64 bits. A failed reading is not noticed.\<close>

definition gptpmasterclock_expand_timestamp :: "client_io \<Rightarrow> shm_world \<Rightarrow> u32 \<Rightarrow> gptp_master_clock_data \<Rightarrow>
   (u64 \<times> gptp_master_clock_data) option" where
  "gptpmasterclock_expand_timestamp io w timestamp m = map_option
     (\<lambda>(ts64, m1). (ts64 + scast (timestamp - ucast ts64), m1)) (gptpmasterclock_getts64 io w m)"

text \<open>Waiting for a time: the code, and how long the process is told to sleep (an interrupted sleep is
  followed by another one, but counts as a failure).\<close>

datatype sleep_result = SleepOk | SleepInterrupted u64 | SleepError

definition gptpmasterclock_wait_until_ts64 ::
  "client_io \<Rightarrow> shm_world \<Rightarrow> (u64 \<Rightarrow> sleep_result) \<Rightarrow> u64 \<Rightarrow> u64 \<Rightarrow> u64 \<Rightarrow> gptp_master_clock_data \<Rightarrow>
   (int \<times> u64 list \<times> gptp_master_clock_data) option" where
  "gptpmasterclock_wait_until_ts64 io w sleep tts vclose toofar m = map_option
     (\<lambda>(cts, m1). let dts = tts - cts in
        if sint dts < 0 then (1, [], m1)
        else if sint dts \<le> sint vclose then (2, [], m1)
        else if toofar \<noteq> 0 \<and> sint dts \<ge> sint toofar then (3, [], m1)
        else case sleep dts of
          SleepOk \<Rightarrow> (0, [dts], m1)
        | SleepInterrupted rem \<Rightarrow> (- 1, [dts, rem], m1)
        | SleepError \<Rightarrow> (- 1, [dts], m1))
     (gptpmasterclock_getts64 io w m)"

section \<open>A client that is attached\<close>

definition attached :: "shm_world \<Rightarrow> nat \<Rightarrow> gptp_master_clock_data \<Rightarrow> bool" where
  "attached w s m \<longleftrightarrow> mc_max_domains m \<noteq> 0 \<and> mc_shm m = Some s \<and> head_max_domains (segments w ! s) \<noteq> 0 \<and>
     length (mc_ptpfds m) = mc_max_domains m"

lemma attached_check: "attached w s m \<Longrightarrow> GMCD_INIT_CHECK io w m = (0, m)"
  by (simp add: attached_def GMCD_INIT_CHECK_def)

lemma attached_health:
  assumes "attached w s m" "0 \<le> di" "nat di < mc_max_domains m" "0 \<le> mc_ptpfds m ! nat di"
  shows "gptpmasterclock_health_check io w di m = Some (0, m)"
  using assms attached_check [OF assms(1)]
  by (auto simp: gptpmasterclock_health_check_def health_reattach_def health_devices_def attached_def PTPFD_VALID_def)

text \<open>What a client reads: the offset on the time of the device.\<close>

lemma attached_reads:
  assumes "attached w s m" "0 \<le> di" "nat di < mc_max_domains m" "0 \<le> mc_ptpfds m ! nat di"
  shows "gptpmasterclock_get_domain_ts64 io w di m =
    Some (0, client_value (shm_gcpp (segments w ! s) ! nat di)
        (PTPDEV_CLOCK_GETTIME io (mc_ptpfds m ! nat di) (mc_accesses m)), m\<lparr>mc_accesses := mc_accesses m + 1\<rparr>)"
  using assms attached_health [OF assms] by (auto simp: gptpmasterclock_get_domain_ts64_def attached_def)

lemma attached_getts:
  assumes "attached w s m" "0 \<le> head_active_domain (segments w ! s)"
    and "nat (head_active_domain (segments w ! s)) < mc_max_domains m"
    and "0 \<le> mc_ptpfds m ! nat (head_active_domain (segments w ! s))"
  shows "gptpmasterclock_getts64 io w m =
    Some (client_value (shm_gcpp (segments w ! s) ! nat (head_active_domain (segments w ! s)))
        (PTPDEV_CLOCK_GETTIME io (mc_ptpfds m ! nat (head_active_domain (segments w ! s))) (mc_accesses m)),
      m\<lparr>mc_accesses := mc_accesses m + 1\<rparr>)"
  using attached_reads [OF assms] attached_check [OF assms(1)] assms(1)
  by (auto simp: gptpmasterclock_getts64_def attached_def)

lemma setts_master:
  assumes "FN_ENTRY g 0 dn = Some i" "get_clockod g (pdd_thisClockIndex (pdd g ! od_domainIndex (clds g ! i))) dn = Some j"
    and "mode (clds g ! i) = PTPCLOCK_MASTER" "j \<noteq> i" "offset64 (clds g ! j) = 0"
    and "od_domainIndex (clds g ! i) < length (gcpp g)" "now = hw_time p (ptpfd (clds g ! i)) (hw_accesses g)"
  shows "\<exists>g1. gptpclock_setts64 p ts 0 dn g = (0, g1) \<and>
    clds g1 ! i = (clds g ! i)\<lparr>offset64 := ts - now, last_setts64 := now\<rparr> \<and> FN_ENTRY g1 0 dn = Some i \<and>
    gcpp g1 ! od_domainIndex (clds g ! i) = (gcpp g ! od_domainIndex (clds g ! i))\<lparr>pp_offset64 := ts - now\<rparr>"
proof -
  note i = FN_ENTRY_SomeD [OF assms(1)]
  note c = get_clockod_SomeD [OF i(1)]
  let ?d = "od_domainIndex (clds g ! i)"
  define od where "od = (clds g ! i)\<lparr>offset64 := ts - now, last_setts64 := now\<rparr>"
  define h where "h = g\<lparr>hw_accesses := hw_accesses g + 1, clds := (clds g)[i := od]\<rparr>"
  define g1 where "g1 = h\<lparr>gcpp := (gcpp g)[?d := (gcpp g ! ?d)\<lparr>pp_offset64 := ts - now\<rparr>]\<rparr>"
  have f: "clockIndex (clds h ! k) = clockIndex (clds g ! k)" "od_domainIndex (clds h ! k) = od_domainIndex (clds g ! k)"
    "ppe (clds h ! k) = ppe (clds g ! k)" if "k < length (clds g)" for k
    using that c(1) by (simp_all add: h_def od_def nth_list_update)
  have g1c: "clds g1 = clds h" "gcpp h = gcpp g" by (simp_all add: g1_def h_def)
  have num: "pp_domainNumber (gcpp g1 ! x) = pp_domainNumber (gcpp g ! x)" for x
    using assms(6) by (simp add: g1_def nth_list_update)
  have pp: "pp_domainNumber (pp_of h (clds h ! k)) = pp_domainNumber (pp_of g (clds g ! k))"
    "pp_domainNumber (pp_of g1 (clds h ! k)) = pp_domainNumber (pp_of g (clds g ! k))" if "k < length (clds g)" for k
    by (simp_all only: pp_of_def g1c f [OF that] num if_distrib [of pp_domainNumber])
  have len: "length (clds h) = length (clds g)" by (simp add: h_def)
  have find: "get_clockod h ci d = get_clockod g ci d" "get_clockod g1 ci d = get_clockod g ci d" for ci d
    by (rule get_clockod_cong; simp only: g1c len f pp)+
  have hi: "clds h ! i = od" "clds h ! j = clds g ! j" using c(1) assms(4) by (simp_all add: h_def)
  have n: "pp_domainNumber (pp_of h od) = dn" using pp(1) [OF c(1)] c(3) hi(1) by simp
  have "gptpclock_setoffset_od i h = (0, g1)"
    using assms(3) find assms(2) i(1) hi n c(2) assms(5)
    by (simp add: gptpclock_setoffset_od_def Let_def set_pp_def od_def h_def g1_def)
  then have "gptpclock_setts64 p ts 0 dn g = (0, g1)"
    using assms(1,3,7) by (simp add: gptpclock_setts64_def gptpclock_setts_od_def GPTP_CLOCK_GETTIME_def Let_def
        set_clock_def h_def od_def)
  moreover have "clds g1 ! i = od" using c(1) by (simp add: g1_def h_def)
  moreover have "FN_ENTRY g1 0 dn = Some i"
    using i find \<open>clds g1 ! i = od\<close> by (simp add: FN_ENTRY_def od_def g1_def h_def)
  moreover have "gcpp g1 ! ?d = (gcpp g ! ?d)\<lparr>pp_offset64 := ts - now\<rparr>" using assms(6) by (simp add: g1_def)
  ultimately show ?thesis unfolding od_def by blast
qed

text \<open>C35: When the daemon has set its master clock, a client reads from the shared memory what the daemon reads
  from its own data, if their devices show the same: the offset is written for the client together with
  the clock. The clock the domain works with holds its offset in the device itself.
\<close>

theorem client_agrees_with_daemon:
  assumes "FN_ENTRY g 0 dn = Some i" "get_clockod g (pdd_thisClockIndex (pdd g ! od_domainIndex (clds g ! i))) dn = Some j"
    and "mode (clds g ! i) = PTPCLOCK_MASTER" "j \<noteq> i" "offset64 (clds g ! j) = 0" "adjrate (clds g ! i) = 0"
    and "od_domainIndex (clds g ! i) < length (gcpp g)" "pp_adjrate (gcpp g ! od_domainIndex (clds g ! i)) = 0"
    and "gptpclock_setts64 p ts 0 dn g = (0, g1)"
    and "attached w s m" "shm_gcpp (segments w ! s) = gcpp g1" "od_domainIndex (clds g ! i) < mc_max_domains m"
    and "0 \<le> mc_ptpfds m ! od_domainIndex (clds g ! i)"
    and "PTPDEV_CLOCK_GETTIME io (mc_ptpfds m ! od_domainIndex (clds g ! i)) (mc_accesses m) =
      hw_time q (ptpfd (clds g ! i)) (hw_accesses g1)"
  shows "\<exists>m1. gptpmasterclock_get_domain_ts64 io w (int (od_domainIndex (clds g ! i))) m =
    Some (0, fst (gptpclock_getts64 q 0 dn g1), m1)"
proof -
  let ?d = "od_domainIndex (clds g ! i)" and ?t = "hw_time q (ptpfd (clds g ! i)) (hw_accesses g1)"
  define now where "now = hw_time p (ptpfd (clds g ! i)) (hw_accesses g)"
  have g1: "clds g1 ! i = (clds g ! i)\<lparr>offset64 := ts - now, last_setts64 := now\<rparr>" "FN_ENTRY g1 0 dn = Some i"
    "gcpp g1 ! ?d = (gcpp g ! ?d)\<lparr>pp_offset64 := ts - now\<rparr>"
    using setts_master [OF assms(1-5,7) now_def, of ts] assms(9) by auto
  have "client_value (gcpp g1 ! ?d) ?t = ?t + (ts - now)"
    using assms(8) by (simp add: client_value_def g1(3) Let_def)
  moreover have "fst (gptpclock_getts64 q 0 dn g1) = ?t + (ts - now)"
    using assms(6) by (simp add: gptpclock_getts64_def g1(1,2) getts_od_value clock_value_def)
  ultimately show ?thesis
    using attached_reads [OF assms(10), of "int ?d" io] assms(11-14) by simp
qed

lemma sint_ucast32: "sint (ucast (x :: u64) :: u32) = signed_take_bit 31 (sint x)"
  by transfer (simp, rule bit_eqI, simp add: bit_simps min_def)

lemma ucast32_diff: "ucast t - ucast now = (ucast (t - now :: u64) :: u32)"
proof (rule word_uint_eqI)
  show "uint (ucast t - ucast now :: u32) = uint (ucast (t - now) :: u32)"
    by (simp add: uint_word_ariths unsigned_ucast_eq) (simp add: take_bit_eq_mod mod_diff_eq mod_mod_cancel)
qed

lemma scast_ucast32: "- (2 ^ 31) \<le> sint x \<Longrightarrow> sint x < 2 ^ 31 \<Longrightarrow> scast (ucast (x :: u64) :: u32) = x"
  unfolding scast_eq sint_ucast32 by (simp add: signed_take_bit_int_eq_self)

text \<open>C36: A time stamp of which only the lower 32 bits are known is recovered, when it is less than about two
  seconds from now.\<close>

theorem expand_timestamp_recovers:
  assumes "gptpmasterclock_getts64 io w m = Some (now, m1)" "- (2 ^ 31) \<le> sint (t - now)" "sint (t - now) < 2 ^ 31"
  shows "gptpmasterclock_expand_timestamp io w (ucast t) m = Some (t, m1)"
  using assms(1) scast_ucast32 [OF assms(2,3)] by (simp add: gptpmasterclock_expand_timestamp_def ucast32_diff)

section \<open>Users of the library\<close>

definition attach_times :: "client_io \<Rightarrow> shm_world \<Rightarrow> string \<Rightarrow> nat \<Rightarrow> gptp_master_clock_data \<Rightarrow> gptp_master_clock_data" where
  "attach_times io w name n = (\<lambda>m. snd (gptpmasterclock_init io w name m)) ^^ n"

definition close_times :: "shm_world \<Rightarrow> nat \<Rightarrow> gptp_master_clock_data \<Rightarrow> gptp_master_clock_data" where
  "close_times w n = (\<lambda>m. snd (gptpmasterclock_close w m)) ^^ n"

lemma close_some:
  assumes "attached w s m" "int n < ref_counter m"
  shows "close_times w n m = m\<lparr>ref_counter := ref_counter m - int n\<rparr>"
  using assms(2)
proof (induction n)
  case (Suc n)
  let ?m = "m\<lparr>ref_counter := ref_counter m - int n\<rparr>"
  have "attached w s ?m" "1 < ref_counter ?m" using assms(1) Suc.prems by (simp_all add: attached_def)
  then have "snd (gptpmasterclock_close w ?m) = m\<lparr>ref_counter := ref_counter m - int (Suc n)\<rparr>"
    by (simp add: gptpmasterclock_close_def attached_def Let_def)
  with Suc show ?case by (simp add: close_times_def)
qed (simp add: close_times_def)

lemma attach_more:
  assumes "attached w s m"
  shows "attach_times io w name n m = m\<lparr>ref_counter := ref_counter m + int n\<rparr>"
proof (induction n)
  case (Suc n)
  with assms show ?case by (simp add: attach_times_def gptpmasterclock_init_def attached_def Let_def)
qed (simp add: attach_times_def)

text \<open>The segment stays mapped and no device is closed until as many users have closed as have attached;
  then the segment is given back and every device is closed that had been named.\<close>

theorem last_user_closes:
  assumes "attached w s m" "ref_counter m = 1" "j \<le> n"
  shows "attached w s (close_times w j (attach_times io w name n m)) \<and>
    mc_closed (close_times w j (attach_times io w name n m)) = mc_closed m \<and>
    mc_shm (close_times w (Suc n) (attach_times io w name n m)) = None \<and>
    mc_closed (close_times w (Suc n) (attach_times io w name n m)) = mc_closed m @
      filter (\<lambda>fd. fd \<noteq> GPTP_VIRTUAL_PTPDEV_FDBASE) (map ((!) (mc_ptpfds m))
        (filter (\<lambda>i. pp_ptpdev (shm_gcpp (segments w ! s) ! i) \<noteq> []) [0..<mc_max_domains m]))"
proof -
  let ?u = "attach_times io w name n m"
  have u: "?u = m\<lparr>ref_counter := 1 + int n\<rparr>" using attach_more [OF assms(1)] assms(2) by simp
  have a: "attached w s ?u" using assms(1) by (simp add: u attached_def)
  have c: "close_times w k ?u = m\<lparr>ref_counter := 1 + int n - int k\<rparr>" if "k \<le> n" for k
    using close_some [OF a, of k] that by (simp add: u)
  have l: "close_times w (Suc n) ?u = snd (gptpmasterclock_close w (m\<lparr>ref_counter := 1\<rparr>))"
    using c [of n] by (simp add: close_times_def)
  show ?thesis
    using c [OF assms(3)] assms(1)
    by (simp add: l) (simp add: gptpmasterclock_close_def attached_def cleared_def zero_gmcd_def Let_def)
qed

section \<open>Where the library fails\<close>

text \<open>When the segment cannot be mapped for writing, the number of domains stays set without a segment, and
  the next reading goes through a null pointer.\<close>

theorem failed_mapping_crashes:
  assumes "shm_name w GPTP_MASTER_CLOCK_SHARED_MEM = Some s" "head_max_domains (segments w ! s) \<noteq> 0"
    and "\<not> map_rw io GPTP_MASTER_CLOCK_SHARED_MEM"
  shows "\<exists>m. gptpmasterclock_init io w [] zero_gmcd = (- 1, m) \<and> gptpmasterclock_getts64 io w m = None"
proof -
  obtain m where m: "gptpmasterclock_init io w [] zero_gmcd = (- 1, m)" "mc_max_domains m \<noteq> 0" "mc_shm m = None"
    using assms by (simp add: gptpmasterclock_init_def init_error_def gptpmasterclock_close_def zero_gmcd_def Let_def)
  then have "gptpmasterclock_getts64 io w m = None"
    by (simp add: gptpmasterclock_getts64_def GMCD_INIT_CHECK_def)
  with m(1) show ?thesis by blast
qed

text \<open>A device that could not be opened is never tried again: its descriptor counts as open when it is
  looked for, and as invalid when it is used.\<close>

lemma open_skips: "mc_ptpfds m ! di \<noteq> 0 \<Longrightarrow> mc_ptpfds (snd (ptpdev_open io pps is res m)) ! di = mc_ptpfds m ! di"
proof (induction "is" arbitrary: res m)
  case (Cons i "is")
  let ?m = "m\<lparr>mc_ptpfds := (mc_ptpfds m)[i := PTPDEV_CLOCK_OPEN io (pp_ptpdev (pps ! i)) (mc_accesses m)],
    mc_accesses := mc_accesses m + 1\<rparr>"
  show ?case
  proof (cases "mc_ptpfds m ! i \<noteq> 0")
    case True
    then show ?thesis using Cons by simp
  next
    case False
    then have "i \<noteq> di" using Cons.prems by auto
    then have "mc_ptpfds ?m ! di = mc_ptpfds m ! di" by simp
    with Cons.IH [of ?m 0] Cons.IH [of m res] Cons.prems show ?thesis by (simp add: Let_def)
  qed
qed simp

theorem failed_device_never_reopened:
  assumes "attached w s m" "nat di < mc_max_domains m" "0 \<le> di" "mc_ptpfds m ! nat di < 0"
  shows "\<exists>m1. gptpmasterclock_health_check io w di m = Some (- 1, m1) \<and> mc_ptpfds m1 ! nat di = mc_ptpfds m ! nat di"
proof -
  obtain r m1 where o: "ptpdev_open io (shm_gcpp (segments w ! s)) [0..<mc_max_domains m] (- 1) m = (r, m1)"
    by fastforce
  have "mc_ptpfds m1 ! nat di = mc_ptpfds m ! nat di"
    using open_skips [of m "nat di"] assms(4) o by (metis less_irrefl snd_conv)
  with o assms attached_check [OF assms(1), of io] show ?thesis
    by (auto simp: gptpmasterclock_health_check_def health_reattach_def health_devices_def attached_def PTPFD_VALID_def)
qed

text \<open>With more than one user, a client never gets away from the segment of a daemon that has been closed:
  attaching again gives back one use and takes one.\<close>

theorem stale_segment_kept:
  assumes "mc_max_domains m \<noteq> 0" "mc_shm m = Some s" "head_max_domains (segments w ! s) = 0" "1 < ref_counter m"
  shows "health_reattach io w s m = (0, m)"
  using assms by (simp add: health_reattach_def gptpmasterclock_close_def gptpmasterclock_init_def Let_def)

text \<open>A client that gave a name of its own attaches again under the name of the daemon.\<close>

theorem name_lost_when_reattaching:
  assumes "mc_max_domains m \<noteq> 0" "mc_shm m = Some s" "head_max_domains (segments w ! s) = 0" "ref_counter m = 1"
    and "shm_name w GPTP_MASTER_CLOCK_SHARED_MEM = None"
  shows "fst (health_reattach io w s m) = - 1"
  using assms
  by (simp add: health_reattach_def gptpmasterclock_close_def gptpmasterclock_init_def cleared_def zero_gmcd_def
      init_error_def Let_def)

text \<open>A failed attempt to open the devices takes two uses off the count, so that of two users that attach
  later the first one to close takes the devices from the other.\<close>

theorem failed_attempt_miscounts:
  assumes "shm_name w GPTP_MASTER_CLOCK_SHARED_MEM = Some s" "head_max_domains (segments w ! s) \<noteq> 0"
    and "map_rw io GPTP_MASTER_CLOCK_SHARED_MEM" "\<forall>i < head_max_domains (segments w ! s). pp_ptpdev (shm_gcpp (segments w ! s) ! i) = []"
  shows "ref_counter (snd (gptpmasterclock_init io w [] zero_gmcd)) = - 1"
proof -
  have none: "ptpdev_open io pps is (- 1) m = (- 1, m)" if "\<forall>i\<in>set is. pp_ptpdev (pps ! i) = []" for pps "is" m
    using that by (induction "is") auto
  have "ptpdev_open io (shm_gcpp (segments w ! s)) [0..<head_max_domains (segments w ! s)] (- 1) m = (- 1, m)" for m
    by (rule none) (use assms(4) in auto)
  with assms show ?thesis
    by (simp add: gptpmasterclock_init_def init_error_def gptpmasterclock_close_def cleared_def zero_gmcd_def Let_def)
qed

section \<open>A client of the sample clocks\<close>

definition sample_client_io :: "bool \<Rightarrow> client_io" where
  "sample_client_io rw = \<lparr>virtual_prefix = ''ptpvd'', dev_open = \<lambda>_ _. 3, dev_time = \<lambda>_ _. 1000, rt_time = \<lambda>_. 0,
     map_rw = \<lambda>_. rw\<rparr>"

definition sample_world :: "gptp_clock_ppara list \<Rightarrow> shm_world" where
  "sample_world pps = \<lparr>segments = [\<lparr>head_max_domains = length pps, head_active_domain = 0, shm_gcpp = pps\<rparr>],
     shm_name = (\<lambda>n. if n = GPTP_MASTER_CLOCK_SHARED_MEM then Some 0 else None)\<rparr>"

text \<open>The client has the device of the first domain open.\<close>

definition sample_client :: gptp_master_clock_data where
  "sample_client = zero_gmcd\<lparr>mc_max_domains := 2, mc_shm := Some 0, mc_ptpfds := [3, 3], ref_counter := 1\<rparr>"

lemma sample_attached: "length pps = 2 \<Longrightarrow> attached (sample_world pps) 0 sample_client"
  by (simp add: attached_def sample_world_def sample_client_def zero_gmcd_def)

lemma sample_client_data:
  "mc_max_domains sample_client = 2" "mc_ptpfds sample_client = [3, 3]" "ref_counter sample_client = 1"
  "mc_accesses sample_client = 0" "mc_closed sample_client = []"
  by (simp_all add: sample_client_def zero_gmcd_def)

lemma sample_device_time: "PTPDEV_CLOCK_GETTIME (sample_client_io rw) 3 n = 1000"
  by (simp add: PTPDEV_CLOCK_GETTIME_def VIRTUAL_CLOCKFD_def GPTP_VIRTUAL_PTPDEV_FDBASE_def sample_client_io_def)

theorem client_agrees_with_daemon_witness:
  "\<exists>g1 m1. gptpclock_setts64 sample_platform 7000 0 0 sample_gcd = (0, g1) \<and>
     gptpmasterclock_get_domain_ts64 (sample_client_io True) (sample_world (gcpp g1)) 0 sample_client =
       Some (0, fst (gptpclock_getts64 sample_platform 0 0 g1), m1)"
proof -
  have s: "get_clockod sample_gcd 1 0 = Some 1" "clds sample_gcd ! 0 = sample_od 0 0" "clds sample_gcd ! 1 = sample_od 1 0"
    "pdd_thisClockIndex (pdd sample_gcd ! 0) = 1" "length (gcpp sample_gcd) = 2" "pp_adjrate (gcpp sample_gcd ! 0) = 0"
    using FN_ENTRY_SomeD(1) [OF sample_gcd_entries(2)] by (simp_all add: sample_gcd_def zero_ppara_def)
  have o: "od_domainIndex (sample_od 0 0) = 0" "mode (sample_od 0 0) = PTPCLOCK_MASTER" "offset64 (sample_od 1 0) = 0"
    "adjrate (sample_od 0 0) = 0" "ptpfd (sample_od 0 0) = 3"
    by (simp_all add: sample_od_def zero_oneclock_def)
  obtain g1 where g1: "gptpclock_setts64 sample_platform 7000 0 0 sample_gcd = (0, g1)" "length (gcpp g1) = 2"
    using s o by (auto simp: gptpclock_setts64_def gptpclock_setts_od_def GPTP_CLOCK_GETTIME_def gptpclock_setoffset_od_def
        set_clock_def set_pp_def Let_def split: option.splits)
  have "\<exists>m1. gptpmasterclock_get_domain_ts64 (sample_client_io True) (sample_world (gcpp g1)) (int 0) sample_client =
      Some (0, fst (gptpclock_getts64 sample_platform 0 0 g1), m1)"
    using client_agrees_with_daemon [where g = sample_gcd and dn = 0 and i = 0 and j = 1 and p = sample_platform and
        ts = 7000 and w = "sample_world (gcpp g1)" and s = 0 and m = sample_client and io = "sample_client_io True" and
        q = sample_platform, OF sample_gcd_entries(1) _ _ _ _ _ _ _ g1(1)] s o sample_attached [OF g1(2)]
    by (simp add: sample_client_data sample_device_time sample_platform_def) (simp add: sample_world_def)
  with g1(1) show ?thesis by auto
qed

text \<open>The device shows 1000: of a time stamp of 5 the lower bits are enough.\<close>

theorem expand_timestamp_recovers_witness:
  "\<exists>m1. gptpmasterclock_expand_timestamp (sample_client_io True) (sample_world [zero_ppara, zero_ppara]) 5 sample_client =
     Some (5, m1)"
proof -
  have "gptpmasterclock_getts64 (sample_client_io True) (sample_world [zero_ppara, zero_ppara]) sample_client =
      Some (1000, sample_client\<lparr>mc_accesses := 1\<rparr>)"
    using attached_getts [OF sample_attached [of "[zero_ppara, zero_ppara]"], of "sample_client_io True"]
    by (simp add: sample_client_data sample_device_time) (simp add: sample_world_def client_value_def zero_ppara_def sample_device_time)
  from expand_timestamp_recovers [OF this, of 5] show ?thesis by simp
qed

theorem last_user_closes_witness:
  "mc_closed (close_times (sample_world [zero_ppara\<lparr>pp_ptpdev := ''/dev/ptp0''\<rparr>, zero_ppara]) 3
     (attach_times (sample_client_io True) (sample_world [zero_ppara\<lparr>pp_ptpdev := ''/dev/ptp0''\<rparr>, zero_ppara]) [] 2
        sample_client)) = [3]"
  using last_user_closes [OF sample_attached [of "[zero_ppara\<lparr>pp_ptpdev := ''/dev/ptp0''\<rparr>, zero_ppara]"], of 0 2
      "sample_client_io True" "[]"]
  by (simp add: sample_client_data sample_world_def GPTP_VIRTUAL_PTPDEV_FDBASE_def zero_ppara_def upt_rec numeral_3_eq_3)

theorem failed_mapping_crashes_witness:
  "\<exists>m. gptpmasterclock_init (sample_client_io False) (sample_world [zero_ppara]) [] zero_gmcd = (- 1, m) \<and>
     gptpmasterclock_getts64 (sample_client_io False) (sample_world [zero_ppara]) m = None"
  by (rule failed_mapping_crashes [where s = 0]) (simp_all add: sample_world_def sample_client_io_def)

end
