(* ===== verification/Gptp_VirtualClock.thy ===== *)
theory Gptp_VirtualClock
  imports Gptp_MasterClock "HOL-Library.Multiset"
begin

text \<open>
  Clock devices that are not there (\<^verbatim>\<open>gptpclock_virtual.c\<close>): a clock that runs on the time of the host with
  a frequency and a phase of its own, found by the name of its device and shared by those who open the
  same name; and the opening of a clock device, virtual or real (\<^verbatim>\<open>posix/ix_gptpclock.c\<close>).

  The array is one of \<^verbatim>\<open>xl4unibase\<close>, as in the theory of the abnormal events: it takes \<open>es_capacity\<close> elements,
  and \<open>es_del\<close> takes an element out, in whatever order it leaves the rest. The time of the host is an
  argument.
\<close>

record ptpfd_virtual =
  pv_ptpdev :: string
  pv_fd :: int
  pv_freq_adj :: int
  pv_lastts :: u64
  pv_lastpts :: u64
  pv_rdwr_mode :: bool
  pv_users :: int

record es_lib =
  es_capacity :: nat
  es_del :: "nat \<Rightarrow> ptpfd_virtual list \<Rightarrow> ptpfd_virtual list"

definition es_del_ok :: "es_lib \<Rightarrow> bool" where
  "es_del_ok lib \<longleftrightarrow> (\<forall>i xs. i < length xs \<longrightarrow> mset (es_del lib i xs) = mset xs - {#xs ! i#})"

text \<open>\<open>None\<close> is the array that has not been made.\<close>

type_synonym vclocks = "ptpfd_virtual list option"

section \<open>Opening and closing\<close>

definition find_ptpfd_virtual :: "int \<Rightarrow> vclocks \<Rightarrow> nat option" where
  "find_ptpfd_virtual fd v = (case v of
      None \<Rightarrow> None
    | Some es \<Rightarrow> find (\<lambda>i. pv_fd (es ! i) = fd) [0..<length es])"

definition PTPVDEV_MAX_NAME :: nat where "PTPVDEV_MAX_NAME = 16"

definition writable_name :: "string \<Rightarrow> string \<Rightarrow> bool" where
  "writable_name prefix dev \<longleftrightarrow> length prefix < length dev \<and> dev ! length prefix = CHR ''w''"

definition highest_fd :: "ptpfd_virtual list \<Rightarrow> int" where
  "highest_fd es = foldl (\<lambda>m pv. max (pv_fd pv) m) (GPTP_VIRTUAL_PTPDEV_FDBASE - 1) es"

definition new_vclock :: "string \<Rightarrow> string \<Rightarrow> int \<Rightarrow> ptpfd_virtual" where
  "new_vclock prefix dev fd = \<lparr>pv_ptpdev = take (PTPVDEV_MAX_NAME - 1) dev, pv_fd = fd, pv_freq_adj = 0,
     pv_lastts = 0, pv_lastpts = 0, pv_rdwr_mode = writable_name prefix dev, pv_users = 1\<rparr>"

text \<open>The name is compared as a whole with names of which 15 characters are kept. \<open>None\<close> is a write through
  the null pointer that a full array gives.\<close>

definition gptp_vclock_alloc_fd :: "es_lib \<Rightarrow> string \<Rightarrow> string \<Rightarrow> vclocks \<Rightarrow> (int \<times> vclocks) option" where
  "gptp_vclock_alloc_fd lib prefix dev v =
     (let es = (case v of None \<Rightarrow> [] | Some l \<Rightarrow> l) in
      case find (\<lambda>i. pv_ptpdev (es ! i) = dev) [0..<length es] of
        Some i \<Rightarrow> Some (pv_fd (es ! i), Some (es[i := (es ! i)\<lparr>pv_users := pv_users (es ! i) + 1\<rparr>]))
      | None \<Rightarrow>
          if length es \<ge> es_capacity lib then None
          else let pv = new_vclock prefix dev (highest_fd es + 1); es1 = es @ [pv]
               in if pv_fd pv > GPTP_VIRTUAL_PTPDEV_FDMAX
                  then Some (PTPFD_INVALID, Some (es_del lib (length es) es1))
                  else Some (pv_fd pv, Some es1))"

definition gptp_vclock_free_fd :: "es_lib \<Rightarrow> int \<Rightarrow> vclocks \<Rightarrow> int \<times> vclocks" where
  "gptp_vclock_free_fd lib fd v = (case (find_ptpfd_virtual fd v, v) of
      (Some i, Some es) \<Rightarrow>
        (let pv = (es ! i)\<lparr>pv_users := pv_users (es ! i) - 1\<rparr>; es1 = es[i := pv] in
         if pv_users pv \<noteq> 0 then (0, Some es1)
         else let es2 = es_del lib i es1 in (0, if es2 = [] then None else Some es2))
    | _ \<Rightarrow> (- 1, v))"

section \<open>Time\<close>

definition upd_vclock :: "nat \<Rightarrow> (ptpfd_virtual \<Rightarrow> ptpfd_virtual) \<Rightarrow> vclocks \<Rightarrow> vclocks" where
  "upd_vclock i f v = map_option (\<lambda>es. es[i := f (es ! i)]) v"

definition gptp_vclock_settime :: "int \<Rightarrow> u64 \<Rightarrow> u64 \<Rightarrow> vclocks \<Rightarrow> int \<times> vclocks" where
  "gptp_vclock_settime fd ts64 now v = (case (find_ptpfd_virtual fd v, v) of
      (Some i, Some es) \<Rightarrow>
        if \<not> pv_rdwr_mode (es ! i) then (- 1, v)
        else (0, upd_vclock i (\<lambda>pv. pv\<lparr>pv_lastpts := ts64, pv_lastts := now\<rparr>) v)
    | _ \<Rightarrow> (- 1, v))"

definition gptp_vclock_adjtime :: "int \<Rightarrow> int \<Rightarrow> vclocks \<Rightarrow> int \<times> vclocks" where
  "gptp_vclock_adjtime fd adj v = (case (find_ptpfd_virtual fd v, v) of
      (Some i, Some es) \<Rightarrow>
        if \<not> pv_rdwr_mode (es ! i) then (- 1, v) else (0, upd_vclock i (\<lambda>pv. pv\<lparr>pv_freq_adj := adj\<rparr>) v)
    | _ \<Rightarrow> (- 1, v))"

text \<open>The clock goes on from its last reading by the time that has passed at the host and the share of it
  that the frequency adds, in parts of a billion; \<open>clock_rate\<close> is the configured part.\<close>

definition vclock_advance :: "int \<Rightarrow> u64 \<Rightarrow> ptpfd_virtual \<Rightarrow> u64" where
  "vclock_advance clock_rate now pv =
     (let dts64 = now - pv_lastts pv;
          rate = (if pv_rdwr_mode pv then pv_freq_adj pv + clock_rate else clock_rate);
          dpts64 = of_int (c_div (sint (dts64 * of_int rate)) UB_SEC_NS)
      in pv_lastpts pv + dts64 + dpts64)"

definition gptp_vclock_gettime :: "int \<Rightarrow> int \<Rightarrow> u64 \<Rightarrow> vclocks \<Rightarrow> u64 \<times> vclocks" where
  "gptp_vclock_gettime clock_rate fd now v = (case (find_ptpfd_virtual fd v, v) of
      (Some i, Some es) \<Rightarrow>
        (let ts = (if pv_lastts (es ! i) = 0 then now else vclock_advance clock_rate now (es ! i))
         in (ts, upd_vclock i (\<lambda>pv. pv\<lparr>pv_lastpts := ts, pv_lastts := now\<rparr>) v))
    | _ \<Rightarrow> (0, v))"

section \<open>Clock devices\<close>

text \<open>What trying to open a real device for reading and writing, or for reading only, gives at an attempt:
  a descriptor, and whether the failure was a lack of permission. There is one more attempt than sleeps.\<close>

record open_io =
  try_open :: "string \<Rightarrow> bool \<Rightarrow> nat \<Rightarrow> int \<times> bool"

fun open_retry :: "open_io \<Rightarrow> string \<Rightarrow> nat \<Rightarrow> nat \<Rightarrow> ptpclock_state \<times> int" where
  "open_retry io dev sleeps k =
     (case try_open io dev True k of (fd, eacces) \<Rightarrow>
        if PTPFD_VALID fd then (PTPCLOCK_RDWR, fd)
        else
          let (fd1, ro, denied) = (if eacces then (case try_open io dev False k of (f, ea) \<Rightarrow>
                (f, PTPFD_VALID f, \<not> PTPFD_VALID f \<and> ea)) else (fd, False, False))
          in if ro then (PTPCLOCK_RDONLY, fd1)
             else if denied then (PTPCLOCK_NOACCESS, fd1)
             else case sleeps of 0 \<Rightarrow> (PTPCLOCK_NOWORK, fd1) | Suc n \<Rightarrow> open_retry io dev n (k + 1))"

declare open_retry.simps [simp del]

definition PTPCLOCK_OPEN_TOUT :: nat where "PTPCLOCK_OPEN_TOUT = 100"

definition gptp_get_ptpfd ::
  "es_lib \<Rightarrow> open_io \<Rightarrow> string \<Rightarrow> string \<Rightarrow> vclocks \<Rightarrow> ((ptpclock_state \<times> int) \<times> vclocks) option" where
  "gptp_get_ptpfd lib io prefix dev v =
     (if VIRTUAL_CLOCKNAME prefix dev then
        map_option (\<lambda>(fd, v1).
          ((if fd < 0 then PTPCLOCK_NOACCESS else if writable_name prefix dev then PTPCLOCK_RDWR else PTPCLOCK_RDONLY, fd), v1))
          (gptp_vclock_alloc_fd lib prefix dev v)
      else Some (open_retry io dev (PTPCLOCK_OPEN_TOUT div 10) 0, v))"

text \<open>Closing and adjusting; for a real device \<open>dev_close\<close> and \<open>dev_adj\<close> are the results of the driver.\<close>

definition gptp_close_ptpfd :: "es_lib \<Rightarrow> (int \<Rightarrow> int) \<Rightarrow> int \<Rightarrow> vclocks \<Rightarrow> int \<times> vclocks" where
  "gptp_close_ptpfd lib dev_close fd v =
     (if VIRTUAL_CLOCKFD fd then gptp_vclock_free_fd lib fd v else (dev_close fd, v))"

definition ptpfd_adjtime :: "(int \<Rightarrow> int \<Rightarrow> int) \<Rightarrow> int \<Rightarrow> int \<Rightarrow> vclocks \<Rightarrow> int \<times> vclocks" where
  "ptpfd_adjtime dev_adj fd adj v =
     (if VIRTUAL_CLOCKFD fd then gptp_vclock_adjtime fd adj v else (dev_adj fd adj, v))"

section \<open>The table of the clocks\<close>

text \<open>What the array stands for: a table of clocks by their descriptors, in which the order of the elements
  does not matter. The descriptors are different, in the range of the virtual ones, and each clock has
  a user.\<close>

definition vclock_list :: "vclocks \<Rightarrow> ptpfd_virtual list" where
  "vclock_list v = (case v of None \<Rightarrow> [] | Some es \<Rightarrow> es)"

definition vclock_at :: "vclocks \<Rightarrow> int \<Rightarrow> ptpfd_virtual option" where
  "vclock_at v fd = find (\<lambda>pv. pv_fd pv = fd) (vclock_list v)"

definition vclocks_ok :: "vclocks \<Rightarrow> bool" where
  "vclocks_ok v \<longleftrightarrow> distinct (map pv_fd (vclock_list v)) \<and>
     (\<forall>pv\<in>set (vclock_list v). VIRTUAL_CLOCKFD (pv_fd pv) \<and> pv_users pv \<ge> 1)"

lemma vclock_list_simps [simp]: "vclock_list None = []" "vclock_list (Some es) = es"
  by (simp_all add: vclock_list_def)

lemma find_nth_Some:
  assumes "find (\<lambda>i. P (xs ! i)) [0..<length xs] = Some i"
  shows "i < length xs" "P (xs ! i)"
  using assms unfolding find_Some_iff by auto

lemma find_nth_None: "find (\<lambda>i. P (xs ! i)) [0..<length xs] = None \<longleftrightarrow> (\<forall>x\<in>set xs. \<not> P x)"
  by (auto simp: find_None_iff in_set_conv_nth) (metis nth_mem)

lemma distinct_nth_unique:
  "distinct (map f xs) \<Longrightarrow> i < length xs \<Longrightarrow> j < length xs \<Longrightarrow> f (xs ! i) = f (xs ! j) \<Longrightarrow> i = j"
  by (simp add: distinct_conv_nth) (metis length_map nth_map)

lemma vclock_at_eq:
  assumes "distinct (map pv_fd (vclock_list v))"
  shows "vclock_at v fd = Some pv \<longleftrightarrow> pv \<in> set (vclock_list v) \<and> pv_fd pv = fd"
proof -
  have *: "distinct (map pv_fd xs) \<Longrightarrow> find (\<lambda>pv. pv_fd pv = fd) xs = Some pv \<longleftrightarrow> pv \<in> set xs \<and> pv_fd pv = fd" for xs
    by (induction xs) auto
  show ?thesis using *[OF assms] by (simp add: vclock_at_def)
qed

lemma vclock_at_None: "vclock_at v fd = None \<longleftrightarrow> fd \<notin> pv_fd ` set (vclock_list v)"
  by (auto simp: vclock_at_def find_None_iff)

lemma vclock_at_mset_cong:
  assumes "mset (vclock_list v) = mset (vclock_list w)" "distinct (map pv_fd (vclock_list v))"
  shows "vclock_at v = vclock_at w"
proof
  fix fd
  have "distinct (map pv_fd (vclock_list w))"
    using assms by (metis mset_eq_imp_distinct_iff mset_map)
  moreover have "set (vclock_list v) = set (vclock_list w)" using assms(1) by (rule mset_eq_setD)
  ultimately show "vclock_at v fd = vclock_at w fd"
    using vclock_at_eq[OF assms(2), of fd] vclock_at_eq[of w fd] by (metis not_None_eq)
qed

lemma find_ptpfd_virtual_None: "find_ptpfd_virtual fd v = None \<longleftrightarrow> vclock_at v fd = None"
  by (cases v) (auto simp: find_ptpfd_virtual_def vclock_at_None find_nth_None[of "\<lambda>pv. pv_fd pv = fd"])

lemma find_ptpfd_virtual_Some:
  assumes "find_ptpfd_virtual fd v = Some i"
  shows "\<exists>es. v = Some es \<and> i < length es \<and> pv_fd (es ! i) = fd"
  using assms by (cases v) (auto simp: find_ptpfd_virtual_def dest: find_nth_Some[of "\<lambda>pv. pv_fd pv = fd"])

lemma vclock_at_found:
  assumes "vclocks_ok (Some es)" "i < length es" "pv_fd (es ! i) = fd"
  shows "vclock_at (Some es) fd = Some (es ! i)" "find_ptpfd_virtual fd (Some es) = Some i"
proof -
  show "vclock_at (Some es) fd = Some (es ! i)"
    using assms by (subst vclock_at_eq) (auto simp: vclocks_ok_def)
  then have "find_ptpfd_virtual fd (Some es) \<noteq> None" by (simp add: find_ptpfd_virtual_None)
  then obtain j where j: "find_ptpfd_virtual fd (Some es) = Some j" by blast
  moreover have "j = i"
    using find_ptpfd_virtual_Some[OF j] assms distinct_nth_unique[of pv_fd es j i] by (auto simp: vclocks_ok_def)
  ultimately show "find_ptpfd_virtual fd (Some es) = Some i" by simp
qed

text \<open>Changing one clock in place.\<close>

lemma vclock_at_update:
  assumes "vclocks_ok (Some es)" "i < length es" "pv_fd x = pv_fd (es ! i)"
  shows "vclock_at (Some (es[i := x])) = (vclock_at (Some es))(pv_fd x \<mapsto> x)"
proof
  fix fd
  have d: "distinct (map pv_fd es)" using assms(1) by (simp add: vclocks_ok_def)
  have m: "map pv_fd (es[i := x]) = map pv_fd es"
    using assms(2,3) by (simp add: map_update list_update_same_conv)
  show "vclock_at (Some (es[i := x])) fd = ((vclock_at (Some es))(pv_fd x \<mapsto> x)) fd"
  proof (cases "fd = pv_fd x")
    case True
    then show ?thesis using d m assms(2) by (simp add: vclock_at_eq set_update_memI)
  next
    case False
    have "find (\<lambda>pv. pv_fd pv = fd) (xs[i := x]) = find (\<lambda>pv. pv_fd pv = fd) xs"
      if "i < length xs" "pv_fd x = pv_fd (xs ! i)" for xs i
      using that False by (induction xs arbitrary: i) (auto split: nat.splits)
    then show ?thesis using False assms(2,3) by (simp add: vclock_at_def)
  qed
qed

lemma vclocks_ok_update:
  assumes "vclocks_ok (Some es)" "i < length es" "pv_fd x = pv_fd (es ! i)" "pv_users x \<ge> 1"
  shows "vclocks_ok (Some (es[i := x]))"
proof -
  have "map pv_fd (es[i := x]) = map pv_fd es"
    using assms(2,3) by (simp add: map_update list_update_same_conv)
  then show ?thesis
    using assms set_update_subset_insert[of es i x] by (auto simp: vclocks_ok_def)
qed

text \<open>Taking one out.\<close>

definition drop_nth :: "nat \<Rightarrow> 'a list \<Rightarrow> 'a list" where
  "drop_nth i xs = take i xs @ drop (Suc i) xs"

lemma drop_nth_mset: "i < length xs \<Longrightarrow> mset xs = add_mset (xs ! i) (mset (drop_nth i xs))"
  by (subst id_take_nth_drop[of i xs]) (simp_all add: drop_nth_def min_def)

lemma es_del_mset: "es_del_ok lib \<Longrightarrow> i < length xs \<Longrightarrow> mset (es_del lib i xs) = mset (drop_nth i xs)"
  using drop_nth_mset[of i xs] by (simp add: es_del_ok_def)

lemma es_del_last: "es_del_ok lib \<Longrightarrow> mset (es_del lib (length xs) (xs @ [x])) = mset xs"
  by (simp add: es_del_ok_def)

lemma vclocks_ok_mset:
  assumes "mset (vclock_list v) = mset (vclock_list w)"
  shows "vclocks_ok v \<longleftrightarrow> vclocks_ok w"
  using assms mset_eq_imp_distinct_iff[of "map pv_fd (vclock_list v)" "map pv_fd (vclock_list w)"]
    mset_eq_setD[OF assms] by (simp add: vclocks_ok_def)

lemma vclocks_ok_drop: "vclocks_ok (Some es) \<Longrightarrow> vclocks_ok (Some (drop_nth i es))"
  unfolding vclocks_ok_def drop_nth_def
  by (auto simp: take_map[symmetric] drop_map[symmetric] set_take_disj_set_drop_if_distinct
      dest: in_set_takeD in_set_dropD)

lemma vclock_at_drop:
  assumes "vclocks_ok (Some es)" "i < length es"
  shows "vclock_at (Some (drop_nth i es)) = (vclock_at (Some es))(pv_fd (es ! i) := None)"
proof
  fix fd
  let ?d = "Some (drop_nth i es)"
  have d: "distinct (map pv_fd es)" using assms(1) by (simp add: vclocks_ok_def)
  have dd: "distinct (map pv_fd (drop_nth i es))" using vclocks_ok_drop[OF assms(1)] by (simp add: vclocks_ok_def)
  have s: "set es = insert (es ! i) (set (drop_nth i es))"
    using drop_nth_mset[OF assms(2)] by (metis set_mset_add_mset_insert set_mset_mset)
  have m: "mset (map pv_fd es) = mset (pv_fd (es ! i) # map pv_fd (drop_nth i es))"
    using drop_nth_mset[OF assms(2)] by simp
  then have n: "pv_fd (es ! i) \<notin> pv_fd ` set (drop_nth i es)"
    using d mset_eq_imp_distinct_iff[OF m] by simp
  show "vclock_at ?d fd = ((vclock_at (Some es))(pv_fd (es ! i) := None)) fd"
  proof (cases "fd = pv_fd (es ! i)")
    case True
    then show ?thesis using n by (simp add: vclock_at_None)
  next
    case False
    then have "vclock_at ?d fd = Some pv \<longleftrightarrow> vclock_at (Some es) fd = Some pv" for pv
      using d dd s by (auto simp: vclock_at_eq)
    then show ?thesis using False by (metis fun_upd_other not_None_eq)
  qed
qed

section \<open>What opening and closing do to the table\<close>

lemma ptpfd_update_users:
  assumes "vclocks_ok (Some es)" "i < length es"
  shows "vclock_at (Some (es[i := (es ! i)\<lparr>pv_users := n\<rparr>])) =
    (vclock_at (Some es))(pv_fd (es ! i) \<mapsto> (es ! i)\<lparr>pv_users := n\<rparr>)"
  using vclock_at_update[OF assms, of "(es ! i)\<lparr>pv_users := n\<rparr>"] by simp

text \<open>Closing a virtual clock takes away one of its users, and the clock with its last one; a clock that
  nobody has open is an error that changes nothing, and the other clocks stay what they are.\<close>

lemma free_table:
  assumes "es_del_ok lib" "vclocks_ok v"
  shows "vclock_at (snd (gptp_vclock_free_fd lib fd v)) = (case vclock_at v fd of
      None \<Rightarrow> vclock_at v
    | Some pv \<Rightarrow> (vclock_at v)(fd := if pv_users pv = 1 then None else Some (pv\<lparr>pv_users := pv_users pv - 1\<rparr>)))"
    and "fst (gptp_vclock_free_fd lib fd v) = (if vclock_at v fd = None then - 1 else 0)"
    and "vclocks_ok (snd (gptp_vclock_free_fd lib fd v))"
proof -
  let ?r = "gptp_vclock_free_fd lib fd v"
  have "vclock_at (snd ?r) = (case vclock_at v fd of None \<Rightarrow> vclock_at v
    | Some pv \<Rightarrow> (vclock_at v)(fd := if pv_users pv = 1 then None else Some (pv\<lparr>pv_users := pv_users pv - 1\<rparr>))) \<and>
    fst ?r = (if vclock_at v fd = None then - 1 else 0) \<and> vclocks_ok (snd ?r)"
  proof (cases "find_ptpfd_virtual fd v")
    case None
    then show ?thesis using assms(2) by (simp add: gptp_vclock_free_fd_def find_ptpfd_virtual_None[symmetric])
        (simp add: find_ptpfd_virtual_None)
  next
    case (Some i)
    then obtain es where es: "v = Some es" "i < length es" "pv_fd (es ! i) = fd"
      using find_ptpfd_virtual_Some by blast
    note ok = assms(2)[unfolded es(1)]
    let ?pv = "(es ! i)\<lparr>pv_users := pv_users (es ! i) - 1\<rparr>"
    have at: "vclock_at v fd = Some (es ! i)" using vclock_at_found[OF ok es(2,3)] es(1) by simp
    have u: "pv_users (es ! i) \<ge> 1" using ok es(2) by (simp add: vclocks_ok_def)
    show ?thesis
    proof (cases "pv_users (es ! i) = 1")
      case False
      then show ?thesis
        using Some es at u ptpfd_update_users[OF ok es(2), of "pv_users (es ! i) - 1"]
          vclocks_ok_update[OF ok es(2), of ?pv]
        by (simp add: gptp_vclock_free_fd_def)
    next
      case True
      let ?e1 = "es[i := ?pv]"
      let ?es2 = "es_del lib i ?e1"
      have m: "mset ?es2 = mset (drop_nth i es)"
        using es_del_mset[OF assms(1), of i ?e1] es(2) by (simp add: drop_nth_def)
      have r: "?r = (0, if ?es2 = [] then None else Some ?es2)"
        using Some es True by (simp add: gptp_vclock_free_fd_def Let_def)
      have l: "vclock_list (snd ?r) = ?es2" using r by simp
      have "vclock_at (snd ?r) = vclock_at (Some (drop_nth i es))"
        using vclock_at_mset_cong[of "Some (drop_nth i es)" "snd ?r"] vclocks_ok_drop[OF ok, of i] m l
        by (simp add: vclocks_ok_def)
      moreover have "vclocks_ok (snd ?r)"
        using vclocks_ok_mset[of "snd ?r" "Some (drop_nth i es)"] vclocks_ok_drop[OF ok, of i] m l by simp
      ultimately show ?thesis
        using vclock_at_drop[OF ok es(2)] at True es r by simp
    qed
  qed
  then show "vclock_at (snd ?r) = (case vclock_at v fd of None \<Rightarrow> vclock_at v
    | Some pv \<Rightarrow> (vclock_at v)(fd := if pv_users pv = 1 then None else Some (pv\<lparr>pv_users := pv_users pv - 1\<rparr>)))"
    "fst ?r = (if vclock_at v fd = None then - 1 else 0)" "vclocks_ok (snd ?r)" by blast+
qed

lemma highest_fd_ge:
  "pv \<in> set es \<Longrightarrow> pv_fd pv \<le> highest_fd es" "GPTP_VIRTUAL_PTPDEV_FDBASE - 1 \<le> highest_fd es"
proof -
  have *: "m \<le> foldl (\<lambda>m pv. max (pv_fd pv) m) m es \<and>
      (\<forall>pv\<in>set es. pv_fd pv \<le> foldl (\<lambda>m pv. max (pv_fd pv) m) m es)" for m
    by (induction es arbitrary: m) (auto simp: max_def split: if_splits, (meson order_trans linear)+)
  show "pv \<in> set es \<Longrightarrow> pv_fd pv \<le> highest_fd es" "GPTP_VIRTUAL_PTPDEV_FDBASE - 1 \<le> highest_fd es"
    using *[of "GPTP_VIRTUAL_PTPDEV_FDBASE - 1"] by (auto simp: highest_fd_def)
qed

lemma new_vclock_simps [simp]: "pv_fd (new_vclock prefix dev fd) = fd" "pv_users (new_vclock prefix dev fd) = 1"
  "pv_ptpdev (new_vclock prefix dev fd) = take 15 dev"
  by (simp_all add: new_vclock_def PTPVDEV_MAX_NAME_def)

lemma vclocks_ok_append:
  assumes "vclocks_ok (Some es)" "pv_fd x \<notin> pv_fd ` set es" "VIRTUAL_CLOCKFD (pv_fd x)" "pv_users x = 1"
  shows "vclocks_ok (Some (es @ [x]))" "vclock_at (Some (es @ [x])) = (vclock_at (Some es))(pv_fd x \<mapsto> x)"
proof -
  show "vclocks_ok (Some (es @ [x]))" using assms by (auto simp: vclocks_ok_def)
  show "vclock_at (Some (es @ [x])) = (vclock_at (Some es))(pv_fd x \<mapsto> x)"
  proof
    fix fd
    have "find (\<lambda>pv. pv_fd pv = fd) (xs @ [x]) =
        ((\<lambda>fd. find (\<lambda>pv. pv_fd pv = fd) xs)(pv_fd x \<mapsto> x)) fd" if "pv_fd x \<notin> pv_fd ` set xs" for xs
      using that by (induction xs) auto
    then show "vclock_at (Some (es @ [x])) fd = ((vclock_at (Some es))(pv_fd x \<mapsto> x)) fd"
      using assms(2) by (simp add: vclock_at_def)
  qed
qed

text \<open>The cases of opening.\<close>

lemma alloc_shared:
  assumes "find (\<lambda>i. pv_ptpdev (vclock_list v ! i) = dev) [0..<length (vclock_list v)] = Some i"
  shows "gptp_vclock_alloc_fd lib prefix dev v = Some (pv_fd (vclock_list v ! i), Some ((vclock_list v)[i :=
    (vclock_list v ! i)\<lparr>pv_users := pv_users (vclock_list v ! i) + 1\<rparr>]))"
  using assms unfolding gptp_vclock_alloc_fd_def vclock_list_def[symmetric] by (simp add: Let_def)

lemma alloc_new:
  assumes "find (\<lambda>i. pv_ptpdev (vclock_list v ! i) = dev) [0..<length (vclock_list v)] = None"
  shows "gptp_vclock_alloc_fd lib prefix dev v = (if length (vclock_list v) \<ge> es_capacity lib then None
    else let pv = new_vclock prefix dev (highest_fd (vclock_list v) + 1); es1 = vclock_list v @ [pv]
         in if pv_fd pv > GPTP_VIRTUAL_PTPDEV_FDMAX
            then Some (PTPFD_INVALID, Some (es_del lib (length (vclock_list v)) es1)) else Some (pv_fd pv, Some es1))"
  using assms unfolding gptp_vclock_alloc_fd_def vclock_list_def[symmetric] by (simp add: Let_def)

lemma vclocks_ok_list: "vclocks_ok (Some (vclock_list v)) = vclocks_ok v"
  "vclock_at (Some (vclock_list v)) = vclock_at v"
  by (simp_all add: vclocks_ok_def vclock_at_def fun_eq_iff)

text \<open>Opening a virtual clock gives a descriptor from the range of the virtual ones. Either the clock was
  there under that name and has one user more, or the descriptor was free and now belongs to a new clock
  with a single user; or there was no descriptor left, which is an error that changes nothing.\<close>

lemma alloc_table:
  assumes "es_del_ok lib" "vclocks_ok v" "gptp_vclock_alloc_fd lib prefix dev v = Some (fd, v1)"
  shows "vclocks_ok v1"
    and "fd \<noteq> PTPFD_INVALID \<Longrightarrow> VIRTUAL_CLOCKFD fd \<and> vclock_at v1 = (vclock_at v)(fd \<mapsto> (case vclock_at v fd of
        None \<Rightarrow> new_vclock prefix dev fd | Some pv \<Rightarrow> pv\<lparr>pv_users := pv_users pv + 1\<rparr>))"
    and "vclock_at v fd = Some pv \<Longrightarrow> pv_ptpdev pv = dev"
    and "fd = PTPFD_INVALID \<Longrightarrow> vclock_at v1 = vclock_at v"
proof -
  let ?es = "vclock_list v"
  have ok: "vclocks_ok (Some ?es)" using assms(2) by (simp add: vclocks_ok_list)
  have inv: "\<not> VIRTUAL_CLOCKFD PTPFD_INVALID"
    by (simp add: VIRTUAL_CLOCKFD_def PTPFD_INVALID_def GPTP_VIRTUAL_PTPDEV_FDBASE_def)
  have "vclocks_ok v1 \<and> (fd \<noteq> PTPFD_INVALID \<longrightarrow> VIRTUAL_CLOCKFD fd \<and> vclock_at v1 = (vclock_at v)(fd \<mapsto>
      (case vclock_at v fd of None \<Rightarrow> new_vclock prefix dev fd | Some pv \<Rightarrow> pv\<lparr>pv_users := pv_users pv + 1\<rparr>))) \<and>
    (vclock_at v fd = Some pv \<longrightarrow> pv_ptpdev pv = dev) \<and> (fd = PTPFD_INVALID \<longrightarrow> vclock_at v1 = vclock_at v)"
  proof (cases "find (\<lambda>i. pv_ptpdev (?es ! i) = dev) [0..<length ?es]")
    case (Some i)
    let ?n = "pv_users (?es ! i) + 1"
    have i: "i < length ?es" "pv_ptpdev (?es ! i) = dev"
      using find_nth_Some[of "\<lambda>pv. pv_ptpdev pv = dev", OF Some] by simp_all
    have r: "fd = pv_fd (?es ! i)" "v1 = Some (?es[i := (?es ! i)\<lparr>pv_users := ?n\<rparr>])"
      using assms(3) alloc_shared[OF Some] by simp_all
    have at: "vclock_at v fd = Some (?es ! i)"
      using vclock_at_found(1)[OF ok i(1) refl] r(1) by (simp add: vclocks_ok_list)
    have f: "VIRTUAL_CLOCKFD fd" "pv_users (?es ! i) \<ge> 1" using ok i(1) r(1) by (simp_all add: vclocks_ok_def)
    have "vclocks_ok v1" unfolding r(2) using vclocks_ok_update[OF ok i(1)] f by simp
    moreover have "vclock_at v1 = (vclock_at v)(fd \<mapsto> (?es ! i)\<lparr>pv_users := ?n\<rparr>)"
      unfolding r using ptpfd_update_users[OF ok i(1), of ?n] by (simp add: vclocks_ok_list)
    ultimately show ?thesis using at f i inv by auto
  next
    case None
    let ?fd = "highest_fd ?es + 1"
    let ?pv = "new_vclock prefix dev ?fd"
    have fresh: "?fd \<notin> pv_fd ` set ?es" using highest_fd_ge(1)[of _ ?es] by force
    have c: "\<not> length ?es \<ge> es_capacity lib"
      using assms(3) alloc_new[OF None] by (auto split: if_splits)
    show ?thesis
    proof (cases "?fd > GPTP_VIRTUAL_PTPDEV_FDMAX")
      case True
      let ?d = "es_del lib (length ?es) (?es @ [?pv])"
      have r: "fd = PTPFD_INVALID" "v1 = Some ?d"
        using assms(3) alloc_new[OF None] c True by (simp_all add: Let_def)
      have m: "mset (vclock_list v1) = mset ?es" using es_del_last[OF assms(1), of ?es ?pv] r by simp
      have "vclock_at v1 = vclock_at v"
        using vclock_at_mset_cong[of v v1] m assms(2) by (simp add: vclocks_ok_def)
      moreover have "vclocks_ok v1" using vclocks_ok_mset[OF m] assms(2) by simp
      moreover have "vclock_at v fd \<noteq> Some pv" using assms(2) inv r(1) vclock_at_eq[of v fd pv] by (auto simp: vclocks_ok_def)
      ultimately show ?thesis using r by simp
    next
      case False
      have r: "fd = ?fd" "v1 = Some (?es @ [?pv])"
        using assms(3) alloc_new[OF None] c False by (auto simp: Let_def)
      have f: "VIRTUAL_CLOCKFD fd" using highest_fd_ge(2)[of ?es] False r by (simp add: VIRTUAL_CLOCKFD_def)
      have "vclock_at v fd = None" using fresh r by (simp add: vclock_at_None)
      then show ?thesis
        using vclocks_ok_append[OF ok, of ?pv] fresh f r inv by (auto simp: vclocks_ok_list)
    qed
  qed
  then show "vclocks_ok v1" "fd \<noteq> PTPFD_INVALID \<Longrightarrow> VIRTUAL_CLOCKFD fd \<and> vclock_at v1 = (vclock_at v)(fd \<mapsto> (case vclock_at v fd of
        None \<Rightarrow> new_vclock prefix dev fd | Some pv \<Rightarrow> pv\<lparr>pv_users := pv_users pv + 1\<rparr>))"
    "vclock_at v fd = Some pv \<Longrightarrow> pv_ptpdev pv = dev" "fd = PTPFD_INVALID \<Longrightarrow> vclock_at v1 = vclock_at v" by blast+
qed

text \<open>Opening a clock and closing it again leaves the table as it was.\<close>

theorem vclock_open_close:
  assumes "es_del_ok lib" "vclocks_ok v" "gptp_vclock_alloc_fd lib prefix dev v = Some (fd, v1)" "fd \<noteq> PTPFD_INVALID"
  shows "vclock_at (snd (gptp_vclock_free_fd lib fd v1)) = vclock_at v"
proof -
  note a = alloc_table[OF assms(1-3)] 
  have f: "vclock_at (snd (gptp_vclock_free_fd lib fd v1)) = (case vclock_at v1 fd of None \<Rightarrow> vclock_at v1
    | Some pv \<Rightarrow> (vclock_at v1)(fd := if pv_users pv = 1 then None else Some (pv\<lparr>pv_users := pv_users pv - 1\<rparr>)))"
    using free_table(1)[OF assms(1) a(1)] .
  show ?thesis
  proof (cases "vclock_at v fd")
    case None
    then show ?thesis using f a(2)[OF assms(4)] by (auto simp: fun_eq_iff)
  next
    case (Some pv)
    have "pv_users pv \<ge> 1" using Some assms(2) by (auto simp: vclocks_ok_def vclock_at_eq)
    then show ?thesis using f a(2)[OF assms(4)] Some by (auto simp: fun_eq_iff)
  qed
qed

section \<open>Any number of users\<close>

text \<open>Openings and closings in any order. The log has the descriptor of each success, with 1 for an opening
  and -1 for a closing.\<close>

datatype vclock_call = VOpen string | VClose int

fun vclock_calls :: "es_lib \<Rightarrow> string \<Rightarrow> vclock_call list \<Rightarrow> vclocks \<Rightarrow> ((int \<times> int) list \<times> vclocks) option" where
  "vclock_calls lib prefix [] v = Some ([], v)"
| "vclock_calls lib prefix (VOpen dev # cs) v = (case gptp_vclock_alloc_fd lib prefix dev v of
      None \<Rightarrow> None
    | Some (fd, v1) \<Rightarrow> map_option (\<lambda>(l, v2). (if fd = PTPFD_INVALID then l else (fd, 1) # l, v2))
        (vclock_calls lib prefix cs v1))"
| "vclock_calls lib prefix (VClose fd # cs) v = (case gptp_vclock_free_fd lib fd v of (r, v1) \<Rightarrow>
      map_option (\<lambda>(l, v2). (if r = 0 then (fd, - 1) # l else l, v2)) (vclock_calls lib prefix cs v1))"

definition vclock_users :: "vclocks \<Rightarrow> int \<Rightarrow> int" where
  "vclock_users v fd = (case vclock_at v fd of None \<Rightarrow> 0 | Some pv \<Rightarrow> pv_users pv)"

definition log_balance :: "(int \<times> int) list \<Rightarrow> int \<Rightarrow> int" where
  "log_balance l fd = sum_list (map snd (filter (\<lambda>x. fst x = fd) l))"

lemma log_balance_simps [simp]: "log_balance [] fd = 0"
  "log_balance ((f, d) # l) fd = (if f = fd then d else 0) + log_balance l fd"
  by (simp_all add: log_balance_def)

lemma alloc_users:
  assumes "es_del_ok lib" "vclocks_ok v" "gptp_vclock_alloc_fd lib prefix dev v = Some (fd, v1)"
  shows "vclock_users v1 f = vclock_users v f + (if fd \<noteq> PTPFD_INVALID \<and> f = fd then 1 else 0)"
  using alloc_table(2,4)[OF assms]
  by (cases "fd = PTPFD_INVALID") (auto simp: vclock_users_def split: option.splits)

lemma free_users:
  assumes "es_del_ok lib" "vclocks_ok v" "gptp_vclock_free_fd lib fd v = (r, v1)"
  shows "vclock_users v1 f = vclock_users v f - (if r = 0 \<and> f = fd then 1 else 0)"
  using free_table(1,2)[OF assms(1,2), of fd] assms(3)
  by (cases "vclock_at v fd") (auto simp: vclock_users_def)

lemma vclock_calls_balance:
  assumes "es_del_ok lib"
  shows "vclocks_ok v \<Longrightarrow> vclock_calls lib prefix cs v = Some (l, v1) \<Longrightarrow>
    vclocks_ok v1 \<and> vclock_users v1 f = vclock_users v f + log_balance l f"
proof (induction cs arbitrary: v l)
  case Nil
  then show ?case by simp
next
  case (Cons c cs)
  show ?case
  proof (cases c)
    case (VOpen dev)
    from Cons.prems(2) obtain fd v2 l2 where *: "gptp_vclock_alloc_fd lib prefix dev v = Some (fd, v2)"
      "vclock_calls lib prefix cs v2 = Some (l2, v1)" "l = (if fd = PTPFD_INVALID then l2 else (fd, 1) # l2)"
      by (auto simp: VOpen split: option.splits)
    show ?thesis
      using Cons.IH[OF alloc_table(1)[OF assms Cons.prems(1) *(1)] *(2)] alloc_users[OF assms Cons.prems(1) *(1), of f] *(3)
      by auto
  next
    case (VClose fd)
    obtain r v2 where r: "gptp_vclock_free_fd lib fd v = (r, v2)" by fastforce
    then obtain l2 where *: "vclock_calls lib prefix cs v2 = Some (l2, v1)" "l = (if r = 0 then (fd, - 1) # l2 else l2)"
      using Cons.prems(2) by (auto simp: VClose)
    have ok: "vclocks_ok v2" using free_table(3)[OF assms Cons.prems(1), of fd] r by simp
    show ?thesis
      using Cons.IH[OF ok *(1)] free_users[OF assms Cons.prems(1) r, of f] *(2) by auto
  qed
qed

text \<open>C37: Virtual clocks are shared by counting: after any opening and closing of devices, whoever does it, a
  descriptor has as many users as it was opened more often than closed; it is there exactly as long as
  there are any, and no two clocks have the same descriptor.\<close>

theorem vclock_users_counted:
  assumes "es_del_ok lib" "vclock_calls lib prefix cs None = Some (l, v)"
  shows "(case vclock_at v fd of None \<Rightarrow> log_balance l fd = 0
      | Some pv \<Rightarrow> pv_fd pv = fd \<and> VIRTUAL_CLOCKFD fd \<and> pv_users pv = log_balance l fd \<and> log_balance l fd > 0) \<and>
    distinct (map pv_fd (vclock_list v))"
proof -
  have b: "vclocks_ok v" "vclock_users v fd = log_balance l fd"
    using vclock_calls_balance[OF assms(1) _ assms(2), of fd]
    by (simp_all add: vclocks_ok_def vclock_users_def vclock_at_def)
  show ?thesis
  proof (cases "vclock_at v fd")
    case None
    then show ?thesis using b by (simp add: vclock_users_def vclocks_ok_def)
  next
    case (Some pv)
    then have "pv \<in> set (vclock_list v)" "pv_fd pv = fd"
      using b(1) vclock_at_eq[of v fd pv] by (simp_all add: vclocks_ok_def)
    then show ?thesis using b Some by (auto simp: vclock_users_def vclocks_ok_def)
  qed
qed

definition sample_es_lib :: es_lib where
  "sample_es_lib = \<lparr>es_capacity = 8, es_del = drop_nth\<rparr>"

lemma sample_es_lib_ok: "es_del_ok sample_es_lib"
  by (simp add: es_del_ok_def sample_es_lib_def drop_nth_mset)

theorem vclock_users_counted_witness:
  "\<exists>l v. vclock_calls sample_es_lib ''ptpv'' [VOpen ''ptpvw0'', VOpen ''ptpvr0'', VOpen ''ptpvw0'', VClose 3019, VClose 3019] None
      = Some (l, v) \<and> log_balance l 3018 = 2 \<and> map_option pv_users (vclock_at v 3018) = Some 2 \<and> vclock_at v 3019 = None"
proof -
  let ?cs = "[VOpen ''ptpvw0'', VOpen ''ptpvr0'', VOpen ''ptpvw0'', VClose 3019, VClose 3019]"
  have r: "vclock_calls sample_es_lib ''ptpv'' ?cs None =
    Some ([(3018, 1), (3019, 1), (3018, 1), (3019, - 1)], Some [(new_vclock ''ptpv'' ''ptpvw0'' 3018)\<lparr>pv_users := 2\<rparr>])"
    by code_simp
  show ?thesis
    unfolding r
    using vclock_users_counted[OF sample_es_lib_ok r, of 3018] vclock_users_counted[OF sample_es_lib_ok r, of 3019]
    by (simp add: vclock_at_def)
qed

text \<open>A name of up to 15 characters that is open gives the descriptor it has; a longer one never does: everyone
  who opens it has a clock of his own.\<close>

lemma find_fst_name:
  assumes "x \<in> set xs" "pv_ptpdev x = dev"
  shows "\<exists>i. find (\<lambda>i. pv_ptpdev (xs ! i) = dev) [0..<length xs] = Some i"
  using assms find_nth_None[of "\<lambda>pv. pv_ptpdev pv = dev" xs] by (metis not_None_eq)

definition names_cut :: "vclocks \<Rightarrow> bool" where
  "names_cut v \<longleftrightarrow> (\<forall>pv\<in>set (vclock_list v). length (pv_ptpdev pv) \<le> 15)"

theorem long_name_never_shared:
  assumes "names_cut v" "length dev > 15" "length (vclock_list v) < es_capacity lib"
    "highest_fd (vclock_list v) < GPTP_VIRTUAL_PTPDEV_FDMAX"
  shows "\<exists>v1. gptp_vclock_alloc_fd lib prefix dev v = Some (highest_fd (vclock_list v) + 1, v1) \<and> names_cut v1"
proof -
  have n: "find (\<lambda>i. pv_ptpdev (vclock_list v ! i) = dev) [0..<length (vclock_list v)] = None"
    using assms(1,2) find_nth_None[of "\<lambda>pv. pv_ptpdev pv = dev"] by (force simp: names_cut_def)
  show ?thesis
    using assms by (simp add: alloc_new[OF n] Let_def) (simp add: names_cut_def)
qed

text \<open>Descriptors are counted up from the highest one in use; with that at the end of the range no clock can be
  opened, however many descriptors below it are free.\<close>

theorem descriptors_run_out:
  assumes "\<forall>pv\<in>set (vclock_list v). pv_ptpdev pv \<noteq> dev" "length (vclock_list v) < es_capacity lib"
    "highest_fd (vclock_list v) = GPTP_VIRTUAL_PTPDEV_FDMAX"
  shows "map_option fst (gptp_vclock_alloc_fd lib prefix dev v) = Some PTPFD_INVALID"
proof -
  have n: "find (\<lambda>i. pv_ptpdev (vclock_list v ! i) = dev) [0..<length (vclock_list v)] = None"
    using assms(1) find_nth_None[of "\<lambda>pv. pv_ptpdev pv = dev" "vclock_list v"] by blast
  show ?thesis using assms(2,3) by (simp add: alloc_new[OF n] Let_def)
qed

section \<open>The rate of a virtual clock\<close>

text \<open>The parts of a billion by which the clock is faster than the host.\<close>

definition vclock_ppb :: "int \<Rightarrow> ptpfd_virtual \<Rightarrow> int" where
  "vclock_ppb clock_rate pv = (if pv_rdwr_mode pv then pv_freq_adj pv + clock_rate else clock_rate)"

lemma sint_of_int64: "\<bar>k\<bar> < 2 ^ 63 \<Longrightarrow> sint (of_int k :: u64) = k"
  by (simp add: signed_of_int signed_take_bit_int_eq_self_iff abs_less_iff)

text \<open>With the clock of the host going forward and the product within 64 bits, the reading is the exact one.\<close>

lemma vclock_advance_exact:
  assumes d_eq: "d = uint now - uint (pv_lastts pv)" and "pv_lastts pv \<le> now" "\<bar>d * vclock_ppb c pv\<bar> < 2 ^ 63"
    and "0 \<le> uint (pv_lastpts pv) + d + c_div (d * vclock_ppb c pv) UB_SEC_NS"
    and "uint (pv_lastpts pv) + d + c_div (d * vclock_ppb c pv) UB_SEC_NS < 2 ^ 64"
  shows "uint (vclock_advance c now pv) = uint (pv_lastpts pv) + d + c_div (d * vclock_ppb c pv) UB_SEC_NS"
proof -
  have d: "now - pv_lastts pv = of_int d"
    unfolding d_eq by simp
  have s: "sint ((now - pv_lastts pv) * of_int (vclock_ppb c pv)) = d * vclock_ppb c pv"
    unfolding d of_int_mult[symmetric] using assms(3) by (rule sint_of_int64)
  have "vclock_advance c now pv = of_int (uint (pv_lastpts pv) + d + c_div (d * vclock_ppb c pv) UB_SEC_NS)"
    using s by (simp add: vclock_advance_def vclock_ppb_def[symmetric] d)
  then show ?thesis using assms(4,5) unfolding \<open>vclock_advance c now pv = _\<close>
    by (subst unsigned_of_int) (simp add: take_bit_int_eq_self del: of_int_add)
qed

text \<open>A reading of the clock that was set at \<open>t0\<close>.\<close>

lemma settime_at:
  assumes "vclocks_ok v" "vclock_at v fd = Some pv" "pv_rdwr_mode pv"
  shows "\<exists>v1. gptp_vclock_settime fd ts now v = (0, v1) \<and> vclocks_ok v1 \<and>
    vclock_at v1 fd = Some (pv\<lparr>pv_lastpts := ts, pv_lastts := now\<rparr>)"
proof -
  obtain es where es: "v = Some es" "pv \<in> set es" "pv_fd pv = fd"
    using assms(1,2) by (cases v) (auto simp: vclocks_ok_def vclock_at_eq)
  then obtain i where i: "i < length es" "es ! i = pv" by (auto simp: in_set_conv_nth)
  note ok = assms(1)[unfolded es(1)]
  have f: "find_ptpfd_virtual fd (Some es) = Some i" using vclock_at_found(2)[OF ok i(1)] i(2) es(3) by simp
  let ?x = "pv\<lparr>pv_lastpts := ts, pv_lastts := now\<rparr>"
  have "pv_users pv \<ge> 1" using ok es(2) by (simp add: vclocks_ok_def)
  then show ?thesis
    using f i es assms(3) vclock_at_update[OF ok i(1), of ?x] vclocks_ok_update[OF ok i(1), of ?x]
    by (simp add: gptp_vclock_settime_def upd_vclock_def)
qed

lemma gettime_at:
  assumes "vclocks_ok v" "vclock_at v fd = Some pv" "pv_lastts pv \<noteq> 0"
  shows "fst (gptp_vclock_gettime c fd now v) = vclock_advance c now pv"
proof -
  obtain es where es: "v = Some es" "pv \<in> set es" "pv_fd pv = fd"
    using assms(1,2) by (cases v) (auto simp: vclocks_ok_def vclock_at_eq)
  then obtain i where i: "i < length es" "es ! i = pv" by (auto simp: in_set_conv_nth)
  have "find_ptpfd_virtual fd (Some es) = Some i"
    using vclock_at_found(2)[OF assms(1)[unfolded es(1)] i(1)] i(2) es(3) by simp
  then show ?thesis using i es assms(3) by (simp add: gptp_vclock_gettime_def Let_def)
qed

text \<open>A virtual clock that has been set runs on from that time at its own rate: read later, it has gone on by
  the time of the host and by its share in parts of a billion, rounded towards zero, as long as the product
  of the time and the share is within the 64 bits it is computed in.\<close>

theorem virtual_clock_keeps_rate:
  assumes "vclocks_ok v" "vclock_at v fd = Some pv" "pv_rdwr_mode pv" "0 < t0" "t0 \<le> t1"
    and "\<bar>(uint t1 - uint t0) * (pv_freq_adj pv + c)\<bar> < 2 ^ 63"
    and "0 \<le> uint ts + (uint t1 - uint t0) + c_div ((uint t1 - uint t0) * (pv_freq_adj pv + c)) UB_SEC_NS"
    and "uint ts + (uint t1 - uint t0) + c_div ((uint t1 - uint t0) * (pv_freq_adj pv + c)) UB_SEC_NS < 2 ^ 64"
  shows "uint (fst (gptp_vclock_gettime c fd t1 (snd (gptp_vclock_settime fd ts t0 v)))) =
    uint ts + (uint t1 - uint t0) + c_div ((uint t1 - uint t0) * (pv_freq_adj pv + c)) UB_SEC_NS"
proof -
  obtain v1 where v1: "gptp_vclock_settime fd ts t0 v = (0, v1)" "vclocks_ok v1"
    "vclock_at v1 fd = Some (pv\<lparr>pv_lastpts := ts, pv_lastts := t0\<rparr>)"
    using settime_at[OF assms(1-3)] by blast
  have "t0 \<noteq> 0" using assms(4) by auto
  then show ?thesis
    using gettime_at[OF v1(2,3), of c t1] vclock_advance_exact[OF refl, of "pv\<lparr>pv_lastpts := ts, pv_lastts := t0\<rparr>" t1 c] assms(3,5-8)
    by (simp add: v1(1) vclock_ppb_def)
qed

theorem virtual_clock_keeps_rate_witness:
  "uint (fst (gptp_vclock_gettime 1000 3018 2000000000
    (snd (gptp_vclock_settime 3018 5000000000 1000000000 (Some [new_vclock ''ptpv'' ''ptpvw0'' 3018]))))) = 6000001000"
proof -
  let ?v = "Some [new_vclock ''ptpv'' ''ptpvw0'' 3018]"
  have h: "vclocks_ok ?v" "vclock_at ?v 3018 = Some (new_vclock ''ptpv'' ''ptpvw0'' 3018)"
    "pv_rdwr_mode (new_vclock ''ptpv'' ''ptpvw0'' 3018)" "pv_freq_adj (new_vclock ''ptpv'' ''ptpvw0'' 3018) = 0"
    by code_simp+
  show ?thesis
    using virtual_clock_keeps_rate[OF h(1-3), of 1000000000 2000000000 1000 5000000000]
    by (simp add: h(4) c_div_def UB_SEC_NS_def)
qed

text \<open>Beyond that the product wraps: a clock made a thousandth faster that is not read for three hours
  goes on by 7.6 seconds less than the host, where it should go on by 10.8 seconds more.\<close>

theorem unread_clock_falls_behind:
  "uint (vclock_advance 0 (1 + 10800000000000) ((new_vclock ''ptpv'' ''ptpvw0'' 3018)\<lparr>pv_freq_adj := 1000000,
    pv_lastpts := 20000000000000, pv_lastts := 1\<rparr>)) = 20000000000000 + 10800000000000 - 7646744073"
  by code_simp

section \<open>Opening a device\<close>

text \<open>A device counts as open for writing or for reading exactly when there is a valid descriptor.\<close>

theorem open_retry_result:
  "open_retry io dev sleeps k = (s, fd) \<Longrightarrow> s \<in> {PTPCLOCK_RDWR, PTPCLOCK_RDONLY} \<longleftrightarrow> PTPFD_VALID fd"
  by (induction io dev sleeps k rule: open_retry.induct)
    (subst (asm) (2) open_retry.simps, auto simp: Let_def split: prod.splits if_splits nat.splits)

end
