(* ===== verification/Gptp_Net.thy ===== *)
theory Gptp_Net
  imports Gptp_Ipc
begin

text \<open>
  The network layer (\<^verbatim>\<open>posix/ix_gptpnet.c\<close>, with \<^verbatim>\<open>posix/ix_timestamp.c\<close>, \<^verbatim>\<open>posix/ix_netlinkif.c\<close> and the
  choice of a timestamp in \<^verbatim>\<open>posix/ix_ll_gptpsupport.c\<close>): the network devices with their send buffers, when
  a message may be sent, what is read from a socket and handed on as an event, and the loop that waits
  for the next event or timeout.

  What the operating system does is an argument: the readings of the clock, what a write returns, what
  waits to be read from each socket, what \<^verbatim>\<open>select\<close> reports. The macros of \<^verbatim>\<open>xl4combase\<close> and \<^verbatim>\<open>xl4unibase\<close>
  that read the header of a message and convert timestamps are arguments too. The callback works on the
  network layer and on a state of its own.
\<close>

section \<open>Devices\<close>

record netdevice =
  nd_fd :: "int option"
  nd_source :: "u8 list"
  nd_pdata :: "u8 list"
  nd_status :: gptpipc_data_netlink
  nd_txtslost_time :: u64
  nd_guard_time :: u64
  nd_waiting_txts :: bool
  nd_waiting_tout :: u64
  nd_waiting_msgtype :: u8
  nd_ovip_port :: u16

text \<open>\<open>net_written\<close> has what has been written, with the time, the index of the device and the type of the
  message; \<open>mt_reads\<close> is the number of readings of the clock.\<close>

record written =
  wr_time :: u64
  wr_dev :: nat
  wr_msgtype :: u8
  wr_frame :: "u8 list"

record gptpnet_data =
  netdevices :: "netdevice list"
  event_ts64 :: u64
  next_tout64 :: u64
  mt_reads :: nat
  net_written :: "written list"

record net_conf =
  TXTS_LOST_TIME :: u64
  AFTERSEND_GUARDTIME :: u64
  EXTRA_TOUTNS :: u64
  OVIP_MODE_STRT_PORTNO :: u16

definition default_net_conf :: net_conf where
  "default_net_conf = \<lparr>TXTS_LOST_TIME = 20000000, AFTERSEND_GUARDTIME = 300000, EXTRA_TOUTNS = 1000000,
     OVIP_MODE_STRT_PORTNO = 5018\<rparr>"

record net_os =
  mt_gettime :: "nat \<Rightarrow> u64"
  sock_write :: "nat \<Rightarrow> u8 list \<Rightarrow> int"
  hd_msgtype :: "u8 list \<Rightarrow> u8"
  hd_domain :: "u8 list \<Rightarrow> u8"
  hd_seqid :: "u8 list \<Rightarrow> u16"
  ts2nsec :: "int \<times> int \<Rightarrow> u64"
  tv2nsec :: "int \<times> int \<Rightarrow> u64"
  virtual_eth :: string
  d0ClockfromRT :: "nat \<Rightarrow> u64"

definition mt_now :: "net_os \<Rightarrow> gptpnet_data \<Rightarrow> u64" where
  "mt_now os g = mt_gettime os (mt_reads g)"

definition mt_read :: "gptpnet_data \<Rightarrow> gptpnet_data" where
  "mt_read g = g\<lparr>mt_reads := mt_reads g + 1\<rparr>"

definition netdev :: "gptpnet_data \<Rightarrow> nat \<Rightarrow> netdevice" where
  "netdev g i = netdevices g ! i"

definition upd_netdev :: "nat \<Rightarrow> (netdevice \<Rightarrow> netdevice) \<Rightarrow> gptpnet_data \<Rightarrow> gptpnet_data" where
  "upd_netdev i f g = g\<lparr>netdevices := (netdevices g)[i := f (netdevices g ! i)]\<rparr>"

definition is_virtual_eth :: "net_os \<Rightarrow> netdevice \<Rightarrow> bool" where
  "is_virtual_eth os nd \<longleftrightarrow> take (length (virtual_eth os)) (nl_devname (nd_status nd)) = virtual_eth os"

section \<open>Sending\<close>

definition GPTP_MAX_PACKET_SIZE :: nat where "GPTP_MAX_PACKET_SIZE = 1500"

definition GPTP_MULTICAST_DEST_ADDR :: "u8 list" where
  "GPTP_MULTICAST_DEST_ADDR = [0x01, 0x80, 0xC2, 0x00, 0x00, 0x0E]"

text \<open>The Ethernet header of a frame: \<^verbatim>\<open>ETH_P_1588\<close> in network byte order ends it.\<close>

definition eth_header :: "netdevice \<Rightarrow> u8 list" where
  "eth_header nd = GPTP_MULTICAST_DEST_ADDR @ nd_source nd @ [0x88, 0xF7]"

definition gptpnet_get_sendbuf :: "gptpnet_data \<Rightarrow> nat \<Rightarrow> u8 list" where
  "gptpnet_get_sendbuf g i = nd_pdata (netdev g i)"

definition gptpnet_extra_timeout :: "net_conf \<Rightarrow> net_os \<Rightarrow> u64 \<Rightarrow> gptpnet_data \<Rightarrow> gptpnet_data" where
  "gptpnet_extra_timeout c os toutns g =
     (let t = (if toutns = 0 then EXTRA_TOUTNS c else toutns)
      in (mt_read g)\<lparr>next_tout64 := mt_now os g + t\<rparr>)"

text \<open>\<open>send_now\<close> is the part after the tests.\<close>

definition send_now :: "net_conf \<Rightarrow> net_os \<Rightarrow> nat \<Rightarrow> nat \<Rightarrow> u64 \<Rightarrow> gptpnet_data \<Rightarrow> int \<times> gptpnet_data" where
  "send_now c os i len cts64 g =
     (let nd = netdev g i; mt = hd_msgtype os (nd_pdata nd);
          frame = eth_header nd @ take len (nd_pdata nd);
          g1 = upd_netdev i (\<lambda>nd. nd\<lparr>nd_guard_time := cts64 + AFTERSEND_GUARDTIME c\<rparr>) g;
          g2 = (if mt < 8 then upd_netdev i (\<lambda>nd. nd\<lparr>nd_waiting_txts := True,
                  nd_waiting_tout := cts64 + TXTS_LOST_TIME c - 1000000, nd_waiting_msgtype := mt\<rparr>) g1 else g1)
      in (sock_write os (length (net_written g)) frame, g2\<lparr>net_written := net_written g @
        [\<lparr>wr_time = cts64, wr_dev = i, wr_msgtype = mt, wr_frame = frame\<rparr>]\<rparr>))"

definition gptpnet_send :: "net_conf \<Rightarrow> net_os \<Rightarrow> nat \<Rightarrow> nat \<Rightarrow> gptpnet_data \<Rightarrow> int \<times> gptpnet_data" where
  "gptpnet_send c os i len g =
     (if len > GPTP_MAX_PACKET_SIZE then (- 1, g)
      else
        let nd = netdev g i; mt = hd_msgtype os (nd_pdata nd); cts64 = mt_now os g; g0 = mt_read g;
            waits = nd_waiting_txts nd \<and> mt < 8
        in if waits \<and> \<not> nd_waiting_tout nd < cts64 then (- 1, gptpnet_extra_timeout c os 0 g0)
           else
             let g1 = (if waits then upd_netdev i (\<lambda>nd. nd\<lparr>nd_waiting_txts := False\<rparr>) g0 else g0)
             in if nd_guard_time nd > cts64 then (- 1, gptpnet_extra_timeout c os 0 g1)
                else send_now c os i len cts64 g1)"

section \<open>Reading\<close>

text \<open>A message that waits at a socket: the buffer it is read to, its length, the flags, and the control
  messages, of which those with timestamps have as many stamps (seconds and nanoseconds) as they are
  long.\<close>

datatype cmsg = Stamps "(int \<times> int) list" | ScmTimestamp "int \<times> int" | OtherCmsg

record sock_msg =
  sm_buf :: "u8 list"
  sm_len :: nat
  sm_trunc :: bool
  sm_ctrunc :: bool
  sm_cmsgs :: "cmsg list"

datatype errno = EAGAIN | ECONNREFUSED | EOTHER

datatype sock_read = Message sock_msg | Nothing | Failed errno

record sockq =
  errq :: "sock_read list"
  rxq :: "sock_read list"

text \<open>The timestamp of a sent message: the last control message with a stamp that is there counts, of the three
  the system one before the raw one before the software one. \<open>Inl\<close> is the error of a short message.\<close>

fun ll_txmsg_timestamp :: "net_os \<Rightarrow> cmsg list \<Rightarrow> (int \<times> int) option \<Rightarrow> int + u64" where
  "ll_txmsg_timestamp os [] ts = (case ts of Some t \<Rightarrow> Inr (ts2nsec os t) | None \<Rightarrow> Inl 1)"
| "ll_txmsg_timestamp os (Stamps st # cs) ts =
     (if length st < 3 then Inl (- 1)
      else ll_txmsg_timestamp os cs
        (if fst (st ! 1) \<noteq> 0 then Some (st ! 1) else if fst (st ! 2) \<noteq> 0 then Some (st ! 2)
         else if fst (st ! 0) \<noteq> 0 then Some (st ! 0) else ts))"
| "ll_txmsg_timestamp os (_ # cs) ts = ll_txmsg_timestamp os cs ts"

fun ll_recv_timestamp :: "net_os \<Rightarrow> cmsg list \<Rightarrow> u64 option \<Rightarrow> int + u64" where
  "ll_recv_timestamp os [] ts = (case ts of Some t \<Rightarrow> Inr t | None \<Rightarrow> Inl 1)"
| "ll_recv_timestamp os (ScmTimestamp tv # cs) ts = ll_recv_timestamp os cs (Some (tv2nsec os tv))"
| "ll_recv_timestamp os (Stamps st # cs) ts =
     (if length st < 3 then Inl (- 1)
      else ll_recv_timestamp os cs
        (if fst (st ! 1) \<noteq> 0 then Some (ts2nsec os (st ! 1)) else if fst (st ! 2) \<noteq> 0 then Some (ts2nsec os (st ! 2))
         else if fst (st ! 0) \<noteq> 0 then Some (ts2nsec os (st ! 0)) else ts))"
| "ll_recv_timestamp os (OtherCmsg # cs) ts = ll_recv_timestamp os cs ts"

definition ETH_HLEN :: nat where "ETH_HLEN = 14"

definition no_txts :: event_data_txts where
  "no_txts = \<lparr>tx_msgtype = 0, tx_domain = 0, tx_seqid = 0, tx_ts64 = 0\<rparr>"

text \<open>A message that comes back from the error queue; one that went over a tunnel has an IP and a UDP header in
  front.\<close>

definition read_txts :: "net_os \<Rightarrow> nat \<Rightarrow> u16 \<Rightarrow> sock_msg \<Rightarrow> int \<times> event_data_txts" where
  "read_txts os dvi ovip m =
     (if sm_len m < 48 then (- 1, no_txts)
      else
        let buf = (if ovip \<noteq> 0 then drop (ETH_HLEN + 20 + 8) (sm_buf m) else sm_buf m);
            pdu = drop ETH_HLEN buf
        in if field 12 2 buf \<noteq> [0x88, 0xF7] then (- 1, no_txts)
           else
             let ed = no_txts\<lparr>tx_msgtype := hd_msgtype os pdu, tx_seqid := hd_seqid os pdu,
                       tx_domain := hd_domain os pdu\<rparr>
             in if tx_msgtype ed \<ge> 8 then (- 1, ed)
                else case ll_txmsg_timestamp os (sm_cmsgs m) None of
                  Inl _ \<Rightarrow> (- 1, ed)
                | Inr ts \<Rightarrow> (0, ed\<lparr>tx_ts64 := (if ovip \<noteq> 0 \<and> tx_msgtype ed = 0 then ts + d0ClockfromRT os (dvi + 1) else ts)\<rparr>))"

text \<open>The first result is 0 for a timestamp, -1 for a message without one, -2 for an error and 1 for nothing.\<close>

definition ix_timestamp_txts :: "net_os \<Rightarrow> nat \<Rightarrow> u16 \<Rightarrow> sockq \<Rightarrow> (int \<times> event_data_txts) \<times> sockq" where
  "ix_timestamp_txts os dvi ovip q = (case errq q of
      [] \<Rightarrow> ((1, no_txts), q)
    | r # rs \<Rightarrow> ((case r of
          Message m \<Rightarrow> read_txts os dvi ovip m
        | Nothing \<Rightarrow> (- 2, no_txts)
        | Failed en \<Rightarrow> (if en = EAGAIN then 1 else - 2, no_txts)), q\<lparr>errq := rs\<rparr>))"

text \<open>The events, with the status of the device where it has changed.\<close>

datatype net_event =
    NetTimeout
  | NetUp gptpipc_data_netlink
  | NetDown gptpipc_data_netlink
  | NetRecv event_data_recv
  | NetTxts event_data_txts

type_synonym 's callback = "nat \<Rightarrow> u64 \<Rightarrow> net_event \<Rightarrow> gptpnet_data \<times> 's \<Rightarrow> int \<times> gptpnet_data \<times> 's"

definition notify :: "'s callback \<Rightarrow> nat \<Rightarrow> net_event \<Rightarrow> gptpnet_data \<times> 's \<Rightarrow> int \<times> gptpnet_data \<times> 's" where
  "notify cb port ev w = cb port (event_ts64 (fst w)) ev w"

text \<open>What \<^verbatim>\<open>read_recdata\<close> hands on, if anything.\<close>

definition recv_event :: "net_os \<Rightarrow> netdevice \<Rightarrow> nat \<Rightarrow> sock_msg \<Rightarrow> event_data_recv option" where
  "recv_event os nd dvi m =
     (if sm_trunc m \<or> sm_ctrunc m then None
      else
        let pdu = drop ETH_HLEN (sm_buf m); mt = hd_msgtype os pdu;
            ed = \<lparr>rx_msgtype = mt, rx_domain = hd_domain os pdu, rx_ts64 = 0, rx_frame = pdu\<rparr>
        in if mt < 8 then
             (case ll_recv_timestamp os (sm_cmsgs m) None of
                Inl _ \<Rightarrow> None
              | Inr ts \<Rightarrow> Some (ed\<lparr>rx_ts64 := (if nd_ovip_port nd \<noteq> 0 \<and> mt = 0 then ts + d0ClockfromRT os (dvi + 1) else ts)\<rparr>))
           else Some ed)"

definition read_recdata :: "net_os \<Rightarrow> 's callback \<Rightarrow> nat \<Rightarrow> sock_msg \<Rightarrow> gptpnet_data \<times> 's \<Rightarrow> int \<times> gptpnet_data \<times> 's" where
  "read_recdata os cb dvi m w = (case recv_event os (netdev (fst w) dvi) dvi m of
      None \<Rightarrow> (- 1, w)
    | Some ed \<Rightarrow> notify cb (dvi + 1) (NetRecv ed) w)"

text \<open>
  One step of reading: a timestamp from the error queue goes first, and only when there is nothing the
  receive queue is read. \<open>read_error\<close> is the end of the function for a read that failed; \<open>read_message\<close> for
  one that did not.
\<close>

definition read_error :: "net_os \<Rightarrow> 's callback \<Rightarrow> nat \<Rightarrow> errno \<Rightarrow> gptpnet_data \<times> 's \<Rightarrow> int \<times> gptpnet_data \<times> 's" where
  "read_error os cb dvi en w =
     (if en = EAGAIN then (1, w)
      else if nd_ovip_port (netdev (fst w) dvi) \<noteq> 0 \<and> en = ECONNREFUSED then
        (let nd = netdev (fst w) dvi
         in if nl_up (nd_status nd) \<and> is_virtual_eth os nd then
              (let st = (nd_status nd)\<lparr>nl_up := False\<rparr>
               in (1, snd (notify cb (dvi + 1) (NetDown st) (upd_netdev dvi (\<lambda>nd. nd\<lparr>nd_status := st\<rparr>) (fst w), snd w))))
            else (1, w))
      else (- 1, w))"

definition read_message :: "net_os \<Rightarrow> 's callback \<Rightarrow> nat \<Rightarrow> sock_msg \<Rightarrow> gptpnet_data \<times> 's \<Rightarrow> int \<times> gptpnet_data \<times> 's" where
  "read_message os cb dvi m w =
     (let nd = netdev (fst w) dvi
      in read_recdata os cb dvi m
        (if \<not> nl_up (nd_status nd) \<and> is_virtual_eth os nd then
           (let st = (nd_status nd)\<lparr>nl_up := True\<rparr>
            in snd (notify cb (dvi + 1) (NetUp st) (upd_netdev dvi (\<lambda>nd. nd\<lparr>nd_status := st\<rparr>) (fst w), snd w)))
         else w))"

text \<open>A timestamp of -1 means that the message has been read already; what the last read left behind is then
  taken for the result, which no reading of the error queue leaves positive.\<close>

definition read_netdev_event :: "net_os \<Rightarrow> 's callback \<Rightarrow> errno \<Rightarrow> nat \<Rightarrow> sockq \<Rightarrow> gptpnet_data \<times> 's \<Rightarrow>
    int \<times> sockq \<times> gptpnet_data \<times> 's" where
  "read_netdev_event os cb stale dvi q w =
     (case ix_timestamp_txts os dvi (nd_ovip_port (netdev (fst w) dvi)) q of ((res, ed), q1) \<Rightarrow>
        if res = - 2 then (- 1, q1, w)
        else if tx_ts64 ed \<noteq> - 1 \<and> res \<le> 0 then
          (let g1 = upd_netdev dvi (\<lambda>nd. nd\<lparr>nd_guard_time := 0\<rparr>) (fst w)
           in if res \<noteq> 0 then (res, q1, g1, snd w)
              else let g2 = upd_netdev dvi (\<lambda>nd. nd\<lparr>nd_waiting_txts := False\<rparr>) g1
                   in (res, q1, snd (notify cb (dvi + 1) (NetTxts ed) (g2, snd w))))
        else if tx_ts64 ed = - 1 then
          (if res = 0 then (- 1, q1, w) else (case read_error os cb dvi stale w of (r, w1) \<Rightarrow> (r, q1, w1)))
        else (case rxq q1 of
            [] \<Rightarrow> (case read_error os cb dvi EAGAIN w of (r, w1) \<Rightarrow> (r, q1, w1))
          | Failed en # rs \<Rightarrow> (case read_error os cb dvi en w of (r, w1) \<Rightarrow> (r, q1\<lparr>rxq := rs\<rparr>, w1))
          | Nothing # rs \<Rightarrow> (- 1, q1\<lparr>rxq := rs\<rparr>, w)
          | Message m # rs \<Rightarrow> (case read_message os cb dvi m w of (r, w1) \<Rightarrow> (r, q1\<lparr>rxq := rs\<rparr>, w1))))"

text \<open>Reading goes on as long as a step returns 0; every such step has taken something from a queue.\<close>

definition sockq_size :: "sockq \<Rightarrow> nat" where
  "sockq_size q = length (errq q) + length (rxq q)"

lemma read_error_not_0: "fst (read_error os cb dvi en w) \<noteq> 0"
  by (simp add: read_error_def Let_def)

lemma read_netdev_event_shrinks:
  assumes "read_netdev_event os cb stale dvi q w = (0, q1, w1)"
  shows "sockq_size q1 < sockq_size q"
proof -
  obtain res ed q2 where t: "ix_timestamp_txts os dvi (nd_ovip_port (netdev (fst w) dvi)) q = ((res, ed), q2)"
    by (metis surj_pair)
  have q2: "(errq q = [] \<and> q2 = q \<and> res = 1 \<and> ed = no_txts) \<or> (sockq_size q2 < sockq_size q)"
    using t by (cases "errq q") (auto simp: ix_timestamp_txts_def sockq_size_def)
  have le: "sockq_size q2 \<le> sockq_size q" using q2 by auto
  have pop: "rxq q2 = r # rs \<Longrightarrow> sockq_size (q2\<lparr>rxq := rs\<rparr>) < sockq_size q" for r rs
    using le by (simp add: sockq_size_def)
  show ?thesis
  proof (cases "errq q")
    case (Cons r rs)
    then have "sockq_size q2 < sockq_size q" using q2 by auto
    then show ?thesis using assms t pop
      by (auto simp: read_netdev_event_def Let_def split: if_splits prod.splits list.splits sock_read.splits)
  next
    case Nil
    then have e: "q2 = q" "res = 1" "ed = no_txts" using t by (simp_all add: ix_timestamp_txts_def)
    then show ?thesis
      using assms t pop read_error_not_0[of os cb dvi _ w]
      by (auto simp: read_netdev_event_def no_txts_def split: prod.splits list.splits sock_read.splits)
        (metis fst_conv)+
  qed
qed

function drain_netdev :: "net_os \<Rightarrow> 's callback \<Rightarrow> errno \<Rightarrow> nat \<Rightarrow> sockq \<Rightarrow> gptpnet_data \<times> 's \<Rightarrow>
    sockq \<times> gptpnet_data \<times> 's" where
  "drain_netdev os cb stale dvi q w = (case read_netdev_event os cb stale dvi q w of (r, q1, w1) \<Rightarrow>
     if r = 0 then drain_netdev os cb stale dvi q1 w1 else (q1, w1))"
  by pat_completeness auto

termination
  by (relation "measure (\<lambda>(os, cb, stale, dvi, q, w). sockq_size q)") (auto dest!: read_netdev_event_shrinks[OF sym])

declare drain_netdev.simps [simp del]

section \<open>Changes of the link\<close>

text \<open>A netlink message about a link has the name of the device, whether the device is running, and what
  \<^verbatim>\<open>cb_get_ethtool_linkstate\<close> and \<^verbatim>\<open>cb_get_ethtool_info\<close> say of it then.\<close>

datatype nl_msg =
    NlLink (nlm_ifname: string) (nlm_running: bool) (nlm_linkstate: bool) (nlm_speed: u32) (nlm_duplex: u32)
  | NlOther
  | NlDone
  | NlError

definition find_netdev :: "netdevice list \<Rightarrow> string \<Rightarrow> nat option" where
  "find_netdev ds name = find (\<lambda>i. nl_devname (nd_status (ds ! i)) = name) [0..<length ds]"

definition new_nlstatus :: "nl_msg \<Rightarrow> gptpipc_data_netlink \<Rightarrow> gptpipc_data_netlink" where
  "new_nlstatus m st =
     (if \<not> nlm_running m then st\<lparr>nl_up := False\<rparr>
      else if nlm_linkstate m then st\<lparr>nl_up := True, nl_speed := nlm_speed m, nl_duplex := nlm_duplex m\<rparr>
      else st\<lparr>nl_up := False\<rparr>)"

definition netlink_msg_handler :: "'s callback \<Rightarrow> nl_msg \<Rightarrow> gptpnet_data \<times> 's \<Rightarrow> int \<times> gptpnet_data \<times> 's" where
  "netlink_msg_handler cb m w = (case m of
      NlLink name running lstate spd dup \<Rightarrow>
        (case find_netdev (netdevices (fst w)) name of
           None \<Rightarrow> (0, w)
         | Some i \<Rightarrow>
             (let st = nd_status (netdev (fst w) i); st1 = new_nlstatus m st
              in if st1 = st then (0, w)
                 else notify cb (i + 1) (if nl_up st1 then NetUp st1 else NetDown st1)
                   (upd_netdev i (\<lambda>nd. nd\<lparr>nd_status := st1\<rparr>) (fst w), snd w)))
    | _ \<Rightarrow> (0, w))"

fun ix_netlinkif_read_event :: "'s callback \<Rightarrow> nl_msg list \<Rightarrow> int \<Rightarrow> gptpnet_data \<times> 's \<Rightarrow> int \<times> gptpnet_data \<times> 's" where
  "ix_netlinkif_read_event cb [] ret w = (ret, w)"
| "ix_netlinkif_read_event cb (m # ms) ret w =
     (if m = NlDone then (ret, w)
      else if m = NlError then (- 1, w)
      else case netlink_msg_handler cb m w of (r, w1) \<Rightarrow>
        if r < 0 then (r, w1) else ix_netlinkif_read_event cb ms r w1)"

section \<open>The event loop\<close>

text \<open>What \<^verbatim>\<open>select\<close> reports: an error, the end of the time, or what is ready: the messages on the netlink socket,
  which devices, and whether a client has sent something. The socket of the clients is handled by
  \<^verbatim>\<open>cb_ipcsocket_server_read\<close>, an argument.\<close>

record ready =
  rd_netlink :: "nl_msg list option"
  rd_dev :: "nat \<Rightarrow> sockq option"
  rd_ipc :: bool

datatype selected = SelError | SelTimeout | SelReady ready

definition GPTPNET_INTERVAL_TIMEOUT :: int where "GPTPNET_INTERVAL_TIMEOUT = 125000000"

definition read_devices :: "net_os \<Rightarrow> 's callback \<Rightarrow> errno \<Rightarrow> (nat \<Rightarrow> sockq option) \<Rightarrow> gptpnet_data \<times> 's \<Rightarrow> gptpnet_data \<times> 's" where
  "read_devices os cb stale rd w = foldl (\<lambda>w i. case (nd_fd (netdev (fst w) i), rd i) of
      (Some fd, Some q) \<Rightarrow> snd (drain_netdev os cb stale i q w)
    | _ \<Rightarrow> w) w [0..<length (netdevices (fst w))]"

definition handle_ready :: "net_os \<Rightarrow> 's callback \<Rightarrow> errno \<Rightarrow> (gptpnet_data \<times> 's \<Rightarrow> gptpnet_data \<times> 's) \<Rightarrow> ready \<Rightarrow>
    gptpnet_data \<times> 's \<Rightarrow> gptpnet_data \<times> 's" where
  "handle_ready os cb stale ipc rd w =
     (let w1 = (case rd_netlink rd of None \<Rightarrow> w | Some ms \<Rightarrow> snd (ix_netlinkif_read_event cb ms 0 w));
          w2 = read_devices os cb stale (rd_dev rd) w1
      in if rd_ipc rd then ipc w2 else w2)"

text \<open>The time that \<^verbatim>\<open>select\<close> is given is \<open>select_time\<close>.\<close>

definition next_interval :: "u64 \<Rightarrow> u64" where
  "next_interval ts64 = of_int ((c_div (sint ts64) GPTPNET_INTERVAL_TIMEOUT + 1) * GPTPNET_INTERVAL_TIMEOUT)"

definition gptpnet_catch_event :: "net_os \<Rightarrow> 's callback \<Rightarrow> errno \<Rightarrow> (gptpnet_data \<times> 's \<Rightarrow> gptpnet_data \<times> 's) \<Rightarrow>
    selected \<Rightarrow> gptpnet_data \<times> 's \<Rightarrow> gptpnet_data \<times> 's" where
  "gptpnet_catch_event os cb stale ipc sel w =
     (let ts64 = mt_now os (fst w); g0 = mt_read (fst w)
      in if next_tout64 g0 \<noteq> 0 \<and> sint (next_tout64 g0 - ts64) < 0 then
           snd (cb 0 ts64 NetTimeout (g0\<lparr>next_tout64 := 0\<rparr>, snd w))
         else
           let g1 = (if next_tout64 g0 = 0 then g0\<lparr>next_tout64 := next_interval ts64\<rparr> else g0)
           in case sel of
                SelError \<Rightarrow> (g1, snd w)
              | SelTimeout \<Rightarrow>
                  snd (notify cb 0 NetTimeout ((mt_read g1)\<lparr>event_ts64 := mt_now os g1, next_tout64 := 0\<rparr>, snd w))
              | SelReady rd \<Rightarrow>
                  handle_ready os cb stale ipc rd ((mt_read g1)\<lparr>event_ts64 := mt_now os g1\<rparr>, snd w))"

definition select_time :: "net_os \<Rightarrow> gptpnet_data \<Rightarrow> u64" where
  "select_time os g = (let ts64 = mt_now os g in (if next_tout64 g = 0 then next_interval ts64 else next_tout64 g) - ts64)"

text \<open>The loop with what \<^verbatim>\<open>select\<close> reports in each round (a round that is late for its timeout does not ask),
  until it is told to stop.\<close>

fun gptpnet_eventloop :: "net_os \<Rightarrow> 's callback \<Rightarrow> errno \<Rightarrow> (gptpnet_data \<times> 's \<Rightarrow> gptpnet_data \<times> 's) \<Rightarrow>
    selected list \<Rightarrow> gptpnet_data \<times> 's \<Rightarrow> gptpnet_data \<times> 's" where
  "gptpnet_eventloop os cb stale ipc [] w = w"
| "gptpnet_eventloop os cb stale ipc (sel # sels) w =
     gptpnet_eventloop os cb stale ipc sels (gptpnet_catch_event os cb stale ipc sel w)"

section \<open>Opening the devices\<close>

text \<open>What the operating system has for a name: the clock device of the network device, the socket (\<open>od_fd\<close> is
  what is left in the descriptor when it cannot be opened), the address, and whether the two settings
  succeed. \<open>eui48to64\<close> is a function of \<^verbatim>\<open>xl4combase\<close>.\<close>

record onenet_os =
  od_ptpdev :: "string option"
  od_opened :: bool
  od_fd :: "int option"
  od_mac :: "u8 list"
  od_multicast :: bool
  od_timestamping :: bool

record init_os =
  onenet_os :: "string \<Rightarrow> onenet_os"
  eui48to64 :: "u8 list \<Rightarrow> u8 list"

definition IFNAMSIZ :: nat where "IFNAMSIZ = 16"

definition zero_nlstatus :: gptpipc_data_netlink where
  "zero_nlstatus = \<lparr>nl_speed = 0, nl_duplex = 0, nl_portid = zero_clockid, nl_up = False, nl_devname = [], nl_ptpdev = []\<rparr>"

definition zero_netdevice :: netdevice where
  "zero_netdevice = \<lparr>nd_fd = Some 0, nd_source = replicate 6 0, nd_pdata = replicate GPTP_MAX_PACKET_SIZE 0,
     nd_status = zero_nlstatus, nd_txtslost_time = 0, nd_guard_time = 0, nd_waiting_txts = False,
     nd_waiting_tout = 0, nd_waiting_msgtype = 0, nd_ovip_port = 0\<rparr>"

definition onenet_init :: "net_conf \<Rightarrow> init_os \<Rightarrow> string \<Rightarrow> netdevice \<Rightarrow> int \<times> netdevice" where
  "onenet_init c ios name nd =
     (let st = (nd_status nd)\<lparr>nl_devname := take (IFNAMSIZ - 1) name\<rparr>;
          o1 = onenet_os ios (nl_devname st);
          res = (if od_ptpdev o1 \<noteq> None then 1 else 0);
          nd1 = nd\<lparr>nd_status := st\<lparr>nl_ptpdev := case_option [] id (od_ptpdev o1)\<rparr>,
                   nd_txtslost_time := TXTS_LOST_TIME c, nd_fd := od_fd o1\<rparr>
      in if \<not> od_opened o1 then (- 1, nd1)
         else
           let nd2 = nd1\<lparr>nd_source := od_mac o1\<rparr>
           in if \<not> od_multicast o1 \<or> \<not> od_timestamping o1 then (- 1, nd2\<lparr>nd_fd := None\<rparr>)
              else (res, nd2\<lparr>nd_status := (nd_status nd2)\<lparr>nl_portid := eui48to64 ios (od_mac o1)\<rparr>\<rparr>))"

text \<open>The devices are opened in order. The first one with a clock is remembered, or the last one whose clock is
  the one that was asked for.\<close>

fun init_netdevs :: "net_conf \<Rightarrow> init_os \<Rightarrow> string \<Rightarrow> string \<Rightarrow> nat \<Rightarrow> string list \<Rightarrow> nat option \<Rightarrow>
    netdevice list \<times> nat option" where
  "init_netdevs c ios veth master i [] first = ([], first)"
| "init_netdevs c ios veth master i (name # names) first =
     (let nd = (if take (length veth) name = veth
                then zero_netdevice\<lparr>nd_ovip_port := OVIP_MODE_STRT_PORTNO c + of_nat (i * 2)\<rparr> else zero_netdevice)
      in case onenet_init c ios name nd of (res, nd1) \<Rightarrow>
           let first1 = (if res \<le> 0 then first
                 else if first = None \<or> (master \<noteq> [] \<and> master = nl_ptpdev (nd_status nd1)) then Some i else first)
           in case init_netdevs c ios veth master (i + 1) names first1 of (nds, f) \<Rightarrow> (nd1 # nds, f))"

definition swap_first :: "nat \<Rightarrow> 'a list \<Rightarrow> 'a list" where
  "swap_first k xs = xs[0 := xs ! k, k := xs ! 0]"

definition fill_ptpdev :: "string \<Rightarrow> netdevice \<Rightarrow> netdevice" where
  "fill_ptpdev p nd = (if nl_ptpdev (nd_status nd) \<noteq> [] then nd
     else nd\<lparr>nd_status := (nd_status nd)\<lparr>nl_ptpdev := p\<rparr>\<rparr>)"

definition gptpnet_init :: "net_conf \<Rightarrow> init_os \<Rightarrow> net_os \<Rightarrow> string list \<Rightarrow> string \<Rightarrow> gptpnet_data option" where
  "gptpnet_init c ios os names master =
     (let ns = takeWhile (\<lambda>n. n \<noteq> []) names
      in if ns = [] \<or> length ns > MAX_PORT_NUMBER_LIMIT then None
         else case init_netdevs c ios (virtual_eth os) master 0 ns None of
           (_, None) \<Rightarrow> None
         | (ds, Some k) \<Rightarrow>
             (let ds1 = (if k > 0 then swap_first k ds else ds);
                  p = nl_ptpdev (nd_status (hd ds1))
              in Some \<lparr>netdevices = hd ds1 # map (fill_ptpdev p) (tl ds1), event_ts64 = mt_gettime os 0,
                       next_tout64 = 0, mt_reads = 1, net_written = []\<rparr>))"

text \<open>Activating a device asks for its link: \<open>lk\<close> has the state, the speed and the duplex mode of each.\<close>

definition onenet_activate :: "(nat \<Rightarrow> bool \<times> u32 \<times> u32) \<Rightarrow> 's callback \<Rightarrow> nat \<Rightarrow> gptpnet_data \<times> 's \<Rightarrow> gptpnet_data \<times> 's" where
  "onenet_activate lk cb i w = (case lk i of (up, spd, dup) \<Rightarrow>
     (let st = (nd_status (netdev (fst w) i))\<lparr>nl_up := up \<and> spd \<noteq> 0, nl_speed := spd, nl_duplex := dup\<rparr>;
          w1 = (upd_netdev i (\<lambda>nd. nd\<lparr>nd_status := st\<rparr>) (fst w), snd w)
      in if nl_up st then snd (notify cb (i + 1) (NetUp st) w1) else w1))"

definition gptpnet_activate :: "(nat \<Rightarrow> bool \<times> u32 \<times> u32) \<Rightarrow> 's callback \<Rightarrow> bool \<Rightarrow> gptpnet_data \<times> 's \<Rightarrow> int \<times> gptpnet_data \<times> 's" where
  "gptpnet_activate lk cb netlink_opens w =
     (if netlink_opens then 0 else - 1, foldl (\<lambda>w i. onenet_activate lk cb i w) w [0..<length (netdevices (fst w))])"

section \<open>What the daemon asks of a device\<close>

definition gptpnet_ptpdev :: "gptpnet_data \<Rightarrow> nat \<Rightarrow> string" where
  "gptpnet_ptpdev g i = nl_ptpdev (nd_status (netdev g i))"

definition gptpnet_num_netdevs :: "gptpnet_data \<Rightarrow> nat" where
  "gptpnet_num_netdevs g = length (netdevices g)"

definition gptpnet_portid :: "gptpnet_data \<Rightarrow> nat \<Rightarrow> ClockIdentity" where
  "gptpnet_portid g i = nl_portid (nd_status (netdev g i))"

definition gptpnet_create_clockid :: "gptpnet_data \<Rightarrow> nat \<Rightarrow> u8 \<Rightarrow> ClockIdentity" where
  "gptpnet_create_clockid g i dn =
     (if dn = 0 then gptpnet_portid g i else (gptpnet_portid g i)[3 := 0, 4 := dn])"

definition gptpnet_get_nlstatus :: "gptpnet_data \<Rightarrow> int \<Rightarrow> gptpipc_data_netlink option" where
  "gptpnet_get_nlstatus g i =
     (if i < 0 \<or> i \<ge> int (length (netdevices g)) then None else Some (nd_status (netdev g (nat i))))"

definition gptpnet_txtslost_time :: "gptpnet_data \<Rightarrow> nat \<Rightarrow> u64" where
  "gptpnet_txtslost_time g i = nd_txtslost_time (netdev g i)"

definition gptpnet_getfd_nlstatus :: "gptpnet_data \<Rightarrow> string \<Rightarrow> (nat \<times> gptpipc_data_netlink \<times> int option) option" where
  "gptpnet_getfd_nlstatus g name = map_option (\<lambda>i. (i, nd_status (netdev g i), nd_fd (netdev g i)))
     (find_netdev (netdevices g) name)"

end
