(* ===== verification/Gptp_NetFacts.thy ===== *)
theory Gptp_NetFacts
  imports Gptp_Net Gptp_Start
begin

text \<open>
  What the network layer guarantees: how far apart the messages of a device are, that a timeout comes, that
  everything that waits at a socket is handed on in order, that a change of the link is told once, that
  every device has a clock and every domain a clock identity of its own, and that the loop drives the
  daemon through its handlers.
\<close>

section \<open>The distance between messages\<close>

lemma mt_read_simps [simp]: "netdevices (mt_read g) = netdevices g" "net_written (mt_read g) = net_written g"
  "mt_reads (mt_read g) = mt_reads g + 1" "next_tout64 (mt_read g) = next_tout64 g" "netdev (mt_read g) = netdev g"
  "event_ts64 (mt_read g) = event_ts64 g"
  by (simp_all add: mt_read_def netdev_def fun_eq_iff)

lemma upd_netdev_simps [simp]: "net_written (upd_netdev i f g) = net_written g" "mt_reads (upd_netdev i f g) = mt_reads g"
  "next_tout64 (upd_netdev i f g) = next_tout64 g" "length (netdevices (upd_netdev i f g)) = length (netdevices g)"
  "event_ts64 (upd_netdev i f g) = event_ts64 g"
  by (simp_all add: upd_netdev_def)

lemma netdev_upd [simp]: "i < length (netdevices g) \<Longrightarrow> netdev (upd_netdev i f g) j = (if i = j then f (netdev g j) else netdev g j)"
  by (simp add: upd_netdev_def netdev_def)

lemma extra_timeout_simps [simp]: "netdev (gptpnet_extra_timeout c os t g) = netdev g"
  "net_written (gptpnet_extra_timeout c os t g) = net_written g" "mt_reads (gptpnet_extra_timeout c os t g) = mt_reads g + 1"
  "length (netdevices (gptpnet_extra_timeout c os t g)) = length (netdevices g)"
  by (simp_all add: gptpnet_extra_timeout_def Let_def netdev_def fun_eq_iff)

text \<open>What a device remembers of its last messages.\<close>

definition send_state :: "netdevice \<Rightarrow> u64 \<times> bool \<times> u64" where
  "send_state nd = (nd_guard_time nd, nd_waiting_txts nd, nd_waiting_tout nd)"

text \<open>Steps of the network layer that leave that of device \<open>i\<close> alone, and a sequence of those and of sending on
  any device: no timestamp of a sent message has been read at device \<open>i\<close>.\<close>

definition leaves_alone :: "nat \<Rightarrow> gptpnet_data \<Rightarrow> gptpnet_data \<Rightarrow> bool" where
  "leaves_alone i g h \<longleftrightarrow> send_state (netdev h i) = send_state (netdev g i) \<and> net_written h = net_written g \<and>
     mt_reads g \<le> mt_reads h \<and> length (netdevices h) = length (netdevices g)"

inductive net_quiet :: "net_conf \<Rightarrow> net_os \<Rightarrow> nat \<Rightarrow> gptpnet_data \<Rightarrow> gptpnet_data \<Rightarrow> bool" for c os i g where
  start: "net_quiet c os i g g"
| sends: "net_quiet c os i g h \<Longrightarrow> j < length (netdevices h) \<Longrightarrow> net_quiet c os i g (snd (gptpnet_send c os j len h))"
| other: "net_quiet c os i g h \<Longrightarrow> leaves_alone i h h' \<Longrightarrow> net_quiet c os i g h'"

text \<open>The clock does not go back, and no time that is computed wraps.\<close>

definition clock_forward :: "net_conf \<Rightarrow> net_os \<Rightarrow> bool" where
  "clock_forward c os \<longleftrightarrow> mono (mt_gettime os) \<and> 1000000 \<le> TXTS_LOST_TIME c \<and>
     (\<forall>n. uint (mt_gettime os n) + uint (TXTS_LOST_TIME c) < 2 ^ 64 \<and> uint (mt_gettime os n) + uint (AFTERSEND_GUARDTIME c) < 2 ^ 64)"

lemma clock_forwardD:
  assumes "clock_forward c os"
  shows "m \<le> n \<Longrightarrow> uint (mt_gettime os m) \<le> uint (mt_gettime os n)"
    and "uint (mt_gettime os n + AFTERSEND_GUARDTIME c) = uint (mt_gettime os n) + uint (AFTERSEND_GUARDTIME c)"
    and "uint (mt_gettime os n + TXTS_LOST_TIME c - 1000000) = uint (mt_gettime os n) + uint (TXTS_LOST_TIME c) - 1000000"
proof -
  have m: "mono (mt_gettime os)" "1000000 \<le> uint (TXTS_LOST_TIME c)"
    and b: "uint (mt_gettime os n) + uint (TXTS_LOST_TIME c) < 2 ^ 64" "uint (mt_gettime os n) + uint (AFTERSEND_GUARDTIME c) < 2 ^ 64"
    using assms by (auto simp: clock_forward_def word_le_def)
  show "m \<le> n \<Longrightarrow> uint (mt_gettime os m) \<le> uint (mt_gettime os n)" using m(1) by (simp add: mono_def word_le_def)
  show "uint (mt_gettime os n + AFTERSEND_GUARDTIME c) = uint (mt_gettime os n) + uint (AFTERSEND_GUARDTIME c)"
    using b(2) by (simp add: uint_plus_if')
  have s: "uint (mt_gettime os n + TXTS_LOST_TIME c) = uint (mt_gettime os n) + uint (TXTS_LOST_TIME c)"
    using b(1) by (simp add: uint_plus_if')
  have "(1000000 :: u64) \<le> mt_gettime os n + TXTS_LOST_TIME c"
    using add_increasing[OF uint_ge_0[of "mt_gettime os n"] m(2)] by (simp add: word_le_def s)
  then show "uint (mt_gettime os n + TXTS_LOST_TIME c - 1000000) = uint (mt_gettime os n) + uint (TXTS_LOST_TIME c) - 1000000"
    using s by (simp add: uint_sub_if' word_le_def)
qed

text \<open>The messages that device \<open>i\<close> has sent since \<open>g\<close>, and what is kept of them.\<close>

definition sent_since :: "nat \<Rightarrow> gptpnet_data \<Rightarrow> gptpnet_data \<Rightarrow> written list" where
  "sent_since i g h = filter (\<lambda>w. wr_dev w = i) (drop (length (net_written g)) (net_written h))"

definition is_event_msg :: "written \<Rightarrow> bool" where
  "is_event_msg w \<longleftrightarrow> wr_msgtype w < 8"

definition lost_gap :: "net_conf \<Rightarrow> int" where
  "lost_gap c = uint (TXTS_LOST_TIME c) - 1000000"

definition past :: "net_os \<Rightarrow> gptpnet_data \<Rightarrow> int \<Rightarrow> bool" where
  "past os h t \<longleftrightarrow> (\<exists>n<mt_reads h. t < uint (mt_gettime os n))"

definition spaced :: "net_conf \<Rightarrow> written list \<Rightarrow> bool" where
  "spaced c L \<longleftrightarrow> sorted_wrt (\<lambda>a b. uint (wr_time a) + uint (AFTERSEND_GUARDTIME c) \<le> uint (wr_time b)) L \<and>
     sorted_wrt (\<lambda>a b. uint (wr_time a) + lost_gap c < uint (wr_time b)) (filter is_event_msg L)"

definition remembers :: "net_conf \<Rightarrow> net_os \<Rightarrow> gptpnet_data \<Rightarrow> netdevice \<Rightarrow> written \<Rightarrow> bool" where
  "remembers c os h nd w \<longleftrightarrow> uint (wr_time w) + uint (AFTERSEND_GUARDTIME c) \<le> uint (nd_guard_time nd) \<and>
     (is_event_msg w \<longrightarrow> (nd_waiting_txts nd \<and> uint (wr_time w) + lost_gap c \<le> uint (nd_waiting_tout nd)) \<or>
        past os h (uint (wr_time w) + lost_gap c))"

definition send_inv :: "net_conf \<Rightarrow> net_os \<Rightarrow> nat \<Rightarrow> gptpnet_data \<Rightarrow> gptpnet_data \<Rightarrow> bool" where
  "send_inv c os i g h \<longleftrightarrow> spaced c (sent_since i g h) \<and> (\<forall>w\<in>set (sent_since i g h). remembers c os h (netdev h i) w) \<and>
     length (net_written g) \<le> length (net_written h) \<and> length (netdevices h) = length (netdevices g)"

lemma past_mono: "past os g t \<Longrightarrow> mt_reads g \<le> mt_reads h \<Longrightarrow> past os h t"
  by (auto simp: past_def intro: less_le_trans)

lemma send_inv_alone:
  assumes "send_inv c os i g h" "leaves_alone i h h'"
  shows "send_inv c os i g h'"
proof -
  have n: "net_written h' = net_written h" "mt_reads h \<le> mt_reads h'" "length (netdevices h') = length (netdevices h)"
    and s: "nd_guard_time (netdev h' i) = nd_guard_time (netdev h i)" "nd_waiting_txts (netdev h' i) = nd_waiting_txts (netdev h i)"
      "nd_waiting_tout (netdev h' i) = nd_waiting_tout (netdev h i)"
    using assms(2) by (simp_all add: leaves_alone_def send_state_def)
  have l: "sent_since i g h' = sent_since i g h" using n(1) by (simp add: sent_since_def)
  have "remembers c os h' (netdev h' i) w" if "remembers c os h (netdev h i) w" for w
    using that past_mono[OF _ n(2), of os] by (auto simp: remembers_def s)
  then show ?thesis using assms(1) n by (auto simp: send_inv_def l)
qed

lemma past_le: "past os h t \<Longrightarrow> s \<le> t \<Longrightarrow> past os h s"
  by (auto simp: past_def intro: le_less_trans)

text \<open>The time of waiting is over.\<close>

lemma send_inv_clear:
  assumes "send_inv c os i g h" "past os h (uint (nd_waiting_tout (netdev h i)))" "i < length (netdevices h)"
  shows "send_inv c os i g (upd_netdev i (\<lambda>nd. nd\<lparr>nd_waiting_txts := False\<rparr>) h)"
proof -
  let ?h = "upd_netdev i (\<lambda>nd. nd\<lparr>nd_waiting_txts := False\<rparr>) h"
  have l: "sent_since i g ?h = sent_since i g h" by (simp add: sent_since_def)
  have p: "past os ?h t = past os h t" for t by (simp add: past_def)
  have "remembers c os ?h (netdev ?h i) w" if "remembers c os h (netdev h i) w" for w
    using that assms(2,3) past_le[of os h "uint (nd_waiting_tout (netdev h i))"] by (auto simp: remembers_def p)
  then show ?thesis using assms(1) by (auto simp: send_inv_def l)
qed

text \<open>What the tests before sending amount to.\<close>

lemma send_now_simps:
  assumes "j < length (netdevices h)" and h'_def: "h' = snd (send_now c os j len t h)"
  shows "netdev h' i = (if i = j then (let nd = (netdev h j)\<lparr>nd_guard_time := t + AFTERSEND_GUARDTIME c\<rparr>; mt = hd_msgtype os (nd_pdata nd)
      in if mt < 8 then nd\<lparr>nd_waiting_txts := True, nd_waiting_tout := t + TXTS_LOST_TIME c - 1000000, nd_waiting_msgtype := mt\<rparr>
         else nd) else netdev h i)"
    and "\<exists>f. net_written h' = net_written h @ [\<lparr>wr_time = t, wr_dev = j, wr_msgtype = hd_msgtype os (nd_pdata (netdev h j)), wr_frame = f\<rparr>]"
    and "mt_reads h' = mt_reads h" "length (netdevices h') = length (netdevices h)"
proof -
  have k: "netdev (g\<lparr>net_written := x\<rparr>) = netdev g" for g :: gptpnet_data and x by (simp add: netdev_def fun_eq_iff)
  show "netdev h' i = (if i = j then (let nd = (netdev h j)\<lparr>nd_guard_time := t + AFTERSEND_GUARDTIME c\<rparr>; mt = hd_msgtype os (nd_pdata nd)
      in if mt < 8 then nd\<lparr>nd_waiting_txts := True, nd_waiting_tout := t + TXTS_LOST_TIME c - 1000000, nd_waiting_msgtype := mt\<rparr>
         else nd) else netdev h i)"
    using assms(1) by (auto simp: h'_def send_now_def Let_def k)
  show "\<exists>f. net_written h' = net_written h @ [\<lparr>wr_time = t, wr_dev = j, wr_msgtype = hd_msgtype os (nd_pdata (netdev h j)), wr_frame = f\<rparr>]"
    by (simp add: h'_def send_now_def Let_def)
  show "mt_reads h' = mt_reads h" "length (netdevices h') = length (netdevices h)"
    by (simp_all add: h'_def send_now_def Let_def)
qed

lemma send_inv_send_now:
  assumes inv: "send_inv c os i g h" and cf: "clock_forward c os" and j: "j < length (netdevices h)"
    and n: "t = mt_gettime os n" "n < mt_reads h" "Suc n = mt_reads h"
    and guard: "j = i \<longrightarrow> nd_guard_time (netdev h i) \<le> t"
    and wait: "j = i \<and> hd_msgtype os (nd_pdata (netdev h i)) < 8 \<longrightarrow> \<not> nd_waiting_txts (netdev h i)"
  shows "send_inv c os i g (snd (send_now c os j len t h))"
proof (cases "j = i")
  case False
  let ?h = "snd (send_now c os j len t h)"
  note s = send_now_simps[OF j refl, of c os len t]
  obtain f where f: "net_written ?h = net_written h @ [\<lparr>wr_time = t, wr_dev = j, wr_msgtype = hd_msgtype os (nd_pdata (netdev h j)), wr_frame = f\<rparr>]"
    using s(2) by blast
  have l: "sent_since i g ?h = sent_since i g h" using f inv False by (simp add: sent_since_def send_inv_def)
  have p: "past os ?h = past os h" by (simp add: past_def fun_eq_iff s(3))
  show ?thesis using inv False by (simp add: send_inv_def l s(1,4) f remembers_def p)
next
  case True
  let ?h = "snd (send_now c os i len t h)"
  let ?mt = "hd_msgtype os (nd_pdata (netdev h i))"
  have j': "i < length (netdevices h)" using j True by simp
  note s = send_now_simps[OF j' refl, of c os len t]
  obtain f where f: "net_written ?h = net_written h @ [\<lparr>wr_time = t, wr_dev = i, wr_msgtype = ?mt, wr_frame = f\<rparr>]"
    using s(2) by blast
  let ?w = "\<lparr>wr_time = t, wr_dev = i, wr_msgtype = ?mt, wr_frame = f\<rparr>"
  have l: "sent_since i g ?h = sent_since i g h @ [?w]" using f inv by (simp add: sent_since_def send_inv_def)
  have p: "past os ?h = past os h" by (simp add: past_def fun_eq_iff s(3))
  have T: "uint (nd_guard_time (netdev h i)) \<le> uint t" using guard True by (simp add: word_le_def)
  have new: "uint (t + AFTERSEND_GUARDTIME c) = uint t + uint (AFTERSEND_GUARDTIME c)"
    "uint (t + TXTS_LOST_TIME c - 1000000) = uint t + lost_gap c"
    using clock_forwardD(2,3)[OF cf, of n] n(1) by (simp_all add: lost_gap_def)
  have old: "uint (wr_time w) + uint (AFTERSEND_GUARDTIME c) \<le> uint t"
    "is_event_msg w \<Longrightarrow> ?mt < 8 \<Longrightarrow> uint (wr_time w) + lost_gap c < uint t"
    if "remembers c os h (netdev h i) w" for w
  proof -
    show "uint (wr_time w) + uint (AFTERSEND_GUARDTIME c) \<le> uint t" using that T by (simp add: remembers_def)
    assume "is_event_msg w" "?mt < 8"
    then have "past os h (uint (wr_time w) + lost_gap c)" using that wait True by (auto simp: remembers_def)
    then obtain m where m: "m < mt_reads h" "uint (wr_time w) + lost_gap c < uint (mt_gettime os m)" by (auto simp: past_def)
    have "m \<le> n" using m(1) n(3) by simp
    from clock_forwardD(1)[OF cf this] m(2) show "uint (wr_time w) + lost_gap c < uint t" by (simp add: n(1))
  qed
  have pt: "past os h x" if "x < uint t" for x using that n(1,2) by (auto simp: past_def)
  have r: "remembers c os h (netdev h i) w" if "w \<in> set (sent_since i g h)" for w using inv that by (simp add: send_inv_def)
  have "spaced c (sent_since i g h @ [?w])"
    using inv old[OF r] by (auto simp: send_inv_def spaced_def sorted_wrt_append is_event_msg_def)
  moreover have "remembers c os ?h (netdev ?h i) w" if "w \<in> set (sent_since i g h)" for w
  proof -
    have e: "uint (wr_time w) + uint (AFTERSEND_GUARDTIME c) \<le> uint t + uint (AFTERSEND_GUARDTIME c)"
      using add_increasing2[OF uint_ge_0 old(1)[OF r[OF that]], of "AFTERSEND_GUARDTIME c"] .
    show ?thesis
    proof (cases "?mt < 8")
      case True
      then show ?thesis using e old(2)[OF r[OF that]] pt
        by (simp add: remembers_def s(1) Let_def new p)
    next
      case False
      then show ?thesis using e r[OF that] by (simp add: remembers_def s(1) Let_def new p)
    qed
  qed
  moreover have "remembers c os ?h (netdev ?h i) ?w"
    by (simp add: remembers_def s(1) Let_def new is_event_msg_def)
  ultimately show ?thesis using inv True by (auto simp: send_inv_def l s(4) f)
qed

lemma leaves_mt_read [simp]: "leaves_alone i h (mt_read h)"
  by (simp add: leaves_alone_def)

lemma leaves_extra_timeout [simp]: "leaves_alone i h (gptpnet_extra_timeout c os t h)"
  by (simp add: leaves_alone_def)

lemma send_inv_send:
  assumes "send_inv c os i g h" "clock_forward c os" "j < length (netdevices h)"
  shows "send_inv c os i g (snd (gptpnet_send c os j len h))"
proof -
  let ?t = "mt_now os h"
  let ?h0 = "mt_read h"
  let ?nd = "netdev h j"
  let ?mt = "hd_msgtype os (nd_pdata ?nd)"
  let ?waits = "nd_waiting_txts ?nd \<and> ?mt < 8"
  let ?h1 = "if ?waits then upd_netdev j (\<lambda>nd. nd\<lparr>nd_waiting_txts := False\<rparr>) ?h0 else ?h0"
  have i0: "send_inv c os i g ?h0" using send_inv_alone[OF assms(1) leaves_mt_read] .
  have l0: "j < length (netdevices ?h0)" using assms(3) by simp
  consider (long) "len > GPTP_MAX_PACKET_SIZE"
    | (waiting) "\<not> len > GPTP_MAX_PACKET_SIZE" "?waits" "\<not> nd_waiting_tout ?nd < ?t"
    | (go) "\<not> len > GPTP_MAX_PACKET_SIZE" "?waits \<longrightarrow> nd_waiting_tout ?nd < ?t" by blast
  then show ?thesis
  proof cases
    case long
    then show ?thesis using assms(1) by (simp add: gptpnet_send_def)
  next
    case waiting
    then have "snd (gptpnet_send c os j len h) = gptpnet_extra_timeout c os 0 ?h0"
      by (simp add: gptpnet_send_def Let_def)
    then show ?thesis using send_inv_alone[OF i0 leaves_extra_timeout] by simp
  next
    case go
    have tn: "?t = mt_gettime os (mt_reads h)" by (simp add: mt_now_def)
    have i1: "send_inv c os i g ?h1"
    proof (cases "?waits \<and> j = i")
      case True
      then have "nd_waiting_tout (netdev h i) < ?t" using go(2) by blast
      then have "uint (nd_waiting_tout (netdev ?h0 i)) < uint (mt_gettime os (mt_reads h))"
        by (simp add: word_less_def tn)
      then have "past os ?h0 (uint (nd_waiting_tout (netdev ?h0 i)))" by (auto simp: past_def)
      then show ?thesis using send_inv_clear[OF i0] l0 True by auto
    next
      case False
      have "leaves_alone i ?h0 ?h1" using False l0 by (auto simp: leaves_alone_def)
      then show ?thesis using send_inv_alone[OF i0] by simp
    qed
    have r1: "mt_reads ?h1 = Suc (mt_reads h)" "j < length (netdevices ?h1)" using l0 by simp_all
    have d1: "nd_guard_time (netdev ?h1 j) = nd_guard_time ?nd" "nd_pdata (netdev ?h1 j) = nd_pdata ?nd"
      "?mt < 8 \<Longrightarrow> \<not> nd_waiting_txts (netdev ?h1 j)" using assms(3) by auto
    show ?thesis
    proof (cases "nd_guard_time ?nd > ?t")
      case True
      then have "snd (gptpnet_send c os j len h) = gptpnet_extra_timeout c os 0 ?h1"
        using go by (auto simp: gptpnet_send_def Let_def)
      then show ?thesis using send_inv_alone[OF i1 leaves_extra_timeout] by simp
    next
      case False
      have s: "snd (gptpnet_send c os j len h) = snd (send_now c os j len ?t ?h1)"
        using go False by (auto simp: gptpnet_send_def Let_def)
      show ?thesis unfolding s
        by (rule send_inv_send_now[OF i1 assms(2) r1(2) tn]) (use r1 d1 False in auto)
    qed
  qed
qed


section \<open>Everything that waits is handed on\<close>

text \<open>A callback that returns 0 for what it is given and does not touch the status or the tunnel of a device.\<close>

definition device_face :: "netdevice \<Rightarrow> gptpipc_data_netlink \<times> u16" where
  "device_face nd = (nd_status nd, nd_ovip_port nd)"

definition same_device :: "nat \<Rightarrow> gptpnet_data \<times> 's \<Rightarrow> gptpnet_data \<times> 's \<Rightarrow> bool" where
  "same_device i w w1 \<longleftrightarrow> device_face (netdev (fst w1) i) = device_face (netdev (fst w) i) \<and>
     length (netdevices (fst w1)) = length (netdevices (fst w))"

definition calm_callback :: "'s callback \<Rightarrow> nat \<Rightarrow> bool" where
  "calm_callback cb i \<longleftrightarrow> (\<forall>t ev w. i < length (netdevices (fst w)) \<longrightarrow>
     fst (cb (i + 1) t ev w) = 0 \<and> same_device i w (snd (cb (i + 1) t ev w)))"

text \<open>What a timestamp does to the device before it is handed on.\<close>

definition txts_taken :: "'s callback \<Rightarrow> nat \<Rightarrow> event_data_txts \<Rightarrow> gptpnet_data \<times> 's \<Rightarrow> gptpnet_data \<times> 's" where
  "txts_taken cb i ed w = snd (notify cb (i + 1) (NetTxts ed)
     (upd_netdev i (\<lambda>nd. nd\<lparr>nd_waiting_txts := False\<rparr>) (upd_netdev i (\<lambda>nd. nd\<lparr>nd_guard_time := 0\<rparr>) (fst w)), snd w))"

definition frame_taken :: "'s callback \<Rightarrow> nat \<Rightarrow> event_data_recv \<Rightarrow> gptpnet_data \<times> 's \<Rightarrow> gptpnet_data \<times> 's" where
  "frame_taken cb i ed w = snd (notify cb (i + 1) (NetRecv ed) w)"

lemma calm_notify:
  assumes "calm_callback cb i" "i < length (netdevices (fst w))"
  shows "fst (notify cb (i + 1) ev w) = 0" "same_device i w (snd (notify cb (i + 1) ev w))"
  using assms unfolding calm_callback_def notify_def by blast+

lemma txts_taken_same:
  assumes "calm_callback cb i" "i < length (netdevices (fst w))"
  shows "same_device i w (txts_taken cb i ed w)"
proof -
  let ?w = "(upd_netdev i (\<lambda>nd. nd\<lparr>nd_waiting_txts := False\<rparr>) (upd_netdev i (\<lambda>nd. nd\<lparr>nd_guard_time := 0\<rparr>) (fst w)), snd w)"
  have "same_device i ?w (txts_taken cb i ed w)"
    unfolding txts_taken_def by (rule calm_notify(2)[OF assms(1)]) (simp add: assms(2))
  moreover have "same_device i w ?w" using assms(2) by (simp add: same_device_def device_face_def)
  ultimately show ?thesis by (simp add: same_device_def)
qed

lemma frame_taken_same:
  assumes "calm_callback cb i" "i < length (netdevices (fst w))"
  shows "same_device i w (frame_taken cb i ed w)" "notify cb (i + 1) (NetRecv ed) w = (0, frame_taken cb i ed w)"
  using calm_notify[OF assms, of "NetRecv ed"] by (simp_all add: frame_taken_def prod_eq_iff)

lemma read_step_txts:
  assumes "errq q = Message m # es" "read_txts os i (nd_ovip_port (netdev (fst w) i)) m = (0, ed)" "tx_ts64 ed \<noteq> - 1"
  shows "read_netdev_event os cb stale i q w = (0, q\<lparr>errq := es\<rparr>, txts_taken cb i ed w)"
  using assms by (simp add: read_netdev_event_def ix_timestamp_txts_def txts_taken_def Let_def)

lemma read_step_frame:
  assumes "errq q = []" "rxq q = Message m # rs" "recv_event os (netdev (fst w) i) i m = Some ed"
    and "nl_up (nd_status (netdev (fst w) i))" "calm_callback cb i" "i < length (netdevices (fst w))"
  shows "read_netdev_event os cb stale i q w = (0, q\<lparr>rxq := rs\<rparr>, frame_taken cb i ed w)"
  using assms(1-4) frame_taken_same(2)[OF assms(5,6), of ed]
  by (simp add: read_netdev_event_def ix_timestamp_txts_def no_txts_def read_message_def read_recdata_def)

lemma read_step_end:
  assumes "errq q = []" "rxq q = []"
  shows "read_netdev_event os cb stale i q w = (1, q, w)"
  using assms by (simp add: read_netdev_event_def ix_timestamp_txts_def no_txts_def read_error_def)

lemma drain_step: "read_netdev_event os cb stale i q w = (0, q1, w1) \<Longrightarrow>
  drain_netdev os cb stale i q w = drain_netdev os cb stale i q1 w1"
  by (subst drain_netdev.simps) simp

text \<open>What a device makes of a message depends on its face only.\<close>

definition readable :: "net_os \<Rightarrow> nat \<Rightarrow> gptpipc_data_netlink \<times> u16 \<Rightarrow> sock_msg \<Rightarrow> event_data_recv \<Rightarrow> bool" where
  "readable os i face m ed \<longleftrightarrow> (\<forall>nd. device_face nd = face \<longrightarrow> recv_event os nd i m = Some ed)"

lemma drain_frames:
  assumes "calm_callback cb i"
  shows "list_all2 (readable os i face) ms eds \<Longrightarrow> nl_up (fst face) \<Longrightarrow> i < length (netdevices (fst w)) \<Longrightarrow>
    device_face (netdev (fst w) i) = face \<Longrightarrow>
    drain_netdev os cb stale i \<lparr>errq = [], rxq = map Message ms\<rparr> w =
      (\<lparr>errq = [], rxq = []\<rparr>, foldl (\<lambda>w ed. frame_taken cb i ed w) w eds)"
proof (induction ms arbitrary: w eds)
  case Nil
  then show ?case by (subst drain_netdev.simps) (simp add: read_step_end)
next
  case (Cons m ms)
  obtain ed eds1 where e: "eds = ed # eds1" "readable os i face m ed" "list_all2 (readable os i face) ms eds1"
    using Cons.prems(1) by (auto simp: list_all2_Cons1)
  have up: "nl_up (nd_status (netdev (fst w) i))" using Cons.prems(2,4) by (auto simp: device_face_def)
  have r: "recv_event os (netdev (fst w) i) i m = Some ed" using e(2) Cons.prems(4) by (simp add: readable_def)
  have same: "same_device i w (frame_taken cb i ed w)" by (rule frame_taken_same(1)[OF assms Cons.prems(3)])
  have "drain_netdev os cb stale i \<lparr>errq = [], rxq = map Message (m # ms)\<rparr> w =
      drain_netdev os cb stale i \<lparr>errq = [], rxq = map Message ms\<rparr> (frame_taken cb i ed w)"
    using drain_step[OF read_step_frame[OF _ _ r up assms Cons.prems(3)]] by simp
  also have "\<dots> = (\<lparr>errq = [], rxq = []\<rparr>, foldl (\<lambda>w ed. frame_taken cb i ed w) (frame_taken cb i ed w) eds1)"
    using same Cons.prems(2-4) by (intro Cons.IH[OF e(3)]) (auto simp: same_device_def)
  finally show ?case by (simp add: e(1))
qed


section \<open>Changes of the link\<close>

lemma new_nlstatus_idem: "new_nlstatus m (new_nlstatus m st) = new_nlstatus m st"
  by (simp add: new_nlstatus_def)

lemma new_nlstatus_name: "nl_devname (new_nlstatus m st) = nl_devname st"
  by (simp add: new_nlstatus_def)

text \<open>A callback that leaves the status of the devices alone.\<close>

definition keeps_status :: "'s callback \<Rightarrow> bool" where
  "keeps_status cb \<longleftrightarrow> (\<forall>p t ev w. map nd_status (netdevices (fst (snd (cb p t ev w)))) = map nd_status (netdevices (fst w)))"

lemma find_netdev_cong:
  assumes "map nd_status ds = map nd_status ds'"
  shows "find_netdev ds name = find_netdev ds' name"
proof -
  have "length ds = length ds'" using assms by (metis length_map)
  moreover have "nd_status (ds ! i) = nd_status (ds' ! i)" if "i < length ds" for i
    using assms that \<open>length ds = length ds'\<close> by (metis nth_map)
  ultimately show ?thesis unfolding find_netdev_def by (auto intro: find_cong)
qed

lemma find_netdev_Some: "find_netdev ds name = Some i \<Longrightarrow> i < length ds \<and> nl_devname (nd_status (ds ! i)) = name"
  by (auto simp: find_netdev_def find_Some_iff)

text \<open>A change of the link is told once: the message is answered by an event exactly when it changes the
  status of one of our devices, the event has the status that is then stored, and the same message again
  has no effect.\<close>

theorem link_change_told_once:
  assumes "keeps_status cb" "find_netdev (netdevices (fst w)) name = Some i"
    and m_def: "m = NlLink name running lstate spd dup"
  shows "(new_nlstatus m (nd_status (netdev (fst w) i)) = nd_status (netdev (fst w) i) \<longrightarrow> netlink_msg_handler cb m w = (0, w)) \<and>
    nd_status (netdev (fst (snd (netlink_msg_handler cb m w))) i) = new_nlstatus m (nd_status (netdev (fst w) i)) \<and>
    netlink_msg_handler cb m (snd (netlink_msg_handler cb m w)) = (0, snd (netlink_msg_handler cb m w))"
proof -
  let ?st = "nd_status (netdev (fst w) i)"
  let ?st1 = "new_nlstatus m ?st"
  let ?u = "(upd_netdev i (\<lambda>nd. nd\<lparr>nd_status := ?st1\<rparr>) (fst w), snd w)"
  let ?w1 = "snd (netlink_msg_handler cb m w)"
  have i: "i < length (netdevices (fst w))" "nl_devname ?st = name"
    using find_netdev_Some[OF assms(2)] by (simp_all add: netdev_def)
  have same: "?st1 = ?st \<Longrightarrow> netlink_msg_handler cb m w = (0, w)"
    using assms(2) by (simp add: netlink_msg_handler_def m_def Let_def)
  have d: "map nd_status (netdevices (fst ?w1)) = (map nd_status (netdevices (fst w)))[i := ?st1]"
  proof (cases "?st1 = ?st")
    case True
    have "(map nd_status (netdevices (fst w)))[i := ?st] = map nd_status (netdevices (fst w))"
      unfolding netdev_def using i(1) by (metis list_update_id nth_map)
    then show ?thesis using same True by simp
  next
    case False
    then have "?w1 = snd (notify cb (i + 1) (if nl_up ?st1 then NetUp ?st1 else NetDown ?st1) ?u)"
      using assms(2) by (simp add: netlink_msg_handler_def m_def Let_def)
    then show ?thesis using assms(1) by (simp add: keeps_status_def notify_def upd_netdev_def map_update)
  qed
  have l: "length (netdevices (fst ?w1)) = length (netdevices (fst w))" using d by (metis length_list_update length_map)
  have s1: "nd_status (netdev (fst ?w1) i) = ?st1"
    using d i l by (metis length_map netdev_def nth_list_update_eq nth_map)
  have "find_netdev (netdevices (fst ?w1)) name = find_netdev (netdevices (fst ?u)) name"
    using d by (intro find_netdev_cong) (simp add: upd_netdev_def map_update)
  also have "\<dots> = find_netdev (netdevices (fst w)) name"
  proof -
    have "nl_devname (nd_status (netdevices (fst ?u) ! k)) = nl_devname (nd_status (netdevices (fst w) ! k))"
      if "k < length (netdevices (fst w))" for k
      using that i(1) by (cases "k = i") (simp_all add: upd_netdev_def new_nlstatus_name netdev_def)
    then show ?thesis unfolding find_netdev_def by (auto intro: find_cong)
  qed
  finally have "netlink_msg_handler cb m ?w1 = (0, ?w1)"
    using assms(2) s1 new_nlstatus_idem[of m ?st] by (simp add: netlink_msg_handler_def m_def)
  then show ?thesis using same s1 by blast
qed

section \<open>Clock identities and clocks of the devices\<close>

text \<open>The clock identities of the domains of a device are different.\<close>

theorem clock_identities_differ:
  assumes "length (gptpnet_portid g i) = 8" "gptpnet_portid g i ! 3 = 0xFF"
    and "gptpnet_create_clockid g i d = gptpnet_create_clockid g i d'"
  shows "d = d'"
proof -
  have n: "gptpnet_create_clockid g i d ! 3 = (if d = 0 then 0xFF else 0)"
    "d \<noteq> 0 \<Longrightarrow> gptpnet_create_clockid g i d ! 4 = d" for d
    using assms(1,2) by (simp_all add: gptpnet_create_clockid_def)
  have "(if d = 0 then 0xFF else 0 :: u8) = (if d' = 0 then 0xFF else 0)"
    using n(1)[of d] n(1)[of d'] assms(3) by metis
  then have z: "d = 0 \<longleftrightarrow> d' = 0" by (simp split: if_splits)
  show ?thesis
  proof (cases "d = 0")
    case False
    then show ?thesis using n(2)[of d] n(2)[of d'] z assms(3) by metis
  qed (use z in simp)
qed

definition has_clock :: "init_os \<Rightarrow> netdevice \<Rightarrow> bool" where
  "has_clock ios nd \<longleftrightarrow> od_ptpdev (onenet_os ios (nl_devname (nd_status nd))) = Some (nl_ptpdev (nd_status nd))"

lemma onenet_init_clock: "onenet_init c ios name nd = (res, nd1) \<Longrightarrow> 0 < res \<Longrightarrow> has_clock ios nd1"
  unfolding onenet_init_def Let_def by (auto simp: has_clock_def split: if_splits)

lemma init_netdevs_first:
  "init_netdevs c ios veth master k names first = (ds, f) \<Longrightarrow>
    length ds = length names \<and> (f = first \<or> (\<exists>j<length ds. f = Some (k + j) \<and> has_clock ios (ds ! j)))"
proof (induction names arbitrary: k first ds f)
  case Nil
  then show ?case by simp
next
  case (Cons name names)
  obtain res nd1 where o1: "onenet_init c ios name (if take (length veth) name = veth
      then zero_netdevice\<lparr>nd_ovip_port := OVIP_MODE_STRT_PORTNO c + of_nat (k * 2)\<rparr> else zero_netdevice) = (res, nd1)" by fastforce
  let ?f1 = "if res \<le> 0 then first
    else if first = None \<or> (master \<noteq> [] \<and> master = nl_ptpdev (nd_status nd1)) then Some k else first"
  obtain ds1 where r: "init_netdevs c ios veth master (k + 1) names ?f1 = (ds1, f)" "ds = nd1 # ds1"
    using Cons.prems o1 by (auto split: prod.splits)
  have l: "length ds = length (name # names)" using Cons.IH[OF r(1)] r(2) by simp
  consider "f = ?f1" | j where "j < length ds1" "f = Some (k + 1 + j)" "has_clock ios (ds1 ! j)"
    using Cons.IH[OF r(1)] by blast
  then show ?case
  proof cases
    case 1
    then have "f = first \<or> (0 < res \<and> f = Some (k + 0))" by (auto split: if_splits)
    then have "f = first \<or> (0 < length ds \<and> f = Some (k + 0) \<and> has_clock ios (ds ! 0))"
      using onenet_init_clock[OF o1] l r(2) by auto
    then show ?thesis using l by blast
  next
    case 2
    then have "Suc j < length ds \<and> f = Some (k + Suc j) \<and> has_clock ios (ds ! Suc j)" by (simp add: r(2))
    then show ?thesis using l by blast
  qed
qed

text \<open>When the network layer starts, every device has a clock, as the daemon relies on: its own, or that of
  the first device.\<close>

theorem every_device_has_clock:
  assumes "gptpnet_init c ios os names master = Some g" "\<forall>n. od_ptpdev (onenet_os ios n) \<noteq> Some []"
    and "i < gptpnet_num_netdevs g"
  shows "gptpnet_ptpdev g i \<noteq> []"
proof -
  let ?ns = "takeWhile (\<lambda>n. n \<noteq> []) names"
  obtain ds k where ds: "init_netdevs c ios (virtual_eth os) master 0 ?ns None = (ds, Some k)"
    and g: "netdevices g = (let ds1 = (if k > 0 then swap_first k ds else ds)
      in hd ds1 # map (fill_ptpdev (nl_ptpdev (nd_status (hd ds1)))) (tl ds1))"
    using assms(1) by (auto simp: gptpnet_init_def Let_def split: if_splits prod.splits option.splits)
  have k: "k < length ds" "nl_ptpdev (nd_status (ds ! k)) \<noteq> []"
    using init_netdevs_first[OF ds] assms(2) by (auto simp: has_clock_def)
  let ?ds1 = "if k > 0 then swap_first k ds else ds"
  have l: "length ?ds1 = length ds" by (simp add: swap_first_def)
  have "?ds1 ! 0 = ds ! k" using k(1) by (cases ds; cases k) (simp_all add: swap_first_def)
  then have h: "hd ?ds1 = ds ! k" using l k(1) by (metis hd_conv_nth length_0_conv not_less_zero)
  have n: "length (netdevices g) = length ds" using g l k(1) by (simp add: Let_def)
  show ?thesis
  proof (cases i)
    case 0
    then show ?thesis using g h k(2) by (simp add: gptpnet_ptpdev_def netdev_def Let_def)
  next
    case (Suc j)
    then have "j < length (tl ?ds1)" using assms(3) n l by (simp add: gptpnet_num_netdevs_def)
    then show ?thesis using g h k(2) Suc by (simp add: gptpnet_ptpdev_def netdev_def Let_def fill_ptpdev_def)
  qed
qed

section \<open>Timestamps\<close>

text \<open>The timestamp of a received message is chosen as that of a sent one, where the system gives both in the
  same form.\<close>

theorem timestamps_chosen_alike:
  assumes "\<forall>tv. ScmTimestamp tv \<notin> set cs"
  shows "ll_recv_timestamp os cs (map_option (ts2nsec os) ts) = ll_txmsg_timestamp os cs ts"
  using assms
proof (induction cs arbitrary: ts)
  case Nil
  then show ?case by (cases ts) simp_all
next
  case (Cons x cs)
  have IH: "ll_recv_timestamp os cs (map_option (ts2nsec os) ts) = ll_txmsg_timestamp os cs ts" for ts
    using Cons by simp
  show ?case
  proof (cases x)
    case (ScmTimestamp tv)
    then show ?thesis using Cons.prems by (metis list.set_intros(1))
  next
    case (Stamps st)
    then show ?thesis using IH[of ts] IH[of "Some _", unfolded option.map] by simp
  qed (simp add: IH)
qed

section \<open>The clients of the network layer\<close>

text \<open>What a client may assume of the event loop: whatever its callback, its handler of requests and the steps
  of the layer itself keep holds throughout.\<close>

locale net_client =
  fixes cb :: "'s callback" and ipc :: "gptpnet_data \<times> 's \<Rightarrow> gptpnet_data \<times> 's" and inv :: "gptpnet_data \<times> 's \<Rightarrow> bool"
  assumes cb_keeps: "inv w \<Longrightarrow> inv (snd (cb p t ev w))"
    and timeout_keeps: "inv (g, s) \<Longrightarrow> inv (snd (cb 0 t NetTimeout (g\<lparr>next_tout64 := 0\<rparr>, s)))"
    and ipc_keeps: "inv w \<Longrightarrow> inv (ipc w)"
    and device_keeps: "inv (g, s) \<Longrightarrow> inv (upd_netdev i f g, s)"
    and time_keeps: "inv (g, s) \<Longrightarrow> inv (mt_read g, s)" "inv (g, s) \<Longrightarrow> inv (g\<lparr>event_ts64 := t\<rparr>, s)"
    and interval_keeps: "inv (g, s) \<Longrightarrow> next_tout64 g = 0 \<Longrightarrow> inv (g\<lparr>next_tout64 := t\<rparr>, s)"
begin

lemma notify_keeps: "inv w \<Longrightarrow> inv (snd (notify cb p ev w))"
  by (simp add: notify_def cb_keeps)

lemma device_keeps': "inv w \<Longrightarrow> inv (upd_netdev i f (fst w), snd w)"
  using device_keeps[of "fst w" "snd w"] by simp

lemma read_error_keeps: "inv w \<Longrightarrow> inv (snd (read_error os cb i en w))"
  by (simp add: read_error_def Let_def notify_keeps device_keeps')

lemma read_message_keeps: "inv w \<Longrightarrow> inv (snd (read_message os cb i m w))"
  by (simp add: read_message_def read_recdata_def Let_def notify_keeps device_keeps' split: option.splits)

lemma read_netdev_event_keeps:
  assumes "inv w" "read_netdev_event os cb stale i q w = (r, q1, w1)"
  shows "inv w1"
proof -
  have e: "read_error os cb i en w = (a, b) \<Longrightarrow> inv b" for en a b using read_error_keeps[OF assms(1)] by (metis snd_conv)
  have m: "read_message os cb i m w = (a, b) \<Longrightarrow> inv b" for m a b using read_message_keeps[OF assms(1)] by (metis snd_conv)
  have u: "inv (upd_netdev i f (fst w), snd w)" for f using device_keeps'[OF assms(1)] .
  have u2: "inv (upd_netdev i f (upd_netdev i f' (fst w)), snd w)" for f f' using device_keeps[OF u] .
  show ?thesis
    using assms u u2 notify_keeps[OF u2] e m
    by (auto simp: read_netdev_event_def Let_def split: prod.splits if_splits list.splits sock_read.splits)
qed

lemma drain_keeps: "inv w \<Longrightarrow> inv (snd (drain_netdev os cb stale i q w))"
proof (induction "sockq_size q" arbitrary: q w rule: less_induct)
  case less
  obtain r q1 w1 where r: "read_netdev_event os cb stale i q w = (r, q1, w1)" using prod_cases3 by blast
  have "inv w1" by (rule read_netdev_event_keeps[OF less.prems r])
  moreover have "r = 0 \<Longrightarrow> sockq_size q1 < sockq_size q" using read_netdev_event_shrinks r by blast
  ultimately show ?case using less.hyps by (subst drain_netdev.simps) (simp add: r)
qed

lemma netlink_keeps: "inv w \<Longrightarrow> inv (snd (ix_netlinkif_read_event cb ms ret w))"
proof (induction ms arbitrary: ret w)
  case (Cons m ms)
  have "inv (snd (netlink_msg_handler cb m w))"
    using Cons.prems by (auto simp: netlink_msg_handler_def Let_def notify_keeps device_keeps' split: nl_msg.splits option.splits)
  then show ?case using Cons by (auto split: prod.splits)
qed simp

lemma read_devices_keeps: "inv w \<Longrightarrow> inv (read_devices os cb stale rd w)"
proof -
  have "inv (foldl (\<lambda>w i. case (nd_fd (netdev (fst w) i), rd i) of
      (Some fd, Some q) \<Rightarrow> snd (drain_netdev os cb stale i q w) | _ \<Rightarrow> w) w is)" if "inv w" for w "is"
    using that by (induction "is" arbitrary: w) (auto simp: drain_keeps split: option.splits)
  then show "inv w \<Longrightarrow> inv (read_devices os cb stale rd w)" by (simp add: read_devices_def)
qed

lemma handle_ready_keeps: "inv w \<Longrightarrow> inv (handle_ready os cb stale ipc rd w)"
  by (simp add: handle_ready_def Let_def ipc_keeps read_devices_keeps netlink_keeps split: option.splits)

lemma catch_event_keeps:
  assumes "inv w"
  shows "inv (gptpnet_catch_event os cb stale ipc sel w)"
proof -
  let ?g0 = "mt_read (fst w)"
  obtain g1 where g1: "g1 = (if next_tout64 ?g0 = 0 then ?g0\<lparr>next_tout64 := next_interval (mt_now os (fst w))\<rparr> else ?g0)"
    by blast
  have i0: "inv (?g0, snd w)" using time_keeps(1)[of "fst w" "snd w"] assms by simp
  have i1: "inv (g1, snd w)" using i0 interval_keeps by (simp add: g1)
  have i2: "inv ((mt_read g1)\<lparr>event_ts64 := t\<rparr>, snd w)" for t using time_keeps i1 by blast
  have tk: "inv (g, s) \<Longrightarrow> inv (snd (cb 0 t NetTimeout (g\<lparr>next_tout64 := 0\<rparr>, s)))" for g s t by (rule timeout_keeps)
  show ?thesis
    unfolding gptpnet_catch_event_def Let_def notify_def g1[symmetric]
    using tk[OF i0] tk[OF i2] i1 handle_ready_keeps[OF i2]
    by (cases sel) simp_all
qed

lemma eventloop_keeps: "inv w \<Longrightarrow> inv (gptpnet_eventloop os cb stale ipc sels w)"
  by (induction sels arbitrary: w) (simp_all add: catch_event_keeps)

end

section \<open>The daemon on the network layer\<close>

text \<open>The daemon as a client: it is gone after a crash. What it sends in an event and what the event returns is
  the argument \<open>eff\<close>; its services depend on the state of the layer. \<open>held\<close> says which timestamps the hooks
  for abnormal events hold back.\<close>

definition event_of :: "(event_data_txts \<Rightarrow> bool) \<Rightarrow> net_event \<Rightarrow> gptpnet_event" where
  "event_of held ev = (case ev of
      NetTimeout \<Rightarrow> GPTPNET_EVENT_TIMEOUT
    | NetUp st \<Rightarrow> GPTPNET_EVENT_DEVUP (nl_duplex st) (nl_speed st)
    | NetDown st \<Rightarrow> GPTPNET_EVENT_DEVDOWN
    | NetRecv ed \<Rightarrow> GPTPNET_EVENT_RECV ed
    | NetTxts ed \<Rightarrow> GPTPNET_EVENT_TXTS ed (held ed))"

definition daemon_cb :: "env \<Rightarrow> platform \<Rightarrow> (gptpnet_data \<Rightarrow> services) \<Rightarrow> (event_data_txts \<Rightarrow> bool) \<Rightarrow>
    (nat \<Rightarrow> u64 \<Rightarrow> net_event \<Rightarrow> gptpnet_data \<times> gptpman_data \<Rightarrow> int \<times> gptpnet_data) \<Rightarrow> gptpman_data option callback" where
  "daemon_cb e pf io held eff port ts ev w = (case snd w of
      None \<Rightarrow> (0, w)
    | Some d \<Rightarrow> (case eff port ts ev (fst w, d) of (r, g1) \<Rightarrow>
        (r, g1, case gptpnet_cb e pf (io (fst w)) port ts (event_of held ev) d of Done d1 \<Rightarrow> Some d1 | _ \<Rightarrow> None)))"

definition daemon_ipc :: "env \<Rightarrow> hook_lib \<Rightarrow> gptpipc_client_req_data \<Rightarrow> nat \<Rightarrow>
    gptpnet_data \<times> gptpman_data option \<Rightarrow> gptpnet_data \<times> gptpman_data option" where
  "daemon_ipc e lib rq rsize w = (fst w, case snd w of
      None \<Rightarrow> None
    | Some d \<Rightarrow> (case gptpnet_ipc_cb e lib (gptpnet_get_nlstatus (fst w)) rq rsize d of
        Done (r, out, d1) \<Rightarrow> Some d1
      | _ \<Rightarrow> None))"

definition daemon_runs :: "env \<Rightarrow> platform \<Rightarrow> net_cfg \<Rightarrow> (nat \<Rightarrow> nat \<Rightarrow> int) \<Rightarrow> hook_lib \<Rightarrow> nat \<Rightarrow> nat \<Rightarrow>
    gptpnet_data \<times> gptpman_data option \<Rightarrow> bool" where
  "daemon_runs e pf nc seq lib devices doms w \<longleftrightarrow> (\<forall>d. snd w = Some d \<longrightarrow> daemon_reaches e pf nc seq lib devices doms d)"

interpretation daemon_net: net_client "daemon_cb e pf io held eff" "daemon_ipc e lib rq rsize"
  "daemon_runs e pf nc seq lib devices doms" for e pf io held eff lib rq rsize nc seq devices doms
proof unfold_locales
  fix w p t ev g s i f x
  have cb: "daemon_runs e pf nc seq lib devices doms (snd (daemon_cb e pf io held eff p t ev w))"
    if "daemon_runs e pf nc seq lib devices doms w" for w p t ev
  proof (cases "snd w")
    case (Some d)
    then have d: "daemon_reaches e pf nc seq lib devices doms d" using that by (simp add: daemon_runs_def)
    obtain r g1 where x: "eff p t ev (fst w, d) = (r, g1)" by fastforce
    show ?thesis
    proof (cases "gptpnet_cb e pf (io (fst w)) p t (event_of held ev) d")
      case (Done d1)
      show ?thesis using daemon_reaches.event[OF d Done] by (simp add: daemon_runs_def daemon_cb_def Some Done x)
    qed (simp_all add: daemon_runs_def daemon_cb_def Some x)
  qed (simp add: daemon_runs_def daemon_cb_def)
  show "daemon_runs e pf nc seq lib devices doms w \<Longrightarrow>
      daemon_runs e pf nc seq lib devices doms (snd (daemon_cb e pf io held eff p t ev w))" by (rule cb)
  show "daemon_runs e pf nc seq lib devices doms (g, s) \<Longrightarrow>
      daemon_runs e pf nc seq lib devices doms (snd (daemon_cb e pf io held eff 0 t NetTimeout (g\<lparr>next_tout64 := 0\<rparr>, s)))"
    by (rule cb) (simp add: daemon_runs_def)
  show "daemon_runs e pf nc seq lib devices doms w \<Longrightarrow> daemon_runs e pf nc seq lib devices doms (daemon_ipc e lib rq rsize w)"
  proof (cases "snd w")
    case (Some d)
    assume "daemon_runs e pf nc seq lib devices doms w"
    then have d: "daemon_reaches e pf nc seq lib devices doms d" using Some by (simp add: daemon_runs_def)
    show ?thesis
    proof (cases "gptpnet_ipc_cb e lib (gptpnet_get_nlstatus (fst w)) rq rsize d")
      case (Done x)
      obtain r out d1 where x: "x = (r, out, d1)" using prod_cases3 by blast
      show ?thesis using daemon_reaches.request[OF d Done[unfolded x]] by (simp add: daemon_runs_def daemon_ipc_def Some Done x)
    qed (simp_all add: daemon_runs_def daemon_ipc_def Some)
  qed (simp add: daemon_runs_def daemon_ipc_def)
qed (simp_all add: daemon_runs_def)


section \<open>Timeouts\<close>

lemma next_interval_after:
  assumes "0 \<le> sint ts" "sint ts + GPTPNET_INTERVAL_TIMEOUT < 2 ^ 63"
  shows "sint (next_interval ts) = (sint ts div GPTPNET_INTERVAL_TIMEOUT + 1) * GPTPNET_INTERVAL_TIMEOUT"
    and "sint ts < sint (next_interval ts)" "sint (next_interval ts) \<le> sint ts + GPTPNET_INTERVAL_TIMEOUT"
proof -
  let ?I = "GPTPNET_INTERVAL_TIMEOUT"
  have I: "0 < ?I" by (simp add: GPTPNET_INTERVAL_TIMEOUT_def)
  have q: "c_div (sint ts) ?I = sint ts div ?I"
    using assms(1) I by (cases "sint ts = 0") (simp_all add: c_div_def)
  have b: "(sint ts div ?I + 1) * ?I = sint ts - sint ts mod ?I + ?I"
    by (simp add: distrib_right minus_mod_eq_div_mult)
  have m: "0 \<le> sint ts mod ?I" "sint ts mod ?I < ?I" using I by simp_all
  show e: "sint (next_interval ts) = (sint ts div ?I + 1) * ?I"
    unfolding next_interval_def q using b m assms
    by (subst signed_of_int, subst signed_take_bit_int_eq_self) simp_all
  show "sint ts < sint (next_interval ts)" "sint (next_interval ts) \<le> sint ts + ?I"
    unfolding e b using m by simp_all
qed

text \<open>With no timeout pending the loop waits for the next full eighth of a second, and so never longer than
  that.\<close>

theorem select_waits_for_eighth:
  assumes "0 \<le> sint (mt_now os g)" "sint (mt_now os g) + GPTPNET_INTERVAL_TIMEOUT < 2 ^ 63" "next_tout64 g = 0"
  shows "0 < sint (select_time os g) \<and> sint (select_time os g) \<le> 125000000 \<and>
    (sint (mt_now os g) + sint (select_time os g)) mod 125000000 = 0"
proof -
  let ?t = "mt_now os g"
  note n = next_interval_after[OF assms(1,2)]
  have d: "sint (next_interval ?t - ?t) = sint (next_interval ?t) - sint ?t"
    unfolding sint_word_ariths
    by (rule signed_take_bit_int_eq_self) (use n(2,3) in \<open>simp_all add: GPTPNET_INTERVAL_TIMEOUT_def\<close>)
  then show ?thesis using n assms(3) by (simp add: select_time_def Let_def GPTPNET_INTERVAL_TIMEOUT_def)
qed

text \<open>A client that counts its timeouts and asks for none.\<close>

definition counts_timeouts :: "('s \<Rightarrow> nat) \<Rightarrow> 's callback \<Rightarrow> bool" where
  "counts_timeouts tick cb \<longleftrightarrow> (\<forall>p t ev w. next_tout64 (fst (snd (cb p t ev w))) = next_tout64 (fst w) \<and>
     tick (snd w) + (if ev = NetTimeout then 1 else 0) \<le> tick (snd (snd (cb p t ev w))))"

definition quiet_ipc :: "('s \<Rightarrow> nat) \<Rightarrow> (gptpnet_data \<times> 's \<Rightarrow> gptpnet_data \<times> 's) \<Rightarrow> bool" where
  "quiet_ipc tick ipc \<longleftrightarrow> (\<forall>w. next_tout64 (fst (ipc w)) = next_tout64 (fst w) \<and> tick (snd w) \<le> tick (snd (ipc w)))"

definition timeout_pending :: "('s \<Rightarrow> nat) \<Rightarrow> nat \<Rightarrow> u64 \<Rightarrow> gptpnet_data \<times> 's \<Rightarrow> bool" where
  "timeout_pending tick k T w \<longleftrightarrow> k < tick (snd w) \<or> (next_tout64 (fst w) = T \<and> k \<le> tick (snd w))"

lemma pending_client:
  assumes "counts_timeouts tick cb" "quiet_ipc tick ipc" "T \<noteq> 0"
  shows "net_client cb ipc (timeout_pending tick k T)"
proof unfold_locales
  fix w p t ev g s i f x
  have c: "next_tout64 (fst (snd (cb p t ev w))) = next_tout64 (fst w)"
    "tick (snd w) + (if ev = NetTimeout then 1 else 0) \<le> tick (snd (snd (cb p t ev w)))" for p t ev w
    using assms(1) unfolding counts_timeouts_def by blast+
  have "tick (snd w) \<le> tick (snd (snd (cb p t ev w)))" for w using add_leD1[OF c(2)] .
  then show "timeout_pending tick k T w \<Longrightarrow> timeout_pending tick k T (snd (cb p t ev w))"
    unfolding timeout_pending_def c(1) by (meson less_le_trans order_trans)
  show "timeout_pending tick k T (g, s) \<Longrightarrow> timeout_pending tick k T (snd (cb 0 t NetTimeout (g\<lparr>next_tout64 := 0\<rparr>, s)))"
    using c(2)[where ev = NetTimeout and p = 0 and t = t and w = "(g\<lparr>next_tout64 := 0\<rparr>, s)"]
    by (auto simp: timeout_pending_def)
  show "timeout_pending tick k T w \<Longrightarrow> timeout_pending tick k T (ipc w)"
    using assms(2) unfolding quiet_ipc_def timeout_pending_def by (metis less_le_trans order_trans)
qed (use assms(3) in \<open>simp_all add: timeout_pending_def\<close>)

lemma ticked_client:
  assumes "counts_timeouts tick cb" "quiet_ipc tick ipc"
  shows "net_client cb ipc (\<lambda>w. k < tick (snd w))"
proof unfold_locales
  fix w p t ev g s
  have c: "tick (snd w) + (if ev = NetTimeout then 1 else 0) \<le> tick (snd (snd (cb p t ev w)))" for p t ev w
    using assms(1) unfolding counts_timeouts_def by blast
  have c': "tick (snd w) \<le> tick (snd (snd (cb p t ev w)))" for p t ev w using add_leD1[OF c] .
  show "k < tick (snd w) \<Longrightarrow> k < tick (snd (snd (cb p t ev w)))" using c' less_le_trans by blast
  show "k < tick (snd (g, s)) \<Longrightarrow> k < tick (snd (snd (cb 0 t NetTimeout (g\<lparr>next_tout64 := 0\<rparr>, s))))"
    using c'[of "(g\<lparr>next_tout64 := 0\<rparr>, s)" 0 t NetTimeout] by simp
  show "k < tick (snd w) \<Longrightarrow> k < tick (snd (ipc w))"
    using assms(2) unfolding quiet_ipc_def by (meson less_le_trans)
qed simp_all


section \<open>What the layer does not guarantee\<close>

text \<open>A message in the error queue that is not a timestamp ends the guard time as well.\<close>

theorem foreign_message_ends_guard:
  assumes "errq q = Message m # es" "read_txts os i (nd_ovip_port (netdev (fst w) i)) m = (- 1, no_txts)"
    and "i < length (netdevices (fst w))"
  shows "nd_guard_time (netdev (fst (snd (snd (read_netdev_event os cb stale i q w)))) i) = 0"
  using assms by (simp add: read_netdev_event_def ix_timestamp_txts_def no_txts_def Let_def)

text \<open>A message that is put off replaces the time of a pending timeout by a later one: with a message put off often
  enough no timeout comes.\<close>

theorem extra_timeout_postpones:
  assumes "next_tout64 g < mt_now os g + EXTRA_TOUTNS c"
  shows "next_tout64 g < next_tout64 (gptpnet_extra_timeout c os 0 g)"
  using assms by (simp add: gptpnet_extra_timeout_def Let_def)

section \<open>Witnesses\<close>

definition sample_net_os :: net_os where
  "sample_net_os = \<lparr>mt_gettime = (\<lambda>n. of_nat (min n 1000) * 1000000), sock_write = (\<lambda>n f. int (length f)),
     hd_msgtype = (\<lambda>b. hd b AND 0xF), hd_domain = (\<lambda>b. b ! 4), hd_seqid = (\<lambda>b. ucast (b ! 30) * 256 + ucast (b ! 31)),
     ts2nsec = (\<lambda>(s, n). of_int (s * 1000000000 + n)), tv2nsec = (\<lambda>(s, n). of_int (s * 1000000000 + n * 1000)),
     virtual_eth = ''cbeth'', d0ClockfromRT = (\<lambda>_. 0)\<rparr>"

definition sample_netdevice :: netdevice where
  "sample_netdevice = \<lparr>nd_fd = Some 5, nd_source = replicate 6 1, nd_pdata = replicate 44 0,
     nd_status = zero_nlstatus\<lparr>nl_up := True, nl_devname := ''eth0'', nl_ptpdev := ''/dev/ptp0''\<rparr>,
     nd_txtslost_time = 20000000, nd_guard_time = 0, nd_waiting_txts = False, nd_waiting_tout = 0,
     nd_waiting_msgtype = 0, nd_ovip_port = 0\<rparr>"

definition sample_net :: gptpnet_data where
  "sample_net = \<lparr>netdevices = [sample_netdevice], event_ts64 = 0, next_tout64 = 0, mt_reads = 1, net_written = []\<rparr>"

lemma sample_clock_forward: "clock_forward default_net_conf sample_net_os"
proof -
  have u: "uint (mt_gettime sample_net_os n) = int (min n 1000) * 1000000" for n
  proof -
    have "uint (of_nat (min n 1000) :: u64) = int (min n 1000)"
      by (simp add: unsigned_of_nat take_bit_nat_eq_self)
    then have "uint (mt_gettime sample_net_os n) = (int (min n 1000) * 1000000) mod 2 ^ 64"
      by (simp add: sample_net_os_def uint_word_ariths)
    also have "\<dots> = int (min n 1000) * 1000000" by (rule mod_pos_pos_trivial) simp_all
    finally show ?thesis .
  qed
  have "mono (mt_gettime sample_net_os)"
  proof (rule monoI)
    fix x y :: nat assume "x \<le> y"
    then have "int (min x 1000) \<le> int (min y 1000)" by simp
    then show "mt_gettime sample_net_os x \<le> mt_gettime sample_net_os y" unfolding word_le_def u by simp
  qed
  moreover have "uint (mt_gettime sample_net_os n) + 20000000 < 2 ^ 64 \<and> uint (mt_gettime sample_net_os n) + 300000 < 2 ^ 64" for n
  proof -
    obtain k where k: "int (min n 1000) = k" "k \<le> 1000" by simp
    show ?thesis unfolding u k(1) using k(2) by simp
  qed
  ultimately show ?thesis by (simp add: clock_forward_def default_net_conf_def)
qed


text \<open>A client that keeps a list of its events.\<close>

definition log_cb :: "net_event list callback" where
  "log_cb p t ev w = (0, fst w, snd w @ [ev])"

definition sample_frame :: "u8 \<Rightarrow> u8 list" where
  "sample_frame mt = replicate 12 1 @ [0x88, 0xF7] @ mt # replicate 43 0"

definition sample_msg :: "u8 \<Rightarrow> int \<Rightarrow> sock_msg" where
  "sample_msg mt s = \<lparr>sm_buf = sample_frame mt, sm_len = 58, sm_trunc = False, sm_ctrunc = False,
     sm_cmsgs = [Stamps [(0, 0), (s, 7), (0, 0)]]\<rparr>"

lemma calm_log: "calm_callback log_cb 0"
  by (simp add: calm_callback_def log_cb_def same_device_def)


definition count_cb :: "nat callback" where
  "count_cb p t ev w = (0, fst w, snd w + (if ev = NetTimeout then 1 else 0))"


text \<open>A daemon for two devices, told that one of them has a slow link.\<close>

definition slow_link :: ready where
  "slow_link = \<lparr>rd_netlink = Some [NlLink ''eth0'' True True 10 1], rd_dev = (\<lambda>_. None), rd_ipc = False\<rparr>"

abbreviation sample_daemon_cb :: "gptpman_data option callback" where
  "sample_daemon_cb \<equiv> daemon_cb default_env sample_platform (\<lambda>_ _ _. sample_io) (\<lambda>_. False) (\<lambda>p t ev w. (0, fst w))"


end
