(* ===== verification/Spec2Isabelle.thy ===== *)
theory Spec2Isabelle
  imports Gptp_MindInit Gptp_AnnounceReceive Gptp_AnnounceInformation Gptp_StateSelection
    Gptp_AnnounceTransmit Gptp_IntervalSettings Gptp_AnnounceWire Gptp_SyncWire
    Gptp_SiteSync Gptp_PortSyncSend Gptp_ClockSync Gptp_ClockServo Gptp_GmStable Gptp_Capable Gptp_Signaling Gptp_ExtPort
    Gptp_DaemonFacts Gptp_Close Gptp_VirtualClock Gptp_NetFacts
begin

text \<open>
  Excelfore gPTP, a daemon for IEEE 802.1AS time synchronisation: a model of its C code under
  \<^verbatim>\<open>src/\<close> and what has been proved of it. File names below are relative to \<^verbatim>\<open>src/\<close>.

  \<^bold>\<open>The program.\<close> The daemon \<^verbatim>\<open>gptp2d\<close> keeps, for each time domain, the variables of the domain and of its
  ports and a set of state machines. The network layer (\<^verbatim>\<open>posix/ix_gptpnet.c\<close>) waits for frames, timestamps
  of sent frames, changes of a link and timeouts, and calls \<^verbatim>\<open>gptpnet_cb\<close> of \<^verbatim>\<open>gptpman.c\<close>, which runs the
  machines the event concerns, in a fixed order, handing the result of one to the next. The machines of a
  port measure the delay of the link (MDPdelayReq, MDPdelayResp), send and receive Sync, Announce and
  Signaling messages (MDSyncSend, MDSyncReceive, MDAnnounceSend, MDAnnounceReceive, MDSignalingSend,
  MDSignalingReceive) and hold what a port knows (PortSyncSync, PortAnnounce, GptpCapable and IntervalSetting
  machines); those of the domain elect the grandmaster (PortStateSelection), pass on the time (SiteSyncSync)
  and steer the clocks (ClockSlaveSync, ClockMasterSync, GmStable). The clocks themselves are in
  \<^verbatim>\<open>gptpclock.c\<close>; other processes read them through shared memory (\<^verbatim>\<open>gptpmasterclock.c\<close>) and ask the daemon
  through a socket (\<^verbatim>\<open>gptpipc.h\<close>).

  \<^bold>\<open>How the code is modelled.\<close>
  \<^item> A structure is a record, an enumeration a datatype, an integer of the code a word of its width (or an
    \<open>int\<close> where no operation can leave the range). A packed message is the list of its bytes; reading and
    writing it depends on the byte order of the host, a member of the environment.
  \<^item> A machine is a record with the part all machines share, \<open>sm_core\<close>. The function of \<^verbatim>\<open>sm_temp.c\<close> that
    every machine instantiates is \<open>sm_loop\<close> (theory \<open>Gptp_Prelude\<close>): a \<open>partial_function (option)\<close>, so that a
    machine that never comes to rest has the value \<open>None\<close>. The result of a step is \<open>Next\<close>, \<open>Return\<close> with a
    value, or \<open>Crash\<close> for a null pointer that is followed. The locale \<open>sm_safe\<close> has the termination argument
    once: an invariant and a rank of the state, which falls with every step that does not rest; each
    machine is an interpretation of it. No fuel is used anywhere in the machines.
  \<^item> The daemon's functions have the value \<open>Done\<close>, \<open>Fault\<close> (a null pointer or an array index out of range)
    or \<open>Hangs\<close> (a machine that does not return). Pointers that machines share are modelled by copying the
    shared variables into a machine when it runs and back afterwards (theory \<open>Gptp_Man\<close>).
  \<^item> The type \<^verbatim>\<open>double\<close> is modelled by the real numbers, with the conversion back to an integer cutting the fraction.
    Bounds that rest on it are bounds of the exact computation, not of its rounding.
  \<^item> Code that is not under \<^verbatim>\<open>src/\<close> is an argument: the configuration and byte order (\<open>env\<close>), the hardware
    clocks (\<open>platform\<close>), the services of the network seen by a machine (\<open>net_io\<close>), the system calls of the network
    layer (\<open>net_os\<close>, \<open>init_os\<close>, and the report of \<^verbatim>\<open>select\<close>), the arrays of \<^verbatim>\<open>xl4unibase\<close> (\<open>hook_lib\<close>, \<open>es_lib\<close>),
    what a client process sees (\<open>client_io\<close>, \<open>shm_world\<close>). What is relied on is a named hypothesis, such as
    \<open>nsec2ts_ok\<close>, \<open>del_index_ok\<close>, \<open>es_del_ok\<close>, \<open>opens\<close> or \<open>clock_forward\<close>, with an instance in a witness.

  \<^bold>\<open>The theories\<close>, from the bottom up.
  \<^item> \<open>Gptp_Prelude\<close>: words and byte order, \<open>sm_loop\<close> and its locales. \<open>Gptp_Config\<close>: the items of the
    configuration with the values of \<^verbatim>\<open>gptp_defaults.h\<close>.
  \<^item> \<open>Gptp_Base\<close> (\<^verbatim>\<open>gptpbasetypes.h\<close>, \<^verbatim>\<open>gptpcommon.c\<close>): priority vectors and their order; the comparison is a
    linear order on a big-endian host (\<open>priority_order\<close>), and what it is on a little-endian one.
  \<^item> \<open>Gptp_Mind\<close>, \<open>Gptp_MindInit\<close> (\<^verbatim>\<open>mind.h\<close>, \<^verbatim>\<open>mind.c\<close>) and \<open>Gptp_MdEth\<close>, \<open>Gptp_MdIo\<close>, \<open>Gptp_MdSync\<close>
    (\<^verbatim>\<open>mdeth.h\<close>, \<^verbatim>\<open>mdeth.c\<close>): the variables of a domain and of a port, and the messages; round trips of the
    header and of the messages between hosts of any byte order.
  \<^item> \<open>Gptp_Clock\<close>, \<open>Gptp_ClockFacts\<close> (\<^verbatim>\<open>gptpclock.c\<close>): the clocks, which of them is the main one of its device,
    the active domain, offsets and the conversion of time between clocks.
  \<^item> \<open>Gptp_Machines\<close>: what the machines share. \<open>Gptp_AnnounceReceive\<close>, \<open>Gptp_AnnounceInformation\<close>,
    \<open>Gptp_StateSelection\<close>, \<open>Gptp_AnnounceTransmit\<close>, \<open>Gptp_ExtPort\<close>, \<open>Gptp_IntervalSettings\<close>,
    \<open>Gptp_AnnounceWire\<close>: the election of the grandmaster. The vector elected is the best of what is known,
    the states of the ports are those of the standard, with at most one slave port; information is adopted when it is
    better and ages out; an Announce message arrives as it was sent.
  \<^item> \<open>Gptp_PdelayReq\<close>, \<open>Gptp_PdelayFacts\<close>, \<open>Gptp_PdelayResp\<close>, \<open>Gptp_PdelayLink\<close>: the peer delay. A complete
    exchange over a link yields half of the round trip without the time at the peer; no sequence of events makes
    the machine crash or hang; a silent peer is given up.
  \<^item> \<open>Gptp_SyncReceive\<close>, \<open>Gptp_SyncSend\<close>, \<open>Gptp_SyncWire\<close>, \<open>Gptp_PortSync\<close>, \<open>Gptp_SiteSync\<close>, \<open>Gptp_PortSyncSend\<close>,
    \<open>Gptp_ClockSync\<close>, \<open>Gptp_ClockServo\<close>: the time from the grandmaster through a bridge to the clock; the
    numbers that are sent, passed on and set are bounded against the exact ones, and the servo shrinks a
    frequency error and stays in its limits.
  \<^item> \<open>Gptp_GmStable\<close>, \<open>Gptp_Capable\<close>, \<open>Gptp_Signaling\<close>: when a grandmaster counts as stable, when a neighbour
    counts as capable, and signaling messages over the wire. \<open>Gptp_Abnormal\<close> (\<^verbatim>\<open>md_abnormal_hooks.c\<close>): test hooks;
    their counters refine a schedule.
  \<^item> \<open>Gptp_Man\<close>, \<open>Gptp_Daemon\<close>, \<open>Gptp_Ipc\<close>, \<open>Gptp_ManInit\<close> (\<^verbatim>\<open>gptpman.c\<close>): the data of the daemon, its event
    handlers, its requests and notices, and its start. \<open>Gptp_ManFacts\<close>: the interface to a machine
    (\<open>machine_access\<close>, \<open>domain_access\<close>, one interpretation per machine) and that an event keeps the set of
    machines. \<open>Gptp_Start\<close>: the start succeeds, and the running daemon has its machines. \<open>Gptp_DaemonFacts\<close>: what
    single events do, and where the daemon crashes. \<open>Gptp_Close\<close>: its end, which leaves no machine behind.
  \<^item> \<open>Gptp_Net\<close>, \<open>Gptp_NetFacts\<close> (\<^verbatim>\<open>posix/ix_gptpnet.c\<close>, \<^verbatim>\<open>ix_timestamp.c\<close>, \<^verbatim>\<open>ix_netlinkif.c\<close>): the network layer
    and its event loop; messages are spaced, what waits is handed on in order, a timeout that is due comes. The locale
    \<open>net_client\<close> says what a client may keep over the loop; the daemon is its interpretation.
  \<^item> \<open>Gptp_MasterClock\<close> (\<^verbatim>\<open>gptpmasterclock.c\<close>): the client library; it reads the time that the daemon has.
    \<open>Gptp_VirtualClock\<close> (\<^verbatim>\<open>gptpclock_virtual.c\<close>, \<^verbatim>\<open>posix/ix_gptpclock.c\<close>): virtual clocks, as a table that is refined
    by the array, counted by users, and running at their rate.
  \<^item> This theory has the properties that span components.

  \<^bold>\<open>Loops and bounds.\<close> Apart from \<open>sm_loop\<close>, loops over ports, domains and clocks are recursions over the list of
  indices; the repetition of the election (\<open>do_while\<close> in \<open>Gptp_Daemon\<close>) is partial and ends in \<open>Hangs\<close> if it does
  not end; the reading of a socket ends because every round takes a message (\<open>drain_netdev\<close>); the event loop
  is a fold over what \<^verbatim>\<open>select\<close> reports. Hypotheses such as \<open>2 ^ 62\<close> for a time or 32 bits for its seconds only
  exclude wrap-around; the witnesses are well within them.

  \<^bold>\<open>Not modelled.\<close> The unit tests; the main programs that parse a command line and print (\<^verbatim>\<open>gptp2d.c\<close>,
  \<^verbatim>\<open>gptpipcmon.c\<close>, \<^verbatim>\<open>gptpclock_monitor.c\<close>, \<^verbatim>\<open>set_ptpclock.c\<close> and others); \<^verbatim>\<open>gptpipc.c\<close>, the client side of the
  socket, which prints what it receives; the layer for one switch chip (\<^verbatim>\<open>posix/ix_sja1105_gptpnet.c\<close>), whose
  driver is not part of the repository; the layout of the messages to clients; locks, logging and the release
  of memory at the end; the script that a client may have run and the initial time on the command line. The daemon is one thread,
  so leaving out the locks changes nothing for it; a client of the shared memory is assumed to see a
  consistent state.
\<close>

section \<open>An Announce message from bridge to bridge\<close>

text \<open>C6: The priority vector that a bridge takes from an Announce message is the master priority
  vector of the bridge that sent it, with the sender's steps removed and port as source:
  the sending machine composes the message, the frame goes over the wire between hosts
  of any byte order, the receiving machine hands it on, and \<^verbatim>\<open>rcvdInfo\<close> records it.\<close>

theorem announce_end_to_end:
  assumes "port_announce_transmit_sm p cts = Some (p', Return a)"
    and "length (pathTrace (bptasg p)) = MAX_PATH_TRACE_N" "announce_ok a"
    and "tlvLength a \<noteq> 0 \<or> \<not> conformToAvnu (ptasg s)" "clockid_ok (thisClock (ptasg s))"
    and "0 \<le> conf e1 CONF_MINOR_VERSION_PTP" "conf e1 CONF_MINOR_VERSION_PTP < 16"
    and "state r \<noteq> MAR_REACTION"
  shows "\<exists>t b. md_announce_receive_sm_mdAnnounceRec e2 r (announce_frame e1 s a @ rest) = Some (t, Return b) \<and>
    messagePriority (snd (rcvdInfo e2 b i)) =
      \<lparr>rootSystemIdentity = rootSystemIdentity (masterPriority (bppg p)),
       stepsRemoved = masterStepsRemoved (bptasg p),
       sourcePortIdentity = \<lparr>clockIdentity = thisClock (ptasg s), portNumber = thisPort (ppg s)\<rparr>,
       pvPortNumber = thisPort (ppg i)\<rparr>"
proof -
  have tells: "announce_tells (bptasg p) (rootSystemIdentity (masterPriority (bppg p))) a"
    using announce_message_tells [OF assms(1,2)] .
  obtain t where t: "md_announce_receive_sm_mdAnnounceRec e2 r (announce_frame e1 s a @ rest) =
      Some (t, Return (received_announce e1 s a))"
    using mar_run_frame [OF assms(3-8)] by blast
  have "message_priority (received_announce e1 s a) (thisPort (ppg i)) =
      \<lparr>rootSystemIdentity = rootSystemIdentity (masterPriority (bppg p)),
       stepsRemoved = masterStepsRemoved (bptasg p),
       sourcePortIdentity = \<lparr>clockIdentity = thisClock (ptasg s), portNumber = thisPort (ppg s)\<rparr>,
       pvPortNumber = thisPort (ppg i)\<rparr>"
    using tells by (simp add: message_priority_def announce_tells_def received_announce_def
        wire_header_def md_header_template_def)
  with t show ?thesis by (simp add: rcvdInfo_def Let_def)
qed

text \<open>The message of the sample machine, framed by the sample port and received on another host.\<close>

theorem announce_end_to_end_witness:
  "\<exists>p' a t b. port_announce_transmit_sm (sample_pat\<lparr>bppg := (bppg sample_pat)\<lparr>newInfo := True\<rparr>\<rparr>) 0 =
      Some (p', Return a) \<and>
    md_announce_receive_sm_mdAnnounceRec default_env sample_mar (announce_frame default_env sample_mas a) =
      Some (t, Return b)"
proof -
  let ?p = "sample_pat\<lparr>bppg := (bppg sample_pat)\<lparr>newInfo := True\<rparr>\<rparr>"
  obtain p' a where pa: "port_announce_transmit_sm ?p 0 = Some (p', Return a)"
    using sample_pat_sends by blast
  have "a = announceTx (txAnnounce (?p\<lparr>state := pat_allstate_condition ?p\<rparr>))"
    using pat_returns_message pa unfolding port_announce_transmit_sm_def by blast
  then have a: "announce_ok a" "tlvLength a = 0"
    by (auto simp: txAnnounce_def Let_def sample_pat_simps announce_ok_def zero_PTPMsgAnnounce_def
        zero_PTPMsgHeader_def clockid_ok_def zero_clockid_def path_entries_def memset_UInteger224_def)
  have "\<not> conformToAvnu (ptasg sample_mas)" "clockid_ok (thisClock (ptasg sample_mas))"
    "length (pathTrace (bptasg ?p)) = MAX_PATH_TRACE_N"
    by (simp_all add: sample_ptasg_def zero_PerTimeAwareSystemGlobal_def sample_pat_simps)
  then show ?thesis
    using announce_end_to_end [OF pa, where s = sample_mas and r = sample_mar and ?e1.0 = default_env
        and ?e2.0 = default_env and rest = "[]" and i = sample_pai] pa a by fastforce
qed

end
